(* ===== verification/FJB_Prelude.thy ===== *)
theory FJB_Prelude
  imports Main "HOL-Library.AList" "HOL-Library.Signed_Division"
begin

text \<open>
  The prelude of the fj-bellows development: the Go value types the components share
  (64-bit integers, durations, instants, errors), the few generic facts about lists and
  association lists their proofs need, and the collections of simp rules.

  \<^item> \<open>int64\<close> values are \<^typ>\<open>int\<close>; \<open>wrap64\<close> writes the wrap-around of Go's arithmetic out.
  \<^item> A \<open>time.Duration\<close> is an int64 number of nanoseconds.
  \<^item> A \<open>time.Time\<close> is the number of nanoseconds since the Unix epoch; Go's zero time is
    0001-01-01 00:00 UTC. \<open>Time.Sub\<close> saturates at the ends of the duration range,
    \<open>Time.Add\<close> does not.
\<close>

named_theorems go_arith \<open>facts that remove wrap-around and saturation under range conditions\<close>
named_theorems row_simps \<open>facts about the rows of the ledger's tables\<close>

type_synonym duration = int
type_synonym instant = int

subsection \<open>64-bit integers\<close>

definition max_int64 :: int where
  "max_int64 = 9223372036854775807"

definition min_int64 :: int where
  "min_int64 = - 9223372036854775808"

definition in_int64 :: "int \<Rightarrow> bool" where
  "in_int64 x \<longleftrightarrow> min_int64 \<le> x \<and> x \<le> max_int64"

definition wrap64 :: "int \<Rightarrow> int" where
  "wrap64 x = (x + 9223372036854775808) mod 18446744073709551616 - 9223372036854775808"

definition sat64 :: "int \<Rightarrow> int" where
  "sat64 x = max min_int64 (min max_int64 x)"

lemma wrap64_id [go_arith]: "in_int64 x \<Longrightarrow> wrap64 x = x"
  by (simp add: in_int64_def wrap64_def min_int64_def max_int64_def)

lemma wrap64_in_int64: "in_int64 (wrap64 x)"
proof -
  have "(x + 9223372036854775808) mod 18446744073709551616 < 18446744073709551616"
    and "0 \<le> (x + 9223372036854775808) mod 18446744073709551616"
    by simp_all
  then show ?thesis
    unfolding in_int64_def wrap64_def min_int64_def max_int64_def by linarith
qed

lemma sat64_id [go_arith]: "in_int64 x \<Longrightarrow> sat64 x = x"
  by (simp add: in_int64_def sat64_def)

lemma sat64_in_int64: "in_int64 (sat64 x)"
  by (auto simp: in_int64_def sat64_def min_int64_def max_int64_def)

lemma sat64_mono: "x \<le> y \<Longrightarrow> sat64 x \<le> sat64 y"
  by (auto simp: sat64_def)

lemma in_int64_between: "in_int64 a \<Longrightarrow> in_int64 b \<Longrightarrow> a \<le> x \<Longrightarrow> x \<le> b \<Longrightarrow> in_int64 x"
  by (auto simp: in_int64_def)

lemma in_int64_zero [simp]: "in_int64 0"
  by (simp add: in_int64_def min_int64_def max_int64_def)

lemma in_int64_max [simp]: "in_int64 max_int64"
  by (simp add: in_int64_def min_int64_def max_int64_def)

lemma max_int64_pos [simp]: "0 < max_int64" "0 \<le> max_int64"
  by (simp_all add: max_int64_def)

subsection \<open>Durations and instants\<close>


definition second :: duration where "second = 1000000000"
definition minute :: duration where "minute = 60000000000"
definition hour :: duration where "hour = 3600000000000"

lemmas go_units = second_def minute_def hour_def

lemma go_units_pos [simp]: "0 < second" "0 < minute" "0 < hour"
  by (simp_all add: go_units)

lemma go_units_not_le [simp]: "\<not> second \<le> 0" "\<not> minute \<le> 0" "\<not> hour \<le> 0"
  by (simp_all add: go_units)

definition zero_time :: instant where
  "zero_time = - 62135596800000000000"

definition is_zero :: "instant \<Rightarrow> bool" where
  "is_zero t \<longleftrightarrow> t = zero_time"

definition time_sub :: "instant \<Rightarrow> instant \<Rightarrow> duration" where
  "time_sub a b = sat64 (a - b)"

definition time_add :: "instant \<Rightarrow> duration \<Rightarrow> instant" where
  "time_add t d = t + d"

lemma time_sub_in_int64: "in_int64 (time_sub a b)"
  by (simp add: time_sub_def sat64_in_int64)

lemma time_sub_id [go_arith]: "in_int64 (a - b) \<Longrightarrow> time_sub a b = a - b"
  by (simp add: time_sub_def go_arith)

lemma time_sub_nonneg_iff: "0 \<le> time_sub a b \<longleftrightarrow> b \<le> a"
  by (auto simp: time_sub_def sat64_def min_int64_def max_int64_def)

lemma time_sub_pos_iff: "0 < time_sub a b \<longleftrightarrow> b < a"
  by (auto simp: time_sub_def sat64_def min_int64_def max_int64_def)

subsection \<open>Errors\<close>

text \<open>
  A Go \<open>error\<close> result: the sentinel errors of the sources, a failed SQL constraint, an
  I/O failure reported by the operating system, an error the storage package builds from a message,
  and an error of another package with its text.
\<close>

datatype go_error =
    ErrNotFound
  | ErrConstraint string
  | ErrIO string
  | ErrMsg string
  | ErrOther string

type_synonym 'a result = "go_error + 'a"

fun is_err :: "'a result \<Rightarrow> bool" where
  "is_err (Inl _) = True"
| "is_err (Inr _) = False"

lemma is_err_iff: "is_err r \<longleftrightarrow> (\<exists>e. r = Inl e)"
  by (cases r) auto

subsection \<open>Lists\<close>

lemma filter_id_all: "(\<And>x. x \<in> set xs \<Longrightarrow> P x) \<Longrightarrow> filter P xs = xs"
  by (simp add: filter_id_conv)

lemma length_filter_le_all: "length (filter P xs) \<le> length xs"
  by (rule length_filter_le)

lemma map_if_cong_id: "(\<And>x. x \<in> set xs \<Longrightarrow> \<not> P x) \<Longrightarrow> map (\<lambda>x. if P x then f x else x) xs = xs"
  by (induction xs) auto

end
