(* ===== verification/Pool.thy ===== *)
theory Pool
  imports FJB_Prelude
begin

text \<open>
  The node pool, src/internal/orchestrator/state.go. The Go map from instance IDs to nodes is
  an association list with one entry per key; the order of the list is the order in which a
  \<open>range\<close> over the map visits it, which the language leaves open, so every theorem about a loop
  over the pool holds for each order. Every method holds the pool's mutex for its whole body
  and is one atomic step.

  The locale \<open>node_store\<close> is the contract of the pool the orchestrator relies on; it is
  interpreted on the methods below.
\<close>

subsection \<open>Nodes\<close>

datatype NodeState =
    StateUnset | StateProvisioning | StateIdle | StateBusy | StateResetting | StateDraining | StateRemoving

record Node =
  InstanceID :: string
  ResourceID :: int
  GenerationID :: int
  PriceQuoteID :: int
  PhaseID :: int
  State :: NodeState
  IP :: string
  VPCIP :: string
  CreatedAt :: instant
  LastBusy :: instant
  CurrentJob :: string

definition Node_zero :: Node where
  "Node_zero = \<lparr>InstanceID = '''', ResourceID = 0, GenerationID = 0, PriceQuoteID = 0, PhaseID = 0,
     State = StateUnset, IP = '''', VPCIP = '''', CreatedAt = zero_time, LastBusy = zero_time,
     CurrentJob = ''''\<rparr>"

type_synonym Pool = "(string \<times> Node) list"

subsection \<open>The methods\<close>

definition NewPool :: Pool where
  "NewPool = []"

definition Put :: "Node \<Rightarrow> Pool \<Rightarrow> Pool" where
  "Put n p = AList.update (InstanceID n) n p"

definition Delete :: "string \<Rightarrow> Pool \<Rightarrow> Pool" where
  "Delete i p = AList.delete i p"

definition Get :: "string \<Rightarrow> Pool \<Rightarrow> Node \<times> bool" where
  "Get i p = (case map_of p i of None \<Rightarrow> (Node_zero, False) | Some n \<Rightarrow> (n, True))"

definition SetState :: "string \<Rightarrow> NodeState \<Rightarrow> Pool \<Rightarrow> Pool \<times> bool" where
  "SetState i s p =
     (case map_of p i of
        None \<Rightarrow> (p, False)
      | Some n \<Rightarrow> (AList.map_entry i (\<lambda>n. n\<lparr>State := s\<rparr>) p, True))"

definition Touch :: "string \<Rightarrow> instant \<Rightarrow> Pool \<Rightarrow> Pool" where
  "Touch i t p = AList.map_entry i (\<lambda>n. n\<lparr>LastBusy := t\<rparr>) p"

definition SetJob :: "string \<Rightarrow> string \<Rightarrow> Pool \<Rightarrow> Pool" where
  "SetJob i handle p = AList.map_entry i (\<lambda>n. n\<lparr>CurrentJob := handle\<rparr>) p"

definition SetPhase :: "string \<Rightarrow> int \<Rightarrow> Pool \<Rightarrow> Pool" where
  "SetPhase i phaseID p = AList.map_entry i (\<lambda>n. n\<lparr>PhaseID := phaseID\<rparr>) p"

definition ResetReady :: "string \<Rightarrow> string \<Rightarrow> string \<Rightarrow> int \<Rightarrow> instant \<Rightarrow> Pool \<Rightarrow> Pool \<times> bool" where
  "ResetReady i ip vpcIP generationID at p =
     (case map_of p i of
        None \<Rightarrow> (p, False)
      | Some _ \<Rightarrow>
          (AList.map_entry i
             (\<lambda>n. let n = n\<lparr>IP := ip, VPCIP := vpcIP, State := StateIdle, CurrentJob := ''''\<rparr>;
                      n = (if generationID \<noteq> 0 then n\<lparr>GenerationID := generationID\<rparr> else n)
                  in n\<lparr>LastBusy := at\<rparr>) p, True))"

definition Snapshot_nodes :: "Pool \<Rightarrow> Node list" where
  "Snapshot_nodes p = map snd p"

definition IDs :: "Pool \<Rightarrow> string list" where
  "IDs p = map fst p"

definition ByState :: "NodeState \<Rightarrow> Pool \<Rightarrow> Node list" where
  "ByState s p = filter (\<lambda>n. State n = s) (map snd p)"

definition Len :: "Pool \<Rightarrow> nat" where
  "Len p = length p"

subsection \<open>Well-formed pools\<close>

definition pool_ok :: "Pool \<Rightarrow> bool" where
  "pool_ok p \<longleftrightarrow> distinct (map fst p) \<and> (\<forall>(k, n) \<in> set p. InstanceID n = k)"

lemma pool_ok_map_of: "pool_ok p \<Longrightarrow> map_of p k = Some n \<Longrightarrow> InstanceID n = k"
  by (auto simp: pool_ok_def dest!: map_of_SomeD)

lemma map_entry_keys [simp]: "map fst (AList.map_entry k f p) = map fst p"
  by (induction p) auto

lemma map_entry_lookup:
  "map_of (AList.map_entry k f p) j = (if j = k then map_option f (map_of p k) else map_of p j)"
  by (induction p) auto

lemma map_entry_unused: "map_of p k = None \<Longrightarrow> AList.map_entry k f p = p"
  by (induction p) (auto split: if_splits)

lemma map_entry_pool_ok:
  assumes "pool_ok p" "\<And>n. InstanceID (f n) = InstanceID n"
  shows "pool_ok (AList.map_entry k f p)"
  using assms(1)
proof (induction p)
  case (Cons kn p)
  obtain k' n where kn: "kn = (k', n)" by fastforce
  show ?case
  proof (cases "k' = k")
    case True
    then show ?thesis using Cons.prems assms(2) kn by (auto simp: pool_ok_def)
  next
    case False
    have "fst ` set (AList.map_entry k f p) = fst ` set p"
      using map_entry_keys [of k f p] by (metis list.set_map)
    then show ?thesis using False Cons kn by (auto simp: pool_ok_def)
  qed
qed (simp add: pool_ok_def)

lemma pool_ok_NewPool: "pool_ok NewPool"
  by (simp add: pool_ok_def NewPool_def)

lemma pool_ok_Put:
  assumes "pool_ok p" shows "pool_ok (Put n p)"
proof -
  have "distinct (map fst (AList.update (InstanceID n) n p))"
    using assms by (simp add: pool_ok_def distinct_update)
  moreover have "(k, m) \<in> set (AList.update (InstanceID n) n p) \<Longrightarrow> (k, m) = (InstanceID n, n) \<or> (k, m) \<in> set p" for k m
    by (induction p) (auto split: if_splits)
  ultimately show ?thesis using assms by (fastforce simp: pool_ok_def Put_def)
qed

lemma pool_ok_Delete: "pool_ok p \<Longrightarrow> pool_ok (Delete i p)"
  by (auto simp: pool_ok_def Delete_def AList.delete_eq distinct_map_filter)

lemma pool_ok_SetState: "pool_ok p \<Longrightarrow> pool_ok (fst (SetState i s p))"
  by (auto simp: SetState_def map_entry_pool_ok split: option.split)

lemma pool_ok_Touch: "pool_ok p \<Longrightarrow> pool_ok (Touch i t p)"
  by (simp add: Touch_def map_entry_pool_ok)

lemma pool_ok_SetJob: "pool_ok p \<Longrightarrow> pool_ok (SetJob i h p)"
  by (simp add: SetJob_def map_entry_pool_ok)

lemma pool_ok_SetPhase: "pool_ok p \<Longrightarrow> pool_ok (SetPhase i h p)"
  by (simp add: SetPhase_def map_entry_pool_ok)

lemma pool_ok_ResetReady: "pool_ok p \<Longrightarrow> pool_ok (fst (ResetReady i ip v g t p))"
  by (auto simp: ResetReady_def map_entry_pool_ok Let_def split: option.split)

lemmas pool_ok_ops = pool_ok_NewPool pool_ok_Put pool_ok_Delete pool_ok_SetState pool_ok_Touch
  pool_ok_SetJob pool_ok_SetPhase pool_ok_ResetReady

subsection \<open>The contract the orchestrator relies on\<close>

text \<open>
  A store of nodes seen through its lookup function: writes are visible at their key and
  nowhere else, and the size counts the keys.
\<close>

locale node_store =
  fixes look :: "'p \<Rightarrow> string \<Rightarrow> Node option"
    and put :: "Node \<Rightarrow> 'p \<Rightarrow> 'p"
    and del :: "string \<Rightarrow> 'p \<Rightarrow> 'p"
    and upd :: "string \<Rightarrow> (Node \<Rightarrow> Node) \<Rightarrow> 'p \<Rightarrow> 'p"
    and size_of :: "'p \<Rightarrow> nat"
    and ok :: "'p \<Rightarrow> bool"
  assumes look_put: "look (put n p) = (look p)(InstanceID n \<mapsto> n)"
    and look_del: "look (del i p) = (look p)(i := None)"
    and look_upd: "look (upd i f p) = (look p)(i := map_option f (look p i))"
    and look_finite: "finite (dom (look p))"
    and size_card: "ok p \<Longrightarrow> size_of p = card (dom (look p))"
    and ok_put: "ok p \<Longrightarrow> ok (put n p)"
    and ok_del: "ok p \<Longrightarrow> ok (del i p)"
    and ok_upd: "ok p \<Longrightarrow> (\<And>n. InstanceID (f n) = InstanceID n) \<Longrightarrow> ok (upd i f p)"
begin

lemma size_put_new:
  assumes "ok p" "look p (InstanceID n) = None"
  shows "size_of (put n p) = Suc (size_of p)"
  using assms by (simp add: size_card ok_put look_put look_finite domIff)

lemma size_put_replace:
  assumes "ok p" "look p (InstanceID n) \<noteq> None"
  shows "size_of (put n p) = size_of p"
proof -
  have "insert (InstanceID n) (dom (look p)) = dom (look p)" using assms by auto
  then show ?thesis using assms by (simp add: size_card ok_put look_put)
qed

lemma size_put_le: "ok p \<Longrightarrow> size_of (put n p) \<le> Suc (size_of p)"
  by (cases "look p (InstanceID n)") (simp_all add: size_put_new size_put_replace)

lemma size_del:
  assumes "ok p"
  shows "size_of (del i p) = size_of p - (if look p i = None then 0 else 1)"
proof -
  have "dom (look (del i p)) = dom (look p) - {i}" by (auto simp: look_del split: if_splits)
  then show ?thesis using assms look_finite [of p]
    by (auto simp: size_card ok_del domIff card_Diff_singleton_if)
qed

lemma size_upd:
  assumes "ok p" "\<And>n. InstanceID (f n) = InstanceID n"
  shows "size_of (upd i f p) = size_of p"
proof -
  have "dom (look (upd i f p)) = dom (look p)" by (auto simp: look_upd split: if_splits)
  then show ?thesis using assms by (simp add: size_card ok_upd)
qed

lemma upd_other: "j \<noteq> i \<Longrightarrow> look (upd i f p) j = look p j"
  by (simp add: look_upd)

lemma upd_upd: "look (upd i f (upd i g p)) = look (upd i (f \<circ> g) p)"
  by (auto simp: look_upd option.map_comp)

end

interpretation pool: node_store map_of Put Delete AList.map_entry Len pool_ok
proof
  fix p :: Pool and n :: Node and i f
  show "map_of (Put n p) = (map_of p)(InstanceID n \<mapsto> n)"
    by (simp add: Put_def update_conv')
  show "map_of (Delete i p) = (map_of p)(i := None)"
    by (auto simp: Delete_def delete_conv')
  show "map_of (AList.map_entry i f p) = (map_of p)(i := map_option f (map_of p i))"
    by (auto simp: map_entry_lookup)
  show "finite (dom (map_of p))" by (simp add: finite_dom_map_of)
  show "pool_ok p \<Longrightarrow> Len p = card (dom (map_of p))"
    using distinct_card [of "map fst p"] by (simp add: Len_def pool_ok_def dom_map_of_conv_image_fst)
  show "pool_ok p \<Longrightarrow> pool_ok (Put n p)" by (rule pool_ok_Put)
  show "pool_ok p \<Longrightarrow> pool_ok (Delete i p)" by (rule pool_ok_Delete)
  show "pool_ok p \<Longrightarrow> (\<And>n. InstanceID (f n) = InstanceID n) \<Longrightarrow> pool_ok (AList.map_entry i f p)"
    by (rule map_entry_pool_ok)
qed

lemma SetState_look: "map_of (fst (SetState i s p)) = (map_of p)(i := map_option (State_update (\<lambda>_. s)) (map_of p i))"
  by (auto simp: SetState_def pool.look_upd split: option.split)

lemma ResetReady_look:
  "map_of (fst (ResetReady i ip v g t p)) =
   (map_of p)(i := map_option (\<lambda>n. n\<lparr>IP := ip, VPCIP := v, State := StateIdle, CurrentJob := '''',
       GenerationID := (if g \<noteq> 0 then g else GenerationID n), LastBusy := t\<rparr>) (map_of p i))"
  by (auto simp: ResetReady_def pool.look_upd Let_def split: option.split)

lemma Len_SetState: "Len (fst (SetState i s p)) = Len p"
  by (auto simp: SetState_def Len_def split: option.split) (metis length_map map_entry_keys)

lemma Len_map_entry [simp]: "Len (AList.map_entry i f p) = Len p"
  unfolding Len_def by (metis length_map map_entry_keys)

lemmas pool_lookups = pool.look_put pool.look_del pool.look_upd SetState_look ResetReady_look

lemma ByState_in: "pool_ok p \<Longrightarrow> n \<in> set (ByState s p) \<longleftrightarrow> map_of p (InstanceID n) = Some n \<and> State n = s"
  by (force simp: ByState_def pool_ok_def map_of_eq_Some_iff)

lemma Snapshot_in: "pool_ok p \<Longrightarrow> n \<in> set (Snapshot_nodes p) \<longleftrightarrow> map_of p (InstanceID n) = Some n"
  by (force simp: Snapshot_nodes_def pool_ok_def map_of_eq_Some_iff)

end
