(* ===== verification/Calendar.thy ===== *)
theory Calendar
  imports FJB_Prelude
begin

text \<open>
  The part of Go's \<open>time\<close> package the billing code relies on: the UTC calendar month of an
  instant, and the first instant of the next month, which the sources compute as
  \<open>time.Date(t.Year(), t.Month()+1, 1, 0, 0, 0, 0, time.UTC)\<close>
  (src/internal/orchestrator/persistence.go and src/internal/router/score.go).

  Days are counted from 0001-01-01 in the proleptic Gregorian calendar.
  \<open>days_before_year y\<close> is the number of days before 1 January of year \<open>y\<close>, and
  \<open>year_of_day\<close> inverts it: an estimate from the mean year length, corrected by at most one
  year. \<open>next_month_start\<close> is proved to be later than its argument
  (so the month loop makes progress), to be at most the start of any later month, and to be
  constant within a month.
\<close>

definition ns_per_day :: int where
  "ns_per_day = 86400000000000"

definition days_to_epoch :: int where
  "days_to_epoch = 719162"

definition is_leap :: "int \<Rightarrow> bool" where
  "is_leap y \<longleftrightarrow> y mod 4 = 0 \<and> (y mod 100 \<noteq> 0 \<or> y mod 400 = 0)"

definition days_before_year :: "int \<Rightarrow> int" where
  "days_before_year y = 365 * (y - 1) + (y - 1) div 4 - (y - 1) div 100 + (y - 1) div 400"

definition year_of_day :: "int \<Rightarrow> int" where
  "year_of_day d =
     (let y = (400 * d) div 146097 + 1
      in if d < days_before_year y then y - 1
         else if days_before_year (y + 1) \<le> d then y + 1 else y)"

definition days_in_month :: "int \<Rightarrow> nat \<Rightarrow> int" where
  "days_in_month y m =
     (if m = 1 then (if is_leap y then 29 else 28)
      else if m \<in> {3, 5, 8, 10} then 30 else 31)"

text \<open>The first day of the month after \<open>d\<close>, scanning the months of \<open>d\<close>'s year in order.\<close>

fun month_scan :: "int \<Rightarrow> nat \<Rightarrow> nat \<Rightarrow> int \<Rightarrow> int \<Rightarrow> int" where
  "month_scan y m 0 start d = start"
| "month_scan y m (Suc k) start d =
     (let stop = start + days_in_month y m
      in if d < stop then stop else month_scan y (Suc m) k stop d)"

definition next_month_day :: "int \<Rightarrow> int" where
  "next_month_day d =
     (let y = year_of_day d in month_scan y 0 12 (days_before_year y) d)"

definition next_month_start :: "instant \<Rightarrow> instant" where
  "next_month_start t =
     (next_month_day (t div ns_per_day + days_to_epoch) - days_to_epoch) * ns_per_day"

subsection \<open>Years\<close>

lemma div_bounds:
  fixes z k :: int
  assumes "0 < k"
  shows "k * (z div k) \<le> z" and "z < k * (z div k) + k"
proof -
  have "z = k * (z div k) + z mod k" by simp
  moreover have "0 \<le> z mod k" "z mod k < k" using assms by simp_all
  ultimately show "k * (z div k) \<le> z" "z < k * (z div k) + k" by linarith+
qed

lemma days_before_year_upper: "400 * days_before_year y \<le> 146097 * y - 145697"
  and days_before_year_lower: "146097 * y - 147697 \<le> 400 * days_before_year y"
proof -
  obtain a b c where abc: "a = (y - 1) div 4" "b = (y - 1) div 100" "c = (y - 1) div 400"
    by blast
  have dby: "400 * days_before_year y = 146000 * y - 146000 + 400 * a - 400 * b + 400 * c"
    by (simp add: days_before_year_def abc algebra_simps)
  have "4 * a \<le> y - 1" "100 * b \<le> y - 1" "400 * c \<le> y - 1"
    unfolding abc by (rule div_bounds(1); simp)+
  moreover have "y - 1 < 4 * a + 4" "y - 1 < 100 * b + 100" "y - 1 < 400 * c + 400"
    unfolding abc by (rule div_bounds(2); simp)+
  ultimately have "400 * days_before_year y \<le> 146097 * y - 145697
      \<and> 146097 * y - 147697 \<le> 400 * days_before_year y"
    unfolding dby by linarith
  then show "400 * days_before_year y \<le> 146097 * y - 145697"
    and "146097 * y - 147697 \<le> 400 * days_before_year y"
    by simp_all
qed

lemma div_Suc_int:
  fixes y k :: int
  assumes "1 < k"
  shows "y div k = (y - 1) div k + (if y mod k = 0 then 1 else 0)"
proof (cases "y mod k = 0")
  case True
  then obtain q where "y = k * q" by auto
  moreover have "(k * q - 1) div k = q - 1"
    using assms by (intro int_div_pos_eq [where r = "k - 1"]) (simp_all add: algebra_simps)
  ultimately show ?thesis using assms True by simp
next
  case False
  have "y = k * (y div k) + y mod k" by simp
  moreover have "0 \<le> y mod k" "y mod k < k" using assms by simp_all
  then have "0 < y mod k" "y mod k < k" using False by linarith+
  ultimately have "(y - 1) div k = y div k"
    by (intro int_div_pos_eq [where r = "y mod k - 1"]) linarith+
  then show ?thesis using False by simp
qed

lemma days_before_year_Suc:
  "days_before_year (y + 1) = days_before_year y + (if is_leap y then 366 else 365)"
proof -
  obtain a b c where abc: "a = (y - 1) div 4" "b = (y - 1) div 100" "c = (y - 1) div 400"
    by blast
  obtain p q r where pqr: "p = (y mod 4 = 0)" "q = (y mod 100 = 0)" "r = (y mod 400 = 0)"
    by blast
  have m: "r \<Longrightarrow> q" "q \<Longrightarrow> p"
    unfolding pqr mod_eq_0_iff_dvd by (erule dvd_trans [rotated]; simp)+
  have "y div 4 = a + (if p then 1 else 0)" "y div 100 = b + (if q then 1 else 0)"
    "y div 400 = c + (if r then 1 else 0)"
    unfolding abc pqr by (rule div_Suc_int; simp)+
  then have up: "days_before_year (y + 1) = 365 * y + (a + (if p then 1 else 0))
      - (b + (if q then 1 else 0)) + (c + (if r then 1 else 0))"
    unfolding days_before_year_def by simp
  have lo: "days_before_year y = 365 * y - 365 + a - b + c"
    by (simp add: days_before_year_def abc)
  have leap: "is_leap y \<longleftrightarrow> p \<and> (\<not> q \<or> r)"
    by (simp add: is_leap_def pqr)
  from m consider "p" "q" "r" | "p" "q" "\<not> r" | "p" "\<not> q" "\<not> r" | "\<not> p" "\<not> q" "\<not> r"
    by blast
  then show ?thesis by cases (simp_all add: up lo leap)
qed

lemma days_before_year_step: "days_before_year y + 365 \<le> days_before_year (y + 1)"
  by (simp add: days_before_year_Suc)

lemma year_of_day_correct:
  "days_before_year (year_of_day d) \<le> d" "d < days_before_year (year_of_day d + 1)"
proof -
  define q where "q = (400 * d) div 146097"
  define y where "y = q + 1"
  have "146097 * q \<le> 400 * d" "400 * d < 146097 * q + 146097"
    unfolding q_def by (rule div_bounds; simp)+
  then have q: "146097 * y - 146097 \<le> 400 * d" "400 * d < 146097 * y"
    by (simp_all add: y_def)
  have lo: "days_before_year (y - 1) \<le> d"
    using days_before_year_upper [of "y - 1"] q by (simp add: algebra_simps)
  have hi: "d < days_before_year (y + 2)"
    using days_before_year_lower [of "y + 2"] q by (simp add: algebra_simps)
  have eq: "year_of_day d = (if d < days_before_year y then y - 1
      else if days_before_year (y + 1) \<le> d then y + 1 else y)"
    by (simp add: year_of_day_def y_def q_def Let_def)
  have "days_before_year (year_of_day d) \<le> d \<and> d < days_before_year (year_of_day d + 1)"
    using lo hi unfolding eq by (simp add: add.commute)
  then show "days_before_year (year_of_day d) \<le> d" "d < days_before_year (year_of_day d + 1)"
    by simp_all
qed

lemma days_before_year_mono: "x \<le> y \<Longrightarrow> days_before_year x \<le> days_before_year y"
proof (induction "nat (y - x)" arbitrary: y)
  case 0
  then show ?case by simp
next
  case (Suc n)
  then have "days_before_year x \<le> days_before_year (y - 1)" by simp
  also have "\<dots> \<le> days_before_year y" using days_before_year_step [of "y - 1"] by simp
  finally show ?case .
qed

lemma year_of_day_unique:
  assumes "days_before_year y \<le> d" and "d < days_before_year (y + 1)"
  shows "year_of_day d = y"
proof (rule ccontr)
  assume "year_of_day d \<noteq> y"
  then consider "year_of_day d + 1 \<le> y" | "y + 1 \<le> year_of_day d" by linarith
  then show False
  proof cases
    case 1
    then show False
      using days_before_year_mono [OF 1] year_of_day_correct [of d] assms by linarith
  next
    case 2
    then show False
      using days_before_year_mono [OF 2] year_of_day_correct [of d] assms by linarith
  qed
qed

subsection \<open>Months\<close>

lemma days_in_month_pos: "28 \<le> days_in_month y m"
  by (simp add: days_in_month_def)

lemma twelve_months:
  "(\<Sum>m<12. days_in_month y m) = (if is_leap y then 366 else 365)"
  by (simp add: days_in_month_def numeral_eq_Suc)

text \<open>
  The scan over months \<open>m, m + 1, \<dots>\<close> that start at \<open>start\<close>: its result is the end of the
  first month that ends after \<open>d\<close>.
\<close>

lemma month_scan_spec:
  assumes "start \<le> d" and "d < start + (\<Sum>i<k. days_in_month y (m + i))"
  shows "\<exists>j<k. month_scan y m k start d = start + (\<Sum>i<Suc j. days_in_month y (m + i))
    \<and> start + (\<Sum>i<j. days_in_month y (m + i)) \<le> d
    \<and> d < start + (\<Sum>i<Suc j. days_in_month y (m + i))"
  using assms
proof (induction k arbitrary: m start)
  case 0
  then show ?case by simp
next
  case (Suc k)
  let ?stop = "start + days_in_month y m"
  show ?case
  proof (cases "d < ?stop")
    case True
    with Suc.prems show ?thesis by (intro exI [of _ 0]) (simp add: Let_def)
  next
    case False
    have shift: "(\<Sum>i<Suc n. days_in_month y (m + i))
        = days_in_month y m + (\<Sum>i<n. days_in_month y (Suc m + i))" for n
      by (subst sum.lessThan_Suc_shift) simp
    have "?stop \<le> d" "d < ?stop + (\<Sum>i<k. days_in_month y (Suc m + i))"
      using False Suc.prems(2) unfolding shift by simp_all
    from Suc.IH [OF this] obtain j where j: "j < k"
      "month_scan y (Suc m) k ?stop d = ?stop + (\<Sum>i<Suc j. days_in_month y (Suc m + i))"
      "?stop + (\<Sum>i<j. days_in_month y (Suc m + i)) \<le> d"
      "d < ?stop + (\<Sum>i<Suc j. days_in_month y (Suc m + i))"
      by blast
    then show ?thesis
      using False unfolding shift
      by (intro exI [of _ "Suc j"]) (simp add: Let_def shift del: sum.lessThan_Suc)
  qed
qed

text \<open>
  \<open>month_first y m\<close> is the first day of month \<open>m\<close> (counted from 0) of year \<open>y\<close>.
\<close>

definition month_first :: "int \<Rightarrow> nat \<Rightarrow> int" where
  "month_first y m = days_before_year y + (\<Sum>i<m. days_in_month y i)"

lemma month_first_mono: "m \<le> n \<Longrightarrow> month_first y m \<le> month_first y n"
proof -
  assume "m \<le> n"
  then have "(\<Sum>i<m. days_in_month y i) \<le> (\<Sum>i<n. days_in_month y i)"
    using days_in_month_pos [of y]
    by (intro sum_mono2) (auto intro: order_trans [of 0 28])
  then show ?thesis by (simp add: month_first_def)
qed

lemma month_first_12: "month_first y 12 = days_before_year (y + 1)"
  unfolding month_first_def twelve_months by (simp add: days_before_year_Suc)

lemma next_month_day_spec:
  obtains j where "j < 12" "next_month_day d = month_first (year_of_day d) (Suc j)"
    "month_first (year_of_day d) j \<le> d" "d < month_first (year_of_day d) (Suc j)"
proof -
  let ?y = "year_of_day d"
  have "d < days_before_year ?y + (\<Sum>i<12. days_in_month ?y (0 + i))"
    using year_of_day_correct(2) [of d] unfolding month_first_12 [symmetric] month_first_def
    by simp
  from month_scan_spec [OF year_of_day_correct(1) this] that show ?thesis
    unfolding next_month_day_def month_first_def Let_def add_0 by blast
qed

lemma next_month_day_gt: "d < next_month_day d"
  by (rule next_month_day_spec [of d]) simp

lemma next_month_day_le_year: "next_month_day d \<le> days_before_year (year_of_day d + 1)"
proof (rule next_month_day_spec [of d])
  fix j assume "j < (12::nat)" "next_month_day d = month_first (year_of_day d) (Suc j)"
  then show ?thesis
    using month_first_mono [of "Suc j" 12 "year_of_day d"] by (simp add: month_first_12)
qed

text \<open>Within a month every day has the same next month.\<close>

lemma next_month_day_same:
  assumes "d \<le> e" and "e < next_month_day d"
  shows "next_month_day e = next_month_day d"
proof -
  let ?y = "year_of_day d"
  have ye: "year_of_day e = ?y"
    using year_of_day_correct [of d] next_month_day_le_year [of d] assms
    by (intro year_of_day_unique) linarith+
  obtain j where j: "next_month_day d = month_first ?y (Suc j)" "month_first ?y j \<le> d"
    by (rule next_month_day_spec [of d])
  obtain k where k: "next_month_day e = month_first ?y (Suc k)" "month_first ?y k \<le> e"
    "e < month_first ?y (Suc k)"
    using next_month_day_spec [of e] unfolding ye by metis
  have "\<not> Suc j \<le> k"
    using month_first_mono [of "Suc j" k ?y] assms j k by linarith
  moreover have "\<not> Suc k \<le> j"
    using month_first_mono [of "Suc k" j ?y] assms j k by linarith
  ultimately have "j = k" by linarith
  with j k show ?thesis by simp
qed

lemma next_month_day_mono: "d \<le> e \<Longrightarrow> next_month_day d \<le> next_month_day e"
  using next_month_day_same [of d e] next_month_day_gt [of e] by linarith

subsection \<open>Instants\<close>

lemma ns_per_day_pos: "0 < ns_per_day"
  by (simp add: ns_per_day_def)

lemma next_month_start_gt: "t < next_month_start t"
proof -
  let ?d = "t div ns_per_day"
  have "?d + 1 \<le> next_month_day (?d + days_to_epoch) - days_to_epoch"
    using next_month_day_gt [of "?d + days_to_epoch"] by linarith
  then have "(?d + 1) * ns_per_day \<le> next_month_start t"
    unfolding next_month_start_def using ns_per_day_pos by (intro mult_right_mono) simp_all
  moreover have "t < (?d + 1) * ns_per_day"
    using div_bounds(2) [OF ns_per_day_pos, of t] by (simp add: algebra_simps)
  ultimately show ?thesis by linarith
qed

lemma next_month_start_mono: "s \<le> t \<Longrightarrow> next_month_start s \<le> next_month_start t"
proof -
  assume "s \<le> t"
  then have "s div ns_per_day \<le> t div ns_per_day"
    using ns_per_day_pos by (rule zdiv_mono1)
  then have "next_month_day (s div ns_per_day + days_to_epoch)
      \<le> next_month_day (t div ns_per_day + days_to_epoch)"
    by (intro next_month_day_mono) simp
  then show ?thesis
    unfolding next_month_start_def using ns_per_day_pos by (intro mult_right_mono) simp_all
qed

text \<open>30 days hath September, in 2026; the month after December is January; leap years.\<close>

lemma next_month_start_examples:
  "next_month_start (20697 * ns_per_day) = 20727 * ns_per_day"
  "next_month_start (20788 * ns_per_day + 5) = 20819 * ns_per_day"
  "next_month_day (days_before_year 2024 + 40) = days_before_year 2024 + 60"
  "next_month_day (days_before_year 1900 + 40) = days_before_year 1900 + 59"
  by code_simp+

end
