(* ===== verification/Ledger_Types.thy ===== *)
theory Ledger_Types
  imports FJB_Prelude
begin

text \<open>
  The records of the durable ledger: the types of src/internal/storage/storage.go and the
  routing types of src/internal/storage/routing.go. A Go enumeration of string constants is a
  datatype with one constructor per constant and one for the empty string where the code
  tests for it; a Go struct is a record with the same fields in the same order. Identifiers
  are int64 row numbers, 0 standing for "no row" as in the sources.
\<close>

subsection \<open>Mutations, resources, generations, phases\<close>

datatype MutationState = MutationUnset | MutationPending | MutationSucceeded | MutationFailed

record Mutation =
  m_OperationID :: string
  m_Kind :: string
  m_Provider :: string
  m_Tier :: string
  m_ResourceID :: int
  m_SnapshotID :: int
  m_State :: MutationState
  m_ExternalID :: string
  m_Detail :: string
  m_CreatedAt :: instant
  m_CompletedAt :: instant

datatype ResourceState =
    ResourceUnset | ResourceProvisioning | ResourceActive | ResourceResetting
  | ResourceDestroying | ResourceClosed | ResourceFailed | ResourceVanished

record Resource =
  r_ID :: int
  r_OperationID :: string
  r_Provider :: string
  r_Driver :: string
  r_Tier :: string
  r_ExternalID :: string
  r_Name :: string
  r_InstanceType :: string
  r_Tag :: string
  r_State :: ResourceState
  r_PriceQuoteID :: int
  r_ProviderCreatedAt :: instant
  r_OpenedAt :: instant
  r_UpdatedAt :: instant
  r_ClosedAt :: instant
  r_CloseReason :: string

datatype GenerationState =
    GenerationUnset | GenerationPreparing | GenerationReady | GenerationInUse
  | GenerationDirty | GenerationClosed | GenerationFailed

record Generation =
  g_ID :: int
  g_ResourceID :: int
  g_Number :: int
  g_OperationID :: string
  g_ImageID :: string
  g_Fingerprint :: string
  g_State :: GenerationState
  g_StartedAt :: instant
  g_ReadyAt :: instant
  g_ClosedAt :: instant

datatype PhaseKind =
    PhaseUnset | PhaseProvisioning | PhaseReadyIdle | PhaseJob | PhaseReset
  | PhaseRemoving | PhaseImageBuild

record Phase =
  p_ID :: int
  p_ResourceID :: int
  p_GenerationID :: int
  p_JobID :: int
  p_Kind :: PhaseKind
  p_StartedAt :: instant
  p_EndedAt :: instant
  p_Outcome :: string
  p_Detail :: string

subsection \<open>Jobs\<close>

datatype IdentityQuality = IdentityUnset | IdentityUnknown | IdentityExact | IdentityFallback

datatype JobStatus =
    JobUnset | JobObserved | JobAssigned | JobRunning | JobSucceeded | JobFailed
  | JobCancelled | JobSkipped | JobInfraFailed | JobInterrupted

record Job =
  j_ID :: int
  j_Source :: string
  j_Handle :: string
  j_ForgejoJobID :: int
  j_Attempt :: int
  j_RepositoryID :: int
  j_RepositoryOwnerID :: int
  j_Repository :: string
  j_Workflow :: string
  j_WorkflowFile :: string
  j_JobName :: string
  j_IdentityQuality :: IdentityQuality
  j_Tier :: string
  j_Provider :: string
  j_Driver :: string
  j_ResourceID :: int
  j_GenerationID :: int
  j_Status :: JobStatus
  j_Conclusion :: string
  j_InfrastructureFailure :: string
  j_QueueMeasurementSource :: string
  j_RunMeasurementSource :: string
  j_FirstSeenAt :: instant
  j_QueuedAt :: instant
  j_DispatchedAt :: instant
  j_RunnerStartedAt :: instant
  j_RunnerFinishedAt :: instant
  j_CompletedAt :: instant
  j_UpdatedAt :: instant

subsection \<open>Snapshots, prices, costs\<close>

datatype SnapshotState =
    SnapshotUnset | SnapshotBuilding | SnapshotActive | SnapshotStale | SnapshotDeleting
  | SnapshotDeleted | SnapshotFailed

record Snapshot =
  s_ID :: int
  s_OperationID :: string
  s_Provider :: string
  s_Driver :: string
  s_Tier :: string
  s_ExternalID :: string
  s_Name :: string
  s_Fingerprint :: string
  s_SourceResourceID :: int
  s_State :: SnapshotState
  s_SizeBytes :: int
  s_CreatedAt :: instant
  s_UpdatedAt :: instant
  s_CompletedAt :: instant
  s_Detail :: string

record SnapshotFilter =
  sf_Provider :: string
  sf_Tier :: string
  sf_Fingerprint :: string
  sf_States :: "SnapshotState list"

record PriceQuote =
  q_ID :: int
  q_Provider :: string
  q_Driver :: string
  q_InstanceType :: string
  q_Currency :: string
  q_PerHourNanos :: int
  q_PerMonthNanos :: int
  q_SnapshotGBMonthNanos :: int
  q_MinimumChargeNanos :: int
  q_BillingQuantum :: duration
  q_MinimumDuration :: duration
  q_Source :: string
  q_ObservedAt :: instant

datatype CostKind =
    CostUnset | CostDirectCompute | CostBilledCompute | CostBoot | CostWarmIdle | CostReset
  | CostBillingOverhead | CostImageBuilder | CostSnapshotStorage

record CostEntry =
  c_ID :: int
  c_ResourceID :: int
  c_SnapshotID :: int
  c_JobID :: int
  c_PriceQuoteID :: int
  c_Kind :: CostKind
  c_Currency :: string
  c_Nanos :: int
  c_Known :: bool
  c_Estimated :: bool
  c_StartedAt :: instant
  c_EndedAt :: instant
  c_RecordedAt :: instant

record RetentionResult =
  rr_Jobs :: nat
  rr_Resources :: nat
  rr_Generations :: nat
  rr_Phases :: nat
  rr_Snapshots :: nat
  rr_Mutations :: nat
  rr_Costs :: nat
  rr_PriceQuotes :: nat

subsection \<open>Routing\<close>

datatype RoutingDecisionState = RoutingUnset | RoutingPending | RoutingAssigned

record RoutingDecision =
  d_ID :: int
  d_JobID :: int
  d_Route :: string
  d_RequiredLabel :: string
  d_PayloadJSON :: string
  d_State :: RoutingDecisionState
  d_ProfileSource :: string
  d_ProfileSamples :: int
  d_PredictedP95 :: duration
  d_HistoryFrom :: instant
  d_HistoryTo :: instant
  d_FallbackTier :: string
  d_SelectedTier :: string
  d_SelectedProvider :: string
  d_SelectedDriver :: string
  d_SelectionReason :: string
  d_SelectedIdle :: bool
  d_ScoreCurrency :: string
  d_SelectedCostNanos :: int
  d_SelectedCostKnown :: bool
  d_FallbackCostNanos :: int
  d_FallbackCostKnown :: bool
  d_FirstSeenAt :: instant
  d_DecidedAt :: instant
  d_ExpiresAt :: instant
  d_DeferCount :: int
  d_LastDeferral :: string
  d_PolicyVersion :: string
  d_OptimizationQueued :: bool
  d_OptimizationActive :: bool
  d_SelectedWorkerID :: string
  d_ScheduledStartAt :: instant
  d_ScheduledFinishAt :: instant
  d_OptimizationQueuePosition :: int
  d_OptimizationWait :: duration

record RoutingCandidateScore =
  k_DecisionID :: int
  k_Tier :: string
  k_Provider :: string
  k_Driver :: string
  k_InstanceType :: string
  k_Eligible :: bool
  k_Reason :: string
  k_IdleWorkers :: nat
  k_ActiveWorkers :: nat
  k_PendingWorkers :: int
  k_MaxInstances :: int
  k_UsedIdle :: bool
  k_ProfileSource :: string
  k_ProfileSamples :: int
  k_PredictedRun :: duration
  k_ProvisionP95 :: duration
  k_ResetP95 :: duration
  k_IdleInstanceID :: string
  k_IdleCreatedAt :: instant
  k_IdlePaidHourEndAt :: instant
  k_IdleReapEligibleAt :: instant
  k_PriceQuoteID :: int
  k_NativeCurrency :: string
  k_NativeCostNanos :: int
  k_NativeCostKnown :: bool
  k_FXRate :: string
  k_ScoreCostNanos :: int
  k_ScoreCostKnown :: bool
  k_Rank :: nat
  k_Selected :: bool
  k_OptimizationQueued :: bool
  k_ScheduledStartAt :: instant
  k_ScheduledFinishAt :: instant
  k_OptimizationQueuePosition :: int
  k_OptimizationWait :: duration

record RoutedJob =
  rj_DecisionID :: int
  rj_JobID :: int
  rj_PayloadJSON :: string
  rj_OptimizationQueued :: bool

record RoutingReservation =
  rv_JobID :: int
  rv_Route :: string
  rv_Tier :: string
  rv_WorkerID :: string
  rv_ScheduledStartAt :: instant
  rv_ScheduledFinishAt :: instant
  rv_OptimizationQueued :: bool
  rv_OptimizationActive :: bool
  rv_OptimizationQueuePosition :: int
  rv_Status :: JobStatus

record WorkflowProfileFilter =
  wf_Source :: string
  wf_RepositoryID :: int
  wf_Workflow :: string
  wf_JobName :: string
  wf_Tier :: string
  wf_From :: instant
  wf_To :: instant

record WorkflowProfile =
  wp_Samples :: int
  wp_P95 :: duration

end
