(* ===== verification/Billing.thy ===== *)
theory Billing
  imports Calendar Ledger_Types
begin

text \<open>
  The billing arithmetic, which the program has twice: the ledger's
  (\<open>resourceBilledNanos\<close> and its helpers in src/internal/orchestrator/persistence.go) and the
  router's (\<open>billedCost\<close> and its helpers in src/internal/router/score.go). Amounts are int64
  nano-units of a currency; \<open>big.Int\<close> intermediate products are unbounded integers. Both
  loops over UTC calendar months are \<open>function\<close>s whose measure is the time left, and both are
  related to one reference: the capped sum over the list \<open>month_segs\<close> of month segments.

  The locale \<open>segmentation\<close> holds what the sums need of a calendar; it is interpreted on the
  UTC months of \<^theory_text>\<open>Calendar\<close>.
\<close>

subsection \<open>Shared integer helpers\<close>

definition proportionalNanos :: "int \<Rightarrow> duration \<Rightarrow> duration \<Rightarrow> int" where
  "proportionalNanos rate elapsed period =
     (if rate \<le> 0 \<or> elapsed \<le> 0 \<or> period \<le> 0 then 0
      else let v = (rate * elapsed) sdiv period
           in if in_int64 v then v else max_int64)"

definition saturatedNanosProduct :: "int \<Rightarrow> int \<Rightarrow> int" where
  "saturatedNanosProduct v count =
     (if v \<le> 0 \<or> count \<le> 0 then 0
      else if v > max_int64 sdiv count then max_int64
      else wrap64 (v * count))"

definition roundedBillingDuration :: "duration \<Rightarrow> duration \<Rightarrow> duration \<Rightarrow> duration" where
  "roundedBillingDuration elapsed quantum minimum =
     (if elapsed < 0 then 0
      else let elapsed = (if quantum > 0 \<and> elapsed smod quantum \<noteq> 0
                          then wrap64 (elapsed + (quantum - elapsed smod quantum)) else elapsed)
           in if elapsed < minimum then minimum else elapsed)"

subsection \<open>The ledger's billed amount\<close>

text \<open>
  The body of the month loop of \<open>monthlyCappedNanos\<close>: total and month count so far, with the
  early return when the total would overflow. \<open>start.UTC()\<close> does not change the instant.
\<close>

function monthlyCapped_loop :: "int \<Rightarrow> int \<Rightarrow> instant \<Rightarrow> instant \<Rightarrow> int \<Rightarrow> int \<Rightarrow> int \<times> int" where
  "monthlyCapped_loop rate monthlyCap cursor stop acc months =
     (if cursor < stop then
        let boundary = next_month_start cursor;
            segmentEnd = (if boundary < stop then boundary else stop);
            segment = min (proportionalNanos rate (time_sub segmentEnd cursor) hour) monthlyCap
        in if acc > wrap64 (max_int64 - segment) then (max_int64, wrap64 (months + 1))
           else monthlyCapped_loop rate monthlyCap segmentEnd stop
                  (wrap64 (acc + segment)) (wrap64 (months + 1))
      else (acc, months))"
  by pat_completeness auto
termination
  by (relation "measure (\<lambda>(rate, monthlyCap, cursor, stop, acc, months). nat (stop - cursor))")
    (auto simp: next_month_start_gt)

declare monthlyCapped_loop.simps [simp del]

definition monthlyCappedNanos :: "int \<Rightarrow> int \<Rightarrow> instant \<Rightarrow> instant \<Rightarrow> int \<times> int" where
  "monthlyCappedNanos rate monthlyCap start stop =
     (if rate \<le> 0 \<or> \<not> start < stop then (0, 0)
      else if monthlyCap \<le> 0 then (proportionalNanos rate (time_sub stop start) hour, 0)
      else monthlyCapped_loop rate monthlyCap start stop 0 0)"

definition resourceBilledNanos :: "PriceQuote \<Rightarrow> instant \<Rightarrow> instant \<Rightarrow> int" where
  "resourceBilledNanos quote start stop =
     (let billed = roundedBillingDuration (time_sub stop start) (q_BillingQuantum quote)
                     (q_MinimumDuration quote);
          (nanos, months) = monthlyCappedNanos (q_PerHourNanos quote) (q_PerMonthNanos quote)
                              start (time_add start billed);
          nanos = (if nanos < q_MinimumChargeNanos quote then q_MinimumChargeNanos quote else nanos)
      in if q_PerMonthNanos quote \<le> 0 then nanos
         else let months = (if months = 0 then 1 else months);
                  maximum = saturatedNanosProduct (q_PerMonthNanos quote) months
              in if nanos > maximum then maximum else nanos)"

subsection \<open>The router's billed amount\<close>

definition proportional :: "int \<Rightarrow> duration \<Rightarrow> duration \<Rightarrow> int" where
  "proportional rate elapsed period =
     (if rate \<le> 0 \<or> elapsed \<le> 0 \<or> period \<le> 0 then 0
      else let v = (rate * elapsed) sdiv period
           in if in_int64 v then v else max_int64)"

definition minTime :: "instant \<Rightarrow> instant \<Rightarrow> instant" where
  "minTime left right = (if left < right then left else right)"

definition saturatingAdd :: "int \<Rightarrow> int \<Rightarrow> int" where
  "saturatingAdd left right =
     (if right > 0 \<and> left > wrap64 (max_int64 - right) then max_int64
      else wrap64 (left + right))"

definition saturatingMultiply :: "int \<Rightarrow> int \<Rightarrow> int" where
  "saturatingMultiply left right =
     (if left \<le> 0 \<or> right \<le> 0 then 0
      else if left > max_int64 sdiv right then max_int64
      else wrap64 (left * right))"

function billedCost_loop :: "int \<Rightarrow> int \<Rightarrow> instant \<Rightarrow> instant \<Rightarrow> int \<Rightarrow> int \<Rightarrow> int \<times> int" where
  "billedCost_loop perHour perMonth cursor billedEnd capped months =
     (if cursor < billedEnd then
        let boundary = next_month_start cursor;
            segmentEnd = minTime billedEnd boundary;
            segment = min (proportional perHour (time_sub segmentEnd cursor) hour) perMonth
        in billedCost_loop perHour perMonth segmentEnd billedEnd
             (saturatingAdd capped segment) (wrap64 (months + 1))
      else (capped, months))"
  by pat_completeness auto
termination
  by (relation "measure (\<lambda>(perHour, perMonth, cursor, stop, capped, months). nat (stop - cursor))")
    (auto simp: next_month_start_gt minTime_def)

declare billedCost_loop.simps [simp del]

definition billedCost :: "PriceQuote \<Rightarrow> instant \<Rightarrow> instant \<Rightarrow> int" where
  "billedCost quote start stop =
     (if \<not> start < stop then 0
      else
        let elapsed = time_sub stop start;
            elapsed = (if q_BillingQuantum quote > 0 \<and> elapsed smod q_BillingQuantum quote \<noteq> 0
                       then wrap64 (elapsed + (q_BillingQuantum quote - elapsed smod q_BillingQuantum quote))
                       else elapsed);
            elapsed = (if elapsed < q_MinimumDuration quote then q_MinimumDuration quote else elapsed);
            acc = max (proportional (q_PerHourNanos quote) elapsed hour) (q_MinimumChargeNanos quote)
        in if q_PerMonthNanos quote \<le> 0 then acc
           else
             let billedEnd = time_add start elapsed;
                 (capped, months) = billedCost_loop (q_PerHourNanos quote) (q_PerMonthNanos quote)
                                      start billedEnd 0 0;
                 capped = (if capped < q_MinimumChargeNanos quote
                           then q_MinimumChargeNanos quote else capped)
             in min capped (saturatingMultiply (q_PerMonthNanos quote) months))"

text \<open>
  \<open>normalizeNanos\<close> after \<open>big.Rat.SetString\<close>: \<open>None\<close> for a string \<open>SetString\<close> refuses, otherwise
  the numerator and the (positive) denominator of the rational.
\<close>

definition normalizeNanos :: "int \<Rightarrow> (int \<times> int) option \<Rightarrow> int \<times> bool" where
  "normalizeNanos v rate =
     (case rate of
        None \<Rightarrow> (0, False)
      | Some (num, den) \<Rightarrow>
          if num \<le> 0 \<or> v < 0 then (0, False)
          else let numerator = v * num;
                   quotient = numerator sdiv den;
                   remainder = numerator smod den;
                   quotient = (if 2 * remainder \<ge> den then quotient + 1 else quotient)
               in if in_int64 quotient then (quotient, True) else (max_int64, True))"

subsection \<open>Facts about the helpers\<close>

lemma sdiv_pos [go_arith]: "0 \<le> x \<Longrightarrow> 0 < y \<Longrightarrow> x sdiv y = x div (y::int)"
  by (cases "x = 0") (auto simp: signed_divide_int_def)

lemma smod_pos [go_arith]: "0 \<le> x \<Longrightarrow> 0 < y \<Longrightarrow> x smod y = x mod (y::int)"
  by (cases "x = 0") (auto simp: signed_modulo_int_def signed_divide_int_def minus_div_mult_eq_mod)

lemma proportional_eq: "proportional = proportionalNanos"
  by (simp add: fun_eq_iff proportional_def proportionalNanos_def)

lemma minTime_min: "minTime a b = min a b"
  by (simp add: minTime_def min_def)

lemma if_less_min: "(if b < a then b else a) = min a (b::int)"
  by (simp add: min_def)

lemma saturatingMultiply_eq: "saturatingMultiply = saturatedNanosProduct"
  by (simp add: fun_eq_iff saturatingMultiply_def saturatedNanosProduct_def)

lemma min_int64_le: "min_int64 \<le> 0" "0 \<le> x \<Longrightarrow> min_int64 \<le> x"
  by (simp_all add: min_int64_def)

lemma in_int64_nonneg: "0 \<le> x \<Longrightarrow> in_int64 x \<longleftrightarrow> x \<le> max_int64"
  by (simp add: in_int64_def min_int64_le)

lemma proportionalNanos_exact:
  assumes "0 < rate" "0 < d"
  shows "proportionalNanos rate d hour = min (rate * d div hour) max_int64"
proof -
  have "0 \<le> rate * d div hour" using assms by (simp add: pos_imp_zdiv_nonneg_iff)
  then show ?thesis using assms
    by (auto simp: proportionalNanos_def Let_def in_int64_nonneg go_arith)
qed

lemma proportionalNanos_nonneg: "0 \<le> proportionalNanos rate d p"
  by (auto simp: proportionalNanos_def Let_def in_int64_nonneg go_arith pos_imp_zdiv_nonneg_iff)

lemma proportionalNanos_le: "proportionalNanos rate d p \<le> max_int64"
  by (auto simp: proportionalNanos_def Let_def in_int64_def)

lemma saturatedNanosProduct_exact:
  assumes "0 < v" "0 < n"
  shows "saturatedNanosProduct v n = min (v * n) max_int64"
proof (cases "v > max_int64 div n")
  case True
  then have "max_int64 < v * n" using assms(2)
    by (metis div_mult_self_is_m less_le_not_le linorder_not_less mult.commute nonzero_mult_div_cancel_right order_less_irrefl zdiv_mono1)
  then show ?thesis using True assms by (simp add: saturatedNanosProduct_def go_arith)
next
  case False
  then have "v * n \<le> (max_int64 div n) * n" using assms by simp
  also have "\<dots> \<le> max_int64"
    by (metis Euclidean_Rings.pos_mod_sign add.commute assms(2) le_add_same_cancel2 mult.commute mult_div_mod_eq)
  finally show ?thesis using False assms
    by (simp add: saturatedNanosProduct_def go_arith in_int64_nonneg)
qed

lemma saturatingAdd_exact:
  assumes "0 \<le> a" "a \<le> max_int64" "0 \<le> b" "b \<le> max_int64"
  shows "saturatingAdd a b = min (a + b) max_int64"
proof -
  have "in_int64 (max_int64 - b)" using assms by (simp add: in_int64_nonneg)
  then show ?thesis using assms
    by (auto simp: saturatingAdd_def go_arith in_int64_nonneg)
qed

subsection \<open>Segmentations of an interval\<close>

text \<open>
  A calendar with a next boundary, and the list of the lengths of the pieces the boundaries
  cut an interval into.
\<close>

locale segmentation =
  fixes nxt :: "int \<Rightarrow> int"
    and segs :: "int \<Rightarrow> int \<Rightarrow> int list"
  assumes nxt_gt: "t < nxt t"
    and segs_stop: "\<not> s < e \<Longrightarrow> segs s e = []"
    and segs_step: "s < e \<Longrightarrow> segs s e = (min e (nxt s) - s) # segs (min e (nxt s)) e"
begin

lemma segs_induct [consumes 0, case_names stop step]:
  assumes "\<And>s e. \<not> s < e \<Longrightarrow> P s e"
    and "\<And>s e. s < e \<Longrightarrow> P (min e (nxt s)) e \<Longrightarrow> P s e"
  shows "P s e"
proof (induction "nat (e - s)" arbitrary: s rule: less_induct)
  case less
  then show ?case
    using assms nxt_gt [of s] by (cases "s < e") auto
qed

lemma segs_pos: "d \<in> set (segs s e) \<Longrightarrow> 0 < d"
  by (induction s e rule: segs_induct) (auto simp: segs_stop segs_step nxt_gt)

lemma segs_sum: "s \<le> e \<Longrightarrow> sum_list (segs s e) = e - s"
  by (induction s e rule: segs_induct) (auto simp: segs_stop segs_step nxt_gt)

lemma segs_nonempty: "s < e \<Longrightarrow> segs s e \<noteq> []"
  by (simp add: segs_step)

lemma segs_length_le: "s \<le> e \<Longrightarrow> int (length (segs s e)) \<le> e - s"
proof (induction s e rule: segs_induct)
  case (step s e)
  have "0 < min e (nxt s) - s" using step.hyps nxt_gt [of s] by simp
  then show ?case using step by (simp add: segs_step)
qed (simp add: segs_stop)

lemma segs_length_mono: "e \<le> f \<Longrightarrow> length (segs s e) \<le> length (segs s f)"
proof (induction s e rule: segs_induct)
  case (step s e)
  show ?case
  proof (cases "nxt s < e")
    case True
    then show ?thesis using step by (simp add: segs_step)
  next
    case False
    then show ?thesis using step by (simp add: segs_step segs_stop)
  qed
qed (simp add: segs_stop)

lemma segs_total_mono:
  assumes "mono f" "f 0 = (0::int)" "e \<le> e'"
  shows "sum_list (map f (segs s e)) \<le> sum_list (map f (segs s e'))"
proof -
  have nonneg: "0 \<le> sum_list (map f (segs t e'))" for t
    using monoD [OF assms(1), of 0] segs_pos assms(2) by (force intro: sum_list_nonneg)
  show ?thesis
    using assms(3)
  proof (induction s e rule: segs_induct)
    case (stop s e)
    then show ?case using nonneg by (simp add: segs_stop)
  next
    case (step s e)
    show ?case
    proof (cases "nxt s < e")
      case True
      then show ?thesis using step by (simp add: segs_step)
    next
      case False
      then have "f (min e (nxt s) - s) \<le> f (min e' (nxt s) - s)"
        using step.prems by (intro monoD [OF assms(1)]) auto
      moreover have "segs (min e (nxt s)) e = []" using False by (simp add: segs_stop)
      ultimately show ?thesis
        using step.prems step.hyps nonneg [of "min e' (nxt s)"] by (simp add: segs_step)
    qed
  qed
qed

end

subsection \<open>The reference amount\<close>

function month_segs :: "instant \<Rightarrow> instant \<Rightarrow> duration list" where
  "month_segs s e =
     (if s < e then (min e (next_month_start s) - s) # month_segs (min e (next_month_start s)) e
      else [])"
  by pat_completeness auto
termination
  by (relation "measure (\<lambda>(s, e). nat (e - s))") (auto simp: next_month_start_gt)

declare month_segs.simps [simp del]

interpretation utc_months: segmentation next_month_start month_segs
  by unfold_locales (simp_all add: next_month_start_gt month_segs.simps)

definition cappedSegment :: "int \<Rightarrow> int \<Rightarrow> duration \<Rightarrow> int" where
  "cappedSegment rate monthlyCap d = min (proportionalNanos rate d hour) monthlyCap"

definition cappedMonths :: "int \<Rightarrow> int \<Rightarrow> instant \<Rightarrow> instant \<Rightarrow> int" where
  "cappedMonths rate monthlyCap s e = sum_list (map (cappedSegment rate monthlyCap) (month_segs s e))"

lemma cappedSegment_bounds:
  "0 \<le> monthlyCap \<Longrightarrow> 0 \<le> cappedSegment rate monthlyCap d"
  "cappedSegment rate monthlyCap d \<le> monthlyCap"
  "cappedSegment rate monthlyCap d \<le> max_int64"
  using proportionalNanos_nonneg [of rate d hour] proportionalNanos_le [of rate d hour]
  by (auto simp: cappedSegment_def)

lemma proportionalNanos_mono: "mono (\<lambda>d. proportionalNanos rate d hour)"
proof (rule monoI)
  fix x y :: int assume "x \<le> y"
  show "proportionalNanos rate x hour \<le> proportionalNanos rate y hour"
  proof (cases "0 < rate \<and> 0 < x")
    case True
    then have "rate * x div hour \<le> rate * y div hour"
      using \<open>x \<le> y\<close> by (intro zdiv_mono1) auto
    then show ?thesis using True \<open>x \<le> y\<close> by (auto simp: proportionalNanos_exact)
  next
    case False
    then have "proportionalNanos rate x hour = 0" by (auto simp: proportionalNanos_def)
    then show ?thesis by (simp add: proportionalNanos_nonneg)
  qed
qed

lemma cappedSegment_mono: "mono (cappedSegment rate monthlyCap)"
  using proportionalNanos_mono [of rate]
  by (auto simp: mono_def cappedSegment_def intro: min.coboundedI1)

lemma cappedSegment_zero: "0 \<le> monthlyCap \<Longrightarrow> cappedSegment rate monthlyCap 0 = 0"
  by (simp add: cappedSegment_def proportionalNanos_def)

lemma cappedMonths_mono:
  "0 \<le> monthlyCap \<Longrightarrow> e \<le> f \<Longrightarrow> cappedMonths rate monthlyCap s e \<le> cappedMonths rate monthlyCap s f"
  unfolding cappedMonths_def
  by (rule utc_months.segs_total_mono [OF cappedSegment_mono cappedSegment_zero])

lemma cappedMonths_nonneg: "0 \<le> monthlyCap \<Longrightarrow> 0 \<le> cappedMonths rate monthlyCap s e"
  unfolding cappedMonths_def by (auto intro!: sum_list_nonneg simp: cappedSegment_bounds)

lemma cappedMonths_le:
  "cappedMonths rate monthlyCap s e \<le> monthlyCap * int (length (month_segs s e))"
proof -
  have "sum_list (map (cappedSegment rate monthlyCap) ds) \<le> monthlyCap * int (length ds)" for ds
  proof (induction ds)
    case (Cons d ds)
    then show ?case using cappedSegment_bounds(2) [of rate monthlyCap d]
      by (simp add: algebra_simps)
  qed simp
  then show ?thesis by (simp add: cappedMonths_def)
qed

lemma cappedMonths_step:
  assumes "s < e"
  shows "cappedMonths rate monthlyCap s e =
         cappedSegment rate monthlyCap (min e (next_month_start s) - s) +
         cappedMonths rate monthlyCap (min e (next_month_start s)) e"
  using assms by (simp add: cappedMonths_def utc_months.segs_step)

lemma cappedMonths_stop: "\<not> s < e \<Longrightarrow> cappedMonths rate monthlyCap s e = 0"
  by (simp add: cappedMonths_def utc_months.segs_stop)

lemma segment_time_sub:
  assumes "s < e" "e - s \<le> max_int64"
  shows "time_sub (min e (next_month_start s)) s = min e (next_month_start s) - s"
  using assms next_month_start_gt [of s]
  by (intro time_sub_id) (simp add: in_int64_nonneg)

lemma billedCost_loop_exact:
  assumes "0 < perMonth" "perMonth \<le> max_int64" "stop - cursor \<le> max_int64"
    and "0 \<le> acc" "acc \<le> max_int64" "0 \<le> months"
    and "months + int (length (month_segs cursor stop)) \<le> max_int64"
  shows "billedCost_loop perHour perMonth cursor stop acc months =
         (min (acc + cappedMonths perHour perMonth cursor stop) max_int64,
          months + int (length (month_segs cursor stop)))"
  using assms(3-)
proof (induction cursor stop arbitrary: acc months rule: utc_months.segs_induct)
  case (stop cursor stop)
  then show ?case
    by (simp add: billedCost_loop.simps cappedMonths_stop utc_months.segs_stop)
next
  case (step cursor stop)
  let ?e = "min stop (next_month_start cursor)"
  let ?seg = "cappedSegment perHour perMonth (?e - cursor)"
  have seg: "min (proportional perHour (time_sub ?e cursor) hour) perMonth = ?seg"
    using step by (simp add: segment_time_sub proportional_eq cappedSegment_def)
  have sb: "0 \<le> ?seg" "?seg \<le> max_int64"
    using assms(1) by (simp_all add: cappedSegment_bounds)
  have add: "saturatingAdd acc ?seg = min (acc + ?seg) max_int64"
    using step.prems sb by (intro saturatingAdd_exact) auto
  have len: "int (length (month_segs cursor stop)) = 1 + int (length (month_segs ?e stop))"
    using step.hyps by (simp add: utc_months.segs_step)
  have w: "wrap64 (months + 1) = months + 1"
    using step.prems len by (intro wrap64_id) (simp add: in_int64_nonneg)
  have nn: "0 \<le> cappedMonths perHour perMonth ?e stop"
    using assms(1) by (intro cappedMonths_nonneg) simp
  have IH: "billedCost_loop perHour perMonth ?e stop (min (acc + ?seg) max_int64) (months + 1) =
      (min (min (acc + ?seg) max_int64 + cappedMonths perHour perMonth ?e stop) max_int64,
       months + 1 + int (length (month_segs ?e stop)))"
    using step.prems sb len next_month_start_gt [of cursor] step.hyps
    by (intro step.IH) auto
  have "billedCost_loop perHour perMonth cursor stop acc months =
        billedCost_loop perHour perMonth ?e stop (min (acc + ?seg) max_int64) (months + 1)"
    using step.hyps seg add w
    by (subst billedCost_loop.simps) (simp add: Let_def minTime_min)
  then show ?case
    unfolding IH using step.hyps nn len by (simp add: cappedMonths_step min_def)
qed

text \<open>
  The ledger's loop may return early. Then the exact total exceeds the int64 range, and so
  does the cap times the number of months it reports.
\<close>

lemma monthlyCapped_loop_exact:
  assumes "0 < monthlyCap" "monthlyCap \<le> max_int64" "stop - cursor \<le> max_int64"
    and "0 \<le> acc" "acc \<le> max_int64" "0 \<le> months"
    and "months + int (length (month_segs cursor stop)) \<le> max_int64"
  shows "fst (monthlyCapped_loop rate monthlyCap cursor stop acc months) =
           min (acc + cappedMonths rate monthlyCap cursor stop) max_int64
       \<and> (if acc + cappedMonths rate monthlyCap cursor stop \<le> max_int64
          then snd (monthlyCapped_loop rate monthlyCap cursor stop acc months) =
                 months + int (length (month_segs cursor stop))
          else months < snd (monthlyCapped_loop rate monthlyCap cursor stop acc months) \<and>
               max_int64 < acc + monthlyCap *
                 (snd (monthlyCapped_loop rate monthlyCap cursor stop acc months) - months))"
  using assms(3-)
proof (induction cursor stop arbitrary: acc months rule: utc_months.segs_induct)
  case (stop cursor stop)
  then show ?case
    by (simp add: monthlyCapped_loop.simps cappedMonths_stop utc_months.segs_stop)
next
  case (step cursor stop)
  let ?e = "min stop (next_month_start cursor)"
  let ?seg = "cappedSegment rate monthlyCap (?e - cursor)"
  let ?rest = "cappedMonths rate monthlyCap ?e stop"
  have seg: "min (proportionalNanos rate (time_sub ?e cursor) hour) monthlyCap = ?seg"
    using step by (simp add: segment_time_sub cappedSegment_def)
  have sb: "0 \<le> ?seg" "?seg \<le> max_int64" "?seg \<le> monthlyCap"
    using assms(1) by (simp_all add: cappedSegment_bounds)
  have len: "int (length (month_segs cursor stop)) = 1 + int (length (month_segs ?e stop))"
    using step.hyps by (simp add: utc_months.segs_step)
  have w: "wrap64 (months + 1) = months + 1" "wrap64 (max_int64 - ?seg) = max_int64 - ?seg"
    using step.prems len sb by (auto intro!: wrap64_id simp: in_int64_nonneg)
  have nn: "0 \<le> ?rest"
    using assms(1) by (intro cappedMonths_nonneg) simp
  have tot: "cappedMonths rate monthlyCap cursor stop = ?seg + ?rest"
    using step.hyps by (rule cappedMonths_step)
  show ?case
  proof (cases "acc > max_int64 - ?seg")
    case True
    then have "monthlyCapped_loop rate monthlyCap cursor stop acc months = (max_int64, months + 1)"
      using step.hyps seg w
      by (subst monthlyCapped_loop.simps) (simp add: Let_def if_less_min)
    then show ?thesis using True tot nn sb by (auto simp: min_def)
  next
    case False
    then have "wrap64 (acc + ?seg) = acc + ?seg"
      using step.prems sb by (intro wrap64_id) (simp add: in_int64_nonneg)
    then have L: "monthlyCapped_loop rate monthlyCap cursor stop acc months =
               monthlyCapped_loop rate monthlyCap ?e stop (acc + ?seg) (months + 1)"
      using False step.hyps seg w
      by (subst monthlyCapped_loop.simps) (simp add: Let_def if_less_min)
    have pre: "stop - ?e \<le> max_int64" "0 \<le> acc + ?seg" "acc + ?seg \<le> max_int64" "0 \<le> months + 1"
      "months + 1 + int (length (month_segs ?e stop)) \<le> max_int64"
      using step.prems step.hyps False sb len next_month_start_gt [of cursor] by auto
    show ?thesis
      unfolding L tot using step.IH [OF pre] len sb
      by (auto simp: algebra_simps split: if_splits)
  qed
qed

subsection \<open>Both implementations against the reference\<close>

lemma min_max_clip: "m \<le> x \<Longrightarrow> min (max m (min a x)) (min b x) = min x (min b (max m (a::int)))"
  by (auto simp: min_def max_def)

definition billedReference :: "PriceQuote \<Rightarrow> instant \<Rightarrow> duration \<Rightarrow> int" where
  "billedReference quote start billed =
     (let rate = q_PerHourNanos quote; monthlyCap = q_PerMonthNanos quote;
          stop = start + billed;
          months = max 1 (int (length (month_segs start stop)))
      in if monthlyCap \<le> 0
         then max (q_MinimumChargeNanos quote) (proportionalNanos rate billed hour)
         else min max_int64 (min (monthlyCap * months)
                (max (q_MinimumChargeNanos quote) (cappedMonths rate monthlyCap start stop))))"

definition quote_ok :: "PriceQuote \<Rightarrow> bool" where
  "quote_ok quote \<longleftrightarrow>
     in_int64 (q_PerHourNanos quote) \<and> in_int64 (q_PerMonthNanos quote) \<and>
     in_int64 (q_MinimumChargeNanos quote) \<and> in_int64 (q_BillingQuantum quote) \<and>
     in_int64 (q_MinimumDuration quote)"

lemma roundedBillingDuration_in_int64:
  "in_int64 elapsed \<Longrightarrow> in_int64 minimum \<Longrightarrow> in_int64 (roundedBillingDuration elapsed quantum minimum)"
  by (simp add: roundedBillingDuration_def Let_def wrap64_in_int64)

lemma monthlyCappedNanos_capped:
  assumes "0 < rate" "0 < monthlyCap" "monthlyCap \<le> max_int64" "start < stop" "stop - start \<le> max_int64"
  defines "n \<equiv> snd (monthlyCappedNanos rate monthlyCap start stop)"
  shows "fst (monthlyCappedNanos rate monthlyCap start stop) =
           min (cappedMonths rate monthlyCap start stop) max_int64"
    and "0 < n"
    and "min (monthlyCap * n) max_int64 = min (monthlyCap * int (length (month_segs start stop))) max_int64"
proof -
  have "int (length (month_segs start stop)) \<le> max_int64"
    using utc_months.segs_length_le [of start stop] assms by simp
  then have L: "fst (monthlyCapped_loop rate monthlyCap start stop 0 0) =
      min (0 + cappedMonths rate monthlyCap start stop) max_int64 \<and>
      (if 0 + cappedMonths rate monthlyCap start stop \<le> max_int64 then n = 0 + int (length (month_segs start stop))
       else 0 < n \<and> max_int64 < 0 + monthlyCap * (n - 0))"
    using monthlyCapped_loop_exact [of monthlyCap stop start 0 0 rate] assms
    by (simp add: monthlyCappedNanos_def split: if_splits)
  have le: "cappedMonths rate monthlyCap start stop \<le> monthlyCap * int (length (month_segs start stop))"
    by (rule cappedMonths_le)
  show "fst (monthlyCappedNanos rate monthlyCap start stop) =
        min (cappedMonths rate monthlyCap start stop) max_int64"
    using L assms by (simp add: monthlyCappedNanos_def)
  show "0 < n"
    using L utc_months.segs_nonempty [OF assms(4)] by (auto split: if_splits)
  show "min (monthlyCap * n) max_int64 = min (monthlyCap * int (length (month_segs start stop))) max_int64"
    using L le by (auto simp: min_def split: if_splits)
qed

lemma cappedMonths_free:
  assumes "rate \<le> 0" "0 \<le> monthlyCap"
  shows "cappedMonths rate monthlyCap s e = 0"
proof -
  have "cappedSegment rate monthlyCap = (\<lambda>_. 0)"
    using assms by (simp add: fun_eq_iff cappedSegment_def proportionalNanos_def)
  then show ?thesis by (simp add: cappedMonths_def)
qed

text \<open>The amount once the billed duration is known, as \<open>resourceBilledNanos\<close> computes it.\<close>

definition billedFor :: "PriceQuote \<Rightarrow> instant \<Rightarrow> duration \<Rightarrow> int" where
  "billedFor quote start billed =
     (let (nanos, months) = monthlyCappedNanos (q_PerHourNanos quote) (q_PerMonthNanos quote)
                              start (start + billed);
          nanos = max nanos (q_MinimumChargeNanos quote)
      in if q_PerMonthNanos quote \<le> 0 then nanos
         else min nanos (saturatedNanosProduct (q_PerMonthNanos quote) (if months = 0 then 1 else months)))"

lemma resourceBilledNanos_billedFor:
  "resourceBilledNanos quote start stop =
   billedFor quote start
     (roundedBillingDuration (time_sub stop start) (q_BillingQuantum quote) (q_MinimumDuration quote))"
  by (auto simp: resourceBilledNanos_def billedFor_def time_add_def Let_def max_def min_def
      split: prod.splits)

lemma billedFor_uncapped:
  assumes "q_PerMonthNanos quote \<le> 0" "in_int64 b"
  shows "billedFor quote start b = billedReference quote start b"
proof -
  have "proportionalNanos (q_PerHourNanos quote) b hour = 0" if "q_PerHourNanos quote \<le> 0 \<or> \<not> 0 < b"
    using that by (auto simp: proportionalNanos_def)
  then show ?thesis using assms
    by (auto simp: billedFor_def billedReference_def monthlyCappedNanos_def time_sub_id)
qed

lemma billedFor_nothing:
  assumes "0 < q_PerMonthNanos quote" "q_PerHourNanos quote \<le> 0 \<or> b \<le> 0" "quote_ok quote"
    and "0 < q_PerHourNanos quote \<or> q_MinimumChargeNanos quote \<le> q_PerMonthNanos quote"
  shows "billedFor quote start b = billedReference quote start b"
proof -
  let ?c = "q_PerMonthNanos quote" and ?n = "max 1 (int (length (month_segs start (start + b))))"
  have c: "?c \<le> max_int64" "saturatedNanosProduct ?c 1 = ?c"
    using assms by (simp_all add: quote_ok_def in_int64_def saturatedNanosProduct_exact)
  have z: "cappedMonths (q_PerHourNanos quote) ?c start (start + b) = 0"
    using assms(1,2) by (auto simp: cappedMonths_free cappedMonths_stop)
  obtain k where k: "k = ?c * ?n" by simp
  have "k = ?c \<or> q_MinimumChargeNanos quote \<le> ?c"
    using assms(2,4) by (auto simp: utc_months.segs_stop k)
  moreover have "?c \<le> k" using assms(1) k by (simp add: mult_le_cancel_left1)
  ultimately have "min (max 0 (q_MinimumChargeNanos quote)) ?c =
                   min (max 0 (q_MinimumChargeNanos quote)) (min k max_int64)"
    using c(1) assms(1) by (auto simp: min_def max_def)
  then show ?thesis using assms(1,2) c z unfolding k
    by (auto simp: billedFor_def billedReference_def monthlyCappedNanos_def min.commute min.left_commute max.commute)
qed

lemma billedFor_capped:
  assumes "0 < q_PerMonthNanos quote" "0 < q_PerHourNanos quote" "0 < b" "b \<le> max_int64" "quote_ok quote"
  shows "billedFor quote start b = billedReference quote start b"
proof -
  let ?r = "q_PerHourNanos quote" and ?c = "q_PerMonthNanos quote" and ?m = "q_MinimumChargeNanos quote"
  have bounds: "?c \<le> max_int64" "?m \<le> max_int64"
    using assms(5) by (simp_all add: quote_ok_def in_int64_def)
  obtain nanos months where nm: "monthlyCappedNanos ?r ?c start (start + b) = (nanos, months)"
    by fastforce
  have cap: "nanos = min (cappedMonths ?r ?c start (start + b)) max_int64" "0 < months"
    "min (?c * months) max_int64 = min (?c * int (length (month_segs start (start + b)))) max_int64"
    using monthlyCappedNanos_capped [of ?r ?c start "start + b"] nm assms bounds by auto
  have len: "max 1 (int (length (month_segs start (start + b)))) = int (length (month_segs start (start + b)))"
    using utc_months.segs_nonempty [of start "start + b"] assms(3)
    by (cases "month_segs start (start + b)") auto
  have sp: "saturatedNanosProduct ?c months = min (?c * int (length (month_segs start (start + b)))) max_int64"
    using cap assms(1) by (simp add: saturatedNanosProduct_exact)
  show ?thesis
    using assms(1) bounds cap(1,2)
    by (simp add: billedFor_def billedReference_def nm sp len) (auto simp: Let_def min_def max_def)
qed

lemma billedFor_reference:
  assumes "quote_ok quote" "in_int64 b"
    and "0 < q_PerHourNanos quote \<or> q_MinimumChargeNanos quote \<le> q_PerMonthNanos quote"
  shows "billedFor quote start b = billedReference quote start b"
  using billedFor_uncapped [OF _ assms(2)] billedFor_nothing [OF _ _ assms(1,3)]
    billedFor_capped [OF _ _ _ _ assms(1)] assms(2)
  by (meson in_int64_def linorder_not_less)

lemma resourceBilledNanos_reference:
  assumes "quote_ok quote"
    and "0 < q_PerHourNanos quote \<or> q_MinimumChargeNanos quote \<le> q_PerMonthNanos quote"
  shows "resourceBilledNanos quote start stop =
         billedReference quote start
           (roundedBillingDuration (time_sub stop start) (q_BillingQuantum quote) (q_MinimumDuration quote))"
  unfolding resourceBilledNanos_billedFor
  using assms roundedBillingDuration_in_int64 [OF time_sub_in_int64]
  by (intro billedFor_reference) (simp_all add: quote_ok_def)

subsection \<open>Rounding\<close>

definition roundUp :: "duration \<Rightarrow> duration \<Rightarrow> duration" where
  "roundUp elapsed quantum = quantum * ((elapsed + (quantum - 1)) div quantum)"

lemma roundUp_eq:
  assumes "0 < quantum"
  shows "(if elapsed mod quantum \<noteq> 0 then elapsed + (quantum - elapsed mod quantum) else elapsed) =
         roundUp elapsed quantum"
proof -
  obtain k r where kr: "elapsed = quantum * k + r" "0 \<le> r" "r < quantum"
    using assms by (metis mult_div_mod_eq pos_mod_bound pos_mod_sign)
  have "elapsed mod quantum = r" using kr by simp
  moreover have "(elapsed + (quantum - 1)) div quantum = (if r = 0 then k else k + 1)"
  proof (cases "r = 0")
    case True
    then show ?thesis using kr assms by (intro int_div_pos_eq [where r = "quantum - 1"]) auto
  next
    case False
    then show ?thesis using kr assms
      by (simp, intro int_div_pos_eq [where r = "r - 1"]) (auto simp: algebra_simps)
  qed
  ultimately show ?thesis using kr by (simp add: roundUp_def algebra_simps)
qed

lemma roundUp_bounds:
  assumes "0 < quantum"
  shows "elapsed \<le> roundUp elapsed quantum" "roundUp elapsed quantum < elapsed + quantum"
    "quantum dvd roundUp elapsed quantum"
proof -
  have "0 \<le> elapsed mod quantum" "elapsed mod quantum < quantum" using assms by simp_all
  then show "elapsed \<le> roundUp elapsed quantum" "roundUp elapsed quantum < elapsed + quantum"
    unfolding roundUp_eq [OF assms, symmetric] by (auto simp del: pos_mod_sign pos_mod_bound)
  show "quantum dvd roundUp elapsed quantum" by (simp add: roundUp_def)
qed

lemma roundUp_mono: "0 < quantum \<Longrightarrow> a \<le> b \<Longrightarrow> roundUp a quantum \<le> roundUp b quantum"
  by (simp add: roundUp_def zdiv_mono1)

lemma roundedBillingDuration_exact:
  assumes "0 \<le> elapsed" "elapsed \<le> max_int64" "0 < quantum \<Longrightarrow> elapsed + quantum \<le> max_int64"
  shows "roundedBillingDuration elapsed quantum minimum =
         max minimum (if 0 < quantum then roundUp elapsed quantum else elapsed)"
proof (cases "0 < quantum")
  case True
  have "in_int64 (elapsed + (quantum - elapsed mod quantum))"
    using assms True pos_mod_bound [of quantum elapsed] pos_mod_sign [of quantum elapsed]
    by (intro in_int64_nonneg [THEN iffD2]) linarith+
  then show ?thesis using assms True roundUp_eq [OF True, of elapsed]
    by (auto simp: roundedBillingDuration_def Let_def go_arith max_def split: if_splits)
next
  case False
  then show ?thesis using assms by (simp add: roundedBillingDuration_def Let_def max_def)
qed

lemma roundedBillingDuration_mono:
  assumes "a \<le> b" "b \<le> max_int64" "0 < quantum \<Longrightarrow> b + quantum \<le> max_int64" "0 \<le> minimum"
  shows "roundedBillingDuration a quantum minimum \<le> roundedBillingDuration b quantum minimum"
proof (cases "a < 0")
  case True
  have "0 \<le> roundedBillingDuration b quantum minimum"
    using assms(4) by (simp add: roundedBillingDuration_def Let_def)
  then show ?thesis using True by (simp add: roundedBillingDuration_def)
next
  case False
  then show ?thesis using assms roundUp_mono [of quantum a b]
    by (auto simp: roundedBillingDuration_exact)
qed

lemma billedReference_mono:
  assumes "a \<le> b"
  shows "billedReference quote start a \<le> billedReference quote start b"
proof -
  let ?r = "q_PerHourNanos quote" and ?c = "q_PerMonthNanos quote"
  have p: "proportionalNanos ?r a hour \<le> proportionalNanos ?r b hour"
    using proportionalNanos_mono assms by (simp add: mono_def)
  have len: "length (month_segs start (start + a)) \<le> length (month_segs start (start + b))"
    using utc_months.segs_length_mono assms by simp
  have "?c * max 1 (int (length (month_segs start (start + a)))) \<le>
        ?c * max 1 (int (length (month_segs start (start + b))))" if "0 < ?c"
    using len that by (intro mult_left_mono) auto
  moreover have "cappedMonths ?r ?c start (start + a) \<le> cappedMonths ?r ?c start (start + b)" if "0 < ?c"
    using that assms by (intro cappedMonths_mono) auto
  ultimately have "min max_int64 (min (?c * max 1 (int (length (month_segs start (start + a)))))
        (max (q_MinimumChargeNanos quote) (cappedMonths ?r ?c start (start + a)))) \<le>
      min max_int64 (min (?c * max 1 (int (length (month_segs start (start + b)))))
        (max (q_MinimumChargeNanos quote) (cappedMonths ?r ?c start (start + b))))" if "0 < ?c"
    using that by (intro min.mono max.mono order_refl) auto
  then show ?thesis using p max.mono [OF order_refl p]
    by (simp add: billedReference_def Let_def)
qed

subsection \<open>The router's amount\<close>

lemma billedCost_rounded:
  assumes "start < stop"
  shows "billedCost quote start stop =
    (let b = roundedBillingDuration (time_sub stop start) (q_BillingQuantum quote) (q_MinimumDuration quote)
     in if q_PerMonthNanos quote \<le> 0
        then max (proportionalNanos (q_PerHourNanos quote) b hour) (q_MinimumChargeNanos quote)
        else let (capped, months) = billedCost_loop (q_PerHourNanos quote) (q_PerMonthNanos quote)
                                      start (start + b) 0 0
             in min (max capped (q_MinimumChargeNanos quote))
                    (saturatedNanosProduct (q_PerMonthNanos quote) months))"
proof -
  have "\<not> time_sub stop start < 0"
    using assms time_sub_nonneg_iff [of stop start] by simp
  then show ?thesis using assms
    by (simp add: billedCost_def roundedBillingDuration_def proportional_eq saturatingMultiply_eq
        time_add_def Let_def max_def split: prod.splits)
qed

lemma billed_duration_pos:
  assumes "start < stop" "0 < q_BillingQuantum quote \<Longrightarrow> time_sub stop start + q_BillingQuantum quote \<le> max_int64"
  shows "0 < roundedBillingDuration (time_sub stop start) (q_BillingQuantum quote) (q_MinimumDuration quote)"
proof -
  have d: "0 < time_sub stop start" "time_sub stop start \<le> max_int64"
    using assms(1) time_sub_in_int64 [of stop start] by (auto simp: time_sub_pos_iff in_int64_def)
  show ?thesis
    using d assms(2) roundUp_bounds(1) [of "q_BillingQuantum quote" "time_sub stop start"]
    by (auto simp: roundedBillingDuration_exact less_max_iff_disj)
qed

lemma billedCost_reference:
  assumes "quote_ok quote" "start < stop"
    and "0 < q_BillingQuantum quote \<Longrightarrow> time_sub stop start + q_BillingQuantum quote \<le> max_int64"
  shows "billedCost quote start stop =
         billedReference quote start
           (roundedBillingDuration (time_sub stop start) (q_BillingQuantum quote) (q_MinimumDuration quote))"
proof -
  define b where "b = roundedBillingDuration (time_sub stop start) (q_BillingQuantum quote) (q_MinimumDuration quote)"
  let ?r = "q_PerHourNanos quote" and ?c = "q_PerMonthNanos quote"
  let ?n = "int (length (month_segs start (start + b)))"
  have b: "0 < b" "b \<le> max_int64"
    using billed_duration_pos [OF assms(2,3)] roundedBillingDuration_in_int64 [OF time_sub_in_int64] assms(1)
    by (simp_all add: b_def quote_ok_def in_int64_def)
  have c: "?c \<le> max_int64" "q_MinimumChargeNanos quote \<le> max_int64"
    using assms(1) by (simp_all add: quote_ok_def in_int64_def)
  have n: "?n \<le> max_int64" "0 < ?n"
    using utc_months.segs_length_le [of start "start + b"] utc_months.segs_nonempty [of start "start + b"] b
    by auto
  have "billedCost_loop ?r ?c start (start + b) 0 0 = (min (cappedMonths ?r ?c start (start + b)) max_int64, ?n)"
    if "0 < ?c"
    using billedCost_loop_exact [of ?c "start + b" start 0 0 ?r] that b c n by simp
  moreover have "saturatedNanosProduct ?c ?n = min (?c * ?n) max_int64" if "0 < ?c"
    using that n by (simp add: saturatedNanosProduct_exact)
  moreover have "max 1 ?n = ?n" using n by linarith
  ultimately show ?thesis
    unfolding billedCost_rounded [OF assms(2)] b_def [symmetric]
    by (simp add: billedReference_def Let_def max.commute [of _ "q_MinimumChargeNanos quote"]
        min_max_clip c del: of_nat_0_less_iff)
qed

subsection \<open>Properties\<close>

definition sample_quote :: PriceQuote where
  "sample_quote = \<lparr>q_ID = 1, q_Provider = ''linode'', q_Driver = ''linode'', q_InstanceType = ''g6-standard-2'',
     q_Currency = ''USD'', q_PerHourNanos = 36000000, q_PerMonthNanos = 24000000000,
     q_SnapshotGBMonthNanos = 0, q_MinimumChargeNanos = 0, q_BillingQuantum = hour,
     q_MinimumDuration = hour, q_Source = ''api'', q_ObservedAt = 0\<rparr>"

text \<open>
  C6. The router's estimate and the ledger's bill are the same amount: for every interval that
  is not empty and whose rounding up to the billing quantum does not overflow, and every quote with a positive hourly rate
  (or a minimum charge within one month's cap), \<open>billedCost\<close> and \<open>resourceBilledNanos\<close> agree,
  although one loop returns early on overflow and the other saturates each addition. Outside these
  conditions nothing is claimed: without an hourly rate and with a minimum charge above the monthly cap the two differ.
\<close>

theorem billedCost_agrees:
  assumes "quote_ok quote" "start < stop"
    and "0 < q_BillingQuantum quote \<longrightarrow> time_sub stop start + q_BillingQuantum quote \<le> max_int64"
    and "0 < q_PerHourNanos quote \<or> q_MinimumChargeNanos quote \<le> q_PerMonthNanos quote"
  shows "billedCost quote start stop = resourceBilledNanos quote start stop"
  using billedCost_reference [OF assms(1,2)] resourceBilledNanos_reference [OF assms(1,4)] assms(3)
  by simp

theorem billedCost_agrees_witness:
  "billedCost sample_quote 0 (90 * minute) = resourceBilledNanos sample_quote 0 (90 * minute) \<and>
   resourceBilledNanos sample_quote 0 (90 * minute) = 72000000"
proof
  show "billedCost sample_quote 0 (90 * minute) = resourceBilledNanos sample_quote 0 (90 * minute)"
  proof (rule billedCost_agrees)
    show "quote_ok sample_quote" by code_simp
    show "0 < 90 * minute" by simp
    show "0 < q_BillingQuantum sample_quote \<longrightarrow>
          time_sub (90 * minute) 0 + q_BillingQuantum sample_quote \<le> max_int64" by code_simp
    show "0 < q_PerHourNanos sample_quote \<or>
          q_MinimumChargeNanos sample_quote \<le> q_PerMonthNanos sample_quote" by code_simp
  qed
  show "resourceBilledNanos sample_quote 0 (90 * minute) = 72000000" by code_simp
qed

text \<open>
  The monthly cap applies to every UTC calendar month on its own: the ledger's bill is the
  minimum charge or the sum, over the months the rounded interval touches, of the hourly
  amount of that month limited to the cap, and never more than the cap times the number of
  months; everything is clipped at the largest int64.
\<close>

theorem resourceBilledNanos_per_month:
  assumes "quote_ok quote" "0 < q_PerHourNanos quote" "0 < q_PerMonthNanos quote"
  shows "resourceBilledNanos quote start stop =
    (let billed = roundedBillingDuration (time_sub stop start) (q_BillingQuantum quote) (q_MinimumDuration quote);
         segs = month_segs start (start + billed)
     in min max_int64 (min (q_PerMonthNanos quote * max 1 (int (length segs)))
          (max (q_MinimumChargeNanos quote)
            (\<Sum>d\<leftarrow>segs. min (proportionalNanos (q_PerHourNanos quote) d hour) (q_PerMonthNanos quote)))))"
  using resourceBilledNanos_reference [OF assms(1)] assms(2,3)
  by (simp add: billedReference_def cappedMonths_def cappedSegment_def [abs_def] Let_def)

theorem resourceBilledNanos_per_month_witness:
  "resourceBilledNanos sample_quote 0 (60 * 24 * hour) =
    (let billed = roundedBillingDuration (time_sub (60 * 24 * hour) 0) (q_BillingQuantum sample_quote)
                    (q_MinimumDuration sample_quote);
         segs = month_segs 0 (0 + billed)
     in min max_int64 (min (q_PerMonthNanos sample_quote * max 1 (int (length segs)))
          (max (q_MinimumChargeNanos sample_quote)
            (\<Sum>d\<leftarrow>segs. min (proportionalNanos (q_PerHourNanos sample_quote) d hour) (q_PerMonthNanos sample_quote)))))
   \<and> resourceBilledNanos sample_quote 0 (60 * 24 * hour) = 24000000000 + 24000000000 + 36000000 * 24"
proof
  show "resourceBilledNanos sample_quote 0 (60 * 24 * hour) = 24000000000 + 24000000000 + 36000000 * 24"
    by code_simp
qed (rule resourceBilledNanos_per_month; code_simp)

text \<open>
  Keeping a worker longer never lowers its bill, so the marginal cost the router charges
  an idle or queued worker is never negative before it is clamped at zero.
\<close>

theorem resourceBilledNanos_mono:
  assumes "quote_ok quote" "0 \<le> q_MinimumDuration quote" "stop \<le> stop'"
    and "0 < q_BillingQuantum quote \<longrightarrow> time_sub stop' start + q_BillingQuantum quote \<le> max_int64"
    and "0 < q_PerHourNanos quote \<or> q_MinimumChargeNanos quote \<le> q_PerMonthNanos quote"
  shows "resourceBilledNanos quote start stop \<le> resourceBilledNanos quote start stop'"
proof -
  have "time_sub stop start \<le> time_sub stop' start" "time_sub stop' start \<le> max_int64"
    using assms(3) time_sub_in_int64 by (auto simp: time_sub_def in_int64_def intro: sat64_mono)
  then show ?thesis
    unfolding resourceBilledNanos_reference [OF assms(1,5)]
    using assms(2,4) by (intro billedReference_mono roundedBillingDuration_mono) auto
qed

theorem resourceBilledNanos_mono_witness:
  "resourceBilledNanos sample_quote 0 (50 * minute) \<le> resourceBilledNanos sample_quote 0 (70 * minute)"
  by (rule resourceBilledNanos_mono) code_simp+

text \<open>
  Rounding: for an elapsed time whose rounding does not overflow, the billed duration is at
  least the elapsed time and the provider's minimum; above the minimum it is a multiple of the
  billing quantum less than one quantum longer than the elapsed time.
\<close>

theorem roundedBillingDuration_covers:
  assumes "0 \<le> elapsed" "0 < quantum" "elapsed + quantum \<le> max_int64"
  shows "elapsed \<le> roundedBillingDuration elapsed quantum minimum \<and>
         minimum \<le> roundedBillingDuration elapsed quantum minimum \<and>
         (roundedBillingDuration elapsed quantum minimum = minimum \<or>
          quantum dvd roundedBillingDuration elapsed quantum minimum \<and>
          roundedBillingDuration elapsed quantum minimum < elapsed + quantum)"
  using assms roundUp_bounds [OF assms(2), of elapsed]
  by (auto simp: roundedBillingDuration_exact max_def)

theorem roundedBillingDuration_covers_witness:
  "61 * minute \<le> roundedBillingDuration (61 * minute) hour 0 \<and>
   roundedBillingDuration (61 * minute) hour 0 = 2 * hour"
  using roundedBillingDuration_covers [of "61 * minute" hour 0]
  by (auto simp: roundedBillingDuration_exact roundUp_def go_units max_int64_def)

text \<open>
  Converting an amount to the score currency rounds half up: for a non-negative amount and
  a positive rate the result differs from the exact rational product by at most one half, or
  is the largest int64 when the rounded product does not fit.
\<close>

theorem normalizeNanos_half_up:
  assumes "0 \<le> v" "0 < num" "0 < den"
  shows "\<exists>q. 2 * den * q \<le> 2 * v * num + den \<and> 2 * v * num + den < 2 * den * (q + 1) \<and>
             normalizeNanos v (Some (num, den)) = (min q max_int64, True)"
proof -
  define q where "q = (2 * v * num + den) div (2 * den)"
  obtain k r where kr: "v * num = den * k + r" "0 \<le> r" "r < den"
    using assms(3) by (metis mult_div_mod_eq pos_mod_bound pos_mod_sign)
  have vn: "0 \<le> v * num" using assms by simp
  have dm: "(v * num) sdiv den = k" "(v * num) smod den = r"
    unfolding sdiv_pos [OF vn assms(3)] smod_pos [OF vn assms(3)] using kr by simp_all
  have nn: "0 \<le> k"
    using vn assms(3) dm(1) by (simp add: sdiv_pos pos_imp_zdiv_nonneg_iff flip: dm(1))
  have "q = (if 2 * r \<ge> den then k + 1 else k)"
    unfolding q_def using kr assms(3)
    by (intro int_div_pos_eq [where r = "if 2 * r \<ge> den then 2 * r - den else 2 * r + den"])
      (auto simp: algebra_simps)
  moreover from this have "normalizeNanos v (Some (num, den)) = (min q max_int64, True)"
    using assms dm nn by (auto simp: normalizeNanos_def Let_def in_int64_nonneg min_def)
  ultimately show ?thesis
    using kr by (intro exI [of _ q]) (auto simp: algebra_simps)
qed

theorem normalizeNanos_half_up_witness:
  "\<exists>q. 2 * 100 * q \<le> 2 * 250 * 107 + (100::int) \<and> 2 * 250 * 107 + 100 < 2 * 100 * (q + 1) \<and>
       normalizeNanos 250 (Some (107, 100)) = (min q max_int64, True)"
  by (rule normalizeNanos_half_up) simp_all

end
