(* ===== verification/Teardown.thy ===== *)
theory Teardown
  imports Pool Billing
begin

text \<open>
  The teardown policy, src/internal/orchestrator/teardown.go: when an idle worker may be
  destroyed under per-second and under hourly billing, and the billing-window view the control
  plane and the router read. \<open>NextKillMark\<close> is Go arithmetic on durations: \<open>sdiv\<close> truncates and
  the products wrap.
\<close>

datatype BillingModel = BillingPerSecond | BillingHourlyRoundUp | BillingOther int

record TeardownPolicy =
  Model :: BillingModel
  IdleTimeout :: duration
  HourMargin :: duration
  BillingHour :: duration

record TeardownTiming =
  PaidHourEndAt :: instant
  ReapEligibleAt :: instant
  BillingModelName :: string

definition billingModelPerSecond :: string where
  "billingModelPerSecond = ''per_second''"

definition billingModelHourlyRoundUp :: string where
  "billingModelHourlyRoundUp = ''hourly_round_up''"

definition NextKillMark :: "instant \<Rightarrow> instant \<Rightarrow> duration \<Rightarrow> duration \<Rightarrow> instant" where
  "NextKillMark created now cycle margin =
     (let cycle = (if cycle \<le> 0 then hour else cycle);
          now = (if now < created then created else now);
          completed = time_sub now created sdiv cycle
      in time_add created (wrap64 (wrap64 (wrap64 (completed + 1) * cycle) - margin)))"

definition cycle :: "TeardownPolicy \<Rightarrow> duration" where
  "cycle tp = (if BillingHour tp > 0 then BillingHour tp else hour)"

definition ShouldTeardown :: "TeardownPolicy \<Rightarrow> Node \<Rightarrow> instant \<Rightarrow> bool" where
  "ShouldTeardown tp n now =
     (case Model tp of
        BillingPerSecond \<Rightarrow> time_sub now (LastBusy n) \<ge> IdleTimeout tp
      | BillingHourlyRoundUp \<Rightarrow> \<not> now < NextKillMark (CreatedAt n) now (cycle tp) (HourMargin tp)
      | BillingOther _ \<Rightarrow> False)"

definition Timing :: "TeardownPolicy \<Rightarrow> Node \<Rightarrow> instant \<Rightarrow> TeardownTiming" where
  "Timing tp n now =
     (case Model tp of
        BillingPerSecond \<Rightarrow>
          let reap = (if \<not> is_zero (LastBusy n) then time_add (LastBusy n) (IdleTimeout tp) else zero_time)
          in \<lparr>PaidHourEndAt = zero_time, ReapEligibleAt = reap, BillingModelName = billingModelPerSecond\<rparr>
      | BillingHourlyRoundUp \<Rightarrow>
          let (paidEnd, reap) =
                (if \<not> is_zero (CreatedAt n)
                 then let reap = NextKillMark (CreatedAt n) now (cycle tp) (HourMargin tp)
                      in (time_add reap (HourMargin tp), reap)
                 else (zero_time, zero_time))
          in \<lparr>PaidHourEndAt = paidEnd, ReapEligibleAt = reap, BillingModelName = billingModelHourlyRoundUp\<rparr>
      | BillingOther _ \<Rightarrow>
          \<lparr>PaidHourEndAt = zero_time, ReapEligibleAt = zero_time, BillingModelName = ''''\<rparr>)"

subsection \<open>The kill mark\<close>

text \<open>No int64 overflow in the kill mark: the end of the current cycle is within 292 years of creation.\<close>

definition kill_range :: "instant \<Rightarrow> instant \<Rightarrow> duration \<Rightarrow> duration \<Rightarrow> bool" where
  "kill_range created now cyc margin \<longleftrightarrow>
     0 < cyc \<and> created \<le> now \<and> 0 \<le> margin \<and> margin \<le> max_int64 \<and> (now - created) + cyc \<le> max_int64"

lemma cycle_split:
  assumes "0 < cyc"
  obtains k r :: int where "now - created = k * cyc + r" "0 \<le> r" "r < cyc"
    "(now - created) div cyc = k" "(now - created) mod cyc = r"
  using assms pos_mod_sign [of cyc "now - created"] pos_mod_bound [of cyc "now - created"] div_mult_mod_eq
  by (metis (no_types))

lemma NextKillMark_exact:
  assumes "kill_range created now cyc margin"
  shows "NextKillMark created now cyc margin = created + ((now - created) div cyc + 1) * cyc - margin"
proof -
  have r: "0 < cyc" "created \<le> now" "0 \<le> margin" "margin \<le> max_int64" "(now - created) + cyc \<le> max_int64"
    using assms by (simp_all add: kill_range_def)
  obtain k d where kd: "now - created = k * cyc + d" "0 \<le> d" "d < cyc" "(now - created) div cyc = k"
    using cycle_split [OF r(1)] by metis
  have k0: "0 \<le> k" using r kd(4) by (simp add: pos_imp_zdiv_nonneg_iff flip: kd(4))
  obtain m where m: "m = (k + 1) * cyc" by simp
  have "(k + 1) * 1 \<le> m" unfolding m using k0 r(1) by (intro mult_left_mono) auto
  moreover have "m \<le> (now - created) + cyc" unfolding m kd(1) using kd(2) by (simp add: distrib_right)
  ultimately have prod: "0 \<le> m" "m \<le> max_int64" "k + 1 \<le> m" using k0 r(5) by auto
  then have "in_int64 (k + 1)" "in_int64 m" "in_int64 (m - margin)"
    using k0 r by (auto simp: in_int64_def min_int64_def max_int64_def)
  moreover have "time_sub now created = now - created"
    using r by (intro time_sub_id) (simp add: in_int64_nonneg)
  ultimately show ?thesis
    using r kd(4) m by (simp add: NextKillMark_def Let_def go_arith time_add_def)
qed

lemma kill_mark_window:
  assumes "kill_range created now cyc margin"
  shows "now < NextKillMark created now cyc margin + margin \<and>
    NextKillMark created now cyc margin + margin \<le> now + cyc \<and>
    cyc dvd NextKillMark created now cyc margin + margin - created"
proof -
  have r: "0 < cyc" using assms by (simp add: kill_range_def)
  obtain k d where "now - created = k * cyc + d" "0 \<le> d" "d < cyc" "(now - created) div cyc = k"
    using cycle_split [OF r] by metis
  then show ?thesis
    unfolding NextKillMark_exact [OF assms] by (simp add: distrib_right)
qed

lemma cycle_pos: "0 < cycle tp"
  by (simp add: cycle_def)

subsection \<open>Properties\<close>

definition sample_node :: Node where
  "sample_node = Node_zero\<lparr>InstanceID := ''101'', State := StateIdle, CreatedAt := 0, LastBusy := 10 * minute\<rparr>"

definition hourly_policy :: TeardownPolicy where
  "hourly_policy = \<lparr>Model = BillingHourlyRoundUp, IdleTimeout = 5 * minute, HourMargin = 5 * minute, BillingHour = 0\<rparr>"

text \<open>
  C16. The :55 rule. Under hourly billing an idle worker is torn down exactly when the time left
  in the paid cycle that \<open>now\<close> falls in is at most the margin; the end of that cycle lies after
  \<open>now\<close> and a whole number of cycles after creation, so a worker is neither destroyed early in
  an hour that is already paid nor kept into the next one once its margin has begun.
\<close>

theorem ShouldTeardown_last_margin:
  assumes "Model tp = BillingHourlyRoundUp"
    and "kill_range (CreatedAt n) now (cycle tp) (HourMargin tp)"
  shows "\<exists>paidEnd. now < paidEnd \<and> paidEnd \<le> now + cycle tp \<and> cycle tp dvd paidEnd - CreatedAt n \<and>
           PaidHourEndAt (Timing tp n now) = (if is_zero (CreatedAt n) then zero_time else paidEnd) \<and>
           (ShouldTeardown tp n now \<longleftrightarrow> paidEnd - now \<le> HourMargin tp)"
proof -
  let ?k = "NextKillMark (CreatedAt n) now (cycle tp) (HourMargin tp)"
  have "ShouldTeardown tp n now \<longleftrightarrow> ?k + HourMargin tp - now \<le> HourMargin tp"
    using assms(1) by (auto simp: ShouldTeardown_def)
  then show ?thesis
    using kill_mark_window [OF assms(2)] assms(1)
    by (intro exI [of _ "?k + HourMargin tp"]) (auto simp: Timing_def Let_def time_add_def)
qed

theorem ShouldTeardown_last_margin_witness:
  "\<exists>paidEnd. 56 * minute < paidEnd \<and> paidEnd \<le> 56 * minute + cycle hourly_policy \<and>
     cycle hourly_policy dvd paidEnd - CreatedAt sample_node \<and>
     PaidHourEndAt (Timing hourly_policy sample_node (56 * minute)) =
       (if is_zero (CreatedAt sample_node) then zero_time else paidEnd) \<and>
     (ShouldTeardown hourly_policy sample_node (56 * minute) \<longleftrightarrow>
       paidEnd - 56 * minute \<le> HourMargin hourly_policy)"
  by (rule ShouldTeardown_last_margin) code_simp+

text \<open>
  The control plane's view does not disagree with the decision: for a worker whose creation
  and last-busy times are known, \<open>ShouldTeardown\<close> holds exactly when the \<open>ReapEligibleAt\<close> of
  \<open>Timing\<close> has been reached, under both billing models.
\<close>

theorem Timing_agrees:
  assumes "Model tp = BillingPerSecond \<or> Model tp = BillingHourlyRoundUp"
    and "\<not> is_zero (CreatedAt n)" "\<not> is_zero (LastBusy n)" "in_int64 (now - LastBusy n)"
  shows "ShouldTeardown tp n now \<longleftrightarrow> ReapEligibleAt (Timing tp n now) \<le> now"
  using assms by (auto simp: ShouldTeardown_def Timing_def Let_def time_add_def go_arith)

theorem Timing_agrees_witness:
  "ShouldTeardown hourly_policy sample_node (54 * minute) \<longleftrightarrow>
     ReapEligibleAt (Timing hourly_policy sample_node (54 * minute)) \<le> 54 * minute"
  by (rule Timing_agrees) code_simp+

end
