(* ===== verification/Ledger_Store.thy ===== *)
theory Ledger_Store
  imports Ledger_Types "HOL-Library.Product_Lexorder" "HOL-Library.List_Lexorder" "HOL-Library.Char_ord"
begin

text \<open>
  The durable ledger's core, src/internal/storage/sqlite.go over the tables of schema.go: the
  transaction wrapper \<open>write\<close>, the write-health state, and the operations on mutations,
  resources, generations and phases.

  \<^item> A table is the list of its rows, a row the Go record; a nullable column holds Go's zero
    value for NULL (row number 0, the zero time, the empty string), as \<open>nullableID\<close>,
    \<open>nullableTime\<close> and \<open>nullableString\<close> store it and the \<open>scan\<close> functions read it back.
  \<^item> A statement changes the tables and then checks every constraint of the schema
    (\<open>checked\<close>): unique columns, partial unique indexes and foreign keys.
  \<^item> A failure of the database or the disk is a draw from \<open>io\<close>, one per transaction or query,
    whose order the environment chooses: theorems hold for every sequence of failures.
  \<^item> \<open>now\<close> is the store's own reading of \<open>time.Now()\<close>. Instants lie in the range \<open>UnixNano\<close> is
    defined on.
\<close>

subsection \<open>Tables\<close>

record RoutingDecisionRow = RoutingDecision +
  d_OptimizationReleasedAt :: instant

record Tables =
  t_quotes :: "PriceQuote list"
  t_resources :: "Resource list"
  t_generations :: "Generation list"
  t_jobs :: "Job list"
  t_snapshots :: "Snapshot list"
  t_phases :: "Phase list"
  t_mutations :: "Mutation list"
  t_costs :: "CostEntry list"
  t_decisions :: "RoutingDecisionRow list"
  t_scores :: "RoutingCandidateScore list"

definition fk :: "int \<Rightarrow> int list \<Rightarrow> bool" where
  "fk i ids \<longleftrightarrow> i = 0 \<or> i \<in> set ids"

definition fk_req :: "int \<Rightarrow> int list \<Rightarrow> bool" where
  "fk_req i ids \<longleftrightarrow> i \<in> set ids"

definition nextID :: "('r \<Rightarrow> int) \<Rightarrow> 'r list \<Rightarrow> int" where
  "nextID f rows = foldr (\<lambda>r m. max (f r) m) rows 0 + 1"

definition quotes_ok :: "Tables \<Rightarrow> bool" where
  "quotes_ok d \<longleftrightarrow> distinct (map q_ID (t_quotes d)) \<and>
     (\<forall>q \<in> set (t_quotes d). 0 \<le> q_PerHourNanos q \<and> 0 \<le> q_PerMonthNanos q \<and>
        0 \<le> q_SnapshotGBMonthNanos q \<and> 0 \<le> q_MinimumChargeNanos q \<and>
        0 \<le> q_BillingQuantum q \<and> 0 \<le> q_MinimumDuration q)"

definition resources_ok :: "Tables \<Rightarrow> bool" where
  "resources_ok d \<longleftrightarrow> distinct (map r_ID (t_resources d)) \<and>
     distinct (map r_OperationID (t_resources d)) \<and>
     distinct (map (\<lambda>r. (r_Provider r, r_ExternalID r)) (filter (\<lambda>r. r_ExternalID r \<noteq> '''') (t_resources d))) \<and>
     (\<forall>r \<in> set (t_resources d). fk (r_PriceQuoteID r) (map q_ID (t_quotes d)))"

definition generations_ok :: "Tables \<Rightarrow> bool" where
  "generations_ok d \<longleftrightarrow> distinct (map g_ID (t_generations d)) \<and>
     distinct (map g_OperationID (t_generations d)) \<and>
     distinct (map (\<lambda>g. (g_ResourceID g, g_Number g)) (t_generations d)) \<and>
     (\<forall>g \<in> set (t_generations d). fk_req (g_ResourceID g) (map r_ID (t_resources d)))"

definition jobs_ok :: "Tables \<Rightarrow> bool" where
  "jobs_ok d \<longleftrightarrow> distinct (map j_ID (t_jobs d)) \<and>
     distinct (map (\<lambda>j. (j_Source j, j_Handle j)) (t_jobs d)) \<and>
     (\<forall>j \<in> set (t_jobs d). fk (j_ResourceID j) (map r_ID (t_resources d)) \<and>
        fk (j_GenerationID j) (map g_ID (t_generations d)))"

definition snapshots_ok :: "Tables \<Rightarrow> bool" where
  "snapshots_ok d \<longleftrightarrow> distinct (map s_ID (t_snapshots d)) \<and>
     distinct (map s_OperationID (t_snapshots d)) \<and>
     distinct (map (\<lambda>s. (s_Provider s, s_ExternalID s)) (filter (\<lambda>s. s_ExternalID s \<noteq> '''') (t_snapshots d))) \<and>
     distinct (map (\<lambda>s. (s_Provider s, s_Tier s)) (filter (\<lambda>s. s_State s = SnapshotActive) (t_snapshots d))) \<and>
     (\<forall>s \<in> set (t_snapshots d). 0 \<le> s_SizeBytes s \<and> fk (s_SourceResourceID s) (map r_ID (t_resources d)))"

definition phases_ok :: "Tables \<Rightarrow> bool" where
  "phases_ok d \<longleftrightarrow> distinct (map p_ID (t_phases d)) \<and>
     (\<forall>p \<in> set (t_phases d). fk_req (p_ResourceID p) (map r_ID (t_resources d)) \<and>
        fk (p_GenerationID p) (map g_ID (t_generations d)) \<and> fk (p_JobID p) (map j_ID (t_jobs d)))"

definition mutations_ok :: "Tables \<Rightarrow> bool" where
  "mutations_ok d \<longleftrightarrow> distinct (map m_OperationID (t_mutations d)) \<and>
     (\<forall>m \<in> set (t_mutations d). fk (m_ResourceID m) (map r_ID (t_resources d)) \<and>
        fk (m_SnapshotID m) (map s_ID (t_snapshots d)))"

fun isTerminalCostKind :: "CostKind \<Rightarrow> bool" where
  "isTerminalCostKind CostDirectCompute = True"
| "isTerminalCostKind CostBilledCompute = True"
| "isTerminalCostKind CostBillingOverhead = True"
| "isTerminalCostKind CostImageBuilder = True"
| "isTerminalCostKind CostSnapshotStorage = True"
| "isTerminalCostKind CostBoot = False"
| "isTerminalCostKind CostWarmIdle = False"
| "isTerminalCostKind CostReset = False"
| "isTerminalCostKind CostUnset = False"

text \<open>The key of the index \<open>cost_entries_idempotency\<close> (schema.go, third migration).\<close>

definition cost_key :: "CostEntry \<Rightarrow> int \<times> int \<times> int \<times> CostKind \<times> instant \<times> instant" where
  "cost_key c = (c_ResourceID c, c_SnapshotID c, c_JobID c, c_Kind c, c_StartedAt c,
     if isTerminalCostKind (c_Kind c) then 0 else c_EndedAt c)"

definition costs_ok :: "Tables \<Rightarrow> bool" where
  "costs_ok d \<longleftrightarrow> distinct (map c_ID (t_costs d)) \<and> distinct (map cost_key (t_costs d)) \<and>
     (\<forall>c \<in> set (t_costs d). 0 \<le> c_Nanos c \<and> fk (c_ResourceID c) (map r_ID (t_resources d)) \<and>
        fk (c_SnapshotID c) (map s_ID (t_snapshots d)) \<and> fk (c_JobID c) (map j_ID (t_jobs d)) \<and>
        fk (c_PriceQuoteID c) (map q_ID (t_quotes d)))"

definition decisions_ok :: "Tables \<Rightarrow> bool" where
  "decisions_ok d \<longleftrightarrow> distinct (map d_ID (t_decisions d)) \<and> distinct (map d_JobID (t_decisions d)) \<and>
     (\<forall>r \<in> set (t_decisions d). fk_req (d_JobID r) (map j_ID (t_jobs d)) \<and>
        0 \<le> d_ProfileSamples r \<and> 0 \<le> d_PredictedP95 r \<and> 0 \<le> d_DeferCount r \<and>
        0 \<le> d_SelectedCostNanos r \<and> 0 \<le> d_FallbackCostNanos r \<and>
        0 \<le> d_OptimizationQueuePosition r \<and> 0 \<le> d_OptimizationWait r)"

definition scores_ok :: "Tables \<Rightarrow> bool" where
  "scores_ok d \<longleftrightarrow> distinct (map (\<lambda>k. (k_DecisionID k, k_Tier k)) (t_scores d)) \<and>
     (\<forall>k \<in> set (t_scores d). fk_req (k_DecisionID k) (map d_ID (t_decisions d)) \<and>
        fk (k_PriceQuoteID k) (map q_ID (t_quotes d)) \<and>
        0 \<le> k_PendingWorkers k \<and> 0 \<le> k_MaxInstances k \<and> 0 \<le> k_ProfileSamples k \<and>
        0 \<le> k_PredictedRun k \<and> 0 \<le> k_ProvisionP95 k \<and> 0 \<le> k_ResetP95 k \<and>
        0 \<le> k_NativeCostNanos k \<and> 0 \<le> k_ScoreCostNanos k \<and>
        0 \<le> k_OptimizationQueuePosition k \<and> 0 \<le> k_OptimizationWait k)"

definition tables_ok :: "Tables \<Rightarrow> bool" where
  "tables_ok d \<longleftrightarrow> quotes_ok d \<and> resources_ok d \<and> generations_ok d \<and> jobs_ok d \<and> snapshots_ok d \<and>
     phases_ok d \<and> mutations_ok d \<and> costs_ok d \<and> decisions_ok d \<and> scores_ok d"

definition checked :: "Tables \<Rightarrow> Tables result" where
  "checked d = (if tables_ok d then Inr d else Inl (ErrConstraint ''constraint failed''))"

definition bindE :: "'a result \<Rightarrow> ('a \<Rightarrow> 'b result) \<Rightarrow> 'b result" where
  "bindE r f = (case r of Inl e \<Rightarrow> Inl e | Inr a \<Rightarrow> f a)"

definition updateWhere :: "('r \<Rightarrow> bool) \<Rightarrow> ('r \<Rightarrow> 'r) \<Rightarrow> 'r list \<Rightarrow> 'r list" where
  "updateWhere P f rows = map (\<lambda>r. if P r then f r else r) rows"

definition requireAffected :: "nat \<Rightarrow> unit result" where
  "requireAffected count = (if count = 0 then Inl ErrNotFound else Inr ())"

subsection \<open>The store and its transactions\<close>

record SQLite =
  tables :: Tables
  lastWrite :: instant
  lastError :: string
  io :: "string option list"

record Health =
  Healthy :: bool
  LastSuccessfulWrite :: instant
  LastError :: string

fun errorText :: "go_error \<Rightarrow> string" where
  "errorText ErrNotFound = ''storage record not found''"
| "errorText (ErrConstraint e) = ''constraint: '' @ e"
| "errorText (ErrIO e) = ''sqlite: '' @ e"
| "errorText (ErrMsg e) = ''storage: '' @ e"
| "errorText (ErrOther e) = e"

definition draw :: "SQLite \<Rightarrow> string option \<times> SQLite" where
  "draw s = (case io s of [] \<Rightarrow> (None, s) | e # es \<Rightarrow> (e, s\<lparr>io := es\<rparr>))"

definition setWriteError :: "go_error \<Rightarrow> SQLite \<Rightarrow> SQLite" where
  "setWriteError e s = s\<lparr>lastError := errorText e\<rparr>"

text \<open>
  \<open>writeTx\<close> is the method \<open>write\<close>: begin, run \<open>fn\<close>, record the time of the write, commit. A failure anywhere rolls the
  tables back and is remembered; success clears the remembered failure.
\<close>

definition writeTx :: "instant \<Rightarrow> (Tables \<Rightarrow> ('a \<times> Tables) result) \<Rightarrow> SQLite \<Rightarrow> 'a result \<times> SQLite" where
  "writeTx now fn s =
     (case draw s of
        (Some e, s) \<Rightarrow> (Inl (ErrIO e), setWriteError (ErrIO e) s)
      | (None, s) \<Rightarrow>
          (case fn (tables s) of
             Inl e \<Rightarrow> (Inl e, setWriteError e s)
           | Inr (a, d) \<Rightarrow> (Inr a, s\<lparr>tables := d, lastWrite := now, lastError := ''''\<rparr>)))"

definition query :: "(Tables \<Rightarrow> 'a result) \<Rightarrow> SQLite \<Rightarrow> 'a result \<times> SQLite" where
  "query f s =
     (case draw s of
        (Some e, s) \<Rightarrow> (Inl (ErrIO e), s)
      | (None, s) \<Rightarrow> (f (tables s), s))"

definition storeHealth :: "string option \<Rightarrow> SQLite \<Rightarrow> Health" where
  "storeHealth pingErr s =
     (case pingErr of
        None \<Rightarrow> \<lparr>Healthy = (lastError s = ''''), LastSuccessfulWrite = lastWrite s, LastError = lastError s\<rparr>
      | Some e \<Rightarrow> \<lparr>Healthy = False, LastSuccessfulWrite = lastWrite s, LastError = e\<rparr>)"

text \<open>Go's \<open>strings.TrimSpace\<close>, \<open>strings.ToUpper\<close> and \<open>strings.ToLower\<close> on ASCII text.\<close>

definition isSpace :: "char \<Rightarrow> bool" where
  "isSpace c \<longleftrightarrow> c = CHR '' '' \<or> (9 \<le> (of_char c :: nat) \<and> (of_char c :: nat) \<le> 13)"

definition trimSpace :: "string \<Rightarrow> string" where
  "trimSpace s = rev (dropWhile isSpace (rev (dropWhile isSpace s)))"

definition toUpper :: "string \<Rightarrow> string" where
  "toUpper s = map (\<lambda>c. if 97 \<le> (of_char c :: nat) \<and> (of_char c :: nat) \<le> 122
                        then char_of ((of_char c :: nat) - 32) else c) s"

definition toLower :: "string \<Rightarrow> string" where
  "toLower s = map (\<lambda>c. let n = of_char c :: nat in if 65 \<le> n \<and> n \<le> 90 then char_of (n + 32) else c) s"

definition require :: "string \<Rightarrow> string \<Rightarrow> unit result" where
  "require name v = (if trimSpace v = '''' then Inl (ErrMsg (name @ '' is required'')) else Inr ())"

fun requireAll :: "(string \<times> string) list \<Rightarrow> unit result" where
  "requireAll [] = Inr ()"
| "requireAll ((name, v) # rest) = bindE (require name v) (\<lambda>_. requireAll rest)"

definition normalizeTime :: "instant \<Rightarrow> instant \<Rightarrow> instant" where
  "normalizeTime now v = (if is_zero v then now else v)"

subsection \<open>Statements\<close>

definition insertMutation :: "Mutation \<Rightarrow> Tables \<Rightarrow> Tables result" where
  "insertMutation m d = checked (d\<lparr>t_mutations := t_mutations d @ [m]\<rparr>)"

definition updateMutations :: "(Mutation \<Rightarrow> bool) \<Rightarrow> (Mutation \<Rightarrow> Mutation) \<Rightarrow> Tables \<Rightarrow> Tables result" where
  "updateMutations P f d = checked (d\<lparr>t_mutations := updateWhere P f (t_mutations d)\<rparr>)"

definition pendingMutation :: "string \<Rightarrow> string \<Rightarrow> string \<Rightarrow> string \<Rightarrow> int \<Rightarrow> int \<Rightarrow> instant \<Rightarrow> Mutation" where
  "pendingMutation op kind provider tier resourceID snapshotID at =
     \<lparr>m_OperationID = op, m_Kind = kind, m_Provider = provider, m_Tier = tier,
      m_ResourceID = resourceID, m_SnapshotID = snapshotID, m_State = MutationPending,
      m_ExternalID = '''', m_Detail = '''', m_CreatedAt = at, m_CompletedAt = zero_time\<rparr>"

definition insertResource :: "Resource \<Rightarrow> Tables \<Rightarrow> (int \<times> Tables) result" where
  "insertResource r d =
     (let i = nextID r_ID (t_resources d)
      in bindE (checked (d\<lparr>t_resources := t_resources d @ [r\<lparr>r_ID := i\<rparr>]\<rparr>)) (\<lambda>d. Inr (i, d)))"

definition updateResources :: "(Resource \<Rightarrow> bool) \<Rightarrow> (Resource \<Rightarrow> Resource) \<Rightarrow> Tables \<Rightarrow> (nat \<times> Tables) result" where
  "updateResources P f d =
     bindE (checked (d\<lparr>t_resources := updateWhere P f (t_resources d)\<rparr>))
       (\<lambda>d'. Inr (length (filter P (t_resources d)), d'))"

definition insertGeneration :: "Generation \<Rightarrow> Tables \<Rightarrow> (int \<times> Tables) result" where
  "insertGeneration g d =
     (let i = nextID g_ID (t_generations d)
      in bindE (checked (d\<lparr>t_generations := t_generations d @ [g\<lparr>g_ID := i\<rparr>]\<rparr>)) (\<lambda>d. Inr (i, d)))"

definition updateGenerations :: "(Generation \<Rightarrow> bool) \<Rightarrow> (Generation \<Rightarrow> Generation) \<Rightarrow> Tables \<Rightarrow> (nat \<times> Tables) result" where
  "updateGenerations P f d =
     bindE (checked (d\<lparr>t_generations := updateWhere P f (t_generations d)\<rparr>))
       (\<lambda>d'. Inr (length (filter P (t_generations d)), d'))"

text \<open>\<open>SELECT COALESCE(MAX(generation_number), 0) + 1 FROM generations WHERE resource_id = ?\<close>\<close>

definition nextNumber :: "int \<Rightarrow> Tables \<Rightarrow> int" where
  "nextNumber resourceID d =
     (case map g_Number (filter (\<lambda>g. g_ResourceID g = resourceID) (t_generations d)) of
        [] \<Rightarrow> 1
      | n # ns \<Rightarrow> fold max ns n + 1)"

text \<open>The operation ID of the row with a given number, as the subselects of the updates read it.\<close>

definition resourceOperation :: "int \<Rightarrow> Tables \<Rightarrow> string option" where
  "resourceOperation i d = map_option r_OperationID (find (\<lambda>r. r_ID r = i) (t_resources d))"

definition generationOperation :: "int \<Rightarrow> Tables \<Rightarrow> string option" where
  "generationOperation i d = map_option g_OperationID (find (\<lambda>g. g_ID g = i) (t_generations d))"

subsection \<open>Mutations\<close>

definition BeginMutation :: "instant \<Rightarrow> Mutation \<Rightarrow> SQLite \<Rightarrow> unit result \<times> SQLite" where
  "BeginMutation now mutation s =
     (case requireAll [(''operation ID'', m_OperationID mutation), (''mutation kind'', m_Kind mutation),
                       (''provider'', m_Provider mutation)] of
        Inl e \<Rightarrow> (Inl e, s)
      | Inr _ \<Rightarrow>
          let mutation = (if m_State mutation = MutationUnset then mutation\<lparr>m_State := MutationPending\<rparr> else mutation);
              mutation = mutation\<lparr>m_CreatedAt := normalizeTime now (m_CreatedAt mutation)\<rparr>
          in writeTx now (\<lambda>d. bindE (insertMutation mutation d) (\<lambda>d. Inr ((), d))) s)"

definition FinishMutation :: "instant \<Rightarrow> string \<Rightarrow> MutationState \<Rightarrow> string \<Rightarrow> string \<Rightarrow> instant \<Rightarrow> SQLite \<Rightarrow> unit result \<times> SQLite" where
  "FinishMutation now operationID state externalID detail at s =
     (case require ''operation ID'' operationID of
        Inl e \<Rightarrow> (Inl e, s)
      | Inr _ \<Rightarrow>
          if state \<noteq> MutationSucceeded \<and> state \<noteq> MutationFailed
          then (Inl (ErrMsg ''terminal mutation state required''), s)
          else writeTx now
            (\<lambda>d. bindE (updateMutations (\<lambda>m. m_OperationID m = operationID)
                          (\<lambda>m. m\<lparr>m_State := state, m_ExternalID := externalID, m_Detail := detail,
                                 m_CompletedAt := normalizeTime now at\<rparr>) d)
              (\<lambda>d'. bindE (requireAffected (length (filter (\<lambda>m. m_OperationID m = operationID) (t_mutations d))))
                (\<lambda>_. Inr ((), d')))) s)"

definition PendingMutations :: "SQLite \<Rightarrow> Mutation list result \<times> SQLite" where
  "PendingMutations = query (\<lambda>d.
     Inr (sort_key (\<lambda>m. (m_CreatedAt m, m_OperationID m)) (filter (\<lambda>m. m_State m = MutationPending) (t_mutations d))))"

subsection \<open>Resources\<close>

text \<open>The required fields come from a Go map, whose order only decides which message is returned.\<close>

definition BeginResource :: "instant \<Rightarrow> Resource \<Rightarrow> SQLite \<Rightarrow> Resource result \<times> SQLite" where
  "BeginResource now resource s =
     (case requireAll [(''operation ID'', r_OperationID resource), (''provider'', r_Provider resource),
                       (''driver'', r_Driver resource), (''tier'', r_Tier resource),
                       (''instance type'', r_InstanceType resource), (''ownership tag'', r_Tag resource)] of
        Inl e \<Rightarrow> (Inl e, s)
      | Inr _ \<Rightarrow>
          let resource = (if r_State resource = ResourceUnset then resource\<lparr>r_State := ResourceProvisioning\<rparr> else resource);
              resource = resource\<lparr>r_OpenedAt := normalizeTime now (r_OpenedAt resource)\<rparr>;
              resource = resource\<lparr>r_UpdatedAt := r_OpenedAt resource\<rparr>
          in writeTx now
               (\<lambda>d. bindE (insertResource resource d)
                 (\<lambda>(i, d). bindE (insertMutation (pendingMutation (r_OperationID resource) ''provision''
                                     (r_Provider resource) (r_Tier resource) i 0 (r_OpenedAt resource)) d)
                   (\<lambda>d. Inr (resource\<lparr>r_ID := i\<rparr>, d)))) s)"

text \<open>\<open>INSERT OR IGNORE\<close>: a row that breaks a uniqueness constraint is skipped.\<close>

definition insertOrIgnoreMutation :: "Mutation \<Rightarrow> Tables \<Rightarrow> Tables result" where
  "insertOrIgnoreMutation m d =
     (if m_OperationID m \<in> set (map m_OperationID (t_mutations d)) then Inr d else insertMutation m d)"

definition normalizeGeneration :: "instant \<Rightarrow> Generation \<Rightarrow> Generation" where
  "normalizeGeneration now generation =
     (let generation = (if g_State generation = GenerationUnset
                        then generation\<lparr>g_State := GenerationPreparing\<rparr> else generation)
      in generation\<lparr>g_StartedAt := normalizeTime now (g_StartedAt generation)\<rparr>)"

definition numberGeneration :: "Generation \<Rightarrow> Tables \<Rightarrow> Generation" where
  "numberGeneration generation d =
     (if g_Number generation = 0
      then generation\<lparr>g_Number := nextNumber (g_ResourceID generation) d\<rparr> else generation)"

text \<open>
  The statements that insert a generation row and its pending mutation, shared by the two
  operations that start a generation; they differ in how the mutation is inserted.
\<close>

definition generationTx :: "(Mutation \<Rightarrow> Tables \<Rightarrow> Tables result) \<Rightarrow> Generation \<Rightarrow> Tables \<Rightarrow> (Generation \<times> Tables) result" where
  "generationTx ins generation d =
     bindE (insertGeneration generation d)
       (\<lambda>(gid, d). case find (\<lambda>r. r_ID r = g_ResourceID generation) (t_resources d) of
           None \<Rightarrow> Inr (generation\<lparr>g_ID := gid\<rparr>, d)
         | Some r \<Rightarrow> bindE (ins (pendingMutation (g_OperationID generation) ''generation''
                              (r_Provider r) (r_Tier r) (r_ID r) 0 (g_StartedAt generation)) d)
             (\<lambda>d. Inr (generation\<lparr>g_ID := gid\<rparr>, d)))"

definition activateRow :: "int \<Rightarrow> string \<Rightarrow> string \<Rightarrow> instant \<Rightarrow> instant \<Rightarrow> Tables \<Rightarrow> Tables result" where
  "activateRow i externalID name providerCreatedAt at d =
     bindE (updateResources (\<lambda>r. r_ID r = i)
              (\<lambda>r. r\<lparr>r_ExternalID := externalID, r_Name := name, r_State := ResourceActive,
                     r_ProviderCreatedAt := providerCreatedAt, r_UpdatedAt := at\<rparr>) d)
       (\<lambda>(n, d). bindE (requireAffected n)
         (\<lambda>_. updateMutations (\<lambda>m. Some (m_OperationID m) = resourceOperation i d)
                (\<lambda>m. m\<lparr>m_State := MutationSucceeded, m_ExternalID := externalID, m_CompletedAt := at\<rparr>) d))"

definition ActivateResource :: "instant \<Rightarrow> int \<Rightarrow> string \<Rightarrow> string \<Rightarrow> instant \<Rightarrow> instant \<Rightarrow> SQLite \<Rightarrow> unit result \<times> SQLite" where
  "ActivateResource now i externalID name providerCreatedAt at s =
     (case require ''external resource ID'' externalID of
        Inl e \<Rightarrow> (Inl e, s)
      | Inr _ \<Rightarrow> writeTx now
          (\<lambda>d. bindE (activateRow i externalID name (normalizeTime now providerCreatedAt) (normalizeTime now at) d)
                 (\<lambda>d. Inr ((), d))) s)"

definition ActivateResourceWithGeneration ::
  "instant \<Rightarrow> int \<Rightarrow> string \<Rightarrow> string \<Rightarrow> instant \<Rightarrow> instant \<Rightarrow> Generation \<Rightarrow> SQLite \<Rightarrow> Generation result \<times> SQLite" where
  "ActivateResourceWithGeneration now i externalID name providerCreatedAt at generation s =
     (case require ''external resource ID'' externalID of
        Inl e \<Rightarrow> (Inl e, s)
      | Inr _ \<Rightarrow>
        if i = 0 then (Inl (ErrMsg ''resource ID is required''), s)
        else
        let generation = (if g_ResourceID generation = 0 then generation\<lparr>g_ResourceID := i\<rparr> else generation)
        in if g_ResourceID generation \<noteq> i
           then (Inl (ErrMsg ''generation resource ID does not match resource''), s)
           else case require ''operation ID'' (g_OperationID generation) of
             Inl e \<Rightarrow> (Inl e, s)
           | Inr _ \<Rightarrow> writeTx now
               (\<lambda>d. bindE (activateRow i externalID name (normalizeTime now providerCreatedAt) (normalizeTime now at) d)
                 (\<lambda>d. generationTx insertMutation (numberGeneration (normalizeGeneration now generation) d) d)) s)"

definition SetResourceState :: "instant \<Rightarrow> int \<Rightarrow> ResourceState \<Rightarrow> instant \<Rightarrow> SQLite \<Rightarrow> unit result \<times> SQLite" where
  "SetResourceState now i state at s =
     (if state = ResourceUnset then (Inl (ErrMsg ''resource state is required''), s)
      else writeTx now
        (\<lambda>d. bindE (updateResources (\<lambda>r. r_ID r = i)
                      (\<lambda>r. r\<lparr>r_State := state, r_UpdatedAt := normalizeTime now at\<rparr>) d)
          (\<lambda>(n, d). bindE (requireAffected n) (\<lambda>_. Inr ((), d)))) s)"

definition CloseResource :: "instant \<Rightarrow> int \<Rightarrow> ResourceState \<Rightarrow> string \<Rightarrow> instant \<Rightarrow> SQLite \<Rightarrow> unit result \<times> SQLite" where
  "CloseResource now i state reason at s =
     (if state \<noteq> ResourceClosed \<and> state \<noteq> ResourceFailed \<and> state \<noteq> ResourceVanished
      then (Inl (ErrMsg ''terminal resource state required''), s)
      else writeTx now
        (\<lambda>d. bindE (updateResources (\<lambda>r. r_ID r = i)
                      (\<lambda>r. r\<lparr>r_State := state, r_CloseReason := reason, r_UpdatedAt := normalizeTime now at,
                             r_ClosedAt := normalizeTime now at\<rparr>) d)
          (\<lambda>(n, d). bindE (requireAffected n) (\<lambda>_. Inr ((), d)))) s)"

definition OpenResources :: "SQLite \<Rightarrow> Resource list result \<times> SQLite" where
  "OpenResources = query (\<lambda>d. Inr (sort_key r_ID
     (filter (\<lambda>r. is_zero (r_ClosedAt r) \<and> r_State r \<notin> {ResourceClosed, ResourceFailed, ResourceVanished})
       (t_resources d))))"

subsection \<open>Generations\<close>

definition BeginGeneration :: "instant \<Rightarrow> Generation \<Rightarrow> SQLite \<Rightarrow> Generation result \<times> SQLite" where
  "BeginGeneration now generation s =
     (if g_ResourceID generation = 0 then (Inl (ErrMsg ''generation resource ID is required''), s)
      else case require ''operation ID'' (g_OperationID generation) of
        Inl e \<Rightarrow> (Inl e, s)
      | Inr _ \<Rightarrow> writeTx now
          (\<lambda>d. generationTx insertOrIgnoreMutation (numberGeneration (normalizeGeneration now generation) d) d) s)"

definition generationChange :: "GenerationState \<Rightarrow> instant \<Rightarrow> Generation \<Rightarrow> Generation" where
  "generationChange state at g =
     (case state of
        GenerationReady \<Rightarrow> g\<lparr>g_State := state, g_ReadyAt := at\<rparr>
      | GenerationClosed \<Rightarrow> g\<lparr>g_State := state, g_ClosedAt := at\<rparr>
      | GenerationFailed \<Rightarrow> g\<lparr>g_State := state, g_ClosedAt := at\<rparr>
      | _ \<Rightarrow> g\<lparr>g_State := state\<rparr>)"

definition finishGenerationMutation :: "GenerationState \<Rightarrow> int \<Rightarrow> instant \<Rightarrow> Tables \<Rightarrow> Tables result" where
  "finishGenerationMutation state i at d =
     (let finish = (\<lambda>ms. updateMutations (\<lambda>m. Some (m_OperationID m) = generationOperation i d)
                           (\<lambda>m. m\<lparr>m_State := ms, m_CompletedAt := at\<rparr>) d)
      in case state of
           GenerationReady \<Rightarrow> finish MutationSucceeded
         | GenerationClosed \<Rightarrow> finish MutationSucceeded
         | GenerationFailed \<Rightarrow> finish MutationFailed
         | _ \<Rightarrow> Inr d)"

definition SetGenerationState :: "instant \<Rightarrow> int \<Rightarrow> GenerationState \<Rightarrow> instant \<Rightarrow> SQLite \<Rightarrow> unit result \<times> SQLite" where
  "SetGenerationState now i state at s =
     (if state = GenerationUnset then (Inl (ErrMsg ''unsupported generation state''), s)
      else writeTx now
          (\<lambda>d. bindE (updateGenerations (\<lambda>g. g_ID g = i) (generationChange state (normalizeTime now at)) d)
            (\<lambda>(n, d). bindE (requireAffected n)
              (\<lambda>_. bindE (finishGenerationMutation state i (normalizeTime now at) d) (\<lambda>d. Inr ((), d))))) s)"

definition OpenGenerations :: "SQLite \<Rightarrow> Generation list result \<times> SQLite" where
  "OpenGenerations = query (\<lambda>d. Inr (sort_key (\<lambda>g. (g_ResourceID g, g_Number g))
     (filter (\<lambda>g. is_zero (g_ClosedAt g) \<and> g_State g \<notin> {GenerationClosed, GenerationFailed}) (t_generations d))))"

subsection \<open>Phases\<close>

definition StartPhase :: "instant \<Rightarrow> Phase \<Rightarrow> SQLite \<Rightarrow> Phase result \<times> SQLite" where
  "StartPhase now phase s =
     (if p_ResourceID phase = 0 then (Inl (ErrMsg ''phase resource ID is required''), s)
      else if p_Kind phase = PhaseUnset then (Inl (ErrMsg ''phase kind is required''), s)
      else
        let phase = phase\<lparr>p_StartedAt := normalizeTime now (p_StartedAt phase)\<rparr>
        in writeTx now
          (\<lambda>d. let i = nextID p_ID (t_phases d)
               in bindE (checked (d\<lparr>t_phases := t_phases d @ [phase\<lparr>p_ID := i\<rparr>]\<rparr>))
                    (\<lambda>d. Inr (phase\<lparr>p_ID := i\<rparr>, d))) s)"

definition FinishPhase :: "instant \<Rightarrow> int \<Rightarrow> string \<Rightarrow> string \<Rightarrow> instant \<Rightarrow> SQLite \<Rightarrow> unit result \<times> SQLite" where
  "FinishPhase now i outcome detail at s =
     writeTx now
       (\<lambda>d. bindE (checked (d\<lparr>t_phases := updateWhere (\<lambda>p. p_ID p = i)
                      (\<lambda>p. p\<lparr>p_EndedAt := normalizeTime now at, p_Outcome := outcome, p_Detail := detail\<rparr>) (t_phases d)\<rparr>))
         (\<lambda>d'. bindE (requireAffected (length (filter (\<lambda>p. p_ID p = i) (t_phases d)))) (\<lambda>_. Inr ((), d')))) s"

definition OpenPhases :: "SQLite \<Rightarrow> Phase list result \<times> SQLite" where
  "OpenPhases = query (\<lambda>d. Inr (sort_key (\<lambda>p. (p_StartedAt p, p_ID p)) (filter (\<lambda>p. is_zero (p_EndedAt p)) (t_phases d))))"

subsection \<open>Laws of statements and transactions\<close>

lemma bindE_Inr [simp]: "bindE r f = Inr b \<longleftrightarrow> (\<exists>a. r = Inr a \<and> f a = Inr b)"
  by (cases r) (auto simp: bindE_def)

lemma bindE_Inl: "bindE r f = Inl e \<longleftrightarrow> r = Inl e \<or> (\<exists>a. r = Inr a \<and> f a = Inl e)"
  by (cases r) (auto simp: bindE_def)

lemma bindE_simps [simp]: "bindE (Inl e) f = Inl e" "bindE (Inr a) f = f a"
  by (simp_all add: bindE_def)

lemma checked_Inr [simp]: "checked d = Inr d' \<longleftrightarrow> tables_ok d \<and> d' = d"
  by (auto simp: checked_def)

lemma requireAffected_Inr [simp]: "requireAffected n = Inr u \<longleftrightarrow> n \<noteq> 0"
  by (simp add: requireAffected_def)

lemma updateWhere_keys: "(\<And>r. P r \<Longrightarrow> h (f r) = h r) \<Longrightarrow> map h (updateWhere P f rows) = map h rows"
  by (simp add: updateWhere_def)

lemma in_updateWhere: "r \<in> set (updateWhere P f rows) \<longleftrightarrow> (\<exists>x \<in> set rows. r = (if P x then f x else x))"
  by (auto simp: updateWhere_def)

lemma length_updateWhere [simp]: "length (updateWhere P f rows) = length rows"
  by (simp add: updateWhere_def)

lemma nextID_gt: "r \<in> set rows \<Longrightarrow> f r < nextID f rows"
  by (induction rows) (auto simp: nextID_def)

lemma nextID_pos: "0 < nextID f rows"
  by (induction rows) (auto simp: nextID_def)

lemma nextID_fresh: "nextID f rows \<notin> f ` set rows"
  using nextID_gt [of _ rows f] by force

lemma fold_max_ge: "(n::int) \<le> fold max ns n \<and> (\<forall>m \<in> set ns. m \<le> fold max ns n)"
proof (induction ns arbitrary: n)
  case (Cons m ns)
  have "max m n \<le> fold max ns (max m n)" using Cons.IH by blast
  then show ?case using Cons.IH [of "max m n"] by auto
qed simp

lemma nextNumber_gt:
  assumes "g \<in> set (t_generations d)" "g_ResourceID g = i"
  shows "g_Number g < nextNumber i d"
proof -
  obtain n ns where ns: "map g_Number (filter (\<lambda>g. g_ResourceID g = i) (t_generations d)) = n # ns"
    using assms by (cases "map g_Number (filter (\<lambda>g. g_ResourceID g = i) (t_generations d))")
      (auto simp: filter_empty_conv)
  then have "g_Number g \<in> set (n # ns)" using assms by (auto simp flip: ns)
  then show ?thesis using fold_max_ge [of n ns] ns by (auto simp: nextNumber_def)
qed

lemma writeTx_cases:
  obtains (io) e where "writeTx now fn s = (Inl (ErrIO e), setWriteError (ErrIO e) (snd (draw s)))"
  | (err) e where "fn (tables s) = Inl e" "writeTx now fn s = (Inl e, setWriteError e (snd (draw s)))"
  | (ok) a d where "fn (tables s) = Inr (a, d)"
      "writeTx now fn s = (Inr a, (snd (draw s))\<lparr>tables := d, lastWrite := now, lastError := ''''\<rparr>)"
proof -
  obtain f s1 where ds: "draw s = (f, s1)" by fastforce
  have t: "tables s1 = tables s" using ds by (auto simp: draw_def split: list.splits)
  show ?thesis
  proof (cases f)
    case None
    show ?thesis
    proof (cases "fn (tables s)")
      case (Inl e)
      then show ?thesis using None ds t err by (simp add: writeTx_def)
    next
      case (Inr ad)
      then obtain a d where "fn (tables s) = Inr (a, d)" by (cases ad) auto
      then show ?thesis using None ds t ok by (simp add: writeTx_def)
    qed
  next
    case (Some e)
    then show ?thesis using ds io by (simp add: writeTx_def)
  qed
qed

lemma draw_tables [simp]: "tables (snd (draw s)) = tables s"
  by (auto simp: draw_def split: list.split)

lemma setWriteError_sel [simp]:
  "tables (setWriteError e s) = tables s" "lastError (setWriteError e s) = errorText e"
  by (simp_all add: setWriteError_def)

lemma writeTx_Inl:
  assumes "writeTx now fn s = (Inl e, s')"
  shows "tables s' = tables s" "lastError s' = errorText e"
  using assms by (cases rule: writeTx_cases [of now fn s]; force)+

lemma writeTx_Inr:
  assumes "writeTx now fn s = (Inr a, s')"
  shows "fn (tables s) = Inr (a, tables s')" "lastError s' = ''''" "lastWrite s' = now"
  using assms by (cases rule: writeTx_cases [of now fn s]; force)+

text \<open>
  Two contracts of ledger operations. Every operation keeps the constraints of the schema; the
  operations that are one transaction also leave the tables as they were when they return an
  error. (\<open>UpsertJob\<close> reads the row back after its commit, so it meets only the first.)
\<close>

locale ledger_safe =
  fixes run :: "SQLite \<Rightarrow> 'a result \<times> SQLite"
  assumes run_ok: "tables_ok (tables s) \<Longrightarrow> tables_ok (tables (snd (run s)))"
begin

lemma repeat_ok: "tables_ok (tables s) \<Longrightarrow> tables_ok (tables (((snd \<circ> run) ^^ n) s))"
  by (induction n) (simp_all add: run_ok)

end

locale ledger_op =
  fixes run :: "SQLite \<Rightarrow> 'a result \<times> SQLite"
  assumes atomic: "run s = (Inl e, s') \<Longrightarrow> tables s' = tables s"
    and keeps: "run s = (Inr a, s') \<Longrightarrow> tables_ok (tables s) \<Longrightarrow> tables_ok (tables s')"

sublocale ledger_op \<subseteq> ledger_safe run
proof
  fix s :: SQLite assume ok: "tables_ok (tables s)"
  obtain r s' where rs: "run s = (r, s')" by fastforce
  show "tables_ok (tables (snd (run s)))" using atomic [of s _ s'] keeps [of s _ s'] ok rs by (cases r) auto
qed

lemma ledger_op_write:
  assumes "\<And>d a d'. tables_ok d \<Longrightarrow> fn d = Inr (a, d') \<Longrightarrow> tables_ok d'"
  shows "ledger_op (writeTx now fn)"
proof
  show "writeTx now fn s = (Inl e, s') \<Longrightarrow> tables s' = tables s" for s e s'
    by (rule writeTx_Inl)
  show "writeTx now fn s = (Inr a, s') \<Longrightarrow> tables_ok (tables s) \<Longrightarrow> tables_ok (tables s')" for s a s'
    by (rule assms [OF _ writeTx_Inr(1)])
qed

lemma ledger_op_fail: "ledger_op (\<lambda>s. (Inl e, s))"
  by unfold_locales auto

lemma ledger_op_guard:
  "(\<And>u. ledger_op (f u)) \<Longrightarrow> ledger_op (\<lambda>s. case g of Inl e \<Rightarrow> (Inl e, s) | Inr u \<Rightarrow> f u s)"
  by (cases g) (simp_all add: ledger_op_fail)

lemma ledger_op_if:
  "ledger_op f \<Longrightarrow> ledger_op g \<Longrightarrow> ledger_op (\<lambda>s. if b then f s else g s)"
  by (cases b) simp_all

lemma ledger_op_query: "ledger_op (query f)"
  by unfold_locales (auto simp: query_def draw_def split: list.splits option.splits)

lemmas ledger_op_rules = ledger_op_write ledger_op_fail ledger_op_guard ledger_op_if ledger_op_query

lemma statements_ok:
  "insertMutation m d = Inr d' \<Longrightarrow> tables_ok d'"
  "updateMutations P f d = Inr d' \<Longrightarrow> tables_ok d'"
  "insertResource r d = Inr (i, d') \<Longrightarrow> tables_ok d'"
  "updateResources P' f' d = Inr (n, d') \<Longrightarrow> tables_ok d'"
  "insertGeneration g d = Inr (i, d') \<Longrightarrow> tables_ok d'"
  "updateGenerations P'' f'' d = Inr (n, d') \<Longrightarrow> tables_ok d'"
  by (auto simp: insertMutation_def updateMutations_def insertResource_def updateResources_def
      insertGeneration_def updateGenerations_def Let_def)

lemma insertOrIgnoreMutation_ok: "tables_ok d \<Longrightarrow> insertOrIgnoreMutation m d = Inr d' \<Longrightarrow> tables_ok d'"
  by (auto simp: insertOrIgnoreMutation_def statements_ok split: if_splits)

lemma activateRow_ok: "activateRow i e n p a d = Inr d' \<Longrightarrow> tables_ok d'"
  by (auto simp: activateRow_def dest: statements_ok)

lemma generationTx_ok: "(\<And>m d d'. tables_ok d \<Longrightarrow> ins m d = Inr d' \<Longrightarrow> tables_ok d') \<Longrightarrow>
    generationTx ins g d = Inr (g', d') \<Longrightarrow> tables_ok d'"
  by (auto simp: generationTx_def split: option.splits) (metis statements_ok(5))+

lemma finishGenerationMutation_ok: "tables_ok d \<Longrightarrow> finishGenerationMutation st i at d = Inr d' \<Longrightarrow> tables_ok d'"
  by (auto simp: finishGenerationMutation_def Let_def dest: statements_ok split: GenerationState.splits)

interpretation begin_mutation: ledger_op "BeginMutation now mutation" for now mutation
  unfolding BeginMutation_def Let_def
  by (intro ledger_op_rules) (auto dest: statements_ok)

interpretation finish_mutation: ledger_op "FinishMutation now op st ext det at" for now op st ext det at
  unfolding FinishMutation_def
  by (intro ledger_op_rules) (auto dest: statements_ok)

interpretation begin_resource: ledger_op "BeginResource now r" for now r
  unfolding BeginResource_def Let_def
  by (intro ledger_op_rules) (auto dest: statements_ok)

interpretation activate_resource: ledger_op "ActivateResource now i e n p a" for now i e n p a
  unfolding ActivateResource_def
  by (intro ledger_op_rules) (auto dest: activateRow_ok)

interpretation activate_with_generation: ledger_op "ActivateResourceWithGeneration now i e n p a g" for now i e n p a g
  unfolding ActivateResourceWithGeneration_def Let_def
  by (intro ledger_op_rules) (auto dest: statements_ok generationTx_ok [rotated])

interpretation set_resource_state: ledger_op "SetResourceState now i st at" for now i st at
  unfolding SetResourceState_def
  by (intro ledger_op_rules) (auto dest: statements_ok)

interpretation close_resource: ledger_op "CloseResource now i st reason at" for now i st reason at
  unfolding CloseResource_def
  by (intro ledger_op_rules) (auto dest: statements_ok)

interpretation begin_generation: ledger_op "BeginGeneration now g" for now g
  unfolding BeginGeneration_def Let_def
  by (intro ledger_op_rules) (auto dest: insertOrIgnoreMutation_ok generationTx_ok [rotated])

interpretation set_generation_state: ledger_op "SetGenerationState now i st at" for now i st at
  unfolding SetGenerationState_def
  by (intro ledger_op_rules) (auto dest: statements_ok finishGenerationMutation_ok)

interpretation start_phase: ledger_op "StartPhase now p" for now p
  unfolding StartPhase_def Let_def
  by (intro ledger_op_rules) (auto dest: statements_ok)

interpretation finish_phase: ledger_op "FinishPhase now i outcome det at" for now i outcome det at
  unfolding FinishPhase_def
  by (intro ledger_op_rules) auto

subsection \<open>What the operations record\<close>

lemma find_by_id:
  assumes "distinct (map f rows)" "r \<in> set rows"
  shows "find (\<lambda>x. f x = f r) rows = Some r"
  using assms
proof (induction rows)
  case (Cons a rows)
  then show ?case by (cases "a = r") force+
qed simp

lemma find_Some_in: "find P rows = Some r \<Longrightarrow> r \<in> set rows \<and> P r"
  by (auto simp: find_Some_iff)

lemma activateRow_effect:
  assumes "activateRow i externalID name pc at d = Inr d'"
  obtains r where "r \<in> set (t_resources d')" "r_ID r = i" "r_State r = ResourceActive" "r_ExternalID r = externalID"
    "resourceOperation i d' = Some (r_OperationID r)"
    "t_mutations d' = updateWhere (\<lambda>m. m_OperationID m = r_OperationID r)
       (\<lambda>m. m\<lparr>m_State := MutationSucceeded, m_ExternalID := externalID, m_CompletedAt := at\<rparr>) (t_mutations d)"
    "t_generations d' = t_generations d"
proof -
  let ?f = "\<lambda>r. r\<lparr>r_ExternalID := externalID, r_Name := name, r_State := ResourceActive,
                   r_ProviderCreatedAt := pc, r_UpdatedAt := at\<rparr>"
  define d1 where "d1 = d\<lparr>t_resources := updateWhere (\<lambda>r. r_ID r = i) ?f (t_resources d)\<rparr>"
  have ok1: "tables_ok d1" and aff: "filter (\<lambda>r. r_ID r = i) (t_resources d) \<noteq> []"
    and d': "d' = d1\<lparr>t_mutations := updateWhere (\<lambda>m. Some (m_OperationID m) = resourceOperation i d1)
       (\<lambda>m. m\<lparr>m_State := MutationSucceeded, m_ExternalID := externalID, m_CompletedAt := at\<rparr>) (t_mutations d1)\<rparr>"
    using assms by (auto simp: activateRow_def updateResources_def updateMutations_def d1_def)
  obtain r0 where r0: "r0 \<in> set (t_resources d)" "r_ID r0 = i"
    using aff by (auto simp: filter_empty_conv)
  have mem: "?f r0 \<in> set (t_resources d1)"
    using r0 by (auto simp: d1_def in_updateWhere intro: bexI [of _ r0])
  have "distinct (map r_ID (t_resources d1))" using ok1 by (simp add: tables_ok_def resources_ok_def)
  then have "find (\<lambda>x. r_ID x = r_ID (?f r0)) (t_resources d1) = Some (?f r0)"
    using mem by (rule find_by_id)
  then have op: "resourceOperation i d1 = Some (r_OperationID (?f r0))"
    using r0 by (simp add: resourceOperation_def)
  show thesis
  proof (rule that [of "?f r0"])
    show "?f r0 \<in> set (t_resources d')" using mem by (simp add: d')
    show "resourceOperation i d' = Some (r_OperationID (?f r0))" using op by (simp add: d' resourceOperation_def)
    show "t_mutations d' = updateWhere (\<lambda>m. m_OperationID m = r_OperationID (?f r0))
       (\<lambda>m. m\<lparr>m_State := MutationSucceeded, m_ExternalID := externalID, m_CompletedAt := at\<rparr>) (t_mutations d)"
      using op by (simp add: d' d1_def)
  qed (use r0 in \<open>simp_all add: d' d1_def\<close>)
qed

lemma generationTx_insert:
  assumes "generationTx insertMutation g d = Inr (g', d')" "r \<in> set (t_resources d)" "r_ID r = g_ResourceID g"
  shows "g' \<in> set (t_generations d')" "g_ResourceID g' = g_ResourceID g \<and> g_OperationID g' = g_OperationID g \<and> g_Number g' = g_Number g"
    "t_resources d' = t_resources d"
    "\<exists>m. t_mutations d' = t_mutations d @ [m] \<and> m_OperationID m = g_OperationID g \<and> m_Kind m = ''generation'' \<and>
         m_State m = MutationPending \<and> m_ResourceID m = g_ResourceID g"
proof -
  obtain r1 where "find (\<lambda>x. r_ID x = g_ResourceID g) (t_resources d) = Some r1" "r_ID r1 = g_ResourceID g"
    using assms(2,3) by (cases "find (\<lambda>x. r_ID x = g_ResourceID g) (t_resources d)")
      (auto simp: find_None_iff dest: find_Some_in)
  then have "\<exists>gid. g' = g\<lparr>g_ID := gid\<rparr> \<and> t_resources d' = t_resources d \<and>
      t_generations d' = t_generations d @ [g\<lparr>g_ID := gid\<rparr>] \<and>
      (\<exists>m. t_mutations d' = t_mutations d @ [m] \<and> m_OperationID m = g_OperationID g \<and> m_Kind m = ''generation'' \<and>
         m_State m = MutationPending \<and> m_ResourceID m = g_ResourceID g)"
    using assms(1) by (auto simp: generationTx_def insertGeneration_def insertMutation_def pendingMutation_def Let_def)
  then show "g' \<in> set (t_generations d')" "g_ResourceID g' = g_ResourceID g \<and> g_OperationID g' = g_OperationID g \<and> g_Number g' = g_Number g"
    "t_resources d' = t_resources d"
    "\<exists>m. t_mutations d' = t_mutations d @ [m] \<and> m_OperationID m = g_OperationID g \<and> m_Kind m = ''generation'' \<and>
         m_State m = MutationPending \<and> m_ResourceID m = g_ResourceID g"
    by auto
qed

lemma normalizeGeneration_sel [simp]:
  "g_ResourceID (normalizeGeneration now g) = g_ResourceID g"
  "g_OperationID (normalizeGeneration now g) = g_OperationID g"
  "g_Number (normalizeGeneration now g) = g_Number g"
  by (simp_all add: normalizeGeneration_def Let_def)

lemma numberGeneration_sel [simp]:
  "g_ResourceID (numberGeneration g d) = g_ResourceID g"
  "g_OperationID (numberGeneration g d) = g_OperationID g"
  by (simp_all add: numberGeneration_def)

lemma numberGeneration_gt:
  "g_Number g = 0 \<Longrightarrow> h \<in> set (t_generations d) \<Longrightarrow> g_ResourceID h = g_ResourceID g \<Longrightarrow>
   g_Number h < g_Number (numberGeneration g d)"
  by (simp add: numberGeneration_def nextNumber_gt)

lemma ActivateResourceWithGeneration_Inr:
  assumes "ActivateResourceWithGeneration now i ext name pc at g s = (Inr g', s')"
  obtains d g1 where "activateRow i ext name (normalizeTime now pc) (normalizeTime now at) (tables s) = Inr d"
    "generationTx insertMutation (numberGeneration (normalizeGeneration now g1) d) d = Inr (g', tables s')"
    "g1 = g\<lparr>g_ResourceID := i\<rparr>"
  using assms
  by (auto simp: ActivateResourceWithGeneration_def Let_def split: sum.splits if_splits dest!: writeTx_Inr(1))

definition activation_recorded :: "int \<Rightarrow> string \<Rightarrow> Tables \<Rightarrow> Tables \<Rightarrow> Generation \<Rightarrow> bool" where
  "activation_recorded i ext d d' g' \<longleftrightarrow>
     (\<exists>r \<in> set (t_resources d'). r_ID r = i \<and> r_State r = ResourceActive \<and> r_ExternalID r = ext \<and>
        (\<forall>m \<in> set (t_mutations d). m_OperationID m = r_OperationID r \<longrightarrow>
           (\<exists>m' \<in> set (t_mutations d'). m_OperationID m' = m_OperationID m \<and> m_State m' = MutationSucceeded))) \<and>
     g' \<in> set (t_generations d') \<and> g_ResourceID g' = i \<and>
     (\<exists>m \<in> set (t_mutations d'). m_OperationID m = g_OperationID g' \<and> m_Kind m = ''generation'' \<and>
        m_State m = MutationPending \<and> m_ResourceID m = i)"

text \<open>
  C7. A created worker and its first generation are recorded together or not at all. When
  \<open>ActivateResourceWithGeneration\<close> succeeds, the resource is active under the provider's ID, its
  provision intent is completed, the generation exists with a number above every earlier one
  of that resource, and the pending generation intent is there, and the
  store's write error is cleared; when it fails at any point the tables are exactly what they
  were.
\<close>

theorem activation_all_or_nothing:
  "case ActivateResourceWithGeneration now i ext name pc at g s of
     (Inl e, s') \<Rightarrow> tables s' = tables s
   | (Inr g', s') \<Rightarrow>
       activation_recorded i ext (tables s) (tables s') g' \<and>
       (if g_Number g = 0
        then \<forall>h. h \<in> set (t_generations (tables s)) \<and> g_ResourceID h = i \<longrightarrow> g_Number h < g_Number g'
        else g_Number g' = g_Number g) \<and>
       lastError s' = ''''"
proof -
  obtain r s' where rs: "ActivateResourceWithGeneration now i ext name pc at g s = (r, s')" by fastforce
  show ?thesis
  proof (cases r)
    case (Inl e)
    then show ?thesis using rs activate_with_generation.atomic by auto
  next
    case (Inr g')
    have le: "lastError s' = ''''"
      using rs Inr by (auto simp: ActivateResourceWithGeneration_def Let_def split: sum.splits if_splits
          dest: writeTx_Inr(2))
    obtain d where act: "activateRow i ext name (normalizeTime now pc) (normalizeTime now at) (tables s) = Inr d"
      and gen: "generationTx insertMutation (numberGeneration (normalizeGeneration now (g\<lparr>g_ResourceID := i\<rparr>)) d) d
                = Inr (g', tables s')"
      using ActivateResourceWithGeneration_Inr [OF rs [unfolded Inr]] by metis
    obtain r0 where r0: "r0 \<in> set (t_resources d)" "r_ID r0 = i" "r_State r0 = ResourceActive" "r_ExternalID r0 = ext"
      and muts: "t_mutations d = updateWhere (\<lambda>m. m_OperationID m = r_OperationID r0)
         (\<lambda>m. m\<lparr>m_State := MutationSucceeded, m_ExternalID := ext, m_CompletedAt := normalizeTime now at\<rparr>)
         (t_mutations (tables s))"
      and gens: "t_generations d = t_generations (tables s)"
      using activateRow_effect [OF act] by metis
    note G = generationTx_insert [OF gen r0(1)] 
    obtain m where m: "t_mutations (tables s') = t_mutations d @ [m]" "m_OperationID m = g_OperationID g"
      "m_Kind m = ''generation''" "m_State m = MutationPending" "m_ResourceID m = i"
      using G(4) r0(2) by auto
    have fields: "g_ResourceID g' = i" "g_OperationID g' = g_OperationID g"
      "g_Number g' = g_Number (numberGeneration (normalizeGeneration now (g\<lparr>g_ResourceID := i\<rparr>)) d)"
      using G(2) r0(2) by simp_all
    have completed: "\<exists>m' \<in> set (t_mutations (tables s')). m_OperationID m' = m_OperationID m0 \<and> m_State m' = MutationSucceeded"
      if "m0 \<in> set (t_mutations (tables s))" "m_OperationID m0 = r_OperationID r0" for m0
      using that m(1) muts
      by (intro bexI [of _ "m0\<lparr>m_State := MutationSucceeded, m_ExternalID := ext, m_CompletedAt := normalizeTime now at\<rparr>"])
        (auto simp: in_updateWhere)
    have rec: "activation_recorded i ext (tables s) (tables s') g'"
      using G(1,3) r0 completed m fields by (auto simp: activation_recorded_def)
    have num: "g_Number h < g_Number g'" if "g_Number g = 0" "h \<in> set (t_generations (tables s))" "g_ResourceID h = i" for h
      unfolding fields(3) using that gens by (intro numberGeneration_gt) simp_all
    have "g_Number g' = g_Number g" if "g_Number g \<noteq> 0"
      using that fields(3) by (simp add: numberGeneration_def)
    then show ?thesis using rs Inr rec num le by auto
  qed
qed

definition sample_tables :: Tables where
  "sample_tables = \<lparr>t_quotes = [], t_resources = [\<lparr>r_ID = 1, r_OperationID = ''provision-1'', r_Provider = ''linode'',
       r_Driver = ''linode'', r_Tier = ''small'', r_ExternalID = '''', r_Name = ''w1'', r_InstanceType = ''g6'',
       r_Tag = ''fj'', r_State = ResourceProvisioning, r_PriceQuoteID = 0, r_ProviderCreatedAt = zero_time,
       r_OpenedAt = 1, r_UpdatedAt = 1, r_ClosedAt = zero_time, r_CloseReason = ''''\<rparr>],
     t_generations = [], t_jobs = [], t_snapshots = [], t_phases = [],
     t_mutations = [pendingMutation ''provision-1'' ''provision'' ''linode'' ''small'' 1 0 1],
     t_costs = [], t_decisions = [], t_scores = []\<rparr>"

definition sample_store :: SQLite where
  "sample_store = \<lparr>tables = sample_tables, lastWrite = zero_time, lastError = '''', io = []\<rparr>"

definition sample_generation :: Generation where
  "sample_generation = \<lparr>g_ID = 0, g_ResourceID = 0, g_Number = 0, g_OperationID = ''generation-1'', g_ImageID = '''',
     g_Fingerprint = '''', g_State = GenerationUnset, g_StartedAt = 5, g_ReadyAt = zero_time, g_ClosedAt = zero_time\<rparr>"

theorem activation_all_or_nothing_witness:
  "\<exists>g' s'. ActivateResourceWithGeneration 5 1 ''vm-1'' ''w1'' 2 3 sample_generation sample_store = (Inr g', s') \<and>
     activation_recorded 1 ''vm-1'' sample_tables (tables s') g' \<and> g_Number g' = 1"
proof -
  obtain r s' where rs: "ActivateResourceWithGeneration 5 1 ''vm-1'' ''w1'' 2 3 sample_generation sample_store = (r, s')"
    by fastforce
  have "(case ActivateResourceWithGeneration 5 1 ''vm-1'' ''w1'' 2 3 sample_generation sample_store of
          (Inr g, _) \<Rightarrow> g_Number g = 1 | _ \<Rightarrow> False)" by code_simp
  then obtain g' where "r = Inr g'" "g_Number g' = 1" using rs by (cases r) auto
  then show ?thesis
    using activation_all_or_nothing [where now = 5 and i = 1 and ext = "''vm-1''" and name = "''w1''" and pc = 2
        and at = 3 and g = sample_generation and s = sample_store] rs
    by (auto simp: sample_store_def)
qed

end
