(* ===== verification/Ledger_Accounting.thy ===== *)
theory Ledger_Accounting
  imports Ledger_Store
begin

text \<open>
  Jobs, snapshots, price quotes and costs: src/internal/storage/jobs.go and accounting.go.
  \<open>mergeJob\<close> is the \<open>ON CONFLICT(source, handle) DO UPDATE\<close> clause of \<open>UpsertJob\<close>, column by
  column. Strings are ASCII where \<open>strings.ToUpper\<close> and \<open>strings.TrimSpace\<close> are applied.
\<close>

subsection \<open>Jobs\<close>

definition coalesceID :: "int \<Rightarrow> int \<Rightarrow> int" where
  "coalesceID new old = (if new \<noteq> 0 then new else old)"

definition coalesceStr :: "string \<Rightarrow> string \<Rightarrow> string" where
  "coalesceStr new old = (if new \<noteq> '''' then new else old)"

definition coalesceTime :: "instant \<Rightarrow> instant \<Rightarrow> instant" where
  "coalesceTime new old = (if \<not> is_zero new then new else old)"

definition mergeStatus :: "Job \<Rightarrow> Job \<Rightarrow> JobStatus" where
  "mergeStatus old new =
     (if \<not> is_zero (j_CompletedAt old) \<and> is_zero (j_CompletedAt new) then j_Status old
      else if (j_Status old = JobAssigned \<or> j_Status old = JobRunning) \<and> j_Status new = JobObserved then j_Status old
      else j_Status new)"

definition mergeJob :: "Job \<Rightarrow> Job \<Rightarrow> Job" where
  "mergeJob old new =
     \<lparr>j_ID = j_ID old, j_Source = j_Source old, j_Handle = j_Handle old,
      j_ForgejoJobID = coalesceID (j_ForgejoJobID new) (j_ForgejoJobID old),
      j_Attempt = coalesceID (j_Attempt new) (j_Attempt old),
      j_RepositoryID = coalesceID (j_RepositoryID new) (j_RepositoryID old),
      j_RepositoryOwnerID = coalesceID (j_RepositoryOwnerID new) (j_RepositoryOwnerID old),
      j_Repository = coalesceStr (j_Repository new) (j_Repository old),
      j_Workflow = coalesceStr (j_Workflow new) (j_Workflow old),
      j_WorkflowFile = coalesceStr (j_WorkflowFile new) (j_WorkflowFile old),
      j_JobName = coalesceStr (j_JobName new) (j_JobName old),
      j_IdentityQuality = (if j_IdentityQuality new = IdentityUnknown then j_IdentityQuality old else j_IdentityQuality new),
      j_Tier = coalesceStr (j_Tier new) (j_Tier old),
      j_Provider = coalesceStr (j_Provider new) (j_Provider old),
      j_Driver = coalesceStr (j_Driver new) (j_Driver old),
      j_ResourceID = coalesceID (j_ResourceID new) (j_ResourceID old),
      j_GenerationID = coalesceID (j_GenerationID new) (j_GenerationID old),
      j_Status = mergeStatus old new,
      j_Conclusion = coalesceStr (j_Conclusion new) (j_Conclusion old),
      j_InfrastructureFailure = coalesceStr (j_InfrastructureFailure new) (j_InfrastructureFailure old),
      j_QueueMeasurementSource = coalesceStr (j_QueueMeasurementSource new) (j_QueueMeasurementSource old),
      j_RunMeasurementSource = coalesceStr (j_RunMeasurementSource new) (j_RunMeasurementSource old),
      j_FirstSeenAt = min (j_FirstSeenAt new) (j_FirstSeenAt old),
      j_QueuedAt = coalesceTime (j_QueuedAt new) (j_QueuedAt old),
      j_DispatchedAt = coalesceTime (j_DispatchedAt new) (j_DispatchedAt old),
      j_RunnerStartedAt = coalesceTime (j_RunnerStartedAt new) (j_RunnerStartedAt old),
      j_RunnerFinishedAt = coalesceTime (j_RunnerFinishedAt new) (j_RunnerFinishedAt old),
      j_CompletedAt = coalesceTime (j_CompletedAt new) (j_CompletedAt old),
      j_UpdatedAt = max (j_UpdatedAt new) (j_UpdatedAt old)\<rparr>"

definition jobKey :: "Job \<Rightarrow> string \<times> string" where
  "jobKey j = (j_Source j, j_Handle j)"

definition normalizeJob :: "instant \<Rightarrow> Job \<Rightarrow> Job" where
  "normalizeJob now job =
     (let job = (if j_Status job = JobUnset then job\<lparr>j_Status := JobObserved\<rparr> else job);
          job = (if j_IdentityQuality job = IdentityUnset then job\<lparr>j_IdentityQuality := IdentityUnknown\<rparr> else job)
      in job\<lparr>j_FirstSeenAt := normalizeTime now (j_FirstSeenAt job),
             j_UpdatedAt := normalizeTime now (j_UpdatedAt job)\<rparr>)"

definition upsertJobTx :: "Job \<Rightarrow> Tables \<Rightarrow> Tables result" where
  "upsertJobTx job d =
     checked (d\<lparr>t_jobs :=
       (if jobKey job \<in> set (map jobKey (t_jobs d))
        then updateWhere (\<lambda>j. jobKey j = jobKey job) (\<lambda>j. mergeJob j job) (t_jobs d)
        else t_jobs d @ [job\<lparr>j_ID := nextID j_ID (t_jobs d)\<rparr>])\<rparr>)"

definition jobByKey :: "string \<times> string \<Rightarrow> SQLite \<Rightarrow> Job result \<times> SQLite" where
  "jobByKey key = query (\<lambda>d. case find (\<lambda>j. jobKey j = key) (t_jobs d) of None \<Rightarrow> Inl ErrNotFound | Some j \<Rightarrow> Inr j)"

definition UpsertJob :: "instant \<Rightarrow> Job \<Rightarrow> SQLite \<Rightarrow> Job result \<times> SQLite" where
  "UpsertJob now job s =
     (case requireAll [(''job source'', j_Source job), (''job handle'', j_Handle job)] of
        Inl e \<Rightarrow> (Inl e, s)
      | Inr _ \<Rightarrow>
          (case writeTx now (\<lambda>d. bindE (upsertJobTx (normalizeJob now job) d) (\<lambda>d. Inr ((), d))) s of
             (Inl e, s) \<Rightarrow> (Inl e, s)
           | (Inr _, s) \<Rightarrow> jobByKey (j_Source job, j_Handle job) s))"

definition OpenJobs :: "SQLite \<Rightarrow> Job list result \<times> SQLite" where
  "OpenJobs = query (\<lambda>d. Inr (sort_key (\<lambda>j. (j_FirstSeenAt j, j_ID j)) (filter (\<lambda>j. is_zero (j_CompletedAt j)) (t_jobs d))))"

subsection \<open>Selection of jobs\<close>

definition jobWhere :: "instant \<Rightarrow> instant \<Rightarrow> string \<Rightarrow> string \<Rightarrow> string \<Rightarrow> string \<Rightarrow> JobStatus \<Rightarrow> Job \<Rightarrow> bool" where
  "jobWhere from to tier providerName repository workflow status j \<longleftrightarrow>
     (is_zero from \<or> from \<le> j_FirstSeenAt j) \<and>
     (is_zero to \<or> j_FirstSeenAt j < to) \<and>
     (tier = '''' \<or> j_Tier j = tier) \<and>
     (providerName = '''' \<or> j_Provider j = providerName) \<and>
     (repository = '''' \<or> j_Repository j = repository) \<and>
     (workflow = '''' \<or> j_Workflow j = workflow \<or> j_WorkflowFile j = workflow \<or>
        (j_WorkflowFile j = '''' \<and> j_JobName j = workflow)) \<and>
     (status = JobUnset \<or> j_Status j = status)"

subsection \<open>Snapshots\<close>

definition BeginSnapshot :: "instant \<Rightarrow> Snapshot \<Rightarrow> SQLite \<Rightarrow> Snapshot result \<times> SQLite" where
  "BeginSnapshot now snapshot s =
     (case requireAll [(''operation ID'', s_OperationID snapshot), (''provider'', s_Provider snapshot),
                       (''driver'', s_Driver snapshot), (''tier'', s_Tier snapshot),
                       (''snapshot name'', s_Name snapshot), (''fingerprint'', s_Fingerprint snapshot)] of
        Inl e \<Rightarrow> (Inl e, s)
      | Inr _ \<Rightarrow>
          let snapshot = (if s_State snapshot = SnapshotUnset then snapshot\<lparr>s_State := SnapshotBuilding\<rparr> else snapshot);
              snapshot = snapshot\<lparr>s_CreatedAt := normalizeTime now (s_CreatedAt snapshot)\<rparr>;
              snapshot = snapshot\<lparr>s_UpdatedAt := s_CreatedAt snapshot\<rparr>
          in writeTx now
            (\<lambda>d. let i = nextID s_ID (t_snapshots d)
                 in bindE (checked (d\<lparr>t_snapshots := t_snapshots d @ [snapshot\<lparr>s_ID := i\<rparr>]\<rparr>))
                   (\<lambda>d. bindE (insertMutation (pendingMutation (s_OperationID snapshot) ''create_snapshot''
                                  (s_Provider snapshot) (s_Tier snapshot) (s_SourceResourceID snapshot) i
                                  (s_CreatedAt snapshot)) d)
                     (\<lambda>d. Inr (snapshot\<lparr>s_ID := i\<rparr>, d)))) s)"

definition snapshotOperation :: "int \<Rightarrow> Tables \<Rightarrow> string option" where
  "snapshotOperation i d = map_option s_OperationID (find (\<lambda>s. s_ID s = i) (t_snapshots d))"

definition activateSnapshotTx :: "int \<Rightarrow> string \<Rightarrow> int \<Rightarrow> instant \<Rightarrow> Tables \<Rightarrow> Tables result" where
  "activateSnapshotTx i externalID sizeBytes at d =
     (let target = find (\<lambda>s. s_ID s = i) (t_snapshots d)
      in bindE (checked (d\<lparr>t_snapshots := updateWhere
                  (\<lambda>s. s_State s = SnapshotActive \<and> s_ID s \<noteq> i \<and>
                       Some (s_Provider s) = map_option s_Provider target \<and>
                       Some (s_Tier s) = map_option s_Tier target)
                  (\<lambda>s. s\<lparr>s_State := SnapshotStale, s_UpdatedAt := at\<rparr>) (t_snapshots d)\<rparr>))
        (\<lambda>d. bindE (checked (d\<lparr>t_snapshots := updateWhere (\<lambda>s. s_ID s = i)
                       (\<lambda>s. s\<lparr>s_ExternalID := externalID, s_SizeBytes := sizeBytes, s_State := SnapshotActive,
                              s_UpdatedAt := at, s_CompletedAt := at\<rparr>) (t_snapshots d)\<rparr>))
          (\<lambda>d'. bindE (requireAffected (length (filter (\<lambda>s. s_ID s = i) (t_snapshots d))))
            (\<lambda>_. updateMutations (\<lambda>m. Some (m_OperationID m) = snapshotOperation i d')
                   (\<lambda>m. m\<lparr>m_State := MutationSucceeded, m_ExternalID := externalID, m_CompletedAt := at\<rparr>) d'))))"

definition ActivateSnapshot :: "instant \<Rightarrow> int \<Rightarrow> string \<Rightarrow> int \<Rightarrow> instant \<Rightarrow> SQLite \<Rightarrow> unit result \<times> SQLite" where
  "ActivateSnapshot now i externalID sizeBytes at s =
     (case require ''external snapshot ID'' externalID of
        Inl e \<Rightarrow> (Inl e, s)
      | Inr _ \<Rightarrow>
          if sizeBytes < 0 then (Inl (ErrMsg ''snapshot size cannot be negative''), s)
          else writeTx now (\<lambda>d. bindE (activateSnapshotTx i externalID sizeBytes (normalizeTime now at) d)
                                  (\<lambda>d. Inr ((), d))) s)"

definition SetSnapshotState :: "instant \<Rightarrow> int \<Rightarrow> SnapshotState \<Rightarrow> string \<Rightarrow> instant \<Rightarrow> SQLite \<Rightarrow> unit result \<times> SQLite" where
  "SetSnapshotState now i state detail at s =
     (if state = SnapshotUnset then (Inl (ErrMsg ''snapshot state is required''), s)
      else writeTx now
        (\<lambda>d. bindE (checked (d\<lparr>t_snapshots := updateWhere (\<lambda>s. s_ID s = i)
                       (\<lambda>s. s\<lparr>s_State := state, s_Detail := detail, s_UpdatedAt := normalizeTime now at,
                              s_CompletedAt := (if state = SnapshotDeleted \<or> state = SnapshotFailed
                                                then normalizeTime now at else s_CompletedAt s)\<rparr>) (t_snapshots d)\<rparr>))
          (\<lambda>d'. bindE (requireAffected (length (filter (\<lambda>s. s_ID s = i) (t_snapshots d))))
            (\<lambda>_. bindE (if state = SnapshotFailed
                        then updateMutations (\<lambda>m. Some (m_OperationID m) = snapshotOperation i d')
                               (\<lambda>m. m\<lparr>m_State := MutationFailed, m_Detail := detail, m_CompletedAt := normalizeTime now at\<rparr>) d'
                        else Inr d')
              (\<lambda>d. Inr ((), d))))) s)"

definition Snapshots :: "SnapshotFilter \<Rightarrow> SQLite \<Rightarrow> Snapshot list result \<times> SQLite" where
  "Snapshots filt = query (\<lambda>d. Inr (sort_key (\<lambda>s. (s_CreatedAt s, s_ID s)) (filter (\<lambda>s.
     (sf_Provider filt = '''' \<or> s_Provider s = sf_Provider filt) \<and>
     (sf_Tier filt = '''' \<or> s_Tier s = sf_Tier filt) \<and>
     (sf_Fingerprint filt = '''' \<or> s_Fingerprint s = sf_Fingerprint filt) \<and>
     (sf_States filt = [] \<or> s_State s \<in> set (sf_States filt))) (t_snapshots d))))"

subsection \<open>Prices and costs\<close>

definition RecordPriceQuote :: "instant \<Rightarrow> PriceQuote \<Rightarrow> SQLite \<Rightarrow> PriceQuote result \<times> SQLite" where
  "RecordPriceQuote now quote s =
     (case requireAll [(''provider'', q_Provider quote), (''driver'', q_Driver quote),
                       (''instance type'', q_InstanceType quote), (''price source'', q_Source quote)] of
        Inl e \<Rightarrow> (Inl e, s)
      | Inr _ \<Rightarrow>
          let quote = quote\<lparr>q_Currency := toUpper (trimSpace (q_Currency quote))\<rparr>
          in if length (q_Currency quote) \<noteq> 3
             then (Inl (ErrMsg ''currency must be a three-letter ISO code''), s)
             else if q_PerHourNanos quote < 0 \<or> q_PerMonthNanos quote < 0 \<or> q_SnapshotGBMonthNanos quote < 0 \<or>
                     q_MinimumChargeNanos quote < 0 \<or> q_BillingQuantum quote < 0 \<or> q_MinimumDuration quote < 0
             then (Inl (ErrMsg ''price quote values cannot be negative''), s)
             else let quote = quote\<lparr>q_ObservedAt := normalizeTime now (q_ObservedAt quote)\<rparr>
                  in writeTx now
                    (\<lambda>d. let i = nextID q_ID (t_quotes d)
                         in bindE (checked (d\<lparr>t_quotes := t_quotes d @ [quote\<lparr>q_ID := i\<rparr>]\<rparr>))
                              (\<lambda>d. Inr (quote\<lparr>q_ID := i\<rparr>, d))) s)"

definition GetPriceQuote :: "int \<Rightarrow> SQLite \<Rightarrow> PriceQuote result \<times> SQLite" where
  "GetPriceQuote i = query (\<lambda>d. case find (\<lambda>q. q_ID q = i) (t_quotes d) of None \<Rightarrow> Inl ErrNotFound | Some q \<Rightarrow> Inr q)"

definition LatestPriceQuote :: "string \<Rightarrow> string \<Rightarrow> SQLite \<Rightarrow> PriceQuote result \<times> SQLite" where
  "LatestPriceQuote provider instanceType = query (\<lambda>d.
     case rev (sort_key (\<lambda>q. (q_ObservedAt q, q_ID q))
            (filter (\<lambda>q. q_Provider q = provider \<and> q_InstanceType q = instanceType) (t_quotes d))) of
       [] \<Rightarrow> Inl ErrNotFound | q # _ \<Rightarrow> Inr q)"

definition normalizeCost :: "instant \<Rightarrow> CostEntry \<Rightarrow> CostEntry" where
  "normalizeCost now entry =
     (let entry = (if c_Known entry then entry else entry\<lparr>c_Currency := '''', c_Nanos := 0\<rparr>)
      in entry\<lparr>c_StartedAt := normalizeTime now (c_StartedAt entry), c_EndedAt := normalizeTime now (c_EndedAt entry),
               c_RecordedAt := normalizeTime now (c_RecordedAt entry)\<rparr>)"

text \<open>\<open>INSERT ... ON CONFLICT DO NOTHING\<close>, then the number of the row that holds the key.\<close>

definition recordCostTx :: "CostEntry \<Rightarrow> Tables \<Rightarrow> (CostEntry \<times> Tables) result" where
  "recordCostTx entry d =
     (if cost_key entry \<in> set (map cost_key (t_costs d))
      then case sort_key c_ID (filter (\<lambda>c. c_ResourceID c = c_ResourceID entry \<and> c_SnapshotID c = c_SnapshotID entry \<and>
                  c_JobID c = c_JobID entry \<and> c_Kind c = c_Kind entry \<and> c_StartedAt c = c_StartedAt entry \<and>
                  (isTerminalCostKind (c_Kind entry) \<or> c_EndedAt c = c_EndedAt entry)) (t_costs d)) of
             [] \<Rightarrow> Inl (ErrIO ''no rows in result set'')
           | c # _ \<Rightarrow> Inr (entry\<lparr>c_ID := c_ID c\<rparr>, d)
      else let i = nextID c_ID (t_costs d)
           in bindE (checked (d\<lparr>t_costs := t_costs d @ [entry\<lparr>c_ID := i\<rparr>]\<rparr>)) (\<lambda>d. Inr (entry\<lparr>c_ID := i\<rparr>, d)))"

definition RecordCost :: "instant \<Rightarrow> CostEntry \<Rightarrow> SQLite \<Rightarrow> CostEntry result \<times> SQLite" where
  "RecordCost now entry s =
     (if c_Kind entry = CostUnset then (Inl (ErrMsg ''cost kind is required''), s)
      else if c_Nanos entry < 0 then (Inl (ErrMsg ''cost cannot be negative''), s)
      else
        let entry = entry\<lparr>c_Currency := toUpper (trimSpace (c_Currency entry))\<rparr>
        in if c_Known entry \<and> length (c_Currency entry) \<noteq> 3
           then (Inl (ErrMsg ''known cost requires a three-letter currency''), s)
           else let entry = normalizeCost now entry
                in if c_EndedAt entry < c_StartedAt entry
                   then (Inl (ErrMsg ''cost interval ends before it starts''), s)
                   else writeTx now (recordCostTx entry) s)"

subsection \<open>The operations meet the ledger contract\<close>

lemma upsertJobTx_ok: "upsertJobTx job d = Inr d' \<Longrightarrow> tables_ok d'"
  by (simp add: upsertJobTx_def)

lemma activateSnapshotTx_ok: "activateSnapshotTx i e n at d = Inr d' \<Longrightarrow> tables_ok d'"
  by (auto simp: activateSnapshotTx_def Let_def dest: statements_ok)

lemma recordCostTx_ok: "tables_ok d \<Longrightarrow> recordCostTx c d = Inr (c', d') \<Longrightarrow> tables_ok d'"
  by (auto simp: recordCostTx_def Let_def split: if_splits list.splits)

lemma query_tables [simp]: "tables (snd (query f s)) = tables s"
  unfolding query_def by (cases "draw s") (simp split: option.split, metis draw_tables snd_conv)

definition upsertJobWrite :: "instant \<Rightarrow> Job \<Rightarrow> SQLite \<Rightarrow> unit result \<times> SQLite" where
  "upsertJobWrite now job = writeTx now (\<lambda>d. bindE (upsertJobTx (normalizeJob now job) d) (\<lambda>d. Inr ((), d)))"

interpretation upsert_write: ledger_op "upsertJobWrite now job" for now job
  unfolding upsertJobWrite_def by (rule ledger_op_write) (auto dest: upsertJobTx_ok)

lemma UpsertJob_tables: "tables (snd (UpsertJob now job s)) = tables s \<or>
    tables (snd (UpsertJob now job s)) = tables (snd (upsertJobWrite now job s))"
  by (auto simp: UpsertJob_def jobByKey_def upsertJobWrite_def split: sum.splits prod.splits)

interpretation upsert_job: ledger_safe "UpsertJob now job" for now job
proof
  show "tables_ok (tables s) \<Longrightarrow> tables_ok (tables (snd (UpsertJob now job s)))" for s
    using UpsertJob_tables [of now job s] upsert_write.run_ok [of s now job] by auto
qed

interpretation begin_snapshot: ledger_op "BeginSnapshot now snap" for now snap
  unfolding BeginSnapshot_def Let_def
  by (intro ledger_op_rules) (auto dest: statements_ok)

interpretation activate_snapshot: ledger_op "ActivateSnapshot now i e n at" for now i e n at
  unfolding ActivateSnapshot_def
  by (intro ledger_op_rules) (auto dest: activateSnapshotTx_ok)

interpretation set_snapshot_state: ledger_op "SetSnapshotState now i st det at" for now i st det at
  unfolding SetSnapshotState_def
  by (intro ledger_op_rules) (auto dest: statements_ok split: if_splits)

interpretation record_price_quote: ledger_op "RecordPriceQuote now q" for now q
  unfolding RecordPriceQuote_def Let_def
  by (intro ledger_op_rules) auto

interpretation record_cost: ledger_op "RecordCost now c" for now c
  unfolding RecordCost_def Let_def
  by (intro ledger_op_rules) (auto dest: recordCostTx_ok)

subsection \<open>Merging job records\<close>

lemma mergeJob_key [simp]: "jobKey (mergeJob old new) = jobKey old" "j_ID (mergeJob old new) = j_ID old"
  by (simp_all add: mergeJob_def jobKey_def)

lemma normalizeJob_sel [simp]:
  "jobKey (normalizeJob now job) = jobKey job" "j_CompletedAt (normalizeJob now job) = j_CompletedAt job"
  by (simp_all add: normalizeJob_def jobKey_def Let_def)

definition jobRow :: "string \<times> string \<Rightarrow> Tables \<Rightarrow> Job option" where
  "jobRow key d = find (\<lambda>j. jobKey j = key) (t_jobs d)"

lemma find_updateWhere_key:
  assumes "\<And>x. f (g x) = f x"
  shows "find (\<lambda>x. f x = k) (updateWhere (\<lambda>x. f x = k') g rows) =
         map_option (if k = k' then g else id) (find (\<lambda>x. f x = k) rows)"
  by (induction rows) (auto simp: updateWhere_def assms)

lemma find_append: "find P (xs @ ys) = (case find P xs of None \<Rightarrow> find P ys | Some x \<Rightarrow> Some x)"
  by (induction xs) auto

lemma upsertJobTx_row:
  assumes "upsertJobTx job d = Inr d'"
  shows "jobRow key d' =
    (if key = jobKey job
     then Some (case jobRow key d of None \<Rightarrow> job\<lparr>j_ID := nextID j_ID (t_jobs d)\<rparr> | Some old \<Rightarrow> mergeJob old job)
     else jobRow key d)"
proof (cases "jobKey job \<in> set (map jobKey (t_jobs d))")
  case True
  then obtain old where "jobRow (jobKey job) d = Some old"
    by (cases "jobRow (jobKey job) d") (auto simp: jobRow_def find_None_iff)
  then show ?thesis using assms True
    by (auto simp: upsertJobTx_def jobRow_def find_updateWhere_key option.map_id split: if_splits)
next
  case False
  then have "jobRow (jobKey job) d = None" by (auto simp: jobRow_def find_None_iff image_iff)
  moreover have "jobKey (job\<lparr>j_ID := n\<rparr>) = jobKey job" for n by (simp add: jobKey_def)
  ultimately show ?thesis using assms False
    by (auto simp: upsertJobTx_def jobRow_def find_append split: option.split)
qed

text \<open>A completed job that a record without completion time cannot change back.\<close>

definition settled :: "JobStatus \<Rightarrow> instant \<Rightarrow> Job \<Rightarrow> bool" where
  "settled st at j \<longleftrightarrow> \<not> is_zero at \<and> j_Status j = st \<and> j_CompletedAt j = at"

lemma mergeJob_settled:
  "settled st at old \<Longrightarrow> is_zero (j_CompletedAt new) \<Longrightarrow> settled st at (mergeJob old new)"
  by (simp add: settled_def mergeJob_def mergeStatus_def coalesceTime_def)

lemma upsertJobWrite_settled:
  assumes "jobRow key (tables s) = Some old" "settled st at old" "is_zero (j_CompletedAt new)"
  shows "\<exists>j. jobRow key (tables (snd (upsertJobWrite now new s))) = Some j \<and> settled st at j"
proof -
  obtain r s' where rs: "upsertJobWrite now new s = (r, s')" by fastforce
  show ?thesis
  proof (cases r)
    case (Inl e)
    then show ?thesis using rs assms upsert_write.atomic [of now new s e s'] by simp
  next
    case (Inr u)
    then have "upsertJobTx (normalizeJob now new) (tables s) = Inr (tables s')"
      using rs writeTx_Inr(1) [of now _ s u s'] by (fastforce simp: upsertJobWrite_def)
    then show ?thesis using rs assms upsertJobTx_row [of "normalizeJob now new" "tables s" "tables s'" key]
      by (auto simp: mergeJob_settled)
  qed
qed

lemma UpsertJob_settled:
  assumes "jobRow key (tables s) = Some old" "settled st at old" "is_zero (j_CompletedAt new)"
  shows "\<exists>j. jobRow key (tables (snd (UpsertJob now new s))) = Some j \<and> settled st at j"
  using UpsertJob_tables [of now new s] upsertJobWrite_settled [OF assms] assms(1,2) by auto

fun upserts :: "(instant \<times> Job) list \<Rightarrow> SQLite \<Rightarrow> SQLite" where
  "upserts [] s = s"
| "upserts ((now, job) # rest) s = upserts rest (snd (UpsertJob now job s))"

text \<open>
  C8. An observation without a completion time does not reopen a completed job. Whatever sequence of such
  observations arrives afterwards (late polls, retries, records of other jobs), and wherever the
  database fails among them, the job keeps its terminal status and completion time. An upsert that
  carries a completion time of its own may replace the status; it is outside this property.
\<close>

theorem completed_job_is_final:
  assumes "jobRow key (tables s) = Some old" "\<not> is_zero (j_CompletedAt old)"
    and "\<forall>(now, job) \<in> set updates. is_zero (j_CompletedAt job)"
  shows "\<exists>j. jobRow key (tables (upserts updates s)) = Some j \<and>
             j_Status j = j_Status old \<and> j_CompletedAt j = j_CompletedAt old"
proof -
  have "\<exists>j. jobRow key (tables (upserts updates s)) = Some j \<and> settled (j_Status old) (j_CompletedAt old) j"
    if "\<exists>j. jobRow key (tables s) = Some j \<and> settled (j_Status old) (j_CompletedAt old) j" for s
    using that assms(3)
  proof (induction updates s rule: upserts.induct)
    case (2 now job rest s)
    then show ?case using UpsertJob_settled [of key s _ _ _ job now] by force
  qed simp
  then show ?thesis using assms(1,2) by (fastforce simp: settled_def)
qed

definition sample_job :: Job where
  "sample_job = \<lparr>j_ID = 0, j_Source = ''forgejo'', j_Handle = ''h1'', j_ForgejoJobID = 7, j_Attempt = 1, j_RepositoryID = 3,
     j_RepositoryOwnerID = 2, j_Repository = ''r'', j_Workflow = ''ci'', j_WorkflowFile = ''ci.yml'', j_JobName = ''test'',
     j_IdentityQuality = IdentityExact, j_Tier = ''small'', j_Provider = ''linode'', j_Driver = ''linode'', j_ResourceID = 1,
     j_GenerationID = 0, j_Status = JobSucceeded, j_Conclusion = ''success'', j_InfrastructureFailure = '''',
     j_QueueMeasurementSource = '''', j_RunMeasurementSource = '''', j_FirstSeenAt = 10, j_QueuedAt = zero_time,
     j_DispatchedAt = 11, j_RunnerStartedAt = 12, j_RunnerFinishedAt = 13, j_CompletedAt = 14, j_UpdatedAt = 14\<rparr>"

definition late_poll :: Job where
  "late_poll = sample_job\<lparr>j_Status := JobObserved, j_CompletedAt := zero_time, j_ResourceID := 0, j_UpdatedAt := 20\<rparr>"

definition job_store :: SQLite where
  "job_store = snd (UpsertJob 15 sample_job sample_store)"

theorem completed_job_is_final_witness:
  "\<exists>j. jobRow (''forgejo'', ''h1'') (tables (upserts [(21, late_poll), (22, late_poll)] job_store)) = Some j \<and>
       j_Status j = JobSucceeded \<and> j_CompletedAt j = 14"
proof -
  obtain old where old: "jobRow (''forgejo'', ''h1'') (tables job_store) = Some old"
    "j_Status old = JobSucceeded" "j_CompletedAt old = 14"
  proof -
    have "(case jobRow (''forgejo'', ''h1'') (tables job_store) of
            Some j \<Rightarrow> j_Status j = JobSucceeded \<and> j_CompletedAt j = 14 | None \<Rightarrow> False)" by code_simp
    then show thesis using that by (auto split: option.splits)
  qed
  have "\<not> is_zero (j_CompletedAt old)" using old by (simp add: is_zero_def zero_time_def)
  moreover have "is_zero (j_CompletedAt late_poll)" by (simp add: late_poll_def is_zero_def)
  ultimately show ?thesis
    using completed_job_is_final [of "(''forgejo'', ''h1'')" job_store old "[(21, late_poll), (22, late_poll)]"] old
    by auto
qed

subsection \<open>Costs\<close>

lemma normalizeCost_times:
  "c_Kind (normalizeCost now c) = c_Kind c" "c_ResourceID (normalizeCost now c) = c_ResourceID c"
  "c_JobID (normalizeCost now c) = c_JobID c" "c_SnapshotID (normalizeCost now c) = c_SnapshotID c"
  "c_StartedAt (normalizeCost now c) = normalizeTime now (c_StartedAt c)"
  "c_EndedAt (normalizeCost now c) = normalizeTime now (c_EndedAt c)"
  by (simp_all add: normalizeCost_def Let_def)

lemma cost_key_match:
  "cost_key c = cost_key e \<longleftrightarrow>
   c_ResourceID c = c_ResourceID e \<and> c_SnapshotID c = c_SnapshotID e \<and> c_JobID c = c_JobID e \<and>
   c_Kind c = c_Kind e \<and> c_StartedAt c = c_StartedAt e \<and> (isTerminalCostKind (c_Kind e) \<or> c_EndedAt c = c_EndedAt e)"
  by (auto simp: cost_key_def)

lemma cost_key_id [simp]: "cost_key (c\<lparr>c_ID := i\<rparr>) = cost_key c"
  by (simp add: cost_key_def)

lemma recordCostTx_Inr:
  assumes "recordCostTx entry d = Inr (entry', d')" "tables_ok d"
  obtains c where "c \<in> set (t_costs d')" "cost_key c = cost_key entry" "c_ID c = c_ID entry'" "tables_ok d'"
    "(cost_key entry \<in> cost_key ` set (t_costs d) \<and> d' = d) \<or>
     (cost_key entry \<notin> cost_key ` set (t_costs d) \<and> c = entry\<lparr>c_ID := c_ID entry'\<rparr> \<and> t_costs d' = t_costs d @ [c])"
proof (cases "cost_key entry \<in> cost_key ` set (t_costs d)")
  case True
  have P: "(c_ResourceID c = c_ResourceID entry \<and> c_SnapshotID c = c_SnapshotID entry \<and>
            c_JobID c = c_JobID entry \<and> c_Kind c = c_Kind entry \<and> c_StartedAt c = c_StartedAt entry \<and>
            (isTerminalCostKind (c_Kind entry) \<or> c_EndedAt c = c_EndedAt entry)) \<longleftrightarrow> cost_key c = cost_key entry" for c
    by (rule cost_key_match [symmetric])
  obtain c0 where "c0 \<in> set (t_costs d)" "cost_key c0 = cost_key entry" using True by force
  then have "set (sort_key c_ID (filter (\<lambda>c. cost_key c = cost_key entry) (t_costs d))) \<noteq> {}" by auto
  then obtain c cs where cs: "sort_key c_ID (filter (\<lambda>c. cost_key c = cost_key entry) (t_costs d)) = c # cs"
    by (metis list.exhaust list.set(1))
  then have "c \<in> set (filter (\<lambda>c. cost_key c = cost_key entry) (t_costs d))"
    by (metis list.set_intros(1) set_sort)
  moreover have "entry' = entry\<lparr>c_ID := c_ID c\<rparr>" "d' = d"
    using assms(1) True cs by (simp_all add: recordCostTx_def P)
  ultimately show thesis using that [of c] assms(2) True by auto
next
  case False
  then show thesis using that assms by (auto simp: recordCostTx_def Let_def)
qed

lemma RecordCost_Inr:
  assumes "RecordCost now entry s = (Inr entry', s')"
  obtains e where "recordCostTx e (tables s) = Inr (entry', tables s')" "c_ResourceID e = c_ResourceID entry"
    "c_SnapshotID e = c_SnapshotID entry" "c_JobID e = c_JobID entry" "c_Kind e = c_Kind entry"
    "c_StartedAt e = normalizeTime now (c_StartedAt entry)" "c_EndedAt e = normalizeTime now (c_EndedAt entry)"
  using assms
  by (auto simp: RecordCost_def Let_def normalizeCost_times split: if_splits dest!: writeTx_Inr(1))

text \<open>
  C9. Recording a cost twice counts it once. If an entry was recorded and an entry with the
  same owner, kind and start is recorded again, for a one-shot kind with any end, for a
  recurring kind with the same end, then the second call returns the number of the first
  row and changes no table, so the first estimate remains authoritative.
\<close>

theorem RecordCost_idempotent:
  assumes "tables_ok (tables s)"
    and "RecordCost now entry s = (Inr r1, s1)" "RecordCost now' entry' s1 = (Inr r2, s2)"
    and "c_ResourceID entry' = c_ResourceID entry" "c_SnapshotID entry' = c_SnapshotID entry"
        "c_JobID entry' = c_JobID entry" "c_Kind entry' = c_Kind entry"
        "c_StartedAt entry' = c_StartedAt entry" "\<not> is_zero (c_StartedAt entry)"
    and "isTerminalCostKind (c_Kind entry) \<or> c_EndedAt entry' = c_EndedAt entry \<and> \<not> is_zero (c_EndedAt entry)"
  shows "c_ID r2 = c_ID r1 \<and> tables s2 = tables s1"
proof -
  obtain e where e: "recordCostTx e (tables s) = Inr (r1, tables s1)"
    "c_ResourceID e = c_ResourceID entry" "c_SnapshotID e = c_SnapshotID entry" "c_JobID e = c_JobID entry"
    "c_Kind e = c_Kind entry" "c_StartedAt e = normalizeTime now (c_StartedAt entry)"
    "c_EndedAt e = normalizeTime now (c_EndedAt entry)"
    using RecordCost_Inr [OF assms(2)] by metis
  obtain e' where e': "recordCostTx e' (tables s1) = Inr (r2, tables s2)"
    "c_ResourceID e' = c_ResourceID entry'" "c_SnapshotID e' = c_SnapshotID entry'" "c_JobID e' = c_JobID entry'"
    "c_Kind e' = c_Kind entry'" "c_StartedAt e' = normalizeTime now' (c_StartedAt entry')"
    "c_EndedAt e' = normalizeTime now' (c_EndedAt entry')"
    using RecordCost_Inr [OF assms(3)] by metis
  have key: "cost_key e' = cost_key e"
    using e(2-) e'(2-) assms(4-) by (auto simp: cost_key_match normalizeTime_def)
  obtain c where c: "c \<in> set (t_costs (tables s1))" "cost_key c = cost_key e" "c_ID c = c_ID r1" and ok1: "tables_ok (tables s1)"
    using recordCostTx_Inr [OF e(1) assms(1)] by metis
  obtain c' where c': "c' \<in> set (t_costs (tables s2))" "cost_key c' = cost_key e'" "c_ID c' = c_ID r2"
    and same: "tables s2 = tables s1"
    using recordCostTx_Inr [OF e'(1) ok1] c key by (metis imageI)
  have "distinct (map cost_key (t_costs (tables s1)))" using ok1 by (simp add: tables_ok_def costs_ok_def)
  then have "c' = c" using c c' same key by (auto simp: distinct_map inj_on_def)
  then show ?thesis using c c' same by simp
qed

definition sample_cost :: CostEntry where
  "sample_cost = \<lparr>c_ID = 0, c_ResourceID = 1, c_SnapshotID = 0, c_JobID = 0, c_PriceQuoteID = 0, c_Kind = CostBilledCompute,
     c_Currency = ''usd'', c_Nanos = 72000000, c_Known = True, c_Estimated = True, c_StartedAt = 10, c_EndedAt = 20,
     c_RecordedAt = 21\<rparr>"

definition retried_cost :: CostEntry where
  "retried_cost = sample_cost\<lparr>c_EndedAt := 50, c_Nanos := 108000000\<rparr>"

theorem RecordCost_idempotent_witness:
  "\<exists>r1 s1 r2 s2. RecordCost 30 sample_cost sample_store = (Inr r1, s1) \<and> RecordCost 60 retried_cost s1 = (Inr r2, s2) \<and>
     c_ID r2 = c_ID r1 \<and> tables s2 = tables s1"
proof -
  obtain r1 s1 where 1: "RecordCost 30 sample_cost sample_store = (r1, s1)" by fastforce
  obtain r2 s2 where 2: "RecordCost 60 retried_cost s1 = (r2, s2)" by fastforce
  have "\<not> is_err (fst (RecordCost 30 sample_cost sample_store))" by code_simp
  then obtain a1 where a1: "r1 = Inr a1" using 1 by (cases r1) auto
  have "\<not> is_err (fst (RecordCost 60 retried_cost (snd (RecordCost 30 sample_cost sample_store))))" by code_simp
  then obtain a2 where a2: "r2 = Inr a2" using 1 2 by (cases r2) auto
  have "tables_ok (tables sample_store)" by code_simp
  then have "c_ID a2 = c_ID a1 \<and> tables s2 = tables s1"
    by (rule RecordCost_idempotent [OF _ 1 [unfolded a1] 2 [unfolded a2]])
      (simp_all add: retried_cost_def sample_cost_def is_zero_def zero_time_def)
  then show ?thesis using 1 2 a1 a2 by blast
qed

subsection \<open>One active image per tier\<close>

lemma distinct_updateWhere_key:
  assumes "distinct (map f rows)" "\<And>x. f (g x) = f x"
  shows "distinct (map f (updateWhere P g rows))"
  using assms by (simp add: updateWhere_keys)

definition switchRow :: "int \<Rightarrow> string \<Rightarrow> int \<Rightarrow> instant \<Rightarrow> Snapshot \<Rightarrow> Snapshot \<Rightarrow> Snapshot" where
  "switchRow i ext n at t s =
     (if s_ID s = i
      then s\<lparr>s_ExternalID := ext, s_SizeBytes := n, s_State := SnapshotActive, s_UpdatedAt := at, s_CompletedAt := at\<rparr>
      else if s_State s = SnapshotActive \<and> s_Provider s = s_Provider t \<and> s_Tier s = s_Tier t
      then s\<lparr>s_State := SnapshotStale, s_UpdatedAt := at\<rparr> else s)"

lemma switchRow_sel [simp]:
  "s_ID (switchRow i ext n at t s) = s_ID s" "s_Provider (switchRow i ext n at t s) = s_Provider s"
  "s_Tier (switchRow i ext n at t s) = s_Tier s"
  by (simp_all add: switchRow_def)

lemma switchRow_target:
  "s_ID s = i \<Longrightarrow> s_State (switchRow i ext n at t s) = SnapshotActive \<and> s_ExternalID (switchRow i ext n at t s) = ext"
  by (simp add: switchRow_def)

lemma switchRow_rival:
  "s_ID s \<noteq> i \<Longrightarrow> s_Provider s = s_Provider t \<Longrightarrow> s_Tier s = s_Tier t \<Longrightarrow>
   s_State (switchRow i ext n at t s) = (if s_State s = SnapshotActive then SnapshotStale else s_State s)"
  by (simp add: switchRow_def)

lemma switchRow_other:
  "s_ID s \<noteq> i \<Longrightarrow> s_Provider s \<noteq> s_Provider t \<or> s_Tier s \<noteq> s_Tier t \<Longrightarrow> switchRow i ext n at t s = s"
  by (auto simp: switchRow_def)

lemma activateSnapshotTx_rows:
  assumes "activateSnapshotTx i ext n at d = Inr d'"
  obtains t where "t \<in> set (t_snapshots d)" "s_ID t = i" "t_snapshots d' = map (switchRow i ext n at t) (t_snapshots d)"
proof -
  let ?rows = "t_snapshots d"
  have "find (\<lambda>s. s_ID s = i) ?rows \<noteq> None"
    using assms by (auto simp: activateSnapshotTx_def Let_def find_None_iff updateWhere_def filter_map o_def
        filter_empty_conv split: if_splits)
  then obtain t where t: "find (\<lambda>s. s_ID s = i) ?rows = Some t" by auto
  show thesis
  proof (rule that)
    show "t \<in> set ?rows" "s_ID t = i" using find_Some_in [OF t] by auto
  qed (use assms t in \<open>auto simp: activateSnapshotTx_def updateMutations_def updateWhere_def switchRow_def\<close>)
qed

lemma ActivateSnapshot_Inr:
  assumes "ActivateSnapshot now i ext n at s = (Inr u, s')"
  shows "activateSnapshotTx i ext n (normalizeTime now at) (tables s) = Inr (tables s')"
  using assms by (auto simp: ActivateSnapshot_def split: sum.splits if_splits dest!: writeTx_Inr(1))

definition image_switched :: "int \<Rightarrow> string \<Rightarrow> Snapshot list \<Rightarrow> Snapshot list \<Rightarrow> bool" where
  "image_switched i ext rows rows' \<longleftrightarrow>
     (\<exists>t \<in> set rows'. s_ID t = i \<and> s_State t = SnapshotActive \<and> s_ExternalID t = ext \<and>
        (\<forall>x \<in> set rows'. s_State x = SnapshotActive \<and> s_Provider x = s_Provider t \<and> s_Tier x = s_Tier t \<longrightarrow> x = t) \<and>
        (\<forall>x \<in> set rows. s_State x = SnapshotActive \<and> s_Provider x = s_Provider t \<and> s_Tier x = s_Tier t \<and> s_ID x \<noteq> i \<longrightarrow>
           (\<exists>y \<in> set rows'. s_ID y = s_ID x \<and> s_State y = SnapshotStale)) \<and>
        (\<forall>x \<in> set rows. s_Provider x \<noteq> s_Provider t \<or> s_Tier x \<noteq> s_Tier t \<longrightarrow> x \<in> set rows'))"

lemma switchRow_switched:
  assumes "distinct (map s_ID rows)" "t \<in> set rows" "s_ID t = i"
  shows "image_switched i ext rows (map (switchRow i ext n at t) rows)"
  unfolding image_switched_def
proof (rule bexI [of _ "switchRow i ext n at t t"], intro conjI ballI impI)
  have uniq: "x = t" if "x \<in> set rows" "s_ID x = i" for x
    using that assms by (auto simp: distinct_map inj_on_def)
  show "s_ID (switchRow i ext n at t t) = i" using assms(3) by simp
  show "s_State (switchRow i ext n at t t) = SnapshotActive" "s_ExternalID (switchRow i ext n at t t) = ext"
    using switchRow_target [OF assms(3)] by auto
  show "switchRow i ext n at t t \<in> set (map (switchRow i ext n at t) rows)" using assms(2) by simp
  show "x = switchRow i ext n at t t"
    if h: "x \<in> set (map (switchRow i ext n at t) rows)" "s_State x = SnapshotActive \<and>
        s_Provider x = s_Provider (switchRow i ext n at t t) \<and> s_Tier x = s_Tier (switchRow i ext n at t t)" for x
  proof -
    obtain y where y: "y \<in> set rows" "x = switchRow i ext n at t y" using h(1) by auto
    have "s_ID y = i" using h(2) y(2) switchRow_rival [of y i t ext n at]
      by (cases "s_State y = SnapshotActive"; cases "s_ID y = i") auto
    then show ?thesis using uniq y by blast
  qed
  show "\<exists>y \<in> set (map (switchRow i ext n at t) rows). s_ID y = s_ID x \<and> s_State y = SnapshotStale"
    if "x \<in> set rows" "s_State x = SnapshotActive \<and> s_Provider x = s_Provider (switchRow i ext n at t t) \<and>
        s_Tier x = s_Tier (switchRow i ext n at t t) \<and> s_ID x \<noteq> i" for x
    using that switchRow_rival [of x i t ext n at] by (intro bexI [of _ "switchRow i ext n at t x"]) auto
  show "x \<in> set (map (switchRow i ext n at t) rows)"
    if "x \<in> set rows" "s_Provider x \<noteq> s_Provider (switchRow i ext n at t t) \<or> s_Tier x \<noteq> s_Tier (switchRow i ext n at t t)" for x
  proof -
    have "s_ID x \<noteq> i" using that uniq by auto
    then have "switchRow i ext n at t x = x" using that by (intro switchRow_other) auto
    then show ?thesis using that(1) by (metis image_eqI list.set_map)
  qed
qed

text \<open>
  Activating an image switches atomically. After a successful \<open>ActivateSnapshot\<close> the image
  is the only active one of its provider and tier, the one it replaces is stale, images of
  other providers and tiers are untouched, and a failure leaves every table as it was.
\<close>

theorem ActivateSnapshot_single_active:
  assumes "tables_ok (tables s)"
  shows "case ActivateSnapshot now i ext n at s of
           (Inl e, s') \<Rightarrow> tables s' = tables s
         | (Inr _, s') \<Rightarrow> image_switched i ext (t_snapshots (tables s)) (t_snapshots (tables s'))"
proof -
  obtain r s' where rs: "ActivateSnapshot now i ext n at s = (r, s')" by fastforce
  have "distinct (map s_ID (t_snapshots (tables s)))" using assms by (simp add: tables_ok_def snapshots_ok_def)
  then show ?thesis
    using rs activate_snapshot.atomic [of now i ext n at s _ s'] activateSnapshotTx_rows [OF ActivateSnapshot_Inr] switchRow_switched
    by (cases r) (auto, metis)
qed

definition two_images :: SQLite where
  "two_images = sample_store\<lparr>tables := sample_tables\<lparr>t_snapshots := [
     \<lparr>s_ID = 1, s_OperationID = ''img-1'', s_Provider = ''linode'', s_Driver = ''linode'', s_Tier = ''small'', s_ExternalID = ''private/1'',
      s_Name = ''a'', s_Fingerprint = ''f1'', s_SourceResourceID = 0, s_State = SnapshotActive, s_SizeBytes = 1, s_CreatedAt = 1,
      s_UpdatedAt = 1, s_CompletedAt = 1, s_Detail = ''''\<rparr>,
     \<lparr>s_ID = 2, s_OperationID = ''img-2'', s_Provider = ''linode'', s_Driver = ''linode'', s_Tier = ''small'', s_ExternalID = '''',
      s_Name = ''b'', s_Fingerprint = ''f2'', s_SourceResourceID = 0, s_State = SnapshotBuilding, s_SizeBytes = 0, s_CreatedAt = 2,
      s_UpdatedAt = 2, s_CompletedAt = zero_time, s_Detail = ''''\<rparr>]\<rparr>\<rparr>"

theorem ActivateSnapshot_single_active_witness:
  "\<exists>s'. ActivateSnapshot 9 2 ''private/2'' 5 8 two_images = (Inr (), s') \<and>
        image_switched 2 ''private/2'' (t_snapshots (tables two_images)) (t_snapshots (tables s'))"
proof -
  obtain r s' where rs: "ActivateSnapshot 9 2 ''private/2'' 5 8 two_images = (r, s')" by fastforce
  have "tables_ok (tables two_images)" by code_simp
  moreover have "fst (ActivateSnapshot 9 2 ''private/2'' 5 8 two_images) = Inr ()" by code_simp
  ultimately show ?thesis
    using ActivateSnapshot_single_active [where s = two_images and now = 9 and i = 2 and ext = "''private/2''" and n = 5 and at = 8] rs by auto
qed

end
