(* ===== verification/Routing_Store.thy ===== *)
theory Routing_Store
  imports Ledger_Accounting
begin

text \<open>
  The routing part of the ledger, src/internal/storage/routing.go: observing, deferring,
  assigning, renewing and releasing routing decisions, the queries the router replays, and the
  nearest-rank runtime profiles. A cost column that is NULL when the cost is unknown holds 0
  beside a false \<open>Known\<close> flag.
\<close>

subsection \<open>Writing decisions\<close>

definition decisionZero :: RoutingDecision where
  "decisionZero = \<lparr>d_ID = 0, d_JobID = 0, d_Route = '''', d_RequiredLabel = '''', d_PayloadJSON = '''',
     d_State = RoutingUnset, d_ProfileSource = '''', d_ProfileSamples = 0, d_PredictedP95 = 0,
     d_HistoryFrom = zero_time, d_HistoryTo = zero_time, d_FallbackTier = '''', d_SelectedTier = '''',
     d_SelectedProvider = '''', d_SelectedDriver = '''', d_SelectionReason = '''', d_SelectedIdle = False,
     d_ScoreCurrency = '''', d_SelectedCostNanos = 0, d_SelectedCostKnown = False, d_FallbackCostNanos = 0,
     d_FallbackCostKnown = False, d_FirstSeenAt = zero_time, d_DecidedAt = zero_time, d_ExpiresAt = zero_time,
     d_DeferCount = 0, d_LastDeferral = '''', d_PolicyVersion = '''', d_OptimizationQueued = False,
     d_OptimizationActive = False, d_SelectedWorkerID = '''', d_ScheduledStartAt = zero_time,
     d_ScheduledFinishAt = zero_time, d_OptimizationQueuePosition = 0, d_OptimizationWait = 0\<rparr>"

definition observedRow :: "RoutingDecision \<Rightarrow> int \<Rightarrow> RoutingDecisionRow" where
  "observedRow decision i =
     RoutingDecision.extend
       (decisionZero\<lparr>d_ID := i, d_JobID := d_JobID decision, d_Route := d_Route decision,
          d_RequiredLabel := d_RequiredLabel decision, d_PayloadJSON := d_PayloadJSON decision,
          d_State := d_State decision, d_FallbackTier := d_FallbackTier decision,
          d_FirstSeenAt := d_FirstSeenAt decision, d_PolicyVersion := d_PolicyVersion decision\<rparr>)
       \<lparr>d_OptimizationReleasedAt = zero_time\<rparr>"

definition decisionRow :: "int \<Rightarrow> Tables \<Rightarrow> RoutingDecisionRow option" where
  "decisionRow jobID d = find (\<lambda>r. d_JobID r = jobID) (t_decisions d)"

definition routingDecisionByJob :: "int \<Rightarrow> SQLite \<Rightarrow> RoutingDecision result \<times> SQLite" where
  "routingDecisionByJob jobID = query (\<lambda>d. case decisionRow jobID d of
      None \<Rightarrow> Inl ErrNotFound | Some r \<Rightarrow> Inr (RoutingDecision.truncate r))"

definition updateDecisions :: "(RoutingDecisionRow \<Rightarrow> bool) \<Rightarrow> (RoutingDecisionRow \<Rightarrow> RoutingDecisionRow) \<Rightarrow> Tables \<Rightarrow> (nat \<times> Tables) result" where
  "updateDecisions P f d =
     bindE (checked (d\<lparr>t_decisions := updateWhere P f (t_decisions d)\<rparr>))
       (\<lambda>d'. Inr (length (filter P (t_decisions d)), d'))"

definition observeTx :: "RoutingDecision \<Rightarrow> Tables \<Rightarrow> Tables result" where
  "observeTx decision d =
     checked (d\<lparr>t_decisions :=
       (if d_JobID decision \<in> set (map d_JobID (t_decisions d))
        then updateWhere (\<lambda>r. d_JobID r = d_JobID decision) (\<lambda>r. r\<lparr>d_PayloadJSON := d_PayloadJSON decision\<rparr>) (t_decisions d)
        else t_decisions d @ [observedRow decision (nextID d_ID (t_decisions d))])\<rparr>)"

definition normalizeObservation :: "instant \<Rightarrow> RoutingDecision \<Rightarrow> RoutingDecision" where
  "normalizeObservation now decision =
     (let decision = decision\<lparr>d_FirstSeenAt := normalizeTime now (d_FirstSeenAt decision)\<rparr>
      in if d_State decision = RoutingUnset then decision\<lparr>d_State := RoutingPending\<rparr> else decision)"

definition ObserveRoutingDecision :: "instant \<Rightarrow> RoutingDecision \<Rightarrow> SQLite \<Rightarrow> RoutingDecision result \<times> SQLite" where
  "ObserveRoutingDecision now decision s =
     (if d_JobID decision = 0 \<or> d_Route decision = '''' \<or> d_RequiredLabel decision = '''' \<or>
         d_PayloadJSON decision = '''' \<or> d_FallbackTier decision = '''' \<or> d_PolicyVersion decision = ''''
      then (Inl (ErrMsg ''incomplete routing decision observation''), s)
      else case writeTx now (\<lambda>d. bindE (observeTx (normalizeObservation now decision) d) (\<lambda>d. Inr ((), d))) s of
             (Inl e, s) \<Rightarrow> (Inl e, s)
           | (Inr _, s) \<Rightarrow> routingDecisionByJob (d_JobID decision) s)"

definition DeferRoutingDecision :: "instant \<Rightarrow> int \<Rightarrow> string \<Rightarrow> instant \<Rightarrow> SQLite \<Rightarrow> unit result \<times> SQLite" where
  "DeferRoutingDecision now jobID reason at s =
     writeTx now
       (\<lambda>d. bindE (updateDecisions (\<lambda>r. d_JobID r = jobID \<and> d_State r = RoutingPending)
                     (\<lambda>r. r\<lparr>d_DeferCount := d_DeferCount r + 1, d_LastDeferral := reason, d_ExpiresAt := normalizeTime now at\<rparr>) d)
         (\<lambda>(n, d). bindE (requireAffected n) (\<lambda>_. Inr ((), d)))) s"

definition assignRow :: "RoutingDecision \<Rightarrow> RoutingDecisionRow \<Rightarrow> RoutingDecisionRow" where
  "assignRow decision r =
     r\<lparr>d_State := RoutingAssigned, d_ProfileSource := d_ProfileSource decision, d_ProfileSamples := d_ProfileSamples decision,
       d_PredictedP95 := d_PredictedP95 decision, d_HistoryFrom := d_HistoryFrom decision, d_HistoryTo := d_HistoryTo decision,
       d_SelectedTier := d_SelectedTier decision, d_SelectedProvider := d_SelectedProvider decision,
       d_SelectedDriver := d_SelectedDriver decision, d_SelectionReason := d_SelectionReason decision,
       d_SelectedIdle := d_SelectedIdle decision, d_ScoreCurrency := d_ScoreCurrency decision,
       d_SelectedCostNanos := (if d_SelectedCostKnown decision then d_SelectedCostNanos decision else 0),
       d_SelectedCostKnown := d_SelectedCostKnown decision,
       d_FallbackCostNanos := (if d_FallbackCostKnown decision then d_FallbackCostNanos decision else 0),
       d_FallbackCostKnown := d_FallbackCostKnown decision,
       d_DecidedAt := d_DecidedAt decision, d_ExpiresAt := d_ExpiresAt decision,
       d_OptimizationQueued := d_OptimizationQueued decision, d_OptimizationActive := d_OptimizationActive decision,
       d_SelectedWorkerID := d_SelectedWorkerID decision, d_ScheduledStartAt := d_ScheduledStartAt decision,
       d_ScheduledFinishAt := d_ScheduledFinishAt decision,
       d_OptimizationQueuePosition := d_OptimizationQueuePosition decision, d_OptimizationWait := d_OptimizationWait decision\<rparr>"

definition scoreRow :: "int \<Rightarrow> RoutingCandidateScore \<Rightarrow> RoutingCandidateScore" where
  "scoreRow decisionID k =
     k\<lparr>k_DecisionID := decisionID,
       k_NativeCostNanos := (if k_NativeCostKnown k then k_NativeCostNanos k else 0),
       k_ScoreCostNanos := (if k_ScoreCostKnown k then k_ScoreCostNanos k else 0)\<rparr>"

fun insertScores :: "int \<Rightarrow> RoutingCandidateScore list \<Rightarrow> Tables \<Rightarrow> Tables result" where
  "insertScores decisionID [] d = Inr d"
| "insertScores decisionID (k # ks) d =
     bindE (checked (d\<lparr>t_scores := t_scores d @ [scoreRow decisionID k]\<rparr>)) (insertScores decisionID ks)"

definition insertRoutingCandidates :: "int \<Rightarrow> RoutingCandidateScore list \<Rightarrow> Tables \<Rightarrow> Tables result" where
  "insertRoutingCandidates jobID candidates d =
     (case decisionRow jobID d of
        None \<Rightarrow> Inl (ErrIO ''no rows in result set'')
      | Some r \<Rightarrow> insertScores (d_ID r) candidates d)"

definition assignTx :: "RoutingDecision \<Rightarrow> RoutingCandidateScore list \<Rightarrow> Tables \<Rightarrow> Tables result" where
  "assignTx decision candidates d =
     bindE (updateDecisions (\<lambda>r. d_JobID r = d_JobID decision \<and> d_State r = RoutingPending) (assignRow decision) d)
       (\<lambda>(n, d). if n = 0
          then case decisionRow (d_JobID decision) d of
                 None \<Rightarrow> Inl (ErrIO ''no rows in result set'')
               | Some r \<Rightarrow> if d_State r = RoutingAssigned then Inr d
                           else Inl (ErrMsg ''routing decision is not pending'')
          else insertRoutingCandidates (d_JobID decision) candidates d)"

definition AssignRoutingDecision :: "instant \<Rightarrow> RoutingDecision \<Rightarrow> RoutingCandidateScore list \<Rightarrow> SQLite \<Rightarrow> unit result \<times> SQLite" where
  "AssignRoutingDecision now decision candidates s =
     (if d_JobID decision = 0 \<or> d_SelectedTier decision = '''' \<or> is_zero (d_DecidedAt decision) \<or>
         is_zero (d_ExpiresAt decision) \<or> candidates = []
      then (Inl (ErrMsg ''incomplete routing assignment''), s)
      else writeTx now (\<lambda>d. bindE (assignTx decision candidates d) (\<lambda>d. Inr ((), d))) s)"

definition RenewRoutingDecision :: "instant \<Rightarrow> int \<Rightarrow> string \<Rightarrow> instant \<Rightarrow> SQLite \<Rightarrow> unit result \<times> SQLite" where
  "RenewRoutingDecision now jobID payload expiresAt s =
     writeTx now
       (\<lambda>d. bindE (updateDecisions (\<lambda>r. d_JobID r = jobID \<and> d_State r = RoutingAssigned)
                     (\<lambda>r. r\<lparr>d_PayloadJSON := payload, d_ExpiresAt := normalizeTime now expiresAt\<rparr>) d)
         (\<lambda>(_, d). Inr ((), d))) s"

text \<open>A job that has been observed and not started, as the joins with \<open>jobs\<close> select it.\<close>

definition jobObserved :: "int \<Rightarrow> Tables \<Rightarrow> bool" where
  "jobObserved jobID d \<longleftrightarrow> (\<exists>j \<in> set (t_jobs d). j_ID j = jobID \<and> is_zero (j_CompletedAt j) \<and> j_Status j = JobObserved)"

definition PreserveRoutingAssignments :: "instant \<Rightarrow> string \<Rightarrow> instant \<Rightarrow> instant \<Rightarrow> SQLite \<Rightarrow> unit result \<times> SQLite" where
  "PreserveRoutingAssignments clock route now expiresAt s =
     (if route = '''' then (Inl (ErrMsg ''routing route is required''), s)
      else
        let now = normalizeTime clock now; expiresAt = normalizeTime clock expiresAt
        in writeTx clock
          (\<lambda>d. bindE (updateDecisions (\<lambda>r. d_Route r = route \<and> d_State r = RoutingAssigned \<and>
                          \<not> is_zero (d_ExpiresAt r) \<and> now < d_ExpiresAt r \<and> jobObserved (d_JobID r) d)
                        (\<lambda>r. r\<lparr>d_ExpiresAt := max (d_ExpiresAt r) expiresAt\<rparr>) d)
            (\<lambda>(_, d). Inr ((), d))) s)"

definition ReleaseRoutingOptimization :: "instant \<Rightarrow> int \<Rightarrow> instant \<Rightarrow> SQLite \<Rightarrow> unit result \<times> SQLite" where
  "ReleaseRoutingOptimization now jobID at s =
     writeTx now
       (\<lambda>d. bindE (updateDecisions (\<lambda>r. d_JobID r = jobID \<and> d_OptimizationActive r)
                     (\<lambda>r. r\<lparr>d_OptimizationActive := False, d_OptimizationReleasedAt := normalizeTime now at\<rparr>) d)
         (\<lambda>(_, d). Inr ((), d))) s"

subsection \<open>Reading decisions\<close>

definition PendingRoutedJobs :: "string \<Rightarrow> instant \<Rightarrow> SQLite \<Rightarrow> RoutedJob list result \<times> SQLite" where
  "PendingRoutedJobs tier now = query (\<lambda>d. Inr (map (\<lambda>r.
       \<lparr>rj_DecisionID = d_ID r, rj_JobID = d_JobID r, rj_PayloadJSON = d_PayloadJSON r,
        rj_OptimizationQueued = (d_OptimizationQueued r \<and> d_OptimizationActive r)\<rparr>)
     (sort_key (\<lambda>r. (d_FirstSeenAt r, d_ID r)) (filter (\<lambda>r. d_State r = RoutingAssigned \<and> d_SelectedTier r = tier \<and>
        \<not> is_zero (d_ExpiresAt r) \<and> now < d_ExpiresAt r \<and> jobObserved (d_JobID r) d) (t_decisions d)))))"

definition openStatus :: "int \<Rightarrow> Tables \<Rightarrow> JobStatus option" where
  "openStatus jobID d = map_option j_Status (find (\<lambda>j. j_ID j = jobID \<and> is_zero (j_CompletedAt j)) (t_jobs d))"

definition RoutingReservations :: "instant \<Rightarrow> SQLite \<Rightarrow> RoutingReservation list result \<times> SQLite" where
  "RoutingReservations now = query (\<lambda>d. Inr (concat (map (\<lambda>r.
       case openStatus (d_JobID r) d of
         None \<Rightarrow> []
       | Some st \<Rightarrow>
           if st \<noteq> JobObserved \<or> (\<not> is_zero (d_ExpiresAt r) \<and> now < d_ExpiresAt r)
           then [\<lparr>rv_JobID = d_JobID r, rv_Route = d_Route r, rv_Tier = d_SelectedTier r, rv_WorkerID = d_SelectedWorkerID r,
                  rv_ScheduledStartAt = d_ScheduledStartAt r, rv_ScheduledFinishAt = d_ScheduledFinishAt r,
                  rv_OptimizationQueued = d_OptimizationQueued r, rv_OptimizationActive = d_OptimizationActive r,
                  rv_OptimizationQueuePosition = d_OptimizationQueuePosition r, rv_Status = st\<rparr>] else [])
     (sort_key (\<lambda>r. (d_SelectedWorkerID r, d_ScheduledStartAt r, d_ID r))
        (filter (\<lambda>r. d_State r = RoutingAssigned \<and> d_SelectedWorkerID r \<noteq> '''') (t_decisions d))))))"

subsection \<open>Profiles\<close>

definition nearestRank :: "duration list \<Rightarrow> WorkflowProfile" where
  "nearestRank values =
     (if values = [] then \<lparr>wp_Samples = 0, wp_P95 = 0\<rparr>
      else let values = sort values; index = max ((95 * length values + 99) div 100) 1 - 1
           in \<lparr>wp_Samples = int (length values), wp_P95 = values ! index\<rparr>)"

definition profileRows :: "WorkflowProfileFilter \<Rightarrow> Tables \<Rightarrow> Job list" where
  "profileRows filt d = filter (\<lambda>j.
     j_Source j = wf_Source filt \<and> j_RepositoryID j = wf_RepositoryID filt \<and>
     (if j_WorkflowFile j \<noteq> '''' then j_WorkflowFile j else if j_Workflow j \<noteq> '''' then j_Workflow j else j_JobName j) = wf_Workflow filt \<and>
     j_JobName j = wf_JobName filt \<and> (j_Status j = JobSucceeded \<or> j_Status j = JobFailed) \<and>
     \<not> is_zero (j_RunnerStartedAt j) \<and> \<not> is_zero (j_RunnerFinishedAt j) \<and> j_RunnerStartedAt j \<le> j_RunnerFinishedAt j \<and>
     (is_zero (wf_From filt) \<or> \<not> is_zero (j_CompletedAt j) \<and> wf_From filt \<le> j_CompletedAt j) \<and>
     (is_zero (wf_To filt) \<or> \<not> is_zero (j_CompletedAt j) \<and> j_CompletedAt j < wf_To filt) \<and>
     (wf_Tier filt = '''' \<or> j_Tier j = wf_Tier filt)) (t_jobs d)"

definition workflowProfile :: "WorkflowProfileFilter \<Rightarrow> SQLite \<Rightarrow> WorkflowProfile result \<times> SQLite" where
  "workflowProfile filt s =
     (if wf_Source filt = '''' \<or> wf_RepositoryID filt = 0 \<or> wf_Workflow filt = '''' \<or> wf_JobName filt = ''''
      then (Inl (ErrMsg ''incomplete workflow profile filter''), s)
      else query (\<lambda>d. Inr (nearestRank (map (\<lambda>j. j_RunnerFinishedAt j - j_RunnerStartedAt j) (profileRows filt d)))) s)"

definition PhaseProfile :: "string \<Rightarrow> PhaseKind \<Rightarrow> instant \<Rightarrow> instant \<Rightarrow> SQLite \<Rightarrow> WorkflowProfile result \<times> SQLite" where
  "PhaseProfile tier kind from to =
     query (\<lambda>d. Inr (nearestRank (map (\<lambda>p. p_EndedAt p - p_StartedAt p) (filter (\<lambda>p.
       (\<exists>r \<in> set (t_resources d). r_ID r = p_ResourceID p \<and> r_Tier r = tier) \<and> p_Kind p = kind \<and>
       \<not> is_zero (p_EndedAt p) \<and> p_StartedAt p \<le> p_EndedAt p \<and>
       (is_zero from \<or> from \<le> p_EndedAt p) \<and> (is_zero to \<or> p_EndedAt p < to)) (t_phases d)))))"

subsection \<open>The operations meet the ledger contract\<close>

lemma updateDecisions_ok: "updateDecisions P f d = Inr (n, d') \<Longrightarrow> tables_ok d'"
  by (auto simp: updateDecisions_def)

lemma insertScores_ok: "tables_ok d \<Longrightarrow> insertScores i ks d = Inr d' \<Longrightarrow> tables_ok d'"
  by (induction i ks d rule: insertScores.induct) auto

lemma assignTx_ok: "assignTx dec ks d = Inr d' \<Longrightarrow> tables_ok d'"
  by (auto simp: assignTx_def insertRoutingCandidates_def split: if_splits option.splits
      dest: updateDecisions_ok insertScores_ok [OF updateDecisions_ok])

definition observeWrite :: "instant \<Rightarrow> RoutingDecision \<Rightarrow> SQLite \<Rightarrow> unit result \<times> SQLite" where
  "observeWrite now decision = writeTx now (\<lambda>d. bindE (observeTx (normalizeObservation now decision) d) (\<lambda>d. Inr ((), d)))"

interpretation observe_write: ledger_op "observeWrite now dec" for now dec
  unfolding observeWrite_def by (rule ledger_op_write) (auto simp: observeTx_def)

lemma Observe_tables: "tables (snd (ObserveRoutingDecision now dec s)) = tables s \<or>
    tables (snd (ObserveRoutingDecision now dec s)) = tables (snd (observeWrite now dec s))"
  by (auto simp: ObserveRoutingDecision_def routingDecisionByJob_def observeWrite_def split: sum.splits prod.splits)

interpretation observe: ledger_safe "ObserveRoutingDecision now dec" for now dec
proof
  show "tables_ok (tables s) \<Longrightarrow> tables_ok (tables (snd (ObserveRoutingDecision now dec s)))" for s
    using Observe_tables [of now dec s] observe_write.run_ok [of s now dec] by auto
qed

interpretation defer_decision: ledger_op "DeferRoutingDecision now job reason at" for now job reason at
  unfolding DeferRoutingDecision_def by (intro ledger_op_rules) (auto dest: updateDecisions_ok)

interpretation assign_decision: ledger_op "AssignRoutingDecision now dec ks" for now dec ks
  unfolding AssignRoutingDecision_def by (intro ledger_op_rules) (auto dest: assignTx_ok)

interpretation renew_decision: ledger_op "RenewRoutingDecision now job payload expires" for now job payload expires
  unfolding RenewRoutingDecision_def by (intro ledger_op_rules) (auto dest: updateDecisions_ok)

interpretation preserve_assignments: ledger_op "PreserveRoutingAssignments clock route now expires" for clock route now expires
  unfolding PreserveRoutingAssignments_def Let_def by (intro ledger_op_rules) (auto dest: updateDecisions_ok)

interpretation release_optimization: ledger_op "ReleaseRoutingOptimization now job at" for now job at
  unfolding ReleaseRoutingOptimization_def by (intro ledger_op_rules) (auto dest: updateDecisions_ok)

subsection \<open>A frozen assignment\<close>

text \<open>
  The part of an assigned row nothing may change: everything but the payload and the expiry,
  which renewals write, and the two release columns.
\<close>

definition frozen :: "RoutingDecisionRow \<Rightarrow> RoutingDecision" where
  "frozen r = RoutingDecision.truncate (r\<lparr>d_PayloadJSON := '''', d_ExpiresAt := zero_time, d_OptimizationActive := False\<rparr>)"

definition scorecard :: "int \<Rightarrow> Tables \<Rightarrow> RoutingCandidateScore list" where
  "scorecard decisionID d = filter (\<lambda>k. k_DecisionID k = decisionID) (t_scores d)"

definition assigned_as :: "int \<Rightarrow> RoutingDecision \<Rightarrow> RoutingCandidateScore list \<Rightarrow> Tables \<Rightarrow> bool" where
  "assigned_as jobID f ks d \<longleftrightarrow>
     (\<exists>r. decisionRow jobID d = Some r \<and> d_State r = RoutingAssigned \<and> frozen r = f \<and> scorecard (d_ID r) d = ks)"

lemma frozen_writes [simp]:
  "frozen (r\<lparr>d_PayloadJSON := p\<rparr>) = frozen r" "frozen (r\<lparr>d_ExpiresAt := e\<rparr>) = frozen r"
  "frozen (r\<lparr>d_OptimizationActive := b\<rparr>) = frozen r" "frozen (r\<lparr>d_OptimizationReleasedAt := t\<rparr>) = frozen r"
  by (simp_all add: frozen_def RoutingDecision.defs)

lemma frozen_id: "frozen r = frozen r' \<Longrightarrow> d_ID r = d_ID r' \<and> d_State r = d_State r'"
  by (simp add: frozen_def RoutingDecision.defs)

lemma decisionRow_update:
  assumes "\<And>r. d_JobID (f r) = d_JobID r"
  shows "decisionRow jobID (d\<lparr>t_decisions := updateWhere P f (t_decisions d)\<rparr>) =
         map_option (\<lambda>r. if P r then f r else r) (decisionRow jobID d)"
proof -
  have "find (\<lambda>r. d_JobID r = jobID) (updateWhere P f rows) =
        map_option (\<lambda>r. if P r then f r else r) (find (\<lambda>r. d_JobID r = jobID) rows)" for rows
    by (induction rows) (auto simp: updateWhere_def assms)
  then show ?thesis by (simp add: decisionRow_def)
qed

lemma updateDecisions_assigned:
  assumes "updateDecisions P f d = Inr (n, d')" "assigned_as jobID fr ks d"
    and "\<And>r. d_JobID (f r) = d_JobID r"
    and "\<And>r. P r \<Longrightarrow> d_State r = RoutingAssigned \<Longrightarrow> frozen (f r) = frozen r"
  shows "assigned_as jobID fr ks d'"
proof -
  obtain r where r: "decisionRow jobID d = Some r" "d_State r = RoutingAssigned" "frozen r = fr" "scorecard (d_ID r) d = ks"
    using assms(2) by (auto simp: assigned_as_def)
  let ?r' = "if P r then f r else r"
  have "frozen ?r' = frozen r" using assms(4) r(2) by auto
  moreover from this have "d_ID ?r' = d_ID r" "d_State ?r' = d_State r" using frozen_id by blast+
  moreover have "decisionRow jobID d' = Some ?r'" "t_scores d' = t_scores d"
    using assms(1) r(1) by (auto simp: updateDecisions_def decisionRow_update assms(3))
  ultimately show ?thesis using r by (auto simp: assigned_as_def scorecard_def)
qed

lemma observeTx_assigned:
  assumes "observeTx dec d = Inr d'" "assigned_as jobID fr ks d"
  shows "assigned_as jobID fr ks d'"
proof (cases "d_JobID dec \<in> set (map d_JobID (t_decisions d))")
  case True
  then have "updateDecisions (\<lambda>r. d_JobID r = d_JobID dec) (\<lambda>r. r\<lparr>d_PayloadJSON := d_PayloadJSON dec\<rparr>) d
    = Inr (length (filter (\<lambda>r. d_JobID r = d_JobID dec) (t_decisions d)), d')"
    using assms(1) by (auto simp: observeTx_def updateDecisions_def)
  then show ?thesis using assms(2) by (rule updateDecisions_assigned) simp_all
next
  case False
  then show ?thesis using assms by (auto simp: observeTx_def assigned_as_def decisionRow_def find_append scorecard_def)
qed

lemma insertScores_frame:
  assumes "insertScores i ks d = Inr d'"
  shows "t_decisions d' = t_decisions d \<and> (\<forall>j. j \<noteq> i \<longrightarrow> scorecard j d' = scorecard j d)"
  using assms
  by (induction i ks d rule: insertScores.induct) (auto simp: scorecard_def scoreRow_def)

lemma assignTx_assigned:
  assumes "assignTx dec cands d = Inr d'" "assigned_as jobID fr ks d" "tables_ok d"
  shows "assigned_as jobID fr ks d'"
proof -
  let ?P = "\<lambda>r. d_JobID r = d_JobID dec \<and> d_State r = RoutingPending"
  obtain n d1 where d1: "updateDecisions ?P (assignRow dec) d = Inr (n, d1)"
    using assms(1) by (auto simp: assignTx_def)
  have a1: "assigned_as jobID fr ks d1"
    using d1 assms(2) by (rule updateDecisions_assigned) (auto simp: assignRow_def)
  show ?thesis
  proof (cases "n = 0")
    case True
    then show ?thesis using a1 assms(1) d1 by (auto simp: assignTx_def split: option.splits if_splits)
  next
    case False
    then obtain r where r: "decisionRow (d_JobID dec) d1 = Some r" "insertScores (d_ID r) cands d1 = Inr d'"
      using assms(1) d1 by (auto simp: assignTx_def insertRoutingCandidates_def split: option.splits)
    obtain q where q: "decisionRow jobID d1 = Some q" "d_State q = RoutingAssigned" "frozen q = fr" "scorecard (d_ID q) d1 = ks"
      using a1 by (auto simp: assigned_as_def)
    have "d_ID q \<noteq> d_ID r"
    proof
      assume same: "d_ID q = d_ID r"
      have ok1: "tables_ok d1" using d1 by (rule updateDecisions_ok)
      have "q \<in> set (t_decisions d1)" "r \<in> set (t_decisions d1)" "d_JobID q = jobID" "d_JobID r = d_JobID dec"
        using q(1) r(1) by (auto simp: decisionRow_def dest: find_Some_in)
      then have job: "jobID = d_JobID dec"
        using same ok1 by (auto simp: tables_ok_def decisions_ok_def distinct_map inj_on_def)
      obtain p where p: "decisionRow jobID d = Some p" "d_State p = RoutingAssigned"
        using assms(2) by (auto simp: assigned_as_def)
      obtain x where x: "x \<in> set (t_decisions d)" "?P x"
        using False d1 by (auto simp: updateDecisions_def filter_empty_conv)
      have "p \<in> set (t_decisions d)" "d_JobID p = jobID" using p(1) by (auto simp: decisionRow_def dest: find_Some_in)
      then have "p = x" using x job assms(3) by (auto simp: tables_ok_def decisions_ok_def distinct_map inj_on_def)
      then show False using p(2) x(2) by simp
    qed
    then show ?thesis using insertScores_frame [OF r(2)] q
      by (auto simp: assigned_as_def decisionRow_def)
  qed
qed

text \<open>The writes of the router, one at a time; reads do not change the tables.\<close>

datatype routing_call =
    Observe RoutingDecision
  | Defer int string instant
  | Assign RoutingDecision "RoutingCandidateScore list"
  | Renew int string instant
  | Preserve string instant instant
  | Release int instant

fun runRouting :: "instant \<Rightarrow> routing_call \<Rightarrow> SQLite \<Rightarrow> SQLite" where
  "runRouting now (Observe dec) s = snd (ObserveRoutingDecision now dec s)"
| "runRouting now (Defer job reason at) s = snd (DeferRoutingDecision now job reason at s)"
| "runRouting now (Assign dec ks) s = snd (AssignRoutingDecision now dec ks s)"
| "runRouting now (Renew job payload at) s = snd (RenewRoutingDecision now job payload at s)"
| "runRouting now (Preserve route at expires) s = snd (PreserveRoutingAssignments now route at expires s)"
| "runRouting now (Release job at) s = snd (ReleaseRoutingOptimization now job at s)"

lemma writeTx_preserves:
  assumes "I (tables s)" "\<And>a d'. fn (tables s) = Inr (a, d') \<Longrightarrow> I d'"
  shows "I (tables (snd (writeTx now fn s)))"
  by (cases rule: writeTx_cases [of now fn s]) (use assms in auto)

lemma runRouting_ok: "tables_ok (tables s) \<Longrightarrow> tables_ok (tables (runRouting now c s))"
  by (cases c) (simp_all add: observe.run_ok defer_decision.run_ok assign_decision.run_ok renew_decision.run_ok
      preserve_assignments.run_ok release_optimization.run_ok)

lemma writeTx_assigned:
  assumes "assigned_as jobID fr ks (tables s)"
    and "\<And>a d'. fn (tables s) = Inr (a, d') \<Longrightarrow> assigned_as jobID fr ks d'"
  shows "assigned_as jobID fr ks (tables (snd (writeTx now fn s)))"
  using assms by (rule writeTx_preserves)

lemma runRouting_assigned:
  assumes "tables_ok (tables s)" "assigned_as jobID fr ks (tables s)"
  shows "assigned_as jobID fr ks (tables (runRouting now c s))"
proof (cases c)
  case (Observe dec)
  have "assigned_as jobID fr ks (tables (snd (observeWrite now dec s)))"
    unfolding observeWrite_def
    by (rule writeTx_assigned [OF assms(2)]) (auto intro: observeTx_assigned [OF _ assms(2)])
  then show ?thesis using Observe Observe_tables [of now dec s] assms(2) by auto
next
  case (Defer job reason at)
  show ?thesis unfolding Defer runRouting.simps DeferRoutingDecision_def
    by (rule writeTx_assigned [OF assms(2)]) (clarsimp, erule updateDecisions_assigned [OF _ assms(2)]; simp)
next
  case (Assign dec cands)
  have "assigned_as jobID fr ks (tables (snd (writeTx now (\<lambda>d. bindE (assignTx dec cands d) (\<lambda>d. Inr ((), d))) s)))"
    by (rule writeTx_assigned [OF assms(2)]) (auto intro: assignTx_assigned [OF _ assms(2,1)])
  then show ?thesis using assms(2) Assign by (simp add: AssignRoutingDecision_def)
next
  case (Renew job payload at)
  show ?thesis unfolding Renew runRouting.simps RenewRoutingDecision_def
    by (rule writeTx_assigned [OF assms(2)]) (clarsimp, erule updateDecisions_assigned [OF _ assms(2)]; simp)
next
  case (Preserve route at expires)
  have "assigned_as jobID fr ks (tables (snd (PreserveRoutingAssignments now route at expires s)))" if "route \<noteq> ''''"
    unfolding PreserveRoutingAssignments_def Let_def if_not_P [OF that]
    by (rule writeTx_assigned [OF assms(2)]) (clarsimp, erule updateDecisions_assigned [OF _ assms(2)]; simp)
  then show ?thesis using Preserve assms(2) by (cases "route = ''''") (simp_all add: PreserveRoutingAssignments_def)
next
  case (Release job at)
  show ?thesis unfolding Release runRouting.simps ReleaseRoutingOptimization_def
    by (rule writeTx_assigned [OF assms(2)]) (clarsimp, erule updateDecisions_assigned [OF _ assms(2)]; simp)
qed

fun runRoutings :: "(instant \<times> routing_call) list \<Rightarrow> SQLite \<Rightarrow> SQLite" where
  "runRoutings [] s = s"
| "runRoutings ((now, c) # cs) s = runRoutings cs (runRouting now c s)"

text \<open>
  C3. A routing decision is made once. After a job has been assigned, no sequence of the
  router's writes, replayed observations and competing assignments included, and no failure
  among them, changes the selected tier, worker, costs, schedule or the recorded scorecard;
  only the payload, the expiry and the optimization hold can change.
\<close>

theorem assignment_is_frozen:
  assumes "tables_ok (tables s)" "decisionRow jobID (tables s) = Some r" "d_State r = RoutingAssigned"
  shows "\<exists>r'. decisionRow jobID (tables (runRoutings calls s)) = Some r' \<and> d_State r' = RoutingAssigned \<and>
              frozen r' = frozen r \<and> d_ID r' = d_ID r \<and>
              scorecard (d_ID r') (tables (runRoutings calls s)) = scorecard (d_ID r) (tables s)"
proof -
  have "assigned_as jobID fr ks (tables (runRoutings calls t))"
    if "tables_ok (tables t)" "assigned_as jobID fr ks (tables t)" for t fr ks
    using that by (induction calls t rule: runRoutings.induct) (simp_all add: runRouting_ok runRouting_assigned)
  moreover have "assigned_as jobID (frozen r) (scorecard (d_ID r) (tables s)) (tables s)"
    using assms(2,3) by (auto simp: assigned_as_def)
  ultimately have "assigned_as jobID (frozen r) (scorecard (d_ID r) (tables s)) (tables (runRoutings calls s))"
    using assms(1) by blast
  then obtain r' where "decisionRow jobID (tables (runRoutings calls s)) = Some r'" "d_State r' = RoutingAssigned"
    "frozen r' = frozen r" "scorecard (d_ID r') (tables (runRoutings calls s)) = scorecard (d_ID r) (tables s)"
    unfolding assigned_as_def by blast
  then show ?thesis using frozen_id [of r' r] by blast
qed

definition sample_candidate :: RoutingCandidateScore where
  "sample_candidate = \<lparr>k_DecisionID = 0, k_Tier = ''small'', k_Provider = ''linode'', k_Driver = ''linode'', k_InstanceType = ''g6'',
     k_Eligible = True, k_Reason = '''', k_IdleWorkers = 1, k_ActiveWorkers = 1, k_PendingWorkers = 0, k_MaxInstances = 3,
     k_UsedIdle = True, k_ProfileSource = ''exact'', k_ProfileSamples = 4, k_PredictedRun = 60, k_ProvisionP95 = 90,
     k_ResetP95 = 90, k_IdleInstanceID = ''vm-1'', k_IdleCreatedAt = 1, k_IdlePaidHourEndAt = 100, k_IdleReapEligibleAt = 95,
     k_PriceQuoteID = 0, k_NativeCurrency = ''USD'', k_NativeCostNanos = 5, k_NativeCostKnown = True, k_FXRate = ''1'',
     k_ScoreCostNanos = 5, k_ScoreCostKnown = True, k_Rank = 1, k_Selected = True, k_OptimizationQueued = False,
     k_ScheduledStartAt = 30, k_ScheduledFinishAt = 90, k_OptimizationQueuePosition = 0, k_OptimizationWait = 0\<rparr>"

definition sample_observation :: RoutingDecision where
  "sample_observation = decisionZero\<lparr>d_JobID := 1, d_Route := ''auto'', d_RequiredLabel := ''auto'', d_PayloadJSON := ''{}'',
     d_FallbackTier := ''small'', d_FirstSeenAt := 30, d_PolicyVersion := ''v1''\<rparr>"

definition sample_assignment :: "string \<Rightarrow> RoutingDecision" where
  "sample_assignment tier = sample_observation\<lparr>d_SelectedTier := tier, d_DecidedAt := 31, d_ExpiresAt := 500\<rparr>"

definition routed_store :: SQLite where
  "routed_store = runRoutings [(30, Observe sample_observation), (31, Assign (sample_assignment ''small'') [sample_candidate])] job_store"

theorem assignment_is_frozen_witness:
  "\<exists>r r'. decisionRow 1 (tables routed_store) = Some r \<and>
     decisionRow 1 (tables (runRoutings [(32, Assign (sample_assignment ''large'') [sample_candidate])] routed_store)) = Some r' \<and>
     frozen r' = frozen r \<and> d_SelectedTier r = ''small''"
proof -
  have "tables_ok (tables routed_store)" by code_simp
  moreover have "(case decisionRow 1 (tables routed_store) of None \<Rightarrow> False
      | Some r \<Rightarrow> d_State r = RoutingAssigned \<and> d_SelectedTier r = ''small'')" by code_simp
  then obtain r where "decisionRow 1 (tables routed_store) = Some r" "d_State r = RoutingAssigned" "d_SelectedTier r = ''small''"
    by (auto split: option.splits)
  ultimately show ?thesis using assignment_is_frozen by blast
qed

subsection \<open>Nearest-rank profiles\<close>

lemma sorted_count_le:
  assumes "sorted xs" "i < length xs"
  shows "i + 1 \<le> length (filter (\<lambda>x. x \<le> xs ! i) xs)"
proof -
  have "filter (\<lambda>x. x \<le> xs ! i) (take (i + 1) xs) = take (i + 1) xs"
    using assms by (auto simp: filter_id_conv in_set_conv_nth sorted_iff_nth_mono)
  moreover have "filter (\<lambda>x. x \<le> xs ! i) xs =
      filter (\<lambda>x. x \<le> xs ! i) (take (i + 1) xs) @ filter (\<lambda>x. x \<le> xs ! i) (drop (i + 1) xs)"
    by (metis append_take_drop_id filter_append)
  ultimately show ?thesis using assms(2) by simp
qed

lemma sorted_count_less:
  assumes "sorted xs" "i < length xs"
  shows "length (filter (\<lambda>x. x < xs ! i) xs) \<le> i"
proof -
  have "filter (\<lambda>x. x < xs ! i) (drop i xs) = []"
    using assms by (auto simp: filter_empty_conv in_set_conv_nth not_less sorted_iff_nth_mono)
  then have "filter (\<lambda>x. x < xs ! i) xs = filter (\<lambda>x. x < xs ! i) (take i xs)"
    by (metis append_Nil2 append_take_drop_id filter_append)
  then show ?thesis using length_filter_le [of "\<lambda>x. x < xs ! i" "take i xs"] by simp
qed

lemma count_sort: "length (filter P (sort xs)) = length (filter P (xs :: int list))"
  by (simp add: filter_sort)

text \<open>
  The runtime estimate is the exact nearest-rank 95th percentile: it is one of the
  measured durations, at least 95 percent of them are not longer, and fewer than 95 percent
  are shorter; without history the profile is empty.
\<close>

theorem nearestRank_p95:
  "wp_Samples (nearestRank values) = int (length values) \<and>
   (if values = [] then wp_P95 (nearestRank values) = 0
    else wp_P95 (nearestRank values) \<in> set values \<and>
         95 * length values \<le> 100 * length (filter (\<lambda>x. x \<le> wp_P95 (nearestRank values)) values) \<and>
         100 * length (filter (\<lambda>x. x < wp_P95 (nearestRank values)) values) < 95 * length values)"
proof (cases "values = []")
  case False
  define n where "n = length values"
  define i where "i = (95 * n + 99) div 100 - 1"
  have n: "0 < n" using False by (simp add: n_def)
  have i: "max ((95 * n + 99) div 100) 1 - 1 = i" "i < n" "100 * i < 95 * n" "95 * n \<le> 100 * (i + 1)"
    using n by (auto simp: i_def)
  have v: "wp_P95 (nearestRank values) = sort values ! i"
    using False i(1) by (simp add: nearestRank_def Let_def n_def)
  have "i < length (sort values)" using i(2) by (simp add: n_def)
  then have "sort values ! i \<in> set values"
    "i + 1 \<le> length (filter (\<lambda>x. x \<le> sort values ! i) values)" "length (filter (\<lambda>x. x < sort values ! i) values) \<le> i"
    using sorted_count_le [of "sort values" i] sorted_count_less [of "sort values" i] nth_mem [of i "sort values"]
    by (simp_all add: count_sort)
  then show ?thesis using False i v by (simp add: nearestRank_def Let_def n_def)
qed (simp add: nearestRank_def)

end
