(* ===== verification/Retention.thy ===== *)
theory Retention
  imports Routing_Store
begin

text \<open>
  Retention, src/internal/storage/retention.go, with the foreign-key actions of schema.go: the
  eight \<open>DELETE\<close> statements of \<open>Retain\<close> in order. A delete applies the \<open>ON DELETE\<close> action of
  every reference to the rows it removes (\<open>CASCADE\<close> removes, \<open>SET NULL\<close> clears); a reference
  with no action makes the statement fail.
\<close>

subsection \<open>Deleting rows\<close>

definition clearRef :: "int list \<Rightarrow> int \<Rightarrow> int" where
  "clearRef ids i = (if i \<in> set ids then 0 else i)"

definition deleteGenerationRows :: "int list \<Rightarrow> Tables \<Rightarrow> Tables" where
  "deleteGenerationRows ids d =
     d\<lparr>t_generations := filter (\<lambda>g. g_ID g \<notin> set ids) (t_generations d),
       t_jobs := map (\<lambda>j. j\<lparr>j_GenerationID := clearRef ids (j_GenerationID j)\<rparr>) (t_jobs d),
       t_phases := map (\<lambda>p. p\<lparr>p_GenerationID := clearRef ids (p_GenerationID p)\<rparr>) (t_phases d)\<rparr>"

definition deleteJobRows :: "int list \<Rightarrow> Tables \<Rightarrow> Tables" where
  "deleteJobRows ids d =
     (let gone = map d_ID (filter (\<lambda>r. d_JobID r \<in> set ids) (t_decisions d))
      in d\<lparr>t_jobs := filter (\<lambda>j. j_ID j \<notin> set ids) (t_jobs d),
           t_phases := map (\<lambda>p. p\<lparr>p_JobID := clearRef ids (p_JobID p)\<rparr>) (t_phases d),
           t_costs := map (\<lambda>c. c\<lparr>c_JobID := clearRef ids (c_JobID c)\<rparr>) (t_costs d),
           t_decisions := filter (\<lambda>r. d_JobID r \<notin> set ids) (t_decisions d),
           t_scores := filter (\<lambda>k. k_DecisionID k \<notin> set gone) (t_scores d)\<rparr>)"

definition deleteSnapshotRows :: "int list \<Rightarrow> Tables \<Rightarrow> Tables" where
  "deleteSnapshotRows ids d =
     d\<lparr>t_snapshots := filter (\<lambda>s. s_ID s \<notin> set ids) (t_snapshots d),
       t_mutations := map (\<lambda>m. m\<lparr>m_SnapshotID := clearRef ids (m_SnapshotID m)\<rparr>) (t_mutations d),
       t_costs := map (\<lambda>c. c\<lparr>c_SnapshotID := clearRef ids (c_SnapshotID c)\<rparr>) (t_costs d)\<rparr>"

definition deleteResourceRows :: "int list \<Rightarrow> Tables \<Rightarrow> Tables" where
  "deleteResourceRows ids d =
     (let d = deleteGenerationRows (map g_ID (filter (\<lambda>g. g_ResourceID g \<in> set ids) (t_generations d))) d
      in d\<lparr>t_resources := filter (\<lambda>r. r_ID r \<notin> set ids) (t_resources d),
           t_phases := filter (\<lambda>p. p_ResourceID p \<notin> set ids) (t_phases d),
           t_jobs := map (\<lambda>j. j\<lparr>j_ResourceID := clearRef ids (j_ResourceID j)\<rparr>) (t_jobs d),
           t_snapshots := map (\<lambda>s. s\<lparr>s_SourceResourceID := clearRef ids (s_SourceResourceID s)\<rparr>) (t_snapshots d),
           t_mutations := map (\<lambda>m. m\<lparr>m_ResourceID := clearRef ids (m_ResourceID m)\<rparr>) (t_mutations d),
           t_costs := map (\<lambda>c. c\<lparr>c_ResourceID := clearRef ids (c_ResourceID c)\<rparr>) (t_costs d)\<rparr>)"

subsection \<open>The conditions of the statements\<close>

definition resourceDone :: "Resource \<Rightarrow> bool" where
  "resourceDone r \<longleftrightarrow> \<not> is_zero (r_ClosedAt r) \<and> r_State r \<in> {ResourceClosed, ResourceFailed, ResourceVanished}"

definition resourceDoneID :: "Tables \<Rightarrow> int \<Rightarrow> bool" where
  "resourceDoneID d i \<longleftrightarrow> (\<exists>r \<in> set (t_resources d). r_ID r = i \<and> resourceDone r)"

definition oldCost :: "instant \<Rightarrow> Tables \<Rightarrow> CostEntry \<Rightarrow> bool" where
  "oldCost cutoff d c \<longleftrightarrow> c_EndedAt c < cutoff \<and>
     (c_ResourceID c = 0 \<or> resourceDoneID d (c_ResourceID c)) \<and>
     (c_SnapshotID c = 0 \<or> (\<exists>s \<in> set (t_snapshots d). s_ID s = c_SnapshotID c \<and>
        s_State s \<in> {SnapshotDeleted, SnapshotFailed} \<and> \<not> is_zero (s_CompletedAt s))) \<and>
     (c_JobID c = 0 \<or> (\<exists>j \<in> set (t_jobs d). j_ID j = c_JobID c \<and> \<not> is_zero (j_CompletedAt j)))"

definition oldPhase :: "instant \<Rightarrow> Tables \<Rightarrow> Phase \<Rightarrow> bool" where
  "oldPhase cutoff d p \<longleftrightarrow> \<not> is_zero (p_EndedAt p) \<and> p_EndedAt p < cutoff \<and> resourceDoneID d (p_ResourceID p) \<and>
     (p_JobID p = 0 \<or> (\<exists>j \<in> set (t_jobs d). j_ID j = p_JobID p \<and> \<not> is_zero (j_CompletedAt j)))"

definition oldJob :: "instant \<Rightarrow> Tables \<Rightarrow> Job \<Rightarrow> bool" where
  "oldJob cutoff d j \<longleftrightarrow> \<not> is_zero (j_CompletedAt j) \<and> j_CompletedAt j < cutoff \<and>
     j_Status j \<in> {JobSucceeded, JobFailed, JobCancelled, JobSkipped, JobInfraFailed, JobInterrupted} \<and>
     (j_ResourceID j = 0 \<or> resourceDoneID d (j_ResourceID j)) \<and>
     (j_GenerationID j = 0 \<or> (\<exists>g \<in> set (t_generations d). g_ID g = j_GenerationID j \<and>
        \<not> is_zero (g_ClosedAt g) \<and> g_State g \<in> {GenerationClosed, GenerationFailed}))"

definition oldGeneration :: "instant \<Rightarrow> Tables \<Rightarrow> Generation \<Rightarrow> bool" where
  "oldGeneration cutoff d g \<longleftrightarrow> \<not> is_zero (g_ClosedAt g) \<and> g_ClosedAt g < cutoff \<and>
     g_State g \<in> {GenerationClosed, GenerationFailed} \<and> resourceDoneID d (g_ResourceID g) \<and>
     \<not> (\<exists>j \<in> set (t_jobs d). j_GenerationID j = g_ID g)"

definition oldSnapshot :: "instant \<Rightarrow> Tables \<Rightarrow> Snapshot \<Rightarrow> bool" where
  "oldSnapshot cutoff d s \<longleftrightarrow> \<not> is_zero (s_CompletedAt s) \<and> s_CompletedAt s < cutoff \<and>
     s_State s \<in> {SnapshotDeleted, SnapshotFailed} \<and>
     \<not> (\<exists>m \<in> set (t_mutations d). m_SnapshotID m = s_ID s \<and> m_State m = MutationPending)"

definition oldMutation :: "instant \<Rightarrow> Tables \<Rightarrow> Mutation \<Rightarrow> bool" where
  "oldMutation cutoff d m \<longleftrightarrow> \<not> is_zero (m_CompletedAt m) \<and> m_CompletedAt m < cutoff \<and>
     m_State m \<in> {MutationSucceeded, MutationFailed} \<and>
     (m_ResourceID m = 0 \<or> \<not> (\<exists>r \<in> set (t_resources d). r_ID r = m_ResourceID m \<and> is_zero (r_ClosedAt r))) \<and>
     (m_SnapshotID m = 0 \<or> \<not> (\<exists>s \<in> set (t_snapshots d). s_ID s = m_SnapshotID m \<and>
        s_State s \<notin> {SnapshotDeleted, SnapshotFailed}))"

definition oldResource :: "instant \<Rightarrow> Tables \<Rightarrow> Resource \<Rightarrow> bool" where
  "oldResource cutoff d r \<longleftrightarrow> \<not> is_zero (r_ClosedAt r) \<and> r_ClosedAt r < cutoff \<and>
     r_State r \<in> {ResourceClosed, ResourceFailed, ResourceVanished} \<and>
     \<not> (\<exists>g \<in> set (t_generations d). g_ResourceID g = r_ID r) \<and>
     \<not> (\<exists>p \<in> set (t_phases d). p_ResourceID p = r_ID r) \<and>
     \<not> (\<exists>j \<in> set (t_jobs d). j_ResourceID j = r_ID r) \<and>
     \<not> (\<exists>m \<in> set (t_mutations d). m_ResourceID m = r_ID r \<and> m_State m = MutationPending) \<and>
     \<not> (\<exists>s \<in> set (t_snapshots d). s_SourceResourceID s = r_ID r \<and> s_State s \<notin> {SnapshotDeleted, SnapshotFailed})"

definition oldQuote :: "instant \<Rightarrow> Tables \<Rightarrow> PriceQuote \<Rightarrow> bool" where
  "oldQuote cutoff d q \<longleftrightarrow> q_ObservedAt q < cutoff \<and>
     \<not> (\<exists>r \<in> set (t_resources d). r_PriceQuoteID r = q_ID q) \<and>
     \<not> (\<exists>c \<in> set (t_costs d). c_PriceQuoteID c = q_ID q)"

subsection \<open>Retain\<close>

definition deleteCosts :: "instant \<Rightarrow> Tables \<Rightarrow> Tables" where
  "deleteCosts cutoff d = d\<lparr>t_costs := filter (\<lambda>c. \<not> oldCost cutoff d c) (t_costs d)\<rparr>"

definition deletePhases :: "instant \<Rightarrow> Tables \<Rightarrow> Tables" where
  "deletePhases cutoff d = d\<lparr>t_phases := filter (\<lambda>p. \<not> oldPhase cutoff d p) (t_phases d)\<rparr>"

definition deleteJobs :: "instant \<Rightarrow> Tables \<Rightarrow> Tables" where
  "deleteJobs cutoff d = deleteJobRows (map j_ID (filter (oldJob cutoff d) (t_jobs d))) d"

definition deleteGenerations :: "instant \<Rightarrow> Tables \<Rightarrow> Tables" where
  "deleteGenerations cutoff d = deleteGenerationRows (map g_ID (filter (oldGeneration cutoff d) (t_generations d))) d"

definition deleteSnapshots :: "instant \<Rightarrow> Tables \<Rightarrow> Tables" where
  "deleteSnapshots cutoff d = deleteSnapshotRows (map s_ID (filter (oldSnapshot cutoff d) (t_snapshots d))) d"

definition deleteMutations :: "instant \<Rightarrow> Tables \<Rightarrow> Tables" where
  "deleteMutations cutoff d = d\<lparr>t_mutations := filter (\<lambda>m. \<not> oldMutation cutoff d m) (t_mutations d)\<rparr>"

definition deleteResources :: "instant \<Rightarrow> Tables \<Rightarrow> Tables" where
  "deleteResources cutoff d = deleteResourceRows (map r_ID (filter (oldResource cutoff d) (t_resources d))) d"

definition deleteQuotes :: "instant \<Rightarrow> Tables \<Rightarrow> Tables" where
  "deleteQuotes cutoff d = d\<lparr>t_quotes := filter (\<lambda>q. \<not> oldQuote cutoff d q) (t_quotes d)\<rparr>"

text \<open>One \<open>deleteCount\<close>: run the statement, report the rows it removed from its own table.\<close>

definition deleteCount :: "(Tables \<Rightarrow> nat) \<Rightarrow> (Tables \<Rightarrow> Tables) \<Rightarrow> Tables \<Rightarrow> (nat \<times> Tables) result" where
  "deleteCount rows f d = bindE (checked (f d)) (\<lambda>d'. Inr (rows d - rows d', d'))"

definition retainTx :: "instant \<Rightarrow> Tables \<Rightarrow> (RetentionResult \<times> Tables) result" where
  "retainTx cutoff d =
     bindE (deleteCount (length \<circ> t_costs) (deleteCosts cutoff) d) (\<lambda>(costs, d).
     bindE (deleteCount (length \<circ> t_phases) (deletePhases cutoff) d) (\<lambda>(phases, d).
     bindE (deleteCount (length \<circ> t_jobs) (deleteJobs cutoff) d) (\<lambda>(jobs, d).
     bindE (deleteCount (length \<circ> t_generations) (deleteGenerations cutoff) d) (\<lambda>(generations, d).
     bindE (deleteCount (length \<circ> t_snapshots) (deleteSnapshots cutoff) d) (\<lambda>(snapshots, d).
     bindE (deleteCount (length \<circ> t_mutations) (deleteMutations cutoff) d) (\<lambda>(mutations, d).
     bindE (deleteCount (length \<circ> t_resources) (deleteResources cutoff) d) (\<lambda>(resources, d).
     bindE (deleteCount (length \<circ> t_quotes) (deleteQuotes cutoff) d) (\<lambda>(quotes, d).
       Inr (\<lparr>rr_Jobs = jobs, rr_Resources = resources, rr_Generations = generations, rr_Phases = phases,
             rr_Snapshots = snapshots, rr_Mutations = mutations, rr_Costs = costs, rr_PriceQuotes = quotes\<rparr>, d)))))))))"

definition Retain :: "instant \<Rightarrow> instant \<Rightarrow> SQLite \<Rightarrow> RetentionResult result \<times> SQLite" where
  "Retain now completedBefore s =
     (if is_zero completedBefore
      then (Inr \<lparr>rr_Jobs = 0, rr_Resources = 0, rr_Generations = 0, rr_Phases = 0, rr_Snapshots = 0, rr_Mutations = 0,
                 rr_Costs = 0, rr_PriceQuotes = 0\<rparr>, s)
      else writeTx now (retainTx completedBefore) s)"

subsection \<open>Recovery rows are kept\<close>

lemma deleteCount_Inr: "deleteCount rows f d = Inr (n, d') \<longleftrightarrow> tables_ok (f d) \<and> d' = f d \<and> n = rows d - rows (f d)"
  by (auto simp: deleteCount_def)

text \<open>
  A phase after rows it refers to were deleted: the row itself, with a reference cleared or not.
\<close>

definition same_phase :: "Phase \<Rightarrow> Phase \<Rightarrow> bool" where
  "same_phase p q \<longleftrightarrow> (\<exists>g \<in> {p_GenerationID p, 0}. \<exists>j \<in> {p_JobID p, 0}. q = p\<lparr>p_GenerationID := g, p_JobID := j\<rparr>)"

lemma same_phase_refl: "same_phase p p"
  by (simp add: same_phase_def)

lemma same_phase_trans: "same_phase p q \<Longrightarrow> same_phase q r \<Longrightarrow> same_phase p r"
  by (auto simp: same_phase_def)

lemma same_phase_open: "same_phase p q \<Longrightarrow> p_EndedAt q = p_EndedAt p"
  by (auto simp: same_phase_def)

lemma same_phase_clear:
  "same_phase p (p\<lparr>p_GenerationID := clearRef ids (p_GenerationID p)\<rparr>)" "same_phase p (p\<lparr>p_JobID := clearRef ids (p_JobID p)\<rparr>)"
  by (auto simp: same_phase_def clearRef_def)

text \<open>
  The rows startup recovery reads: open jobs, resources, generations and phases, pending mutations, live images. Recovery finishes
  an open phase by its ID; the references of a phase to a finished generation or job go with that row.
\<close>

definition phases_kept :: "Tables \<Rightarrow> Tables \<Rightarrow> bool" where
  "phases_kept d d' \<longleftrightarrow> (\<forall>p \<in> set (t_phases d). is_zero (p_EndedAt p) \<longrightarrow> (\<exists>q \<in> set (t_phases d'). same_phase p q))"

definition recovery_kept :: "Tables \<Rightarrow> Tables \<Rightarrow> bool" where
  "recovery_kept d d' \<longleftrightarrow>
     (\<forall>j \<in> set (t_jobs d). is_zero (j_CompletedAt j) \<longrightarrow> j \<in> set (t_jobs d')) \<and>
     (\<forall>r \<in> set (t_resources d). is_zero (r_ClosedAt r) \<longrightarrow> r \<in> set (t_resources d')) \<and>
     (\<forall>g \<in> set (t_generations d). is_zero (g_ClosedAt g) \<longrightarrow> g \<in> set (t_generations d')) \<and>
     (\<forall>m \<in> set (t_mutations d). m_State m = MutationPending \<longrightarrow> m \<in> set (t_mutations d')) \<and>
     (\<forall>s \<in> set (t_snapshots d). s_State s \<notin> {SnapshotDeleted, SnapshotFailed} \<longrightarrow> s \<in> set (t_snapshots d')) \<and>
     phases_kept d d'"

lemma phases_kept_same: "t_phases d' = t_phases d \<Longrightarrow> phases_kept d d'"
  by (auto simp: phases_kept_def intro: same_phase_refl)

lemma recovery_kept_refl: "recovery_kept d d"
  by (simp add: recovery_kept_def phases_kept_same)

lemma phases_kept_trans:
  assumes "phases_kept d e" "phases_kept e f"
  shows "phases_kept d f"
  unfolding phases_kept_def
proof (intro ballI impI)
  fix p assume p: "p \<in> set (t_phases d)" "is_zero (p_EndedAt p)"
  then obtain q where q: "q \<in> set (t_phases e)" "same_phase p q" using assms(1) by (auto simp: phases_kept_def)
  then have "is_zero (p_EndedAt q)" using p(2) by (simp add: same_phase_open)
  then obtain r where "r \<in> set (t_phases f)" "same_phase q r" using assms(2) q(1) by (auto simp: phases_kept_def)
  then show "\<exists>r \<in> set (t_phases f). same_phase p r" using q(2) same_phase_trans by blast
qed

lemma recovery_kept_trans [trans]: "recovery_kept d e \<Longrightarrow> recovery_kept e f \<Longrightarrow> recovery_kept d f"
  using phases_kept_trans [of d e f] unfolding recovery_kept_def by blast

lemma in_map_if_same: "x \<in> set xs \<Longrightarrow> f x = x \<Longrightarrow> x \<in> set (map f xs)"
  by (metis image_eqI list.set_map)

lemma distinct_id_eq: "distinct (map f xs) \<Longrightarrow> x \<in> set xs \<Longrightarrow> y \<in> set xs \<Longrightarrow> f x = f y \<Longrightarrow> x = y"
  by (auto simp: distinct_map inj_on_def)

lemma same_ref [row_simps]:
  "x = j_GenerationID j \<Longrightarrow> j\<lparr>j_GenerationID := x\<rparr> = j" "x = j_ResourceID j \<Longrightarrow> j\<lparr>j_ResourceID := x\<rparr> = j"
  "x = p_GenerationID p \<Longrightarrow> p\<lparr>p_GenerationID := x\<rparr> = p"
  "x = m_SnapshotID m \<Longrightarrow> m\<lparr>m_SnapshotID := x\<rparr> = m" "x = m_ResourceID m \<Longrightarrow> m\<lparr>m_ResourceID := x\<rparr> = m"
  "x = s_SourceResourceID s \<Longrightarrow> s\<lparr>s_SourceResourceID := x\<rparr> = s"
  by simp_all

lemma clearRef_Nil [simp]: "clearRef [] i = i"
  by (simp add: clearRef_def)

lemma deleteGenerationRows_none: "deleteGenerationRows [] d = d"
  by (simp add: deleteGenerationRows_def row_simps)

lemma deleteJobs_kept:
  assumes "tables_ok d" shows "recovery_kept d (deleteJobs cutoff d)"
proof -
  have dist: "distinct (map j_ID (t_jobs d))" using assms by (simp add: tables_ok_def jobs_ok_def)
  have "j_ID j \<notin> j_ID ` {x \<in> set (t_jobs d). oldJob cutoff d x}"
    if "j \<in> set (t_jobs d)" "is_zero (j_CompletedAt j)" for j
  proof
    assume "j_ID j \<in> j_ID ` {x \<in> set (t_jobs d). oldJob cutoff d x}"
    then obtain x where "x \<in> set (t_jobs d)" "oldJob cutoff d x" "j_ID j = j_ID x" by auto
    then have "oldJob cutoff d j" using distinct_id_eq [OF dist that(1)] by metis
    then show False using that(2) by (simp add: oldJob_def)
  qed
  moreover have "phases_kept d (deleteJobs cutoff d)"
    by (auto simp: phases_kept_def deleteJobs_def deleteJobRows_def Let_def intro!: same_phase_clear)
  ultimately show ?thesis
    by (auto simp: recovery_kept_def deleteJobs_def deleteJobRows_def Let_def)
qed

lemma deleteGenerations_kept:
  assumes "tables_ok d" shows "recovery_kept d (deleteGenerations cutoff d)"
proof -
  let ?ids = "map g_ID (filter (oldGeneration cutoff d) (t_generations d))"
  have dist: "distinct (map g_ID (t_generations d))" using assms by (simp add: tables_ok_def generations_ok_def)
  have gen: "g_ID g \<notin> set ?ids" if "g \<in> set (t_generations d)" "is_zero (g_ClosedAt g)" for g
    using that distinct_id_eq [OF dist that(1)] by (auto simp: oldGeneration_def)
  have "clearRef ?ids (j_GenerationID j) = j_GenerationID j" if "j \<in> set (t_jobs d)" for j
    using that by (auto simp: clearRef_def oldGeneration_def)
  then have "j\<lparr>j_GenerationID := clearRef ?ids (j_GenerationID j)\<rparr> = j" if "j \<in> set (t_jobs d)" for j
    using that by (simp add: row_simps)
  then have "map (\<lambda>j. j\<lparr>j_GenerationID := clearRef ?ids (j_GenerationID j)\<rparr>) (t_jobs d) = t_jobs d"
    by (simp add: map_idI)
  moreover have "phases_kept d (deleteGenerations cutoff d)"
    by (auto simp: phases_kept_def deleteGenerations_def deleteGenerationRows_def intro!: same_phase_clear)
  ultimately show ?thesis using gen by (simp add: recovery_kept_def deleteGenerations_def deleteGenerationRows_def)
qed

lemma deleteSnapshots_kept:
  assumes "tables_ok d" shows "recovery_kept d (deleteSnapshots cutoff d)"
proof -
  let ?ids = "map s_ID (filter (oldSnapshot cutoff d) (t_snapshots d))"
  have dist: "distinct (map s_ID (t_snapshots d))" using assms by (simp add: tables_ok_def snapshots_ok_def)
  have snap: "s_ID x \<notin> set ?ids" if "x \<in> set (t_snapshots d)" "s_State x \<notin> {SnapshotDeleted, SnapshotFailed}" for x
    using that distinct_id_eq [OF dist that(1)] by (auto simp: oldSnapshot_def)
  have "m \<in> set (map (\<lambda>m. m\<lparr>m_SnapshotID := clearRef ?ids (m_SnapshotID m)\<rparr>) (t_mutations d))"
    if "m \<in> set (t_mutations d)" "m_State m = MutationPending" for m
  proof -
    have "clearRef ?ids (m_SnapshotID m) = m_SnapshotID m" using that by (auto simp: clearRef_def oldSnapshot_def)
    then have "m\<lparr>m_SnapshotID := clearRef ?ids (m_SnapshotID m)\<rparr> = m" by (simp add: row_simps)
    then show ?thesis using that(1) by (intro in_map_if_same)
  qed
  then show ?thesis using snap by (simp add: recovery_kept_def deleteSnapshots_def deleteSnapshotRows_def phases_kept_same)
qed

lemma deleteResources_kept:
  assumes "tables_ok d" shows "recovery_kept d (deleteResources cutoff d)"
proof -
  let ?ids = "map r_ID (filter (oldResource cutoff d) (t_resources d))"
  have dist: "distinct (map r_ID (t_resources d))" using assms by (simp add: tables_ok_def resources_ok_def)
  have res: "r_ID r \<notin> set ?ids" if "r \<in> set (t_resources d)" "is_zero (r_ClosedAt r)" for r
    using that distinct_id_eq [OF dist that(1)] by (auto simp: oldResource_def)
  have nogen: "filter (\<lambda>g. g_ResourceID g \<in> set ?ids) (t_generations d) = []"
    by (auto simp: filter_empty_conv oldResource_def)
  have "j\<lparr>j_ResourceID := clearRef ?ids (j_ResourceID j)\<rparr> = j" if "j \<in> set (t_jobs d)" for j
  proof -
    have "clearRef ?ids (j_ResourceID j) = j_ResourceID j" using that by (auto simp: clearRef_def oldResource_def)
    then show ?thesis by (simp add: row_simps)
  qed
  then have jobs: "map (\<lambda>j. j\<lparr>j_ResourceID := clearRef ?ids (j_ResourceID j)\<rparr>) (t_jobs d) = t_jobs d"
    by (simp add: map_idI)
  have mut: "m \<in> set (map (\<lambda>m. m\<lparr>m_ResourceID := clearRef ?ids (m_ResourceID m)\<rparr>) (t_mutations d))"
    if "m \<in> set (t_mutations d)" "m_State m = MutationPending" for m
  proof -
    have "clearRef ?ids (m_ResourceID m) = m_ResourceID m" using that by (auto simp: clearRef_def oldResource_def)
    then have "m\<lparr>m_ResourceID := clearRef ?ids (m_ResourceID m)\<rparr> = m" by (simp add: row_simps)
    then show ?thesis using that(1) by (intro in_map_if_same)
  qed
  have snap: "x \<in> set (map (\<lambda>s. s\<lparr>s_SourceResourceID := clearRef ?ids (s_SourceResourceID s)\<rparr>) (t_snapshots d))"
    if "x \<in> set (t_snapshots d)" "s_State x \<notin> {SnapshotDeleted, SnapshotFailed}" for x
  proof -
    have "clearRef ?ids (s_SourceResourceID x) = s_SourceResourceID x" using that by (auto simp: clearRef_def oldResource_def)
    then have "x\<lparr>s_SourceResourceID := clearRef ?ids (s_SourceResourceID x)\<rparr> = x" by (simp add: row_simps)
    then show ?thesis using that(1) by (intro in_map_if_same)
  qed
  have "deleteResources cutoff d = d\<lparr>t_resources := filter (\<lambda>r. r_ID r \<notin> set ?ids) (t_resources d),
           t_phases := filter (\<lambda>p. p_ResourceID p \<notin> set ?ids) (t_phases d),
           t_jobs := t_jobs d,
           t_snapshots := map (\<lambda>s. s\<lparr>s_SourceResourceID := clearRef ?ids (s_SourceResourceID s)\<rparr>) (t_snapshots d),
           t_mutations := map (\<lambda>m. m\<lparr>m_ResourceID := clearRef ?ids (m_ResourceID m)\<rparr>) (t_mutations d),
           t_costs := map (\<lambda>c. c\<lparr>c_ResourceID := clearRef ?ids (c_ResourceID c)\<rparr>) (t_costs d)\<rparr>"
    unfolding deleteResources_def deleteResourceRows_def nogen by (simp only: list.map deleteGenerationRows_none Let_def jobs)
  moreover have "filter (\<lambda>p. p_ResourceID p \<notin> set ?ids) (t_phases d) = t_phases d"
    by (auto simp: filter_id_conv oldResource_def)
  ultimately show ?thesis using res mut snap by (simp add: recovery_kept_def phases_kept_same)
qed

lemma deleteOthers_kept:
  "recovery_kept d (deleteCosts cutoff d)" "recovery_kept d (deletePhases cutoff d)"
  "recovery_kept d (deleteQuotes cutoff d)" "recovery_kept d (deleteMutations cutoff d)"
proof -
  have "phases_kept d (deletePhases cutoff d)"
    by (auto simp: phases_kept_def deletePhases_def oldPhase_def intro: same_phase_refl)
  then show "recovery_kept d (deletePhases cutoff d)" by (simp add: recovery_kept_def deletePhases_def)
qed (auto simp: recovery_kept_def deleteCosts_def deleteQuotes_def deleteMutations_def oldMutation_def phases_kept_same)

lemma retainTx_steps:
  assumes "retainTx cutoff d = Inr (res, d')"
  obtains d1 d2 d3 d4 d5 d6 d7 where
    "d1 = deleteCosts cutoff d" "d2 = deletePhases cutoff d1" "d3 = deleteJobs cutoff d2" "d4 = deleteGenerations cutoff d3"
    "d5 = deleteSnapshots cutoff d4" "d6 = deleteMutations cutoff d5" "d7 = deleteResources cutoff d6" "d' = deleteQuotes cutoff d7"
    "tables_ok d1" "tables_ok d2" "tables_ok d3" "tables_ok d4" "tables_ok d5" "tables_ok d6" "tables_ok d7" "tables_ok d'"
  using assms by (auto simp: retainTx_def deleteCount_Inr)

lemma retainTx_kept:
  assumes "retainTx cutoff d = Inr (res, d')"
  shows "recovery_kept d d'"
proof -
  obtain d1 d2 d3 d4 d5 d6 d7 where
    "d1 = deleteCosts cutoff d" "d2 = deletePhases cutoff d1" "d3 = deleteJobs cutoff d2" "d4 = deleteGenerations cutoff d3"
    "d5 = deleteSnapshots cutoff d4" "d6 = deleteMutations cutoff d5" "d7 = deleteResources cutoff d6" "d' = deleteQuotes cutoff d7"
    "tables_ok d2" "tables_ok d3" "tables_ok d4" "tables_ok d6"
    using retainTx_steps [OF assms] by metis
  then have "recovery_kept d d1" "recovery_kept d1 d2" "recovery_kept d2 d3" "recovery_kept d3 d4" "recovery_kept d4 d5"
    "recovery_kept d5 d6" "recovery_kept d6 d7" "recovery_kept d7 d'"
    by (simp_all add: deleteOthers_kept deleteJobs_kept deleteGenerations_kept deleteSnapshots_kept deleteResources_kept)
  then show ?thesis by (meson recovery_kept_trans)
qed

interpretation retain: ledger_op "Retain now cutoff" for now cutoff
proof -
  have "ledger_op (\<lambda>s. if is_zero cutoff then (Inr \<lparr>rr_Jobs = 0, rr_Resources = 0, rr_Generations = 0, rr_Phases = 0,
      rr_Snapshots = 0, rr_Mutations = 0, rr_Costs = 0, rr_PriceQuotes = 0\<rparr>, s) else writeTx now (retainTx cutoff) s)"
  proof (rule ledger_op_if)
    show "ledger_op (writeTx now (retainTx cutoff))"
      by (rule ledger_op_write) (metis retainTx_steps)
  qed (unfold_locales, auto)
  then show "ledger_op (Retain now cutoff)" by (simp add: Retain_def [abs_def])
qed

text \<open>
  C15. Retention never touches what recovery needs. A successful pass leaves every open job,
  resource and generation, every pending mutation and every image that is not deleted or
  failed exactly as it was, references included, and every open phase but for references to a finished generation
  or job that was deleted itself, whatever the cutoff; a failed pass leaves all tables as they were.
\<close>

theorem Retain_protects_recovery:
  assumes "Retain now cutoff s = (r, s')"
  shows "recovery_kept (tables s) (tables s') \<and> (is_err r \<longrightarrow> tables s' = tables s)"
proof (cases r)
  case (Inl e)
  then show ?thesis using assms retain.atomic recovery_kept_refl by simp
next
  case (Inr res)
  then have "is_zero cutoff \<and> s' = s \<or> retainTx cutoff (tables s) = Inr (res, tables s')"
    using assms by (auto simp: Retain_def split: if_splits dest: writeTx_Inr(1))
  then show ?thesis using Inr retainTx_kept recovery_kept_refl by auto
qed

text \<open>A finished job with a phase that was never ended, on a machine that is still open.\<close>

definition retained_store :: SQLite where
  "retained_store = sample_store\<lparr>tables := sample_tables\<lparr>t_jobs := [sample_job\<lparr>j_ID := 1, j_ResourceID := 0\<rparr>],
     t_phases := [\<lparr>p_ID = 1, p_ResourceID = 1, p_GenerationID = 0, p_JobID = 1, p_Kind = PhaseProvisioning, p_StartedAt = 5,
       p_EndedAt = zero_time, p_Outcome = '''', p_Detail = ''''\<rparr>]\<rparr>\<rparr>"

theorem Retain_protects_recovery_witness:
  "\<exists>res s'. Retain 200 100 retained_store = (Inr res, s') \<and> rr_Jobs res = 1 \<and> t_jobs (tables s') = [] \<and>
     recovery_kept (tables retained_store) (tables s') \<and> map p_ID (t_phases (tables s')) = [1]"
proof -
  obtain r s' where r: "Retain 200 100 retained_store = (r, s')" by fastforce
  have "(case Retain 200 100 retained_store of
          (Inr res, s') \<Rightarrow> rr_Jobs res = 1 \<and> t_jobs (tables s') = [] \<and> map p_ID (t_phases (tables s')) = [1] | _ \<Rightarrow> False)" by code_simp
  then obtain res where "r = Inr res" "rr_Jobs res = 1" "t_jobs (tables s') = []" "map p_ID (t_phases (tables s')) = [1]"
    using r by (cases r) auto
  then show ?thesis using r Retain_protects_recovery [OF r] by auto
qed

subsection \<open>Prices of scorecards block retention\<close>

definition quote_refs :: "Tables \<Rightarrow> int set" where
  "quote_refs d = r_PriceQuoteID ` set (t_resources d) \<union> c_PriceQuoteID ` set (t_costs d)"

lemmas delete_defs = deleteCosts_def deletePhases_def deleteJobs_def deleteGenerations_def deleteSnapshots_def
  deleteMutations_def deleteResources_def deleteJobRows_def deleteGenerationRows_def deleteSnapshotRows_def
  deleteResourceRows_def

lemma delete_quote_refs:
  "quote_refs (deleteCosts cutoff d) \<subseteq> quote_refs d" "quote_refs (deletePhases cutoff d) \<subseteq> quote_refs d"
  "quote_refs (deleteJobs cutoff d) \<subseteq> quote_refs d" "quote_refs (deleteGenerations cutoff d) \<subseteq> quote_refs d"
  "quote_refs (deleteSnapshots cutoff d) \<subseteq> quote_refs d" "quote_refs (deleteMutations cutoff d) \<subseteq> quote_refs d"
  "quote_refs (deleteResources cutoff d) \<subseteq> quote_refs d"
  by (auto simp: quote_refs_def delete_defs Let_def)

lemma delete_quotes_frame:
  "t_quotes (deleteCosts cutoff d) = t_quotes d" "t_quotes (deletePhases cutoff d) = t_quotes d"
  "t_quotes (deleteJobs cutoff d) = t_quotes d" "t_quotes (deleteGenerations cutoff d) = t_quotes d"
  "t_quotes (deleteSnapshots cutoff d) = t_quotes d" "t_quotes (deleteMutations cutoff d) = t_quotes d"
  "t_quotes (deleteResources cutoff d) = t_quotes d"
  by (simp_all add: delete_defs Let_def)

lemma delete_scores_frame:
  "t_scores (deleteCosts cutoff d) = t_scores d" "t_scores (deletePhases cutoff d) = t_scores d"
  "t_scores (deleteGenerations cutoff d) = t_scores d"
  "t_scores (deleteSnapshots cutoff d) = t_scores d" "t_scores (deleteMutations cutoff d) = t_scores d"
  "t_scores (deleteResources cutoff d) = t_scores d" "t_scores (deleteQuotes cutoff d) = t_scores d"
  by (simp_all add: delete_defs deleteQuotes_def Let_def)

lemma deleteJobs_scores:
  assumes "tables_ok d" "k \<in> set (t_scores d)" "r \<in> set (t_decisions d)" "d_ID r = k_DecisionID k"
    and "j \<in> set (t_jobs d)" "j_ID j = d_JobID r" "is_zero (j_CompletedAt j)"
  shows "k \<in> set (t_scores (deleteJobs cutoff d))"
proof -
  let ?ids = "map j_ID (filter (oldJob cutoff d) (t_jobs d))"
  have "d_JobID r \<notin> set ?ids"
  proof
    assume "d_JobID r \<in> set ?ids"
    then obtain x where "x \<in> set (t_jobs d)" "oldJob cutoff d x" "j_ID x = j_ID j" using assms(6) by auto
    then have "oldJob cutoff d j"
      using distinct_id_eq [of j_ID "t_jobs d" x j] assms(1,5) by (simp add: tables_ok_def jobs_ok_def)
    then show False using assms(7) by (simp add: oldJob_def)
  qed
  moreover have "x = r" if "x \<in> set (t_decisions d)" "d_ID x = d_ID r" for x
    using distinct_id_eq [of d_ID "t_decisions d" x r] that assms(1,3) by (simp add: tables_ok_def decisions_ok_def)
  ultimately show ?thesis using assms(2,4)
    by (auto simp: deleteJobs_def deleteJobRows_def Let_def)
qed

text \<open>
  A price that only a live scorecard still cites stops retention. \<open>Retain\<close> deletes every old
  price quote that no resource and no cost refers to, but the candidate scores refer to quotes
  too, without a delete action. If an open job's scorecard cites an old quote nothing else
  refers to, the whole pass fails (and by the property before it removes nothing), for every
  cutoff later than that quote.
\<close>

theorem Retain_blocked_by_scorecard:
  assumes "tables_ok (tables s)" "\<not> is_zero cutoff"
    and "q \<in> set (t_quotes (tables s))" "q_ID q \<noteq> 0" "q_ObservedAt q < cutoff" "q_ID q \<notin> quote_refs (tables s)"
    and "k \<in> set (t_scores (tables s))" "k_PriceQuoteID k = q_ID q"
    and "r \<in> set (t_decisions (tables s))" "d_ID r = k_DecisionID k"
    and "j \<in> set (t_jobs (tables s))" "j_ID j = d_JobID r" "is_zero (j_CompletedAt j)"
  shows "is_err (fst (Retain now cutoff s))"
proof (rule ccontr)
  assume "\<not> is_err (fst (Retain now cutoff s))"
  then obtain res s' where "Retain now cutoff s = (Inr res, s')"
    by (cases "Retain now cutoff s"; cases "fst (Retain now cutoff s)") auto
  then have "retainTx cutoff (tables s) = Inr (res, tables s')"
    using assms(2) by (auto simp: Retain_def dest: writeTx_Inr(1))
  then obtain d1 d2 d3 d4 d5 d6 d7 where st: "d1 = deleteCosts cutoff (tables s)" "d2 = deletePhases cutoff d1"
    "d3 = deleteJobs cutoff d2" "d4 = deleteGenerations cutoff d3" "d5 = deleteSnapshots cutoff d4"
    "d6 = deleteMutations cutoff d5" "d7 = deleteResources cutoff d6" "tables s' = deleteQuotes cutoff d7"
    and ok: "tables_ok d2" "tables_ok (tables s')"
    by (rule retainTx_steps)
  have "t_decisions d2 = t_decisions (tables s)" "t_jobs d2 = t_jobs (tables s)" "t_scores d2 = t_scores (tables s)"
    by (simp_all add: st(1,2) deleteCosts_def deletePhases_def)
  then have "k \<in> set (t_scores d3)"
    unfolding st(3) using assms(7,9-13) ok(1) by (intro deleteJobs_scores [where r = r and j = j]) simp_all
  then have k: "k \<in> set (t_scores (tables s'))" by (simp add: st(4-8) delete_scores_frame)
  have quotes: "t_quotes d7 = t_quotes (tables s)" by (simp add: st(1-7) delete_quotes_frame)
  have "quote_refs d7 \<subseteq> quote_refs (tables s)"
    unfolding st(1-7) by (meson delete_quote_refs subset_trans)
  then have "q_ID q \<notin> quote_refs d7" using assms(6) by blast
  then have old: "oldQuote cutoff d7 q" using assms(5) by (force simp: oldQuote_def quote_refs_def)
  have "x = q" if "x \<in> set (t_quotes (tables s))" "q_ID x = q_ID q" for x
    using distinct_id_eq [of q_ID "t_quotes (tables s)" x q] that assms(1,3) by (simp add: tables_ok_def quotes_ok_def)
  then have "q_ID q \<notin> q_ID ` set (t_quotes (tables s'))"
    using old by (auto simp: st(8) deleteQuotes_def quotes)
  moreover have "fk (k_PriceQuoteID k) (map q_ID (t_quotes (tables s')))"
    using ok(2) k unfolding tables_ok_def scores_ok_def by blast
  ultimately show False using assms(4,8) by (simp add: fk_def)
qed

definition stale_quote :: PriceQuote where
  "stale_quote = \<lparr>q_ID = 0, q_Provider = ''linode'', q_Driver = ''linode'', q_InstanceType = ''g6'', q_Currency = ''USD'',
     q_PerHourNanos = 36000000, q_PerMonthNanos = 24000000000, q_SnapshotGBMonthNanos = 0, q_MinimumChargeNanos = 0,
     q_BillingQuantum = hour, q_MinimumDuration = hour, q_Source = ''api'', q_ObservedAt = 40\<rparr>"

definition scored_store :: SQLite where
  "scored_store = runRoutings [(60, Observe sample_observation),
       (61, Assign (sample_assignment ''small'') [sample_candidate\<lparr>k_PriceQuoteID := 1\<rparr>])]
     (snd (RecordPriceQuote 50 stale_quote (snd (UpsertJob 15 late_poll sample_store))))"

theorem Retain_blocked_by_scorecard_witness:
  "is_err (fst (Retain 200 100 scored_store))"
proof -
  have facts: "tables_ok (tables scored_store)" "map q_ID (t_quotes (tables scored_store)) = [1]"
    "map q_ObservedAt (t_quotes (tables scored_store)) = [40]"
    "map r_PriceQuoteID (t_resources (tables scored_store)) = [0]" "map c_PriceQuoteID (t_costs (tables scored_store)) = []"
    "map k_PriceQuoteID (t_scores (tables scored_store)) = [1]" "map k_DecisionID (t_scores (tables scored_store)) = [1]"
    "map d_ID (t_decisions (tables scored_store)) = [1]" "map d_JobID (t_decisions (tables scored_store)) = [1]"
    "map j_ID (t_jobs (tables scored_store)) = [1]"
    "map (\<lambda>j. is_zero (j_CompletedAt j)) (t_jobs (tables scored_store)) = [True]"
    by code_simp+
  obtain q where "t_quotes (tables scored_store) = [q]" "q_ID q = 1" "q_ObservedAt q = 40"
    using facts(2,3) by (auto simp: map_eq_Cons_conv)
  moreover obtain k where "t_scores (tables scored_store) = [k]" "k_PriceQuoteID k = 1" "k_DecisionID k = 1"
    using facts(6,7) by (auto simp: map_eq_Cons_conv)
  moreover obtain r where "t_decisions (tables scored_store) = [r]" "d_ID r = 1" "d_JobID r = 1"
    using facts(8,9) by (auto simp: map_eq_Cons_conv)
  moreover obtain j where "t_jobs (tables scored_store) = [j]" "j_ID j = 1" "is_zero (j_CompletedAt j)"
    using facts(10,11) by (auto simp: map_eq_Cons_conv)
  moreover have "quote_refs (tables scored_store) = {0}" using facts(4,5) by (auto simp: quote_refs_def map_eq_Cons_conv)
  ultimately show ?thesis
    using Retain_blocked_by_scorecard [of scored_store 100 q k r j 200] facts(1) by (simp add: is_zero_def zero_time_def)
qed

end
