(* ===== verification/Labels.thy ===== *)
theory Labels
  imports FJB_Prelude
begin

text \<open>
  Runner labels, src/internal/forgejo/labels.go, and the two membership tests of the router and
  the orchestrator that use them. A label is \<open>name\<close> or \<open>name:scheme://value\<close> with one of three
  schemes; matching compares bare names.
\<close>

definition labelBindingSchemes :: "string list" where
  "labelBindingSchemes = [''docker://'', ''host://'', ''kubernetes://'']"

text \<open>\<open>strings.Cut\<close> at the first separator character.\<close>

fun cut :: "char \<Rightarrow> string \<Rightarrow> (string \<times> string) option" where
  "cut sep [] = None"
| "cut sep (c # cs) = (if c = sep then Some ([], cs) else map_option (\<lambda>(a, b). (c # a, b)) (cut sep cs))"

fun hasPrefix :: "string \<Rightarrow> string \<Rightarrow> bool" where
  "hasPrefix s [] = True"
| "hasPrefix [] (p # ps) = False"
| "hasPrefix (c # cs) (p # ps) = (c = p \<and> hasPrefix cs ps)"

definition SplitLabel :: "string \<Rightarrow> string \<times> string" where
  "SplitLabel s =
     (case cut (CHR '':'') s of
        None \<Rightarrow> (s, '''')
      | Some (before, after) \<Rightarrow>
          if list_ex (\<lambda>scheme. hasPrefix after scheme) labelBindingSchemes then (before, after) else (s, ''''))"

definition BareLabels :: "string list \<Rightarrow> string list" where
  "BareLabels labels = map (\<lambda>l. fst (SplitLabel l)) labels"

definition serviceable :: "string list \<Rightarrow> string list \<Rightarrow> bool" where
  "serviceable want offered = (let have = BareLabels offered in list_all (\<lambda>label. label \<in> set have) want)"

definition hasExplicitLabel :: "string list \<Rightarrow> string list \<Rightarrow> bool" where
  "hasExplicitLabel labels explicit = list_ex (\<lambda>label. label \<in> set explicit) labels"

lemma cut_Some: "cut sep s = Some (a, b) \<longleftrightarrow> s = a @ sep # b \<and> sep \<notin> set a"
proof (induction s arbitrary: a)
  case (Cons c cs)
  show ?case
  proof (cases "c = sep")
    case True
    then show ?thesis by (cases a) auto
  next
    case False
    then show ?thesis using Cons.IH by (cases a) auto
  qed
qed simp

lemma cut_None: "cut sep s = None \<longleftrightarrow> sep \<notin> set s"
  by (induction s) auto

lemma hasPrefix_append: "hasPrefix s p \<longleftrightarrow> (\<exists>r. s = p @ r)"
  by (induction s p rule: hasPrefix.induct) auto

text \<open>
  Splitting a label loses nothing: either the label has no binding and is its own name, or
  it is the name, a colon and the binding; the name then has no colon, and splitting the name
  again gives the name. So bare labels are fixed points of \<open>BareLabels\<close>.
\<close>

theorem SplitLabel_roundtrip:
  "(case SplitLabel s of (name, binding) \<Rightarrow>
      (if binding = '''' then name = s else s = name @ '':'' @ binding \<and> CHR '':'' \<notin> set name) \<and>
      SplitLabel name = (name, '''')) \<and>
   BareLabels (BareLabels ls) = BareLabels ls"
proof -
  have split: "(case SplitLabel s of (name, binding) \<Rightarrow>
      (if binding = '''' then name = s else s = name @ '':'' @ binding \<and> CHR '':'' \<notin> set name) \<and>
      SplitLabel name = (name, ''''))" for s
  proof (cases "cut (CHR '':'') s")
    case None
    then show ?thesis by (simp add: SplitLabel_def)
  next
    case (Some ab)
    obtain a b where ab: "ab = (a, b)" by fastforce
    have s: "s = a @ CHR '':'' # b" "CHR '':'' \<notin> set a" using Some ab cut_Some by blast+
    have a: "SplitLabel a = (a, '''')" using s(2) by (simp add: SplitLabel_def cut_None [symmetric])
    show ?thesis
    proof (cases "list_ex (\<lambda>scheme. hasPrefix b scheme) labelBindingSchemes")
      case True
      then have "b \<noteq> ''''" by (auto simp: labelBindingSchemes_def)
      then show ?thesis using Some ab s a True by (simp add: SplitLabel_def)
    next
      case False
      then show ?thesis using Some ab by (simp add: SplitLabel_def)
    qed
  qed
  have "fst (SplitLabel (fst (SplitLabel l))) = fst (SplitLabel l)" for l
    using split [of l] by (auto split: prod.splits)
  then show ?thesis using split [of s] by (simp add: BareLabels_def o_def)
qed

end
