(* ===== verification/Router_Score.thy ===== *)
theory Router_Score
  imports Teardown Labels "HOL-Library.Product_Lexorder"
begin

text \<open>
  Scoring of routing candidates, src/internal/router/score.go, over the capacity view of
  src/internal/orchestrator/health.go: which of a tier's idle workers, paid-window lanes and
  free slots is cheapest for a job, and when the job would start and finish there. Amounts come
  from \<^theory_text>\<open>Billing\<close>. A Go map is a HOL map; \<open>WorkerView.State\<close> holds the node state itself, of
  which the code keeps the string.

  The locale \<open>preference\<close> is the contract of a comparison the program selects with: a strict
  weak order, and the loop that keeps the first minimum. It is interpreted on
  \<open>allocationLess\<close> here and on \<open>candidateLess\<close> in the router.
\<close>

subsection \<open>The capacity view\<close>

record WorkerView =
  w_Tier :: string
  w_ProviderName :: string
  w_Driver :: string
  w_InstanceID :: string
  w_State :: NodeState
  w_IP :: string
  w_VPCIP :: string
  w_CreatedAt :: instant
  w_LastBusy :: instant
  w_CurrentJob :: string
  w_PaidHourEndAt :: instant
  w_ReapEligibleAt :: instant
  w_BillingModel :: string

record RoutingTierSnapshot =
  rs_Tier :: string
  rs_ProviderName :: string
  rs_Driver :: string
  rs_InstanceType :: string
  rs_Labels :: "string list"
  rs_OneJobPerVM :: bool
  rs_ResetMode :: string
  rs_ResetMinRemaining :: duration
  rs_Healthy :: bool
  rs_MaxInstances :: int
  rs_ActiveWorkers :: nat
  rs_PendingWorkers :: int
  rs_AvailableSlots :: int
  rs_IdleWorkers :: "WorkerView list"
  rs_Workers :: "WorkerView list"
  rs_Teardown :: TeardownPolicy

record optimizationLane =
  l_worker :: WorkerView
  l_availableAt :: instant
  l_queued :: int
  l_blocked :: bool

record scoredCandidate = RoutingCandidateScore +
  sc_startDelay :: duration
  sc_idleIndex :: int
  sc_laneIndex :: int

definition defaultProvisionP95 :: duration where "defaultProvisionP95 = 2 * minute"
definition defaultResetP95 :: duration where "defaultResetP95 = 2 * minute"
definition resetSnapshot :: string where "resetSnapshot = ''snapshot''"
definition reasonCapacityFull :: string where "reasonCapacityFull = ''capacity_full''"

subsection \<open>Exchange rates\<close>

text \<open>
  \<open>big.Rat.SetString\<close> on decimal input: an optional sign and digits with an optional fraction
  part, or a fraction of two decimal integers with a positive denominator. (Exponents, base
  prefixes and digit separators, which the library also accepts, are not rates this function
  is applied to.)
\<close>

definition digitVal :: "char \<Rightarrow> int option" where
  "digitVal c = (let n = (of_char c :: int) in if 48 \<le> n \<and> n \<le> 57 then Some (n - 48) else None)"

fun digitsVal :: "string \<Rightarrow> int \<Rightarrow> int option" where
  "digitsVal [] acc = Some acc"
| "digitsVal (c # cs) acc = (case digitVal c of None \<Rightarrow> None | Some v \<Rightarrow> digitsVal cs (10 * acc + v))"

definition natString :: "string \<Rightarrow> int option" where
  "natString s = (if s = '''' then None else digitsVal s 0)"

definition ratUnsigned :: "string \<Rightarrow> (int \<times> int) option" where
  "ratUnsigned s =
     (case cut (CHR ''/'') s of
        Some (a, b) \<Rightarrow>
          (case (natString a, natString b) of
             (Some x, Some y) \<Rightarrow> if y = 0 then None else Some (x, y)
           | _ \<Rightarrow> None)
      | None \<Rightarrow>
          (case cut (CHR ''.'') s of
             None \<Rightarrow> map_option (\<lambda>x. (x, 1)) (natString s)
           | Some (a, b) \<Rightarrow> map_option (\<lambda>x. (x, 10 ^ length b)) (natString (a @ b))))"

definition ratSetString :: "string \<Rightarrow> (int \<times> int) option" where
  "ratSetString s =
     (case s of
        [] \<Rightarrow> None
      | c # cs \<Rightarrow>
          if c = CHR ''-'' then map_option (\<lambda>(x, y). (- x, y)) (ratUnsigned cs)
          else if c = CHR ''+'' then ratUnsigned cs
          else ratUnsigned s)"

subsection \<open>Options of one tier\<close>

definition reusableForOptimization :: "RoutingTierSnapshot \<Rightarrow> bool" where
  "reusableForOptimization snapshot \<longleftrightarrow> Model (rs_Teardown snapshot) = BillingHourlyRoundUp \<and>
     (\<not> rs_OneJobPerVM snapshot \<or> rs_ResetMode snapshot = resetSnapshot)"

definition hasUsableLane :: "optimizationLane list \<Rightarrow> instant \<Rightarrow> bool" where
  "hasUsableLane lanes now = list_ex (\<lambda>lane. \<not> l_blocked lane \<and> now < w_ReapEligibleAt (l_worker lane)) lanes"

definition coldRunHorizon :: "RoutingTierSnapshot \<Rightarrow> duration \<Rightarrow> duration \<Rightarrow> duration" where
  "coldRunHorizon snapshot predictedRun resetP95 =
     (if rs_OneJobPerVM snapshot \<and> rs_ResetMode snapshot = resetSnapshot
      then wrap64 (predictedRun + resetP95) else predictedRun)"

definition shouldIncludeReset :: "RoutingTierSnapshot \<Rightarrow> WorkerView \<Rightarrow> instant \<Rightarrow> bool" where
  "shouldIncludeReset snapshot worker finish =
     (if \<not> rs_OneJobPerVM snapshot \<or> rs_ResetMode snapshot \<noteq> resetSnapshot then False
      else if is_zero (w_ReapEligibleAt worker) \<or> \<not> finish < w_ReapEligibleAt worker then True
      else time_sub (w_ReapEligibleAt worker) finish \<ge> rs_ResetMinRemaining snapshot)"

definition setCandidateCost :: "scoredCandidate \<Rightarrow> int \<Rightarrow> string \<Rightarrow> scoredCandidate" where
  "setCandidateCost result native fxRate =
     (let result = result\<lparr>k_NativeCostKnown := True, k_NativeCostNanos := native\<rparr>
      in case normalizeNanos native (ratSetString fxRate) of
           (normalized, True) \<Rightarrow> result\<lparr>k_ScoreCostKnown := True, k_ScoreCostNanos := normalized\<rparr>
         | (_, False) \<Rightarrow> result\<lparr>k_Reason := ''invalid_fx_rate''\<rparr>)"

definition setIdleCandidate :: "scoredCandidate \<Rightarrow> WorkerView \<Rightarrow> int \<Rightarrow> scoredCandidate" where
  "setIdleCandidate result worker index =
     result\<lparr>k_UsedIdle := True, sc_idleIndex := index, k_IdleInstanceID := w_InstanceID worker,
            k_IdleCreatedAt := w_CreatedAt worker, k_IdlePaidHourEndAt := w_PaidHourEndAt worker,
            k_IdleReapEligibleAt := w_ReapEligibleAt worker\<rparr>"

text \<open>The loop that returns the index of the first match, or -1.\<close>

fun firstIndex :: "('a \<Rightarrow> bool) \<Rightarrow> int \<Rightarrow> 'a list \<Rightarrow> int" where
  "firstIndex P i [] = -1"
| "firstIndex P i (x # xs) = (if P x then i else firstIndex P (i + 1) xs)"

definition findLane :: "optimizationLane list \<Rightarrow> string \<Rightarrow> int" where
  "findLane lanes workerID =
     (if workerID = '''' then -1 else firstIndex (\<lambda>l. w_InstanceID (l_worker l) = workerID) 0 lanes)"

definition laneForIdleWorker :: "optimizationLane list \<Rightarrow> WorkerView \<Rightarrow> int" where
  "laneForIdleWorker lanes worker =
     (let index = findLane lanes (w_InstanceID worker)
      in if index \<ge> 0 then index
         else firstIndex (\<lambda>l. w_InstanceID (l_worker l) = '''' \<and> w_CreatedAt (l_worker l) = w_CreatedAt worker) 0 lanes)"

definition setDirectIdleCandidate ::
  "scoredCandidate \<Rightarrow> RoutingTierSnapshot \<Rightarrow> WorkerView \<Rightarrow> int \<Rightarrow> duration \<Rightarrow> duration \<Rightarrow> instant \<Rightarrow> optimizationLane list \<Rightarrow> scoredCandidate" where
  "setDirectIdleCandidate result snapshot worker index predictedRun resetP95 now lanes =
     (let result = setIdleCandidate result worker index;
          finish = time_add now predictedRun;
          finish = (if shouldIncludeReset snapshot worker finish then time_add finish resetP95 else finish)
      in result\<lparr>sc_laneIndex := laneForIdleWorker lanes worker, k_ScheduledStartAt := now, k_ScheduledFinishAt := finish\<rparr>)"

definition queuedCandidate ::
  "scoredCandidate \<Rightarrow> RoutingTierSnapshot \<Rightarrow> optimizationLane \<Rightarrow> int \<Rightarrow> duration \<Rightarrow> duration \<Rightarrow> instant \<Rightarrow> scoredCandidate option" where
  "queuedCandidate base snapshot lane laneIndex predictedRun resetP95 now =
     (if l_blocked lane \<or> is_zero (w_ReapEligibleAt (l_worker lane)) \<or> \<not> now < w_ReapEligibleAt (l_worker lane) then None
      else
        let start = (if l_availableAt lane < now then now else l_availableAt lane);
            finish = time_add start predictedRun;
            finish = (if rs_OneJobPerVM snapshot \<and> rs_ResetMode snapshot = resetSnapshot then time_add finish resetP95 else finish)
        in if w_ReapEligibleAt (l_worker lane) < finish then None
           else let result = setIdleCandidate base (l_worker lane) (-1);
                    delay = time_sub start now
                in Some (result\<lparr>sc_laneIndex := laneIndex, sc_startDelay := delay, k_OptimizationQueued := True,
                     k_OptimizationQueuePosition := l_queued lane + 1, k_OptimizationWait := delay,
                     k_ScheduledStartAt := start, k_ScheduledFinishAt := finish\<rparr>))"

fun firstQueuedCandidate ::
  "scoredCandidate \<Rightarrow> RoutingTierSnapshot \<Rightarrow> int \<Rightarrow> optimizationLane list \<Rightarrow> duration \<Rightarrow> duration \<Rightarrow> instant \<Rightarrow> scoredCandidate option" where
  "firstQueuedCandidate base snapshot i [] predictedRun resetP95 now = None"
| "firstQueuedCandidate base snapshot i (lane # lanes) predictedRun resetP95 now =
     (case queuedCandidate base snapshot lane i predictedRun resetP95 now of
        Some option \<Rightarrow> Some option
      | None \<Rightarrow> firstQueuedCandidate base snapshot (i + 1) lanes predictedRun resetP95 now)"

definition setColdSchedule :: "scoredCandidate \<Rightarrow> RoutingTierSnapshot \<Rightarrow> duration \<Rightarrow> duration \<Rightarrow> duration \<Rightarrow> instant \<Rightarrow> scoredCandidate" where
  "setColdSchedule result snapshot predictedRun provisionP95 resetP95 now =
     (let start = time_add now provisionP95
      in result\<lparr>sc_startDelay := provisionP95, k_ScheduledStartAt := start,
                k_ScheduledFinishAt := time_add start (coldRunHorizon snapshot predictedRun resetP95)\<rparr>)"

definition scoreWithoutPricing ::
  "scoredCandidate \<Rightarrow> RoutingTierSnapshot \<Rightarrow> optimizationLane list \<Rightarrow> bool \<Rightarrow> duration \<Rightarrow> duration \<Rightarrow> duration \<Rightarrow> instant \<Rightarrow> scoredCandidate" where
  "scoreWithoutPricing result snapshot lanes queuePossible predictedRun provisionP95 resetP95 now =
     (let result = result\<lparr>k_Reason := ''pricing_unavailable''\<rparr>
      in case rs_IdleWorkers snapshot of
           worker # _ \<Rightarrow> setDirectIdleCandidate result snapshot worker 0 predictedRun resetP95 now lanes
         | [] \<Rightarrow>
             if queuePossible then
               (case firstQueuedCandidate result snapshot 0 lanes predictedRun resetP95 now of
                  Some queued \<Rightarrow> queued
                | None \<Rightarrow>
                    if rs_AvailableSlots snapshot \<le> 0
                    then result\<lparr>k_Eligible := False, k_Reason := reasonCapacityFull\<rparr>
                    else setColdSchedule result snapshot predictedRun provisionP95 resetP95 now)
             else setColdSchedule result snapshot predictedRun provisionP95 resetP95 now)"

definition allocationLess :: "scoredCandidate \<Rightarrow> scoredCandidate \<Rightarrow> bool" where
  "allocationLess left right =
     (if k_NativeCostNanos left \<noteq> k_NativeCostNanos right then k_NativeCostNanos left < k_NativeCostNanos right
      else if k_UsedIdle left \<noteq> k_UsedIdle right then k_UsedIdle left
      else if sc_startDelay left \<noteq> sc_startDelay right then sc_startDelay left < sc_startDelay right
      else k_OptimizationQueuePosition left < k_OptimizationQueuePosition right)"

text \<open>The loop \<open>for _, option := range options[1:] { if less(option, best) { best = option } }\<close>.\<close>

definition firstBest :: "('a \<Rightarrow> 'a \<Rightarrow> bool) \<Rightarrow> 'a \<Rightarrow> 'a list \<Rightarrow> 'a" where
  "firstBest lt best options = foldl (\<lambda>best option. if lt option best then option else best) best options"

fun idleOptions ::
  "scoredCandidate \<Rightarrow> RoutingTierSnapshot \<Rightarrow> PriceQuote \<Rightarrow> string \<Rightarrow> duration \<Rightarrow> duration \<Rightarrow> instant \<Rightarrow> optimizationLane list \<Rightarrow> int \<Rightarrow> WorkerView list \<Rightarrow> scoredCandidate list" where
  "idleOptions result snapshot quote fxRate predictedRun resetP95 now lanes i [] = []"
| "idleOptions result snapshot quote fxRate predictedRun resetP95 now lanes i (worker # workers) =
     (let horizon = (if shouldIncludeReset snapshot worker (time_add now predictedRun)
                     then wrap64 (predictedRun + resetP95) else predictedRun);
          before = billedCost quote (w_CreatedAt worker) now;
          after = billedCost quote (w_CreatedAt worker) (time_add now horizon);
          marginal = max (wrap64 (after - before)) 0;
          option = setDirectIdleCandidate result snapshot worker i predictedRun resetP95 now lanes
      in setCandidateCost option marginal fxRate #
         idleOptions result snapshot quote fxRate predictedRun resetP95 now lanes (i + 1) workers)"

fun laneOptions ::
  "scoredCandidate \<Rightarrow> RoutingTierSnapshot \<Rightarrow> PriceQuote \<Rightarrow> string \<Rightarrow> duration \<Rightarrow> duration \<Rightarrow> instant \<Rightarrow> int \<Rightarrow> optimizationLane list \<Rightarrow> scoredCandidate list" where
  "laneOptions result snapshot quote fxRate predictedRun resetP95 now i [] = []"
| "laneOptions result snapshot quote fxRate predictedRun resetP95 now i (lane # lanes) =
     (case queuedCandidate result snapshot lane i predictedRun resetP95 now of
        None \<Rightarrow> laneOptions result snapshot quote fxRate predictedRun resetP95 now (i + 1) lanes
      | Some option \<Rightarrow>
          let before = billedCost quote (w_CreatedAt (l_worker lane)) now;
              after = billedCost quote (w_CreatedAt (l_worker lane)) (k_ScheduledFinishAt option)
          in setCandidateCost option (max (wrap64 (after - before)) 0) fxRate #
             laneOptions result snapshot quote fxRate predictedRun resetP95 now (i + 1) lanes)"

definition coldOptions ::
  "scoredCandidate \<Rightarrow> RoutingTierSnapshot \<Rightarrow> PriceQuote \<Rightarrow> string \<Rightarrow> duration \<Rightarrow> duration \<Rightarrow> duration \<Rightarrow> instant \<Rightarrow> scoredCandidate list" where
  "coldOptions result snapshot quote fxRate predictedRun provisionP95 resetP95 now =
     (if rs_AvailableSlots snapshot > 0
      then let option = setColdSchedule result snapshot predictedRun provisionP95 resetP95 now
           in [setCandidateCost option (billedCost quote now (k_ScheduledFinishAt option)) fxRate]
      else [])"

definition baseCandidate :: "RoutingTierSnapshot \<Rightarrow> PriceQuote \<Rightarrow> string \<Rightarrow> duration \<Rightarrow> duration \<Rightarrow> duration \<Rightarrow> scoredCandidate" where
  "baseCandidate snapshot quote fxRate predictedRun provisionP95 resetP95 =
     \<lparr>k_DecisionID = 0, k_Tier = rs_Tier snapshot, k_Provider = rs_ProviderName snapshot, k_Driver = rs_Driver snapshot,
      k_InstanceType = rs_InstanceType snapshot, k_Eligible = False, k_Reason = '''',
      k_IdleWorkers = length (rs_IdleWorkers snapshot), k_ActiveWorkers = rs_ActiveWorkers snapshot,
      k_PendingWorkers = rs_PendingWorkers snapshot, k_MaxInstances = rs_MaxInstances snapshot, k_UsedIdle = False,
      k_ProfileSource = '''', k_ProfileSamples = 0, k_PredictedRun = predictedRun, k_ProvisionP95 = provisionP95,
      k_ResetP95 = resetP95, k_IdleInstanceID = '''', k_IdleCreatedAt = zero_time, k_IdlePaidHourEndAt = zero_time,
      k_IdleReapEligibleAt = zero_time, k_PriceQuoteID = q_ID quote, k_NativeCurrency = q_Currency quote,
      k_NativeCostNanos = 0, k_NativeCostKnown = False, k_FXRate = fxRate, k_ScoreCostNanos = 0, k_ScoreCostKnown = False,
      k_Rank = 0, k_Selected = False, k_OptimizationQueued = False, k_ScheduledStartAt = zero_time,
      k_ScheduledFinishAt = zero_time, k_OptimizationQueuePosition = 0, k_OptimizationWait = 0,
      sc_startDelay = 0, sc_idleIndex = -1, sc_laneIndex = -1\<rparr>"

definition pricedOptions ::
  "scoredCandidate \<Rightarrow> RoutingTierSnapshot \<Rightarrow> PriceQuote \<Rightarrow> string \<Rightarrow> optimizationLane list \<Rightarrow> bool \<Rightarrow> duration \<Rightarrow> duration \<Rightarrow> duration \<Rightarrow> instant \<Rightarrow> scoredCandidate list" where
  "pricedOptions result snapshot quote fxRate lanes queuePossible predictedRun provisionP95 resetP95 now =
     idleOptions result snapshot quote fxRate predictedRun resetP95 now lanes 0 (rs_IdleWorkers snapshot) @
     (if queuePossible then laneOptions result snapshot quote fxRate predictedRun resetP95 now 0 lanes else []) @
     coldOptions result snapshot quote fxRate predictedRun provisionP95 resetP95 now"

definition scoreEligible ::
  "scoredCandidate \<Rightarrow> RoutingTierSnapshot \<Rightarrow> PriceQuote \<Rightarrow> string \<Rightarrow> optimizationLane list \<Rightarrow> bool \<Rightarrow> duration \<Rightarrow> duration \<Rightarrow> duration \<Rightarrow> instant \<Rightarrow> scoredCandidate" where
  "scoreEligible result snapshot quote fxRate lanes queuePossible predictedRun provisionP95 resetP95 now =
     (if q_ID quote = 0 \<or> fxRate = ''''
      then scoreWithoutPricing result snapshot lanes queuePossible predictedRun provisionP95 resetP95 now
      else case pricedOptions result snapshot quote fxRate lanes queuePossible predictedRun provisionP95 resetP95 now of
             [] \<Rightarrow> result\<lparr>k_Eligible := False, k_Reason := reasonCapacityFull\<rparr>
           | best # options \<Rightarrow> firstBest allocationLess best options)"

definition scoreCandidateWithQueue ::
  "RoutingTierSnapshot \<Rightarrow> PriceQuote \<Rightarrow> string \<Rightarrow> string list \<Rightarrow> duration \<Rightarrow> duration \<Rightarrow> duration \<Rightarrow> instant \<Rightarrow> optimizationLane list \<Rightarrow> bool \<Rightarrow> scoredCandidate" where
  "scoreCandidateWithQueue snapshot quote fxRate jobLabels predictedRun provisionP95 resetP95 now lanes allowOptimizationQueue =
     (let provisionP95 = (if provisionP95 \<le> 0 then defaultProvisionP95 else provisionP95);
          resetP95 = (if resetP95 \<le> 0 then defaultResetP95 else resetP95);
          result = baseCandidate snapshot quote fxRate predictedRun provisionP95 resetP95;
          queuePossible = (allowOptimizationQueue \<and> reusableForOptimization snapshot \<and> hasUsableLane lanes now)
      in if \<not> rs_Healthy snapshot then result\<lparr>k_Reason := ''tier_unhealthy''\<rparr>
         else if \<not> serviceable jobLabels (rs_Labels snapshot) then result\<lparr>k_Reason := ''labels_incompatible''\<rparr>
         else if rs_IdleWorkers snapshot = [] \<and> rs_AvailableSlots snapshot \<le> 0 \<and> \<not> queuePossible
         then result\<lparr>k_Reason := reasonCapacityFull\<rparr>
         else scoreEligible (result\<lparr>k_Eligible := True\<rparr>) snapshot quote fxRate lanes queuePossible
                predictedRun provisionP95 resetP95 now)"

definition scoreCandidate ::
  "RoutingTierSnapshot \<Rightarrow> PriceQuote \<Rightarrow> string \<Rightarrow> string list \<Rightarrow> duration \<Rightarrow> duration \<Rightarrow> duration \<Rightarrow> instant \<Rightarrow> scoredCandidate" where
  "scoreCandidate snapshot quote fxRate jobLabels predictedRun provisionP95 resetP95 now =
     scoreCandidateWithQueue snapshot quote fxRate jobLabels predictedRun provisionP95 resetP95 now [] False"

subsection \<open>Selecting by a preference\<close>

locale preference =
  fixes lt :: "'a \<Rightarrow> 'a \<Rightarrow> bool"
  assumes irrefl: "\<not> lt x x"
    and trans: "lt x y \<Longrightarrow> lt y z \<Longrightarrow> lt x z"
    and negtrans: "lt x z \<Longrightarrow> lt x y \<or> lt y z"
begin

lemma asym: "lt x y \<Longrightarrow> \<not> lt y x"
  using irrefl trans by blast

lemma firstBest_in: "firstBest lt b xs \<in> set (b # xs)"
  by (induction xs arbitrary: b) (auto simp: firstBest_def)

lemma firstBest_le: "\<not> lt b (firstBest lt b xs)"
proof (induction xs arbitrary: b)
  case (Cons x xs)
  show ?case
  proof (cases "lt x b")
    case True
    then have "firstBest lt b (x # xs) = firstBest lt x xs" by (simp add: firstBest_def)
    then show ?thesis using Cons [of x] True trans by metis
  next
    case False
    then show ?thesis using Cons [of b] by (simp add: firstBest_def)
  qed
qed (simp add: firstBest_def irrefl)

lemma firstBest_min: "y \<in> set (b # xs) \<Longrightarrow> \<not> lt y (firstBest lt b xs)"
proof (induction xs arbitrary: b)
  case Nil
  then show ?case by (simp add: firstBest_def irrefl)
next
  case (Cons x xs)
  let ?m = "if lt x b then x else b"
  have step: "firstBest lt b (x # xs) = firstBest lt ?m xs" by (simp add: firstBest_def)
  have "\<not> lt ?m (firstBest lt ?m xs)" by (rule firstBest_le)
  moreover have "\<not> lt b ?m" "\<not> lt x ?m" using irrefl asym by auto
  ultimately have "\<not> lt b (firstBest lt ?m xs)" "\<not> lt x (firstBest lt ?m xs)" using negtrans by blast+
  then show ?case unfolding step using Cons by auto
qed

end

lemma allocation_key:
  "allocationLess l r \<longleftrightarrow>
   (k_NativeCostNanos l, \<not> k_UsedIdle l, sc_startDelay l, k_OptimizationQueuePosition l) <
   (k_NativeCostNanos r, \<not> k_UsedIdle r, sc_startDelay r, k_OptimizationQueuePosition r)"
  by (auto simp: allocationLess_def less_prod_def)

interpretation alloc: preference allocationLess
  by unfold_locales (auto simp: allocation_key)

subsection \<open>What an option stands for\<close>

text \<open>
  A candidate takes one of three kinds of capacity: an idle worker of the tier, a lane of a
  paid worker whose window it fits in, or a free slot.
\<close>

definition takes_idle :: "RoutingTierSnapshot \<Rightarrow> scoredCandidate \<Rightarrow> bool" where
  "takes_idle snapshot c \<longleftrightarrow> k_UsedIdle c \<and> \<not> k_OptimizationQueued c \<and> 0 \<le> sc_idleIndex c \<and>
     nat (sc_idleIndex c) < length (rs_IdleWorkers snapshot) \<and>
     k_IdleInstanceID c = w_InstanceID (rs_IdleWorkers snapshot ! nat (sc_idleIndex c))"

definition takes_lane :: "optimizationLane list \<Rightarrow> instant \<Rightarrow> scoredCandidate \<Rightarrow> bool" where
  "takes_lane lanes now c \<longleftrightarrow> k_OptimizationQueued c \<and> sc_idleIndex c = -1 \<and> 0 \<le> sc_laneIndex c \<and>
     nat (sc_laneIndex c) < length lanes \<and>
     (let lane = lanes ! nat (sc_laneIndex c)
      in \<not> l_blocked lane \<and> k_IdleInstanceID c = w_InstanceID (l_worker lane) \<and>
         k_IdleReapEligibleAt c = w_ReapEligibleAt (l_worker lane) \<and> now < w_ReapEligibleAt (l_worker lane) \<and>
         now \<le> k_ScheduledStartAt c \<and> l_availableAt lane \<le> k_ScheduledStartAt c \<and>
         k_ScheduledFinishAt c \<le> w_ReapEligibleAt (l_worker lane) \<and>
         k_OptimizationQueuePosition c = l_queued lane + 1)"

definition takes_slot :: "RoutingTierSnapshot \<Rightarrow> scoredCandidate \<Rightarrow> bool" where
  "takes_slot snapshot c \<longleftrightarrow> \<not> k_UsedIdle c \<and> \<not> k_OptimizationQueued c \<and> sc_idleIndex c = -1 \<and> 0 < rs_AvailableSlots snapshot"

definition base_ok :: "scoredCandidate \<Rightarrow> bool" where
  "base_ok b \<longleftrightarrow> k_Eligible b \<and> \<not> k_UsedIdle b \<and> \<not> k_OptimizationQueued b \<and> sc_idleIndex b = -1"

lemma setCandidateCost_sel [simp]:
  "k_UsedIdle (setCandidateCost c n f) = k_UsedIdle c" "k_OptimizationQueued (setCandidateCost c n f) = k_OptimizationQueued c"
  "sc_idleIndex (setCandidateCost c n f) = sc_idleIndex c" "sc_laneIndex (setCandidateCost c n f) = sc_laneIndex c"
  "k_IdleInstanceID (setCandidateCost c n f) = k_IdleInstanceID c" "k_Eligible (setCandidateCost c n f) = k_Eligible c"
  "k_IdleReapEligibleAt (setCandidateCost c n f) = k_IdleReapEligibleAt c"
  "k_ScheduledStartAt (setCandidateCost c n f) = k_ScheduledStartAt c"
  "k_ScheduledFinishAt (setCandidateCost c n f) = k_ScheduledFinishAt c"
  "k_OptimizationQueuePosition (setCandidateCost c n f) = k_OptimizationQueuePosition c"
  "sc_startDelay (setCandidateCost c n f) = sc_startDelay c" "k_Tier (setCandidateCost c n f) = k_Tier c"
  by (simp_all add: setCandidateCost_def Let_def split: prod.split bool.split)

lemma takes_cost [simp]:
  "takes_idle snapshot (setCandidateCost c n f) = takes_idle snapshot c"
  "takes_lane lanes now (setCandidateCost c n f) = takes_lane lanes now c"
  "takes_slot snapshot (setCandidateCost c n f) = takes_slot snapshot c"
  by (simp_all add: takes_idle_def takes_lane_def takes_slot_def)

lemma direct_idle_takes:
  assumes "base_ok b" "i < length (rs_IdleWorkers snapshot)"
  shows "takes_idle snapshot (setDirectIdleCandidate b snapshot (rs_IdleWorkers snapshot ! i) (int i) run reset now lanes)"
    "k_Eligible (setDirectIdleCandidate b snapshot (rs_IdleWorkers snapshot ! i) (int i) run reset now lanes)"
  using assms by (simp_all add: takes_idle_def setDirectIdleCandidate_def setIdleCandidate_def base_ok_def Let_def)

lemma queued_takes:
  assumes "base_ok b" "i < length lanes" "queuedCandidate b snapshot (lanes ! i) (int i) run reset now = Some c"
  shows "takes_lane lanes now c" "k_Eligible c"
  using assms
  by (auto simp: takes_lane_def queuedCandidate_def setIdleCandidate_def base_ok_def Let_def split: if_splits)

lemma cold_takes:
  assumes "base_ok b" "0 < rs_AvailableSlots snapshot"
  shows "takes_slot snapshot (setColdSchedule b snapshot run prov reset now)" "k_Eligible (setColdSchedule b snapshot run prov reset now)"
  using assms by (simp_all add: takes_slot_def setColdSchedule_def base_ok_def Let_def)

lemma idleOptions_takes:
  assumes "base_ok b" "rs_IdleWorkers snapshot = pre @ ws"
    and "c \<in> set (idleOptions b snapshot quote fx run reset now lanes (int (length pre)) ws)"
  shows "takes_idle snapshot c \<and> k_Eligible c"
  using assms(2,3)
proof (induction ws arbitrary: pre)
  case (Cons w ws)
  have i: "length pre < length (rs_IdleWorkers snapshot)" "rs_IdleWorkers snapshot ! length pre = w"
    using Cons.prems(1) by simp_all
  have "rs_IdleWorkers snapshot = (pre @ [w]) @ ws" using Cons.prems(1) by simp
  note IH = Cons.IH [OF this]
  show ?case using Cons.prems(2) IH direct_idle_takes [OF assms(1) i(1)] i(2)
    by (auto simp: Let_def add.commute)
qed simp

lemma laneOptions_takes:
  assumes "base_ok b" "lanes = pre @ ls"
    and "c \<in> set (laneOptions b snapshot quote fx run reset now (int (length pre)) ls)"
  shows "takes_lane lanes now c \<and> k_Eligible c"
  using assms(2,3)
proof (induction ls arbitrary: pre)
  case (Cons l ls)
  have i: "length pre < length lanes" "lanes ! length pre = l" using Cons.prems(1) by simp_all
  have "lanes = (pre @ [l]) @ ls" using Cons.prems(1) by simp
  note IH = Cons.IH [OF this]
  show ?case using Cons.prems(2) IH queued_takes [OF assms(1) i(1)] i(2)
    by (auto simp: Let_def add.commute split: option.splits)
qed simp

lemma firstQueued_takes:
  assumes "base_ok b" "lanes = pre @ ls"
    and "firstQueuedCandidate b snapshot (int (length pre)) ls run reset now = Some c"
  shows "takes_lane lanes now c \<and> k_Eligible c"
  using assms(2,3)
proof (induction ls arbitrary: pre)
  case (Cons l ls)
  have i: "length pre < length lanes" "lanes ! length pre = l" using Cons.prems(1) by simp_all
  have "lanes = (pre @ [l]) @ ls" using Cons.prems(1) by simp
  note IH = Cons.IH [OF this]
  show ?case using Cons.prems(2) IH queued_takes [OF assms(1) i(1)] i(2)
    by (auto simp: add.commute split: option.splits)
qed simp

definition takes_capacity :: "RoutingTierSnapshot \<Rightarrow> optimizationLane list \<Rightarrow> instant \<Rightarrow> scoredCandidate \<Rightarrow> bool" where
  "takes_capacity snapshot lanes now c \<longleftrightarrow> takes_idle snapshot c \<or> takes_lane lanes now c \<or> takes_slot snapshot c"

lemma pricedOptions_takes:
  assumes "base_ok b" "c \<in> set (pricedOptions b snapshot quote fx lanes qp run prov reset now)"
  shows "k_Eligible c \<and> (takes_idle snapshot c \<or> qp \<and> takes_lane lanes now c \<or> takes_slot snapshot c)"
  using assms idleOptions_takes [OF assms(1), of snapshot "[]" "rs_IdleWorkers snapshot" c quote fx run reset now lanes]
    laneOptions_takes [OF assms(1), of lanes "[]" lanes c snapshot quote fx run reset now] cold_takes [OF assms(1)]
  by (auto simp: pricedOptions_def coldOptions_def Let_def split: if_splits)

lemma scoreEligible_takes:
  assumes "base_ok b" "\<not> (rs_IdleWorkers snapshot = [] \<and> rs_AvailableSlots snapshot \<le> 0 \<and> \<not> qp)"
    and "c = scoreEligible b snapshot quote fx lanes qp run prov reset now" "k_Eligible c"
  shows "takes_idle snapshot c \<or> qp \<and> takes_lane lanes now c \<or> takes_slot snapshot c"
proof (cases "q_ID quote = 0 \<or> fx = ''''")
  case True
  let ?b = "b\<lparr>k_Reason := ''pricing_unavailable''\<rparr>"
  have b: "base_ok ?b" using assms(1) by (simp add: base_ok_def)
  have c: "c = scoreWithoutPricing b snapshot lanes qp run prov reset now" using True assms(3) by (simp add: scoreEligible_def)
  show ?thesis
  proof (cases "rs_IdleWorkers snapshot")
    case (Cons w ws)
    then show ?thesis using direct_idle_takes(1) [OF b, of 0 snapshot] c by (simp add: scoreWithoutPricing_def Let_def)
  next
    case Nil
    then show ?thesis
      using c assms(2,4) cold_takes(1) [OF b, of snapshot run prov reset now]
        firstQueued_takes [OF b, of lanes "[]" lanes snapshot run reset now]
      by (auto simp: scoreWithoutPricing_def Let_def split: if_splits option.splits)
  qed
next
  case False
  show ?thesis
  proof (cases "pricedOptions b snapshot quote fx lanes qp run prov reset now")
    case Nil
    then show ?thesis using False assms(3,4) by (simp add: scoreEligible_def)
  next
    case (Cons best options)
    then have "c = firstBest allocationLess best options" using False assms(3) by (simp add: scoreEligible_def)
    then have "c \<in> set (pricedOptions b snapshot quote fx lanes qp run prov reset now)"
      using alloc.firstBest_in [of best options] Cons by simp
    then show ?thesis using pricedOptions_takes [OF assms(1)] by blast
  qed
qed

subsection \<open>Costs of the options\<close>

lemma billedCost_loop_nonneg:
  assumes "0 < perMonth" "0 \<le> capped" "capped \<le> max_int64"
  shows "0 \<le> fst (billedCost_loop perHour perMonth cursor stop capped months)"
  using assms(2,3)
proof (induction cursor stop arbitrary: capped months rule: utc_months.segs_induct)
  case (step cursor stop)
  let ?s = "min (proportional perHour (time_sub (minTime stop (next_month_start cursor)) cursor) hour) perMonth"
  have "0 \<le> ?s" "?s \<le> max_int64"
    using assms(1) proportionalNanos_nonneg proportionalNanos_le by (simp_all add: proportional_eq min_le_iff_disj)
  then have "0 \<le> saturatingAdd capped ?s" "saturatingAdd capped ?s \<le> max_int64"
    using step.prems by (simp_all add: saturatingAdd_exact in_int64_def)
  then show ?case using step by (simp add: billedCost_loop.simps [of _ _ cursor] Let_def minTime_min)
qed (simp add: billedCost_loop.simps)

lemma saturatingMultiply_nonneg: "0 \<le> saturatingMultiply a b"
proof (cases "0 < a \<and> 0 < b")
  case True
  then show ?thesis by (simp add: saturatingMultiply_eq saturatedNanosProduct_exact)
qed (auto simp: saturatingMultiply_def)

lemma billedCost_nonneg: "0 \<le> billedCost quote start stop"
proof (cases "start < stop \<and> 0 < q_PerMonthNanos quote")
  case True
  then show ?thesis
    using billedCost_loop_nonneg [of "q_PerMonthNanos quote" 0 "q_PerHourNanos quote" start _ 0] saturatingMultiply_nonneg
    by (auto simp: billedCost_def Let_def split: prod.split)
      (metis fst_conv max_int64_pos order_less_imp_le order_trans linorder_not_less)+
next
  case False
  then show ?thesis using proportionalNanos_nonneg
    by (auto simp: billedCost_def Let_def proportional_eq le_max_iff_disj)
qed

lemma billedCost_paid:
  assumes "quote_ok quote" "start < now" "now \<le> stop" "0 < q_BillingQuantum quote"
    and "stop - start + q_BillingQuantum quote \<le> max_int64"
    and "stop \<le> start + roundUp (now - start) (q_BillingQuantum quote)"
  shows "billedCost quote start stop = billedCost quote start now"
proof -
  let ?q = "q_BillingQuantum quote"
  have t: "time_sub stop start = stop - start" "time_sub now start = now - start"
    using assms by (auto intro!: time_sub_id simp: in_int64_nonneg)
  have "?q dvd roundUp (now - start) ?q" "roundUp (now - start) ?q \<le> roundUp (stop - start) ?q"
    using assms by (simp_all add: roundUp_bounds roundUp_mono)
  moreover have "roundUp (stop - start) ?q \<le> roundUp (roundUp (now - start) ?q) ?q"
    using assms by (intro roundUp_mono) simp_all
  moreover have "roundUp (roundUp (now - start) ?q) ?q = roundUp (now - start) ?q"
    using assms(4) by (simp add: roundUp_def)
  ultimately have "roundUp (stop - start) ?q = roundUp (now - start) ?q" by simp
  then show ?thesis using assms by (simp add: billedCost_reference t roundedBillingDuration_exact)
qed

text \<open>What running the job on an idle worker adds to that worker's bill.\<close>

definition idleMarginal :: "RoutingTierSnapshot \<Rightarrow> PriceQuote \<Rightarrow> duration \<Rightarrow> duration \<Rightarrow> instant \<Rightarrow> WorkerView \<Rightarrow> int" where
  "idleMarginal snapshot quote run reset now w =
     max (wrap64 (billedCost quote (w_CreatedAt w)
            (time_add now (if shouldIncludeReset snapshot w (time_add now run) then wrap64 (run + reset) else run)) -
          billedCost quote (w_CreatedAt w) now)) 0"

lemma setCandidateCost_native [simp]: "k_NativeCostNanos (setCandidateCost c n f) = n"
  by (simp add: setCandidateCost_def Let_def split: prod.split bool.split)

lemma idleOptions_cost:
  "w \<in> set ws \<Longrightarrow> \<exists>c\<in>set (idleOptions b snapshot quote fx run reset now lanes i ws).
     k_NativeCostNanos c = idleMarginal snapshot quote run reset now w \<and> k_UsedIdle c"
  by (induction ws arbitrary: i)
    (auto simp: Let_def idleMarginal_def setDirectIdleCandidate_def setIdleCandidate_def)

lemma option_costs_nonneg:
  "c \<in> set (idleOptions b snapshot quote fx run reset now lanes i ws) \<Longrightarrow> 0 \<le> k_NativeCostNanos c"
  "c \<in> set (laneOptions b snapshot quote fx run reset now i ls) \<Longrightarrow> 0 \<le> k_NativeCostNanos c"
  "c \<in> set (coldOptions b snapshot quote fx run prov reset now) \<Longrightarrow> 0 \<le> k_NativeCostNanos c"
  by (induction ws arbitrary: i, auto simp: Let_def)
    (induction ls arbitrary: i, auto simp: Let_def coldOptions_def billedCost_nonneg split: option.splits if_splits)

lemma pricedOptions_cost_nonneg:
  "c \<in> set (pricedOptions b snapshot quote fx lanes qp run prov reset now) \<Longrightarrow> 0 \<le> k_NativeCostNanos c"
  by (auto simp: pricedOptions_def split: if_splits dest: option_costs_nonneg)

text \<open>The options a priced candidate is chosen from, with the defaults of \<open>scoreCandidateWithQueue\<close> applied.\<close>

definition candidateOptions ::
  "RoutingTierSnapshot \<Rightarrow> PriceQuote \<Rightarrow> string \<Rightarrow> duration \<Rightarrow> duration \<Rightarrow> duration \<Rightarrow> instant \<Rightarrow> optimizationLane list \<Rightarrow> bool \<Rightarrow> scoredCandidate list" where
  "candidateOptions snapshot quote fx run prov reset now lanes allow =
     (let prov = (if prov \<le> 0 then defaultProvisionP95 else prov); reset = (if reset \<le> 0 then defaultResetP95 else reset)
      in pricedOptions ((baseCandidate snapshot quote fx run prov reset)\<lparr>k_Eligible := True\<rparr>) snapshot quote fx lanes
           (allow \<and> reusableForOptimization snapshot \<and> hasUsableLane lanes now) run prov reset now)"

lemma base_base_ok: "base_ok ((baseCandidate snapshot quote fx run prov reset)\<lparr>k_Eligible := True\<rparr>)"
  by (simp add: base_ok_def baseCandidate_def)

lemma score_best:
  assumes "c = scoreCandidateWithQueue snapshot quote fx labels run prov reset now lanes allow"
    and "k_Eligible c" "q_ID quote \<noteq> 0" "fx \<noteq> ''''"
  shows "c \<in> set (candidateOptions snapshot quote fx run prov reset now lanes allow)"
    and "o' \<in> set (candidateOptions snapshot quote fx run prov reset now lanes allow) \<Longrightarrow> \<not> allocationLess o' c"
proof -
  obtain best options where o: "candidateOptions snapshot quote fx run prov reset now lanes allow = best # options"
    and c: "c = firstBest allocationLess best options"
    using assms
    by (cases "candidateOptions snapshot quote fx run prov reset now lanes allow")
      (auto simp: scoreCandidateWithQueue_def candidateOptions_def scoreEligible_def Let_def baseCandidate_def split: if_splits)
  show "c \<in> set (candidateOptions snapshot quote fx run prov reset now lanes allow)"
    unfolding o c by (rule alloc.firstBest_in)
  show "o' \<in> set (candidateOptions snapshot quote fx run prov reset now lanes allow) \<Longrightarrow> \<not> allocationLess o' c"
    unfolding o c by (rule alloc.firstBest_min)
qed

lemma cold_option_cost:
  assumes "0 < rs_AvailableSlots snapshot"
  shows "\<exists>c\<in>set (coldOptions b snapshot quote fx run prov reset now).
    k_NativeCostNanos c = billedCost quote now (time_add (time_add now prov) (coldRunHorizon snapshot run reset))"
  using assms by (simp add: coldOptions_def Let_def setColdSchedule_def)

lemma idle_cost_bound:
  assumes "c = scoreCandidateWithQueue snapshot quote fx labels run prov reset now lanes allow"
    and "k_Eligible c" "q_ID quote \<noteq> 0" "fx \<noteq> ''''" "w \<in> set (rs_IdleWorkers snapshot)"
  defines "m \<equiv> idleMarginal snapshot quote run (if reset \<le> 0 then defaultResetP95 else reset) now w"
  shows "k_NativeCostNanos c \<le> m" "\<not> k_UsedIdle c \<Longrightarrow> k_NativeCostNanos c < m"
proof -
  obtain d where "d \<in> set (candidateOptions snapshot quote fx run prov reset now lanes allow)"
    and d: "k_NativeCostNanos d = m" "k_UsedIdle d"
    using idleOptions_cost [OF assms(5)] unfolding candidateOptions_def pricedOptions_def Let_def m_def by fastforce
  then have "\<not> allocationLess d c" using score_best(2) [OF assms(1-4)] by blast
  then show "k_NativeCostNanos c \<le> m" "\<not> k_UsedIdle c \<Longrightarrow> k_NativeCostNanos c < m"
    using d by (auto simp: allocationLess_def split: if_splits)
qed

lemma cold_cost_bound:
  assumes "c = scoreCandidateWithQueue snapshot quote fx labels run prov reset now lanes allow"
    and "k_Eligible c" "q_ID quote \<noteq> 0" "fx \<noteq> ''''" "0 < rs_AvailableSlots snapshot"
  shows "k_NativeCostNanos c \<le> billedCost quote now
           (time_add (time_add now (if prov \<le> 0 then defaultProvisionP95 else prov))
              (coldRunHorizon snapshot run (if reset \<le> 0 then defaultResetP95 else reset)))"
proof -
  obtain d where "d \<in> set (candidateOptions snapshot quote fx run prov reset now lanes allow)"
    and d: "k_NativeCostNanos d = billedCost quote now
           (time_add (time_add now (if prov \<le> 0 then defaultProvisionP95 else prov))
              (coldRunHorizon snapshot run (if reset \<le> 0 then defaultResetP95 else reset)))"
    using cold_option_cost [OF assms(5)] unfolding candidateOptions_def pricedOptions_def Let_def by fastforce
  then have "\<not> allocationLess d c" using score_best(2) [OF assms(1-4)] by blast
  then show ?thesis using d by (auto simp: allocationLess_def split: if_splits)
qed

lemma options_tier:
  "c \<in> set (idleOptions b snapshot quote fx run reset now lanes i ws) \<Longrightarrow> k_Tier c = k_Tier b"
  "c \<in> set (laneOptions b snapshot quote fx run reset now i ls) \<Longrightarrow> k_Tier c = k_Tier b"
  "c \<in> set (coldOptions b snapshot quote fx run prov reset now) \<Longrightarrow> k_Tier c = k_Tier b"
  by (induction ws arbitrary: i, auto simp: Let_def setDirectIdleCandidate_def setIdleCandidate_def)
    (induction ls arbitrary: i, auto simp: Let_def coldOptions_def setColdSchedule_def queuedCandidate_def setIdleCandidate_def
       split: option.splits if_splits)

lemma firstQueued_tier: "firstQueuedCandidate b snapshot i ls run reset now = Some c \<Longrightarrow> k_Tier c = k_Tier b"
  by (induction ls arbitrary: i) (auto simp: queuedCandidate_def setIdleCandidate_def Let_def split: option.splits if_splits)

lemma pricedOptions_tier: "c \<in> set (pricedOptions b snapshot quote fx lanes qp run prov reset now) \<Longrightarrow> k_Tier c = k_Tier b"
  by (auto simp: pricedOptions_def split: if_splits dest: options_tier)

lemma scoreEligible_tier: "k_Tier (scoreEligible b snapshot quote fx lanes qp run prov reset now) = k_Tier b"
proof (cases "q_ID quote = 0 \<or> fx = ''''")
  case True
  then show ?thesis
    by (auto simp: scoreEligible_def scoreWithoutPricing_def setDirectIdleCandidate_def setIdleCandidate_def setColdSchedule_def Let_def
        dest: firstQueued_tier split: list.splits option.splits)
next
  case False
  show ?thesis
  proof (cases "pricedOptions b snapshot quote fx lanes qp run prov reset now")
    case Nil
    then show ?thesis using False by (simp add: scoreEligible_def)
  next
    case (Cons best options)
    then have "firstBest allocationLess best options \<in> set (pricedOptions b snapshot quote fx lanes qp run prov reset now)"
      using alloc.firstBest_in [of best options] by simp
    then have "k_Tier (firstBest allocationLess best options) = k_Tier b" by (rule pricedOptions_tier)
    then show ?thesis using False Cons by (simp add: scoreEligible_def)
  qed
qed

lemma score_tier: "k_Tier (scoreCandidateWithQueue snapshot quote fx labels run prov reset now lanes allow) = rs_Tier snapshot"
  by (simp add: scoreCandidateWithQueue_def Let_def scoreEligible_tier baseCandidate_def)

lemma score_fits:
  assumes "c = scoreCandidateWithQueue snapshot quote fx labels run prov reset now lanes allow" "k_Eligible c"
  shows "rs_Healthy snapshot \<and> serviceable labels (rs_Labels snapshot) \<and>
    (takes_idle snapshot c \<or>
     allow \<and> reusableForOptimization snapshot \<and> takes_lane lanes now c \<or>
     takes_slot snapshot c)"
proof -
  let ?p = "if prov \<le> 0 then defaultProvisionP95 else prov" and ?r = "if reset \<le> 0 then defaultResetP95 else reset"
  let ?q = "allow \<and> reusableForOptimization snapshot \<and> hasUsableLane lanes now"
  let ?b = "(baseCandidate snapshot quote fx run ?p ?r)\<lparr>k_Eligible := True\<rparr>"
  have g: "rs_Healthy snapshot" "serviceable labels (rs_Labels snapshot)"
    "\<not> (rs_IdleWorkers snapshot = [] \<and> rs_AvailableSlots snapshot \<le> 0 \<and> \<not> ?q)"
    "c = scoreEligible ?b snapshot quote fx lanes ?q run ?p ?r now"
    using assms by (auto simp: scoreCandidateWithQueue_def Let_def baseCandidate_def split: if_splits)
  show ?thesis using scoreEligible_takes [OF base_base_ok g(3,4) assms(2)] g(1,2) by blast
qed

subsection \<open>Properties\<close>

definition sample_worker :: WorkerView where
  "sample_worker = \<lparr>w_Tier = ''small'', w_ProviderName = ''linode'', w_Driver = ''linode'', w_InstanceID = ''vm1'',
     w_State = StateIdle, w_IP = '''', w_VPCIP = '''', w_CreatedAt = 1, w_LastBusy = 1, w_CurrentJob = '''',
     w_PaidHourEndAt = hour, w_ReapEligibleAt = hour, w_BillingModel = ''hourly''\<rparr>"

definition sample_snapshot :: RoutingTierSnapshot where
  "sample_snapshot = \<lparr>rs_Tier = ''small'', rs_ProviderName = ''linode'', rs_Driver = ''linode'',
     rs_InstanceType = ''g6-standard-2'', rs_Labels = [''docker:docker://img''], rs_OneJobPerVM = False, rs_ResetMode = '''',
     rs_ResetMinRemaining = 0, rs_Healthy = True, rs_MaxInstances = 3, rs_ActiveWorkers = 1, rs_PendingWorkers = 0,
     rs_AvailableSlots = 2, rs_IdleWorkers = [sample_worker], rs_Workers = [sample_worker],
     rs_Teardown = \<lparr>Model = BillingHourlyRoundUp, IdleTimeout = 0, HourMargin = minute, BillingHour = 0\<rparr>\<rparr>"

text \<open>
  A tier is offered as eligible only with capacity behind it: it is healthy, it offers every
  label the job wants, and the candidate names an idle worker of the tier, or a lane of a paid
  worker on an hourly tier that may be reused (not blocked, the job starting no earlier than
  now and than the lane is free, and ending before the worker may be reaped), or a free slot.
\<close>

theorem scored_candidate_fits:
  assumes "c = scoreCandidateWithQueue snapshot quote fx labels run prov reset now lanes allow" "k_Eligible c"
  shows "rs_Healthy snapshot \<and> serviceable labels (rs_Labels snapshot) \<and>
    (takes_idle snapshot c \<or>
     allow \<and> reusableForOptimization snapshot \<and> takes_lane lanes now c \<or>
     takes_slot snapshot c)"
  by (rule score_fits [OF assms])

theorem scored_candidate_fits_witness:
  "let c = scoreCandidateWithQueue sample_snapshot sample_quote ''1'' [''docker''] (10 * minute) 0 0 (5 * minute) [] False
   in k_Eligible c \<and> takes_idle sample_snapshot c"
  using scored_candidate_fits [OF refl, of sample_snapshot sample_quote "''1''" "[''docker'']" "10 * minute" 0 0 "5 * minute" "[]" False]
  by (simp only: Let_def) code_simp

text \<open>
  C5. With a price, an eligible candidate costs no more than any alternative in the tier: no
  more than what the job adds to the bill of any idle worker, no more than a new machine's
  bill for provisioning and the run; and it gives up an idle worker only for something
  strictly cheaper.
\<close>

theorem scored_candidate_cheapest:
  assumes "c = scoreCandidateWithQueue snapshot quote fx labels run prov reset now lanes allow"
    and "k_Eligible c" "q_ID quote \<noteq> 0" "fx \<noteq> ''''"
  shows "(\<forall>w\<in>set (rs_IdleWorkers snapshot).
            k_NativeCostNanos c \<le> idleMarginal snapshot quote run (if reset \<le> 0 then defaultResetP95 else reset) now w) \<and>
         (0 < rs_AvailableSlots snapshot \<longrightarrow> k_NativeCostNanos c \<le> billedCost quote now
            (time_add (time_add now (if prov \<le> 0 then defaultProvisionP95 else prov))
               (coldRunHorizon snapshot run (if reset \<le> 0 then defaultResetP95 else reset)))) \<and>
         (\<not> k_UsedIdle c \<longrightarrow> (\<forall>w\<in>set (rs_IdleWorkers snapshot).
            k_NativeCostNanos c < idleMarginal snapshot quote run (if reset \<le> 0 then defaultResetP95 else reset) now w))"
  using idle_cost_bound [OF assms] cold_cost_bound [OF assms] by blast

theorem scored_candidate_cheapest_witness:
  "k_NativeCostNanos (scoreCandidateWithQueue sample_snapshot sample_quote ''1'' [''docker''] (70 * minute) 0 0 (5 * minute) [] False)
     \<le> idleMarginal sample_snapshot sample_quote (70 * minute) defaultResetP95 (5 * minute) sample_worker \<and>
   k_NativeCostNanos (scoreCandidateWithQueue sample_snapshot sample_quote ''1'' [''docker''] (70 * minute) 0 0 (5 * minute) [] False)
     = 36000000"
proof -
  have e: "k_Eligible (scoreCandidateWithQueue sample_snapshot sample_quote ''1'' [''docker''] (70 * minute) 0 0 (5 * minute) [] False)"
    "q_ID sample_quote \<noteq> 0" "''1'' \<noteq> ''''" "sample_worker \<in> set (rs_IdleWorkers sample_snapshot)"
    by code_simp+
  have "k_NativeCostNanos (scoreCandidateWithQueue sample_snapshot sample_quote ''1'' [''docker''] (70 * minute) 0 0 (5 * minute) [] False)
     = 36000000" by code_simp
  then show ?thesis using scored_candidate_cheapest [OF refl e(1-3)] e(4) by auto
qed

text \<open>
  C4. Within a tier paid time is used before new time is bought: when some idle worker's current billing
  quantum, already paid, covers the whole job (and the reset after it), the priced and eligible candidate
  the tier offers to the router reuses a live worker and its native cost is zero. Which tier is taken
  is decided by the selection over all candidates.
\<close>

theorem paid_quantum_is_reused:
  assumes "c = scoreCandidateWithQueue snapshot quote fx labels run prov reset now lanes allow"
    and "k_Eligible c" "q_ID quote \<noteq> 0" "fx \<noteq> ''''" "quote_ok quote" "0 < q_BillingQuantum quote"
    and "w \<in> set (rs_IdleWorkers snapshot)" "w_CreatedAt w < now" "0 \<le> run"
    and "stop = now + (if rs_OneJobPerVM snapshot then wrap64 (run + (if reset \<le> 0 then defaultResetP95 else reset)) else run)"
    and "run \<le> stop - now" "stop - w_CreatedAt w + q_BillingQuantum quote \<le> max_int64"
    and "stop \<le> w_CreatedAt w + roundUp (now - w_CreatedAt w) (q_BillingQuantum quote)"
  shows "k_NativeCostNanos c = 0 \<and> k_UsedIdle c"
proof -
  let ?m = "idleMarginal snapshot quote run (if reset \<le> 0 then defaultResetP95 else reset) now w"
  have paid: "now \<le> t \<Longrightarrow> t \<le> stop \<Longrightarrow> billedCost quote (w_CreatedAt w) t = billedCost quote (w_CreatedAt w) now" for t
    using assms(5,6,8,12,13) by (intro billedCost_paid) auto
  have "?m = 0"
  proof (cases "shouldIncludeReset snapshot w (time_add now run)")
    case True
    then have "rs_OneJobPerVM snapshot" by (simp add: shouldIncludeReset_def split: if_splits)
    then show ?thesis using True paid [of stop] assms(9-11)
      by (simp add: idleMarginal_def time_add_def go_arith)
  next
    case False
    then show ?thesis using paid [of "now + run"] assms(9,11) by (simp add: idleMarginal_def time_add_def go_arith)
  qed
  then show ?thesis
    using idle_cost_bound [OF assms(1-4,7)] score_best(1) [OF assms(1-4)] pricedOptions_cost_nonneg
    unfolding candidateOptions_def Let_def by (metis antisym not_less)
qed

theorem paid_quantum_is_reused_witness:
  "k_NativeCostNanos (scoreCandidateWithQueue sample_snapshot sample_quote ''1'' [''docker''] (10 * minute) 0 0 (5 * minute) [] False) = 0 \<and>
   k_UsedIdle (scoreCandidateWithQueue sample_snapshot sample_quote ''1'' [''docker''] (10 * minute) 0 0 (5 * minute) [] False)"
  by (rule paid_quantum_is_reused [where stop = "15 * minute" and w = sample_worker, OF refl]) code_simp+

end
