(* ===== verification/Effects.thy ===== *)
theory Effects
  imports FJB_Prelude
begin

text \<open>
  Sequencing of Go calls that change a state and may return an error, as the router and the
  orchestrator chain them: the state is passed on whatever the outcome, and an error skips the
  rest. Also \<open>strconv.FormatInt\<close> in base 10.
\<close>

type_synonym ('s, 'a) action = "'s \<Rightarrow> 'a result \<times> 's"

definition returnR :: "'a \<Rightarrow> ('s, 'a) action" where
  "returnR a s = (Inr a, s)"

definition failR :: "go_error \<Rightarrow> ('s, 'a) action" where
  "failR e s = (Inl e, s)"

definition bindR :: "('s, 'a) action \<Rightarrow> ('a \<Rightarrow> ('s, 'b) action) \<Rightarrow> ('s, 'b) action" where
  "bindR m f s = (case m s of (Inl e, s') \<Rightarrow> (Inl e, s') | (Inr a, s') \<Rightarrow> f a s')"

fun mapR :: "('x \<Rightarrow> ('s, 'a) action) \<Rightarrow> 'x list \<Rightarrow> ('s, 'a list) action" where
  "mapR f [] = returnR []"
| "mapR f (x # xs) = bindR (f x) (\<lambda>a. bindR (mapR f xs) (\<lambda>as. returnR (a # as)))"

text \<open>An error that is only logged.\<close>

definition ignoreR :: "('s, 'a) action \<Rightarrow> 's \<Rightarrow> 's" where
  "ignoreR m s = snd (m s)"

lemma bindR_Inr: "bindR m f s = (Inr b, s'') \<longleftrightarrow> (\<exists>a s'. m s = (Inr a, s') \<and> f a s' = (Inr b, s''))"
  by (auto simp: bindR_def split: prod.splits sum.splits)

lemma bindR_Inl: "bindR m f s = (Inl e, s'') \<longleftrightarrow>
   m s = (Inl e, s'') \<or> (\<exists>a s'. m s = (Inr a, s') \<and> f a s' = (Inl e, s''))"
  by (auto simp: bindR_def split: prod.splits sum.splits)

lemma bindR_return [simp]: "bindR (returnR a) f = f a" "bindR m returnR = m"
  by (auto simp: fun_eq_iff bindR_def returnR_def split: prod.splits sum.splits)

lemma bindR_assoc: "bindR (bindR m f) g = bindR m (\<lambda>a. bindR (f a) g)"
  by (auto simp: fun_eq_iff bindR_def split: prod.splits sum.splits)

lemma mapR_length: "mapR f xs s = (Inr ys, s') \<Longrightarrow> length ys = length xs"
  by (induction xs arbitrary: s ys s') (auto simp: returnR_def bindR_Inr)

text \<open>
  The contract of an action with respect to a reflexive and transitive relation between the
  states before and after: what every step keeps, a sequence keeps.
\<close>

locale step_relation =
  fixes R :: "'s \<Rightarrow> 's \<Rightarrow> bool"
  assumes refl: "R s s"
    and trans: "R s t \<Longrightarrow> R t u \<Longrightarrow> R s u"
begin

lemma keeps_return: "R s (snd (returnR a s))" "R s (snd (failR e s))"
  by (simp_all add: returnR_def failR_def refl)

lemma keeps_bind:
  assumes "R s (snd (m s))" "\<And>a s'. m s = (Inr a, s') \<Longrightarrow> R s' (snd (f a s'))"
  shows "R s (snd (bindR m f s))"
proof (cases "m s")
  case (Pair r s')
  then show ?thesis using assms by (cases r) (auto simp: bindR_def intro: trans)
qed

lemma keeps_mapR:
  assumes "\<And>x s. x \<in> set xs \<Longrightarrow> R s (snd (f x s))"
  shows "R s (snd (mapR f xs s))"
  using assms
proof (induction xs arbitrary: s)
  case Nil
  then show ?case by (simp add: keeps_return)
next
  case (Cons x xs)
  show ?case unfolding mapR.simps
    by (intro keeps_bind keeps_return Cons.IH) (auto simp: Cons.prems)
qed

lemma mapR_nth_kept:
  assumes "mapR f xs s = (Inr ys, s')" "i < length xs" "\<And>x s. x \<in> set xs \<Longrightarrow> R s (snd (f x s))"
  shows "\<exists>t t'. R s t \<and> f (xs ! i) t = (Inr (ys ! i), t')"
  using assms
proof (induction xs arbitrary: s ys i)
  case (Cons x xs)
  obtain a t as where t: "f x s = (Inr a, t)" "mapR f xs t = (Inr as, s')" "ys = a # as"
    using Cons.prems(1) by (auto simp: returnR_def bindR_Inr)
  show ?case
  proof (cases i)
    case 0
    then show ?thesis using t refl by auto
  next
    case (Suc j)
    have "R s t" using Cons.prems(3) [of x s] t(1) by simp
    then show ?thesis using Cons.IH [OF t(2), of j] Cons.prems(2,3) Suc t(3) trans by fastforce
  qed
qed simp

lemma keeps_fold:
  assumes "\<And>x s. x \<in> set xs \<Longrightarrow> R s (f x s)"
  shows "R s (fold f xs s)"
  using assms
proof (induction xs arbitrary: s)
  case Nil
  then show ?case by (simp add: refl)
next
  case (Cons x xs)
  have "R s (f x s)" using Cons.prems by simp
  moreover have "R (f x s) (fold f xs (f x s))" using Cons by simp
  ultimately show ?case by (simp add: trans)
qed

end

subsection \<open>Decimal numbers\<close>

fun formatNat :: "nat \<Rightarrow> string" where
  "formatNat n = (if n < 10 then [char_of (48 + n)] else formatNat (n div 10) @ [char_of (48 + n mod 10)])"

declare formatNat.simps [simp del]

definition formatInt :: "int \<Rightarrow> string" where
  "formatInt i = (if i < 0 then CHR ''-'' # formatNat (nat (- i)) else formatNat (nat i))"

lemma formatNat_nonempty: "formatNat n \<noteq> ''''"
  by (subst formatNat.simps) simp

lemma formatInt_nonempty: "formatInt i \<noteq> ''''"
  by (simp add: formatInt_def formatNat_nonempty)

end
