(* ===== verification/Router_Schedule.thy ===== *)
theory Router_Schedule
  imports Router_Score Routing_Store Effects
begin

text \<open>
  Capacity bookkeeping and selection of the router: the replay of durable reservations in
  src/internal/router/schedule.go, and the selection, ranking and consumption functions of
  src/internal/router/router.go. A Go map from tiers to snapshots is a HOL map, the two maps
  whose missing entries the code reads as the zero value are total functions.
\<close>

subsection \<open>Configuration and state\<close>

record Route =
  o_Name :: string
  o_RequiredLabel :: string
  o_Candidates :: "string list"
  o_FallbackTier :: string
  o_HistoryWindow :: duration
  o_MinSamples :: int
  o_ColdStartP95 :: duration
  o_MaxOptimizationWaitQueue :: int

record schedulingState =
  ss_lanes :: "string \<Rightarrow> optimizationLane list"
  ss_queuedByRoute :: "string \<Rightarrow> int"

type_synonym tier_snapshots = "string \<rightharpoonup> RoutingTierSnapshot"

definition emptyScheduling :: schedulingState where
  "emptyScheduling = \<lparr>ss_lanes = (\<lambda>_. []), ss_queuedByRoute = (\<lambda>_. 0)\<rparr>"

definition zeroSnapshot :: RoutingTierSnapshot where
  "zeroSnapshot = \<lparr>rs_Tier = '''', rs_ProviderName = '''', rs_Driver = '''', rs_InstanceType = '''', rs_Labels = [],
     rs_OneJobPerVM = False, rs_ResetMode = '''', rs_ResetMinRemaining = 0, rs_Healthy = False, rs_MaxInstances = 0,
     rs_ActiveWorkers = 0, rs_PendingWorkers = 0, rs_AvailableSlots = 0, rs_IdleWorkers = [], rs_Workers = [],
     rs_Teardown = \<lparr>Model = BillingPerSecond, IdleTimeout = 0, HourMargin = 0, BillingHour = 0\<rparr>\<rparr>"

definition setLane :: "string \<Rightarrow> nat \<Rightarrow> optimizationLane \<Rightarrow> schedulingState \<Rightarrow> schedulingState" where
  "setLane tier i lane st = st\<lparr>ss_lanes := (ss_lanes st)(tier := (ss_lanes st tier)[i := lane])\<rparr>"

definition appendLane :: "string \<Rightarrow> optimizationLane \<Rightarrow> schedulingState \<Rightarrow> schedulingState" where
  "appendLane tier lane st = st\<lparr>ss_lanes := (ss_lanes st)(tier := ss_lanes st tier @ [lane])\<rparr>"

definition countQueued :: "string \<Rightarrow> schedulingState \<Rightarrow> schedulingState" where
  "countQueued route st = st\<lparr>ss_queuedByRoute := (ss_queuedByRoute st)(route := ss_queuedByRoute st route + 1)\<rparr>"

subsection \<open>Replay of reservations\<close>

fun removeFirst :: "('a \<Rightarrow> bool) \<Rightarrow> 'a list \<Rightarrow> 'a list" where
  "removeFirst P [] = []"
| "removeFirst P (x # xs) = (if P x then xs else x # removeFirst P xs)"

definition removeReservedIdle :: "string \<Rightarrow> string \<Rightarrow> tier_snapshots \<Rightarrow> tier_snapshots" where
  "removeReservedIdle tier workerID snapshots =
     (if workerID = '''' then snapshots
      else case snapshots tier of
             None \<Rightarrow> snapshots
           | Some snapshot \<Rightarrow> snapshots(tier \<mapsto> snapshot\<lparr>rs_IdleWorkers :=
               removeFirst (\<lambda>w. w_InstanceID w = workerID) (rs_IdleWorkers snapshot)\<rparr>))"

text \<open>The map \<open>workers[tier]\<close>: a later worker with the same instance ID replaces an earlier one.\<close>

definition knownWorker :: "tier_snapshots \<Rightarrow> string \<Rightarrow> string \<Rightarrow> WorkerView option" where
  "knownWorker snapshots tier workerID =
     (case snapshots tier of
        None \<Rightarrow> None
      | Some snapshot \<Rightarrow>
          if workerID = '''' then None
          else find (\<lambda>w. w_InstanceID w = workerID)
            (rev (if rs_Workers snapshot = [] then rs_IdleWorkers snapshot else rs_Workers snapshot)))"

definition initialLanes :: "tier_snapshots \<Rightarrow> instant \<Rightarrow> string \<Rightarrow> optimizationLane list" where
  "initialLanes snapshots now tier =
     (case snapshots tier of
        None \<Rightarrow> []
      | Some snapshot \<Rightarrow> map (\<lambda>w. \<lparr>l_worker = w, l_availableAt = now, l_queued = 0, l_blocked = False\<rparr>) (rs_IdleWorkers snapshot))"

record replayState =
  rp_scheduling :: schedulingState
  rp_snapshots :: tier_snapshots
  rp_blocked :: "string list"
  rp_store :: SQLite

definition workerKey :: "RoutingReservation \<Rightarrow> string" where
  "workerKey reservation = rv_Tier reservation @ [CHR 0x00] @ rv_WorkerID reservation"

definition validWindow :: "RoutingReservation \<Rightarrow> WorkerView option \<Rightarrow> instant \<Rightarrow> bool" where
  "validWindow reservation worker now =
     (case worker of
        None \<Rightarrow> False
      | Some w \<Rightarrow> \<not> is_zero (w_ReapEligibleAt w) \<and> now < rv_ScheduledFinishAt reservation \<and>
                  \<not> w_ReapEligibleAt w < rv_ScheduledFinishAt reservation)"

definition heldForQueue :: "RoutingReservation \<Rightarrow> bool" where
  "heldForQueue reservation \<longleftrightarrow> rv_OptimizationQueued reservation \<and> rv_OptimizationActive reservation \<and>
     rv_Status reservation = JobObserved"

definition blockLane :: "RoutingReservation \<Rightarrow> schedulingState \<Rightarrow> schedulingState" where
  "blockLane reservation st =
     (let tier = rv_Tier reservation; index = findLane (ss_lanes st tier) (rv_WorkerID reservation)
      in if index \<ge> 0 then setLane tier (nat index) ((ss_lanes st tier ! nat index)\<lparr>l_blocked := True\<rparr>) st else st)"

definition bookLane :: "RoutingReservation \<Rightarrow> WorkerView \<Rightarrow> instant \<Rightarrow> string list \<Rightarrow> optimizationLane \<Rightarrow> optimizationLane" where
  "bookLane reservation worker now blocked lane =
     (let lane = lane\<lparr>l_blocked := l_blocked lane \<or> workerKey reservation \<in> set blocked\<rparr>;
          lane = (if l_availableAt lane < rv_ScheduledFinishAt reservation
                  then lane\<lparr>l_availableAt := rv_ScheduledFinishAt reservation\<rparr> else lane);
          lane = (if heldForQueue reservation then lane\<lparr>l_queued := l_queued lane + 1\<rparr> else lane)
      in if w_State worker \<noteq> StateIdle \<and> \<not> now < rv_ScheduledFinishAt reservation
         then lane\<lparr>l_blocked := True\<rparr> else lane)"

definition reserveLane :: "RoutingReservation \<Rightarrow> WorkerView \<Rightarrow> instant \<Rightarrow> string list \<Rightarrow> schedulingState \<Rightarrow> schedulingState" where
  "reserveLane reservation worker now blocked st =
     (let tier = rv_Tier reservation;
          index = findLane (ss_lanes st tier) (rv_WorkerID reservation);
          st = (if index < 0
                then appendLane tier \<lparr>l_worker = worker, l_availableAt = now, l_queued = 0, l_blocked = False\<rparr> st else st);
          i = (if index < 0 then length (ss_lanes st tier) - 1 else nat index);
          st = (if heldForQueue reservation then countQueued (rv_Route reservation) st else st)
      in setLane tier i (bookLane reservation worker now blocked (ss_lanes st tier ! i)) st)"

definition replayReservation ::
  "(string \<Rightarrow> string \<Rightarrow> WorkerView option) \<Rightarrow> instant \<Rightarrow> RoutingReservation \<Rightarrow> (replayState, unit) action" where
  "replayReservation workers now reservation s =
     (let worker = workers (rv_Tier reservation) (rv_WorkerID reservation);
          s = (if worker \<noteq> None
               then s\<lparr>rp_snapshots := removeReservedIdle (rv_Tier reservation) (rv_WorkerID reservation) (rp_snapshots s)\<rparr> else s)
      in if \<not> validWindow reservation worker now then
           let s = (if worker \<noteq> None
                    then s\<lparr>rp_blocked := workerKey reservation # rp_blocked s,
                           rp_scheduling := blockLane reservation (rp_scheduling s)\<rparr> else s)
           in if heldForQueue reservation
              then case ReleaseRoutingOptimization now (rv_JobID reservation) now (rp_store s) of
                     (r, store) \<Rightarrow> (r, s\<lparr>rp_store := store\<rparr>)
              else (Inr (), s)
         else (Inr (), s\<lparr>rp_scheduling := reserveLane reservation (the worker) now (rp_blocked s) (rp_scheduling s)\<rparr>))"

definition loadSchedulingState ::
  "tier_snapshots \<Rightarrow> instant \<Rightarrow> SQLite \<Rightarrow> schedulingState result \<times> tier_snapshots \<times> SQLite" where
  "loadSchedulingState snapshots now store =
     (case RoutingReservations now store of
        (Inl e, store) \<Rightarrow> (Inl e, snapshots, store)
      | (Inr reservations, store) \<Rightarrow>
          (case mapR (replayReservation (knownWorker snapshots) now) reservations
              \<lparr>rp_scheduling = emptyScheduling\<lparr>ss_lanes := initialLanes snapshots now\<rparr>, rp_snapshots = snapshots,
               rp_blocked = [], rp_store = store\<rparr> of
             (Inl e, s) \<Rightarrow> (Inl e, rp_snapshots s, rp_store s)
           | (Inr _, s) \<Rightarrow> (Inr (rp_scheduling s), rp_snapshots s, rp_store s)))"

subsection \<open>Selection\<close>

fun tierIndex :: "string list \<Rightarrow> string \<Rightarrow> nat" where
  "tierIndex [] tier = 0"
| "tierIndex (candidate # order) tier = (if candidate = tier then 0 else Suc (tierIndex order tier))"

definition candidateLess :: "string list \<Rightarrow> scoredCandidate \<Rightarrow> scoredCandidate \<Rightarrow> bool" where
  "candidateLess order left right =
     (if k_ScoreCostNanos left \<noteq> k_ScoreCostNanos right then k_ScoreCostNanos left < k_ScoreCostNanos right
      else if k_UsedIdle left \<noteq> k_UsedIdle right then k_UsedIdle left
      else if sc_startDelay left \<noteq> sc_startDelay right then sc_startDelay left < sc_startDelay right
      else let leftIndex = tierIndex order (k_Tier left); rightIndex = tierIndex order (k_Tier right)
           in if leftIndex \<noteq> rightIndex then leftIndex < rightIndex
              else k_Tier left < k_Tier right)"

fun bestIndex :: "string list \<Rightarrow> int \<Rightarrow> scoredCandidate list \<Rightarrow> (int \<times> scoredCandidate) option \<Rightarrow> int" where
  "bestIndex order i [] best = (case best of None \<Rightarrow> -1 | Some (b, _) \<Rightarrow> b)"
| "bestIndex order i (score # scores) best =
     (if \<not> k_Eligible score \<or> \<not> k_ScoreCostKnown score then bestIndex order (i + 1) scores best
      else case best of
             None \<Rightarrow> bestIndex order (i + 1) scores (Some (i, score))
           | Some (_, bestScore) \<Rightarrow>
               if candidateLess order score bestScore
               then bestIndex order (i + 1) scores (Some (i, score))
               else bestIndex order (i + 1) scores best)"

definition selectCandidate :: "scoredCandidate list \<Rightarrow> Route \<Rightarrow> bool \<Rightarrow> int" where
  "selectCandidate scores route hasHistory =
     (let fallback = (if hasHistory then -1
                      else firstIndex (\<lambda>c. k_Tier c = o_FallbackTier route \<and> k_Eligible c) 0 scores)
      in if fallback \<ge> 0 then fallback else bestIndex (o_Candidates route) 0 scores None)"

text \<open>
  \<open>sort.Slice\<close> with a comparison: insertion sort stands for it. The comparison leaves no two
  candidates of different tiers equal, so the result does not depend on the algorithm.
\<close>

fun insertBy :: "('a \<Rightarrow> 'a \<Rightarrow> bool) \<Rightarrow> 'a \<Rightarrow> 'a list \<Rightarrow> 'a list" where
  "insertBy lt x [] = [x]"
| "insertBy lt x (y # ys) = (if lt y x then y # insertBy lt x ys else x # y # ys)"

definition sortBy :: "('a \<Rightarrow> 'a \<Rightarrow> bool) \<Rightarrow> 'a list \<Rightarrow> 'a list" where
  "sortBy lt xs = foldr (insertBy lt) xs []"

fun setRanks :: "nat \<Rightarrow> nat list \<Rightarrow> scoredCandidate list \<Rightarrow> scoredCandidate list" where
  "setRanks rank [] scores = scores"
| "setRanks rank (i # indices) scores = setRanks (rank + 1) indices (scores[i := (scores ! i)\<lparr>k_Rank := rank + 1\<rparr>])"

definition rankCandidates :: "string list \<Rightarrow> scoredCandidate list \<Rightarrow> scoredCandidate list" where
  "rankCandidates order scores =
     (let indices = filter (\<lambda>i. k_Eligible (scores ! i) \<and> k_ScoreCostKnown (scores ! i)) [0..<length scores]
      in setRanks 0 (sortBy (\<lambda>i j. candidateLess order (scores ! i) (scores ! j)) indices) scores)"

definition scoreForTier :: "scoredCandidate list \<Rightarrow> string \<Rightarrow> scoredCandidate option" where
  "scoreForTier scores tier = find (\<lambda>c. k_Tier c = tier) scores"

definition removeIndex :: "nat \<Rightarrow> 'a list \<Rightarrow> 'a list" where
  "removeIndex i xs = take i xs @ drop (i + 1) xs"

definition consumeCapacity ::
  "string \<Rightarrow> scoredCandidate \<Rightarrow> tier_snapshots \<times> schedulingState \<Rightarrow> tier_snapshots \<times> schedulingState" where
  "consumeCapacity route selected = (\<lambda>(snapshots, scheduling).
     let tier = k_Tier selected;
         snapshot = (case snapshots tier of None \<Rightarrow> zeroSnapshot | Some sn \<Rightarrow> sn);
         lanes = ss_lanes scheduling tier;
         i = nat (sc_laneIndex selected);
         validLane = (sc_laneIndex selected \<ge> 0 \<and> sc_laneIndex selected < int (length lanes));
         lane = (lanes ! i)\<lparr>l_availableAt := k_ScheduledFinishAt selected\<rparr>
     in if k_UsedIdle selected \<and> sc_idleIndex selected \<ge> 0 \<and> sc_idleIndex selected < int (length (rs_IdleWorkers snapshot)) then
          (snapshots(tier \<mapsto> snapshot\<lparr>rs_IdleWorkers := removeIndex (nat (sc_idleIndex selected)) (rs_IdleWorkers snapshot)\<rparr>),
           if validLane then setLane tier i lane scheduling else scheduling)
        else if k_OptimizationQueued selected \<and> validLane then
          (snapshots(tier \<mapsto> snapshot),
           countQueued route (setLane tier i (lane\<lparr>l_queued := l_queued lane + 1\<rparr>) scheduling))
        else if rs_AvailableSlots snapshot > 0 then
          (snapshots(tier \<mapsto> snapshot\<lparr>rs_AvailableSlots := rs_AvailableSlots snapshot - 1,
                                     rs_PendingWorkers := rs_PendingWorkers snapshot + 1\<rparr>), scheduling)
        else (snapshots(tier \<mapsto> snapshot), scheduling))"

definition selectionReason :: "bool \<Rightarrow> bool \<Rightarrow> string" where
  "selectionReason history fallback =
     (if \<not> history \<and> fallback then ''cold_fallback''
      else if \<not> history then ''cold_fallback_unavailable''
      else ''lowest_marginal_cost'')"

subsection \<open>Facts about the loops\<close>

lemma firstIndex_iff:
  "firstIndex P i xs = r \<longleftrightarrow>
     (r = -1 \<and> (\<forall>x\<in>set xs. \<not> P x)) \<or>
     (\<exists>n<length xs. r = i + int n \<and> P (xs ! n) \<and> (\<forall>m<n. \<not> P (xs ! m)))" if "0 \<le> i"
  using that
proof (induction xs arbitrary: i)
  case (Cons x xs)
  show ?case
  proof (cases "P x")
    case True
    have "(\<exists>n<length (x # xs). r = i + int n \<and> P ((x # xs) ! n) \<and> (\<forall>m<n. \<not> P ((x # xs) ! m))) \<longleftrightarrow> r = i"
      using True by (simp add: Ex_less_Suc2 All_less_Suc2)
    then show ?thesis using True Cons.prems by auto
  next
    case False
    have "firstIndex P (i + 1) xs = r \<longleftrightarrow> r = -1 \<and> (\<forall>y\<in>set xs. \<not> P y) \<or>
        (\<exists>n<length xs. r = i + 1 + int n \<and> P (xs ! n) \<and> (\<forall>m<n. \<not> P (xs ! m)))"
      using Cons by simp
    also have "(\<exists>n<length xs. r = i + 1 + int n \<and> P (xs ! n) \<and> (\<forall>m<n. \<not> P (xs ! m))) \<longleftrightarrow>
        (\<exists>n<length (x # xs). r = i + int n \<and> P ((x # xs) ! n) \<and> (\<forall>m<n. \<not> P ((x # xs) ! m)))"
      using False by (simp add: Ex_less_Suc2 All_less_Suc2 algebra_simps)
    finally show ?thesis using False by simp
  qed
qed auto

lemma candidate_key:
  "candidateLess order l r \<longleftrightarrow>
   (k_ScoreCostNanos l, \<not> k_UsedIdle l, sc_startDelay l, tierIndex order (k_Tier l), k_Tier l) <
   (k_ScoreCostNanos r, \<not> k_UsedIdle r, sc_startDelay r, tierIndex order (k_Tier r), k_Tier r)"
  by (auto simp: candidateLess_def Let_def less_prod_def)

interpretation cand: preference "candidateLess order" for order
  by unfold_locales (auto simp: candidate_key)

lemma candidate_total: "k_Tier l \<noteq> k_Tier r \<Longrightarrow> candidateLess order l r \<or> candidateLess order r l"
  unfolding candidate_key by (auto simp: less_prod_def)

definition priced :: "scoredCandidate \<Rightarrow> bool" where
  "priced c \<longleftrightarrow> k_Eligible c \<and> k_ScoreCostKnown c"

definition minimal_in :: "string list \<Rightarrow> scoredCandidate list \<Rightarrow> scoredCandidate \<Rightarrow> bool" where
  "minimal_in order cs c \<longleftrightarrow> (\<forall>d\<in>set cs. priced d \<longrightarrow> \<not> candidateLess order d c)"

definition best_so_far :: "string list \<Rightarrow> scoredCandidate list \<Rightarrow> (int \<times> scoredCandidate) option \<Rightarrow> bool" where
  "best_so_far order pre best \<longleftrightarrow>
     (case best of
        None \<Rightarrow> \<forall>c\<in>set pre. \<not> priced c
      | Some (b, c) \<Rightarrow> 0 \<le> b \<and> nat b < length pre \<and> pre ! nat b = c \<and> priced c \<and> minimal_in order pre c)"

lemma best_so_far_step:
  assumes "best_so_far order pre best"
  shows "\<not> priced x \<Longrightarrow> best_so_far order (pre @ [x]) best"
    and "priced x \<Longrightarrow> best = None \<Longrightarrow> best_so_far order (pre @ [x]) (Some (int (length pre), x))"
    and "priced x \<Longrightarrow> best = Some (b, c) \<Longrightarrow> candidateLess order x c \<Longrightarrow>
         best_so_far order (pre @ [x]) (Some (int (length pre), x))"
    and "priced x \<Longrightarrow> best = Some (b, c) \<Longrightarrow> \<not> candidateLess order x c \<Longrightarrow> best_so_far order (pre @ [x]) best"
  using assms
  by (auto simp: best_so_far_def minimal_in_def nth_append cand.irrefl split: option.splits dest: cand.trans)

lemma bestIndex_correct:
  assumes "best_so_far order pre best"
  shows "\<exists>b. best_so_far order (pre @ scores) b \<and>
    bestIndex order (int (length pre)) scores best = (case b of None \<Rightarrow> -1 | Some (b, _) \<Rightarrow> b)"
  using assms
proof (induction scores arbitrary: pre best)
  case (Cons x scores)
  note step = best_so_far_step [OF Cons.prems, of x] and IH = Cons.IH [of "pre @ [x]"]
  show ?case
  proof (cases "priced x")
    case False
    then show ?thesis using IH [OF step(1)] by (auto simp: priced_def add.commute)
  next
    case True
    show ?thesis
    proof (cases best)
      case None
      then show ?thesis using True IH [OF step(2)] by (auto simp: priced_def add.commute)
    next
      case (Some bc)
      then show ?thesis using True IH [OF step(3)] IH [OF step(4)]
        by (cases bc; cases "candidateLess order x (snd bc)") (auto simp: priced_def add.commute)
    qed
  qed
qed auto

lemma bestIndex_best:
  "bestIndex order 0 scores None = -1 \<and> (\<forall>c\<in>set scores. \<not> priced c) \<or>
   (\<exists>n<length scores. bestIndex order 0 scores None = int n \<and> priced (scores ! n) \<and> minimal_in order scores (scores ! n))"
proof -
  have "best_so_far order [] None" by (simp add: best_so_far_def)
  from bestIndex_correct [OF this, of scores] obtain b where "best_so_far order scores b"
    "bestIndex order 0 scores None = (case b of None \<Rightarrow> -1 | Some (b, _) \<Rightarrow> b)" by auto
  then show ?thesis by (auto simp: best_so_far_def split: option.splits prod.splits)
qed

lemma selectCandidate_eligible:
  assumes "0 \<le> selectCandidate scores route hasHistory"
  shows "nat (selectCandidate scores route hasHistory) < length scores"
    and "k_Eligible (scores ! nat (selectCandidate scores route hasHistory))"
proof -
  let ?P = "\<lambda>c. k_Tier c = o_FallbackTier route \<and> k_Eligible c"
  have "nat (selectCandidate scores route hasHistory) < length scores \<and>
        k_Eligible (scores ! nat (selectCandidate scores route hasHistory))"
    using assms bestIndex_best [of "o_Candidates route" scores]
      firstIndex_iff [of 0 ?P scores "firstIndex ?P 0 scores"]
    by (auto simp: selectCandidate_def Let_def priced_def split: if_splits)
  then show "nat (selectCandidate scores route hasHistory) < length scores"
    "k_Eligible (scores ! nat (selectCandidate scores route hasHistory))" by simp_all
qed

subsection \<open>Ranking\<close>

lemma sortBy_simps [simp]: "sortBy lt [] = []" "sortBy lt (x # xs) = insertBy lt x (sortBy lt xs)"
  by (simp_all add: sortBy_def)

lemma insertBy_set [simp]: "set (insertBy lt x ys) = insert x (set ys)"
  by (induction ys) auto

lemma insertBy_distinct [simp]: "distinct (insertBy lt x ys) \<longleftrightarrow> x \<notin> set ys \<and> distinct ys"
  by (induction ys) auto

lemma sortBy_set [simp]: "set (sortBy lt xs) = set xs"
  by (induction xs) auto

lemma sortBy_distinct [simp]: "distinct (sortBy lt xs) = distinct xs"
  by (induction xs) auto

lemma sortBy_length [simp]: "length (sortBy lt xs) = length xs"
proof -
  have "length (insertBy lt x ys) = Suc (length ys)" for x ys by (induction ys) auto
  then show ?thesis by (induction xs) auto
qed

context preference
begin

lemma insertBy_sorted: "sorted_wrt (\<lambda>x y. \<not> lt y x) ys \<Longrightarrow> sorted_wrt (\<lambda>x y. \<not> lt y x) (insertBy lt x ys)"
proof (induction ys)
  case (Cons y ys)
  have "\<not> lt z x" if "\<not> lt y x" "\<not> lt z y" for z using negtrans [of z x y] that by blast
  then show ?case using Cons asym [of y x] by (cases "lt y x") auto
qed simp

lemma sortBy_sorted: "sorted_wrt (\<lambda>x y. \<not> lt y x) (sortBy lt xs)"
  by (induction xs) (simp_all add: insertBy_sorted)

lemma pullback: "preference (\<lambda>x y. lt (f x) (f y))"
  by unfold_locales (auto simp: irrefl intro: trans dest: negtrans)

end

lemma setRanks_length [simp]: "length (setRanks r is cs) = length cs"
  by (induction r "is" cs rule: setRanks.induct) auto

lemma setRanks_other:
  "i \<notin> set is \<Longrightarrow> setRanks r is cs ! i = cs ! i"
  by (induction r "is" cs rule: setRanks.induct) auto

lemma setRanks_nth:
  assumes "distinct is" "\<forall>i\<in>set is. i < length cs" "n < length is"
  shows "setRanks r is cs ! (is ! n) = (cs ! (is ! n))\<lparr>k_Rank := r + n + 1\<rparr>"
  using assms
proof (induction "is" arbitrary: r cs n)
  case Nil
  have False using Nil.prems(3) by simp
  then show ?case ..
next
  case (Cons i "is")
  let ?cs = "cs[i := (cs ! i)\<lparr>k_Rank := r + 1\<rparr>]"
  show ?case
  proof (cases n)
    case 0
    then show ?thesis using Cons.prems by (simp add: setRanks_other)
  next
    case (Suc m)
    have m: "m < length is" "distinct is" "\<forall>i\<in>set is. i < length ?cs" using Cons.prems Suc by simp_all
    have "is ! m \<noteq> i" using Cons.prems(1) m(1) by auto
    then have "?cs ! (is ! m) = cs ! (is ! m)" by simp
    then show ?thesis using Cons.IH [OF m(2,3,1), of "r + 1"] Suc by simp
  qed
qed

text \<open>The order in which \<open>rankCandidates\<close> numbers the candidates.\<close>

definition rankOrder :: "string list \<Rightarrow> scoredCandidate list \<Rightarrow> nat list" where
  "rankOrder order scores = sortBy (\<lambda>i j. candidateLess order (scores ! i) (scores ! j))
     (filter (\<lambda>i. priced (scores ! i)) [0..<length scores])"

lemma rankCandidates_rankOrder: "rankCandidates order scores = setRanks 0 (rankOrder order scores) scores"
  by (simp add: rankCandidates_def rankOrder_def priced_def)

lemma rankOrder_set: "set (rankOrder order scores) = {i. i < length scores \<and> priced (scores ! i)}"
  by (auto simp: rankOrder_def)

lemma rankOrder_distinct: "distinct (rankOrder order scores)"
  by (simp add: rankOrder_def)

lemma rankOrder_sorted: "sorted_wrt (\<lambda>i j. \<not> candidateLess order (scores ! j) (scores ! i)) (rankOrder order scores)"
proof -
  have "preference (\<lambda>i j. candidateLess order (scores ! i) (scores ! j))"
    by (rule cand.pullback)
  then show ?thesis unfolding rankOrder_def by (rule preference.sortBy_sorted)
qed

lemma rankCandidates_nth:
  assumes "i < length scores"
  shows "rankCandidates order scores ! i =
    (if priced (scores ! i) then (scores ! i)\<lparr>k_Rank := k_Rank (rankCandidates order scores ! i)\<rparr> else scores ! i)"
proof (cases "priced (scores ! i)")
  case True
  then obtain n where "n < length (rankOrder order scores)" "rankOrder order scores ! n = i"
    using assms rankOrder_set [of order scores] by (metis (mono_tags, lifting) in_set_conv_nth mem_Collect_eq)
  then show ?thesis
    using setRanks_nth [OF rankOrder_distinct, of order scores scores n 0] rankOrder_set [of order scores] True
    by (auto simp: rankCandidates_rankOrder)
next
  case False
  then show ?thesis by (simp add: rankCandidates_rankOrder setRanks_other rankOrder_set)
qed

lemma selected_rank:
  assumes "distinct (map k_Tier scores)" "n < length scores" "priced (scores ! n)" "minimal_in order scores (scores ! n)"
  shows "k_Rank (rankCandidates order scores ! n) = 1"
proof -
  let ?r = "rankOrder order scores"
  have n: "n \<in> set ?r" using assms(2,3) by (simp add: rankOrder_set)
  then have ne: "0 < length ?r" by (cases ?r) auto
  have h: "?r ! 0 < length scores" "priced (scores ! (?r ! 0))"
    using nth_mem [OF ne] by (simp_all add: rankOrder_set)
  have "?r ! 0 = n \<or> \<not> candidateLess order (scores ! n) (scores ! (?r ! 0))"
    using n rankOrder_sorted [of order scores] by (cases ?r) auto
  moreover have "\<not> candidateLess order (scores ! (?r ! 0)) (scores ! n)"
    using assms(4) h by (simp add: minimal_in_def)
  ultimately have "?r ! 0 = n \<or> k_Tier (scores ! n) = k_Tier (scores ! (?r ! 0))"
    using candidate_total by blast
  then have "?r ! 0 = n" using assms(1,2) h(1) by (metis length_map nth_eq_iff_index_eq nth_map)
  then show ?thesis
    using setRanks_nth [OF rankOrder_distinct _ ne, of scores 0] by (auto simp: rankCandidates_rankOrder rankOrder_set)
qed

lemma rank_order:
  assumes "i < length scores" "j < length scores" "priced (scores ! i)" "priced (scores ! j)"
    and "candidateLess order (scores ! i) (scores ! j)"
  shows "k_Rank (rankCandidates order scores ! i) < k_Rank (rankCandidates order scores ! j)"
proof -
  let ?r = "rankOrder order scores"
  obtain m n where mn: "m < length ?r" "?r ! m = i" "n < length ?r" "?r ! n = j"
    using assms rankOrder_set [of order scores] by (metis (mono_tags, lifting) in_set_conv_nth mem_Collect_eq)
  have "\<not> n \<le> m"
  proof
    assume "n \<le> m"
    then consider "n = m" | "n < m" by linarith
    then show False
    proof cases
      case 1
      then show ?thesis using mn assms(5) cand.irrefl by auto
    next
      case 2
      then show ?thesis using rankOrder_sorted [of order scores] mn assms(5) by (auto simp: sorted_wrt_iff_nth_less)
    qed
  qed
  moreover have "k_Rank (rankCandidates order scores ! (?r ! l)) = l + 1" if "l < length ?r" for l
    using setRanks_nth [OF rankOrder_distinct _ that, of scores 0]
    by (auto simp: rankCandidates_rankOrder rankOrder_set)
  ultimately show ?thesis using mn by fastforce
qed

subsection \<open>Replay keeps promised time\<close>

lemma findLane_bound: "findLane lanes i = r \<Longrightarrow> 0 \<le> r \<Longrightarrow> nat r < length lanes \<and> w_InstanceID (l_worker (lanes ! nat r)) = i"
  using firstIndex_iff [of 0 "\<lambda>l. w_InstanceID (l_worker l) = i" lanes r]
  by (auto simp: findLane_def split: if_splits)

lemma findLane_ids:
  assumes "map (\<lambda>l. w_InstanceID (l_worker l)) lanes = map (\<lambda>l. w_InstanceID (l_worker l)) lanes'"
  shows "findLane lanes i = findLane lanes' i"
proof -
  have key: "firstIndex (\<lambda>l. w_InstanceID (l_worker l) = i) n ls = firstIndex (\<lambda>x. x = i) n (map (\<lambda>l. w_InstanceID (l_worker l)) ls)" for n ls
    by (induction ls arbitrary: n) auto
  show ?thesis unfolding findLane_def key assms ..
qed

lemma firstIndex_append: "0 \<le> n \<Longrightarrow> firstIndex P n (xs @ ys) =
    (if \<exists>x\<in>set xs. P x then firstIndex P n xs else firstIndex P (n + int (length xs)) ys)"
  by (induction xs arbitrary: n) (auto simp: algebra_simps)

lemma findLane_append_old:
  assumes "findLane lanes i = int n"
  shows "findLane (lanes @ [l]) i = int n"
proof -
  have "\<exists>x\<in>set lanes. w_InstanceID (l_worker x) = i"
    using assms firstIndex_iff [of 0 "\<lambda>l. w_InstanceID (l_worker l) = i" lanes "int n"]
    by (auto simp: findLane_def split: if_splits)
  then show ?thesis using assms by (simp add: findLane_def firstIndex_append split: if_splits)
qed

lemma findLane_append_new:
  assumes "i \<noteq> ''''" "findLane lanes i < 0" "w_InstanceID (l_worker l) = i"
  shows "findLane (lanes @ [l]) i = int (length lanes)"
proof -
  have "\<forall>x\<in>set lanes. w_InstanceID (l_worker x) \<noteq> i"
    using assms firstIndex_iff [of 0 "\<lambda>l. w_InstanceID (l_worker l) = i" lanes "findLane lanes i"]
    by (auto simp: findLane_def)
  then show ?thesis using assms by (simp add: findLane_def firstIndex_append)
qed

text \<open>Lanes keep their positions, the time they are promised until, and their blocks.\<close>

definition lanes_grow :: "optimizationLane list \<Rightarrow> optimizationLane list \<Rightarrow> bool" where
  "lanes_grow ls ls' \<longleftrightarrow> (\<forall>i n. findLane ls i = int n \<longrightarrow>
     findLane ls' i = int n \<and> l_availableAt (ls ! n) \<le> l_availableAt (ls' ! n) \<and> (l_blocked (ls ! n) \<longrightarrow> l_blocked (ls' ! n)))"

definition lanes_kept :: "replayState \<Rightarrow> replayState \<Rightarrow> bool" where
  "lanes_kept s s' \<longleftrightarrow> (\<forall>tier. lanes_grow (ss_lanes (rp_scheduling s) tier) (ss_lanes (rp_scheduling s') tier))"

lemma lanes_grow_refl: "lanes_grow ls ls"
  by (simp add: lanes_grow_def)

lemma lanes_grow_trans: "lanes_grow a b \<Longrightarrow> lanes_grow b c \<Longrightarrow> lanes_grow a c"
  unfolding lanes_grow_def by (meson order_trans)

interpretation lanes_kept: step_relation lanes_kept
  by unfold_locales (auto simp: lanes_kept_def lanes_grow_refl intro: lanes_grow_trans)

lemma lanes_grow_update:
  assumes "l_worker l = l_worker (ls ! i)" "l_availableAt (ls ! i) \<le> l_availableAt l" "l_blocked (ls ! i) \<Longrightarrow> l_blocked l"
  shows "lanes_grow ls (ls[i := l])"
proof -
  have "map (\<lambda>l. w_InstanceID (l_worker l)) (ls[i := l]) = map (\<lambda>l. w_InstanceID (l_worker l)) ls"
    using assms(1) by (cases "i < length ls") (simp_all add: map_update list_update_same_conv list_update_beyond)
  then have "findLane (ls[i := l]) = findLane ls" using findLane_ids by blast
  moreover have "l_availableAt (ls ! n) \<le> l_availableAt (ls[i := l] ! n)" "l_blocked (ls ! n) \<Longrightarrow> l_blocked (ls[i := l] ! n)" for n
    using assms(2,3) by (cases "n = i"; cases "i < length ls"; simp add: list_update_beyond)+
  ultimately show ?thesis by (simp add: lanes_grow_def)
qed

lemma lanes_grow_append: "lanes_grow ls (ls @ [l])"
  unfolding lanes_grow_def
proof (intro allI impI conjI)
  fix i n assume n: "findLane ls i = int n"
  show "findLane (ls @ [l]) i = int n" using findLane_append_old [OF n] .
  have "n < length ls" using findLane_bound [OF n] by simp
  then show "l_availableAt (ls ! n) \<le> l_availableAt ((ls @ [l]) ! n)" "l_blocked (ls ! n) \<Longrightarrow> l_blocked ((ls @ [l]) ! n)"
    by (simp_all add: nth_append)
qed

definition promised :: "RoutingReservation \<Rightarrow> replayState \<Rightarrow> bool" where
  "promised r s \<longleftrightarrow> (let ls = ss_lanes (rp_scheduling s) (rv_Tier r) in
     \<exists>n. findLane ls (rv_WorkerID r) = int n \<and> rv_ScheduledFinishAt r \<le> l_availableAt (ls ! n))"

lemma promised_kept: "promised r s \<Longrightarrow> lanes_kept s s' \<Longrightarrow> promised r s'"
  unfolding promised_def lanes_kept_def lanes_grow_def Let_def by (meson order_trans)

lemma setLane_lanes: "ss_lanes (setLane t i l st) t' = (if t' = t then (ss_lanes st t)[i := l] else ss_lanes st t')"
  by (simp add: setLane_def)

lemma countQueued_lanes [simp]: "ss_lanes (countQueued r st) = ss_lanes st"
  by (simp add: countQueued_def)

text \<open>The lane a valid reservation is booked on, and the lanes before the booking.\<close>

definition bookedLanes :: "RoutingReservation \<Rightarrow> WorkerView \<Rightarrow> instant \<Rightarrow> optimizationLane list \<Rightarrow> optimizationLane list" where
  "bookedLanes r worker now ls =
     (if findLane ls (rv_WorkerID r) < 0
      then ls @ [\<lparr>l_worker = worker, l_availableAt = now, l_queued = 0, l_blocked = False\<rparr>] else ls)"

lemma bookLane_sel [simp]:
  "l_worker (bookLane r worker now blocked lane) = l_worker lane"
  "l_availableAt (bookLane r worker now blocked lane) = max (l_availableAt lane) (rv_ScheduledFinishAt r)"
  by (simp_all add: bookLane_def Let_def max_def)

lemma bookLane_blocked:
  "l_blocked lane \<Longrightarrow> l_blocked (bookLane r worker now blocked lane)"
  "workerKey r \<in> set blocked \<Longrightarrow> l_blocked (bookLane r worker now blocked lane)"
  by (simp_all add: bookLane_def Let_def)

lemma reserveLane_lanes:
  "ss_lanes (reserveLane r worker now blocked st) t =
     (if t = rv_Tier r
      then let ls = bookedLanes r worker now (ss_lanes st t); index = findLane (ss_lanes st t) (rv_WorkerID r);
               i = (if index < 0 then length ls - 1 else nat index)
           in ls[i := bookLane r worker now blocked (ls ! i)]
      else ss_lanes st t)"
  by (simp add: reserveLane_def Let_def bookedLanes_def setLane_lanes appendLane_def)

lemma bookedLanes_index:
  assumes "rv_WorkerID r \<noteq> ''''" "w_InstanceID worker = rv_WorkerID r"
  shows "findLane (bookedLanes r worker now ls) (rv_WorkerID r) =
    int (if findLane ls (rv_WorkerID r) < 0 then length (bookedLanes r worker now ls) - 1 else nat (findLane ls (rv_WorkerID r)))"
  using assms findLane_append_new [of "rv_WorkerID r" ls] by (simp add: bookedLanes_def)

text \<open>The lookup of workers by ID answers with the worker of that ID.\<close>

definition ids_agree :: "(string \<Rightarrow> string \<Rightarrow> WorkerView option) \<Rightarrow> bool" where
  "ids_agree workers \<longleftrightarrow> (\<forall>t i w. workers t i = Some w \<longrightarrow> i \<noteq> '''' \<and> w_InstanceID w = i)"

lemma replay_promises:
  assumes "replayReservation workers now r s = (x, s')" "validWindow r (workers (rv_Tier r) (rv_WorkerID r)) now"
    and "ids_agree workers"
  shows "promised r s'"
proof -
  obtain w where w: "workers (rv_Tier r) (rv_WorkerID r) = Some w" "rv_WorkerID r \<noteq> ''''" "w_InstanceID w = rv_WorkerID r"
    using assms(2,3) by (auto simp: validWindow_def ids_agree_def split: option.splits)
  let ?ls = "bookedLanes r w now (ss_lanes (rp_scheduling s) (rv_Tier r))"
  let ?index = "findLane (ss_lanes (rp_scheduling s) (rv_Tier r)) (rv_WorkerID r)"
  let ?i = "if ?index < 0 then length ?ls - 1 else nat ?index"
  let ?new = "?ls[?i := bookLane r w now (rp_blocked s) (?ls ! ?i)]"
  have new: "ss_lanes (rp_scheduling s') (rv_Tier r) = ?new"
    using assms(1,2) w(1) by (auto simp: replayReservation_def reserveLane_lanes Let_def)
  have i: "findLane ?ls (rv_WorkerID r) = int ?i" by (rule bookedLanes_index [OF w(2,3)])
  then have "?i < length ?ls" using findLane_bound [OF i] by simp
  moreover have "findLane ?new (rv_WorkerID r) = int ?i"
    using lanes_grow_update [of "bookLane r w now (rp_blocked s) (?ls ! ?i)" ?ls ?i] i bookLane_blocked(1)
    unfolding lanes_grow_def by (metis bookLane_sel max.cobounded1)
  ultimately show ?thesis unfolding promised_def Let_def new by (intro exI [of _ ?i]) simp
qed

lemma replay_keeps: "lanes_kept s (snd (replayReservation workers now r s))"
proof (cases "validWindow r (workers (rv_Tier r) (rv_WorkerID r)) now")
  case True
  obtain w where w: "workers (rv_Tier r) (rv_WorkerID r) = Some w"
    using True by (auto simp: validWindow_def split: option.splits)
  have "lanes_grow ls (bookedLanes r w now ls)" for ls
    by (simp add: bookedLanes_def lanes_grow_append lanes_grow_refl)
  moreover have "lanes_grow ls (ls[i := bookLane r w now b (ls ! i)])" for ls i b
    by (rule lanes_grow_update) (simp_all add: bookLane_blocked)
  ultimately have "lanes_grow ls ((bookedLanes r w now ls)[i := bookLane r w now b (bookedLanes r w now ls ! i)])" for ls i b
    by (rule lanes_grow_trans)
  then show ?thesis using True w
    by (simp add: replayReservation_def lanes_kept_def reserveLane_lanes Let_def lanes_grow_refl)
next
  case False
  have "lanes_grow ls (ls[i := (ls ! i)\<lparr>l_blocked := True\<rparr>])" for ls i
    by (rule lanes_grow_update) simp_all
  then have "lanes_grow (ss_lanes st t) (ss_lanes (blockLane r st) t)" for st t
    by (simp add: blockLane_def Let_def setLane_lanes lanes_grow_refl)
  then show ?thesis using False
    by (simp add: replayReservation_def lanes_kept_def Let_def lanes_grow_refl split: prod.split)
qed

lemma knownWorker_id: "knownWorker snapshots t i = Some w \<Longrightarrow> i \<noteq> '''' \<and> w_InstanceID w = i"
  by (auto simp: knownWorker_def find_Some_iff split: option.splits if_splits)

lemma knownWorker_ids: "ids_agree (knownWorker snapshots)"
  using knownWorker_id by (simp add: ids_agree_def)

lemma replay_all_promised:
  assumes "mapR (replayReservation workers now) rs s = (Inr xs, s')" "r \<in> set rs"
    and "validWindow r (workers (rv_Tier r) (rv_WorkerID r)) now"
    and "ids_agree workers"
  shows "promised r s'"
  using assms(1,2)
proof (induction rs arbitrary: s xs)
  case (Cons q qs)
  obtain x t ys where t: "replayReservation workers now q s = (Inr x, t)" "mapR (replayReservation workers now) qs t = (Inr ys, s')"
    using Cons.prems(1) by (auto simp: bindR_Inr returnR_def)
  have kept: "lanes_kept t s'" using lanes_kept.keeps_mapR [of qs "replayReservation workers now" t] replay_keeps t(2) by force
  show ?case
  proof (cases "r = q")
    case True
    have "promised q t" by (rule replay_promises [OF t(1)]) (use assms(3,4) True in auto)
    then show ?thesis using promised_kept kept True by blast
  next
    case False
    then show ?thesis using Cons.IH [OF t(2)] Cons.prems(2) by simp
  qed
qed simp

text \<open>Idle workers a pass may still hand out, and how replay shrinks them.\<close>

definition idleIDs :: "tier_snapshots \<Rightarrow> string \<Rightarrow> string list" where
  "idleIDs snapshots tier = (case snapshots tier of None \<Rightarrow> [] | Some sn \<Rightarrow> map w_InstanceID (rs_IdleWorkers sn))"

definition idle_shrinks :: "replayState \<Rightarrow> replayState \<Rightarrow> bool" where
  "idle_shrinks s s' \<longleftrightarrow> (\<forall>t. (distinct (idleIDs (rp_snapshots s) t) \<longrightarrow> distinct (idleIDs (rp_snapshots s') t)) \<and>
     set (idleIDs (rp_snapshots s') t) \<subseteq> set (idleIDs (rp_snapshots s) t))"

interpretation idle_shrinks: step_relation idle_shrinks
  by unfold_locales (auto simp: idle_shrinks_def)

lemma removeFirst_set: "set (removeFirst P xs) \<subseteq> set xs"
  by (induction xs) auto

lemma removeFirst_ids:
  "distinct (map f xs) \<Longrightarrow> distinct (map f (removeFirst (\<lambda>x. f x = i) xs)) \<and> i \<notin> f ` set (removeFirst (\<lambda>x. f x = i) xs)"
proof (induction xs)
  case (Cons x xs)
  then show ?case using removeFirst_set [of "\<lambda>x. f x = i" xs] by (cases "f x = i") auto
qed simp

lemma idleIDs_removeReservedIdle:
  "idleIDs (removeReservedIdle tier i sns) t =
   (if t = tier \<and> i \<noteq> '''' then removeFirst (\<lambda>x. x = i) (idleIDs sns t) else idleIDs sns t)"
proof -
  have "map w_InstanceID (removeFirst (\<lambda>w. w_InstanceID w = i) ws) = removeFirst (\<lambda>x. x = i) (map w_InstanceID ws)" for ws
    by (induction ws) auto
  then show ?thesis by (auto simp: idleIDs_def removeReservedIdle_def split: option.splits)
qed

lemma removeReservedIdle_ids:
  "distinct (idleIDs sns t) \<Longrightarrow> distinct (idleIDs (removeReservedIdle tier i sns) t)"
  "set (idleIDs (removeReservedIdle tier i sns) t) \<subseteq> set (idleIDs sns t)"
  "distinct (idleIDs sns tier) \<Longrightarrow> i \<noteq> '''' \<Longrightarrow> i \<notin> set (idleIDs (removeReservedIdle tier i sns) tier)"
  using removeFirst_set [of "\<lambda>x. x = i"] removeFirst_ids [of "\<lambda>x. x" _ i]
  by (simp_all add: idleIDs_removeReservedIdle) auto

lemma replay_snapshots:
  "rp_snapshots (snd (replayReservation workers now r s)) =
   (if workers (rv_Tier r) (rv_WorkerID r) = None then rp_snapshots s
    else removeReservedIdle (rv_Tier r) (rv_WorkerID r) (rp_snapshots s))"
  by (simp add: replayReservation_def Let_def split: prod.split)

lemma replay_idle_shrinks: "idle_shrinks s (snd (replayReservation workers now r s))"
  by (simp add: idle_shrinks_def replay_snapshots removeReservedIdle_ids)

lemma replay_all_removed:
  assumes "mapR (replayReservation workers now) rs s = (Inr xs, s')" "r \<in> set rs"
    and "workers (rv_Tier r) (rv_WorkerID r) = Some w" "rv_WorkerID r \<noteq> ''''" "distinct (idleIDs (rp_snapshots s) (rv_Tier r))"
  shows "rv_WorkerID r \<notin> set (idleIDs (rp_snapshots s') (rv_Tier r))"
  using assms(1,2,5)
proof (induction rs arbitrary: s xs)
  case (Cons q qs)
  obtain x t ys where t: "replayReservation workers now q s = (Inr x, t)" "mapR (replayReservation workers now) qs t = (Inr ys, s')"
    using Cons.prems(1) by (auto simp: bindR_Inr returnR_def)
  have d: "distinct (idleIDs (rp_snapshots t) (rv_Tier r))"
    using replay_idle_shrinks [of s workers now q] t(1) Cons.prems(3) by (simp add: idle_shrinks_def)
  have rest: "idle_shrinks t s'"
    using idle_shrinks.keeps_mapR [of qs "replayReservation workers now" t] replay_idle_shrinks t(2) by force
  show ?case
  proof (cases "r = q")
    case True
    then have "rv_WorkerID r \<notin> set (idleIDs (rp_snapshots t) (rv_Tier r))"
      using replay_snapshots [of workers now q s] t(1) assms(3,4) Cons.prems(3) by (simp add: removeReservedIdle_ids)
    then show ?thesis using rest by (auto simp: idle_shrinks_def)
  next
    case False
    then show ?thesis using Cons.IH [OF t(2)] Cons.prems(2) d by simp
  qed
qed simp

text \<open>A worker whose promised window lapsed stays barred: any lane it has or gets is blocked.\<close>

definition barred :: "RoutingReservation \<Rightarrow> replayState \<Rightarrow> bool" where
  "barred r s \<longleftrightarrow> workerKey r \<in> set (rp_blocked s) \<and>
     (\<forall>n. findLane (ss_lanes (rp_scheduling s) (rv_Tier r)) (rv_WorkerID r) = int n \<longrightarrow>
          l_blocked (ss_lanes (rp_scheduling s) (rv_Tier r) ! n))"

lemma findLane_append_other: "w_InstanceID (l_worker l) \<noteq> i \<Longrightarrow> findLane (ls @ [l]) i = findLane ls i"
  using firstIndex_iff [of 0 "\<lambda>l. w_InstanceID (l_worker l) = i" ls "-1"] by (auto simp: findLane_def firstIndex_append)

lemma findLane_update: "l_worker l = l_worker (ls ! i) \<Longrightarrow> findLane (ls[i := l]) j = findLane ls j"
  by (rule findLane_ids) (cases "i < length ls"; simp add: map_update list_update_same_conv list_update_beyond)

lemma findLane_Nat: "0 \<le> findLane ls i \<Longrightarrow> findLane ls i = int (nat (findLane ls i))"
  by simp

lemma blockLane_barred:
  assumes "findLane (ss_lanes (blockLane r st) (rv_Tier r)) (rv_WorkerID r) = int n"
  shows "l_blocked (ss_lanes (blockLane r st) (rv_Tier r) ! n)"
proof -
  let ?ls = "ss_lanes st (rv_Tier r)"
  have new: "ss_lanes (blockLane r st) (rv_Tier r) =
      (if 0 \<le> findLane ?ls (rv_WorkerID r)
       then ?ls[nat (findLane ?ls (rv_WorkerID r)) := (?ls ! nat (findLane ?ls (rv_WorkerID r)))\<lparr>l_blocked := True\<rparr>] else ?ls)"
    by (simp add: blockLane_def Let_def setLane_lanes)
  have "findLane ?ls (rv_WorkerID r) = int n"
    using assms by (simp add: new findLane_update split: if_splits)
  then show ?thesis using findLane_bound [of ?ls "rv_WorkerID r" "int n"] by (simp add: new)
qed

lemma replay_bars:
  assumes "\<not> validWindow r (workers (rv_Tier r) (rv_WorkerID r)) now" "workers (rv_Tier r) (rv_WorkerID r) = Some w"
  shows "barred r (snd (replayReservation workers now r s))"
  using assms by (auto simp: barred_def replayReservation_def Let_def blockLane_barred split: prod.split)

lemma booked_barred:
  assumes "\<And>n. findLane ls i = int n \<Longrightarrow> l_blocked (ls ! n)" "w_InstanceID w = rv_WorkerID q" "i \<noteq> ''''"
    and "i = rv_WorkerID q \<Longrightarrow> workerKey q \<in> set b"
    and "index = findLane ls (rv_WorkerID q)" "new = bookedLanes q w now ls"
    and "j = (if index < 0 then length new - 1 else nat index)"
    and "findLane (new[j := bookLane q w now b (new ! j)]) i = int n"
  shows "l_blocked (new[j := bookLane q w now b (new ! j)] ! n)"
proof -
  have n: "findLane new i = int n" using assms(8) by (simp add: findLane_update)
  then have len: "n < length new" using findLane_bound [OF n] by simp
  show ?thesis
  proof (cases "i = rv_WorkerID q")
    case True
    have "int n = int j" using n bookedLanes_index [of q w now ls] assms(2,3) unfolding assms(5-7) True by simp
    then have "n = j" by (simp only: of_nat_eq_iff)
    then show ?thesis using len bookLane_blocked(2) [OF assms(4) [OF True]] by simp
  next
    case False
    then have "findLane ls i = int n" using n assms(2,6) by (simp add: bookedLanes_def findLane_append_other split: if_splits)
    then have "l_blocked (new ! n)" using assms(1,6) findLane_bound [of ls i "int n"] by (simp add: bookedLanes_def nth_append)
    then show ?thesis using len by (cases "n = j") (simp_all add: bookLane_blocked)
  qed
qed

lemma replay_stays_barred:
  assumes "barred r s" "rv_WorkerID r \<noteq> ''''"
    and ids: "ids_agree workers"
  shows "barred r (snd (replayReservation workers now q s))"
proof (cases "validWindow q (workers (rv_Tier q) (rv_WorkerID q)) now")
  case True
  obtain w where w: "workers (rv_Tier q) (rv_WorkerID q) = Some w" "w_InstanceID w = rv_WorkerID q"
    using True ids by (auto simp: validWindow_def ids_agree_def split: option.splits)
  have key: "rv_Tier q = rv_Tier r \<Longrightarrow> rv_WorkerID r = rv_WorkerID q \<Longrightarrow> workerKey q \<in> set (rp_blocked s)"
    using assms(1) by (simp add: barred_def workerKey_def)
  show ?thesis
  proof (cases "rv_Tier q = rv_Tier r")
    case same: True
    have b: "findLane (ss_lanes (rp_scheduling s) (rv_Tier r)) (rv_WorkerID r) = int n \<Longrightarrow>
        l_blocked (ss_lanes (rp_scheduling s) (rv_Tier r) ! n)" for n using assms(1) by (simp add: barred_def)
    show ?thesis
      using assms(1) True w booked_barred [OF b w(2) assms(2) key [OF same] refl refl refl, of now]
      by (simp add: barred_def replayReservation_def Let_def reserveLane_lanes same)
  next
    case False
    then show ?thesis using assms(1) True w by (simp add: barred_def replayReservation_def Let_def reserveLane_lanes)
  qed
next
  case False
  have "l_blocked (ss_lanes (blockLane q (rp_scheduling s)) (rv_Tier r) ! n)"
    if n: "findLane (ss_lanes (blockLane q (rp_scheduling s)) (rv_Tier r)) (rv_WorkerID r) = int n" for n
  proof -
    have "findLane (ss_lanes (rp_scheduling s) (rv_Tier r)) (rv_WorkerID r) = int n"
      using n by (simp add: blockLane_def Let_def setLane_lanes findLane_update split: if_splits)
    moreover have "lanes_grow ls (ls[i := (ls ! i)\<lparr>l_blocked := True\<rparr>])" for ls i
      by (rule lanes_grow_update) simp_all
    ultimately show ?thesis using assms(1)
      by (auto simp: barred_def blockLane_def Let_def setLane_lanes lanes_grow_def split: if_splits)
  qed
  then show ?thesis using False assms(1) by (auto simp: barred_def replayReservation_def Let_def split: prod.split)
qed

lemma replay_all_barred:
  assumes "mapR (replayReservation workers now) rs s = (Inr xs, s')" "r \<in> set rs"
    and "\<not> validWindow r (workers (rv_Tier r) (rv_WorkerID r)) now" "workers (rv_Tier r) (rv_WorkerID r) = Some w"
    and ids: "ids_agree workers"
  shows "barred r s'"
proof -
  have r: "rv_WorkerID r \<noteq> ''''" using ids assms(4) by (auto simp: ids_agree_def)
  have stays: "mapR (replayReservation workers now) qs s = (y, s') \<Longrightarrow> barred r s \<Longrightarrow> barred r s'" for qs s y
  proof (induction qs arbitrary: s y)
    case (Cons q qs)
    then show ?case using replay_stays_barred [OF _ r ids, of _ now q]
      by (cases "replayReservation workers now q s"; cases "fst (replayReservation workers now q s)")
        (fastforce simp: bindR_def returnR_def split: sum.splits prod.splits)+
  qed (simp add: returnR_def)
  show ?thesis using assms(1,2)
  proof (induction rs arbitrary: s xs)
    case (Cons q qs)
    obtain x t ys where t: "replayReservation workers now q s = (Inr x, t)" "mapR (replayReservation workers now) qs t = (Inr ys, s')"
      using Cons.prems(1) by (auto simp: bindR_Inr returnR_def)
    show ?case
    proof (cases "r = q")
      case True
      then show ?thesis using replay_bars [of r workers now w s, OF assms(3,4)] t stays by auto
    next
      case False
      then show ?thesis using Cons.IH [OF t(2)] Cons.prems(2) by simp
    qed
  qed simp
qed

subsection \<open>Consuming capacity\<close>

text \<open>Free slots of a tier, and tiers keyed by their own name.\<close>

definition slotsOf :: "tier_snapshots \<Rightarrow> string \<Rightarrow> int" where
  "slotsOf snapshots tier = (case snapshots tier of None \<Rightarrow> 0 | Some sn \<Rightarrow> rs_AvailableSlots sn)"

definition keyed :: "tier_snapshots \<Rightarrow> bool" where
  "keyed snapshots \<longleftrightarrow> (\<forall>t sn. snapshots t = Some sn \<longrightarrow> rs_Tier sn = t)"

text \<open>What a decision may take from the capacity of a pass.\<close>

definition fits :: "Route \<Rightarrow> instant \<Rightarrow> tier_snapshots \<times> schedulingState \<Rightarrow> scoredCandidate \<Rightarrow> bool" where
  "fits route now = (\<lambda>(snapshots, scheduling) c. \<exists>sn. snapshots (k_Tier c) = Some sn \<and>
     (takes_idle sn c \<or>
      takes_lane (ss_lanes scheduling (k_Tier c)) now c \<and> ss_queuedByRoute scheduling (o_Name route) < o_MaxOptimizationWaitQueue route \<or>
      takes_slot sn c))"

lemma takes_exclusive:
  "takes_idle sn c \<Longrightarrow> \<not> takes_lane ls now c \<and> \<not> takes_slot sn' c"
  "takes_lane ls now c \<Longrightarrow> \<not> takes_slot sn c"
  by (auto simp: takes_idle_def takes_lane_def takes_slot_def)

lemma consume_idle:
  assumes "takes_idle sn c" "snapshots (k_Tier c) = Some sn"
  shows "fst (consumeCapacity route c (snapshots, scheduling)) =
      snapshots(k_Tier c \<mapsto> sn\<lparr>rs_IdleWorkers := removeIndex (nat (sc_idleIndex c)) (rs_IdleWorkers sn)\<rparr>)"
    and "ss_queuedByRoute (snd (consumeCapacity route c (snapshots, scheduling))) = ss_queuedByRoute scheduling"
  using assms by (auto simp: takes_idle_def consumeCapacity_def Let_def setLane_def)

lemma consume_lane:
  assumes "takes_lane (ss_lanes scheduling (k_Tier c)) now c" "snapshots (k_Tier c) = Some sn"
  shows "fst (consumeCapacity route c (snapshots, scheduling)) = snapshots"
    and "ss_queuedByRoute (snd (consumeCapacity route c (snapshots, scheduling))) q =
      ss_queuedByRoute scheduling q + (if q = route then 1 else 0)"
  using assms by (auto simp: takes_lane_def consumeCapacity_def Let_def countQueued_def setLane_def fun_upd_idem)

lemma consume_slot:
  assumes "takes_slot sn c" "snapshots (k_Tier c) = Some sn"
  shows "consumeCapacity route c (snapshots, scheduling) =
    (snapshots(k_Tier c \<mapsto> sn\<lparr>rs_AvailableSlots := rs_AvailableSlots sn - 1, rs_PendingWorkers := rs_PendingWorkers sn + 1\<rparr>), scheduling)"
  using assms by (simp add: takes_slot_def consumeCapacity_def Let_def)

lemma removeIndex_map: "map f (removeIndex i xs) = removeIndex i (map f xs)"
  by (simp add: removeIndex_def take_map drop_map)

lemma consume_keyed: "keyed snapshots \<Longrightarrow> fits route now (snapshots, scheduling) c \<Longrightarrow>
    keyed (fst (consumeCapacity (o_Name route) c (snapshots, scheduling)))"
  by (auto simp: fits_def consume_idle consume_lane consume_slot) (auto simp: keyed_def)

lemma replay_keyed: "keyed snapshots \<Longrightarrow> loadSchedulingState snapshots now store = (res, snapshots', store') \<Longrightarrow> keyed snapshots'"
proof -
  assume k: "keyed snapshots" and load: "loadSchedulingState snapshots now store = (res, snapshots', store')"
  have remove: "keyed sns \<Longrightarrow> keyed (removeReservedIdle t i sns)" for sns t i
    by (auto simp: keyed_def removeReservedIdle_def split: option.splits if_splits)
  have "keyed (rp_snapshots s) \<Longrightarrow> keyed (rp_snapshots (snd (mapR (replayReservation ws now) rs s)))" for ws rs s
  proof (induction rs arbitrary: s)
    case (Cons r rs)
    show ?case using Cons replay_snapshots [of ws now r s] remove
      by (cases "replayReservation ws now r s"; cases "fst (replayReservation ws now r s)")
        (auto simp: bindR_def returnR_def split: sum.splits prod.splits, (metis prod.sel(2))+)
  qed (simp add: returnR_def)
  from this [where s = "\<lparr>rp_scheduling = _, rp_snapshots = snapshots, rp_blocked = [], rp_store = _\<rparr>"] show "keyed snapshots'"
    using load k by (auto simp: loadSchedulingState_def split: prod.splits sum.splits) (metis prod.sel(2) replayState.select_convs(2))+
qed

subsection \<open>Properties\<close>

text \<open>
  C2. Replay protects what earlier decisions promised. For every open reservation of a worker
  that is still alive: the worker is no longer offered as idle; if its window is still good
  (not over, ending by the time the worker may be reaped) the worker's lane is booked at least
  until the promised finish; and if the window has lapsed every lane of the worker is blocked.
\<close>

theorem replay_protects_reservations:
  assumes "loadSchedulingState snapshots now store = (Inr st, snapshots', store')"
    and "fst (RoutingReservations now store) = Inr rs" "r \<in> set rs"
    and "knownWorker snapshots (rv_Tier r) (rv_WorkerID r) = Some w"
    and "distinct (idleIDs snapshots (rv_Tier r))"
  shows "rv_WorkerID r \<notin> set (idleIDs snapshots' (rv_Tier r)) \<and>
    (let ls = ss_lanes st (rv_Tier r); i = findLane ls (rv_WorkerID r)
     in if \<not> is_zero (w_ReapEligibleAt w) \<and> now < rv_ScheduledFinishAt r \<and> rv_ScheduledFinishAt r \<le> w_ReapEligibleAt w
        then 0 \<le> i \<and> rv_ScheduledFinishAt r \<le> l_availableAt (ls ! nat i)
        else 0 \<le> i \<longrightarrow> l_blocked (ls ! nat i))"
proof -
  let ?s0 = "\<lparr>rp_scheduling = emptyScheduling\<lparr>ss_lanes := initialLanes snapshots now\<rparr>, rp_snapshots = snapshots,
               rp_blocked = [], rp_store = snd (RoutingReservations now store)\<rparr>"
  obtain xs s' where s': "mapR (replayReservation (knownWorker snapshots) now) rs ?s0 = (Inr xs, s')"
    "st = rp_scheduling s'" "snapshots' = rp_snapshots s'"
    using assms(1,2) by (auto simp: loadSchedulingState_def split: prod.splits sum.splits)
  have v: "validWindow r (knownWorker snapshots (rv_Tier r) (rv_WorkerID r)) now \<longleftrightarrow>
      \<not> is_zero (w_ReapEligibleAt w) \<and> now < rv_ScheduledFinishAt r \<and> rv_ScheduledFinishAt r \<le> w_ReapEligibleAt w"
    using assms(4) by (simp add: validWindow_def not_less)
  have idle: "rv_WorkerID r \<notin> set (idleIDs snapshots' (rv_Tier r))"
    unfolding s'(3) by (rule replay_all_removed [OF s'(1) assms(3,4)]) (use assms(5) knownWorker_id [OF assms(4)] in simp_all)
  show ?thesis
  proof (cases "validWindow r (knownWorker snapshots (rv_Tier r) (rv_WorkerID r)) now")
    case True
    then show ?thesis using replay_all_promised [OF s'(1) assms(3) True knownWorker_ids] idle v s'(2) by (auto simp: promised_def Let_def)
  next
    case False
    then show ?thesis using replay_all_barred [OF s'(1) assms(3) False assms(4) knownWorker_ids] idle v s'(2)
      by (auto simp: barred_def Let_def)
  qed
qed

definition reserved_store :: SQLite where
  "reserved_store = runRoutings [(30, Observe sample_observation),
     (31, Assign ((sample_assignment ''small'')\<lparr>d_SelectedWorkerID := ''vm1'', d_ScheduledStartAt := 40,
             d_ScheduledFinishAt := 20 * minute\<rparr>) [sample_candidate])]
     (snd (UpsertJob 15 late_poll sample_store))"

theorem replay_protects_reservations_witness:
  "case loadSchedulingState [''small'' \<mapsto> sample_snapshot] 100 reserved_store of
     (Inl _, _) \<Rightarrow> False
   | (Inr st, snapshots', _) \<Rightarrow>
       ''vm1'' \<notin> set (idleIDs snapshots' ''small'') \<and>
       20 * minute \<le> l_availableAt (ss_lanes st ''small'' ! nat (findLane (ss_lanes st ''small'') ''vm1''))"
proof -
  let ?sns = "[''small'' \<mapsto> sample_snapshot]"
  obtain r where rs: "fst (RoutingReservations 100 reserved_store) = Inr [r]" and
    r: "rv_Tier r = ''small''" "rv_WorkerID r = ''vm1''" "rv_ScheduledFinishAt r = 20 * minute"
  proof -
    have "(case fst (RoutingReservations 100 reserved_store) of Inr [r] \<Rightarrow> rv_Tier r = ''small'' \<and> rv_WorkerID r = ''vm1'' \<and>
        rv_ScheduledFinishAt r = 20 * minute | _ \<Rightarrow> False)" by code_simp
    then show ?thesis using that by (auto split: sum.splits list.splits)
  qed
  have "(case loadSchedulingState ?sns 100 reserved_store of (Inr _, _) \<Rightarrow> True | _ \<Rightarrow> False)" by code_simp
  then obtain st sns' store' where load: "loadSchedulingState ?sns 100 reserved_store = (Inr st, sns', store')"
    by (auto split: sum.splits prod.splits)
  have known: "knownWorker ?sns (rv_Tier r) (rv_WorkerID r) = Some sample_worker"
    unfolding r by (simp add: knownWorker_def sample_snapshot_def sample_worker_def)
  have "distinct (idleIDs ?sns (rv_Tier r))" unfolding r by (simp add: idleIDs_def sample_snapshot_def)
  from replay_protects_reservations [OF load rs _ known this] show ?thesis
    using load r by (auto simp: Let_def sample_worker_def is_zero_def zero_time_def go_units)
qed

text \<open>
  Selection is by cost. With a history the router picks nothing exactly when no candidate is
  eligible with a known cost, and otherwise an eligible candidate of known cost such that no
  other is preferred by cost, then idleness, then start delay, then configured order. Without
  a history an eligible fallback tier is taken first.
\<close>

theorem selectCandidate_optimal:
  "let r = selectCandidate scores route hasHistory;
       fallback = (\<lambda>c. k_Tier c = o_FallbackTier route \<and> k_Eligible c)
   in if r < 0 then (\<forall>c\<in>set scores. \<not> priced c) \<and> (\<not> hasHistory \<longrightarrow> \<not> list_ex fallback scores)
      else nat r < length scores \<and> k_Eligible (scores ! nat r) \<and>
           (if \<not> hasHistory \<and> list_ex fallback scores then k_Tier (scores ! nat r) = o_FallbackTier route
            else priced (scores ! nat r) \<and> minimal_in (o_Candidates route) scores (scores ! nat r))"
proof -
  let ?P = "\<lambda>c. k_Tier c = o_FallbackTier route \<and> k_Eligible c"
  note best = bestIndex_best [of "o_Candidates route" scores]
  show ?thesis
  proof (cases "\<not> hasHistory \<and> list_ex ?P scores")
    case True
    then obtain n where "n < length scores" "firstIndex ?P 0 scores = int n" "?P (scores ! n)"
      using firstIndex_iff [of 0 ?P scores "firstIndex ?P 0 scores"] by (auto simp: list_ex_iff)
    then show ?thesis using True by (simp add: selectCandidate_def)
  next
    case False
    then have "selectCandidate scores route hasHistory = bestIndex (o_Candidates route) 0 scores None"
      using firstIndex_iff [of 0 ?P scores "-1"] by (auto simp: selectCandidate_def list_ex_iff)
    then show ?thesis using best False by (auto simp: Let_def priced_def)
  qed
qed

text \<open>
  The score card agrees with the decision: ranks follow preference among the eligible
  candidates of known cost, and when the choice was made by cost over distinct tiers the
  selected candidate is the one ranked first.
\<close>

theorem ranks_follow_preference:
  assumes "i < length scores" "priced (scores ! i)" "distinct (map k_Tier scores)"
    and "sel = selectCandidate scores route True"
  shows "0 \<le> sel \<and> k_Rank (rankCandidates (o_Candidates route) scores ! nat sel) = 1 \<and>
    (\<forall>j<length scores. priced (scores ! j) \<and> candidateLess (o_Candidates route) (scores ! i) (scores ! j) \<longrightarrow>
       k_Rank (rankCandidates (o_Candidates route) scores ! i) < k_Rank (rankCandidates (o_Candidates route) scores ! j))"
proof -
  have "sel = bestIndex (o_Candidates route) 0 scores None" using assms(4) by (simp add: selectCandidate_def)
  then have "0 \<le> sel \<and> nat sel < length scores \<and> priced (scores ! nat sel) \<and> minimal_in (o_Candidates route) scores (scores ! nat sel)"
    using bestIndex_best [of "o_Candidates route" scores] assms(1,2) by auto
  then show ?thesis using selected_rank [OF assms(3)] rank_order assms(1,2) by blast
qed

definition sample_route :: Route where
  "sample_route = \<lparr>o_Name = ''auto'', o_RequiredLabel = ''auto'', o_Candidates = [''small'', ''large''], o_FallbackTier = ''large'',
     o_HistoryWindow = 24 * hour, o_MinSamples = 1, o_ColdStartP95 = 10 * minute, o_MaxOptimizationWaitQueue = 2\<rparr>"

definition sample_scores :: "scoredCandidate list" where
  "sample_scores = (let c = (baseCandidate sample_snapshot sample_quote ''1'' minute minute minute)\<lparr>k_Eligible := True, k_ScoreCostKnown := True\<rparr>
     in [c\<lparr>k_ScoreCostNanos := 7\<rparr>, c\<lparr>k_Tier := ''large'', k_ScoreCostNanos := 5\<rparr>])"

theorem ranks_follow_preference_witness:
  "selectCandidate sample_scores sample_route True = 1 \<and>
   k_Rank (rankCandidates (o_Candidates sample_route) sample_scores ! 1) = 1 \<and>
   k_Rank (rankCandidates (o_Candidates sample_route) sample_scores ! 1) < k_Rank (rankCandidates (o_Candidates sample_route) sample_scores ! 0)"
proof -
  have p: "1 < length sample_scores" "priced (sample_scores ! 1)" "distinct (map k_Tier sample_scores)"
    "0 < length sample_scores" "priced (sample_scores ! 0)" "candidateLess (o_Candidates sample_route) (sample_scores ! 1) (sample_scores ! 0)"
    "selectCandidate sample_scores sample_route True = 1" by code_simp+
  show ?thesis using ranks_follow_preference [OF p(1-3) refl, of sample_route] p(4-7) by auto
qed

theorem selectCandidate_optimal_witness:
  "selectCandidate sample_scores sample_route True = 1 \<and> priced (sample_scores ! 1) \<and>
   minimal_in (o_Candidates sample_route) sample_scores (sample_scores ! 1)"
proof -
  have s: "selectCandidate sample_scores sample_route True = 1" by code_simp
  show ?thesis using selectCandidate_optimal [of sample_scores sample_route True] s by (simp add: Let_def)
qed

end
