(* ===== verification/External_Types.thy ===== *)
theory External_Types
  imports FJB_Prelude
begin

text \<open>
  The data the daemon exchanges with the outside: the queue, runner and registration types of
  src/internal/forgejo/types.go and the machine, image and price types of
  src/internal/provider/provider.go.
\<close>

subsection \<open>Forgejo\<close>

record WaitingJob =
  wj_ID :: int
  wj_Attempt :: int
  wj_Handle :: string
  wj_RepoID :: int
  wj_OwnerID :: int
  wj_RunID :: int
  wj_WorkflowID :: string
  wj_CommitSHA :: string
  wj_Labels :: "string list"
  wj_Status :: string
  wj_TaskID :: int
  wj_Name :: string

record JobMetadata =
  md_Repository :: string
  md_WorkflowID :: string
  md_RunID :: int
  md_Ref :: string
  md_Event :: string
  md_CommitSHA :: string
  md_Status :: string
  md_Conclusion :: string
  md_QueuedAt :: string
  md_StartedAt :: string
  md_CompletedAt :: string

record Registration =
  rg_UUID :: string
  rg_Token :: string

record Runner =
  rn_ID :: int
  rn_UUID :: string
  rn_Name :: string
  rn_Status :: string

subsection \<open>Providers\<close>

record Spec =
  sp_Tag :: string
  sp_Name :: string
  sp_Role :: string
  sp_InstanceType :: string
  sp_ImageID :: string
  sp_UserData :: string
  sp_AuthorizedKey :: string
  sp_Labels :: "string list"

record ResetSpec =
  rs_ImageID :: string
  rs_UserData :: string
  rs_AuthorizedKey :: string

record ManagedImage =
  mi_ID :: string
  mi_Name :: string
  mi_Fingerprint :: string
  mi_CreatedAt :: instant
  mi_SizeBytes :: int

record ImageSpec =
  is_Tag :: string
  is_Name :: string
  is_SourceInstanceID :: string
  is_Fingerprint :: string

record Instance =
  in_ID :: string
  in_Name :: string
  in_IPv4 :: string
  in_VPCIPv4 :: string
  in_CreatedAt :: instant
  in_Tag :: string

record ProviderQuote =
  pq_InstanceType :: string
  pq_Currency :: string
  pq_PerHourNanos :: int
  pq_PerMonthNanos :: int
  pq_BillingQuantum :: duration
  pq_MinimumDuration :: duration
  pq_MinimumChargeNanos :: int
  pq_SnapshotGBMonthNanos :: int
  pq_Source :: string
  pq_ObservedAt :: instant

end
