(* ===== verification/Router_Pass.thy ===== *)
theory Router_Pass
  imports Router_Schedule External_Types "HOL-Library.Multiset"
begin

text \<open>
  The router, src/internal/router/router.go: one pass (\<open>reconcile\<close>) replays reservations, polls
  every automatic queue, and routes each waiting job to the cheapest tier, recording the
  decision in the ledger before the capacity is taken.

  \<^item> A Forgejo queue, the fleet's snapshots and a provider's pricing API are the arguments
    \<open>queue\<close>, \<open>snapshots\<close> and \<open>pricers\<close>: what they answer during the pass. \<open>marshal\<close> is
    \<open>json.Marshal\<close> on a waiting job, which cannot fail on this type.
  \<^item> The pass's clock \<open>now\<close> also serves as the clock the ledger reads during the pass.
  \<^item> An event of the bus is a value of \<open>RouterEvent\<close>; its attributes keep their types.
  \<^item> Log lines are left out. \<open>LastError\<close> keeps the joined failure texts.
\<close>

subsection \<open>Types\<close>

type_synonym pricing = "string \<Rightarrow> (string \<Rightarrow> ProviderQuote result) option"

record RouterConfig =
  cfg_Source :: string
  cfg_Currency :: string
  cfg_ExchangeRates :: "string \<rightharpoonup> string"
  cfg_PollInterval :: duration
  cfg_ExplicitLabels :: "string list"
  cfg_Routes :: "Route list"

record RouterHealth =
  rh_Healthy :: bool
  rh_LastPollAt :: instant
  rh_LastDecisionAt :: instant
  rh_LastError :: string
  rh_DegradedPricing :: bool

record cachedQuote =
  cq_quote :: PriceQuote
  cq_refreshed :: instant
  cq_degraded :: bool

datatype RouterEvent =
    RouteDeferred (ev_route: string) (ev_handle: string)
  | RouteDecided (ev_route: string) (ev_handle: string) (ev_chosen: scoredCandidate) (ev_reason: string)

record Router =
  rt_cfg :: RouterConfig
  rt_health :: RouterHealth
  rt_quotes :: "string \<rightharpoonup> cachedQuote"
  rt_store :: SQLite
  rt_events :: "RouterEvent list"

text \<open>The local variables of a pass, beside the router.\<close>

record Pass = Router +
  ps_snapshots :: tier_snapshots
  ps_scheduling :: schedulingState
  ps_profiles :: "string \<rightharpoonup> WorkflowProfile"

definition policyVersion :: string where "policyVersion = ''cost-p95-v2-paid-window-queue''"
definition quoteRefresh :: duration where "quoteRefresh = hour"

definition zeroQuote :: PriceQuote where
  "zeroQuote = \<lparr>q_ID = 0, q_Provider = '''', q_Driver = '''', q_InstanceType = '''', q_Currency = '''', q_PerHourNanos = 0,
     q_PerMonthNanos = 0, q_SnapshotGBMonthNanos = 0, q_MinimumChargeNanos = 0, q_BillingQuantum = 0, q_MinimumDuration = 0,
     q_Source = '''', q_ObservedAt = zero_time\<rparr>"

definition zeroJob :: Job where
  "zeroJob = \<lparr>j_ID = 0, j_Source = '''', j_Handle = '''', j_ForgejoJobID = 0, j_Attempt = 0, j_RepositoryID = 0,
     j_RepositoryOwnerID = 0, j_Repository = '''', j_Workflow = '''', j_WorkflowFile = '''', j_JobName = '''',
     j_IdentityQuality = IdentityUnset, j_Tier = '''', j_Provider = '''', j_Driver = '''', j_ResourceID = 0,
     j_GenerationID = 0, j_Status = JobUnset, j_Conclusion = '''', j_InfrastructureFailure = '''',
     j_QueueMeasurementSource = '''', j_RunMeasurementSource = '''', j_FirstSeenAt = zero_time, j_QueuedAt = zero_time,
     j_DispatchedAt = zero_time, j_RunnerStartedAt = zero_time, j_RunnerFinishedAt = zero_time,
     j_CompletedAt = zero_time, j_UpdatedAt = zero_time\<rparr>"

subsection \<open>Construction and health\<close>

definition newRouter :: "RouterConfig \<Rightarrow> SQLite option \<Rightarrow> bool \<Rightarrow> Router result" where
  "newRouter cfg store fleet =
     (case store of
        None \<Rightarrow> Inl (ErrOther ''router: fleet, store, and routes are required'')
      | Some s \<Rightarrow>
          if \<not> fleet \<or> cfg_Routes cfg = [] then Inl (ErrOther ''router: fleet, store, and routes are required'')
          else if cfg_PollInterval cfg \<le> 0 then Inl (ErrOther ''router: poll interval must be positive'')
          else Inr \<lparr>rt_cfg = cfg\<lparr>cfg_Routes := sort_key o_Name (cfg_Routes cfg)\<rparr>,
                    rt_health = \<lparr>rh_Healthy = False, rh_LastPollAt = zero_time, rh_LastDecisionAt = zero_time,
                                 rh_LastError = '''', rh_DegradedPricing = False\<rparr>,
                    rt_quotes = Map.empty, rt_store = s, rt_events = []\<rparr>)"

definition routerHealth :: "instant \<Rightarrow> 'r Router_scheme \<Rightarrow> RouterHealth" where
  "routerHealth now r =
     (let h = rt_health r
      in h\<lparr>rh_Healthy := rh_LastError h = '''' \<and> \<not> is_zero (rh_LastPollAt h) \<and>
             time_sub now (rh_LastPollAt h) \<le> wrap64 (3 * cfg_PollInterval (rt_cfg r))\<rparr>)"

definition setPricingDegraded :: "bool \<Rightarrow> 'r Router_scheme \<Rightarrow> 'r Router_scheme" where
  "setPricingDegraded b r = r\<lparr>rt_health := (rt_health r)\<lparr>rh_DegradedPricing := b\<rparr>\<rparr>"

definition emit :: "RouterEvent \<Rightarrow> 'r Router_scheme \<Rightarrow> 'r Router_scheme" where
  "emit e r = r\<lparr>rt_events := rt_events r @ [e]\<rparr>"

text \<open>A call of the store.\<close>

definition withStore :: "(SQLite, 'a) action \<Rightarrow> ('r Router_scheme, 'a) action" where
  "withStore f r = (case f (rt_store r) of (x, s) \<Rightarrow> (x, r\<lparr>rt_store := s\<rparr>))"

subsection \<open>Prices and profiles\<close>

definition joinErrors :: "go_error \<Rightarrow> go_error \<Rightarrow> go_error" where
  "joinErrors a b = ErrOther (errorText a @ [CHR 0x0A] @ errorText b)"

definition cacheKey :: "string \<Rightarrow> string \<Rightarrow> string" where
  "cacheKey a b = a @ [CHR 0x00] @ b"

definition quoteRecord :: "RoutingTierSnapshot \<Rightarrow> ProviderQuote \<Rightarrow> PriceQuote" where
  "quoteRecord snapshot quote =
     \<lparr>q_ID = 0, q_Provider = rs_ProviderName snapshot, q_Driver = rs_Driver snapshot, q_InstanceType = pq_InstanceType quote,
      q_Currency = pq_Currency quote, q_PerHourNanos = pq_PerHourNanos quote, q_PerMonthNanos = pq_PerMonthNanos quote,
      q_SnapshotGBMonthNanos = pq_SnapshotGBMonthNanos quote, q_MinimumChargeNanos = pq_MinimumChargeNanos quote,
      q_BillingQuantum = pq_BillingQuantum quote, q_MinimumDuration = pq_MinimumDuration quote,
      q_Source = pq_Source quote, q_ObservedAt = pq_ObservedAt quote\<rparr>"

text \<open>The stored copy after the live quote or its recording failed with \<open>err\<close>.\<close>

definition fallbackQuote ::
  "RoutingTierSnapshot \<Rightarrow> instant \<Rightarrow> go_error \<Rightarrow> 'r Router_scheme \<Rightarrow> (PriceQuote \<times> go_error option) \<times> 'r Router_scheme" where
  "fallbackQuote snapshot now err r =
     (case withStore (LatestPriceQuote (rs_ProviderName snapshot) (rs_InstanceType snapshot)) r of
        (Inr cached, r) \<Rightarrow>
          ((cached, Some err),
           setPricingDegraded True
             (r\<lparr>rt_quotes := (rt_quotes r)(cacheKey (rs_ProviderName snapshot) (rs_InstanceType snapshot) \<mapsto>
                  \<lparr>cq_quote = cached, cq_refreshed = now, cq_degraded = True\<rparr>)\<rparr>))
      | (Inl cacheErr, r) \<Rightarrow> ((zeroQuote, Some (joinErrors err cacheErr)), setPricingDegraded True r))"

definition quoteFor ::
  "pricing \<Rightarrow> RoutingTierSnapshot \<Rightarrow> instant \<Rightarrow> 'r Router_scheme \<Rightarrow> (PriceQuote \<times> go_error option) \<times> 'r Router_scheme" where
  "quoteFor pricers snapshot now r =
     (let key = cacheKey (rs_ProviderName snapshot) (rs_InstanceType snapshot);
          live = (\<lambda>r. case pricers (rs_ProviderName snapshot) of
              None \<Rightarrow> ((zeroQuote, Some (ErrOther ''provider does not implement pricing'')), r)
            | Some pricer \<Rightarrow>
                (case pricer (rs_InstanceType snapshot) of
                   Inl err \<Rightarrow> fallbackQuote snapshot now err r
                 | Inr quote \<Rightarrow>
                     (case withStore (RecordPriceQuote now (quoteRecord snapshot quote)) r of
                        (Inr stored, r) \<Rightarrow>
                          ((stored, None),
                           r\<lparr>rt_quotes := (rt_quotes r)(key \<mapsto> \<lparr>cq_quote = stored, cq_refreshed = now, cq_degraded = False\<rparr>)\<rparr>)
                      | (Inl err, r) \<Rightarrow> fallbackQuote snapshot now err r)))
      in case rt_quotes r key of
           Some cached \<Rightarrow>
             if time_sub now (cq_refreshed cached) < quoteRefresh
             then ((cq_quote cached, None), if cq_degraded cached then setPricingDegraded True r else r)
             else live r
         | None \<Rightarrow> live r)"

definition kindName :: "PhaseKind \<Rightarrow> string" where
  "kindName k = (case k of PhaseUnset \<Rightarrow> '''' | PhaseProvisioning \<Rightarrow> ''provisioning'' | PhaseReadyIdle \<Rightarrow> ''ready_idle''
     | PhaseJob \<Rightarrow> ''job'' | PhaseReset \<Rightarrow> ''reset'' | PhaseRemoving \<Rightarrow> ''removing'' | PhaseImageBuild \<Rightarrow> ''image_build'')"

definition phaseProfile :: "string \<Rightarrow> PhaseKind \<Rightarrow> instant \<Rightarrow> instant \<Rightarrow> Pass \<Rightarrow> WorkflowProfile \<times> Pass" where
  "phaseProfile tier kind from to r =
     (let key = cacheKey tier (kindName kind)
      in case ps_profiles r key of
           Some profile \<Rightarrow> (profile, r)
         | None \<Rightarrow>
             (case withStore (PhaseProfile tier kind from to) r of
                (res, r) \<Rightarrow>
                  let profile = (case res of Inl _ \<Rightarrow> \<lparr>wp_Samples = 0, wp_P95 = 0\<rparr> | Inr profile \<Rightarrow> profile)
                  in (profile, r\<lparr>ps_profiles := (ps_profiles r)(key \<mapsto> profile)\<rparr>)))"

subsection \<open>Routing one job\<close>

definition missingTier :: "string \<Rightarrow> scoredCandidate" where
  "missingTier tier =
     (baseCandidate zeroSnapshot zeroQuote '''' 0 0 0)\<lparr>k_Tier := tier, k_Reason := ''tier_missing'', sc_idleIndex := 0, sc_laneIndex := 0\<rparr>"

definition workflowOf :: "WaitingJob \<Rightarrow> string" where
  "workflowOf job = (if wj_WorkflowID job = '''' then wj_Name job else wj_WorkflowID job)"

definition profileFilter :: "RouterConfig \<Rightarrow> WaitingJob \<Rightarrow> string \<Rightarrow> instant \<Rightarrow> instant \<Rightarrow> WorkflowProfileFilter" where
  "profileFilter cfg job tier from to =
     \<lparr>wf_Source = cfg_Source cfg, wf_RepositoryID = wj_RepoID job, wf_Workflow = workflowOf job,
      wf_JobName = wj_Name job, wf_Tier = tier, wf_From = from, wf_To = to\<rparr>"

text \<open>The predicted run, its sample count and its source, for one tier.\<close>

definition predictRun ::
  "Route \<Rightarrow> WaitingJob \<Rightarrow> WorkflowProfile \<Rightarrow> instant \<Rightarrow> instant \<Rightarrow> string \<Rightarrow> (Pass, duration \<times> int \<times> string) action" where
  "predictRun route job globalProfile historyFrom now tier r =
     (if wp_Samples globalProfile \<ge> o_MinSamples route then
        bindR (withStore (workflowProfile (profileFilter (rt_cfg r) job tier historyFrom now)))
          (\<lambda>tierProfile. returnR
             (if wp_Samples tierProfile \<ge> o_MinSamples route
              then (wp_P95 tierProfile, wp_Samples tierProfile, ''tier_p95'')
              else (wp_P95 globalProfile, wp_Samples globalProfile, ''global_p95''))) r
      else (Inr (o_ColdStartP95 route, wp_Samples globalProfile, ''cold_fallback''), r))"

definition exchangeRate :: "RouterConfig \<Rightarrow> string \<Rightarrow> string" where
  "exchangeRate cfg currency = (case cfg_ExchangeRates cfg currency of None \<Rightarrow> '''' | Some rate \<Rightarrow> rate)"

definition scoreTier ::
  "pricing \<Rightarrow> Route \<Rightarrow> WaitingJob \<Rightarrow> WorkflowProfile \<Rightarrow> instant \<Rightarrow> instant \<Rightarrow> string \<Rightarrow> (Pass, scoredCandidate) action" where
  "scoreTier pricers route job globalProfile historyFrom now tier r =
     (case ps_snapshots r tier of
        None \<Rightarrow> (Inr (missingTier tier), r)
      | Some snapshot \<Rightarrow>
          bindR (predictRun route job globalProfile historyFrom now tier)
            (\<lambda>(predicted, samples, profileSource) r.
               case quoteFor pricers snapshot now r of ((quote, quoteErr), r) \<Rightarrow>
               case phaseProfile tier PhaseProvisioning historyFrom now r of (boot, r) \<Rightarrow>
               case phaseProfile tier PhaseReset historyFrom now r of (reset, r) \<Rightarrow>
               let allowQueue = (o_MaxOptimizationWaitQueue route > ss_queuedByRoute (ps_scheduling r) (o_Name route));
                   score = scoreCandidateWithQueue snapshot quote (exchangeRate (rt_cfg r) (q_Currency quote)) (wj_Labels job)
                             predicted (wp_P95 boot) (wp_P95 reset) now (ss_lanes (ps_scheduling r) tier) allowQueue;
                   score = (case quoteErr of
                              Some err \<Rightarrow> if k_Reason score = ''pricing_unavailable''
                                          then score\<lparr>k_Reason := ''pricing_unavailable: '' @ errorText err\<rparr> else score
                            | None \<Rightarrow> score)
               in (Inr (score\<lparr>k_ProfileSamples := samples, k_ProfileSource := profileSource\<rparr>), r)) r)"

definition markSelected :: "nat \<Rightarrow> scoredCandidate list \<Rightarrow> scoredCandidate list" where
  "markSelected selected scores = map (\<lambda>i. (scores ! i)\<lparr>k_Selected := (i = selected)\<rparr>) [0..<length scores]"

definition decisionFor ::
  "RouterConfig \<Rightarrow> Route \<Rightarrow> bool \<Rightarrow> instant \<Rightarrow> instant \<Rightarrow> instant \<Rightarrow> scoredCandidate option \<Rightarrow> scoredCandidate \<Rightarrow> RoutingDecision \<Rightarrow> RoutingDecision" where
  "decisionFor cfg route hasHistory historyFrom now expires fallback chosen decision =
     (let decision = decision\<lparr>d_ProfileSource := k_ProfileSource chosen, d_ProfileSamples := k_ProfileSamples chosen,
             d_PredictedP95 := k_PredictedRun chosen, d_HistoryFrom := historyFrom, d_HistoryTo := now,
             d_SelectedTier := k_Tier chosen, d_SelectedProvider := k_Provider chosen, d_SelectedDriver := k_Driver chosen,
             d_SelectedIdle := k_UsedIdle chosen,
             d_SelectionReason := (if k_OptimizationQueued chosen then ''paid_window_wait_queue''
                                   else selectionReason hasHistory (k_Tier chosen = o_FallbackTier route)),
             d_ScoreCurrency := cfg_Currency cfg,
             d_SelectedCostNanos := k_ScoreCostNanos chosen, d_SelectedCostKnown := k_ScoreCostKnown chosen\<rparr>;
          decision = (case fallback of
                        None \<Rightarrow> decision
                      | Some f \<Rightarrow> decision\<lparr>d_FallbackCostNanos := k_ScoreCostNanos f, d_FallbackCostKnown := k_ScoreCostKnown f\<rparr>)
      in decision\<lparr>d_DecidedAt := now, d_ExpiresAt := expires, d_OptimizationQueued := k_OptimizationQueued chosen,
           d_OptimizationActive := k_OptimizationQueued chosen, d_SelectedWorkerID := k_IdleInstanceID chosen,
           d_ScheduledStartAt := k_ScheduledStartAt chosen, d_ScheduledFinishAt := k_ScheduledFinishAt chosen,
           d_OptimizationQueuePosition := k_OptimizationQueuePosition chosen, d_OptimizationWait := k_OptimizationWait chosen\<rparr>)"

text \<open>The end of \<open>routeJob\<close>, after \<open>AssignRoutingDecision\<close> succeeded.\<close>

definition settleDecision :: "string \<Rightarrow> string \<Rightarrow> scoredCandidate \<Rightarrow> string \<Rightarrow> instant \<Rightarrow> Pass \<Rightarrow> Pass" where
  "settleDecision route handle chosen reason now r =
     (case consumeCapacity route chosen (ps_snapshots r, ps_scheduling r) of
        (snapshots, scheduling) \<Rightarrow>
          emit (RouteDecided route handle chosen reason)
            (r\<lparr>ps_snapshots := snapshots, ps_scheduling := scheduling,
               rt_health := (rt_health r)\<lparr>rh_LastDecisionAt := now\<rparr>\<rparr>))"

definition decideJob ::
  "Route \<Rightarrow> string \<Rightarrow> int \<Rightarrow> RoutingDecision \<Rightarrow> bool \<Rightarrow> instant \<Rightarrow> instant \<Rightarrow> instant \<Rightarrow> scoredCandidate list \<Rightarrow> (Pass, unit) action" where
  "decideJob route handle jobID decision hasHistory historyFrom now expires scores r =
     (let selected = selectCandidate scores route hasHistory
      in if selected < 0 then
           bindR (withStore (DeferRoutingDecision now jobID ''no_eligible_capacity'' now))
             (\<lambda>_ r. (Inr (), emit (RouteDeferred (o_Name route) handle) r)) r
         else
           let scores = markSelected (nat selected) (rankCandidates (o_Candidates route) scores);
               chosen = scores ! nat selected;
               decision = decisionFor (rt_cfg r) route hasHistory historyFrom now expires
                            (scoreForTier scores (o_FallbackTier route)) chosen decision
           in bindR (withStore (AssignRoutingDecision now decision (map RoutingCandidateScore.truncate scores)))
                (\<lambda>_ r. (Inr (), settleDecision (o_Name route) handle chosen (d_SelectionReason decision) now r)) r)"

definition jobRecord :: "RouterConfig \<Rightarrow> WaitingJob \<Rightarrow> instant \<Rightarrow> Job" where
  "jobRecord cfg job now =
     zeroJob\<lparr>j_Source := cfg_Source cfg, j_Handle := wj_Handle job, j_ForgejoJobID := wj_ID job, j_Attempt := wj_Attempt job,
       j_RepositoryID := wj_RepoID job, j_RepositoryOwnerID := wj_OwnerID job, j_WorkflowFile := workflowOf job,
       j_JobName := wj_Name job,
       j_IdentityQuality := (if wj_WorkflowID job = '''' then IdentityFallback else IdentityExact),
       j_Status := JobObserved, j_QueueMeasurementSource := ''auto_router'', j_FirstSeenAt := now, j_QueuedAt := now,
       j_UpdatedAt := now\<rparr>"

definition observation :: "Route \<Rightarrow> int \<Rightarrow> string \<Rightarrow> instant \<Rightarrow> RoutingDecision" where
  "observation route jobID payload now =
     decisionZero\<lparr>d_JobID := jobID, d_Route := o_Name route, d_RequiredLabel := o_RequiredLabel route, d_PayloadJSON := payload,
       d_FallbackTier := o_FallbackTier route, d_FirstSeenAt := now, d_PolicyVersion := policyVersion\<rparr>"

definition withHandle :: "WaitingJob \<Rightarrow> WaitingJob" where
  "withHandle job = (if wj_Handle job = '''' then job\<lparr>wj_Handle := formatInt (wj_ID job)\<rparr> else job)"

definition expiry :: "RouterConfig \<Rightarrow> instant \<Rightarrow> instant" where
  "expiry cfg now = time_add now (wrap64 (3 * cfg_PollInterval cfg))"

definition routeJob :: "(WaitingJob \<Rightarrow> string) \<Rightarrow> pricing \<Rightarrow> Route \<Rightarrow> instant \<Rightarrow> WaitingJob \<Rightarrow> (Pass, unit) action" where
  "routeJob marshal pricers route now job r =
     (let cfg = rt_cfg r
      in if hasExplicitLabel (wj_Labels job) (cfg_ExplicitLabels cfg) then (Inr (), r)
         else
           let job = withHandle job; payload = marshal job; expires = expiry cfg now;
               historyFrom = time_add now (wrap64 (- o_HistoryWindow route))
           in bindR (withStore (UpsertJob now (jobRecord cfg job now))) (\<lambda>storedJob.
              bindR (withStore (ObserveRoutingDecision now (observation route (j_ID storedJob) payload now))) (\<lambda>decision.
              if d_State decision = RoutingAssigned
              then withStore (RenewRoutingDecision now (j_ID storedJob) payload expires)
              else
                bindR (withStore (workflowProfile (profileFilter cfg job '''' historyFrom now))) (\<lambda>globalProfile.
                bindR (mapR (scoreTier pricers route job globalProfile historyFrom now) (o_Candidates route)) (\<lambda>scores.
                decideJob route (wj_Handle job) (j_ID storedJob) decision (wp_Samples globalProfile \<ge> o_MinSamples route)
                  historyFrom now expires scores)))) r)"

subsection \<open>One pass\<close>

definition jobFailure :: "Route \<Rightarrow> WaitingJob \<Rightarrow> go_error \<Rightarrow> string" where
  "jobFailure route job e = ''route '' @ o_Name route @ '' job '' @ wj_Handle (withHandle job) @ '': '' @ errorText e"

fun routeJobs ::
  "(WaitingJob \<Rightarrow> string) \<Rightarrow> pricing \<Rightarrow> Route \<Rightarrow> instant \<Rightarrow> WaitingJob list \<Rightarrow> string list \<times> Pass \<Rightarrow> string list \<times> Pass" where
  "routeJobs marshal pricers route now [] (failures, r) = (failures, r)"
| "routeJobs marshal pricers route now (job # jobs) (failures, r) =
     (case routeJob marshal pricers route now job r of
        (Inr _, r) \<Rightarrow> routeJobs marshal pricers route now jobs (failures, r)
      | (Inl e, r) \<Rightarrow> routeJobs marshal pricers route now jobs (failures @ [jobFailure route job e], r))"

definition pollRoute ::
  "(WaitingJob \<Rightarrow> string) \<Rightarrow> pricing \<Rightarrow> (string \<Rightarrow> WaitingJob list result) \<Rightarrow> instant \<Rightarrow> Route \<Rightarrow> string list \<times> Pass \<Rightarrow> string list \<times> Pass" where
  "pollRoute marshal pricers queue now route = (\<lambda>(failures, r).
     case queue (o_Name route) of
       Inl err \<Rightarrow>
         (case withStore (PreserveRoutingAssignments now (o_Name route) now (expiry (rt_cfg r) now)) r of
            (res, r) \<Rightarrow>
              let err = (case res of Inr _ \<Rightarrow> err
                         | Inl e \<Rightarrow> joinErrors err (ErrOther (''preserve assignments: '' @ errorText e)))
              in (failures @ [''route '' @ o_Name route @ '' queue: '' @ errorText err], r))
     | Inr jobs \<Rightarrow>
         routeJobs marshal pricers route now (sort_key (\<lambda>j. (wj_ID j, wj_Handle j)) jobs) (failures, r))"

fun joinLines :: "string list \<Rightarrow> string" where
  "joinLines [] = ''''"
| "joinLines [x] = x"
| "joinLines (x # xs) = x @ [CHR 0x0A] @ joinLines xs"

definition startPass :: "tier_snapshots \<Rightarrow> instant \<Rightarrow> Router \<Rightarrow> string list \<times> Pass" where
  "startPass snapshots now r =
     (let r = setPricingDegraded False r
      in case loadSchedulingState snapshots now (rt_store r) of
           (res, snapshots, store) \<Rightarrow>
             (case res of Inl e \<Rightarrow> [''restore optimization queue: '' @ errorText e] | Inr _ \<Rightarrow> [],
              Router.extend (r\<lparr>rt_store := store\<rparr>)
                \<lparr>ps_snapshots = snapshots, ps_scheduling = (case res of Inl _ \<Rightarrow> emptyScheduling | Inr st \<Rightarrow> st),
                 ps_profiles = Map.empty\<rparr>))"

definition runPass ::
  "(WaitingJob \<Rightarrow> string) \<Rightarrow> pricing \<Rightarrow> (string \<Rightarrow> WaitingJob list result) \<Rightarrow> tier_snapshots \<Rightarrow> instant \<Rightarrow> Router \<Rightarrow> string list \<times> Pass" where
  "runPass marshal pricers queue snapshots now r =
     fold (pollRoute marshal pricers queue now) (cfg_Routes (rt_cfg r)) (startPass snapshots now r)"

definition reconcile ::
  "(WaitingJob \<Rightarrow> string) \<Rightarrow> pricing \<Rightarrow> (string \<Rightarrow> WaitingJob list result) \<Rightarrow> tier_snapshots \<Rightarrow> instant \<Rightarrow> Router \<Rightarrow> Router" where
  "reconcile marshal pricers queue snapshots now r =
     (case runPass marshal pricers queue snapshots now r of
        (failures, r) \<Rightarrow>
          let r = Router.truncate r
          in r\<lparr>rt_health := (rt_health r)\<lparr>rh_LastPollAt := now, rh_LastError := joinLines failures\<rparr>\<rparr>)"

subsection \<open>What leaves the capacity of a pass alone\<close>

definition same_capacity :: "Pass \<Rightarrow> Pass \<Rightarrow> bool" where
  "same_capacity s s' \<longleftrightarrow> rt_events s' = rt_events s \<and> ps_snapshots s' = ps_snapshots s \<and>
     ps_scheduling s' = ps_scheduling s \<and> rt_cfg s' = rt_cfg s"

interpretation quiet: step_relation same_capacity
  by unfold_locales (auto simp: same_capacity_def)

lemma withStore_quiet: "same_capacity s (snd (withStore f s))"
  by (auto simp: withStore_def same_capacity_def split: prod.splits)

lemma quoteFor_quiet: "same_capacity s (snd (quoteFor pricers sn now s))"
  by (auto simp: quoteFor_def fallbackQuote_def same_capacity_def withStore_def setPricingDegraded_def Let_def
      split: option.splits sum.splits prod.splits if_splits)

lemma phaseProfile_quiet: "same_capacity s (snd (phaseProfile tier kind from to s))"
  by (auto simp: phaseProfile_def same_capacity_def withStore_def Let_def split: option.splits prod.splits)

lemma predictRun_quiet: "same_capacity s (snd (predictRun route job profile from now tier s))"
  by (auto simp: predictRun_def intro!: quiet.keeps_bind withStore_quiet quiet.keeps_return quiet.refl)

lemma scoreTier_quiet: "same_capacity s (snd (scoreTier pricers route job profile from now tier s))"
proof (cases "ps_snapshots s tier")
  case (Some sn)
  have "same_capacity s (snd (bindR (predictRun route job profile from now tier)
      (\<lambda>(predicted, samples, profileSource) r.
         case quoteFor pricers sn now r of ((quote, quoteErr), r) \<Rightarrow>
         case phaseProfile tier PhaseProvisioning from now r of (boot, r) \<Rightarrow>
         case phaseProfile tier PhaseReset from now r of (reset, r) \<Rightarrow> (g predicted samples profileSource quote quoteErr boot reset r, r)) s))" for g
  proof (rule quiet.keeps_bind [OF predictRun_quiet])
    fix a s' assume "predictRun route job profile from now tier s = (Inr a, s')"
    show "same_capacity s' (snd ((case a of (predicted, samples, profileSource) \<Rightarrow> \<lambda>r.
         case quoteFor pricers sn now r of ((quote, quoteErr), r) \<Rightarrow>
         case phaseProfile tier PhaseProvisioning from now r of (boot, r) \<Rightarrow>
         case phaseProfile tier PhaseReset from now r of (reset, r) \<Rightarrow> (g predicted samples profileSource quote quoteErr boot reset r, r)) s'))"
      by (auto split: prod.splits) (metis quiet.trans phaseProfile_quiet quoteFor_quiet snd_conv)
  qed
  then show ?thesis using Some by (simp add: scoreTier_def Let_def)
qed (simp add: scoreTier_def quiet.refl)

lemma fits_updates [simp]:
  "fits route now st (c\<lparr>k_Reason := a\<rparr>) = fits route now st c" "fits route now st (c\<lparr>k_ProfileSamples := i\<rparr>) = fits route now st c"
  "fits route now st (c\<lparr>k_ProfileSource := a\<rparr>) = fits route now st c" "fits route now st (c\<lparr>k_Rank := n\<rparr>) = fits route now st c"
  "fits route now st (c\<lparr>k_Selected := b\<rparr>) = fits route now st c"
  by (cases st, simp_all add: fits_def takes_idle_def takes_lane_def takes_slot_def)+

subsection \<open>A decision takes capacity that is there\<close>

definition capacity :: "Pass \<Rightarrow> tier_snapshots \<times> schedulingState" where
  "capacity s = (ps_snapshots s, ps_scheduling s)"

lemma quiet_capacity: "same_capacity s s' \<Longrightarrow> capacity s' = capacity s"
  by (simp add: same_capacity_def capacity_def)

lemma score_fits_pass:
  assumes "ps_snapshots s tier = Some sn" "rs_Tier sn = tier"
    and "c = scoreCandidateWithQueue sn quote fx labels run prov reset now (ss_lanes (ps_scheduling s) tier)
           (o_MaxOptimizationWaitQueue route > ss_queuedByRoute (ps_scheduling s) (o_Name route))" "k_Eligible c"
  shows "fits route now (capacity s) c"
  using score_fits [OF assms(3,4)] assms(1,2,3) by (auto simp: fits_def capacity_def score_tier)

lemma scoreTier_fits:
  assumes "scoreTier pricers route job profile from now tier s = (Inr c, s')" "keyed (ps_snapshots s)" "k_Eligible c"
  shows "fits route now (capacity s) c"
proof (cases "ps_snapshots s tier")
  case None
  then show ?thesis using assms(1,3) by (auto simp: scoreTier_def missingTier_def baseCandidate_def)
next
  case (Some sn)
  obtain predicted samples source s1 where s1: "predictRun route job profile from now tier s = (Inr (predicted, samples, source), s1)"
    using assms(1) Some by (auto simp: scoreTier_def bindR_Inr)
  obtain quote err s2 where s2: "quoteFor pricers sn now s1 = ((quote, err), s2)" by (metis prod.collapse)
  obtain boot s3 where s3: "phaseProfile tier PhaseProvisioning from now s2 = (boot, s3)" by fastforce
  obtain reset s4 where s4: "phaseProfile tier PhaseReset from now s3 = (reset, s4)" by fastforce
  have q: "same_capacity s s1" "same_capacity s1 s2" "same_capacity s2 s3" "same_capacity s3 s4"
    using predictRun_quiet [of s route job profile "from" now tier] quoteFor_quiet [of s1 pricers sn now]
      phaseProfile_quiet [of s2 tier PhaseProvisioning "from" now] phaseProfile_quiet [of s3 tier PhaseReset "from" now]
    by (simp_all add: s1 s2 s3 s4)
  have same: "capacity s4 = capacity s" using q by (simp add: same_capacity_def capacity_def)
  let ?c = "scoreCandidateWithQueue sn quote (exchangeRate (rt_cfg s4) (q_Currency quote)) (wj_Labels job) predicted
     (wp_P95 boot) (wp_P95 reset) now (ss_lanes (ps_scheduling s4) tier)
     (o_MaxOptimizationWaitQueue route > ss_queuedByRoute (ps_scheduling s4) (o_Name route))"
  have sn4: "ps_snapshots s4 tier = Some sn" "rs_Tier sn = tier"
    using same Some assms(2) by (auto simp: capacity_def keyed_def)
  have "scoreTier pricers route job profile from now tier s =
     (Inr ((case err of Some e \<Rightarrow> if k_Reason ?c = ''pricing_unavailable''
              then ?c\<lparr>k_Reason := ''pricing_unavailable: '' @ errorText e\<rparr> else ?c | None \<Rightarrow> ?c)
           \<lparr>k_ProfileSamples := samples, k_ProfileSource := source\<rparr>), s4)"
    using Some by (simp add: scoreTier_def bindR_def s1 s2 s3 s4 Let_def)
  then have c: "c = (case err of Some e \<Rightarrow> if k_Reason ?c = ''pricing_unavailable''
              then ?c\<lparr>k_Reason := ''pricing_unavailable: '' @ errorText e\<rparr> else ?c | None \<Rightarrow> ?c)
           \<lparr>k_ProfileSamples := samples, k_ProfileSource := source\<rparr>" using assms(1) by simp
  then have "k_Eligible ?c" using assms(3) by (auto split: option.splits if_splits)
  then have "fits route now (capacity s4) ?c" using score_fits_pass [OF sn4 refl] by blast
  then show ?thesis unfolding c same by (auto split: option.splits)
qed

lemma markSelected_nth: "i < length scores \<Longrightarrow> markSelected n scores ! i = (scores ! i)\<lparr>k_Selected := (i = n)\<rparr>"
  by (simp add: markSelected_def)

lemma rank_fits:
  assumes "i < length scores"
  shows "fits route now st (rankCandidates order scores ! i) = fits route now st (scores ! i)"
  using rankCandidates_nth [OF assms, of order] fits_updates(4) by metis

lemma rankCandidates_length: "length (rankCandidates order scores) = length scores"
  by (simp add: rankCandidates_def Let_def)

subsection \<open>Laws every pass keeps\<close>

text \<open>
  The contract of a relation between the states of a pass: quiet steps and deferrals keep it,
  and so does settling a decision that fits. Every routine of the pass then keeps it.
\<close>

locale pass_law = step_relation R for R :: "Pass \<Rightarrow> Pass \<Rightarrow> bool" +
  fixes covers :: "Route \<Rightarrow> bool"
  assumes quiet_step: "same_capacity s s' \<Longrightarrow> R s s'"
    and deferred_step: "R s (emit (RouteDeferred route handle) s)"
    and settled_step: "covers rte \<Longrightarrow> keyed (ps_snapshots s) \<Longrightarrow> fits rte now (capacity s) chosen \<Longrightarrow>
      R s (settleDecision (o_Name rte) handle chosen reason now s)"
begin

lemma store_step: "R s (snd (withStore f s))"
  by (rule quiet_step [OF withStore_quiet])

lemma decideJob_law:
  assumes "covers route" "keyed (ps_snapshots s)"
    and "\<And>i. i < length scores \<Longrightarrow> k_Eligible (scores ! i) \<Longrightarrow> fits route now (capacity s) (scores ! i)"
  shows "R s (snd (decideJob route handle jobID decision hasHistory historyFrom now expires scores s))"
proof (cases "selectCandidate scores route hasHistory < 0")
  case True
  then show ?thesis unfolding decideJob_def Let_def
    by (auto intro!: keeps_bind store_step deferred_step simp del: prod.sel) (simp add: deferred_step)
next
  case False
  let ?i = "nat (selectCandidate scores route hasHistory)"
  let ?scores = "markSelected ?i (rankCandidates (o_Candidates route) scores)"
  have i: "?i < length scores" "k_Eligible (scores ! ?i)" using selectCandidate_eligible False by auto
  then have fit: "fits route now (capacity s) (?scores ! ?i)"
    using assms(3) [OF i] by (simp add: markSelected_nth rankCandidates_length rank_fits)
  have "R s' (settleDecision (o_Name route) handle (?scores ! ?i) reason now s')" if "same_capacity s s'" for s' reason
    using settled_step [OF assms(1), of s' now "?scores ! ?i"] fit assms(2) that quiet_capacity [OF that] by (simp add: same_capacity_def)
  then show ?thesis unfolding decideJob_def Let_def if_not_P [OF False]
    by (intro keeps_bind store_step) (metis snd_conv withStore_quiet)
qed

lemma routeJob_law:
  assumes "covers route" "keyed (ps_snapshots s)"
  shows "R s (snd (routeJob marshal pricers route now job s))"
proof (cases "hasExplicitLabel (wj_Labels job) (cfg_ExplicitLabels (rt_cfg s))")
  case True
  then show ?thesis by (simp add: routeJob_def Let_def refl)
next
  case False
  have decide: "R t (snd (bindR (mapR (scoreTier pricers route job' profile from now) (o_Candidates route))
      (decideJob route handle jobID decision hasHistory from now expires) t))"
    if "same_capacity s t" for t job' profile "from" handle jobID decision hasHistory expires
  proof (rule keeps_bind)
    let ?score = "scoreTier pricers route job' profile from now"
    show "R t (snd (mapR ?score (o_Candidates route) t))"
      by (rule quiet_step, rule quiet.keeps_mapR) (rule scoreTier_quiet)
    fix scores t' assume m: "mapR ?score (o_Candidates route) t = (Inr scores, t')"
    have tt': "same_capacity t t'" using quiet.keeps_mapR [of "o_Candidates route" ?score t] scoreTier_quiet m by simp
    have kt: "keyed (ps_snapshots t)" "keyed (ps_snapshots t')" using that tt' assms(2) by (simp_all add: same_capacity_def)
    have "fits route now (capacity t') (scores ! i)" if i: "i < length scores" "k_Eligible (scores ! i)" for i
    proof -
      have "i < length (o_Candidates route)" using i(1) mapR_length [OF m] by simp
      from quiet.mapR_nth_kept [OF m this scoreTier_quiet] obtain u u' where
        u: "same_capacity t u" "?score (o_Candidates route ! i) u = (Inr (scores ! i), u')" by blast
      have "keyed (ps_snapshots u)" using u(1) kt(1) by (simp add: same_capacity_def)
      from scoreTier_fits [OF u(2) this i(2)] show ?thesis using u(1) tt' quiet_capacity by metis
    qed
    then show "R t' (snd (decideJob route handle jobID decision hasHistory from now expires scores t'))"
      by (rule decideJob_law [OF assms(1) kt(2)])
  qed
  show ?thesis unfolding routeJob_def Let_def if_not_P [OF False]
    by (intro keeps_bind store_step)
      (auto intro!: keeps_bind store_step decide dest!: arg_cong [where f = snd] simp: same_capacity_def withStore_def split: prod.splits,
       simp add: quiet_step same_capacity_def)
qed

end

text \<open>Snapshots stay keyed by their own tier.\<close>

lemma settleDecision_sel:
  "ps_snapshots (settleDecision route handle chosen reason now s) = fst (consumeCapacity route chosen (capacity s))"
  "ps_scheduling (settleDecision route handle chosen reason now s) = snd (consumeCapacity route chosen (capacity s))"
  "rt_events (settleDecision route handle chosen reason now s) = rt_events s @ [RouteDecided route handle chosen reason]"
  "rt_cfg (settleDecision route handle chosen reason now s) = rt_cfg s"
  by (simp_all add: settleDecision_def capacity_def emit_def split: prod.split)

interpretation keyed_law: pass_law "\<lambda>s s'. keyed (ps_snapshots s) \<longrightarrow> keyed (ps_snapshots s')" "\<lambda>_. True"
proof unfold_locales
  show "keyed (ps_snapshots s) \<longrightarrow> keyed (ps_snapshots (settleDecision (o_Name rte) handle chosen reason now s))"
    if "keyed (ps_snapshots s)" "fits rte now (capacity s) chosen" for rte s now chosen handle reason
    using consume_keyed [of "ps_snapshots s" rte now "ps_scheduling s" chosen] that
    by (simp add: settleDecision_sel capacity_def)
qed (auto simp: same_capacity_def emit_def)

context pass_law
begin

lemma routeJobs_law:
  assumes "covers route" "keyed (ps_snapshots s)"
  shows "R s (snd (routeJobs marshal pricers route now jobs (failures, s)))"
    and "keyed (ps_snapshots (snd (routeJobs marshal pricers route now jobs (failures, s))))"
proof -
  have "R s (snd (routeJobs marshal pricers route now jobs (failures, s))) \<and>
        keyed (ps_snapshots (snd (routeJobs marshal pricers route now jobs (failures, s))))"
    using assms(2)
  proof (induction jobs arbitrary: failures s)
    case (Cons job jobs)
    obtain x t where t: "routeJob marshal pricers route now job s = (x, t)" by fastforce
    have st: "R s t" "keyed (ps_snapshots t)"
      using routeJob_law [OF assms(1) Cons.prems, of marshal pricers now job] Cons.prems
        keyed_law.routeJob_law [of s marshal pricers route now job] t by simp_all
    show ?case using Cons.IH [OF st(2)] t trans [OF st(1)] by (cases x) auto
  qed (simp add: refl)
  then show "R s (snd (routeJobs marshal pricers route now jobs (failures, s)))"
    "keyed (ps_snapshots (snd (routeJobs marshal pricers route now jobs (failures, s))))" by simp_all
qed

lemma pollRoute_law:
  assumes "covers route" "keyed (ps_snapshots s)"
  shows "R s (snd (pollRoute marshal pricers queue now route (failures, s))) \<and>
    keyed (ps_snapshots (snd (pollRoute marshal pricers queue now route (failures, s))))"
proof (cases "queue (o_Name route)")
  case (Inl err)
  let ?f = "PreserveRoutingAssignments now (o_Name route) now (expiry (rt_cfg s) now)"
  have "snd (pollRoute marshal pricers queue now route (failures, s)) = snd (withStore ?f s)"
    using Inl by (simp add: pollRoute_def Let_def split: prod.split)
  moreover have "keyed (ps_snapshots (snd (withStore ?f s)))"
    using withStore_quiet [of s ?f] assms(2) by (simp add: same_capacity_def)
  ultimately show ?thesis using store_step by simp
next
  case (Inr jobs)
  then show ?thesis using routeJobs_law [OF assms] by (simp add: pollRoute_def)
qed

lemma runPass_law:
  assumes "\<And>route. route \<in> set (cfg_Routes (rt_cfg r)) \<Longrightarrow> covers route" "keyed snapshots"
  shows "R (snd (startPass snapshots now r)) (snd (runPass marshal pricers queue snapshots now r))"
proof -
  have "R s (snd (fold (pollRoute marshal pricers queue now) routes (failures, s)))"
    if "\<And>route. route \<in> set routes \<Longrightarrow> covers route" "keyed (ps_snapshots s)" for routes failures s
    using that
  proof (induction routes arbitrary: failures s)
    case (Cons route routes)
    obtain fs t where t: "pollRoute marshal pricers queue now route (failures, s) = (fs, t)" by fastforce
    have st: "R s t" "keyed (ps_snapshots t)"
      using pollRoute_law [of route s marshal pricers queue now failures] Cons.prems t by simp_all
    show ?case using Cons.IH [OF _ st(2), of fs] Cons.prems(1) t trans [OF st(1)] by simp
  qed (simp add: refl)
  moreover have "keyed (ps_snapshots (snd (startPass snapshots now r)))"
    using replay_keyed [OF assms(2)] by (auto simp: startPass_def Let_def Router.defs split: prod.splits)
  ultimately show ?thesis using assms(1) unfolding runPass_def by (metis prod.collapse)
qed

end

subsection \<open>Capacity is spent once\<close>

fun decided :: "string \<Rightarrow> RouterEvent list \<Rightarrow> scoredCandidate list" where
  "decided tier [] = []"
| "decided tier (RouteDeferred _ _ # evs) = decided tier evs"
| "decided tier (RouteDecided _ _ c _ # evs) = (if k_Tier c = tier then c # decided tier evs else decided tier evs)"

definition onNewMachine :: "string \<Rightarrow> RouterEvent list \<Rightarrow> nat" where
  "onNewMachine tier evs = length (filter (\<lambda>c. \<not> k_UsedIdle c \<and> \<not> k_OptimizationQueued c) (decided tier evs))"

definition onIdleWorker :: "string \<Rightarrow> RouterEvent list \<Rightarrow> string list" where
  "onIdleWorker tier evs = map k_IdleInstanceID (filter (\<lambda>c. k_UsedIdle c \<and> \<not> k_OptimizationQueued c) (decided tier evs))"

lemma decided_append: "decided t (xs @ ys) = decided t xs @ decided t ys"
  by (induction t xs rule: decided.induct) auto

lemma tally_append [simp]:
  "onNewMachine t (xs @ ys) = onNewMachine t xs + onNewMachine t ys" "onIdleWorker t (xs @ ys) = onIdleWorker t xs @ onIdleWorker t ys"
  "onNewMachine t [] = 0" "onIdleWorker t [] = []"
  by (simp_all add: onNewMachine_def onIdleWorker_def decided_append)

definition spent :: "RouterEvent list \<Rightarrow> tier_snapshots \<Rightarrow> tier_snapshots \<Rightarrow> bool" where
  "spent new sns sns' \<longleftrightarrow> (\<forall>t. int (onNewMachine t new) + slotsOf sns' t = slotsOf sns t \<and>
     (0 \<le> slotsOf sns t \<longrightarrow> 0 \<le> slotsOf sns' t) \<and>
     mset (onIdleWorker t new) + mset (idleIDs sns' t) = mset (idleIDs sns t))"

definition spends_once :: "Pass \<Rightarrow> Pass \<Rightarrow> bool" where
  "spends_once s s' \<longleftrightarrow> (\<exists>new. rt_events s' = rt_events s @ new \<and> spent new (ps_snapshots s) (ps_snapshots s'))"

lemma spent_none: "(\<And>t. decided t new = []) \<Longrightarrow> spent new sns sns"
  by (simp add: spent_def onNewMachine_def onIdleWorker_def)

lemma spent_trans:
  assumes "spent a sns sns'" "spent b sns' sns''"
  shows "spent (a @ b) sns sns''"
  unfolding spent_def
proof
  fix t
  have "int (onNewMachine t a) + slotsOf sns' t = slotsOf sns t" "int (onNewMachine t b) + slotsOf sns'' t = slotsOf sns' t"
    "0 \<le> slotsOf sns t \<longrightarrow> 0 \<le> slotsOf sns' t" "0 \<le> slotsOf sns' t \<longrightarrow> 0 \<le> slotsOf sns'' t"
    "mset (onIdleWorker t a) + mset (idleIDs sns' t) = mset (idleIDs sns t)"
    "mset (onIdleWorker t b) + mset (idleIDs sns'' t) = mset (idleIDs sns' t)"
    using assms by (simp_all add: spent_def)
  then show "int (onNewMachine t (a @ b)) + slotsOf sns'' t = slotsOf sns t \<and> (0 \<le> slotsOf sns t \<longrightarrow> 0 \<le> slotsOf sns'' t) \<and>
      mset (onIdleWorker t (a @ b)) + mset (idleIDs sns'' t) = mset (idleIDs sns t)"
    by (simp add: add.assoc)
qed

lemma mset_removeIndex: "i < length xs \<Longrightarrow> add_mset (xs ! i) (mset (removeIndex i xs)) = mset xs"
  by (metis Cons_nth_drop_Suc Suc_eq_plus1 append_take_drop_id mset.simps(2) mset_append removeIndex_def union_mset_add_mset_right)

lemma spent_decision:
  assumes "fits route now (sns, sch) c"
  shows "spent [RouteDecided r h c reason] sns (fst (consumeCapacity (o_Name route) c (sns, sch)))"
proof -
  obtain sn where sn: "sns (k_Tier c) = Some sn" and
    "takes_idle sn c \<or> takes_lane (ss_lanes sch (k_Tier c)) now c \<or> takes_slot sn c"
    using assms by (auto simp: fits_def)
  then consider (idle) "takes_idle sn c" | (lane) "takes_lane (ss_lanes sch (k_Tier c)) now c" | (slot) "takes_slot sn c" by blast
  then show ?thesis
  proof cases
    case idle
    let ?i = "nat (sc_idleIndex c)" and ?ids = "map w_InstanceID (rs_IdleWorkers sn)"
    have i: "?i < length ?ids" "?ids ! ?i = k_IdleInstanceID c" "k_UsedIdle c" "\<not> k_OptimizationQueued c"
      using idle by (simp_all add: takes_idle_def)
    then show ?thesis
      using mset_removeIndex [OF i(1)] sn
      by (auto simp: spent_def consume_idle(1) [of sn c sns, OF idle sn] slotsOf_def idleIDs_def onNewMachine_def onIdleWorker_def removeIndex_map)
  next
    case lane
    then have "k_OptimizationQueued c" by (simp add: takes_lane_def)
    then show ?thesis
      using sn by (auto simp: spent_def consume_lane(1) [of sch c now sns, OF lane sn] onNewMachine_def onIdleWorker_def)
  next
    case slot
    then show ?thesis
      using sn by (auto simp: spent_def consume_slot [of sn c sns, OF slot sn] slotsOf_def idleIDs_def onNewMachine_def onIdleWorker_def takes_slot_def)
  qed
qed

interpretation spends: pass_law spends_once "\<lambda>_. True"
proof unfold_locales
  show "spends_once s s" for s by (auto simp: spends_once_def intro!: exI [of _ "[]"] spent_none)
  show "spends_once s u" if "spends_once s t" "spends_once t u" for s t u
    using that spent_trans by (fastforce simp: spends_once_def)
  show "spends_once s s'" if "same_capacity s s'" for s s'
    using that by (auto simp: spends_once_def same_capacity_def intro!: exI [of _ "[]"] spent_none)
  show "spends_once s (emit (RouteDeferred route handle) s)" for s route handle
    by (auto simp: spends_once_def emit_def intro!: exI [of _ "[RouteDeferred route handle]"] spent_none)
  show "spends_once s (settleDecision (o_Name rte) handle chosen reason now s)"
    if "fits rte now (capacity s) chosen" for rte s now chosen handle reason
    using spent_decision [of rte now "ps_snapshots s" "ps_scheduling s" chosen] that
    by (auto simp: spends_once_def settleDecision_sel capacity_def intro!: exI [of _ "[RouteDecided (o_Name rte) handle chosen reason]"])
qed

lemma load_replay:
  assumes "loadSchedulingState snapshots now store = (res, sns', store')"
  shows "sns' = snapshots \<or> (\<exists>rs s0. rp_snapshots s0 = snapshots \<and>
    sns' = rp_snapshots (snd (mapR (replayReservation (knownWorker snapshots) now) rs s0)))"
proof (cases "RoutingReservations now store")
  case (Pair x st)
  show ?thesis
  proof (cases x)
    case (Inr rs)
    let ?s0 = "\<lparr>rp_scheduling = emptyScheduling\<lparr>ss_lanes := initialLanes snapshots now\<rparr>, rp_snapshots = snapshots,
               rp_blocked = [], rp_store = st\<rparr>"
    have "sns' = rp_snapshots (snd (mapR (replayReservation (knownWorker snapshots) now) rs ?s0))"
      using assms Pair Inr by (auto simp: loadSchedulingState_def split: prod.splits sum.splits)
    moreover have "rp_snapshots ?s0 = snapshots" by simp
    ultimately show ?thesis by blast
  qed (use assms Pair in \<open>simp add: loadSchedulingState_def\<close>)
qed

lemma load_ids:
  assumes "loadSchedulingState snapshots now store = (res, sns', store')"
  shows "slotsOf sns' t = slotsOf snapshots t" "distinct (idleIDs snapshots t) \<Longrightarrow> distinct (idleIDs sns' t)"
    "set (idleIDs sns' t) \<subseteq> set (idleIDs snapshots t)"
proof -
  define R where "R = (\<lambda>s s'. slotsOf (rp_snapshots s') t = slotsOf (rp_snapshots s) t \<and> idle_shrinks s s')"
  have R: "step_relation R"
    by unfold_locales (auto simp: R_def intro: idle_shrinks.refl idle_shrinks.trans)
  have "R s (snd (replayReservation ws now r s))" for ws r s
    by (auto simp: R_def replay_idle_shrinks replay_snapshots slotsOf_def removeReservedIdle_def split: option.splits)
  then have "R s (snd (mapR (replayReservation ws now) rs s))" for ws rs s
    by (rule step_relation.keeps_mapR [OF R])
  then have *: "slotsOf sns' t = slotsOf snapshots t \<and> (distinct (idleIDs snapshots t) \<longrightarrow> distinct (idleIDs sns' t)) \<and>
      set (idleIDs sns' t) \<subseteq> set (idleIDs snapshots t)"
    using load_replay [OF assms] unfolding R_def idle_shrinks_def by (elim disjE exE conjE) (simp, blast)
  then show "slotsOf sns' t = slotsOf snapshots t" "distinct (idleIDs snapshots t) \<Longrightarrow> distinct (idleIDs sns' t)"
    "set (idleIDs sns' t) \<subseteq> set (idleIDs snapshots t)" by blast+
qed

lemma startPass_sel:
  assumes "loadSchedulingState snapshots now (rt_store r) = (res, sns', store')"
  shows "ps_snapshots (snd (startPass snapshots now r)) = sns'" "rt_events (snd (startPass snapshots now r)) = rt_events r"
    "rt_cfg (snd (startPass snapshots now r)) = rt_cfg r"
  using assms by (simp_all add: startPass_def Let_def setPricingDegraded_def Router.defs)

lemma reconcile_events: "rt_events (reconcile marshal pricers queue snapshots now r) = rt_events (snd (runPass marshal pricers queue snapshots now r))"
  by (simp add: reconcile_def Let_def Router.defs split: prod.split)

definition queue_law :: "string \<Rightarrow> int \<Rightarrow> Pass \<Rightarrow> Pass \<Rightarrow> bool" where
  "queue_law q limit s s' \<longleftrightarrow> ss_queuedByRoute (ps_scheduling s') q \<le> max (ss_queuedByRoute (ps_scheduling s) q) limit"

interpretation queued: pass_law "queue_law q limit" "\<lambda>route. o_Name route = q \<longrightarrow> o_MaxOptimizationWaitQueue route \<le> limit" for q limit
proof unfold_locales
  show "queue_law q limit s (settleDecision (o_Name rte) handle chosen reason now s)"
    if h: "o_Name rte = q \<longrightarrow> o_MaxOptimizationWaitQueue rte \<le> limit" "fits rte now (capacity s) chosen" for rte s now chosen handle reason
  proof -
    obtain sn where sn: "ps_snapshots s (k_Tier chosen) = Some sn" and
      t: "takes_idle sn chosen \<or> takes_lane (ss_lanes (ps_scheduling s) (k_Tier chosen)) now chosen \<and>
            ss_queuedByRoute (ps_scheduling s) (o_Name rte) < o_MaxOptimizationWaitQueue rte \<or> takes_slot sn chosen"
      using h(2) by (auto simp: fits_def capacity_def)
    from t show ?thesis
      using h(1) consume_idle(2) [of sn chosen "ps_snapshots s", OF _ sn] consume_lane(2) [of "ps_scheduling s" chosen now "ps_snapshots s", OF _ sn]
        consume_slot [of sn chosen "ps_snapshots s", OF _ sn]
      by (auto simp: queue_law_def settleDecision_sel capacity_def)
  qed
qed (auto simp: queue_law_def same_capacity_def emit_def)

subsection \<open>Properties of a pass\<close>

text \<open>
  C1. One pass never hands out the same capacity twice. Over all routes and jobs of a pass, the
  jobs decided onto new machines of a tier are at most the tier's free slots, and the jobs
  decided onto idle workers go to pairwise different workers that were idle when the pass
  started.
\<close>

theorem pass_spends_capacity_once:
  assumes "keyed snapshots" "distinct (idleIDs snapshots t)" "0 \<le> slotsOf snapshots t"
  shows "\<exists>new. rt_events (reconcile marshal pricers queue snapshots now r) = rt_events r @ new \<and>
    int (onNewMachine t new) \<le> slotsOf snapshots t \<and> distinct (onIdleWorker t new) \<and>
    set (onIdleWorker t new) \<subseteq> set (idleIDs snapshots t)"
proof -
  obtain res sns' store' where load: "loadSchedulingState snapshots now (rt_store r) = (res, sns', store')" by (metis prod.collapse)
  let ?s = "snd (startPass snapshots now r)" and ?s' = "snd (runPass marshal pricers queue snapshots now r)"
  have "spends_once ?s ?s'" by (rule spends.runPass_law [OF _ assms(1)]) simp
  then obtain new where new: "rt_events ?s' = rt_events ?s @ new" "spent new (ps_snapshots ?s) (ps_snapshots ?s')"
    by (auto simp: spends_once_def)
  have slots: "int (onNewMachine t new) + slotsOf (ps_snapshots ?s') t = slotsOf sns' t"
    "0 \<le> slotsOf sns' t \<longrightarrow> 0 \<le> slotsOf (ps_snapshots ?s') t"
    and ids: "mset (onIdleWorker t new) + mset (idleIDs (ps_snapshots ?s') t) = mset (idleIDs sns' t)"
    using new(2) by (simp_all add: spent_def startPass_sel [OF load])
  have "mset (onIdleWorker t new @ idleIDs (ps_snapshots ?s') t) = mset (idleIDs sns' t)" using ids by simp
  then have "distinct (onIdleWorker t new @ idleIDs (ps_snapshots ?s') t)" "set (onIdleWorker t new) \<subseteq> set (idleIDs sns' t)"
    using load_ids(2) [OF load assms(2)] by (metis mset_eq_imp_distinct_iff, metis Un_upper1 set_append set_mset_mset)
  then show ?thesis
    using new(1) slots load_ids(1,3) [OF load, of t] assms(3)
    by (intro exI [of _ new]) (auto simp: reconcile_events startPass_sel [OF load])
qed

text \<open>
  The paid-window queue of a route is bounded: after a pass at most as many jobs of the route
  wait behind paid workers as its configured limit allows, or as were already waiting.
\<close>

theorem paid_window_queue_bounded:
  assumes "keyed snapshots"
    and "\<forall>route \<in> set (cfg_Routes (rt_cfg r)). o_Name route = q \<longrightarrow> o_MaxOptimizationWaitQueue route \<le> limit"
  shows "ss_queuedByRoute (ps_scheduling (snd (runPass marshal pricers queue snapshots now r))) q \<le>
    max (ss_queuedByRoute (ps_scheduling (snd (startPass snapshots now r))) q) limit"
  using queued.runPass_law [of r q limit snapshots now marshal pricers queue] assms by (simp add: queue_law_def)

definition route_config :: RouterConfig where
  "route_config = \<lparr>cfg_Source = ''forgejo'', cfg_Currency = ''EUR'', cfg_ExchangeRates = [''USD'' \<mapsto> ''0.9''],
     cfg_PollInterval = 10 * second, cfg_ExplicitLabels = [''pinned''], cfg_Routes = [sample_route]\<rparr>"

definition sample_router :: Router where
  "sample_router = \<lparr>rt_cfg = route_config, rt_health = \<lparr>rh_Healthy = False, rh_LastPollAt = zero_time, rh_LastDecisionAt = zero_time,
     rh_LastError = '''', rh_DegradedPricing = False\<rparr>, rt_quotes = Map.empty, rt_store = sample_store, rt_events = []\<rparr>"

definition waiting :: "int \<Rightarrow> WaitingJob" where
  "waiting i = \<lparr>wj_ID = i, wj_Attempt = 1, wj_Handle = '''', wj_RepoID = 3, wj_OwnerID = 2, wj_RunID = 5, wj_WorkflowID = ''ci.yml'',
     wj_CommitSHA = '''', wj_Labels = [''docker''], wj_Status = ''waiting'', wj_TaskID = 0, wj_Name = ''test''\<rparr>"

definition list_price :: ProviderQuote where
  "list_price = \<lparr>pq_InstanceType = ''g6-standard-2'', pq_Currency = ''USD'', pq_PerHourNanos = 36000000, pq_PerMonthNanos = 24000000000,
     pq_BillingQuantum = hour, pq_MinimumDuration = hour, pq_MinimumChargeNanos = 0, pq_SnapshotGBMonthNanos = 0,
     pq_Source = ''api'', pq_ObservedAt = 1\<rparr>"

definition sample_pricers :: pricing where
  "sample_pricers provider = (if provider = ''linode'' then Some (\<lambda>_. Inr list_price) else None)"

definition sample_reconcile :: Router where
  "sample_reconcile = reconcile (\<lambda>j. formatInt (wj_ID j)) sample_pricers (\<lambda>_. Inr [waiting 8, waiting 7])
     [''small'' \<mapsto> sample_snapshot] (5 * minute) sample_router"

theorem pass_spends_capacity_once_witness:
  "distinct (onIdleWorker ''small'' (rt_events sample_reconcile)) \<and>
   map (\<lambda>e. case e of RouteDecided _ handle c _ \<Rightarrow> (handle, k_IdleInstanceID c, k_OptimizationQueued c)
                | RouteDeferred _ handle \<Rightarrow> (handle, '''', False)) (rt_events sample_reconcile) =
     [(''7'', ''vm1'', False), (''8'', ''vm1'', True)]"
proof
  let ?sns = "[''small'' \<mapsto> sample_snapshot]"
  have "keyed ?sns" "distinct (idleIDs ?sns ''small'')" "0 \<le> slotsOf ?sns ''small''"
    by (auto simp: keyed_def idleIDs_def slotsOf_def sample_snapshot_def)
  from pass_spends_capacity_once [OF this, of "\<lambda>j. formatInt (wj_ID j)" sample_pricers "\<lambda>_. Inr [waiting 8, waiting 7]"
      "5 * minute" sample_router, folded sample_reconcile_def]
  show "distinct (onIdleWorker ''small'' (rt_events sample_reconcile))"
    by (auto simp: sample_router_def)
qed code_simp

theorem paid_window_queue_bounded_witness:
  "ss_queuedByRoute (ps_scheduling (snd (runPass (\<lambda>j. formatInt (wj_ID j)) sample_pricers (\<lambda>_. Inr [waiting 9, waiting 8, waiting 7])
      [''small'' \<mapsto> sample_snapshot] (5 * minute) sample_router))) ''auto'' \<le>
   max (ss_queuedByRoute (ps_scheduling (snd (startPass [''small'' \<mapsto> sample_snapshot] (5 * minute) sample_router))) ''auto'') 2"
  by (rule paid_window_queue_bounded) (auto simp: keyed_def sample_snapshot_def sample_router_def route_config_def sample_route_def)

end
