(* ===== verification/Goroutines.thy ===== *)
theory Goroutines
  imports Effects
begin

text \<open>
  Goroutines over a shared state. A program is a tree of atomic steps: \<open>Act\<close> reads and changes
  the shared state under one lock acquisition, one statement of the database, or one call of the
  outside world; \<open>Spawn\<close> is \<open>wg.Go\<close>, with a name for the function it starts. Between two steps
  of one goroutine every other goroutine may take any number of its own, so the step relation
  below contains every interleaving the Go scheduler allows. A call that blocks (a provider
  request, a job run) is a goroutine that is not scheduled for a while.

  \<^item> \<open>exec\<close> runs one program with nobody interfering, and \<open>exec_steps\<close> shows that such a run is
    one of the interleavings.
  \<^item> \<open>owes\<close> in the locale \<open>counter\<close> is the contract of a shared counter: every goroutine gives back
    what it has taken, however the others interleave.
  \<^item> \<open>guarantees\<close> is the contract of a relation every step respects.
\<close>

subsection \<open>Programs\<close>

datatype ('t, 's, 'a) prog =
    Ret 'a
  | Act "'s \<Rightarrow> 's" "'s \<Rightarrow> ('t, 's, 'a) prog"
  | Spawn 't "('t, 's, 'a) prog"

primrec bindP :: "('t, 's, 'a) prog \<Rightarrow> ('a \<Rightarrow> ('t, 's, 'b) prog) \<Rightarrow> ('t, 's, 'b) prog" where
  "bindP (Ret a) f = f a"
| "bindP (Act u h) f = Act u (\<lambda>s. bindP (h s) f)"
| "bindP (Spawn t p) f = Spawn t (bindP p f)"

definition seqP :: "('t, 's, 'a) prog \<Rightarrow> ('t, 's, 'b) prog \<Rightarrow> ('t, 's, 'b) prog" where
  "seqP m p = bindP m (\<lambda>_. p)"

definition atom :: "('s \<Rightarrow> 'a \<times> 's) \<Rightarrow> ('t, 's, 'a) prog" where
  "atom g = Act (\<lambda>s. snd (g s)) (\<lambda>s. Ret (fst (g s)))"

definition getP :: "('s \<Rightarrow> 'a) \<Rightarrow> ('t, 's, 'a) prog" where
  "getP f = Act (\<lambda>s. s) (\<lambda>s. Ret (f s))"

definition modifyP :: "('s \<Rightarrow> 's) \<Rightarrow> ('t, 's, unit) prog" where
  "modifyP f = Act f (\<lambda>_. Ret ())"

definition goP :: "'t \<Rightarrow> ('t, 's, unit) prog" where
  "goP t = Spawn t (Ret ())"

definition whenP :: "bool \<Rightarrow> ('t, 's, unit) prog \<Rightarrow> ('t, 's, unit) prog" where
  "whenP b p = (if b then p else Ret ())"

text \<open>\<open>for _, x := range xs\<close>: with a loop variable threaded through, and with an error that ends the loop.\<close>

primrec foldP :: "('x \<Rightarrow> 'a \<Rightarrow> ('t, 's, 'a) prog) \<Rightarrow> 'x list \<Rightarrow> 'a \<Rightarrow> ('t, 's, 'a) prog" where
  "foldP f [] a = Ret a"
| "foldP f (x # xs) a = bindP (f x a) (foldP f xs)"

definition forP :: "('x \<Rightarrow> ('t, 's, unit) prog) \<Rightarrow> 'x list \<Rightarrow> ('t, 's, unit) prog" where
  "forP f xs = foldP (\<lambda>x _. f x) xs ()"

definition bindR' :: "('t, 's, 'a result) prog \<Rightarrow> ('a \<Rightarrow> ('t, 's, 'b result) prog) \<Rightarrow> ('t, 's, 'b result) prog" where
  "bindR' m f = bindP m (\<lambda>r. case r of Inl e \<Rightarrow> Ret (Inl e) | Inr a \<Rightarrow> f a)"

primrec foldR :: "('x \<Rightarrow> 'a \<Rightarrow> ('t, 's, 'a result) prog) \<Rightarrow> 'x list \<Rightarrow> 'a \<Rightarrow> ('t, 's, 'a result) prog" where
  "foldR f [] a = Ret (Inr a)"
| "foldR f (x # xs) a = bindR' (f x a) (foldR f xs)"

lemma bindP_Ret [simp]: "bindP p Ret = p"
  by (induction p) auto

lemma bindP_assoc: "bindP (bindP p f) g = bindP p (\<lambda>a. bindP (f a) g)"
  by (induction p) auto

subsection \<open>One goroutine alone\<close>

primrec exec :: "('t, 's, 'a) prog \<Rightarrow> 's \<Rightarrow> 'a \<times> 's \<times> 't list" where
  "exec (Ret a) s = (a, s, [])"
| "exec (Act u h) s = exec (h s) (u s)"
| "exec (Spawn t p) s = (case exec p s of (a, s', ts) \<Rightarrow> (a, s', t # ts))"

lemma exec_bindP:
  "exec (bindP p f) s = (case exec p s of (a, s', ts) \<Rightarrow> case exec (f a) s' of (b, s'', ts') \<Rightarrow> (b, s'', ts @ ts'))"
  by (induction p arbitrary: s) (auto split: prod.splits)

lemma exec_seqP:
  "exec (seqP p q) s = (case exec p s of (a, s', ts) \<Rightarrow> case exec q s' of (b, s'', ts') \<Rightarrow> (b, s'', ts @ ts'))"
  by (simp add: seqP_def exec_bindP)

lemma exec_basic [simp]:
  "exec (atom g) s = (fst (g s), snd (g s), [])"
  "exec (getP f) s = (f s, s, [])"
  "exec (modifyP u) s = ((), u s, [])"
  "exec (goP t) s = ((), s, [t])"
  by (simp_all add: atom_def getP_def modifyP_def goP_def)

subsection \<open>All goroutines\<close>

text \<open>
  A configuration is the list of the goroutines, the one of the reconcile loop first, and the
  shared state. When the loop is between two iterations it takes up any of \<open>calls\<close>; a request of the
  control plane is a goroutine of its own, one of \<open>reqs\<close>, at any time.
\<close>

type_synonym ('t, 's) config = "('t, 's, unit) prog list \<times> 's"

inductive step ::
  "('t \<Rightarrow> ('t, 's, unit) prog) \<Rightarrow> ('t, 's, unit) prog set \<Rightarrow> ('t, 's, unit) prog set \<Rightarrow>
   ('t, 's) config \<Rightarrow> ('t, 's) config \<Rightarrow> bool"
  for body :: "'t \<Rightarrow> ('t, 's, unit) prog" and calls :: "('t, 's, unit) prog set" and reqs :: "('t, 's, unit) prog set" where
  step_act: "i < length ps \<Longrightarrow> ps ! i = Act u h \<Longrightarrow> step body calls reqs (ps, s) (ps[i := h s], u s)"
| step_spawn: "i < length ps \<Longrightarrow> ps ! i = Spawn t p \<Longrightarrow> step body calls reqs (ps, s) (ps[i := p] @ [body t], s)"
| step_call: "0 < length ps \<Longrightarrow> ps ! 0 = Ret () \<Longrightarrow> p \<in> calls \<Longrightarrow> step body calls reqs (ps, s) (ps[0 := p], s)"
| step_request: "p \<in> reqs \<Longrightarrow> step body calls reqs (ps, s) (ps @ [p], s)"

inductive_cases step_elim: "step body calls reqs (ps, s) (ps', s')"

definition steps ::
  "('t \<Rightarrow> ('t, 's, unit) prog) \<Rightarrow> ('t, 's, unit) prog set \<Rightarrow> ('t, 's, unit) prog set \<Rightarrow>
   ('t, 's) config \<Rightarrow> ('t, 's) config \<Rightarrow> bool" where
  "steps body calls reqs = (step body calls reqs)\<^sup>*\<^sup>*"

definition finished :: "('t, 's) config \<Rightarrow> bool" where
  "finished c \<longleftrightarrow> list_all (\<lambda>p. p = Ret ()) (fst c)"

lemma steps_refl: "steps body calls reqs c c"
  by (simp add: steps_def)

lemma steps_step: "steps body calls reqs c d \<Longrightarrow> step body calls reqs d e \<Longrightarrow> steps body calls reqs c e"
  by (simp add: steps_def rtranclp.rtrancl_into_rtrancl)

lemma step_steps: "step body calls reqs c d \<Longrightarrow> steps body calls reqs d e \<Longrightarrow> steps body calls reqs c e"
  by (simp add: steps_def converse_rtranclp_into_rtranclp)

lemma steps_trans: "steps body calls reqs c d \<Longrightarrow> steps body calls reqs d e \<Longrightarrow> steps body calls reqs c e"
  by (simp add: steps_def)

lemma steps_invariant:
  assumes "steps body calls reqs c d" "P c" "\<And>c d. P c \<Longrightarrow> step body calls reqs c d \<Longrightarrow> P d"
  shows "P d"
  using assms(1) unfolding steps_def by (induction rule: rtranclp_induct) (use assms(2,3) in blast)+

text \<open>A run of one goroutine alone is one of the interleavings.\<close>

lemma exec_steps:
  assumes "i < length ps" "ps ! i = p" "exec p s = (a, s', ts)"
  shows "steps body calls reqs (ps, s) (ps[i := Ret a] @ map body ts, s')"
  using assms
proof (induction p arbitrary: s ps ts)
  case (Ret a)
  then have "ps[i := Ret a] = ps" by (metis list_update_id)
  then show ?case using Ret by (simp add: steps_refl)
next
  case (Act u h)
  have "step body calls reqs (ps, s) (ps[i := h s], u s)" using Act.prems by (intro step_act) auto
  moreover have "steps body calls reqs (ps[i := h s], u s) (ps[i := h s, i := Ret a] @ map body ts, s')"
    using Act.prems Act.IH [of "h s" "ps[i := h s]" "u s" ts] by simp
  ultimately show ?case by (simp add: step_steps)
next
  case (Spawn t p)
  obtain ts' where e: "exec p s = (a, s', ts')" "ts = t # ts'"
    using Spawn.prems(3) by (auto split: prod.splits)
  let ?ps = "ps[i := p] @ [body t]"
  have "step body calls reqs (ps, s) (?ps, s)" using Spawn.prems by (intro step_spawn) auto
  moreover have "steps body calls reqs (?ps, s) (?ps[i := Ret a] @ map body ts', s')"
    using Spawn.prems(1) Spawn.IH [of ?ps s ts'] e by (simp add: nth_append)
  moreover have "?ps[i := Ret a] @ map body ts' = ps[i := Ret a] @ map body ts"
    using Spawn.prems(1) e(2) by (simp add: list_update_append)
  ultimately show ?case by (metis step_steps)
qed

text \<open>A schedule that names the goroutine of each step; it evaluates.\<close>

primrec stepAt :: "('t \<Rightarrow> ('t, 's, unit) prog) \<Rightarrow> nat \<Rightarrow> ('t, 's) config \<Rightarrow> ('t, 's) config" where
  "stepAt body i (ps, s) =
     (if i < length ps
      then case ps ! i of
             Ret _ \<Rightarrow> (ps, s)
           | Act u h \<Rightarrow> (ps[i := h s], u s)
           | Spawn t p \<Rightarrow> (ps[i := p] @ [body t], s)
      else (ps, s))"

definition schedule :: "('t \<Rightarrow> ('t, 's, unit) prog) \<Rightarrow> (nat \<times> nat) list \<Rightarrow> ('t, 's) config \<Rightarrow> ('t, 's) config" where
  "schedule body = fold (\<lambda>(i, n). (stepAt body i ^^ n))"

lemma stepAt_steps: "steps body calls reqs c (stepAt body i c)"
proof (cases c)
  case (Pair ps s)
  show ?thesis
  proof (cases "i < length ps")
    case True
    then show ?thesis using Pair
      by (cases "ps ! i") (auto intro!: step_steps [OF _ steps_refl] step_act step_spawn simp: steps_refl)
  qed (simp add: Pair steps_refl)
qed

lemma stepAt_pow_steps: "steps body calls reqs c ((stepAt body i ^^ n) c)"
  by (induction n) (auto simp: steps_refl intro: steps_trans stepAt_steps)

lemma schedule_steps: "steps body calls reqs c (schedule body order c)"
proof (induction order arbitrary: c)
  case (Cons io order)
  then show ?case
    using steps_trans [OF stepAt_pow_steps [of body calls reqs c "snd io" "fst io"]]
    by (simp add: schedule_def split_beta)
qed (simp add: schedule_def steps_refl)

subsection \<open>What every step respects\<close>

primrec sat :: "('s \<Rightarrow> 's \<Rightarrow> bool) \<Rightarrow> ('t \<Rightarrow> bool) \<Rightarrow> ('t, 's, 'a) prog \<Rightarrow> bool" where
  "sat R T (Ret a) = True"
| "sat R T (Act u h) = (\<forall>s. R s (u s) \<and> sat R T (h s))"
| "sat R T (Spawn t p) = (T t \<and> sat R T p)"

lemma sat_bindP: "sat R T p \<Longrightarrow> (\<And>a. sat R T (f a)) \<Longrightarrow> sat R T (bindP p f)"
  by (induction p) auto

lemma sat_seqP: "sat R T p \<Longrightarrow> sat R T q \<Longrightarrow> sat R T (seqP p q)"
  by (simp add: seqP_def sat_bindP)

lemma sat_Ret: "sat R T (Ret a)"
  by simp

lemma sat_atom: "(\<And>s. R s (snd (g s))) \<Longrightarrow> sat R T (atom g)"
  by (simp add: atom_def)

lemma sat_modifyP: "(\<And>s. R s (f s)) \<Longrightarrow> sat R T (modifyP f)"
  by (simp add: modifyP_def)

lemma sat_getP: "(\<And>s. R s s) \<Longrightarrow> sat R T (getP f)"
  by (simp add: getP_def)

lemma sat_goP: "T t \<Longrightarrow> sat R T (goP t)"
  by (simp add: goP_def)

lemma sat_whenP: "(b \<Longrightarrow> sat R T p) \<Longrightarrow> sat R T (whenP b p)"
  by (simp add: whenP_def)

lemma sat_foldP: "(\<And>x a. sat R T (f x a)) \<Longrightarrow> sat R T (foldP f xs a)"
  by (induction xs arbitrary: a) (auto intro: sat_bindP)

lemma sat_forP: "(\<And>x. sat R T (f x)) \<Longrightarrow> sat R T (forP f xs)"
  by (simp add: forP_def sat_foldP)

lemma sat_bindR': "sat R T p \<Longrightarrow> (\<And>a. sat R T (f a)) \<Longrightarrow> sat R T (bindR' p f)"
  by (auto simp: bindR'_def intro!: sat_bindP split: sum.split)

lemma sat_foldR: "(\<And>x a. sat R T (f x a)) \<Longrightarrow> sat R T (foldR f xs a)"
  by (induction xs arbitrary: a) (auto intro: sat_bindR')

lemma sat_if: "(b \<Longrightarrow> sat R T p) \<Longrightarrow> (\<not> b \<Longrightarrow> sat R T q) \<Longrightarrow> sat R T (if b then p else q)"
  by simp

lemma sat_let: "(\<And>x. sat R T (f x)) \<Longrightarrow> sat R T (Let a f)"
  by simp

lemma sat_sum: "(\<And>e. sat R T (f e)) \<Longrightarrow> (\<And>a. sat R T (g a)) \<Longrightarrow> sat R T (case r of Inl e \<Rightarrow> f e | Inr a \<Rightarrow> g a)"
  by (cases r) auto

lemma sat_option: "sat R T p \<Longrightarrow> (\<And>a. sat R T (g a)) \<Longrightarrow> sat R T (case x of None \<Rightarrow> p | Some a \<Rightarrow> g a)"
  by (cases x) auto

lemma sat_prod: "(\<And>a b. sat R T (f a b)) \<Longrightarrow> sat R T (case x of (a, b) \<Rightarrow> f a b)"
  by (cases x) auto

lemmas sat_rules = sat_Ret sat_bindP sat_seqP sat_whenP sat_foldP sat_forP sat_bindR' sat_foldR sat_if sat_let
  sat_sum sat_option sat_prod

lemma sat_mono:
  "sat R T p \<Longrightarrow> (\<And>s s'. R s s' \<Longrightarrow> R' s s') \<Longrightarrow> (\<And>t. T t \<Longrightarrow> T' t) \<Longrightarrow> sat R' T' p"
  by (induction p) auto

lemma exec_spawns: "sat R T p \<Longrightarrow> exec p s = (a, s', ts) \<Longrightarrow> list_all T ts"
  by (induction p arbitrary: s ts) (fastforce split: prod.splits)+

lemma exec_sat:
  assumes "sat R T p" "exec p s = (a, s', ts)" "reflp R" "transp R"
  shows "R s s'"
  using assms(1,2)
proof (induction p arbitrary: s ts)
  case (Ret a)
  then show ?case using assms(3) by (auto dest: reflpD)
next
  case (Act u h)
  have "R (u s) s'" using Act.IH [of "h s" "u s" ts] Act.prems by simp
  then show ?case using Act.prems(1) assms(4) by (auto dest: transpD)
qed (auto split: prod.splits)

subsection \<open>Shared counters\<close>

text \<open>
  \<open>\<mu>\<close> is a counter in the shared state, \<open>cost t\<close> what the spawner of \<open>t\<close> has taken on its behalf.
  A program that owes \<open>c\<close> gives exactly \<open>c\<close> back, on every path and whatever the other goroutines
  do in between, as long as they respect the same contract. \<open>Q\<close> is what it owes at its end, given
  its result.
\<close>

primrec owes :: "('s \<Rightarrow> nat) \<Rightarrow> ('t \<Rightarrow> nat) \<Rightarrow> ('a \<Rightarrow> nat \<Rightarrow> bool) \<Rightarrow> ('t, 's, 'a) prog \<Rightarrow> nat \<Rightarrow> bool" where
  "owes \<mu> cost Q (Ret a) c = Q a c"
| "owes \<mu> cost Q (Act u h) c = (\<forall>s. c \<le> \<mu> s \<longrightarrow> (\<exists>c'. c' + \<mu> s = c + \<mu> (u s) \<and> owes \<mu> cost Q (h s) c'))"
| "owes \<mu> cost Q (Spawn t p) c = (cost t \<le> c \<and> owes \<mu> cost Q p (c - cost t))"

lemma owes_bindP: "owes \<mu> cost Q (bindP p f) c = owes \<mu> cost (\<lambda>a c. owes \<mu> cost Q (f a) c) p c"
  by (induction p arbitrary: c) auto

lemma owes_seqP: "owes \<mu> cost Q (seqP p q) c = owes \<mu> cost (\<lambda>_ c. owes \<mu> cost Q q c) p c"
  by (simp add: seqP_def owes_bindP)

lemma owes_mono: "owes \<mu> cost Q p c \<Longrightarrow> (\<And>a c. Q a c \<Longrightarrow> Q' a c) \<Longrightarrow> owes \<mu> cost Q' p c"
  by (induction p arbitrary: c) (auto, metis rangeI)

text \<open>A program that neither touches the counter nor starts a goroutine that holds some of it.\<close>

definition neutral :: "('s \<Rightarrow> nat) \<Rightarrow> ('t \<Rightarrow> nat) \<Rightarrow> ('t, 's, 'a) prog \<Rightarrow> bool" where
  "neutral \<mu> cost = sat (\<lambda>s s'. \<mu> s' = \<mu> s) (\<lambda>t. cost t = 0)"

lemma owes_neutral: "neutral \<mu> cost p \<Longrightarrow> (\<And>a. Q a c) \<Longrightarrow> owes \<mu> cost Q p c"
  unfolding neutral_def by (induction p) auto

lemma owes_neutral_bindP:
  "neutral \<mu> cost p \<Longrightarrow> (\<And>a. owes \<mu> cost Q (f a) c) \<Longrightarrow> owes \<mu> cost Q (bindP p f) c"
  by (simp add: owes_bindP owes_neutral)

lemma owes_neutral_seqP:
  "neutral \<mu> cost p \<Longrightarrow> owes \<mu> cost Q q c \<Longrightarrow> owes \<mu> cost Q (seqP p q) c"
  by (simp add: owes_seqP owes_neutral)

lemma owes_cases:
  "(b \<Longrightarrow> owes \<mu> cost Q p c) \<Longrightarrow> (\<not> b \<Longrightarrow> owes \<mu> cost Q q c) \<Longrightarrow> owes \<mu> cost Q (if b then p else q) c"
  "(\<And>e. owes \<mu> cost Q (f e) c) \<Longrightarrow> (\<And>a. owes \<mu> cost Q (g a) c) \<Longrightarrow> owes \<mu> cost Q (case r of Inl e \<Rightarrow> f e | Inr a \<Rightarrow> g a) c"
  "owes \<mu> cost Q p c \<Longrightarrow> (\<And>x. owes \<mu> cost Q (o' x) c) \<Longrightarrow> owes \<mu> cost Q (case y of None \<Rightarrow> p | Some x \<Rightarrow> o' x) c"
  "(\<And>u v. owes \<mu> cost Q (h u v) c) \<Longrightarrow> owes \<mu> cost Q (case z of (u, v) \<Rightarrow> h u v) c"
  "(\<And>x. owes \<mu> cost Q (l x) c) \<Longrightarrow> owes \<mu> cost Q (Let y' l) c"
  by (auto split: sum.split option.split prod.split)

lemmas owes_rules = owes_neutral_bindP owes_neutral_seqP owes_cases

text \<open>A program that ends owing nothing when it starts owing nothing.\<close>

definition net :: "('s \<Rightarrow> nat) \<Rightarrow> ('t \<Rightarrow> nat) \<Rightarrow> ('t, 's, 'a) prog \<Rightarrow> bool" where
  "net \<mu> cost p = owes \<mu> cost (\<lambda>_ c. c = 0) p 0"

lemma net_neutral: "neutral \<mu> cost p \<Longrightarrow> net \<mu> cost p"
  by (simp add: net_def owes_neutral)

lemma net_Ret: "net \<mu> cost (Ret a)"
  by (simp add: net_def)

lemma net_bindP: "net \<mu> cost p \<Longrightarrow> (\<And>a. net \<mu> cost (f a)) \<Longrightarrow> net \<mu> cost (bindP p f)"
  unfolding net_def owes_bindP by (erule owes_mono) simp

lemma net_seqP: "net \<mu> cost p \<Longrightarrow> net \<mu> cost q \<Longrightarrow> net \<mu> cost (seqP p q)"
  by (simp add: seqP_def net_bindP)

lemma net_whenP: "net \<mu> cost p \<Longrightarrow> net \<mu> cost (whenP b p)"
  by (simp add: whenP_def net_Ret)

lemma net_foldP: "(\<And>x a. net \<mu> cost (f x a)) \<Longrightarrow> net \<mu> cost (foldP f xs a)"
  by (induction xs arbitrary: a) (simp_all add: net_Ret net_bindP)

lemma net_cases:
  "(b \<Longrightarrow> net \<mu> cost p) \<Longrightarrow> (\<not> b \<Longrightarrow> net \<mu> cost q) \<Longrightarrow> net \<mu> cost (if b then p else q)"
  "(\<And>e. net \<mu> cost (f e)) \<Longrightarrow> (\<And>a. net \<mu> cost (g a)) \<Longrightarrow> net \<mu> cost (case r of Inl e \<Rightarrow> f e | Inr a \<Rightarrow> g a)"
  "net \<mu> cost p \<Longrightarrow> (\<And>x. net \<mu> cost (o' x)) \<Longrightarrow> net \<mu> cost (case y of None \<Rightarrow> p | Some x \<Rightarrow> o' x)"
  "(\<And>u v. net \<mu> cost (h u v)) \<Longrightarrow> net \<mu> cost (case z of (u, v) \<Rightarrow> h u v)"
  "net \<mu> cost p \<Longrightarrow> (\<And>x xs. net \<mu> cost (k x xs)) \<Longrightarrow> net \<mu> cost (case y' of [] \<Rightarrow> p | x # xs \<Rightarrow> k x xs)"
  "(\<And>x. net \<mu> cost (l x)) \<Longrightarrow> net \<mu> cost (Let z' l)"
  by (auto split: sum.split option.split prod.split list.split)

lemmas net_rules = net_Ret net_bindP net_seqP net_whenP net_foldP net_cases

text \<open>The counter is the sum of what the goroutines owe.\<close>

definition balanced :: "('s \<Rightarrow> nat) \<Rightarrow> ('t \<Rightarrow> nat) \<Rightarrow> ('t, 's) config \<Rightarrow> bool" where
  "balanced \<mu> cost c \<longleftrightarrow> (\<exists>ns. list_all2 (owes \<mu> cost (\<lambda>_ c. c = 0)) (fst c) ns \<and> sum_list ns = \<mu> (snd c))"

locale counter =
  fixes \<mu> :: "'s \<Rightarrow> nat" and cost :: "'t \<Rightarrow> nat"
    and body :: "'t \<Rightarrow> ('t, 's, unit) prog"
    and calls :: "('t, 's, unit) prog set" and reqs :: "('t, 's, unit) prog set"
  assumes body_owes: "owes \<mu> cost (\<lambda>_ c. c = 0) (body t) (cost t)"
    and calls_owe: "p \<in> calls \<Longrightarrow> net \<mu> cost p"
    and reqs_owe: "p \<in> reqs \<Longrightarrow> net \<mu> cost p"
begin

lemma balanced_step:
  assumes "balanced \<mu> cost c" "step body calls reqs c d"
  shows "balanced \<mu> cost d"
  using assms(2,1)
proof (cases rule: step.cases)
  case (step_act i ps u h s)
  obtain ns where ns: "list_all2 (owes \<mu> cost (\<lambda>_ c. c = 0)) ps ns" "sum_list ns = \<mu> s"
    using assms(1) step_act by (auto simp: balanced_def)
  then have i: "i < length ns" using step_act(3) by (simp add: list_all2_lengthD)
  have le: "ns ! i \<le> \<mu> s" using ns(2) i elem_le_sum_list [of i ns] by simp
  have "owes \<mu> cost (\<lambda>_ c. c = 0) (Act u h) (ns ! i)"
    using list_all2_nthD [OF ns(1), of i] step_act by simp
  then obtain c' where c': "c' + \<mu> s = ns ! i + \<mu> (u s)" "owes \<mu> cost (\<lambda>_ c. c = 0) (h s) c'"
    using le by auto
  have "sum_list (ns[i := c']) = sum_list ns + c' - ns ! i"
    using i by (simp add: sum_list_update)
  then have "sum_list (ns[i := c']) = \<mu> (u s)" using c'(1) ns(2) le by simp
  then show ?thesis using ns(1) c'(2) step_act by (auto simp: balanced_def intro!: exI [of _ "ns[i := c']"] list_all2_update_cong)
next
  case (step_spawn i ps t p s)
  obtain ns where ns: "list_all2 (owes \<mu> cost (\<lambda>_ c. c = 0)) ps ns" "sum_list ns = \<mu> s"
    using assms(1) step_spawn by (auto simp: balanced_def)
  then have i: "i < length ns" using step_spawn(3) by (simp add: list_all2_lengthD)
  have le: "ns ! i \<le> sum_list ns" using i elem_le_sum_list [of i ns] by simp
  have t: "cost t \<le> ns ! i" "owes \<mu> cost (\<lambda>_ c. c = 0) p (ns ! i - cost t)"
    using list_all2_nthD [OF ns(1), of i] step_spawn by auto
  have "sum_list (ns[i := ns ! i - cost t] @ [cost t]) = \<mu> s"
    using i t(1) ns(2) le by (simp add: sum_list_update)
  then show ?thesis using ns(1) t(2) step_spawn body_owes
    by (auto simp: balanced_def intro!: exI [of _ "ns[i := ns ! i - cost t] @ [cost t]"] list_all2_appendI list_all2_update_cong)
next
  case (step_call ps p s)
  obtain ns where ns: "list_all2 (owes \<mu> cost (\<lambda>_ c. c = 0)) ps ns" "sum_list ns = \<mu> s"
    using assms(1) step_call by (auto simp: balanced_def)
  have "ns ! 0 = 0" using list_all2_nthD [OF ns(1), of 0] step_call by simp
  then have "list_all2 (owes \<mu> cost (\<lambda>_ c. c = 0)) (ps[0 := p]) (ns[0 := 0])" "ns[0 := 0] = ns"
    using ns(1) calls_owe [OF step_call(5), unfolded net_def] by (auto intro: list_all2_update_cong) (metis list_update_id)
  then show ?thesis using ns(2) step_call by (auto simp: balanced_def)
next
  case (step_request p ps s)
  obtain ns where ns: "list_all2 (owes \<mu> cost (\<lambda>_ c. c = 0)) ps ns" "sum_list ns = \<mu> s"
    using assms(1) step_request by (auto simp: balanced_def)
  then show ?thesis using reqs_owe [OF step_request(3), unfolded net_def] step_request
    by (auto simp: balanced_def intro!: exI [of _ "ns @ [0]"] list_all2_appendI)
qed

lemma balanced_steps: "steps body calls reqs c d \<Longrightarrow> balanced \<mu> cost c \<Longrightarrow> balanced \<mu> cost d"
  by (rule steps_invariant) (auto intro: balanced_step)

lemma balanced_init: "\<mu> s = 0 \<Longrightarrow> balanced \<mu> cost ([Ret ()], s)"
  by (auto simp: balanced_def intro!: exI [of _ "[0]"])

lemma balanced_finished:
  assumes "balanced \<mu> cost c" "finished c"
  shows "\<mu> (snd c) = 0"
proof -
  obtain ns where "list_all2 (owes \<mu> cost (\<lambda>_ c. c = 0)) (fst c) ns" "sum_list ns = \<mu> (snd c)"
    using assms(1) by (auto simp: balanced_def)
  moreover have "list_all2 (owes \<mu> cost (\<lambda>_ c. c = 0)) ps ns \<Longrightarrow> list_all (\<lambda>p. p = Ret ()) ps \<Longrightarrow> sum_list ns = 0" for ps ns
    by (induction rule: list_all2_induct) auto
  ultimately show ?thesis using assms(2) unfolding finished_def by metis
qed

text \<open>Goroutines that hold a part of the counter are covered by its value.\<close>

lemma balanced_holder:
  assumes "balanced \<mu> cost (ps, s)" "i < length ps"
    and "\<And>c. owes \<mu> cost (\<lambda>_ c. c = 0) (ps ! i) c \<Longrightarrow> 0 < c"
  shows "0 < \<mu> s"
proof -
  obtain ns where ns: "list_all2 (owes \<mu> cost (\<lambda>_ c. c = 0)) ps ns" "sum_list ns = \<mu> s"
    using assms(1) by (auto simp: balanced_def)
  then have "0 < ns ! i" "ns ! i \<le> sum_list ns"
    using assms(2,3) list_all2_nthD [OF ns(1)] elem_le_sum_list [of i ns] by (auto simp: list_all2_lengthD)
  then show ?thesis using ns(2) by simp
qed


lemma balanced_holders:
  assumes "balanced \<mu> cost (ps, s)" "i < length ps" "j < length ps" "i \<noteq> j"
    and "\<And>c. owes \<mu> cost (\<lambda>_ c. c = 0) (ps ! i) c \<Longrightarrow> 0 < c"
    and "\<And>c. owes \<mu> cost (\<lambda>_ c. c = 0) (ps ! j) c \<Longrightarrow> 0 < c"
  shows "2 \<le> \<mu> s"
proof -
  obtain ns where ns: "list_all2 (owes \<mu> cost (\<lambda>_ c. c = 0)) ps ns" "sum_list ns = \<mu> s"
    using assms(1) by (auto simp: balanced_def)
  have "0 < ns ! i" "0 < ns ! j"
    using assms list_all2_nthD [OF ns(1)] by blast+
  moreover have "ns ! i + ns ! j \<le> sum_list ns"
  proof -
    have l: "i < length ns" "j < length ns" using ns(1) assms(2,3) by (simp_all add: list_all2_lengthD)
    have "ns ! j \<le> sum_list (ns[i := 0])" using elem_le_sum_list [of j "ns[i := 0]"] l assms(4) by simp
    moreover have "sum_list (ns[i := 0]) = sum_list ns - ns ! i" using l by (simp add: sum_list_update)
    moreover have "ns ! i \<le> sum_list ns" using elem_le_sum_list [of i ns] l by simp
    ultimately show ?thesis by simp
  qed
  ultimately show ?thesis using ns(2) by simp
qed

end

end
