(* ===== verification/Orch_State.thy ===== *)
theory Orch_State
  imports Goroutines External_Types Labels Teardown Ledger_Accounting
begin

text \<open>
  The state of one tier's orchestrator and its atomic steps, src/internal/orchestrator: the
  configuration and the \<open>Orchestrator\<close> struct of orchestrator.go, the event bus of events.go, the
  freshness marks of health.go, the image references of images.go, and the calls into the
  ledger, the provider, Forgejo and the workers.

  \<^item> \<open>Env\<close> holds what is outside the package: the clock, the random IDs, the provider with its
    optional interfaces (\<open>None\<close> when the type assertion fails), the job source, the dispatcher,
    the cloud-init renderer, the hash and the time parser. Each call may read and change the
    world \<open>'w\<close>, of which nothing is assumed, so a theorem about every environment covers every
    sequence of answers, failures, delays and cancelled contexts.
  \<^item> A lock-protected access, a database operation and a call of the environment are one atomic
    step each. Logging has no effect on the state and is left out.
\<close>

subsection \<open>Configuration\<close>

record Config =
  cf_Tier :: string
  cf_ProviderName :: string
  cf_Driver :: string
  cf_Tag :: string
  cf_MaxScale :: int
  cf_WarmInstances :: int
  cf_Labels :: "string list"
  cf_InstanceType :: string
  cf_OneJobPerVM :: bool
  cf_ResetMode :: string
  cf_ResetMinRemaining :: duration
  cf_ResetTimeout :: duration
  cf_BootstrapFingerprint :: string
  cf_ForgejoSource :: string
  cf_PollInterval :: duration
  cf_RunnerVersion :: string
  cf_ReadyFile :: string
  cf_Teardown :: TeardownPolicy
  cf_AuthorizedKey :: string
  cf_FJBAgentDownloadURL :: string
  cf_FJBAgentToken :: string
  cf_TransportMode :: string
  cf_DrainOnShutdown :: bool
  cf_DrainTimeout :: duration
  cf_DestroyOnExit :: bool

record hotConfig =
  ht_MaxScale :: int
  ht_WarmInstances :: int
  ht_ResetMinRemaining :: duration
  ht_ResetTimeout :: duration
  ht_PollInterval :: duration
  ht_RunnerVersion :: string
  ht_Teardown :: TeardownPolicy
  ht_DrainOnShutdown :: bool
  ht_DrainTimeout :: duration
  ht_DestroyOnExit :: bool

definition hotConfigFrom :: "Config \<Rightarrow> hotConfig" where
  "hotConfigFrom cfg =
     \<lparr>ht_MaxScale = cf_MaxScale cfg, ht_WarmInstances = cf_WarmInstances cfg,
      ht_ResetMinRemaining = cf_ResetMinRemaining cfg, ht_ResetTimeout = cf_ResetTimeout cfg,
      ht_PollInterval = cf_PollInterval cfg, ht_RunnerVersion = cf_RunnerVersion cfg,
      ht_Teardown = cf_Teardown cfg, ht_DrainOnShutdown = cf_DrainOnShutdown cfg,
      ht_DrainTimeout = cf_DrainTimeout cfg, ht_DestroyOnExit = cf_DestroyOnExit cfg\<rparr>"

definition DefaultReadyFile :: string where
  "DefaultReadyFile = ''/run/fj-bellows-ready''"

definition applyRuntimeDefaults :: "Config \<Rightarrow> Config" where
  "applyRuntimeDefaults cfg =
     (let cfg = (if cf_ReadyFile cfg = '''' then cfg\<lparr>cf_ReadyFile := DefaultReadyFile\<rparr> else cfg);
          cfg = (if cf_ResetMinRemaining cfg = 0 then cfg\<lparr>cf_ResetMinRemaining := 10 * minute\<rparr> else cfg)
      in if cf_ResetTimeout cfg = 0 then cfg\<lparr>cf_ResetTimeout := 5 * minute\<rparr> else cfg)"

definition resetModeSnapshot :: string where
  "resetModeSnapshot = ''snapshot''"

definition TransportModeCacheGateway :: string where
  "TransportModeCacheGateway = ''cache-gateway''"

subsection \<open>The outside world\<close>

record Params =
  pm_RunnerVersion :: string
  pm_ReadyFile :: string
  pm_HostPrivateKey :: string
  pm_FJBAgentDownloadURL :: string
  pm_FJBAgentToken :: string

record 'w ManagedImageProvider =
  mp_CreateImage :: "ImageSpec \<Rightarrow> 'w \<Rightarrow> ManagedImage result \<times> 'w"
  mp_DeleteImage :: "string \<Rightarrow> 'w \<Rightarrow> unit result \<times> 'w"
  mp_ListImages :: "string \<Rightarrow> 'w \<Rightarrow> ManagedImage list result \<times> 'w"

record 'w Env =
  e_now :: "'w \<Rightarrow> instant \<times> 'w"
  e_shortID :: "'w \<Rightarrow> string \<times> 'w"
  e_List :: "string \<Rightarrow> 'w \<Rightarrow> Instance list result \<times> 'w"
  e_Provision :: "Spec \<Rightarrow> 'w \<Rightarrow> Instance result \<times> 'w"
  e_Destroy :: "string \<Rightarrow> 'w \<Rightarrow> unit result \<times> 'w"
  e_Pricer :: "(string \<Rightarrow> 'w \<Rightarrow> ProviderQuote result \<times> 'w) option"
  e_Resetter :: "(string \<Rightarrow> ResetSpec \<Rightarrow> 'w \<Rightarrow> Instance result \<times> 'w) option"
  e_Images :: "'w ManagedImageProvider option"
  e_ListBuilders :: "(string \<Rightarrow> 'w \<Rightarrow> Instance list result \<times> 'w) option"
  e_PromoteBuilder :: "(string \<Rightarrow> string \<Rightarrow> 'w \<Rightarrow> unit result \<times> 'w) option"
  e_WaitingJobs :: "'w \<Rightarrow> WaitingJob list result \<times> 'w"
  e_HoldForRoutingOptimization :: "(string \<Rightarrow> 'w \<Rightarrow> bool \<times> 'w) option"
  e_RegisterEphemeral :: "string \<Rightarrow> string list \<Rightarrow> 'w \<Rightarrow> Registration result \<times> 'w"
  e_ListRunners :: "'w \<Rightarrow> Runner list result \<times> 'w"
  e_DeleteRunner :: "int \<Rightarrow> 'w \<Rightarrow> unit result \<times> 'w"
  e_JobMetadata :: "(WaitingJob \<Rightarrow> 'w \<Rightarrow> JobMetadata result \<times> 'w) option"
  e_WaitReady :: "string \<Rightarrow> string \<Rightarrow> 'w \<Rightarrow> unit result \<times> 'w"
  e_RunJob :: "string \<Rightarrow> string \<Rightarrow> Registration \<Rightarrow> WaitingJob \<Rightarrow> 'w \<Rightarrow> unit result \<times> 'w"
  e_PinHostKey :: "(string \<Rightarrow> string \<Rightarrow> 'w \<Rightarrow> 'w) option"
  e_PrepareImage :: "(string \<Rightarrow> string \<Rightarrow> 'w \<Rightarrow> unit result \<times> 'w) option"
  e_generateHostKey :: "'w \<Rightarrow> (string \<times> string) result \<times> 'w"
  e_Render :: "Params \<Rightarrow> string result"
  e_sha256 :: "string \<Rightarrow> string"
  e_parseTime :: "string \<Rightarrow> instant option"

subsection \<open>The shared state\<close>

record OrchEvent =
  ev_At :: instant
  ev_Type :: string
  ev_Attrs :: "(string \<times> string) list"

record 'w Orchestrator =
  oc_world :: 'w
  oc_pool :: Pool
  oc_hot :: hotConfig
  oc_pollReset :: "duration option"
  oc_tickInterval :: duration
  oc_paused :: bool
  oc_pending :: nat
  oc_builders :: nat
  oc_dispatching :: "string set"
  oc_active :: "string set"
  oc_lastTickAt :: instant
  oc_lastProviderListAt :: instant
  oc_lastForgejoPollAt :: instant
  oc_reapSeen :: "string set"
  oc_managedImage :: string
  oc_lastImageCheck :: instant
  oc_lastBuilderCheck :: instant
  oc_imageRefs :: "string \<Rightarrow> nat"
  oc_store :: "SQLite option"
  oc_storageFailed :: bool
  oc_events :: "OrchEvent list"

text \<open>
  The constructor \<open>New\<close> followed by \<open>SetStore\<close> and the start of \<open>Run\<close>, which creates the ticker.
  \<open>oc_pollReset\<close> is the channel of capacity one that asks for a new ticker, \<open>oc_tickInterval\<close> the
  interval of the ticker in use. The configuration \<open>cfg\<close> it keeps is never changed
  and is an argument of the operations below.
\<close>

definition NewOrchestrator :: "Config \<Rightarrow> 'w \<Rightarrow> SQLite option \<Rightarrow> 'w Orchestrator" where
  "NewOrchestrator cfg world store =
     \<lparr>oc_world = world, oc_pool = NewPool, oc_hot = hotConfigFrom (applyRuntimeDefaults cfg),
      oc_pollReset = None, oc_tickInterval = cf_PollInterval cfg, oc_paused = False,
      oc_pending = 0, oc_builders = 0, oc_dispatching = {}, oc_active = {},
      oc_lastTickAt = zero_time, oc_lastProviderListAt = zero_time, oc_lastForgejoPollAt = zero_time,
      oc_reapSeen = {}, oc_managedImage = '''', oc_lastImageCheck = zero_time, oc_lastBuilderCheck = zero_time,
      oc_imageRefs = (\<lambda>_. 0), oc_store = store, oc_storageFailed = False, oc_events = []\<rparr>"

text \<open>The functions the orchestrator starts with \<open>wg.Go\<close>, by name and captured variables.\<close>

datatype Task =
    ProvisionTask
  | ForceReadyTask Instance Phase Generation
  | JobTask Node WaitingJob
  | DrainTask Node
  | IdleReapTask Node
  | BuildTask string

type_synonym ('w, 'a) orch = "(Task, 'w Orchestrator, 'a) prog"

subsection \<open>Atomic steps\<close>

definition worldP :: "('w \<Rightarrow> 'a \<times> 'w) \<Rightarrow> ('w, 'a) orch" where
  "worldP f = atom (\<lambda>s. case f (oc_world s) of (a, w) \<Rightarrow> (a, s\<lparr>oc_world := w\<rparr>))"

definition nowP :: "'w Env \<Rightarrow> ('w, instant) orch" where
  "nowP env = worldP (e_now env)"

definition shortIDP :: "'w Env \<Rightarrow> ('w, string) orch" where
  "shortIDP env = worldP (e_shortID env)"

definition poolP :: "(Pool \<Rightarrow> 'a) \<Rightarrow> ('w, 'a) orch" where
  "poolP f = getP (\<lambda>s. f (oc_pool s))"

definition poolUpd :: "(Pool \<Rightarrow> Pool) \<Rightarrow> ('w, unit) orch" where
  "poolUpd f = modifyP (\<lambda>s. s\<lparr>oc_pool := f (oc_pool s)\<rparr>)"

definition poolSetState :: "string \<Rightarrow> NodeState \<Rightarrow> ('w, bool) orch" where
  "poolSetState i st = atom (\<lambda>s. case SetState i st (oc_pool s) of (p, ok) \<Rightarrow> (ok, s\<lparr>oc_pool := p\<rparr>))"

definition poolResetReady :: "string \<Rightarrow> string \<Rightarrow> string \<Rightarrow> int \<Rightarrow> instant \<Rightarrow> ('w, bool) orch" where
  "poolResetReady i ip vpcIP generationID at =
     atom (\<lambda>s. case ResetReady i ip vpcIP generationID at (oc_pool s) of (p, ok) \<Rightarrow> (ok, s\<lparr>oc_pool := p\<rparr>))"

definition runtimeConfig :: "('w, hotConfig) orch" where
  "runtimeConfig = getP oc_hot"

text \<open>\<open>o.store != nil\<close>, and one operation of the ledger with its own reading of the clock.\<close>

definition hasStore :: "('w, bool) orch" where
  "hasStore = getP (\<lambda>s. oc_store s \<noteq> None)"

definition storeP :: "'w Env \<Rightarrow> (instant \<Rightarrow> SQLite \<Rightarrow> 'a result \<times> SQLite) \<Rightarrow> ('w, 'a result) orch" where
  "storeP env f = atom (\<lambda>s.
     case oc_store s of
       None \<Rightarrow> (Inl (ErrOther ''nil store''), s)
     | Some st \<Rightarrow> (case e_now env (oc_world s) of (now, w) \<Rightarrow>
         (case f now st of (r, st') \<Rightarrow> (r, s\<lparr>oc_world := w, oc_store := Some st'\<rparr>))))"

definition incPending :: "('w, unit) orch" where
  "incPending = modifyP (\<lambda>s. s\<lparr>oc_pending := oc_pending s + 1\<rparr>)"

definition decPending :: "('w, unit) orch" where
  "decPending = modifyP (\<lambda>s. if oc_pending s > 0 then s\<lparr>oc_pending := oc_pending s - 1\<rparr> else s)"

definition pendingCount :: "('w, nat) orch" where
  "pendingCount = getP oc_pending"

definition incBuilders :: "('w, unit) orch" where
  "incBuilders = modifyP (\<lambda>s. s\<lparr>oc_builders := oc_builders s + 1\<rparr>)"

definition decBuilders :: "('w, unit) orch" where
  "decBuilders = modifyP (\<lambda>s. if oc_builders s > 0 then s\<lparr>oc_builders := oc_builders s - 1\<rparr> else s)"

definition builderCount :: "('w, nat) orch" where
  "builderCount = getP oc_builders"

definition SetManagedImage :: "string \<Rightarrow> ('w, unit) orch" where
  "SetManagedImage i = modifyP (\<lambda>s. s\<lparr>oc_managedImage := i\<rparr>)"

definition managedImageID :: "('w, string) orch" where
  "managedImageID = getP oc_managedImage"

definition addActive :: "string \<Rightarrow> ('w, unit) orch" where
  "addActive uuid = modifyP (\<lambda>s. s\<lparr>oc_active := insert uuid (oc_active s)\<rparr>)"

definition removeActive :: "string \<Rightarrow> ('w, unit) orch" where
  "removeActive uuid = modifyP (\<lambda>s. s\<lparr>oc_active := oc_active s - {uuid}\<rparr>)"

definition isActive :: "string \<Rightarrow> ('w, bool) orch" where
  "isActive uuid = getP (\<lambda>s. uuid \<in> oc_active s)"

definition isDispatching :: "string \<Rightarrow> ('w, bool) orch" where
  "isDispatching handle = getP (\<lambda>s. handle \<in> oc_dispatching s)"

definition markDispatching :: "string \<Rightarrow> ('w, bool) orch" where
  "markDispatching handle =
     atom (\<lambda>s. if handle \<in> oc_dispatching s then (False, s)
               else (True, s\<lparr>oc_dispatching := insert handle (oc_dispatching s)\<rparr>))"

definition unmarkDispatching :: "string \<Rightarrow> ('w, unit) orch" where
  "unmarkDispatching handle = modifyP (\<lambda>s. s\<lparr>oc_dispatching := oc_dispatching s - {handle}\<rparr>)"

definition acquireManagedImage :: "('w, string) orch" where
  "acquireManagedImage =
     atom (\<lambda>s. let i = oc_managedImage s
               in (i, if i \<noteq> '''' then s\<lparr>oc_imageRefs := (oc_imageRefs s)(i := oc_imageRefs s i + 1)\<rparr> else s))"

definition releaseImage :: "string \<Rightarrow> ('w, unit) orch" where
  "releaseImage i =
     (if i = '''' then Ret ()
      else modifyP (\<lambda>s. if oc_imageRefs s i \<le> 1 then s\<lparr>oc_imageRefs := (oc_imageRefs s)(i := 0)\<rparr>
                        else s\<lparr>oc_imageRefs := (oc_imageRefs s)(i := oc_imageRefs s i - 1)\<rparr>))"

definition imageInUse :: "string \<Rightarrow> ('w, bool) orch" where
  "imageInUse i = getP (\<lambda>s. oc_imageRefs s i > 0)"

text \<open>The freshness marks read the clock while they hold the lock.\<close>

definition markWith :: "'w Env \<Rightarrow> (instant \<Rightarrow> 'w Orchestrator \<Rightarrow> 'w Orchestrator) \<Rightarrow> ('w, unit) orch" where
  "markWith env f = modifyP (\<lambda>s. case e_now env (oc_world s) of (t, w) \<Rightarrow> f t (s\<lparr>oc_world := w\<rparr>))"

definition markTick :: "'w Env \<Rightarrow> ('w, unit) orch" where
  "markTick env = markWith env (\<lambda>t s. s\<lparr>oc_lastTickAt := t\<rparr>)"

definition markProviderList :: "'w Env \<Rightarrow> ('w, unit) orch" where
  "markProviderList env = markWith env (\<lambda>t s. s\<lparr>oc_lastProviderListAt := t\<rparr>)"

definition markForgejoPoll :: "'w Env \<Rightarrow> ('w, unit) orch" where
  "markForgejoPoll env = markWith env (\<lambda>t s. s\<lparr>oc_lastForgejoPollAt := t\<rparr>)"

definition emit :: "'w Env \<Rightarrow> Config \<Rightarrow> string \<Rightarrow> (string \<times> string) list \<Rightarrow> ('w, unit) orch" where
  "emit env cfg typ attrs =
     (let enriched = AList.update ''driver'' (cf_Driver cfg)
                       (AList.update ''provider'' (cf_ProviderName cfg) (AList.update ''tier'' (cf_Tier cfg) attrs))
      in bindP (nowP env) (\<lambda>at. modifyP (\<lambda>s. s\<lparr>oc_events := oc_events s @
           [\<lparr>ev_At = at, ev_Type = typ, ev_Attrs = enriched\<rparr>]\<rparr>)))"

definition addrForInstance :: "Config \<Rightarrow> string \<Rightarrow> string \<Rightarrow> string" where
  "addrForInstance cfg ip4 vpcIP = (if cf_TransportMode cfg = TransportModeCacheGateway then vpcIP else ip4)"

definition addrFor :: "Config \<Rightarrow> Node \<Rightarrow> string" where
  "addrFor cfg n = (if cf_TransportMode cfg = TransportModeCacheGateway then VPCIP n else IP n)"

end
