(* ===== verification/Orch_Ledger.thy ===== *)
theory Orch_Ledger
  imports Orch_State
begin

text \<open>
  How the orchestrator keeps the ledger, src/internal/orchestrator/persistence.go: observed and
  running jobs, the intent and the outcome of every provider mutation, phases, generations and
  costs, and the recovery of intents that a crash left pending. The store of the daemon is the
  SQLite store, which implements \<open>ResourceGenerationActivator\<close>, so \<open>activateStoredResource\<close> takes
  that branch.
\<close>

subsection \<open>Zero values\<close>

definition zeroResource :: Resource where
  "zeroResource = \<lparr>r_ID = 0, r_OperationID = '''', r_Provider = '''', r_Driver = '''', r_Tier = '''', r_ExternalID = '''',
     r_Name = '''', r_InstanceType = '''', r_Tag = '''', r_State = ResourceUnset, r_PriceQuoteID = 0,
     r_ProviderCreatedAt = zero_time, r_OpenedAt = zero_time, r_UpdatedAt = zero_time, r_ClosedAt = zero_time,
     r_CloseReason = ''''\<rparr>"

definition zeroGeneration :: Generation where
  "zeroGeneration = \<lparr>g_ID = 0, g_ResourceID = 0, g_Number = 0, g_OperationID = '''', g_ImageID = '''',
     g_Fingerprint = '''', g_State = GenerationUnset, g_StartedAt = zero_time, g_ReadyAt = zero_time,
     g_ClosedAt = zero_time\<rparr>"

definition zeroPhase :: Phase where
  "zeroPhase = \<lparr>p_ID = 0, p_ResourceID = 0, p_GenerationID = 0, p_JobID = 0, p_Kind = PhaseUnset,
     p_StartedAt = zero_time, p_EndedAt = zero_time, p_Outcome = '''', p_Detail = ''''\<rparr>"

definition zeroJob :: Job where
  "zeroJob = \<lparr>j_ID = 0, j_Source = '''', j_Handle = '''', j_ForgejoJobID = 0, j_Attempt = 0, j_RepositoryID = 0,
     j_RepositoryOwnerID = 0, j_Repository = '''', j_Workflow = '''', j_WorkflowFile = '''', j_JobName = '''',
     j_IdentityQuality = IdentityUnset, j_Tier = '''', j_Provider = '''', j_Driver = '''', j_ResourceID = 0,
     j_GenerationID = 0, j_Status = JobUnset, j_Conclusion = '''', j_InfrastructureFailure = '''',
     j_QueueMeasurementSource = '''', j_RunMeasurementSource = '''', j_FirstSeenAt = zero_time,
     j_QueuedAt = zero_time, j_DispatchedAt = zero_time, j_RunnerStartedAt = zero_time,
     j_RunnerFinishedAt = zero_time, j_CompletedAt = zero_time, j_UpdatedAt = zero_time\<rparr>"

definition zeroCost :: CostEntry where
  "zeroCost = \<lparr>c_ID = 0, c_ResourceID = 0, c_SnapshotID = 0, c_JobID = 0, c_PriceQuoteID = 0, c_Kind = CostUnset,
     c_Currency = '''', c_Nanos = 0, c_Known = False, c_Estimated = False, c_StartedAt = zero_time,
     c_EndedAt = zero_time, c_RecordedAt = zero_time\<rparr>"

fun phaseKindName :: "PhaseKind \<Rightarrow> string" where
  "phaseKindName PhaseUnset = ''''"
| "phaseKindName PhaseProvisioning = ''provisioning''"
| "phaseKindName PhaseReadyIdle = ''ready_idle''"
| "phaseKindName PhaseJob = ''job''"
| "phaseKindName PhaseReset = ''reset''"
| "phaseKindName PhaseRemoving = ''removing''"
| "phaseKindName PhaseImageBuild = ''image_build''"

fun costKindName :: "CostKind \<Rightarrow> string" where
  "costKindName CostUnset = ''''"
| "costKindName CostDirectCompute = ''direct_compute''"
| "costKindName CostBilledCompute = ''billed_compute''"
| "costKindName CostBoot = ''boot''"
| "costKindName CostWarmIdle = ''warm_idle''"
| "costKindName CostReset = ''reset''"
| "costKindName CostBillingOverhead = ''billing_overhead''"
| "costKindName CostImageBuilder = ''image_builder''"
| "costKindName CostSnapshotStorage = ''snapshot_storage''"

subsection \<open>Errors of the store\<close>

fun errOf :: "'a result \<Rightarrow> go_error option" where
  "errOf (Inl e) = Some e"
| "errOf (Inr a) = None"

definition storageError :: "'w Env \<Rightarrow> Config \<Rightarrow> string \<Rightarrow> go_error option \<Rightarrow> ('w, unit) orch" where
  "storageError env cfg operation err =
     (case err of
        None \<Rightarrow> modifyP (\<lambda>s. s\<lparr>oc_storageFailed := False\<rparr>)
      | Some e \<Rightarrow> seqP (modifyP (\<lambda>s. s\<lparr>oc_storageFailed := True\<rparr>))
                      (emit env cfg ''storage_failed'' [(''operation'', operation)]))"

text \<open>\<open>if err := call; err != nil \{ o.storageError(operation, err) \}\<close>\<close>

definition reportFailure :: "'w Env \<Rightarrow> Config \<Rightarrow> string \<Rightarrow> ('w, 'a result) orch \<Rightarrow> ('w, unit) orch" where
  "reportFailure env cfg operation call =
     bindP call (\<lambda>r. case r of Inl e \<Rightarrow> storageError env cfg operation (Some e) | Inr _ \<Rightarrow> Ret ())"

text \<open>\<open>v, err := call; o.storageError(operation, err); return v, err\<close>\<close>

definition reported :: "'w Env \<Rightarrow> Config \<Rightarrow> string \<Rightarrow> ('w, 'a result) orch \<Rightarrow> ('w, 'a result) orch" where
  "reported env cfg operation call =
     bindP call (\<lambda>r. seqP (storageError env cfg operation (errOf r)) (Ret r))"

subsection \<open>Jobs\<close>

definition observedJob :: "Config \<Rightarrow> instant \<Rightarrow> WaitingJob \<Rightarrow> Job" where
  "observedJob cfg now job =
     zeroJob\<lparr>j_Source := cf_ForgejoSource cfg, j_Handle := wj_Handle job, j_ForgejoJobID := wj_ID job,
       j_Attempt := wj_Attempt job, j_RepositoryID := wj_RepoID job, j_RepositoryOwnerID := wj_OwnerID job,
       j_WorkflowFile := (if wj_WorkflowID job \<noteq> '''' then wj_WorkflowID job else wj_Name job),
       j_JobName := wj_Name job,
       j_IdentityQuality := (if wj_WorkflowID job \<noteq> '''' then IdentityExact else IdentityFallback),
       j_Tier := cf_Tier cfg, j_Provider := cf_ProviderName cfg, j_Driver := cf_Driver cfg,
       j_Status := JobObserved, j_QueueMeasurementSource := ''first_observed'',
       j_FirstSeenAt := now, j_QueuedAt := now, j_UpdatedAt := now\<rparr>"

text \<open>The loop fills empty handles in the caller's slice, so the jobs are returned.\<close>

definition persistObservedJobs :: "'w Env \<Rightarrow> Config \<Rightarrow> WaitingJob list \<Rightarrow> ('w, WaitingJob list result) orch" where
  "persistObservedJobs env cfg jobs =
     bindP hasStore (\<lambda>has.
     if \<not> has then Ret (Inr jobs)
     else bindP (nowP env) (\<lambda>now.
       bindR' (foldR (\<lambda>job acc.
           let job = (if wj_Handle job = '''' then job\<lparr>wj_Handle := formatInt (wj_ID job)\<rparr> else job)
           in bindP (storeP env (\<lambda>t. UpsertJob t (observedJob cfg now job))) (\<lambda>r.
                case r of
                  Inl e \<Rightarrow> seqP (storageError env cfg ''observe job'' (Some e)) (Ret (Inl e))
                | Inr _ \<Rightarrow> Ret (Inr (acc @ [job])))) jobs [])
         (\<lambda>jobs. seqP (storageError env cfg ''observe jobs'' None) (Ret (Inr jobs)))))"

definition jobUpdate :: "Config \<Rightarrow> Node \<Rightarrow> WaitingJob \<Rightarrow> JobStatus \<Rightarrow> string \<Rightarrow> instant \<Rightarrow> Job" where
  "jobUpdate cfg node job status failure at =
     (let record =
        zeroJob\<lparr>j_Source := cf_ForgejoSource cfg, j_Handle := wj_Handle job, j_ForgejoJobID := wj_ID job,
          j_Attempt := wj_Attempt job, j_RepositoryID := wj_RepoID job, j_RepositoryOwnerID := wj_OwnerID job,
          j_JobName := wj_Name job, j_Tier := cf_Tier cfg, j_Provider := cf_ProviderName cfg,
          j_Driver := cf_Driver cfg, j_ResourceID := ResourceID node, j_GenerationID := GenerationID node,
          j_Status := status, j_InfrastructureFailure := failure, j_UpdatedAt := at\<rparr>
      in case status of
           JobUnset \<Rightarrow> record
         | JobObserved \<Rightarrow> record
         | JobAssigned \<Rightarrow> record\<lparr>j_DispatchedAt := at\<rparr>
         | JobRunning \<Rightarrow> record\<lparr>j_RunnerStartedAt := at\<rparr>
         | _ \<Rightarrow> record\<lparr>j_RunnerFinishedAt := at, j_CompletedAt := at\<rparr>)"

definition persistJob ::
  "'w Env \<Rightarrow> Config \<Rightarrow> Node \<Rightarrow> WaitingJob \<Rightarrow> JobStatus \<Rightarrow> string \<Rightarrow> instant \<Rightarrow> ('w, Job result) orch" where
  "persistJob env cfg node job status failure at =
     bindP hasStore (\<lambda>has.
     if \<not> has then Ret (Inr zeroJob)
     else reported env cfg ''update job'' (storeP env (\<lambda>t. UpsertJob t (jobUpdate cfg node job status failure at))))"

definition conclusionStatus :: "string \<Rightarrow> JobStatus" where
  "conclusionStatus conclusion =
     (let c = toLower conclusion
      in if c = ''success'' then JobSucceeded
         else if c = ''failure'' then JobFailed
         else if c = ''cancelled'' \<or> c = ''canceled'' then JobCancelled
         else if c = ''skipped'' then JobSkipped
         else JobUnset)"

definition parseForgejoTime :: "'w Env \<Rightarrow> string \<Rightarrow> instant" where
  "parseForgejoTime env raw =
     (if raw = '''' then zero_time else case e_parseTime env raw of None \<Rightarrow> zero_time | Some t \<Rightarrow> t)"

definition enrichedJob :: "'w Env \<Rightarrow> Config \<Rightarrow> WaitingJob \<Rightarrow> JobMetadata \<Rightarrow> JobStatus \<Rightarrow> instant \<Rightarrow> Job" where
  "enrichedJob env cfg job meta status now =
     (let mapped = conclusionStatus (md_Conclusion meta);
          record = zeroJob\<lparr>j_Source := cf_ForgejoSource cfg, j_Handle := wj_Handle job,
            j_Repository := md_Repository meta, j_RepositoryID := wj_RepoID job,
            j_WorkflowFile := (if md_WorkflowID meta \<noteq> '''' then md_WorkflowID meta else wj_Name job),
            j_JobName := wj_Name job,
            j_IdentityQuality := (if md_WorkflowID meta \<noteq> '''' then IdentityExact else IdentityFallback),
            j_Conclusion := md_Conclusion meta, j_Status := (if mapped \<noteq> JobUnset then mapped else status),
            j_RunMeasurementSource := ''forgejo_api'', j_UpdatedAt := now,
            j_QueuedAt := parseForgejoTime env (md_QueuedAt meta),
            j_RunnerStartedAt := parseForgejoTime env (md_StartedAt meta),
            j_RunnerFinishedAt := parseForgejoTime env (md_CompletedAt meta)\<rparr>
      in if \<not> is_zero (j_RunnerFinishedAt record)
         then record\<lparr>j_CompletedAt := j_RunnerFinishedAt record\<rparr> else record)"

definition enrichJob :: "'w Env \<Rightarrow> Config \<Rightarrow> WaitingJob \<Rightarrow> JobStatus \<Rightarrow> ('w, unit) orch" where
  "enrichJob env cfg job status =
     bindP hasStore (\<lambda>has.
     if \<not> has then Ret ()
     else case e_JobMetadata env of
       None \<Rightarrow> Ret ()
     | Some metadata \<Rightarrow> bindP (worldP (metadata job)) (\<lambda>r.
         case r of
           Inl _ \<Rightarrow> Ret ()
         | Inr meta \<Rightarrow> bindP (nowP env) (\<lambda>now.
             reportFailure env cfg ''enrich job''
               (storeP env (\<lambda>t. UpsertJob t (enrichedJob env cfg job meta status now))))))"

subsection \<open>Phases\<close>

definition finishStoredPhase :: "'w Env \<Rightarrow> Config \<Rightarrow> int \<Rightarrow> string \<Rightarrow> string \<Rightarrow> instant \<Rightarrow> ('w, unit) orch" where
  "finishStoredPhase env cfg phaseID outcome detail at =
     bindP hasStore (\<lambda>has.
     if \<not> has \<or> phaseID = 0 then Ret ()
     else reportFailure env cfg ''finish lifecycle phase'' (storeP env (\<lambda>t. FinishPhase t phaseID outcome detail at)))"

definition startStoredPhase :: "'w Env \<Rightarrow> Config \<Rightarrow> Node \<Rightarrow> PhaseKind \<Rightarrow> int \<Rightarrow> instant \<Rightarrow> ('w, int) orch" where
  "startStoredPhase env cfg node kind jobID at =
     bindP hasStore (\<lambda>has.
     if \<not> has \<or> ResourceID node = 0 then Ret 0
     else bindP (storeP env (\<lambda>t. StartPhase t
            (zeroPhase\<lparr>p_ResourceID := ResourceID node, p_GenerationID := GenerationID node, p_JobID := jobID,
                       p_Kind := kind, p_StartedAt := at\<rparr>)))
       (\<lambda>r. case r of
              Inl e \<Rightarrow> seqP (storageError env cfg (''start '' @ phaseKindName kind @ '' phase'') (Some e)) (Ret 0)
            | Inr phase \<Rightarrow> Ret (p_ID phase)))"

subsection \<open>Generations and resources\<close>

definition setGeneration :: "'w Env \<Rightarrow> int \<Rightarrow> GenerationState \<Rightarrow> instant \<Rightarrow> ('w, unit result) orch" where
  "setGeneration env i state at = storeP env (\<lambda>t. SetGenerationState t i state at)"

text \<open>\<open>if o.store != nil && id != 0 \{ _ = o.store.SetGenerationState(ctx, id, state, o.now()) \}\<close>\<close>

definition markGeneration :: "'w Env \<Rightarrow> int \<Rightarrow> GenerationState \<Rightarrow> ('w, unit) orch" where
  "markGeneration env i state =
     bindP hasStore (\<lambda>has. whenP (has \<and> i \<noteq> 0)
       (bindP (nowP env) (\<lambda>at. seqP (setGeneration env i state at) (Ret ()))))"

definition imageFingerprint :: "'w Env \<Rightarrow> Config \<Rightarrow> ('w, string) orch" where
  "imageFingerprint env cfg =
     (if cf_BootstrapFingerprint cfg \<noteq> '''' then Ret (cf_BootstrapFingerprint cfg)
      else bindP runtimeConfig (\<lambda>runtime.
        Ret (e_sha256 env (cf_Driver cfg @ [CHR 0x00] @ cf_InstanceType cfg @ [CHR 0x00] @ ht_RunnerVersion runtime @
               [CHR 0x00] @ cf_FJBAgentDownloadURL cfg @ [CHR 0x00] @ cf_ReadyFile cfg))))"

definition storedQuote :: "Config \<Rightarrow> ProviderQuote \<Rightarrow> PriceQuote" where
  "storedQuote cfg quote =
     \<lparr>q_ID = 0, q_Provider = cf_ProviderName cfg, q_Driver = cf_Driver cfg, q_InstanceType = pq_InstanceType quote,
      q_Currency = pq_Currency quote, q_PerHourNanos = pq_PerHourNanos quote, q_PerMonthNanos = pq_PerMonthNanos quote,
      q_SnapshotGBMonthNanos = pq_SnapshotGBMonthNanos quote, q_MinimumChargeNanos = pq_MinimumChargeNanos quote,
      q_BillingQuantum = pq_BillingQuantum quote, q_MinimumDuration = pq_MinimumDuration quote,
      q_Source = pq_Source quote, q_ObservedAt = pq_ObservedAt quote\<rparr>"

text \<open>The price of a new machine: 0 when the provider quotes none, an error only when a quote cannot be stored.\<close>

definition quoteResource :: "'w Env \<Rightarrow> Config \<Rightarrow> ('w, int result) orch" where
  "quoteResource env cfg =
     (case e_Pricer env of
        None \<Rightarrow> Ret (Inr 0)
      | Some quoteFn \<Rightarrow> bindP (worldP (quoteFn (cf_InstanceType cfg))) (\<lambda>q.
          case q of
            Inl _ \<Rightarrow> Ret (Inr 0)
          | Inr quote \<Rightarrow> bindP (storeP env (\<lambda>t. RecordPriceQuote t (storedQuote cfg quote))) (\<lambda>r.
              case r of
                Inl e \<Rightarrow> seqP (storageError env cfg ''record price quote'' (Some e)) (Ret (Inl e))
              | Inr stored \<Rightarrow> Ret (Inr (q_ID stored)))))"

definition beginStoredResource :: "'w Env \<Rightarrow> Config \<Rightarrow> string \<Rightarrow> string \<Rightarrow> ('w, (Resource \<times> Phase) result) orch" where
  "beginStoredResource env cfg operationID name =
     bindP hasStore (\<lambda>has.
     if \<not> has then Ret (Inr (zeroResource, zeroPhase))
     else bindR' (quoteResource env cfg) (\<lambda>quoteID.
       bindP (nowP env) (\<lambda>at.
       bindR' (reported env cfg ''begin resource'' (storeP env (\<lambda>t. BeginResource t
                 (zeroResource\<lparr>r_OperationID := operationID, r_Provider := cf_ProviderName cfg, r_Driver := cf_Driver cfg,
                    r_Tier := cf_Tier cfg, r_Name := name, r_InstanceType := cf_InstanceType cfg, r_Tag := cf_Tag cfg,
                    r_State := ResourceProvisioning, r_PriceQuoteID := quoteID, r_OpenedAt := at\<rparr>))))
         (\<lambda>resource. bindR' (reported env cfg ''begin provisioning phase'' (storeP env (\<lambda>t. StartPhase t
                (zeroPhase\<lparr>p_ResourceID := r_ID resource, p_Kind := PhaseProvisioning,
                           p_StartedAt := r_OpenedAt resource\<rparr>))))
            (\<lambda>phase. Ret (Inr (resource, phase)))))))"

definition activateStoredResource :: "'w Env \<Rightarrow> Config \<Rightarrow> Resource \<Rightarrow> Instance \<Rightarrow> ('w, Generation result) orch" where
  "activateStoredResource env cfg resource inst =
     bindP hasStore (\<lambda>has.
     if \<not> has \<or> r_ID resource = 0 then Ret (Inr zeroGeneration)
     else bindP (nowP env) (\<lambda>now. bindP managedImageID (\<lambda>imageID. bindP (imageFingerprint env cfg) (\<lambda>fingerprint.
       reported env cfg ''activate resource generation'' (storeP env (\<lambda>t.
         ActivateResourceWithGeneration t (r_ID resource) (in_ID inst) (in_Name inst) (in_CreatedAt inst) now
           (zeroGeneration\<lparr>g_ResourceID := r_ID resource, g_OperationID := r_OperationID resource @ ''-generation-1'',
              g_ImageID := imageID, g_Fingerprint := fingerprint, g_State := GenerationPreparing,
              g_StartedAt := now\<rparr>)))))))"

subsection \<open>Costs\<close>

text \<open>
  The common tail of the three functions: read the quote, price the entry with \<open>amount\<close> when
  there is one, record it. An entry whose quote does not exist is recorded as unpriced.
\<close>

definition pricedEntry :: "PriceQuote result \<Rightarrow> int \<Rightarrow> (PriceQuote \<Rightarrow> int) \<Rightarrow> CostEntry \<Rightarrow> CostEntry" where
  "pricedEntry quote quoteID amount entry =
     (case quote of
        Inl _ \<Rightarrow> entry
      | Inr q \<Rightarrow> if quoteID \<noteq> 0 then entry\<lparr>c_Known := True, c_Currency := q_Currency q, c_Nanos := amount q\<rparr> else entry)"

definition readable :: "'a result \<Rightarrow> bool" where
  "readable r = (case r of Inl e \<Rightarrow> e = ErrNotFound | Inr _ \<Rightarrow> True)"

definition recordDirectJobCost :: "'w Env \<Rightarrow> Config \<Rightarrow> Node \<Rightarrow> Job \<Rightarrow> ('w, unit) orch" where
  "recordDirectJobCost env cfg node job =
     bindP hasStore (\<lambda>has.
     if \<not> has \<or> j_ID job = 0 then Ret ()
     else
       let bad = (\<lambda>a b. is_zero a \<or> is_zero b \<or> b < a);
           (start, stop) = (if bad (j_RunnerStartedAt job) (j_RunnerFinishedAt job)
                            then (j_DispatchedAt job, j_CompletedAt job)
                            else (j_RunnerStartedAt job, j_RunnerFinishedAt job))
       in if bad start stop then Ret ()
          else bindP (nowP env) (\<lambda>at.
            let entry = zeroCost\<lparr>c_ResourceID := ResourceID node, c_JobID := j_ID job, c_PriceQuoteID := PriceQuoteID node,
                          c_Kind := CostDirectCompute, c_Estimated := True, c_StartedAt := start, c_EndedAt := stop,
                          c_RecordedAt := at\<rparr>
            in bindP (storeP env (\<lambda>_. GetPriceQuote (PriceQuoteID node))) (\<lambda>quote.
                 if \<not> readable quote then storageError env cfg ''read job price quote'' (errOf quote)
                 else reportFailure env cfg ''record direct job cost'' (storeP env (\<lambda>t. RecordCost t
                        (pricedEntry quote (PriceQuoteID node)
                           (\<lambda>q. proportionalNanos (q_PerHourNanos q) (time_sub stop start) hour) entry))))))"

definition recordIntervalCost :: "'w Env \<Rightarrow> Config \<Rightarrow> Node \<Rightarrow> CostKind \<Rightarrow> instant \<Rightarrow> instant \<Rightarrow> ('w, unit) orch" where
  "recordIntervalCost env cfg node kind start stop =
     bindP hasStore (\<lambda>has.
     if \<not> has \<or> ResourceID node = 0 \<or> is_zero start \<or> stop < start then Ret ()
     else bindP (nowP env) (\<lambda>at.
       let entry = zeroCost\<lparr>c_ResourceID := ResourceID node, c_PriceQuoteID := PriceQuoteID node, c_Kind := kind,
                     c_Estimated := True, c_StartedAt := start, c_EndedAt := stop, c_RecordedAt := at\<rparr>
       in bindP (storeP env (\<lambda>_. GetPriceQuote (PriceQuoteID node))) (\<lambda>quote.
            if \<not> readable quote then storageError env cfg ''read interval price quote'' (errOf quote)
            else reportFailure env cfg (''record '' @ costKindName kind @ '' cost'') (storeP env (\<lambda>t. RecordCost t
                   (pricedEntry quote (PriceQuoteID node)
                      (\<lambda>q. proportionalNanos (q_PerHourNanos q) (time_sub stop start) hour) entry))))))"

definition recordOverhead :: "'w Env \<Rightarrow> Config \<Rightarrow> Node \<Rightarrow> PriceQuote \<Rightarrow> CostEntry \<Rightarrow> ('w, unit) orch" where
  "recordOverhead env cfg node quote entry =
     (let linear = proportionalNanos (q_PerHourNanos quote) (time_sub (c_EndedAt entry) (CreatedAt node)) hour;
          overhead = c_Nanos entry - linear
      in whenP (overhead > 0) (bindP (nowP env) (\<lambda>at.
           reportFailure env cfg ''record billing overhead'' (storeP env (\<lambda>t. RecordCost t
             (zeroCost\<lparr>c_ResourceID := ResourceID node, c_PriceQuoteID := PriceQuoteID node,
                c_Kind := CostBillingOverhead, c_Currency := q_Currency quote, c_Nanos := overhead, c_Known := True,
                c_Estimated := True, c_StartedAt := CreatedAt node, c_EndedAt := c_EndedAt entry,
                c_RecordedAt := at\<rparr>))))))"

definition recordResourceCost :: "'w Env \<Rightarrow> Config \<Rightarrow> Node \<Rightarrow> CostKind \<Rightarrow> instant \<Rightarrow> ('w, unit) orch" where
  "recordResourceCost env cfg node kind stop =
     bindP hasStore (\<lambda>has.
     if \<not> has \<or> ResourceID node = 0 \<or> is_zero (CreatedAt node) \<or> stop < CreatedAt node then Ret ()
     else bindP (nowP env) (\<lambda>at.
       let entry = zeroCost\<lparr>c_ResourceID := ResourceID node, c_PriceQuoteID := PriceQuoteID node, c_Kind := kind,
                     c_Estimated := True, c_StartedAt := CreatedAt node, c_EndedAt := stop, c_RecordedAt := at\<rparr>
       in bindP (storeP env (\<lambda>_. GetPriceQuote (PriceQuoteID node))) (\<lambda>quote.
            if \<not> readable quote then storageError env cfg ''read resource price quote'' (errOf quote)
            else let entry = pricedEntry quote (PriceQuoteID node) (\<lambda>q. resourceBilledNanos q (CreatedAt node) stop) entry
                 in bindP (storeP env (\<lambda>t. RecordCost t entry)) (\<lambda>r.
                      case r of
                        Inl e \<Rightarrow> storageError env cfg ''record resource cost'' (Some e)
                      | Inr _ \<Rightarrow>
                          (case quote of
                             Inl _ \<Rightarrow> Ret ()
                           | Inr q \<Rightarrow> whenP (c_Known entry \<and> kind = CostBilledCompute) (recordOverhead env cfg node q entry))))))"

subsection \<open>Closing and failing\<close>

definition closeStoredResource :: "'w Env \<Rightarrow> Config \<Rightarrow> Node \<Rightarrow> ResourceState \<Rightarrow> string \<Rightarrow> ('w, unit) orch" where
  "closeStoredResource env cfg node state reason =
     bindP hasStore (\<lambda>has.
     if \<not> has \<or> ResourceID node = 0 then Ret ()
     else seqP (whenP (GenerationID node \<noteq> 0) (bindP (nowP env) (\<lambda>at.
                  seqP (setGeneration env (GenerationID node) GenerationClosed at) (Ret ()))))
         (bindP (nowP env) (\<lambda>stop. seqP (recordResourceCost env cfg node CostBilledCompute stop)
           (bindP (nowP env) (\<lambda>at. reportFailure env cfg ''close resource''
              (storeP env (\<lambda>t. CloseResource t (ResourceID node) state reason at)))))))"

definition failStoredProvision :: "'w Env \<Rightarrow> Config \<Rightarrow> Resource \<Rightarrow> int \<Rightarrow> string \<Rightarrow> ('w, unit) orch" where
  "failStoredProvision env cfg resource phaseID detail =
     bindP hasStore (\<lambda>has.
     if \<not> has \<or> r_ID resource = 0 then Ret ()
     else seqP (whenP (phaseID \<noteq> 0) (bindP (nowP env) (\<lambda>at.
                  seqP (storeP env (\<lambda>t. FinishPhase t phaseID ''failed'' detail at)) (Ret ()))))
         (bindP (nowP env) (\<lambda>at. seqP (storeP env (\<lambda>t.
              FinishMutation t (r_OperationID resource) MutationFailed '''' detail at))
           (bindP (nowP env) (\<lambda>at. reportFailure env cfg ''fail resource''
              (storeP env (\<lambda>t. CloseResource t (r_ID resource) ResourceFailed detail at)))))))"

definition cleanupFailedActivation :: "'w Env \<Rightarrow> Config \<Rightarrow> Resource \<Rightarrow> int \<Rightarrow> Instance \<Rightarrow> string \<Rightarrow> ('w, unit) orch" where
  "cleanupFailedActivation env cfg resource phaseID inst detail =
     bindP (worldP (e_Destroy env (in_ID inst))) (\<lambda>r.
     case r of
       Inl e \<Rightarrow> bindP (nowP env) (\<lambda>at. finishStoredPhase env cfg phaseID ''failed'' (detail @ '': '' @ errorText e) at)
     | Inr _ \<Rightarrow>
         let node = Node_zero\<lparr>InstanceID := in_ID inst, ResourceID := r_ID resource,
                      PriceQuoteID := r_PriceQuoteID resource, CreatedAt := in_CreatedAt inst\<rparr>
         in bindP (nowP env) (\<lambda>stop. seqP (recordResourceCost env cfg node CostBilledCompute stop)
              (failStoredProvision env cfg resource phaseID detail)))"

subsection \<open>Mutations\<close>

text \<open>\<open>strings.Contains\<close>.\<close>

fun contains :: "string \<Rightarrow> string \<Rightarrow> bool" where
  "contains [] sub = (sub = [])"
| "contains (c # cs) sub = (hasPrefix (c # cs) sub \<or> contains cs sub)"

definition beginStoredMutation :: "'w Env \<Rightarrow> Config \<Rightarrow> string \<Rightarrow> Node \<Rightarrow> ('w, string result) orch" where
  "beginStoredMutation env cfg kind node =
     bindP hasStore (\<lambda>has.
     if \<not> has then Ret (Inr '''')
     else bindP (shortIDP env) (\<lambda>i. let op = kind @ ''-'' @ InstanceID node @ ''-'' @ i in
       bindP (nowP env) (\<lambda>at.
       bindP (bindR' (storeP env (\<lambda>t. BeginMutation t
                (pendingMutation op kind (cf_ProviderName cfg) (cf_Tier cfg) (ResourceID node) 0 at)))
              (\<lambda>_. if ResourceID node \<noteq> 0 \<and> contains kind ''destroy''
                   then bindP (nowP env) (\<lambda>at. storeP env (\<lambda>t. SetResourceState t (ResourceID node) ResourceDestroying at))
                   else Ret (Inr ())))
         (\<lambda>r. seqP (storageError env cfg (''begin '' @ kind) (errOf r))
                (Ret (case r of Inl e \<Rightarrow> Inl e | Inr _ \<Rightarrow> Inr op))))))"

definition finishStoredMutation :: "'w Env \<Rightarrow> Config \<Rightarrow> string \<Rightarrow> string \<Rightarrow> string \<Rightarrow> bool \<Rightarrow> ('w, unit) orch" where
  "finishStoredMutation env cfg operationID externalID detail success =
     bindP hasStore (\<lambda>has.
     if \<not> has \<or> operationID = '''' then Ret ()
     else bindP (nowP env) (\<lambda>at. reportFailure env cfg ''finish mutation'' (storeP env (\<lambda>t.
       FinishMutation t operationID (if success then MutationSucceeded else MutationFailed) externalID detail at))))"

definition beginResetGeneration :: "'w Env \<Rightarrow> Config \<Rightarrow> Node \<Rightarrow> string \<Rightarrow> ('w, Generation result) orch" where
  "beginResetGeneration env cfg node imageID =
     bindP hasStore (\<lambda>has.
     if \<not> has \<or> ResourceID node = 0 then Ret (Inr zeroGeneration)
     else bindP (nowP env) (\<lambda>at. bindP (storeP env (\<lambda>t. SetResourceState t (ResourceID node) ResourceResetting at)) (\<lambda>r.
       case r of
         Inl e \<Rightarrow> seqP (storageError env cfg ''mark resource resetting'' (Some e)) (Ret (Inl e))
       | Inr _ \<Rightarrow>
           bindP (if GenerationID node \<noteq> 0
                  then bindP (nowP env) (\<lambda>at. setGeneration env (GenerationID node) GenerationClosed at)
                  else Ret (Inr ())) (\<lambda>r.
           case r of
             Inl e \<Rightarrow> seqP (storageError env cfg ''close generation for reset'' (Some e)) (Ret (Inl e))
           | Inr _ \<Rightarrow>
               bindP (shortIDP env) (\<lambda>i. bindP (imageFingerprint env cfg) (\<lambda>fingerprint. bindP (nowP env) (\<lambda>at.
                 reported env cfg ''begin reset generation'' (storeP env (\<lambda>t. BeginGeneration t
                   (zeroGeneration\<lparr>g_ResourceID := ResourceID node,
                      g_OperationID := ''reset-'' @ InstanceID node @ ''-'' @ i, g_ImageID := imageID,
                      g_Fingerprint := fingerprint, g_State := GenerationPreparing, g_StartedAt := at\<rparr>))))))))))"

definition adoptStoredResource :: "'w Env \<Rightarrow> Config \<Rightarrow> Instance \<Rightarrow> ('w, (Resource \<times> Generation) result) orch" where
  "adoptStoredResource env cfg inst =
     bindP (shortIDP env) (\<lambda>i.
     bindR' (beginStoredResource env cfg (''adopt-'' @ cf_Tier cfg @ ''-'' @ in_ID inst @ ''-'' @ i) (in_Name inst))
       (\<lambda>(resource, phase). bindR' (activateStoredResource env cfg resource inst) (\<lambda>generation.
          seqP (whenP (p_ID phase \<noteq> 0) (bindP (nowP env) (\<lambda>at.
                  seqP (storeP env (\<lambda>t. FinishPhase t (p_ID phase) ''adopted'' '''' at)) (Ret ()))))
            (Ret (Inr (resource, generation))))))"

subsection \<open>Recovery\<close>

text \<open>
  The Go maps \<open>resources\<close> (by external ID and by \<open>name:\<close>) and \<open>generations\<close> (the latest open one of
  each resource). Indexing a missing key yields the zero record.
\<close>

type_synonym resources = "(string \<times> Resource) list"
type_synonym generations = "int \<Rightarrow> Generation option"

definition resourceAt :: "resources \<Rightarrow> string \<Rightarrow> Resource" where
  "resourceAt resources k = (case map_of resources k of None \<Rightarrow> zeroResource | Some r \<Rightarrow> r)"

definition generationAt :: "generations \<Rightarrow> int \<Rightarrow> Generation" where
  "generationAt generations i = (case generations i of None \<Rightarrow> zeroGeneration | Some g \<Rightarrow> g)"

definition indexResources :: "Config \<Rightarrow> Resource list \<Rightarrow> resources" where
  "indexResources cfg = (\<lambda>rows. fold (\<lambda>r m.
     if r_Provider r = cf_ProviderName cfg \<and> r_Tier r = cf_Tier cfg
     then let m = (if r_ExternalID r \<noteq> '''' then AList.update (r_ExternalID r) r m else m)
          in if r_Name r \<noteq> '''' then AList.update (''name:'' @ r_Name r) r m else m
     else m) rows [])"

definition indexGenerations :: "Generation list \<Rightarrow> generations" where
  "indexGenerations rows = fold (\<lambda>g m.
     case m (g_ResourceID g) of
       None \<Rightarrow> m(g_ResourceID g \<mapsto> g)
     | Some current \<Rightarrow> if g_Number g > g_Number current then m(g_ResourceID g \<mapsto> g) else m) rows Map.empty"

definition storageResources :: "'w Env \<Rightarrow> Config \<Rightarrow> ('w, (resources \<times> generations) result) orch" where
  "storageResources env cfg =
     bindP hasStore (\<lambda>has.
     if \<not> has then Ret (Inr ([], Map.empty))
     else bindR' (storeP env (\<lambda>_. OpenResources)) (\<lambda>open.
       bindR' (storeP env (\<lambda>_. OpenGenerations)) (\<lambda>openGenerations.
         Ret (Inr (indexResources cfg open, indexGenerations openGenerations)))))"

definition resourceByID :: "resources \<Rightarrow> int \<Rightarrow> Resource" where
  "resourceByID resources i =
     (if i = 0 then zeroResource
      else case find (\<lambda>r. r_ID r = i) (rev (map snd resources)) of None \<Rightarrow> zeroResource | Some r \<Rightarrow> r)"

definition mutationDeleteSnapshot :: string where
  "mutationDeleteSnapshot = ''delete_snapshot''"

definition finishAt ::
  "'w Env \<Rightarrow> string \<Rightarrow> MutationState \<Rightarrow> string \<Rightarrow> string \<Rightarrow> ('w, unit result) orch" where
  "finishAt env operationID state externalID detail =
     bindP (nowP env) (\<lambda>at. storeP env (\<lambda>t. FinishMutation t operationID state externalID detail at))"

definition recoverProvision :: "'w Env \<Rightarrow> Resource \<Rightarrow> Mutation \<Rightarrow> ('w, unit result) orch" where
  "recoverProvision env resource mutation =
     (if r_ExternalID resource \<noteq> ''''
      then finishAt env (m_OperationID mutation) MutationSucceeded (r_ExternalID resource) ''recovered''
      else bindP pendingCount (\<lambda>pending.
        if pending \<noteq> 0 then Ret (Inr ())
        else bindR' (finishAt env (m_OperationID mutation) MutationFailed ''''
                       ''no provider resource found during recovery'')
          (\<lambda>_. if r_ID resource \<noteq> 0
               then bindP (nowP env) (\<lambda>at. storeP env (\<lambda>t. CloseResource t (r_ID resource) ResourceFailed
                      ''provision_not_found'' at))
               else Ret (Inr ()))))"

definition recoverGeneration :: "'w Env \<Rightarrow> Resource \<Rightarrow> Generation \<Rightarrow> Mutation \<Rightarrow> ('w, unit result) orch" where
  "recoverGeneration env resource generation mutation =
     (if g_ID generation = 0
      then finishAt env (m_OperationID mutation) MutationFailed '''' ''generation record missing during recovery''
      else if g_State generation = GenerationReady \<or> g_State generation = GenerationClosed
      then finishAt env (m_OperationID mutation) MutationSucceeded (r_ExternalID resource) ''recovered''
      else bindP (nowP env) (\<lambda>at. setGeneration env (g_ID generation) GenerationFailed at))"

definition recoverDestroy :: "'w Env \<Rightarrow> string set \<Rightarrow> Resource \<Rightarrow> Mutation \<Rightarrow> ('w, unit result) orch" where
  "recoverDestroy env seen resource mutation =
     (if \<not> contains (m_Kind mutation) ''destroy'' \<or> m_Kind mutation = mutationDeleteSnapshot then Ret (Inr ())
      else if r_ExternalID resource = '''' \<or> r_ExternalID resource \<notin> seen
      then finishAt env (m_OperationID mutation) MutationSucceeded (r_ExternalID resource)
             ''provider resource absent during recovery''
      else finishAt env (m_OperationID mutation) MutationFailed (r_ExternalID resource)
             ''provider resource still exists; queued for retry'')"

definition recoverMutation ::
  "'w Env \<Rightarrow> Config \<Rightarrow> string set \<Rightarrow> resources \<Rightarrow> generations \<Rightarrow> Mutation \<Rightarrow> ('w, unit result) orch" where
  "recoverMutation env cfg seen resources generations mutation =
     (let resource = resourceByID resources (m_ResourceID mutation)
      in if m_Provider mutation \<noteq> cf_ProviderName cfg \<or> m_Tier mutation \<noteq> cf_Tier cfg then Ret (Inr ())
         else if m_Kind mutation = ''provision'' then recoverProvision env resource mutation
         else if m_Kind mutation = ''generation''
         then recoverGeneration env resource (generationAt generations (r_ID resource)) mutation
         else recoverDestroy env seen resource mutation)"

definition recoverPendingMutations ::
  "'w Env \<Rightarrow> Config \<Rightarrow> string set \<Rightarrow> resources \<Rightarrow> generations \<Rightarrow> ('w, unit result) orch" where
  "recoverPendingMutations env cfg seen resources generations =
     bindP hasStore (\<lambda>has.
     if \<not> has then Ret (Inr ())
     else bindR' (storeP env (\<lambda>_. PendingMutations)) (\<lambda>pending.
       foldR (\<lambda>mutation _. recoverMutation env cfg seen resources generations mutation) pending ()))"

end
