(* ===== verification/Orch_Workers.thy ===== *)
theory Orch_Workers
  imports Orch_Ledger
begin

text \<open>
  The life of a worker, src/internal/orchestrator/orchestrator.go: creating it, running a job on
  it, resetting it to the managed image, destroying it. These are the bodies of the goroutines
  the reconcile loop starts. A \<open>defer\<close> is the code that follows the deferring block on every path.
\<close>

subsection \<open>Rendering\<close>

definition hostKeyP :: "'w Env \<Rightarrow> ('w, (string \<times> string) result) orch" where
  "hostKeyP env =
     (case e_PinHostKey env of None \<Rightarrow> Ret (Inr ('''', '''')) | Some _ \<Rightarrow> worldP (e_generateHostKey env))"

definition pinHostKeyP :: "'w Env \<Rightarrow> string \<Rightarrow> string \<Rightarrow> ('w, unit) orch" where
  "pinHostKeyP env ip key =
     (case e_PinHostKey env of None \<Rightarrow> Ret () | Some pin \<Rightarrow> worldP (\<lambda>w. ((), pin ip key w)))"

definition bootParams :: "Config \<Rightarrow> hotConfig \<Rightarrow> string \<Rightarrow> string \<Rightarrow> Params" where
  "bootParams cfg runtime hostPriv token =
     \<lparr>pm_RunnerVersion = ht_RunnerVersion runtime, pm_ReadyFile = cf_ReadyFile cfg, pm_HostPrivateKey = hostPriv,
      pm_FJBAgentDownloadURL = cf_FJBAgentDownloadURL cfg, pm_FJBAgentToken = token\<rparr>"

definition workerSpec :: "Config \<Rightarrow> string \<Rightarrow> string \<Rightarrow> string \<Rightarrow> Spec" where
  "workerSpec cfg name imageID userData =
     \<lparr>sp_Tag = cf_Tag cfg, sp_Name = name, sp_Role = ''worker'', sp_InstanceType = cf_InstanceType cfg,
      sp_ImageID = imageID, sp_UserData = userData, sp_AuthorizedKey = cf_AuthorizedKey cfg, sp_Labels = cf_Labels cfg\<rparr>"

definition provisionedNode :: "Instance \<Rightarrow> Resource \<Rightarrow> Generation \<Rightarrow> Phase \<Rightarrow> instant \<Rightarrow> Node" where
  "provisionedNode inst resource generation phase now =
     Node_zero\<lparr>InstanceID := in_ID inst, ResourceID := r_ID resource, GenerationID := g_ID generation,
       PriceQuoteID := r_PriceQuoteID resource, PhaseID := p_ID phase, State := StateProvisioning,
       IP := in_IPv4 inst, VPCIP := in_VPCIPv4 inst, CreatedAt := in_CreatedAt inst, LastBusy := now\<rparr>"

text \<open>\<open>if o.store != nil && id != 0\<close> around a generation change whose error matters.\<close>

definition setGenerationIf :: "'w Env \<Rightarrow> int \<Rightarrow> GenerationState \<Rightarrow> instant \<Rightarrow> ('w, unit result) orch" where
  "setGenerationIf env i state at =
     bindP hasStore (\<lambda>has. if has \<and> i \<noteq> 0 then setGeneration env i state at else Ret (Inr ()))"

subsection \<open>Provisioning\<close>

text \<open>The readiness half, the same in \<open>provisionOne\<close> and in the goroutine of \<open>doForceProvision\<close>.\<close>

definition awaitReady :: "'w Env \<Rightarrow> Config \<Rightarrow> string \<Rightarrow> Instance \<Rightarrow> Phase \<Rightarrow> Generation \<Rightarrow> ('w, unit) orch" where
  "awaitReady env cfg operation inst phase generation =
     (let i = in_ID inst in
      bindP (worldP (e_WaitReady env i (addrForInstance cfg (in_IPv4 inst) (in_VPCIPv4 inst)))) (\<lambda>r.
      case r of
        Inl _ \<Rightarrow>
          bindP (nowP env) (\<lambda>at. seqP (finishStoredPhase env cfg (p_ID phase) ''failed'' ''readiness'' at)
            (seqP (markGeneration env (g_ID generation) GenerationFailed)
              (seqP (poolSetState i StateDraining) (Ret ()))))
      | Inr _ \<Rightarrow>
          bindP (nowP env) (\<lambda>readyAt.
          bindP (poolP (Get i)) (\<lambda>(current, exists).
          seqP (whenP exists
                  (seqP (recordIntervalCost env cfg current CostBoot (CreatedAt current) readyAt)
                    (finishStoredPhase env cfg (PhaseID current) ''ready'' '''' readyAt)))
            (bindP (setGenerationIf env (g_ID generation) GenerationReady readyAt) (\<lambda>r.
             case r of
               Inl e \<Rightarrow> seqP (storageError env cfg operation (Some e)) (seqP (poolSetState i StateDraining) (Ret ()))
             | Inr _ \<Rightarrow>
                 seqP (whenP exists
                         (bindP (startStoredPhase env cfg current PhaseReadyIdle 0 readyAt)
                            (\<lambda>phaseID. poolUpd (SetPhase i phaseID))))
                   (bindP (poolSetState i StateIdle) (\<lambda>ok.
                      whenP ok (seqP (poolUpd (Touch i readyAt))
                        (emit env cfg ''worker_ready'' [(''id'', i), (''ip'', in_IPv4 inst)])))))))))) "

definition provisionBody :: "'w Env \<Rightarrow> Config \<Rightarrow> ('w, unit) orch" where
  "provisionBody env cfg =
     bindP runtimeConfig (\<lambda>runtime. bindP (shortIDP env) (\<lambda>suffix.
     let name = cf_Tag cfg @ ''-'' @ suffix in
     bindP (beginStoredResource env cfg name name) (\<lambda>r.
     case r of
       Inl _ \<Rightarrow> decPending
     | Inr (resource, phase) \<Rightarrow>
         bindP (hostKeyP env) (\<lambda>key.
         case key of
           Inl _ \<Rightarrow> seqP (failStoredProvision env cfg resource (p_ID phase) ''generate_host_key'') decPending
         | Inr (hostPriv, hostPub) \<Rightarrow>
             (case e_Render env (bootParams cfg runtime hostPriv (cf_FJBAgentToken cfg)) of
                Inl _ \<Rightarrow> seqP (failStoredProvision env cfg resource (p_ID phase) ''render_cloud_init'') decPending
              | Inr userData \<Rightarrow>
                  bindP managedImageID (\<lambda>imageID.
                  bindP (worldP (e_Provision env (workerSpec cfg name imageID userData))) (\<lambda>r.
                  case r of
                    Inl _ \<Rightarrow> seqP (failStoredProvision env cfg resource (p_ID phase) ''provider_create'') decPending
                  | Inr inst \<Rightarrow>
                      bindP (activateStoredResource env cfg resource inst) (\<lambda>r.
                      case r of
                        Inl _ \<Rightarrow> seqP (cleanupFailedActivation env cfg resource (p_ID phase) inst ''storage_activation'') decPending
                      | Inr generation \<Rightarrow>
                          bindP (nowP env) (\<lambda>now.
                          seqP (poolUpd (Put (provisionedNode inst resource generation phase now)))
                          (seqP decPending
                          (seqP (emit env cfg ''worker_provisioned'' [(''id'', in_ID inst), (''ip'', in_IPv4 inst)])
                          (seqP (pinHostKeyP env (in_IPv4 inst) hostPub)
                            (awaitReady env cfg ''ready generation'' inst phase generation))))))))))))) "

definition provisionOne :: "('w, unit) orch" where
  "provisionOne = seqP incPending (goP ProvisionTask)"

subsection \<open>Destroying after a job\<close>

definition destroyAfterJob :: "'w Env \<Rightarrow> Config \<Rightarrow> Node \<Rightarrow> string \<Rightarrow> ('w, unit) orch" where
  "destroyAfterJob env cfg node reason =
     (let i = InstanceID node in
      bindP (poolSetState i StateRemoving) (\<lambda>ok.
      if \<not> ok then Ret ()
      else bindP (beginStoredMutation env cfg ''destroy'' node) (\<lambda>op.
        case op of
          Inl _ \<Rightarrow> seqP (poolSetState i StateDraining) (Ret ())
        | Inr operationID \<Rightarrow>
            bindP (nowP env) (\<lambda>at. bindP (startStoredPhase env cfg node PhaseRemoving 0 at) (\<lambda>phaseID.
            seqP (poolUpd (SetPhase i phaseID))
            (bindP (worldP (e_Destroy env i)) (\<lambda>r.
             case r of
               Inl e \<Rightarrow>
                 bindP (nowP env) (\<lambda>at. seqP (finishStoredPhase env cfg phaseID ''failed'' (errorText e) at)
                 (seqP (finishStoredMutation env cfg operationID i ''provider_destroy'' False)
                 (seqP (poolSetState i StateDraining)
                   (emit env cfg ''worker_reap_failed'' [(''id'', i), (''reason'', reason)]))))
             | Inr _ \<Rightarrow>
                 bindP (nowP env) (\<lambda>at. seqP (finishStoredPhase env cfg phaseID ''destroyed'' '''' at)
                 (seqP (finishStoredMutation env cfg operationID i '''' True)
                 (seqP (closeStoredResource env cfg (node\<lparr>PhaseID := phaseID\<rparr>) ResourceClosed reason)
                 (seqP (poolUpd (Delete i))
                   (emit env cfg ''worker_reaped'' [(''id'', i), (''ip'', IP node), (''reason'', reason)])))))))))))) "

subsection \<open>Reset\<close>

text \<open>The three failures after the generation has begun record the same facts.\<close>

definition resetFailed ::
  "'w Env \<Rightarrow> Config \<Rightarrow> Node \<Rightarrow> Generation \<Rightarrow> instant \<Rightarrow> string \<Rightarrow> ('w, unit) orch" where
  "resetFailed env cfg node generation resetStarted detail =
     bindP (nowP env) (\<lambda>stop. seqP (recordIntervalCost env cfg node CostReset resetStarted stop)
       (bindP (nowP env) (\<lambda>at. seqP (finishStoredPhase env cfg (PhaseID node) ''failed'' detail at)
         (markGeneration env (g_ID generation) GenerationFailed))))"

definition resetReadyLedger :: "'w Env \<Rightarrow> Config \<Rightarrow> Node \<Rightarrow> Generation \<Rightarrow> ('w, bool) orch" where
  "resetReadyLedger env cfg node generation =
     bindP hasStore (\<lambda>has.
     if \<not> has \<or> g_ID generation = 0 then Ret True
     else bindP (nowP env) (\<lambda>at. bindP (setGeneration env (g_ID generation) GenerationReady at) (\<lambda>r.
       case r of
         Inl e \<Rightarrow> seqP (storageError env cfg ''ready reset generation'' (Some e)) (Ret False)
       | Inr _ \<Rightarrow> bindP (nowP env) (\<lambda>at.
           bindP (storeP env (\<lambda>t. SetResourceState t (ResourceID node) ResourceActive at)) (\<lambda>r.
           case r of
             Inl e \<Rightarrow> seqP (storageError env cfg ''activate reset resource'' (Some e))
                        (bindP (nowP env) (\<lambda>at. seqP (setGeneration env (g_ID generation) GenerationFailed at) (Ret False)))
           | Inr _ \<Rightarrow> Ret True)))))"

definition resetFinish ::
  "'w Env \<Rightarrow> Config \<Rightarrow> Node \<Rightarrow> Generation \<Rightarrow> string \<Rightarrow> string \<Rightarrow> instant \<Rightarrow> ('w, bool) orch" where
  "resetFinish env cfg node generation ip vpcIP resetStarted =
     (let i = InstanceID node in
      bindP (nowP env) (\<lambda>resetFinished.
      seqP (recordIntervalCost env cfg node CostReset resetStarted resetFinished)
      (seqP (finishStoredPhase env cfg (PhaseID node) ''ready'' '''' resetFinished)
      (bindP (resetReadyLedger env cfg node generation) (\<lambda>stored.
       if \<not> stored then Ret False
       else bindP (startStoredPhase env cfg node PhaseReadyIdle 0 resetFinished) (\<lambda>phaseID.
         bindP (poolResetReady i ip vpcIP (g_ID generation) resetFinished) (\<lambda>ok.
         if \<not> ok
         then bindP (nowP env) (\<lambda>at. seqP (finishStoredPhase env cfg phaseID ''failed'' ''worker_missing_after_reset'' at)
                (seqP (markGeneration env (g_ID generation) GenerationFailed) (Ret False)))
         else seqP (poolUpd (SetPhase i phaseID))
             (seqP (emit env cfg ''worker_reset'' [(''id'', i), (''ip'', ip)])
             (seqP (emit env cfg ''worker_idle'' [(''id'', i), (''ip'', ip)]) (Ret True))))))))))"

definition orElse :: "string \<Rightarrow> string \<Rightarrow> string" where
  "orElse a b = (if a = '''' then b else a)"

text \<open>From the provider's rebuild on: \<open>node\<close> carries the new generation and the reset phase.\<close>

definition resetRun ::
  "'w Env \<Rightarrow> Config \<Rightarrow> Node \<Rightarrow> Generation \<Rightarrow> (string \<Rightarrow> ResetSpec \<Rightarrow> 'w \<Rightarrow> Instance result \<times> 'w) \<Rightarrow> string \<Rightarrow> string \<Rightarrow> string \<Rightarrow>
   instant \<Rightarrow> ('w, bool) orch" where
  "resetRun env cfg node generation resetter imageID userData hostPub resetStarted =
     (let i = InstanceID node in
      bindP (worldP (resetter i \<lparr>rs_ImageID = imageID, rs_UserData = userData, rs_AuthorizedKey = cf_AuthorizedKey cfg\<rparr>)) (\<lambda>r.
      case r of
        Inl e \<Rightarrow> seqP (resetFailed env cfg node generation resetStarted (errorText e))
                   (seqP (emit env cfg ''worker_reset_failed'' [(''id'', i)]) (Ret False))
      | Inr inst \<Rightarrow>
          if in_ID inst \<noteq> '''' \<and> in_ID inst \<noteq> i
          then seqP (resetFailed env cfg node generation resetStarted ''instance_id_changed'') (Ret False)
          else let ip = orElse (in_IPv4 inst) (IP node); vpcIP = orElse (in_VPCIPv4 inst) (VPCIP node) in
            seqP (pinHostKeyP env ip hostPub)
            (bindP (worldP (e_WaitReady env i (addrForInstance cfg ip vpcIP))) (\<lambda>r.
             case r of
               Inl _ \<Rightarrow> seqP (resetFailed env cfg node generation resetStarted ''readiness'')
                          (seqP (emit env cfg ''worker_reset_failed'' [(''id'', i), (''stage'', ''readiness'')]) (Ret False))
             | Inr _ \<Rightarrow> resetFinish env cfg node generation ip vpcIP resetStarted))))"

definition resetDue :: "hotConfig \<Rightarrow> Node \<Rightarrow> instant \<Rightarrow> bool" where
  "resetDue runtime node now =
     (Model (ht_Teardown runtime) = BillingHourlyRoundUp \<and>
      (let timing = Timing (ht_Teardown runtime) node now
       in \<not> is_zero (ReapEligibleAt timing) \<and> time_sub (ReapEligibleAt timing) now < ht_ResetMinRemaining runtime))"

definition resetAttempt ::
  "'w Env \<Rightarrow> Config \<Rightarrow> Node \<Rightarrow> (string \<Rightarrow> ResetSpec \<Rightarrow> 'w \<Rightarrow> Instance result \<times> 'w) \<Rightarrow> string \<Rightarrow> ('w, bool) orch" where
  "resetAttempt env cfg node resetter imageID =
     (let i = InstanceID node in
      bindP runtimeConfig (\<lambda>runtime. bindP (nowP env) (\<lambda>now.
      if resetDue runtime node now
      then seqP (emit env cfg ''worker_reset_skipped'' [(''id'', i), (''reason'', ''billing_boundary'')]) (Ret False)
      else bindP (hostKeyP env) (\<lambda>key.
        case key of
          Inl _ \<Rightarrow> Ret False
        | Inr (hostPriv, hostPub) \<Rightarrow>
            (case e_Render env (bootParams cfg runtime hostPriv (cf_FJBAgentToken cfg)) of
               Inl _ \<Rightarrow> Ret False
             | Inr userData \<Rightarrow>
                 bindP (beginResetGeneration env cfg node imageID) (\<lambda>g.
                 case g of
                   Inl _ \<Rightarrow> Ret False
                 | Inr generation \<Rightarrow>
                     let node = node\<lparr>GenerationID := g_ID generation\<rparr> in
                     bindP (poolSetState i StateResetting) (\<lambda>ok.
                     if \<not> ok then seqP (markGeneration env (g_ID generation) GenerationFailed) (Ret False)
                     else bindP (nowP env) (\<lambda>resetStarted.
                       bindP (startStoredPhase env cfg node PhaseReset 0 resetStarted) (\<lambda>phaseID.
                       seqP (poolUpd (SetPhase i phaseID))
                       (seqP (emit env cfg ''worker_resetting'' [(''id'', i), (''ip'', IP node)])
                         (resetRun env cfg (node\<lparr>PhaseID := phaseID\<rparr>) generation resetter imageID userData hostPub
                            resetStarted)))))))))))"

definition resetWorker ::
  "'w Env \<Rightarrow> Config \<Rightarrow> Node \<Rightarrow> (string \<Rightarrow> ResetSpec \<Rightarrow> 'w \<Rightarrow> Instance result \<times> 'w) \<Rightarrow> string \<Rightarrow> ('w, bool) orch" where
  "resetWorker env cfg node resetter imageID =
     bindP (resetAttempt env cfg node resetter imageID) (\<lambda>ok. seqP (releaseImage imageID) (Ret ok))"

subsection \<open>Running a job\<close>

definition finishDispatchedWorker :: "'w Env \<Rightarrow> Config \<Rightarrow> Node \<Rightarrow> ('w, unit) orch" where
  "finishDispatchedWorker env cfg node =
     (let i = InstanceID node; destroy = destroyAfterJob env cfg node ''one_job_complete'' in
      if \<not> cf_OneJobPerVM cfg
      then bindP (nowP env) (\<lambda>idleAt. bindP (startStoredPhase env cfg node PhaseReadyIdle 0 idleAt) (\<lambda>phaseID.
             seqP (poolUpd (SetPhase i phaseID))
             (seqP (poolSetState i StateIdle)
               (emit env cfg ''worker_idle'' [(''id'', i), (''ip'', IP node)]))))
      else if cf_ResetMode cfg = resetModeSnapshot
      then bindP acquireManagedImage (\<lambda>imageID.
             if imageID = '''' then destroy
             else case e_Resetter env of
                    None \<Rightarrow> seqP (releaseImage imageID) destroy
                  | Some resetter \<Rightarrow> bindP (resetWorker env cfg node resetter imageID) (\<lambda>ok. if ok then Ret () else destroy))
      else destroy)"

definition phaseOutcomeStorageFailed :: string where
  "phaseOutcomeStorageFailed = ''storage_failed''"

text \<open>The end of a run: the terminal job record, its metadata, its direct cost. Returns the phase outcome.\<close>

definition settleJob ::
  "'w Env \<Rightarrow> Config \<Rightarrow> Node \<Rightarrow> WaitingJob \<Rightarrow> JobStatus \<Rightarrow> string \<Rightarrow> bool \<Rightarrow> string \<Rightarrow> ('w, string) orch" where
  "settleJob env cfg node job status failure enrich outcome =
     bindP (nowP env) (\<lambda>at. bindP (persistJob env cfg node job status failure at) (\<lambda>stored.
     seqP (whenP enrich (enrichJob env cfg job status))
     (case stored of
        Inl _ \<Rightarrow> Ret phaseOutcomeStorageFailed
      | Inr record \<Rightarrow> seqP (recordDirectJobCost env cfg node record) (Ret outcome))))"

definition runRegistered :: "'w Env \<Rightarrow> Config \<Rightarrow> Node \<Rightarrow> WaitingJob \<Rightarrow> Registration \<Rightarrow> ('w, string) orch" where
  "runRegistered env cfg node job reg =
     (let i = InstanceID node; handle = wj_Handle job in
      seqP (emit env cfg ''job_dispatched''
              [(''id'', i), (''ip'', IP node), (''handle'', handle), (''runner_uuid'', rg_UUID reg)])
      (bindP (nowP env) (\<lambda>at. bindP (persistJob env cfg node job JobRunning '''' at) (\<lambda>r.
       case r of
         Inl _ \<Rightarrow> Ret phaseOutcomeStorageFailed
       | Inr _ \<Rightarrow> bindP (worldP (e_RunJob env i (addrFor cfg node) reg job)) (\<lambda>r.
           case r of
             Inl _ \<Rightarrow> bindP (settleJob env cfg node job JobInfraFailed ''runner'' True ''infra_failed'') (\<lambda>outcome.
               seqP (emit env cfg ''job_failed''
                       [(''id'', i), (''ip'', IP node), (''handle'', handle), (''failure_class'', ''runner'')]) (Ret outcome))
           | Inr _ \<Rightarrow> bindP (settleJob env cfg node job JobSucceeded '''' True ''succeeded'') (\<lambda>outcome.
               seqP (emit env cfg ''job_complete'' [(''id'', i), (''ip'', IP node), (''handle'', handle)]) (Ret outcome)))))))"

definition runJobP :: "'w Env \<Rightarrow> Config \<Rightarrow> Node \<Rightarrow> WaitingJob \<Rightarrow> ('w, string) orch" where
  "runJobP env cfg node job =
     bindP (shortIDP env) (\<lambda>suffix.
     bindP (worldP (e_RegisterEphemeral env (cf_Tag cfg @ ''-'' @ suffix) (cf_Labels cfg))) (\<lambda>r.
     case r of
       Inl _ \<Rightarrow> bindP (settleJob env cfg node job JobInfraFailed ''registration'' False ''infra_failed'') (\<lambda>outcome.
         seqP (emit env cfg ''job_failed''
                 [(''id'', InstanceID node), (''handle'', wj_Handle job), (''failure_class'', ''registration'')]) (Ret outcome))
     | Inr reg \<Rightarrow> seqP (addActive (rg_UUID reg)) (bindP (runRegistered env cfg node job reg) (\<lambda>outcome.
         seqP (removeActive (rg_UUID reg)) (Ret outcome)))))"

definition finishJob :: "'w Env \<Rightarrow> Config \<Rightarrow> Node \<Rightarrow> WaitingJob \<Rightarrow> string \<Rightarrow> ('w, unit) orch" where
  "finishJob env cfg node job outcome =
     (let i = InstanceID node in
      bindP (poolP (Get i)) (\<lambda>(found, ok).
      let current = (if ok then found else node) in
      bindP (nowP env) (\<lambda>at.
      seqP (finishStoredPhase env cfg (PhaseID current) outcome '''' at)
      (bindP hasStore (\<lambda>has.
       bindP (if has \<and> GenerationID current \<noteq> 0
              then bindP (nowP env) (\<lambda>at. setGeneration env (GenerationID current)
                     (if cf_OneJobPerVM cfg then GenerationDirty else GenerationReady) at)
              else Ret (Inr ())) (\<lambda>r.
       seqP (case r of Inl e \<Rightarrow> storageError env cfg ''finish job generation'' (Some e) | Inr _ \<Rightarrow> Ret ())
       (seqP (poolUpd (SetJob i ''''))
       (bindP (nowP env) (\<lambda>at.
        seqP (poolUpd (Touch i at))
        (seqP (unmarkDispatching (wj_Handle job))
          (case r of
             Inl _ \<Rightarrow> destroyAfterJob env cfg current ''generation_persistence_failed''
           | Inr _ \<Rightarrow> finishDispatchedWorker env cfg current)))))))))))"

definition jobBody :: "'w Env \<Rightarrow> Config \<Rightarrow> Node \<Rightarrow> WaitingJob \<Rightarrow> ('w, unit) orch" where
  "jobBody env cfg node job = bindP (runJobP env cfg node job) (finishJob env cfg node job)"

subsection \<open>Teardown\<close>

text \<open>
  The goroutines of \<open>applyTeardown\<close>: a dirty worker whose destruction has to be retried, and an
  idle worker whose billing window ends.
\<close>

definition drainBody :: "'w Env \<Rightarrow> Config \<Rightarrow> Node \<Rightarrow> ('w, unit) orch" where
  "drainBody env cfg node =
     (let i = InstanceID node in
      bindP (beginStoredMutation env cfg ''destroy'' node) (\<lambda>op.
      case op of
        Inl _ \<Rightarrow> seqP (poolSetState i StateDraining) (Ret ())
      | Inr operationID \<Rightarrow>
          bindP (nowP env) (\<lambda>at. seqP (finishStoredPhase env cfg (PhaseID node) ''removing'' '''' at)
          (bindP (nowP env) (\<lambda>at. bindP (startStoredPhase env cfg node PhaseRemoving 0 at) (\<lambda>phaseID.
           seqP (poolUpd (SetPhase i phaseID))
           (bindP (worldP (e_Destroy env i)) (\<lambda>r.
            case r of
              Inl e \<Rightarrow>
                bindP (nowP env) (\<lambda>at. seqP (finishStoredPhase env cfg phaseID ''failed'' (errorText e) at)
                (seqP (finishStoredMutation env cfg operationID i ''provider_destroy'' False)
                (seqP (poolSetState i StateDraining) (Ret ()))))
            | Inr _ \<Rightarrow>
                bindP (nowP env) (\<lambda>at. seqP (finishStoredPhase env cfg phaseID ''destroyed'' '''' at)
                (seqP (finishStoredMutation env cfg operationID i '''' True)
                (seqP (closeStoredResource env cfg (node\<lparr>PhaseID := phaseID\<rparr>) ResourceClosed ''dirty_retry'')
                (seqP (poolUpd (Delete i))
                  (emit env cfg ''worker_reaped'' [(''id'', i), (''ip'', IP node), (''reason'', ''dirty_retry'')])))))))))))))"

definition restoreResource :: "'w Env \<Rightarrow> Config \<Rightarrow> string \<Rightarrow> Node \<Rightarrow> ('w, unit) orch" where
  "restoreResource env cfg operation node =
     bindP hasStore (\<lambda>has. whenP (has \<and> ResourceID node \<noteq> 0) (bindP (nowP env) (\<lambda>at.
       reportFailure env cfg operation (storeP env (\<lambda>t. SetResourceState t (ResourceID node) ResourceActive at)))))"

definition idleReapBody :: "'w Env \<Rightarrow> Config \<Rightarrow> Node \<Rightarrow> ('w, unit) orch" where
  "idleReapBody env cfg node =
     (let i = InstanceID node in
      bindP (beginStoredMutation env cfg ''destroy'' node) (\<lambda>op.
      case op of
        Inl _ \<Rightarrow> seqP (poolSetState i StateIdle) (Ret ())
      | Inr operationID \<Rightarrow>
          bindP (nowP env) (\<lambda>at. seqP (finishStoredPhase env cfg (PhaseID node) ''removing'' '''' at)
          (bindP (nowP env) (\<lambda>at. bindP (startStoredPhase env cfg node PhaseRemoving 0 at) (\<lambda>phaseID.
           seqP (poolUpd (SetPhase i phaseID))
           (bindP (worldP (e_Destroy env i)) (\<lambda>r.
            case r of
              Inl e \<Rightarrow>
                bindP (nowP env) (\<lambda>at. seqP (finishStoredPhase env cfg phaseID ''failed'' (errorText e) at)
                (seqP (finishStoredMutation env cfg operationID i ''provider_destroy'' False)
                (seqP (restoreResource env cfg ''restore idle resource'' node)
                (bindP (nowP env) (\<lambda>at. bindP (startStoredPhase env cfg node PhaseReadyIdle 0 at) (\<lambda>phaseID.
                 seqP (poolUpd (SetPhase i phaseID))
                 (seqP (poolSetState i StateIdle) (Ret ()))))))))
            | Inr _ \<Rightarrow>
                bindP (nowP env) (\<lambda>destroyedAt.
                seqP (recordIntervalCost env cfg node CostWarmIdle (LastBusy node) destroyedAt)
                (seqP (finishStoredPhase env cfg phaseID ''destroyed'' '''' destroyedAt)
                (seqP (finishStoredMutation env cfg operationID i '''' True)
                (seqP (closeStoredResource env cfg (node\<lparr>PhaseID := phaseID\<rparr>) ResourceClosed ''billing_policy'')
                (seqP (poolUpd (Delete i))
                  (emit env cfg ''worker_reaped'' [(''id'', i), (''ip'', IP node)]))))))))))))))"

end
