(* ===== verification/Orch_Images.thy ===== *)
theory Orch_Images
  imports Orch_Workers
begin

text \<open>
  Managed golden images, src/internal/orchestrator/images.go: discovering and rotating the images
  the daemon owns, building a new one on a builder machine, promoting that machine to a worker,
  and bringing snapshot rows and orphaned builders back in line with the provider after a crash.
  A fingerprint is at least twelve characters long (it is a SHA-256 in hexadecimal); the source
  slices its first twelve.
\<close>

definition imageReconcileInterval :: duration where
  "imageReconcileInterval = 5 * minute"

definition zeroSnapshot :: Snapshot where
  "zeroSnapshot = \<lparr>s_ID = 0, s_OperationID = '''', s_Provider = '''', s_Driver = '''', s_Tier = '''', s_ExternalID = '''',
     s_Name = '''', s_Fingerprint = '''', s_SourceResourceID = 0, s_State = SnapshotUnset, s_SizeBytes = 0,
     s_CreatedAt = zero_time, s_UpdatedAt = zero_time, s_CompletedAt = zero_time, s_Detail = ''''\<rparr>"

subsection \<open>Snapshot rows\<close>

definition snapshotsP :: "'w Env \<Rightarrow> Config \<Rightarrow> ('w, Snapshot list result) orch" where
  "snapshotsP env cfg = storeP env (\<lambda>_. Snapshots
     \<lparr>sf_Provider = cf_ProviderName cfg, sf_Tier = cf_Tier cfg, sf_Fingerprint = '''', sf_States = []\<rparr>)"

definition activateSnapshotP :: "'w Env \<Rightarrow> int \<Rightarrow> ManagedImage \<Rightarrow> ('w, unit result) orch" where
  "activateSnapshotP env i img =
     bindP (nowP env) (\<lambda>at. storeP env (\<lambda>t. ActivateSnapshot t i (mi_ID img) (mi_SizeBytes img) at))"

definition setSnapshotP :: "'w Env \<Rightarrow> int \<Rightarrow> SnapshotState \<Rightarrow> string \<Rightarrow> ('w, unit result) orch" where
  "setSnapshotP env i state detail =
     bindP (nowP env) (\<lambda>at. storeP env (\<lambda>t. SetSnapshotState t i state detail at))"

definition adopted :: "ManagedImage \<Rightarrow> Snapshot \<Rightarrow> Snapshot" where
  "adopted img record =
     record\<lparr>s_ExternalID := mi_ID img, s_SizeBytes := mi_SizeBytes img, s_State := SnapshotActive\<rparr>"

text \<open>The row of an image: the first one with its ID, or a nameless one it belongs to, which is activated.\<close>

definition matchesImage :: "ManagedImage \<Rightarrow> Snapshot \<Rightarrow> bool" where
  "matchesImage img record \<longleftrightarrow> s_ExternalID record = mi_ID img \<or>
     (s_ExternalID record = '''' \<and> s_Name record = mi_Name img \<and> s_Fingerprint record = mi_Fingerprint img)"

definition ensureStoredSnapshot :: "'w Env \<Rightarrow> Config \<Rightarrow> ManagedImage \<Rightarrow> ('w, Snapshot result) orch" where
  "ensureStoredSnapshot env cfg img =
     bindP hasStore (\<lambda>has.
     if \<not> has then Ret (Inr zeroSnapshot)
     else bindR' (snapshotsP env cfg) (\<lambda>records.
       case find (matchesImage img) records of
         Some record \<Rightarrow>
           if s_ExternalID record = mi_ID img then Ret (Inr record)
           else bindR' (activateSnapshotP env (s_ID record) img) (\<lambda>_. Ret (Inr (adopted img record)))
       | None \<Rightarrow> bindP (shortIDP env) (\<lambda>i.
           bindR' (storeP env (\<lambda>t. BeginSnapshot t
                (zeroSnapshot\<lparr>s_OperationID := ''adopt-snapshot-'' @ mi_ID img @ ''-'' @ i,
                   s_Provider := cf_ProviderName cfg, s_Driver := cf_Driver cfg, s_Tier := cf_Tier cfg,
                   s_Name := mi_Name img, s_Fingerprint := mi_Fingerprint img, s_State := SnapshotBuilding,
                   s_CreatedAt := mi_CreatedAt img\<rparr>)))
             (\<lambda>record. bindR' (activateSnapshotP env (s_ID record) img) (\<lambda>_. Ret (Inr (adopted img record)))))))"

definition activateStoredSnapshot :: "'w Env \<Rightarrow> Config \<Rightarrow> ManagedImage \<Rightarrow> ('w, unit result) orch" where
  "activateStoredSnapshot env cfg img =
     bindR' (ensureStoredSnapshot env cfg img) (\<lambda>record.
     bindP hasStore (\<lambda>has.
     if \<not> has \<or> s_ID record = 0 then Ret (Inr ()) else activateSnapshotP env (s_ID record) img))"

definition beginStoredSnapshot :: "'w Env \<Rightarrow> Config \<Rightarrow> int \<Rightarrow> string \<Rightarrow> ('w, Snapshot result) orch" where
  "beginStoredSnapshot env cfg sourceResourceID fingerprint =
     bindP hasStore (\<lambda>has.
     if \<not> has then Ret (Inr zeroSnapshot)
     else bindP (shortIDP env) (\<lambda>i. bindP (nowP env) (\<lambda>at.
       reported env cfg ''begin snapshot'' (storeP env (\<lambda>t. BeginSnapshot t
         (zeroSnapshot\<lparr>s_OperationID := ''create-snapshot-'' @ i, s_Provider := cf_ProviderName cfg,
            s_Driver := cf_Driver cfg, s_Tier := cf_Tier cfg,
            s_Name := cf_Tag cfg @ ''-golden-'' @ take 12 fingerprint, s_Fingerprint := fingerprint,
            s_SourceResourceID := sourceResourceID, s_State := SnapshotBuilding, s_CreatedAt := at\<rparr>))))))"

definition failStoredSnapshot :: "'w Env \<Rightarrow> Config \<Rightarrow> Snapshot \<Rightarrow> string \<Rightarrow> ('w, unit) orch" where
  "failStoredSnapshot env cfg snapshot detail =
     bindP hasStore (\<lambda>has. whenP (has \<and> s_ID snapshot \<noteq> 0)
       (reportFailure env cfg ''fail snapshot'' (setSnapshotP env (s_ID snapshot) SnapshotFailed detail)))"

definition snapshotNanos :: "PriceQuote \<Rightarrow> int \<Rightarrow> duration \<Rightarrow> int" where
  "snapshotNanos quote sizeBytes elapsed =
     (let gbNanos = proportionalNanos (q_SnapshotGBMonthNanos quote) sizeBytes 1000000000
      in proportionalNanos gbNanos elapsed (30 * 24 * hour))"

definition snapshotEntry :: "Snapshot \<Rightarrow> instant \<Rightarrow> instant \<Rightarrow> instant \<Rightarrow> PriceQuote option \<Rightarrow> CostEntry" where
  "snapshotEntry snapshot start stop at quote =
     (let entry = zeroCost\<lparr>c_SnapshotID := s_ID snapshot, c_Kind := CostSnapshotStorage, c_Estimated := True,
                    c_StartedAt := start, c_EndedAt := stop, c_RecordedAt := at\<rparr>
      in case quote of
           None \<Rightarrow> entry
         | Some q \<Rightarrow> entry\<lparr>c_PriceQuoteID := q_ID q, c_Currency := q_Currency q, c_Known := s_SizeBytes snapshot > 0,
             c_Nanos := (if s_SizeBytes snapshot > 0
                         then snapshotNanos q (s_SizeBytes snapshot) (time_sub stop start) else 0)\<rparr>)"

definition recordSnapshotStorageCost :: "'w Env \<Rightarrow> Config \<Rightarrow> Snapshot \<Rightarrow> instant \<Rightarrow> ('w, unit) orch" where
  "recordSnapshotStorageCost env cfg snapshot stop =
     (let start = (if is_zero (s_CompletedAt snapshot) then s_CreatedAt snapshot else s_CompletedAt snapshot) in
      bindP hasStore (\<lambda>has.
      if \<not> has \<or> s_ID snapshot = 0 \<or> is_zero start \<or> stop < start then Ret ()
      else bindP (nowP env) (\<lambda>at.
        bindP (storeP env (\<lambda>_. LatestPriceQuote (cf_ProviderName cfg) (cf_InstanceType cfg))) (\<lambda>quote.
        if \<not> readable quote then storageError env cfg ''read snapshot price quote'' (errOf quote)
        else reportFailure env cfg ''record snapshot storage cost'' (storeP env (\<lambda>t. RecordCost t
               (snapshotEntry snapshot start stop at (case quote of Inl _ \<Rightarrow> None | Inr q \<Rightarrow> Some q))))))))"

subsection \<open>Recovery of snapshots\<close>

definition imageKey :: "string \<Rightarrow> string \<Rightarrow> string" where
  "imageKey name fingerprint = name @ [CHR 0x00] @ fingerprint"

definition newestWithKey :: "string \<Rightarrow> ManagedImage list \<Rightarrow> ManagedImage option" where
  "newestWithKey key owned = fold (\<lambda>img best.
     if imageKey (mi_Name img) (mi_Fingerprint img) = key
     then case best of
            None \<Rightarrow> Some img
          | Some current \<Rightarrow> if mi_CreatedAt img > mi_CreatedAt current then Some img else best
     else best) owned None"

definition imageOf :: "ManagedImage list \<Rightarrow> Snapshot \<Rightarrow> ManagedImage option" where
  "imageOf owned record =
     (case find (\<lambda>img. mi_ID img = s_ExternalID record) (rev owned) of
        Some img \<Rightarrow> Some img
      | None \<Rightarrow> if s_ExternalID record = '''' then newestWithKey (imageKey (s_Name record) (s_Fingerprint record)) owned
                else None)"

definition finishDeletes ::
  "'w Env \<Rightarrow> Mutation list \<Rightarrow> MutationState \<Rightarrow> string \<Rightarrow> string \<Rightarrow> ('w, unit result) orch" where
  "finishDeletes env deletes state externalID detail =
     foldR (\<lambda>mutation _. finishAt env (m_OperationID mutation) state externalID detail) deletes ()"

definition recoverSnapshot ::
  "'w Env \<Rightarrow> Config \<Rightarrow> ManagedImage list \<Rightarrow> Mutation list \<Rightarrow> Snapshot \<Rightarrow> ('w, unit result) orch" where
  "recoverSnapshot env cfg owned deletes record =
     (let gone = (\<lambda>detail. bindP (nowP env) (\<lambda>at. seqP (recordSnapshotStorageCost env cfg record at)
                   (setSnapshotP env (s_ID record) SnapshotDeleted detail)))
      in case s_State record of
           SnapshotBuilding \<Rightarrow>
             (case imageOf owned record of
                Some img \<Rightarrow> activateSnapshotP env (s_ID record) img
              | None \<Rightarrow> bindP builderCount (\<lambda>builders.
                  if builders = 0
                  then setSnapshotP env (s_ID record) SnapshotFailed ''provider image missing during recovery''
                  else Ret (Inr ())))
         | SnapshotDeleting \<Rightarrow>
             (case imageOf owned record of
                Some img \<Rightarrow>
                  bindR' (finishDeletes env deletes MutationFailed (mi_ID img)
                            ''provider image still exists; deletion will be retried'')
                    (\<lambda>_. setSnapshotP env (s_ID record) SnapshotStale ''recovered incomplete deletion'')
              | None \<Rightarrow>
                  bindR' (gone ''provider image absent during recovery'') (\<lambda>_.
                    finishDeletes env deletes MutationSucceeded (s_ExternalID record)
                      ''provider image absent during recovery''))
         | SnapshotDeleted \<Rightarrow>
             finishDeletes env deletes MutationSucceeded (s_ExternalID record) ''snapshot already deleted''
         | SnapshotFailed \<Rightarrow> Ret (Inr ())
         | SnapshotUnset \<Rightarrow> Ret (Inr ())
         | _ \<Rightarrow> if imageOf owned record = None \<and> s_ExternalID record \<noteq> ''''
               then gone ''provider image disappeared'' else Ret (Inr ()))"

definition recoverStoredSnapshots :: "'w Env \<Rightarrow> Config \<Rightarrow> ManagedImage list \<Rightarrow> ('w, unit result) orch" where
  "recoverStoredSnapshots env cfg owned =
     bindP hasStore (\<lambda>has.
     if \<not> has then Ret (Inr ())
     else bindR' (snapshotsP env cfg) (\<lambda>records.
       bindR' (storeP env (\<lambda>_. PendingMutations)) (\<lambda>pending.
       foldR (\<lambda>record _. recoverSnapshot env cfg owned
           (filter (\<lambda>m. m_Provider m = cf_ProviderName cfg \<and> m_Tier m = cf_Tier cfg \<and>
                        m_Kind m = mutationDeleteSnapshot \<and> m_SnapshotID m = s_ID record) pending) record) records ())))"

subsection \<open>Stale images\<close>

definition beginDelete :: "'w Env \<Rightarrow> Config \<Rightarrow> ManagedImage \<Rightarrow> Snapshot \<Rightarrow> ('w, string result) orch" where
  "beginDelete env cfg img snapshot =
     bindP hasStore (\<lambda>has.
     if \<not> has \<or> s_ID snapshot = 0 then Ret (Inr '''')
     else bindP (setSnapshotP env (s_ID snapshot) SnapshotDeleting '''') (\<lambda>r.
       case r of
         Inl e \<Rightarrow> seqP (storageError env cfg ''mark snapshot deleting'' (Some e)) (Ret (Inl e))
       | Inr _ \<Rightarrow> bindP (shortIDP env) (\<lambda>i. let op = ''delete-snapshot-'' @ mi_ID img @ ''-'' @ i in
           bindP (nowP env) (\<lambda>at. bindP (storeP env (\<lambda>t. BeginMutation t
              (pendingMutation op mutationDeleteSnapshot (cf_ProviderName cfg) (cf_Tier cfg) 0 (s_ID snapshot) at))) (\<lambda>r.
           case r of
             Inl e \<Rightarrow> seqP (storageError env cfg ''begin snapshot deletion'' (Some e)) (Ret (Inl e))
           | Inr _ \<Rightarrow> Ret (Inr op))))))"

definition ignoreP :: "('w, 'a) orch \<Rightarrow> ('w, unit) orch" where
  "ignoreP p = seqP p (Ret ())"

definition deleteStaleImage ::
  "'w Env \<Rightarrow> Config \<Rightarrow> 'w ManagedImageProvider \<Rightarrow> ManagedImage \<Rightarrow> ('w, unit) orch" where
  "deleteStaleImage env cfg images img =
     bindP (ensureStoredSnapshot env cfg img) (\<lambda>r.
     case r of
       Inl e \<Rightarrow> storageError env cfg ''record stale snapshot'' (Some e)
     | Inr snapshot \<Rightarrow> bindP (beginDelete env cfg img snapshot) (\<lambda>op.
         case op of
           Inl _ \<Rightarrow> Ret ()
         | Inr operationID \<Rightarrow> bindP (worldP (mp_DeleteImage images (mi_ID img))) (\<lambda>r. bindP hasStore (\<lambda>has.
             case r of
               Inl e \<Rightarrow> whenP (has \<and> operationID \<noteq> '''')
                 (seqP (finishAt env operationID MutationFailed (mi_ID img) (errorText e))
                   (ignoreP (setSnapshotP env (s_ID snapshot) SnapshotStale (errorText e))))
             | Inr _ \<Rightarrow> seqP (whenP (has \<and> s_ID snapshot \<noteq> 0)
                 (seqP (finishAt env operationID MutationSucceeded (mi_ID img) '''')
                   (bindP (nowP env) (\<lambda>at. seqP (recordSnapshotStorageCost env cfg snapshot at)
                     (reportFailure env cfg ''mark snapshot deleted'' (setSnapshotP env (s_ID snapshot) SnapshotDeleted ''''))))))
                 (emit env cfg ''snapshot_deleted'' [(''image_id'', mi_ID img)])))))"

definition cleanupStaleImages ::
  "'w Env \<Rightarrow> Config \<Rightarrow> 'w ManagedImageProvider \<Rightarrow> ManagedImage list \<Rightarrow> string \<Rightarrow> ('w, unit) orch" where
  "cleanupStaleImages env cfg images owned activeID =
     bindP hasStore (\<lambda>has.
     seqP (forP (\<lambda>img. if mi_ID img = activeID then Ret ()
                         else bindP (imageInUse (mi_ID img)) (\<lambda>used.
                           if used then Ret () else deleteStaleImage env cfg images img)) owned)
       (whenP has
          (case find (\<lambda>img. mi_ID img = activeID) owned of
             None \<Rightarrow> Ret ()
           | Some img \<Rightarrow> reportFailure env cfg ''restore active snapshot'' (activateStoredSnapshot env cfg img))))"

subsection \<open>Building an image\<close>

definition promoteImageBuilder ::
  "'w Env \<Rightarrow> Config \<Rightarrow> Node \<Rightarrow> Generation \<Rightarrow> (string \<Rightarrow> string \<Rightarrow> 'w \<Rightarrow> unit result \<times> 'w) \<Rightarrow> string \<Rightarrow> ('w, bool) orch" where
  "promoteImageBuilder env cfg node generation promoter imageID =
     (let i = InstanceID node; node = node\<lparr>State := StateResetting\<rparr> in
      bindP hasStore (\<lambda>has.
      bindP (if has \<and> g_ID generation \<noteq> 0
             then bindP (nowP env) (\<lambda>at. bindP (setGeneration env (g_ID generation) GenerationDirty at) (\<lambda>r.
                    case r of
                      Inl e \<Rightarrow> seqP (storageError env cfg ''mark image builder unclean'' (Some e)) (Ret False)
                    | Inr _ \<Rightarrow> bindP (nowP env) (\<lambda>at.
                        bindP (storeP env (\<lambda>t. SetResourceState t (ResourceID node) ResourceResetting at)) (\<lambda>r.
                        case r of
                          Inl e \<Rightarrow> seqP (storageError env cfg ''prepare image builder promotion'' (Some e)) (Ret False)
                        | Inr _ \<Rightarrow> Ret True))))
             else Ret True) (\<lambda>prepared.
      if \<not> prepared then Ret False
      else seqP (poolUpd (Put node))
        (bindP (worldP (promoter i (cf_Tag cfg))) (\<lambda>r.
         case r of
           Inl _ \<Rightarrow> seqP (emit env cfg ''snapshot_builder_promotion_failed'' [(''id'', i)]) (Ret False)
         | Inr _ \<Rightarrow>
             seqP (emit env cfg ''snapshot_builder_promoted'' [(''id'', i)])
             (bindP acquireManagedImage (\<lambda>acquired.
              if acquired = '''' \<or> acquired \<noteq> imageID
              then seqP (whenP (acquired \<noteq> '''') (releaseImage acquired))
                     (seqP (poolSetState i StateDraining) (Ret False))
              else case e_Resetter env of
                     None \<Rightarrow> seqP (releaseImage acquired) (Ret False)
                   | Some resetter \<Rightarrow> bindP (resetWorker env cfg node resetter acquired) (\<lambda>ok.
                       if \<not> ok then Ret False
                       else bindP (nowP env) (\<lambda>at.
                         seqP (recordIntervalCost env cfg node CostImageBuilder (CreatedAt node) at) (Ret True)))))))))) "

text \<open>What the deferred function of \<open>buildManagedImage\<close> sees: \<open>reusedAsWorker\<close>, \<open>builderPhaseFinished\<close>, \<open>builderNode\<close>.\<close>

type_synonym build_outcome = "bool \<times> bool \<times> Node"

definition rotateImage ::
  "'w Env \<Rightarrow> Config \<Rightarrow> 'w ManagedImageProvider \<Rightarrow> ManagedImage \<Rightarrow> string \<Rightarrow> Generation \<Rightarrow> Node \<Rightarrow> ('w, build_outcome) orch" where
  "rotateImage env cfg images img fingerprint generation node =
     seqP (SetManagedImage (mi_ID img))
     (seqP (emit env cfg ''snapshot_activated'' [(''image_id'', mi_ID img), (''fingerprint'', fingerprint)])
     (bindP (case e_PromoteBuilder env of
               None \<Rightarrow> Ret (False, False)
             | Some promoter \<Rightarrow> bindP (nowP env) (\<lambda>at.
                 seqP (finishStoredPhase env cfg (PhaseID node) ''snapshot_created'' '''' at)
                 (bindP (promoteImageBuilder env cfg node generation promoter (mi_ID img)) (\<lambda>ok. Ret (ok, True)))))
        (\<lambda>(reused, phaseFinished).
          bindP (worldP (mp_ListImages images (cf_Tag cfg))) (\<lambda>r.
          seqP (case r of Inl _ \<Rightarrow> Ret () | Inr owned \<Rightarrow> cleanupStaleImages env cfg images owned (mi_ID img))
            (Ret (reused, phaseFinished, node))))))"

definition captureImage ::
  "'w Env \<Rightarrow> Config \<Rightarrow> 'w ManagedImageProvider \<Rightarrow> string \<Rightarrow> Resource \<Rightarrow> Generation \<Rightarrow> Node \<Rightarrow> ('w, build_outcome) orch" where
  "captureImage env cfg images fingerprint resource generation node =
     bindP (beginStoredSnapshot env cfg (r_ID resource) fingerprint) (\<lambda>r.
     case r of
       Inl _ \<Rightarrow> Ret (False, False, node)
     | Inr snapshot \<Rightarrow>
         bindP (worldP (mp_CreateImage images
             \<lparr>is_Tag = cf_Tag cfg, is_Name = cf_Tag cfg @ ''-golden-'' @ take 12 fingerprint,
              is_SourceInstanceID = InstanceID node, is_Fingerprint = fingerprint\<rparr>)) (\<lambda>r.
         case r of
           Inl e \<Rightarrow> seqP (failStoredSnapshot env cfg snapshot (errorText e))
             (seqP (emit env cfg ''snapshot_build_failed'' [(''stage'', resetModeSnapshot), (''id'', InstanceID node)])
               (Ret (False, False, node)))
         | Inr img \<Rightarrow> bindP hasStore (\<lambda>has.
             bindP (if has \<and> s_ID snapshot \<noteq> 0 then activateSnapshotP env (s_ID snapshot) img else Ret (Inr ())) (\<lambda>r.
             case r of
               Inl e \<Rightarrow> seqP (storageError env cfg ''activate snapshot'' (Some e)) (Ret (False, False, node))
             | Inr _ \<Rightarrow> rotateImage env cfg images img fingerprint generation node))))"

definition prepareBuilder ::
  "'w Env \<Rightarrow> Config \<Rightarrow> 'w ManagedImageProvider \<Rightarrow> (string \<Rightarrow> string \<Rightarrow> 'w \<Rightarrow> unit result \<times> 'w) \<Rightarrow> string \<Rightarrow> string \<Rightarrow>
   Instance \<Rightarrow> Resource \<Rightarrow> Generation \<Rightarrow> Node \<Rightarrow> ('w, build_outcome) orch" where
  "prepareBuilder env cfg images preparer fingerprint hostPub inst resource generation node =
     (let i = in_ID inst; addr = addrForInstance cfg (in_IPv4 inst) (in_VPCIPv4 inst) in
      seqP (emit env cfg ''snapshot_build_started'' [(''id'', i), (''ip'', in_IPv4 inst)])
      (seqP (pinHostKeyP env (in_IPv4 inst) hostPub)
      (bindP (worldP (e_WaitReady env i addr)) (\<lambda>r.
       case r of
         Inl _ \<Rightarrow> seqP (markGeneration env (g_ID generation) GenerationFailed)
           (seqP (emit env cfg ''snapshot_build_failed'' [(''stage'', ''readiness''), (''id'', i)]) (Ret (False, False, node)))
       | Inr _ \<Rightarrow>
           bindP hasStore (\<lambda>has.
           bindP (if has \<and> g_ID generation \<noteq> 0
                  then bindP (nowP env) (\<lambda>at. setGeneration env (g_ID generation) GenerationReady at)
                  else Ret (Inr ())) (\<lambda>r.
           case r of
             Inl e \<Rightarrow> seqP (storageError env cfg ''ready image builder'' (Some e)) (Ret (False, False, node))
           | Inr _ \<Rightarrow>
               bindP (nowP env) (\<lambda>at. seqP (finishStoredPhase env cfg (PhaseID node) ''ready'' '''' at)
               (bindP (nowP env) (\<lambda>at. bindP (startStoredPhase env cfg node PhaseImageBuild 0 at) (\<lambda>phaseID.
                let node = node\<lparr>PhaseID := phaseID\<rparr> in
                bindP (worldP (preparer i addr)) (\<lambda>r.
                case r of
                  Inl _ \<Rightarrow> seqP (emit env cfg ''snapshot_build_failed'' [(''stage'', ''sysprep''), (''id'', i)])
                             (Ret (False, False, node))
                | Inr _ \<Rightarrow> captureImage env cfg images fingerprint resource generation node)))))))))))"

definition retireBuilder ::
  "'w Env \<Rightarrow> Config \<Rightarrow> Resource \<Rightarrow> Generation \<Rightarrow> build_outcome \<Rightarrow> ('w, unit) orch" where
  "retireBuilder env cfg resource generation = (\<lambda>(reused, phaseFinished, node).
     let i = InstanceID node in
     if reused then Ret ()
     else bindP (beginStoredMutation env cfg ''destroy_builder'' node) (\<lambda>op.
       case op of
         Inl _ \<Rightarrow> ignoreP (poolSetState i StateDraining)
       | Inr operationID \<Rightarrow> bindP (worldP (e_Destroy env i)) (\<lambda>r.
           case r of
             Inl _ \<Rightarrow> seqP (finishStoredMutation env cfg operationID i ''provider_destroy'' False)
                        (ignoreP (poolSetState i StateDraining))
           | Inr _ \<Rightarrow>
               seqP (finishStoredMutation env cfg operationID i '''' True)
               (seqP (markGeneration env (g_ID generation) GenerationClosed)
               (seqP (whenP (\<not> phaseFinished)
                        (bindP (nowP env) (\<lambda>at. finishStoredPhase env cfg (PhaseID node) ''complete'' '''' at)))
               (bindP (nowP env) (\<lambda>stop. seqP (recordResourceCost env cfg node CostImageBuilder stop)
               (bindP hasStore (\<lambda>has. seqP (whenP (has \<and> r_ID resource \<noteq> 0) (bindP (nowP env) (\<lambda>at.
                    reportFailure env cfg ''close image builder'' (storeP env (\<lambda>t.
                      CloseResource t (r_ID resource) ResourceClosed ''image_builder_complete'' at)))))
                 (poolUpd (Delete i))))))))))) "

definition builderToken :: "Config \<Rightarrow> string" where
  "builderToken cfg = (if cf_FJBAgentDownloadURL cfg \<noteq> '''' then ''snapshot-builder-placeholder'' else '''')"

definition builderSpec :: "Config \<Rightarrow> string \<Rightarrow> string \<Rightarrow> Spec" where
  "builderSpec cfg name userData = (workerSpec cfg name '''' userData)\<lparr>sp_Role := ''builder''\<rparr>"

definition builderNode :: "Instance \<Rightarrow> Resource \<Rightarrow> Generation \<Rightarrow> Phase \<Rightarrow> Node" where
  "builderNode inst resource generation phase =
     Node_zero\<lparr>InstanceID := in_ID inst, ResourceID := r_ID resource, GenerationID := g_ID generation,
       PriceQuoteID := r_PriceQuoteID resource, IP := in_IPv4 inst, VPCIP := in_VPCIPv4 inst,
       CreatedAt := in_CreatedAt inst, PhaseID := p_ID phase\<rparr>"

definition buildManagedImage ::
  "'w Env \<Rightarrow> Config \<Rightarrow> 'w ManagedImageProvider \<Rightarrow> (string \<Rightarrow> string \<Rightarrow> 'w \<Rightarrow> unit result \<times> 'w) \<Rightarrow> string \<Rightarrow> ('w, unit) orch" where
  "buildManagedImage env cfg images preparer fingerprint =
     bindP runtimeConfig (\<lambda>runtime. bindP (hostKeyP env) (\<lambda>key.
     case key of
       Inl _ \<Rightarrow> Ret ()
     | Inr (hostPriv, hostPub) \<Rightarrow>
         (case e_Render env (bootParams cfg runtime hostPriv (builderToken cfg)) of
            Inl _ \<Rightarrow> Ret ()
          | Inr userData \<Rightarrow> bindP (shortIDP env) (\<lambda>suffix.
              let name = cf_Tag cfg @ ''-image-'' @ suffix in
              bindP (beginStoredResource env cfg name name) (\<lambda>r.
              case r of
                Inl _ \<Rightarrow> Ret ()
              | Inr (resource, phase) \<Rightarrow>
                  bindP (worldP (e_Provision env (builderSpec cfg name userData))) (\<lambda>r.
                  case r of
                    Inl _ \<Rightarrow> seqP (failStoredProvision env cfg resource (p_ID phase) ''provider_create_builder'')
                               (emit env cfg ''snapshot_build_failed'' [(''stage'', ''provision'')])
                  | Inr inst \<Rightarrow>
                      bindP (activateStoredResource env cfg resource inst) (\<lambda>g.
                      case g of
                        Inl _ \<Rightarrow> cleanupFailedActivation env cfg resource (p_ID phase) inst ''storage_activation_builder''
                      | Inr generation \<Rightarrow>
                          bindP (prepareBuilder env cfg images preparer fingerprint hostPub inst resource generation
                                   (builderNode inst resource generation phase))
                            (retireBuilder env cfg resource generation))))))))"

definition buildBody :: "'w Env \<Rightarrow> Config \<Rightarrow> string \<Rightarrow> ('w, unit) orch" where
  "buildBody env cfg fingerprint =
     (case (e_Images env, e_PrepareImage env) of
        (Some images, Some preparer) \<Rightarrow> seqP (buildManagedImage env cfg images preparer fingerprint) decBuilders
      | _ \<Rightarrow> decBuilders)"

subsection \<open>The reconciler's half\<close>

definition imageCheckDue :: "instant \<Rightarrow> ('w, bool) orch" where
  "imageCheckDue now = atom (\<lambda>s.
     let due = is_zero (oc_lastImageCheck s) \<or> time_sub now (oc_lastImageCheck s) \<ge> imageReconcileInterval \<or>
               oc_managedImage s = ''''
     in (due, if due then s\<lparr>oc_lastImageCheck := now\<rparr> else s))"

definition launchBuilder :: "bool \<Rightarrow> hotConfig \<Rightarrow> string \<Rightarrow> ('w, unit) orch" where
  "launchBuilder hasDemand runtime fingerprint =
     bindP builderCount (\<lambda>builders.
     if builders \<noteq> 0 then Ret ()
     else if \<not> hasDemand \<and> ht_WarmInstances runtime = 0 then Ret ()
     else bindP (poolP Len) (\<lambda>n. bindP pendingCount (\<lambda>pending. bindP builderCount (\<lambda>builders.
       if int n + int pending + int builders \<ge> ht_MaxScale runtime then Ret ()
       else seqP incBuilders (goP (BuildTask fingerprint))))))"

definition ensureManagedImage :: "'w Env \<Rightarrow> Config \<Rightarrow> bool \<Rightarrow> ('w, unit) orch" where
  "ensureManagedImage env cfg hasDemand =
     (if cf_ResetMode cfg \<noteq> resetModeSnapshot then Ret ()
      else case e_Images env of
        None \<Rightarrow> Ret ()
      | Some images \<Rightarrow> bindP runtimeConfig (\<lambda>runtime.
          if e_PrepareImage env = None then Ret ()
          else bindP (nowP env) (\<lambda>now. bindP (imageCheckDue now) (\<lambda>due.
            if \<not> due then Ret ()
            else bindP (imageFingerprint env cfg) (\<lambda>fingerprint.
              bindP (worldP (mp_ListImages images (cf_Tag cfg))) (\<lambda>r.
              case r of
                Inl _ \<Rightarrow> Ret ()
              | Inr owned \<Rightarrow> bindP (recoverStoredSnapshots env cfg owned) (\<lambda>r.
                  case r of
                    Inl e \<Rightarrow> storageError env cfg ''recover managed images'' (Some e)
                  | Inr _ \<Rightarrow>
                      (case sort_key (\<lambda>img. - mi_CreatedAt img) (filter (\<lambda>img. mi_Fingerprint img = fingerprint) owned) of
                         newest # _ \<Rightarrow> bindP (activateStoredSnapshot env cfg newest) (\<lambda>r.
                           case r of
                             Inl e \<Rightarrow> storageError env cfg ''adopt managed image'' (Some e)
                           | Inr _ \<Rightarrow> seqP (SetManagedImage (mi_ID newest))
                                        (cleanupStaleImages env cfg images owned (mi_ID newest)))
                       | [] \<Rightarrow> seqP (SetManagedImage '''') (launchBuilder hasDemand runtime fingerprint))))))))) "

subsection \<open>Orphaned builders\<close>

definition builderCheckDue :: "instant \<Rightarrow> ('w, bool) orch" where
  "builderCheckDue now = atom (\<lambda>s.
     let due = is_zero (oc_lastBuilderCheck s) \<or> time_sub now (oc_lastBuilderCheck s) \<ge> imageReconcileInterval
     in (due, if due then s\<lparr>oc_lastBuilderCheck := now\<rparr> else s))"

text \<open>The durable identity of a machine the provider lists, found, activated or adopted.\<close>

definition identify ::
  "'w Env \<Rightarrow> Config \<Rightarrow> resources \<Rightarrow> generations \<Rightarrow> Instance \<Rightarrow> ('w, (Resource \<times> Generation) result) orch" where
  "identify env cfg resources generations inst =
     (let resource = (if r_ID (resourceAt resources (in_ID inst)) = 0
                      then resourceAt resources (''name:'' @ in_Name inst) else resourceAt resources (in_ID inst));
          generation = generationAt generations (r_ID resource)
      in bindP hasStore (\<lambda>has.
         if has \<and> r_ID resource \<noteq> 0 \<and> r_ExternalID resource = ''''
         then bindR' (activateStoredResource env cfg resource inst) (\<lambda>generation.
                Ret (Inr (resource\<lparr>r_ExternalID := in_ID inst, r_ProviderCreatedAt := in_CreatedAt inst\<rparr>, generation)))
         else if has \<and> r_ID resource = 0 then adoptStoredResource env cfg inst
         else Ret (Inr (resource, generation))))"

definition reapBuilder ::
  "'w Env \<Rightarrow> Config \<Rightarrow> resources \<Rightarrow> generations \<Rightarrow> Instance \<Rightarrow> ('w, unit result) orch" where
  "reapBuilder env cfg resources generations builder =
     bindR' (identify env cfg resources generations builder) (\<lambda>(resource, generation).
     let i = in_ID builder;
         node = builderNode builder resource generation zeroPhase in
     bindP (nowP env) (\<lambda>at. bindP (startStoredPhase env cfg node PhaseImageBuild 0 at) (\<lambda>phaseID.
     bindR' (beginStoredMutation env cfg ''destroy_builder'' node) (\<lambda>operationID.
     bindP (worldP (e_Destroy env i)) (\<lambda>r.
     case r of
       Inl e \<Rightarrow> seqP (finishStoredMutation env cfg operationID i (errorText e) False)
         (bindP (nowP env) (\<lambda>at. seqP (finishStoredPhase env cfg phaseID ''failed'' (errorText e) at)
           (Ret (Inl (ErrOther (''destroy orphan builder '' @ i @ '': '' @ errorText e))))))
     | Inr _ \<Rightarrow>
         seqP (finishStoredMutation env cfg operationID i '''' True)
         (bindP (nowP env) (\<lambda>at. seqP (finishStoredPhase env cfg phaseID ''recovered_destroy'' '''' at)
         (bindP (nowP env) (\<lambda>stop. seqP (recordResourceCost env cfg node CostImageBuilder stop)
         (seqP (markGeneration env (GenerationID node) GenerationClosed)
         (bindP hasStore (\<lambda>has.
          bindR' (if has \<and> ResourceID node \<noteq> 0
                  then bindP (nowP env) (\<lambda>at. storeP env (\<lambda>t.
                         CloseResource t (ResourceID node) ResourceClosed ''orphan_builder_recovered'' at))
                  else Ret (Inr ()))
            (\<lambda>_. seqP (emit env cfg ''snapshot_builder_reaped'' [(''id'', i)]) (Ret (Inr ())))))))))))))))"

definition recoverOrphanBuilders :: "'w Env \<Rightarrow> Config \<Rightarrow> ('w, unit result) orch" where
  "recoverOrphanBuilders env cfg =
     (if cf_ResetMode cfg \<noteq> resetModeSnapshot then Ret (Inr ())
      else bindP builderCount (\<lambda>builders.
        if builders \<noteq> 0 then Ret (Inr ())
        else bindP (nowP env) (\<lambda>now. bindP (builderCheckDue now) (\<lambda>due.
          if \<not> due then Ret (Inr ())
          else case e_ListBuilders env of
            None \<Rightarrow> Ret (Inr ())
          | Some listBuilders \<Rightarrow> bindP (worldP (listBuilders (cf_Tag cfg))) (\<lambda>r.
              case r of
                Inl e \<Rightarrow> Ret (Inl (ErrOther (''list managed image builders: '' @ errorText e)))
              | Inr orphans \<Rightarrow>
                  if orphans = [] then Ret (Inr ())
                  else bindR' (storageResources env cfg) (\<lambda>(resources, generations).
                    foldR (\<lambda>builder _. reapBuilder env cfg resources generations builder) orphans ()))))))"

end
