(* ===== verification/Orch_Reconcile.thy ===== *)
theory Orch_Reconcile
  imports Orch_Images
begin

text \<open>
  The reconcile loop of one tier, src/internal/orchestrator/orchestrator.go: bringing the pool in
  line with the provider, dispatching waiting jobs, provisioning, teardown, deleting dangling
  runner registrations, the operator's force actions, pause and resume, and the goroutines all of
  this starts.
\<close>

subsection \<open>Adopting and dropping machines\<close>

definition uncleanOnAdopt :: "bool \<Rightarrow> Resource \<Rightarrow> Generation \<Rightarrow> bool" where
  "uncleanOnAdopt has resource generation \<longleftrightarrow>
     (has \<and> r_ID resource \<noteq> 0 \<and> g_ID generation = 0) \<or>
     r_State resource = ResourceResetting \<or> r_State resource = ResourceDestroying \<or>
     g_State generation = GenerationPreparing \<or> g_State generation = GenerationInUse \<or>
     g_State generation = GenerationDirty"

definition adoptedNode :: "bool \<Rightarrow> Instance \<Rightarrow> Resource \<Rightarrow> Generation \<Rightarrow> instant \<Rightarrow> Node" where
  "adoptedNode has inst resource generation now =
     (let state = (if uncleanOnAdopt has resource generation then StateDraining else StateIdle);
          lastBusy = (if state = StateIdle \<and> \<not> is_zero (g_ReadyAt generation) then g_ReadyAt generation else now)
      in Node_zero\<lparr>InstanceID := in_ID inst, ResourceID := r_ID resource, GenerationID := g_ID generation,
           PriceQuoteID := r_PriceQuoteID resource, State := state, IP := in_IPv4 inst, VPCIP := in_VPCIPv4 inst,
           CreatedAt := in_CreatedAt inst, LastBusy := lastBusy\<rparr>)"

text \<open>\<open>generation.State == GenerationPreparing && o.pendingCount() > 0\<close>\<close>

definition beingProvisioned :: "Generation \<Rightarrow> ('w, bool) orch" where
  "beingProvisioned generation =
     (if g_State generation = GenerationPreparing then bindP pendingCount (\<lambda>pending. Ret (pending > 0)) else Ret False)"

definition adoptInstance ::
  "'w Env \<Rightarrow> Config \<Rightarrow> instant \<Rightarrow> resources \<Rightarrow> generations \<Rightarrow> Instance \<Rightarrow> ('w, bool result) orch" where
  "adoptInstance env cfg now resources generations inst =
     bindP (poolP (Get (in_ID inst))) (\<lambda>(_, known).
     if known then Ret (Inr False)
     else
       let resource = (if r_ID (resourceAt resources (in_ID inst)) = 0
                       then resourceAt resources (''name:'' @ in_Name inst) else resourceAt resources (in_ID inst))
       in bindP (beingProvisioned (generationAt generations (r_ID resource))) (\<lambda>skip.
          if skip then Ret (Inr False)
          else bindR' (identify env cfg resources generations inst) (\<lambda>(resource, generation).
            bindP hasStore (\<lambda>has.
            let node = adoptedNode has inst resource generation now;
                phaseKind = (if State node = StateDraining then PhaseRemoving else PhaseReadyIdle)
            in bindP (startStoredPhase env cfg node phaseKind 0 now) (\<lambda>phaseID.
               seqP (poolUpd (Put (node\<lparr>PhaseID := phaseID\<rparr>)))
               (seqP (emit env cfg ''worker_adopted'' [(''id'', in_ID inst), (''ip'', in_IPv4 inst)])
                 (Ret (Inr True))))))))"

text \<open>A loop that counts its successes and stops at the first error.\<close>

definition countR :: "('x \<Rightarrow> ('w, bool result) orch) \<Rightarrow> 'x list \<Rightarrow> ('w, nat \<times> go_error option) orch" where
  "countR f xs = foldP (\<lambda>x (n, err).
     case err of
       Some e \<Rightarrow> Ret (n, Some e)
     | None \<Rightarrow> bindP (f x) (\<lambda>r. case r of Inl e \<Rightarrow> Ret (n, Some e) | Inr b \<Rightarrow> Ret (if b then n + 1 else n, None))) xs (0, None)"

definition vanishedNode :: "string \<Rightarrow> Resource \<Rightarrow> Node" where
  "vanishedNode externalID resource =
     Node_zero\<lparr>InstanceID := externalID, ResourceID := r_ID resource, PriceQuoteID := r_PriceQuoteID resource,
       CreatedAt := r_ProviderCreatedAt resource\<rparr>"

definition closeVanished ::
  "'w Env \<Rightarrow> Config \<Rightarrow> instant \<Rightarrow> string set \<Rightarrow> generations \<Rightarrow> string \<times> Resource \<Rightarrow> ('w, unit result) orch" where
  "closeVanished env cfg now seen generations = (\<lambda>(externalID, resource).
     if hasPrefix externalID ''name:'' \<or> r_ExternalID resource = '''' \<or> externalID \<in> seen then Ret (Inr ())
     else bindP (poolP (Get externalID)) (\<lambda>(current, known).
       if known \<and> State current = StateProvisioning then Ret (Inr ())
       else let generation = generationAt generations (r_ID resource) in
         bindP (beingProvisioned generation) (\<lambda>skip.
         if skip then Ret (Inr ())
         else seqP (whenP (g_ID generation \<noteq> 0) (ignoreP (setGeneration env (g_ID generation) GenerationFailed now)))
             (bindP (poolP (Get externalID)) (\<lambda>(_, tracked).
              seqP (whenP (\<not> tracked)
                      (recordResourceCost env cfg (vanishedNode externalID resource) CostBilledCompute now))
                (storeP env (\<lambda>t. CloseResource t (r_ID resource) ResourceVanished ''provider_list_missing'' now)))))))"

fun stateName :: "NodeState \<Rightarrow> string" where
  "stateName StateUnset = ''''"
| "stateName StateProvisioning = ''provisioning''"
| "stateName StateIdle = ''idle''"
| "stateName StateBusy = ''busy''"
| "stateName StateResetting = ''resetting''"
| "stateName StateDraining = ''draining''"
| "stateName StateRemoving = ''removing''"

definition dropNode :: "'w Env \<Rightarrow> Config \<Rightarrow> string set \<Rightarrow> Node \<Rightarrow> nat \<Rightarrow> ('w, nat) orch" where
  "dropNode env cfg seen n dropped =
     (if InstanceID n \<in> seen \<or> State n = StateProvisioning then Ret dropped
      else seqP (poolUpd (Delete (InstanceID n)))
          (seqP (closeStoredResource env cfg n ResourceVanished ''provider_list_missing'')
          (seqP (emit env cfg ''worker_dropped'' [(''id'', InstanceID n), (''state'', stateName (State n))])
            (Ret (dropped + 1)))))"

definition syncLedger ::
  "'w Env \<Rightarrow> Config \<Rightarrow> instant \<Rightarrow> string set \<Rightarrow> resources \<Rightarrow> generations \<Rightarrow> ('w, unit result) orch" where
  "syncLedger env cfg now seen resources generations =
     bindP hasStore (\<lambda>has.
     if \<not> has then Ret (Inr ())
     else bindR' (foldR (\<lambda>r _. closeVanished env cfg now seen generations r) resources ())
            (\<lambda>_. recoverPendingMutations env cfg seen resources generations))"

definition syncPool :: "'w Env \<Rightarrow> Config \<Rightarrow> Instance list \<Rightarrow> ('w, nat \<times> nat \<times> go_error option) orch" where
  "syncPool env cfg insts =
     bindP (nowP env) (\<lambda>now. bindP (storageResources env cfg) (\<lambda>r.
     case r of
       Inl e \<Rightarrow> Ret (0, 0, Some e)
     | Inr (resources, generations) \<Rightarrow>
         bindP (countR (adoptInstance env cfg now resources generations) insts) (\<lambda>(added, err).
         case err of
           Some e \<Rightarrow> Ret (added, 0, Some e)
         | None \<Rightarrow>
             let seen = set (map in_ID insts) in
             bindP (syncLedger env cfg now seen resources generations) (\<lambda>r.
             case r of
               Inl e \<Rightarrow> Ret (added, 0, Some e)
             | Inr _ \<Rightarrow> bindP (poolP Snapshot_nodes) (\<lambda>nodes.
                 bindP (foldP (dropNode env cfg seen) nodes 0) (\<lambda>dropped. Ret (added, dropped, None)))))))"

subsection \<open>Dispatch\<close>

definition filterServiceable :: "WaitingJob list \<Rightarrow> string list \<Rightarrow> WaitingJob list" where
  "filterServiceable jobs labels =
     (let have = set (BareLabels labels) in filter (\<lambda>j. list_all (\<lambda>want. want \<in> have) (wj_Labels j)) jobs)"

definition dispatch :: "'w Env \<Rightarrow> Config \<Rightarrow> Node \<Rightarrow> WaitingJob \<Rightarrow> ('w, bool) orch" where
  "dispatch env cfg node job =
     (let i = InstanceID node; handle = wj_Handle job in
      bindP (markDispatching handle) (\<lambda>fresh.
      if \<not> fresh then Ret False
      else bindP (nowP env) (\<lambda>assignedAt.
        bindP (persistJob env cfg node job JobAssigned '''' assignedAt) (\<lambda>r.
        case r of
          Inl _ \<Rightarrow> seqP (unmarkDispatching handle) (Ret False)
        | Inr storedJob \<Rightarrow>
            bindP (setGenerationIf env (GenerationID node) GenerationInUse assignedAt) (\<lambda>r.
            case r of
              Inl e \<Rightarrow> seqP (storageError env cfg ''mark generation in use'' (Some e))
                         (seqP (unmarkDispatching handle) (Ret False))
            | Inr _ \<Rightarrow>
                seqP (recordIntervalCost env cfg node CostWarmIdle (LastBusy node) assignedAt)
                (seqP (finishStoredPhase env cfg (PhaseID node) ''dispatched'' '''' assignedAt)
                (bindP (startStoredPhase env cfg node PhaseJob (j_ID storedJob) assignedAt) (\<lambda>phaseID.
                 seqP (poolSetState i StateBusy)
                 (seqP (poolUpd (SetJob i handle))
                 (seqP (poolUpd (SetPhase i phaseID))
                 (seqP (emit env cfg ''worker_busy'' [(''id'', i), (''ip'', IP node), (''handle'', handle)])
                 (seqP (goP (JobTask (node\<lparr>PhaseID := phaseID\<rparr>) job))
                   (Ret True)))))))))))))"

definition holdP :: "'w Env \<Rightarrow> string \<Rightarrow> ('w, bool) orch" where
  "holdP env handle = (case e_HoldForRoutingOptimization env of None \<Rightarrow> Ret False | Some hold \<Rightarrow> worldP (hold handle))"

text \<open>The variables of the loop over the waiting jobs.\<close>

record DispatchLoop =
  dl_idle :: "Node list"
  dl_waiting :: int
  dl_held :: int
  dl_dispatched :: nat

definition dispatchOne :: "'w Env \<Rightarrow> Config \<Rightarrow> WaitingJob \<Rightarrow> DispatchLoop \<Rightarrow> ('w, DispatchLoop) orch" where
  "dispatchOne env cfg job l =
     bindP (isDispatching (wj_Handle job)) (\<lambda>busy.
     if busy then Ret l
     else case dl_idle l of
       node # idle \<Rightarrow> bindP (dispatch env cfg node job) (\<lambda>ok.
         Ret (l\<lparr>dl_idle := idle, dl_dispatched := (if ok then dl_dispatched l + 1 else dl_dispatched l)\<rparr>))
     | [] \<Rightarrow> bindP (holdP env (wj_Handle job)) (\<lambda>hold.
         Ret (l\<lparr>dl_waiting := dl_waiting l + 1, dl_held := (if hold then dl_held l + 1 else dl_held l)\<rparr>)))"

fun repeatP :: "nat \<Rightarrow> ('t, 's, unit) prog \<Rightarrow> ('t, 's, unit) prog" where
  "repeatP 0 p = Ret ()"
| "repeatP (Suc n) p = seqP p (repeatP n p)"

definition provisionNeeded :: "hotConfig \<Rightarrow> DispatchLoop \<Rightarrow> nat \<Rightarrow> int" where
  "provisionNeeded runtime l soon =
     dl_waiting l - dl_held l + ht_WarmInstances runtime - int (length (dl_idle l)) - int soon"

definition dispatchJobs :: "'w Env \<Rightarrow> Config \<Rightarrow> WaitingJob list \<Rightarrow> ('w, nat \<times> nat) orch" where
  "dispatchJobs env cfg jobs =
     bindP runtimeConfig (\<lambda>runtime. bindP (poolP (ByState StateIdle)) (\<lambda>idle.
     bindP (foldP (dispatchOne env cfg) jobs \<lparr>dl_idle = idle, dl_waiting = 0, dl_held = 0, dl_dispatched = 0\<rparr>) (\<lambda>l.
     bindP (poolP (ByState StateProvisioning)) (\<lambda>booting. bindP (poolP (ByState StateResetting)) (\<lambda>resetting.
     bindP pendingCount (\<lambda>pending.
     let needProvision = provisionNeeded runtime l (length booting + length resetting + pending) in
     if needProvision \<le> 0 then Ret (dl_dispatched l, 0)
     else bindP (poolP Len) (\<lambda>n. bindP pendingCount (\<lambda>pending. bindP builderCount (\<lambda>builders.
       let canAdd = ht_MaxScale runtime - (int n + int pending + int builders);
           count = nat (min needProvision canAdd)
       in seqP (repeatP count provisionOne) (Ret (dl_dispatched l, count))))))))))) "

subsection \<open>Teardown\<close>

definition drainOne :: "Node \<Rightarrow> nat \<Rightarrow> ('w, nat) orch" where
  "drainOne n reaped =
     bindP (poolSetState (InstanceID n) StateRemoving) (\<lambda>ok.
     if \<not> ok then Ret reaped else seqP (goP (DrainTask n)) (Ret (reaped + 1)))"

definition reapOne :: "hotConfig \<Rightarrow> instant \<Rightarrow> Node \<Rightarrow> nat \<Rightarrow> ('w, nat) orch" where
  "reapOne runtime now n reaped =
     (if \<not> ShouldTeardown (ht_Teardown runtime) n now then Ret reaped
      else bindP (poolSetState (InstanceID n) StateRemoving) (\<lambda>ok.
        if \<not> ok then Ret reaped else seqP (goP (IdleReapTask n)) (Ret (reaped + 1))))"

text \<open>Newest first; the first \<open>WarmInstances\<close> (not negative) are protected.\<close>

definition reapable :: "hotConfig \<Rightarrow> Node list \<Rightarrow> Node list" where
  "reapable runtime idle =
     drop (nat (min (ht_WarmInstances runtime) (int (length idle)))) (sort_key (\<lambda>n. (- CreatedAt n, InstanceID n)) idle)"

definition applyTeardown :: "'w Env \<Rightarrow> ('w, nat) orch" where
  "applyTeardown env =
     bindP (nowP env) (\<lambda>now. bindP runtimeConfig (\<lambda>runtime.
     bindP (poolP (ByState StateDraining)) (\<lambda>draining.
     bindP (foldP drainOne draining 0) (\<lambda>reaped.
     bindP (poolP (ByState StateIdle)) (\<lambda>idle.
       foldP (reapOne runtime now) (reapable runtime idle) reaped)))))"

subsection \<open>Dangling registrations\<close>

definition reapRunner :: "'w Env \<Rightarrow> Config \<Rightarrow> string set \<Rightarrow> Runner \<Rightarrow> string set \<Rightarrow> ('w, string set) orch" where
  "reapRunner env cfg earlier r seen =
     (if \<not> hasPrefix (rn_Name r) (cf_Tag cfg @ ''-'') then Ret seen
      else bindP (isActive (rn_UUID r)) (\<lambda>active.
        if active then Ret seen
        else if rn_UUID r \<notin> earlier then Ret (insert (rn_UUID r) seen)
        else bindP (worldP (e_DeleteRunner env (rn_ID r))) (\<lambda>res.
          case res of
            Inl _ \<Rightarrow> Ret (insert (rn_UUID r) seen)
          | Inr _ \<Rightarrow> seqP (emit env cfg ''zombie_reaped'' [(''uuid'', rn_UUID r), (''name'', rn_Name r)]) (Ret seen))))"

definition reapZombieRunners :: "'w Env \<Rightarrow> Config \<Rightarrow> ('w, unit) orch" where
  "reapZombieRunners env cfg =
     bindP (worldP (e_ListRunners env)) (\<lambda>r.
     case r of
       Inl _ \<Rightarrow> Ret ()
     | Inr runners \<Rightarrow> bindP (getP oc_reapSeen) (\<lambda>earlier.
         bindP (foldP (reapRunner env cfg earlier) runners {}) (\<lambda>seen.
         seqP (markForgejoPoll env) (modifyP (\<lambda>s. s\<lparr>oc_reapSeen := seen\<rparr>)))))"

subsection \<open>One pass\<close>

record ReconcileResult =
  res_Provisioned :: nat
  res_Dispatched :: nat
  res_Reaped :: nat
  res_Adopted :: nat
  res_Dropped :: nat
  res_Errors :: "string list"

definition emptyResult :: ReconcileResult where
  "emptyResult = \<lparr>res_Provisioned = 0, res_Dispatched = 0, res_Reaped = 0, res_Adopted = 0, res_Dropped = 0, res_Errors = []\<rparr>"

definition failResult :: "ReconcileResult \<Rightarrow> string \<Rightarrow> go_error \<Rightarrow> ReconcileResult" where
  "failResult r what e = r\<lparr>res_Errors := res_Errors r @ [what @ '': '' @ errorText e]\<rparr>"

text \<open>The jobs of this pass; a failed poll is an error of the result and an empty queue.\<close>

definition pollJobs :: "'w Env \<Rightarrow> Config \<Rightarrow> ReconcileResult \<Rightarrow> ('w, WaitingJob list \<times> ReconcileResult) orch" where
  "pollJobs env cfg r =
     bindP (worldP (e_WaitingJobs env)) (\<lambda>q.
     case q of
       Inl e \<Rightarrow> Ret ([], failResult r ''poll waiting jobs'' e)
     | Inr jobs \<Rightarrow> seqP (markForgejoPoll env) (Ret (filterServiceable jobs (cf_Labels cfg), r)))"

definition serveJobs :: "'w Env \<Rightarrow> Config \<Rightarrow> ReconcileResult \<Rightarrow> ('w, ReconcileResult) orch" where
  "serveJobs env cfg r =
     bindP (pollJobs env cfg r) (\<lambda>(jobs, r).
     bindP (persistObservedJobs env cfg jobs) (\<lambda>p.
     case p of
       Inl e \<Rightarrow> Ret (failResult r ''persist jobs'' e)
     | Inr jobs \<Rightarrow>
         seqP (ensureManagedImage env cfg (jobs \<noteq> []))
         (bindP (dispatchJobs env cfg jobs) (\<lambda>(dispatched, provisioned).
          bindP (applyTeardown env) (\<lambda>reaped.
          seqP (reapZombieRunners env cfg)
            (Ret (r\<lparr>res_Dispatched := dispatched, res_Provisioned := provisioned, res_Reaped := reaped\<rparr>)))))))"

definition reconcilePass :: "'w Env \<Rightarrow> Config \<Rightarrow> ('w, ReconcileResult) orch" where
  "reconcilePass env cfg =
     bindP (worldP (e_List env (cf_Tag cfg))) (\<lambda>l.
     case l of
       Inl e \<Rightarrow> Ret (failResult emptyResult ''list instances'' e)
     | Inr insts \<Rightarrow>
         seqP (markProviderList env)
         (bindP (recoverOrphanBuilders env cfg) (\<lambda>b.
          case b of
            Inl e \<Rightarrow> Ret (failResult emptyResult ''recover image builders'' e)
          | Inr _ \<Rightarrow> bindP (syncPool env cfg insts) (\<lambda>(added, dropped, err).
              let r = emptyResult\<lparr>res_Adopted := added, res_Dropped := dropped\<rparr> in
              case err of
                Some e \<Rightarrow> seqP (storageError env cfg ''reconcile resources'' (Some e))
                            (Ret (failResult r ''storage resources'' e))
              | None \<Rightarrow> serveJobs env cfg r))))"

definition Reconcile :: "'w Env \<Rightarrow> Config \<Rightarrow> ('w, ReconcileResult) orch" where
  "Reconcile env cfg =
     bindP (reconcilePass env cfg) (\<lambda>r.
     seqP (markTick env)
     (seqP (emit env cfg ''reconcile_tick''
        [(''provisioned'', formatNat (res_Provisioned r)), (''dispatched'', formatNat (res_Dispatched r)),
         (''reaped'', formatNat (res_Reaped r)), (''adopted'', formatNat (res_Adopted r)),
         (''dropped'', formatNat (res_Dropped r)), (''errors'', formatNat (length (res_Errors r)))])
       (Ret r)))"

subsection \<open>Operator actions\<close>

fun phaseKindForState :: "NodeState \<Rightarrow> PhaseKind" where
  "phaseKindForState StateBusy = PhaseJob"
| "phaseKindForState StateResetting = PhaseReset"
| "phaseKindForState StateRemoving = PhaseRemoving"
| "phaseKindForState StateDraining = PhaseRemoving"
| "phaseKindForState StateProvisioning = PhaseProvisioning"
| "phaseKindForState StateIdle = PhaseReadyIdle"
| "phaseKindForState StateUnset = PhaseReadyIdle"

text \<open>\<open>%q\<close> on an instance ID, which has nothing to escape.\<close>

definition quoted :: "string \<Rightarrow> string" where
  "quoted s = [CHR 0x22] @ s @ [CHR 0x22]"

definition forceReapFailed ::
  "'w Env \<Rightarrow> Config \<Rightarrow> Node \<Rightarrow> int \<Rightarrow> string \<Rightarrow> go_error \<Rightarrow> ('w, unit result) orch" where
  "forceReapFailed env cfg n phaseID operationID e =
     (let i = InstanceID n in
      bindP (nowP env) (\<lambda>at. seqP (finishStoredPhase env cfg phaseID ''failed'' (errorText e) at)
      (seqP (finishStoredMutation env cfg operationID i ''provider_destroy'' False)
      (seqP (poolSetState i (State n))
      (seqP (whenP (State n \<noteq> StateDraining \<and> State n \<noteq> StateResetting) (restoreResource env cfg ''restore force-reap resource'' n))
      (bindP (nowP env) (\<lambda>at. bindP (startStoredPhase env cfg n (phaseKindForState (State n)) 0 at) (\<lambda>phaseID.
       seqP (poolUpd (SetPhase i phaseID))
         (Ret (Inl (ErrOther (''destroy '' @ i @ '': '' @ errorText e)))))))))))) "

definition doForceReap :: "'w Env \<Rightarrow> Config \<Rightarrow> string \<Rightarrow> ('w, unit result) orch" where
  "doForceReap env cfg i =
     bindP (poolP (Get i)) (\<lambda>(n, known).
     if \<not> known then Ret (Inl (ErrOther (''instance '' @ quoted i @ '' not in pool'')))
     else bindP (poolSetState i StateRemoving) (\<lambda>ok.
       if \<not> ok then Ret (Inl (ErrOther (''instance '' @ quoted i @ '' vanished from pool'')))
       else bindP (beginStoredMutation env cfg ''force_destroy'' n) (\<lambda>op.
         case op of
           Inl e \<Rightarrow> seqP (poolSetState i (State n)) (Ret (Inl e))
         | Inr operationID \<Rightarrow>
             bindP (nowP env) (\<lambda>phaseAt. seqP (finishStoredPhase env cfg (PhaseID n) ''force_reap'' '''' phaseAt)
             (bindP (startStoredPhase env cfg n PhaseRemoving 0 phaseAt) (\<lambda>phaseID.
              seqP (poolUpd (SetPhase i phaseID))
              (bindP (worldP (e_Destroy env i)) (\<lambda>r.
               case r of
                 Inl e \<Rightarrow> forceReapFailed env cfg (n\<lparr>PhaseID := phaseID\<rparr>) phaseID operationID e
               | Inr _ \<Rightarrow>
                   bindP (nowP env) (\<lambda>destroyedAt.
                   seqP (whenP (State n = StateIdle)
                           (recordIntervalCost env cfg (n\<lparr>PhaseID := phaseID\<rparr>) CostWarmIdle (LastBusy n) destroyedAt))
                   (seqP (finishStoredPhase env cfg phaseID ''destroyed'' '''' destroyedAt)
                   (seqP (finishStoredMutation env cfg operationID i '''' True)
                   (seqP (closeStoredResource env cfg (n\<lparr>PhaseID := phaseID\<rparr>) ResourceClosed ''force_reap'')
                   (seqP (poolUpd (Delete i))
                   (seqP (emit env cfg ''worker_reaped'' [(''id'', i), (''ip'', IP n)]) (Ret (Inr ()))))))))))))))))"

definition doForceProvision :: "'w Env \<Rightarrow> Config \<Rightarrow> ('w, string result) orch" where
  "doForceProvision env cfg =
     bindP runtimeConfig (\<lambda>runtime. bindP (hostKeyP env) (\<lambda>key.
     case key of
       Inl e \<Rightarrow> Ret (Inl (ErrOther (''generate host key: '' @ errorText e)))
     | Inr (hostPriv, hostPub) \<Rightarrow>
         (case e_Render env (bootParams cfg runtime hostPriv (cf_FJBAgentToken cfg)) of
            Inl e \<Rightarrow> Ret (Inl (ErrOther (''render cloud-init: '' @ errorText e)))
          | Inr userData \<Rightarrow> bindP (shortIDP env) (\<lambda>suffix.
              let name = cf_Tag cfg @ ''-'' @ suffix in
              bindR' (beginStoredResource env cfg name name) (\<lambda>(resource, phase).
              bindP managedImageID (\<lambda>imageID.
              bindP (worldP (e_Provision env (workerSpec cfg name imageID userData))) (\<lambda>r.
              case r of
                Inl e \<Rightarrow> seqP (failStoredProvision env cfg resource (p_ID phase) ''provider_create'')
                           (Ret (Inl (ErrOther (''provision: '' @ errorText e))))
              | Inr inst \<Rightarrow>
                  bindP (activateStoredResource env cfg resource inst) (\<lambda>g.
                  case g of
                    Inl e \<Rightarrow> seqP (cleanupFailedActivation env cfg resource (p_ID phase) inst ''storage_activation'') (Ret (Inl e))
                  | Inr generation \<Rightarrow>
                      bindP (nowP env) (\<lambda>now.
                      seqP (poolUpd (Put (provisionedNode inst resource generation phase now)))
                      (seqP (emit env cfg ''worker_provisioned'' [(''id'', in_ID inst), (''ip'', in_IPv4 inst)])
                      (seqP (pinHostKeyP env (in_IPv4 inst) hostPub)
                      (seqP (goP (ForceReadyTask inst phase generation)) (Ret (Inr (in_ID inst))))))))))))))) "

definition Pause :: "'w Env \<Rightarrow> Config \<Rightarrow> string \<Rightarrow> ('w, unit) orch" where
  "Pause env cfg caller =
     bindP (atom (\<lambda>s. (\<not> oc_paused s, s\<lparr>oc_paused := True\<rparr>))) (\<lambda>changed.
       whenP changed (emit env cfg ''reconciler_paused'' [(''caller'', caller)]))"

definition Resume :: "'w Env \<Rightarrow> Config \<Rightarrow> string \<Rightarrow> ('w, unit) orch" where
  "Resume env cfg caller =
     bindP (atom (\<lambda>s. (oc_paused s, s\<lparr>oc_paused := False\<rparr>))) (\<lambda>changed.
       whenP changed (emit env cfg ''reconciler_resumed'' [(''caller'', caller)]))"

subsection \<open>Shutdown\<close>

definition destroyOne :: "'w Env \<Rightarrow> Config \<Rightarrow> Node \<Rightarrow> ('w, unit) orch" where
  "destroyOne env cfg n =
     (let i = InstanceID n in
      bindP (beginStoredMutation env cfg ''destroy_on_exit'' n) (\<lambda>op.
      case op of
        Inl _ \<Rightarrow> Ret ()
      | Inr operationID \<Rightarrow>
          bindP (nowP env) (\<lambda>at. seqP (finishStoredPhase env cfg (PhaseID n) ''shutdown'' '''' at)
          (bindP (nowP env) (\<lambda>at. bindP (startStoredPhase env cfg n PhaseRemoving 0 at) (\<lambda>phaseID.
           seqP (poolUpd (SetPhase i phaseID))
           (bindP (worldP (e_Destroy env i)) (\<lambda>r.
            case r of
              Inl e \<Rightarrow> bindP (nowP env) (\<lambda>at. seqP (finishStoredPhase env cfg phaseID ''failed'' (errorText e) at)
                         (finishStoredMutation env cfg operationID i ''provider_destroy'' False))
            | Inr _ \<Rightarrow>
                bindP (nowP env) (\<lambda>destroyedAt.
                seqP (whenP (State n = StateIdle)
                        (recordIntervalCost env cfg n CostWarmIdle (LastBusy n) destroyedAt))
                (seqP (finishStoredPhase env cfg phaseID ''destroyed'' '''' destroyedAt)
                (seqP (finishStoredMutation env cfg operationID i '''' True)
                (seqP (closeStoredResource env cfg n ResourceClosed ''shutdown'')
                  (poolUpd (Delete i))))))))))))))"

definition destroyAll :: "'w Env \<Rightarrow> Config \<Rightarrow> ('w, unit) orch" where
  "destroyAll env cfg = bindP (poolP Snapshot_nodes) (forP (destroyOne env cfg))"

subsection \<open>The loop and its goroutines\<close>

datatype kickReq = kickReconcile | kickForceReap string | kickForceProvision

datatype kickReply = ReconcileReply ReconcileResult | ForceReply "string result"

fun serveKick :: "'w Env \<Rightarrow> Config \<Rightarrow> kickReq \<Rightarrow> ('w, kickReply) orch" where
  "serveKick env cfg kickReconcile = bindP (Reconcile env cfg) (\<lambda>r. Ret (ReconcileReply r))"
| "serveKick env cfg (kickForceReap i) = bindP (doForceReap env cfg i) (\<lambda>r.
     Ret (ForceReply (case r of Inl e \<Rightarrow> Inl e | Inr _ \<Rightarrow> Inr '''')))"
| "serveKick env cfg kickForceProvision = bindP (doForceProvision env cfg) (\<lambda>r. Ret (ForceReply r))"

text \<open>
  The cases of the loop's \<open>select\<close>. \<open>shutdown\<close> waits for the goroutines before it destroys machines; the model
  lets \<open>destroyAll\<close> start at any time.
\<close>

datatype loopCase = Tick | Kick kickReq | PollReset | Shutdown

fun loopBody :: "'w Env \<Rightarrow> Config \<Rightarrow> loopCase \<Rightarrow> ('w, unit) orch" where
  "loopBody env cfg Tick = bindP (getP oc_paused) (\<lambda>paused. if paused then Ret () else ignoreP (Reconcile env cfg))"
| "loopBody env cfg (Kick req) = ignoreP (serveKick env cfg req)"
| "loopBody env cfg PollReset = modifyP (\<lambda>s. case oc_pollReset s of
     None \<Rightarrow> s
   | Some d \<Rightarrow> s\<lparr>oc_pollReset := None, oc_tickInterval := d\<rparr>)"
| "loopBody env cfg Shutdown = bindP runtimeConfig (\<lambda>runtime. whenP (ht_DestroyOnExit runtime) (destroyAll env cfg))"

fun taskBody :: "'w Env \<Rightarrow> Config \<Rightarrow> Task \<Rightarrow> ('w, unit) orch" where
  "taskBody env cfg ProvisionTask = provisionBody env cfg"
| "taskBody env cfg (ForceReadyTask inst phase generation) =
     awaitReady env cfg ''ready force-provision generation'' inst phase generation"
| "taskBody env cfg (JobTask node job) = jobBody env cfg node job"
| "taskBody env cfg (DrainTask node) = drainBody env cfg node"
| "taskBody env cfg (IdleReapTask node) = idleReapBody env cfg node"
| "taskBody env cfg (BuildTask fingerprint) = buildBody env cfg fingerprint"

end
