(* ===== verification/Orch_Frame.thy ===== *)
theory Orch_Frame
  imports Orch_Reconcile
begin

text \<open>
  What the orchestrator's operations leave alone. \<open>ledgerFrame\<close> relates states that differ only in
  the outside world, the ledger, the storage flag and the events; \<open>poolFrame\<close> also lets the pool
  change. The locales \<open>ledger_frame\<close> and \<open>pool_frame\<close> carry one lemma per operation: any relation that
  tolerates the frame is respected by every step of the operation, in every interleaving. They
  are interpreted below on the frames themselves and on the equality of each shared counter.
\<close>

named_theorems frame \<open>what the steps of an operation respect\<close>

definition ledgerFrame :: "'w Orchestrator \<Rightarrow> 'w Orchestrator \<Rightarrow> bool" where
  "ledgerFrame s s' \<longleftrightarrow> s' = s\<lparr>oc_world := oc_world s', oc_store := oc_store s',
     oc_storageFailed := oc_storageFailed s', oc_events := oc_events s'\<rparr>"

definition poolFrame :: "'w Orchestrator \<Rightarrow> 'w Orchestrator \<Rightarrow> bool" where
  "poolFrame s s' \<longleftrightarrow> s' = s\<lparr>oc_world := oc_world s', oc_store := oc_store s',
     oc_storageFailed := oc_storageFailed s', oc_events := oc_events s', oc_pool := oc_pool s'\<rparr>"

lemma sat_list: "sat R T p \<Longrightarrow> (\<And>x xs. sat R T (f x xs)) \<Longrightarrow> sat R T (case l of [] \<Rightarrow> p | x # xs \<Rightarrow> f x xs)"
  by (cases l) auto

lemma sat_snapshot_state:
  "sat R T u \<Longrightarrow> sat R T b \<Longrightarrow> sat R T a \<Longrightarrow> sat R T st \<Longrightarrow> sat R T dg \<Longrightarrow> sat R T dd \<Longrightarrow> sat R T f \<Longrightarrow>
   sat R T (case x of SnapshotUnset \<Rightarrow> u | SnapshotBuilding \<Rightarrow> b | SnapshotActive \<Rightarrow> a | SnapshotStale \<Rightarrow> st
     | SnapshotDeleting \<Rightarrow> dg | SnapshotDeleted \<Rightarrow> dd | SnapshotFailed \<Rightarrow> f)"
  by (cases x) auto

lemma sat_ignoreP: "sat R T p \<Longrightarrow> sat R T (ignoreP p)"
  by (simp add: ignoreP_def sat_seqP)

lemmas prog_rules = sat_rules sat_list sat_snapshot_state sat_ignoreP

locale ledger_frame =
  fixes R :: "'w Orchestrator \<Rightarrow> 'w Orchestrator \<Rightarrow> bool" and T :: "Task \<Rightarrow> bool"
  assumes ledger: "ledgerFrame s s' \<Longrightarrow> R s s'"
begin

lemma refl: "R s s"
  by (rule ledger) (simp add: ledgerFrame_def)

lemma getP_frame [frame]: "sat R T (getP f)"
  by (rule sat_getP) (rule refl)

lemma atoms_frame [frame]:
  "sat R T hasStore" "sat R T runtimeConfig" "sat R T pendingCount" "sat R T builderCount" "sat R T managedImageID"
  "sat R T (isActive u)" "sat R T (isDispatching u)" "sat R T (imageInUse u)" "sat R T (poolP f)"
  unfolding hasStore_def runtimeConfig_def pendingCount_def builderCount_def managedImageID_def isActive_def
    isDispatching_def imageInUse_def poolP_def by (rule getP_frame)+

lemma worldP_frame [frame]: "sat R T (worldP f)"
  unfolding worldP_def by (rule sat_atom) (auto intro!: ledger simp: ledgerFrame_def split: prod.split)

lemma storeP_frame [frame]: "sat R T (storeP env f)"
  unfolding storeP_def by (rule sat_atom) (auto intro!: ledger simp: ledgerFrame_def split: prod.split option.split)

lemma now_frame [frame]: "sat R T (nowP env)" "sat R T (shortIDP env)"
  by (simp_all add: nowP_def shortIDP_def frame)

lemma flag_frame [frame]: "sat R T (modifyP (\<lambda>s. s\<lparr>oc_storageFailed := b\<rparr>))"
  by (rule sat_modifyP) (auto intro!: ledger simp: ledgerFrame_def)

lemma emit_frame [frame]: "sat R T (emit env cfg typ attrs)"
  unfolding emit_def Let_def
  by (intro prog_rules frame sat_modifyP) (auto intro!: ledger simp: ledgerFrame_def)

lemma storageError_frame [frame]: "sat R T (storageError env cfg op err)"
  unfolding storageError_def by (intro prog_rules frame)

lemma reportFailure_frame: "sat R T call \<Longrightarrow> sat R T (reportFailure env cfg op call)"
  unfolding reportFailure_def by (intro prog_rules frame)

lemma reported_frame: "sat R T call \<Longrightarrow> sat R T (reported env cfg op call)"
  unfolding reported_def by (intro prog_rules frame)

lemmas ledger_rules = prog_rules reportFailure_frame reported_frame

lemma job_frame [frame]:
  "sat R T (persistObservedJobs env cfg jobs)" "sat R T (persistJob env cfg node job status failure at)"
  "sat R T (enrichJob env cfg job status)"
  unfolding persistObservedJobs_def persistJob_def enrichJob_def Let_def by (intro ledger_rules frame)+

lemma phase_frame [frame]:
  "sat R T (finishStoredPhase env cfg i outcome detail at)" "sat R T (startStoredPhase env cfg node kind j at)"
  unfolding finishStoredPhase_def startStoredPhase_def by (intro ledger_rules frame)+

lemma setGeneration_frame [frame]: "sat R T (setGeneration env i st at)"
  unfolding setGeneration_def by (intro ledger_rules frame)

lemma generation_frame [frame]: "sat R T (markGeneration env i st)" "sat R T (imageFingerprint env cfg)"
  unfolding markGeneration_def imageFingerprint_def by (intro ledger_rules frame)+

lemma quote_frame [frame]: "sat R T (quoteResource env cfg)"
  unfolding quoteResource_def by (intro ledger_rules frame)

lemma resource_frame [frame]:
  "sat R T (beginStoredResource env cfg op name)" "sat R T (activateStoredResource env cfg resource inst)"
  unfolding beginStoredResource_def activateStoredResource_def by (intro ledger_rules frame)+

lemma overhead_frame [frame]: "sat R T (recordOverhead env cfg node quote entry)"
  unfolding recordOverhead_def Let_def by (intro ledger_rules frame)

lemma cost_frame [frame]:
  "sat R T (recordDirectJobCost env cfg node job)" "sat R T (recordIntervalCost env cfg node kind start stop)"
  "sat R T (recordResourceCost env cfg node kind stop)"
  unfolding recordDirectJobCost_def recordIntervalCost_def recordResourceCost_def by (intro ledger_rules frame)+

lemma close_frame [frame]:
  "sat R T (closeStoredResource env cfg node st reason)" "sat R T (failStoredProvision env cfg resource i detail)"
  unfolding closeStoredResource_def failStoredProvision_def by (intro ledger_rules frame)+

lemma cleanup_frame [frame]: "sat R T (cleanupFailedActivation env cfg resource i inst detail)"
  unfolding cleanupFailedActivation_def by (intro ledger_rules frame)

lemma mutation_frame [frame]:
  "sat R T (beginStoredMutation env cfg kind node)" "sat R T (finishStoredMutation env cfg op e detail ok)"
  "sat R T (beginResetGeneration env cfg node img)" "sat R T (adoptStoredResource env cfg inst)"
  "sat R T (finishAt env op st e detail)" "sat R T (storageResources env cfg)"
  unfolding beginStoredMutation_def finishStoredMutation_def beginResetGeneration_def adoptStoredResource_def
    finishAt_def storageResources_def by (intro ledger_rules frame)+

lemma recovery_frame [frame]:
  "sat R T (recoverProvision env resource m)" "sat R T (recoverGeneration env resource g m)"
  "sat R T (recoverDestroy env seen resource m)"
  unfolding recoverProvision_def recoverGeneration_def recoverDestroy_def by (intro ledger_rules frame)+

lemma recoverMutation_frame [frame]: "sat R T (recoverMutation env cfg seen resources generations m)"
  unfolding recoverMutation_def by (intro ledger_rules frame)

lemma recoverPending_frame [frame]: "sat R T (recoverPendingMutations env cfg seen resources generations)"
  unfolding recoverPendingMutations_def by (intro ledger_rules frame)

lemma render_frame [frame]:
  "sat R T (hostKeyP env)" "sat R T (pinHostKeyP env ip key)" "sat R T (setGenerationIf env i st at)"
  "sat R T (holdP env handle)"
  unfolding hostKeyP_def pinHostKeyP_def setGenerationIf_def holdP_def by (intro ledger_rules frame)+

lemma settle_frame [frame]:
  "sat R T (settleJob env cfg node job status failure enrich outcome)" "sat R T (restoreResource env cfg op node)"
  "sat R T (resetFailed env cfg node g at detail)" "sat R T (resetReadyLedger env cfg node g)"
  unfolding settleJob_def restoreResource_def resetFailed_def resetReadyLedger_def by (intro ledger_rules frame)+

lemma runRegistered_frame [frame]: "sat R T (runRegistered env cfg node job reg)"
  unfolding runRegistered_def Let_def by (intro ledger_rules frame)

lemma snapshot_frame [frame]:
  "sat R T (snapshotsP env cfg)" "sat R T (activateSnapshotP env i img)" "sat R T (setSnapshotP env i st detail)"
  unfolding snapshotsP_def activateSnapshotP_def setSnapshotP_def by (intro ledger_rules frame)+

lemma ensure_frame [frame]: "sat R T (ensureStoredSnapshot env cfg img)"
  unfolding ensureStoredSnapshot_def by (intro ledger_rules frame)

lemma stored_frame [frame]:
  "sat R T (activateStoredSnapshot env cfg img)" "sat R T (beginStoredSnapshot env cfg i fp)"
  "sat R T (failStoredSnapshot env cfg sn detail)" "sat R T (recordSnapshotStorageCost env cfg sn stop)"
  "sat R T (finishDeletes env ms st e detail)" "sat R T (beginDelete env cfg img sn)"
  unfolding activateStoredSnapshot_def beginStoredSnapshot_def failStoredSnapshot_def recordSnapshotStorageCost_def
    finishDeletes_def beginDelete_def by (intro ledger_rules frame)+

lemma recoverSnapshot_frame [frame]: "sat R T (recoverSnapshot env cfg owned ms record)"
  unfolding recoverSnapshot_def Let_def by (intro ledger_rules frame)

lemma images_frame [frame]:
  "sat R T (recoverStoredSnapshots env cfg owned)" "sat R T (deleteStaleImage env cfg images img)"
  unfolding recoverStoredSnapshots_def deleteStaleImage_def by (intro ledger_rules frame)+

lemma cleanupStale_frame [frame]: "sat R T (cleanupStaleImages env cfg images owned active)"
  unfolding cleanupStaleImages_def by (intro ledger_rules frame)

lemma identify_frame [frame]: "sat R T (identify env cfg resources generations inst)"
  unfolding identify_def Let_def by (intro ledger_rules frame)

lemma reapBuilder_frame [frame]: "sat R T (reapBuilder env cfg resources generations b)"
  unfolding reapBuilder_def Let_def by (intro ledger_rules frame)

lemma sync_frame [frame]:
  "sat R T (beingProvisioned g)" "sat R T (closeVanished env cfg now seen generations r)"
  unfolding beingProvisioned_def closeVanished_def Let_def by (intro ledger_rules frame)+

lemma syncLedger_frame [frame]: "sat R T (syncLedger env cfg now seen resources generations)"
  unfolding syncLedger_def by (intro ledger_rules frame)

end

text \<open>The operations that also change the pool.\<close>

locale pool_frame =
  fixes R :: "'w Orchestrator \<Rightarrow> 'w Orchestrator \<Rightarrow> bool" and T :: "Task \<Rightarrow> bool"
  assumes pool: "poolFrame s s' \<Longrightarrow> R s s'"

sublocale pool_frame \<subseteq> ledger_frame R T
  by unfold_locales (rule pool, simp add: ledgerFrame_def poolFrame_def)

context pool_frame
begin

lemma poolUpd_frame [frame]: "sat R T (poolUpd f)"
  unfolding poolUpd_def by (rule sat_modifyP) (auto intro!: pool simp: poolFrame_def)

lemma poolSet_frame [frame]: "sat R T (poolSetState i st)" "sat R T (poolResetReady i ip vpc g at)"
  unfolding poolSetState_def poolResetReady_def
  by (rule sat_atom; auto intro!: pool simp: poolFrame_def split: prod.split)+

lemma awaitReady_frame [frame]: "sat R T (awaitReady env cfg op inst phase g)"
  unfolding awaitReady_def Let_def by (intro ledger_rules frame)

lemma destroyAfterJob_frame [frame]: "sat R T (destroyAfterJob env cfg node reason)"
  unfolding destroyAfterJob_def Let_def by (intro ledger_rules frame)

lemma resetFinish_frame [frame]: "sat R T (resetFinish env cfg node g ip vpc at)"
  unfolding resetFinish_def Let_def by (intro ledger_rules frame)

lemma resetRun_frame [frame]: "sat R T (resetRun env cfg node g resetter img ud key at)"
  unfolding resetRun_def Let_def by (intro ledger_rules frame)

lemma resetAttempt_frame [frame]: "sat R T (resetAttempt env cfg node resetter img)"
  unfolding resetAttempt_def Let_def by (intro ledger_rules frame)

lemma drainBody_frame [frame]: "sat R T (drainBody env cfg node)"
  unfolding drainBody_def Let_def by (intro ledger_rules frame)

lemma idleReapBody_frame [frame]: "sat R T (idleReapBody env cfg node)"
  unfolding idleReapBody_def Let_def by (intro ledger_rules frame)

lemma retireBuilder_frame [frame]: "sat R T (retireBuilder env cfg resource g out)"
  unfolding retireBuilder_def Let_def by (intro ledger_rules frame)

lemma adoptInstance_frame [frame]: "sat R T (adoptInstance env cfg now resources generations inst)"
  unfolding adoptInstance_def Let_def by (intro ledger_rules frame)

lemma countR_frame: "(\<And>x. sat R T (f x)) \<Longrightarrow> sat R T (countR f xs)"
  unfolding countR_def by (intro ledger_rules)

lemma dropNode_frame [frame]: "sat R T (dropNode env cfg seen n k)"
  unfolding dropNode_def by (intro ledger_rules frame)

lemma syncPool_frame [frame]: "sat R T (syncPool env cfg insts)"
  unfolding syncPool_def Let_def by (intro ledger_rules countR_frame frame)

lemma doForceReap_frame [frame]: "sat R T (doForceReap env cfg i)"
  unfolding doForceReap_def forceReapFailed_def Let_def by (intro ledger_rules frame)

lemma destroyAll_frame [frame]: "sat R T (destroyAll env cfg)"
  unfolding destroyAll_def destroyOne_def Let_def by (intro ledger_rules frame)

end

end
