(* ===== verification/Orch_Control.thy ===== *)
theory Orch_Control
  imports Orch_Frame Router_Score
begin

text \<open>
  What other goroutines see and change of an orchestrator: the health and capacity views of
  src/internal/orchestrator/health.go and the hot reload of reload.go. Each read of a lock-protected or atomic field is a step of its own, so a view may mix
  values of different moments, as the source says of its routing snapshot.
\<close>

subsection \<open>Views\<close>

record HealthStatus =
  hs_Healthy :: bool
  hs_LastTickAt :: instant
  hs_LastProviderListAt :: instant
  hs_LastForgejoPollAt :: instant
  hs_Paused :: bool

definition freshEnough :: "instant \<Rightarrow> duration \<Rightarrow> instant \<Rightarrow> bool" where
  "freshEnough now threshold t \<longleftrightarrow> \<not> is_zero t \<and> time_sub now t \<le> threshold"

definition tierHealth :: "'w Env \<Rightarrow> ('w, HealthStatus) orch" where
  "tierHealth env =
     bindP (getP (\<lambda>s. (oc_lastTickAt s, oc_lastProviderListAt s, oc_lastForgejoPollAt s))) (\<lambda>(tick, prov, fj).
     bindP runtimeConfig (\<lambda>runtime. bindP (nowP env) (\<lambda>now. bindP (getP oc_storageFailed) (\<lambda>failed.
     bindP (getP oc_paused) (\<lambda>paused.
     let threshold = wrap64 (3 * ht_PollInterval runtime) in
     Ret \<lparr>hs_Healthy = (freshEnough now threshold tick \<and> freshEnough now threshold prov \<and>
            freshEnough now threshold fj \<and> \<not> failed),
          hs_LastTickAt = tick, hs_LastProviderListAt = prov, hs_LastForgejoPollAt = fj, hs_Paused = paused\<rparr>)))))"

definition workerView :: "Config \<Rightarrow> hotConfig \<Rightarrow> instant \<Rightarrow> Node \<Rightarrow> WorkerView" where
  "workerView cfg runtime now n =
     (let t = Timing (ht_Teardown runtime) n now
      in \<lparr>w_Tier = cf_Tier cfg, w_ProviderName = cf_ProviderName cfg, w_Driver = cf_Driver cfg,
          w_InstanceID = InstanceID n, w_State = State n, w_IP = IP n, w_VPCIP = VPCIP n, w_CreatedAt = CreatedAt n,
          w_LastBusy = LastBusy n, w_CurrentJob = CurrentJob n, w_PaidHourEndAt = PaidHourEndAt t,
          w_ReapEligibleAt = ReapEligibleAt t, w_BillingModel = BillingModelName t\<rparr>)"

definition PoolSnapshot :: "'w Env \<Rightarrow> Config \<Rightarrow> ('w, WorkerView list) orch" where
  "PoolSnapshot env cfg =
     bindP (poolP Snapshot_nodes) (\<lambda>nodes. bindP (nowP env) (\<lambda>now. bindP runtimeConfig (\<lambda>runtime.
       Ret (map (workerView cfg runtime now) nodes))))"

definition RoutingSnapshot :: "'w Env \<Rightarrow> Config \<Rightarrow> ('w, RoutingTierSnapshot) orch" where
  "RoutingSnapshot env cfg =
     bindP runtimeConfig (\<lambda>runtime. bindP (getP (\<lambda>s. (oc_pending s, oc_builders s))) (\<lambda>(pending, builders).
     bindP (PoolSnapshot env cfg) (\<lambda>workers. bindP (tierHealth env) (\<lambda>health.
     let active = int (length workers) + int pending + int builders in
     Ret \<lparr>rs_Tier = cf_Tier cfg, rs_ProviderName = cf_ProviderName cfg, rs_Driver = cf_Driver cfg,
          rs_InstanceType = cf_InstanceType cfg, rs_Labels = cf_Labels cfg, rs_OneJobPerVM = cf_OneJobPerVM cfg,
          rs_ResetMode = cf_ResetMode cfg, rs_ResetMinRemaining = ht_ResetMinRemaining runtime,
          rs_Healthy = hs_Healthy health, rs_MaxInstances = ht_MaxScale runtime, rs_ActiveWorkers = length workers,
          rs_PendingWorkers = int pending + int builders, rs_AvailableSlots = max (ht_MaxScale runtime - active) 0,
          rs_IdleWorkers = filter (\<lambda>w. w_State w = StateIdle) workers, rs_Workers = workers,
          rs_Teardown = ht_Teardown runtime\<rparr>))))"

subsection \<open>Hot reload\<close>

definition CurrentConfigFrom :: "Config \<Rightarrow> hotConfig \<Rightarrow> Config" where
  "CurrentConfigFrom cfg hot =
     cfg\<lparr>cf_MaxScale := ht_MaxScale hot, cf_WarmInstances := ht_WarmInstances hot,
         cf_ResetMinRemaining := ht_ResetMinRemaining hot, cf_ResetTimeout := ht_ResetTimeout hot,
         cf_PollInterval := ht_PollInterval hot, cf_RunnerVersion := ht_RunnerVersion hot, cf_Teardown := ht_Teardown hot,
         cf_DrainOnShutdown := ht_DrainOnShutdown hot, cf_DrainTimeout := ht_DrainTimeout hot,
         cf_DestroyOnExit := ht_DestroyOnExit hot\<rparr>"

definition CurrentConfig :: "Config \<Rightarrow> ('w, Config) orch" where
  "CurrentConfig cfg = bindP runtimeConfig (\<lambda>hot. Ret (CurrentConfigFrom cfg hot))"

text \<open>\<open>if a.F != b.F \{ out = append(out, name) \}\<close>, once per field.\<close>

definition differs :: "string \<Rightarrow> bool \<Rightarrow> string list" where
  "differs name d = (if d then [name] else [])"

definition hotFieldDiff :: "Config \<Rightarrow> Config \<Rightarrow> string list" where
  "hotFieldDiff a b =
     differs ''max_instances'' (cf_MaxScale a \<noteq> cf_MaxScale b) @
     differs ''warm_instances'' (cf_WarmInstances a \<noteq> cf_WarmInstances b) @
     differs ''poll.interval'' (cf_PollInterval a \<noteq> cf_PollInterval b) @
     differs ''runner_version'' (cf_RunnerVersion a \<noteq> cf_RunnerVersion b) @
     differs ''drain_on_shutdown'' (cf_DrainOnShutdown a \<noteq> cf_DrainOnShutdown b) @
     differs ''drain_timeout'' (cf_DrainTimeout a \<noteq> cf_DrainTimeout b) @
     differs ''destroy_on_exit'' (cf_DestroyOnExit a \<noteq> cf_DestroyOnExit b) @
     differs ''idle_timeout'' (IdleTimeout (cf_Teardown a) \<noteq> IdleTimeout (cf_Teardown b)) @
     differs ''hour_margin'' (HourMargin (cf_Teardown a) \<noteq> HourMargin (cf_Teardown b)) @
     differs ''billing_hour'' (BillingHour (cf_Teardown a) \<noteq> BillingHour (cf_Teardown b)) @
     differs ''reset_min_remaining'' (cf_ResetMinRemaining a \<noteq> cf_ResetMinRemaining b) @
     differs ''reset_timeout'' (cf_ResetTimeout a \<noteq> cf_ResetTimeout b)"

definition nonHotFieldDiff :: "Config \<Rightarrow> Config \<Rightarrow> string list" where
  "nonHotFieldDiff a b =
     differs ''tier'' (cf_Tier a \<noteq> cf_Tier b) @
     differs ''provider'' (cf_ProviderName a \<noteq> cf_ProviderName b) @
     differs ''driver'' (cf_Driver a \<noteq> cf_Driver b) @
     differs ''instance_type'' (cf_InstanceType a \<noteq> cf_InstanceType b) @
     differs ''reset_mode'' (cf_ResetMode a \<noteq> cf_ResetMode b) @
     differs ''labels'' (cf_Labels a \<noteq> cf_Labels b) @
     differs ''one_job_per_vm'' (cf_OneJobPerVM a \<noteq> cf_OneJobPerVM b) @
     differs ''bootstrap_fingerprint'' (cf_BootstrapFingerprint a \<noteq> cf_BootstrapFingerprint b) @
     differs ''tag'' (cf_Tag a \<noteq> cf_Tag b) @
     differs ''ready_file'' (cf_ReadyFile a \<noteq> cf_ReadyFile b) @
     differs ''ssh.authorized_key'' (cf_AuthorizedKey a \<noteq> cf_AuthorizedKey b) @
     differs ''billing_model'' (Model (cf_Teardown a) \<noteq> Model (cf_Teardown b))"

fun join :: "string \<Rightarrow> string list \<Rightarrow> string" where
  "join sep [] = ''''"
| "join sep [x] = x"
| "join sep (x # y # xs) = x @ sep @ join sep (y # xs)"

text \<open>The send on \<open>pollReset\<close> that gives up when the channel is full.\<close>

definition sendPollReset :: "duration \<Rightarrow> ('w, unit) orch" where
  "sendPollReset d = modifyP (\<lambda>s. case oc_pollReset s of None \<Rightarrow> s\<lparr>oc_pollReset := Some d\<rparr> | Some _ \<Rightarrow> s)"

definition ApplyHotConfig :: "Config \<Rightarrow> Config \<Rightarrow> ('w, string list result) orch" where
  "ApplyHotConfig cfg newCfg =
     (let newCfg = applyRuntimeDefaults newCfg in
      bindP (CurrentConfig cfg) (\<lambda>cur.
      let changed = hotFieldDiff cur newCfg; blocked = nonHotFieldDiff cur newCfg in
      if blocked \<noteq> []
      then Ret (Inl (ErrOther (''reload rejected: '' @ formatNat (length blocked) @
             '' non-hot field(s) changed (restart required): '' @ join '', '' (sort blocked))))
      else if changed = [] then Ret (Inr [])
      else seqP (modifyP (\<lambda>s. s\<lparr>oc_hot := hotConfigFrom newCfg\<rparr>))
             (seqP (whenP (cf_PollInterval newCfg \<noteq> cf_PollInterval cur) (sendPollReset (cf_PollInterval newCfg)))
               (Ret (Inr (sort changed))))))"

subsection \<open>Requests\<close>

text \<open>The requests of the control plane that run beside the loop.\<close>

definition requests :: "'w Env \<Rightarrow> Config \<Rightarrow> ('w, unit) orch set" where
  "requests env cfg =
     range (Pause env cfg) \<union> range (Resume env cfg) \<union> {ignoreP (tierHealth env)} \<union>
     {ignoreP (PoolSnapshot env cfg)} \<union> {ignoreP (RoutingSnapshot env cfg)} \<union>
     range (\<lambda>newCfg. ignoreP (ApplyHotConfig cfg newCfg))"

definition loopCalls :: "'w Env \<Rightarrow> Config \<Rightarrow> ('w, unit) orch set" where
  "loopCalls env cfg = range (loopBody env cfg)"

text \<open>One step and any run of a tier's orchestrator, from a fresh start.\<close>

definition tierSteps :: "'w Env \<Rightarrow> Config \<Rightarrow> (Task, 'w Orchestrator) config \<Rightarrow> (Task, 'w Orchestrator) config \<Rightarrow> bool" where
  "tierSteps env cfg = steps (taskBody env cfg) (loopCalls env cfg) (requests env cfg)"

definition tierStart :: "Config \<Rightarrow> 'w \<Rightarrow> SQLite option \<Rightarrow> (Task, 'w Orchestrator) config" where
  "tierStart cfg world store = ([Ret ()], NewOrchestrator cfg world store)"

subsection \<open>Reload facts\<close>

lemma differs_Nil [simp]: "differs name d = [] \<longleftrightarrow> \<not> d"
  by (simp add: differs_def)

lemma differs_set [simp]: "x \<in> set (differs name d) \<longleftrightarrow> d \<and> x = name"
  by (auto simp: differs_def)

lemma applyRuntimeDefaults_idem: "applyRuntimeDefaults (applyRuntimeDefaults cfg) = applyRuntimeDefaults cfg"
  by (simp add: applyRuntimeDefaults_def Let_def DefaultReadyFile_def minute_def)

lemma hotConfigFrom_Current: "hotConfigFrom (CurrentConfigFrom cfg hot) = hot"
  by (simp add: hotConfigFrom_def CurrentConfigFrom_def)

lemma hotConfigFrom_eq:
  "hotConfigFrom a = hotConfigFrom b \<longleftrightarrow> hotFieldDiff a b = [] \<and> Model (cf_Teardown a) = Model (cf_Teardown b)"
  by (auto simp: hotConfigFrom_def hotFieldDiff_def intro: TeardownPolicy.equality)

end
