(* ===== verification/Orch_Counters.thy ===== *)
theory Orch_Counters
  imports Orch_Control
begin

text \<open>
  The four shared counters of an orchestrator over all interleavings: provisions in flight
  (\<open>pending\<close>), image builders in flight (\<open>builders\<close>), the mark of a job handle being served
  (\<open>dispatching\<close>), and the references that pin a managed image (\<open>imageRefs\<close>). For each of them every
  goroutine gives back exactly what was taken for it.
\<close>

definition pendingCost :: "Task \<Rightarrow> nat" where
  "pendingCost t = (case t of ProvisionTask \<Rightarrow> 1 | _ \<Rightarrow> 0)"

definition builderCost :: "Task \<Rightarrow> nat" where
  "builderCost t = (case t of BuildTask _ \<Rightarrow> 1 | _ \<Rightarrow> 0)"

definition marks :: "string \<Rightarrow> 'w Orchestrator \<Rightarrow> nat" where
  "marks handle s = (if handle \<in> oc_dispatching s then 1 else 0)"

definition markCost :: "string \<Rightarrow> Task \<Rightarrow> nat" where
  "markCost handle t = (case t of JobTask _ job \<Rightarrow> (if wj_Handle job = handle then 1 else 0) | _ \<Rightarrow> 0)"

definition pins :: "string \<Rightarrow> 'w Orchestrator \<Rightarrow> nat" where
  "pins img s = oc_imageRefs s img"

definition noCost :: "Task \<Rightarrow> nat" where
  "noCost t = 0"

lemma cost_simps [simp]:
  "pendingCost ProvisionTask = 1" "pendingCost (ForceReadyTask i ph g) = 0" "pendingCost (JobTask n job) = 0"
  "pendingCost (DrainTask n) = 0" "pendingCost (IdleReapTask n) = 0" "pendingCost (BuildTask fp) = 0"
  "builderCost ProvisionTask = 0" "builderCost (ForceReadyTask i ph g) = 0" "builderCost (JobTask n job) = 0"
  "builderCost (DrainTask n) = 0" "builderCost (IdleReapTask n) = 0" "builderCost (BuildTask fp) = 1"
  "markCost h ProvisionTask = 0" "markCost h (ForceReadyTask i ph g) = 0"
  "markCost h (JobTask n job) = (if wj_Handle job = h then 1 else 0)"
  "markCost h (DrainTask n) = 0" "markCost h (IdleReapTask n) = 0" "markCost h (BuildTask fp) = 0"
  "noCost t = 0"
  by (simp_all add: pendingCost_def builderCost_def markCost_def noCost_def)

subsection \<open>Operations that leave all counters alone\<close>

definition counterFrame :: "'w Orchestrator \<Rightarrow> 'w Orchestrator \<Rightarrow> bool" where
  "counterFrame s s' \<longleftrightarrow> oc_pending s' = oc_pending s \<and> oc_builders s' = oc_builders s \<and>
     oc_dispatching s' = oc_dispatching s \<and> oc_imageRefs s' = oc_imageRefs s"

locale counter_frame =
  fixes R :: "'w Orchestrator \<Rightarrow> 'w Orchestrator \<Rightarrow> bool" and T :: "Task \<Rightarrow> bool"
  assumes counters: "counterFrame s s' \<Longrightarrow> R s s'"

sublocale counter_frame \<subseteq> pool_frame R T
proof
  fix s s' :: "'w Orchestrator"
  assume "poolFrame s s'"
  then obtain w st f e p where "s' = s\<lparr>oc_world := w, oc_store := st, oc_storageFailed := f, oc_events := e, oc_pool := p\<rparr>"
    unfolding poolFrame_def by blast
  then show "R s s'" by (intro counters) (simp add: counterFrame_def)
qed

context counter_frame
begin

lemma field_frame [frame]:
  "sat R T (SetManagedImage img)" "sat R T (addActive u)" "sat R T (removeActive u)"
  "sat R T (markTick env)" "sat R T (markProviderList env)" "sat R T (markForgejoPoll env)"
  "sat R T (imageCheckDue now)" "sat R T (builderCheckDue now)" "sat R T (sendPollReset d)"
  "sat R T (modifyP (\<lambda>s. s\<lparr>oc_reapSeen := seen\<rparr>))" "sat R T (modifyP (\<lambda>s. s\<lparr>oc_hot := hot\<rparr>))"
  unfolding SetManagedImage_def addActive_def removeActive_def markTick_def markProviderList_def markForgejoPoll_def
    markWith_def imageCheckDue_def builderCheckDue_def sendPollReset_def
  by (auto intro!: sat_modifyP sat_atom counters simp: counterFrame_def Let_def split: prod.split option.split)

lemma pause_frame [frame]: "sat R T (Pause env cfg c)" "sat R T (Resume env cfg c)"
  unfolding Pause_def Resume_def
  by (intro ledger_rules frame; auto intro!: sat_atom counters simp: counterFrame_def)+

lemma view_frame [frame]:
  "sat R T (tierHealth env)" "sat R T (PoolSnapshot env cfg)" "sat R T (CurrentConfig cfg)"
  unfolding tierHealth_def PoolSnapshot_def CurrentConfig_def Let_def by (intro ledger_rules frame)+

lemma request_frame [frame]: "sat R T (RoutingSnapshot env cfg)" "sat R T (ApplyHotConfig cfg c)"
  unfolding RoutingSnapshot_def ApplyHotConfig_def Let_def by (intro ledger_rules frame)+

lemma requests_frame: "p \<in> requests env cfg \<Longrightarrow> sat R T p"
  unfolding requests_def by (auto intro!: sat_ignoreP frame)

lemma runJobP_frame [frame]: "sat R T (runJobP env cfg node job)"
  unfolding runJobP_def by (intro ledger_rules frame)

lemma recoverOrphans_frame [frame]: "sat R T (recoverOrphanBuilders env cfg)"
  unfolding recoverOrphanBuilders_def by (intro ledger_rules frame)

lemma reapZombies_frame [frame]: "sat R T (reapZombieRunners env cfg)"
  unfolding reapZombieRunners_def reapRunner_def by (intro ledger_rules frame)

lemma pollJobs_frame [frame]: "sat R T (pollJobs env cfg r)"
  unfolding pollJobs_def by (intro ledger_rules frame)

lemma applyTeardown_frame:
  assumes "\<And>n. T (DrainTask n)" "\<And>n. T (IdleReapTask n)"
  shows "sat R T (applyTeardown env)"
  unfolding applyTeardown_def drainOne_def reapOne_def by (intro ledger_rules frame sat_goP assms)

lemma forceProvision_frame:
  assumes "\<And>i p g. T (ForceReadyTask i p g)"
  shows "sat R T (doForceProvision env cfg)"
  unfolding doForceProvision_def Let_def by (intro ledger_rules frame sat_goP assms)

text \<open>The operations that touch a counter, relative to their steps that do.\<close>

lemma provisionBody_frame: "sat R T decPending \<Longrightarrow> sat R T (provisionBody env cfg)"
  unfolding provisionBody_def Let_def by (intro ledger_rules frame)

lemma provisionOne_frame: "sat R T incPending \<Longrightarrow> T ProvisionTask \<Longrightarrow> sat R T provisionOne"
  unfolding provisionOne_def by (intro ledger_rules frame sat_goP)

lemma dispatch_frame:
  "sat R T (markDispatching (wj_Handle job)) \<Longrightarrow> sat R T (unmarkDispatching (wj_Handle job)) \<Longrightarrow> (\<And>n. T (JobTask n job)) \<Longrightarrow>
   sat R T (dispatch env cfg node job)"
  unfolding dispatch_def Let_def by (intro ledger_rules frame sat_goP)

lemma resetWorker_frame: "sat R T (releaseImage img) \<Longrightarrow> sat R T (resetWorker env cfg node resetter img)"
  unfolding resetWorker_def by (intro ledger_rules frame)

lemma finishDispatched_frame:
  "sat R T acquireManagedImage \<Longrightarrow> (\<And>img. sat R T (releaseImage img)) \<Longrightarrow> sat R T (finishDispatchedWorker env cfg node)"
  unfolding finishDispatchedWorker_def Let_def by (intro ledger_rules frame resetWorker_frame)

lemma finishJob_frame:
  "sat R T (unmarkDispatching (wj_Handle job)) \<Longrightarrow> (\<And>n. sat R T (finishDispatchedWorker env cfg n)) \<Longrightarrow>
   sat R T (finishJob env cfg node job outcome)"
  unfolding finishJob_def Let_def by (intro ledger_rules frame)

lemma jobBody_frame:
  "sat R T (unmarkDispatching (wj_Handle job)) \<Longrightarrow> (\<And>n. sat R T (finishDispatchedWorker env cfg n)) \<Longrightarrow>
   sat R T (jobBody env cfg node job)"
  unfolding jobBody_def by (intro ledger_rules frame finishJob_frame)

lemma launchBuilder_frame: "sat R T incBuilders \<Longrightarrow> T (BuildTask fp) \<Longrightarrow> sat R T (launchBuilder d hot fp)"
  unfolding launchBuilder_def by (intro ledger_rules frame sat_goP)

lemma promote_frame:
  "sat R T acquireManagedImage \<Longrightarrow> (\<And>img. sat R T (releaseImage img)) \<Longrightarrow>
   sat R T (promoteImageBuilder env cfg node g promoter img)"
  unfolding promoteImageBuilder_def Let_def by (intro ledger_rules frame resetWorker_frame)

lemma prepareBuilder_frame:
  assumes "\<And>n promoter img. sat R T (promoteImageBuilder env cfg n g promoter img)"
  shows "sat R T (prepareBuilder env cfg images preparer fp key inst resource g node)"
  unfolding prepareBuilder_def captureImage_def rotateImage_def Let_def by (intro ledger_rules frame assms)

lemma buildManagedImage_frame:
  assumes "\<And>n g promoter img. sat R T (promoteImageBuilder env cfg n g promoter img)"
  shows "sat R T (buildManagedImage env cfg images preparer fp)"
  unfolding buildManagedImage_def Let_def by (intro ledger_rules frame prepareBuilder_frame assms)

lemma buildBody_frame:
  assumes "\<And>n g promoter img. sat R T (promoteImageBuilder env cfg n g promoter img)" "sat R T decBuilders"
  shows "sat R T (buildBody env cfg fp)"
  unfolding buildBody_def by (intro ledger_rules buildManagedImage_frame assms)

end

subsection \<open>A counter of the orchestrator\<close>

text \<open>
  The obligations a counter has to meet: the operations above do not touch it, and the operations
  that take and give back do so in balance. The rest of the loop follows.
\<close>

locale tier_counter =
  fixes \<mu> :: "'w Orchestrator \<Rightarrow> nat" and cost :: "Task \<Rightarrow> nat" and env :: "'w Env" and cfg :: Config
  assumes frame_kept: "counterFrame s s' \<Longrightarrow> \<mu> s' = \<mu> s"
    and free: "cost (DrainTask n) = 0" "cost (IdleReapTask n) = 0" "cost (ForceReadyTask i ph g) = 0"
    and provision: "net \<mu> cost provisionOne" "owes \<mu> cost (\<lambda>_ c. c = 0) (provisionBody env cfg) (cost ProvisionTask)"
    and job: "net \<mu> cost (dispatch env cfg n j)" "owes \<mu> cost (\<lambda>_ c. c = 0) (jobBody env cfg n j) (cost (JobTask n j))"
    and build: "net \<mu> cost (launchBuilder d hot fp)" "owes \<mu> cost (\<lambda>_ c. c = 0) (buildBody env cfg fp) (cost (BuildTask fp))"

sublocale tier_counter \<subseteq> f: counter_frame "\<lambda>s s'. \<mu> s' = \<mu> s" "\<lambda>t. cost t = 0"
  by unfold_locales (rule frame_kept)

context tier_counter
begin

lemma leaf: "sat (\<lambda>s s'. \<mu> s' = \<mu> s) (\<lambda>t. cost t = 0) p \<Longrightarrow> net \<mu> cost p"
  by (simp add: net_neutral neutral_def)

lemma net_repeat: "net \<mu> cost p \<Longrightarrow> net \<mu> cost (repeatP n p)"
  by (induction n) (auto intro: net_rules)

lemma net_dispatchJobs: "net \<mu> cost (dispatchJobs env cfg jobs)"
  unfolding dispatchJobs_def dispatchOne_def
  by (intro net_rules net_repeat provision job; rule leaf; intro frame)

lemma net_ensureManagedImage: "net \<mu> cost (ensureManagedImage env cfg d)"
  unfolding ensureManagedImage_def
  by (intro net_rules build; rule leaf; intro frame)

lemma net_Reconcile: "net \<mu> cost (Reconcile env cfg)"
  unfolding Reconcile_def reconcilePass_def serveJobs_def
  by (intro net_rules net_dispatchJobs net_ensureManagedImage; rule leaf; intro frame f.applyTeardown_frame free)

lemma net_loopBody: "net \<mu> cost (loopBody env cfg c)"
proof (cases c)
  case Tick
  have "net \<mu> cost (getP oc_paused)" by (rule leaf) (rule frame)
  then show ?thesis unfolding Tick loopBody.simps ignoreP_def by (intro net_rules net_Reconcile)
next
  case (Kick req)
  have "net \<mu> cost (doForceReap env cfg i)" "net \<mu> cost (doForceProvision env cfg)" for i
    by (rule leaf, intro frame f.forceProvision_frame free)+
  then show ?thesis unfolding Kick by (cases req) (auto simp: ignoreP_def intro!: net_rules net_Reconcile)
next
  case PollReset
  then show ?thesis by (auto intro!: leaf sat_modifyP frame_kept simp: counterFrame_def split: option.split)
next
  case Shutdown
  then show ?thesis by (auto intro!: leaf prog_rules frame)
qed

lemma owes_task: "owes \<mu> cost (\<lambda>_ c. c = 0) (taskBody env cfg t) (cost t)"
  by (cases t) (auto simp: provision job build free intro!: owes_neutral simp: neutral_def intro!: frame)

end

sublocale tier_counter \<subseteq> counter \<mu> cost "taskBody env cfg" "loopCalls env cfg" "requests env cfg"
  by unfold_locales (auto simp: owes_task loopCalls_def net_loopBody intro: leaf f.requests_frame)

subsection \<open>Provisions in flight\<close>

interpretation pend: counter_frame "\<lambda>s s'. oc_pending s' = oc_pending s" "\<lambda>t. pendingCost t = 0"
  by unfold_locales (simp add: counterFrame_def)

lemmas atom_sats = sat_atom sat_modifyP

lemma pend_atoms:
  "sat (\<lambda>s s'. oc_pending s' = oc_pending s) T (markDispatching h)" "sat (\<lambda>s s'. oc_pending s' = oc_pending s) T (unmarkDispatching h)"
  "sat (\<lambda>s s'. oc_pending s' = oc_pending s) T incBuilders" "sat (\<lambda>s s'. oc_pending s' = oc_pending s) T decBuilders"
  "sat (\<lambda>s s'. oc_pending s' = oc_pending s) T acquireManagedImage" "sat (\<lambda>s s'. oc_pending s' = oc_pending s) T (releaseImage i)"
  unfolding markDispatching_def unmarkDispatching_def incBuilders_def decBuilders_def acquireManagedImage_def releaseImage_def
  by (auto intro!: atom_sats simp: Let_def)

lemma owes_decPending:
  "Q () 0 \<Longrightarrow> owes oc_pending pendingCost Q decPending (Suc 0)"
  "owes oc_pending pendingCost Q p 0 \<Longrightarrow> owes oc_pending pendingCost Q (seqP decPending p) (Suc 0)"
  by (auto simp: decPending_def modifyP_def seqP_def)

lemma provisionBody_owes: "owes oc_pending pendingCost (\<lambda>_ c. c = 0) (provisionBody env cfg) (Suc 0)"
  unfolding provisionBody_def
  by (intro owes_rules owes_decPending; (rule owes_neutral)?; (unfold neutral_def)?; (intro pend.ledger_rules frame)?) simp_all

lemma provisionOne_net: "net oc_pending pendingCost provisionOne"
  by (simp add: net_def provisionOne_def incPending_def modifyP_def goP_def seqP_def pendingCost_def)

interpretation pending: tier_counter oc_pending pendingCost env cfg for env :: "'w Env" and cfg
  by unfold_locales
    (auto simp: counterFrame_def provisionOne_net provisionBody_owes neutral_def
       intro!: net_neutral owes_neutral pend_atoms pend.dispatch_frame pend.jobBody_frame pend.launchBuilder_frame
         pend.buildBody_frame pend.finishDispatched_frame pend.promote_frame)

subsection \<open>Builders in flight\<close>

interpretation bld: counter_frame "\<lambda>s s'. oc_builders s' = oc_builders s" "\<lambda>t. builderCost t = 0"
  by unfold_locales (simp add: counterFrame_def)

lemma bld_atoms:
  "sat (\<lambda>s s'. oc_builders s' = oc_builders s) T (markDispatching h)" "sat (\<lambda>s s'. oc_builders s' = oc_builders s) T (unmarkDispatching h)"
  "sat (\<lambda>s s'. oc_builders s' = oc_builders s) T incPending" "sat (\<lambda>s s'. oc_builders s' = oc_builders s) T decPending"
  "sat (\<lambda>s s'. oc_builders s' = oc_builders s) T acquireManagedImage" "sat (\<lambda>s s'. oc_builders s' = oc_builders s) T (releaseImage i)"
  unfolding markDispatching_def unmarkDispatching_def incPending_def decPending_def acquireManagedImage_def releaseImage_def
  by (auto intro!: atom_sats simp: Let_def)

lemma owes_decBuilders: "Q () 0 \<Longrightarrow> owes oc_builders builderCost Q decBuilders (Suc 0)"
  by (auto simp: decBuilders_def modifyP_def)

lemma buildBody_owes: "owes oc_builders builderCost (\<lambda>_ c. c = 0) (buildBody env cfg fp) (Suc 0)"
  unfolding buildBody_def
  by (auto split: option.split intro!: owes_decBuilders owes_neutral_seqP bld.buildManagedImage_frame bld.promote_frame
      bld_atoms simp: neutral_def)

lemma launchBuilder_net: "net oc_builders builderCost (launchBuilder d hot fp)"
proof -
  have launch: "net oc_builders builderCost (seqP incBuilders (goP (BuildTask fp)))"
    by (simp add: net_def incBuilders_def modifyP_def goP_def seqP_def builderCost_def)
  show ?thesis unfolding launchBuilder_def
    by (intro net_bindP net_cases net_Ret launch; (rule net_neutral, unfold neutral_def, intro frame)?)
qed

interpretation builders: tier_counter oc_builders builderCost env cfg for env :: "'w Env" and cfg
  by unfold_locales
    (auto simp: counterFrame_def buildBody_owes launchBuilder_net neutral_def
       intro!: net_neutral owes_neutral bld_atoms bld.dispatch_frame bld.jobBody_frame bld.provisionOne_frame
         bld.provisionBody_frame bld.finishDispatched_frame)

subsection \<open>Handles being served\<close>

interpretation mrk: counter_frame "\<lambda>s s'. marks h s' = marks h s" "\<lambda>t. markCost h t = 0" for h
  by unfold_locales (simp add: counterFrame_def marks_def)

lemma mrk_atoms:
  "sat (\<lambda>s s'. marks h s' = marks h s) T incPending" "sat (\<lambda>s s'. marks h s' = marks h s) T decPending"
  "sat (\<lambda>s s'. marks h s' = marks h s) T incBuilders" "sat (\<lambda>s s'. marks h s' = marks h s) T decBuilders"
  "sat (\<lambda>s s'. marks h s' = marks h s) T acquireManagedImage" "sat (\<lambda>s s'. marks h s' = marks h s) T (releaseImage i)"
  "h' \<noteq> h \<Longrightarrow> sat (\<lambda>s s'. marks h s' = marks h s) T (markDispatching h')"
  "h' \<noteq> h \<Longrightarrow> sat (\<lambda>s s'. marks h s' = marks h s) T (unmarkDispatching h')"
  unfolding markDispatching_def unmarkDispatching_def incPending_def decPending_def incBuilders_def decBuilders_def
    acquireManagedImage_def releaseImage_def
  by (auto intro!: atom_sats simp: Let_def marks_def split: if_splits)

lemma owes_mark:
  "Q False 0 \<Longrightarrow> Q True (Suc 0) \<Longrightarrow> owes (marks h) (markCost h) Q (markDispatching h) 0"
  by (auto simp: markDispatching_def atom_def marks_def)

lemma owes_unmark:
  "owes (marks h) (markCost h) Q p 0 \<Longrightarrow> owes (marks h) (markCost h) Q (seqP (unmarkDispatching h) p) (Suc 0)"
  by (auto simp: unmarkDispatching_def modifyP_def seqP_def marks_def)

lemma owes_go_job: "wj_Handle job = h \<Longrightarrow> owes (marks h) (markCost h) Q p 0 \<Longrightarrow>
   owes (marks h) (markCost h) Q (seqP (goP (JobTask n job)) p) (Suc 0)"
  by (simp add: goP_def seqP_def markCost_def)

lemma dispatch_net: "net (marks h) (markCost h) (dispatch env cfg node job)"
proof (cases "wj_Handle job = h")
  case True
  show ?thesis unfolding net_def dispatch_def Let_def True owes_bindP [of _ _ _ "markDispatching h"]
    by (rule owes_mark; simp only: not_True_eq_False not_False_eq_True if_False if_True owes.simps;
        intro owes_rules owes_unmark owes_go_job True; (unfold neutral_def)?; (intro mrk.ledger_rules frame)?) simp_all
next
  case False
  then show ?thesis
    by (intro net_neutral) (simp add: neutral_def mrk.dispatch_frame mrk_atoms)
qed

lemma mrk_finish:
  "sat (\<lambda>s s'. marks h s' = marks h s) (\<lambda>t. markCost h t = 0) (finishDispatchedWorker env cfg n)"
  by (intro mrk.finishDispatched_frame mrk_atoms)

lemma jobBody_owes:
  "owes (marks h) (markCost h) (\<lambda>_ c. c = 0) (jobBody env cfg node job) (markCost h (JobTask node job))"
proof (cases "wj_Handle job = h")
  case True
  show ?thesis
    unfolding jobBody_def finishJob_def Let_def True cost_simps simp_thms if_True One_nat_def
    by (intro owes_rules owes_unmark; (rule owes_neutral)?; (unfold neutral_def)?; (intro mrk.ledger_rules frame mrk_finish)?) simp_all
next
  case False
  then show ?thesis
    by (simp add: owes_neutral neutral_def mrk.jobBody_frame mrk_atoms mrk_finish)
qed

interpretation handles: tier_counter "marks h" "markCost h" env cfg for h :: string and env :: "'w Env" and cfg
proof (unfold_locales, goal_cases)
  case (1 s s')
  then show ?case by (simp add: counterFrame_def marks_def)
next
  case (7 n j)
  show ?case by (rule dispatch_net)
next
  case (8 n j)
  show ?case by (rule jobBody_owes)
qed (auto simp: neutral_def intro!: net_neutral owes_neutral mrk_atoms
       mrk.provisionOne_frame mrk.provisionBody_frame mrk.launchBuilder_frame mrk.buildBody_frame mrk.promote_frame)

subsection \<open>Pinned images\<close>

interpretation pin: counter_frame "\<lambda>s s'. pins img s' = pins img s" "\<lambda>t. noCost t = 0" for img
  by unfold_locales (simp add: counterFrame_def pins_def)

lemma pin_atoms:
  "sat (\<lambda>s s'. pins img s' = pins img s) T incPending" "sat (\<lambda>s s'. pins img s' = pins img s) T decPending"
  "sat (\<lambda>s s'. pins img s' = pins img s) T incBuilders" "sat (\<lambda>s s'. pins img s' = pins img s) T decBuilders"
  "sat (\<lambda>s s'. pins img s' = pins img s) T (markDispatching h)" "sat (\<lambda>s s'. pins img s' = pins img s) T (unmarkDispatching h)"
  unfolding markDispatching_def unmarkDispatching_def incPending_def decPending_def incBuilders_def decBuilders_def
  by (auto intro!: atom_sats simp: Let_def pins_def split: if_splits)

text \<open>Acquiring hands out the current image with a reference to it, releasing gives the reference back.\<close>

definition holds :: "string \<Rightarrow> string \<Rightarrow> nat" where
  "holds img i = (if i = img \<and> i \<noteq> '''' then Suc 0 else 0)"

lemma holds_simps: "holds img '''' = 0" "i \<noteq> img \<Longrightarrow> holds img i = 0" "img \<noteq> '''' \<Longrightarrow> holds img img = Suc 0"
  by (simp_all add: holds_def)

lemma owes_acquire:
  assumes f: "\<And>i. owes (pins img) noCost Q (f i) (holds img i)"
  shows "owes (pins img) noCost Q (bindP acquireManagedImage f) 0"
proof -
  have "\<exists>c. c + pins img s = pins img (snd (let i = oc_managedImage s in (i, if i \<noteq> '''' then s\<lparr>oc_imageRefs := (oc_imageRefs s)(i := oc_imageRefs s i + 1)\<rparr> else s)))
      \<and> owes (pins img) noCost Q (f (oc_managedImage s)) c" for s :: "'a Orchestrator"
    by (rule exI [of _ "holds img (oc_managedImage s)"]) (simp add: f Let_def, simp add: pins_def holds_def)
  then show ?thesis
    by (simp add: acquireManagedImage_def atom_def Let_def)
qed

lemma owes_release:
  assumes "owes (pins img) noCost Q p 0"
  shows "img \<noteq> '''' \<Longrightarrow> owes (pins img) noCost Q (seqP (releaseImage img) p) (Suc 0)"
    "i = '''' \<or> i \<noteq> img \<Longrightarrow> owes (pins img) noCost Q (seqP (releaseImage i) p) 0"
  using assms by (auto simp: releaseImage_def modifyP_def seqP_def pins_def)

lemma owes_releaseImage: "owes (pins img) noCost Q p 0 \<Longrightarrow> owes (pins img) noCost Q (seqP (releaseImage i) p) (holds img i)"
  using owes_release [of img Q p] by (auto simp: holds_def)

lemma owes_resetWorker:
  assumes "\<And>ok. owes (pins img) noCost Q (f ok) 0"
  shows "owes (pins img) noCost Q (bindP (resetWorker env cfg node resetter i) f) (holds img i)"
proof -
  have "neutral (pins img) noCost (resetAttempt env cfg node resetter i)" unfolding neutral_def by (intro frame)
  then show ?thesis unfolding resetWorker_def bindP_assoc seqP_def
    using assms by (auto intro!: owes_neutral_bindP owes_releaseImage [unfolded seqP_def])
qed

lemma finishDispatched_net: "net (pins img) noCost (finishDispatchedWorker env cfg node)"
proof -
  have destroy: "owes (pins img) noCost (\<lambda>_ c. c = 0) (destroyAfterJob env cfg node reason) 0" for reason
    by (rule owes_neutral; (unfold neutral_def)?; (intro frame)?) simp
  have reset: "owes (pins img) noCost (\<lambda>_ c. c = 0)
      (if i = '''' then destroyAfterJob env cfg node reason
       else case e_Resetter env of
          None \<Rightarrow> seqP (releaseImage i) (destroyAfterJob env cfg node reason)
        | Some resetter \<Rightarrow> bindP (resetWorker env cfg node resetter i) (\<lambda>ok. if ok then Ret () else destroyAfterJob env cfg node reason))
      (holds img i)" for i reason
    by (cases "i = ''''"; cases "e_Resetter env")
      (auto simp: holds_simps destroy intro!: owes_releaseImage owes_resetWorker)
  show ?thesis
    unfolding net_def finishDispatchedWorker_def Let_def
    by (intro owes_cases owes_acquire reset destroy; rule owes_neutral; (unfold neutral_def)?; (intro pin.ledger_rules frame)?) simp
qed

lemma promote_net: "net (pins img) noCost (promoteImageBuilder env cfg node g promoter imageID)"
proof -
  have ret: "owes (pins img) noCost (\<lambda>_ c. c = 0) (Ret ok) 0" for ok by simp
  have drain: "owes (pins img) noCost (\<lambda>_ c. c = 0) (seqP (poolSetState i StateDraining) (Ret False)) 0" for i
    by (rule owes_neutral; (unfold neutral_def)?; (intro pin.ledger_rules frame)?) simp
  have refused: "owes (pins img) noCost (\<lambda>_ c. c = 0)
      (seqP (whenP (a \<noteq> '''') (releaseImage a)) (seqP (poolSetState i StateDraining) (Ret False))) (holds img a)" for a i
    using owes_releaseImage [where i = a, OF drain, of i] drain
    by (cases "a = ''''") (simp_all add: holds_simps whenP_def seqP_def)
  have cost: "owes (pins img) noCost (\<lambda>_ c. c = 0) (if \<not> ok then Ret False else bindP (nowP env) (\<lambda>at.
      seqP (recordIntervalCost env cfg n CostImageBuilder t at) (Ret True))) 0" for ok n t
    by (rule owes_neutral; (unfold neutral_def)?; (intro pin.ledger_rules frame)?) simp
  show ?thesis
    unfolding net_def promoteImageBuilder_def Let_def
    by (intro owes_rules owes_acquire refused ret owes_releaseImage owes_resetWorker cost; (unfold neutral_def)?;
        (intro pin.ledger_rules frame)?)
qed

lemma pin_leaf:
  "sat (\<lambda>s s'. pins img s' = pins img s) (\<lambda>t. noCost t = 0) p \<Longrightarrow> net (pins img) noCost p"
  by (simp add: net_neutral neutral_def)

lemma jobBody_net: "net (pins img) noCost (jobBody env cfg node job)"
  unfolding jobBody_def finishJob_def Let_def
  by (intro net_rules finishDispatched_net; rule pin_leaf; intro pin.ledger_rules frame pin_atoms)

lemma buildBody_net: "net (pins img) noCost (buildBody env cfg fp)"
  unfolding buildBody_def buildManagedImage_def prepareBuilder_def captureImage_def rotateImage_def Let_def
  by (intro net_rules promote_net; rule pin_leaf; intro pin.ledger_rules frame pin_atoms)

lemma pin_nets:
  "net (pins img) noCost provisionOne" "net (pins img) noCost (provisionBody env cfg)"
  "net (pins img) noCost (dispatch env cfg n job)" "net (pins img) noCost (launchBuilder d hot fp)"
  by (rule pin_leaf, intro pin_atoms pin.provisionOne_frame pin.provisionBody_frame pin.dispatch_frame pin.launchBuilder_frame cost_simps)+

interpretation pinned: tier_counter "pins img" noCost env cfg for img :: string and env :: "'w Env" and cfg
  by unfold_locales
    (simp_all add: counterFrame_def pin_nets
       pin_nets(2) [unfolded net_def] jobBody_net [unfolded net_def] buildBody_net [unfolded net_def], simp add: pins_def)

subsection \<open>All counters at once\<close>

lemma tier_balanced:
  assumes "tierSteps env cfg (tierStart cfg w store) c"
  shows "balanced oc_pending pendingCost c" "balanced oc_builders builderCost c"
    "balanced (marks h) (markCost h) c" "balanced (pins img) noCost c"
  using assms unfolding tierSteps_def tierStart_def
  by (auto intro!: pending.balanced_steps [OF _ pending.balanced_init] builders.balanced_steps [OF _ builders.balanced_init]
      handles.balanced_steps [OF _ handles.balanced_init] pinned.balanced_steps [OF _ pinned.balanced_init]
      simp: NewOrchestrator_def marks_def pins_def)

end
