(* ===== verification/Orch_Example.thy ===== *)
theory Orch_Example
  imports Orch_Counters
begin

text \<open>
  A small concrete outside world: a clock, a provider that hands out numbered machines, a fixed
  queue of waiting jobs, a dispatcher that always succeeds. The theorems about a tier are applied
  to runs in it, and the runs that show a defect take place in it.
\<close>

record World =
  wo_clock :: int
  wo_next :: nat
  wo_live :: "Instance list"
  wo_jobs :: "WaitingJob list"
  wo_runners :: "Runner list"

definition sampleJob :: "int \<Rightarrow> string \<Rightarrow> WaitingJob" where
  "sampleJob i handle =
     \<lparr>wj_ID = i, wj_Attempt = 1, wj_Handle = handle, wj_RepoID = 1, wj_OwnerID = 1, wj_RunID = i, wj_WorkflowID = ''ci.yml'',
      wj_CommitSHA = ''c0ffee'', wj_Labels = [''docker''], wj_Status = ''waiting'', wj_TaskID = 0, wj_Name = ''build''\<rparr>"

definition sampleInstance :: "nat \<Rightarrow> string \<Rightarrow> int \<Rightarrow> Instance" where
  "sampleInstance n name now =
     \<lparr>in_ID = ''vm'' @ replicate n (CHR ''i''), in_Name = name, in_IPv4 = ''10.0.0.'' @ replicate n (CHR ''1''), in_VPCIPv4 = '''', in_CreatedAt = now, in_Tag = ''fjb''\<rparr>"

definition sampleProvision :: "Spec \<Rightarrow> World \<Rightarrow> Instance result \<times> World" where
  "sampleProvision spec w =
     (let inst = sampleInstance (wo_next w) (sp_Name spec) (wo_clock w)
      in (Inr inst, w\<lparr>wo_next := wo_next w + 1, wo_live := wo_live w @ [inst]\<rparr>))"

definition sampleDestroy :: "string \<Rightarrow> World \<Rightarrow> unit result \<times> World" where
  "sampleDestroy i w = (Inr (), w\<lparr>wo_live := filter (\<lambda>m. in_ID m \<noteq> i) (wo_live w)\<rparr>)"

definition sampleRunJob :: "string \<Rightarrow> string \<Rightarrow> Registration \<Rightarrow> WaitingJob \<Rightarrow> World \<Rightarrow> unit result \<times> World" where
  "sampleRunJob i addr reg job w = (Inr (), w\<lparr>wo_jobs := filter (\<lambda>j. wj_Handle j \<noteq> wj_Handle job) (wo_jobs w)\<rparr>)"

definition sampleEnv :: "World Env" where
  "sampleEnv =
     \<lparr>e_now = (\<lambda>w. (wo_clock w, w\<lparr>wo_clock := wo_clock w + 1000000000\<rparr>)),
      e_shortID = (\<lambda>w. (''x'' @ replicate (wo_next w) (CHR ''i''), w)),
      e_List = (\<lambda>_ w. (Inr (wo_live w), w)),
      e_Provision = sampleProvision, e_Destroy = sampleDestroy, e_Pricer = None, e_Resetter = None, e_Images = None,
      e_ListBuilders = None, e_PromoteBuilder = None,
      e_WaitingJobs = (\<lambda>w. (Inr (wo_jobs w), w)), e_HoldForRoutingOptimization = None,
      e_RegisterEphemeral = (\<lambda>name _ w. (Inr \<lparr>rg_UUID = name, rg_Token = ''t''\<rparr>, w)),
      e_ListRunners = (\<lambda>w. (Inr (wo_runners w), w)),
      e_DeleteRunner = (\<lambda>i w. (Inr (), w\<lparr>wo_runners := filter (\<lambda>r. rn_ID r \<noteq> i) (wo_runners w)\<rparr>)),
      e_JobMetadata = None, e_WaitReady = (\<lambda>_ _ w. (Inr (), w)), e_RunJob = sampleRunJob,
      e_PinHostKey = None, e_PrepareImage = None, e_generateHostKey = (\<lambda>w. (Inr (''priv'', ''pub''), w)),
      e_Render = (\<lambda>_. Inr ''#cloud-config''), e_sha256 = id, e_parseTime = (\<lambda>_. None)\<rparr>"

definition sampleConfig :: Config where
  "sampleConfig =
     \<lparr>cf_Tier = ''small'', cf_ProviderName = ''main'', cf_Driver = ''linode'', cf_Tag = ''fjb'', cf_MaxScale = 1,
      cf_WarmInstances = 0, cf_Labels = [''docker''], cf_InstanceType = ''g6'', cf_OneJobPerVM = False, cf_ResetMode = '''',
      cf_ResetMinRemaining = 0, cf_ResetTimeout = 0, cf_BootstrapFingerprint = '''', cf_ForgejoSource = ''forgejo'',
      cf_PollInterval = 10000000000, cf_RunnerVersion = ''9'', cf_ReadyFile = '''',
      cf_Teardown = hourly_policy, cf_AuthorizedKey = '''', cf_FJBAgentDownloadURL = '''',
      cf_FJBAgentToken = '''', cf_TransportMode = '''', cf_DrainOnShutdown = False, cf_DrainTimeout = 0, cf_DestroyOnExit = False\<rparr>"

lemma sample_simps:
  "e_now sampleEnv = (\<lambda>w. (wo_clock w, w\<lparr>wo_clock := wo_clock w + 1000000000\<rparr>))"
  "e_shortID sampleEnv = (\<lambda>w. (''x'' @ replicate (wo_next w) (CHR ''i''), w))"
  "e_List sampleEnv = (\<lambda>_ w. (Inr (wo_live w), w))"
  "e_Provision sampleEnv = sampleProvision"
  "e_Destroy sampleEnv = sampleDestroy"
  "e_Pricer sampleEnv = None"
  "e_Resetter sampleEnv = None"
  "e_Images sampleEnv = None"
  "e_ListBuilders sampleEnv = None"
  "e_PromoteBuilder sampleEnv = None"
  "e_WaitingJobs sampleEnv = (\<lambda>w. (Inr (wo_jobs w), w))"
  "e_HoldForRoutingOptimization sampleEnv = None"
  "e_RegisterEphemeral sampleEnv = (\<lambda>name _ w. (Inr \<lparr>rg_UUID = name, rg_Token = ''t''\<rparr>, w))"
  "e_ListRunners sampleEnv = (\<lambda>w. (Inr (wo_runners w), w))"
  "e_DeleteRunner sampleEnv = (\<lambda>i w. (Inr (), w\<lparr>wo_runners := filter (\<lambda>r. rn_ID r \<noteq> i) (wo_runners w)\<rparr>))"
  "e_JobMetadata sampleEnv = None"
  "e_WaitReady sampleEnv = (\<lambda>_ _ w. (Inr (), w))"
  "e_RunJob sampleEnv = sampleRunJob"
  "e_PinHostKey sampleEnv = None"
  "e_PrepareImage sampleEnv = None"
  "e_generateHostKey sampleEnv = (\<lambda>w. (Inr (''priv'', ''pub''), w))"
  "e_Render sampleEnv = (\<lambda>_. Inr ''#cloud-config'')"
  "e_sha256 sampleEnv = id"
  "e_parseTime sampleEnv = (\<lambda>_. None)"
  "cf_Tier sampleConfig = ''small''"
  "cf_ProviderName sampleConfig = ''main''"
  "cf_Driver sampleConfig = ''linode''"
  "cf_Tag sampleConfig = ''fjb''"
  "cf_MaxScale sampleConfig = 1"
  "cf_WarmInstances sampleConfig = 0"
  "cf_Labels sampleConfig = [''docker'']"
  "cf_InstanceType sampleConfig = ''g6''"
  "cf_OneJobPerVM sampleConfig = False"
  "cf_ResetMode sampleConfig = ''''"
  "cf_ResetMinRemaining sampleConfig = 0"
  "cf_ResetTimeout sampleConfig = 0"
  "cf_BootstrapFingerprint sampleConfig = ''''"
  "cf_ForgejoSource sampleConfig = ''forgejo''"
  "cf_PollInterval sampleConfig = 10000000000"
  "cf_RunnerVersion sampleConfig = ''9''"
  "cf_ReadyFile sampleConfig = ''''"
  "cf_Teardown sampleConfig = hourly_policy"
  "cf_AuthorizedKey sampleConfig = ''''"
  "cf_FJBAgentDownloadURL sampleConfig = ''''"
  "cf_FJBAgentToken sampleConfig = ''''"
  "cf_TransportMode sampleConfig = ''''"
  "cf_DrainOnShutdown sampleConfig = False"
  "cf_DrainTimeout sampleConfig = 0"
  "cf_DestroyOnExit sampleConfig = False"
  by (simp_all add: sampleEnv_def sampleConfig_def)

definition sampleWorld :: "WaitingJob list \<Rightarrow> World" where
  "sampleWorld jobs = \<lparr>wo_clock = 1700000000000000000, wo_next = 1, wo_live = [], wo_jobs = jobs, wo_runners = []\<rparr>"

definition sampleJobs :: "WaitingJob list" where
  "sampleJobs = [sampleJob 1 ''a'', sampleJob 2 ''b'']"

primrec ended :: "('t, 's, 'a) prog \<Rightarrow> bool" where
  "ended (Ret a) = True"
| "ended (Act u h) = False"
| "ended (Spawn t p) = False"

lemma finished_code [code]: "finished c = list_all ended (fst c)"
proof -
  have "p = Ret () \<longleftrightarrow> ended p" for p :: "('a, 'b, unit) prog" by (cases p) simp_all
  then show ?thesis by (simp add: finished_def)
qed

text \<open>
  A schedule of the sample tier: \<open>Take c\<close> starts an iteration of the loop, \<open>Run i n\<close> gives the
  \<open>i\<close>-th goroutine \<open>n\<close> steps.
\<close>

datatype turn = Take loopCase | Run nat nat

primrec move :: "turn \<Rightarrow> (Task, World Orchestrator) config \<Rightarrow> (Task, World Orchestrator) config" where
  "move (Take l) c = (case fst c of Ret _ # ps \<Rightarrow> (loopBody sampleEnv sampleConfig l # ps, snd c) | _ \<Rightarrow> c)"
| "move (Run i n) c = (stepAt (taskBody sampleEnv sampleConfig) i ^^ n) c"

definition play :: "WaitingJob list \<Rightarrow> turn list \<Rightarrow> (Task, World Orchestrator) config" where
  "play jobs ms = fold move ms (tierStart sampleConfig (sampleWorld jobs) None)"

lemma move_steps: "tierSteps sampleEnv sampleConfig c (move m c)"
proof (cases m)
  case (Take l)
  have refl: "tierSteps sampleEnv sampleConfig c c" by (simp add: tierSteps_def steps_refl)
  show ?thesis
  proof (cases "\<exists>qs s. c = (Ret () # qs, s)")
    case True
    then obtain qs s where c: "c = (Ret () # qs, s)" by blast
    have "step (taskBody sampleEnv sampleConfig) (loopCalls sampleEnv sampleConfig) (requests sampleEnv sampleConfig)
        c (loopBody sampleEnv sampleConfig l # qs, s)"
      using step_call [of "Ret () # qs" "loopBody sampleEnv sampleConfig l"] by (simp add: c loopCalls_def)
    then have "tierSteps sampleEnv sampleConfig c (loopBody sampleEnv sampleConfig l # qs, s)"
      unfolding tierSteps_def by (rule step_steps [OF _ steps_refl])
    moreover have "move m c = (loopBody sampleEnv sampleConfig l # qs, s)" by (simp add: Take c del: loopBody.simps)
    ultimately show ?thesis by simp
  next
    case False
    then have "move m c = c" unfolding Take move.simps
      by (cases c) (simp split: list.split prog.split)
    then show ?thesis using refl by simp
  qed
next
  case (Run i n)
  then show ?thesis by (simp add: tierSteps_def stepAt_pow_steps)
qed

lemma play_steps: "tierSteps sampleEnv sampleConfig (tierStart sampleConfig (sampleWorld jobs) None) (play jobs ms)"
proof -
  have "tierSteps sampleEnv sampleConfig c (fold move ms c)" for c
  proof (induction ms arbitrary: c)
    case (Cons m ms)
    then show ?case using move_steps [of c m] steps_trans unfolding tierSteps_def by fastforce
  qed (simp add: tierSteps_def steps_refl)
  then show ?thesis by (simp add: play_def)
qed

subsection \<open>Evaluating a schedule\<close>

text \<open>Only the step that is taken is evaluated: congruence rules keep the simplifier out of the continuations.\<close>

lemma eval_congs:
  "p = p' \<Longrightarrow> bindP p f = bindP p' f" "Act u h = Act u h" "Spawn t q = Spawn t q"
  by simp_all

lemma funpow_eval: "(f ^^ numeral k) x = (f ^^ pred_numeral k) (f x)" "(f ^^ Suc n) x = (f ^^ n) (f x)"
  by (simp_all add: numeral_eq_Suc funpow_swap1)

lemma sampleLabels: "BareLabels [''docker''] = [''docker'']"
  by code_simp

lemmas play_simps = play_def tierStart_def NewOrchestrator_def hotConfigFrom_def applyRuntimeDefaults_def
  sampleWorld_def sampleJobs_def sampleJob_def sampleProvision_def sampleInstance_def sample_simps funpow_eval sampleLabels

lemmas prog_simps = seqP_def atom_def getP_def modifyP_def goP_def whenP_def forP_def ignoreP_def Let_def
  worldP_def nowP_def shortIDP_def poolP_def poolUpd_def poolSetState_def runtimeConfig_def hasStore_def
  incPending_def decPending_def pendingCount_def builderCount_def managedImageID_def isDispatching_def emit_def
  markWith_def markTick_def markProviderList_def markForgejoPoll_def

lemmas pass_simps = Reconcile_def reconcilePass_def recoverOrphanBuilders_def syncPool_def storageResources_def countR_def syncLedger_def
  serveJobs_def pollJobs_def filterServiceable_def persistObservedJobs_def ensureManagedImage_def dispatchJobs_def dispatchOne_def
  holdP_def provisionNeeded_def provisionOne_def applyTeardown_def reapable_def reapZombieRunners_def emptyResult_def failResult_def
  resetModeSnapshot_def zero_time_def

lemmas provision_simps = provisionBody_def beginStoredResource_def hostKeyP_def bootParams_def workerSpec_def activateStoredResource_def
  provisionedNode_def Node_zero_def zeroGeneration_def zeroResource_def zeroPhase_def pinHostKeyP_def awaitReady_def addrForInstance_def
  recordIntervalCost_def finishStoredPhase_def startStoredPhase_def setGenerationIf_def

lemmas pool_simps = NewPool_def Put_def Delete_def Get_def SetState_def SetPhase_def Touch_def Snapshot_nodes_def ByState_def Len_def

lemmas eval_simps = play_simps prog_simps pass_simps provision_simps pool_simps

end
