(* ===== verification/Orch_Safety.thy ===== *)
theory Orch_Safety
  imports Orch_Example
begin

text \<open>
  What the interleavings of one tier's goroutines guarantee: the shared counters come back to
  zero, a job handle is served by one goroutine at a time, an image that a reset still needs is
  pinned; and the scale limit, which holds for a pass that runs alone and fails for an
  interleaving.
\<close>

subsection \<open>Counters\<close>

text \<open>
  C17. No leaked accounting. In every interleaving of the reconcile loop, the operator's requests
  and the goroutines they start, once all goroutines have ended no provision and no builder is
  counted as in flight, no job handle is marked as being served, and no image is pinned.
\<close>

theorem counters_return_to_zero:
  assumes "tierSteps env cfg (tierStart cfg w store) (ps, s)" "finished (ps, s)"
  shows "oc_pending s = 0 \<and> oc_builders s = 0 \<and> oc_dispatching s = {} \<and> oc_imageRefs s = (\<lambda>_. 0)"
proof -
  have "h \<notin> oc_dispatching s" for h
    using handles.balanced_finished [OF tier_balanced(3) [OF assms(1)] assms(2), of h] by (simp add: marks_def split: if_splits)
  moreover have "pins img s = 0" for img
    using pinned.balanced_finished [OF tier_balanced(4) [OF assms(1)] assms(2)] by simp
  ultimately show ?thesis
    using pending.balanced_finished [OF tier_balanced(1) [OF assms(1)] assms(2)]
      builders.balanced_finished [OF tier_balanced(2) [OF assms(1)] assms(2)]
    by (auto simp: pins_def)
qed

definition sampleBoot :: "turn list" where
  "sampleBoot = [Take Tick, Run 0 40, Run 1 40]"

lemma sampleBoot_ends: "finished (play sampleJobs sampleBoot)"
  by (simp add: sampleBoot_def finished_code eval_simps cong: eval_congs)

theorem counters_return_to_zero_witness:
  "finished (play sampleJobs sampleBoot) \<and> oc_pending (snd (play sampleJobs sampleBoot)) = 0 \<and>
   oc_dispatching (snd (play sampleJobs sampleBoot)) = {}"
  using counters_return_to_zero [of sampleEnv sampleConfig "sampleWorld sampleJobs" None
      "fst (play sampleJobs sampleBoot)" "snd (play sampleJobs sampleBoot)"] play_steps sampleBoot_ends
  by simp

subsection \<open>One goroutine per job\<close>

text \<open>A program serves a handle while it still has to take the handle's mark away.\<close>

definition serving :: "string \<Rightarrow> ('w, unit) orch \<Rightarrow> bool" where
  "serving h p \<longleftrightarrow> owes (marks h) (markCost h) (\<lambda>_ c. c = 0) p (Suc 0)"

lemma owes_unique:
  assumes "owes \<mu> cost (\<lambda>_ c. c = 0) p c" "owes \<mu> cost (\<lambda>_ c. c = 0) p c'" "c \<le> \<mu> s" "c' \<le> \<mu> s"
  shows "c = c'"
  using assms
proof (induction p arbitrary: c c' s)
  case (Act u h)
  obtain d d' where d: "d + \<mu> s = c + \<mu> (u s)" "owes \<mu> cost (\<lambda>_ c. c = 0) (h s) d"
    and d': "d' + \<mu> s = c' + \<mu> (u s)" "owes \<mu> cost (\<lambda>_ c. c = 0) (h s) d'"
    using Act.prems by fastforce
  have "d = d'" using Act.IH [OF rangeI d(2) d'(2), of "u s"] d d' Act.prems(3,4) by simp
  then show ?case using d(1) d'(1) by simp
next
  case (Spawn t p)
  then have "c - cost t = c' - cost t" by (intro Spawn.IH [of _ _ s]) auto
  moreover have "cost t \<le> c" "cost t \<le> c'" using Spawn.prems by simp_all
  ultimately show ?case by simp
qed simp

lemma serving_holds:
  fixes p :: "('w, unit) orch"
  assumes "serving h p" "owes (marks h) (markCost h) (\<lambda>_ c. c = 0) p c"
  shows "0 < c"
proof (rule ccontr)
  assume "\<not> 0 < c"
  then have "owes (marks h) (markCost h) (\<lambda>_ c. c = 0) p 0" using assms(2) by simp
  from owes_unique [OF this assms(1) [unfolded serving_def], of "undefined\<lparr>oc_dispatching := {h}\<rparr>"]
  show False by (simp add: marks_def)
qed

text \<open>
  C18. One goroutine per job. A goroutine started for a job serves the job's handle until it has
  taken the mark away; in every interleaving no two goroutines serve the same handle, and a
  handle that is served is marked, so that the next pass does not dispatch the job again.
\<close>

theorem one_goroutine_per_handle:
  assumes "tierSteps env cfg (tierStart cfg w store) (ps, s)" "i < length ps" "serving h (ps ! i)"
  shows "h \<in> oc_dispatching s \<and> (\<forall>j. j < length ps \<and> serving h (ps ! j) \<longrightarrow> j = i) \<and>
    serving (wj_Handle job) (jobBody env cfg node job)"
proof -
  have bal: "balanced (marks h) (markCost h) (ps, s)" by (rule tier_balanced(3) [OF assms(1)])
  have le: "marks h s \<le> 1" by (simp add: marks_def)
  have "j = i" if "j < length ps" "serving h (ps ! j)" for j
    using handles.balanced_holders [OF bal, of i j] serving_holds assms(2,3) that le by fastforce
  moreover have "0 < marks h s"
    using handles.balanced_holder [OF bal assms(2)] serving_holds assms(3) by blast
  moreover have "serving (wj_Handle job) (jobBody env cfg node job)"
    using jobBody_owes [of "wj_Handle job" env cfg node job] by (simp add: serving_def)
  ultimately show ?thesis by (auto simp: marks_def split: if_splits)
qed

definition sampleService :: "turn list" where
  "sampleService = [Take Tick, Run 0 40, Run 1 40, Take Tick, Run 0 60]"

definition sampleNode :: Node where
  "sampleNode = Node_zero\<lparr>InstanceID := ''vmi'', State := StateIdle, IP := ''10.0.0.1'', CreatedAt := 1700000007000000000,
     LastBusy := 1700000009000000000\<rparr>"

lemma sampleService_jobs:
  "fst (play sampleJobs sampleService) = [Ret (), Ret (), jobBody sampleEnv sampleConfig sampleNode (sampleJob 1 ''a'')]"
  by (simp add: sampleService_def sampleNode_def eval_simps dispatch_def markDispatching_def persistJob_def SetJob_def
      adoptInstance_def dropNode_def cong: eval_congs)

lemma sampleService_serving: "serving ''a'' (fst (play sampleJobs sampleService) ! 2)"
  using jobBody_owes [of "''a''" sampleEnv sampleConfig sampleNode "sampleJob 1 ''a''"]
  by (simp add: serving_def sampleService_jobs sampleJob_def)

theorem one_goroutine_per_handle_witness:
  "''a'' \<in> oc_dispatching (snd (play sampleJobs sampleService)) \<and>
   serving ''a'' (fst (play sampleJobs sampleService) ! 2) \<and> \<not> serving ''a'' (fst (play sampleJobs sampleService) ! 1)"
proof -
  define c where "c = play sampleJobs sampleService"
  have "tierSteps sampleEnv sampleConfig (tierStart sampleConfig (sampleWorld sampleJobs) None) (fst c, snd c)"
    unfolding c_def by (simp add: play_steps)
  moreover have "length (fst c) = 3" by (simp add: c_def sampleService_jobs)
  moreover have a: "serving ''a'' (fst c ! 2)" unfolding c_def by (rule sampleService_serving)
  ultimately have *: "''a'' \<in> oc_dispatching (snd c) \<and> (\<forall>j. j < 3 \<and> serving ''a'' (fst c ! j) \<longrightarrow> j = 2)"
    using one_goroutine_per_handle [of sampleEnv sampleConfig "sampleWorld sampleJobs" None "fst c" "snd c" 2 "''a''"]
    by simp
  then have "\<not> serving ''a'' (fst c ! 1)" by (metis numeral_eq_one_iff one_less_numeral_iff semiring_norm(77) num.distinct(1))
  then show ?thesis using * a unfolding c_def by blast
qed

subsection \<open>The scale limit\<close>

text \<open>What \<open>dispatchJobs\<close> holds against \<open>MaxScale\<close>.\<close>

definition capacity :: "'w Orchestrator \<Rightarrow> nat" where
  "capacity s = Len (oc_pool s) + oc_pending s + oc_builders s"

definition sameScale :: "'w Orchestrator \<Rightarrow> 'w Orchestrator \<Rightarrow> bool" where
  "sameScale s s' \<longleftrightarrow> Len (oc_pool s') = Len (oc_pool s) \<and> oc_pending s' = oc_pending s \<and> oc_builders s' = oc_builders s \<and>
     oc_hot s' = oc_hot s"

lemma sameScale_order: "reflp sameScale" "transp sameScale"
  by (auto simp: sameScale_def reflp_def transp_def)

interpretation scale: ledger_frame sameScale "\<lambda>t. t \<noteq> ProvisionTask"
proof
  fix s s' :: "'w Orchestrator"
  assume "ledgerFrame s s'"
  then obtain w st f e where "s' = s\<lparr>oc_world := w, oc_store := st, oc_storageFailed := f, oc_events := e\<rparr>"
    unfolding ledgerFrame_def by blast
  then show "sameScale s s'" by (simp add: sameScale_def)
qed

lemma scale_atoms:
  "sat sameScale T (markDispatching h)" "sat sameScale T (unmarkDispatching h)" "sat sameScale T (poolSetState i st)"
  "sat sameScale T (poolUpd (SetJob i h))" "sat sameScale T (poolUpd (SetPhase i n))"
  unfolding markDispatching_def unmarkDispatching_def poolSetState_def poolUpd_def
  by (auto intro!: atom_sats simp: sameScale_def SetJob_def SetPhase_def SetState_def split: prod.split option.split)

lemma dispatch_scale: "sat sameScale (\<lambda>t. t \<noteq> ProvisionTask) (dispatch env cfg node job)"
  unfolding dispatch_def Let_def
  by (intro scale.ledger_rules frame sat_goP scale_atoms Task.distinct)

lemma dispatchOne_scale: "sat sameScale (\<lambda>t. t \<noteq> ProvisionTask) (foldP (dispatchOne env cfg) jobs l)"
  unfolding dispatchOne_def holdP_def
  by (intro scale.ledger_rules frame dispatch_scale)

lemma exec_provisions:
  "exec (repeatP n provisionOne) s = ((), s\<lparr>oc_pending := oc_pending s + n\<rparr>, replicate n ProvisionTask)"
  by (induction n arbitrary: s) (simp_all add: exec_seqP provisionOne_def incPending_def)

text \<open>
  C20. The scale limit of a pass. The part of a reconcile pass that dispatches and provisions, run
  without interruption, starts one provision goroutine for each provision it reports, counts it
  as pending at once, and starts no more than \<open>MaxScale\<close> leaves room for beside the workers,
  the pending provisions and the image builders.
\<close>

theorem dispatchJobs_within_scale:
  assumes "exec (dispatchJobs env cfg jobs) s = ((d, p), s', ts)"
  shows "length (filter (\<lambda>t. t = ProvisionTask) ts) = p \<and> capacity s' = capacity s + p \<and>
    int p \<le> max 0 (ht_MaxScale (oc_hot s) - int (capacity s))"
proof -
  let ?l = "\<lparr>dl_idle = ByState StateIdle (oc_pool s), dl_waiting = 0, dl_held = 0, dl_dispatched = 0\<rparr>"
  obtain l s1 ts1 where fold: "exec (foldP (dispatchOne env cfg) jobs ?l) s = (l, s1, ts1)" by (metis prod_cases3)
  have same: "sameScale s s1" by (rule exec_sat [OF dispatchOne_scale fold sameScale_order])
  have none: "filter (\<lambda>t. t = ProvisionTask) ts1 = []"
    using exec_spawns [OF dispatchOne_scale fold] by (simp add: filter_empty_conv list_all_iff)
  show ?thesis using assms same none
    by (auto simp: dispatchJobs_def exec_bindP exec_seqP exec_provisions fold runtimeConfig_def poolP_def pendingCount_def builderCount_def
        capacity_def sameScale_def Let_def split: if_splits)
qed

definition sampleStart :: "World Orchestrator" where
  "sampleStart = NewOrchestrator sampleConfig (sampleWorld sampleJobs) None"

lemma sampleStart_dispatch:
  "exec (dispatchJobs sampleEnv sampleConfig sampleJobs) sampleStart =
     ((0, 1), sampleStart\<lparr>oc_pending := 1\<rparr>, [ProvisionTask])"
  by (simp add: sampleStart_def dispatchJobs_def exec_bindP exec_seqP dispatchOne_def holdP_def runtimeConfig_def poolP_def
      pendingCount_def builderCount_def isDispatching_def provisionNeeded_def exec_provisions pool_simps play_simps Let_def
      cong: eval_congs)

theorem dispatchJobs_within_scale_witness:
  "length (filter (\<lambda>t. t = ProvisionTask) [ProvisionTask]) = 1 \<and>
   capacity (sampleStart\<lparr>oc_pending := 1\<rparr>) = capacity sampleStart + 1 \<and>
   int 1 \<le> max 0 (ht_MaxScale (oc_hot sampleStart) - int (capacity sampleStart))"
  by (rule dispatchJobs_within_scale [OF sampleStart_dispatch])

definition sampleRace :: "turn list" where
  "sampleRace = [Take Tick, Run 0 40, Take Tick, Run 0 18, Run 1 11, Run 0 40, Run 1 40, Run 2 40]"

text \<open>
  The scale limit is not an invariant of the goroutines. \<open>dispatchJobs\<close> adds up the number of
  workers, the pending provisions and the builders in three separate steps. When a provision that
  is under way puts its worker into the pool and leaves the pending count between the first and the
  second of them, it is seen in neither, and a second machine is created: two jobs wait, \<open>MaxScale\<close>
  is one, and the tier ends up with two workers.
\<close>

theorem scale_limit_exceeded:
  "cf_MaxScale sampleConfig = 1 \<and>
   (\<exists>c. tierSteps sampleEnv sampleConfig (tierStart sampleConfig (sampleWorld sampleJobs) None) c \<and> finished c \<and>
     Len (oc_pool (snd c)) = 2)"
proof -
  have "finished (play sampleJobs sampleRace)"
    by (simp add: sampleRace_def finished_code eval_simps cong: eval_congs)
  moreover have "Len (oc_pool (snd (play sampleJobs sampleRace))) = 2"
    by (simp add: sampleRace_def eval_simps cong: eval_congs)
  moreover have "cf_MaxScale sampleConfig = 1" by (simp add: sampleConfig_def)
  ultimately show ?thesis using play_steps [of sampleJobs sampleRace] by blast
qed

end
