(* ===== verification/Orch_Operator.thy ===== *)
theory Orch_Operator
  imports Orch_Example
begin

text \<open>
  What single operations of the orchestrator do when they run alone: hot reload, the convergence of
  the pool to the provider's list, teardown, and the deletion of dangling runner registrations.
\<close>

subsection \<open>Hot reload\<close>

lemma exec_CurrentConfig: "exec (CurrentConfig cfg) s = (CurrentConfigFrom cfg (oc_hot s), s, [])"
  by (simp add: CurrentConfig_def exec_bindP runtimeConfig_def)

lemma exec_ApplyHotConfig:
  "exec (ApplyHotConfig cfg newCfg) s =
     (let n = applyRuntimeDefaults newCfg; cur = CurrentConfigFrom cfg (oc_hot s) in
      if nonHotFieldDiff cur n \<noteq> []
      then (Inl (ErrOther (''reload rejected: '' @ formatNat (length (nonHotFieldDiff cur n)) @
             '' non-hot field(s) changed (restart required): '' @ join '', '' (sort (nonHotFieldDiff cur n)))), s, [])
      else if hotFieldDiff cur n = [] then (Inr [], s, [])
      else (Inr (sort (hotFieldDiff cur n)),
            s\<lparr>oc_hot := hotConfigFrom n,
              oc_pollReset := (if cf_PollInterval n \<noteq> ht_PollInterval (oc_hot s) \<and> oc_pollReset s = None
                               then Some (cf_PollInterval n) else oc_pollReset s)\<rparr>, []))"
  by (auto simp: ApplyHotConfig_def exec_bindP exec_seqP exec_CurrentConfig whenP_def sendPollReset_def CurrentConfigFrom_def
      Let_def split: option.split)










lemma applyRuntimeDefaults_poll:
  "applyRuntimeDefaults (cfg\<lparr>cf_PollInterval := x\<rparr>) = (applyRuntimeDefaults cfg)\<lparr>cf_PollInterval := x\<rparr>"
  by (simp add: applyRuntimeDefaults_def Let_def)

text \<open>
  A second reload can leave the old ticker running. The signal that asks the loop for a new
  ticker is dropped while an earlier one has not been taken up. After two accepted reloads with
  different poll intervals and one turn of the loop, the ticker runs at the first interval although
  the configuration says the second, and no further signal is under way.
\<close>

theorem second_reload_keeps_first_interval:
  assumes "cf_PollInterval cfg \<noteq> d" "d \<noteq> d'" "applyRuntimeDefaults cfg = cfg"
  shows "case exec (seqP (ApplyHotConfig cfg (cfg\<lparr>cf_PollInterval := d\<rparr>))
           (seqP (ApplyHotConfig cfg (cfg\<lparr>cf_PollInterval := d'\<rparr>)) (loopBody env cfg PollReset)))
         (NewOrchestrator cfg w store) of (_, s', _) \<Rightarrow>
    ht_PollInterval (oc_hot s') = d' \<and> oc_tickInterval s' = d \<and> oc_pollReset s' = None"
proof -
  have def: "applyRuntimeDefaults (cfg\<lparr>cf_PollInterval := x\<rparr>) = cfg\<lparr>cf_PollInterval := x\<rparr>" for x
    by (simp add: applyRuntimeDefaults_poll assms(3))
  have cur: "CurrentConfigFrom cfg (hotConfigFrom (cfg\<lparr>cf_PollInterval := x\<rparr>)) = cfg\<lparr>cf_PollInterval := x\<rparr>"
    "CurrentConfigFrom cfg (hotConfigFrom cfg) = cfg" for x
    by (simp_all add: CurrentConfigFrom_def hotConfigFrom_def)
  have diff: "nonHotFieldDiff cfg (cfg\<lparr>cf_PollInterval := x\<rparr>) = []" "nonHotFieldDiff (cfg\<lparr>cf_PollInterval := y\<rparr>) (cfg\<lparr>cf_PollInterval := x\<rparr>) = []"
    "cf_PollInterval cfg \<noteq> x \<Longrightarrow> hotFieldDiff cfg (cfg\<lparr>cf_PollInterval := x\<rparr>) \<noteq> []"
    "y \<noteq> x \<Longrightarrow> hotFieldDiff (cfg\<lparr>cf_PollInterval := y\<rparr>) (cfg\<lparr>cf_PollInterval := x\<rparr>) \<noteq> []" for x y
    by (simp_all add: nonHotFieldDiff_def hotFieldDiff_def)
  have "oc_hot (NewOrchestrator cfg w store) = hotConfigFrom cfg" "oc_pollReset (NewOrchestrator cfg w store) = None"
    using assms(3) by (simp_all add: NewOrchestrator_def)
  then show ?thesis using assms(1,2)
    by (auto simp: exec_seqP exec_ApplyHotConfig def cur diff Let_def) (simp_all add: hotConfigFrom_def)
qed

theorem second_reload_keeps_first_interval_witness:
  "case exec (seqP (ApplyHotConfig (applyRuntimeDefaults sampleConfig) ((applyRuntimeDefaults sampleConfig)\<lparr>cf_PollInterval := 1\<rparr>))
      (seqP (ApplyHotConfig (applyRuntimeDefaults sampleConfig) ((applyRuntimeDefaults sampleConfig)\<lparr>cf_PollInterval := 2\<rparr>))
         (loopBody sampleEnv (applyRuntimeDefaults sampleConfig) PollReset)))
      (NewOrchestrator (applyRuntimeDefaults sampleConfig) (sampleWorld []) None) of (_, s', _) \<Rightarrow>
    ht_PollInterval (oc_hot s') = 2 \<and> oc_tickInterval s' = 1 \<and> oc_pollReset s' = None"
proof (rule second_reload_keeps_first_interval)
  show "cf_PollInterval (applyRuntimeDefaults sampleConfig) \<noteq> 1"
    by (simp add: applyRuntimeDefaults_def Let_def sample_simps)
qed (simp_all add: applyRuntimeDefaults_idem)

subsection \<open>Teardown\<close>

text \<open>The pool after a set of workers has been marked as being removed.\<close>

definition markRemoving :: "string set \<Rightarrow> Pool \<Rightarrow> Pool" where
  "markRemoving X p = map (\<lambda>(k, n). (k, if k \<in> X then n\<lparr>State := StateRemoving\<rparr> else n)) p"

lemma markRemoving_simps [simp]:
  "markRemoving {} p = p" "fst ` set (markRemoving X p) = fst ` set p" "map fst (markRemoving X p) = map fst p" "markRemoving X (markRemoving Y p) = markRemoving (X \<union> Y) p"
  by (force simp: markRemoving_def split_beta comp_def image_image)+

lemma markRemoving_ok: "pool_ok p \<Longrightarrow> pool_ok (markRemoving X p)"
  by (auto simp: pool_ok_def markRemoving_def split_beta comp_def)

lemma SetState_removing:
  assumes "distinct (map fst p)" "i \<in> set (map fst p)"
  shows "SetState i StateRemoving p = (markRemoving {i} p, True)"
proof -
  have "AList.map_entry i (\<lambda>n. n\<lparr>State := StateRemoving\<rparr>) p = markRemoving {i} p"
    using assms(1)
  proof (induction p)
    case (Cons kn p)
    have "i \<notin> fst ` set p \<Longrightarrow> map (\<lambda>(k, n). (k, if k = i then n\<lparr>State := StateRemoving\<rparr> else n)) p = p"
      by (rule map_idI) (force simp: split_beta)
    then show ?case using Cons by (cases kn) (auto simp: markRemoving_def)
  qed (simp add: markRemoving_def)
  moreover obtain n where "map_of p i = Some n" using assms by (auto simp: map_of_eq_Some_iff)
  ultimately show ?thesis by (simp add: SetState_def)
qed

lemma exec_drain:
  assumes "distinct (map fst (oc_pool s))" "InstanceID ` set ns \<subseteq> set (map fst (oc_pool s))"
  shows "exec (foldP drainOne ns k) s =
    (k + length ns, s\<lparr>oc_pool := markRemoving (InstanceID ` set ns) (oc_pool s)\<rparr>, map DrainTask ns)"
  using assms
proof (induction ns arbitrary: k s)
  case (Cons n ns)
  let ?s = "s\<lparr>oc_pool := markRemoving {InstanceID n} (oc_pool s)\<rparr>"
  have "exec (drainOne n k) s = (k + 1, ?s, [DrainTask n])"
    using Cons.prems by (simp add: drainOne_def exec_bindP exec_seqP poolSetState_def SetState_removing)
  then show ?case using Cons.IH [of ?s "k + 1"] Cons.prems
    by (simp add: exec_bindP)
qed simp

lemma exec_reap:
  fixes runtime now
  assumes "distinct (map fst (oc_pool s))" "InstanceID ` set ns \<subseteq> set (map fst (oc_pool s))"
  defines "reap \<equiv> filter (\<lambda>n. ShouldTeardown (ht_Teardown runtime) n now) ns"
  shows "exec (foldP (reapOne runtime now) ns k) s =
    (k + length reap, s\<lparr>oc_pool := markRemoving (InstanceID ` set reap) (oc_pool s)\<rparr>, map IdleReapTask reap)"
  using assms(1,2) unfolding reap_def
proof (induction ns arbitrary: k s)
  case (Cons n ns)
  let ?s = "s\<lparr>oc_pool := markRemoving {InstanceID n} (oc_pool s)\<rparr>"
  show ?case
  proof (cases "ShouldTeardown (ht_Teardown runtime) n now")
    case True
    then have "exec (reapOne runtime now n k) s = (k + 1, ?s, [IdleReapTask n])"
      using Cons.prems by (simp add: reapOne_def exec_bindP exec_seqP poolSetState_def SetState_removing)
    then show ?thesis using Cons.IH [of ?s "k + 1"] Cons.prems True
      by (simp add: exec_bindP)
  next
    case False
    then show ?thesis using Cons.IH [of s k] Cons.prems by (simp add: exec_bindP reapOne_def)
  qed
qed simp

lemma ByState_markRemoving:
  assumes "pool_ok p" "st \<noteq> StateRemoving"
  shows "ByState st (markRemoving X p) = filter (\<lambda>n. InstanceID n \<notin> X) (ByState st p)"
  using assms by (induction p) (auto simp: ByState_def markRemoving_def pool_ok_def split_beta)

lemma ByState_keys: "pool_ok p \<Longrightarrow> InstanceID ` set (ByState st p) \<subseteq> set (map fst p)"
  by (force simp: ByState_def pool_ok_def)

lemma ByState_distinct: "pool_ok p \<Longrightarrow> distinct (map InstanceID (ByState st p))"
  by (induction p) (force simp: ByState_def pool_ok_def)+

lemma filter_removes_at_most:
  assumes "distinct (map f xs)" "set ys \<subseteq> set xs"
  shows "length xs - length ys \<le> length (filter (\<lambda>x. f x \<notin> f ` set ys) xs)"
proof -
  have "length (filter (\<lambda>x. f x \<in> f ` set ys) xs) = card (set (filter (\<lambda>x. f x \<in> f ` set ys) xs))"
    using assms(1) by (intro distinct_card [symmetric]) (simp add: distinct_map)
  also have "\<dots> \<le> card (set ys)"
    using assms by (intro card_mono) (auto simp: distinct_map dest: inj_onD)
  also have "\<dots> \<le> length ys" by (rule card_length)
  finally show ?thesis using sum_length_filter_compl [of "\<lambda>x. f x \<in> f ` set ys" xs] by simp
qed

text \<open>
  C22. Teardown. A teardown pass starts exactly one goroutine for every worker whose destruction
  has to be retried and one for every idle worker that is beyond the warm reserve and whose policy
  says so, marks exactly these as being removed before it starts them, and leaves at least the
  configured number of idle workers (or all of them) in place.
\<close>

theorem applyTeardown_effect:
  fixes env :: "'w Env"
  assumes "pool_ok (oc_pool s)"
  defines "draining \<equiv> ByState StateDraining (oc_pool s)"
    and "reap \<equiv> filter (\<lambda>n. ShouldTeardown (ht_Teardown (oc_hot s)) n (fst (e_now env (oc_world s))))
                  (reapable (oc_hot s) (ByState StateIdle (oc_pool s)))"
  shows "case exec (applyTeardown env) s of (reaped, s', ts) \<Rightarrow>
    ts = map DrainTask draining @ map IdleReapTask reap \<and> reaped = length ts \<and>
    oc_pool s' = markRemoving (InstanceID ` (set draining \<union> set reap)) (oc_pool s) \<and>
    min (nat (ht_WarmInstances (oc_hot s))) (length (ByState StateIdle (oc_pool s))) \<le> length (ByState StateIdle (oc_pool s'))"
proof -
  let ?p = "oc_pool s" and ?idle = "ByState StateIdle (oc_pool s)"
  let ?q = "markRemoving (InstanceID ` set draining) ?p"
  have ok: "distinct (map fst ?p)" using assms(1) by (simp add: pool_ok_def)
  have no_idle: "InstanceID n \<notin> InstanceID ` set draining" if "n \<in> set ?idle" for n
    using that assms(1) ByState_in [OF assms(1)] unfolding draining_def by force
  have idle: "ByState StateIdle ?q = ?idle"
    using ByState_markRemoving [OF assms(1)] no_idle by (simp add: filter_id_conv)
  have sub: "set reap \<subseteq> set ?idle" unfolding reap_def reapable_def by (auto dest: in_set_dropD)
  have len: "length reap \<le> length ?idle - min (nat (ht_WarmInstances (oc_hot s))) (length ?idle)"
    unfolding reap_def by (rule order_trans [OF length_filter_le]) (auto simp: reapable_def min_def nat_le_iff)
  have keys: "InstanceID ` set (reapable (oc_hot s) ?idle) \<subseteq> set (map fst ?p)"
    using ByState_keys [OF assms(1), of StateIdle] by (auto simp: reapable_def dest!: in_set_dropD)
  have "length ?idle - length reap \<le> length (filter (\<lambda>n. InstanceID n \<notin> InstanceID ` set reap) ?idle)"
    by (rule filter_removes_at_most [OF ByState_distinct [OF assms(1)] sub])
  moreover have "ByState StateIdle (markRemoving (InstanceID ` set reap) ?q) = filter (\<lambda>n. InstanceID n \<notin> InstanceID ` set reap) ?idle"
    using ByState_markRemoving [OF markRemoving_ok [OF assms(1)]] idle by simp
  ultimately have warm: "min (nat (ht_WarmInstances (oc_hot s))) (length ?idle)
      \<le> length (ByState StateIdle (markRemoving (InstanceID ` set reap \<union> InstanceID ` set draining) ?p))"
    using len by simp
  define s1 where "s1 = s\<lparr>oc_world := snd (e_now env (oc_world s)), oc_pool := ?q\<rparr>"
  have drained: "exec (foldP drainOne draining 0) (s\<lparr>oc_world := snd (e_now env (oc_world s))\<rparr>) = (length draining, s1, map DrainTask draining)"
    using exec_drain [of "s\<lparr>oc_world := snd (e_now env (oc_world s))\<rparr>" draining 0] ok ByState_keys [OF assms(1), of StateDraining]
    by (simp add: s1_def draining_def)
  have reaped: "exec (foldP (reapOne (oc_hot s) (fst (e_now env (oc_world s)))) (reapable (oc_hot s) ?idle) (length draining)) s1 =
      (length draining + length reap, s1\<lparr>oc_pool := markRemoving (InstanceID ` set reap) ?q\<rparr>, map IdleReapTask reap)"
    using exec_reap [of s1 "reapable (oc_hot s) ?idle"] ok keys by (simp add: s1_def reap_def)
  show ?thesis
    using drained reaped warm
    by (auto simp: applyTeardown_def exec_bindP nowP_def worldP_def runtimeConfig_def poolP_def split_beta image_Un Un_commute
        idle s1_def simp flip: draining_def)
qed

definition sampleTeardown :: "World Orchestrator" where
  "sampleTeardown = (NewOrchestrator sampleConfig (sampleWorld []) None)
     \<lparr>oc_pool := [(''vmd'', Node_zero\<lparr>InstanceID := ''vmd'', State := StateDraining\<rparr>),
                  (''vmi'', Node_zero\<lparr>InstanceID := ''vmi'', State := StateIdle, CreatedAt := 1699996500000000000\<rparr>)]\<rparr>"

theorem applyTeardown_effect_witness:
  "case exec (applyTeardown sampleEnv) sampleTeardown of (reaped, s', ts) \<Rightarrow>
     reaped = 2 \<and> map fst (oc_pool s') = [''vmd'', ''vmi''] \<and> map (State \<circ> snd) (oc_pool s') = [StateRemoving, StateRemoving]"
proof -
  have ok: "pool_ok (oc_pool sampleTeardown)" by (simp add: pool_ok_def sampleTeardown_def Node_zero_def)
  have draining: "ByState StateDraining (oc_pool sampleTeardown) = [Node_zero\<lparr>InstanceID := ''vmd'', State := StateDraining\<rparr>]"
    by (simp add: ByState_def sampleTeardown_def)
  have reap: "filter (\<lambda>n. ShouldTeardown (ht_Teardown (oc_hot sampleTeardown)) n (fst (e_now sampleEnv (oc_world sampleTeardown))))
      (reapable (oc_hot sampleTeardown) (ByState StateIdle (oc_pool sampleTeardown))) =
      [Node_zero\<lparr>InstanceID := ''vmi'', State := StateIdle, CreatedAt := 1699996500000000000\<rparr>]"
    by code_simp
  show ?thesis
    using applyTeardown_effect [OF ok, of sampleEnv, unfolded draining reap]
    by (auto simp: sampleTeardown_def markRemoving_def Node_zero_def)
qed

subsection \<open>Convergence to the provider's list\<close>

text \<open>Weakest preconditions over the pool alone, for programs that run alone.\<close>

definition wpPool :: "('a \<Rightarrow> Pool \<Rightarrow> bool) \<Rightarrow> ('w, 'a) orch \<Rightarrow> Pool \<Rightarrow> bool" where
  "wpPool Q p q \<longleftrightarrow> (\<forall>s. oc_pool s = q \<longrightarrow> (case exec p s of (a, s', _) \<Rightarrow> Q a (oc_pool s')))"

interpretation still: ledger_frame "\<lambda>s s'. oc_pool s' = oc_pool s" "\<lambda>_. True"
proof
  fix s s' :: "'w Orchestrator"
  assume "ledgerFrame s s'"
  then obtain w st f e where "s' = s\<lparr>oc_world := w, oc_store := st, oc_storageFailed := f, oc_events := e\<rparr>"
    unfolding ledgerFrame_def by blast
  then show "oc_pool s' = oc_pool s" by simp
qed

lemma wp_frame:
  assumes "sat (\<lambda>s s'. oc_pool s' = oc_pool s) (\<lambda>_. True) p" "\<And>a. Q a q"
  shows "wpPool Q p q"
proof -
  have "oc_pool s' = oc_pool s" if "exec p s = (a, s', ts)" for s a s' ts
    by (rule exec_sat [OF assms(1) that]) (auto simp: reflp_def transp_def)
  then show ?thesis using assms(2) by (auto simp: wpPool_def split: prod.split)
qed

lemma wp_Ret: "Q a q \<Longrightarrow> wpPool Q (Ret a) q"
  by (simp add: wpPool_def)

lemma wp_bindP: "wpPool (\<lambda>a. wpPool Q (f a)) p q \<Longrightarrow> wpPool Q (bindP p f) q"
  by (fastforce simp: wpPool_def exec_bindP split: prod.splits)

lemma wp_seqP: "wpPool (\<lambda>_. wpPool Q p') p q \<Longrightarrow> wpPool Q (seqP p p') q"
  by (fastforce simp: wpPool_def exec_seqP split: prod.splits)

lemma wp_reads: "wpPool Q (f (g q)) q \<Longrightarrow> wpPool Q (bindP (poolP g) f) q"
  by (rule wp_bindP) (simp add: wpPool_def poolP_def)

lemma wp_writes: "wpPool Q p (f q) \<Longrightarrow> wpPool Q (seqP (poolUpd f) p) q"
  by (rule wp_seqP) (simp add: wpPool_def poolUpd_def)

lemma wp_skips:
  "sat (\<lambda>s s'. oc_pool s' = oc_pool s) (\<lambda>_. True) p \<Longrightarrow> (\<And>a. wpPool Q (f a) q) \<Longrightarrow> wpPool Q (bindP p f) q"
  "sat (\<lambda>s s'. oc_pool s' = oc_pool s) (\<lambda>_. True) p \<Longrightarrow> wpPool Q p' q \<Longrightarrow> wpPool Q (seqP p p') q"
  by (auto intro!: wp_bindP wp_seqP intro: wp_frame)

lemma wp_cases:
  "(b \<Longrightarrow> wpPool Q p q) \<Longrightarrow> (\<not> b \<Longrightarrow> wpPool Q p' q) \<Longrightarrow> wpPool Q (if b then p else p') q"
  "(\<And>e. wpPool Q (f e) q) \<Longrightarrow> (\<And>a. wpPool Q (g a) q) \<Longrightarrow> wpPool Q (case r of Inl e \<Rightarrow> f e | Inr a \<Rightarrow> g a) q"
  "(\<And>u v. wpPool Q (h u v) q) \<Longrightarrow> wpPool Q (case z of (u, v) \<Rightarrow> h u v) q"
  by (auto split: sum.split prod.split)

lemma wp_mono: "wpPool Q p q \<Longrightarrow> (\<And>a q'. Q a q' \<Longrightarrow> Q' a q') \<Longrightarrow> wpPool Q' p q"
  by (fastforce simp: wpPool_def split: prod.splits)

lemma wp_foldP:
  assumes "\<And>x a q. x \<in> set xs \<Longrightarrow> I q \<Longrightarrow> wpPool (\<lambda>_. I) (f x a) q" "I q"
  shows "wpPool (\<lambda>_. I) (foldP f xs a) q"
  using assms
proof (induction xs arbitrary: a q)
  case (Cons x xs)
  then have "wpPool (\<lambda>_. I) (f x a) q" by simp
  then have "wpPool (\<lambda>b. wpPool (\<lambda>_. I) (foldP f xs b)) (f x a) q"
    by (rule wp_mono) (use Cons in simp)
  then show ?case by (simp add: wp_bindP)
qed (simp add: wp_Ret)

lemma beingProvisioned_still: "sat (\<lambda>s s'. oc_pool s' = oc_pool s) (\<lambda>_. True) (beingProvisioned g)"
  unfolding beingProvisioned_def by (intro still.ledger_rules frame)

text \<open>Adopting adds a worker for a listed machine the pool does not know, or does nothing.\<close>

lemma wp_adoptInstance:
  assumes "\<And>r. Q r q" "\<And>n r. InstanceID n = in_ID inst \<Longrightarrow> map_of q (in_ID inst) = None \<Longrightarrow> Q r (Put n q)"
  shows "wpPool Q (adoptInstance env cfg now resources generations inst) q"
proof (cases "map_of q (in_ID inst)")
  case None
  have "InstanceID ((adoptedNode has inst r g now)\<lparr>PhaseID := phase\<rparr>) = in_ID inst" for has r g phase
    by (simp add: adoptedNode_def Let_def)
  then show ?thesis unfolding adoptInstance_def Let_def bindR'_def
    by (intro wp_reads wp_cases wp_Ret assms wp_skips(1) [OF beingProvisioned_still] wp_skips(1) [OF still.identify_frame]
        wp_skips(1) [OF still.atoms_frame(1)] wp_skips(1) [OF still.phase_frame(2)] wp_writes wp_skips(2) [OF still.emit_frame] None)
next
  case (Some n)
  then show ?thesis unfolding adoptInstance_def
    by (intro wp_reads) (simp add: Get_def wp_Ret assms(1))
qed

lemma wp_dropNode:
  assumes "\<And>r. Q r (if InstanceID n \<in> seen \<or> State n = StateProvisioning then q else Delete (InstanceID n) q)"
  shows "wpPool Q (dropNode env cfg seen n k) q"
  using assms unfolding dropNode_def
  by (auto intro!: wp_Ret wp_writes wp_skips(2) frame)

definition grown :: "string set \<Rightarrow> Pool \<Rightarrow> Pool \<Rightarrow> bool" where
  "grown seen p q \<longleftrightarrow> pool_ok q \<and> (\<forall>i n. map_of p i = Some n \<longrightarrow> map_of q i = Some n) \<and>
     (\<forall>i. map_of q i \<noteq> None \<longrightarrow> map_of p i \<noteq> None \<or> i \<in> seen)"

definition dropped :: "string set \<Rightarrow> Node list \<Rightarrow> Pool \<Rightarrow> Pool" where
  "dropped seen = fold (\<lambda>n q. if InstanceID n \<in> seen \<or> State n = StateProvisioning then q else Delete (InstanceID n) q)"

lemma grown_Put: "grown seen p q \<Longrightarrow> map_of q (InstanceID n) = None \<Longrightarrow> InstanceID n \<in> seen \<Longrightarrow> grown seen p (Put n q)"
  by (auto simp: grown_def pool_ok_Put pool.look_put)

lemma wp_adoptAll:
  assumes "pool_ok p"
  shows "wpPool (\<lambda>_. grown (in_ID ` set insts) p) (countR (adoptInstance env cfg now resources generations) insts) p"
proof -
  have "wpPool (\<lambda>_. grown (in_ID ` set insts) p) (bindP (adoptInstance env cfg now resources generations i) (\<lambda>r.
      case r of Inl e \<Rightarrow> Ret (n, Some e) | Inr b \<Rightarrow> Ret (if b then n + 1 else n, None))) q"
    if "i \<in> set insts" "grown (in_ID ` set insts) p q" for i n q
    by (rule wp_bindP, rule wp_adoptInstance) (use that in \<open>auto intro!: wp_Ret grown_Put split: sum.split\<close>)
  moreover have "grown (in_ID ` set insts) p p" using assms by (simp add: grown_def)
  ultimately show ?thesis unfolding countR_def
    by (intro wp_foldP) (auto intro!: wp_Ret split: option.split)
qed

lemma wp_dropAll: "(\<And>r. Q r (dropped seen ns q)) \<Longrightarrow> wpPool Q (foldP (dropNode env cfg seen) ns k) q"
proof (induction ns arbitrary: k q)
  case (Cons n ns)
  have "wpPool Q (foldP (dropNode env cfg seen) ns r)
      (if InstanceID n \<in> seen \<or> State n = StateProvisioning then q else Delete (InstanceID n) q)" for r
    by (rule Cons.IH) (use Cons.prems in \<open>simp add: dropped_def\<close>)
  then show ?case unfolding foldP.simps by (intro wp_bindP wp_dropNode)
qed (simp add: dropped_def wp_Ret)

lemma dropped_look:
  "map_of (dropped seen ns q) i =
     (if \<exists>n \<in> set ns. InstanceID n = i \<and> i \<notin> seen \<and> State n \<noteq> StateProvisioning then None else map_of q i)"
  by (induction ns arbitrary: q) (auto simp: dropped_def pool.look_del)

lemma dropped_ok: "pool_ok q \<Longrightarrow> pool_ok (dropped seen ns q)"
  by (induction ns arbitrary: q) (auto simp: dropped_def pool_ok_Delete)

lemma dropped_kept:
  assumes "pool_ok q"
  shows "map_of (dropped seen (Snapshot_nodes q) q) i = Some n \<longleftrightarrow>
    map_of q i = Some n \<and> (i \<in> seen \<or> State n = StateProvisioning)"
proof -
  have "(\<exists>m \<in> set (Snapshot_nodes q). InstanceID m = i \<and> i \<notin> seen \<and> State m \<noteq> StateProvisioning) \<longleftrightarrow>
      i \<notin> seen \<and> State n \<noteq> StateProvisioning" if "map_of q i = Some n"
  proof -
    have "m = n" if "m \<in> set (Snapshot_nodes q)" "InstanceID m = i" for m
      using that \<open>map_of q i = Some n\<close> Snapshot_in [OF assms, of m] by simp
    moreover have "n \<in> set (Snapshot_nodes q)" "InstanceID n = i"
      using that pool_ok_map_of [OF assms that] Snapshot_in [OF assms, of n] by simp_all
    ultimately show ?thesis by blast
  qed
  then show ?thesis by (auto simp: dropped_look)
qed

text \<open>
  C23. The pool converges to the provider. After a synchronisation that reports no error every
  worker of the pool is a machine the provider listed or one still being provisioned; and every
  worker the pool had before that is listed or still being provisioned is kept as it was.
\<close>

theorem syncPool_converges:
  assumes "pool_ok (oc_pool s)" "exec (syncPool env cfg insts) s = ((added, gone, None), s', ts)"
  shows "pool_ok (oc_pool s') \<and>
    (\<forall>i n. map_of (oc_pool s') i = Some n \<longrightarrow> i \<in> in_ID ` set insts \<or> State n = StateProvisioning) \<and>
    (\<forall>i n. map_of (oc_pool s) i = Some n \<and> (i \<in> in_ID ` set insts \<or> State n = StateProvisioning) \<longrightarrow>
       map_of (oc_pool s') i = Some n)"
proof -
  let ?seen = "in_ID ` set insts"
  define Q where "Q = (\<lambda>(r :: nat \<times> nat \<times> go_error option) q. snd (snd r) = None \<longrightarrow>
    (\<exists>q1. grown ?seen (oc_pool s) q1 \<and> q = dropped ?seen (Snapshot_nodes q1) q1))"
  have sync: "wpPool Q (bindP (syncLedger env cfg now ?seen resources generations) (\<lambda>r.
      case r of Inl e \<Rightarrow> Ret (n, 0, Some e)
      | Inr _ \<Rightarrow> bindP (poolP Snapshot_nodes) (\<lambda>nodes. bindP (foldP (dropNode env cfg ?seen) nodes 0) (\<lambda>d. Ret (n, d, None))))) q1"
    if "grown ?seen (oc_pool s) q1" for q1 n now resources generations
    by (intro wp_skips(1) [OF still.syncLedger_frame] wp_cases wp_Ret wp_reads wp_bindP wp_dropAll)
      (use that in \<open>auto simp: Q_def\<close>)
  have "wpPool Q (syncPool env cfg insts) (oc_pool s)"
    unfolding syncPool_def Let_def set_map
    by (intro wp_skips(1) [OF still.now_frame(1)] wp_skips(1) [OF still.mutation_frame(6)] wp_cases wp_bindP [OF wp_mono [OF wp_adoptAll [OF assms(1)]]])
      (auto simp: Q_def intro!: wp_Ret sync [unfolded Q_def] split: option.split)
  then have "Q (added, gone, None) (oc_pool s')" using assms(2) by (fastforce simp: wpPool_def)
  then obtain q1 where q1: "grown ?seen (oc_pool s) q1" "oc_pool s' = dropped ?seen (Snapshot_nodes q1) q1" by (auto simp: Q_def)
  then have ok: "pool_ok q1" by (simp add: grown_def)
  show ?thesis using q1 dropped_kept [OF ok, of ?seen] dropped_ok [OF ok] by (auto simp: grown_def)
qed

definition sampleSync :: "(nat \<times> nat \<times> go_error option) \<times> World Orchestrator \<times> Task list" where
  "sampleSync = exec (syncPool sampleEnv sampleConfig [sampleInstance 1 ''fjb-x'' 1699996500000000000]) sampleTeardown"

theorem syncPool_converges_witness:
  "pool_ok (oc_pool (fst (snd sampleSync))) \<and>
   map_of (oc_pool (fst (snd sampleSync))) ''vmi'' =
     Some (Node_zero\<lparr>InstanceID := ''vmi'', State := StateIdle, CreatedAt := 1699996500000000000\<rparr>)"
proof -
  have ok: "pool_ok (oc_pool sampleTeardown)" by (simp add: pool_ok_def sampleTeardown_def Node_zero_def)
  have "snd (snd (fst sampleSync)) = None" by code_simp
  then obtain a d s' ts where run: "sampleSync = ((a, d, None), s', ts)" by (metis prod.collapse)
  then have "exec (syncPool sampleEnv sampleConfig [sampleInstance 1 ''fjb-x'' 1699996500000000000]) sampleTeardown = ((a, d, None), s', ts)"
    by (simp add: sampleSync_def)
  from syncPool_converges [OF ok this] show ?thesis by (auto simp: run sampleTeardown_def sampleInstance_def)
qed

subsection \<open>Dangling registrations\<close>

definition dangling :: "Config \<Rightarrow> string set \<Rightarrow> Runner \<Rightarrow> bool" where
  "dangling cfg active r \<longleftrightarrow> hasPrefix (rn_Name r) (cf_Tag cfg @ ''-'') \<and> rn_UUID r \<notin> active"

lemma exec_reapRunner:
  assumes "exec (reapRunner env cfg earlier r seen) s = (seen', s', ts)" "P (oc_world s)"
    and now: "\<And>w. P w \<Longrightarrow> P (snd (e_now env w))"
    and del: "\<And>w. dangling cfg (oc_active s) r \<Longrightarrow> rn_UUID r \<in> earlier \<Longrightarrow> P w \<Longrightarrow> P (snd (e_DeleteRunner env (rn_ID r) w))"
  shows "P (oc_world s') \<and> oc_active s' = oc_active s \<and>
    seen' \<subseteq> seen \<union> (if dangling cfg (oc_active s) r then {rn_UUID r} else {})"
proof (cases "dangling cfg (oc_active s) r \<and> rn_UUID r \<in> earlier")
  case True
  let ?w = "snd (e_DeleteRunner env (rn_ID r) (oc_world s))"
  have "P ?w" "P (snd (e_now env ?w))" using True del now assms(2) by simp_all
  then show ?thesis using assms(1) True
    by (cases "fst (e_DeleteRunner env (rn_ID r) (oc_world s))")
      (auto simp: reapRunner_def dangling_def exec_bindP exec_seqP isActive_def worldP_def nowP_def emit_def Let_def split_beta)
next
  case False
  then show ?thesis using assms(1,2)
    by (auto simp: reapRunner_def dangling_def exec_bindP isActive_def split: if_splits)
qed

lemma exec_reapRunners:
  assumes "exec (foldP (reapRunner env cfg earlier) rs seen) s = (seen', s', ts)" "P (oc_world s)"
    and now: "\<And>w. P w \<Longrightarrow> P (snd (e_now env w))"
    and del: "\<And>r w. r \<in> set rs \<Longrightarrow> dangling cfg (oc_active s) r \<Longrightarrow> rn_UUID r \<in> earlier \<Longrightarrow> P w \<Longrightarrow> P (snd (e_DeleteRunner env (rn_ID r) w))"
  shows "P (oc_world s') \<and> seen' \<subseteq> seen \<union> rn_UUID ` {r \<in> set rs. dangling cfg (oc_active s) r}"
  using assms(1,2) del
proof (induction rs arbitrary: seen s ts)
  case (Cons r rs)
  obtain seen1 s1 ts1 where one: "exec (reapRunner env cfg earlier r seen) s = (seen1, s1, ts1)" by (metis prod_cases3)
  then obtain ts2 where two: "exec (foldP (reapRunner env cfg earlier) rs seen1) s1 = (seen', s', ts2)"
    using Cons.prems(1) by (auto simp: exec_bindP split: prod.splits)
  have fst: "P (oc_world s1)" "oc_active s1 = oc_active s" "seen1 \<subseteq> seen \<union> (if dangling cfg (oc_active s) r then {rn_UUID r} else {})"
    using exec_reapRunner [where P = P, OF one Cons.prems(2) now Cons.prems(3) [of r]] by auto
  have "P (oc_world s') \<and> seen' \<subseteq> seen1 \<union> rn_UUID ` {r \<in> set rs. dangling cfg (oc_active s1) r}"
    using Cons.IH [OF two fst(1)] Cons.prems(3) fst(2) by simp
  then show ?case using fst(2,3) by (auto split: if_splits)
qed simp

text \<open>
  C24. Dangling registrations. Deleting dangling runner registrations is safe: whatever holds of the
  outside world and survives reading the clock and listing the runners is broken only by deleting
  a runner whose name carries this daemon's prefix, that no goroutine uses, and that was already
  remembered by an earlier pass. What a pass remembers for the next one are runners of the list
  with the prefix that are not in use.
\<close>

theorem reapZombieRunners_guarded:
  assumes "fst (e_ListRunners env (oc_world s)) = Inr runners" "P (oc_world s)"
    and "\<And>w. P w \<Longrightarrow> P (snd (e_now env w))" "\<And>w. P w \<Longrightarrow> P (snd (e_ListRunners env w))"
    and "\<And>r w. r \<in> set runners \<Longrightarrow> dangling cfg (oc_active s) r \<Longrightarrow> rn_UUID r \<in> oc_reapSeen s \<Longrightarrow> P w \<Longrightarrow>
      P (snd (e_DeleteRunner env (rn_ID r) w))"
  shows "case exec (reapZombieRunners env cfg) s of (_, s', _) \<Rightarrow>
    P (oc_world s') \<and> oc_reapSeen s' \<subseteq> rn_UUID ` {r \<in> set runners. dangling cfg (oc_active s) r}"
proof -
  let ?s = "s\<lparr>oc_world := snd (e_ListRunners env (oc_world s))\<rparr>"
  obtain seen s1 ts where run: "exec (foldP (reapRunner env cfg (oc_reapSeen s)) runners {}) ?s = (seen, s1, ts)"
    by (metis prod_cases3)
  have "P (oc_world s1) \<and> seen \<subseteq> {} \<union> rn_UUID ` {r \<in> set runners. dangling cfg (oc_active ?s) r}"
    by (rule exec_reapRunners [where P = P, OF run]) (use assms(2-5) in auto)
  then show ?thesis using assms(1,3)
    by (auto simp: reapZombieRunners_def exec_bindP exec_seqP worldP_def run markForgejoPoll_def markWith_def split_beta)
qed

definition sampleRunners :: "World Orchestrator" where
  "sampleRunners = (NewOrchestrator sampleConfig
       ((sampleWorld [])\<lparr>wo_runners := [\<lparr>rn_ID = 7, rn_UUID = ''u7'', rn_Name = ''fjb-a'', rn_Status = ''idle''\<rparr>,
                                     \<lparr>rn_ID = 8, rn_UUID = ''u8'', rn_Name = ''other'', rn_Status = ''idle''\<rparr>]\<rparr>) None)
     \<lparr>oc_reapSeen := {''u7''}\<rparr>"

theorem reapZombieRunners_guarded_witness:
  "case exec (reapZombieRunners sampleEnv sampleConfig) sampleRunners of (_, s', _) \<Rightarrow>
     list_ex (\<lambda>r. rn_ID r = 8) (wo_runners (oc_world s')) \<and> oc_reapSeen s' \<subseteq> {''u7''}"
proof -
  let ?P = "\<lambda>w. list_ex (\<lambda>r. rn_ID r = 8) (wo_runners w)"
  have "case exec (reapZombieRunners sampleEnv sampleConfig) sampleRunners of (_, s', _) \<Rightarrow>
      ?P (oc_world s') \<and> oc_reapSeen s' \<subseteq> rn_UUID ` {r \<in> set (wo_runners (oc_world sampleRunners)). dangling sampleConfig (oc_active sampleRunners) r}"
    by (rule reapZombieRunners_guarded [where P = ?P])
      (auto simp: sample_simps sampleRunners_def NewOrchestrator_def list_ex_iff dangling_def)
  then show ?thesis
    by (auto simp: sampleRunners_def NewOrchestrator_def dangling_def sample_simps split: prod.split)
qed

end
