(* ===== verification/Channels.thy ===== *)
theory Channels
  imports FJB_Prelude "HOL-Library.Sublist"
begin

text \<open>
  Go's buffered channels, as the two publish/subscribe buses of the control plane use them. The
  channels live in a heap, a channel value is its index. Sending on a closed channel and closing
  one twice panic in Go: here \<open>SendPanic\<close> and \<open>None\<close>. A receive from an empty open channel blocks.

  The locale \<open>fan_out\<close> is what both buses promise their subscribers: a publication goes to every
  live subscriber that wants it and has room, cuts off the ones without room, and never blocks or
  panics. What follows for a subscriber over any interleaving of the bus operations is proved
  there once.
\<close>

subsection \<open>Channels\<close>

record 'a channel =
  ch_buf :: "'a list"
  ch_cap :: nat
  ch_closed :: bool

type_synonym 'a chans = "'a channel list"

datatype 'a sent = Sent "'a chans" | Full | SendPanic

datatype 'a received = Got 'a | EndOfStream | Blocks

definition makeChan :: "nat \<Rightarrow> 'a chans \<Rightarrow> nat \<times> 'a chans" where
  "makeChan n cs = (length cs, cs @ [\<lparr>ch_buf = [], ch_cap = n, ch_closed = False\<rparr>])"

text \<open>\<open>select \{ case ch <- v: ... default: ... \}\<close>\<close>

definition trySend :: "nat \<Rightarrow> 'a \<Rightarrow> 'a chans \<Rightarrow> 'a sent" where
  "trySend ch v cs =
     (let c = cs ! ch in
      if ch_closed c then SendPanic
      else if length (ch_buf c) < ch_cap c then Sent (cs[ch := c\<lparr>ch_buf := ch_buf c @ [v]\<rparr>])
      else Full)"

definition closeChan :: "nat \<Rightarrow> 'a chans \<Rightarrow> 'a chans option" where
  "closeChan ch cs = (let c = cs ! ch in if ch_closed c then None else Some (cs[ch := c\<lparr>ch_closed := True\<rparr>]))"

text \<open>\<open>v, ok := <-ch\<close>: the buffer first, then the end of a closed channel.\<close>

definition recvChan :: "nat \<Rightarrow> 'a chans \<Rightarrow> 'a received \<times> 'a chans" where
  "recvChan ch cs =
     (if ch < length cs
      then (let c = cs ! ch in case ch_buf c of
              v # vs \<Rightarrow> (Got v, cs[ch := c\<lparr>ch_buf := vs\<rparr>])
            | [] \<Rightarrow> (if ch_closed c then EndOfStream else Blocks, cs))
      else (Blocks, cs))"

text \<open>The channels after a fan-out to the channels \<open>chs\<close>.\<close>

definition offered :: "nat set \<Rightarrow> 'a \<Rightarrow> 'a chans \<Rightarrow> 'a chans" where
  "offered chs ev cs =
     map (\<lambda>i. let c = cs ! i in
            if i \<notin> chs then c
            else if length (ch_buf c) < ch_cap c then c\<lparr>ch_buf := ch_buf c @ [ev]\<rparr>
            else c\<lparr>ch_closed := True\<rparr>) [0..<length cs]"

definition has_room :: "'a chans \<Rightarrow> nat \<Rightarrow> bool" where
  "has_room cs ch \<longleftrightarrow> length (ch_buf (cs ! ch)) < ch_cap (cs ! ch)"

lemma offered_empty [simp]: "offered {} ev cs = cs"
  by (simp add: offered_def map_nth)

lemma length_offered [simp]: "length (offered chs ev cs) = length cs"
  by (simp add: offered_def)

lemma nth_offered [simp]:
  assumes "i < length cs"
  shows "ch_cap (offered chs ev cs ! i) = ch_cap (cs ! i)"
    and "ch_buf (offered chs ev cs ! i) = ch_buf (cs ! i) @ (if i \<in> chs \<and> has_room cs i then [ev] else [])"
    and "ch_closed (offered chs ev cs ! i) \<longleftrightarrow> ch_closed (cs ! i) \<or> i \<in> chs \<and> \<not> has_room cs i"
  using assms by (auto simp: offered_def has_room_def Let_def)

lemma offered_other:
  assumes "ch \<notin> chs" "ch < length cs"
  shows "offered chs ev (cs[ch := c]) = (offered chs ev cs)[ch := c]"
  using assms by (intro nth_equalityI) (auto simp: offered_def nth_list_update)

lemma offered_insert:
  assumes "ch \<notin> chs" "ch < length cs"
  shows "offered (insert ch chs) ev cs = offered chs ev (cs[ch :=
     (if has_room cs ch then (cs ! ch)\<lparr>ch_buf := ch_buf (cs ! ch) @ [ev]\<rparr> else (cs ! ch)\<lparr>ch_closed := True\<rparr>)])"
  using assms by (intro nth_equalityI) (auto simp: offered_def nth_list_update has_room_def Let_def)

lemma has_room_update [simp]: "x \<noteq> ch \<Longrightarrow> has_room (cs[ch := c]) x = has_room cs x"
  by (simp add: has_room_def)

lemma filter_has_room_update: "ch \<notin> set chs \<Longrightarrow> filter (has_room (cs[ch := c])) chs = filter (has_room cs) chs"
  by (rule filter_cong [OF refl]) (metis has_room_update)

lemma trySend_eq:
  assumes "\<not> ch_closed (cs ! ch)"
  shows "trySend ch v cs = (if has_room cs ch then Sent (cs[ch := (cs ! ch)\<lparr>ch_buf := ch_buf (cs ! ch) @ [v]\<rparr>]) else Full)"
  using assms by (simp add: trySend_def has_room_def Let_def)

lemma closeChan_eq: "\<not> ch_closed (cs ! ch) \<Longrightarrow> closeChan ch cs = Some (cs[ch := (cs ! ch)\<lparr>ch_closed := True\<rparr>])"
  by (simp add: closeChan_def Let_def)

subsection \<open>Operations on a bus, in the order they take its lock\<close>

datatype ('e, 'f) busOp = Pub 'e | Sub 'f | Cancel nat | Recv nat

fun busStep ::
  "('e \<Rightarrow> 's \<Rightarrow> 's option) \<Rightarrow> ('f \<Rightarrow> 's \<Rightarrow> nat \<times> 's) \<Rightarrow> (nat \<Rightarrow> 's \<Rightarrow> 's option) \<Rightarrow>
   (nat \<Rightarrow> 's \<Rightarrow> 'e received \<times> 's) \<Rightarrow> ('e, 'f) busOp \<Rightarrow> 's \<Rightarrow> (nat \<times> 'e) list \<Rightarrow> ('s \<times> (nat \<times> 'e) list) option" where
  "busStep publish subscribe cancel recv (Pub e) s got = map_option (\<lambda>s'. (s', got)) (publish e s)"
| "busStep publish subscribe cancel recv (Sub f) s got = Some (snd (subscribe f s), got)"
| "busStep publish subscribe cancel recv (Cancel ch) s got = map_option (\<lambda>s'. (s', got)) (cancel ch s)"
| "busStep publish subscribe cancel recv (Recv ch) s got =
     (case recv ch s of (r, s') \<Rightarrow> Some (s', case r of Got e \<Rightarrow> got @ [(ch, e)] | _ \<Rightarrow> got))"

primrec busRun ::
  "('e \<Rightarrow> 's \<Rightarrow> 's option) \<Rightarrow> ('f \<Rightarrow> 's \<Rightarrow> nat \<times> 's) \<Rightarrow> (nat \<Rightarrow> 's \<Rightarrow> 's option) \<Rightarrow>
   (nat \<Rightarrow> 's \<Rightarrow> 'e received \<times> 's) \<Rightarrow> ('e, 'f) busOp list \<Rightarrow> 's \<Rightarrow> (nat \<times> 'e) list \<Rightarrow> ('s \<times> (nat \<times> 'e) list) option" where
  "busRun publish subscribe cancel recv [] s got = Some (s, got)"
| "busRun publish subscribe cancel recv (op # ops) s got =
     (case busStep publish subscribe cancel recv op s got of
        None \<Rightarrow> None
      | Some (s', got') \<Rightarrow> busRun publish subscribe cancel recv ops s' got')"

fun published :: "('e, 'f) busOp list \<Rightarrow> 'e list" where
  "published [] = []"
| "published (Pub e # ops) = e # published ops"
| "published (Sub f # ops) = published ops"
| "published (Cancel ch # ops) = published ops"
| "published (Recv ch # ops) = published ops"

definition mine :: "nat \<Rightarrow> (nat \<times> 'e) list \<Rightarrow> 'e list" where
  "mine ch got = map snd (filter (\<lambda>p. fst p = ch) got)"

lemma mine_simps [simp]: "mine ch [] = []" "mine ch (xs @ ys) = mine ch xs @ mine ch ys"
  "mine ch [(c, e)] = (if c = ch then [e] else [])"
  by (simp_all add: mine_def)

lemma published_append [simp]: "published (xs @ ys) = published xs @ published ys"
  by (induction xs rule: published.induct) simp_all

lemma published_recvs [simp]: "published (replicate n (Recv ch)) = []"
  by (induction n) simp_all

lemma busRun_append:
  "busRun p sb c r (xs @ ys) s got =
     (case busRun p sb c r xs s got of None \<Rightarrow> None | Some (s', got') \<Rightarrow> busRun p sb c r ys s' got')"
  by (induction xs arbitrary: s got) (simp_all split: option.split prod.split)

subsection \<open>The contract of a bus\<close>

locale fan_out =
  fixes inv :: "'s \<Rightarrow> bool"
    and publish :: "'e \<Rightarrow> 's \<Rightarrow> 's option"
    and subscribe :: "'f \<Rightarrow> 's \<Rightarrow> nat \<times> 's"
    and cancel :: "nat \<Rightarrow> 's \<Rightarrow> 's option"
    and recv :: "nat \<Rightarrow> 's \<Rightarrow> 'e received \<times> 's"
    and live :: "'s \<Rightarrow> nat \<Rightarrow> bool"
    and known :: "'s \<Rightarrow> nat \<Rightarrow> bool"
    and queue :: "'s \<Rightarrow> nat \<Rightarrow> 'e list"
    and wants :: "'s \<Rightarrow> nat \<Rightarrow> 'e \<Rightarrow> bool"
    and room :: nat
  assumes publish_ok: "inv s \<Longrightarrow> \<exists>s'. publish e s = Some s' \<and> inv s' \<and> known s' = known s \<and>
        (\<forall>ch. live s' ch \<longleftrightarrow> live s ch \<and> (wants s ch e \<longrightarrow> length (queue s ch) < room)) \<and>
        (\<forall>ch. queue s' ch = queue s ch @ (if live s' ch \<and> wants s ch e then [e] else [])) \<and>
        (\<forall>ch. live s' ch \<longrightarrow> wants s' ch = wants s ch)"
    and subscribe_ok: "inv s \<Longrightarrow> subscribe f s = (ch, s') \<Longrightarrow> inv s' \<and> \<not> known s ch \<and>
        known s' = (known s)(ch := True) \<and> live s' = (live s)(ch := True) \<and> queue s' = (queue s)(ch := []) \<and>
        (\<forall>c. live s c \<longrightarrow> wants s' c = wants s c)"
    and cancel_ok: "inv s \<Longrightarrow> \<exists>s'. cancel ch s = Some s' \<and> inv s' \<and> known s' = known s \<and>
        live s' = (live s)(ch := False) \<and> queue s' = queue s \<and> (\<forall>c. live s' c \<longrightarrow> wants s' c = wants s c)"
    and recv_ok: "inv s \<Longrightarrow> recv ch s = (r, s') \<Longrightarrow> inv s' \<and> known s' = known s \<and> live s' = live s \<and> wants s' = wants s \<and>
        (case queue s ch of
           v # vs \<Rightarrow> r = Got v \<and> queue s' = (queue s)(ch := vs)
         | [] \<Rightarrow> r = (if live s ch \<or> \<not> known s ch then Blocks else EndOfStream) \<and> queue s' = queue s)"
begin

abbreviation "step1 \<equiv> busStep publish subscribe cancel recv"
abbreviation "run \<equiv> busRun publish subscribe cancel recv"

text \<open>What a subscriber has got and what waits for it, against what was published since.\<close>

definition in_step :: "nat \<Rightarrow> ('e \<Rightarrow> bool) \<Rightarrow> 's \<Rightarrow> 'e list \<Rightarrow> 'e list \<Rightarrow> bool" where
  "in_step ch P s pub got \<longleftrightarrow> inv s \<and> known s ch \<and> prefix (got @ queue s ch) (filter P pub) \<and>
     (live s ch \<longrightarrow> wants s ch = P \<and> got @ queue s ch = filter P pub)"

lemma publish_in_step:
  assumes "in_step ch P s pub got" "publish e s = Some s'"
  shows "in_step ch P s' (pub @ [e]) got" "live s ch \<Longrightarrow> live s' ch \<or> room \<le> length (queue s ch)"
proof -
  have inv: "inv s" using assms(1) by (simp add: in_step_def)
  have k: "inv s' \<and> known s' = known s" "live s' ch \<longleftrightarrow> live s ch \<and> (wants s ch e \<longrightarrow> length (queue s ch) < room)"
    "queue s' ch = queue s ch @ (if live s' ch \<and> wants s ch e then [e] else [])"
    "live s' ch \<longrightarrow> wants s' ch = wants s ch"
    using publish_ok [OF inv, of e] assms(2) by auto
  show "in_step ch P s' (pub @ [e]) got"
  proof (cases "live s' ch")
    case True
    then have "live s ch" "wants s ch = P" "got @ queue s ch = filter P pub"
      using k(2) assms(1) by (auto simp: in_step_def)
    then show ?thesis using assms(1) k True by (auto simp: in_step_def simp flip: append_assoc)
  next
    case False
    then show ?thesis using assms(1) k by (auto simp: in_step_def intro: prefix_order.trans)
  qed
  show "live s ch \<Longrightarrow> live s' ch \<or> room \<le> length (queue s ch)"
    using k(2) by auto
qed

lemma step_in_step:
  assumes "in_step ch P s pub (mine ch got)"
  shows "\<exists>s' got'. step1 op s got = Some (s', got') \<and> in_step ch P s' (pub @ published [op]) (mine ch got') \<and>
    (live s ch \<longrightarrow> live s' ch \<or> op = Cancel ch \<or> (\<exists>e. op = Pub e) \<and> room \<le> length (queue s ch))"
proof -
  have inv: "inv s" using assms by (simp add: in_step_def)
  show ?thesis
  proof (cases op)
    case (Pub e)
    then show ?thesis using publish_ok [OF inv, of e] publish_in_step [OF assms] by auto
  next
    case (Sub f)
    obtain c s' where s': "subscribe f s = (c, s')" by fastforce
    have "c \<noteq> ch" using subscribe_ok [OF inv s'] assms by (auto simp: in_step_def)
    then have "in_step ch P s' pub (mine ch got)" "live s ch \<longrightarrow> live s' ch"
      using assms subscribe_ok [OF inv s'] by (auto simp: in_step_def)
    then show ?thesis using Sub s' by simp
  next
    case (Cancel c)
    then show ?thesis using assms cancel_ok [OF inv, of c] by (auto simp: in_step_def)
  next
    case (Recv c)
    obtain r s' where s': "recv c s = (r, s')" by fastforce
    note k = recv_ok [OF inv s']
    have "in_step ch P s' pub (mine ch (case r of Got e \<Rightarrow> got @ [(c, e)] | _ \<Rightarrow> got))"
      using assms k by (cases "queue s c") (auto simp: in_step_def)
    then show ?thesis using Recv s' k by simp
  qed
qed

text \<open>Over a run; a subscriber is only lost when it cancels or when its buffer was full.\<close>

lemma run_in_step:
  assumes "in_step ch P s pub (mine ch got)"
  shows "\<exists>s' got'. run ops s got = Some (s', got') \<and> in_step ch P s' (pub @ published ops) (mine ch got') \<and>
    (live s ch \<longrightarrow> live s' ch \<or> Cancel ch \<in> set ops \<or>
       (\<exists>xs ys t got''. ops = xs @ ys \<and> run xs s got = Some (t, got'') \<and> room \<le> length (queue t ch)))"
  using assms
proof (induction ops arbitrary: s pub got)
  case Nil
  then show ?case by simp
next
  case (Cons op ops)
  obtain s1 g1 where s1: "step1 op s got = Some (s1, g1)" "in_step ch P s1 (pub @ published [op]) (mine ch g1)"
    "live s ch \<longrightarrow> live s1 ch \<or> op = Cancel ch \<or> room \<le> length (queue s ch)"
    using step_in_step [OF Cons.prems] by blast
  have pub: "published (op # ops) = published [op] @ published ops"
    using published_append [of "[op]" ops] by simp
  obtain s2 g2 where s2: "run ops s1 g1 = Some (s2, g2)"
    "in_step ch P s2 ((pub @ published [op]) @ published ops) (mine ch g2)"
    "live s1 ch \<longrightarrow> live s2 ch \<or> Cancel ch \<in> set ops \<or>
       (\<exists>xs ys t got''. ops = xs @ ys \<and> run xs s1 g1 = Some (t, got'') \<and> room \<le> length (queue t ch))"
    using Cons.IH [OF s1(2)] by blast
  have step: "run (op # xs) s got = run xs s1 g1" for xs
    by (simp add: s1(1))
  have late: "\<exists>xs ys t got''. op # ops = xs @ ys \<and> run xs s got = Some (t, got'') \<and> room \<le> length (queue t ch)"
    if "\<exists>xs ys t got''. ops = xs @ ys \<and> run xs s1 g1 = Some (t, got'') \<and> room \<le> length (queue t ch)"
    using that step by (metis append_Cons)
  have now: "\<exists>xs ys t got''. op # ops = xs @ ys \<and> run xs s got = Some (t, got'') \<and> room \<le> length (queue t ch)"
    if "room \<le> length (queue s ch)"
    using that by (metis append_Nil busRun.simps(1))
  have "live s ch \<longrightarrow> live s2 ch \<or> Cancel ch \<in> set (op # ops) \<or>
      (\<exists>xs ys t got''. op # ops = xs @ ys \<and> run xs s got = Some (t, got'') \<and> room \<le> length (queue t ch))"
    using s1(3) s2(3) late now by (metis list.set_intros)
  then show ?case using s2(1,2) pub step by simp
qed

lemma run_ok:
  assumes "inv s"
  shows "\<exists>s' got'. run ops s got = Some (s', got') \<and> inv s'"
  using assms
proof (induction ops arbitrary: s got)
  case (Cons op ops)
  have "\<exists>s' got'. step1 op s got = Some (s', got') \<and> inv s'"
  proof (cases op)
    case (Recv c)
    obtain r s' where "recv c s = (r, s')" by fastforce
    then show ?thesis using Recv recv_ok [OF Cons.prems] by fastforce
  next
    case (Sub f)
    then show ?thesis using subscribe_ok [OF Cons.prems, of f] by (cases "subscribe f s") auto
  qed (use publish_ok [OF Cons.prems] cancel_ok [OF Cons.prems] in fastforce)+
  then show ?case using Cons.IH by auto
qed simp

lemma recv_drains:
  assumes "inv s"
  shows "\<exists>s' got'. run (replicate (length (queue s ch)) (Recv ch)) s got = Some (s', got') \<and> inv s' \<and>
    mine ch got' = mine ch got @ queue s ch \<and> queue s' ch = [] \<and> live s' = live s \<and> known s' = known s"
  using assms
proof (induction "queue s ch" arbitrary: s got)
  case Nil
  then show ?case by (auto simp flip: Nil.hyps)
next
  case (Cons v vs)
  obtain r s1 where s1: "recv ch s = (r, s1)" by fastforce
  have k: "inv s1" "r = Got v" "queue s1 ch = vs" "live s1 = live s" "known s1 = known s"
    using recv_ok [OF Cons.prems s1] Cons.hyps(2) by (auto split: list.splits)
  have "run (replicate (length (queue s ch)) (Recv ch)) s got = run (replicate (length (queue s1 ch)) (Recv ch)) s1 (got @ [(ch, v)])"
    using s1 k(2,3) by (simp flip: Cons.hyps(2))
  then show ?case
    using Cons.hyps(1) [of s1 "got @ [(ch, v)]"] k by (simp flip: Cons.hyps(2))
qed

text \<open>
  A new subscriber, whatever the others do: nothing panics or blocks a publisher, it gets the
  publications it wants in their order without a gap, and while it is served all of them.
\<close>

theorem subscriber_served:
  assumes "inv s" "subscribe f s = (ch, s1)"
  shows "\<exists>s2 got. run ops s1 [] = Some (s2, got) \<and> prefix (mine ch got @ queue s2 ch) (filter (wants s1 ch) (published ops)) \<and>
    (live s2 ch \<longrightarrow> (\<exists>s3 got'. run (ops @ replicate (length (queue s2 ch)) (Recv ch)) s1 [] = Some (s3, got') \<and>
        mine ch got' = filter (wants s1 ch) (published ops))) \<and>
    (\<not> live s2 ch \<longrightarrow> (\<exists>s3 got'. run (ops @ replicate (length (queue s2 ch)) (Recv ch)) s1 [] = Some (s3, got') \<and>
        mine ch got' = mine ch got @ queue s2 ch \<and> fst (recv ch s3) = EndOfStream)) \<and>
    (live s2 ch \<or> Cancel ch \<in> set ops \<or>
      (\<exists>xs ys t got''. ops = xs @ ys \<and> run xs s1 [] = Some (t, got'') \<and> room \<le> length (queue t ch)))"
proof -
  have "in_step ch (wants s1 ch) s1 [] (mine ch [])" and live: "live s1 ch"
    using subscribe_ok [OF assms] by (auto simp: in_step_def)
  from run_in_step [OF this(1), of ops, unfolded append_Nil] live obtain s2 got where s2:
    "run ops s1 [] = Some (s2, got)" "in_step ch (wants s1 ch) s2 (published ops) (mine ch got)"
    "live s2 ch \<or> Cancel ch \<in> set ops \<or>
      (\<exists>xs ys t got''. ops = xs @ ys \<and> run xs s1 [] = Some (t, got'') \<and> room \<le> length (queue t ch))"
    by blast
  have "inv s2" "known s2 ch" using s2(2) by (simp_all add: in_step_def)
  then obtain s3 got' where s3: "run (replicate (length (queue s2 ch)) (Recv ch)) s2 got = Some (s3, got')"
    "mine ch got' = mine ch got @ queue s2 ch" "inv s3" "queue s3 ch = []" "live s3 = live s2" "known s3 = known s2"
    using recv_drains by blast
  have "fst (recv ch s3) = EndOfStream" if "\<not> live s2 ch"
    using that recv_ok [OF s3(3), of ch "fst (recv ch s3)" "snd (recv ch s3)"] s3(4-6) \<open>known s2 ch\<close> by simp
  moreover have "run (ops @ replicate (length (queue s2 ch)) (Recv ch)) s1 [] = Some (s3, got')"
    using s2(1) s3(1) by (simp add: busRun_append)
  ultimately show ?thesis
    using s2 s3(2) by (auto simp: in_step_def)
qed

text \<open>A subscriber that was cut off still gets what was buffered, and then the end of the stream.\<close>

theorem cut_off_sees_end:
  assumes "inv s" "known s ch" "\<not> live s ch"
  shows "\<exists>s1 got. run (replicate (length (queue s ch)) (Recv ch)) s [] = Some (s1, got) \<and> mine ch got = queue s ch \<and>
    fst (recv ch s1) = EndOfStream"
proof -
  obtain s1 got where s1: "run (replicate (length (queue s ch)) (Recv ch)) s [] = Some (s1, got)" "inv s1"
    "mine ch got = queue s ch" "queue s1 ch = []" "live s1 = live s" "known s1 = known s"
    using recv_drains [OF assms(1), of ch "[]"] by auto
  obtain r s2 where r: "recv ch s1 = (r, s2)" by fastforce
  have "fst (recv ch s1) = EndOfStream"
    using recv_ok [OF s1(2) r] r s1(4,5,6) assms(2,3) by simp
  then show ?thesis using s1(1,3) by blast
qed

end

end
