(* ===== verification/Event_Bus.thy ===== *)
theory Event_Bus
  imports Channels
begin

text \<open>
  The event bus of src/internal/control/events/bus.go. The bus does not look into its events, so
  their type is a parameter. The subscriber map is the list of its keys; Go's map iteration order
  is free, and the order of a fan-out over distinct channels does not show in its outcome. The
  \<open>sync.Once\<close> of a cancel function changes nothing beside the membership test it guards: after a
  first call the channel is no longer a key.
\<close>

definition SubscriberBuffer :: nat where "SubscriberBuffer = 256"

record 'e EventBus =
  eb_subs :: "nat list"
  eb_chans :: "'e chans"

definition NewEventBus :: "'e EventBus" where
  "NewEventBus = \<lparr>eb_subs = [], eb_chans = []\<rparr>"

definition SubscribeEvents :: "unit \<Rightarrow> 'e EventBus \<Rightarrow> nat \<times> 'e EventBus" where
  "SubscribeEvents _ b =
     (let (ch, cs) = makeChan SubscriberBuffer (eb_chans b)
      in (ch, b\<lparr>eb_subs := eb_subs b @ [ch], eb_chans := cs\<rparr>))"

definition CancelEvents :: "nat \<Rightarrow> 'e EventBus \<Rightarrow> 'e EventBus option" where
  "CancelEvents ch b =
     (if ch \<in> set (eb_subs b)
      then map_option (\<lambda>cs. b\<lparr>eb_subs := removeAll ch (eb_subs b), eb_chans := cs\<rparr>) (closeChan ch (eb_chans b))
      else Some b)"

fun publishLoop :: "nat list \<Rightarrow> 'e \<Rightarrow> 'e EventBus \<Rightarrow> nat \<Rightarrow> ('e EventBus \<times> nat) option" where
  "publishLoop [] ev b delivered = Some (b, delivered)"
| "publishLoop (ch # chs) ev b delivered =
     (case trySend ch ev (eb_chans b) of
        Sent cs \<Rightarrow> publishLoop chs ev (b\<lparr>eb_chans := cs\<rparr>) (delivered + 1)
      | Full \<Rightarrow> (case closeChan ch (eb_chans b) of
          None \<Rightarrow> None
        | Some cs \<Rightarrow> publishLoop chs ev (b\<lparr>eb_subs := removeAll ch (eb_subs b), eb_chans := cs\<rparr>) delivered)
      | SendPanic \<Rightarrow> None)"

definition PublishEvent :: "'e \<Rightarrow> 'e EventBus \<Rightarrow> ('e EventBus \<times> nat) option" where
  "PublishEvent ev b = publishLoop (eb_subs b) ev b 0"

definition Subscribers :: "'e EventBus \<Rightarrow> nat" where
  "Subscribers b = length (eb_subs b)"

text \<open>A receiver takes from its own channel, without the lock of the bus.\<close>

definition ReceiveEvent :: "nat \<Rightarrow> 'e EventBus \<Rightarrow> 'e received \<times> 'e EventBus" where
  "ReceiveEvent ch b = (case recvChan ch (eb_chans b) of (r, cs) \<Rightarrow> (r, b\<lparr>eb_chans := cs\<rparr>))"

subsection \<open>The invariant: the keys are the open channels\<close>

definition bus_inv :: "'e EventBus \<Rightarrow> bool" where
  "bus_inv b \<longleftrightarrow> distinct (eb_subs b) \<and>
     (\<forall>ch < length (eb_chans b). ch_cap (eb_chans b ! ch) = SubscriberBuffer \<and>
        length (ch_buf (eb_chans b ! ch)) \<le> SubscriberBuffer) \<and>
     (\<forall>ch. ch \<in> set (eb_subs b) \<longleftrightarrow> ch < length (eb_chans b) \<and> \<not> ch_closed (eb_chans b ! ch))"

definition event_live :: "'e EventBus \<Rightarrow> nat \<Rightarrow> bool" where
  "event_live b ch \<longleftrightarrow> ch \<in> set (eb_subs b)"

definition event_known :: "'e EventBus \<Rightarrow> nat \<Rightarrow> bool" where
  "event_known b ch \<longleftrightarrow> ch < length (eb_chans b)"

definition event_queue :: "'e EventBus \<Rightarrow> nat \<Rightarrow> 'e list" where
  "event_queue b ch = (if ch < length (eb_chans b) then ch_buf (eb_chans b ! ch) else [])"

lemmas event_views = event_live_def event_known_def event_queue_def

lemma publishLoop_eq:
  assumes "distinct chs" "\<And>ch. ch \<in> set chs \<Longrightarrow> ch < length (eb_chans b) \<and> \<not> ch_closed (eb_chans b ! ch)"
  shows "publishLoop chs ev b n =
    Some (b\<lparr>eb_subs := filter (\<lambda>ch. ch \<in> set chs \<longrightarrow> has_room (eb_chans b) ch) (eb_subs b),
            eb_chans := offered (set chs) ev (eb_chans b)\<rparr>,
          n + length (filter (has_room (eb_chans b)) chs))"
  using assms
proof (induction chs arbitrary: b n)
  case Nil
  then show ?case by simp
next
  case (Cons ch chs)
  have ch: "ch \<notin> set chs" "ch < length (eb_chans b)" "\<not> ch_closed (eb_chans b ! ch)" and d: "distinct chs"
    using Cons.prems by auto
  let ?c = "if has_room (eb_chans b) ch then (eb_chans b ! ch)\<lparr>ch_buf := ch_buf (eb_chans b ! ch) @ [ev]\<rparr>
            else (eb_chans b ! ch)\<lparr>ch_closed := True\<rparr>"
  let ?b = "b\<lparr>eb_subs := (if has_room (eb_chans b) ch then eb_subs b else removeAll ch (eb_subs b)),
              eb_chans := (eb_chans b)[ch := ?c]\<rparr>"
  have "publishLoop (ch # chs) ev b n = publishLoop chs ev ?b (if has_room (eb_chans b) ch then n + 1 else n)"
    using ch by (simp add: trySend_eq closeChan_eq)
  moreover have "\<And>x. x \<in> set chs \<Longrightarrow> x < length (eb_chans ?b) \<and> \<not> ch_closed (eb_chans ?b ! x)"
    using Cons.prems(2) ch(1) by (metis (no_types, lifting) EventBus.select_convs(2) EventBus.surjective EventBus.update_convs(2) length_list_update list.set_intros(2) nth_list_update_neq)
  moreover have "filter (has_room ((eb_chans b)[ch := ?c])) chs = filter (has_room (eb_chans b)) chs"
    using ch(1) by (rule filter_has_room_update)
  moreover have "filter (\<lambda>x. x \<in> set chs \<longrightarrow> has_room ((eb_chans b)[ch := ?c]) x) (eb_subs ?b) =
      filter (\<lambda>x. x \<in> set (ch # chs) \<longrightarrow> has_room (eb_chans b) x) (eb_subs b)"
    using ch(1) by (auto simp: removeAll_filter_not_eq intro!: filter_cong) (metis has_room_update)+
  ultimately show ?case
    using Cons.IH [OF d, of ?b "if has_room (eb_chans b) ch then n + 1 else n"] ch by (simp add: offered_insert)
qed

lemma PublishEvent_eq:
  assumes "bus_inv b"
  shows "PublishEvent ev b =
    Some (b\<lparr>eb_subs := filter (has_room (eb_chans b)) (eb_subs b), eb_chans := offered (set (eb_subs b)) ev (eb_chans b)\<rparr>,
          length (filter (has_room (eb_chans b)) (eb_subs b)))"
proof -
  have "filter (\<lambda>ch. ch \<in> set (eb_subs b) \<longrightarrow> has_room (eb_chans b) ch) (eb_subs b) = filter (has_room (eb_chans b)) (eb_subs b)"
    by (rule filter_cong) simp_all
  then show ?thesis
    using assms publishLoop_eq [of "eb_subs b" b ev 0] by (simp add: PublishEvent_def bus_inv_def)
qed

lemma PublishEvent_inv:
  assumes "bus_inv b" "PublishEvent ev b = Some (b', n)"
  shows "bus_inv b'"
  using assms unfolding PublishEvent_eq [OF assms(1)] bus_inv_def
  by (auto simp: has_room_def)

subsection \<open>The contract\<close>

interpretation events: fan_out bus_inv "\<lambda>ev b. map_option fst (PublishEvent ev b)" SubscribeEvents CancelEvents ReceiveEvent
  event_live event_known event_queue "\<lambda>_ _ _. True" SubscriberBuffer
proof (unfold_locales, goal_cases)
  case (1 b ev)
  have "event_live (fst (the (PublishEvent ev b))) ch \<longleftrightarrow> event_live b ch \<and> length (event_queue b ch) < SubscriberBuffer" for ch
    using 1 by (auto simp: PublishEvent_eq event_views bus_inv_def has_room_def)
  moreover have "event_queue (fst (the (PublishEvent ev b))) ch = event_queue b ch @
      (if event_live (fst (the (PublishEvent ev b))) ch then [ev] else [])" for ch
    using 1 by (auto simp: PublishEvent_eq event_views bus_inv_def)
  moreover have "event_known (fst (the (PublishEvent ev b))) = event_known b"
    using 1 by (auto simp: PublishEvent_eq event_views fun_eq_iff)
  ultimately show ?case
    using PublishEvent_inv [OF 1] PublishEvent_eq [OF 1, of ev] by auto
next
  case (2 b f ch b')
  then show ?case
    by (auto simp: SubscribeEvents_def makeChan_def bus_inv_def event_views fun_eq_iff nth_append less_Suc_eq)
next
  case (3 b ch)
  show ?case
  proof (cases "ch \<in> set (eb_subs b)")
    case True
    then have open_ch: "ch < length (eb_chans b)" "\<not> ch_closed (eb_chans b ! ch)" using 3 by (auto simp: bus_inv_def)
    let ?b = "b\<lparr>eb_subs := removeAll ch (eb_subs b), eb_chans := (eb_chans b)[ch := (eb_chans b ! ch)\<lparr>ch_closed := True\<rparr>]\<rparr>"
    have "CancelEvents ch b = Some ?b" using True open_ch by (simp add: CancelEvents_def closeChan_eq)
    moreover have "bus_inv ?b"
      using 3 open_ch by (auto simp: bus_inv_def nth_list_update distinct_removeAll)
    moreover have "event_known ?b = event_known b" "event_live ?b = (event_live b)(ch := False)" "event_queue ?b = event_queue b"
      using open_ch by (auto simp: event_views fun_eq_iff nth_list_update)
    ultimately show ?thesis by simp
  next
    case False
    then show ?thesis using 3 by (auto simp: CancelEvents_def event_views fun_eq_iff)
  qed
next
  case (4 b ch r b')
  show ?case
  proof (cases "ch < length (eb_chans b)")
    case True
    show ?thesis
    proof (cases "ch_buf (eb_chans b ! ch)")
      case Nil
      then show ?thesis using 4 True by (auto simp: ReceiveEvent_def recvChan_def Let_def event_views bus_inv_def)
    next
      case (Cons v vs)
      then have b': "r = Got v" "b' = b\<lparr>eb_chans := (eb_chans b)[ch := (eb_chans b ! ch)\<lparr>ch_buf := vs\<rparr>]\<rparr>"
        using 4(2) True by (auto simp: ReceiveEvent_def recvChan_def Let_def)
      have "length vs \<le> SubscriberBuffer" using 4(1) True Cons by (auto simp: bus_inv_def dest!: spec [of _ ch])
      then have "bus_inv b'" using 4(1) True b' by (auto simp: bus_inv_def nth_list_update)
      then show ?thesis using b' True Cons by (auto simp: event_views fun_eq_iff nth_list_update)
    qed
  next
    case False
    then show ?thesis using 4 by (auto simp: ReceiveEvent_def recvChan_def event_views)
  qed
qed

lemma NewEventBus_inv: "bus_inv NewEventBus"
  by (simp add: bus_inv_def NewEventBus_def)

abbreviation eventRun :: "('e, unit) busOp list \<Rightarrow> 'e EventBus \<Rightarrow> ('e EventBus \<times> (nat \<times> 'e) list) option" where
  "eventRun ops b \<equiv> busRun (\<lambda>ev b. map_option fst (PublishEvent ev b)) SubscribeEvents CancelEvents ReceiveEvent ops b []"

text \<open>
  C28. Delivery on the event bus. Take any history of a bus, a new subscription, and any further
  operations by anybody in any order: no publication blocks, sends on a closed channel or closes
  one twice. What the subscriber has received and what waits for it is a gap-free beginning of what was
  published since. As long as it is registered, as many receives as there are waiting events give
  it every event, in order. It stops being registered only by cancelling or when
  \<open>SubscriberBuffer\<close> events waited unread; then its channel is closed: it still gets what waited for it and after
  that the end of the stream.
\<close>

theorem events_delivered:
  "\<exists>b1 got0. eventRun history NewEventBus = Some (b1, got0) \<and>
    (\<forall>ch b2. SubscribeEvents () b1 = (ch, b2) \<longrightarrow>
      (\<exists>b3 got. eventRun ops b2 = Some (b3, got) \<and>
        prefix (mine ch got @ event_queue b3 ch) (published ops) \<and>
        (event_live b3 ch \<longrightarrow> (\<exists>b4 got'. eventRun (ops @ replicate (length (event_queue b3 ch)) (Recv ch)) b2 = Some (b4, got') \<and>
            mine ch got' = published ops)) \<and>
        (\<not> event_live b3 ch \<longrightarrow> (\<exists>b4 got'. eventRun (ops @ replicate (length (event_queue b3 ch)) (Recv ch)) b2 = Some (b4, got') \<and>
            mine ch got' = mine ch got @ event_queue b3 ch \<and> fst (ReceiveEvent ch b4) = EndOfStream)) \<and>
        (event_live b3 ch \<or> Cancel ch \<in> set ops \<or>
          (\<exists>xs ys t got''. ops = xs @ ys \<and> eventRun xs b2 = Some (t, got'') \<and> SubscriberBuffer \<le> length (event_queue t ch)))))"
proof -
  obtain b1 got0 where b1: "eventRun history NewEventBus = Some (b1, got0)" "bus_inv b1"
    using events.run_ok [OF NewEventBus_inv] by blast
  have all: "filter (\<lambda>_. True) (published ops) = published ops" by simp
  show ?thesis
  proof (rule exI [of _ b1], rule exI [of _ got0], intro conjI allI impI)
    show "eventRun history NewEventBus = Some (b1, got0)" by (rule b1(1))
    fix ch b2
    assume "SubscribeEvents () b1 = (ch, b2)"
    from events.subscriber_served [OF b1(2) this, of ops, unfolded all]
    show "\<exists>b3 got. eventRun ops b2 = Some (b3, got) \<and>
        prefix (mine ch got @ event_queue b3 ch) (published ops) \<and>
        (event_live b3 ch \<longrightarrow> (\<exists>b4 got'. eventRun (ops @ replicate (length (event_queue b3 ch)) (Recv ch)) b2 = Some (b4, got') \<and>
            mine ch got' = published ops)) \<and>
        (\<not> event_live b3 ch \<longrightarrow> (\<exists>b4 got'. eventRun (ops @ replicate (length (event_queue b3 ch)) (Recv ch)) b2 = Some (b4, got') \<and>
            mine ch got' = mine ch got @ event_queue b3 ch \<and> fst (ReceiveEvent ch b4) = EndOfStream)) \<and>
        (event_live b3 ch \<or> Cancel ch \<in> set ops \<or>
          (\<exists>xs ys t got''. ops = xs @ ys \<and> eventRun xs b2 = Some (t, got'') \<and> SubscriberBuffer \<le> length (event_queue t ch)))" .
  qed
qed

theorem events_delivered_witness:
  "(\<exists>b4 got'. eventRun ([Pub (1::nat), Recv 0, Pub 2] @ [Recv 0]) (snd (SubscribeEvents () NewEventBus)) = Some (b4, got') \<and>
     mine 0 got' = [1, 2]) \<and>
   (\<exists>b4 got'. eventRun ([Pub (1::nat), Cancel 0, Pub 2] @ [Recv 0]) (snd (SubscribeEvents () NewEventBus)) = Some (b4, got') \<and>
     mine 0 got' = [1] \<and> fst (ReceiveEvent 0 b4) = EndOfStream)"
  using events_delivered [of "[]" "[Pub (1::nat), Recv 0, Pub 2]"] events_delivered [of "[]" "[Pub (1::nat), Cancel 0, Pub 2]"]
  by (simp add: NewEventBus_def SubscribeEvents_def CancelEvents_def closeChan_def makeChan_def PublishEvent_def trySend_def ReceiveEvent_def
      recvChan_def event_live_def event_queue_def SubscriberBuffer_def Let_def)

text \<open>The number \<open>Publish\<close> returns is the number of subscribers that got the event.\<close>

lemma PublishEvent_count:
  assumes "bus_inv b" "PublishEvent ev b = Some (b', n)"
  shows "n = Subscribers b'"
  using assms by (auto simp: PublishEvent_eq Subscribers_def)

end
