(* ===== verification/Log_Bus.thy ===== *)
theory Log_Bus
  imports Channels Event_Bus
begin

text \<open>
  The log bus of src/internal/control/logbus: the fan-out with filters and the ring buffer of
  bus.go, and the slog handler of handler.go that feeds it. A log record's attribute map is an
  association list. The wrapped slog handler is a value of the parameter type \<open>'n\<close> with the three operations the
  code calls; attribute values are given as \<open>Value.Resolve\<close> returns them.
\<close>

subsection \<open>Records and filters\<close>

record LogRecord =
  lr_At :: instant
  lr_Level :: int
  lr_Message :: string
  lr_Attrs :: "(string \<times> string) list"

record Filter =
  fl_InstanceID :: string
  fl_Handle :: string

definition attrOf :: "LogRecord \<Rightarrow> string \<Rightarrow> string" where
  "attrOf r k = (case map_of (lr_Attrs r) k of None \<Rightarrow> '''' | Some v \<Rightarrow> v)"

definition match :: "Filter \<Rightarrow> LogRecord \<Rightarrow> bool" where
  "match f r \<longleftrightarrow>
     (if fl_InstanceID f \<noteq> '''' \<and> attrOf r ''id'' \<noteq> fl_InstanceID f then False
      else if fl_Handle f \<noteq> '''' \<and> attrOf r ''handle'' \<noteq> fl_Handle f then False
      else True)"

subsection \<open>The bus\<close>

definition HistoryCapacity :: nat where "HistoryCapacity = 1000"

record LogBus =
  lb_subs :: "(nat \<times> Filter) list"
  lb_chans :: "LogRecord chans"
  lb_history :: "LogRecord list"
  lb_next :: nat
  lb_full :: bool

definition zeroRecord :: LogRecord where
  "zeroRecord = \<lparr>lr_At = zero_time, lr_Level = 0, lr_Message = '''', lr_Attrs = []\<rparr>"

definition NewLogBus :: LogBus where
  "NewLogBus = \<lparr>lb_subs = [], lb_chans = [], lb_history = replicate HistoryCapacity zeroRecord, lb_next = 0, lb_full = False\<rparr>"

definition SubscribeFiltered :: "Filter \<Rightarrow> LogBus \<Rightarrow> nat \<times> LogBus" where
  "SubscribeFiltered f b =
     (let (ch, cs) = makeChan SubscriberBuffer (lb_chans b)
      in (ch, b\<lparr>lb_subs := lb_subs b @ [(ch, f)], lb_chans := cs\<rparr>))"

definition SubscribeLogs :: "LogBus \<Rightarrow> nat \<times> LogBus" where
  "SubscribeLogs b = SubscribeFiltered \<lparr>fl_InstanceID = '''', fl_Handle = ''''\<rparr> b"

definition dropSub :: "nat \<Rightarrow> (nat \<times> Filter) list \<Rightarrow> (nat \<times> Filter) list" where
  "dropSub ch = filter (\<lambda>s. fst s \<noteq> ch)"

definition CancelLogs :: "nat \<Rightarrow> LogBus \<Rightarrow> LogBus option" where
  "CancelLogs ch b =
     (if ch \<in> fst ` set (lb_subs b)
      then map_option (\<lambda>cs. b\<lparr>lb_subs := dropSub ch (lb_subs b), lb_chans := cs\<rparr>) (closeChan ch (lb_chans b))
      else Some b)"

definition appendHistory :: "LogRecord \<Rightarrow> LogBus \<Rightarrow> LogBus" where
  "appendHistory r b =
     (let b = b\<lparr>lb_history := (lb_history b)[lb_next b := r], lb_next := lb_next b + 1\<rparr>
      in if lb_next b = HistoryCapacity then b\<lparr>lb_next := 0, lb_full := True\<rparr> else b)"

fun logLoop :: "(nat \<times> Filter) list \<Rightarrow> LogRecord \<Rightarrow> LogBus \<Rightarrow> LogBus option" where
  "logLoop [] r b = Some b"
| "logLoop ((ch, f) # ss) r b =
     (if \<not> match f r then logLoop ss r b
      else case trySend ch r (lb_chans b) of
        Sent cs \<Rightarrow> logLoop ss r (b\<lparr>lb_chans := cs\<rparr>)
      | Full \<Rightarrow> (case closeChan ch (lb_chans b) of
          None \<Rightarrow> None
        | Some cs \<Rightarrow> logLoop ss r (b\<lparr>lb_subs := dropSub ch (lb_subs b), lb_chans := cs\<rparr>))
      | SendPanic \<Rightarrow> None)"

definition PublishLog :: "LogRecord \<Rightarrow> LogBus \<Rightarrow> LogBus option" where
  "PublishLog r b = (let b = appendHistory r b in logLoop (lb_subs b) r b)"

definition LogSubscribers :: "LogBus \<Rightarrow> nat" where
  "LogSubscribers b = length (lb_subs b)"

definition ReceiveLog :: "nat \<Rightarrow> LogBus \<Rightarrow> LogRecord received \<times> LogBus" where
  "ReceiveLog ch b = (case recvChan ch (lb_chans b) of (r, cs) \<Rightarrow> (r, b\<lparr>lb_chans := cs\<rparr>))"

fun historyLoop :: "nat list \<Rightarrow> nat \<Rightarrow> Filter \<Rightarrow> LogBus \<Rightarrow> LogRecord list \<Rightarrow> LogRecord list" where
  "historyLoop [] start f b out = out"
| "historyLoop (i # is) start f b out =
     (let idx = (start + i) mod HistoryCapacity; r = lb_history b ! idx
      in if \<not> match f r then historyLoop is start f b out else historyLoop is start f b (out @ [r]))"

definition History :: "int \<Rightarrow> Filter \<Rightarrow> LogBus \<Rightarrow> LogRecord list" where
  "History n f b =
     (if n \<le> 0 then []
      else let (start, len) = (if lb_full b then (lb_next b, HistoryCapacity) else (0, lb_next b));
               out = historyLoop [0..<len] start f b []
           in if n < int (length out) then drop (length out - nat n) out else out)"

subsection \<open>The ring buffer is the last records\<close>

definition lastn :: "nat \<Rightarrow> 'a list \<Rightarrow> 'a list" where
  "lastn k xs = drop (length xs - k) xs"

lemma length_lastn [simp]: "length (lastn k xs) = min k (length xs)"
  by (simp add: lastn_def)

lemma lastn_snoc: "lastn k (lastn k xs @ [x]) = lastn k (xs @ [x])"
proof (cases "length xs \<le> k")
  case False
  then show ?thesis by (cases k) (auto simp: lastn_def Suc_diff_Suc)
qed (simp add: lastn_def)

lemma lastn_0 [simp]: "lastn 0 xs = []"
  by (simp add: lastn_def)

definition recent :: "LogBus \<Rightarrow> LogRecord list" where
  "recent b = (if lb_full b then drop (lb_next b) (lb_history b) @ take (lb_next b) (lb_history b)
               else take (lb_next b) (lb_history b))"

definition ring_inv :: "LogBus \<Rightarrow> bool" where
  "ring_inv b \<longleftrightarrow> length (lb_history b) = HistoryCapacity \<and> lb_next b < HistoryCapacity"

lemma HistoryCapacity_pos [simp]: "0 < HistoryCapacity"
  by (simp add: HistoryCapacity_def)

lemma ring_inv_New: "ring_inv NewLogBus" "recent NewLogBus = []"
  by (simp_all add: ring_inv_def recent_def NewLogBus_def)

lemma appendHistory_recent:
  assumes "ring_inv b"
  shows "recent (appendHistory r b) = lastn HistoryCapacity (recent b @ [r])" "ring_inv (appendHistory r b)"
proof -
  let ?h = "lb_history b" and ?n = "lb_next b"
  have n: "?n < length ?h" "length ?h = HistoryCapacity" using assms by (simp_all add: ring_inv_def)
  have t: "take (Suc ?n) (?h[?n := r]) = take ?n ?h @ [r]" "drop (Suc ?n) (?h[?n := r]) = drop (Suc ?n) ?h"
    using n(1) by (simp_all add: take_Suc_conv_app_nth)
  have d: "drop 1 (drop ?n ?h @ ys) = drop (Suc ?n) ?h @ ys" for ys
    using n(1) by (simp add: Cons_nth_drop_Suc [symmetric])
  show "recent (appendHistory r b) = lastn HistoryCapacity (recent b @ [r])"
    using n t d [of "take ?n ?h @ [r]"] by (auto simp: recent_def appendHistory_def lastn_def Let_def simp flip: t(1))
  show "ring_inv (appendHistory r b)"
    using n by (auto simp: ring_inv_def appendHistory_def Let_def)
qed

lemma historyLoop_eq: "historyLoop is start f b out = out @ filter (match f) (map (\<lambda>i. lb_history b ! ((start + i) mod HistoryCapacity)) is)"
  by (induction "is" arbitrary: out) (simp_all add: Let_def)

lemma walk_recent:
  assumes "ring_inv b"
  shows "lb_full b \<Longrightarrow> map (\<lambda>i. lb_history b ! ((lb_next b + i) mod HistoryCapacity)) [0..<HistoryCapacity] = recent b"
    and "\<not> lb_full b \<Longrightarrow> map (\<lambda>i. lb_history b ! ((0 + i) mod HistoryCapacity)) [0..<lb_next b] = recent b"
proof -
  have len: "length (lb_history b) = HistoryCapacity" "lb_next b < HistoryCapacity"
    using assms by (simp_all add: ring_inv_def)
  have "map (\<lambda>i. lb_history b ! ((lb_next b + i) mod HistoryCapacity)) [0..<HistoryCapacity] = rotate (lb_next b) (lb_history b)"
    using len by (intro nth_equalityI) (simp_all add: nth_rotate)
  then show "lb_full b \<Longrightarrow> map (\<lambda>i. lb_history b ! ((lb_next b + i) mod HistoryCapacity)) [0..<HistoryCapacity] = recent b"
    using len by (simp add: recent_def rotate_drop_take)
  show "\<not> lb_full b \<Longrightarrow> map (\<lambda>i. lb_history b ! ((0 + i) mod HistoryCapacity)) [0..<lb_next b] = recent b"
    using len by (intro nth_equalityI) (simp_all add: recent_def)
qed

lemma History_eq:
  assumes "ring_inv b"
  shows "History n f b = lastn (nat n) (filter (match f) (recent b))"
proof -
  have "History n f b = (if n \<le> 0 then [] else let out = filter (match f) (recent b) in
      if n < int (length out) then drop (length out - nat n) out else out)"
    using walk_recent [OF assms] by (simp add: History_def historyLoop_eq del: length_filter_map)
  then show ?thesis by (auto simp: lastn_def Let_def)
qed

subsection \<open>The fan-out\<close>

definition matching :: "LogRecord \<Rightarrow> (nat \<times> Filter) list \<Rightarrow> nat set" where
  "matching r ss = {ch. \<exists>f. (ch, f) \<in> set ss \<and> match f r}"

definition log_inv :: "LogBus \<Rightarrow> bool" where
  "log_inv b \<longleftrightarrow> ring_inv b \<and> distinct (map fst (lb_subs b)) \<and>
     (\<forall>ch < length (lb_chans b). ch_cap (lb_chans b ! ch) = SubscriberBuffer) \<and>
     (\<forall>ch. ch \<in> fst ` set (lb_subs b) \<longleftrightarrow> ch < length (lb_chans b) \<and> \<not> ch_closed (lb_chans b ! ch))"

lemma logLoop_eq:
  assumes "distinct (map fst ss)" "\<And>ch. ch \<in> fst ` set ss \<Longrightarrow> ch < length (lb_chans b) \<and> \<not> ch_closed (lb_chans b ! ch)"
  shows "logLoop ss r b =
    Some (b\<lparr>lb_subs := filter (\<lambda>s. fst s \<in> matching r ss \<longrightarrow> has_room (lb_chans b) (fst s)) (lb_subs b),
            lb_chans := offered (matching r ss) r (lb_chans b)\<rparr>)"
  using assms
proof (induction ss arbitrary: b)
  case Nil
  then show ?case by (simp add: matching_def)
next
  case (Cons s ss)
  obtain ch f where s: "s = (ch, f)" by force
  have ch: "ch \<notin> fst ` set ss" "ch < length (lb_chans b)" "\<not> ch_closed (lb_chans b ! ch)" and d: "distinct (map fst ss)"
    using Cons.prems s by force+
  have notin: "ch \<notin> matching r ss" using ch(1) by (force simp: matching_def)
  show ?case
  proof (cases "match f r")
    case False
    then have "matching r (s # ss) = matching r ss" by (auto simp: matching_def s)
    then show ?thesis using Cons False d s by simp
  next
    case True
    then have m: "matching r (s # ss) = insert ch (matching r ss)" by (auto simp: matching_def s)
    let ?c = "if has_room (lb_chans b) ch then (lb_chans b ! ch)\<lparr>ch_buf := ch_buf (lb_chans b ! ch) @ [r]\<rparr>
              else (lb_chans b ! ch)\<lparr>ch_closed := True\<rparr>"
    let ?b = "b\<lparr>lb_subs := (if has_room (lb_chans b) ch then lb_subs b else dropSub ch (lb_subs b)),
                lb_chans := (lb_chans b)[ch := ?c]\<rparr>"
    have "logLoop (s # ss) r b = logLoop ss r ?b"
      using ch True s by (simp add: trySend_eq closeChan_eq)
    moreover have "x < length (lb_chans ?b) \<and> \<not> ch_closed (lb_chans ?b ! x)" if "x \<in> fst ` set ss" for x
      using Cons.prems(2) [of x] ch(1) that by (cases "x = ch") simp_all
    moreover have "filter (\<lambda>x. fst x \<in> matching r ss \<longrightarrow> has_room ((lb_chans b)[ch := ?c]) (fst x)) (lb_subs ?b) =
        filter (\<lambda>x. fst x \<in> matching r (s # ss) \<longrightarrow> has_room (lb_chans b) (fst x)) (lb_subs b)"
      using notin unfolding m by (auto simp: dropSub_def intro!: filter_cong) (metis has_room_update)+
    ultimately show ?thesis
      using Cons.IH [OF d, of ?b] ch notin m by (simp add: offered_insert)
  qed
qed

lemma appendHistory_other [simp]:
  "lb_subs (appendHistory r b) = lb_subs b" "lb_chans (appendHistory r b) = lb_chans b"
  by (simp_all add: appendHistory_def Let_def)

lemma PublishLog_eq:
  assumes "log_inv b"
  shows "PublishLog r b = Some ((appendHistory r b)
     \<lparr>lb_subs := filter (\<lambda>s. match (snd s) r \<longrightarrow> has_room (lb_chans b) (fst s)) (lb_subs b),
      lb_chans := offered (matching r (lb_subs b)) r (lb_chans b)\<rparr>)"
proof -
  have "filter (\<lambda>s. fst s \<in> matching r (lb_subs b) \<longrightarrow> has_room (lb_chans b) (fst s)) (lb_subs b) =
      filter (\<lambda>s. match (snd s) r \<longrightarrow> has_room (lb_chans b) (fst s)) (lb_subs b)"
    using assms by (intro filter_cong refl) (auto simp: matching_def log_inv_def dest: eq_key_imp_eq_value)
  then show ?thesis
    using assms logLoop_eq [of "lb_subs b" "appendHistory r b" r] by (simp add: PublishLog_def log_inv_def)
qed

definition log_live :: "LogBus \<Rightarrow> nat \<Rightarrow> bool" where
  "log_live b ch \<longleftrightarrow> ch \<in> fst ` set (lb_subs b)"

definition log_known :: "LogBus \<Rightarrow> nat \<Rightarrow> bool" where
  "log_known b ch \<longleftrightarrow> ch < length (lb_chans b)"

definition log_queue :: "LogBus \<Rightarrow> nat \<Rightarrow> LogRecord list" where
  "log_queue b ch = (if ch < length (lb_chans b) then ch_buf (lb_chans b ! ch) else [])"

definition log_wants :: "LogBus \<Rightarrow> nat \<Rightarrow> LogRecord \<Rightarrow> bool" where
  "log_wants b ch r \<longleftrightarrow> (\<exists>f. (ch, f) \<in> set (lb_subs b) \<and> match f r)"

lemmas log_views = log_live_def log_known_def log_queue_def log_wants_def

lemma ring_inv_views [simp]: "ring_inv (b\<lparr>lb_subs := ss\<rparr>) = ring_inv b" "ring_inv (b\<lparr>lb_chans := cs\<rparr>) = ring_inv b"
  "recent (b\<lparr>lb_subs := ss\<rparr>) = recent b" "recent (b\<lparr>lb_chans := cs\<rparr>) = recent b"
  by (simp_all add: ring_inv_def recent_def)

lemma sub_unique: "log_inv b \<Longrightarrow> (ch, f) \<in> set (lb_subs b) \<Longrightarrow> (ch, g) \<in> set (lb_subs b) \<Longrightarrow> f = g"
  unfolding log_inv_def by (metis eq_key_imp_eq_value)

lemma PublishLog_live:
  assumes "log_inv b" "PublishLog r b = Some b'"
  shows "log_live b' ch \<longleftrightarrow> log_live b ch \<and> (log_wants b ch r \<longrightarrow> has_room (lb_chans b) ch)"
    and "log_live b' ch \<Longrightarrow> log_wants b' ch = log_wants b ch"
proof -
  have subs: "set (lb_subs b') = {s \<in> set (lb_subs b). match (snd s) r \<longrightarrow> has_room (lb_chans b) (fst s)}"
    using assms PublishLog_eq [OF assms(1), of r] by auto
  have sub: "(ch, f) \<in> set (lb_subs b') \<longleftrightarrow> (ch, f) \<in> set (lb_subs b) \<and> (match f r \<longrightarrow> has_room (lb_chans b) ch)" for f
    by (simp add: subs)
  show live: "log_live b' ch \<longleftrightarrow> log_live b ch \<and> (log_wants b ch r \<longrightarrow> has_room (lb_chans b) ch)"
    using sub_unique [OF assms(1)] by (auto simp: log_live_def log_wants_def image_iff sub Bex_def)
  show "log_wants b' ch = log_wants b ch" if l: "log_live b' ch"
  proof
    fix x
    obtain g where g: "(ch, g) \<in> set (lb_subs b')" using l by (auto simp: log_live_def)
    have "(ch, f) \<in> set (lb_subs b') \<longleftrightarrow> f = g" "(ch, f) \<in> set (lb_subs b) \<longleftrightarrow> f = g" for f
      using g sub [of g] sub [of f] sub_unique [OF assms(1), of ch f g] by auto
    then show "log_wants b' ch x = log_wants b ch x" by (simp add: log_wants_def)
  qed
qed

lemma PublishLog_queue:
  assumes "log_inv b" "PublishLog r b = Some b'"
  shows "log_queue b' ch = log_queue b ch @ (if log_live b' ch \<and> log_wants b ch r then [r] else [])"
proof -
  have "ch \<in> matching r (lb_subs b) \<longleftrightarrow> log_wants b ch r" by (simp add: matching_def log_wants_def)
  moreover have "log_wants b ch r \<Longrightarrow> log_live b ch \<and> ch < length (lb_chans b)"
    using assms(1) unfolding log_wants_def log_live_def log_inv_def by force
  ultimately show ?thesis
    using assms PublishLog_eq [OF assms(1), of r] PublishLog_live(1) [OF assms, of ch] by (auto simp: log_queue_def)
qed

lemma PublishLog_inv:
  assumes "log_inv b" "PublishLog r b = Some b'"
  shows "log_inv b'"
proof -
  have live: "log_live b' ch \<longleftrightarrow> ch < length (lb_chans b') \<and> \<not> ch_closed (lb_chans b' ! ch)" for ch
  proof -
    have "log_live b ch \<longleftrightarrow> ch < length (lb_chans b) \<and> \<not> ch_closed (lb_chans b ! ch)"
      using assms(1) by (simp add: log_inv_def log_live_def)
    moreover have "ch \<in> matching r (lb_subs b) \<longleftrightarrow> log_wants b ch r" by (simp add: matching_def log_wants_def)
    ultimately show ?thesis
      using PublishLog_live(1) [OF assms, of ch] assms PublishLog_eq [OF assms(1), of r] by auto
  qed
  have "distinct (map fst (filter P (lb_subs b)))" for P
    using assms(1) by (simp add: log_inv_def distinct_map_filter)
  then show ?thesis
    using assms PublishLog_eq [OF assms(1), of r] live appendHistory_recent(2) [of b r]
    by (auto simp: log_inv_def log_live_def)
qed

interpretation logs: fan_out log_inv PublishLog SubscribeFiltered CancelLogs ReceiveLog
  log_live log_known log_queue log_wants SubscriberBuffer
proof (unfold_locales, goal_cases)
  case (1 b r)
  then obtain b' where b': "PublishLog r b = Some b'" using PublishLog_eq by auto
  have "has_room (lb_chans b) ch \<longleftrightarrow> length (log_queue b ch) < SubscriberBuffer" if "log_live b ch" for ch
    using 1 that by (auto simp: log_inv_def has_room_def log_queue_def log_live_def)
  moreover have "log_known b' = log_known b"
    using b' PublishLog_eq [OF 1, of r] by (auto simp: log_known_def fun_eq_iff)
  ultimately show ?case
    using b' PublishLog_inv [OF 1 b'] PublishLog_live [OF 1 b'] PublishLog_queue [OF 1 b'] by auto
next
  case (2 b f ch b')
  then have b': "ch = length (lb_chans b)" "lb_subs b' = lb_subs b @ [(ch, f)]"
    "lb_chans b' = lb_chans b @ [\<lparr>ch_buf = [], ch_cap = SubscriberBuffer, ch_closed = False\<rparr>]"
    and ring: "ring_inv b' = ring_inv b"
    by (auto simp: SubscribeFiltered_def makeChan_def)
  have new: "ch \<notin> fst ` set (lb_subs b)" using 2(1) b' by (auto simp: log_inv_def)
  have "log_inv b'"
    using 2(1) b' ring new by (auto simp: log_inv_def nth_append less_Suc_eq)
  moreover have "log_live b c \<Longrightarrow> log_wants b' c = log_wants b c" for c
    using b' new by (force simp: log_wants_def log_live_def fun_eq_iff)
  ultimately show ?case
    using b' new by (auto simp: log_live_def log_known_def log_queue_def fun_eq_iff nth_append less_Suc_eq)
next
  case (3 b ch)
  show ?case
  proof (cases "ch \<in> fst ` set (lb_subs b)")
    case True
    then have open_ch: "ch < length (lb_chans b)" "\<not> ch_closed (lb_chans b ! ch)" using 3 by (auto simp: log_inv_def)
    let ?b = "b\<lparr>lb_subs := dropSub ch (lb_subs b), lb_chans := (lb_chans b)[ch := (lb_chans b ! ch)\<lparr>ch_closed := True\<rparr>]\<rparr>"
    have "CancelLogs ch b = Some ?b" using True open_ch by (simp add: CancelLogs_def closeChan_eq)
    moreover have subs: "fst ` set (dropSub ch (lb_subs b)) = fst ` set (lb_subs b) - {ch}"
      by (auto simp: dropSub_def)
    moreover have "log_inv ?b"
      using 3 open_ch subs by (auto simp: log_inv_def nth_list_update dropSub_def distinct_map_filter)
    moreover have "log_known ?b = log_known b" "log_live ?b = (log_live b)(ch := False)" "log_queue ?b = log_queue b"
      using open_ch subs by (auto simp: log_known_def log_live_def log_queue_def fun_eq_iff nth_list_update)
    moreover have "log_live ?b c \<Longrightarrow> log_wants ?b c = log_wants b c" for c
      using subs by (auto simp: log_live_def log_wants_def fun_eq_iff dropSub_def)
    ultimately show ?thesis by simp
  next
    case False
    then show ?thesis using 3 by (auto simp: CancelLogs_def log_live_def fun_eq_iff)
  qed
next
  case (4 b ch r b')
  show ?case
  proof (cases "ch < length (lb_chans b)")
    case True
    show ?thesis
    proof (cases "ch_buf (lb_chans b ! ch)")
      case Nil
      then show ?thesis using 4 True by (auto simp: ReceiveLog_def recvChan_def Let_def log_live_def log_known_def log_queue_def log_inv_def)
    next
      case (Cons v vs)
      then have b': "r = Got v" "b' = b\<lparr>lb_chans := (lb_chans b)[ch := (lb_chans b ! ch)\<lparr>ch_buf := vs\<rparr>]\<rparr>"
        using 4(2) True by (auto simp: ReceiveLog_def recvChan_def Let_def)
      then have "log_inv b'" using 4(1) True by (auto simp: log_inv_def nth_list_update)
      then show ?thesis using b' True Cons by (auto simp: log_views fun_eq_iff nth_list_update)
    qed
  next
    case False
    then show ?thesis using 4 by (auto simp: ReceiveLog_def recvChan_def log_live_def log_known_def log_queue_def log_inv_def)
  qed
qed

lemma NewLogBus_inv: "log_inv NewLogBus"
  by (auto simp: log_inv_def ring_inv_New) (simp_all add: NewLogBus_def)

subsection \<open>History and delivery\<close>

abbreviation logRun :: "(LogRecord, Filter) busOp list \<Rightarrow> LogBus \<Rightarrow> (LogBus \<times> (nat \<times> LogRecord) list) option" where
  "logRun ops b \<equiv> busRun PublishLog SubscribeFiltered CancelLogs ReceiveLog ops b []"

lemma logStep_recent:
  assumes "log_inv b" "busStep PublishLog SubscribeFiltered CancelLogs ReceiveLog op b got = Some (b', got')"
  shows "recent b' = lastn HistoryCapacity (recent b @ published [op])"
proof -
  have len: "length (recent b) \<le> HistoryCapacity" using assms(1) by (auto simp: recent_def log_inv_def ring_inv_def)
  then have id: "lastn HistoryCapacity (recent b) = recent b" by (simp add: lastn_def)
  show ?thesis
  proof (cases op)
    case (Pub r)
    then show ?thesis
      using assms PublishLog_eq [OF assms(1), of r] appendHistory_recent(1) [of b r] by (auto simp: log_inv_def)
  next
    case (Cancel c)
    then have "recent b' = recent b" using assms(2) by (auto simp: CancelLogs_def split: if_splits)
    then show ?thesis using Cancel id by simp
  qed (use assms(2) id in \<open>auto simp: SubscribeFiltered_def makeChan_def ReceiveLog_def split: prod.splits\<close>)
qed

lemma lastn_lastn: "lastn k (lastn k xs @ ys) = lastn k (xs @ ys)"
proof (induction ys rule: rev_induct)
  case Nil
  then show ?case by (simp add: lastn_def)
next
  case (snoc y ys)
  have "lastn k ((lastn k xs @ ys) @ [y]) = lastn k (lastn k (lastn k xs @ ys) @ [y])" by (simp only: lastn_snoc)
  also have "\<dots> = lastn k ((xs @ ys) @ [y])" by (simp only: snoc lastn_snoc)
  finally show ?case by simp
qed

lemma logRun_recent:
  assumes "log_inv b"
  shows "\<exists>b' got'. busRun PublishLog SubscribeFiltered CancelLogs ReceiveLog ops b got = Some (b', got') \<and> log_inv b' \<and>
    recent b' = lastn HistoryCapacity (recent b @ published ops)"
  using assms
proof (induction ops arbitrary: b got)
  case Nil
  then show ?case by (auto simp: lastn_def recent_def log_inv_def ring_inv_def)
next
  case (Cons op ops)
  obtain b1 got1 where b1: "busStep PublishLog SubscribeFiltered CancelLogs ReceiveLog op b got = Some (b1, got1)" "log_inv b1"
    using logs.run_ok [OF Cons.prems, of "[op]" got] by (auto split: option.splits)
  have pub: "published (op # ops) = published [op] @ published ops" using published_append [of "[op]" ops] by simp
  obtain b2 got2 where b2: "busRun PublishLog SubscribeFiltered CancelLogs ReceiveLog ops b1 got1 = Some (b2, got2)" "log_inv b2"
    "recent b2 = lastn HistoryCapacity (recent b1 @ published ops)"
    using Cons.IH [OF b1(2)] by blast
  have "recent b2 = lastn HistoryCapacity (recent b @ published (op # ops))"
    using b2(3) logStep_recent [OF Cons.prems b1(1)] pub by (simp add: lastn_lastn)
  then show ?case using b1(1) b2 by simp
qed

text \<open>
  C29. The ring buffer with its wrapping write index is the list of the last
  \<open>HistoryCapacity\<close> published records: after any operations on a new bus, a history query returns,
  oldest first, the last \<open>n\<close> of the records among them that match the filter.
\<close>

theorem History_last_matching:
  "\<exists>b got. logRun ops NewLogBus = Some (b, got) \<and>
     History n f b = lastn (nat n) (filter (match f) (lastn HistoryCapacity (published ops)))"
proof -
  obtain b got where b: "logRun ops NewLogBus = Some (b, got)" "log_inv b"
    "recent b = lastn HistoryCapacity (recent NewLogBus @ published ops)"
    using logRun_recent [OF NewLogBus_inv] by blast
  then show ?thesis
    using History_eq [of b n f] by (auto simp: log_inv_def ring_inv_New)
qed

lemma filtered_logs_delivered:
  assumes "log_inv b" "SubscribeFiltered f b = (ch, b1)"
  shows "\<exists>b2 got. logRun ops b1 = Some (b2, got) \<and> prefix (mine ch got @ log_queue b2 ch) (filter (match f) (published ops)) \<and>
    (log_live b2 ch \<longrightarrow> mine ch got @ log_queue b2 ch = filter (match f) (published ops))"
proof -
  have known: "ch \<notin> fst ` set (lb_subs b)" "lb_subs b1 = lb_subs b @ [(ch, f)]"
    using assms by (auto simp: SubscribeFiltered_def makeChan_def log_inv_def)
  then have w: "log_wants b1 ch = match f" by (force simp: log_wants_def fun_eq_iff)
  have "logs.in_step ch (match f) b1 [] (mine ch [])"
    using logs.subscribe_ok [OF assms] w by (auto simp: logs.in_step_def)
  then show ?thesis
    using logs.run_in_step [of ch "match f" b1 "[]" "[]" ops] by (auto simp: logs.in_step_def)
qed

subsection \<open>The slog handler\<close>

datatype slogValue = VGroup "(string \<times> slogValue) list" | VString string | VOther string

type_synonym slogAttr = "string \<times> slogValue"

record slogRecord =
  sl_Time :: instant
  sl_Level :: int
  sl_Message :: string
  sl_Attrs :: "slogAttr list"

record 'n NextHandler =
  nx_Enabled :: "'n \<Rightarrow> int \<Rightarrow> bool"
  nx_Handle :: "'n \<Rightarrow> slogRecord \<Rightarrow> go_error option"
  nx_WithAttrs :: "'n \<Rightarrow> slogAttr list \<Rightarrow> 'n"
  nx_WithGroup :: "'n \<Rightarrow> string \<Rightarrow> 'n"

record 'n Handler =
  hd_next :: 'n
  hd_attrs :: "slogAttr list"
  hd_groups :: "string list"

definition NewHandler :: "'n \<Rightarrow> 'n Handler" where
  "NewHandler next = \<lparr>hd_next = next, hd_attrs = [], hd_groups = []\<rparr>"

definition Enabled :: "'n NextHandler \<Rightarrow> 'n Handler \<Rightarrow> int \<Rightarrow> bool" where
  "Enabled env h level = nx_Enabled env (hd_next h) level"

definition WithAttrs :: "'n NextHandler \<Rightarrow> slogAttr list \<Rightarrow> 'n Handler \<Rightarrow> 'n Handler" where
  "WithAttrs env attrs h =
     (if attrs = [] then h
      else h\<lparr>hd_attrs := hd_attrs h @ attrs, hd_next := nx_WithAttrs env (hd_next h) attrs\<rparr>)"

definition WithGroup :: "'n NextHandler \<Rightarrow> string \<Rightarrow> 'n Handler \<Rightarrow> 'n Handler" where
  "WithGroup env name h =
     (if name = '''' then h
      else h\<lparr>hd_groups := hd_groups h @ [name], hd_next := nx_WithGroup env (hd_next h) name, hd_attrs := []\<rparr>)"

fun joinDots :: "string list \<Rightarrow> string" where
  "joinDots [] = ''''"
| "joinDots [g] = g"
| "joinDots (g # h # gs) = g @ ''.'' @ joinDots (h # gs)"

definition groupPrefix :: "string list \<Rightarrow> string" where
  "groupPrefix groups = (if groups = [] then '''' else joinDots groups @ ''.'')"

definition childPrefix :: "string \<Rightarrow> string \<Rightarrow> string" where
  "childPrefix pre groupName =
     (if pre = '''' \<and> groupName = '''' then ''''
      else if groupName = '''' then pre
      else if pre = '''' then groupName @ ''.''
      else pre @ groupName @ ''.'')"

fun flattenAttr :: "string \<Rightarrow> string \<Rightarrow> slogValue \<Rightarrow> (string \<times> string) list \<Rightarrow> (string \<times> string) list"
  and flattenAttrs :: "string \<Rightarrow> (string \<times> slogValue) list \<Rightarrow> (string \<times> string) list \<Rightarrow> (string \<times> string) list" where
  "flattenAttr pre key (VGroup as) out = flattenAttrs (childPrefix pre key) as out"
| "flattenAttr pre key (VString v) out = AList.update (pre @ key) v out"
| "flattenAttr pre key (VOther v) out = AList.update (pre @ key) v out"
| "flattenAttrs pre [] out = out"
| "flattenAttrs pre ((k, v) # as) out = flattenAttrs pre as (flattenAttr pre k v out)"

definition toRecord :: "'n Handler \<Rightarrow> slogRecord \<Rightarrow> LogRecord" where
  "toRecord h r =
     \<lparr>lr_At = sl_Time r, lr_Level = sl_Level r, lr_Message = sl_Message r,
      lr_Attrs = flattenAttrs (groupPrefix (hd_groups h)) (sl_Attrs r) (flattenAttrs '''' (hd_attrs h) [])\<rparr>"

text \<open>The bus may be absent; the record goes to the bus first and then to the wrapped handler.\<close>

definition Handle_log :: "'n NextHandler \<Rightarrow> 'n Handler \<Rightarrow> slogRecord \<Rightarrow> LogBus option \<Rightarrow> (go_error option \<times> LogBus option) option" where
  "Handle_log env h r bus =
     (case bus of
        None \<Rightarrow> Some (nx_Handle env (hd_next h) r, None)
      | Some b \<Rightarrow> map_option (\<lambda>b'. (nx_Handle env (hd_next h) r, Some b')) (PublishLog (toRecord h r) b))"

lemma childPrefix_extends: "prefix pre (childPrefix pre key)"
  by (simp add: childPrefix_def)

text \<open>A key that does not start with the prefix keeps its value.\<close>

lemma flatten_lookup_other:
  "\<not> prefix pre k \<Longrightarrow> map_of (flattenAttr pre key v out) k = map_of out k"
  "\<not> prefix pre k \<Longrightarrow> map_of (flattenAttrs pre as out) k = map_of out k"
proof (induction pre key v out and pre as out rule: flattenAttr_flattenAttrs.induct)
  case (1 pre key as out)
  then show ?case using childPrefix_extends [of pre key] prefix_order.trans by auto
qed (auto simp: update_conv')

lemma groupPrefix_dot: "gs \<noteq> [] \<Longrightarrow> CHR ''.'' \<in> set (groupPrefix gs)"
  by (simp add: groupPrefix_def)

text \<open>
  Once a group is open, neither the attributes given before it nor the record's own reach the
  published record under their plain names: a subscription by worker or by job sees nothing of it.
\<close>

lemma grouped_logger_unfiltered:
  assumes "name \<noteq> ''''" "fl_InstanceID f \<noteq> '''' \<or> fl_Handle f \<noteq> ''''"
  shows "\<not> match f (toRecord (WithGroup env name h) r)"
proof -
  let ?h = "WithGroup env name h"
  have "CHR ''.'' \<in> set (groupPrefix (hd_groups ?h))"
    using assms(1) by (intro groupPrefix_dot) (simp add: WithGroup_def)
  then have no: "\<not> prefix (groupPrefix (hd_groups ?h)) k" if "CHR ''.'' \<notin> set k" for k
    using that set_mono_prefix by blast
  have "attrOf (toRecord ?h r) k = ''''" if "CHR ''.'' \<notin> set k" for k
    using flatten_lookup_other(2) [OF no [OF that]] assms(1) by (simp add: attrOf_def toRecord_def WithGroup_def)
  then have "attrOf (toRecord ?h r) ''id'' = ''''" "attrOf (toRecord ?h r) ''handle'' = ''''" by simp_all
  then show ?thesis using assms(2) by (auto simp: match_def)
qed

text \<open>A logger scoped with an attribute, as the orchestrator scopes its loggers by worker: its records are found.\<close>

lemma flatten_scalars:
  assumes "list_all (\<lambda>(k', v). (\<forall>as. v \<noteq> VGroup as) \<and> k' \<noteq> k) as"
  shows "map_of (flattenAttrs '''' as out) k = map_of out k"
  using assms
proof (induction as arbitrary: out)
  case (Cons a as)
  obtain k' v where a: "a = (k', v)" by force
  have "map_of (flattenAttr '''' k' v out) k = map_of out k"
    using Cons.prems a by (cases v) (auto simp: update_conv')
  then show ?case using Cons a by simp
qed simp

lemma flattenAttrs_append: "flattenAttrs pre (as @ bs) out = flattenAttrs pre bs (flattenAttrs pre as out)"
  by (induction as arbitrary: out) auto

lemma scoped_logger_found:
  assumes "hd_groups h = []" "list_all (\<lambda>(k, v). (\<forall>as. v \<noteq> VGroup as) \<and> k \<noteq> ''id'') (sl_Attrs r)"
  shows "match \<lparr>fl_InstanceID = i, fl_Handle = ''''\<rparr> (toRecord (WithAttrs env [(''id'', VString i)] h) r)"
  using flatten_scalars [OF assms(2)] assms(1)
  by (simp add: match_def attrOf_def toRecord_def WithAttrs_def flattenAttrs_append groupPrefix_def update_conv')

end
