(* ===== verification/Routed_Source.thy ===== *)
theory Routed_Source
  imports Routing_Store Labels External_Types Effects
begin

text \<open>
  The job source of a tier under automatic routing, src/internal/router/source.go: the tier's own
  Forgejo queue merged with the durable routing decisions. The wrapped source's calls are the
  parameters \<open>base\<close> on its world \<open>'w\<close>; \<open>unmarshal\<close> is \<open>json.Unmarshal\<close> into a waiting job. The
  optimization set under its lock is a field of the source.
\<close>

record RoutedSource =
  so_Tier :: string
  so_AutomaticLabels :: "string list"
  so_ExplicitLabels :: "string list"
  so_optimization :: "string list"

definition setOptimizationQueue :: "string list \<Rightarrow> RoutedSource \<Rightarrow> RoutedSource" where
  "setOptimizationQueue handles s = s\<lparr>so_optimization := handles\<rparr>"

definition HoldForRoutingOptimization :: "RoutedSource \<Rightarrow> string \<Rightarrow> bool" where
  "HoldForRoutingOptimization s handle \<longleftrightarrow> handle \<in> set (so_optimization s)"

definition automaticOnly :: "RoutedSource \<Rightarrow> WaitingJob \<Rightarrow> bool" where
  "automaticOnly s job \<longleftrightarrow> hasExplicitLabel (wj_Labels job) (so_AutomaticLabels s) \<and>
     \<not> hasExplicitLabel (wj_Labels job) (so_ExplicitLabels s)"

fun mergeRouted :: "(string \<Rightarrow> WaitingJob result) \<Rightarrow> RoutedJob list \<Rightarrow> string set \<Rightarrow> string list \<Rightarrow> WaitingJob list \<Rightarrow>
    (string list \<times> WaitingJob list) result" where
  "mergeRouted unmarshal [] seen optimization jobs = Inr (optimization, jobs)"
| "mergeRouted unmarshal (assignment # routed) seen optimization jobs =
     (case unmarshal (rj_PayloadJSON assignment) of
        Inl e \<Rightarrow> Inl e
      | Inr job \<Rightarrow>
          let optimization' = (if rj_OptimizationQueued assignment then wj_Handle job # optimization else optimization)
          in if wj_Handle job \<in> seen then mergeRouted unmarshal routed seen optimization' jobs
             else mergeRouted unmarshal routed (insert (wj_Handle job) seen) optimization' (jobs @ [job]))"

definition queueOrder :: "WaitingJob list \<Rightarrow> WaitingJob list" where
  "queueOrder = sort_key (\<lambda>j. (wj_ID j, wj_Handle j))"

text \<open>The source, the world of the wrapped source and the store change; \<open>now\<close> is the reading of the clock.\<close>

definition WaitingJobs ::
  "('w \<Rightarrow> WaitingJob list result \<times> 'w) \<Rightarrow> (string \<Rightarrow> WaitingJob result) \<Rightarrow> instant \<Rightarrow>
   RoutedSource \<times> 'w \<times> SQLite \<Rightarrow> WaitingJob list result \<times> RoutedSource \<times> 'w \<times> SQLite" where
  "WaitingJobs base unmarshal now = (\<lambda>(s, w, db).
     let s = setOptimizationQueue [] s in
     case base w of
       (Inl e, w) \<Rightarrow> (Inl e, s, w, db)
     | (Inr jobs, w) \<Rightarrow>
         let jobs = filter (\<lambda>job. \<not> automaticOnly s job) jobs in
         (case PendingRoutedJobs (so_Tier s) now db of
            (Inl e, db) \<Rightarrow> (Inl e, s, w, db)
          | (Inr routed, db) \<Rightarrow>
              (case mergeRouted unmarshal routed (set (map wj_Handle jobs)) [] jobs of
                 Inl e \<Rightarrow> (Inl e, s, w, db)
               | Inr (optimization, jobs) \<Rightarrow> (Inr (queueOrder jobs), setOptimizationQueue optimization s, w, db))))"

text \<open>The other operations pass through to the wrapped source; the metadata capability may be missing.\<close>

definition ErrMetadataUnavailable :: go_error where
  "ErrMetadataUnavailable = ErrOther ''forgejo job metadata unavailable''"

definition JobMetadata_routed ::
  "(WaitingJob \<Rightarrow> 'w \<Rightarrow> JobMetadata result \<times> 'w) option \<Rightarrow> WaitingJob \<Rightarrow> 'w \<Rightarrow> JobMetadata result \<times> 'w" where
  "JobMetadata_routed source job w =
     (case source of Some f \<Rightarrow> f job w | None \<Rightarrow> (Inl ErrMetadataUnavailable, w))"

subsection \<open>Merging\<close>

lemma mergeRouted_Cons:
  assumes "mergeRouted unmarshal (a # routed) seen optimization jobs = Inr (optimization', jobs')" "set (map wj_Handle jobs) = seen"
  shows "\<exists>j seen1 opt1 jobs1. unmarshal (rj_PayloadJSON a) = Inr j \<and>
      mergeRouted unmarshal routed seen1 opt1 jobs1 = Inr (optimization', jobs') \<and> set (map wj_Handle jobs1) = seen1 \<and>
      set opt1 = set optimization \<union> {h. rj_OptimizationQueued a \<and> wj_Handle j = h} \<and>
      seen1 = insert (wj_Handle j) seen \<and>
      jobs1 = (if wj_Handle j \<in> seen then jobs else jobs @ [j])"
proof -
  obtain j where j: "unmarshal (rj_PayloadJSON a) = Inr j" using assms(1) by (cases "unmarshal (rj_PayloadJSON a)") auto
  show ?thesis
    using assms j by (cases "wj_Handle j \<in> seen") (auto simp: Let_def insert_absorb split: if_splits)
qed

lemma mergeRouted_spec:
  assumes "mergeRouted unmarshal routed seen optimization jobs = Inr (optimization', jobs')" "set (map wj_Handle jobs) = seen"
  shows "\<exists>added. jobs' = jobs @ added \<and> distinct (map wj_Handle added) \<and>
      wj_Handle ` set added \<inter> seen = {} \<and>
      (\<forall>j \<in> set added. \<exists>a \<in> set routed. unmarshal (rj_PayloadJSON a) = Inr j)"
    and "\<forall>a \<in> set routed. \<exists>j. unmarshal (rj_PayloadJSON a) = Inr j \<and> wj_Handle j \<in> wj_Handle ` set jobs'"
    and "set optimization' = set optimization \<union>
      {h. \<exists>a \<in> set routed. rj_OptimizationQueued a \<and> (\<exists>j. unmarshal (rj_PayloadJSON a) = Inr j \<and> wj_Handle j = h)}"
  using assms
proof (induction routed arbitrary: seen optimization jobs)
  case Nil
  case 1 then show ?case using Nil by simp
  case 2 then show ?case by simp
  case 3 then show ?case by simp
next
  case (Cons a routed)
  note IH = Cons.IH and step = mergeRouted_Cons
  {
    case 1
    then obtain j seen1 opt1 jobs1 where s: "unmarshal (rj_PayloadJSON a) = Inr j"
      "mergeRouted unmarshal routed seen1 opt1 jobs1 = Inr (optimization', jobs')" "set (map wj_Handle jobs1) = seen1"
      "seen1 = insert (wj_Handle j) seen" "jobs1 = (if wj_Handle j \<in> seen then jobs else jobs @ [j])"
      using step [OF 1] by blast
    obtain added where "jobs' = jobs1 @ added" "distinct (map wj_Handle added)" "wj_Handle ` set added \<inter> seen1 = {}"
      "\<forall>j \<in> set added. \<exists>a \<in> set routed. unmarshal (rj_PayloadJSON a) = Inr j"
      using IH(1) [OF s(2,3)] by blast
    then show ?case
      using s by (intro exI [of _ "(if wj_Handle j \<in> seen then [] else [j]) @ added"]) auto
  next
    case 2
    then obtain j seen1 opt1 jobs1 where s: "unmarshal (rj_PayloadJSON a) = Inr j"
      "mergeRouted unmarshal routed seen1 opt1 jobs1 = Inr (optimization', jobs')" "set (map wj_Handle jobs1) = seen1"
      "seen1 = insert (wj_Handle j) seen"
      using step [OF 2] by blast
    have "wj_Handle ` set jobs1 \<subseteq> wj_Handle ` set jobs'" using IH(1) [OF s(2,3)] by auto
    moreover have "wj_Handle j \<in> wj_Handle ` set jobs1" using s(3,4) by simp
    ultimately show ?case using IH(2) [OF s(2,3)] s(1) by auto
  next
    case 3
    then obtain j seen1 opt1 jobs1 where s: "unmarshal (rj_PayloadJSON a) = Inr j"
      "mergeRouted unmarshal routed seen1 opt1 jobs1 = Inr (optimization', jobs')" "set (map wj_Handle jobs1) = seen1"
      "set opt1 = set optimization \<union> {h. rj_OptimizationQueued a \<and> wj_Handle j = h}"
      using step [OF 3] by blast
    then show ?case using IH(3) [OF s(2,3)] by auto
  }
qed

subsection \<open>The merged queue\<close>

text \<open>A decision that assigns its job to the tier and has not expired, of a job the ledger knows as waiting.\<close>

definition assignedTo :: "string \<Rightarrow> instant \<Rightarrow> Tables \<Rightarrow> RoutingDecisionRow \<Rightarrow> bool" where
  "assignedTo tier now d r \<longleftrightarrow> r \<in> set (t_decisions d) \<and> d_State r = RoutingAssigned \<and> d_SelectedTier r = tier \<and>
     \<not> is_zero (d_ExpiresAt r) \<and> now < d_ExpiresAt r \<and> jobObserved (d_JobID r) d"

lemma PendingRoutedJobs_rows:
  assumes "PendingRoutedJobs tier now db = (Inr routed, db')"
  shows "set routed = (\<lambda>r. \<lparr>rj_DecisionID = d_ID r, rj_JobID = d_JobID r, rj_PayloadJSON = d_PayloadJSON r,
        rj_OptimizationQueued = (d_OptimizationQueued r \<and> d_OptimizationActive r)\<rparr>) ` {r. assignedTo tier now (tables db) r}"
proof -
  have d: "draw db = (None, db')"
    using assms by (auto simp: PendingRoutedJobs_def query_def split: prod.splits option.splits)
  then have t: "tables db' = tables db" by (auto simp: draw_def split: list.splits)
  have "filter (\<lambda>r. d_State r = RoutingAssigned \<and> d_SelectedTier r = tier \<and> \<not> is_zero (d_ExpiresAt r) \<and>
        now < d_ExpiresAt r \<and> jobObserved (d_JobID r) (tables db)) (t_decisions (tables db)) =
      filter (assignedTo tier now (tables db)) (t_decisions (tables db))"
    by (rule filter_cong) (simp_all add: assignedTo_def)
  then have "routed = map (\<lambda>r. \<lparr>rj_DecisionID = d_ID r, rj_JobID = d_JobID r, rj_PayloadJSON = d_PayloadJSON r,
        rj_OptimizationQueued = (d_OptimizationQueued r \<and> d_OptimizationActive r)\<rparr>)
      (sort_key (\<lambda>r. (d_FirstSeenAt r, d_ID r)) (filter (assignedTo tier now (tables db)) (t_decisions (tables db))))"
    using assms d t by (simp add: PendingRoutedJobs_def query_def)
  then show ?thesis by (auto simp: assignedTo_def)
qed

lemma WaitingJobs_cases:
  assumes "WaitingJobs base unmarshal now (s, w, db) = (Inr jobs, s', w', db')"
  obtains own routed optimization merged where "base w = (Inr own, w')"
    "PendingRoutedJobs (so_Tier s) now db = (Inr routed, db')"
    "mergeRouted unmarshal routed (set (map wj_Handle (filter (\<lambda>j. \<not> automaticOnly s j) own))) []
       (filter (\<lambda>j. \<not> automaticOnly s j) own) = Inr (optimization, merged)"
    "jobs = queueOrder merged" "so_optimization s' = optimization"
  using assms
  by (auto simp: WaitingJobs_def setOptimizationQueue_def automaticOnly_def Let_def split: prod.splits sum.splits)

text \<open>
  C30. What a tier's orchestrator sees as its queue under automatic routing. A job is in it exactly
  when the tier's own Forgejo queue has it and it is not automatic-only, or a live durable decision
  assigns it to the tier; so an automatic-only job runs on the tier the router chose and
  nowhere else. The queue is ordered by job id and handle, keeps every handle once if the Forgejo
  queue does, and a job is held back for optimization exactly when an active optimization decision of this
  tier says so.
\<close>

theorem WaitingJobs_routed:
  assumes "WaitingJobs base unmarshal now (s, w, db) = (Inr jobs, s', w', db')"
  shows "\<exists>own. base w = (Inr own, w') \<and>
    (\<forall>j \<in> set jobs. j \<in> set own \<and> \<not> automaticOnly s j \<or>
       (\<exists>r. assignedTo (so_Tier s) now (tables db) r \<and> unmarshal (d_PayloadJSON r) = Inr j)) \<and>
    (\<forall>j \<in> set own. \<not> automaticOnly s j \<longrightarrow> j \<in> set jobs) \<and>
    (\<forall>r. assignedTo (so_Tier s) now (tables db) r \<longrightarrow>
       (\<exists>j. unmarshal (d_PayloadJSON r) = Inr j \<and> wj_Handle j \<in> wj_Handle ` set jobs)) \<and>
    sorted (map (\<lambda>j. (wj_ID j, wj_Handle j)) jobs) \<and>
    (distinct (map wj_Handle own) \<longrightarrow> distinct (map wj_Handle jobs)) \<and>
    (\<forall>h. HoldForRoutingOptimization s' h \<longleftrightarrow>
       (\<exists>r j. assignedTo (so_Tier s) now (tables db) r \<and> d_OptimizationQueued r \<and> d_OptimizationActive r \<and>
          unmarshal (d_PayloadJSON r) = Inr j \<and> wj_Handle j = h))"
proof -
  obtain own routed optimization merged where m: "base w = (Inr own, w')"
    "PendingRoutedJobs (so_Tier s) now db = (Inr routed, db')"
    "mergeRouted unmarshal routed (set (map wj_Handle (filter (\<lambda>j. \<not> automaticOnly s j) own))) []
       (filter (\<lambda>j. \<not> automaticOnly s j) own) = Inr (optimization, merged)"
    "jobs = queueOrder merged" "so_optimization s' = optimization"
    using WaitingJobs_cases [OF assms] .
  let ?own = "filter (\<lambda>j. \<not> automaticOnly s j) own"
  note rows = PendingRoutedJobs_rows [OF m(2)]
  note spec = mergeRouted_spec [OF m(3) refl]
  obtain added where added: "merged = ?own @ added" "distinct (map wj_Handle added)"
    "wj_Handle ` set added \<inter> set (map wj_Handle ?own) = {}"
    "\<forall>j \<in> set added. \<exists>a \<in> set routed. unmarshal (rj_PayloadJSON a) = Inr j"
    using spec(1) by blast
  have set_jobs: "set jobs = set ?own \<union> set added" using m(4) added(1) by (simp add: queueOrder_def)
  have fromDecision: "\<exists>r. assignedTo (so_Tier s) now (tables db) r \<and> unmarshal (d_PayloadJSON r) = Inr j" if "j \<in> set added" for j
    using added(4) that unfolding rows by auto
  have toQueue: "\<exists>j. unmarshal (d_PayloadJSON r) = Inr j \<and> wj_Handle j \<in> wj_Handle ` set jobs"
    if "assignedTo (so_Tier s) now (tables db) r" for r
    using spec(2) that m(4) unfolding rows by (auto simp: queueOrder_def)
  have hold: "HoldForRoutingOptimization s' h \<longleftrightarrow>
       (\<exists>r j. assignedTo (so_Tier s) now (tables db) r \<and> d_OptimizationQueued r \<and> d_OptimizationActive r \<and>
          unmarshal (d_PayloadJSON r) = Inr j \<and> wj_Handle j = h)" for h
    using spec(3) m(5) unfolding rows HoldForRoutingOptimization_def by auto
  have once: "distinct (map wj_Handle jobs)" if "distinct (map wj_Handle own)"
  proof -
    have "distinct (map wj_Handle merged)"
      using that added(1,2,3) by (auto simp: distinct_map_filter)
    then show ?thesis
      using m(4) by (simp add: queueOrder_def distinct_map)
  qed
  have "sorted (map (\<lambda>j. (wj_ID j, wj_Handle j)) jobs)" using m(4) by (simp add: queueOrder_def)
  moreover have "\<forall>j \<in> set jobs. j \<in> set own \<and> \<not> automaticOnly s j \<or>
       (\<exists>r. assignedTo (so_Tier s) now (tables db) r \<and> unmarshal (d_PayloadJSON r) = Inr j)"
    using set_jobs fromDecision by auto
  moreover have "\<forall>j \<in> set own. \<not> automaticOnly s j \<longrightarrow> j \<in> set jobs" using set_jobs by simp
  ultimately show ?thesis
    by (intro exI [of _ own] conjI m(1) allI impI toQueue hold once) assumption+
qed

text \<open>A tier with one explicit job, one automatic-only job of another tier, and one routed job that is held.\<close>

definition sample_waiting_job :: "int \<Rightarrow> string \<Rightarrow> string \<Rightarrow> WaitingJob" where
  "sample_waiting_job i handle label = \<lparr>wj_ID = i, wj_Attempt = 1, wj_Handle = handle, wj_RepoID = 1, wj_OwnerID = 1, wj_RunID = i,
     wj_WorkflowID = ''ci.yml'', wj_CommitSHA = '''', wj_Labels = [label], wj_Status = ''waiting'', wj_TaskID = 0, wj_Name = ''build''\<rparr>"

definition sample_routed_store :: SQLite where
  "sample_routed_store = sample_store\<lparr>tables := sample_tables
     \<lparr>t_jobs := [sample_job\<lparr>j_ID := 1, j_CompletedAt := zero_time, j_Status := JobObserved\<rparr>],
      t_decisions := [RoutingDecision.extend (decisionZero\<lparr>d_ID := 1, d_JobID := 1, d_State := RoutingAssigned,
          d_PayloadJSON := ''routed'', d_SelectedTier := ''small'', d_ExpiresAt := 500, d_OptimizationQueued := True,
          d_OptimizationActive := True\<rparr>) \<lparr>d_OptimizationReleasedAt = zero_time\<rparr>]\<rparr>\<rparr>"

definition sample_source :: RoutedSource where
  "sample_source = \<lparr>so_Tier = ''small'', so_AutomaticLabels = [''auto''], so_ExplicitLabels = [''small''], so_optimization = []\<rparr>"

definition sample_merge :: "WaitingJob list result \<times> RoutedSource \<times> unit \<times> SQLite" where
  "sample_merge = WaitingJobs (\<lambda>w. (Inr [sample_waiting_job 3 ''other'' ''auto'', sample_waiting_job 2 ''own'' ''small''], w))
     (\<lambda>p. Inr (sample_waiting_job 1 p ''auto'')) 100 (sample_source, (), sample_routed_store)"

lemma sample_merge_eq:
  "sample_merge = (Inr [sample_waiting_job 1 ''routed'' ''auto'', sample_waiting_job 2 ''own'' ''small''],
     sample_source\<lparr>so_optimization := [''routed'']\<rparr>, (), sample_routed_store)"
  by (simp add: sample_merge_def WaitingJobs_def setOptimizationQueue_def PendingRoutedJobs_def query_def draw_def
      sample_routed_store_def sample_store_def automaticOnly_def sample_source_def sample_waiting_job_def hasExplicitLabel_def
      RoutingDecision.defs decisionZero_def is_zero_def zero_time_def jobObserved_def queueOrder_def insort_key.simps)

theorem WaitingJobs_routed_witness:
  "sorted (map (\<lambda>j. (wj_ID j, wj_Handle j)) [sample_waiting_job 1 ''routed'' ''auto'', sample_waiting_job 2 ''own'' ''small'']) \<and>
   (\<exists>r j. assignedTo ''small'' 100 (tables sample_routed_store) r \<and> d_OptimizationQueued r \<and> d_OptimizationActive r \<and>
      sample_waiting_job 1 (d_PayloadJSON r) ''auto'' = j \<and> wj_Handle j = ''routed'')"
proof -
  have hold: "HoldForRoutingOptimization (sample_source\<lparr>so_optimization := [''routed'']\<rparr>) ''routed''"
    by (simp add: HoldForRoutingOptimization_def)
  have tier: "so_Tier sample_source = ''small''" by (simp add: sample_source_def)
  show ?thesis
    using WaitingJobs_routed [OF sample_merge_eq [unfolded sample_merge_def]]
    by (elim exE conjE) (use hold in \<open>simp only: tier sum.inject\<close>)
qed

end
