(* ===== verification/Fleet.thy ===== *)
theory Fleet
  imports Orch_Control
begin

text \<open>
  The fleet of src/internal/orchestrator/fleet.go: several tier orchestrators behind one control
  surface. The state of a fleet is the state of each of its tiers; a call of a tier's method is the tier's
  program run on its own component. A \<open>range\<close> over the tier map follows the list \<open>fl_tiers\<close>, whose
  order stands for the free iteration order of the map. The tier names, environments and
  configurations never change. \<open>Run\<close> starts the tier loops and forwards their events;
  each tier's own runs are those of \<open>tierSteps\<close>.
\<close>

subsection \<open>A tier's program in the fleet\<close>

type_synonym 'w FleetState = "string \<Rightarrow> 'w Orchestrator"
type_synonym ('w, 'a) fleet = "(string \<times> Task, 'w FleetState, 'a) prog"

primrec onTier :: "string \<Rightarrow> ('w, 'a) orch \<Rightarrow> ('w, 'a) fleet" where
  "onTier n (Ret a) = Ret a"
| "onTier n (Act u h) = Act (\<lambda>F. F(n := u (F n))) (\<lambda>F. onTier n (h (F n)))"
| "onTier n (Spawn t p) = Spawn (n, t) (onTier n p)"

lemma exec_onTier:
  "exec (onTier n p) F = (case exec p (F n) of (a, s, ts) \<Rightarrow> (a, F(n := s), map (Pair n) ts))"
  by (induction p arbitrary: F) (auto split: prod.splits)

lemma onTier_bindP: "onTier n (bindP p f) = bindP (onTier n p) (\<lambda>a. onTier n (f a))"
  by (induction p) auto

subsection \<open>The fleet\<close>

record 'w Fleet =
  fl_tiers :: "string list"
  fl_env :: "string \<Rightarrow> 'w Env"
  fl_cfg :: "string \<Rightarrow> Config"

text \<open>A tier that is a nil pointer is \<open>None\<close>.\<close>

definition NewFleet :: "(string \<times> ('w Env \<times> Config) option) list \<Rightarrow> 'w Fleet result" where
  "NewFleet tiers =
     (if tiers = [] then Inl (ErrOther ''orchestrator: fleet requires at least one tier'')
      else if list_ex (\<lambda>(name, tier). name = '''' \<or> tier = None) tiers
      then Inl (ErrOther ''orchestrator: fleet tier names and values must be non-empty'')
      else Inr \<lparr>fl_tiers = map fst tiers, fl_env = (\<lambda>n. fst (the (the (map_of tiers n)))),
                fl_cfg = (\<lambda>n. snd (the (the (map_of tiers n))))\<rparr>)"

definition TierNames :: "'w Fleet \<Rightarrow> string list" where
  "TierNames f = sort (fl_tiers f)"

definition FleetPoolSnapshot :: "'w Fleet \<Rightarrow> ('w, WorkerView list) fleet" where
  "FleetPoolSnapshot f =
     bindP (foldP (\<lambda>name out. bindP (onTier name (PoolSnapshot (fl_env f name) (fl_cfg f name))) (\<lambda>ws. Ret (out @ ws))) (TierNames f) [])
       (\<lambda>out. Ret (sort_key (\<lambda>w. (w_Tier w, w_InstanceID w)) out))"

definition RoutingSnapshots :: "'w Fleet \<Rightarrow> ('w, string \<rightharpoonup> RoutingTierSnapshot) fleet" where
  "RoutingSnapshots f =
     foldP (\<lambda>name out. bindP (onTier name (RoutingSnapshot (fl_env f name) (fl_cfg f name))) (\<lambda>s. Ret (out(name \<mapsto> s)))) (fl_tiers f) Map.empty"

definition olderOf :: "bool \<Rightarrow> instant \<Rightarrow> instant \<Rightarrow> instant" where
  "olderOf first h out = (if first \<or> h < out then h else out)"

definition mergeHealth :: "HealthStatus \<Rightarrow> bool \<times> HealthStatus \<Rightarrow> bool \<times> HealthStatus" where
  "mergeHealth h = (\<lambda>(first, out).
     (False, \<lparr>hs_Healthy = (hs_Healthy out \<and> hs_Healthy h),
              hs_LastTickAt = olderOf first (hs_LastTickAt h) (hs_LastTickAt out),
              hs_LastProviderListAt = olderOf first (hs_LastProviderListAt h) (hs_LastProviderListAt out),
              hs_LastForgejoPollAt = olderOf first (hs_LastForgejoPollAt h) (hs_LastForgejoPollAt out),
              hs_Paused = (hs_Paused out \<or> hs_Paused h)\<rparr>))"

definition FleetHealth :: "'w Fleet \<Rightarrow> ('w, HealthStatus) fleet" where
  "FleetHealth f =
     bindP (foldP (\<lambda>name acc. bindP (onTier name (tierHealth (fl_env f name))) (\<lambda>h. Ret (mergeHealth h acc))) (TierNames f)
              (True, \<lparr>hs_Healthy = True, hs_LastTickAt = zero_time, hs_LastProviderListAt = zero_time,
                      hs_LastForgejoPollAt = zero_time, hs_Paused = False\<rparr>))
       (\<lambda>(_, out). Ret out)"

text \<open>\<open>Kick\<close>: the replies of the tiers, in the order they arrive.\<close>

fun sumKicks :: "ReconcileResult result list \<Rightarrow> ReconcileResult \<Rightarrow> ReconcileResult \<times> go_error option" where
  "sumKicks [] out = (out, None)"
| "sumKicks (Inl e # rs) out = (out, Some e)"
| "sumKicks (Inr r # rs) out = sumKicks rs
     \<lparr>res_Provisioned = res_Provisioned out + res_Provisioned r, res_Dispatched = res_Dispatched out + res_Dispatched r,
      res_Reaped = res_Reaped out + res_Reaped r, res_Adopted = res_Adopted out + res_Adopted r,
      res_Dropped = res_Dropped out + res_Dropped r, res_Errors = res_Errors out @ res_Errors r\<rparr>"

definition FleetKick :: "ReconcileResult result list \<Rightarrow> ReconcileResult \<times> go_error option" where
  "FleetKick replies = sumKicks replies emptyResult"

definition fleetTier :: "'w Fleet \<Rightarrow> string \<Rightarrow> string result" where
  "fleetTier f name =
     (if name \<noteq> ''''
      then (if name \<in> set (fl_tiers f) then Inr name else Inl (ErrOther (''unknown tier '' @ quoted name)))
      else if length (fl_tiers f) \<noteq> 1 then Inl (ErrOther ''tier selector is required for a multi-tier fleet'')
      else Inr (hd (fl_tiers f)))"

definition ForceProvisionIn :: "'w Fleet \<Rightarrow> string \<Rightarrow> ('w, string result) fleet" where
  "ForceProvisionIn f tier =
     (case fleetTier f tier of
        Inl e \<Rightarrow> Ret (Inl e)
      | Inr n \<Rightarrow> onTier n (doForceProvision (fl_env f n) (fl_cfg f n)))"

definition hasInstance :: "'w Fleet \<Rightarrow> string \<Rightarrow> string \<Rightarrow> ('w, bool) fleet" where
  "hasInstance f instanceID n =
     bindP (onTier n (PoolSnapshot (fl_env f n) (fl_cfg f n)))
       (\<lambda>ws. Ret (list_ex (\<lambda>w. w_InstanceID w = instanceID) ws))"

definition matchingTiers :: "'w Fleet \<Rightarrow> string \<Rightarrow> ('w, string list) fleet" where
  "matchingTiers f instanceID =
     foldP (\<lambda>n acc. bindP (hasInstance f instanceID n) (\<lambda>b. Ret (if b then acc @ [n] else acc))) (fl_tiers f) []"

definition ForceReapIn :: "'w Fleet \<Rightarrow> string \<Rightarrow> string \<Rightarrow> ('w, unit result) fleet" where
  "ForceReapIn f tier instanceID =
     (if tier \<noteq> ''''
      then (case fleetTier f tier of
              Inl e \<Rightarrow> Ret (Inl e)
            | Inr n \<Rightarrow> onTier n (doForceReap (fl_env f n) (fl_cfg f n) instanceID))
      else bindP (matchingTiers f instanceID) (\<lambda>matches.
             if length matches \<noteq> 1
             then Ret (Inl (ErrOther (''instance '' @ quoted instanceID @ '' matched '' @ formatNat (length matches) @
                    '' tiers; provide a tier selector'')))
             else let n = hd matches in onTier n (doForceReap (fl_env f n) (fl_cfg f n) instanceID)))"

definition FleetPause :: "'w Fleet \<Rightarrow> string \<Rightarrow> ('w, unit) fleet" where
  "FleetPause f caller = forP (\<lambda>n. onTier n (Pause (fl_env f n) (fl_cfg f n) caller)) (fl_tiers f)"

definition FleetResume :: "'w Fleet \<Rightarrow> string \<Rightarrow> ('w, unit) fleet" where
  "FleetResume f caller = forP (\<lambda>n. onTier n (Resume (fl_env f n) (fl_cfg f n) caller)) (fl_tiers f)"

definition FleetApplyHotConfig :: "'w Fleet \<Rightarrow> string \<Rightarrow> Config \<Rightarrow> ('w, string list result) fleet" where
  "FleetApplyHotConfig f tier newCfg =
     (if tier \<notin> set (fl_tiers f) then Ret (Inl (ErrOther (''unknown tier '' @ quoted tier)))
      else onTier tier (ApplyHotConfig (fl_cfg f tier) newCfg))"

definition CurrentConfigs :: "'w Fleet \<Rightarrow> ('w, string \<rightharpoonup> Config) fleet" where
  "CurrentConfigs f =
     foldP (\<lambda>n out. bindP (onTier n (CurrentConfig (fl_cfg f n))) (\<lambda>c. Ret (out(n \<mapsto> c)))) (fl_tiers f) Map.empty"

subsection \<open>What a view leaves alone\<close>

text \<open>Reading the clock is the only step of a view that can change anything.\<close>

definition clockOnly :: "'w FleetState \<Rightarrow> 'w FleetState \<Rightarrow> bool" where
  "clockOnly F F' \<longleftrightarrow> (\<forall>n. \<exists>w. F' n = (F n)\<lparr>oc_world := w\<rparr>)"

lemma clockOnly_refl [simp]: "clockOnly F F"
proof -
  have "F n = (F n)\<lparr>oc_world := oc_world (F n)\<rparr>" for n by simp
  then show ?thesis unfolding clockOnly_def by metis
qed

lemma clockOnly_trans:
  assumes "clockOnly F G" "clockOnly G H"
  shows "clockOnly F H"
  unfolding clockOnly_def
proof
  fix n
  obtain w where "G n = (F n)\<lparr>oc_world := w\<rparr>" using assms(1) unfolding clockOnly_def by metis
  moreover obtain v where "H n = (G n)\<lparr>oc_world := v\<rparr>" using assms(2) unfolding clockOnly_def by metis
  ultimately have "H n = (F n)\<lparr>oc_world := v\<rparr>" by simp
  then show "\<exists>w. H n = (F n)\<lparr>oc_world := w\<rparr>" ..
qed

lemma clockOnly_upd: "clockOnly F (F(n := (F n)\<lparr>oc_world := w\<rparr>))"
  using clockOnly_refl [of F] unfolding clockOnly_def by (metis fun_upd_apply)

lemma clockOnly_pool [simp]: "clockOnly F F' \<Longrightarrow> oc_pool (F' n) = oc_pool (F n)"
  unfolding clockOnly_def by (metis Orchestrator.select_convs(2) Orchestrator.surjective Orchestrator.update_convs(1))

lemma exec_PoolSnapshot:
  "exec (PoolSnapshot env cfg) s = (case e_now env (oc_world s) of (now, w) \<Rightarrow>
     (map (workerView cfg (oc_hot s) now) (Snapshot_nodes (oc_pool s)), s\<lparr>oc_world := w\<rparr>, []))"
  by (simp add: PoolSnapshot_def exec_bindP poolP_def nowP_def worldP_def runtimeConfig_def split: prod.splits)

lemma exec_tierHealth:
  "\<exists>w. snd (exec (tierHealth env) s) = (s\<lparr>oc_world := w\<rparr>, [])"
  by (simp add: tierHealth_def exec_bindP nowP_def worldP_def runtimeConfig_def Let_def split: prod.splits) blast

lemma w_InstanceID_workerView [simp]: "w_InstanceID (workerView cfg runtime now n) = InstanceID n"
  by (simp add: workerView_def Let_def)

subsection \<open>Selecting a worker across the fleet\<close>

definition inPool :: "string \<Rightarrow> 'w Orchestrator \<Rightarrow> bool" where
  "inPool i s \<longleftrightarrow> list_ex (\<lambda>n. InstanceID n = i) (Snapshot_nodes (oc_pool s))"

lemma exec_hasInstance:
  "\<exists>F'. exec (hasInstance f i n) F = (inPool i (F n), F', []) \<and> clockOnly F F'"
  by (auto simp: hasInstance_def exec_bindP exec_onTier exec_PoolSnapshot inPool_def list_ex_iff clockOnly_upd split: prod.splits)

lemma exec_matchLoop:
  "\<exists>F'. exec (foldP (\<lambda>n acc. bindP (hasInstance f i n) (\<lambda>b. Ret (if b then acc @ [n] else acc))) ns acc) F =
     (acc @ filter (\<lambda>n. inPool i (F n)) ns, F', []) \<and> clockOnly F F'"
proof (induction ns arbitrary: acc F)
  case Nil
  then show ?case by auto
next
  case (Cons n ns)
  obtain F1 where F1: "exec (hasInstance f i n) F = (inPool i (F n), F1, [])" "clockOnly F F1"
    using exec_hasInstance by blast
  have same: "inPool i (F1 m) = inPool i (F m)" for m using F1(2) by (simp add: inPool_def)
  obtain F2 where F2: "exec (foldP (\<lambda>n acc. bindP (hasInstance f i n) (\<lambda>b. Ret (if b then acc @ [n] else acc))) ns
        (if inPool i (F n) then acc @ [n] else acc)) F1 =
      ((if inPool i (F n) then acc @ [n] else acc) @ filter (\<lambda>n. inPool i (F1 n)) ns, F2, [])" "clockOnly F1 F2"
    using Cons.IH by blast
  show ?case
    using F1 F2 same clockOnly_trans [OF F1(2) F2(2)] by (auto simp: exec_bindP)
qed

lemma exec_matchingTiers:
  "\<exists>F'. exec (matchingTiers f i) F = (filter (\<lambda>n. inPool i (F n)) (fl_tiers f), F', []) \<and> clockOnly F F'"
  using exec_matchLoop [of f i "fl_tiers f" "[]" F] by (simp add: matchingTiers_def)

text \<open>
  C31. A reap without a tier selector. The request looks for the worker in every tier; up to readings of the
  clock it leaves all tiers as they are and fails unless exactly one tier has the worker. If one has,
  it is that tier's own forced reap, run on that tier's state, and no other tier changes.
\<close>

theorem ForceReapIn_unambiguous:
  "\<exists>F'. clockOnly F F' \<and>
     exec (ForceReapIn f '''' i) F =
       (case filter (\<lambda>n. inPool i (F n)) (fl_tiers f) of
          [n] \<Rightarrow> (case exec (doForceReap (fl_env f n) (fl_cfg f n) i) (F' n) of
                   (r, s, ts) \<Rightarrow> (r, F'(n := s), map (Pair n) ts))
        | ms \<Rightarrow> (Inl (ErrOther (''instance '' @ quoted i @ '' matched '' @ formatNat (length ms) @
                   '' tiers; provide a tier selector'')), F', []))"
proof -
  obtain F' where F': "exec (matchingTiers f i) F = (filter (\<lambda>n. inPool i (F n)) (fl_tiers f), F', [])" "clockOnly F F'"
    using exec_matchingTiers by blast
  then show ?thesis
    by (intro exI [of _ F']) (auto simp: ForceReapIn_def exec_bindP exec_onTier split: list.splits prod.splits)
qed

subsection \<open>Health of the fleet\<close>

lemma merge_fold:
  "hs_Healthy (snd (fold mergeHealth hs (False, out))) = (hs_Healthy out \<and> list_all hs_Healthy hs)"
  "hs_Paused (snd (fold mergeHealth hs (False, out))) = (hs_Paused out \<or> list_ex hs_Paused hs)"
  "hs_LastTickAt (snd (fold mergeHealth hs (False, out))) = Min (insert (hs_LastTickAt out) (hs_LastTickAt ` set hs))"
  "hs_LastProviderListAt (snd (fold mergeHealth hs (False, out))) = Min (insert (hs_LastProviderListAt out) (hs_LastProviderListAt ` set hs))"
  "hs_LastForgejoPollAt (snd (fold mergeHealth hs (False, out))) = Min (insert (hs_LastForgejoPollAt out) (hs_LastForgejoPollAt ` set hs))"
proof -
  have m: "Min (insert (if h < (x::int) then h else x) A) = Min (insert x (insert h A))" if "finite A" for h x A
    using that by (cases "A = {}") (auto simp: min_def)
  show "hs_Healthy (snd (fold mergeHealth hs (False, out))) = (hs_Healthy out \<and> list_all hs_Healthy hs)"
    by (induction hs arbitrary: out) (auto simp: mergeHealth_def)
  show "hs_Paused (snd (fold mergeHealth hs (False, out))) = (hs_Paused out \<or> list_ex hs_Paused hs)"
    by (induction hs arbitrary: out) (auto simp: mergeHealth_def)
  show "hs_LastTickAt (snd (fold mergeHealth hs (False, out))) = Min (insert (hs_LastTickAt out) (hs_LastTickAt ` set hs))"
    by (induction hs arbitrary: out) (simp_all add: mergeHealth_def olderOf_def m)
  show "hs_LastProviderListAt (snd (fold mergeHealth hs (False, out))) = Min (insert (hs_LastProviderListAt out) (hs_LastProviderListAt ` set hs))"
    by (induction hs arbitrary: out) (simp_all add: mergeHealth_def olderOf_def m)
  show "hs_LastForgejoPollAt (snd (fold mergeHealth hs (False, out))) = Min (insert (hs_LastForgejoPollAt out) (hs_LastForgejoPollAt ` set hs))"
    by (induction hs arbitrary: out) (simp_all add: mergeHealth_def olderOf_def m)
qed

lemma exec_healthLoop:
  assumes "distinct ns"
  shows "\<exists>F'. exec (foldP (\<lambda>name acc. bindP (onTier name (tierHealth (fl_env f name))) (\<lambda>h. Ret (mergeHealth h acc))) ns acc) F =
     (fold mergeHealth (map (\<lambda>n. fst (exec (tierHealth (fl_env f n)) (F n))) ns) acc, F', []) \<and> clockOnly F F'"
  using assms
proof (induction ns arbitrary: acc F)
  case Nil
  then show ?case by auto
next
  case (Cons n ns)
  obtain h w where w: "exec (tierHealth (fl_env f n)) (F n) = (h, (F n)\<lparr>oc_world := w\<rparr>, [])"
    using exec_tierHealth [of "fl_env f n" "F n"] by (metis prod.collapse)
  let ?F = "F(n := (F n)\<lparr>oc_world := w\<rparr>)"
  obtain F2 where F2: "exec (foldP (\<lambda>name acc. bindP (onTier name (tierHealth (fl_env f name))) (\<lambda>h. Ret (mergeHealth h acc))) ns (mergeHealth h acc)) ?F =
     (fold mergeHealth (map (\<lambda>n. fst (exec (tierHealth (fl_env f n)) (?F n))) ns) (mergeHealth h acc), F2, [])" "clockOnly ?F F2"
    using Cons.IH [OF distinct.simps(2) [THEN iffD1, OF Cons.prems, THEN conjunct2], of "mergeHealth h acc" ?F] by blast
  have same: "map (\<lambda>n. fst (exec (tierHealth (fl_env f n)) (?F n))) ns = map (\<lambda>n. fst (exec (tierHealth (fl_env f n)) (F n))) ns"
    using Cons.prems by auto
  show ?case
    using w F2(1) clockOnly_trans [OF clockOnly_upd F2(2)] unfolding same by (auto simp: exec_bindP exec_onTier)
qed

text \<open>The fleet is as healthy as its worst tier and as fresh as its stalest one.\<close>

lemma FleetHealth_worst_tier:
  fixes F :: "'w FleetState"
  assumes "distinct (fl_tiers f)" "fl_tiers f \<noteq> []"
  defines "h \<equiv> \<lambda>n. fst (exec (tierHealth (fl_env f n)) (F n))"
  shows "\<exists>F'. clockOnly F F' \<and> exec (FleetHealth f) F =
    (\<lparr>hs_Healthy = (\<forall>n \<in> set (fl_tiers f). hs_Healthy (h n)),
      hs_LastTickAt = Min ((\<lambda>n. hs_LastTickAt (h n)) ` set (fl_tiers f)),
      hs_LastProviderListAt = Min ((\<lambda>n. hs_LastProviderListAt (h n)) ` set (fl_tiers f)),
      hs_LastForgejoPollAt = Min ((\<lambda>n. hs_LastForgejoPollAt (h n)) ` set (fl_tiers f)),
      hs_Paused = (\<exists>n \<in> set (fl_tiers f). hs_Paused (h n))\<rparr>, F', [])"
proof -
  have names: "set (TierNames f) = set (fl_tiers f)" "distinct (TierNames f)"
    using assms by (simp_all add: TierNames_def)
  then obtain n ns where ns: "TierNames f = n # ns" using assms(2) by (cases "TierNames f") auto
  let ?z = "(True, \<lparr>hs_Healthy = True, hs_LastTickAt = zero_time, hs_LastProviderListAt = zero_time,
      hs_LastForgejoPollAt = zero_time, hs_Paused = False\<rparr>)"
  let ?out = "snd (fold mergeHealth (map h (TierNames f)) ?z)"
  obtain F' where F': "clockOnly F F'" "exec (FleetHealth f) F = (?out, F', [])"
    using exec_healthLoop [OF names(2), of f ?z F] by (auto simp: FleetHealth_def exec_bindP h_def split: prod.splits)
  have out: "?out = snd (fold mergeHealth (map h ns) (False, h n))"
  proof -
    have "mergeHealth (h n) ?z = (False, h n)" by (cases "h n") (simp add: mergeHealth_def olderOf_def)
    then show ?thesis by (simp add: ns)
  qed
  have tiers: "set (fl_tiers f) = insert n (set ns)" using names(1) ns by simp
  have "?out = \<lparr>hs_Healthy = (\<forall>n \<in> set (fl_tiers f). hs_Healthy (h n)),
      hs_LastTickAt = Min ((\<lambda>n. hs_LastTickAt (h n)) ` set (fl_tiers f)),
      hs_LastProviderListAt = Min ((\<lambda>n. hs_LastProviderListAt (h n)) ` set (fl_tiers f)),
      hs_LastForgejoPollAt = Min ((\<lambda>n. hs_LastForgejoPollAt (h n)) ` set (fl_tiers f)),
      hs_Paused = (\<exists>n \<in> set (fl_tiers f). hs_Paused (h n))\<rparr>"
    unfolding out tiers
    by (rule HealthStatus.equality) (simp_all add: merge_fold list_all_iff list_ex_iff image_image)
  then show ?thesis using F' by metis
qed

end
