(* ===== verification/Go_Strings.thy ===== *)
theory Go_Strings
  imports Effects Labels Ledger_Store
begin

text \<open>
  What the sources use of Go's \<open>strings\<close> and \<open>strconv\<close> packages beyond
  the ledger's trimming and case folding, on byte strings: splitting and cutting, quoting, and
  decimal integers with their round trip.
\<close>

subsection \<open>Decimal integers\<close>

text \<open>\<open>strconv.Atoi\<close>: an optional sign and decimal digits, within 64 bits.\<close>

definition isDigit :: "char \<Rightarrow> bool" where
  "isDigit c \<longleftrightarrow> (of_char c :: nat) \<in> {48..57}"

fun digitsValue :: "string \<Rightarrow> int \<Rightarrow> int option" where
  "digitsValue [] acc = Some acc"
| "digitsValue (c # cs) acc = (if isDigit c then digitsValue cs (10 * acc + (of_char c - 48)) else None)"

definition Atoi :: "string \<Rightarrow> int option" where
  "Atoi s =
     (let (neg, ds) = (case s of
            [] \<Rightarrow> (False, [])
          | c # cs \<Rightarrow> if c = CHR ''-'' then (True, cs) else if c = CHR ''+'' then (False, cs) else (False, s))
      in if ds = [] then None
         else case digitsValue ds 0 of
           None \<Rightarrow> None
         | Some v \<Rightarrow> (let x = (if neg then - v else v) in if in_int64 x then Some x else None))"

lemma isDigit_char_of: "(d :: nat) < 10 \<Longrightarrow> isDigit (char_of (48 + d))"
  by (simp add: isDigit_def)

lemma of_char_digit: "(d :: nat) < 10 \<Longrightarrow> (of_char (char_of (48 + d) :: char) :: int) = 48 + int d"
proof -
  have "(of_char (char_of (48 + d) :: char) :: int) = int (of_char (char_of (48 + d) :: char))"
    by (simp only: of_nat_of_char)
  then show "d < 10 \<Longrightarrow> (of_char (char_of (48 + d) :: char) :: int) = 48 + int d" by simp
qed

lemma digitsValue_append:
  "digitsValue (xs @ ys) acc = (case digitsValue xs acc of None \<Rightarrow> None | Some v \<Rightarrow> digitsValue ys v)"
  by (induction xs arbitrary: acc) simp_all

lemma formatNat_digits: "list_all isDigit (formatNat n)"
proof (induction n rule: formatNat.induct)
  case (1 n)
  show ?case
  proof (cases "n < 10")
    case True
    then show ?thesis by (subst formatNat.simps) (simp add: isDigit_char_of)
  next
    case False
    then show ?thesis using 1 by (subst formatNat.simps) (simp add: isDigit_char_of)
  qed
qed

lemma digitsValue_formatNat: "digitsValue (formatNat n) 0 = Some (int n)"
proof (induction n rule: formatNat.induct)
  case (1 n)
  show ?case
  proof (cases "n < 10")
    case True
    then show ?thesis by (subst formatNat.simps) (simp add: isDigit_char_of of_char_digit)
  next
    case False
    have "int (10 * (n div 10) + n mod 10) = int n" by (simp only: mult_div_mod_eq)
    then have "int n = 10 * int (n div 10) + int (n mod 10)" by (simp only: of_nat_add of_nat_mult of_nat_numeral)
    then show ?thesis
      using 1 False by (subst formatNat.simps) (simp add: digitsValue_append isDigit_char_of of_char_digit)
  qed
qed

lemma formatNat_inj: "formatNat a = formatNat b \<Longrightarrow> a = b"
  by (metis digitsValue_formatNat of_nat_eq_iff option.inject)

lemma digit_not_sign: "isDigit c \<Longrightarrow> c \<noteq> CHR ''-'' \<and> c \<noteq> CHR ''+''"
  by (auto simp: isDigit_def)

lemma formatNat_hd: "isDigit (hd (formatNat n))"
  using formatNat_digits [of n] formatNat_nonempty [of n] by (cases "formatNat n") auto

theorem Atoi_formatInt:
  assumes "in_int64 i"
  shows "Atoi (formatInt i) = Some i"
proof (cases "i < 0")
  case True
  then show ?thesis
    using assms digitsValue_formatNat [of "nat (- i)"] formatNat_nonempty [of "nat (- i)"]
    by (simp add: Atoi_def formatInt_def)
next
  case False
  obtain c cs where f: "formatNat (nat i) = c # cs" using formatNat_nonempty [of "nat i"] by (cases "formatNat (nat i)") auto
  have "c \<noteq> CHR ''-'' \<and> c \<noteq> CHR ''+''" using formatNat_hd [of "nat i"] f digit_not_sign by simp
  then show ?thesis
    using False assms digitsValue_formatNat [of "nat i"] f by (simp add: Atoi_def formatInt_def)
qed

subsection \<open>Splitting\<close>

text \<open>\<open>strings.Split\<close> at one character.\<close>

fun splitOn :: "char \<Rightarrow> string \<Rightarrow> string list" where
  "splitOn sep [] = ['''']"
| "splitOn sep (c # cs) =
     (if c = sep then '''' # splitOn sep cs
      else case splitOn sep cs of w # ws \<Rightarrow> (c # w) # ws | [] \<Rightarrow> [[c]])"

text \<open>\<open>strings.Join\<close> with one character.\<close>

fun joinWith :: "char \<Rightarrow> string list \<Rightarrow> string" where
  "joinWith sep [] = ''''"
| "joinWith sep [w] = w"
| "joinWith sep (w # v # ws) = w @ sep # joinWith sep (v # ws)"

lemma splitOn_nonempty [simp]: "splitOn sep s \<noteq> []"
  by (induction s) (auto split: list.split)

lemma splitOn_prefix:
  assumes "sep \<notin> set w"
  shows "splitOn sep (w @ sep # s) = w # splitOn sep s"
  using assms by (induction w) auto

lemma splitOn_word: "sep \<notin> set w \<Longrightarrow> splitOn sep w = [w]"
  by (induction w) auto

lemma splitOn_joinWith:
  assumes "\<forall>w \<in> set ws. sep \<notin> set w" "ws \<noteq> []"
  shows "splitOn sep (joinWith sep ws) = ws"
  using assms by (induction sep ws rule: joinWith.induct) (auto simp: splitOn_prefix splitOn_word)

lemma cut_append:
  assumes "sep \<notin> set w"
  shows "cut sep (w @ sep # s) = Some (w, s)" "cut sep w = None"
  using assms by (induction w) auto

text \<open>\<open>strings.Cut\<close> at a longer separator, \<open>strings.LastIndexByte\<close> as a split, and \<open>strings.Contains\<close> of one character.\<close>

fun cutStr :: "string \<Rightarrow> string \<Rightarrow> (string \<times> string) option" where
  "cutStr sep [] = (if sep = [] then Some ([], []) else None)"
| "cutStr sep (c # cs) =
     (if hasPrefix (c # cs) sep then Some ([], drop (length sep) (c # cs))
      else map_option (\<lambda>(a, b). (c # a, b)) (cutStr sep cs))"

definition cutLast :: "char \<Rightarrow> string \<Rightarrow> (string \<times> string) option" where
  "cutLast sep s = map_option (\<lambda>(a, b). (rev b, rev a)) (cut sep (rev s))"

lemma cutLast_append:
  assumes "sep \<notin> set w"
  shows "cutLast sep (h @ sep # w) = Some (h, w)" "cutLast sep w = None"
  using cut_append [of sep "rev w"] assms by (simp_all add: cutLast_def)

lemma trimSpace_id:
  assumes "s \<noteq> []" "\<not> isSpace (hd s)" "\<not> isSpace (last s)"
  shows "trimSpace s = s"
proof -
  have "dropWhile isSpace s = s" using assms(1,2) by (cases s) auto
  moreover have "dropWhile isSpace (rev s) = rev s" using assms(1,3) by (cases s rule: rev_cases) auto
  ultimately show ?thesis by (simp add: trimSpace_def)
qed

lemma digit_not_space: "isDigit c \<Longrightarrow> \<not> isSpace c"
  by (auto simp: isDigit_def isSpace_def)

subsection \<open>Messages\<close>

text \<open>\<open>%q\<close>, for text whose bytes above 127 are printable UTF-8.\<close>

definition hexDigit :: "nat \<Rightarrow> char" where
  "hexDigit d = char_of (if d < 10 then 48 + d else 87 + d)"

definition quoteByte :: "char \<Rightarrow> string" where
  "quoteByte c =
     (let n = (of_char c :: nat) in
      if n = 34 \<or> n = 92 then [CHR 0x5C, c]
      else if n = 7 then [CHR 0x5C, CHR ''a''] else if n = 8 then [CHR 0x5C, CHR ''b'']
      else if n = 12 then [CHR 0x5C, CHR ''f''] else if n = 10 then [CHR 0x5C, CHR ''n'']
      else if n = 13 then [CHR 0x5C, CHR ''r''] else if n = 9 then [CHR 0x5C, CHR ''t'']
      else if n = 11 then [CHR 0x5C, CHR ''v'']
      else if n < 32 \<or> n = 127 then [CHR 0x5C, CHR ''x'', hexDigit (n div 16), hexDigit (n mod 16)]
      else [c])"

definition goQuote :: "string \<Rightarrow> string" where
  "goQuote s = [CHR 0x22] @ concat (map quoteByte s) @ [CHR 0x22]"

text \<open>\<open>fmt.Errorf("what: %w", err)\<close> and \<open>errors.New\<close>.\<close>

definition wrapE :: "string \<Rightarrow> 'a result \<Rightarrow> 'a result" where
  "wrapE what r = (case r of Inl e \<Rightarrow> Inl (ErrOther (what @ '': '' @ errorText e)) | Inr a \<Rightarrow> Inr a)"

definition wrapErr :: "string \<Rightarrow> ('s, 'a) action \<Rightarrow> ('s, 'a) action" where
  "wrapErr what m s = (case m s of (Inl e, s') \<Rightarrow> (Inl (ErrOther (what @ '': '' @ errorText e)), s') | (Inr a, s') \<Rightarrow> (Inr a, s'))"

definition failE :: "string \<Rightarrow> 'a result" where
  "failE msg = Inl (ErrOther msg)"

definition ensure :: "bool \<Rightarrow> string \<Rightarrow> unit result" where
  "ensure ok msg = (if ok then Inr () else failE msg)"

lemma wrapE_Inr [simp]: "wrapE what r = Inr a \<longleftrightarrow> r = Inr a"
  by (auto simp: wrapE_def split: sum.split)

lemma wrapErr_Inr [simp]: "wrapErr what act w = (Inr a, w') \<longleftrightarrow> act w = (Inr a, w')"
  by (auto simp: wrapErr_def split: prod.splits sum.splits)

lemma failE_not_Inr [simp]: "failE msg \<noteq> Inr a"
  by (simp add: failE_def)

lemma ensure_Inr [simp]: "ensure ok msg = Inr u \<longleftrightarrow> ok"
  by (simp add: ensure_def failE_def)

text \<open>\<open>hex.EncodeToString\<close>\<close>

definition hexEncode :: "string \<Rightarrow> string" where
  "hexEncode s = concat (map (\<lambda>c. let n = (of_char c :: nat) in [hexDigit (n div 16), hexDigit (n mod 16)]) s)"

lemma hexDigit_inj: "d < 16 \<Longrightarrow> e < 16 \<Longrightarrow> hexDigit d = hexDigit e \<Longrightarrow> d = e"
  using arg_cong [of "hexDigit d" "hexDigit e" "of_char :: char \<Rightarrow> nat"] by (auto simp: hexDigit_def split: if_splits)

lemma hexEncode_inj: "hexEncode s = hexEncode t \<Longrightarrow> s = t"
proof (induction s arbitrary: t)
  case Nil
  then show ?case by (cases t) (auto simp: hexEncode_def Let_def)
next
  case (Cons c s)
  then obtain d t' where t: "t = d # t'" by (cases t) (auto simp: hexEncode_def Let_def)
  let ?n = "of_char c :: nat" and ?m = "of_char d :: nat"
  have eq: "hexDigit (?n div 16) = hexDigit (?m div 16)" "hexDigit (?n mod 16) = hexDigit (?m mod 16)" "hexEncode s = hexEncode t'"
    using Cons.prems t by (auto simp: hexEncode_def Let_def)
  have "?n < 16 * 16" "?m < 16 * 16" using nat_of_char_less_256 [of c] nat_of_char_less_256 [of d] by simp_all
  then have "?n div 16 < 16" "?m div 16 < 16" by (simp_all only: less_mult_imp_div_less)
  then have "?n div 16 = ?m div 16" "?n mod 16 = ?m mod 16" using eq by (auto intro!: hexDigit_inj)
  then have "?n = ?m" by (metis div_mult_mod_eq)
  then show ?case using Cons.IH [OF eq(3)] t by simp
qed

lemma length_hexEncode: "length (hexEncode s) = 2 * length s"
  by (induction s) (auto simp: hexEncode_def Let_def)

text \<open>A loop that ends at the first error.\<close>

fun mapE :: "('x \<Rightarrow> 'a result) \<Rightarrow> 'x list \<Rightarrow> 'a list result" where
  "mapE f [] = Inr []"
| "mapE f (x # xs) = bindE (f x) (\<lambda>a. bindE (mapE f xs) (\<lambda>as. Inr (a # as)))"

fun forE :: "('x \<Rightarrow> unit result) \<Rightarrow> 'x list \<Rightarrow> unit result" where
  "forE f [] = Inr ()"
| "forE f (x # xs) = bindE (f x) (\<lambda>_. forE f xs)"

lemma mapE_Inr: "mapE f xs = Inr ys \<longleftrightarrow> list_all2 (\<lambda>x y. f x = Inr y) xs ys"
  by (induction xs arbitrary: ys) (auto simp: list_all2_Cons1)

lemma forE_Inr [simp]: "forE f xs = Inr u \<longleftrightarrow> (\<forall>x \<in> set xs. f x = Inr ())"
  by (induction xs) auto

end
