(* ===== verification/Dispatch.thy ===== *)
theory Dispatch
  imports Orch_Control Go_Strings
begin

text \<open>
  Delivering a job to a worker: the SSH dispatcher of src/internal/orchestrator/dispatch.go, the
  cache-gateway dispatcher of dispatch_cachegw.go, and the operator's remote command of exec.go.
  The network and the SSH library are the record \<open>SSH\<close> of functions on a world \<open>'w\<close>: opening a
  connection, the host key the other side presents, the rest of the handshake, running a command, a remote listener, the
  clock. What the dispatchers themselves keep is the map of pinned host keys. Parsing a URL and
  recognising an IP literal are the parameters \<open>urlParse\<close> and \<open>isIP\<close>.
\<close>

subsection \<open>Shell quoting\<close>

definition quoteChar :: char where "quoteChar = CHR 0x27"
definition backslash :: char where "backslash = CHR 0x5C"

definition shellQuote :: "string \<Rightarrow> string" where
  "shellQuote s = [quoteChar] @ concat (map (\<lambda>c. if c = quoteChar then [quoteChar, backslash, quoteChar, quoteChar] else [c]) s) @ [quoteChar]"

text \<open>
  What a POSIX shell makes of a command line of plain words: blanks separate words, single quotes
  keep everything literal, a backslash keeps the next character. \<open>None\<close> stands for anything that is not a list of
  plain words: an operator, an expansion, a pattern, a comment, a missing quote, a NUL byte.
\<close>

definition shellSpecial :: "char \<Rightarrow> bool" where
  "shellSpecial c \<longleftrightarrow> c \<in> set ''|&;<>()$`*?[#~=%!{}'' \<or> of_char c \<in> {0, 10, 34 :: nat}"

fun shWords :: "string option \<Rightarrow> string \<Rightarrow> string list option"
  and shQuoted :: "string \<Rightarrow> string \<Rightarrow> string list option"
  and shEscaped :: "string option \<Rightarrow> string \<Rightarrow> string list option" where
  "shWords cur [] = Some (case cur of None \<Rightarrow> [] | Some w \<Rightarrow> [w])"
| "shWords cur (c # cs) =
     (if c = CHR '' '' \<or> c = CHR 0x09 then (case cur of None \<Rightarrow> shWords None cs | Some w \<Rightarrow> map_option (Cons w) (shWords None cs))
      else if c = quoteChar then shQuoted (case cur of None \<Rightarrow> '''' | Some w \<Rightarrow> w) cs
      else if c = backslash then shEscaped cur cs
      else if shellSpecial c then None
      else shWords (Some ((case cur of None \<Rightarrow> '''' | Some w \<Rightarrow> w) @ [c])) cs)"
| "shQuoted w [] = None"
| "shQuoted w (c # cs) =
     (if c = quoteChar then shWords (Some w) cs
      else if c = CHR 0x00 then None
      else shQuoted (w @ [c]) cs)"
| "shEscaped cur [] = None"
| "shEscaped cur (c # cs) =
     (if c = CHR 0x00 then None
      else if c = CHR 0x0A then shWords cur cs
      else shWords (Some ((case cur of None \<Rightarrow> '''' | Some w \<Rightarrow> w) @ [c])) cs)"

lemma shQuoted_escaped:
  assumes "CHR 0x00 \<notin> set s"
  shows "shQuoted w (concat (map (\<lambda>c. if c = quoteChar then [quoteChar, backslash, quoteChar, quoteChar] else [c]) s) @ quoteChar # rest) =
    shWords (Some (w @ s)) rest"
  using assms by (induction s arbitrary: w) (auto simp: quoteChar_def backslash_def)

lemma shWords_shellQuote:
  assumes "CHR 0x00 \<notin> set s"
  shows "shWords cur (shellQuote s @ rest) = shWords (Some ((case cur of None \<Rightarrow> '''' | Some w \<Rightarrow> w) @ s)) rest"
  using shQuoted_escaped [OF assms] by (simp add: shellQuote_def quoteChar_def)

text \<open>A literal part of a command, evaluated character by character.\<close>

lemmas sh_simps = shWords.simps shellSpecial_def quoteChar_def backslash_def

lemma sh_literal:
  assumes "list_all (\<lambda>c. c \<noteq> CHR '' '' \<and> c \<noteq> CHR 0x09 \<and> c \<noteq> quoteChar \<and> c \<noteq> backslash \<and> \<not> shellSpecial c) lit"
  shows "shWords (Some w) (lit @ rest) = shWords (Some (w @ lit)) rest"
  using assms by (induction lit arbitrary: w) auto

lemma sh_word:
  assumes "list_all (\<lambda>c. c \<noteq> CHR '' '' \<and> c \<noteq> CHR 0x09 \<and> c \<noteq> quoteChar \<and> c \<noteq> backslash \<and> \<not> shellSpecial c) lit" "lit \<noteq> ''''"
  shows "shWords None (lit @ CHR '' '' # rest) = map_option (Cons lit) (shWords None rest)"
proof (cases lit)
  case (Cons c cs)
  then have "shWords None (lit @ CHR '' '' # rest) = shWords (Some [c]) (cs @ CHR '' '' # rest)" using assms by auto
  also have "\<dots> = shWords (Some lit) (CHR '' '' # rest)"
    using assms sh_literal [of cs "[c]"] Cons by simp
  finally show ?thesis by simp
qed (use assms in simp)

subsection \<open>The network\<close>

record PublicKey =
  pk_Type :: string
  pk_Marshal :: string

datatype runOutcome = RunOK | RunExit int | RunFailed go_error

record 'w SSH =
  ss_now :: "'w \<Rightarrow> instant \<times> 'w"
  ss_ctxErr :: "'w \<Rightarrow> go_error option"
  ss_sleep :: "'w \<Rightarrow> go_error option \<times> 'w"
  ss_tcp :: "string \<Rightarrow> 'w \<Rightarrow> unit result \<times> 'w"
  ss_hostKey :: "string \<Rightarrow> 'w \<Rightarrow> PublicKey result \<times> 'w"
  ss_auth :: "string \<Rightarrow> 'w \<Rightarrow> unit result \<times> 'w"
  ss_session :: "string \<Rightarrow> 'w \<Rightarrow> unit result \<times> 'w"
  ss_run :: "string \<Rightarrow> string \<Rightarrow> string option \<Rightarrow> 'w \<Rightarrow> (string \<times> go_error option) \<times> 'w"
  ss_capture :: "string \<Rightarrow> string \<Rightarrow> 'w \<Rightarrow> (string list \<times> string list \<times> runOutcome) \<times> 'w"
  ss_listen :: "string \<Rightarrow> string \<Rightarrow> 'w \<Rightarrow> unit result \<times> 'w"
  ss_durationString :: "duration \<Rightarrow> string"

record Dispatcher =
  dp_Port :: int
  dp_ForgejoURL :: string
  dp_Labels :: "string list"
  dp_ReadyFile :: string
  dp_ReadyWait :: duration

type_synonym pins = "string \<rightharpoonup> PublicKey"
type_synonym ('w, 'a) disp = "(pins \<times> 'w, 'a) action"

definition net :: "('w \<Rightarrow> 'a result \<times> 'w) \<Rightarrow> ('w, 'a) disp" where
  "net f = (\<lambda>(p, w). case f w of (r, w') \<Rightarrow> (r, p, w'))"

definition joinHostPort :: "string \<Rightarrow> string \<Rightarrow> string" where
  "joinHostPort host port =
     (if CHR '':'' \<in> set host then ''['' @ host @ '']:'' @ port else host @ '':'' @ port)"

definition workerAddr :: "Dispatcher \<Rightarrow> string \<Rightarrow> string" where
  "workerAddr d ip = joinHostPort ip (formatInt (dp_Port d))"

subsection \<open>Host keys and connections\<close>

definition PinHostKey :: "Dispatcher \<Rightarrow> string \<Rightarrow> PublicKey \<Rightarrow> pins \<Rightarrow> pins" where
  "PinHostKey d ip key pins = pins(workerAddr d ip \<mapsto> key)"

definition mismatch :: "bool \<Rightarrow> string \<Rightarrow> PublicKey \<Rightarrow> go_error" where
  "mismatch gateway addr key = ErrOther (''host key mismatch for '' @ addr @ '': presented '' @ pk_Type key @
     (if gateway then '' key does not match TOFU-pinned key (possible MITM inside the IPsec tunnel or VPC)''
      else '' key does not match pinned key (possible MITM)''))"

text \<open>The same callback in both dispatchers, but for the words of its error.\<close>

definition tofuHostKeyCallback :: "bool \<Rightarrow> string \<Rightarrow> PublicKey \<Rightarrow> ('w, unit) disp" where
  "tofuHostKeyCallback gateway addr key = (\<lambda>(pins, w).
     case pins addr of
       None \<Rightarrow> (Inr (), pins(addr \<mapsto> key), w)
     | Some pinned \<Rightarrow>
         if pk_Marshal pinned \<noteq> pk_Marshal key then (Inl (mismatch gateway addr key), pins, w)
         else (Inr (), pins, w))"

definition dialAddr :: "bool \<Rightarrow> 'w SSH \<Rightarrow> string \<Rightarrow> ('w, string) disp" where
  "dialAddr gateway ssh addr =
     bindR (wrapErr (''dial '' @ addr) (net (ss_tcp ssh addr))) (\<lambda>_.
     bindR (wrapErr (''ssh handshake '' @ addr)
       (bindR (net (ss_hostKey ssh addr)) (\<lambda>key.
        bindR (tofuHostKeyCallback gateway addr key) (\<lambda>_. net (ss_auth ssh addr)))))
       (\<lambda>_. returnR addr))"

definition dial :: "'w SSH \<Rightarrow> Dispatcher \<Rightarrow> string \<Rightarrow> ('w, string) disp" where
  "dial ssh d ip = dialAddr False ssh (workerAddr d ip)"

definition gatewayDial :: "'w SSH \<Rightarrow> Dispatcher \<Rightarrow> string \<Rightarrow> ('w, string) disp" where
  "gatewayDial ssh d ip = dialAddr True ssh (workerAddr d ip)"

definition runOn :: "'w SSH \<Rightarrow> string \<Rightarrow> string \<Rightarrow> string option \<Rightarrow> 'w \<Rightarrow> unit result \<times> 'w" where
  "runOn ssh client cmd stdin w =
     (case ss_run ssh client cmd stdin w of
        ((out, None), w) \<Rightarrow> (Inr (), w)
      | ((out, Some e), w) \<Rightarrow>
          (case ss_ctxErr ssh w of
             Some c \<Rightarrow> (Inl c, w)
           | None \<Rightarrow> (Inl (ErrOther (errorText e @ '': '' @ trimSpace out)), w)))"

definition runRemote :: "'w SSH \<Rightarrow> string \<Rightarrow> string \<Rightarrow> string option \<Rightarrow> ('w, unit) disp" where
  "runRemote ssh client cmd stdin =
     bindR (net (ss_session ssh client)) (\<lambda>_. net (runOn ssh client cmd stdin))"

subsection \<open>Waiting for a worker\<close>

definition readyCommand :: "Dispatcher \<Rightarrow> string" where
  "readyCommand d = ''test -f '' @ shellQuote (dp_ReadyFile d)"

definition probe :: "bool \<Rightarrow> 'w SSH \<Rightarrow> Dispatcher \<Rightarrow> string \<Rightarrow> ('w, unit) disp" where
  "probe gateway ssh d addr =
     bindR (if gateway then gatewayDial ssh d addr else dial ssh d addr) (\<lambda>client. runRemote ssh client (readyCommand d) None)"

fun waitReadyLoop :: "nat \<Rightarrow> bool \<Rightarrow> 'w SSH \<Rightarrow> Dispatcher \<Rightarrow> string \<Rightarrow> instant \<Rightarrow> go_error option \<Rightarrow> pins \<times> 'w \<Rightarrow>
    (unit result \<times> pins \<times> 'w) option" where
  "waitReadyLoop 0 gateway ssh d addr deadline lastErr st = None"
| "waitReadyLoop (Suc fuel) gateway ssh d addr deadline lastErr (pins, w) =
     (case ss_now ssh w of (now, w) \<Rightarrow>
        if \<not> now < deadline
        then Some (Inl (ErrOther (''worker '' @ addr @ '' not ready within '' @ ss_durationString ssh (dp_ReadyWait d) @ '': '' @
               (case lastErr of None \<Rightarrow> ''%!w(<nil>)'' | Some e \<Rightarrow> errorText e))), pins, w)
        else case ss_ctxErr ssh w of
          Some e \<Rightarrow> Some (Inl e, pins, w)
        | None \<Rightarrow>
            (case probe gateway ssh d addr (pins, w) of
               (Inr _, st) \<Rightarrow> Some (Inr (), st)
             | (Inl e, pins, w) \<Rightarrow>
                 (case ss_sleep ssh w of
                    (Some c, w) \<Rightarrow> Some (Inl c, pins, w)
                  | (None, w) \<Rightarrow> waitReadyLoop fuel gateway ssh d addr deadline (Some e) (pins, w))))"

definition WaitReady :: "nat \<Rightarrow> bool \<Rightarrow> 'w SSH \<Rightarrow> Dispatcher \<Rightarrow> string \<Rightarrow> pins \<times> 'w \<Rightarrow> (unit result \<times> pins \<times> 'w) option" where
  "WaitReady fuel gateway ssh d addr = (\<lambda>(pins, w).
     case ss_now ssh w of (now, w) \<Rightarrow>
       waitReadyLoop fuel gateway ssh d addr (time_add now (dp_ReadyWait d)) None (pins, w))"

subsection \<open>Running a job\<close>

record forgejoTarget =
  ft_host :: string
  ft_port :: int
  ft_isIPLit :: bool

record parsedURL =
  u_Scheme :: string
  u_Hostname :: string
  u_Port :: string

definition parseForgejoURL :: "(string \<Rightarrow> parsedURL result) \<Rightarrow> (string \<Rightarrow> bool) \<Rightarrow> string \<Rightarrow> forgejoTarget result" where
  "parseForgejoURL urlParse isIP raw =
     (case urlParse raw of
        Inl e \<Rightarrow> Inl e
      | Inr u \<Rightarrow>
          if u_Hostname u = '''' then Inl (ErrOther (''forgejo url has no host: '' @ quoted raw))
          else
            let target = (\<lambda>port. Inr \<lparr>ft_host = u_Hostname u, ft_port = port, ft_isIPLit = isIP (u_Hostname u)\<rparr>)
            in if u_Port u \<noteq> ''''
               then (case Atoi (u_Port u) of
                       None \<Rightarrow> Inl (ErrOther (''forgejo url has invalid port '' @ quoted (u_Port u)))
                     | Some n \<Rightarrow> if n \<le> 0 \<or> n > 65535 then Inl (ErrOther (''forgejo url has invalid port '' @ quoted (u_Port u)))
                                 else target n)
               else if toLower (u_Scheme u) = ''http'' then target 80
               else if toLower (u_Scheme u) = ''https'' then target 443
               else Inl (ErrOther (''forgejo url has unsupported scheme '' @ quoted (u_Scheme u))))"

text \<open>\<open>%q\<close> on a host name, which has nothing to escape.\<close>

definition runnerConfigYAML :: "forgejoTarget \<Rightarrow> string" where
  "runnerConfigYAML t =
     ''container:'' @ [CHR 0x0A] @ ''  docker_host: automount'' @ [CHR 0x0A] @
     (if ft_isIPLit t then ''''
      else ''  network: host'' @ [CHR 0x0A] @ ''  options: '' @ quoted (''--add-host='' @ ft_host t @ '':127.0.0.1'') @ [CHR 0x0A])"

definition hostsOverrideCommand :: "forgejoTarget \<Rightarrow> string" where
  "hostsOverrideCommand t =
     (if ft_isIPLit t \<or> toLower (ft_host t) = ''localhost'' then ''''
      else let line = ''127.0.0.1 '' @ ft_host t
           in ''grep -qF '' @ shellQuote line @ '' /etc/hosts || echo '' @ shellQuote line @ '' >> /etc/hosts'')"

definition startReverseTunnel :: "'w SSH \<Rightarrow> string \<Rightarrow> forgejoTarget \<Rightarrow> ('w, unit) disp" where
  "startReverseTunnel ssh client target =
     (let bind = joinHostPort ''127.0.0.1'' (formatInt (ft_port target))
      in wrapErr (''remote-forward '' @ bind) (net (ss_listen ssh client bind)))"

definition oneJobCommand :: "Dispatcher \<Rightarrow> Registration \<Rightarrow> WaitingJob \<Rightarrow> string" where
  "oneJobCommand d reg job =
     ''forgejo-runner one-job --url '' @ shellQuote (dp_ForgejoURL d) @ '' --uuid '' @ shellQuote (rg_UUID reg) @
     '' --token-url file:/tmp/tok --label '' @ shellQuote (join '','' (dp_Labels d)) @ '' --handle '' @ shellQuote (wj_Handle job) @
     '' --wait --config /tmp/runner-cfg.yml''"

definition tokenCommand :: string where
  "tokenCommand = ''cat > /tmp/tok && chmod 600 /tmp/tok''"

definition configCommand :: string where
  "configCommand = ''cat > /tmp/runner-cfg.yml && chmod 600 /tmp/runner-cfg.yml''"

definition jobSession :: "'w SSH \<Rightarrow> Registration \<Rightarrow> string \<Rightarrow> string \<Rightarrow> string \<Rightarrow> ('w, unit) disp" where
  "jobSession ssh reg config cmd client =
     bindR (wrapErr ''write token'' (runRemote ssh client tokenCommand (Some (rg_Token reg)))) (\<lambda>_.
     bindR (wrapErr ''write runner config'' (runRemote ssh client configCommand (Some config))) (\<lambda>_.
     wrapErr ''one-job'' (runRemote ssh client cmd None)))"

definition RunJob ::
  "(string \<Rightarrow> parsedURL result) \<Rightarrow> (string \<Rightarrow> bool) \<Rightarrow> 'w SSH \<Rightarrow> Dispatcher \<Rightarrow> string \<Rightarrow> Registration \<Rightarrow> WaitingJob \<Rightarrow> ('w, unit) disp" where
  "RunJob urlParse isIP ssh d addr reg job =
     (case parseForgejoURL urlParse isIP (dp_ForgejoURL d) of
        Inl e \<Rightarrow> failR (ErrOther (''parse forgejo url: '' @ errorText e))
      | Inr target \<Rightarrow>
          bindR (dial ssh d addr) (\<lambda>client.
          bindR (wrapErr ''forgejo reverse-tunnel'' (startReverseTunnel ssh client target)) (\<lambda>_.
          let prep = hostsOverrideCommand target; cmd = oneJobCommand d reg job
          in jobSession ssh reg (runnerConfigYAML target) (if prep \<noteq> '''' then prep @ '' && '' @ cmd else cmd) client)))"

definition gatewayRunJob :: "'w SSH \<Rightarrow> Dispatcher \<Rightarrow> string \<Rightarrow> Registration \<Rightarrow> WaitingJob \<Rightarrow> ('w, unit) disp" where
  "gatewayRunJob ssh d addr reg job =
     bindR (gatewayDial ssh d addr) (\<lambda>client.
       jobSession ssh reg (''container:'' @ [CHR 0x0A] @ ''  docker_host: automount'' @ [CHR 0x0A]) (oneJobCommand d reg job) client)"

definition imageSysprepCommand :: string where
  "imageSysprepCommand =
     ''set -eu; cloud-init clean --logs --machine-id; '' @
     ''rm -f /run/fj-bellows-ready /tmp/tok /tmp/runner-cfg.yml /etc/fjbagent/auth.token /etc/default/fjbagent; '' @
     ''rm -f /etc/ssh/ssh_host_* /root/.ssh/authorized_keys; '' @
     ''find /var/log -type f -exec truncate -s 0 {} '' @ [backslash] @ '';; sync''"

definition PrepareImage :: "'w SSH \<Rightarrow> Dispatcher \<Rightarrow> string \<Rightarrow> ('w, unit) disp" where
  "PrepareImage ssh d addr =
     bindR (dial ssh d addr) (\<lambda>client. wrapErr ''prepare image'' (runRemote ssh client imageSysprepCommand None))"

subsection \<open>An operator's command\<close>

definition execCommandLimit :: nat where "execCommandLimit = 65536"
definition execOutputLimit :: nat where "execOutputLimit = 1048576"

record cappedBuffer =
  cb_limit :: nat
  cb_buf :: string
  cb_total :: int

definition cappedWrite :: "string \<Rightarrow> cappedBuffer \<Rightarrow> cappedBuffer" where
  "cappedWrite p c =
     (let c = c\<lparr>cb_total := wrap64 (cb_total c + int (length p))\<rparr>;
          remaining = int (cb_limit c) - int (length (cb_buf c))
      in if remaining \<le> 0 then c
         else if int (length p) \<le> remaining then c\<lparr>cb_buf := cb_buf c @ p\<rparr>
         else c\<lparr>cb_buf := cb_buf c @ take (nat remaining) p\<rparr>)"

definition original :: "cappedBuffer \<Rightarrow> int" where
  "original c = (if cb_total c > int (length (cb_buf c)) then cb_total c else 0)"

definition capture :: "string list \<Rightarrow> cappedBuffer" where
  "capture writes = fold cappedWrite writes \<lparr>cb_limit = execOutputLimit, cb_buf = '''', cb_total = 0\<rparr>"

record ExecResult =
  er_Stdout :: string
  er_Stderr :: string
  er_ExitCode :: int
  er_TruncatedStdout :: int
  er_TruncatedStderr :: int

definition int32 :: "int \<Rightarrow> int" where
  "int32 x = (x + 2147483648) mod 4294967296 - 2147483648"

definition runRemoteCapture :: "'w SSH \<Rightarrow> string \<Rightarrow> string \<Rightarrow> ('w, ExecResult) disp" where
  "runRemoteCapture ssh client cmd =
     bindR (wrapErr ''open session'' (net (ss_session ssh client))) (\<lambda>_. net (\<lambda>w.
       case ss_capture ssh client (''sh -c '' @ shellQuote cmd) w of
         ((outs, errs, outcome), w) \<Rightarrow>
           let stdout = capture outs; stderr = capture errs;
               res = \<lparr>er_Stdout = cb_buf stdout, er_Stderr = cb_buf stderr, er_ExitCode = 0,
                      er_TruncatedStdout = original stdout, er_TruncatedStderr = original stderr\<rparr>
           in case outcome of
                RunOK \<Rightarrow> (Inr res, w)
              | _ \<Rightarrow> (case ss_ctxErr ssh w of
                    Some c \<Rightarrow> (Inl c, w)
                  | None \<Rightarrow> (case outcome of
                        RunExit st \<Rightarrow> (Inr (res\<lparr>er_ExitCode := int32 st\<rparr>), w)
                      | RunFailed e \<Rightarrow> (Inl (ErrOther (''run remote command: '' @ errorText e)), w)
                      | RunOK \<Rightarrow> (Inr res, w)))))"

text \<open>A dispatcher that is not an SSH dispatcher is \<open>None\<close>.\<close>

definition ExecOnWorker :: "'w SSH \<Rightarrow> Dispatcher option \<Rightarrow> Pool \<Rightarrow> string \<Rightarrow> string \<Rightarrow> ('w, ExecResult) disp" where
  "ExecOnWorker ssh disp pool instanceID command =
     (if length command > execCommandLimit
      then failR (ErrOther (''command too long: '' @ formatNat (length command) @ '' bytes (limit '' @ formatNat execCommandLimit @ '')''))
      else case disp of
        None \<Rightarrow> failR (ErrOther ''ExecOnWorker is not supported by this dispatcher (no SSH path)'')
      | Some d \<Rightarrow>
          (case Get instanceID pool of (n, known) \<Rightarrow>
             if \<not> known then failR (ErrOther (''instance '' @ quoted instanceID @ '' not in pool''))
             else if State n \<notin> {StateIdle, StateBusy}
             then failR (ErrOther (''instance '' @ quoted instanceID @ '' in state '' @ quoted (stateName (State n)) @ ''; exec requires idle or busy''))
             else bindR (wrapErr (''ssh dial '' @ IP n) (dial ssh d (IP n))) (\<lambda>client. runRemoteCapture ssh client command)))"

subsection \<open>Commands are the words they are meant to be\<close>

text \<open>
  C32. Whatever the Forgejo URL, the runner's UUID, the labels and the job handle contain (no
  command line can carry a NUL byte), a POSIX shell reads the dispatched command as exactly one
  call of \<open>forgejo-runner\<close> with these arguments: no part of them is taken for an option of its
  own word, an operator or an expansion.
\<close>

theorem oneJobCommand_argv:
  assumes "CHR 0x00 \<notin> set (dp_ForgejoURL d)" "CHR 0x00 \<notin> set (rg_UUID reg)"
    "CHR 0x00 \<notin> set (join '','' (dp_Labels d))" "CHR 0x00 \<notin> set (wj_Handle job)"
  shows "shWords None (oneJobCommand d reg job) =
    Some [''forgejo-runner'', ''one-job'', ''--url'', dp_ForgejoURL d, ''--uuid'', rg_UUID reg, ''--token-url'', ''file:/tmp/tok'',
          ''--label'', join '','' (dp_Labels d), ''--handle'', wj_Handle job, ''--wait'', ''--config'', ''/tmp/runner-cfg.yml'']"
  unfolding oneJobCommand_def
  by (simp add: sh_simps shWords_shellQuote assms)

lemma execCommand_argv:
  assumes "CHR 0x00 \<notin> set cmd"
  shows "shWords None (''sh -c '' @ shellQuote cmd) = Some [''sh'', ''-c'', cmd]"
  using shWords_shellQuote [OF assms, of _ "[]"] by (simp add: sh_simps)

lemma readyCommand_argv:
  assumes "CHR 0x00 \<notin> set (dp_ReadyFile d)"
  shows "shWords None (readyCommand d) = Some [''test'', ''-f'', dp_ReadyFile d]"
  using shWords_shellQuote [OF assms, of _ "[]"] by (simp add: readyCommand_def sh_simps)

subsection \<open>The captured output\<close>

lemma capture_fold:
  assumes "length (cb_buf c) \<le> cb_limit c" "0 \<le> cb_total c" "cb_total c + int (length (concat ws)) \<le> max_int64"
  shows "cb_buf (fold cappedWrite ws c) = cb_buf c @ take (cb_limit c - length (cb_buf c)) (concat ws)"
    and "cb_total (fold cappedWrite ws c) = cb_total c + int (length (concat ws))"
    and "cb_limit (fold cappedWrite ws c) = cb_limit c"
  using assms
proof (induction ws arbitrary: c)
  case Nil
  case 1 then show ?case by simp
  case 2 then show ?case by simp
  case 3 then show ?case by simp
next
  case (Cons p ws)
  have step: "cb_buf (cappedWrite p c) = cb_buf c @ take (cb_limit c - length (cb_buf c)) p \<and>
      cb_total (cappedWrite p c) = cb_total c + int (length p) \<and> cb_limit (cappedWrite p c) = cb_limit c"
    if "length (cb_buf c) \<le> cb_limit c" "0 \<le> cb_total c" "cb_total c + int (length (concat (p # ws))) \<le> max_int64" for c
  proof -
    have "in_int64 (cb_total c + int (length p))" using that(2,3) by (auto simp: in_int64_def min_int64_def)
    then show ?thesis using that(1) by (auto simp: cappedWrite_def Let_def go_arith nat_diff_distrib)
  qed
  {
    case 1
    then show ?case
      using Cons.IH(1) [of "cappedWrite p c"] step [OF 1] by (cases "length p \<le> cb_limit c - length (cb_buf c)") auto
  next
    case 2
    then show ?case
      using Cons.IH(2) [of "cappedWrite p c"] step [OF 2] by (cases "length p \<le> cb_limit c - length (cb_buf c)") auto
  next
    case 3
    then show ?case
      using Cons.IH(3) [of "cappedWrite p c"] step [OF 3] by (cases "length p \<le> cb_limit c - length (cb_buf c)") auto
  }
qed

lemma capture_bounded:
  assumes "int (length (concat ws)) \<le> max_int64"
  shows "cb_buf (capture ws) = take execOutputLimit (concat ws)"
    and "original (capture ws) = (if execOutputLimit < length (concat ws) then int (length (concat ws)) else 0)"
proof -
  let ?c = "\<lparr>cb_limit = execOutputLimit, cb_buf = '''', cb_total = 0\<rparr>"
  have b: "cb_buf (capture ws) = take execOutputLimit (concat ws)" "cb_total (capture ws) = int (length (concat ws))"
    using capture_fold [of ?c ws] assms by (simp_all add: capture_def)
  then show "cb_buf (capture ws) = take execOutputLimit (concat ws)" by simp
  show "original (capture ws) = (if execOutputLimit < length (concat ws) then int (length (concat ws)) else 0)"
    using b by (auto simp: original_def)
qed

subsection \<open>Pinned host keys\<close>

datatype dispOp = OpPin string PublicKey | OpReady nat string | OpRun string Registration WaitingJob | OpPrepare string
  | OpExec Pool string string

fun dispStep :: "(string \<Rightarrow> parsedURL result) \<Rightarrow> (string \<Rightarrow> bool) \<Rightarrow> 'w SSH \<Rightarrow> Dispatcher \<Rightarrow> dispOp \<Rightarrow> pins \<times> 'w \<Rightarrow> pins \<times> 'w" where
  "dispStep urlParse isIP ssh d (OpPin ip key) (pins, w) = (PinHostKey d ip key pins, w)"
| "dispStep urlParse isIP ssh d (OpReady fuel ip) st = (case WaitReady fuel False ssh d ip st of None \<Rightarrow> st | Some (_, st') \<Rightarrow> st')"
| "dispStep urlParse isIP ssh d (OpRun ip reg job) st = snd (RunJob urlParse isIP ssh d ip reg job st)"
| "dispStep urlParse isIP ssh d (OpPrepare ip) st = snd (PrepareImage ssh d ip st)"
| "dispStep urlParse isIP ssh d (OpExec pool instanceID command) st = snd (ExecOnWorker ssh (Some d) pool instanceID command st)"

text \<open>What every dispatcher operation keeps, by the shape of its program.\<close>

context step_relation
begin

definition kept :: "('s, 'a) action \<Rightarrow> bool" where
  "kept m \<longleftrightarrow> (\<forall>s. R s (snd (m s)))"

lemma kept_basic: "kept (returnR a)" "kept (failR e)"
  by (simp_all add: kept_def keeps_return)

lemma kept_bind: "kept m \<Longrightarrow> (\<And>a. kept (f a)) \<Longrightarrow> kept (bindR m f)"
  by (simp add: kept_def keeps_bind)

lemma kept_wrap: "kept m \<Longrightarrow> kept (wrapErr what m)"
  unfolding kept_def wrapErr_def by (auto split: prod.splits sum.splits) (metis snd_conv)+

lemmas kept_rules = kept_basic kept_bind kept_wrap

end

text \<open>No operation but a pin of the same address changes an address that has a key.\<close>

definition pinsKept :: "pins \<times> 'w \<Rightarrow> pins \<times> 'w \<Rightarrow> bool" where
  "pinsKept st st' \<longleftrightarrow> (\<forall>a k. fst st a = Some k \<longrightarrow> fst st' a = Some k)"

interpretation pin: step_relation pinsKept
  by unfold_locales (auto simp: pinsKept_def)

lemma pinned_leaf: "pin.kept (net f)" "pin.kept (tofuHostKeyCallback g addr key)"
  by (auto simp: pin.kept_def pinsKept_def net_def tofuHostKeyCallback_def split: prod.splits option.splits)

lemma pin_dial: "pin.kept (dial ssh d ip)" "pin.kept (gatewayDial ssh d ip)"
  unfolding dial_def gatewayDial_def dialAddr_def by (intro pin.kept_rules pinned_leaf)+

lemma pin_ops:
  "pin.kept (runRemote ssh client cmd stdin)" "pin.kept (jobSession ssh reg config cmd client)"
  "pin.kept (RunJob urlParse isIP ssh d ip reg job)" "pin.kept (PrepareImage ssh d ip)"
  "pin.kept (gatewayRunJob ssh d ip reg job)" "pin.kept (probe g ssh d ip)" "pin.kept (ExecOnWorker ssh disp pool instanceID command)"
  unfolding runRemote_def jobSession_def RunJob_def PrepareImage_def gatewayRunJob_def probe_def startReverseTunnel_def
    ExecOnWorker_def runRemoteCapture_def
  by (auto intro!: pin.kept_rules pinned_leaf pin_dial simp: Let_def split: sum.split option.split prod.split)

lemma pin_lookup: "pin.kept m \<Longrightarrow> fst st a = Some k \<Longrightarrow> fst (snd (m st)) a = Some k"
  by (simp add: pin.kept_def pinsKept_def del: split_paired_All)

lemma waitReadyLoop_pins:
  assumes "waitReadyLoop fuel g ssh d addr deadline e st = Some (r, st')" "fst st a = Some k"
  shows "fst st' a = Some k"
  using assms
proof (induction fuel g ssh d addr deadline e st rule: waitReadyLoop.induct)
  case (2 fuel g ssh d addr deadline lastErr pins w)
  have "fst (snd (probe g ssh d addr (pins, w'))) a = Some k" for w'
    using "2.prems"(2) by (intro pin_lookup [OF pin_ops(6)]) simp
  then show ?case
    using "2.prems" "2.IH" by (auto split: prod.splits if_splits option.splits sum.splits) (metis fst_conv snd_conv)+
qed simp

lemma dispStep_pins:
  assumes "fst st a = Some k" "\<And>ip key. op = OpPin ip key \<Longrightarrow> workerAddr d ip \<noteq> a"
  shows "fst (dispStep urlParse isIP ssh d op st) a = Some k"
proof (cases op)
  case (OpPin ip key)
  then show ?thesis using assms by (cases st) (simp add: PinHostKey_def)
next
  case (OpReady fuel ip)
  then show ?thesis
    using assms(1) by (cases st) (auto simp: WaitReady_def split: prod.splits option.splits dest!: waitReadyLoop_pins [where a = a and k = k])
next
  case (OpRun ip reg job)
  then show ?thesis using assms(1) pin_lookup [OF pin_ops(3)] by simp
next
  case (OpPrepare ip)
  then show ?thesis using assms(1) pin_lookup [OF pin_ops(4)] by simp
next
  case (OpExec pool instanceID command)
  then show ?thesis using assms(1) pin_lookup [OF pin_ops(7)] by simp
qed

lemma dispSteps_pins:
  assumes "fst st a = Some k" "\<And>ip key. OpPin ip key \<in> set ops \<Longrightarrow> workerAddr d ip \<noteq> a"
  shows "fst (fold (dispStep urlParse isIP ssh d) ops st) a = Some k"
  using assms
proof (induction ops arbitrary: st)
  case (Cons op ops)
  have "fst (dispStep urlParse isIP ssh d op st) a = Some k"
    using Cons.prems by (intro dispStep_pins) auto
  then have "fst (fold (dispStep urlParse isIP ssh d) ops (dispStep urlParse isIP ssh d op st)) a = Some k"
    by (rule Cons.IH) (use Cons.prems(2) in auto)
  then show ?case by simp
qed simp

text \<open>
  Nothing but the key exchange of the address is reached when the key differs from the pinned one.
  To say so, the machine behind the address is replaced in all it does after the exchange by that of another network.
\<close>

definition answering :: "'w SSH \<Rightarrow> string \<Rightarrow> 'w SSH \<Rightarrow> 'w SSH" where
  "answering other addr ssh = ssh\<lparr>
     ss_auth := (\<lambda>a. if a = addr then ss_auth other a else ss_auth ssh a),
     ss_session := (\<lambda>a. if a = addr then ss_session other a else ss_session ssh a),
     ss_run := (\<lambda>a. if a = addr then ss_run other a else ss_run ssh a),
     ss_capture := (\<lambda>a. if a = addr then ss_capture other a else ss_capture ssh a),
     ss_listen := (\<lambda>a. if a = addr then ss_listen other a else ss_listen ssh a)\<rparr>"

definition wrongKey :: "'w SSH \<Rightarrow> string \<Rightarrow> PublicKey \<Rightarrow> bool" where
  "wrongKey ssh addr k \<longleftrightarrow> (\<forall>w key. fst (ss_hostKey ssh addr w) = Inr key \<longrightarrow> pk_Marshal key \<noteq> pk_Marshal k)"

lemma answering_simps [simp]:
  "ss_now (answering other addr ssh) = ss_now ssh" "ss_ctxErr (answering other addr ssh) = ss_ctxErr ssh"
  "ss_sleep (answering other addr ssh) = ss_sleep ssh" "ss_tcp (answering other addr ssh) = ss_tcp ssh"
  "ss_hostKey (answering other addr ssh) = ss_hostKey ssh" "ss_durationString (answering other addr ssh) = ss_durationString ssh"
  "a \<noteq> addr \<Longrightarrow> ss_auth (answering other addr ssh) a = ss_auth ssh a"
  "a \<noteq> addr \<Longrightarrow> ss_session (answering other addr ssh) a = ss_session ssh a"
  "a \<noteq> addr \<Longrightarrow> ss_run (answering other addr ssh) a = ss_run ssh a"
  "a \<noteq> addr \<Longrightarrow> ss_capture (answering other addr ssh) a = ss_capture ssh a"
  "a \<noteq> addr \<Longrightarrow> ss_listen (answering other addr ssh) a = ss_listen ssh a"
  by (simp_all add: answering_def)

text \<open>Another address is not affected: a connection is only used at the address it was opened to.\<close>

lemma bind_dialAddr: "bindR (dialAddr g ssh a) f = bindR (dialAddr g ssh a) (\<lambda>_. f a)"
  by (rule ext) (auto simp: dialAddr_def bindR_def wrapErr_def returnR_def split: prod.splits sum.splits)

lemma elsewhere_client:
  assumes "a \<noteq> addr"
  shows "runRemote (answering other addr ssh) a = runRemote ssh a"
    and "startReverseTunnel (answering other addr ssh) a = startReverseTunnel ssh a"
    and "jobSession (answering other addr ssh) reg config cmd a = jobSession ssh reg config cmd a"
    and "runRemoteCapture (answering other addr ssh) a = runRemoteCapture ssh a"
proof -
  show run: "runRemote (answering other addr ssh) a = runRemote ssh a"
    using assms by (simp add: fun_eq_iff runRemote_def runOn_def [abs_def])
  show "startReverseTunnel (answering other addr ssh) a = startReverseTunnel ssh a"
    using assms by (simp add: fun_eq_iff startReverseTunnel_def)
  show "jobSession (answering other addr ssh) reg config cmd a = jobSession ssh reg config cmd a"
    by (simp add: jobSession_def run)
  show "runRemoteCapture (answering other addr ssh) a = runRemoteCapture ssh a"
    unfolding runRemoteCapture_def answering_simps(2) answering_simps(8) [OF assms] answering_simps(10) [OF assms] by (rule refl)
qed

lemma elsewhere_dial:
  assumes "workerAddr d ip \<noteq> addr"
  shows "dial (answering other addr ssh) d ip = dial ssh d ip"
  using assms by (simp add: dial_def dialAddr_def)

lemma bind_dial: "bindR (dial ssh d ip) f = bindR (dial ssh d ip) (\<lambda>_. f (workerAddr d ip))"
  unfolding dial_def by (rule bind_dialAddr)

lemma bind_wrapped_dial: "bindR (wrapErr what (dial ssh d ip)) f = bindR (wrapErr what (dial ssh d ip)) (\<lambda>_. f (workerAddr d ip))"
  by (rule ext) (auto simp: dial_def dialAddr_def bindR_def wrapErr_def returnR_def split: prod.splits sum.splits)

lemma elsewhere_ops:
  assumes "workerAddr d ip \<noteq> addr"
  shows "RunJob urlParse isIP (answering other addr ssh) d ip reg job = RunJob urlParse isIP ssh d ip reg job"
    and "PrepareImage (answering other addr ssh) d ip = PrepareImage ssh d ip"
    and "probe False (answering other addr ssh) d ip = probe False ssh d ip"
proof -
  show "RunJob urlParse isIP (answering other addr ssh) d ip reg job = RunJob urlParse isIP ssh d ip reg job"
  proof (cases "parseForgejoURL urlParse isIP (dp_ForgejoURL d)")
    case (Inr target)
    show ?thesis unfolding RunJob_def Inr sum.case
      by (subst (1 2) bind_dial) (simp add: elsewhere_dial elsewhere_client assms Let_def)
  qed (simp add: RunJob_def)
  show "PrepareImage (answering other addr ssh) d ip = PrepareImage ssh d ip"
    unfolding PrepareImage_def by (subst (1 2) bind_dial) (simp add: elsewhere_dial elsewhere_client assms)
  show "probe False (answering other addr ssh) d ip = probe False ssh d ip"
    unfolding probe_def if_False by (subst (1 2) bind_dial) (simp add: elsewhere_dial elsewhere_client readyCommand_def assms)
qed

lemma elsewhere_exec:
  assumes "workerAddr d (IP (fst (Get instanceID pool))) \<noteq> addr"
  shows "ExecOnWorker (answering other addr ssh) (Some d) pool instanceID command = ExecOnWorker ssh (Some d) pool instanceID command"
  using assms unfolding ExecOnWorker_def
  by (subst (1 2) bind_wrapped_dial) (auto simp: elsewhere_dial elsewhere_client split: prod.split)

text \<open>At the address itself, every connection fails at the key, whoever answers.\<close>

lemma dial_refused:
  assumes "pins addr = Some k" "wrongKey ssh addr k"
  obtains e w' where "dialAddr g ssh addr (pins, w) = (Inl e, pins, w')"
    and "\<And>other. dialAddr g (answering other addr ssh) addr (pins, w) = (Inl e, pins, w')"
proof -
  obtain r w1 where tcp: "ss_tcp ssh addr w = (r, w1)" by fastforce
  obtain h w2 where hk: "ss_hostKey ssh addr w1 = (h, w2)" by fastforce
  have "h = Inr key \<Longrightarrow> pk_Marshal k \<noteq> pk_Marshal key" for key
    using assms(2) hk unfolding wrongKey_def by (metis fst_conv)
  then have "\<exists>e w'. \<forall>s \<in> {ssh} \<union> range (\<lambda>other. answering other addr ssh). dialAddr g s addr (pins, w) = (Inl e, pins, w')"
    using assms(1) tcp hk
    by (cases r; cases h) (simp_all add: dialAddr_def bindR_def wrapErr_def net_def tofuHostKeyCallback_def)
  then show thesis using that by auto
qed

lemma refused_ops:
  assumes "pins (workerAddr d ip) = Some k" "wrongKey ssh (workerAddr d ip) k" "addr = workerAddr d ip"
  shows "is_err (fst (RunJob urlParse isIP ssh d ip reg job (pins, w))) \<and>
      RunJob urlParse isIP (answering other addr ssh) d ip reg job (pins, w) = RunJob urlParse isIP ssh d ip reg job (pins, w)"
    and "is_err (fst (PrepareImage ssh d ip (pins, w))) \<and>
      PrepareImage (answering other addr ssh) d ip (pins, w) = PrepareImage ssh d ip (pins, w)"
    and "\<exists>e w'. probe g ssh d ip (pins, w) = (Inl e, pins, w') \<and> probe g (answering other addr ssh) d ip (pins, w) = (Inl e, pins, w')"
proof -
  obtain e w' where f: "dialAddr False ssh addr (pins, w) = (Inl e, pins, w')"
    "\<And>other. dialAddr False (answering other addr ssh) addr (pins, w) = (Inl e, pins, w')"
    using dial_refused [of pins addr k ssh False w] assms by blast
  obtain e' w'' where t: "dialAddr g ssh addr (pins, w) = (Inl e', pins, w'')"
    "\<And>other. dialAddr g (answering other addr ssh) addr (pins, w) = (Inl e', pins, w'')"
    using dial_refused [of pins addr k ssh g w] assms by blast
  show "is_err (fst (RunJob urlParse isIP ssh d ip reg job (pins, w))) \<and>
      RunJob urlParse isIP (answering other addr ssh) d ip reg job (pins, w) = RunJob urlParse isIP ssh d ip reg job (pins, w)"
    using f assms(3) by (auto simp: RunJob_def dial_def bindR_def failR_def split: sum.split)
  show "is_err (fst (PrepareImage ssh d ip (pins, w))) \<and>
      PrepareImage (answering other addr ssh) d ip (pins, w) = PrepareImage ssh d ip (pins, w)"
    using f assms(3) by (simp add: PrepareImage_def dial_def bindR_def)
  show "\<exists>e w'. probe g ssh d ip (pins, w) = (Inl e, pins, w') \<and> probe g (answering other addr ssh) d ip (pins, w) = (Inl e, pins, w')"
    using t assms(3) by (cases g) (simp_all add: probe_def dial_def gatewayDial_def bindR_def)
qed

lemma refused_exec:
  assumes "pins (workerAddr d (IP (fst (Get instanceID pool)))) = Some k" "wrongKey ssh (workerAddr d (IP (fst (Get instanceID pool)))) k"
    and "addr = workerAddr d (IP (fst (Get instanceID pool)))"
  shows "is_err (fst (ExecOnWorker ssh (Some d) pool instanceID command (pins, w))) \<and>
    ExecOnWorker (answering other addr ssh) (Some d) pool instanceID command (pins, w) = ExecOnWorker ssh (Some d) pool instanceID command (pins, w)"
proof -
  obtain e w' where "dialAddr False ssh addr (pins, w) = (Inl e, pins, w')"
    "\<And>other. dialAddr False (answering other addr ssh) addr (pins, w) = (Inl e, pins, w')"
    using dial_refused [of pins addr k ssh False w] assms by blast
  then show ?thesis
    using assms(3) by (auto simp: ExecOnWorker_def dial_def wrapErr_def bindR_def failR_def split: prod.split)
qed

lemma never_ready_loop:
  assumes "pins (workerAddr d ip) = Some k" "wrongKey ssh (workerAddr d ip) k" "addr = workerAddr d ip"
  shows "(\<forall>st. waitReadyLoop fuel g ssh d ip deadline e (pins, w) \<noteq> Some (Inr (), st)) \<and>
    waitReadyLoop fuel g (answering other addr ssh) d ip deadline e (pins, w) = waitReadyLoop fuel g ssh d ip deadline e (pins, w)"
proof (induction fuel arbitrary: e w)
  case (Suc fuel)
  obtain now w1 where now: "ss_now ssh w = (now, w1)" by fastforce
  obtain e' w2 where p: "probe g ssh d ip (pins, w1) = (Inl e', pins, w2)" "probe g (answering other addr ssh) d ip (pins, w1) = (Inl e', pins, w2)"
    using refused_ops(3) [where pins = pins, OF assms] by blast
  obtain c w3 where sleep: "ss_sleep ssh w2 = (c, w3)" by fastforce
  show ?case using now p sleep Suc.IH by (auto split: option.splits)
qed simp

lemma never_ready:
  assumes "pins (workerAddr d ip) = Some k" "wrongKey ssh (workerAddr d ip) k"
  shows "WaitReady fuel g ssh d ip (pins, w) \<noteq> Some (Inr (), st)"
    and "WaitReady fuel g (answering other (workerAddr d ip) ssh) d ip (pins, w) = WaitReady fuel g ssh d ip (pins, w)"
  using never_ready_loop [where pins = pins, OF assms refl] unfolding WaitReady_def by (auto split: prod.split simp del: split_paired_All)

lemma elsewhere_ready:
  assumes "workerAddr d ip \<noteq> addr"
  shows "WaitReady fuel False (answering other addr ssh) d ip st = WaitReady fuel False ssh d ip st"
proof -
  have "waitReadyLoop fuel False (answering other addr ssh) d ip deadline e st = waitReadyLoop fuel False ssh d ip deadline e st" for deadline e st
    using assms
    by (induction fuel arbitrary: e st) (auto simp: elsewhere_ops split: prod.split option.split sum.split)
  then show ?thesis by (simp add: WaitReady_def split: prod.split)
qed

lemma dispStep_answering:
  assumes "fst st addr = Some k" "wrongKey ssh addr k"
  shows "dispStep urlParse isIP (answering other addr ssh) d op st = dispStep urlParse isIP ssh d op st"
proof -
  obtain pins w where st: "st = (pins, w)" by force
  show ?thesis
  proof (cases op)
    case (OpReady fuel ip)
    then show ?thesis
      using assms st elsewhere_ready [of d ip addr fuel other ssh "(pins, w)"] never_ready(2) [of pins d ip k ssh]
      by (cases "workerAddr d ip = addr") auto
  next
    case (OpRun ip reg job)
    then show ?thesis
      using assms st elsewhere_ops(1) [of d ip addr _ _ other ssh] refused_ops(1) [of pins d ip k ssh] by (cases "workerAddr d ip = addr") auto
  next
    case (OpPrepare ip)
    then show ?thesis
      using assms st elsewhere_ops(2) [of d ip addr other ssh] refused_ops(2) [of pins d ip k ssh] by (cases "workerAddr d ip = addr") auto
  next
    case (OpExec pool instanceID command)
    then show ?thesis
      using assms st elsewhere_exec [of d instanceID pool addr other ssh] refused_exec [of pins d instanceID pool k ssh]
      by (cases "workerAddr d (IP (fst (Get instanceID pool))) = addr") auto
  qed (simp add: st)
qed

lemma dispSteps_answering:
  assumes "fst st addr = Some k" "wrongKey ssh addr k" "\<And>ip key. OpPin ip key \<in> set ops \<Longrightarrow> workerAddr d ip \<noteq> addr"
  shows "fold (dispStep urlParse isIP (answering other addr ssh) d) ops st = fold (dispStep urlParse isIP ssh d) ops st"
  using assms(1,3)
proof (induction ops arbitrary: st)
  case (Cons op ops)
  have "fst (dispStep urlParse isIP ssh d op st) addr = Some k" using Cons.prems by (intro dispStep_pins) auto
  then have "fold (dispStep urlParse isIP (answering other addr ssh) d) ops (dispStep urlParse isIP ssh d op st) =
      fold (dispStep urlParse isIP ssh d) ops (dispStep urlParse isIP ssh d op st)"
    by (rule Cons.IH) (use Cons.prems(2) in auto)
  then show ?case using dispStep_answering [OF Cons.prems(1) assms(2)] by simp
qed simp

text \<open>
  C33. A pinned host key is authoritative from the first contact on. The orchestrator has pinned
  the key it generated for a worker and has used the SSH dispatcher since, with this worker and others, on a network of any kind
  (\<open>earlier\<close>). From then on the machine that answers at the worker's address presents other keys only, and the dispatcher
  goes on working (\<open>later\<close>: readiness waits, job runs, image preparations, operators' commands and pins of other addresses).
  Then the worker's key stays pinned, and the dispatcher never gets past the key exchange with that
  machine: its pins and its whole network are left exactly as they would be if the machine did anything else with a log-in, a session, a
  command or a listener, so none of them is ever sent there. A wait for the worker never reports it ready; a job run, an
  image preparation and an operator's command on it return an error.
\<close>

theorem pinned_key_authoritative:
  assumes "\<And>ip' key'. OpPin ip' key' \<in> set (earlier @ later) \<Longrightarrow> workerAddr d ip' \<noteq> workerAddr d ip"
    and "fold (dispStep urlParse isIP ssh0 d) (OpPin ip k # earlier) st = st1"
    and "\<And>w key. fst (ss_hostKey ssh (workerAddr d ip) w) = Inr key \<Longrightarrow> pk_Marshal key \<noteq> pk_Marshal k"
    and "fold (dispStep urlParse isIP ssh d) later st1 = st2" and "IP (fst (Get instanceID pool)) = ip"
  shows "fst st2 (workerAddr d ip) = Some k \<and>
    fold (dispStep urlParse isIP (answering other (workerAddr d ip) ssh) d) later st1 = st2 \<and>
    (\<forall>st'. WaitReady fuel False ssh d ip st2 \<noteq> Some (Inr (), st')) \<and>
    is_err (fst (RunJob urlParse isIP ssh d ip reg job st2)) \<and> is_err (fst (PrepareImage ssh d ip st2)) \<and>
    is_err (fst (ExecOnWorker ssh (Some d) pool instanceID command st2))"
proof -
  have "fst (dispStep urlParse isIP ssh0 d (OpPin ip k) st) (workerAddr d ip) = Some k"
    by (cases st) (simp add: PinHostKey_def)
  from dispSteps_pins [OF this, of earlier d urlParse isIP ssh0] have p1: "fst st1 (workerAddr d ip) = Some k" using assms(1,2) by auto
  have wrong: "wrongKey ssh (workerAddr d ip) k" using assms(3) by (simp add: wrongKey_def)
  from dispSteps_pins [OF p1, of later d urlParse isIP ssh] have p2: "fst st2 (workerAddr d ip) = Some k" using assms(1,4) by auto
  moreover have "fold (dispStep urlParse isIP (answering other (workerAddr d ip) ssh) d) later st1 = st2"
    using dispSteps_answering [OF p1 wrong, of later d urlParse isIP other] assms(1,4) by auto
  moreover obtain pins w where st2: "st2 = (pins, w)" by force
  then have pins: "pins (workerAddr d ip) = Some k" using p2 by simp
  have "WaitReady fuel False ssh d ip st2 \<noteq> Some (Inr (), st')" for st'
    unfolding st2 using never_ready(1) [where pins = pins, OF pins wrong] .
  moreover have "is_err (fst (ExecOnWorker ssh (Some d) pool instanceID command st2))"
    using refused_exec [where pins = pins and d = d and instanceID = instanceID and pool = pool and k = k and ssh = ssh] pins wrong
    unfolding assms(5) st2 by blast
  ultimately show ?thesis
    using refused_ops(1,2) [where pins = pins, OF pins wrong refl] unfolding st2 by blast
qed

text \<open>
  The cache-gateway dispatcher has no way to replace a key. A machine that was once served keeps
  its address pinned for the life of the daemon; a new machine that the network gives the same address never becomes ready.
\<close>

lemma net_pins: "net f s = (r, s') \<Longrightarrow> fst s' = fst s"
  by (auto simp: net_def split: prod.splits)

lemma tofu_pins: "tofuHostKeyCallback g addr key s = (Inr u, s') \<Longrightarrow> fst s' addr \<noteq> None"
  by (auto simp: tofuHostKeyCallback_def split: prod.splits option.splits if_splits)

lemma dialed_is_pinned: "dialAddr g ssh addr st = (Inr c, st') \<Longrightarrow> fst st' addr \<noteq> None"
  unfolding dialAddr_def bindR_Inr wrapErr_Inr returnR_def by (auto dest!: net_pins tofu_pins)

theorem gateway_address_reuse_rejected:
  assumes "gatewayRunJob ssh d ip reg job st = (Inr (), pins, w)"
    and "\<And>w. fst (ss_hostKey ssh' (workerAddr d ip) w) = Inr key" "pk_Marshal key \<noteq> pk_Marshal (the (pins (workerAddr d ip)))"
  shows "WaitReady fuel True ssh' d ip (pins, w') \<noteq> Some (Inr (), st')"
proof -
  obtain c st1 where d: "gatewayDial ssh d ip st = (Inr c, st1)" "jobSession ssh reg (''container:'' @ [CHR 0x0A] @ ''  docker_host: automount'' @ [CHR 0x0A])
      (oneJobCommand d reg job) c st1 = (Inr (), pins, w)"
    using assms(1) by (auto simp: gatewayRunJob_def bindR_Inr)
  obtain k where k: "fst st1 (workerAddr d ip) = Some k" using dialed_is_pinned d(1) unfolding gatewayDial_def by blast
  then have "fst (snd (jobSession ssh reg (''container:'' @ [CHR 0x0A] @ ''  docker_host: automount'' @ [CHR 0x0A])
      (oneJobCommand d reg job) c st1)) (workerAddr d ip) = Some k"
    by (rule pin_lookup [OF pin_ops(2)])
  then have "pins (workerAddr d ip) = Some k" unfolding d(2) by simp
  then show ?thesis
    using never_ready(1) [of pins d ip k ssh' fuel True w'] assms(2,3) by (simp add: wrongKey_def)
qed

subsection \<open>Waiting ends\<close>

text \<open>The clock never runs backwards, and waiting for five seconds takes at least that long.\<close>

definition clockOf :: "'w SSH \<Rightarrow> 'w \<Rightarrow> instant" where
  "clockOf ssh w = fst (ss_now ssh w)"

definition clockAdvances :: "'w SSH \<Rightarrow> bool" where
  "clockAdvances ssh \<longleftrightarrow>
     (\<forall>w. clockOf ssh w \<le> clockOf ssh (snd (ss_now ssh w))) \<and>
     (\<forall>a w. clockOf ssh w \<le> clockOf ssh (snd (ss_tcp ssh a w))) \<and>
     (\<forall>a w. clockOf ssh w \<le> clockOf ssh (snd (ss_hostKey ssh a w))) \<and>
     (\<forall>a w. clockOf ssh w \<le> clockOf ssh (snd (ss_auth ssh a w))) \<and>
     (\<forall>a w. clockOf ssh w \<le> clockOf ssh (snd (ss_session ssh a w))) \<and>
     (\<forall>a c i w. clockOf ssh w \<le> clockOf ssh (snd (ss_run ssh a c i w))) \<and>
     (\<forall>w w'. ss_sleep ssh w = (None, w') \<longrightarrow> clockOf ssh w + 5 * second \<le> clockOf ssh w')"

definition later :: "'w SSH \<Rightarrow> pins \<times> 'w \<Rightarrow> pins \<times> 'w \<Rightarrow> bool" where
  "later ssh st st' \<longleftrightarrow> clockOf ssh (snd st) \<le> clockOf ssh (snd st')"

interpretation clock: step_relation "later ssh" for ssh
  by unfold_locales (auto simp: later_def)

lemma clock_leaf:
  assumes "\<And>w. clockOf ssh w \<le> clockOf ssh (snd (f w))"
  shows "clock.kept ssh (net f)"
proof -
  have "clockOf ssh w \<le> clockOf ssh w'" if "f w = (r, w')" for r w w'
    using assms [of w] that by simp
  then show ?thesis by (auto simp: clock.kept_def later_def net_def split: prod.splits)
qed

lemma clock_tofu: "clock.kept ssh (tofuHostKeyCallback g addr key)"
  by (auto simp: clock.kept_def later_def tofuHostKeyCallback_def split: prod.splits option.splits)

lemma clock_probe:
  assumes "clockAdvances ssh"
  shows "clock.kept ssh (probe g ssh d addr)"
proof -
  have leaf: "clock.kept ssh (net (ss_tcp ssh a))" "clock.kept ssh (net (ss_hostKey ssh a))" "clock.kept ssh (net (ss_auth ssh a))"
    "clock.kept ssh (net (ss_session ssh a))" for a
    using assms by (auto simp: clockAdvances_def intro!: clock_leaf)
  have run: "clock.kept ssh (net (runOn ssh c cmd i))" for c cmd i
  proof (rule clock_leaf)
    fix w
    obtain out e w' where "ss_run ssh c cmd i w = ((out, e), w')" by (metis prod.exhaust)
    moreover have "clockOf ssh w \<le> clockOf ssh (snd (ss_run ssh c cmd i w))" using assms by (simp add: clockAdvances_def)
    ultimately show "clockOf ssh w \<le> clockOf ssh (snd (runOn ssh c cmd i w))"
      by (auto simp: runOn_def split: option.split)
  qed
  show ?thesis
    unfolding probe_def dial_def gatewayDial_def dialAddr_def runRemote_def
    by (auto intro!: clock.kept_rules leaf run clock_tofu)
qed

lemma waitReadyLoop_returns:
  assumes "clockAdvances ssh" "deadline \<le> clockOf ssh w + int fuel * (5 * second)"
  shows "\<exists>r. waitReadyLoop (Suc fuel) g ssh d addr deadline e (pins, w) = Some r"
  using assms(2)
proof (induction fuel arbitrary: e pins w)
  case 0
  then have "\<not> clockOf ssh w < deadline" by simp
  then show ?case by (cases "ss_now ssh w") (simp add: clockOf_def)
next
  case (Suc fuel)
  obtain now w1 where now: "ss_now ssh w = (now, w1)" by fastforce
  have c1: "clockOf ssh w \<le> clockOf ssh w1" using assms(1) now unfolding clockAdvances_def by (metis snd_conv)
  obtain r p2 w2 where probe: "probe g ssh d addr (pins, w1) = (r, p2, w2)" by (metis prod.exhaust)
  have c2: "clockOf ssh w1 \<le> clockOf ssh w2"
    using clock_probe [OF assms(1), of g d addr] probe unfolding clock.kept_def later_def by (metis snd_conv)
  obtain c w3 where sleep: "ss_sleep ssh w2 = (c, w3)" by fastforce
  show ?case
  proof (cases "now < deadline \<and> ss_ctxErr ssh w1 = None \<and> is_err r \<and> c = None")
    case True
    then obtain err where r: "r = Inl err" by (cases r) auto
    have "clockOf ssh w2 + 5 * second \<le> clockOf ssh w3" using assms(1) sleep True by (simp add: clockAdvances_def)
    then have "deadline \<le> clockOf ssh w3 + int fuel * (5 * second)"
      using Suc.prems c1 c2 by (simp add: algebra_simps)
    moreover have "waitReadyLoop (Suc (Suc fuel)) g ssh d addr deadline e (pins, w) =
        waitReadyLoop (Suc fuel) g ssh d addr deadline (Some err) (p2, w3)"
      using now probe sleep True r by (subst waitReadyLoop.simps) simp
    ultimately show ?thesis using Suc.IH by simp
  next
    case False
    then show ?thesis using now probe sleep by (subst waitReadyLoop.simps) (auto split: option.splits sum.splits)
  qed
qed

text \<open>
  C34. Waiting for a worker ends. With a clock that does not run backwards the readiness loop of both
  dispatchers returns after at most one round per five seconds of \<open>ReadyWait\<close> and one more,
  whatever the worker answers.
\<close>

theorem WaitReady_returns:
  assumes "clockAdvances ssh"
  shows "\<exists>r. WaitReady (nat (dp_ReadyWait d div (5 * second)) + 2) g ssh d addr st = Some r"
proof -
  obtain pins w where st: "st = (pins, w)" by force
  obtain now w1 where now: "ss_now ssh w = (now, w1)" by fastforce
  have "now \<le> clockOf ssh w1" using assms now unfolding clockAdvances_def clockOf_def by (metis fst_conv snd_conv)
  moreover have "dp_ReadyWait d \<le> int (nat (dp_ReadyWait d div (5 * second)) + 1) * (5 * second)"
  proof -
    obtain n where n: "n = int (nat (dp_ReadyWait d div 5000000000))" "dp_ReadyWait d div 5000000000 \<le> n" by simp
    have "x \<le> (n + 1) * 5000000000" if "q * 5000000000 + m = x" "m < 5000000000" "q \<le> n" for x q m :: int
    proof -
      have "q * 5000000000 \<le> n * 5000000000" using that(3) by simp
      then show ?thesis using that(1,2) by (simp add: distrib_right)
    qed
    from this [OF div_mult_mod_eq _ n(2)] have "dp_ReadyWait d \<le> (n + 1) * 5000000000" by simp
    then show ?thesis using n(1) by (simp add: second_def)
  qed
  ultimately have "time_add now (dp_ReadyWait d) \<le> clockOf ssh w1 + int (nat (dp_ReadyWait d div (5 * second)) + 1) * (5 * second)"
    by (simp add: time_add_def)
  from waitReadyLoop_returns [OF assms this, of g d addr None pins]
  show ?thesis by (simp only: WaitReady_def st now prod.case Suc_eq_plus1 add.assoc one_add_one)
qed

subsection \<open>A network to try it on\<close>

text \<open>The world is the clock; every machine presents the same key and accepts everything.\<close>

definition sampleNet :: "string \<Rightarrow> instant SSH" where
  "sampleNet hostkey = \<lparr>ss_now = (\<lambda>w. (w, w)), ss_ctxErr = (\<lambda>_. None), ss_sleep = (\<lambda>w. (None, w + 5 * second)),
     ss_tcp = (\<lambda>_ w. (Inr (), w)), ss_hostKey = (\<lambda>_ w. (Inr \<lparr>pk_Type = ''ssh-ed25519'', pk_Marshal = hostkey\<rparr>, w)),
     ss_auth = (\<lambda>_ w. (Inr (), w)), ss_session = (\<lambda>_ w. (Inr (), w)), ss_run = (\<lambda>_ _ _ w. (('''', None), w)),
     ss_capture = (\<lambda>_ _ w. (([], [], RunOK), w)), ss_listen = (\<lambda>_ _ w. (Inr (), w)), ss_durationString = (\<lambda>_. ''10m'')\<rparr>"

definition sampleDispatcher :: Dispatcher where
  "sampleDispatcher = \<lparr>dp_Port = 22, dp_ForgejoURL = ''https://git.example'', dp_Labels = [''small''],
     dp_ReadyFile = ''/run/ready'', dp_ReadyWait = 600 * second\<rparr>"

definition sampleHandleJob :: "string \<Rightarrow> WaitingJob" where
  "sampleHandleJob handle = \<lparr>wj_ID = 1, wj_Attempt = 1, wj_Handle = handle, wj_RepoID = 1, wj_OwnerID = 1, wj_RunID = 1,
     wj_WorkflowID = '''', wj_CommitSHA = '''', wj_Labels = [], wj_Status = '''', wj_TaskID = 0, wj_Name = ''''\<rparr>"

definition sampleURL :: "string \<Rightarrow> parsedURL result" where
  "sampleURL raw = Inr \<lparr>u_Scheme = ''https'', u_Hostname = ''git.example'', u_Port = ''''\<rparr>"

theorem oneJobCommand_argv_witness:
  "shWords None (oneJobCommand sampleDispatcher \<lparr>rg_UUID = ''u-1'', rg_Token = ''t''\<rparr> (sampleHandleJob (quoteChar # ''; rm -rf /''))) =
     Some [''forgejo-runner'', ''one-job'', ''--url'', ''https://git.example'', ''--uuid'', ''u-1'', ''--token-url'', ''file:/tmp/tok'',
           ''--label'', ''small'', ''--handle'', quoteChar # ''; rm -rf /'', ''--wait'', ''--config'', ''/tmp/runner-cfg.yml'']"
  using oneJobCommand_argv [of sampleDispatcher "\<lparr>rg_UUID = ''u-1'', rg_Token = ''t''\<rparr>" "sampleHandleJob (quoteChar # ''; rm -rf /'')"]
  by (simp add: sampleDispatcher_def sampleHandleJob_def quoteChar_def)

lemma sampleAddr: "workerAddr sampleDispatcher ''10.0.0.1'' = ''10.0.0.1:22''"
  by code_simp

text \<open>A worker served under its own key; another machine then takes its address and accepts everything.\<close>

theorem pinned_key_authoritative_witness:
  "let pin = [''10.0.0.1:22'' \<mapsto> \<lparr>pk_Type = ''ssh-ed25519'', pk_Marshal = ''mine''\<rparr>]; reg = \<lparr>rg_UUID = ''u-1'', rg_Token = ''t''\<rparr>;
       job = sampleHandleJob ''h''; pool = [(''w'', Node_zero\<lparr>IP := ''10.0.0.1'', State := StateIdle\<rparr>)]
   in fst (RunJob sampleURL (\<lambda>_. False) (sampleNet ''mine'') sampleDispatcher ''10.0.0.1'' reg job (pin, 7)) = Inr () \<and>
      is_err (fst (RunJob sampleURL (\<lambda>_. False) (sampleNet ''other'') sampleDispatcher ''10.0.0.1'' reg job (pin, 7))) \<and>
      is_err (fst (ExecOnWorker (sampleNet ''other'') (Some sampleDispatcher) pool ''w'' ''id'' (pin, 7)))"
proof -
  let ?k = "\<lparr>pk_Type = ''ssh-ed25519'', pk_Marshal = ''mine''\<rparr>"
  let ?pin = "[''10.0.0.1:22'' \<mapsto> ?k]"
  let ?reg = "\<lparr>rg_UUID = ''u-1'', rg_Token = ''t''\<rparr>"
  let ?run = "OpRun ''10.0.0.1'' ?reg (sampleHandleJob ''h'')"
  have served: "RunJob sampleURL (\<lambda>_. False) (sampleNet ''mine'') sampleDispatcher ''10.0.0.1'' ?reg (sampleHandleJob ''h'') (?pin, 7) = (Inr (), ?pin, 7)"
    by (simp add: RunJob_def parseForgejoURL_def sampleURL_def toLower_def dial_def dialAddr_def sampleAddr sampleNet_def bindR_def wrapErr_def net_def
        tofuHostKeyCallback_def startReverseTunnel_def jobSession_def runRemote_def runOn_def returnR_def Let_def)
  have refused: "dispStep sampleURL (\<lambda>_. False) (sampleNet ''other'') sampleDispatcher ?run (?pin, 7) = (?pin, 7)"
    by (simp add: RunJob_def parseForgejoURL_def sampleURL_def toLower_def dial_def dialAddr_def sampleAddr sampleNet_def bindR_def wrapErr_def net_def
        tofuHostKeyCallback_def Let_def)
  show ?thesis
    using served refused pinned_key_authoritative [of "[?run]" "[?run]" sampleDispatcher "''10.0.0.1''" sampleURL "\<lambda>_. False" "sampleNet ''mine''" ?k "(Map.empty, 7)" "(?pin, 7)"
        "sampleNet ''other''" "(?pin, 7)" "''w''" "[(''w'', Node_zero\<lparr>IP := ''10.0.0.1'', State := StateIdle\<rparr>)]"
        _ _ ?reg "sampleHandleJob ''h''" "''id''"]
    by (simp add: PinHostKey_def sampleAddr Get_def sampleNet_def Let_def)
qed

theorem WaitReady_returns_witness:
  "clockAdvances (sampleNet ''mine'') \<and>
   (\<exists>r. WaitReady (nat (600 * second div (5 * second)) + 2) False (sampleNet ''mine'') sampleDispatcher ''10.0.0.1'' (Map.empty, 0) = Some r)"
proof -
  have "clockAdvances (sampleNet ''mine'')" by (simp add: clockAdvances_def clockOf_def sampleNet_def)
  then show ?thesis
    using WaitReady_returns [of "sampleNet ''mine''" sampleDispatcher False "''10.0.0.1''" "(Map.empty, 0)"]
    by (simp add: sampleDispatcher_def)
qed

end
