(* ===== verification/Acl.thy ===== *)
theory Acl
  imports Go_Strings "HOL-Library.Word"
begin

unbundle bit_operations_syntax

text \<open>
  The access-control list of src/internal/transport/wg/acl: the grammar (entry.go, parser.go), the
  implicit entries and de-duplication (implicit.go), and the registry of resolved names with its
  snapshots and lookup (resolver.go). An address of Go's \<open>netip\<close> is a 32-bit or 128-bit word;
  zones are left out. The textual forms of addresses and prefixes, and of URLs, are the parameters
  of the record \<open>NetIP\<close>.
\<close>

subsection \<open>Addresses and prefixes\<close>

datatype Addr = NoAddr | V4 "32 word" | V6 "128 word"

datatype Prefix = NoPrefix | MkPrefix Addr nat

fun pf_Addr :: "Prefix \<Rightarrow> Addr" where
  "pf_Addr NoPrefix = NoAddr" | "pf_Addr (MkPrefix a _) = a"

fun pf_Bits :: "Prefix \<Rightarrow> nat" where
  "pf_Bits NoPrefix = 0" | "pf_Bits (MkPrefix _ b) = b"

fun bitLen :: "Addr \<Rightarrow> nat" where
  "bitLen NoAddr = 0" | "bitLen (V4 _) = 32" | "bitLen (V6 _) = 128"

fun addrValue :: "Addr \<Rightarrow> nat" where
  "addrValue NoAddr = 0" | "addrValue (V4 w) = unat w" | "addrValue (V6 w) = unat w"

fun is6 :: "Addr \<Rightarrow> bool" where
  "is6 (V6 _) = True" | "is6 _ = False"

fun is4In6 :: "Addr \<Rightarrow> bool" where
  "is4In6 (V6 w) = (drop_bit 32 w = 0xFFFF)" | "is4In6 _ = False"

definition prefixFrom :: "Addr \<Rightarrow> nat \<Rightarrow> Prefix" where
  "prefixFrom a bits = (if a = NoAddr \<or> bitLen a < bits then NoPrefix else MkPrefix a bits)"

fun maskedAddr :: "Addr \<Rightarrow> nat \<Rightarrow> Addr" where
  "maskedAddr (V4 w) bits = V4 (push_bit (32 - bits) (drop_bit (32 - bits) w))"
| "maskedAddr (V6 w) bits = V6 (push_bit (128 - bits) (drop_bit (128 - bits) w))"
| "maskedAddr NoAddr bits = NoAddr"

fun masked :: "Prefix \<Rightarrow> Prefix" where
  "masked NoPrefix = NoPrefix"
| "masked (MkPrefix a bits) = MkPrefix (maskedAddr a bits) bits"

fun containsAddr :: "Prefix \<Rightarrow> Addr \<Rightarrow> bool" where
  "containsAddr (MkPrefix (V4 p) bits) (V4 a) = (drop_bit (32 - bits) p = drop_bit (32 - bits) a)"
| "containsAddr (MkPrefix (V6 p) bits) (V6 a) = (drop_bit (128 - bits) p = drop_bit (128 - bits) a)"
| "containsAddr _ _ = False"

record NetIP =
  ni_ParseAddr :: "string \<Rightarrow> Addr option"
  ni_ParsePrefix :: "string \<Rightarrow> Prefix result"
  ni_AddrString :: "Addr \<Rightarrow> string"
  ni_PrefixString :: "Prefix \<Rightarrow> string"

lemma host_prefix_contains:
  assumes "a \<noteq> NoAddr"
  shows "containsAddr (prefixFrom a (bitLen a)) b \<longleftrightarrow> b = a"
  using assms by (cases a; cases b) (auto simp: prefixFrom_def)

lemma drop_push_drop: "drop_bit k (push_bit k (drop_bit k w)) = drop_bit k (w :: 'n::len word)"
  by (rule bit_word_eqI) (auto simp: bit_drop_bit_eq bit_push_bit_iff dest: bit_imp_le_length)

lemma masked_contains: "containsAddr (masked p) a = containsAddr p a"
proof (cases p)
  case (MkPrefix q bits)
  then show ?thesis by (cases q; cases a) (simp_all add: drop_push_drop)
qed simp

subsection \<open>Entries\<close>

definition SchemeTCP :: string where "SchemeTCP = ''tcp''"
definition SchemeUDP :: string where "SchemeUDP = ''udp''"
definition SchemeICMP :: string where "SchemeICMP = ''icmp''"

lemmas schemes = SchemeTCP_def SchemeUDP_def SchemeICMP_def

definition ICMPAny :: int where "ICMPAny = -1"

record PortRange =
  Lo :: int
  Hi :: int

definition Contains :: "PortRange \<Rightarrow> int \<Rightarrow> bool" where
  "Contains r p \<longleftrightarrow> p \<ge> Lo r \<and> p \<le> Hi r"

definition PortRange_String :: "PortRange \<Rightarrow> string" where
  "PortRange_String r = (if Lo r = Hi r then formatInt (Lo r) else formatInt (Lo r) @ ''-'' @ formatInt (Hi r))"

record TypeCode =
  tc_Type :: int
  tc_Code :: int

definition icmpFieldString :: "int \<Rightarrow> string" where
  "icmpFieldString v = (if v = ICMPAny then ''any'' else formatInt v)"

definition TypeCode_String :: "TypeCode \<Rightarrow> string" where
  "TypeCode_String tc =
     (if tc_Code tc = ICMPAny \<and> tc_Type tc \<noteq> ICMPAny then icmpFieldString (tc_Type tc)
      else icmpFieldString (tc_Type tc) @ ''/'' @ icmpFieldString (tc_Code tc))"

record Entry =
  en_Scheme :: string
  en_Host :: string
  en_Prefix :: Prefix
  en_PortSpec :: "PortRange list"
  en_ICMPSpec :: "TypeCode list"
  en_Original :: string

definition IsDomain :: "Entry \<Rightarrow> bool" where
  "IsDomain e \<longleftrightarrow> en_Prefix e = NoPrefix"

definition HasUnsupportedICMPTypes :: "Entry \<Rightarrow> bool" where
  "HasUnsupportedICMPTypes e \<longleftrightarrow>
     (if en_Scheme e \<noteq> SchemeICMP then False
      else list_ex (\<lambda>tc. tc_Type tc = ICMPAny \<or> (tc_Type tc \<noteq> 0 \<and> tc_Type tc \<noteq> 8)) (en_ICMPSpec e))"

definition isIPv6Host :: "Entry \<Rightarrow> bool" where
  "isIPv6Host e \<longleftrightarrow> en_Prefix e \<noteq> NoPrefix \<and> is6 (pf_Addr (en_Prefix e)) \<and> \<not> is4In6 (pf_Addr (en_Prefix e))"

definition isAllPorts :: "PortRange list \<Rightarrow> bool" where
  "isAllPorts ps \<longleftrightarrow> (case ps of [r] \<Rightarrow> Lo r = 1 \<and> Hi r = 65535 | _ \<Rightarrow> False)"

definition Entry_String :: "Entry \<Rightarrow> string" where
  "Entry_String e =
     en_Scheme e @ ''://'' @ (if isIPv6Host e then ''['' @ en_Host e @ '']'' else en_Host e) @
     (if en_Scheme e = SchemeICMP
      then (if en_ICMPSpec e \<noteq> [] then '':'' @ joinWith (CHR '','') (map TypeCode_String (en_ICMPSpec e)) else '''')
      else if en_PortSpec e \<noteq> [] \<and> \<not> isAllPorts (en_PortSpec e)
      then '':'' @ joinWith (CHR '','') (map PortRange_String (en_PortSpec e)) else '''')"

subsection \<open>Parsing\<close>

definition parsePort :: "string \<Rightarrow> int result" where
  "parsePort s =
     (if s = '''' then failE ''empty port''
      else case Atoi s of
        None \<Rightarrow> failE (''port '' @ goQuote s @ '': not an integer'')
      | Some v \<Rightarrow> if v < 1 \<or> v > 65535 then failE (''port '' @ formatInt v @ '' out of range (want 1-65535)'') else Inr v)"

definition parsePortOrRange :: "string \<Rightarrow> PortRange result" where
  "parsePortOrRange p =
     (case cut (CHR ''-'') p of
        Some (loS, hiS) \<Rightarrow>
          bindE (wrapE (''range '' @ goQuote p) (parsePort loS)) (\<lambda>lo.
          bindE (wrapE (''range '' @ goQuote p) (parsePort hiS)) (\<lambda>hi.
            if lo > hi then failE (''range '' @ goQuote p @ '': lo '' @ formatInt lo @ '' > hi '' @ formatInt hi)
            else Inr \<lparr>Lo = lo, Hi = hi\<rparr>))
      | None \<Rightarrow> bindE (parsePort p) (\<lambda>v. Inr \<lparr>Lo = v, Hi = v\<rparr>))"

definition overlaps :: "PortRange \<Rightarrow> PortRange \<Rightarrow> bool" where
  "overlaps a b \<longleftrightarrow> Lo a \<le> Hi b \<and> Lo b \<le> Hi a"

fun validateNoOverlap :: "PortRange list \<Rightarrow> unit result" where
  "validateNoOverlap [] = Inr ()"
| "validateNoOverlap (r # rs) =
     (case find (overlaps r) rs of
        Some q \<Rightarrow> failE (''overlapping ranges in portspec: '' @ PortRange_String r @ '' and '' @ PortRange_String q)
      | None \<Rightarrow> validateNoOverlap rs)"

definition parsePortSpec :: "string \<Rightarrow> PortRange list result" where
  "parsePortSpec s =
     bindE (mapE (\<lambda>p. let p = trimSpace p in
              if p = '''' then failE ''empty port-or-range in portspec'' else parsePortOrRange p) (splitOn (CHR '','') s))
       (\<lambda>out. bindE (validateNoOverlap out) (\<lambda>_. Inr out))"

definition parseICMPField :: "string \<Rightarrow> int result" where
  "parseICMPField s =
     (if s = '''' then failE ''empty field''
      else if toLower s = ''any'' then Inr ICMPAny
      else case Atoi s of
        None \<Rightarrow> failE ''not an integer''
      | Some v \<Rightarrow> if v < 0 \<or> v > 255 then failE (''value '' @ formatInt v @ '' out of range (want 0-255)'') else Inr v)"

definition parseTypeCode :: "string \<Rightarrow> TypeCode result" where
  "parseTypeCode s =
     (let (typS, codeS) = (case cut (CHR ''/'') s of Some (a, b) \<Rightarrow> (a, Some b) | None \<Rightarrow> (s, None))
      in bindE (wrapE (''icmp type '' @ goQuote typS) (parseICMPField typS)) (\<lambda>t.
         bindE (case codeS of
                  None \<Rightarrow> Inr ICMPAny
                | Some c \<Rightarrow> wrapE (''icmp code '' @ goQuote c) (parseICMPField c)) (\<lambda>c.
         Inr \<lparr>tc_Type = t, tc_Code = c\<rparr>)))"

definition parseICMPSpec :: "string \<Rightarrow> TypeCode list result" where
  "parseICMPSpec s =
     mapE (\<lambda>p. let p = trimSpace p in
       if p = '''' then failE ''empty type-code in icmpspec'' else parseTypeCode p) (splitOn (CHR '','') s)"

definition splitScheme :: "string \<Rightarrow> string \<times> string" where
  "splitScheme s = (case cutStr ''://'' s of Some (scheme, rest) \<Rightarrow> (toLower scheme, rest) | None \<Rightarrow> (SchemeTCP, s))"

definition splitHostSpec :: "string \<Rightarrow> (string \<times> string option) result" where
  "splitHostSpec s =
     (case s of
        [] \<Rightarrow> failE ''missing host''
      | c # cs \<Rightarrow>
          if c = CHR ''[''
          then (case cut (CHR '']'') cs of
                  None \<Rightarrow> failE (''unmatched '' @ [CHR 0x27, CHR ''['', CHR 0x27] @ '' in host expression'')
                | Some (host, rest) \<Rightarrow>
                    (case rest of
                       [] \<Rightarrow> Inr (host, None)
                     | d # spec \<Rightarrow>
                         if d = CHR '':''
                         then (if spec = '''' then failE (''empty spec after '' @ [CHR 0x27, CHR '':'', CHR 0x27]) else Inr (host, Some spec))
                         else failE (''unexpected '' @ goQuote rest @ '' after bracketed host'')))
          else (case cutLast (CHR '':'') s of
                  Some (host, spec) \<Rightarrow>
                    if host = '''' then failE ''missing host''
                    else if spec = '''' then failE (''empty spec after '' @ [CHR 0x27, CHR '':'', CHR 0x27])
                    else Inr (host, Some spec)
                | None \<Rightarrow> Inr (s, None)))"

definition isAlnum :: "char \<Rightarrow> bool" where
  "isAlnum c \<longleftrightarrow> (let n = (of_char c :: nat) in 97 \<le> n \<and> n \<le> 122 \<or> 65 \<le> n \<and> n \<le> 90 \<or> 48 \<le> n \<and> n \<le> 57)"

definition looksLikeDomain :: "string \<Rightarrow> bool" where
  "looksLikeDomain s \<longleftrightarrow>
     (if s = '''' \<or> length s > 253 then False
      else list_all (\<lambda>c. isAlnum c \<or> c = CHR ''.'' \<or> c = CHR ''-'' \<or> c = CHR ''_'') s \<and> CHR ''.'' \<in> set s)"

text \<open>A host token: an address or network, or \<open>None\<close> for a name to resolve.\<close>

definition parseHost :: "NetIP \<Rightarrow> string \<Rightarrow> Prefix option result" where
  "parseHost ip host =
     (if CHR ''/'' \<in> set host
      then bindE (wrapE (''invalid CIDR '' @ goQuote host) (ni_ParsePrefix ip host)) (\<lambda>pfx. Inr (Some (masked pfx)))
      else case ni_ParseAddr ip host of
        Some addr \<Rightarrow> Inr (Some (prefixFrom addr (bitLen addr)))
      | None \<Rightarrow>
          if \<not> looksLikeDomain host then failE (''host '' @ goQuote host @ '' is neither an IP, CIDR, nor a valid domain'')
          else Inr None)"

definition fillHost :: "NetIP \<Rightarrow> string \<Rightarrow> Entry \<Rightarrow> Entry result" where
  "fillHost ip host e =
     bindE (parseHost ip host) (\<lambda>r. case r of
       None \<Rightarrow> Inr e
     | Some pfx \<Rightarrow>
         let e = e\<lparr>en_Prefix := pfx\<rparr> in
         if is6 (pf_Addr pfx) \<and> \<not> is4In6 (pf_Addr pfx)
         then Inr (e\<lparr>en_Host := (if pf_Bits pfx = bitLen (pf_Addr pfx) then ni_AddrString ip (pf_Addr pfx) else ni_PrefixString ip pfx)\<rparr>)
         else Inr e)"

definition fillSpec :: "string option \<Rightarrow> Entry \<Rightarrow> Entry result" where
  "fillSpec spec e =
     (if en_Scheme e = SchemeICMP
      then (case spec of
              None \<Rightarrow> Inr e
            | Some s \<Rightarrow> bindE (parseICMPSpec s) (\<lambda>tcs. Inr (e\<lparr>en_ICMPSpec := tcs\<rparr>)))
      else (case spec of
              None \<Rightarrow> Inr (e\<lparr>en_PortSpec := [\<lparr>Lo = 1, Hi = 65535\<rparr>]\<rparr>)
            | Some s \<Rightarrow> bindE (parsePortSpec s) (\<lambda>ports. Inr (e\<lparr>en_PortSpec := ports\<rparr>))))"

definition parseEntry :: "NetIP \<Rightarrow> string \<Rightarrow> Entry result" where
  "parseEntry ip raw =
     (let s = trimSpace raw in
      if s = '''' then failE ''empty entry''
      else let (scheme, rest) = splitScheme s in
        if scheme \<notin> {SchemeTCP, SchemeUDP, SchemeICMP}
        then failE (''unknown scheme '' @ goQuote scheme @ '' (want tcp, udp, or icmp)'')
        else bindE (splitHostSpec rest) (\<lambda>(host, spec).
             bindE (fillHost ip host \<lparr>en_Scheme = scheme, en_Host = host, en_Prefix = NoPrefix, en_PortSpec = [], en_ICMPSpec = [],
                                      en_Original = raw\<rparr>) (fillSpec spec)))"

definition Parse :: "NetIP \<Rightarrow> string list \<Rightarrow> Entry list result" where
  "Parse ip strs = mapE (\<lambda>s. wrapE (''acl: '' @ goQuote s) (parseEntry ip s)) strs"

subsection \<open>Implicit entries and de-duplication\<close>

record aclURL =
  au_Scheme :: string
  au_Host :: string
  au_Hostname :: string
  au_Port :: string

text \<open>\<open>fmt.Sscanf(p, "%d", &port)\<close>: the leading decimal number.\<close>

definition scanInt :: "string \<Rightarrow> int option" where
  "scanInt s =
     (let (sign, ds) = (case s of
            [] \<Rightarrow> (1, []) | c # cs \<Rightarrow> if c = CHR ''-'' then (- 1, cs) else if c = CHR ''+'' then (1, cs) else (1, s));
          ds = takeWhile isDigit ds
      in if ds = [] then None
         else let v = sign * the (digitsValue ds 0) in if in_int64 v then Some v else None)"

definition forgejoHostPort :: "(string \<Rightarrow> aclURL result) \<Rightarrow> string \<Rightarrow> (string \<times> int) result" where
  "forgejoHostPort urlParse rawURL =
     bindE (urlParse rawURL) (\<lambda>u.
       if au_Host u = '''' \<or> au_Hostname u = '''' then failE ''missing host''
       else if au_Port u \<noteq> ''''
       then (case scanInt (au_Port u) of
               None \<Rightarrow> failE (''invalid port '' @ goQuote (au_Port u))
             | Some port \<Rightarrow> if port < 1 \<or> port > 65535 then failE (''port '' @ formatInt port @ '' out of range'') else Inr (au_Hostname u, port))
       else let scheme = toLower (au_Scheme u) in
         if scheme = ''https'' then Inr (au_Hostname u, 443)
         else if scheme = ''http'' then Inr (au_Hostname u, 80)
         else if scheme = ''ssh'' \<or> scheme = ''git+ssh'' then Inr (au_Hostname u, 22)
         else if scheme = '''' then failE ''missing scheme''
         else failE (''unsupported scheme '' @ goQuote (au_Scheme u) @ '' (want http, https, or ssh)''))"

definition ImplicitEntries :: "NetIP \<Rightarrow> (string \<Rightarrow> aclURL result) \<Rightarrow> string \<Rightarrow> Addr \<Rightarrow> string list result" where
  "ImplicitEntries ip urlParse forgejoBaseURL wgAddr =
     bindE (wrapE (''acl: forgejo base url '' @ goQuote forgejoBaseURL) (forgejoHostPort urlParse forgejoBaseURL)) (\<lambda>(host, port).
       if wgAddr = NoAddr then failE ''acl: invalid orchestrator WG address''
       else let orch = ni_AddrString ip wgAddr;
                orch = (if is6 wgAddr \<and> \<not> is4In6 wgAddr then ''['' @ orch @ '']'' else orch)
            in Inr [''tcp://'' @ host @ '':'' @ formatInt port, ''udp://'' @ orch @ '':53'', ''tcp://'' @ orch @ '':53''])"

fun dedupeLoop :: "(string \<times> Entry) list \<Rightarrow> string set \<Rightarrow> (string \<times> Entry) list" where
  "dedupeLoop [] seen = []"
| "dedupeLoop ((raw, e) # rest) seen =
     (let key = Entry_String e in if key \<in> seen then dedupeLoop rest seen else (raw, e) # dedupeLoop rest (insert key seen))"

definition DedupeRaw :: "NetIP \<Rightarrow> string list \<Rightarrow> string list \<Rightarrow> (string list \<times> Entry list) result" where
  "DedupeRaw ip operator implicit =
     (let all = operator @ implicit in
      bindE (Parse ip all) (\<lambda>entries. let out = dedupeLoop (zip all entries) {} in Inr (map fst out, map snd out)))"

subsection \<open>Snapshots and the registry\<close>

record AclSnapshot =
  sn_Prefixes :: "Prefix list"
  sn_Entries :: "Entry list"
  sn_resolved :: "string \<rightharpoonup> Addr list"

definition resolvedFor :: "(string \<rightharpoonup> Addr list) \<Rightarrow> string \<Rightarrow> Addr list" where
  "resolvedFor m host = (case m host of None \<Rightarrow> [] | Some as \<Rightarrow> as)"

definition snapshotMatchAddr :: "Entry \<Rightarrow> Addr \<Rightarrow> (string \<rightharpoonup> Addr list) \<Rightarrow> bool" where
  "snapshotMatchAddr e addr resolved =
     (if IsDomain e then addr \<in> set (resolvedFor resolved (en_Host e)) else containsAddr (en_Prefix e) addr)"

fun lookupLoop :: "Entry list \<Rightarrow> (string \<rightharpoonup> Addr list) \<Rightarrow> Addr \<Rightarrow> int \<Rightarrow> string \<Rightarrow> Entry option" where
  "lookupLoop [] resolved addr port scheme = None"
| "lookupLoop (e # es) resolved addr port scheme =
     (if en_Scheme e \<noteq> scheme then lookupLoop es resolved addr port scheme
      else if \<not> snapshotMatchAddr e addr resolved then lookupLoop es resolved addr port scheme
      else if en_Scheme e = SchemeICMP then Some e
      else if list_ex (\<lambda>r. Contains r port) (en_PortSpec e) then Some e
      else lookupLoop es resolved addr port scheme)"

definition Lookup :: "AclSnapshot \<Rightarrow> Addr \<Rightarrow> int \<Rightarrow> string \<Rightarrow> Entry option" where
  "Lookup s addr port scheme =
     (if addr = NoAddr then None else lookupLoop (sn_Entries s) (sn_resolved s) addr port scheme)"

text \<open>A subscription is its number and whether a notification waits in its channel of capacity one.\<close>

record Registry =
  rg_entries :: "Entry list"
  rg_resolved :: "string \<rightharpoonup> Addr list"
  rg_current :: AclSnapshot
  rg_subs :: "(nat \<times> bool) list"
  rg_subNextID :: nat

definition addPrefix :: "Prefix \<Rightarrow> Prefix list \<Rightarrow> Prefix list" where
  "addPrefix p ps = (if p = NoPrefix \<or> p \<in> set ps then ps else ps @ [p])"

definition entryPrefixes :: "(string \<rightharpoonup> Addr list) \<Rightarrow> Entry \<Rightarrow> Prefix list" where
  "entryPrefixes resolved e =
     (if \<not> IsDomain e then [en_Prefix e] else map (\<lambda>a. prefixFrom a (bitLen a)) (resolvedFor resolved (en_Host e)))"

definition addrKey :: "Addr \<Rightarrow> nat \<times> nat" where
  "addrKey a = (bitLen a, addrValue a)"

definition rebuild :: "Registry \<Rightarrow> Registry" where
  "rebuild r =
     r\<lparr>rg_current := \<lparr>sn_Prefixes = sort_key (\<lambda>p. (addrKey (pf_Addr p), pf_Bits p))
                         (fold (\<lambda>e ps. fold addPrefix (entryPrefixes (rg_resolved r) e) ps) (rg_entries r) []),
                       sn_Entries = rg_entries r, sn_resolved = rg_resolved r\<rparr>\<rparr>"

definition notify :: "Registry \<Rightarrow> Registry" where
  "notify r = r\<lparr>rg_subs := map (\<lambda>(i, _). (i, True)) (rg_subs r)\<rparr>"

definition NewRegistry :: "Entry list \<Rightarrow> Registry" where
  "NewRegistry entries =
     rebuild \<lparr>rg_entries = entries, rg_resolved = Map.empty,
              rg_current = \<lparr>sn_Prefixes = [], sn_Entries = [], sn_resolved = Map.empty\<rparr>, rg_subs = [], rg_subNextID = 0\<rparr>"

definition SubscribeRegistry :: "Registry \<Rightarrow> nat \<times> Registry" where
  "SubscribeRegistry r = (rg_subNextID r, r\<lparr>rg_subNextID := rg_subNextID r + 1, rg_subs := rg_subs r @ [(rg_subNextID r, False)]\<rparr>)"

definition UnsubscribeRegistry :: "nat \<Rightarrow> Registry \<Rightarrow> Registry" where
  "UnsubscribeRegistry i r = r\<lparr>rg_subs := filter (\<lambda>s. fst s \<noteq> i) (rg_subs r)\<rparr>"

definition sameAddrSet :: "Addr list \<Rightarrow> Addr list \<Rightarrow> bool" where
  "sameAddrSet a b \<longleftrightarrow> length a = length b \<and> sort_key addrKey a = sort_key addrKey b"

definition setResolved :: "string \<Rightarrow> Addr list \<Rightarrow> Registry \<Rightarrow> Registry" where
  "setResolved host addrs r =
     (if sameAddrSet (resolvedFor (rg_resolved r) host) addrs then r
      else notify (rebuild (r\<lparr>rg_resolved :=
             (if addrs = [] then (rg_resolved r)(host := None) else (rg_resolved r)(host \<mapsto> sort_key addrKey addrs))\<rparr>)))"

subsection \<open>The resolver\<close>

definition MinRefreshInterval :: duration where "MinRefreshInterval = 30 * second"
definition DefaultRefreshOnError :: duration where "DefaultRefreshOnError = 30 * second"

definition resolverDomains :: "Registry \<Rightarrow> string list" where
  "resolverDomains r = fold (\<lambda>h ds. if h \<in> set ds then ds else ds @ [h]) (map en_Host (filter IsDomain (rg_entries r))) []"

text \<open>One round of the loop of one host: the answer of the lookup, and the delay to the next.\<close>

definition resolveRound :: "string \<Rightarrow> (Addr list \<times> duration) result \<Rightarrow> Registry \<Rightarrow> duration \<times> Registry" where
  "resolveRound host answer r =
     (case answer of
        Inl _ \<Rightarrow> (DefaultRefreshOnError, r)
      | Inr (addrs, ttl) \<Rightarrow> (max ttl MinRefreshInterval, setResolved host addrs r))"

subsection \<open>What the parser accepts\<close>

definition validRange :: "PortRange \<Rightarrow> bool" where
  "validRange r \<longleftrightarrow> 1 \<le> Lo r \<and> Lo r \<le> Hi r \<and> Hi r \<le> 65535"

definition validPorts :: "PortRange list \<Rightarrow> bool" where
  "validPorts rs \<longleftrightarrow> rs \<noteq> [] \<and> list_all validRange rs \<and> sorted_wrt (\<lambda>a b. \<not> overlaps a b) rs"

definition validField :: "int \<Rightarrow> bool" where
  "validField v \<longleftrightarrow> v = ICMPAny \<or> 0 \<le> v \<and> v \<le> 255"

definition validTypeCode :: "TypeCode \<Rightarrow> bool" where
  "validTypeCode tc \<longleftrightarrow> validField (tc_Type tc) \<and> validField (tc_Code tc)"

definition validEntry :: "Entry \<Rightarrow> bool" where
  "validEntry e \<longleftrightarrow>
     (if en_Scheme e = SchemeICMP then en_PortSpec e = [] \<and> list_all validTypeCode (en_ICMPSpec e)
      else en_Scheme e \<in> {SchemeTCP, SchemeUDP} \<and> validPorts (en_PortSpec e) \<and> en_ICMPSpec e = [])"

lemma validateNoOverlap_Inr: "validateNoOverlap rs = Inr u \<longleftrightarrow> sorted_wrt (\<lambda>a b. \<not> overlaps a b) rs"
  by (induction rs) (auto simp: find_None_iff find_Some_iff split: option.splits dest: nth_mem)

lemma parsePort_Inr: "parsePort s = Inr v \<Longrightarrow> 1 \<le> v \<and> v \<le> 65535"
  by (auto simp: parsePort_def failE_def split: option.splits if_splits)

lemma parsePortOrRange_valid: "parsePortOrRange p = Inr r \<Longrightarrow> validRange r"
  by (auto simp: parsePortOrRange_def validRange_def split: option.splits if_splits dest!: parsePort_Inr)

lemma parsePortSpec_valid:
  assumes "parsePortSpec s = Inr rs"
  shows "validPorts rs"
proof -
  have "list_all2 (\<lambda>p r. (let p = trimSpace p in if p = '''' then failE ''empty port-or-range in portspec'' else parsePortOrRange p) = Inr r)
      (splitOn (CHR '','') s) rs" and no: "sorted_wrt (\<lambda>a b. \<not> overlaps a b) rs"
    using assms by (auto simp: parsePortSpec_def mapE_Inr validateNoOverlap_Inr)
  then have "list_all validRange rs" "length rs = length (splitOn (CHR '','') s)"
    by (auto simp: list_all_length list_all2_conv_all_nth Let_def split: if_splits intro: parsePortOrRange_valid)
  then show ?thesis using no by (auto simp: validPorts_def)
qed

lemma parseICMPField_valid: "parseICMPField s = Inr v \<Longrightarrow> validField v"
  by (auto simp: parseICMPField_def validField_def split: option.splits if_splits)

lemma parseTypeCode_valid: "parseTypeCode s = Inr tc \<Longrightarrow> validTypeCode tc"
  by (auto simp: parseTypeCode_def validTypeCode_def validField_def Let_def split: prod.splits option.splits
      dest!: parseICMPField_valid)

lemma parseICMPSpec_valid:
  assumes "parseICMPSpec s = Inr tcs"
  shows "list_all validTypeCode tcs"
  using assms
  by (auto simp: parseICMPSpec_def mapE_Inr list_all_length list_all2_conv_all_nth Let_def split: if_splits intro: parseTypeCode_valid)

lemma fillHost_other:
  assumes "fillHost ip host e = Inr e'"
  shows "en_Scheme e' = en_Scheme e" "en_PortSpec e' = en_PortSpec e" "en_ICMPSpec e' = en_ICMPSpec e" "en_Original e' = en_Original e"
  using assms by (auto simp: fillHost_def Let_def split: option.splits if_splits)

lemma parseEntry_Inr:
  assumes "parseEntry ip raw = Inr e"
  obtains scheme rest host spec e0 where "trimSpace raw \<noteq> ''''" "splitScheme (trimSpace raw) = (scheme, rest)"
    "scheme \<in> {SchemeTCP, SchemeUDP, SchemeICMP}" "splitHostSpec rest = Inr (host, spec)"
    "fillHost ip host \<lparr>en_Scheme = scheme, en_Host = host, en_Prefix = NoPrefix, en_PortSpec = [], en_ICMPSpec = [], en_Original = raw\<rparr> = Inr e0"
    "fillSpec spec e0 = Inr e"
proof -
  obtain scheme rest where s: "splitScheme (trimSpace raw) = (scheme, rest)" by fastforce
  have "trimSpace raw \<noteq> ''''" "scheme \<in> {SchemeTCP, SchemeUDP, SchemeICMP}"
    using assms s by (auto simp: parseEntry_def Let_def split: if_splits)
  moreover from this obtain host spec e0 where "splitHostSpec rest = Inr (host, spec)"
    "fillHost ip host \<lparr>en_Scheme = scheme, en_Host = host, en_Prefix = NoPrefix, en_PortSpec = [], en_ICMPSpec = [], en_Original = raw\<rparr> = Inr e0"
    "fillSpec spec e0 = Inr e"
    using assms s by (auto simp: parseEntry_def Let_def)
  ultimately show thesis using s that by blast
qed

lemma fillSpec_valid:
  assumes "fillSpec spec e0 = Inr e" "en_Scheme e0 \<in> {SchemeTCP, SchemeUDP, SchemeICMP}" "en_PortSpec e0 = []" "en_ICMPSpec e0 = []"
  shows "validEntry e"
proof -
  have all: "validPorts [\<lparr>Lo = 1, Hi = 65535\<rparr>]" by (simp add: validPorts_def validRange_def)
  show ?thesis
    using assms all
    by (auto simp: fillSpec_def validEntry_def split: option.splits if_splits dest: parsePortSpec_valid parseICMPSpec_valid)
qed

text \<open>
  Every entry the parser returns is well formed: its scheme is one of the three, a TCP or UDP
  entry has at least one port range, its ranges lie within 1 to 65535 and do not overlap, and an
  ICMP entry has types and codes within 0 to 255 or the wildcard; no entry mixes the two.
\<close>

theorem Parse_wellformed:
  assumes "Parse ip strs = Inr entries"
  shows "length entries = length strs \<and> list_all validEntry entries"
proof -
  have all: "list_all2 (\<lambda>s e. parseEntry ip s = Inr e) strs entries"
    using assms by (simp add: Parse_def mapE_Inr)
  have "validEntry e" if "parseEntry ip s = Inr e" for s e
    using that by (rule parseEntry_Inr) (auto intro!: fillSpec_valid dest: fillHost_other)
  then show ?thesis using all by (auto simp: list_all_length list_all2_conv_all_nth)
qed

subsection \<open>Printing and parsing\<close>

definition specChar :: "char \<Rightarrow> bool" where
  "specChar c \<longleftrightarrow> isDigit c \<or> c \<in> set ''any-/''"

lemma formatInt_nonneg: "0 \<le> i \<Longrightarrow> formatInt i = formatNat (nat i)"
  by (simp add: formatInt_def)

lemma not_digit: "\<not> isDigit (CHR ''-'')" "\<not> isDigit (CHR ''/'')" "\<not> isDigit (CHR '','')" "\<not> isDigit (CHR '':'')"
  by (simp_all add: isDigit_def)

lemma formatInt_no:
  assumes "0 \<le> i" "\<not> isDigit c"
  shows "c \<notin> set (formatInt i)"
  using formatNat_digits [of "nat i"] assms by (auto simp: formatInt_nonneg list_all_iff)

lemma parsePort_formatInt:
  assumes "1 \<le> v" "v \<le> 65535"
  shows "parsePort (formatInt v) = Inr v"
proof -
  have "in_int64 v" using assms by (simp add: in_int64_def min_int64_def max_int64_def)
  then show ?thesis using assms by (simp add: parsePort_def formatInt_nonempty Atoi_formatInt)
qed

lemma parsePortOrRange_String:
  assumes "validRange r"
  shows "parsePortOrRange (PortRange_String r) = Inr r"
proof -
  have r: "1 \<le> Lo r" "Lo r \<le> Hi r" "Hi r \<le> 65535" using assms by (auto simp: validRange_def)
  have no: "CHR ''-'' \<notin> set (formatInt (Lo r))" using r by (intro formatInt_no) (auto simp: not_digit)
  show ?thesis
  proof (cases "Lo r = Hi r")
    case True
    have "\<lparr>Lo = Hi r, Hi = Hi r\<rparr> = r" using True by (cases r) simp
    then show ?thesis
      using True r no by (simp add: parsePortOrRange_def PortRange_String_def cut_append parsePort_formatInt)
  next
    case False
    have "parsePort (formatInt (Lo r)) = Inr (Lo r)" "parsePort (formatInt (Hi r)) = Inr (Hi r)"
      using r by (simp_all add: parsePort_formatInt)
    moreover have "cut (CHR ''-'') (formatInt (Lo r) @ ''-'' @ formatInt (Hi r)) = Some (formatInt (Lo r), formatInt (Hi r))"
      using cut_append(1) [OF no] by simp
    ultimately show ?thesis
      using False r by (simp add: parsePortOrRange_def PortRange_String_def wrapE_def)
  qed
qed

lemma spec_trim:
  assumes "s \<noteq> ''''" "list_all specChar s"
  shows "trimSpace s = s"
proof -
  have ns: "specChar c \<Longrightarrow> \<not> isSpace c" for c by (auto simp: specChar_def isDigit_def isSpace_def)
  have "hd s \<in> set s" "last s \<in> set s" using assms(1) by simp_all
  then have "specChar (hd s)" "specChar (last s)" using assms(2) unfolding list_all_iff by blast+
  then show ?thesis using assms(1) ns by (intro trimSpace_id) auto
qed

lemma formatInt_spec: "0 \<le> i \<Longrightarrow> list_all specChar (formatInt i)"
  using formatNat_digits [of "nat i"] by (auto simp: formatInt_nonneg list_all_iff specChar_def)

lemma PortRange_String_spec:
  assumes "validRange r"
  shows "list_all specChar (PortRange_String r)" "PortRange_String r \<noteq> ''''"
  using assms formatInt_spec [of "Lo r"] formatInt_spec [of "Hi r"]
  by (auto simp: PortRange_String_def validRange_def formatInt_nonempty specChar_def)

lemma spec_no_comma: "list_all specChar s \<Longrightarrow> CHR '','' \<notin> set s" "list_all specChar s \<Longrightarrow> CHR '':'' \<notin> set s"
  by (auto simp: list_all_iff specChar_def isDigit_def)

lemma mapE_map: "(\<And>x. x \<in> set xs \<Longrightarrow> f (g x) = Inr x) \<Longrightarrow> mapE f (map g xs) = Inr xs"
  by (induction xs) auto

lemma parsePortSpec_String:
  assumes "validPorts rs"
  shows "parsePortSpec (joinWith (CHR '','') (map PortRange_String rs)) = Inr rs"
proof -
  have v: "\<And>r. r \<in> set rs \<Longrightarrow> validRange r" "rs \<noteq> []" "sorted_wrt (\<lambda>a b. \<not> overlaps a b) rs"
    using assms by (auto simp: validPorts_def list_all_iff)
  have "splitOn (CHR '','') (joinWith (CHR '','') (map PortRange_String rs)) = map PortRange_String rs"
    using v(1,2) PortRange_String_spec(1) spec_no_comma(1) by (intro splitOn_joinWith) auto
  moreover have "mapE (\<lambda>p. let p = trimSpace p in
      if p = '''' then failE ''empty port-or-range in portspec'' else parsePortOrRange p) (map PortRange_String rs) = Inr rs"
    by (rule mapE_map) (simp add: v(1) PortRange_String_spec spec_trim parsePortOrRange_String)
  ultimately show ?thesis
    using v(3) validateNoOverlap_Inr [of rs "()"] by (simp add: parsePortSpec_def)
qed

lemma parseICMPField_String:
  assumes "validField v"
  shows "parseICMPField (icmpFieldString v) = Inr v"
proof (cases "v = ICMPAny")
  case True
  then show ?thesis by (simp add: icmpFieldString_def parseICMPField_def toLower_def)
next
  case False
  then have v: "0 \<le> v" "v \<le> 255" using assms by (auto simp: validField_def)
  then have "in_int64 v" by (simp add: in_int64_def min_int64_def max_int64_def)
  moreover have "toLower (formatInt v) \<noteq> ''any''"
  proof
    assume "toLower (formatInt v) = ''any''"
    moreover have "isDigit (hd (formatInt v))" using v(1) formatNat_hd by (simp add: formatInt_nonneg)
    ultimately show False
      using formatInt_nonempty [of v] by (cases "formatInt v") (auto simp: toLower_def isDigit_def Let_def split: if_splits)
  qed
  ultimately show ?thesis
    using v False by (simp add: icmpFieldString_def parseICMPField_def formatInt_nonempty Atoi_formatInt)
qed

lemma icmpFieldString_spec:
  assumes "validField v"
  shows "list_all specChar (icmpFieldString v)" "icmpFieldString v \<noteq> ''''" "CHR ''/'' \<notin> set (icmpFieldString v)"
  using assms formatInt_spec [of v] formatInt_no [of v "CHR ''/''"]
  by (auto simp: icmpFieldString_def validField_def specChar_def formatInt_nonempty not_digit)

lemma parseTypeCode_String:
  assumes "validTypeCode tc"
  shows "parseTypeCode (TypeCode_String tc) = Inr tc"
proof -
  have v: "validField (tc_Type tc)" "validField (tc_Code tc)" using assms by (auto simp: validTypeCode_def)
  note no = icmpFieldString_spec(3) [OF v(1)]
  show ?thesis
  proof (cases "tc_Code tc = ICMPAny \<and> tc_Type tc \<noteq> ICMPAny")
    case True
    have "\<lparr>tc_Type = tc_Type tc, tc_Code = ICMPAny\<rparr> = tc" using True by (cases tc) simp
    then show ?thesis
      using True no v by (simp add: parseTypeCode_def TypeCode_String_def cut_append parseICMPField_String wrapE_def)
  next
    case False
    have "\<lparr>tc_Type = tc_Type tc, tc_Code = tc_Code tc\<rparr> = tc" by (cases tc) simp
    moreover have "cut (CHR ''/'') (icmpFieldString (tc_Type tc) @ ''/'' @ icmpFieldString (tc_Code tc)) =
        Some (icmpFieldString (tc_Type tc), icmpFieldString (tc_Code tc))"
      using cut_append(1) [OF no] by simp
    ultimately show ?thesis
      using False v by (auto simp: parseTypeCode_def TypeCode_String_def parseICMPField_String wrapE_def)
  qed
qed

lemma TypeCode_String_spec:
  assumes "validTypeCode tc"
  shows "list_all specChar (TypeCode_String tc)" "TypeCode_String tc \<noteq> ''''"
  using assms icmpFieldString_spec(1,2) by (auto simp: TypeCode_String_def validTypeCode_def specChar_def)

lemma parseICMPSpec_String:
  assumes "list_all validTypeCode tcs" "tcs \<noteq> []"
  shows "parseICMPSpec (joinWith (CHR '','') (map TypeCode_String tcs)) = Inr tcs"
proof -
  have v: "\<And>t. t \<in> set tcs \<Longrightarrow> validTypeCode t" using assms by (auto simp: list_all_iff)
  have "splitOn (CHR '','') (joinWith (CHR '','') (map TypeCode_String tcs)) = map TypeCode_String tcs"
    using v assms(2) TypeCode_String_spec(1) spec_no_comma(1) by (intro splitOn_joinWith) auto
  moreover have "mapE (\<lambda>p. let p = trimSpace p in
      if p = '''' then failE ''empty type-code in icmpspec'' else parseTypeCode p) (map TypeCode_String tcs) = Inr tcs"
    by (rule mapE_map) (simp add: v TypeCode_String_spec spec_trim parseTypeCode_String)
  ultimately show ?thesis by (simp add: parseICMPSpec_def)
qed

definition specPart :: "Entry \<Rightarrow> string option" where
  "specPart e =
     (if en_Scheme e = SchemeICMP
      then (if en_ICMPSpec e \<noteq> [] then Some (joinWith (CHR '','') (map TypeCode_String (en_ICMPSpec e))) else None)
      else if en_PortSpec e \<noteq> [] \<and> \<not> isAllPorts (en_PortSpec e)
      then Some (joinWith (CHR '','') (map PortRange_String (en_PortSpec e))) else None)"

lemma Entry_String_parts:
  "Entry_String e = en_Scheme e @ ''://'' @ (if isIPv6Host e then ''['' @ en_Host e @ '']'' else en_Host e) @
     (case specPart e of None \<Rightarrow> '''' | Some s \<Rightarrow> CHR '':'' # s)"
  by (simp add: Entry_String_def specPart_def)

lemma joinWith_chars:
  assumes "\<And>w. w \<in> set ws \<Longrightarrow> list_all P w" "P sep"
  shows "list_all P (joinWith sep ws)"
  using assms by (induction sep ws rule: joinWith.induct) auto

lemma joinWith_nonempty: "ws \<noteq> [] \<Longrightarrow> '''' \<notin> set ws \<Longrightarrow> joinWith sep ws \<noteq> ''''"
  by (induction sep ws rule: joinWith.induct) auto

lemma specPart_words:
  assumes "validEntry e" "specPart e = Some s"
  obtains ws where "s = joinWith (CHR '','') ws" "ws \<noteq> []" "\<And>w. w \<in> set ws \<Longrightarrow> list_all specChar w \<and> w \<noteq> []"
proof (cases "en_Scheme e = SchemeICMP")
  case True
  then have "s = joinWith (CHR '','') (map TypeCode_String (en_ICMPSpec e))" "en_ICMPSpec e \<noteq> []"
    "\<And>t. t \<in> set (en_ICMPSpec e) \<Longrightarrow> validTypeCode t"
    using assms by (auto simp: specPart_def validEntry_def list_all_iff split: if_splits)
  then show ?thesis using TypeCode_String_spec by (intro that [of "map TypeCode_String (en_ICMPSpec e)"]) auto
next
  case False
  then have "s = joinWith (CHR '','') (map PortRange_String (en_PortSpec e))" "en_PortSpec e \<noteq> []"
    "\<And>r. r \<in> set (en_PortSpec e) \<Longrightarrow> validRange r"
    using assms by (auto simp: specPart_def validEntry_def validPorts_def list_all_iff split: if_splits)
  then show ?thesis using PortRange_String_spec by (intro that [of "map PortRange_String (en_PortSpec e)"]) auto
qed

lemma specPart_chars:
  assumes "validEntry e" "specPart e = Some s"
  shows "list_all (\<lambda>c. specChar c \<or> c = CHR '','') s" "s \<noteq> []"
proof -
  obtain ws where ws: "s = joinWith (CHR '','') ws" "ws \<noteq> []" "\<And>w. w \<in> set ws \<Longrightarrow> list_all specChar w \<and> w \<noteq> []"
    using assms by (rule specPart_words) blast
  show "list_all (\<lambda>c. specChar c \<or> c = CHR '','') s"
    unfolding ws(1) using ws(3) by (intro joinWith_chars) (auto simp: list_all_iff)
  show "s \<noteq> []" unfolding ws(1) using ws(2,3) by (intro joinWith_nonempty) auto
qed

lemma specPart_parse:
  assumes "validEntry e"
  shows "fillSpec (specPart e) (e\<lparr>en_PortSpec := [], en_ICMPSpec := []\<rparr>) = Inr e"
proof (cases "en_Scheme e = SchemeICMP")
  case True
  then have "en_PortSpec e = []" "list_all validTypeCode (en_ICMPSpec e)" using assms by (auto simp: validEntry_def)
  then show ?thesis using True by (cases e) (auto simp: specPart_def fillSpec_def parseICMPSpec_String)
next
  case False
  then have v: "validPorts (en_PortSpec e)" "en_ICMPSpec e = []" using assms by (auto simp: validEntry_def)
  show ?thesis
  proof (cases "isAllPorts (en_PortSpec e)")
    case True
    then have "en_PortSpec e = [\<lparr>Lo = 1, Hi = 65535\<rparr>]"
      by (auto simp: isAllPorts_def split: list.splits)
    then show ?thesis using False True v by (cases e) (simp add: specPart_def fillSpec_def)
  next
    case no: False
    then show ?thesis using False v by (cases e) (auto simp: specPart_def fillSpec_def parsePortSpec_String validPorts_def)
  qed
qed

definition plainHost :: "string \<Rightarrow> bool" where
  "plainHost h \<longleftrightarrow> h \<noteq> '''' \<and> list_all (\<lambda>c. isAlnum c \<or> c \<in> set ''.-_/'') h"

lemma plain_not: "isAlnum c \<or> c \<in> set ''.-_/'' \<Longrightarrow> c \<noteq> CHR '':'' \<and> c \<noteq> CHR ''['' \<and> \<not> isSpace c"
  by (auto simp: isAlnum_def isSpace_def Let_def)

lemma splitHostSpec_plain:
  assumes "plainHost h" "\<And>s. spec = Some s \<Longrightarrow> CHR '':'' \<notin> set s \<and> s \<noteq> ''''"
  shows "splitHostSpec (h @ (case spec of None \<Rightarrow> '''' | Some s \<Rightarrow> CHR '':'' # s)) = Inr (h, spec)"
proof -
  obtain c cs where h: "h = c # cs" using assms(1) by (cases h) (auto simp: plainHost_def)
  have ok: "x \<noteq> CHR '':'' \<and> x \<noteq> CHR ''[''" if "x \<in> set h" for x
    using assms(1) plain_not [of x] that by (auto simp: plainHost_def list_all_iff)
  then have c: "c \<noteq> CHR ''[''" and no: "CHR '':'' \<notin> set h" using h by auto
  show ?thesis
  proof (cases spec)
    case None
    then show ?thesis using h c cutLast_append(2) [OF no] by (simp add: splitHostSpec_def)
  next
    case (Some s)
    then show ?thesis using h c cutLast_append(1) [of "CHR '':''" s h] assms(2) by (simp add: splitHostSpec_def)
  qed
qed

lemma splitScheme_String:
  assumes "scheme \<in> {SchemeTCP, SchemeUDP, SchemeICMP}"
  shows "splitScheme (scheme @ ''://'' @ rest) = (scheme, rest)"
  using assms by (auto simp: splitScheme_def schemes toLower_def)

lemma fillHost_host:
  assumes "fillHost ip host e = Inr e'" "\<not> isIPv6Host e'"
  shows "en_Host e' = en_Host e"
  using assms by (auto simp: fillHost_def isIPv6Host_def Let_def split: option.splits if_splits)

lemma fillHost_original:
  assumes "fillHost ip host e = Inr e'"
  shows "fillHost ip host (e\<lparr>en_Original := s\<rparr>) = Inr (e'\<lparr>en_Original := s\<rparr>)"
proof (cases "parseHost ip host")
  case (Inr r)
  then show ?thesis using assms by (cases r) (auto simp: fillHost_def Let_def split: if_splits)
qed (use assms in \<open>simp add: fillHost_def\<close>)

lemma fillSpec_host:
  assumes "fillSpec spec e0 = Inr e" "en_PortSpec e0 = []" "en_ICMPSpec e0 = []"
  shows "e\<lparr>en_PortSpec := [], en_ICMPSpec := []\<rparr> = e0"
  using assms by (cases e0) (auto simp: fillSpec_def split: option.splits if_splits)

text \<open>
  C36. Printing and parsing agree. An entry that came from the parser for a name, an IPv4 address
  or an IPv4 network is parsed back from its canonical form to the same entry, so de-duplication
  by the canonical form identifies exactly the entries with the same meaning.
\<close>

theorem parseEntry_String:
  assumes "parseEntry ip raw = Inr e" "\<not> isIPv6Host e" "plainHost (en_Host e)"
  shows "parseEntry ip (Entry_String e) = Inr (e\<lparr>en_Original := Entry_String e\<rparr>)"
proof -
  obtain scheme rest host spec e0 where p: "scheme \<in> {SchemeTCP, SchemeUDP, SchemeICMP}"
    "fillHost ip host \<lparr>en_Scheme = scheme, en_Host = host, en_Prefix = NoPrefix, en_PortSpec = [], en_ICMPSpec = [], en_Original = raw\<rparr> = Inr e0"
    "fillSpec spec e0 = Inr e"
    using assms(1) by (rule parseEntry_Inr)
  note fields = fillHost_other [OF p(2)]
  have e0: "e\<lparr>en_PortSpec := [], en_ICMPSpec := []\<rparr> = e0" using fillSpec_host [OF p(3)] fields by simp
  have v: "validEntry e" using fillSpec_valid [OF p(3)] fields p(1) by simp
  have same: "en_Scheme e = scheme" "en_Host e = host"
    using e0 fields(1) fillHost_host [OF p(2)] assms(2) by (auto simp: isIPv6Host_def)
  let ?s = "Entry_String e"
  have parts: "?s = scheme @ ''://'' @ host @ (case specPart e of None \<Rightarrow> '''' | Some s \<Rightarrow> CHR '':'' # s)"
    using Entry_String_parts [of e] assms(2) same by simp
  have sp: "CHR '':'' \<notin> set s \<and> s \<noteq> '''' \<and> \<not> isSpace (last s)" if "specPart e = Some s" for s
  proof -
    note c = specPart_chars [OF v that]
    have "last s \<in> set s" using c(2) by simp
    then have "specChar (last s) \<or> last s = CHR '',''" using c(1) unfolding list_all_iff by blast
    then have "\<not> isSpace (last s)" by (auto simp: specChar_def isDigit_def isSpace_def)
    then show ?thesis using c by (auto simp: list_all_iff specChar_def isDigit_def)
  qed
  have host: "host \<noteq> ''''" "\<not> isSpace (last host)"
    using assms(3) same(2) plain_not [of "last host"] by (auto simp: plainHost_def list_all_iff)
  have "last ?s = (case specPart e of None \<Rightarrow> last host | Some s \<Rightarrow> last s)"
    unfolding parts using host sp by (auto split: option.split)
  then have "\<not> isSpace (last ?s)" using host(2) sp by (auto split: option.split)
  moreover have "\<not> isSpace (hd ?s)" unfolding parts using p(1) by (auto simp: schemes isSpace_def)
  ultimately have trim: "trimSpace ?s = ?s" using parts by (intro trimSpace_id) auto
  have split: "splitScheme ?s = (scheme, host @ (case specPart e of None \<Rightarrow> '''' | Some s \<Rightarrow> CHR '':'' # s))"
    unfolding parts using p(1) by (rule splitScheme_String)
  have hs: "splitHostSpec (host @ (case specPart e of None \<Rightarrow> '''' | Some s \<Rightarrow> CHR '':'' # s)) = Inr (host, specPart e)"
    using assms(3) same(2) sp by (intro splitHostSpec_plain) auto
  have fh: "fillHost ip host \<lparr>en_Scheme = scheme, en_Host = host, en_Prefix = NoPrefix, en_PortSpec = [], en_ICMPSpec = [], en_Original = ?s\<rparr> =
      Inr (e0\<lparr>en_Original := ?s\<rparr>)"
    using fillHost_original [OF p(2), of ?s] by simp
  have "fillSpec (specPart e) (e0\<lparr>en_Original := ?s\<rparr>) = Inr (e\<lparr>en_Original := ?s\<rparr>)"
    using specPart_parse [OF v] unfolding e0 by (auto simp: fillSpec_def split: option.splits if_splits)
  then show ?thesis
    using trim split hs fh p(1) parts host(1) by (simp add: parseEntry_def Let_def)
qed

text \<open>A domain entry over TCP, parsed with an address parser that knows no literal address.\<close>

definition namesOnly :: NetIP where
  "namesOnly = \<lparr>ni_ParseAddr = (\<lambda>_. None), ni_ParsePrefix = (\<lambda>_. failE ''no prefix''), ni_AddrString = (\<lambda>_. []), ni_PrefixString = (\<lambda>_. [])\<rparr>"

definition cacheEntry :: Entry where
  "cacheEntry = \<lparr>en_Scheme = ''tcp'', en_Host = ''cache.example'', en_Prefix = NoPrefix,
                 en_PortSpec = [\<lparr>Lo = 80, Hi = 80\<rparr>, \<lparr>Lo = 8000, Hi = 8080\<rparr>], en_ICMPSpec = [],
                 en_Original = '' TCP://cache.example:80,8000-8080''\<rparr>"

lemma parse_cacheEntry: "parseEntry namesOnly '' TCP://cache.example:80,8000-8080'' = Inr cacheEntry"
  unfolding namesOnly_def cacheEntry_def by code_simp

lemma Parse_cacheEntry: "Parse namesOnly ['' TCP://cache.example:80,8000-8080''] = Inr [cacheEntry]"
  by (simp add: Parse_def parse_cacheEntry wrapE_def)

theorem Parse_wellformed_witness: "validEntry cacheEntry"
  using Parse_wellformed [OF Parse_cacheEntry] by simp

theorem parseEntry_String_witness:
  "parseEntry namesOnly (Entry_String cacheEntry) = Inr (cacheEntry\<lparr>en_Original := Entry_String cacheEntry\<rparr>)"
proof (rule parseEntry_String [OF parse_cacheEntry])
  show "\<not> isIPv6Host cacheEntry" by (simp add: isIPv6Host_def cacheEntry_def)
  show "plainHost (en_Host cacheEntry)" unfolding cacheEntry_def by code_simp
qed

subsection \<open>Lookup and the set of addresses handed out\<close>

lemma lookupLoop_iff:
  "lookupLoop es m addr port scheme \<noteq> None \<longleftrightarrow>
   (\<exists>e\<in>set es. en_Scheme e = scheme \<and> snapshotMatchAddr e addr m \<and>
      (scheme = SchemeICMP \<or> list_ex (\<lambda>r. Contains r port) (en_PortSpec e)))"
  by (induction es) auto

lemma addPrefixes: "set (fold addPrefix qs ps) = set ps \<union> (set qs - {NoPrefix})"
  by (induction qs arbitrary: ps) (auto simp: addPrefix_def)

lemma entriesPrefixes:
  "set (fold (\<lambda>e ps. fold addPrefix (entryPrefixes m e) ps) es ps) = set ps \<union> ((\<Union>e\<in>set es. set (entryPrefixes m e)) - {NoPrefix})"
  by (induction es arbitrary: ps) (auto simp: addPrefixes)

lemma entry_in_surface:
  assumes "addr \<noteq> NoAddr"
  shows "(\<exists>p\<in>set (entryPrefixes m e) - {NoPrefix}. containsAddr p addr) \<longleftrightarrow> snapshotMatchAddr e addr m"
proof (cases "IsDomain e")
  case True
  have "containsAddr (prefixFrom a (bitLen a)) addr \<longleftrightarrow> a = addr" for a
    using host_prefix_contains [of a addr] assms by (cases "a = NoAddr") (auto simp: prefixFrom_def)
  moreover have "p \<noteq> NoPrefix" if "containsAddr p addr" for p using that by (cases p) auto
  ultimately show ?thesis using True by (auto simp: entryPrefixes_def snapshotMatchAddr_def)
next
  case False
  then show ?thesis by (auto simp: entryPrefixes_def snapshotMatchAddr_def IsDomain_def)
qed

text \<open>The registry's invariant: the published snapshot is the one of its entries and addresses.\<close>

definition registryOk :: "Entry list \<Rightarrow> Registry \<Rightarrow> bool" where
  "registryOk entries r \<longleftrightarrow> rg_entries r = entries \<and> rg_current (rebuild r) = rg_current r"

lemma registryOk_New: "registryOk entries (NewRegistry entries)"
  by (simp add: registryOk_def NewRegistry_def rebuild_def)

lemma registryOk_setResolved: "registryOk entries r \<Longrightarrow> registryOk entries (setResolved host addrs r)"
  by (auto simp: registryOk_def setResolved_def notify_def rebuild_def)

lemma registryOk_run: "registryOk entries r \<Longrightarrow> registryOk entries (fold (\<lambda>(h, as). setResolved h as) answers r)"
  by (induction answers arbitrary: r) (auto simp: registryOk_setResolved split_beta)

text \<open>
  C35. Routing and admission agree. Whatever the resolver has learnt, the prefixes the registry
  hands to the workers and the gateway cover exactly the addresses for which the proxy admits some
  port of some scheme: nothing is routed into the tunnel only to be refused whatever it asks for,
  and nothing that would be admitted is left outside the tunnel.
\<close>

theorem acl_surface:
  assumes "list_all validEntry entries" "addr \<noteq> NoAddr"
    and "snap = rg_current (fold (\<lambda>(host, addrs). setResolved host addrs) answers (NewRegistry entries))"
  shows "(\<exists>port scheme. Lookup snap addr port scheme \<noteq> None) \<longleftrightarrow> (\<exists>p\<in>set (sn_Prefixes snap). containsAddr p addr)"
proof -
  let ?r = "fold (\<lambda>(host, addrs). setResolved host addrs) answers (NewRegistry entries)"
  have ok: "registryOk entries ?r" using registryOk_New by (rule registryOk_run)
  then have snap: "snap = rg_current (rebuild ?r)" and ent: "rg_entries ?r = entries"
    using assms(3) by (auto simp: registryOk_def)
  let ?m = "rg_resolved ?r"
  have "(\<exists>p\<in>set (sn_Prefixes snap). containsAddr p addr) \<longleftrightarrow> (\<exists>e\<in>set entries. snapshotMatchAddr e addr ?m)"
    using entry_in_surface [OF assms(2), of ?m] ent by (fastforce simp: snap rebuild_def entriesPrefixes)
  moreover have "\<exists>port scheme. en_Scheme e = scheme \<and> (scheme = SchemeICMP \<or> list_ex (\<lambda>r. Contains r port) (en_PortSpec e))"
    if "e \<in> set entries" for e
  proof (cases "en_PortSpec e")
    case Nil
    moreover have "validEntry e" using that assms(1) by (auto simp: list_all_iff)
    ultimately show ?thesis by (auto simp: validEntry_def validPorts_def split: if_splits)
  next
    case (Cons r rs)
    have "Contains r (Lo r)" if "en_Scheme e \<noteq> SchemeICMP"
      using that \<open>e \<in> set entries\<close> assms(1) Cons by (auto simp: list_all_iff validEntry_def validPorts_def validRange_def Contains_def)
    then show ?thesis using Cons by (cases "en_Scheme e = SchemeICMP") auto
  qed
  moreover have "Lookup snap addr port scheme \<noteq> None \<longleftrightarrow> (\<exists>e\<in>set entries. en_Scheme e = scheme \<and> snapshotMatchAddr e addr ?m \<and>
      (scheme = SchemeICMP \<or> list_ex (\<lambda>r. Contains r port) (en_PortSpec e)))" for port scheme
    using assms(2) ent lookupLoop_iff [of entries ?m addr port scheme] by (simp add: Lookup_def snap rebuild_def)
  ultimately show ?thesis by metis
qed

theorem acl_surface_witness:
  "(\<exists>port scheme. Lookup (rg_current (setResolved ''cache.example'' [V4 7] (NewRegistry [cacheEntry]))) (V4 7) port scheme \<noteq> None) \<longleftrightarrow>
   (\<exists>p\<in>set (sn_Prefixes (rg_current (setResolved ''cache.example'' [V4 7] (NewRegistry [cacheEntry])))). containsAddr p (V4 7))"
proof -
  have "list_all validEntry [cacheEntry]" by (simp add: cacheEntry_def validEntry_def validPorts_def validRange_def overlaps_def schemes)
  then show ?thesis using acl_surface [of "[cacheEntry]" "V4 7" _ "[(''cache.example'', [V4 7])]"] by simp
qed

text \<open>
  The canonical form drops the brackets of an IPv4-mapped address: with all ports the result ends
  after the address, so its last group is read as a port.
\<close>

lemma mapped_parse_steps:
  "trimSpace ''[::ffff:1.2.3.4]'' = ''[::ffff:1.2.3.4]''"
  "splitScheme ''[::ffff:1.2.3.4]'' = (SchemeTCP, ''[::ffff:1.2.3.4]'')"
  "splitHostSpec ''[::ffff:1.2.3.4]'' = Inr (''::ffff:1.2.3.4'', None)"
  "trimSpace ''tcp://::ffff:1.2.3.4'' = ''tcp://::ffff:1.2.3.4''"
  "splitScheme ''tcp://::ffff:1.2.3.4'' = (SchemeTCP, ''::ffff:1.2.3.4'')"
  "splitHostSpec ''::ffff:1.2.3.4'' = Inr (''::ffff'', Some ''1.2.3.4'')"
  "isl (parsePortSpec ''1.2.3.4'')"
  by code_simp+

theorem mapped_address_not_printed_back:
  assumes "ni_ParseAddr ip ''::ffff:1.2.3.4'' = Some (V6 0xFFFF01020304)"
  shows "\<exists>e. parseEntry ip ''[::ffff:1.2.3.4]'' = Inr e \<and> Entry_String e = ''tcp://::ffff:1.2.3.4'' \<and>
             (\<forall>e'. parseEntry ip (Entry_String e) \<noteq> Inr e')"
proof -
  let ?e = "\<lparr>en_Scheme = SchemeTCP, en_Host = ''::ffff:1.2.3.4'', en_Prefix = MkPrefix (V6 0xFFFF01020304) 128,
             en_PortSpec = [\<lparr>Lo = 1, Hi = 65535\<rparr>], en_ICMPSpec = [], en_Original = ''[::ffff:1.2.3.4]''\<rparr>"
  have mapped: "is4In6 (V6 0xFFFF01020304)" by code_simp
  have e: "parseEntry ip ''[::ffff:1.2.3.4]'' = Inr ?e"
    using assms mapped
    by (simp add: parseEntry_def mapped_parse_steps(1-3) fillHost_def parseHost_def prefixFrom_def fillSpec_def schemes Let_def)
  have str: "Entry_String ?e = ''tcp://::ffff:1.2.3.4''"
    using mapped by (simp add: Entry_String_def isIPv6Host_def isAllPorts_def schemes)
  have "parseEntry ip ''tcp://::ffff:1.2.3.4'' \<noteq> Inr e'" for e'
  proof
    assume "parseEntry ip ''tcp://::ffff:1.2.3.4'' = Inr e'"
    then obtain e0 where "fillSpec (Some ''1.2.3.4'') e0 = Inr e'" "en_Scheme e0 = SchemeTCP"
      by (auto simp: parseEntry_def mapped_parse_steps(4-6) Let_def dest!: fillHost_other(1))
    then show False using mapped_parse_steps(7) by (auto simp: fillSpec_def schemes)
  qed
  then show ?thesis using e str by auto
qed

text \<open>An ICMP entry without types admits every type but is not reported as having unsupported ones.\<close>

lemma bare_icmp_not_flagged:
  "\<not> HasUnsupportedICMPTypes \<lparr>en_Scheme = SchemeICMP, en_Host = h, en_Prefix = p, en_PortSpec = [], en_ICMPSpec = [], en_Original = s\<rparr>"
  by (simp add: HasUnsupportedICMPTypes_def)

end
