(* ===== verification/Config_Load.thy ===== *)
theory Config_Load
  imports Go_Strings Acl Teardown "HOL-Library.AList" "HOL-Library.List_Lexorder" "HOL-Library.Char_ord"
begin

text \<open>
  The configuration file, src/internal/config: its data and defaults, the validation of tiers,
  routes and the transport (config.go, transport.go), and the redaction that the control plane
  applies before it shows a configuration (redact.go). A Go map is an association list in the order
  of one iteration over it; what is proved holds for every order. Reading the file, the YAML
  decoder, the file system, the textual forms of addresses, \<open>big.Rat\<close> and SHA-256 are the
  parameters of the record \<open>ConfigEnv\<close>.
\<close>

subsection \<open>Data\<close>

datatype Kind = DocumentNode | SequenceNode | MappingNode | ScalarNode | AliasNode | ZeroNode

text \<open>A node of the YAML tree: kind, style, tag, value and children; anchors, comments and
  positions are copied along by every function and left out.\<close>

datatype yamlNode = YamlNode (y_Kind: Kind) (y_Style: int) (y_Tag: string) (y_Value: string) (y_Content: "yamlNode list")

type_synonym 'v gomap = "(string \<times> 'v) list"

record ForgejoConfig =
  fg_URL :: string
  fg_Token :: string
  fg_Scope :: string

record DatabaseConfig =
  db_Path :: string
  db_Retention :: duration

record ProviderInstance =
  pi_Driver :: string
  pi_Config :: yamlNode

record TierConfig =
  ti_RequiredLabel :: string
  ti_Labels :: "string list"
  ti_Provider :: string
  ti_InstanceType :: string
  ti_OneJobPerVM :: bool
  ti_ResetMode :: string
  ti_ResetMinRemaining :: duration
  ti_ResetTimeout :: duration
  ti_WarmInstances :: int
  ti_IdleTimeout :: duration
  ti_HourMargin :: duration
  ti_BillingHour :: duration
  ti_MaxInstances :: int

record RouteConfig =
  ro_RequiredLabel :: string
  ro_Candidates :: "string list"
  ro_FallbackTier :: string
  ro_HistoryWindow :: duration
  ro_MinSamples :: int
  ro_ColdStartP95 :: duration
  ro_MaxOptimizationWaitQueue :: int

record RoutingConfig =
  ro_Currency :: string
  ro_ExchangeRates :: "string gomap"
  ro_Routes :: "RouteConfig gomap"

record SSHConfig =
  ssh_User :: string
  ssh_PrivateKeyFile :: string
  ssh_Port :: int

record WGPeer =
  wp_PublicKey :: string
  wp_Endpoint :: string
  wp_AllowedIPs :: "string list"

record WG =
  wg_PrivateKeyFile :: string
  wg_ListenPort :: int
  wg_LocalAddr :: string
  wg_KeepaliveInterval :: duration
  wg_OverlayPrefix :: string
  wg_Peer :: WGPeer
  wg_ACL :: "string list"

record LANEgressRule =
  lr_From :: string
  lr_To :: string
  lr_Port :: int
  lr_Proto :: string

record Tunnel =
  tn_Routes :: "string list"
  tn_LANEgress :: "LANEgressRule list"

record Transport =
  tp_Mode :: string
  tp_Tunnel :: "Tunnel option"
  tp_WG :: "WG option"

record ConfigFile =
  C_Forgejo :: ForgejoConfig
  C_Database :: DatabaseConfig
  C_Providers :: "ProviderInstance gomap"
  C_Tiers :: "TierConfig gomap"
  C_Routing :: RoutingConfig
  C_PollInterval :: duration
  C_SSH :: SSHConfig
  C_Transport :: Transport
  C_Tag :: string

record ConfigEnv =
  ce_ReadFile :: "string \<Rightarrow> string result"
  ce_Unmarshal :: "string \<Rightarrow> yamlNode option"
  ce_Decode :: "string \<Rightarrow> ConfigFile result"
  ce_Dir :: "string \<Rightarrow> string"
  ce_IsDir :: "string \<Rightarrow> bool"
  ce_RatSetString :: "string \<Rightarrow> (int \<times> int) option"
  ce_ParseCIDR :: "string \<Rightarrow> unit result"
  ce_ParseIP :: "string \<Rightarrow> bool"
  ce_SplitHostPort :: "string \<Rightarrow> unit result"
  ce_NetIP :: NetIP
  ce_sha256 :: "string \<Rightarrow> string"

definition ResetNone :: string where "ResetNone = ''none''"
definition ResetSnapshot :: string where "ResetSnapshot = ''snapshot''"
definition DefaultTag :: string where "DefaultTag = ''fj-bellows''"
definition ProviderDocker :: string where "ProviderDocker = ''docker''"
definition DefaultWGKeepaliveInterval :: duration where "DefaultWGKeepaliveInterval = second"
definition DefaultWGListenPort :: int where "DefaultWGListenPort = 51820"
definition DefaultWGOverlayPrefix :: string where "DefaultWGOverlayPrefix = ''100.64.0.0/30''"
definition TransportSSH :: string where "TransportSSH = ''ssh''"
definition TransportCacheGateway :: string where "TransportCacheGateway = ''cache-gateway''"
definition EgressFromWorkerVPC :: string where "EgressFromWorkerVPC = ''worker-vpc''"

text \<open>Reading a map of strings: an absent key gives the empty string.\<close>

definition mapGet :: "string gomap \<Rightarrow> string \<Rightarrow> string" where
  "mapGet m k = (case map_of m k of None \<Rightarrow> '''' | Some v \<Rightarrow> v)"

subsection \<open>Loading\<close>

fun forgejoLabels :: "yamlNode list \<Rightarrow> bool" where
  "forgejoLabels (k # v # rest) = (y_Value k = ''labels'' \<or> forgejoLabels rest)"
| "forgejoLabels _ = False"

fun legacyKeys :: "yamlNode list \<Rightarrow> string" where
  "legacyKeys (k # v # rest) =
     (if y_Value k \<in> {''provider'', ''provider_config'', ''scale''} then y_Value k
      else if y_Value k = ''forgejo'' \<and> y_Kind v = MappingNode \<and> forgejoLabels (y_Content v) then ''forgejo.labels''
      else legacyKeys rest)"
| "legacyKeys _ = ''''"

definition legacyTopLevelKey :: "ConfigEnv \<Rightarrow> string \<Rightarrow> string" where
  "legacyTopLevelKey env b =
     (case ce_Unmarshal env b of
        None \<Rightarrow> ''''
      | Some doc \<Rightarrow>
          (case y_Content doc of
             [] \<Rightarrow> ''''
           | n # _ \<Rightarrow> if y_Kind n \<noteq> MappingNode then '''' else legacyKeys (y_Content n)))"

definition tierDefaults :: "TierConfig \<Rightarrow> TierConfig" where
  "tierDefaults t =
     (let t = (if ti_Labels t = [] \<and> ti_RequiredLabel t \<noteq> '''' then t\<lparr>ti_Labels := [ti_RequiredLabel t]\<rparr> else t);
          t = (if ti_ResetMode t = '''' then t\<lparr>ti_ResetMode := ResetNone\<rparr> else t);
          t = (if ti_ResetMinRemaining t = 0 then t\<lparr>ti_ResetMinRemaining := 10 * minute\<rparr> else t);
          t = (if ti_ResetTimeout t = 0 then t\<lparr>ti_ResetTimeout := 5 * minute\<rparr> else t);
          t = (if ti_IdleTimeout t = 0 then t\<lparr>ti_IdleTimeout := 5 * minute\<rparr> else t);
          t = (if ti_HourMargin t = 0 then t\<lparr>ti_HourMargin := 5 * minute\<rparr> else t);
          t = (if ti_BillingHour t = 0 then t\<lparr>ti_BillingHour := hour\<rparr> else t)
      in if ti_MaxInstances t = 0 then t\<lparr>ti_MaxInstances := 1\<rparr> else t)"

definition routeDefaults :: "RouteConfig \<Rightarrow> RouteConfig" where
  "routeDefaults r =
     (let r = (if ro_HistoryWindow r = 0 then r\<lparr>ro_HistoryWindow := 720 * hour\<rparr> else r);
          r = (if ro_MinSamples r = 0 then r\<lparr>ro_MinSamples := 10\<rparr> else r)
      in if ro_ColdStartP95 r = 0 then r\<lparr>ro_ColdStartP95 := 15 * minute\<rparr> else r)"

text \<open>A candidate tier that does not offer the route's label yet is made to offer it.\<close>

definition advertise :: "string \<Rightarrow> string \<Rightarrow> TierConfig gomap \<Rightarrow> TierConfig gomap" where
  "advertise label candidate tiers =
     (case map_of tiers candidate of
        None \<Rightarrow> tiers
      | Some tier \<Rightarrow>
          if label \<in> set (BareLabels (ti_Labels tier)) then tiers
          else AList.update candidate (tier\<lparr>ti_Labels := ti_Labels tier @ [label]\<rparr>) tiers)"

definition normalizedRates :: "RoutingConfig \<Rightarrow> string gomap" where
  "normalizedRates r =
     (let rates = fold (\<lambda>(currency, rate) m. AList.update (toUpper (trimSpace currency)) (trimSpace rate) m) (ro_ExchangeRates r) []
      in if ro_Currency r \<noteq> '''' \<and> map_of rates (ro_Currency r) = None then AList.update (ro_Currency r) ''1'' rates else rates)"

definition routingDefaults :: "RoutingConfig \<Rightarrow> TierConfig gomap \<Rightarrow> RoutingConfig \<times> TierConfig gomap" where
  "routingDefaults r tiers =
     (let r = r\<lparr>ro_Currency := toUpper (trimSpace (ro_Currency r))\<rparr> in
      if ro_Routes r = [] then (r, tiers)
      else let r = r\<lparr>ro_ExchangeRates := normalizedRates r\<rparr>;
               routes = map (\<lambda>(name, route). (name, routeDefaults route)) (ro_Routes r)
           in (r\<lparr>ro_Routes := routes\<rparr>,
               fold (\<lambda>(name, route) ts. fold (advertise (ro_RequiredLabel route)) (ro_Candidates route) ts) routes tiers))"

definition wgDefaults :: "WG \<Rightarrow> WG" where
  "wgDefaults w =
     (let w = (if wg_KeepaliveInterval w = 0 then w\<lparr>wg_KeepaliveInterval := DefaultWGKeepaliveInterval\<rparr> else w);
          w = (if wg_ListenPort w = 0 then w\<lparr>wg_ListenPort := DefaultWGListenPort\<rparr> else w)
      in if wg_OverlayPrefix w = '''' then w\<lparr>wg_OverlayPrefix := DefaultWGOverlayPrefix\<rparr> else w)"

definition transportDefaults :: "Transport \<Rightarrow> Transport" where
  "transportDefaults t =
     (let t = (if tp_Mode t = '''' then t\<lparr>tp_Mode := TransportSSH\<rparr> else t)
      in t\<lparr>tp_WG := map_option wgDefaults (tp_WG t)\<rparr>)"

definition applyDefaults :: "ConfigFile \<Rightarrow> ConfigFile" where
  "applyDefaults c =
     (let c = (if C_Tag c = '''' then c\<lparr>C_Tag := DefaultTag\<rparr> else c);
          c = (if C_PollInterval c = 0 then c\<lparr>C_PollInterval := 10 * second\<rparr> else c);
          c = (if ssh_User (C_SSH c) = '''' then c\<lparr>C_SSH := (C_SSH c)\<lparr>ssh_User := ''root''\<rparr>\<rparr> else c);
          c = (if ssh_Port (C_SSH c) = 0 then c\<lparr>C_SSH := (C_SSH c)\<lparr>ssh_Port := 22\<rparr>\<rparr> else c);
          tiers = map (\<lambda>(name, tier). (name, tierDefaults tier)) (C_Tiers c);
          (routing, tiers) = routingDefaults (C_Routing c) tiers
      in c\<lparr>C_Tiers := tiers, C_Routing := routing, C_Transport := transportDefaults (C_Transport c)\<rparr>)"

subsection \<open>Validation of the transport\<close>

definition validateEgress :: "ConfigEnv \<Rightarrow> LANEgressRule \<Rightarrow> unit result" where
  "validateEgress env r =
     (if lr_From r = '''' then failE (''from is required (e.g. '' @ goQuote EgressFromWorkerVPC @ '')'')
      else if lr_From r \<noteq> EgressFromWorkerVPC
      then failE (''unknown from '' @ goQuote (lr_From r) @ '' (want '' @ goQuote EgressFromWorkerVPC @ '')'')
      else if lr_To r = '''' then failE ''to is required''
      else if \<not> ce_ParseIP env (lr_To r) then failE (''to '' @ goQuote (lr_To r) @ '' is not a valid IP address'')
      else if lr_Port r < 1 \<or> lr_Port r > 65535 then failE (''port '' @ formatInt (lr_Port r) @ '' out of range (want 1-65535)'')
      else if toLower (lr_Proto r) \<in> {''tcp'', ''udp''} then Inr ()
      else if lr_Proto r = '''' then failE (''proto is required ('' @ goQuote ''tcp'' @ '' or '' @ goQuote ''udp'' @ '')'')
      else failE (''proto '' @ goQuote (lr_Proto r) @ '' must be '' @ goQuote ''tcp'' @ '' or '' @ goQuote ''udp''))"

text \<open>The loops over a list whose messages carry the index of the element.\<close>

definition indexed :: "'a list \<Rightarrow> (int \<times> 'a) list" where
  "indexed xs = zip (map int [0..<length xs]) xs"

definition validateTunnel :: "ConfigEnv \<Rightarrow> Tunnel \<Rightarrow> unit result" where
  "validateTunnel env tn =
     (if tn_Routes tn = [] then failE ''transport.tunnel: routes must list at least one CIDR''
      else bindE (forE (\<lambda>(i, r). wrapE (''transport.tunnel.routes['' @ formatInt i @ ''] = '' @ goQuote r) (ce_ParseCIDR env r))
                       (indexed (tn_Routes tn))) (\<lambda>_.
           forE (\<lambda>(i, rule). wrapE (''transport.tunnel.lan_egress['' @ formatInt i @ '']'') (validateEgress env rule))
                (indexed (tn_LANEgress tn))))"

definition validatePeer :: "ConfigEnv \<Rightarrow> WGPeer \<Rightarrow> unit result" where
  "validatePeer env p =
     bindE (if wp_Endpoint p \<noteq> ''''
            then wrapE (''endpoint '' @ goQuote (wp_Endpoint p) @ '' is not host:port'') (ce_SplitHostPort env (wp_Endpoint p))
            else Inr ()) (\<lambda>_.
     if wp_AllowedIPs p = [] then failE ''allowed_ips must list at least one CIDR''
     else forE (\<lambda>(i, cidr). wrapE (''allowed_ips['' @ formatInt i @ ''] = '' @ goQuote cidr) (ce_ParseCIDR env cidr))
               (indexed (wp_AllowedIPs p)))"

definition validateWG :: "ConfigEnv \<Rightarrow> WG \<Rightarrow> unit result" where
  "validateWG env w =
     bindE (ensure (wg_PrivateKeyFile w \<noteq> '''') ''transport.wg: private_key_file is required'') (\<lambda>_.
     bindE (ensure (wg_LocalAddr w \<noteq> '''') ''transport.wg: local_addr is required'') (\<lambda>_.
     bindE (wrapE (''transport.wg.local_addr = '' @ goQuote (wg_LocalAddr w)) (ce_ParseCIDR env (wg_LocalAddr w))) (\<lambda>_.
     bindE (ensure (\<not> wg_KeepaliveInterval w < 0) ''transport.wg: keepalive_interval must be non-negative'') (\<lambda>_.
     bindE (ensure (\<not> (wg_ListenPort w < 0 \<or> wg_ListenPort w > 65535))
              (''transport.wg: listen_port '' @ formatInt (wg_ListenPort w) @ '' out of range (want 1-65535, or 0 for default)'')) (\<lambda>_.
     bindE (if wg_OverlayPrefix w \<noteq> ''''
            then wrapE (''transport.wg.overlay_prefix = '' @ goQuote (wg_OverlayPrefix w)) (ce_ParseCIDR env (wg_OverlayPrefix w))
            else Inr ()) (\<lambda>_.
     bindE (wrapE ''transport.wg.peer'' (validatePeer env (wg_Peer w))) (\<lambda>_.
     bindE (wrapE ''transport.wg.acl'' (Parse (ce_NetIP env) (wg_ACL w))) (\<lambda>_. Inr ()))))))))"

definition validateTransport :: "ConfigEnv \<Rightarrow> Transport \<Rightarrow> unit result" where
  "validateTransport env t =
     (if tp_Mode t = TransportSSH then Inr ()
      else if tp_Mode t = TransportCacheGateway
      then (case tp_Tunnel t of
              None \<Rightarrow> failE (''transport: mode '' @ goQuote (tp_Mode t) @ '' requires a transport.tunnel block'')
            | Some tn \<Rightarrow> bindE (validateTunnel env tn) (\<lambda>_. case tp_WG t of None \<Rightarrow> Inr () | Some w \<Rightarrow> validateWG env w))
      else failE (''transport: unknown mode '' @ goQuote (tp_Mode t) @ '' (want '' @ goQuote TransportSSH @ '' or '' @
                  goQuote TransportCacheGateway @ '')''))"

subsection \<open>Validation of the configuration\<close>

definition missingFields :: "ConfigFile \<Rightarrow> string list" where
  "missingFields c =
     (if fg_URL (C_Forgejo c) = '''' then [''forgejo.url''] else []) @
     (if fg_Token (C_Forgejo c) = '''' then [''forgejo.token''] else []) @
     (if fg_Scope (C_Forgejo c) = '''' then [''forgejo.scope''] else []) @
     (if db_Path (C_Database c) = '''' then [''database.path''] else []) @
     (if C_Providers c = [] then [''providers''] else []) @
     (if C_Tiers c = [] then [''tiers''] else [])"

fun joinSep :: "string \<Rightarrow> string list \<Rightarrow> string" where
  "joinSep sep [] = []"
| "joinSep sep [w] = w"
| "joinSep sep (w # ws) = w @ sep @ joinSep sep ws"

definition validateRequiredFields :: "ConfigFile \<Rightarrow> unit result" where
  "validateRequiredFields c =
     ensure (missingFields c = []) (''config: missing required fields: '' @ joinSep '', '' (missingFields c))"

definition validateDatabase :: "ConfigEnv \<Rightarrow> ConfigFile \<Rightarrow> unit result" where
  "validateDatabase env c =
     (if db_Retention (C_Database c) < 0 then failE ''config: database.retention must not be negative''
      else let dir = ce_Dir env (db_Path (C_Database c)) in
        if dir = '''' then failE ''config: database.path has no parent directory''
        else ensure (ce_IsDir env dir) (''config: database.path parent '' @ goQuote dir @ '' must exist and be a directory''))"

fun validateProviders :: "ProviderInstance gomap \<Rightarrow> bool \<Rightarrow> bool result" where
  "validateProviders [] needsSSH = Inr needsSSH"
| "validateProviders ((name, p) # ps) needsSSH =
     (if pi_Driver p = '''' then failE (''config: providers.'' @ name @ ''.driver is required'')
      else validateProviders ps (needsSSH \<or> pi_Driver p \<noteq> ProviderDocker))"

definition isUpper :: "char \<Rightarrow> bool" where
  "isUpper c \<longleftrightarrow> (of_char c :: nat) \<in> {65..90}"

fun validateCandidates :: "string \<Rightarrow> TierConfig gomap \<Rightarrow> string list \<Rightarrow> string set \<Rightarrow> string set result" where
  "validateCandidates pre tiers [] seen = Inr seen"
| "validateCandidates pre tiers (candidate # cs) seen =
     (if map_of tiers candidate = None then failE (pre @ ''.candidates references unknown tier '' @ goQuote candidate)
      else if candidate \<in> seen then failE (pre @ ''.candidates contains duplicate tier '' @ goQuote candidate)
      else validateCandidates pre tiers cs (insert candidate seen))"

definition validateRoute :: "TierConfig gomap \<Rightarrow> string \<Rightarrow> RouteConfig \<Rightarrow> string gomap \<Rightarrow> string gomap result" where
  "validateRoute tiers name route labels =
     (let pre = ''config: routing.routes.'' @ name in
      if trimSpace name = '''' \<or> ro_RequiredLabel route = '''' then failE (pre @ ''.required_label is required'')
      else let owner = mapGet labels (ro_RequiredLabel route) in
        if owner \<noteq> '''' then failE (pre @ ''.required_label duplicates route '' @ owner)
        else let labels = AList.update (ro_RequiredLabel route) name labels in
          if length (ro_Candidates route) < 2 then failE (pre @ ''.candidates must contain at least two tiers'')
          else bindE (validateCandidates pre tiers (ro_Candidates route) {}) (\<lambda>seen.
            if ro_FallbackTier route \<notin> seen then failE (pre @ ''.fallback_tier must be one of candidates'')
            else if ro_HistoryWindow route \<le> 0 \<or> ro_MinSamples route \<le> 0 \<or> ro_ColdStartP95 route \<le> 0
            then failE (pre @ '' history_window, min_samples, and cold_start_p95 must be positive'')
            else if ro_MaxOptimizationWaitQueue route < 0
            then failE (pre @ ''.max_optimization_wait_queue must not be negative'')
            else Inr labels))"

fun validateRouteLoop :: "TierConfig gomap \<Rightarrow> RouteConfig gomap \<Rightarrow> string gomap \<Rightarrow> string gomap result" where
  "validateRouteLoop tiers [] labels = Inr labels"
| "validateRouteLoop tiers ((name, route) # rs) labels = bindE (validateRoute tiers name route labels) (validateRouteLoop tiers rs)"

definition validateRouteLabels :: "ConfigFile \<Rightarrow> string gomap \<Rightarrow> unit result" where
  "validateRouteLabels c routes =
     forE (\<lambda>(tierName, tier).
       bindE (ensure (mapGet routes (ti_RequiredLabel tier) = '''')
                (''config: tier '' @ tierName @ '' required_label is owned by routing route '' @ mapGet routes (ti_RequiredLabel tier))) (\<lambda>_.
       let candidateFor = map fst (filter (\<lambda>(_, route). tierName \<in> set (ro_Candidates route)) (ro_Routes (C_Routing c))) in
       forE (\<lambda>label.
         ensure (mapGet routes label = '''' \<or> mapGet routes label \<in> set candidateFor)
           (''config: tier '' @ tierName @ '' advertises route label '' @ goQuote label @ '' but is not a candidate''))
         (BareLabels (ti_Labels tier)))) (C_Tiers c)"

definition validateRoutes :: "ConfigFile \<Rightarrow> unit result" where
  "validateRoutes c = bindE (validateRouteLoop (C_Tiers c) (ro_Routes (C_Routing c)) []) (validateRouteLabels c)"

definition validateRouting :: "ConfigEnv \<Rightarrow> ConfigFile \<Rightarrow> unit result" where
  "validateRouting env c =
     (let r = C_Routing c; cur = ro_Currency r in
      if ro_Routes r = [] then Inr ()
      else bindE (ensure (length cur = 3 \<and> list_all isUpper cur) ''config: routing.currency must be a three-letter currency'') (\<lambda>_.
      bindE (forE (\<lambda>(currency, rate).
               bindE (ensure (length currency = 3) (''config: routing.exchange_rates.'' @ currency @ '' is not a three-letter currency'')) (\<lambda>_.
               ensure (case ce_RatSetString env rate of Some (n, d) \<Rightarrow> 0 < n | None \<Rightarrow> False)
                 (''config: routing.exchange_rates.'' @ currency @ '' must be a positive decimal''))) (ro_ExchangeRates r)) (\<lambda>_.
      bindE (ensure (case ce_RatSetString env (mapGet (ro_ExchangeRates r) cur) of Some (n, d) \<Rightarrow> n = d | None \<Rightarrow> False)
               (''config: routing.exchange_rates.'' @ cur @ '' must equal 1'')) (\<lambda>_.
      validateRoutes c))))"

definition validateTierRouting :: "ConfigFile \<Rightarrow> string \<Rightarrow> TierConfig \<Rightarrow> ProviderInstance result" where
  "validateTierRouting c pre tier =
     (if ti_RequiredLabel tier = '''' then failE (pre @ ''.required_label is required'')
      else if ti_RequiredLabel tier \<notin> set (BareLabels (ti_Labels tier))
      then failE (pre @ ''.labels must advertise required_label '' @ goQuote (ti_RequiredLabel tier))
      else case map_of (C_Providers c) (ti_Provider tier) of
        None \<Rightarrow> failE (pre @ ''.provider '' @ goQuote (ti_Provider tier) @ '' is not defined'')
      | Some p \<Rightarrow>
          if ti_Provider tier = '''' then failE (pre @ ''.provider '' @ goQuote (ti_Provider tier) @ '' is not defined'') else Inr p)"

definition validateTierCapacity :: "string \<Rightarrow> TierConfig \<Rightarrow> unit result" where
  "validateTierCapacity pre tier =
     (if ti_MaxInstances tier < 1 then failE (pre @ ''.max_instances must be positive'')
      else ensure (\<not> (ti_WarmInstances tier < 0 \<or> ti_WarmInstances tier > ti_MaxInstances tier))
             (pre @ ''.warm_instances must be between zero and max_instances''))"

definition validateTierTimings :: "string \<Rightarrow> TierConfig \<Rightarrow> unit result" where
  "validateTierTimings pre tier =
     bindE (forE (\<lambda>(field, v). ensure (\<not> v \<le> 0) (pre @ ''.'' @ field @ '' must be positive''))
       [(''reset_min_remaining'', ti_ResetMinRemaining tier), (''reset_timeout'', ti_ResetTimeout tier),
        (''idle_timeout'', ti_IdleTimeout tier), (''billing_hour'', ti_BillingHour tier)]) (\<lambda>_.
     ensure (\<not> (ti_HourMargin tier < 0 \<or> ti_HourMargin tier \<ge> ti_BillingHour tier))
       (pre @ ''.hour_margin must be non-negative and less than billing_hour''))"

definition validateTierReset :: "string \<Rightarrow> TierConfig \<Rightarrow> unit result" where
  "validateTierReset pre tier =
     (if ti_ResetMode tier \<noteq> ResetNone \<and> ti_ResetMode tier \<noteq> ResetSnapshot
      then failE (pre @ ''.reset_mode must be '' @ goQuote ResetNone @ '' or '' @ goQuote ResetSnapshot)
      else ensure (\<not> (ti_ResetMode tier = ResetSnapshot \<and> \<not> ti_OneJobPerVM tier))
             (pre @ ''.reset_mode=snapshot requires one_job_per_vm=true''))"

definition validateTier :: "ConfigFile \<Rightarrow> string \<Rightarrow> TierConfig \<Rightarrow> unit result" where
  "validateTier c name tier =
     (let pre = ''config: tiers.'' @ name in
      bindE (validateTierRouting c pre tier) (\<lambda>p.
      bindE (ensure (\<not> (ti_InstanceType tier = '''' \<and> pi_Driver p \<noteq> ProviderDocker)) (pre @ ''.instance_type is required'')) (\<lambda>_.
      bindE (validateTierCapacity pre tier) (\<lambda>_.
      bindE (validateTierTimings pre tier) (\<lambda>_.
      validateTierReset pre tier)))))"

fun validateTierLoop :: "ConfigFile \<Rightarrow> TierConfig gomap \<Rightarrow> string gomap \<Rightarrow> string gomap result" where
  "validateTierLoop c [] owners = Inr owners"
| "validateTierLoop c ((name, tier) # ts) owners =
     bindE (validateTier c name tier) (\<lambda>_.
       let prior = mapGet owners (ti_RequiredLabel tier) in
       if prior \<noteq> '''' then failE (''config: tiers.'' @ name @ ''.required_label duplicates tiers.'' @ prior)
       else validateTierLoop c ts (AList.update (ti_RequiredLabel tier) name owners))"

definition validateTiers :: "ConfigFile \<Rightarrow> unit result" where
  "validateTiers c =
     bindE (validateTierLoop c (C_Tiers c) []) (\<lambda>owners.
     forE (\<lambda>(name, tier). forE (\<lambda>label.
       let owner = mapGet owners label in
       ensure (\<not> (owner \<noteq> '''' \<and> owner \<noteq> name))
         (''config: tiers.'' @ name @ ''.labels advertises required label owned by tier '' @ owner)) (ti_Labels tier)) (C_Tiers c))"

definition validateTransportProvider :: "ConfigFile \<Rightarrow> unit result" where
  "validateTransportProvider c =
     (if tp_Mode (C_Transport c) = TransportCacheGateway
      then bindE (ensure (length (C_Tiers c) = 1) ''config: transport.mode=cache-gateway requires exactly one tier'') (\<lambda>_.
           forE (\<lambda>(_, tier). ensure (map_option pi_Driver (map_of (C_Providers c) (ti_Provider tier)) = Some ''linode'')
                   ''config: transport.mode=cache-gateway requires a linode tier'') (C_Tiers c))
      else Inr ())"

definition validate :: "ConfigEnv \<Rightarrow> ConfigFile \<Rightarrow> unit result" where
  "validate env c =
     bindE (validateRequiredFields c) (\<lambda>_.
     bindE (ensure (\<not> C_PollInterval c \<le> 0) ''config: poll.interval must be positive'') (\<lambda>_.
     bindE (validateDatabase env c) (\<lambda>_.
     bindE (validateProviders (C_Providers c) False) (\<lambda>needsSSH.
     bindE (ensure (\<not> (needsSSH \<and> ssh_PrivateKeyFile (C_SSH c) = '''')) ''config: missing required fields: ssh.private_key_file'') (\<lambda>_.
     bindE (validateRouting env c) (\<lambda>_.
     bindE (validateTiers c) (\<lambda>_.
     bindE (validateTransportProvider c) (\<lambda>_.
     wrapE ''config'' (validateTransport env (C_Transport c))))))))))"

definition Load :: "ConfigEnv \<Rightarrow> string \<Rightarrow> ConfigFile result" where
  "Load env path =
     bindE (wrapE ''read config'' (ce_ReadFile env path)) (\<lambda>b.
     let key = legacyTopLevelKey env b in
     if key \<noteq> '''' then failE (''config: legacy field '' @ goQuote key @ '' is no longer supported; migrate to named providers and tiers'')
     else bindE (wrapE ''parse config'' (ce_Decode env b)) (\<lambda>c.
       let c = applyDefaults c in bindE (validate env c) (\<lambda>_. Inr c)))"

subsection \<open>Names and ownership tags\<close>

definition ConfigTierNames :: "ConfigFile \<Rightarrow> string list" where
  "ConfigTierNames c = sort (map fst (C_Tiers c))"

definition tierTagDomain :: string where "tierTagDomain = ''fj-bellows-tier-tag/v1''"
definition tierTagPrefix :: string where "tierTagPrefix = ''fjb-t-''"
definition tierTagHashBytes :: nat where "tierTagHashBytes = 20"

text \<open>\<open>binary.BigEndian.PutUint64\<close>.\<close>

fun bigEndian :: "nat \<Rightarrow> nat \<Rightarrow> string" where
  "bigEndian 0 n = []"
| "bigEndian (Suc k) n = bigEndian k (n div 256) @ [char_of (n mod 256)]"

definition tierTagInput :: "string \<Rightarrow> string \<Rightarrow> string" where
  "tierTagInput tag tier = tierTagDomain @ concat (map (\<lambda>w. bigEndian 8 (length w mod 2 ^ 64) @ w) [tag, tier])"

definition TierTag :: "ConfigEnv \<Rightarrow> ConfigFile \<Rightarrow> string \<Rightarrow> string" where
  "TierTag env c tier = tierTagPrefix @ hexEncode (take tierTagHashBytes (ce_sha256 env (tierTagInput (C_Tag c) tier)))"

subsection \<open>Redaction\<close>

definition redactedMarker :: string where "redactedMarker = ''<redacted>''"

definition secretKeyNames :: "string list" where
  "secretKeyNames = [''token'', ''password'', ''secret'', ''key'', ''api_key'', ''access_key'', ''secret_key'']"

definition isSecretKey :: "string \<Rightarrow> bool" where
  "isSecretKey name \<longleftrightarrow> toLower name \<in> set secretKeyNames"

fun redactNode :: "yamlNode \<Rightarrow> yamlNode" and redactPairs :: "yamlNode list \<Rightarrow> yamlNode list" where
  "redactNode (YamlNode DocumentNode st tg v cs) = YamlNode DocumentNode st tg v (map redactNode cs)"
| "redactNode (YamlNode SequenceNode st tg v cs) = YamlNode SequenceNode st tg v (map redactNode cs)"
| "redactNode (YamlNode MappingNode st tg v cs) = YamlNode MappingNode st tg v (redactPairs cs)"
| "redactNode n = n"
| "redactPairs (k # YamlNode kd st tg v cs # rest) =
     k # (if isSecretKey (y_Value k) \<and> kd = ScalarNode then YamlNode ScalarNode 0 ''!!str'' redactedMarker cs
          else redactNode (YamlNode kd st tg v cs)) # redactPairs rest"
| "redactPairs [k] = [k]"
| "redactPairs [] = []"

definition Redact :: "ConfigFile \<Rightarrow> ConfigFile" where
  "Redact cfg =
     (let out = (if fg_Token (C_Forgejo cfg) \<noteq> '''' then cfg\<lparr>C_Forgejo := (C_Forgejo cfg)\<lparr>fg_Token := redactedMarker\<rparr>\<rparr> else cfg)
      in out\<lparr>C_Providers := map (\<lambda>(name, p). (name, p\<lparr>pi_Config := redactNode (pi_Config p)\<rparr>)) (C_Providers cfg)\<rparr>)"

subsection \<open>What validation accepts\<close>

text \<open>The order-free description of a sound tier, of sound tiers together and of a sound route.\<close>

definition soundTier :: "ConfigFile \<Rightarrow> TierConfig \<Rightarrow> bool" where
  "soundTier c t \<longleftrightarrow>
     ti_RequiredLabel t \<noteq> '''' \<and> ti_RequiredLabel t \<in> set (BareLabels (ti_Labels t)) \<and>
     ti_Provider t \<noteq> '''' \<and> (\<exists>p. map_of (C_Providers c) (ti_Provider t) = Some p \<and> (ti_InstanceType t \<noteq> '''' \<or> pi_Driver p = ProviderDocker)) \<and>
     1 \<le> ti_MaxInstances t \<and> 0 \<le> ti_WarmInstances t \<and> ti_WarmInstances t \<le> ti_MaxInstances t \<and>
     0 < ti_ResetMinRemaining t \<and> 0 < ti_ResetTimeout t \<and> 0 < ti_IdleTimeout t \<and>
     0 \<le> ti_HourMargin t \<and> ti_HourMargin t < ti_BillingHour t \<and>
     (ti_ResetMode t = ResetNone \<or> ti_ResetMode t = ResetSnapshot \<and> ti_OneJobPerVM t)"

definition soundTiers :: "ConfigFile \<Rightarrow> bool" where
  "soundTiers c \<longleftrightarrow>
     (\<forall>(n, t) \<in> set (C_Tiers c). soundTier c t) \<and>
     (\<forall>(n, t) \<in> set (C_Tiers c). \<forall>(n', t') \<in> set (C_Tiers c). n \<noteq> n' \<longrightarrow> ti_RequiredLabel t \<noteq> ti_RequiredLabel t') \<and>
     (\<forall>(n, t) \<in> set (C_Tiers c). \<forall>(n', t') \<in> set (C_Tiers c). n' \<noteq> n \<longrightarrow> ti_RequiredLabel t' \<notin> set (ti_Labels t))"

definition soundRoute :: "TierConfig gomap \<Rightarrow> string \<times> RouteConfig \<Rightarrow> bool" where
  "soundRoute tiers nr \<longleftrightarrow> (case nr of (name, r) \<Rightarrow>
     trimSpace name \<noteq> '''' \<and> ro_RequiredLabel r \<noteq> '''' \<and> 2 \<le> length (ro_Candidates r) \<and> distinct (ro_Candidates r) \<and>
     set (ro_Candidates r) \<subseteq> fst ` set tiers \<and> ro_FallbackTier r \<in> set (ro_Candidates r) \<and>
     0 < ro_HistoryWindow r \<and> 0 < ro_MinSamples r \<and> 0 < ro_ColdStartP95 r \<and> 0 \<le> ro_MaxOptimizationWaitQueue r)"

lemma validateTierRouting_Inr:
  "validateTierRouting c pre t = Inr p \<longleftrightarrow>
     ti_RequiredLabel t \<noteq> '''' \<and> ti_RequiredLabel t \<in> set (BareLabels (ti_Labels t)) \<and>
     ti_Provider t \<noteq> '''' \<and> map_of (C_Providers c) (ti_Provider t) = Some p"
  by (auto simp: validateTierRouting_def split: option.split)

lemma validateTier_Inr: "validateTier c name t = Inr () \<longleftrightarrow> soundTier c t"
  by (auto simp: validateTier_def Let_def validateTierRouting_Inr validateTierCapacity_def validateTierTimings_def
      validateTierReset_def soundTier_def ResetNone_def ResetSnapshot_def split: if_splits)

lemma mapGet_empty: "mapGet m k = '''' \<longleftrightarrow> map_of m k = None \<or> map_of m k = Some ''''"
  by (auto simp: mapGet_def split: option.split)

lemma fold_update:
  assumes "distinct (map fst xs)"
  shows "map_of (fold (\<lambda>(k, v). AList.update k v) xs m) k = (case map_of xs k of None \<Rightarrow> map_of m k | Some v \<Rightarrow> Some v)"
  using assms
proof (induction xs arbitrary: m)
  case (Cons x xs)
  obtain k' v where x: "x = (k', v)" by fastforce
  have "map_of xs k' = None" using Cons.prems x by (simp add: map_of_eq_None_iff)
  then show ?case using Cons x by (auto simp: update_conv' split: option.split)
qed simp

lemma distinct_field:
  assumes "distinct (map fst xs)"
  shows "distinct (map (\<lambda>x. f (snd x)) xs) \<longleftrightarrow> (\<forall>x \<in> set xs. \<forall>y \<in> set xs. fst x \<noteq> fst y \<longrightarrow> f (snd x) \<noteq> f (snd y))"
  using assms by (force simp: distinct_map inj_on_def)

lemma owner_table:
  assumes "distinct (map (\<lambda>(n, t). f t) xs)"
  shows "map_of (fold (\<lambda>(k, v). AList.update k v) (map (\<lambda>(n, t). (f t, n)) xs) []) l = Some n \<longleftrightarrow> (\<exists>t. (n, t) \<in> set xs \<and> f t = l)"
proof -
  let ?pairs = "map (\<lambda>(n, t). (f t, n)) xs"
  have dp: "distinct (map fst ?pairs)" using assms by (simp add: o_def case_prod_unfold)
  then have "map_of (fold (\<lambda>(k, v). AList.update k v) ?pairs []) l = map_of ?pairs l"
    by (subst fold_update) (auto split: option.split)
  then show ?thesis using map_of_eq_Some_iff [OF dp, of l n] by auto
qed

lemma validateTierLoop_Inr:
  assumes "'''' \<notin> fst ` set ts" "\<forall>k. map_of owners k \<noteq> Some ''''"
  shows "validateTierLoop c ts owners = Inr o' \<longleftrightarrow>
           (\<forall>(n, t) \<in> set ts. soundTier c t \<and> map_of owners (ti_RequiredLabel t) = None) \<and>
           distinct (map (\<lambda>(n, t). ti_RequiredLabel t) ts) \<and>
           o' = fold (\<lambda>(k, v). AList.update k v) (map (\<lambda>(n, t). (ti_RequiredLabel t, n)) ts) owners"
  using assms
proof (induction ts arbitrary: owners)
  case (Cons nt ts)
  obtain n t where nt: "nt = (n, t)" by fastforce
  have ok: "\<forall>k. map_of (AList.update (ti_RequiredLabel t) n owners) k \<noteq> Some ''''"
    using Cons.prems nt by (auto simp: update_conv')
  show ?case
  proof (cases "map_of owners (ti_RequiredLabel t) = None \<and> soundTier c t")
    case True
    have "validateTierLoop c (nt # ts) owners = validateTierLoop c ts (AList.update (ti_RequiredLabel t) n owners)"
      using True nt validateTier_Inr [of c n t] by (simp add: mapGet_empty)
    moreover have "(\<forall>(n', t') \<in> set ts. soundTier c t' \<and> map_of (AList.update (ti_RequiredLabel t) n owners) (ti_RequiredLabel t') = None) \<longleftrightarrow>
        (\<forall>(n', t') \<in> set ts. soundTier c t' \<and> map_of owners (ti_RequiredLabel t') = None) \<and>
        ti_RequiredLabel t \<notin> (\<lambda>(n, t). ti_RequiredLabel t) ` set ts"
      by (force simp: update_conv' split: if_splits)
    ultimately show ?thesis using Cons.IH [OF _ ok] Cons.prems(1) True nt by simp
  next
    case False
    then have "validateTierLoop c (nt # ts) owners \<noteq> Inr o'"
      using nt Cons.prems(2) validateTier_Inr [of c n t] by (cases "validateTier c n t") (auto simp: mapGet_empty)
    then show ?thesis using False nt by auto
  qed
qed auto

text \<open>
  The pass over the tiers, with its table of owners built while it runs, accepts exactly the
  tiers that are sound one by one and whose required labels are pairwise distinct and offered by
  no other tier; the order in which Go iterates over the map does not matter.
\<close>

theorem validateTiers_sound:
  assumes "distinct (map fst (C_Tiers c))" "'''' \<notin> fst ` set (C_Tiers c)"
  shows "validateTiers c = Inr () \<longleftrightarrow> soundTiers c"
proof -
  let ?ts = "C_Tiers c"
  let ?pairs = "map (\<lambda>(n, t). (ti_RequiredLabel t, n)) ?ts"
  define owners where "owners = fold (\<lambda>(k, v). AList.update k v) ?pairs []"
  have loop: "validateTierLoop c ?ts [] = Inr o' \<longleftrightarrow>
      (\<forall>(n, t) \<in> set ?ts. soundTier c t) \<and> distinct (map (\<lambda>(n, t). ti_RequiredLabel t) ?ts) \<and> o' = owners" for o'
    using validateTierLoop_Inr [of ?ts "[]" c o'] assms(2) by (auto simp: owners_def)
  have dist: "distinct (map (\<lambda>(n, t). ti_RequiredLabel t) ?ts) \<longleftrightarrow>
      (\<forall>(n, t) \<in> set ?ts. \<forall>(n', t') \<in> set ?ts. n \<noteq> n' \<longrightarrow> ti_RequiredLabel t \<noteq> ti_RequiredLabel t')"
    using distinct_field [OF assms(1), of ti_RequiredLabel] by (simp add: split_beta cong: map_cong)
  have get: "mapGet owners l \<noteq> '''' \<and> mapGet owners l \<noteq> n \<longleftrightarrow> (\<exists>(n', t') \<in> set ?ts. n' \<noteq> n \<and> ti_RequiredLabel t' = l)"
    if d: "distinct (map (\<lambda>(n, t). ti_RequiredLabel t) ?ts)" for l n
  proof -
    note own = owner_table [OF d, of l, folded owners_def]
    have ne: "n' \<noteq> ''''" if "(n', t') \<in> set ?ts" for n' t' using assms(2) that by force
    show ?thesis
    proof (cases "map_of owners l")
      case None
      then have "\<not> (\<exists>n' t'. (n', t') \<in> set ?ts \<and> ti_RequiredLabel t' = l)" using own by auto
      then show ?thesis using None by (auto simp: mapGet_def)
    next
      case (Some n0)
      then have uniq: "n' = n0" if "(n', t') \<in> set ?ts" "ti_RequiredLabel t' = l" for n' t'
        using own [THEN iffD2] that by (metis option.inject)
      obtain t0 where t0: "(n0, t0) \<in> set ?ts" "ti_RequiredLabel t0 = l" using own Some by auto
      have "(\<exists>(n', t') \<in> set ?ts. n' \<noteq> n \<and> ti_RequiredLabel t' = l) \<longleftrightarrow> n0 \<noteq> n" using uniq t0 by blast
      moreover have "mapGet owners l = n0" using Some by (simp add: mapGet_def)
      ultimately show ?thesis using ne [OF t0(1)] by simp
    qed
  qed
  show ?thesis
  proof (cases "validateTierLoop c ?ts []")
    case (Inl e)
    then have "\<not> soundTiers c" using loop [of owners, unfolded Inl] dist unfolding soundTiers_def by blast
    then show ?thesis using Inl by (simp add: validateTiers_def)
  next
    case (Inr o')
    note l = loop [THEN iffD1, OF Inr]
    have "validateTiers c = Inr () \<longleftrightarrow> (\<forall>(n, t) \<in> set ?ts. \<forall>label \<in> set (ti_Labels t). \<not> (mapGet owners label \<noteq> '''' \<and> mapGet owners label \<noteq> n))"
      using Inr l by (simp add: validateTiers_def Let_def split_beta)
    also have "\<dots> \<longleftrightarrow> (\<forall>(n, t) \<in> set ?ts. \<forall>(n', t') \<in> set ?ts. n' \<noteq> n \<longrightarrow> ti_RequiredLabel t' \<notin> set (ti_Labels t))"
      using get l by (simp only: get) blast
    finally show ?thesis using l dist unfolding soundTiers_def by blast
  qed
qed

lemma validateCandidates_Inr:
  "validateCandidates pre tiers cs seen = Inr seen' \<longleftrightarrow>
     set cs \<subseteq> fst ` set tiers \<and> distinct cs \<and> set cs \<inter> seen = {} \<and> seen' = seen \<union> set cs"
  by (induction pre tiers cs seen rule: validateCandidates.induct) (auto simp: map_of_eq_None_iff)

lemma validateRoute_Inr:
  "validateRoute tiers name route labels = Inr labels' \<longleftrightarrow>
     soundRoute tiers (name, route) \<and> mapGet labels (ro_RequiredLabel route) = '''' \<and>
     labels' = AList.update (ro_RequiredLabel route) name labels"
  by (auto simp: validateRoute_def soundRoute_def Let_def validateCandidates_Inr split: if_splits)

lemma validateRouteLoop_Inr:
  assumes "validateRouteLoop tiers rs labels = Inr labels'" "\<forall>k. map_of labels k \<noteq> Some ''''"
  shows "(\<forall>(n, r) \<in> set rs. soundRoute tiers (n, r) \<and> map_of labels (ro_RequiredLabel r) = None) \<and>
         distinct (map (\<lambda>(n, r). ro_RequiredLabel r) rs) \<and>
         labels' = fold (\<lambda>(k, v). AList.update k v) (map (\<lambda>(n, r). (ro_RequiredLabel r, n)) rs) labels"
  using assms
proof (induction rs arbitrary: labels)
  case (Cons nr rs)
  obtain n r where nr: "nr = (n, r)" by fastforce
  let ?labels = "AList.update (ro_RequiredLabel r) n labels"
  have this_ok: "soundRoute tiers (n, r)" "mapGet labels (ro_RequiredLabel r) = ''''" and
    rest: "validateRouteLoop tiers rs ?labels = Inr labels'"
    using Cons.prems(1) nr by (auto simp: validateRoute_Inr)
  have "\<forall>k. map_of ?labels k \<noteq> Some ''''"
    using Cons.prems(2) this_ok(1) by (auto simp: update_conv' soundRoute_def trimSpace_def)
  note ih = Cons.IH [OF rest this]
  have "map_of labels (ro_RequiredLabel r') = None \<and> ro_RequiredLabel r' \<noteq> ro_RequiredLabel r" if "(n', r') \<in> set rs" for n' r'
    using ih that by (auto simp: update_conv' split: if_splits)
  moreover have "map_of labels (ro_RequiredLabel r) = None" using this_ok(2) Cons.prems(2) by (simp add: mapGet_empty)
  ultimately show ?case using ih this_ok(1) nr by force
qed simp

lemma SplitLabel_bare: "l \<in> set (BareLabels [l]) \<longleftrightarrow> fst (SplitLabel l) = l"
  by (auto simp: BareLabels_def)

text \<open>A tier of the table that offers a label keeps offering it, and a candidate comes to offer it.\<close>

definition offers :: "TierConfig gomap \<Rightarrow> string \<Rightarrow> string \<Rightarrow> bool" where
  "offers tiers n l \<longleftrightarrow> (\<exists>t. map_of tiers n = Some t \<and> l \<in> set (BareLabels (ti_Labels t)))"

lemma advertise_dom: "fst ` set (advertise l cand tiers) = fst ` set tiers"
  by (auto simp: advertise_def dom_map_of_conv_image_fst [symmetric] update_conv' split: option.split)

lemma advertise_keeps: "offers tiers n k \<Longrightarrow> offers (advertise l cand tiers) n k"
  by (auto simp: offers_def advertise_def update_conv' BareLabels_def split: option.split)

lemma advertise_adds: "cand \<in> fst ` set tiers \<Longrightarrow> fst (SplitLabel l) = l \<Longrightarrow> offers (advertise l cand tiers) cand l"
  by (force simp: offers_def advertise_def update_conv' BareLabels_def map_of_eq_None_iff split: option.split)

lemma advertise_loop:
  "offers tiers m k \<Longrightarrow> offers (fold (advertise l) cands tiers) m k"
  "fst ` set (fold (advertise l) cands tiers) = fst ` set tiers"
  by (induction cands arbitrary: tiers) (auto simp: advertise_keeps advertise_dom)

lemma advertise_all:
  assumes "fst (SplitLabel l) = l" "n \<in> set cands" "n \<in> fst ` set tiers"
  shows "offers (fold (advertise l) cands tiers) n l"
  using assms(2,3)
proof (induction cands arbitrary: tiers)
  case (Cons x cs)
  show ?case
  proof (cases "n = x")
    case True
    then show ?thesis using advertise_loop(1) [OF advertise_adds [OF _ assms(1)]] Cons.prems(2) by simp
  next
    case False
    then show ?thesis using Cons by (simp add: advertise_dom)
  qed
qed simp

definition advertiseRoutes :: "RouteConfig gomap \<Rightarrow> TierConfig gomap \<Rightarrow> TierConfig gomap" where
  "advertiseRoutes routes = fold (\<lambda>(name, route) ts. fold (advertise (ro_RequiredLabel route)) (ro_Candidates route) ts) routes"

lemma advertiseRoutes_keeps: "offers tiers m k \<Longrightarrow> offers (advertiseRoutes routes tiers) m k"
  unfolding advertiseRoutes_def by (induction routes arbitrary: tiers) (auto simp: advertise_loop)

lemma advertiseRoutes_adds:
  assumes "(name, route) \<in> set routes" "n \<in> set (ro_Candidates route)" "n \<in> fst ` set tiers"
    and "fst (SplitLabel (ro_RequiredLabel route)) = ro_RequiredLabel route"
  shows "offers (advertiseRoutes routes tiers) n (ro_RequiredLabel route)"
  using assms(1,3)
proof (induction routes arbitrary: tiers)
  case (Cons x routes)
  show ?case
  proof (cases "x = (name, route)")
    case True
    then show ?thesis
      using advertiseRoutes_keeps [OF advertise_all [OF assms(4,2)]] Cons.prems(2) by (simp add: advertiseRoutes_def)
  next
    case False
    then have "(name, route) \<in> set routes" using Cons.prems(1) by auto
    then show ?thesis using Cons.IH Cons.prems(2) by (cases x) (simp add: advertiseRoutes_def advertise_loop(2))
  qed
qed simp

lemma advertiseRoutes_dom: "fst ` set (advertiseRoutes routes tiers) = fst ` set tiers"
  unfolding advertiseRoutes_def by (induction routes arbitrary: tiers) (simp_all add: advertise_loop(2) split_beta)

lemma validateRouteLabels_Inr:
  assumes "validateRouteLabels c labels = Inr ()" "(n, t) \<in> set (C_Tiers c)"
  shows "mapGet labels (ti_RequiredLabel t) = ''''"
    and "label \<in> set (BareLabels (ti_Labels t)) \<Longrightarrow> mapGet labels label \<noteq> '''' \<Longrightarrow>
           \<exists>r. (mapGet labels label, r) \<in> set (ro_Routes (C_Routing c)) \<and> n \<in> set (ro_Candidates r)"
proof -
  note all = assms(1) [unfolded validateRouteLabels_def, simplified, rule_format, OF assms(2), simplified]
  show "mapGet labels (ti_RequiredLabel t) = ''''" using all by simp
  show "\<exists>r. (mapGet labels label, r) \<in> set (ro_Routes (C_Routing c)) \<and> n \<in> set (ro_Candidates r)"
    if "label \<in> set (BareLabels (ti_Labels t))" "mapGet labels label \<noteq> ''''"
    using all that by (force simp: Let_def)
qed

lemma Load_Inr:
  assumes "Load env path = Inr c"
  obtains c0 where "c = applyDefaults c0" "validateRouting env c = Inr ()" "validateTiers c = Inr ()"
    "validateTransport env (C_Transport c) = Inr ()" "0 < C_PollInterval c"
  using assms by (auto simp: Load_def Let_def validate_def split: if_splits)

lemma Load_routes:
  assumes "Load env path = Inr c" "ro_Routes (C_Routing c) \<noteq> []"
  obtains tiers where "C_Tiers c = advertiseRoutes (ro_Routes (C_Routing c)) tiers" "validateRoutes c = Inr ()"
proof -
  obtain c0 where c: "c = applyDefaults c0" "validateRouting env c = Inr ()" using assms(1) by (rule Load_Inr)
  have "\<exists>tiers. C_Tiers c = advertiseRoutes (ro_Routes (C_Routing c)) tiers"
    using assms(2) unfolding c(1) by (auto simp: applyDefaults_def routingDefaults_def advertiseRoutes_def Let_def split: prod.splits if_splits)
  then show ?thesis using that c(2) assms(2) by (auto simp: validateRouting_def Let_def)
qed

text \<open>
  C26. In a configuration that loads, the label of an automatic route, when it is a plain label without a
  binding (\<open>name\<close>, not \<open>name:docker://image\<close>), is served by exactly the candidates of the route: the
  defaults make every candidate offer it, and validation refuses it anywhere else. So a job that carries the route's
  label can be sent to any candidate the router picks, and no other tier takes it behind the router's
  back. Validation does not refuse a route label with a binding; nothing is claimed of one.
\<close>

theorem route_label_served_by_candidates:
  assumes "Load env path = Inr c"
    and "distinct (map fst (C_Tiers c))" "distinct (map fst (ro_Routes (C_Routing c)))"
    and "(name, route) \<in> set (ro_Routes (C_Routing c))" "(tierName, tier) \<in> set (C_Tiers c)"
    and "fst (SplitLabel (ro_RequiredLabel route)) = ro_RequiredLabel route"
  shows "serviceable [ro_RequiredLabel route] (ti_Labels tier) \<longleftrightarrow> tierName \<in> set (ro_Candidates route)"
proof -
  let ?routes = "ro_Routes (C_Routing c)" and ?l = "ro_RequiredLabel route"
  have "?routes \<noteq> []" using assms(4) by auto
  with assms(1) obtain tiers where tiers: "C_Tiers c = advertiseRoutes ?routes tiers" and valid: "validateRoutes c = Inr ()"
    by (rule Load_routes)
  then obtain labels where loop: "validateRouteLoop (C_Tiers c) ?routes [] = Inr labels" and labels: "validateRouteLabels c labels = Inr ()"
    by (auto simp: validateRoutes_def)
  note l = validateRouteLoop_Inr [OF loop, simplified]
  have m: "map_of (C_Tiers c) tierName = Some tier" using assms(2,5) by simp
  have "map_of labels ?l = Some name" using owner_table [of ro_RequiredLabel ?routes ?l name] l assms(4) by auto
  moreover have "name \<noteq> ''''" using l assms(4) by (auto simp: soundRoute_def trimSpace_def)
  ultimately have get: "mapGet labels ?l = name" by (simp add: mapGet_def)
  have "tierName \<in> set (ro_Candidates route)" if bare: "?l \<in> set (BareLabels (ti_Labels tier))"
  proof -
    obtain r where "(name, r) \<in> set ?routes" "tierName \<in> set (ro_Candidates r)"
      using validateRouteLabels_Inr(2) [OF labels assms(5) bare] get \<open>name \<noteq> ''''\<close> by auto
    moreover have "r = route" using calculation(1) assms(3,4) by (metis eq_key_imp_eq_value)
    ultimately show ?thesis by simp
  qed
  moreover have "?l \<in> set (BareLabels (ti_Labels tier))" if "tierName \<in> set (ro_Candidates route)"
  proof -
    have "tierName \<in> fst ` set tiers" using assms(5) tiers advertiseRoutes_dom [of ?routes tiers] by force
    then show ?thesis using advertiseRoutes_adds [OF assms(4) that _ assms(6), of tiers] m tiers by (auto simp: offers_def)
  qed
  ultimately show ?thesis by (auto simp: serviceable_def)
qed

lemma validateTierLoop_sound: "validateTierLoop c ts owners = Inr o' \<Longrightarrow> (n, t) \<in> set ts \<Longrightarrow> soundTier c t"
  by (induction c ts owners rule: validateTierLoop.induct) (auto simp: Let_def validateTier_Inr split: if_splits)

text \<open>The teardown policy that cmd/fj-bellows/main.go builds for a tier.\<close>

definition tierPolicy :: "BillingModel \<Rightarrow> TierConfig \<Rightarrow> TeardownPolicy" where
  "tierPolicy model tier =
     \<lparr>Model = model, IdleTimeout = ti_IdleTimeout tier, HourMargin = ti_HourMargin tier, BillingHour = ti_BillingHour tier\<rparr>"

lemma sound_tier_keeps_fresh_worker:
  assumes "soundTier c t" "ti_BillingHour t \<le> max_int64" "CreatedAt n = now" "LastBusy n = now"
  shows "\<not> ShouldTeardown (tierPolicy BillingHourlyRoundUp t) n now" "\<not> ShouldTeardown (tierPolicy BillingPerSecond t) n now"
proof -
  let ?tp = "tierPolicy BillingHourlyRoundUp t"
  have t: "0 \<le> ti_HourMargin t" "ti_HourMargin t < ti_BillingHour t" "0 < ti_IdleTimeout t" using assms(1) by (auto simp: soundTier_def)
  have "kill_range now now (cycle ?tp) (HourMargin ?tp)"
    using t assms(2) by (simp add: kill_range_def cycle_def tierPolicy_def)
  then have "NextKillMark now now (cycle ?tp) (HourMargin ?tp) = now + cycle ?tp - HourMargin ?tp"
    by (simp add: NextKillMark_exact)
  then show "\<not> ShouldTeardown ?tp n now"
    using t assms(3) by (simp add: ShouldTeardown_def tierPolicy_def cycle_def)
  show "\<not> ShouldTeardown (tierPolicy BillingPerSecond t) n now"
    using t assms(4) by (simp add: ShouldTeardown_def tierPolicy_def time_sub_def sat64_def min_int64_def max_int64_def)
qed

text \<open>
  C25. What the rest of the program may rely on: in a configuration that loads, every tier has a
  required label that it offers, a defined provider, room for at least one instance and at most
  that many warm ones, positive timers, and a margin that leaves part of each billing cycle; every
  route names at least two distinct existing tiers with the fallback among them; and so, under
  either billing model, no tier's policy destroys a worker at the moment it was created.
\<close>

theorem Load_sound:
  assumes "Load env path = Inr c"
  shows "list_all (\<lambda>(n, t). soundTier c t) (C_Tiers c) \<and> list_all (soundRoute (C_Tiers c)) (ro_Routes (C_Routing c)) \<and>
         0 < C_PollInterval c \<and>
         list_all (\<lambda>(n, t). ti_BillingHour t \<le> max_int64 \<longrightarrow>
           \<not> ShouldTeardown (tierPolicy BillingHourlyRoundUp t) (Node_zero\<lparr>CreatedAt := now, LastBusy := now\<rparr>) now \<and>
           \<not> ShouldTeardown (tierPolicy BillingPerSecond t) (Node_zero\<lparr>CreatedAt := now, LastBusy := now\<rparr>) now) (C_Tiers c)"
proof -
  have v: "validateTiers c = Inr ()" "0 < C_PollInterval c" using assms by (auto elim: Load_Inr)
  have tier: "soundTier c t" if "(n, t) \<in> set (C_Tiers c)" for n t
    using v(1) that by (auto simp: validateTiers_def intro: validateTierLoop_sound)
  have "soundRoute (C_Tiers c) r" if r: "r \<in> set (ro_Routes (C_Routing c))" for r
  proof -
    have "ro_Routes (C_Routing c) \<noteq> []" using r by auto
    with assms have "validateRoutes c = Inr ()" by (rule Load_routes)
    then obtain labels where "validateRouteLoop (C_Tiers c) (ro_Routes (C_Routing c)) [] = Inr labels"
      by (auto simp: validateRoutes_def)
    from validateRouteLoop_Inr [OF this] show ?thesis using r by (cases r) auto
  qed
  moreover have "\<not> ShouldTeardown (tierPolicy BillingHourlyRoundUp t) (Node_zero\<lparr>CreatedAt := now, LastBusy := now\<rparr>) now \<and>
        \<not> ShouldTeardown (tierPolicy BillingPerSecond t) (Node_zero\<lparr>CreatedAt := now, LastBusy := now\<rparr>) now"
    if "(n, t) \<in> set (C_Tiers c)" "ti_BillingHour t \<le> max_int64" for n t
    using sound_tier_keeps_fresh_worker [OF tier [OF that(1)] that(2), where n = "Node_zero\<lparr>CreatedAt := now, LastBusy := now\<rparr>" and now = now] by simp
  ultimately show ?thesis using tier v(2) unfolding list_all_iff by blast
qed

subsection \<open>Ownership tags\<close>

lemma length_bigEndian [simp]: "length (bigEndian k n) = k"
  by (induction k arbitrary: n) auto

lemma bigEndian_inj: "n < 256 ^ k \<Longrightarrow> m < 256 ^ k \<Longrightarrow> bigEndian k n = bigEndian k m \<Longrightarrow> n = m"
proof (induction k arbitrary: n m)
  case (Suc k)
  have "n mod 256 = m mod 256"
    using Suc.prems(3) arg_cong [of "char_of (n mod 256) :: char" "char_of (m mod 256)" of_char] by simp
  moreover have "n div 256 = m div 256"
    using Suc.prems by (intro Suc.IH) (auto simp: less_mult_imp_div_less)
  ultimately show ?case by (metis div_mult_mod_eq)
qed simp

lemma framed_inj:
  assumes "bigEndian 8 (length v mod 2 ^ 64) @ v @ r = bigEndian 8 (length w mod 2 ^ 64) @ w @ s"
    and "length v < 2 ^ 64" "length w < 2 ^ 64"
  shows "v = w \<and> r = s"
proof -
  have "bigEndian 8 (length v) = bigEndian 8 (length w)" "v @ r = w @ s" using assms by (auto simp: append_eq_append_conv)
  then show ?thesis using bigEndian_inj [of "length v" 8 "length w"] assms(2,3) by simp
qed

lemma tierTagInput_inj:
  assumes "tierTagInput a b = tierTagInput a' b'" "length a < 2 ^ 64" "length a' < 2 ^ 64" "length b < 2 ^ 64" "length b' < 2 ^ 64"
  shows "a = a' \<and> b = b'"
proof -
  have "a = a' \<and> bigEndian 8 (length b mod 2 ^ 64) @ b @ [] = bigEndian 8 (length b' mod 2 ^ 64) @ b' @ []"
    using assms(1) by (intro framed_inj [OF _ assms(2,3)]) (simp add: tierTagInput_def)
  then show ?thesis using framed_inj [OF _ assms(4,5)] by blast
qed

text \<open>
  Ownership tags have 46 characters, and two of them are equal only for the same tier of the
  same deployment, unless the first 160 bits of SHA-256 collide: the length-prefixed input leaves
  no ambiguity between the deployment's tag and the tier's name.
\<close>

theorem TierTag_separates:
  assumes "\<And>s. length (ce_sha256 env s) = 32"
    and "length (C_Tag c) < 2 ^ 64" "length (C_Tag c') < 2 ^ 64" "length tier < 2 ^ 64" "length tier' < 2 ^ 64"
    and "TierTag env c tier = TierTag env c' tier'"
  shows "length (TierTag env c tier) = 46 \<and>
         (C_Tag c = C_Tag c' \<and> tier = tier' \<or>
          (\<exists>x y. x \<noteq> y \<and> take 20 (ce_sha256 env x) = take 20 (ce_sha256 env y)))"
proof -
  have "take 20 (ce_sha256 env (tierTagInput (C_Tag c) tier)) = take 20 (ce_sha256 env (tierTagInput (C_Tag c') tier'))"
    using assms(6) by (auto simp: TierTag_def tierTagHashBytes_def intro: hexEncode_inj)
  moreover have "length (TierTag env c tier) = 46"
    using assms(1) by (simp add: TierTag_def tierTagPrefix_def length_hexEncode tierTagHashBytes_def)
  ultimately show ?thesis using tierTagInput_inj [OF _ assms(2-5)] by blast
qed

subsection \<open>What redaction hides\<close>

text \<open>Two trees that differ only in the scalars stored under secret keys.\<close>

inductive public_eq :: "yamlNode \<Rightarrow> yamlNode \<Rightarrow> bool"
  and public_list :: "yamlNode list \<Rightarrow> yamlNode list \<Rightarrow> bool"
  and public_pairs :: "yamlNode list \<Rightarrow> yamlNode list \<Rightarrow> bool" where
  same: "public_eq n n"
| inside: "kd = DocumentNode \<or> kd = SequenceNode \<Longrightarrow> public_list cs cs' \<Longrightarrow> public_eq (YamlNode kd st tg v cs) (YamlNode kd st tg v cs')"
| mapping: "public_pairs cs cs' \<Longrightarrow> public_eq (YamlNode MappingNode st tg v cs) (YamlNode MappingNode st tg v cs')"
| list_nil: "public_list [] []"
| list_cons: "public_eq n n' \<Longrightarrow> public_list cs cs' \<Longrightarrow> public_list (n # cs) (n' # cs')"
| pairs_nil: "public_pairs [] []"
| pairs_key: "public_pairs [k] [k]"
| secret: "isSecretKey (y_Value k) \<Longrightarrow> public_pairs r r' \<Longrightarrow>
    public_pairs (k # YamlNode ScalarNode st tg v cs # r) (k # YamlNode ScalarNode st' tg' v' cs # r')"
| public_value: "public_eq n n' \<Longrightarrow> public_pairs r r' \<Longrightarrow> public_pairs (k # n # r) (k # n' # r')"

lemma redactPairs_step:
  "redactPairs (k # n # r) =
     k # (if isSecretKey (y_Value k) \<and> y_Kind n = ScalarNode then YamlNode ScalarNode 0 ''!!str'' redactedMarker (y_Content n) else redactNode n) #
     redactPairs r"
  by (cases n) simp

lemma redact_public:
  "public_eq n n' \<Longrightarrow> redactNode n = redactNode n' \<and> y_Kind n = y_Kind n' \<and> (y_Kind n = ScalarNode \<longrightarrow> n = n')"
  "public_list cs cs' \<Longrightarrow> map redactNode cs = map redactNode cs'"
  "public_pairs ps ps' \<Longrightarrow> redactPairs ps = redactPairs ps'"
proof (induction rule: public_eq_public_list_public_pairs.inducts)
  case (inside kd cs cs' st tg v)
  then show ?case by (elim disjE) simp_all
next
  case (public_value n n' r r' k)
  then show ?case by (cases "y_Kind n = ScalarNode") (simp_all add: redactPairs_step)
qed (simp_all add: redactPairs_step)

lemma redact_provider:
  "pi_Driver p = pi_Driver p' \<Longrightarrow> public_eq (pi_Config p) (pi_Config p') \<Longrightarrow>
   p\<lparr>pi_Config := redactNode (pi_Config p)\<rparr> = (p' :: ProviderInstance)\<lparr>pi_Config := redactNode (pi_Config p')\<rparr>"
  by (cases p; cases p') (auto dest: redact_public(1))

definition public_config :: "ConfigFile \<Rightarrow> ConfigFile \<Rightarrow> bool" where
  "public_config c c' \<longleftrightarrow>
     (fg_Token (C_Forgejo c) = '''' \<longleftrightarrow> fg_Token (C_Forgejo c') = '''') \<and>
     c\<lparr>C_Forgejo := (C_Forgejo c)\<lparr>fg_Token := ''''\<rparr>, C_Providers := []\<rparr> = c'\<lparr>C_Forgejo := (C_Forgejo c')\<lparr>fg_Token := ''''\<rparr>, C_Providers := []\<rparr> \<and>
     list_all2 (\<lambda>(n, p) (n', p'). n = n' \<and> pi_Driver p = pi_Driver p' \<and> public_eq (pi_Config p) (pi_Config p')) (C_Providers c) (C_Providers c')"

text \<open>
  C27. Redaction does not leak: two configurations that differ only in the value of the Forgejo
  token and in the scalars under secret keys, at any depth of the provider blocks, have the same
  redacted copy, so what the control plane shows carries no information about those values.
\<close>

theorem Redact_hides_secrets:
  assumes "public_config c c'"
  shows "Redact c = Redact c'"
proof -
  have "map (\<lambda>(name, p). (name, p\<lparr>pi_Config := redactNode (pi_Config p)\<rparr>)) ps = map (\<lambda>(name, p). (name, p\<lparr>pi_Config := redactNode (pi_Config p)\<rparr>)) ps'"
    if "list_all2 (\<lambda>(n, p) (n', p'). n = n' \<and> pi_Driver p = pi_Driver p' \<and> public_eq (pi_Config p) (pi_Config p')) ps ps'" for ps ps' :: "ProviderInstance gomap"
    using that by (induction rule: list_all2_induct) (auto intro: redact_provider)
  then show ?thesis
    using assms by (cases c; cases c'; cases "C_Forgejo c"; cases "C_Forgejo c'") (auto simp: public_config_def Redact_def Let_def)
qed

text \<open>A list of secrets under a secret key is not replaced; only a scalar is.\<close>

theorem secret_list_not_redacted:
  "redactNode (YamlNode MappingNode 0 [] [] [YamlNode ScalarNode 0 [] ''password'' [], YamlNode SequenceNode 0 [] [] [YamlNode ScalarNode 0 [] s []]]) =
   YamlNode MappingNode 0 [] [] [YamlNode ScalarNode 0 [] ''password'' [], YamlNode SequenceNode 0 [] [] [YamlNode ScalarNode 0 [] s []]]"
  by simp

subsection \<open>A configuration with two tiers and a route\<close>

definition noNode :: yamlNode where "noNode = YamlNode ZeroNode 0 [] [] []"

definition rawTier :: "string \<Rightarrow> string list \<Rightarrow> TierConfig" where
  "rawTier label labels =
     \<lparr>ti_RequiredLabel = label, ti_Labels = labels, ti_Provider = ''local'', ti_InstanceType = [], ti_OneJobPerVM = False, ti_ResetMode = [],
      ti_ResetMinRemaining = 0, ti_ResetTimeout = 0, ti_WarmInstances = 0, ti_IdleTimeout = 0, ti_HourMargin = 0, ti_BillingHour = 0,
      ti_MaxInstances = 0\<rparr>"

definition rawConfig :: "TierConfig gomap \<Rightarrow> RouteConfig gomap \<Rightarrow> ConfigFile" where
  "rawConfig tiers routes =
     \<lparr>C_Forgejo = \<lparr>fg_URL = ''https://git.example'', fg_Token = ''s3cret'', fg_Scope = ''repos/a/b''\<rparr>,
      C_Database = \<lparr>db_Path = ''/var/lib/fjb/ledger.db'', db_Retention = 0\<rparr>,
      C_Providers = [(''local'', \<lparr>pi_Driver = ''docker'', pi_Config = noNode\<rparr>)], C_Tiers = tiers,
      C_Routing = \<lparr>ro_Currency = ''eur'', ro_ExchangeRates = [], ro_Routes = routes\<rparr>, C_PollInterval = 0,
      C_SSH = \<lparr>ssh_User = [], ssh_PrivateKeyFile = [], ssh_Port = 0\<rparr>, C_Transport = \<lparr>tp_Mode = [], tp_Tunnel = None, tp_WG = None\<rparr>, C_Tag = []\<rparr>"

definition sampleRoute :: RouteConfig where
  "sampleRoute = \<lparr>ro_RequiredLabel = ''auto'', ro_Candidates = [''small'', ''big''], ro_FallbackTier = ''small'', ro_HistoryWindow = 0,
     ro_MinSamples = 0, ro_ColdStartP95 = 0, ro_MaxOptimizationWaitQueue = 0\<rparr>"

definition exampleConfig :: ConfigFile where
  "exampleConfig = rawConfig [(''small'', rawTier ''small'' []), (''big'', rawTier ''big'' [])] [(''cheap'', sampleRoute)]"

definition exampleEnv :: "ConfigFile \<Rightarrow> ConfigEnv" where
  "exampleEnv c =
     \<lparr>ce_ReadFile = (\<lambda>_. Inr []), ce_Unmarshal = (\<lambda>_. None), ce_Decode = (\<lambda>_. Inr c), ce_Dir = (\<lambda>_. ''/var/lib/fjb''), ce_IsDir = (\<lambda>_. True),
      ce_RatSetString = (\<lambda>s. if s = ''1'' then Some (1, 1) else None), ce_ParseCIDR = (\<lambda>_. Inr ()), ce_ParseIP = (\<lambda>_. True),
      ce_SplitHostPort = (\<lambda>_. Inr ()), ce_NetIP = namesOnly, ce_sha256 = (\<lambda>s. take 32 (s @ replicate 32 (CHR 0x00)))\<rparr>"

definition loadedTier :: "string \<Rightarrow> string list \<Rightarrow> TierConfig" where
  "loadedTier label labels =
     \<lparr>ti_RequiredLabel = label, ti_Labels = labels, ti_Provider = ''local'', ti_InstanceType = [], ti_OneJobPerVM = False, ti_ResetMode = ''none'',
      ti_ResetMinRemaining = 10 * minute, ti_ResetTimeout = 5 * minute, ti_WarmInstances = 0, ti_IdleTimeout = 5 * minute,
      ti_HourMargin = 5 * minute, ti_BillingHour = hour, ti_MaxInstances = 1\<rparr>"

definition loadedConfig :: "TierConfig gomap \<Rightarrow> string gomap \<Rightarrow> RouteConfig gomap \<Rightarrow> ConfigFile" where
  "loadedConfig tiers rates routes =
     (rawConfig tiers routes)\<lparr>C_Routing := \<lparr>ro_Currency = ''EUR'', ro_ExchangeRates = rates, ro_Routes = routes\<rparr>, C_PollInterval := 10 * second,
       C_SSH := \<lparr>ssh_User = ''root'', ssh_PrivateKeyFile = [], ssh_Port = 22\<rparr>, C_Transport := \<lparr>tp_Mode = ''ssh'', tp_Tunnel = None, tp_WG = None\<rparr>,
       C_Tag := ''fj-bellows''\<rparr>"

definition loadedRoute :: RouteConfig where
  "loadedRoute = sampleRoute\<lparr>ro_HistoryWindow := 720 * hour, ro_MinSamples := 10, ro_ColdStartP95 := 15 * minute\<rparr>"

definition loadedSample :: ConfigFile where
  "loadedSample = loadedConfig [(''small'', loadedTier ''small'' [''small'', ''auto'']), (''big'', loadedTier ''big'' [''big'', ''auto''])]
     [(''EUR'', ''1'')] [(''cheap'', loadedRoute)]"

lemmas config_names = ResetNone_def ResetSnapshot_def DefaultTag_def ProviderDocker_def TransportSSH_def TransportCacheGateway_def

lemma eur: "toUpper (trimSpace ''eur'') = ''EUR''"
  by code_simp

lemmas sample_defs = rawConfig_def rawTier_def sampleRoute_def loadedConfig_def loadedTier_def loadedRoute_def config_names eur

lemmas defaults_defs = applyDefaults_def routingDefaults_def tierDefaults_def routeDefaults_def transportDefaults_def normalizedRates_def
  advertise_def BareLabels_def SplitLabel_def Let_def

lemmas validate_defs = validate_def validateRequiredFields_def missingFields_def validateDatabase_def validateRouting_def validateRoutes_def
  validateRoute_def validateRouteLabels_def validateTiers_def validateTier_Inr soundTier_def validateTransportProvider_def validateTransport_def
  mapGet_def wrapE_def

lemma applyDefaults_sample: "applyDefaults exampleConfig = loadedSample"
  by (simp add: exampleConfig_def loadedSample_def sample_defs defaults_defs)

lemma Load_defaults:
  assumes "validate (exampleEnv c) (applyDefaults c) = Inr ()"
  shows "Load (exampleEnv c) [] = Inr (applyDefaults c)"
  using assms by (simp add: Load_def exampleEnv_def legacyTopLevelKey_def Let_def wrapE_def)

lemma cheap: "trimSpace ''cheap'' = ''cheap''"
  by code_simp

lemma validate_sample: "validate (exampleEnv c) loadedSample = Inr ()"
  by (simp add: loadedSample_def exampleEnv_def sample_defs validate_defs cheap BareLabels_def SplitLabel_def Let_def minute_def hour_def second_def isUpper_def)

lemma Load_sample: "Load (exampleEnv exampleConfig) [] = Inr loadedSample"
  using Load_defaults [of exampleConfig] validate_sample by (simp add: applyDefaults_sample)

lemma sample_facts:
  "distinct (map fst (C_Tiers loadedSample))" "'''' \<notin> fst ` set (C_Tiers loadedSample)"
  "distinct (map fst (ro_Routes (C_Routing loadedSample)))" "(''cheap'', loadedRoute) \<in> set (ro_Routes (C_Routing loadedSample))"
  "(''small'', loadedTier ''small'' [''small'', ''auto'']) \<in> set (C_Tiers loadedSample)"
  by (simp_all add: loadedSample_def loadedConfig_def rawConfig_def)

theorem validateTiers_sound_witness: "soundTiers loadedSample"
proof -
  have "validateTiers loadedSample = Inr ()" using Load_sample by (rule Load_Inr)
  then show ?thesis using validateTiers_sound [OF sample_facts(1,2)] by simp
qed

theorem route_label_served_by_candidates_witness:
  "serviceable [ro_RequiredLabel loadedRoute] (ti_Labels (loadedTier ''small'' [''small'', ''auto''])) \<longleftrightarrow> ''small'' \<in> set (ro_Candidates loadedRoute)"
proof (rule route_label_served_by_candidates [OF Load_sample sample_facts(1,3,4,5)])
  show "fst (SplitLabel (ro_RequiredLabel loadedRoute)) = ro_RequiredLabel loadedRoute"
    by (simp add: loadedRoute_def sampleRoute_def SplitLabel_def)
qed

theorem Load_sound_witness: "list_all (\<lambda>(n, t). soundTier loadedSample t) (C_Tiers loadedSample)"
  using Load_sound [OF Load_sample, of 0] by simp

theorem TierTag_separates_witness: "length (TierTag (exampleEnv exampleConfig) exampleConfig ''big'') = 46"
  using TierTag_separates [of "exampleEnv exampleConfig" exampleConfig exampleConfig "''big''" "''big''"]
  by (simp add: exampleEnv_def exampleConfig_def rawConfig_def)

definition linodeNode :: "string \<Rightarrow> yamlNode" where
  "linodeNode v = YamlNode MappingNode 0 [] [] [YamlNode ScalarNode 0 [] ''region'' [], YamlNode ScalarNode 0 [] ''us-east'' [],
     YamlNode ScalarNode 0 [] ''Token'' [], YamlNode ScalarNode 0 [] v []]"

theorem Redact_hides_secrets_witness:
  "Redact (exampleConfig\<lparr>C_Forgejo := (C_Forgejo exampleConfig)\<lparr>fg_Token := ''a''\<rparr>, C_Providers := [(''l'', \<lparr>pi_Driver = ''linode'', pi_Config = linodeNode ''x''\<rparr>)]\<rparr>) =
   Redact (exampleConfig\<lparr>C_Forgejo := (C_Forgejo exampleConfig)\<lparr>fg_Token := ''b''\<rparr>, C_Providers := [(''l'', \<lparr>pi_Driver = ''linode'', pi_Config = linodeNode ''y''\<rparr>)]\<rparr>)"
proof (rule Redact_hides_secrets)
  have "isSecretKey ''Token''" by code_simp
  then have "public_eq (linodeNode ''x'') (linodeNode ''y'')"
    unfolding linodeNode_def by (intro mapping public_value same secret pairs_nil) simp
  then show "public_config
      (exampleConfig\<lparr>C_Forgejo := (C_Forgejo exampleConfig)\<lparr>fg_Token := ''a''\<rparr>, C_Providers := [(''l'', \<lparr>pi_Driver = ''linode'', pi_Config = linodeNode ''x''\<rparr>)]\<rparr>)
      (exampleConfig\<lparr>C_Forgejo := (C_Forgejo exampleConfig)\<lparr>fg_Token := ''b''\<rparr>, C_Providers := [(''l'', \<lparr>pi_Driver = ''linode'', pi_Config = linodeNode ''y''\<rparr>)]\<rparr>)"
    by (simp add: public_config_def)
qed

text \<open>
  The ownership check compares the labels as written, not their bare names: a tier that offers
  another tier's required label with a binding is accepted, although it serves jobs that carry it.
\<close>

definition escapeConfig :: ConfigFile where
  "escapeConfig = rawConfig [(''small'', rawTier ''small'' [''small'', ''big:docker://node'']), (''big'', rawTier ''big'' [])] []"

definition loadedEscape :: ConfigFile where
  "loadedEscape = loadedConfig [(''small'', loadedTier ''small'' [''small'', ''big:docker://node'']), (''big'', loadedTier ''big'' [''big''])] [] []"

theorem bound_label_escapes_ownership:
  "Load (exampleEnv escapeConfig) [] = Inr loadedEscape \<and>
   (\<exists>t. map_of (C_Tiers loadedEscape) ''small'' = Some t \<and> serviceable [''big''] (ti_Labels t) \<and> ti_RequiredLabel t \<noteq> ''big'')"
proof -
  have d: "applyDefaults escapeConfig = loadedEscape"
    by (simp add: escapeConfig_def loadedEscape_def sample_defs defaults_defs)
  have "validate (exampleEnv escapeConfig) loadedEscape = Inr ()"
    by (simp add: loadedEscape_def exampleEnv_def sample_defs validate_defs BareLabels_def SplitLabel_def labelBindingSchemes_def Let_def
        minute_def hour_def second_def)
  moreover have "serviceable [''big''] [''small'', ''big:docker://node'']"
    by (simp add: serviceable_def BareLabels_def SplitLabel_def labelBindingSchemes_def Let_def)
  ultimately show ?thesis
    using Load_defaults [of escapeConfig] d by (simp add: loadedEscape_def loadedConfig_def rawConfig_def loadedTier_def)
qed

text \<open>A gateway configuration without the WireGuard block is accepted.\<close>

theorem gateway_without_wg_accepted:
  assumes "validateTunnel env tn = Inr ()"
  shows "validateTransport env \<lparr>tp_Mode = TransportCacheGateway, tp_Tunnel = Some tn, tp_WG = None\<rparr> = Inr ()"
  using assms by (simp add: validateTransport_def config_names)

end
