(* ===== verification/Linode_Firewall.thy ===== *)
theory Linode_Firewall
  imports Go_Strings "HOL-Library.Multiset" "HOL-Library.List_Lexorder" "HOL-Library.Char_ord"
begin

text \<open>
  The firewall the Linode provider manages for a deployment, src/internal/provider/linode/firewall.go
  with the address probe of external_ip.go: validation, sentinels, rendering of the rule set in
  chunks, finding or creating the firewall, refresh and clean-up. The Linode API, HTTP, address
  parsing and SHA-256 are the fields of the record \<open>FirewallAPI\<close> over a world \<open>'w\<close>. A pointer to an
  address list is the list, nil being the empty one: the code reads both alike.
\<close>

subsection \<open>Data\<close>

record FirewallRule =
  fr_Action :: string
  fr_Label :: string
  fr_Description :: string
  fr_Protocol :: string
  fr_Ports :: string
  fr_IPv4 :: "string list"
  fr_IPv6 :: "string list"

record FirewallRuleSet =
  fs_Inbound :: "FirewallRule list"
  fs_InboundPolicy :: string
  fs_Outbound :: "FirewallRule list"
  fs_OutboundPolicy :: string

record Firewall =
  fw_ID :: int
  fw_Tags :: "string list"
  fw_Rules :: FirewallRuleSet

record extraRule =
  xr_Label :: string
  xr_Description :: string
  xr_Action :: string
  xr_Protocol :: string
  xr_Ports :: string
  xr_Addresses :: "string list"

record firewallConfig =
  fc_AllowInbound :: "string list"
  fc_RefreshInterval :: duration
  fc_InboundPolicy :: string
  fc_OutboundPolicy :: string
  fc_ExtraInbound :: "extraRule list"
  fc_ExtraOutbound :: "extraRule list"

record managedFirewall =
  mf_cfg :: firewallConfig
  mf_tag :: string
  mf_transportMode :: string
  mf_wgListenPort :: int
  mf_id :: int
  mf_lastApplied :: "string list"

text \<open>
  \<open>fa_ParseCIDR\<close> and \<open>fa_ParseIP\<close> tell whether the text is an IPv4 form; the second also gives the
  canonical text. \<open>fa_httpGet\<close> gives the status and the first 128 bytes of the body.
\<close>

record 'w FirewallAPI =
  fa_List :: "'w \<Rightarrow> Firewall list result \<times> 'w"
  fa_Create :: "string \<Rightarrow> string list \<Rightarrow> FirewallRuleSet \<Rightarrow> 'w \<Rightarrow> Firewall result \<times> 'w"
  fa_Update :: "int \<Rightarrow> FirewallRuleSet \<Rightarrow> 'w \<Rightarrow> unit result \<times> 'w"
  fa_Delete :: "int \<Rightarrow> 'w \<Rightarrow> unit result \<times> 'w"
  fa_Devices :: "int \<Rightarrow> 'w \<Rightarrow> string list result \<times> 'w"
  fa_httpGet :: "string \<Rightarrow> 'w \<Rightarrow> (int \<times> string) result \<times> 'w"
  fa_ParseIP :: "string \<Rightarrow> (bool \<times> string) option"
  fa_ParseCIDR :: "string \<Rightarrow> bool option"
  fa_sha256 :: "string \<Rightarrow> string"

definition fwActionAccept :: string where "fwActionAccept = ''ACCEPT''"
definition fwInboundDrop :: string where "fwInboundDrop = ''DROP''"
definition fwOutboundAccept :: string where "fwOutboundAccept = ''ACCEPT''"
definition supportedExtraProtocols :: "string list" where "supportedExtraProtocols = [''TCP'', ''UDP'', ''ICMP'', ''IPENCAP'']"
definition transportCacheGateway :: string where "transportCacheGateway = ''cache-gateway''"
definition sentinelAuto :: string where "sentinelAuto = ''auto''"
definition sentinelAny :: string where "sentinelAny = ''any''"
definition sentinelAnyV4 :: string where "sentinelAnyV4 = ''any-v4''"
definition sentinelAnyV6 :: string where "sentinelAnyV6 = ''any-v6''"
definition maxAddrsPerRule :: nat where "maxAddrsPerRule = 255"
definition maxRulesPerFW :: nat where "maxRulesPerFW = 25"
definition defaultWGListenPort :: int where "defaultWGListenPort = 51820"

subsection \<open>Validation\<close>

definition isAddressSentinel :: "string \<Rightarrow> bool" where
  "isAddressSentinel s \<longleftrightarrow> s \<in> {sentinelAuto, sentinelAny, sentinelAnyV4, sentinelAnyV6}"

definition validatePolicy :: "string \<Rightarrow> string \<Rightarrow> unit result" where
  "validatePolicy p field = ensure (p \<in> {'''', fwActionAccept, fwInboundDrop}) (field @ '': '' @ goQuote p @ '' is not ACCEPT or DROP'')"

definition numbered :: "'a list \<Rightarrow> (int \<times> 'a) list" where
  "numbered xs = zip (map int [0..<length xs]) xs"

text \<open>The text of the error of \<open>net.ParseCIDR\<close> ends the message of a bad address.\<close>

definition validateExtraRule :: "'w FirewallAPI \<Rightarrow> (string \<Rightarrow> string) \<Rightarrow> extraRule \<Rightarrow> unit result" where
  "validateExtraRule api cidrError r =
     (if xr_Label r = '''' then failE ''label is required''
      else if xr_Action r \<notin> {fwActionAccept, fwInboundDrop} then failE (''action '' @ goQuote (xr_Action r) @ '' is not ACCEPT or DROP'')
      else if xr_Protocol r \<notin> set supportedExtraProtocols
      then failE (''protocol '' @ goQuote (xr_Protocol r) @ '' is not TCP/UDP/ICMP/IPENCAP'')
      else if xr_Addresses r = []
      then failE (''addresses is empty; a rule with no addresses matches nothing. '' @
                  ''Use [any] (or any-v4 / any-v6) for an unrestricted-source rule'')
      else forE (\<lambda>(j, a). ensure (isAddressSentinel a \<or> fa_ParseCIDR api a \<noteq> None)
             (''addresses['' @ formatInt j @ ''] '' @ goQuote a @
              '' is not a CIDR or a recognised sentinel (auto, any, any-v4, any-v6): '' @ cidrError a)) (numbered (xr_Addresses r)))"

definition validateFirewall :: "'w FirewallAPI \<Rightarrow> (string \<Rightarrow> string) \<Rightarrow> firewallConfig \<Rightarrow> unit result" where
  "validateFirewall api cidrError c =
     bindE (validatePolicy (fc_InboundPolicy c) ''inbound_policy'') (\<lambda>_.
     bindE (validatePolicy (fc_OutboundPolicy c) ''outbound_policy'') (\<lambda>_.
     bindE (forE (\<lambda>(i, r). wrapE (''extra_inbound['' @ formatInt i @ '']'') (validateExtraRule api cidrError r)) (numbered (fc_ExtraInbound c))) (\<lambda>_.
     forE (\<lambda>(i, r). wrapE (''extra_outbound['' @ formatInt i @ '']'') (validateExtraRule api cidrError r)) (numbered (fc_ExtraOutbound c)))))"

definition newManagedFirewall :: "firewallConfig \<Rightarrow> string \<Rightarrow> string \<Rightarrow> int \<Rightarrow> managedFirewall" where
  "newManagedFirewall cfg tag transportMode wgListenPort =
     (let cfg = (if fc_RefreshInterval cfg \<le> 0 then cfg\<lparr>fc_RefreshInterval := hour\<rparr> else cfg);
          cfg = (if fc_RefreshInterval cfg < minute then cfg\<lparr>fc_RefreshInterval := minute\<rparr> else cfg)
      in \<lparr>mf_cfg = cfg, mf_tag = tag, mf_transportMode = transportMode, mf_wgListenPort = wgListenPort, mf_id = 0, mf_lastApplied = []\<rparr>)"

subsection \<open>Sentinels\<close>

definition probeAddress :: "'w FirewallAPI \<Rightarrow> string \<Rightarrow> bool \<Rightarrow> ('w, string) action" where
  "probeAddress api url v4 =
     bindR (fa_httpGet api url) (\<lambda>(status, body).
       if status \<noteq> 200 then failR (ErrOther (''status '' @ formatInt status))
       else let raw = trimSpace body in
         case fa_ParseIP api raw of
           None \<Rightarrow> failR (ErrOther (''not an IP literal: '' @ goQuote raw))
         | Some (isV4, text) \<Rightarrow>
             if v4 \<and> \<not> isV4 then failR (ErrOther ''expected IPv4, got non-v4'')
             else if \<not> v4 \<and> isV4 then failR (ErrOther ''expected IPv6, got v4'')
             else returnR text)"

definition resolveExternalIP :: "'w FirewallAPI \<Rightarrow> ('w, string list) action" where
  "resolveExternalIP api w =
     (case probeAddress api ''https://ipv4.icanhazip.com'' True w of
        (v4, w) \<Rightarrow> (case probeAddress api ''https://ipv6.icanhazip.com'' False w of
          (v6, w) \<Rightarrow>
            let cidrs = (case v4 of Inr a \<Rightarrow> if a \<noteq> '''' then [a @ ''/32''] else [] | Inl _ \<Rightarrow> []) @
                        (case v6 of Inr a \<Rightarrow> if a \<noteq> '''' then [a @ ''/128''] else [] | Inl _ \<Rightarrow> [])
            in if cidrs = []
               then (Inl (ErrOther (''auto: both v4 and v6 probes failed: '' @
                      (case v4 of Inl e \<Rightarrow> errorText e | Inr _ \<Rightarrow> '''') @ [CHR 0x0A] @ (case v6 of Inl e \<Rightarrow> errorText e | Inr _ \<Rightarrow> ''''))), w)
               else (Inr cidrs, w)))"

fun resolveLoop :: "'w FirewallAPI \<Rightarrow> int \<Rightarrow> string list \<Rightarrow> string list \<Rightarrow> ('w, string list) action" where
  "resolveLoop api j [] out = returnR out"
| "resolveLoop api j (b # bs) out =
     (let a = trimSpace b in
      if a = '''' then resolveLoop api (j + 1) bs out
      else if a = sentinelAuto
      then bindR (wrapErr (''resolve '' @ goQuote sentinelAuto) (resolveExternalIP api)) (\<lambda>got. resolveLoop api (j + 1) bs (out @ got))
      else if a = sentinelAny then resolveLoop api (j + 1) bs (out @ [''0.0.0.0/0'', ''::/0''])
      else if a = sentinelAnyV4 then resolveLoop api (j + 1) bs (out @ [''0.0.0.0/0''])
      else if a = sentinelAnyV6 then resolveLoop api (j + 1) bs (out @ [''::/0''])
      else if fa_ParseCIDR api a = None
      then failR (ErrOther (''entry['' @ formatInt j @ ''] '' @ goQuote a @ '' is neither a CIDR nor a recognised sentinel (auto, any, any-v4, any-v6)''))
      else resolveLoop api (j + 1) bs (out @ [a]))"

definition resolveSentinels :: "'w FirewallAPI \<Rightarrow> string list \<Rightarrow> ('w, string list) action" where
  "resolveSentinels api addrs = resolveLoop api 0 addrs []"

definition resolveAllowInbound :: "'w FirewallAPI \<Rightarrow> managedFirewall \<Rightarrow> ('w, string list) action" where
  "resolveAllowInbound api m =
     bindR (wrapErr ''allow_inbound'' (resolveSentinels api (fc_AllowInbound (mf_cfg m)))) (\<lambda>raw. returnR (sort (remdups raw)))"

subsection \<open>The rule set\<close>

definition bucketCIDRs :: "'w FirewallAPI \<Rightarrow> string list \<Rightarrow> string list \<times> string list" where
  "bucketCIDRs api cidrs = (filter (\<lambda>c. fa_ParseCIDR api c = Some True) cidrs, filter (\<lambda>c. fa_ParseCIDR api c = Some False) cidrs)"

function chunkAddrs :: "string list \<Rightarrow> nat \<Rightarrow> string list list" where
  "chunkAddrs xs n = (if xs = [] \<or> n = 0 then [] else take n xs # chunkAddrs (drop n xs) n)"
  by pat_completeness auto
termination by (relation "measure (\<lambda>(xs, n). length xs)") auto

declare chunkAddrs.simps [simp del]

definition buildExtraRule :: "'w FirewallAPI \<Rightarrow> extraRule \<Rightarrow> ('w, FirewallRule) action" where
  "buildExtraRule api r =
     bindR (wrapErr (''extra rule '' @ goQuote (xr_Label r) @ '' addresses'') (resolveSentinels api (xr_Addresses r))) (\<lambda>resolved.
       if resolved = [] then failR (ErrOther (''extra rule '' @ goQuote (xr_Label r) @ '' resolved to zero addresses''))
       else case bucketCIDRs api resolved of (v4, v6) \<Rightarrow>
         if length v4 > maxAddrsPerRule
         then failR (ErrOther (''extra rule '' @ goQuote (xr_Label r) @ '' has '' @ formatNat (length v4) @
                '' v4 entries; Linode caps a rule at '' @ formatNat maxAddrsPerRule @ '' per family''))
         else if length v6 > maxAddrsPerRule
         then failR (ErrOther (''extra rule '' @ goQuote (xr_Label r) @ '' has '' @ formatNat (length v6) @
                '' v6 entries; Linode caps a rule at '' @ formatNat maxAddrsPerRule @ '' per family''))
         else returnR \<lparr>fr_Action = xr_Action r, fr_Label = xr_Label r, fr_Description = xr_Description r, fr_Protocol = xr_Protocol r,
                       fr_Ports = xr_Ports r, fr_IPv4 = v4, fr_IPv6 = v6\<rparr>)"

record synthInboundSpec =
  sp_proto :: string
  sp_ports :: string
  sp_labelTag :: string
  sp_descNote :: string

definition synthSpecsForTransport :: "string \<Rightarrow> int \<Rightarrow> synthInboundSpec list" where
  "synthSpecsForTransport mode wgListenPort =
     (if mode = transportCacheGateway
      then let port = (if wgListenPort = 0 then defaultWGListenPort else wgListenPort); portStr = formatInt port
           in [\<lparr>sp_proto = ''UDP'', sp_ports = portStr, sp_labelTag = ''wg'',
                sp_descNote = ''udp/'' @ portStr @ '' (WireGuard) from allow_inbound''\<rparr>]
      else [\<lparr>sp_proto = ''TCP'', sp_ports = ''22'', sp_labelTag = ''ssh'', sp_descNote = ''tcp/22 from allow_inbound''\<rparr>])"

definition synthLabel :: "synthInboundSpec \<Rightarrow> string \<Rightarrow> nat \<Rightarrow> string" where
  "synthLabel s family i = ''fj-bellows-'' @ sp_labelTag s @ ''-'' @ family @ ''-'' @ formatNat (i + 1)"

definition synthRules :: "synthInboundSpec \<Rightarrow> string list list \<Rightarrow> string list list \<Rightarrow> FirewallRule list" where
  "synthRules s v4Chunks v6Chunks =
     map (\<lambda>(i, c). \<lparr>fr_Action = fwActionAccept, fr_Label = synthLabel s ''v4'' i, fr_Description = ''fj-bellows: '' @ sp_descNote s @ '' (v4)'',
                    fr_Protocol = sp_proto s, fr_Ports = sp_ports s, fr_IPv4 = c, fr_IPv6 = []\<rparr>) (zip [0..<length v4Chunks] v4Chunks) @
     map (\<lambda>(i, c). \<lparr>fr_Action = fwActionAccept, fr_Label = synthLabel s ''v6'' i, fr_Description = ''fj-bellows: '' @ sp_descNote s @ '' (v6)'',
                    fr_Protocol = sp_proto s, fr_Ports = sp_ports s, fr_IPv4 = [], fr_IPv6 = c\<rparr>) (zip [0..<length v6Chunks] v6Chunks)"

definition buildSynthInboundRules :: "synthInboundSpec list \<Rightarrow> string list list \<Rightarrow> string list list \<Rightarrow> FirewallRule list" where
  "buildSynthInboundRules specs v4Chunks v6Chunks =
     (if length v4Chunks + length v6Chunks = 0
      then map (\<lambda>s. \<lparr>fr_Action = fwActionAccept, fr_Label = synthLabel s ''v4'' 0, fr_Description = '''', fr_Protocol = sp_proto s,
                     fr_Ports = sp_ports s, fr_IPv4 = [], fr_IPv6 = []\<rparr>) specs
      else concat (map (\<lambda>s. synthRules s v4Chunks v6Chunks) specs))"

definition buildRuleSet :: "'w FirewallAPI \<Rightarrow> managedFirewall \<Rightarrow> string list \<Rightarrow> ('w, FirewallRuleSet) action" where
  "buildRuleSet api m cidrs =
     (let cfg = mf_cfg m;
          (v4, v6) = bucketCIDRs api cidrs;
          v4Chunks = chunkAddrs v4 maxAddrsPerRule;
          v6Chunks = chunkAddrs v6 maxAddrsPerRule;
          specs = synthSpecsForTransport (mf_transportMode m) (mf_wgListenPort m);
          synthCount = length specs * (length v4Chunks + length v6Chunks);
          inboundPolicy = (if fc_InboundPolicy cfg = '''' then fwInboundDrop else fc_InboundPolicy cfg);
          outboundPolicy = (if fc_OutboundPolicy cfg = '''' then fwOutboundAccept else fc_OutboundPolicy cfg);
          totalInbound = (if synthCount = 0 then length specs else synthCount) + length (fc_ExtraInbound cfg)
      in if totalInbound > maxRulesPerFW
         then failR (ErrOther (''firewall: inbound rule count ('' @ formatNat (max synthCount (length specs)) @ '' synth + '' @
                formatNat (length (fc_ExtraInbound cfg)) @ '' extra = '' @ formatNat totalInbound @
                '') exceeds Linode'' @ [CHR 0x27] @ ''s per-firewall cap of '' @ formatNat maxRulesPerFW))
         else if length (fc_ExtraOutbound cfg) > maxRulesPerFW
         then failR (ErrOther (''firewall: extra_outbound rule count ('' @ formatNat (length (fc_ExtraOutbound cfg)) @
                '') exceeds Linode'' @ [CHR 0x27] @ ''s per-firewall cap of '' @ formatNat maxRulesPerFW))
         else bindR (mapR (buildExtraRule api) (fc_ExtraInbound cfg)) (\<lambda>extraIn.
              bindR (mapR (buildExtraRule api) (fc_ExtraOutbound cfg)) (\<lambda>outbound.
              returnR \<lparr>fs_Inbound = buildSynthInboundRules specs v4Chunks v6Chunks @ extraIn, fs_InboundPolicy = inboundPolicy,
                       fs_Outbound = outbound, fs_OutboundPolicy = outboundPolicy\<rparr>)))"

subsection \<open>Finding, creating and updating the firewall\<close>

definition findFirewall :: "'w FirewallAPI \<Rightarrow> managedFirewall \<Rightarrow> ('w, Firewall option) action" where
  "findFirewall api m = bindR (fa_List api) (\<lambda>fws. returnR (find (\<lambda>f. mf_tag m \<in> set (fw_Tags f)) fws))"

definition inboundAddrs :: "FirewallRuleSet \<Rightarrow> string list \<times> string list" where
  "inboundAddrs rs = (sort (concat (map fr_IPv4 (fs_Inbound rs))), sort (concat (map fr_IPv6 (fs_Inbound rs))))"

definition ruleSetAddrsEqual :: "FirewallRuleSet \<Rightarrow> FirewallRuleSet \<Rightarrow> bool" where
  "ruleSetAddrsEqual a b \<longleftrightarrow> inboundAddrs a = inboundAddrs b"

text \<open>\<open>sanitizeLabel\<close> on an ASCII tag, where a rune is a byte.\<close>

definition labelChar :: "char \<Rightarrow> bool" where
  "labelChar c \<longleftrightarrow> (let n = (of_char c :: nat) in
     97 \<le> n \<and> n \<le> 122 \<or> 65 \<le> n \<and> n \<le> 90 \<or> 48 \<le> n \<and> n \<le> 57 \<or> c = CHR ''-'' \<or> c = CHR ''_'' \<or> c = CHR ''.'')"

function padLabel :: "nat \<Rightarrow> string \<Rightarrow> string" where
  "padLabel minLen candidate = (if length candidate < minLen then padLabel minLen (candidate @ ''-x'') else candidate)"
  by pat_completeness auto
termination by (relation "measure (\<lambda>(n, s). n - length s)") auto

declare padLabel.simps [simp del]

definition sanitizeLabel :: "(string \<Rightarrow> string) \<Rightarrow> string \<Rightarrow> string \<Rightarrow> nat \<Rightarrow> nat \<Rightarrow> string" where
  "sanitizeLabel sha256 pre tag minLen maxLen =
     (let clean = map (\<lambda>c. if labelChar c then c else CHR ''-'') tag;
          candidate = pre @ clean
      in if length candidate \<le> maxLen then padLabel minLen candidate
         else let suffix = ''-'' @ take 8 (hexEncode (sha256 tag)) in take (maxLen - length suffix) candidate @ suffix)"

definition firewallLabel :: "'w FirewallAPI \<Rightarrow> string \<Rightarrow> string" where
  "firewallLabel api tag = sanitizeLabel (fa_sha256 api) ''fj-bellows-'' tag 3 32"

definition ensureFirewall :: "'w FirewallAPI \<Rightarrow> managedFirewall \<Rightarrow> FirewallRuleSet \<Rightarrow> ('w, int) action" where
  "ensureFirewall api m ruleset =
     bindR (wrapErr ''find firewall'' (findFirewall api m)) (\<lambda>existing. case existing of
       None \<Rightarrow> bindR (wrapErr ''create firewall'' (fa_Create api (firewallLabel api (mf_tag m)) [mf_tag m] ruleset)) (\<lambda>fw. returnR (fw_ID fw))
     | Some fw \<Rightarrow>
         if \<not> ruleSetAddrsEqual (fw_Rules fw) ruleset
         then bindR (wrapErr ''update firewall rules'' (fa_Update api (fw_ID fw) ruleset)) (\<lambda>_. returnR (fw_ID fw))
         else returnR (fw_ID fw))"

text \<open>The methods of a managed firewall, on its two fields that change and the world.\<close>

definition primeResolved :: "'w FirewallAPI \<Rightarrow> (managedFirewall \<times> 'w, unit) action" where
  "primeResolved api = (\<lambda>(m, w). case resolveAllowInbound api m w of
     (Inl e, w) \<Rightarrow> (Inl e, m, w)
   | (Inr cidrs, w) \<Rightarrow>
       if cidrs = [] then (Inl (ErrOther ''managed firewall: allow_inbound resolved to zero CIDRs''), m, w)
       else (Inr (), m\<lparr>mf_lastApplied := cidrs\<rparr>, w))"

definition ensureAtConfigure :: "'w FirewallAPI \<Rightarrow> (managedFirewall \<times> 'w, unit) action" where
  "ensureAtConfigure api = (\<lambda>(m, w).
     if mf_lastApplied m = []
     then (Inl (ErrOther ''managed firewall: no CIDRs cached; Configure should have populated them''), m, w)
     else case bindR (buildRuleSet api m (mf_lastApplied m)) (ensureFirewall api m) w of
       (Inl e, w) \<Rightarrow> (Inl e, m, w)
     | (Inr i, w) \<Rightarrow> (Inr (), m\<lparr>mf_id := i\<rparr>, w))"

definition ensure_firewall :: "'w FirewallAPI \<Rightarrow> (managedFirewall \<times> 'w, unit) action" where
  "ensure_firewall api = (\<lambda>(m, w). if mf_id m \<noteq> 0 then (Inr (), m, w) else ensureAtConfigure api (m, w))"

definition refreshOnce :: "'w FirewallAPI \<Rightarrow> managedFirewall \<times> 'w \<Rightarrow> managedFirewall \<times> 'w" where
  "refreshOnce api = (\<lambda>(m, w). case resolveAllowInbound api m w of
     (Inl _, w) \<Rightarrow> (m, w)
   | (Inr cidrs, w) \<Rightarrow>
       if cidrs = [] then (m, w)
       else if cidrs = mf_lastApplied m then (m, w)
       else case bindR (buildRuleSet api m cidrs) (ensureFirewall api m) w of
         (Inl _, w) \<Rightarrow> (m, w)
       | (Inr i, w) \<Rightarrow> (m\<lparr>mf_id := i, mf_lastApplied := cidrs\<rparr>, w))"

definition maybeCleanupFirewall :: "'w FirewallAPI \<Rightarrow> managedFirewall \<times> 'w \<Rightarrow> managedFirewall \<times> 'w" where
  "maybeCleanupFirewall api = (\<lambda>(m, w). case findFirewall api m w of
     (Inl _, w) \<Rightarrow> (m, w)
   | (Inr None, w) \<Rightarrow> (m, w)
   | (Inr (Some fw), w) \<Rightarrow> (case fa_Devices api (fw_ID fw) w of
       (Inl _, w) \<Rightarrow> (m, w)
     | (Inr devs, w) \<Rightarrow>
         if devs \<noteq> [] then (m, w)
         else case fa_Delete api (fw_ID fw) w of
           (Inl _, w) \<Rightarrow> (m, w)
         | (Inr _, w) \<Rightarrow> (m\<lparr>mf_id := 0\<rparr>, w)))"

subsection \<open>The rules that are rendered\<close>

lemma chunkAddrs_concat: "0 < n \<Longrightarrow> concat (chunkAddrs xs n) = xs"
  by (induction xs n rule: chunkAddrs.induct) (subst chunkAddrs.simps, auto)

lemma chunkAddrs_bound: "c \<in> set (chunkAddrs xs n) \<Longrightarrow> c \<noteq> [] \<and> length c \<le> n"
proof (induction xs n rule: chunkAddrs.induct)
  case (1 xs n)
  then show ?case by (subst (asm) chunkAddrs.simps) (auto split: if_splits)
qed

lemma chunkAddrs_Nil: "chunkAddrs [] n = []"
  by (simp add: chunkAddrs.simps)

lemma map_zip_index: "map (\<lambda>(i, c). f c) (zip [0..<length cs] cs) = map f cs"
  by (rule nth_equalityI) auto

lemma zip_index_set: "(i, c) \<in> set (zip [0..<length cs] cs) \<longleftrightarrow> i < length cs \<and> cs ! i = c"
  by (force simp: set_zip)

lemma synthRules_addrs:
  "concat (map fr_IPv4 (synthRules s cs4 cs6)) = concat cs4" "concat (map fr_IPv6 (synthRules s cs4 cs6)) = concat cs6"
  "length (synthRules s cs4 cs6) = length cs4 + length cs6"
proof -
  have empty: "concat (map (\<lambda>x. []) ys) = []" for ys :: "'x list" by (induction ys) auto
  have m: "map (\<lambda>x. case x of (i, c) \<Rightarrow> c) (zip [0..<length cs] cs) = cs" for cs :: "string list list"
    using map_zip_index [of "\<lambda>c. c" cs] by simp
  show "concat (map fr_IPv4 (synthRules s cs4 cs6)) = concat cs4" "concat (map fr_IPv6 (synthRules s cs4 cs6)) = concat cs6"
    using m by (simp_all add: synthRules_def o_def case_prod_unfold empty)
  show "length (synthRules s cs4 cs6) = length cs4 + length cs6" by (simp add: synthRules_def)
qed

lemma synthRules_rule:
  assumes "r \<in> set (synthRules s (chunkAddrs v4 n) (chunkAddrs v6 n))"
  shows "fr_Action r = fwActionAccept" "fr_Protocol r = sp_proto s" "fr_Ports r = sp_ports s" "length (fr_IPv4 r) + length (fr_IPv6 r) \<le> n"
  using assms chunkAddrs_bound
  by (auto simp: synthRules_def zip_index_set) (metis nth_mem)+

lemma synth_single:
  obtains s where "synthSpecsForTransport mode port = [s]"
  by (cases "mode = transportCacheGateway") (auto simp: synthSpecsForTransport_def Let_def)

lemma buildExtraRule_bound:
  assumes "buildExtraRule api x w = (Inr r, w')"
  shows "length (fr_IPv4 r) \<le> maxAddrsPerRule" "length (fr_IPv6 r) \<le> maxAddrsPerRule" "fr_Label r = xr_Label x" "fr_Ports r = xr_Ports x"
    "fr_Action r = xr_Action x" "fr_Protocol r = xr_Protocol x"
  using assms by (auto simp: buildExtraRule_def bucketCIDRs_def bindR_Inr returnR_def failR_def split: if_splits)

lemma mapR_all:
  assumes "mapR f xs w = (Inr ys, w')" "\<And>x y w w'. f x w = (Inr y, w') \<Longrightarrow> P x y"
  shows "list_all2 P xs ys"
  using assms(1)
proof (induction xs arbitrary: w ys)
  case (Cons x xs)
  then show ?case using assms(2) by (auto simp: bindR_Inr returnR_def)
qed (auto simp: returnR_def)

lemma buildRuleSet_Inr:
  assumes "buildRuleSet api m cidrs w = (Inr rs, w')" "bucketCIDRs api cidrs = (v4, v6)"
    and "synthSpecsForTransport (mf_transportMode m) (mf_wgListenPort m) = [s]"
  obtains extra where "fs_Inbound rs = buildSynthInboundRules [s] (chunkAddrs v4 maxAddrsPerRule) (chunkAddrs v6 maxAddrsPerRule) @ extra"
    "list_all2 (\<lambda>x r. length (fr_IPv4 r) \<le> maxAddrsPerRule \<and> length (fr_IPv6 r) \<le> maxAddrsPerRule \<and> fr_Ports r = xr_Ports x) (fc_ExtraInbound (mf_cfg m)) extra"
    "length (fs_Inbound rs) \<le> maxRulesPerFW" "length (fs_Outbound rs) \<le> maxRulesPerFW"
proof -
  let ?synth = "buildSynthInboundRules [s] (chunkAddrs v4 maxAddrsPerRule) (chunkAddrs v6 maxAddrsPerRule)"
  obtain extra w1 w2 where e: "mapR (buildExtraRule api) (fc_ExtraInbound (mf_cfg m)) w = (Inr extra, w1)"
    "mapR (buildExtraRule api) (fc_ExtraOutbound (mf_cfg m)) w1 = (Inr (fs_Outbound rs), w2)" "fs_Inbound rs = ?synth @ extra"
    and n: "(if chunkAddrs v4 maxAddrsPerRule = [] \<and> chunkAddrs v6 maxAddrsPerRule = [] then 1
             else length (chunkAddrs v4 maxAddrsPerRule) + length (chunkAddrs v6 maxAddrsPerRule)) + length (fc_ExtraInbound (mf_cfg m)) \<le> maxRulesPerFW"
      "length (fc_ExtraOutbound (mf_cfg m)) \<le> maxRulesPerFW"
    using assms by (auto simp: buildRuleSet_def Let_def bindR_Inr returnR_def failR_def split: if_splits)
  have "length ?synth = (if chunkAddrs v4 maxAddrsPerRule = [] \<and> chunkAddrs v6 maxAddrsPerRule = [] then 1
      else length (chunkAddrs v4 maxAddrsPerRule) + length (chunkAddrs v6 maxAddrsPerRule))"
    by (auto simp: buildSynthInboundRules_def synthRules_addrs)
  then have "length (fs_Inbound rs) \<le> maxRulesPerFW" using e(3) n(1) mapR_length [OF e(1)] by simp
  moreover have "length (fs_Outbound rs) \<le> maxRulesPerFW" using mapR_length [OF e(2)] n(2) by simp
  moreover have "list_all2 (\<lambda>x r. length (fr_IPv4 r) \<le> maxAddrsPerRule \<and> length (fr_IPv6 r) \<le> maxAddrsPerRule \<and> fr_Ports r = xr_Ports x) (fc_ExtraInbound (mf_cfg m)) extra"
    using e(1) by (rule mapR_all) (auto dest: buildExtraRule_bound)
  ultimately show ?thesis using that e(3) by blast
qed

lemma synthLabel_inj: "synthLabel s f i = synthLabel s f j \<longleftrightarrow> i = j" "synthLabel s ''v4'' i \<noteq> synthLabel s ''v6'' j"
  by (auto simp: synthLabel_def dest: formatNat_inj)

lemma synthRules_labels: "distinct (map fr_Label (synthRules s cs4 cs6))"
proof -
  have "map fr_Label (synthRules s cs4 cs6) = map (synthLabel s ''v4'') [0..<length cs4] @ map (synthLabel s ''v6'') [0..<length cs6]"
    by (simp add: synthRules_def o_def case_prod_unfold) (simp add: map_fst_zip [unfolded comp_def] flip: map_map [unfolded comp_def])
  then show ?thesis by (auto simp: distinct_map inj_on_def synthLabel_inj)
qed

text \<open>
  C39. The rendered firewall. When the rule set is built, the synthesized rules accept exactly the
  given networks, each once and in order, on the protocol and port of the transport mode; each of
  them stays within the 255 addresses a rule may have and carries a label of its own; the operator's
  rules follow, and neither direction has more rules than a firewall may have.
\<close>

theorem buildRuleSet_exact:
  assumes "buildRuleSet api m cidrs w = (Inr rs, w')"
    and "synthSpecsForTransport (mf_transportMode m) (mf_wgListenPort m) = [s]"
  shows "\<exists>synth extra. fs_Inbound rs = synth @ extra \<and> length extra = length (fc_ExtraInbound (mf_cfg m)) \<and>
     concat (map fr_IPv4 synth) = filter (\<lambda>c. fa_ParseCIDR api c = Some True) cidrs \<and>
     concat (map fr_IPv6 synth) = filter (\<lambda>c. fa_ParseCIDR api c = Some False) cidrs \<and>
     list_all (\<lambda>r. fr_Action r = fwActionAccept \<and> fr_Protocol r = sp_proto s \<and> fr_Ports r = sp_ports s \<and>
                   length (fr_IPv4 r) + length (fr_IPv6 r) \<le> 255) synth \<and>
     distinct (map fr_Label synth) \<and> length (fs_Inbound rs) \<le> 25 \<and> length (fs_Outbound rs) \<le> 25"
proof -
  obtain v4 v6 where b: "bucketCIDRs api cidrs = (v4, v6)" by fastforce
  let ?c4 = "chunkAddrs v4 maxAddrsPerRule" and ?c6 = "chunkAddrs v6 maxAddrsPerRule"
  let ?synth = "buildSynthInboundRules [s] ?c4 ?c6"
  from assms(1) b assms(2) obtain extra where e: "fs_Inbound rs = ?synth @ extra"
    "list_all2 (\<lambda>x r. length (fr_IPv4 r) \<le> maxAddrsPerRule \<and> length (fr_IPv6 r) \<le> maxAddrsPerRule \<and> fr_Ports r = xr_Ports x) (fc_ExtraInbound (mf_cfg m)) extra"
    "length (fs_Inbound rs) \<le> maxRulesPerFW" "length (fs_Outbound rs) \<le> maxRulesPerFW"
    by (rule buildRuleSet_Inr)
  have v: "v4 = filter (\<lambda>c. fa_ParseCIDR api c = Some True) cidrs" "v6 = filter (\<lambda>c. fa_ParseCIDR api c = Some False) cidrs"
    using b by (auto simp: bucketCIDRs_def)
  have c: "concat ?c4 = v4" "concat ?c6 = v6" by (simp_all add: chunkAddrs_concat maxAddrsPerRule_def)
  have "concat (map fr_IPv4 ?synth) = v4 \<and> concat (map fr_IPv6 ?synth) = v6 \<and> distinct (map fr_Label ?synth) \<and>
    list_all (\<lambda>r. fr_Action r = fwActionAccept \<and> fr_Protocol r = sp_proto s \<and> fr_Ports r = sp_ports s \<and>
                   length (fr_IPv4 r) + length (fr_IPv6 r) \<le> 255) ?synth"
  proof (cases "?c4 = [] \<and> ?c6 = []")
    case True
    then show ?thesis using c by (auto simp: buildSynthInboundRules_def)
  next
    case False
    then have "?synth = synthRules s ?c4 ?c6" by (auto simp: buildSynthInboundRules_def)
    then show ?thesis
      using c synthRules_rule [of _ s v4 maxAddrsPerRule v6] synthRules_labels [of s ?c4 ?c6]
      by (simp add: synthRules_addrs list_all_iff maxAddrsPerRule_def)
  qed
  then show ?thesis
    using e list_all2_lengthD [OF e(2)] v by (intro exI [of _ ?synth] exI [of _ extra]) (simp add: maxRulesPerFW_def)
qed

subsection \<open>Convergence\<close>

text \<open>
  What the API promises, seen through the list of firewalls of the account: listing and probing change nothing; a creation or an
  update that succeeds has taken effect, and one that fails, for instance because the answer was lost, may have.
\<close>

definition faithfulAPI :: "'w FirewallAPI \<Rightarrow> ('w \<Rightarrow> Firewall list) \<Rightarrow> bool" where
  "faithfulAPI api fws \<longleftrightarrow>
     (\<forall>w r w'. fa_List api w = (r, w') \<longrightarrow> fws w' = fws w \<and> (\<forall>l. r = Inr l \<longrightarrow> l = fws w)) \<and>
     (\<forall>url w r w'. fa_httpGet api url w = (r, w') \<longrightarrow> fws w' = fws w) \<and>
     (\<forall>label tags rules w r w'. fa_Create api label tags rules w = (r, w') \<longrightarrow>
        (is_err r \<and> fws w' = fws w) \<or>
        (\<exists>fw. fws w' = fws w @ [fw] \<and> fw_Tags fw = tags \<and> fw_Rules fw = rules \<and> (is_err r \<or> r = Inr fw))) \<and>
     (\<forall>i rules w r w'. fa_Update api i rules w = (r, w') \<longrightarrow>
        (is_err r \<and> fws w' = fws w) \<or> fws w' = map (\<lambda>f. if fw_ID f = i then f\<lparr>fw_Rules := rules\<rparr> else f) (fws w))"

lemma faithfulD:
  assumes "faithfulAPI api fws"
  shows "fa_List api w = (r, w') \<Longrightarrow> fws w' = fws w \<and> (\<forall>l. r = Inr l \<longrightarrow> l = fws w)"
    and "fa_httpGet api url w = (r1, w') \<Longrightarrow> fws w' = fws w"
    and "fa_Create api label tags rules w = (r2, w') \<Longrightarrow> (is_err r2 \<and> fws w' = fws w) \<or>
        (\<exists>fw. fws w' = fws w @ [fw] \<and> fw_Tags fw = tags \<and> fw_Rules fw = rules \<and> (is_err r2 \<or> r2 = Inr fw))"
    and "fa_Update api i rules w = (r3, w') \<Longrightarrow>
        (is_err r3 \<and> fws w' = fws w) \<or> fws w' = map (\<lambda>f. if fw_ID f = i then f\<lparr>fw_Rules := rules\<rparr> else f) (fws w)"
  using assms unfolding faithfulAPI_def by - (elim conjE, (erule allE)+, erule mp, assumption)+

definition ownFirewall :: "managedFirewall \<Rightarrow> Firewall list \<Rightarrow> Firewall option" where
  "ownFirewall m l = find (\<lambda>f. mf_tag m \<in> set (fw_Tags f)) l"

lemma find_map_rules:
  assumes "find P l = Some f" "\<And>g. P (u g) = P g"
  shows "find P (map u l) = Some (u f)"
  using assms by (induction l) (auto split: if_splits)

lemma find_append_new: "find P l = None \<Longrightarrow> P f \<Longrightarrow> find P (l @ [f]) = Some f"
  by (induction l) (auto split: if_splits)

text \<open>The account after the rules were set for the deployment's own firewall and nothing else.\<close>

definition installed :: "managedFirewall \<Rightarrow> FirewallRuleSet \<Rightarrow> Firewall list \<Rightarrow> Firewall list \<Rightarrow> bool" where
  "installed m rs l l' \<longleftrightarrow>
     (case ownFirewall m l of
        Some fw \<Rightarrow> l' = map (\<lambda>f. if fw_ID f = fw_ID fw then f\<lparr>fw_Rules := rs\<rparr> else f) l
      | None \<Rightarrow> \<exists>fw. l' = l @ [fw] \<and> fw_Tags fw = [mf_tag m] \<and> fw_Rules fw = rs)"

text \<open>A rule that accepts the network on the protocol and port of the transport.\<close>

definition accepts :: "managedFirewall \<Rightarrow> string \<Rightarrow> FirewallRuleSet \<Rightarrow> bool" where
  "accepts m c rs \<longleftrightarrow>
     (\<exists>s \<in> set (synthSpecsForTransport (mf_transportMode m) (mf_wgListenPort m)). \<exists>r \<in> set (fs_Inbound rs).
        fr_Action r = fwActionAccept \<and> fr_Protocol r = sp_proto s \<and> fr_Ports r = sp_ports s \<and> c \<in> set (fr_IPv4 r) \<union> set (fr_IPv6 r))"

lemma ensureFirewall_effect:
  assumes "faithfulAPI api fws" "ensureFirewall api m rs w = (r, w')"
  shows "fws w' = fws w \<or> installed m rs (fws w) (fws w')"
    and "r = Inr i \<Longrightarrow> \<exists>fw. ownFirewall m (fws w') = Some fw \<and> fw_ID fw = i \<and> inboundAddrs (fw_Rules fw) = inboundAddrs rs"
proof -
  obtain rl w1 where list: "fa_List api w = (rl, w1)" by fastforce
  note l = faithfulD(1) [OF assms(1) list]
  have "(fws w' = fws w \<or> installed m rs (fws w) (fws w')) \<and>
        (\<forall>i. r = Inr i \<longrightarrow> (\<exists>fw. ownFirewall m (fws w') = Some fw \<and> fw_ID fw = i \<and> inboundAddrs (fw_Rules fw) = inboundAddrs rs))"
  proof (cases "is_err rl")
    case True
    then have "w' = w1" "is_err r"
      using assms(2) list by (auto simp: is_err_iff ensureFirewall_def findFirewall_def bindR_def wrapErr_def)
    then show ?thesis using l by (auto simp: is_err_iff)
  next
    case False
    then have rl: "rl = Inr (fws w)" using l by (cases rl) auto
    show ?thesis
    proof (cases "ownFirewall m (fws w)")
      case None
      obtain rc w2 where c: "fa_Create api (firewallLabel api (mf_tag m)) [mf_tag m] rs w1 = (rc, w2)" by fastforce
      then have r: "w' = w2" "\<And>i. r = Inr i \<Longrightarrow> \<exists>fw. rc = Inr fw \<and> fw_ID fw = i"
        using assms(2) list rl None
        by (auto simp: ensureFirewall_def findFirewall_def ownFirewall_def bindR_def wrapErr_def returnR_def split: sum.splits)
      from faithfulD(3) [OF assms(1) c] l have C: "(is_err rc \<and> fws w2 = fws w) \<or>
          (\<exists>fw. fws w2 = fws w @ [fw] \<and> fw_Tags fw = [mf_tag m] \<and> fw_Rules fw = rs \<and> (is_err rc \<or> rc = Inr fw))" by simp
      show ?thesis
        using C r None by (fastforce simp: installed_def ownFirewall_def is_err_iff find_append_new)
    next
      case (Some fw)
      show ?thesis
      proof (cases "ruleSetAddrsEqual (fw_Rules fw) rs")
        case True
        then have "w' = w1" "r = Inr (fw_ID fw)"
          using assms(2) list rl Some by (auto simp: ensureFirewall_def findFirewall_def ownFirewall_def bindR_def wrapErr_def returnR_def)
        then show ?thesis using Some True l by (auto simp: ruleSetAddrsEqual_def)
      next
        case False
        obtain ru w2 where u: "fa_Update api (fw_ID fw) rs w1 = (ru, w2)" by fastforce
        then have r: "w' = w2" "\<And>i. r = Inr i \<Longrightarrow> \<not> is_err ru \<and> i = fw_ID fw"
          using assms(2) list rl Some False
          by (auto simp: ensureFirewall_def findFirewall_def ownFirewall_def bindR_def wrapErr_def returnR_def split: sum.splits)
        from faithfulD(4) [OF assms(1) u] l have U: "(is_err ru \<and> fws w2 = fws w) \<or>
            fws w2 = map (\<lambda>f. if fw_ID f = fw_ID fw then f\<lparr>fw_Rules := rs\<rparr> else f) (fws w)" by simp
        have "ownFirewall m (map (\<lambda>f. if fw_ID f = fw_ID fw then f\<lparr>fw_Rules := rs\<rparr> else f) (fws w)) = Some (fw\<lparr>fw_Rules := rs\<rparr>)"
          using find_map_rules [OF Some [unfolded ownFirewall_def], of "\<lambda>f. if fw_ID f = fw_ID fw then f\<lparr>fw_Rules := rs\<rparr> else f"]
          by (simp add: ownFirewall_def)
        then show ?thesis using U r Some by (auto simp: installed_def)
      qed
    qed
  qed
  then show "fws w' = fws w \<or> installed m rs (fws w) (fws w')"
    and "r = Inr i \<Longrightarrow> \<exists>fw. ownFirewall m (fws w') = Some fw \<and> fw_ID fw = i \<and> inboundAddrs (fw_Rules fw) = inboundAddrs rs" by simp_all
qed

lemma buildRuleSet_accepts:
  assumes "buildRuleSet api m cidrs w = (Inr rs, w')" "c \<in> set cidrs" "fa_ParseCIDR api c \<noteq> None"
  shows "accepts m c rs"
proof -
  obtain s where s: "synthSpecsForTransport (mf_transportMode m) (mf_wgListenPort m) = [s]" by (rule synth_single)
  obtain v4 v6 where b: "bucketCIDRs api cidrs = (v4, v6)" by fastforce
  let ?c4 = "chunkAddrs v4 maxAddrsPerRule" and ?c6 = "chunkAddrs v6 maxAddrsPerRule"
  let ?synth = "buildSynthInboundRules [s] ?c4 ?c6"
  from assms(1) b s obtain extra where e: "fs_Inbound rs = ?synth @ extra" by (rule buildRuleSet_Inr)
  have c: "c \<in> set v4 \<union> set v6" using b assms(2,3) by (auto simp: bucketCIDRs_def)
  then have synth: "?synth = synthRules s ?c4 ?c6"
    using chunkAddrs_concat [of maxAddrsPerRule v4] chunkAddrs_concat [of maxAddrsPerRule v6]
    by (auto simp: buildSynthInboundRules_def maxAddrsPerRule_def)
  then have "concat (map fr_IPv4 ?synth) = v4" "concat (map fr_IPv6 ?synth) = v6"
    by (simp_all add: synthRules_addrs chunkAddrs_concat maxAddrsPerRule_def)
  then have "c \<in> set (concat (map fr_IPv4 ?synth)) \<union> set (concat (map fr_IPv6 ?synth))" using c by simp
  then obtain r where "r \<in> set ?synth" "c \<in> set (fr_IPv4 r) \<union> set (fr_IPv6 r)" by auto
  then show ?thesis using s e synth synthRules_rule [of r s v4 maxAddrsPerRule v6] by (auto simp: accepts_def)
qed

text \<open>Resolving and rendering only probe addresses.\<close>

interpretation fwview: step_relation "\<lambda>w w'. fws w' = fws w" for fws :: "'w \<Rightarrow> Firewall list"
  by unfold_locales simp_all

lemma snd_wrapErr [simp]: "snd (wrapErr what act w) = snd (act w)"
  by (auto simp: wrapErr_def split: prod.splits sum.splits)

lemma probeAddress_keeps: "faithfulAPI api fws \<Longrightarrow> fws (snd (probeAddress api url v4 w)) = fws w"
  unfolding probeAddress_def
  by (rule fwview.keeps_bind)
    (auto simp: returnR_def failR_def Let_def split: option.splits dest: faithfulD(2) [of api fws url w "fst (fa_httpGet api url w)" "snd (fa_httpGet api url w)"])

lemma resolveExternalIP_keeps:
  assumes "faithfulAPI api fws"
  shows "fws (snd (resolveExternalIP api w)) = fws w"
proof -
  obtain v4 w1 where 1: "probeAddress api ''https://ipv4.icanhazip.com'' True w = (v4, w1)" by fastforce
  obtain v6 w2 where 2: "probeAddress api ''https://ipv6.icanhazip.com'' False w1 = (v6, w2)" by fastforce
  have "fws w1 = fws w" "fws w2 = fws w1" using probeAddress_keeps [OF assms] 1 2 by (metis snd_conv)+
  then show ?thesis by (simp add: resolveExternalIP_def 1 2 Let_def)
qed

lemma resolveLoop_keeps:
  assumes "faithfulAPI api fws"
  shows "fws (snd (resolveLoop api j addrs out w)) = fws w"
proof (induction addrs arbitrary: j out w)
  case (Cons b bs)
  have "fws (snd (bindR (wrapErr what (resolveExternalIP api)) (\<lambda>got. resolveLoop api (j + 1) bs (out @ got)) w)) = fws w" for what
    by (rule fwview.keeps_bind) (simp_all add: resolveExternalIP_keeps [OF assms] Cons.IH)
  then show ?case using Cons.IH by (simp add: Let_def failR_def)
qed (simp add: returnR_def)

lemma resolveAllowInbound_keeps: "faithfulAPI api fws \<Longrightarrow> fws (snd (resolveAllowInbound api m w)) = fws w"
  unfolding resolveAllowInbound_def resolveSentinels_def
  by (rule fwview.keeps_bind) (simp_all add: resolveLoop_keeps returnR_def)

lemma buildExtraRule_keeps: "faithfulAPI api fws \<Longrightarrow> fws (snd (buildExtraRule api r w)) = fws w"
  unfolding buildExtraRule_def resolveSentinels_def
  by (rule fwview.keeps_bind) (auto simp: resolveLoop_keeps returnR_def failR_def split: prod.splits)

lemma buildRuleSet_keeps:
  assumes "faithfulAPI api fws"
  shows "fws (snd (buildRuleSet api m cidrs w)) = fws w"
proof -
  have extra: "fws (snd (mapR (buildExtraRule api) xs w)) = fws w" for xs w
    by (rule fwview.keeps_mapR) (rule buildExtraRule_keeps [OF assms])
  show ?thesis unfolding buildRuleSet_def Let_def
    by (auto intro!: fwview.keeps_bind [of fws] extra fwview.keeps_return [of fws] split: prod.split)
qed

text \<open>
  C40. A refresh leaves every firewall of the account as it was, or it sets the rules of the deployment's own firewall (creating
  it when there is none) and of no other; the rules it sets were built from the networks just resolved, at least one, and
  accept each of them on the protocol and port of the transport. That holds whatever fails on the way and whether
  or not a failed call has taken effect. The networks the daemon remembers never become none, and they change only
  when the own firewall then has the addresses of such rules. Whether a firewall that already had these addresses has the
  right ports is not checked by the code and not claimed.
\<close>

theorem refreshOnce_keeps_access:
  assumes "faithfulAPI api fws" "refreshOnce api (m, w) = (m', w')"
  shows "(fws w' = fws w \<or>
          (\<exists>cidrs w1 rs. resolveAllowInbound api m w = (Inr cidrs, w1) \<and> cidrs \<noteq> [] \<and> installed m rs (fws w) (fws w') \<and>
             (\<forall>c. c \<in> set cidrs \<and> fa_ParseCIDR api c \<noteq> None \<longrightarrow> accepts m c rs))) \<and>
         (mf_lastApplied m \<noteq> [] \<longrightarrow> mf_lastApplied m' \<noteq> []) \<and>
         (m' \<noteq> m \<longrightarrow>
          (\<exists>fw rs. ownFirewall m (fws w') = Some fw \<and> fw_ID fw = mf_id m' \<and> inboundAddrs (fw_Rules fw) = inboundAddrs rs \<and>
             (\<forall>c. c \<in> set (mf_lastApplied m') \<and> fa_ParseCIDR api c \<noteq> None \<longrightarrow> accepts m c rs)))"
proof -
  obtain r w1 where res: "resolveAllowInbound api m w = (r, w1)" by fastforce
  have w1: "fws w1 = fws w" using resolveAllowInbound_keeps [OF assms(1), of m w] res by simp
  show ?thesis
  proof (cases "is_err r \<or> r = Inr [] \<or> r = Inr (mf_lastApplied m)")
    case True
    then have "m' = m" "w' = w1" using assms(2) res by (auto simp: refreshOnce_def is_err_iff split: if_splits)
    then show ?thesis using w1 by simp
  next
    case False
    then obtain cidrs where c: "r = Inr cidrs" "cidrs \<noteq> []" "cidrs \<noteq> mf_lastApplied m" by (cases r) auto
    obtain rb w2 where b: "buildRuleSet api m cidrs w1 = (rb, w2)" by fastforce
    have w2: "fws w2 = fws w" using buildRuleSet_keeps [OF assms(1), of m cidrs w1] b w1 by simp
    show ?thesis
    proof (cases rb)
      case (Inl e)
      then have "m' = m" "w' = w2" using assms(2) res c b by (auto simp: refreshOnce_def bindR_def)
      then show ?thesis using w2 by simp
    next
      case (Inr rs)
      then have acc: "\<forall>c. c \<in> set cidrs \<and> fa_ParseCIDR api c \<noteq> None \<longrightarrow> accepts m c rs" using buildRuleSet_accepts b by fastforce
      obtain re where e: "ensureFirewall api m rs w2 = (re, w')"
        and m': "m' = (case re of Inl _ \<Rightarrow> m | Inr i \<Rightarrow> m\<lparr>mf_id := i, mf_lastApplied := cidrs\<rparr>)"
        using assms(2) res c b Inr by (auto simp: refreshOnce_def bindR_def split: prod.splits sum.splits)
      have "fws w' = fws w \<or> installed m rs (fws w) (fws w')" using ensureFirewall_effect(1) [OF assms(1) e] w2 by simp
      moreover have "\<exists>fw. ownFirewall m (fws w') = Some fw \<and> fw_ID fw = mf_id m' \<and> inboundAddrs (fw_Rules fw) = inboundAddrs rs" if "m' \<noteq> m"
        using that m' ensureFirewall_effect(2) [OF assms(1) e] by (cases re) auto
      moreover have "mf_lastApplied m' \<noteq> []" "m' \<noteq> m \<longrightarrow> mf_lastApplied m' = cidrs" if "mf_lastApplied m \<noteq> [] \<or> m' \<noteq> m"
        using that m' c(2) by (cases re; simp)+
      ultimately show ?thesis using res c(1,2) acc by metis
    qed
  qed
qed

text \<open>
  The comparison that decides whether to update looks at the addresses only. A deployment that
  switches to the gateway transport with the same allowed networks keeps the rules for port 22; the
  tunnel's port stays closed.
\<close>

theorem transport_switch_not_applied:
  assumes "buildRuleSet api m cidrs w = (Inr rs, w1)" "mf_transportMode m \<noteq> transportCacheGateway"
    and "fc_ExtraInbound (mf_cfg m) = []"
    and "m2 = m\<lparr>mf_transportMode := transportCacheGateway\<rparr>" "buildRuleSet api m2 cidrs v = (Inr rs2, v1)"
    and "fa_List api v1 = (Inr l, v2)" "ownFirewall m2 l = Some fw" "fw_Rules fw = rs"
  shows "ensureFirewall api m2 rs2 v1 = (Inr (fw_ID fw), v2) \<and> list_all (\<lambda>r. fr_Ports r = ''22'') (fs_Inbound (fw_Rules fw))"
proof -
  obtain v4 v6 where b: "bucketCIDRs api cidrs = (v4, v6)" by fastforce
  obtain s2 where s2: "synthSpecsForTransport (mf_transportMode m2) (mf_wgListenPort m2) = [s2]" by (rule synth_single)
  obtain s where s: "synthSpecsForTransport (mf_transportMode m) (mf_wgListenPort m) = [s]" "sp_ports s = ''22''"
    using assms(2) by (simp add: synthSpecsForTransport_def)
  let ?c4 = "chunkAddrs v4 maxAddrsPerRule" and ?c6 = "chunkAddrs v6 maxAddrsPerRule"
  from assms(1) b s(1) have i1: "fs_Inbound rs = buildSynthInboundRules [s] ?c4 ?c6" by (rule buildRuleSet_Inr) (simp add: assms(3))
  from assms(5) b s2 have i2: "fs_Inbound rs2 = buildSynthInboundRules [s2] ?c4 ?c6"
    by (rule buildRuleSet_Inr) (simp add: assms(3,4))
  have "map fr_IPv4 (synthRules s ?c4 ?c6) = map fr_IPv4 (synthRules s2 ?c4 ?c6)" "map fr_IPv6 (synthRules s ?c4 ?c6) = map fr_IPv6 (synthRules s2 ?c4 ?c6)"
    by (auto simp: synthRules_def)
  then have "ruleSetAddrsEqual rs rs2"
    by (simp add: ruleSetAddrsEqual_def inboundAddrs_def i1 i2 buildSynthInboundRules_def)
  moreover have "list_all (\<lambda>r. fr_Ports r = ''22'') (fs_Inbound rs)"
    unfolding i1 using s(2) synthRules_rule(3) [of _ s v4 maxAddrsPerRule v6] by (auto simp: buildSynthInboundRules_def list_all_iff)
  ultimately show ?thesis
    using assms(6-8) by (simp add: ensureFirewall_def findFirewall_def ownFirewall_def bindR_def wrapErr_def returnR_def)
qed

text \<open>Drift of the sentinels of an extra rule alone is not noticed: no rule is built or sent.\<close>

theorem extra_rule_drift_unnoticed:
  assumes "resolveAllowInbound api m w = (Inr (mf_lastApplied m), w')"
  shows "refreshOnce api (m, w) = (m, w')"
  using assms by (simp add: refreshOnce_def)

text \<open>An extra rule may carry the cap of each family at once.\<close>

theorem extra_rule_mixes_families:
  assumes "resolveSentinels api (xr_Addresses x) w = (Inr resolved, w')" "bucketCIDRs api resolved = (v4, v6)"
    and "length v4 = maxAddrsPerRule" "length v6 = maxAddrsPerRule"
  shows "\<exists>r. buildExtraRule api x w = (Inr r, w') \<and> length (fr_IPv4 r) + length (fr_IPv6 r) = 510"
proof -
  have "resolved \<noteq> []" using assms(2,3) by (auto simp: bucketCIDRs_def maxAddrsPerRule_def)
  then show ?thesis
    using assms by (auto simp: buildExtraRule_def bindR_def wrapErr_def returnR_def maxAddrsPerRule_def)
qed

subsection \<open>Labels\<close>

lemma padLabel_length:
  "length s \<le> length (padLabel n s)" "n \<le> length (padLabel n s)" "length (padLabel n s) \<le> max (length s) (n + 1)"
  "list_all labelChar s \<Longrightarrow> list_all labelChar (padLabel n s)"
proof (induction n s rule: padLabel.induct)
  case (1 n s)
  have x: "labelChar (CHR ''-'')" "labelChar (CHR ''x'')" by (simp_all add: labelChar_def)
  { case 1 then show ?case using "1.IH" by (subst padLabel.simps) auto
  next case 2 then show ?case using "1.IH" by (subst padLabel.simps) auto
  next case 3 then show ?case using "1.IH" by (subst padLabel.simps) auto
  next case 4 then show ?case using "1.IH" x by (subst padLabel.simps) auto }
qed

lemma hexEncode_labelChar: "list_all labelChar (hexEncode s)"
proof -
  have "labelChar (hexDigit d)" if "d < 16" for d
    using that by (auto simp: labelChar_def hexDigit_def Let_def)
  moreover have "(of_char c :: nat) div 16 < 16" for c using nat_of_char_less_256 [of c] by (simp add: less_mult_imp_div_less)
  ultimately show ?thesis by (auto simp: hexEncode_def list_all_iff Let_def)
qed

lemma sanitizeLabel_valid:
  assumes "list_all labelChar pre" "\<And>s. length (sha256 s) = 32" "9 \<le> maxLen" "minLen < maxLen"
    and label_def: "label = sanitizeLabel sha256 pre tag minLen maxLen"
  shows "minLen \<le> length label \<and> length label \<le> maxLen \<and> list_all labelChar label"
proof -
  let ?c = "pre @ map (\<lambda>c. if labelChar c then c else CHR ''-'') tag" and ?suffix = "''-'' @ take 8 (hexEncode (sha256 tag))"
  have dash: "labelChar (CHR ''-'')" by (simp add: labelChar_def)
  then have ok: "list_all labelChar ?c" "list_all labelChar ?suffix"
    using assms(1) hexEncode_labelChar [of "sha256 tag"] by (auto simp: list_all_iff dest: in_set_takeD)
  show ?thesis
  proof (cases "length ?c \<le> maxLen")
    case True
    then have "label = padLabel minLen ?c" by (simp add: label_def sanitizeLabel_def Let_def)
    then show ?thesis using True ok(1) padLabel_length [where n = minLen and s = ?c] assms(4) by auto
  next
    case False
    then have "label = take (maxLen - length ?suffix) ?c @ ?suffix" by (simp add: label_def sanitizeLabel_def Let_def)
    moreover have "length ?suffix = 9" using assms(2) by (simp add: length_hexEncode)
    ultimately have l: "length label = min (length ?c) (maxLen - 9) + 9" "label = take (maxLen - 9) ?c @ ?suffix" by simp_all
    then have len: "length label = maxLen" using False assms(3) by linarith
    have "list_all labelChar (take (maxLen - 9) ?c)"
      using ok(1) append_take_drop_id [of "maxLen - 9" ?c] list_all_append [of labelChar "take (maxLen - 9) ?c" "drop (maxLen - 9) ?c"] by simp
    then have "list_all labelChar label" unfolding l(2) using ok(2) by (simp only: list_all_append)
    then show ?thesis using assms(4) len by simp
  qed
qed

subsection \<open>An account\<close>

definition sampleAPI :: "Firewall list FirewallAPI" where
  "sampleAPI =
     \<lparr>fa_List = (\<lambda>w. (Inr w, w)),
      fa_Create = (\<lambda>label tags rules w. let fw = \<lparr>fw_ID = int (length w) + 1, fw_Tags = tags, fw_Rules = rules\<rparr> in (Inr fw, w @ [fw])),
      fa_Update = (\<lambda>i rules w. (Inr (), map (\<lambda>f. if fw_ID f = i then f\<lparr>fw_Rules := rules\<rparr> else f) w)),
      fa_Delete = (\<lambda>i w. (Inr (), filter (\<lambda>f. fw_ID f \<noteq> i) w)), fa_Devices = (\<lambda>_ w. (Inr [], w)),
      fa_httpGet = (\<lambda>_ w. (failE ''offline'', w)), fa_ParseIP = (\<lambda>_. None),
      fa_ParseCIDR = (\<lambda>s. if CHR '':'' \<in> set s then Some False else if CHR ''/'' \<in> set s then Some True else None), fa_sha256 = (\<lambda>s. s)\<rparr>"

definition sampleFirewall :: managedFirewall where
  "sampleFirewall = (newManagedFirewall \<lparr>fc_AllowInbound = [''any''], fc_RefreshInterval = 0, fc_InboundPolicy = [], fc_OutboundPolicy = [],
     fc_ExtraInbound = [], fc_ExtraOutbound = []\<rparr> ''fjb'' [] 0)\<lparr>mf_lastApplied := [''10.0.0.0/8'']\<rparr>"

definition sampleRules :: FirewallRuleSet where
  "sampleRules =
     \<lparr>fs_Inbound = [\<lparr>fr_Action = ''ACCEPT'', fr_Label = ''fj-bellows-ssh-v4-1'', fr_Description = ''fj-bellows: tcp/22 from allow_inbound (v4)'',
                     fr_Protocol = ''TCP'', fr_Ports = ''22'', fr_IPv4 = [''10.0.0.0/8''], fr_IPv6 = []\<rparr>],
      fs_InboundPolicy = ''DROP'', fs_Outbound = [], fs_OutboundPolicy = ''ACCEPT''\<rparr>"

lemma sample_buildRuleSet: "buildRuleSet sampleAPI sampleFirewall [''10.0.0.0/8''] [] = (Inr sampleRules, [])"
  unfolding sampleAPI_def sampleFirewall_def sampleRules_def by code_simp

theorem buildRuleSet_exact_witness:
  "length (fs_Inbound sampleRules) \<le> 25 \<and> length (fs_Outbound sampleRules) \<le> 25"
proof -
  have "synthSpecsForTransport (mf_transportMode sampleFirewall) (mf_wgListenPort sampleFirewall) =
      [\<lparr>sp_proto = ''TCP'', sp_ports = ''22'', sp_labelTag = ''ssh'', sp_descNote = ''tcp/22 from allow_inbound''\<rparr>]"
    unfolding sampleFirewall_def by code_simp
  from buildRuleSet_exact [OF sample_buildRuleSet this] show ?thesis by blast
qed

lemma sample_faithful: "faithfulAPI sampleAPI (\<lambda>w. w)"
  by (simp add: faithfulAPI_def sampleAPI_def Let_def)

text \<open>A refresh whose networks have changed, with no firewall in the account: it is created with rules for all of them.\<close>

theorem refreshOnce_keeps_access_witness:
  "\<exists>m' fw. refreshOnce sampleAPI (sampleFirewall, []) = (m', [fw]) \<and> mf_lastApplied m' = [''0.0.0.0/0'', ''::/0''] \<and>
     fw_ID fw = mf_id m' \<and> mf_lastApplied m' \<noteq> [] \<and> (\<exists>rs. installed sampleFirewall rs [] [fw] \<and> accepts sampleFirewall ''::/0'' rs)"
proof -
  obtain m' w' where r: "refreshOnce sampleAPI (sampleFirewall, []) = (m', w')" by fastforce
  have f: "length (snd (refreshOnce sampleAPI (sampleFirewall, []))) = 1"
    "mf_lastApplied (fst (refreshOnce sampleAPI (sampleFirewall, []))) = [''0.0.0.0/0'', ''::/0'']"
    "fst (resolveAllowInbound sampleAPI sampleFirewall []) = Inr [''0.0.0.0/0'', ''::/0'']"
    "fa_ParseCIDR sampleAPI ''::/0'' \<noteq> None"
    unfolding sampleAPI_def sampleFirewall_def by code_simp+
  then obtain fw where w': "w' = [fw]" using r by (auto simp: length_Suc_conv)
  have m': "mf_lastApplied m' = [''0.0.0.0/0'', ''::/0'']" "m' \<noteq> sampleFirewall" using r f(2) by (auto simp: sampleFirewall_def)
  note R = refreshOnce_keeps_access [OF sample_faithful r]
  have "fw_ID fw = mf_id m'" using R m'(2) w' by (auto simp: ownFirewall_def split: if_splits)
  moreover obtain cidrs w1 rs where "resolveAllowInbound sampleAPI sampleFirewall [] = (Inr cidrs, w1)"
    "installed sampleFirewall rs [] [fw]" "\<forall>c. c \<in> set cidrs \<and> fa_ParseCIDR sampleAPI c \<noteq> None \<longrightarrow> accepts sampleFirewall c rs"
    using R w' by auto
  ultimately show ?thesis using r w' m' f(3,4) by auto
qed

end
