(* ===== verification/Cost_Reports.thy ===== *)
theory Cost_Reports
  imports Billing Ledger_Accounting
begin

text \<open>
  How the reports of src/internal/storage/statistics.go price and cut intervals: the projected bill of a
  resource that still runs, the storage charge of an image, the clipping of an interval to the
  report's window, the share of an amount that falls into a part of its interval, and the cutting
  of rows at UTC midnights. \<open>big.Int\<close> values are unbounded integers.

  The locale \<open>interval_cuts\<close> is the contract of a loop that walks an interval from boundary to boundary;
  it refines \<open>segmentation\<close> of \<^theory_text>\<open>Billing\<close> (a sublocale) and is interpreted on the UTC days. The properties:
  a projection is exactly the bill the ledger seals when the resource closes, and the shares of the pieces
  of a row add up to the share of the whole.
\<close>

subsection \<open>Rows of a report\<close>

datatype StatisticsGroupBy =
    GroupUnset | GroupNone | GroupWorkflow | GroupTier | GroupProvider | GroupDay | GroupOther string

record StatisticsFilter =
  st_From :: instant
  st_To :: instant
  st_Tier :: string
  st_Provider :: string
  st_Repository :: string
  st_Workflow :: string
  st_Route :: string
  st_GroupBy :: StatisticsGroupBy

record costRow =
  cr_entry :: CostEntry
  cr_tier :: string
  cr_provider :: string
  cr_repository :: string
  cr_workflow :: string
  cr_workflowFile :: string
  cr_jobName :: string

record phaseRow =
  pr_kind :: PhaseKind
  pr_tier :: string
  pr_provider :: string
  pr_startedAt :: instant
  pr_endedAt :: instant

record billingSegment =
  bs_start :: instant
  bs_end :: instant
  bs_nanos :: int

subsection \<open>Amounts\<close>

definition roundUpDuration :: "duration \<Rightarrow> duration \<Rightarrow> duration" where
  "roundUpDuration elapsed quantum =
     (if elapsed \<le> 0 \<or> quantum \<le> 0 \<or> elapsed smod quantum = 0 then max elapsed 0
      else wrap64 (wrap64 (elapsed + quantum) - elapsed smod quantum))"

definition rateNanos :: "int \<Rightarrow> duration \<Rightarrow> duration \<Rightarrow> int" where
  "rateNanos rate elapsed period =
     (if rate \<le> 0 \<or> elapsed \<le> 0 \<or> period \<le> 0 then 0
      else let v = (rate * elapsed) sdiv period in if in_int64 v then v else max_int64)"

definition saturatingAdd_report :: "int \<Rightarrow> int \<Rightarrow> int" where
  "saturatingAdd_report left right =
     (if right > 0 \<and> left > wrap64 (max_int64 - right) then max_int64 else wrap64 (left + right))"

definition saturatingProduct :: "int \<Rightarrow> int \<Rightarrow> int" where
  "saturatingProduct v count =
     (if v \<le> 0 \<or> count \<le> 0 then 0
      else if v > max_int64 sdiv count then max_int64
      else wrap64 (v * count))"

definition minTime_report :: "instant \<Rightarrow> instant \<Rightarrow> instant" where
  "minTime_report a b = (if a < b then a else b)"

function projectedMonthly_loop :: "int \<Rightarrow> int \<Rightarrow> instant \<Rightarrow> instant \<Rightarrow> int \<Rightarrow> int \<Rightarrow> int \<times> int" where
  "projectedMonthly_loop rate monthlyCap cursor stop acc months =
     (if cursor < stop then
        let boundary = next_month_start cursor;
            segmentEnd = minTime_report stop boundary;
            segment = min (rateNanos rate (time_sub segmentEnd cursor) hour) monthlyCap
        in projectedMonthly_loop rate monthlyCap segmentEnd stop
             (saturatingAdd_report acc segment) (wrap64 (months + 1))
      else (acc, months))"
  by pat_completeness auto
termination
  by (relation "measure (\<lambda>(rate, monthlyCap, cursor, stop, acc, months). nat (stop - cursor))")
    (auto simp: next_month_start_gt minTime_report_def)

declare projectedMonthly_loop.simps [simp del]

definition projectedMonthlyCappedNanos :: "int \<Rightarrow> int \<Rightarrow> instant \<Rightarrow> instant \<Rightarrow> int \<times> int" where
  "projectedMonthlyCappedNanos rate monthlyCap start stop =
     (if rate \<le> 0 \<or> \<not> start < stop then (0, 0)
      else if monthlyCap \<le> 0 then (rateNanos rate (time_sub stop start) hour, 0)
      else projectedMonthly_loop rate monthlyCap start stop 0 0)"

definition projectedBillingSegments :: "PriceQuote \<Rightarrow> instant \<Rightarrow> instant \<Rightarrow> billingSegment list" where
  "projectedBillingSegments quote start stop =
     (if \<not> start < stop then []
      else
        let billed = roundUpDuration (time_sub stop start) (q_BillingQuantum quote);
            billed = max billed (q_MinimumDuration quote);
            (nanos, months) = projectedMonthlyCappedNanos (q_PerHourNanos quote) (q_PerMonthNanos quote)
                                start (time_add start billed);
            nanos = (if nanos < q_MinimumChargeNanos quote then q_MinimumChargeNanos quote else nanos);
            nanos = (if q_PerMonthNanos quote > 0
                     then let months = (if months = 0 then 1 else months);
                              maximum = saturatingProduct (q_PerMonthNanos quote) months
                          in if nanos > maximum then maximum else nanos
                     else nanos)
        in [\<lparr>bs_start = start, bs_end = stop, bs_nanos = nanos\<rparr>])"

definition snapshotStorageNanos :: "int \<Rightarrow> int \<Rightarrow> duration \<Rightarrow> int" where
  "snapshotStorageNanos gbMonthRate sizeBytes elapsed =
     (if gbMonthRate < 0 \<or> sizeBytes \<le> 0 \<or> elapsed \<le> 0 then 0
      else let v = ((gbMonthRate * sizeBytes * elapsed) sdiv 1000000000) sdiv (30 * 24 * hour)
           in if in_int64 v then v else max_int64)"

definition apportionedNanos :: "int \<Rightarrow> instant \<Rightarrow> instant \<Rightarrow> instant \<Rightarrow> instant \<Rightarrow> int" where
  "apportionedNanos amount fullStart fullEnd segmentStart segmentEnd =
     (if amount \<le> 0 \<or> \<not> fullStart < fullEnd \<or> \<not> segmentStart < segmentEnd then 0
      else
        let fullDuration = time_sub fullEnd fullStart;
            portionAt = (\<lambda>offset. (amount * offset) sdiv fullDuration);
            v = portionAt (time_sub segmentEnd fullStart) - portionAt (time_sub segmentStart fullStart)
        in if in_int64 v then v else max_int64)"

subsection \<open>Clipping and cutting\<close>

definition clipReportInterval :: "instant \<Rightarrow> instant \<Rightarrow> StatisticsFilter \<Rightarrow> (instant \<times> instant) option" where
  "clipReportInterval start stop filt =
     (if stop < start then None
      else if stop = start then
        (if \<not> is_zero (st_From filt) \<and> start < st_From filt then None
         else if \<not> is_zero (st_To filt) \<and> \<not> start < st_To filt then None
         else Some (start, stop))
      else
        let start = (if \<not> is_zero (st_From filt) \<and> start < st_From filt then st_From filt else start);
            stop = (if \<not> is_zero (st_To filt) \<and> st_To filt < stop then st_To filt else stop)
        in if start < stop then Some (start, stop) else None)"

definition clipCostRow :: "costRow \<Rightarrow> StatisticsFilter \<Rightarrow> costRow option" where
  "clipCostRow row filt =
     (let e = cr_entry row in
      case clipReportInterval (c_StartedAt e) (c_EndedAt e) filt of
        None \<Rightarrow> None
      | Some (start, stop) \<Rightarrow>
          let clipped = e\<lparr>c_StartedAt := start, c_EndedAt := stop\<rparr>;
              clipped = (if c_Known clipped \<and> c_StartedAt e < c_EndedAt e
                         then clipped\<lparr>c_Nanos := apportionedNanos (c_Nanos e) (c_StartedAt e) (c_EndedAt e) start stop\<rparr>
                         else clipped)
          in Some (row\<lparr>cr_entry := clipped\<rparr>))"

text \<open>\<open>time.Date(t.Year(), t.Month(), t.Day()+1, 0, 0, 0, 0, time.UTC)\<close>: the next UTC midnight.\<close>

definition next_day_start :: "instant \<Rightarrow> instant" where
  "next_day_start t = (t div ns_per_day + 1) * ns_per_day"

lemma next_day_start_gt: "t < next_day_start t"
  using div_bounds(2) [OF ns_per_day_pos, of t] by (simp add: next_day_start_def algebra_simps)

function splitCost_loop :: "costRow \<Rightarrow> instant \<Rightarrow> instant \<Rightarrow> costRow list" where
  "splitCost_loop row cursor stop =
     (if cursor < stop then
        let e = cr_entry row;
            nextDay = next_day_start cursor;
            segmentEnd = minTime_report stop nextDay;
            segment = e\<lparr>c_StartedAt := cursor, c_EndedAt := segmentEnd\<rparr>;
            segment = (if c_Known segment
                       then segment\<lparr>c_Nanos := apportionedNanos (c_Nanos e) (c_StartedAt e) (c_EndedAt e) cursor segmentEnd\<rparr>
                       else segment)
        in row\<lparr>cr_entry := segment\<rparr> # splitCost_loop row segmentEnd stop
      else [])"
  by pat_completeness auto
termination
  by (relation "measure (\<lambda>(row, cursor, stop). nat (stop - cursor))")
    (auto simp: next_day_start_gt minTime_report_def)

declare splitCost_loop.simps [simp del]

definition splitCostRow :: "StatisticsFilter \<Rightarrow> costRow \<Rightarrow> costRow list" where
  "splitCostRow filt row =
     (case clipReportInterval (c_StartedAt (cr_entry row)) (c_EndedAt (cr_entry row)) filt of
        None \<Rightarrow> []
      | Some (start, stop) \<Rightarrow>
          if stop = start then [row\<lparr>cr_entry := (cr_entry row)\<lparr>c_StartedAt := start, c_EndedAt := stop\<rparr>\<rparr>]
          else splitCost_loop row start stop)"

definition splitCostRowsByUTCDay :: "costRow list \<Rightarrow> StatisticsFilter \<Rightarrow> costRow list" where
  "splitCostRowsByUTCDay rows filt = concat (map (splitCostRow filt) rows)"

function splitPhase_loop :: "phaseRow \<Rightarrow> instant \<Rightarrow> instant \<Rightarrow> phaseRow list" where
  "splitPhase_loop ph cursor stop =
     (if cursor < stop then
        let nextDay = next_day_start cursor;
            segmentEnd = minTime_report stop nextDay
        in ph\<lparr>pr_startedAt := cursor, pr_endedAt := segmentEnd\<rparr> # splitPhase_loop ph segmentEnd stop
      else [])"
  by pat_completeness auto
termination
  by (relation "measure (\<lambda>(ph, cursor, stop). nat (stop - cursor))")
    (auto simp: next_day_start_gt minTime_report_def)

declare splitPhase_loop.simps [simp del]

definition splitPhaseRow :: "StatisticsFilter \<Rightarrow> phaseRow \<Rightarrow> phaseRow list" where
  "splitPhaseRow filt ph =
     (case clipReportInterval (pr_startedAt ph) (pr_endedAt ph) filt of
        None \<Rightarrow> []
      | Some (start, stop) \<Rightarrow>
          if stop = start then [ph\<lparr>pr_startedAt := start, pr_endedAt := stop\<rparr>]
          else splitPhase_loop ph start stop)"

definition splitPhaseRowsByUTCDay :: "phaseRow list \<Rightarrow> StatisticsFilter \<Rightarrow> phaseRow list" where
  "splitPhaseRowsByUTCDay phases filt = concat (map (splitPhaseRow filt) phases)"

subsection \<open>The projection is the bill\<close>

lemma report_helpers_eq:
  "rateNanos = proportionalNanos" "saturatingAdd_report = saturatingAdd"
  "saturatingProduct = saturatedNanosProduct" "minTime_report = minTime"
  by (simp_all add: fun_eq_iff rateNanos_def proportionalNanos_def saturatingAdd_report_def saturatingAdd_def
      saturatingProduct_def saturatedNanosProduct_def minTime_report_def minTime_def)

lemma projectedMonthly_loop_eq: "projectedMonthly_loop = billedCost_loop"
proof (intro ext)
  fix rate monthlyCap cursor stop acc months
  show "projectedMonthly_loop rate monthlyCap cursor stop acc months =
        billedCost_loop rate monthlyCap cursor stop acc months"
  proof (induction rate monthlyCap cursor stop acc months rule: projectedMonthly_loop.induct)
    case (1 rate monthlyCap cursor stop acc months)
    then show ?case
      by (simp add: projectedMonthly_loop.simps [of rate] billedCost_loop.simps [of rate] report_helpers_eq
          proportional_eq Let_def)
  qed
qed

lemma wrap64_diff: "wrap64 (wrap64 x - y) = wrap64 (x - y)"
  unfolding wrap64_def by (simp add: mod_diff_left_eq algebra_simps)

lemma roundUpDuration_eq:
  assumes "0 < elapsed"
  shows "max (roundUpDuration elapsed quantum) minimum = roundedBillingDuration elapsed quantum minimum"
  using assms
  by (auto simp: roundUpDuration_def roundedBillingDuration_def Let_def wrap64_diff max_def add_diff_eq)

lemma capped_projection:
  assumes "0 < rate" "0 < monthlyCap" "monthlyCap \<le> max_int64" "start < stop" "stop - start \<le> max_int64"
  defines "p \<equiv> projectedMonthlyCappedNanos rate monthlyCap start stop"
    and "m \<equiv> monthlyCappedNanos rate monthlyCap start stop"
  shows "fst p = fst m" "0 < snd p" "0 < snd m"
    "saturatingProduct monthlyCap (snd p) = saturatedNanosProduct monthlyCap (snd m)"
proof -
  let ?n = "int (length (month_segs start stop))"
  have n: "0 < ?n" "?n \<le> max_int64"
    using utc_months.segs_nonempty [OF assms(4)] utc_months.segs_length_le [of start stop] assms(4,5) by auto
  have p: "p = (min (cappedMonths rate monthlyCap start stop) max_int64, ?n)"
    using billedCost_loop_exact [of monthlyCap stop start 0 0 rate] assms n
    by (simp add: projectedMonthlyCappedNanos_def projectedMonthly_loop_eq)
  note m = monthlyCappedNanos_capped [OF assms(1-5), folded m_def]
  show "fst p = fst m" "0 < snd p" "0 < snd m" using p m n by simp_all
  show "saturatingProduct monthlyCap (snd p) = saturatedNanosProduct monthlyCap (snd m)"
    using p m n assms(2) by (simp add: report_helpers_eq saturatedNanosProduct_exact)
qed

lemma projected_amounts:
  fixes start :: instant
  assumes "quote_ok quote" "in_int64 b"
  defines "p \<equiv> projectedMonthlyCappedNanos (q_PerHourNanos quote) (q_PerMonthNanos quote) start (start + b)"
    and "m \<equiv> monthlyCappedNanos (q_PerHourNanos quote) (q_PerMonthNanos quote) start (start + b)"
  shows "fst p = fst m"
    "0 < q_PerMonthNanos quote \<Longrightarrow>
      saturatingProduct (q_PerMonthNanos quote) (if snd p = 0 then 1 else snd p) =
      saturatedNanosProduct (q_PerMonthNanos quote) (if snd m = 0 then 1 else snd m)"
proof -
  let ?r = "q_PerHourNanos quote" and ?c = "q_PerMonthNanos quote"
  have c: "?c \<le> max_int64" "b \<le> max_int64" using assms(1,2) by (simp_all add: quote_ok_def in_int64_def)
  consider "?r \<le> 0 \<or> b \<le> 0" | "0 < ?r" "0 < b" "?c \<le> 0" | "0 < ?r" "0 < b" "0 < ?c" by linarith
  then have "fst p = fst m \<and> (0 < ?c \<longrightarrow>
      saturatingProduct ?c (if snd p = 0 then 1 else snd p) = saturatedNanosProduct ?c (if snd m = 0 then 1 else snd m))"
  proof cases
    case 3
    then show ?thesis
      using capped_projection [of ?r ?c start "start + b"] c unfolding p_def m_def by auto
  qed (auto simp: p_def m_def projectedMonthlyCappedNanos_def monthlyCappedNanos_def report_helpers_eq)
  then show "fst p = fst m"
    "0 < ?c \<Longrightarrow> saturatingProduct ?c (if snd p = 0 then 1 else snd p) =
      saturatedNanosProduct ?c (if snd m = 0 then 1 else snd m)"
    by blast+
qed

lemma if_less_max: "(if a < b then b else a) = max a (b::int)"
  by (simp add: max_def)

text \<open>
  C12. The projected cost of a running resource is the bill the ledger seals when it closes: for every
  quote of the ledger and every interval that is not empty, the only segment of \<open>projectedBillingSegments\<close> is the
  interval itself with the amount of \<open>resourceBilledNanos\<close>, so that a report does not jump when the
  projection becomes history. It holds without a bound on the interval, also where the amounts saturate,
  although the two month loops treat an overflow differently.
\<close>

theorem projected_is_sealed:
  assumes "quote_ok quote" "start < stop"
  shows "projectedBillingSegments quote start stop =
         [\<lparr>bs_start = start, bs_end = stop, bs_nanos = resourceBilledNanos quote start stop\<rparr>]"
proof -
  define b where "b = roundedBillingDuration (time_sub stop start) (q_BillingQuantum quote) (q_MinimumDuration quote)"
  have b: "max (roundUpDuration (time_sub stop start) (q_BillingQuantum quote)) (q_MinimumDuration quote) = b"
    using assms(2) by (simp add: b_def roundUpDuration_eq time_sub_pos_iff)
  have "in_int64 b"
    using assms(1) unfolding b_def by (intro roundedBillingDuration_in_int64 time_sub_in_int64) (simp add: quote_ok_def)
  note P = projected_amounts [OF assms(1) this, of start]
  show ?thesis
    using assms(2) P
    by (cases "0 < q_PerMonthNanos quote")
      (simp_all add: projectedBillingSegments_def resourceBilledNanos_billedFor billedFor_def b b_def [symmetric]
        time_add_def Let_def case_prod_unfold if_less_max if_less_min not_le cong: if_cong split del: if_split)
qed

theorem projected_is_sealed_witness:
  "projectedBillingSegments sample_quote 0 (60 * 24 * hour) =
     [\<lparr>bs_start = 0, bs_end = 60 * 24 * hour, bs_nanos = resourceBilledNanos sample_quote 0 (60 * 24 * hour)\<rparr>]
   \<and> resourceBilledNanos sample_quote 0 (60 * 24 * hour) = 24000000000 + 24000000000 + 36000000 * 24"
proof
  show "projectedBillingSegments sample_quote 0 (60 * 24 * hour) =
     [\<lparr>bs_start = 0, bs_end = 60 * 24 * hour, bs_nanos = resourceBilledNanos sample_quote 0 (60 * 24 * hour)\<rparr>]"
    by (rule projected_is_sealed; code_simp)
  show "resourceBilledNanos sample_quote 0 (60 * 24 * hour) = 24000000000 + 24000000000 + 36000000 * 24" by code_simp
qed

subsection \<open>Walking an interval from boundary to boundary\<close>

locale interval_cuts =
  fixes nxt :: "int \<Rightarrow> int"
    and cuts :: "int \<Rightarrow> int \<Rightarrow> (int \<times> int) list"
  assumes nxt_gt: "t < nxt t"
    and cuts_stop: "\<not> s < e \<Longrightarrow> cuts s e = []"
    and cuts_step: "s < e \<Longrightarrow> cuts s e = (s, min e (nxt s)) # cuts (min e (nxt s)) e"

sublocale interval_cuts \<subseteq> lengths: segmentation nxt "\<lambda>s e. map (\<lambda>(a, b). b - a) (cuts s e)"
  by unfold_locales (simp_all add: nxt_gt cuts_stop cuts_step)

context interval_cuts
begin

lemma cuts_telescope:
  fixes g :: "int \<Rightarrow> int"
  shows "s \<le> e \<Longrightarrow> (\<Sum>(a, b)\<leftarrow>cuts s e. g b - g a) = g e - g s"
proof (induction s e rule: lengths.segs_induct)
  case (step s e)
  then show ?case by (simp add: cuts_step)
qed (simp add: cuts_stop)

lemma cuts_within:
  "(a, b) \<in> set (cuts s e) \<Longrightarrow> s \<le> a \<and> a < b \<and> b \<le> e \<and> b \<le> nxt a"
proof (induction s e rule: lengths.segs_induct)
  case (step s e)
  consider "a = s" "b = min e (nxt s)" | "(a, b) \<in> set (cuts (min e (nxt s)) e)"
    using step.prems step.hyps by (auto simp: cuts_step)
  then show ?case
    using step.IH step.hyps nxt_gt [of s] by cases auto
qed (simp add: cuts_stop)

lemma cuts_partition:
  "length (filter (\<lambda>(a, b). a \<le> t \<and> t < b) (cuts s e)) = (if s \<le> t \<and> t < e then 1 else 0)"
proof (induction s e rule: lengths.segs_induct)
  case (step s e)
  obtain m where m: "m = min e (nxt s)" by blast
  have "s < m" "m \<le> e" using step.hyps nxt_gt [of s] by (simp_all add: m)
  with step.IH show ?case unfolding cuts_step [OF step.hyps] m [symmetric] by (auto split: if_splits)
qed (simp add: cuts_stop)

end

subsection \<open>UTC days\<close>

function day_cuts :: "instant \<Rightarrow> instant \<Rightarrow> (instant \<times> instant) list" where
  "day_cuts s e = (if s < e then (s, min e (next_day_start s)) # day_cuts (min e (next_day_start s)) e else [])"
  by pat_completeness auto
termination
  by (relation "measure (\<lambda>(s, e). nat (e - s))") (auto simp: next_day_start_gt)

declare day_cuts.simps [simp del]

interpretation utc_days: interval_cuts next_day_start day_cuts
  by unfold_locales (simp_all add: next_day_start_gt day_cuts.simps)

lemma same_utc_day:
  assumes "a < b" "b \<le> next_day_start a"
  shows "(b - 1) div ns_per_day = a div ns_per_day"
proof (rule antisym)
  have "ns_per_day * ((b - 1) div ns_per_day) < ns_per_day * (a div ns_per_day + 1)"
    using assms(2) div_bounds(1) [OF ns_per_day_pos, of "b - 1"] by (simp add: next_day_start_def mult.commute)
  then show "(b - 1) div ns_per_day \<le> a div ns_per_day"
    using ns_per_day_pos by (simp add: mult_less_cancel_left_pos)
  show "a div ns_per_day \<le> (b - 1) div ns_per_day"
    using assms(1) ns_per_day_pos by (intro zdiv_mono1) auto
qed

definition costPiece :: "costRow \<Rightarrow> instant \<times> instant \<Rightarrow> costRow" where
  "costPiece row = (\<lambda>(a, b). row\<lparr>cr_entry :=
     (cr_entry row)\<lparr>c_StartedAt := a, c_EndedAt := b,
       c_Nanos := (if c_Known (cr_entry row)
                   then apportionedNanos (c_Nanos (cr_entry row)) (c_StartedAt (cr_entry row)) (c_EndedAt (cr_entry row)) a b
                   else c_Nanos (cr_entry row))\<rparr>\<rparr>)"

lemma splitCost_loop_cuts: "splitCost_loop row s e = map (costPiece row) (day_cuts s e)"
proof (induction s e rule: utc_days.lengths.segs_induct)
  case (stop s e)
  then show ?case by (simp add: splitCost_loop.simps utc_days.cuts_stop)
next
  case (step s e)
  then show ?case
    by (simp add: splitCost_loop.simps [of row s] utc_days.cuts_step costPiece_def report_helpers_eq minTime_min Let_def)
qed

lemma splitPhase_loop_cuts:
  "splitPhase_loop ph s e = map (\<lambda>(a, b). ph\<lparr>pr_startedAt := a, pr_endedAt := b\<rparr>) (day_cuts s e)"
proof (induction s e rule: utc_days.lengths.segs_induct)
  case (stop s e)
  then show ?case by (simp add: splitPhase_loop.simps utc_days.cuts_stop)
next
  case (step s e)
  then show ?case
    by (simp add: splitPhase_loop.simps [of ph s] utc_days.cuts_step report_helpers_eq minTime_min Let_def)
qed

subsection \<open>Shares of an amount\<close>

definition portion :: "int \<Rightarrow> instant \<Rightarrow> instant \<Rightarrow> instant \<Rightarrow> int" where
  "portion amount fullStart fullEnd t = amount * (t - fullStart) div (fullEnd - fullStart)"

lemma portion_ends:
  assumes "s < e"
  shows "portion amount s e s = 0" "portion amount s e e = amount"
  using assms by (simp_all add: portion_def)

lemma portion_mono:
  assumes "0 \<le> amount" "s < e" "a \<le> b"
  shows "portion amount s e a \<le> portion amount s e b"
  unfolding portion_def using assms by (intro zdiv_mono1 mult_left_mono) auto

lemma apportionedNanos_exact:
  assumes "0 \<le> amount" "amount \<le> max_int64" "fs \<le> s" "s < e" "e \<le> fe" "fe - fs \<le> max_int64"
  shows "apportionedNanos amount fs fe s e = portion amount fs fe e - portion amount fs fe s"
proof -
  have sub: "time_sub fe fs = fe - fs" "time_sub e fs = e - fs" "time_sub s fs = s - fs"
    using assms by (auto intro!: time_sub_id simp: in_int64_nonneg)
  have div: "(amount * (t - fs)) sdiv (fe - fs) = portion amount fs fe t" if "fs \<le> t" for t
    using assms that by (simp add: portion_def sdiv_pos)
  have "0 \<le> portion amount fs fe s" "portion amount fs fe s \<le> portion amount fs fe e" "portion amount fs fe e \<le> amount"
    using portion_mono [of amount fs fe] portion_ends [of fs fe amount] assms by fastforce+
  then have "in_int64 (portion amount fs fe e - portion amount fs fe s)"
    using assms(2) by (simp add: in_int64_nonneg)
  moreover have "apportionedNanos amount fs fe s e =
      (if amount \<le> 0 then 0
       else if in_int64 (portion amount fs fe e - portion amount fs fe s)
            then portion amount fs fe e - portion amount fs fe s else max_int64)"
    using assms by (simp add: apportionedNanos_def Let_def sub div)
  ultimately show ?thesis
    using assms(1) by (auto simp: portion_def)
qed

definition cost_row_ok :: "costRow \<Rightarrow> bool" where
  "cost_row_ok row \<longleftrightarrow>
     (let e = cr_entry row in 0 \<le> c_Nanos e \<and> c_Nanos e \<le> max_int64 \<and>
        c_EndedAt e - c_StartedAt e \<le> max_int64)"

lemma clipReportInterval_Some:
  assumes "clipReportInterval s e filt = Some (s', e')"
  shows "s \<le> s'" "e' \<le> e" "s' \<le> e'" "s = e \<longleftrightarrow> s' = e'"
  using assms by (auto simp: clipReportInterval_def Let_def split: if_splits)

lemma sum_list_telescope:
  assumes "\<And>a b. (a, b) \<in> set xs \<Longrightarrow> f a b = g b - (g a :: int)"
  shows "(\<Sum>(a, b)\<leftarrow>xs. f a b) = (\<Sum>(a, b)\<leftarrow>xs. g b - g a)"
  using assms by (intro arg_cong [where f = sum_list] map_cong) auto

lemma pieces_sum:
  assumes "cost_row_ok row" "c_Known (cr_entry row)"
    and "c_StartedAt (cr_entry row) \<le> s" "s < e" "e \<le> c_EndedAt (cr_entry row)"
  shows "(\<Sum>p\<leftarrow>map (costPiece row) (day_cuts s e). c_Nanos (cr_entry p)) =
         apportionedNanos (c_Nanos (cr_entry row)) (c_StartedAt (cr_entry row)) (c_EndedAt (cr_entry row)) s e"
proof -
  let ?e = "cr_entry row"
  let ?ap = "apportionedNanos (c_Nanos ?e) (c_StartedAt ?e) (c_EndedAt ?e)"
  let ?g = "portion (c_Nanos ?e) (c_StartedAt ?e) (c_EndedAt ?e)"
  have ap: "?ap a b = ?g b - ?g a" if "(a, b) \<in> set (day_cuts s e)" for a b
    using utc_days.cuts_within [OF that] assms
    by (intro apportionedNanos_exact) (auto simp: cost_row_ok_def Let_def)
  have "(\<Sum>p\<leftarrow>map (costPiece row) (day_cuts s e). c_Nanos (cr_entry p)) = (\<Sum>(a, b)\<leftarrow>day_cuts s e. ?ap a b)"
    using assms(2) by (simp add: costPiece_def o_def case_prod_unfold)
  also have "\<dots> = ?g e - ?g s"
    using sum_list_telescope [of "day_cuts s e" ?ap ?g, OF ap] utc_days.cuts_telescope [of s e ?g] assms(4) by simp
  also have "\<dots> = ?ap s e"
    using assms by (intro apportionedNanos_exact [symmetric]) (auto simp: cost_row_ok_def Let_def)
  finally show ?thesis .
qed

subsection \<open>Rows cut at midnight\<close>

text \<open>The part of a known row's amount that a window shows.\<close>

definition clippedNanos :: "StatisticsFilter \<Rightarrow> costRow \<Rightarrow> int" where
  "clippedNanos filt row = (case clipCostRow row filt of None \<Rightarrow> 0 | Some c \<Rightarrow> c_Nanos (cr_entry c))"

definition within_day :: "costRow \<Rightarrow> bool" where
  "within_day p \<longleftrightarrow> (let e = cr_entry p in
     c_StartedAt e = c_EndedAt e \<or> c_StartedAt e < c_EndedAt e \<and> (c_EndedAt e - 1) div ns_per_day = c_StartedAt e div ns_per_day)"

definition covers :: "instant \<Rightarrow> costRow \<Rightarrow> bool" where
  "covers t p \<longleftrightarrow> c_StartedAt (cr_entry p) \<le> t \<and> t < c_EndedAt (cr_entry p)"

lemma costPiece_sel [simp]:
  "c_StartedAt (cr_entry (costPiece row ab)) = fst ab" "c_EndedAt (cr_entry (costPiece row ab)) = snd ab"
  by (simp_all add: costPiece_def case_prod_unfold)

lemma costPiece_cover: "covers t (costPiece row ab) \<longleftrightarrow> (case ab of (a, b) \<Rightarrow> a \<le> t \<and> t < b)"
  by (simp add: covers_def case_prod_unfold)

lemma splitCostRow_cases:
  obtains (none) "clipCostRow row filt = None" "splitCostRow filt row = []"
  | (point) s where "clipCostRow row filt = Some (row\<lparr>cr_entry := (cr_entry row)\<lparr>c_StartedAt := s, c_EndedAt := s\<rparr>\<rparr>)"
      "splitCostRow filt row = [row\<lparr>cr_entry := (cr_entry row)\<lparr>c_StartedAt := s, c_EndedAt := s\<rparr>\<rparr>]"
      "c_StartedAt (cr_entry row) = s" "c_EndedAt (cr_entry row) = s"
  | (cut) s e where "clipCostRow row filt = Some (costPiece row (s, e))"
      "splitCostRow filt row = map (costPiece row) (day_cuts s e)"
      "c_StartedAt (cr_entry row) \<le> s" "s < e" "e \<le> c_EndedAt (cr_entry row)"
proof (cases "clipReportInterval (c_StartedAt (cr_entry row)) (c_EndedAt (cr_entry row)) filt")
  case None
  then show thesis by (intro none) (simp_all add: clipCostRow_def splitCostRow_def)
next
  case (Some se)
  obtain s e where se: "se = (s, e)" by (cases se)
  note I = clipReportInterval_Some [OF Some [unfolded se]]
  show thesis
  proof (cases "s = e")
    case True
    then have "c_StartedAt (cr_entry row) = s" "c_EndedAt (cr_entry row) = s" using I by linarith+
    then show thesis using True Some se by (intro point [of s]) (simp_all add: clipCostRow_def splitCostRow_def)
  next
    case False
    then have "s < e" "c_StartedAt (cr_entry row) < c_EndedAt (cr_entry row)" using I by linarith+
    then show thesis using False Some se I
      by (intro cut [of s e]) (simp_all add: clipCostRow_def splitCostRow_def splitCost_loop_cuts costPiece_def Let_def)
  qed
qed

text \<open>
  Cutting a row at UTC midnights loses and invents nothing: the pieces \<open>splitCostRow\<close> makes of a row for a
  window lie within one UTC day each, cover every instant of the clipped interval exactly once and no other
  instant, and the amounts of the pieces of a known row add up, to the last nano-unit, to the amount of the
  row clipped to the window, though each is rounded by itself. A row outside the window has no pieces.
\<close>

theorem splitCostRow_exact:
  assumes "cost_row_ok row"
  shows "(case clipCostRow row filt of
            None \<Rightarrow> splitCostRow filt row = []
          | Some c \<Rightarrow>
              (c_Known (cr_entry row) \<longrightarrow> (\<Sum>p\<leftarrow>splitCostRow filt row. c_Nanos (cr_entry p)) = c_Nanos (cr_entry c)) \<and>
              list_all within_day (splitCostRow filt row) \<and>
              (\<forall>t. length (filter (covers t) (splitCostRow filt row)) = (if covers t c then 1 else 0)))"
proof (cases rule: splitCostRow_cases [where row = row and filt = filt])
  case none
  then show ?thesis by simp
next
  case (point s)
  then show ?thesis by (simp add: within_day_def covers_def)
next
  case (cut s e)
  have "within_day (costPiece row (a, b))" if "(a, b) \<in> set (day_cuts s e)" for a b
    using utc_days.cuts_within [OF that] same_utc_day [of a b] by (simp add: within_day_def)
  then have "list_all within_day (splitCostRow filt row)"
    unfolding cut list_all_iff set_map by fast
  moreover have "length (filter (covers t) (splitCostRow filt row)) = (if s \<le> t \<and> t < e then 1 else 0)" for t
    using utc_days.cuts_partition [of t s e] unfolding cut filter_map o_def costPiece_cover by simp
  moreover have "(\<Sum>p\<leftarrow>splitCostRow filt row. c_Nanos (cr_entry p)) = c_Nanos (cr_entry (costPiece row (s, e)))"
    if "c_Known (cr_entry row)"
    using pieces_sum [OF assms that cut(3-5)] that cut(2) by (simp add: costPiece_def)
  ultimately show ?thesis using cut(1) by (simp add: covers_def [of _ "costPiece row (s, e)"])
qed

definition sample_entry :: CostEntry where
  "sample_entry = \<lparr>c_ID = 1, c_ResourceID = 1, c_SnapshotID = 0, c_JobID = 0, c_PriceQuoteID = 1,
     c_Kind = CostBilledCompute, c_Currency = ''USD'', c_Nanos = 100, c_Known = True, c_Estimated = True,
     c_StartedAt = 20 * hour, c_EndedAt = 50 * hour, c_RecordedAt = 50 * hour\<rparr>"

definition sample_row :: costRow where
  "sample_row = \<lparr>cr_entry = sample_entry, cr_tier = ''small'', cr_provider = ''linode'', cr_repository = '''',
     cr_workflow = '''', cr_workflowFile = '''', cr_jobName = ''''\<rparr>"

definition report_window :: "instant \<Rightarrow> instant \<Rightarrow> StatisticsFilter" where
  "report_window a b = \<lparr>st_From = a, st_To = b, st_Tier = '''', st_Provider = '''', st_Repository = '''',
     st_Workflow = '''', st_Route = '''', st_GroupBy = GroupNone\<rparr>"

text \<open>Three days with 12, 80 and 7 of the 100 nano-units; 1 falls before the window.\<close>

theorem splitCostRow_exact_witness:
  "(case clipCostRow sample_row (report_window (20 * hour + 30 * minute) zero_time) of
      None \<Rightarrow> splitCostRow (report_window (20 * hour + 30 * minute) zero_time) sample_row = []
    | Some c \<Rightarrow>
        (c_Known (cr_entry sample_row) \<longrightarrow>
          (\<Sum>p\<leftarrow>splitCostRow (report_window (20 * hour + 30 * minute) zero_time) sample_row. c_Nanos (cr_entry p)) =
           c_Nanos (cr_entry c)) \<and>
        list_all within_day (splitCostRow (report_window (20 * hour + 30 * minute) zero_time) sample_row) \<and>
        (\<forall>t. length (filter (covers t) (splitCostRow (report_window (20 * hour + 30 * minute) zero_time) sample_row)) =
          (if covers t c then 1 else 0)))
   \<and> map (\<lambda>p. c_Nanos (cr_entry p)) (splitCostRow (report_window (20 * hour + 30 * minute) zero_time) sample_row) = [12, 80, 7]"
proof
  show "map (\<lambda>p. c_Nanos (cr_entry p)) (splitCostRow (report_window (20 * hour + 30 * minute) zero_time) sample_row) = [12, 80, 7]"
    by code_simp
qed (rule splitCostRow_exact, code_simp)

subsection \<open>Consecutive windows\<close>

text \<open>\<open>shownUpTo\<close> is what a window without a beginning that ends at \<open>t\<close> shows of a row.\<close>

definition shownUpTo :: "costRow \<Rightarrow> instant \<Rightarrow> int" where
  "shownUpTo row t =
     (let e = cr_entry row in
      if c_StartedAt e = c_EndedAt e then (if c_StartedAt e < t then c_Nanos e else 0)
      else if c_StartedAt e < c_EndedAt e
           then portion (c_Nanos e) (c_StartedAt e) (c_EndedAt e) (max (c_StartedAt e) (min (c_EndedAt e) t))
           else 0)"

definition window_start :: "costRow \<Rightarrow> instant \<Rightarrow> instant" where
  "window_start row a = (if is_zero a then c_StartedAt (cr_entry row) else a)"

definition window_end :: "costRow \<Rightarrow> instant \<Rightarrow> instant" where
  "window_end row b = (if is_zero b then c_EndedAt (cr_entry row) + 1 else b)"

lemma clip_positive:
  assumes "s < e"
  shows "clipReportInterval s e filt =
    (let lo = (if is_zero (st_From filt) then s else max s (st_From filt));
         hi = (if is_zero (st_To filt) then e else min e (st_To filt))
     in if lo < hi then Some (lo, hi) else None)"
  using assms by (auto simp: clipReportInterval_def Let_def max_def min_def)

lemma clippedNanos_positive:
  assumes "cost_row_ok row" "c_Known (cr_entry row)" "c_StartedAt (cr_entry row) < c_EndedAt (cr_entry row)"
    and "is_zero (st_From filt) \<or> is_zero (st_To filt) \<or> st_From filt \<le> st_To filt"
  shows "clippedNanos filt row =
         shownUpTo row (window_end row (st_To filt)) - shownUpTo row (window_start row (st_From filt))"
proof -
  let ?e = "cr_entry row"
  let ?g = "portion (c_Nanos ?e) (c_StartedAt ?e) (c_EndedAt ?e)"
  let ?clamp = "\<lambda>t. max (c_StartedAt ?e) (min (c_EndedAt ?e) t)"
  obtain lo hi where lo: "lo = (if is_zero (st_From filt) then c_StartedAt ?e else max (c_StartedAt ?e) (st_From filt))"
    and hi: "hi = (if is_zero (st_To filt) then c_EndedAt ?e else min (c_EndedAt ?e) (st_To filt))"
    by blast
  have clip: "clipReportInterval (c_StartedAt ?e) (c_EndedAt ?e) filt = (if lo < hi then Some (lo, hi) else None)"
    using clip_positive [OF assms(3), of filt] by (simp add: lo hi Let_def)
  have shown: "shownUpTo row t = ?g (?clamp t)" for t
    using assms(3) by (simp add: shownUpTo_def Let_def)
  show ?thesis
  proof (cases "lo < hi")
    case True
    then have "?clamp (window_start row (st_From filt)) = lo" "?clamp (window_end row (st_To filt)) = hi"
      using assms(3) by (auto simp: lo hi window_start_def window_end_def max_def min_def split: if_splits)
    moreover have "clippedNanos filt row = ?g hi - ?g lo"
      using assms True apportionedNanos_exact [of "c_Nanos ?e" "c_StartedAt ?e" lo hi "c_EndedAt ?e"]
      by (auto simp: clippedNanos_def clipCostRow_def clip Let_def cost_row_ok_def lo hi)
    ultimately show ?thesis by (simp add: shown)
  next
    case False
    then have "?clamp (window_start row (st_From filt)) = ?clamp (window_end row (st_To filt))"
      using assms(3,4) by (auto simp: lo hi window_start_def window_end_def max_def min_def split: if_splits)
    then show ?thesis using False by (simp add: clippedNanos_def clipCostRow_def clip shown)
  qed
qed

lemma clippedNanos_shown:
  assumes "cost_row_ok row" "c_Known (cr_entry row)" "c_StartedAt (cr_entry row) \<le> c_EndedAt (cr_entry row)"
    and "is_zero (st_From filt) \<or> is_zero (st_To filt) \<or> st_From filt \<le> st_To filt"
  shows "clippedNanos filt row =
         shownUpTo row (window_end row (st_To filt)) - shownUpTo row (window_start row (st_From filt))"
proof (cases "c_StartedAt (cr_entry row) = c_EndedAt (cr_entry row)")
  case True
  then show ?thesis using assms(4)
    by (auto simp: clippedNanos_def clipCostRow_def clipReportInterval_def shownUpTo_def window_start_def window_end_def Let_def)
next
  case False
  then show ?thesis using clippedNanos_positive [OF assms(1,2)] assms(3,4) by simp
qed

lemma shownUpTo_window:
  assumes "\<not> is_zero b"
  shows "window_start row b = b" "window_end row b = b"
  using assms by (simp_all add: window_start_def window_end_def)

text \<open>
  C19. Reports over consecutive windows add up: for a known row, what the window from \<open>a\<close> to \<open>b\<close> shows of its
  amount and what the window from \<open>b\<close> to \<open>c\<close> shows are together what the window from \<open>a\<close> to \<open>c\<close> shows, to the
  last nano-unit, also when the outer windows are open (a zero time means no bound), and for a row without
  duration, which exactly one of two adjacent windows shows.
\<close>

theorem windows_add_up:
  assumes "cost_row_ok row" "c_Known (cr_entry row)" "c_StartedAt (cr_entry row) \<le> c_EndedAt (cr_entry row)"
    and "\<not> is_zero b" "is_zero a \<or> a \<le> b" "is_zero c \<or> b \<le> c"
  shows "clippedNanos (filt\<lparr>st_From := a, st_To := b\<rparr>) row + clippedNanos (filt\<lparr>st_From := b, st_To := c\<rparr>) row =
         clippedNanos (filt\<lparr>st_From := a, st_To := c\<rparr>) row"
proof -
  have "is_zero a \<or> is_zero c \<or> a \<le> c" using assms(4-6) by auto
  then show ?thesis
    using assms(4-6) clippedNanos_shown [OF assms(1-3)] by (simp add: shownUpTo_window)
qed

theorem windows_add_up_witness:
  "clippedNanos ((report_window 0 0)\<lparr>st_From := zero_time, st_To := 24 * hour\<rparr>) sample_row +
   clippedNanos ((report_window 0 0)\<lparr>st_From := 24 * hour, st_To := 31 * hour\<rparr>) sample_row =
   clippedNanos ((report_window 0 0)\<lparr>st_From := zero_time, st_To := 31 * hour\<rparr>) sample_row \<and>
   clippedNanos ((report_window 0 0)\<lparr>st_From := zero_time, st_To := 24 * hour\<rparr>) sample_row = 13 \<and>
   clippedNanos ((report_window 0 0)\<lparr>st_From := 24 * hour, st_To := 31 * hour\<rparr>) sample_row = 23"
proof (intro conjI)
  show "clippedNanos ((report_window 0 0)\<lparr>st_From := zero_time, st_To := 24 * hour\<rparr>) sample_row +
   clippedNanos ((report_window 0 0)\<lparr>st_From := 24 * hour, st_To := 31 * hour\<rparr>) sample_row =
   clippedNanos ((report_window 0 0)\<lparr>st_From := zero_time, st_To := 31 * hour\<rparr>) sample_row"
    by (rule windows_add_up; code_simp)
qed (code_simp+)

subsection \<open>Pieces of a row\<close>

lemma costPiece_rest [simp]:
  "c_Known (cr_entry (costPiece row ab)) = c_Known (cr_entry row)" "c_Kind (cr_entry (costPiece row ab)) = c_Kind (cr_entry row)"
  "c_Currency (cr_entry (costPiece row ab)) = c_Currency (cr_entry row)"
  by (simp_all add: costPiece_def case_prod_unfold)

lemma splitCostRow_keeps:
  assumes "p \<in> set (splitCostRow filt row)"
  shows "c_Known (cr_entry p) = c_Known (cr_entry row)" "c_Kind (cr_entry p) = c_Kind (cr_entry row)"
    "c_Currency (cr_entry p) = c_Currency (cr_entry row)"
  using assms by (cases rule: splitCostRow_cases [where row = row and filt = filt]; auto)+

lemma share_bounds:
  assumes "cost_row_ok row" "c_StartedAt (cr_entry row) \<le> s" "s < e" "e \<le> c_EndedAt (cr_entry row)"
  shows "0 \<le> apportionedNanos (c_Nanos (cr_entry row)) (c_StartedAt (cr_entry row)) (c_EndedAt (cr_entry row)) s e"
    "apportionedNanos (c_Nanos (cr_entry row)) (c_StartedAt (cr_entry row)) (c_EndedAt (cr_entry row)) s e \<le> c_Nanos (cr_entry row)"
proof -
  let ?e = "cr_entry row"
  let ?g = "portion (c_Nanos ?e) (c_StartedAt ?e) (c_EndedAt ?e)"
  have lt: "c_StartedAt ?e < c_EndedAt ?e" and n: "0 \<le> c_Nanos ?e" "c_Nanos ?e \<le> max_int64" "c_EndedAt ?e - c_StartedAt ?e \<le> max_int64"
    using assms by (auto simp: cost_row_ok_def Let_def)
  have "0 \<le> ?g s" "?g s \<le> ?g e" "?g e \<le> c_Nanos ?e"
    using portion_mono [OF n(1) lt] portion_ends [OF lt, of "c_Nanos ?e"] assms(2-4) by (metis less_imp_le)+
  then show "0 \<le> apportionedNanos (c_Nanos ?e) (c_StartedAt ?e) (c_EndedAt ?e) s e"
    "apportionedNanos (c_Nanos ?e) (c_StartedAt ?e) (c_EndedAt ?e) s e \<le> c_Nanos ?e"
    using apportionedNanos_exact [OF n(1,2) assms(2-4) n(3)] by simp_all
qed

lemma splitCostRow_nonneg:
  assumes "cost_row_ok row" "p \<in> set (splitCostRow filt row)"
  shows "0 \<le> c_Nanos (cr_entry p)"
proof (cases rule: splitCostRow_cases [where row = row and filt = filt])
  case (cut s e)
  then obtain a b where ab: "p = costPiece row (a, b)" "(a, b) \<in> set (day_cuts s e)" using assms(2) by auto
  then show ?thesis
    using utc_days.cuts_within [OF ab(2)] share_bounds(1) [OF assms(1), of a b] cut assms(1)
    by (simp add: costPiece_def cost_row_ok_def Let_def)
qed (use assms in \<open>auto simp: cost_row_ok_def Let_def\<close>)

lemma clippedNanos_bounds:
  assumes "cost_row_ok row"
  shows "0 \<le> clippedNanos filt row" "clippedNanos filt row \<le> c_Nanos (cr_entry row)"
proof -
  have n: "0 \<le> c_Nanos (cr_entry row)" using assms by (simp add: cost_row_ok_def Let_def)
  have "0 \<le> clippedNanos filt row \<and> clippedNanos filt row \<le> c_Nanos (cr_entry row)"
  proof (cases rule: splitCostRow_cases [where row = row and filt = filt])
    case (cut s e)
    then show ?thesis using share_bounds [OF assms cut(3-5)] n by (simp add: clippedNanos_def costPiece_def)
  qed (simp_all add: clippedNanos_def n)
  then show "0 \<le> clippedNanos filt row" "clippedNanos filt row \<le> c_Nanos (cr_entry row)" by simp_all
qed

lemma splitCostRow_sum:
  assumes "cost_row_ok row" "c_Known (cr_entry row)"
  shows "(\<Sum>p\<leftarrow>splitCostRow filt row. c_Nanos (cr_entry p)) = clippedNanos filt row"
proof (cases rule: splitCostRow_cases [where row = row and filt = filt])
  case (cut s e)
  then show ?thesis
    using pieces_sum [OF assms cut(3-5)] assms(2) by (simp add: clippedNanos_def costPiece_def)
qed (simp_all add: clippedNanos_def)

text \<open>
  A projection charges whole quanta up to the end of the window, a sealed entry is spread over its whole
  interval: a report over a window that has ended shows an hour for the first half hour of a machine that is still
  running, and a quarter of its two hours once it has closed.
\<close>

lemma past_window_not_stable:
  "map bs_nanos (projectedBillingSegments sample_quote 0 (30 * minute)) = [36000000]"
  "clippedNanos (report_window zero_time (30 * minute)) (sample_row\<lparr>cr_entry := sample_entry\<lparr>
     c_StartedAt := 0, c_EndedAt := 2 * hour, c_Nanos := resourceBilledNanos sample_quote 0 (2 * hour)\<rparr>\<rparr>) = 18000000"
  by code_simp+

end
