(* ===== verification/Accumulators.thy ===== *)
theory Accumulators
  imports Go_Strings "HOL-Library.Multiset"
begin

text \<open>
  The accumulator maps of the ledger's reports. The sources build a \<open>map[string]*T\<close> by visiting rows:
  the entry of the row's key is created when it is missing and then updated in place; at the end the
  values are copied into a slice and sorted. A map is the list of its entries, in the order of their
  creation; Go ranges over a map in an unspecified order, and \<open>sorted_values_unique\<close> shows that the
  sorted slice does not depend on it when the sort keys differ.

  The locale \<open>accumulator\<close> names the three parts of such a loop (key of a row, new entry, update);
  the entry of a key depends only on the rows with that key. \<open>additive_accumulator\<close> adds a number that every
  update increases by the weight of the row: then the entries together hold the weight of all rows.
\<close>

definition mapUpsert :: "'k \<Rightarrow> 'v \<Rightarrow> ('v \<Rightarrow> 'v) \<Rightarrow> ('k \<times> 'v) list \<Rightarrow> ('k \<times> 'v) list" where
  "mapUpsert k new f m =
     (if k \<in> set (map fst m) then map (\<lambda>(k', v). (k', if k' = k then f v else v)) m
      else m @ [(k, f new)])"

definition groupRows :: "('x \<Rightarrow> 'k) \<Rightarrow> ('x \<Rightarrow> 'v) \<Rightarrow> ('x \<Rightarrow> 'v \<Rightarrow> 'v) \<Rightarrow> 'x list \<Rightarrow> ('k \<times> 'v) list" where
  "groupRows key new step rows = fold (\<lambda>x. mapUpsert (key x) (new x) (step x)) rows []"

lemma mapUpsert_keys:
  "map fst (mapUpsert k new f m) = (if k \<in> set (map fst m) then map fst m else map fst m @ [k])"
  by (simp add: mapUpsert_def o_def case_prod_unfold)

lemma mapUpsert_distinct: "distinct (map fst m) \<Longrightarrow> distinct (map fst (mapUpsert k new f m))"
  by (simp add: mapUpsert_keys)

lemma map_of_mapUpsert:
  "map_of (mapUpsert k new f m) k' =
     (if k' = k then Some (f (case map_of m k of None \<Rightarrow> new | Some v \<Rightarrow> v)) else map_of m k')"
proof (cases "k \<in> set (map fst m)")
  case True
  have "map_of (map (\<lambda>(k', v). (k', if k' = k then f v else v)) m) k' =
        map_option (if k' = k then f else id) (map_of m k')"
    by (induction m) auto
  moreover obtain v where "map_of m k = Some v" using True by (metis map_of_eq_None_iff not_Some_eq set_map)
  ultimately show ?thesis using True by (simp add: mapUpsert_def option.map_id)
next
  case False
  then have "map_of m k = None" by (simp add: map_of_eq_None_iff)
  then show ?thesis using False by (auto simp: mapUpsert_def map_add_def split: option.split)
qed

lemma mapUpsert_sum:
  fixes h :: "'v \<Rightarrow> int"
  assumes "distinct (map fst m)" "\<And>v. h (f v) = h v + c" "h new = 0"
  shows "(\<Sum>v\<leftarrow>map snd (mapUpsert k new f m). h v) = (\<Sum>v\<leftarrow>map snd m. h v) + c"
proof (cases "k \<in> set (map fst m)")
  case True
  then show ?thesis using assms(1)
  proof (induction m)
    case (Cons kv m)
    obtain k' v where kv: "kv = (k', v)" by (cases kv)
    show ?case
    proof (cases "k' = k")
      case True
      then have "map (\<lambda>(k', v). (k', if k' = k then f v else v)) m = m"
        using Cons.prems kv by (intro map_idI) (auto simp: image_iff)
      then show ?thesis using True kv assms(2) by (simp add: mapUpsert_def)
    next
      case False
      then show ?thesis using Cons kv by (simp add: mapUpsert_def)
    qed
  qed simp
next
  case False
  then show ?thesis using assms(2,3) by (simp add: mapUpsert_def)
qed

text \<open>The values of a map with distinct sort keys, sorted, do not depend on the order of the map.\<close>

lemma distinct_map_sort_key [simp]: "distinct (map f (sort_key g xs)) \<longleftrightarrow> distinct (map f xs)"
proof -
  have "mset (map f (sort_key g xs)) = mset (map f xs)" by simp
  then show ?thesis by (rule mset_eq_imp_distinct_iff)
qed

lemma sum_list_sort_key [simp]:
  fixes h :: "'v \<Rightarrow> int"
  shows "(\<Sum>x\<leftarrow>sort_key f xs. h x) = (\<Sum>x\<leftarrow>xs. h x)"
proof -
  have "sum_mset (mset (map h (sort_key f xs))) = sum_mset (mset (map h xs))" by simp
  then show ?thesis by (simp only: sum_mset_sum_list)
qed

lemma sorted_values_unique:
  fixes f :: "'v \<Rightarrow> 'k::linorder"
  assumes "distinct (map f xs)" "mset ys = mset xs"
  shows "sort_key f ys = sort_key f xs"
proof (rule map_sorted_distinct_set_unique [where f = f])
  have "mset (map f ys) = mset (map f xs)" using assms(2) by simp
  then have "distinct (map f ys)" using assms(1) mset_eq_imp_distinct_iff by blast
  then show "distinct (map f (sort_key f ys))" "distinct (map f (sort_key f xs))" using assms(1) by simp_all
  have "set ys = set xs" using assms(2) by (rule mset_eq_setD)
  then show "inj_on f (set (sort_key f ys) \<union> set (sort_key f xs))" "set (sort_key f ys) = set (sort_key f xs)"
    using assms(1) by (simp_all add: distinct_map)
qed simp_all

subsection \<open>Loops that fill a map\<close>

locale accumulator =
  fixes key :: "'x \<Rightarrow> 'k" and new :: "'x \<Rightarrow> 'v" and step :: "'x \<Rightarrow> 'v \<Rightarrow> 'v"
begin

definition entry_of :: "'k \<Rightarrow> 'x list \<Rightarrow> 'v option" where
  "entry_of k rows =
     (case filter (\<lambda>x. key x = k) rows of [] \<Rightarrow> None | x # xs \<Rightarrow> Some (fold step (x # xs) (new x)))"

lemma groups_snoc: "groupRows key new step (rows @ [x]) = mapUpsert (key x) (new x) (step x) (groupRows key new step rows)"
  by (simp add: groupRows_def)

lemma groups_distinct: "distinct (map fst (groupRows key new step rows))"
  by (induction rows rule: rev_induct) (simp add: groupRows_def, simp only: groups_snoc mapUpsert_distinct)

lemma groups_entry: "map_of (groupRows key new step rows) k = entry_of k rows"
proof (induction rows rule: rev_induct)
  case Nil
  then show ?case by (simp add: groupRows_def entry_of_def)
next
  case (snoc x rows)
  then show ?case
    by (auto simp: groups_snoc map_of_mapUpsert entry_of_def split: list.split)
qed

lemma groups_mem: "(k, v) \<in> set (groupRows key new step rows) \<longleftrightarrow> entry_of k rows = Some v"
  using groups_distinct [of rows] by (simp add: map_of_eq_Some_iff flip: groups_entry)

lemma groups_memE:
  assumes "(k, v) \<in> set (groupRows key new step rows)"
  obtains x xs where "filter (\<lambda>x. key x = k) rows = x # xs" "v = fold step (x # xs) (new x)"
  using assms unfolding groups_mem entry_of_def by (auto split: list.splits)

lemma groups_keys: "set (map fst (groupRows key new step rows)) = key ` set rows"
proof (induction rows rule: rev_induct)
  case (snoc x rows)
  have "set (map fst (groupRows key new step (rows @ [x]))) = insert (key x) (set (map fst (groupRows key new step rows)))"
    unfolding groups_snoc mapUpsert_keys by auto
  then show ?case using snoc by simp
qed (simp add: groupRows_def)

lemma sum_over_keys:
  fixes w :: "'x \<Rightarrow> int"
  assumes "distinct ks" "key ` set rows \<subseteq> set ks"
  shows "(\<Sum>k\<leftarrow>ks. \<Sum>x\<leftarrow>filter (\<lambda>x. key x = k) rows. w x) = (\<Sum>x\<leftarrow>rows. w x)"
  using assms
proof (induction rows)
  case (Cons x rows)
  have "(\<Sum>k\<leftarrow>ks. \<Sum>y\<leftarrow>filter (\<lambda>y. key y = k) (x # rows). w y) =
        (\<Sum>k\<leftarrow>ks. (if k = key x then w x else 0) + (\<Sum>y\<leftarrow>filter (\<lambda>y. key y = k) rows. w y))"
    by (intro arg_cong [where f = sum_list] map_cong) auto
  also have "\<dots> = (\<Sum>k\<leftarrow>ks. if k = key x then w x else 0) + (\<Sum>x\<leftarrow>rows. w x)"
    using Cons by (simp add: sum_list_addf)
  also have "(\<Sum>k\<leftarrow>ks. if k = key x then w x else 0) = w x"
    using Cons.prems by (simp add: sum_list_distinct_conv_sum_set)
  finally show ?case by simp
qed simp

text \<open>If the entry of every key holds the weight of its rows, the entries hold the weight of all rows.\<close>

lemma total_by_group:
  fixes h :: "'v \<Rightarrow> int" and w :: "'x \<Rightarrow> int"
  assumes "\<And>k x xs. filter (\<lambda>x. key x = k) rows = x # xs \<Longrightarrow>
             h (fold step (x # xs) (new x)) = (\<Sum>y\<leftarrow>x # xs. w y)"
  shows "(\<Sum>v\<leftarrow>map snd (groupRows key new step rows). h v) = (\<Sum>x\<leftarrow>rows. w x)"
proof -
  let ?m = "groupRows key new step rows"
  have "h v = (\<Sum>x\<leftarrow>filter (\<lambda>x. key x = k) rows. w x)" if kv: "(k, v) \<in> set ?m" for k v
    using assms kv by (metis groups_memE)
  then have "(\<Sum>v\<leftarrow>map snd ?m. h v) = (\<Sum>(k, v)\<leftarrow>?m. \<Sum>x\<leftarrow>filter (\<lambda>x. key x = k) rows. w x)"
    by (simp add: o_def) (intro arg_cong [where f = sum_list] map_cong; auto)
  also have "\<dots> = (\<Sum>k\<leftarrow>map fst ?m. \<Sum>x\<leftarrow>filter (\<lambda>x. key x = k) rows. w x)"
    by (simp add: o_def case_prod_unfold)
  also have "\<dots> = (\<Sum>x\<leftarrow>rows. w x)"
    using groups_distinct groups_keys by (intro sum_over_keys) auto
  finally show ?thesis .
qed

end

locale additive_accumulator = accumulator key new step
  for key :: "'x \<Rightarrow> 'k" and new :: "'x \<Rightarrow> 'v" and step :: "'x \<Rightarrow> 'v \<Rightarrow> 'v" +
  fixes h :: "'v \<Rightarrow> int" and w :: "'x \<Rightarrow> int"
  assumes new_zero: "h (new x) = 0"
    and step_adds: "h (step x v) = h v + w x"
begin

lemma fold_adds: "h (fold step xs v) = h v + (\<Sum>x\<leftarrow>xs. w x)"
  by (induction xs arbitrary: v) (simp_all add: step_adds)

lemma entry_adds:
  assumes "(k, v) \<in> set (groupRows key new step rows)"
  shows "h v = (\<Sum>x\<leftarrow>filter (\<lambda>x. key x = k) rows. w x)"
  using assms by (rule groups_memE) (simp add: fold_adds new_zero step_adds)

lemma total_adds: "(\<Sum>v\<leftarrow>map snd (groupRows key new step rows). h v) = (\<Sum>x\<leftarrow>rows. w x)"
  by (rule total_by_group) (simp add: fold_adds new_zero step_adds)

end

end
