(* ===== verification/Routing_Effect.thy ===== *)
theory Routing_Effect
  imports Accumulators Routing_Store Router_Score
begin

text \<open>
  The reports on routing: src/internal/storage/routing_statistics.go, which aggregates the immutable
  scorecards and the outcomes of the jobs they placed, and src/internal/storage/dashboard.go, the waiting
  jobs. A join is a list of combinations of rows; a query without \<open>ORDER BY\<close> yields them in the order of the
  tables. Counters of rows are unbounded integers; amounts saturate as in the source. SQLite's \<open>SUM\<close> of
  integers fails when it overflows.
\<close>

subsection \<open>Data\<close>

record RoutingEffectivenessFilter =
  ef_From :: instant
  ef_To :: instant
  ef_Route :: string
  ef_Tier :: string
  ef_Provider :: string
  ef_Repository :: string
  ef_Workflow :: string

record RoutingSelection =
  sn_Tier :: string
  sn_Provider :: string
  sn_Jobs :: int

record RoutingEffectiveness =
  re_Route :: string
  re_RequiredLabel :: string
  re_Currency :: string
  re_Decisions :: int
  re_Completed :: int
  re_FallbackDecisions :: int
  re_HistoryDecisions :: int
  re_IdleDecisions :: int
  re_DeferredDecisions :: int
  re_P95Hits :: int
  re_P95Misses :: int
  re_EstimatedSelectedNanos :: int
  re_EstimatedFallbackNanos :: int
  re_EstimatedSavingsNanos :: int
  re_ActualDirectNanos :: int
  re_ActualUnknownEntries :: int
  re_Selections :: "RoutingSelection list"

text \<open>A \<open>sql.NullInt64\<close> is an option.\<close>

record routingEffectRow =
  er_route :: string
  er_label :: string
  er_currency :: string
  er_profileSource :: string
  er_selectedTier :: string
  er_selectedProvider :: string
  er_jobStatus :: JobStatus
  er_fxRate :: string
  er_nativeCurrency :: string
  er_selectedIdle :: bool
  er_deferred :: bool
  er_predictedP95 :: int
  er_selectedCost :: "int option"
  er_fallbackCost :: "int option"
  er_runnerStarted :: "int option"
  er_runnerFinished :: "int option"
  er_actualNanos :: "int option"
  er_actualUnknown :: int

definition nullTime :: "instant \<Rightarrow> int option" where
  "nullTime t = (if is_zero t then None else Some t)"

definition workflowText :: "Job \<Rightarrow> string" where
  "workflowText j = (if j_WorkflowFile j \<noteq> '''' then j_WorkflowFile j
     else if j_Workflow j \<noteq> '''' then j_Workflow j else j_JobName j)"

subsection \<open>Rows\<close>

definition actualDirect :: "Job \<Rightarrow> RoutingCandidateScore \<Rightarrow> Tables \<Rightarrow> int list" where
  "actualDirect j c d = map c_Nanos (filter (\<lambda>e. c_JobID e = j_ID j \<and> c_Kind e = CostDirectCompute \<and> c_Known e \<and>
     c_Currency e = k_NativeCurrency c) (t_costs d))"

definition actualUnknown :: "Job \<Rightarrow> RoutingCandidateScore \<Rightarrow> Tables \<Rightarrow> int" where
  "actualUnknown j c d = int (length (filter (\<lambda>e. c_JobID e = j_ID j \<and> c_Kind e = CostDirectCompute \<and>
     (\<not> c_Known e \<or> c_Currency e \<noteq> k_NativeCurrency c)) (t_costs d)))"

definition sqlSum :: "int list \<Rightarrow> int option result" where
  "sqlSum xs = (if xs = [] then Inr None
     else if in_int64 (sum_list xs) then Inr (Some (sum_list xs)) else Inl (ErrIO ''integer overflow''))"

definition scanRoutingEffectRow :: "RoutingDecisionRow \<Rightarrow> Job \<Rightarrow> RoutingCandidateScore \<Rightarrow> Tables \<Rightarrow> routingEffectRow result" where
  "scanRoutingEffectRow r j c d =
     bindE (sqlSum (actualDirect j c d)) (\<lambda>actual. Inr
       \<lparr>er_route = d_Route r, er_label = d_RequiredLabel r, er_currency = d_ScoreCurrency r,
        er_profileSource = d_ProfileSource r, er_selectedTier = d_SelectedTier r, er_selectedProvider = d_SelectedProvider r,
        er_jobStatus = j_Status j, er_fxRate = k_FXRate c, er_nativeCurrency = k_NativeCurrency c,
        er_selectedIdle = d_SelectedIdle r, er_deferred = (d_DeferCount r > 0), er_predictedP95 = d_PredictedP95 r,
        er_selectedCost = (if d_SelectedCostKnown r then Some (d_SelectedCostNanos r) else None),
        er_fallbackCost = (if d_FallbackCostKnown r then Some (d_FallbackCostNanos r) else None),
        er_runnerStarted = nullTime (j_RunnerStartedAt j), er_runnerFinished = nullTime (j_RunnerFinishedAt j),
        er_actualNanos = actual, er_actualUnknown = actualUnknown j c d\<rparr>)"

definition effectWhere :: "RoutingEffectivenessFilter \<Rightarrow> RoutingDecisionRow \<Rightarrow> Job \<Rightarrow> bool" where
  "effectWhere filt r j \<longleftrightarrow>
     d_State r = RoutingAssigned \<and> \<not> is_zero (d_DecidedAt r) \<and>
     (is_zero (ef_From filt) \<or> ef_From filt \<le> d_DecidedAt r) \<and>
     (is_zero (ef_To filt) \<or> d_DecidedAt r < ef_To filt) \<and>
     (ef_Route filt = '''' \<or> d_Route r = ef_Route filt) \<and>
     (ef_Tier filt = '''' \<or> d_SelectedTier r = ef_Tier filt) \<and>
     (ef_Provider filt = '''' \<or> d_SelectedProvider r = ef_Provider filt) \<and>
     (ef_Repository filt = '''' \<or> j_Repository j = ef_Repository filt) \<and>
     (ef_Workflow filt = '''' \<or> workflowText j = ef_Workflow filt)"

definition effectJoin :: "RoutingEffectivenessFilter \<Rightarrow> Tables \<Rightarrow> (RoutingDecisionRow \<times> Job \<times> RoutingCandidateScore) list" where
  "effectJoin filt d =
     [(r, j, c). r \<leftarrow> t_decisions d, j \<leftarrow> t_jobs d, j_ID j = d_JobID r,
                 c \<leftarrow> t_scores d, k_DecisionID c = d_ID r \<and> k_Selected c, effectWhere filt r j]"

definition effectRows :: "RoutingEffectivenessFilter \<Rightarrow> Tables \<Rightarrow> routingEffectRow list result" where
  "effectRows filt d = mapE (\<lambda>(r, j, c). scanRoutingEffectRow r j c d) (effectJoin filt d)"

subsection \<open>Aggregation\<close>

fun routingTerminalStatus :: "JobStatus \<Rightarrow> bool" where
  "routingTerminalStatus JobSucceeded = True"
| "routingTerminalStatus JobFailed = True"
| "routingTerminalStatus JobCancelled = True"
| "routingTerminalStatus JobSkipped = True"
| "routingTerminalStatus JobInfraFailed = True"
| "routingTerminalStatus JobInterrupted = True"
| "routingTerminalStatus JobObserved = False"
| "routingTerminalStatus JobAssigned = False"
| "routingTerminalStatus JobRunning = False"
| "routingTerminalStatus JobUnset = False"

definition saturatedAdd :: "int \<Rightarrow> int \<Rightarrow> int" where
  "saturatedAdd left right =
     (if right > 0 \<and> left > wrap64 (max_int64 - right) then max_int64 else wrap64 (left + right))"

definition routingSavings :: "int \<Rightarrow> int \<Rightarrow> int" where
  "routingSavings fallback selected = (if fallback \<le> selected then 0 else wrap64 (fallback - selected))"

definition convertRoutingNanos :: "int \<Rightarrow> string \<Rightarrow> int \<times> bool" where
  "convertRoutingNanos v rate =
     (if v \<le> 0 then (0, True)
      else case ratSetString rate of
        None \<Rightarrow> (0, False)
      | Some (num, den) \<Rightarrow>
          if num \<le> 0 then (0, False)
          else let numerator = v * num;
                   quotient = numerator sdiv den;
                   remainder = numerator smod den;
                   quotient = (if 2 * remainder \<ge> den then quotient + 1 else quotient)
               in if in_int64 quotient then (quotient, True) else (max_int64, True))"

definition routingSelectionKey :: "string \<Rightarrow> string \<Rightarrow> string" where
  "routingSelectionKey tier provider = tier @ CHR 0x00 # provider"

text \<open>Whether the run ended within the predicted 95th percentile, for a run that was measured.\<close>

definition p95Outcome :: "routingEffectRow \<Rightarrow> bool option" where
  "p95Outcome row =
     (if er_jobStatus row = JobSucceeded \<or> er_jobStatus row = JobFailed
      then case (er_runnerStarted row, er_runnerFinished row) of
             (Some s, Some f) \<Rightarrow> if f \<ge> s then Some (wrap64 (f - s) \<le> er_predictedP95 row) else None
           | _ \<Rightarrow> None
      else None)"

text \<open>\<open>accumulateRoutingEffect\<close> in its four parts.\<close>

definition countDecision :: "routingEffectRow \<Rightarrow> RoutingEffectiveness \<Rightarrow> RoutingEffectiveness" where
  "countDecision row g =
     (let g = g\<lparr>re_Decisions := re_Decisions g + 1\<rparr>;
          g = (if er_selectedIdle row then g\<lparr>re_IdleDecisions := re_IdleDecisions g + 1\<rparr> else g);
          g = (if er_deferred row then g\<lparr>re_DeferredDecisions := re_DeferredDecisions g + 1\<rparr> else g)
      in if hasPrefix (er_profileSource row) ''cold_fallback''
         then g\<lparr>re_FallbackDecisions := re_FallbackDecisions g + 1\<rparr>
         else g\<lparr>re_HistoryDecisions := re_HistoryDecisions g + 1\<rparr>)"

definition addEstimates :: "routingEffectRow \<Rightarrow> RoutingEffectiveness \<Rightarrow> RoutingEffectiveness" where
  "addEstimates row g =
     (let g = (case er_selectedCost row of None \<Rightarrow> g
               | Some c \<Rightarrow> g\<lparr>re_EstimatedSelectedNanos := saturatedAdd (re_EstimatedSelectedNanos g) c\<rparr>)
      in case er_fallbackCost row of
           None \<Rightarrow> g
         | Some f \<Rightarrow>
             let g = g\<lparr>re_EstimatedFallbackNanos := saturatedAdd (re_EstimatedFallbackNanos g) f\<rparr>
             in case er_selectedCost row of None \<Rightarrow> g
                | Some c \<Rightarrow> g\<lparr>re_EstimatedSavingsNanos := saturatedAdd (re_EstimatedSavingsNanos g) (routingSavings f c)\<rparr>)"

definition countOutcome :: "routingEffectRow \<Rightarrow> RoutingEffectiveness \<Rightarrow> RoutingEffectiveness" where
  "countOutcome row g =
     (let g = (if routingTerminalStatus (er_jobStatus row) then g\<lparr>re_Completed := re_Completed g + 1\<rparr> else g)
      in case p95Outcome row of
           None \<Rightarrow> g
         | Some hit \<Rightarrow> if hit then g\<lparr>re_P95Hits := re_P95Hits g + 1\<rparr> else g\<lparr>re_P95Misses := re_P95Misses g + 1\<rparr>)"

definition addActual :: "routingEffectRow \<Rightarrow> RoutingEffectiveness \<Rightarrow> RoutingEffectiveness" where
  "addActual row g =
     (let g = (case er_actualNanos row of
                 None \<Rightarrow> g
               | Some v \<Rightarrow>
                   let (converted, ok) = convertRoutingNanos v (er_fxRate row)
                   in if ok then g\<lparr>re_ActualDirectNanos := saturatedAdd (re_ActualDirectNanos g) converted\<rparr>
                      else g\<lparr>re_ActualUnknownEntries := re_ActualUnknownEntries g + 1\<rparr>)
      in g\<lparr>re_ActualUnknownEntries := re_ActualUnknownEntries g + er_actualUnknown row\<rparr>)"

definition countSelection :: "routingEffectRow \<Rightarrow> (string \<times> RoutingSelection) list \<Rightarrow> (string \<times> RoutingSelection) list" where
  "countSelection row =
     mapUpsert (routingSelectionKey (er_selectedTier row) (er_selectedProvider row))
       \<lparr>sn_Tier = er_selectedTier row, sn_Provider = er_selectedProvider row, sn_Jobs = 0\<rparr>
       (\<lambda>s. s\<lparr>sn_Jobs := sn_Jobs s + 1\<rparr>)"

definition accumulateRoutingEffect ::
  "routingEffectRow \<Rightarrow> RoutingEffectiveness \<times> (string \<times> RoutingSelection) list \<Rightarrow>
   RoutingEffectiveness \<times> (string \<times> RoutingSelection) list" where
  "accumulateRoutingEffect row = (\<lambda>(g, selections).
     (addActual row (countOutcome row (addEstimates row (countDecision row g))), countSelection row selections))"

definition effectKey :: "routingEffectRow \<Rightarrow> string" where
  "effectKey row = er_route row @ CHR 0x00 # er_currency row"

definition newEffect :: "routingEffectRow \<Rightarrow> RoutingEffectiveness \<times> (string \<times> RoutingSelection) list" where
  "newEffect row =
     (\<lparr>re_Route = er_route row, re_RequiredLabel = er_label row, re_Currency = er_currency row, re_Decisions = 0,
       re_Completed = 0, re_FallbackDecisions = 0, re_HistoryDecisions = 0, re_IdleDecisions = 0, re_DeferredDecisions = 0,
       re_P95Hits = 0, re_P95Misses = 0, re_EstimatedSelectedNanos = 0, re_EstimatedFallbackNanos = 0,
       re_EstimatedSavingsNanos = 0, re_ActualDirectNanos = 0, re_ActualUnknownEntries = 0, re_Selections = []\<rparr>, [])"

definition effectGroups :: "routingEffectRow list \<Rightarrow> (string \<times> RoutingEffectiveness \<times> (string \<times> RoutingSelection) list) list" where
  "effectGroups rows = groupRows effectKey newEffect accumulateRoutingEffect rows"

definition withSelections :: "RoutingEffectiveness \<times> (string \<times> RoutingSelection) list \<Rightarrow> RoutingEffectiveness" where
  "withSelections = (\<lambda>(g, selections).
     g\<lparr>re_Selections := re_Selections g @ sort_key (\<lambda>s. (sn_Tier s, sn_Provider s)) (map snd selections)\<rparr>)"

definition effectResult :: "routingEffectRow list \<Rightarrow> RoutingEffectiveness list" where
  "effectResult rows =
     sort_key (\<lambda>g. re_Route g @ CHR 0x00 # re_Currency g) (map withSelections (map snd (effectGroups rows)))"

definition SQLiteRoutingEffectiveness :: "RoutingEffectivenessFilter \<Rightarrow> SQLite \<Rightarrow> RoutingEffectiveness list result \<times> SQLite" where
  "SQLiteRoutingEffectiveness filt = query (\<lambda>d. bindE (effectRows filt d) (\<lambda>rows. Inr (effectResult rows)))"

subsection \<open>Waiting jobs\<close>

record QueueJob =
  qj_ID :: int
  qj_Handle :: string
  qj_Repository :: string
  qj_Workflow :: string
  qj_JobName :: string
  qj_Tier :: string
  qj_Provider :: string
  qj_Route :: string
  qj_RoutingState :: RoutingDecisionState
  qj_SelectionReason :: string
  qj_OptimizationQueued :: bool
  qj_SelectedWorkerID :: string
  qj_OptimizationQueuePosition :: int
  qj_OptimizationWait :: int
  qj_PredictedP95 :: int
  qj_FirstSeenAt :: instant
  qj_ScheduledStartAt :: instant
  qj_ScheduledFinishAt :: instant

definition queueJob :: "Job \<Rightarrow> RoutingDecisionRow option \<Rightarrow> QueueJob" where
  "queueJob j dec =
     \<lparr>qj_ID = j_ID j, qj_Handle = j_Handle j, qj_Repository = j_Repository j, qj_Workflow = workflowText j,
      qj_JobName = j_JobName j, qj_Tier = coalesceStr (case dec of None \<Rightarrow> '''' | Some r \<Rightarrow> d_SelectedTier r) (j_Tier j),
      qj_Provider = coalesceStr (case dec of None \<Rightarrow> '''' | Some r \<Rightarrow> d_SelectedProvider r) (j_Provider j),
      qj_Route = (case dec of None \<Rightarrow> '''' | Some r \<Rightarrow> d_Route r),
      qj_RoutingState = (case dec of None \<Rightarrow> RoutingUnset | Some r \<Rightarrow> d_State r),
      qj_SelectionReason = (case dec of None \<Rightarrow> '''' | Some r \<Rightarrow> d_SelectionReason r),
      qj_OptimizationQueued = (case dec of None \<Rightarrow> False | Some r \<Rightarrow> d_OptimizationQueued r \<and> d_OptimizationActive r),
      qj_SelectedWorkerID = (case dec of None \<Rightarrow> '''' | Some r \<Rightarrow> d_SelectedWorkerID r),
      qj_OptimizationQueuePosition = (case dec of None \<Rightarrow> 0 | Some r \<Rightarrow> d_OptimizationQueuePosition r),
      qj_OptimizationWait = (case dec of None \<Rightarrow> 0 | Some r \<Rightarrow> d_OptimizationWait r), qj_PredictedP95 = (case dec of None \<Rightarrow> 0 | Some r \<Rightarrow> d_PredictedP95 r),
      qj_FirstSeenAt = j_FirstSeenAt j,
      qj_ScheduledStartAt = (case dec of None \<Rightarrow> zero_time | Some r \<Rightarrow> d_ScheduledStartAt r), qj_ScheduledFinishAt = (case dec of None \<Rightarrow> zero_time | Some r \<Rightarrow> d_ScheduledFinishAt r)\<rparr>"

definition queueWhere :: "instant \<Rightarrow> Job \<Rightarrow> RoutingDecisionRow option \<Rightarrow> bool" where
  "queueWhere now j dec \<longleftrightarrow> is_zero (j_CompletedAt j) \<and> j_Status j = JobObserved \<and>
     (case dec of None \<Rightarrow> True
      | Some r \<Rightarrow> d_State r \<noteq> RoutingAssigned \<or> \<not> is_zero (d_ExpiresAt r) \<and> now < d_ExpiresAt r)"

definition QueueSnapshot :: "instant \<Rightarrow> SQLite \<Rightarrow> QueueJob list result \<times> SQLite" where
  "QueueSnapshot now = query (\<lambda>d. Inr (map (\<lambda>j. queueJob j (find (\<lambda>r. d_JobID r = j_ID j) (t_decisions d)))
     (sort_key (\<lambda>j. (j_FirstSeenAt j, j_ID j))
       (filter (\<lambda>j. queueWhere now j (find (\<lambda>r. d_JobID r = j_ID j) (t_decisions d))) (t_jobs d)))))"

subsection \<open>The figures of a report fit together\<close>

definition row_costs_ok :: "routingEffectRow \<Rightarrow> bool" where
  "row_costs_ok row \<longleftrightarrow>
     (case er_selectedCost row of None \<Rightarrow> True | Some c \<Rightarrow> 0 \<le> c \<and> c \<le> max_int64) \<and>
     (case er_fallbackCost row of None \<Rightarrow> True | Some f \<Rightarrow> 0 \<le> f \<and> f \<le> max_int64)"

definition effect_ok :: "RoutingEffectiveness \<Rightarrow> bool" where
  "effect_ok g \<longleftrightarrow> re_Decisions g = re_FallbackDecisions g + re_HistoryDecisions g \<and>
     0 \<le> re_P95Hits g \<and> 0 \<le> re_P95Misses g \<and> re_P95Hits g + re_P95Misses g \<le> re_Completed g \<and>
     re_Completed g \<le> re_Decisions g \<and> re_IdleDecisions g \<le> re_Decisions g \<and> re_DeferredDecisions g \<le> re_Decisions g \<and>
     0 \<le> re_EstimatedSavingsNanos g \<and> re_EstimatedSavingsNanos g \<le> re_EstimatedFallbackNanos g \<and>
     re_EstimatedFallbackNanos g \<le> max_int64"

definition selections_ok :: "RoutingEffectiveness \<times> (string \<times> RoutingSelection) list \<Rightarrow> bool" where
  "selections_ok = (\<lambda>(g, sel). distinct (map fst sel) \<and> (\<Sum>s\<leftarrow>map snd sel. sn_Jobs s) = re_Decisions g \<and> re_Selections g = [])"

lemma saturatedAdd_eq: "saturatedAdd = saturatingAdd"
  by (simp add: fun_eq_iff saturatedAdd_def saturatingAdd_def)

lemma saturatedAdd_bounds:
  assumes "0 \<le> a" "a \<le> b" "b \<le> max_int64" "0 \<le> x" "x \<le> y" "y \<le> max_int64"
  shows "0 \<le> saturatedAdd a x" "saturatedAdd a x \<le> saturatedAdd b y" "saturatedAdd b y \<le> max_int64"
  using assms by (auto simp: saturatedAdd_eq saturatingAdd_exact)

lemma routingSavings_bounds:
  assumes "0 \<le> c" "0 \<le> f" "f \<le> max_int64"
  shows "0 \<le> routingSavings f c" "routingSavings f c \<le> f"
  using assms by (auto simp: routingSavings_def go_arith in_int64_nonneg)

lemma p95Outcome_terminal: "p95Outcome row = Some b \<Longrightarrow> routingTerminalStatus (er_jobStatus row)"
  by (auto simp: p95Outcome_def split: if_splits)

lemma countDecision_sel [simp]:
  "re_Decisions (countDecision row g) = re_Decisions g + 1" "re_Selections (countDecision row g) = re_Selections g"
  by (simp_all add: countDecision_def Let_def)

lemma addEstimates_sel [simp]:
  "re_Decisions (addEstimates row g) = re_Decisions g" "re_Selections (addEstimates row g) = re_Selections g"
  by (simp_all add: addEstimates_def Let_def split: option.split)

lemma countOutcome_sel [simp]:
  "re_Decisions (countOutcome row g) = re_Decisions g" "re_Selections (countOutcome row g) = re_Selections g"
  by (simp_all add: countOutcome_def Let_def split: option.split)

lemma addActual_sel [simp]:
  "re_Decisions (addActual row g) = re_Decisions g" "re_Selections (addActual row g) = re_Selections g"
  by (simp_all add: addActual_def Let_def case_prod_unfold split: option.split)

text \<open>A decision is counted first and its outcome second: in between one decision is open.\<close>

lemma countDecision_ok:
  assumes "effect_ok g"
  shows "effect_ok (countDecision row g)" "re_Completed (countDecision row g) < re_Decisions (countDecision row g)"
  using assms by (simp_all add: effect_ok_def countDecision_def Let_def)

lemma countOutcome_ok:
  assumes "effect_ok g" "re_Completed g < re_Decisions g"
  shows "effect_ok (countOutcome row g)"
  using assms p95Outcome_terminal [of row]
  by (cases "p95Outcome row") (simp_all add: effect_ok_def countOutcome_def Let_def)

lemma addActual_ok: "effect_ok (addActual row g) = effect_ok g"
  by (simp add: effect_ok_def addActual_def Let_def case_prod_unfold split: option.split)

lemma addEstimates_ok:
  assumes "effect_ok g" "row_costs_ok row"
  shows "effect_ok (addEstimates row g)"
proof -
  let ?s = "re_EstimatedSavingsNanos g" and ?f = "re_EstimatedFallbackNanos g"
  have sf: "0 \<le> ?s" "?s \<le> ?f" "?f \<le> max_int64" using assms(1) by (simp_all add: effect_ok_def)
  have "0 \<le> re_EstimatedSavingsNanos (addEstimates row g) \<and>
        re_EstimatedSavingsNanos (addEstimates row g) \<le> re_EstimatedFallbackNanos (addEstimates row g) \<and>
        re_EstimatedFallbackNanos (addEstimates row g) \<le> max_int64"
  proof (cases "er_fallbackCost row")
    case None
    then show ?thesis using sf by (simp add: addEstimates_def split: option.split)
  next
    case (Some f)
    then have f: "0 \<le> f" "f \<le> max_int64" using assms(2) by (simp_all add: row_costs_ok_def)
    have zero: "saturatedAdd ?s 0 = ?s" using sf by (simp add: saturatedAdd_eq saturatingAdd_exact)
    show ?thesis
    proof (cases "er_selectedCost row")
      case None
      then show ?thesis using Some f sf saturatedAdd_bounds [of ?s ?f 0 f] zero by (simp add: addEstimates_def)
    next
      fix c assume c: "er_selectedCost row = Some c"
      then have "0 \<le> c" using assms(2) by (simp add: row_costs_ok_def)
      then show ?thesis
        using Some c f sf routingSavings_bounds [of c f] saturatedAdd_bounds [of ?s ?f "routingSavings f c" f]
        by (simp add: addEstimates_def Let_def)
    qed
  qed
  then show ?thesis using assms(1) by (simp add: effect_ok_def addEstimates_def Let_def split: option.split_asm option.split)
qed

lemma addEstimates_completed: "re_Completed (addEstimates row g) = re_Completed g"
  by (simp add: addEstimates_def Let_def split: option.split)

lemma accumulate_ok:
  assumes "effect_ok (fst gs)" "selections_ok gs" "row_costs_ok row"
  shows "effect_ok (fst (accumulateRoutingEffect row gs))" "selections_ok (accumulateRoutingEffect row gs)"
proof -
  obtain g sel where gs: "gs = (g, sel)" by (cases gs)
  have "effect_ok (addEstimates row (countDecision row g))"
    "re_Completed (addEstimates row (countDecision row g)) < re_Decisions (addEstimates row (countDecision row g))"
    using assms countDecision_ok [of g row] by (simp_all add: gs addEstimates_ok addEstimates_completed)
  then show "effect_ok (fst (accumulateRoutingEffect row gs))"
    by (simp add: gs accumulateRoutingEffect_def addActual_ok countOutcome_ok)
  show "selections_ok (accumulateRoutingEffect row gs)"
    using assms(2) mapUpsert_sum [of sel sn_Jobs "\<lambda>s. s\<lparr>sn_Jobs := sn_Jobs s + 1\<rparr>" 1]
    by (simp add: gs accumulateRoutingEffect_def countSelection_def selections_ok_def mapUpsert_distinct)
qed

lemma fold_accumulate_ok:
  assumes "list_all row_costs_ok rows" "effect_ok (fst gs)" "selections_ok gs"
  shows "effect_ok (fst (fold accumulateRoutingEffect rows gs)) \<and> selections_ok (fold accumulateRoutingEffect rows gs)"
  using assms by (induction rows arbitrary: gs) (simp_all add: accumulate_ok)

lemma newEffect_ok: "effect_ok (fst (newEffect row))" "selections_ok (newEffect row)"
  by (simp_all add: newEffect_def effect_ok_def selections_ok_def)

interpretation effect: additive_accumulator effectKey newEffect accumulateRoutingEffect "\<lambda>gs. re_Decisions (fst gs)" "\<lambda>_. 1"
proof
  show "re_Decisions (fst (newEffect x)) = 0" for x by (simp add: newEffect_def)
  show "re_Decisions (fst (accumulateRoutingEffect x v)) = re_Decisions (fst v) + 1" for x v
    by (simp add: accumulateRoutingEffect_def case_prod_unfold)
qed

lemma effectGroups_ok:
  assumes "list_all row_costs_ok rows" "(k, gs) \<in> set (effectGroups rows)"
  shows "effect_ok (fst gs) \<and> selections_ok gs"
proof -
  obtain x xs where x: "filter (\<lambda>x. effectKey x = k) rows = x # xs" "gs = fold accumulateRoutingEffect (x # xs) (newEffect x)"
    using assms(2) unfolding effectGroups_def by (rule effect.groups_memE)
  have "list_all row_costs_ok (filter (\<lambda>x. effectKey x = k) rows)" using assms(1) by (auto simp: list_all_iff)
  then show ?thesis unfolding x by (intro fold_accumulate_ok newEffect_ok)
qed

lemma withSelections_ok:
  assumes "effect_ok (fst gs)" "selections_ok gs"
  shows "effect_ok (withSelections gs) \<and> (\<Sum>s\<leftarrow>re_Selections (withSelections gs). sn_Jobs s) = re_Decisions (withSelections gs)"
proof -
  obtain g sel where gs: "gs = (g, sel)" by (cases gs)
  have "(\<Sum>s\<leftarrow>sort_key (\<lambda>s. (sn_Tier s, sn_Provider s)) (map snd sel). sn_Jobs s) = (\<Sum>s\<leftarrow>map snd sel. sn_Jobs s)"
    by (rule sum_list_sort_key)
  then show ?thesis using assms by (simp add: gs withSelections_def effect_ok_def selections_ok_def)
qed

lemma sum_withSelections: "re_Decisions (withSelections gs) = re_Decisions (fst gs)"
  by (simp add: withSelections_def case_prod_unfold)

lemma effectResult_accounts:
  assumes "list_all row_costs_ok rows"
  shows "(\<Sum>g\<leftarrow>effectResult rows. re_Decisions g) = int (length rows) \<and>
    (\<forall>g \<in> set (effectResult rows). effect_ok g \<and> (\<Sum>s\<leftarrow>re_Selections g. sn_Jobs s) = re_Decisions g)"
proof
  let ?gs = "map withSelections (map snd (effectGroups rows))"
  have "(\<Sum>g\<leftarrow>effectResult rows. re_Decisions g) = (\<Sum>g\<leftarrow>?gs. re_Decisions g)"
    unfolding effectResult_def by (rule sum_list_sort_key)
  also have "\<dots> = (\<Sum>v\<leftarrow>map snd (effectGroups rows). re_Decisions (fst v))"
    by (simp add: o_def sum_withSelections)
  also have "\<dots> = int (length rows)"
    unfolding effectGroups_def effect.total_adds by (simp add: sum_list_triv)
  finally show "(\<Sum>g\<leftarrow>effectResult rows. re_Decisions g) = int (length rows)" .
  show "\<forall>g \<in> set (effectResult rows). effect_ok g \<and> (\<Sum>s\<leftarrow>re_Selections g. sn_Jobs s) = re_Decisions g"
    using effectGroups_ok [OF assms] withSelections_ok by (fastforce simp: effectResult_def)
qed

definition int64_costs :: "Tables \<Rightarrow> bool" where
  "int64_costs d \<longleftrightarrow> (\<forall>r \<in> set (t_decisions d). in_int64 (d_SelectedCostNanos r) \<and> in_int64 (d_FallbackCostNanos r))"

lemma scan_costs_ok:
  assumes "scanRoutingEffectRow r j c d = Inr row" "r \<in> set (t_decisions d)" "decisions_ok d" "int64_costs d"
  shows "row_costs_ok row"
proof -
  have "0 \<le> d_SelectedCostNanos r" "0 \<le> d_FallbackCostNanos r" "d_SelectedCostNanos r \<le> max_int64" "d_FallbackCostNanos r \<le> max_int64"
    using assms(2-4) by (auto simp: decisions_ok_def int64_costs_def in_int64_def)
  then show ?thesis
    using assms(1) by (auto simp: scanRoutingEffectRow_def bindE_def row_costs_ok_def split: sum.splits)
qed

lemma effectRows_ok:
  assumes "effectRows filt d = Inr rows" "tables_ok d" "int64_costs d"
  shows "length rows = length (effectJoin filt d)" "list_all row_costs_ok rows"
proof -
  have R: "list_all2 (\<lambda>(r, j, c) row. scanRoutingEffectRow r j c d = Inr row) (effectJoin filt d) rows"
    using assms(1) [unfolded effectRows_def mapE_Inr] by (simp add: case_prod_unfold)
  then show "length rows = length (effectJoin filt d)" by (simp add: list_all2_lengthD)
  have "r \<in> set (t_decisions d)" if "(r, j, c) \<in> set (effectJoin filt d)" for r j c
    using that by (auto simp: effectJoin_def)
  moreover have "decisions_ok d" using assms(2) by (simp add: tables_ok_def)
  ultimately have "row_costs_ok row" if rj: "((r, j, c), row) \<in> set (zip (effectJoin filt d) rows)" for r j c row
    using R rj scan_costs_ok [of r j c d row] assms(3) set_zip_leftD [OF rj] by (auto simp: list_all2_iff)
  then show "list_all row_costs_ok rows"
    using R unfolding list_all_length list_all2_conv_all_nth in_set_zip by (metis fst_conv prod_cases3 snd_conv)
qed

lemma query_Inr: "query f s = (Inr a, s') \<Longrightarrow> f (tables s) = Inr a \<and> tables s' = tables s"
  using query_tables [of f s]
  by (auto simp: query_def draw_def split: prod.splits option.splits list.splits)

lemma not_err_Inr: "\<not> is_err r \<Longrightarrow> \<exists>a. r = Inr a"
  by (cases r) auto

text \<open>
  The figures of the routing report fit together: over all groups every selected scorecard row of a
  decision that matches the filter is counted once, and in every group the decisions are those from history
  plus those from the fallback, and are the jobs of its selections; hits and misses of the prediction are
  completed jobs, completed, idle and deferred decisions are decisions; and the estimated savings lie between
  nothing and the estimated cost of the fallback tier, saturation included.
\<close>

theorem routing_report_accounts:
  assumes "tables_ok (tables s)" "int64_costs (tables s)" "SQLiteRoutingEffectiveness filt s = (Inr gs, s')"
  shows "(\<Sum>g\<leftarrow>gs. re_Decisions g) = int (length (effectJoin filt (tables s))) \<and>
    (\<forall>g \<in> set gs. effect_ok g \<and> (\<Sum>sel\<leftarrow>re_Selections g. sn_Jobs sel) = re_Decisions g)"
proof -
  obtain rows where rows: "effectRows filt (tables s) = Inr rows" "gs = effectResult rows"
    using query_Inr [OF assms(3) [unfolded SQLiteRoutingEffectiveness_def]] by (auto simp: bindE_def split: sum.splits)
  show ?thesis
    using effectResult_accounts [of rows] effectRows_ok [OF rows(1) assms(1,2)] rows(2) by simp
qed

definition all_routes :: RoutingEffectivenessFilter where
  "all_routes = \<lparr>ef_From = zero_time, ef_To = zero_time, ef_Route = '''', ef_Tier = '''', ef_Provider = '''',
     ef_Repository = '''', ef_Workflow = ''''\<rparr>"

theorem routing_report_accounts_witness:
  "(\<Sum>g\<leftarrow>(case fst (SQLiteRoutingEffectiveness all_routes routed_store) of Inr gs \<Rightarrow> gs | Inl _ \<Rightarrow> []). re_Decisions g) =
     int (length (effectJoin all_routes (tables routed_store))) \<and>
   length (effectJoin all_routes (tables routed_store)) = 1"
proof
  obtain gs s' where g: "SQLiteRoutingEffectiveness all_routes routed_store = (Inr gs, s')"
  proof -
    have "\<not> is_err (fst (SQLiteRoutingEffectiveness all_routes routed_store))" by code_simp
    then show thesis using that by (cases "SQLiteRoutingEffectiveness all_routes routed_store") (auto dest: not_err_Inr)
  qed
  have "tables_ok (tables routed_store)" "int64_costs (tables routed_store)" by code_simp+
  then show "(\<Sum>g\<leftarrow>(case fst (SQLiteRoutingEffectiveness all_routes routed_store) of Inr gs \<Rightarrow> gs | Inl _ \<Rightarrow> []). re_Decisions g) =
     int (length (effectJoin all_routes (tables routed_store)))"
    using routing_report_accounts [OF _ _ g] g by simp
  show "length (effectJoin all_routes (tables routed_store)) = 1" by code_simp
qed

subsection \<open>The dashboard and the tiers agree\<close>

lemma find_key_Some:
  "distinct (map f xs) \<Longrightarrow> find (\<lambda>x. f x = k) xs = Some y \<longleftrightarrow> y \<in> set xs \<and> f y = k"
  by (induction xs) (auto simp: image_iff)

text \<open>
  C14. The queue the dashboard shows is the queue the tiers work on: with tables that keep the schema and
  decisions that name a tier once assigned, the jobs shown as assigned to a tier are exactly the jobs
  \<open>PendingRoutedJobs\<close> hands to that tier at the same moment, each shown once.
\<close>

theorem queue_agrees_with_tiers:
  assumes "tables_ok (tables s)" "\<forall>r \<in> set (t_decisions (tables s)). d_State r = RoutingAssigned \<longrightarrow> d_SelectedTier r \<noteq> ''''"
    and "PendingRoutedJobs tier now s = (Inr js, s1)" "QueueSnapshot now s = (Inr qs, s2)"
  shows "rj_JobID ` set js = qj_ID ` {q \<in> set qs. qj_RoutingState q = RoutingAssigned \<and> qj_Tier q = tier} \<and>
         distinct (map qj_ID qs)"
proof
  let ?d = "tables s"
  let ?dec = "\<lambda>j. find (\<lambda>r. d_JobID r = j_ID j) (t_decisions ?d)"
  have D: "distinct (map d_JobID (t_decisions ?d))" "distinct (map j_ID (t_jobs ?d))"
    using assms(1) by (simp_all add: tables_ok_def decisions_ok_def jobs_ok_def)
  have dec: "?dec j = Some r \<longleftrightarrow> r \<in> set (t_decisions ?d) \<and> d_JobID r = j_ID j" for j r
    using D(1) by (rule find_key_Some)
  have named: "?dec j = Some r \<Longrightarrow> d_State r = RoutingAssigned \<Longrightarrow> d_SelectedTier r \<noteq> ''''" for j r
    using assms(2) dec by blast
  let ?sel = "filter (\<lambda>j. queueWhere now j (?dec j)) (t_jobs ?d)"
  have qs: "qs = map (\<lambda>j. queueJob j (?dec j)) (sort_key (\<lambda>j. (j_FirstSeenAt j, j_ID j)) ?sel)"
    using query_Inr [OF assms(4) [unfolded QueueSnapshot_def]] by simp
  have "map qj_ID qs = map j_ID (sort_key (\<lambda>j. (j_FirstSeenAt j, j_ID j)) ?sel)" by (simp add: qs queueJob_def)
  then show "distinct (map qj_ID qs)" using D(2) by (simp add: distinct_map_filter)
  let ?P = "\<lambda>r. d_State r = RoutingAssigned \<and> d_SelectedTier r = tier \<and> \<not> is_zero (d_ExpiresAt r) \<and> now < d_ExpiresAt r \<and>
              jobObserved (d_JobID r) ?d"
  have js: "rj_JobID ` set js = d_JobID ` {r \<in> set (t_decisions ?d). ?P r}"
    using query_Inr [OF assms(3) [unfolded PendingRoutedJobs_def]] by force
  have shown: "qj_RoutingState (queueJob j (?dec j)) = RoutingAssigned \<and> qj_Tier (queueJob j (?dec j)) = tier \<longleftrightarrow>
      (\<exists>r. ?dec j = Some r \<and> d_State r = RoutingAssigned \<and> d_SelectedTier r = tier)" for j
    using named [of j] by (cases "?dec j") (auto simp: queueJob_def coalesceStr_def)
  have "qj_ID ` {q \<in> set qs. qj_RoutingState q = RoutingAssigned \<and> qj_Tier q = tier} =
        (\<lambda>j. qj_ID (queueJob j (?dec j))) `
          {j \<in> set ?sel. \<exists>r. ?dec j = Some r \<and> d_State r = RoutingAssigned \<and> d_SelectedTier r = tier}"
    unfolding qs shown [symmetric] by auto
  also have "\<dots> = j_ID ` {j \<in> set ?sel. \<exists>r. ?dec j = Some r \<and> d_State r = RoutingAssigned \<and> d_SelectedTier r = tier}"
    by (simp add: queueJob_def)
  also have "\<dots> = d_JobID ` {r \<in> set (t_decisions ?d). ?P r}"
  proof (intro equalityI subsetI)
    fix i assume "i \<in> j_ID ` {j \<in> set ?sel. \<exists>r. ?dec j = Some r \<and> d_State r = RoutingAssigned \<and> d_SelectedTier r = tier}"
    then obtain j r where j: "i = j_ID j" "j \<in> set (t_jobs ?d)" "queueWhere now j (?dec j)" "?dec j = Some r"
      "d_State r = RoutingAssigned" "d_SelectedTier r = tier" by auto
    then have r: "r \<in> set (t_decisions ?d)" "d_JobID r = i" using j(1) dec [of j r] by simp_all
    have "jobObserved (d_JobID r) ?d" using j(1-3) r(2) by (auto simp: jobObserved_def queueWhere_def)
    then have "?P r" using j(3-6) by (simp add: queueWhere_def)
    with r show "i \<in> d_JobID ` {r \<in> set (t_decisions ?d). ?P r}" by blast
  next
    fix i assume "i \<in> d_JobID ` {r \<in> set (t_decisions ?d). ?P r}"
    then obtain r where r: "r \<in> set (t_decisions ?d)" "d_JobID r = i" "?P r" by blast
    then obtain j where j: "j \<in> set (t_jobs ?d)" "j_ID j = i" "is_zero (j_CompletedAt j)" "j_Status j = JobObserved"
      unfolding jobObserved_def by blast
    have "?dec j = Some r" unfolding dec using r(1,2) j(2) by simp
    then have "j \<in> set ?sel" using j r by (simp add: queueWhere_def)
    then show "i \<in> j_ID ` {j \<in> set ?sel. \<exists>r. ?dec j = Some r \<and> d_State r = RoutingAssigned \<and> d_SelectedTier r = tier}"
      using j(2) r(3) \<open>?dec j = Some r\<close> by blast
  qed
  finally show "rj_JobID ` set js = qj_ID ` {q \<in> set qs. qj_RoutingState q = RoutingAssigned \<and> qj_Tier q = tier}"
    by (simp only: js)
qed

definition waiting_store :: SQLite where
  "waiting_store = runRoutings [(30, Observe sample_observation), (31, Assign (sample_assignment ''small'') [sample_candidate])]
     (snd (UpsertJob 15 (sample_job\<lparr>j_Status := JobObserved, j_CompletedAt := zero_time\<rparr>) sample_store))"

theorem queue_agrees_with_tiers_witness:
  "rj_JobID ` set (case fst (PendingRoutedJobs ''small'' 40 waiting_store) of Inr js \<Rightarrow> js | Inl _ \<Rightarrow> []) =
     qj_ID ` {q \<in> set (case fst (QueueSnapshot 40 waiting_store) of Inr qs \<Rightarrow> qs | Inl _ \<Rightarrow> []).
       qj_RoutingState q = RoutingAssigned \<and> qj_Tier q = ''small''} \<and>
   map rj_JobID (case fst (PendingRoutedJobs ''small'' 40 waiting_store) of Inr js \<Rightarrow> js | Inl _ \<Rightarrow> []) = [1]"
proof
  have "\<not> is_err (fst (PendingRoutedJobs ''small'' 40 waiting_store))" "\<not> is_err (fst (QueueSnapshot 40 waiting_store))"
    by code_simp+
  then obtain js s1 qs s2 where q: "PendingRoutedJobs ''small'' 40 waiting_store = (Inr js, s1)"
    "QueueSnapshot 40 waiting_store = (Inr qs, s2)"
    by (metis not_err_Inr prod.collapse)
  have "tables_ok (tables waiting_store)" by code_simp
  moreover have "\<forall>r \<in> set (t_decisions (tables waiting_store)). d_State r = RoutingAssigned \<longrightarrow> d_SelectedTier r \<noteq> ''''" by code_simp
  ultimately show "rj_JobID ` set (case fst (PendingRoutedJobs ''small'' 40 waiting_store) of Inr js \<Rightarrow> js | Inl _ \<Rightarrow> []) =
     qj_ID ` {q \<in> set (case fst (QueueSnapshot 40 waiting_store) of Inr qs \<Rightarrow> qs | Inl _ \<Rightarrow> []).
       qj_RoutingState q = RoutingAssigned \<and> qj_Tier q = ''small''}"
    using queue_agrees_with_tiers [OF _ _ q] by (simp add: q)
  show "map rj_JobID (case fst (PendingRoutedJobs ''small'' 40 waiting_store) of Inr js \<Rightarrow> js | Inl _ \<Rightarrow> []) = [1]" by code_simp
qed

end
