(* ===== verification/Job_Statistics.thy ===== *)
theory Job_Statistics
  imports Cost_Reports Routing_Effect
begin

text \<open>
  The aggregation of src/internal/storage/statistics.go: which jobs, costs and phases a report reads, how running
  resources and stored images are projected, and how rows become groups, fleet costs and fleet timings.
  \<open>now\<close> is the one reading of \<open>time.Now()\<close> a report makes. A \<open>LEFT JOIN\<close> is an option; tier, provider and the
  other joined columns are \<open>NOT NULL\<close>, so that \<open>COALESCE\<close> takes the first row that exists. Amounts are summed with the
  wrap-around of int64, counters of rows are unbounded.
\<close>

subsection \<open>Data\<close>

record StatisticsKey =
  sk_Source :: string
  sk_RepositoryID :: int
  sk_Repository :: string
  sk_Workflow :: string
  sk_Tier :: string
  sk_Provider :: string
  sk_Day :: string

record DurationSummary =
  ds_Count :: int
  ds_Total :: duration
  ds_Min :: duration
  ds_Max :: duration
  ds_P50 :: duration
  ds_P95 :: duration

record CostTotal =
  ct_Kind :: CostKind
  ct_Currency :: string
  ct_Nanos :: int
  ct_Entries :: int
  ct_UnknownEntries :: int
  ct_Estimated :: bool

record StatisticsGroup =
  sg_Key :: StatisticsKey
  sg_Jobs :: int
  sg_Completed :: int
  sg_Succeeded :: int
  sg_Failed :: int
  sg_Cancelled :: int
  sg_Skipped :: int
  sg_InfraFailed :: int
  sg_Interrupted :: int
  sg_InProgress :: int
  sg_PricedJobs :: int
  sg_UnpricedJobs :: int
  sg_QueueDuration :: DurationSummary
  sg_DispatchDuration :: DurationSummary
  sg_RunDuration :: DurationSummary
  sg_DirectCosts :: "CostTotal list"

record FleetCostTotal =
  fc_Tier :: string
  fc_Provider :: string
  fc_Day :: string
  fc_Kind :: CostKind
  fc_Currency :: string
  fc_Nanos :: int
  fc_Entries :: int
  fc_UnknownEntries :: int
  fc_Estimated :: bool

record FleetTimingTotal =
  ft_Tier :: string
  ft_Provider :: string
  ft_Day :: string
  ft_Kind :: PhaseKind
  ft_Duration :: DurationSummary

record StatisticsReport =
  sr_Groups :: "StatisticsGroup list"
  sr_FleetCosts :: "FleetCostTotal list"
  sr_FleetTimings :: "FleetTimingTotal list"
  sr_Routing :: "RoutingEffectiveness list"

record statisticsAccumulator =
  sa_group :: StatisticsGroup
  sa_queue :: "duration list"
  sa_dispatch :: "duration list"
  sa_run :: "duration list"
  sa_directCosts :: "(string \<times> CostTotal) list"
  sa_jobIDs :: "int list"

fun costKindText :: "CostKind \<Rightarrow> string" where
  "costKindText CostUnset = ''''"
| "costKindText CostDirectCompute = ''direct_compute''"
| "costKindText CostBilledCompute = ''billed_compute''"
| "costKindText CostBoot = ''boot''"
| "costKindText CostWarmIdle = ''warm_idle''"
| "costKindText CostReset = ''reset''"
| "costKindText CostBillingOverhead = ''billing_overhead''"
| "costKindText CostImageBuilder = ''image_builder''"
| "costKindText CostSnapshotStorage = ''snapshot_storage''"

fun phaseKindText :: "PhaseKind \<Rightarrow> string" where
  "phaseKindText PhaseUnset = ''''"
| "phaseKindText PhaseProvisioning = ''provisioning''"
| "phaseKindText PhaseReadyIdle = ''ready_idle''"
| "phaseKindText PhaseJob = ''job''"
| "phaseKindText PhaseReset = ''reset''"
| "phaseKindText PhaseRemoving = ''removing''"
| "phaseKindText PhaseImageBuild = ''image_build''"

subsection \<open>Dates\<close>

text \<open>\<open>Format("2006-01-02")\<close> of the UTC date, for the years 0 to 9999: int64 nanoseconds span the years 1677 to 2262.\<close>

definition padZero :: "nat \<Rightarrow> string \<Rightarrow> string" where
  "padZero width s = replicate (width - length s) (CHR ''0'') @ s"

fun month_of :: "int \<Rightarrow> nat \<Rightarrow> nat \<Rightarrow> int \<Rightarrow> int \<Rightarrow> nat \<times> int" where
  "month_of y m 0 start d = (m, start)"
| "month_of y m (Suc k) start d =
     (if d < start + days_in_month y m then (m, start) else month_of y (Suc m) k (start + days_in_month y m) d)"

text \<open>Evaluation prints integers by integer division.\<close>

function printInt :: "int \<Rightarrow> string" where
  "printInt i = (if i < 10 then [char_of (48 + i)] else printInt (i div 10) @ [char_of (48 + i mod 10)])"
  by pat_completeness auto
termination by (relation "measure nat") auto

declare printInt.simps [simp del]

lemma formatNat_printInt: "formatNat n = printInt (int n)"
proof (induction n rule: formatNat.induct)
  case (1 n)
  have digit: "char_of (48 + int d) = (char_of (48 + d) :: char)" for d
    using char_of_nat [where 'a = int, of "48 + d"] by (simp only: of_nat_add of_nat_numeral)
  show ?case
  proof (cases "n < 10")
    case True
    then show ?thesis by (simp add: formatNat.simps [of n] printInt.simps [of "int n"] digit)
  next
    case False
    then have "formatNat n = printInt (int (n div 10)) @ [char_of (48 + int (n mod 10))]"
      using 1 [OF False] digit [of "n mod 10"] by (simp only: formatNat.simps [of n] if_False)
    also have "\<dots> = printInt (int n)"
      using False by (simp only: printInt.simps [of "int n"] zdiv_int zmod_int of_nat_numeral) simp
    finally show ?thesis .
  qed
qed

lemma formatInt_code [code]: "formatInt i = (if i < 0 then CHR ''-'' # printInt (- i) else printInt i)"
  by (simp add: formatInt_def formatNat_printInt)

definition formatDay :: "instant \<Rightarrow> string" where
  "formatDay t =
     (let d = t div ns_per_day + days_to_epoch;
          y = year_of_day d;
          (m, first) = month_of y 0 12 (days_before_year y) d
      in padZero 4 (formatInt y) @ ''-'' @ padZero 2 (formatNat (m + 1)) @ ''-'' @ padZero 2 (formatInt (d - first + 1)))"

definition nul :: char where "nul = CHR 0x00"

subsection \<open>Queries\<close>

definition joinRow :: "('r \<Rightarrow> int) \<Rightarrow> int \<Rightarrow> 'r list \<Rightarrow> 'r option" where
  "joinRow idOf i rows = (if i = 0 then None else find (\<lambda>r. idOf r = i) rows)"

text \<open>\<open>EXISTS (SELECT 1 FROM routing_decisions d WHERE d.job_id = \<dots> AND d.route = ?)\<close>\<close>

definition routedThrough :: "string \<Rightarrow> int \<Rightarrow> Tables \<Rightarrow> bool" where
  "routedThrough route jobID d = list_ex (\<lambda>r. d_JobID r = jobID \<and> d_Route r = route) (t_decisions d)"

definition statisticsJobs :: "StatisticsFilter \<Rightarrow> SQLite \<Rightarrow> Job list result \<times> SQLite" where
  "statisticsJobs filt = query (\<lambda>d. Inr (sort_key j_ID (filter (\<lambda>j.
     jobWhere (st_From filt) (st_To filt) (st_Tier filt) (st_Provider filt) (st_Repository filt) (st_Workflow filt) JobUnset j \<and>
     (j_Status j \<noteq> JobObserved \<or> \<not> is_zero (j_DispatchedAt j) \<or> \<not> is_zero (j_RunnerStartedAt j) \<or> \<not> is_zero (j_CompletedAt j)) \<and>
     (st_Route filt = '''' \<or> routedThrough (st_Route filt) (j_ID j) d)) (t_jobs d))))"

text \<open>The filters on repository, workflow and route that costs and phases share; a missing job satisfies none of them.\<close>

definition jobFilters :: "StatisticsFilter \<Rightarrow> int \<Rightarrow> Job option \<Rightarrow> Tables \<Rightarrow> bool" where
  "jobFilters filt jobID job d \<longleftrightarrow>
     (st_Repository filt = '''' \<or> (case job of None \<Rightarrow> False | Some j \<Rightarrow> j_Repository j = st_Repository filt)) \<and>
     (st_Workflow filt = '''' \<or> (case job of None \<Rightarrow> False | Some j \<Rightarrow>
        j_Workflow j = st_Workflow filt \<or> j_WorkflowFile j = st_Workflow filt \<or>
        (j_WorkflowFile j = '''' \<and> j_JobName j = st_Workflow filt))) \<and>
     (st_Route filt = '''' \<or> jobID \<noteq> 0 \<and> routedThrough (st_Route filt) jobID d)"

definition joinedCost :: "Tables \<Rightarrow> CostEntry \<Rightarrow> costRow" where
  "joinedCost d c =
     (let r = joinRow r_ID (c_ResourceID c) (t_resources d);
          s = joinRow s_ID (c_SnapshotID c) (t_snapshots d);
          j = joinRow j_ID (c_JobID c) (t_jobs d)
      in \<lparr>cr_entry = c\<lparr>c_Nanos := (if c_Known c then c_Nanos c else 0)\<rparr>,
          cr_tier = (case r of Some r \<Rightarrow> r_Tier r | None \<Rightarrow> case s of Some s \<Rightarrow> s_Tier s | None \<Rightarrow>
                       case j of Some j \<Rightarrow> j_Tier j | None \<Rightarrow> ''''),
          cr_provider = (case r of Some r \<Rightarrow> r_Provider r | None \<Rightarrow> case s of Some s \<Rightarrow> s_Provider s | None \<Rightarrow>
                       case j of Some j \<Rightarrow> j_Provider j | None \<Rightarrow> ''''),
          cr_repository = (case j of Some j \<Rightarrow> j_Repository j | None \<Rightarrow> ''''),
          cr_workflow = (case j of Some j \<Rightarrow> j_Workflow j | None \<Rightarrow> ''''),
          cr_workflowFile = (case j of Some j \<Rightarrow> j_WorkflowFile j | None \<Rightarrow> ''''),
          cr_jobName = (case j of Some j \<Rightarrow> j_JobName j | None \<Rightarrow> '''')\<rparr>)"

definition costWhere :: "StatisticsFilter \<Rightarrow> Tables \<Rightarrow> CostEntry \<Rightarrow> bool" where
  "costWhere filt d c \<longleftrightarrow>
     (is_zero (st_From filt) \<or> st_From filt \<le> c_EndedAt c) \<and> (is_zero (st_To filt) \<or> c_StartedAt c < st_To filt) \<and>
     (st_Tier filt = '''' \<or> cr_tier (joinedCost d c) = st_Tier filt) \<and>
     (st_Provider filt = '''' \<or> cr_provider (joinedCost d c) = st_Provider filt) \<and>
     jobFilters filt (c_JobID c) (joinRow j_ID (c_JobID c) (t_jobs d)) d"

definition historicalRows :: "StatisticsFilter \<Rightarrow> Tables \<Rightarrow> costRow list" where
  "historicalRows filt d = map (joinedCost d) (sort_key c_ID (filter (costWhere filt d) (t_costs d)))"

definition statisticsCosts :: "StatisticsFilter \<Rightarrow> SQLite \<Rightarrow> costRow list result \<times> SQLite" where
  "statisticsCosts filt = query (\<lambda>d. Inr (historicalRows filt d))"

definition plainRow :: "CostEntry \<Rightarrow> string \<Rightarrow> string \<Rightarrow> costRow" where
  "plainRow e tier provider = \<lparr>cr_entry = e, cr_tier = tier, cr_provider = provider, cr_repository = '''',
     cr_workflow = '''', cr_workflowFile = '''', cr_jobName = ''''\<rparr>"

definition reportEnd :: "StatisticsFilter \<Rightarrow> instant \<Rightarrow> instant" where
  "reportEnd filt now = (if \<not> is_zero (st_To filt) \<and> st_To filt < now then st_To filt else now)"

definition activeResource :: "StatisticsFilter \<Rightarrow> Tables \<Rightarrow> Resource \<Rightarrow> bool" where
  "activeResource filt d r \<longleftrightarrow> is_zero (r_ClosedAt r) \<and> \<not> is_zero (r_ProviderCreatedAt r) \<and>
     r_State r \<notin> {ResourceClosed, ResourceFailed, ResourceVanished} \<and>
     \<not> list_ex (\<lambda>c. c_ResourceID c = r_ID r \<and> c_Kind c = CostBilledCompute) (t_costs d) \<and>
     (st_Tier filt = '''' \<or> r_Tier r = st_Tier filt) \<and> (st_Provider filt = '''' \<or> r_Provider r = st_Provider filt)"

definition projectResource :: "StatisticsFilter \<Rightarrow> instant \<Rightarrow> Tables \<Rightarrow> Resource \<Rightarrow> costRow list" where
  "projectResource filt now d r =
     (let start = r_ProviderCreatedAt r; projectionEnd = reportEnd filt now
      in if \<not> start < projectionEnd then []
         else
           let quote = joinRow q_ID (r_PriceQuoteID r) (t_quotes d);
               base = \<lparr>c_ID = 0, c_ResourceID = r_ID r, c_SnapshotID = 0, c_JobID = 0, c_PriceQuoteID = r_PriceQuoteID r,
                       c_Kind = CostBilledCompute, c_Currency = '''', c_Nanos = 0, c_Known = False, c_Estimated = True,
                       c_StartedAt = start, c_EndedAt = projectionEnd, c_RecordedAt = now\<rparr>
           in case quote of
                None \<Rightarrow> [plainRow base (r_Tier r) (r_Provider r)]
              | Some q \<Rightarrow>
                  map (\<lambda>seg. plainRow (base\<lparr>c_Currency := q_Currency q, c_Known := True, c_StartedAt := bs_start seg,
                                 c_EndedAt := bs_end seg, c_Nanos := bs_nanos seg\<rparr>) (r_Tier r) (r_Provider r))
                    (projectedBillingSegments q start projectionEnd))"

definition resourceRows :: "StatisticsFilter \<Rightarrow> instant \<Rightarrow> Tables \<Rightarrow> costRow list" where
  "resourceRows filt now d =
     concat (map (projectResource filt now d) (sort_key r_ID (filter (activeResource filt d) (t_resources d))))"

text \<open>Projections belong to no job: a report restricted to jobs of a repository, workflow or route has none.\<close>

definition jobScoped :: "StatisticsFilter \<Rightarrow> bool" where
  "jobScoped filt \<longleftrightarrow> st_Repository filt \<noteq> '''' \<or> st_Workflow filt \<noteq> '''' \<or> st_Route filt \<noteq> ''''"

definition activeResourceCosts :: "StatisticsFilter \<Rightarrow> instant \<Rightarrow> SQLite \<Rightarrow> costRow list result \<times> SQLite" where
  "activeResourceCosts filt now s =
     (if jobScoped filt then (Inr [], s) else query (\<lambda>d. Inr (resourceRows filt now d)) s)"

text \<open>The quote of an image: that of the resource it was built on, otherwise the provider's latest.\<close>

definition latestProviderQuote :: "string \<Rightarrow> Tables \<Rightarrow> PriceQuote option" where
  "latestProviderQuote provider d =
     (case rev (sort_key (\<lambda>q. (q_ObservedAt q, q_ID q)) (filter (\<lambda>q. q_Provider q = provider) (t_quotes d))) of
        [] \<Rightarrow> None | q # _ \<Rightarrow> Some q)"

definition snapshotQuote :: "Snapshot \<Rightarrow> Tables \<Rightarrow> PriceQuote option" where
  "snapshotQuote s d =
     (case joinRow r_ID (s_SourceResourceID s) (t_resources d) of
        Some r \<Rightarrow> if r_PriceQuoteID r \<noteq> 0 then joinRow q_ID (r_PriceQuoteID r) (t_quotes d) else latestProviderQuote (s_Provider s) d
      | None \<Rightarrow> latestProviderQuote (s_Provider s) d)"

definition projectSnapshot :: "StatisticsFilter \<Rightarrow> instant \<Rightarrow> Tables \<Rightarrow> Snapshot \<Rightarrow> costRow list" where
  "projectSnapshot filt now d s =
     (let start = (if is_zero (s_CompletedAt s) then s_CreatedAt s else s_CompletedAt s);
          stop = reportEnd filt now
      in if \<not> start < stop then []
         else
           let quote = snapshotQuote s d;
               e = \<lparr>c_ID = 0, c_ResourceID = 0, c_SnapshotID = s_ID s, c_JobID = 0,
                    c_PriceQuoteID = (case quote of None \<Rightarrow> 0 | Some q \<Rightarrow> q_ID q),
                    c_Kind = CostSnapshotStorage, c_Currency = (case quote of None \<Rightarrow> '''' | Some q \<Rightarrow> q_Currency q), c_Nanos = 0,
                    c_Known = (quote \<noteq> None \<and> s_SizeBytes s > 0), c_Estimated = True,
                    c_StartedAt = start, c_EndedAt = stop, c_RecordedAt = now\<rparr>;
               e = (if c_Known e
                    then e\<lparr>c_Nanos := snapshotStorageNanos (case quote of None \<Rightarrow> 0 | Some q \<Rightarrow> q_SnapshotGBMonthNanos q)
                                        (s_SizeBytes s) (time_sub stop start)\<rparr>
                    else e\<lparr>c_Currency := ''''\<rparr>)
           in [plainRow e (s_Tier s) (s_Provider s)])"

definition snapshotRows :: "StatisticsFilter \<Rightarrow> instant \<Rightarrow> Tables \<Rightarrow> costRow list" where
  "snapshotRows filt now d =
     concat (map (projectSnapshot filt now d) (sort_key s_ID (filter (\<lambda>s.
       s_State s \<in> {SnapshotActive, SnapshotStale, SnapshotDeleting} \<and>
       (st_Tier filt = '''' \<or> s_Tier s = st_Tier filt) \<and>
       (st_Provider filt = '''' \<or> s_Provider s = st_Provider filt)) (t_snapshots d))))"

definition activeSnapshotCosts :: "StatisticsFilter \<Rightarrow> instant \<Rightarrow> SQLite \<Rightarrow> costRow list result \<times> SQLite" where
  "activeSnapshotCosts filt now s =
     (if jobScoped filt then (Inr [], s) else query (\<lambda>d. Inr (snapshotRows filt now d)) s)"

definition reportPhase :: "StatisticsFilter \<Rightarrow> instant \<Rightarrow> Tables \<Rightarrow> Phase \<Rightarrow> phaseRow list" where
  "reportPhase filt now d p =
     (case joinRow r_ID (p_ResourceID p) (t_resources d) of
        None \<Rightarrow> []
      | Some r \<Rightarrow>
          if (is_zero (st_From filt) \<or> is_zero (p_EndedAt p) \<or> st_From filt \<le> p_EndedAt p) \<and>
             (is_zero (st_To filt) \<or> p_StartedAt p < st_To filt) \<and>
             (st_Tier filt = '''' \<or> r_Tier r = st_Tier filt) \<and> (st_Provider filt = '''' \<or> r_Provider r = st_Provider filt) \<and>
             jobFilters filt (p_JobID p) (joinRow j_ID (p_JobID p) (t_jobs d)) d
          then [\<lparr>pr_kind = p_Kind p, pr_tier = r_Tier r, pr_provider = r_Provider r, pr_startedAt = p_StartedAt p,
                 pr_endedAt = (if is_zero (p_EndedAt p) then reportEnd filt now else p_EndedAt p)\<rparr>]
          else [])"

definition statisticsPhases :: "StatisticsFilter \<Rightarrow> instant \<Rightarrow> SQLite \<Rightarrow> phaseRow list result \<times> SQLite" where
  "statisticsPhases filt now = query (\<lambda>d. Inr (splitPhaseRowsByUTCDay
     (concat (map (reportPhase filt now d) (sort_key p_ID (t_phases d)))) filt))"

subsection \<open>Groups of jobs\<close>

definition interval :: "instant \<Rightarrow> instant \<Rightarrow> duration \<times> bool" where
  "interval start stop =
     (if is_zero start \<or> is_zero stop \<or> stop < start then (0, False) else (time_sub stop start, True))"

definition addDuration :: "duration \<times> bool \<Rightarrow> duration list \<Rightarrow> duration list" where
  "addDuration = (\<lambda>(v, ok) values. if ok then values @ [v] else values)"

definition nearestRank_report :: "duration list \<Rightarrow> nat \<Rightarrow> duration" where
  "nearestRank_report values percentile = values ! (max ((percentile * length values + 99) div 100) 1 - 1)"

definition noDurations :: DurationSummary where
  "noDurations = \<lparr>ds_Count = 0, ds_Total = 0, ds_Min = 0, ds_Max = 0, ds_P50 = 0, ds_P95 = 0\<rparr>"

definition summarizeDurations :: "duration list \<Rightarrow> DurationSummary" where
  "summarizeDurations values =
     (if values = [] then noDurations
      else let values = sort values
           in \<lparr>ds_Count = int (length values), ds_Total = fold (\<lambda>v acc. wrap64 (acc + v)) values 0,
               ds_Min = values ! 0, ds_Max = values ! (length values - 1),
               ds_P50 = nearestRank_report values 50, ds_P95 = nearestRank_report values 95\<rparr>)"

definition emptyKey :: StatisticsKey where
  "emptyKey = \<lparr>sk_Source = '''', sk_RepositoryID = 0, sk_Repository = '''', sk_Workflow = '''', sk_Tier = '''',
     sk_Provider = '''', sk_Day = ''''\<rparr>"

definition workflowIdentity :: "Job \<Rightarrow> string" where
  "workflowIdentity j =
     (if j_WorkflowFile j \<noteq> '''' then j_WorkflowFile j
      else if j_Workflow j \<noteq> '''' then j_Workflow j else j_JobName j)"

definition statisticsKey :: "Job \<Rightarrow> StatisticsGroupBy \<Rightarrow> StatisticsKey" where
  "statisticsKey j groupBy =
     (case groupBy of
        GroupWorkflow \<Rightarrow> emptyKey\<lparr>sk_Source := j_Source j, sk_RepositoryID := j_RepositoryID j,
                           sk_Repository := j_Repository j, sk_Workflow := workflowIdentity j\<rparr>
      | GroupTier \<Rightarrow> emptyKey\<lparr>sk_Tier := j_Tier j\<rparr>
      | GroupProvider \<Rightarrow> emptyKey\<lparr>sk_Provider := j_Provider j\<rparr>
      | GroupDay \<Rightarrow> emptyKey\<lparr>sk_Day := formatDay (j_FirstSeenAt j)\<rparr>
      | _ \<Rightarrow> emptyKey)"

text \<open>\<open>%020d\<close>: the sign counts for the width.\<close>

definition pad20 :: "int \<Rightarrow> string" where
  "pad20 i = (if i < 0 then CHR ''-'' # padZero 19 (formatNat (nat (- i))) else padZero 20 (formatNat (nat i)))"

definition encodeStatisticsKey :: "StatisticsKey \<Rightarrow> string" where
  "encodeStatisticsKey k = joinWith nul [sk_Source k, pad20 (sk_RepositoryID k), sk_Repository k, sk_Workflow k,
     sk_Tier k, sk_Provider k, sk_Day k]"

definition newGroup :: "StatisticsKey \<Rightarrow> StatisticsGroup" where
  "newGroup k = \<lparr>sg_Key = k, sg_Jobs = 0, sg_Completed = 0, sg_Succeeded = 0, sg_Failed = 0, sg_Cancelled = 0, sg_Skipped = 0,
     sg_InfraFailed = 0, sg_Interrupted = 0, sg_InProgress = 0, sg_PricedJobs = 0, sg_UnpricedJobs = 0,
     sg_QueueDuration = noDurations, sg_DispatchDuration = noDurations, sg_RunDuration = noDurations, sg_DirectCosts = []\<rparr>"

definition newAccumulator :: "StatisticsKey \<Rightarrow> statisticsAccumulator" where
  "newAccumulator k = \<lparr>sa_group = newGroup k, sa_queue = [], sa_dispatch = [], sa_run = [], sa_directCosts = [], sa_jobIDs = []\<rparr>"

fun countStatus :: "JobStatus \<Rightarrow> StatisticsGroup \<Rightarrow> StatisticsGroup" where
  "countStatus JobSucceeded g = g\<lparr>sg_Completed := sg_Completed g + 1, sg_Succeeded := sg_Succeeded g + 1\<rparr>"
| "countStatus JobFailed g = g\<lparr>sg_Completed := sg_Completed g + 1, sg_Failed := sg_Failed g + 1\<rparr>"
| "countStatus JobCancelled g = g\<lparr>sg_Completed := sg_Completed g + 1, sg_Cancelled := sg_Cancelled g + 1\<rparr>"
| "countStatus JobSkipped g = g\<lparr>sg_Completed := sg_Completed g + 1, sg_Skipped := sg_Skipped g + 1\<rparr>"
| "countStatus JobInfraFailed g = g\<lparr>sg_Completed := sg_Completed g + 1, sg_InfraFailed := sg_InfraFailed g + 1\<rparr>"
| "countStatus JobInterrupted g = g\<lparr>sg_Completed := sg_Completed g + 1, sg_Interrupted := sg_Interrupted g + 1\<rparr>"
| "countStatus JobObserved g = g\<lparr>sg_InProgress := sg_InProgress g + 1\<rparr>"
| "countStatus JobAssigned g = g\<lparr>sg_InProgress := sg_InProgress g + 1\<rparr>"
| "countStatus JobRunning g = g\<lparr>sg_InProgress := sg_InProgress g + 1\<rparr>"
| "countStatus JobUnset g = g"

definition accumulateJob :: "Job \<Rightarrow> statisticsAccumulator \<Rightarrow> statisticsAccumulator" where
  "accumulateJob j a =
     a\<lparr>sa_group := countStatus (j_Status j) ((sa_group a)\<lparr>sg_Jobs := sg_Jobs (sa_group a) + 1\<rparr>),
       sa_queue := addDuration (interval (j_QueuedAt j) (j_DispatchedAt j)) (sa_queue a),
       sa_dispatch := addDuration (interval (j_DispatchedAt j) (j_RunnerStartedAt j)) (sa_dispatch a),
       sa_run := addDuration (interval (j_RunnerStartedAt j) (j_RunnerFinishedAt j)) (sa_run a)\<rparr>"

definition groupKey :: "StatisticsFilter \<Rightarrow> Job \<Rightarrow> string" where
  "groupKey filt j = encodeStatisticsKey (statisticsKey j (st_GroupBy filt))"

definition addJob :: "Job \<Rightarrow> statisticsAccumulator \<Rightarrow> statisticsAccumulator" where
  "addJob j a = (let a = accumulateJob j a in a\<lparr>sa_jobIDs := sa_jobIDs a @ [j_ID j]\<rparr>)"

definition groupJobs :: "StatisticsFilter \<Rightarrow> Job list \<Rightarrow> (string \<times> statisticsAccumulator) list" where
  "groupJobs filt jobs =
     groupRows (groupKey filt) (\<lambda>j. newAccumulator (statisticsKey j (st_GroupBy filt))) addJob jobs"

text \<open>\<open>jobGroup\<close>: the group of a job number; a later assignment replaces an earlier one.\<close>

definition jobGroup :: "StatisticsFilter \<Rightarrow> Job list \<Rightarrow> int \<Rightarrow> string option" where
  "jobGroup filt jobs = map_of (rev (map (\<lambda>j. (j_ID j, groupKey filt j)) jobs))"

subsection \<open>Direct costs\<close>

definition accumulateCost :: "CostEntry \<Rightarrow> (string \<times> CostTotal) list \<Rightarrow> (string \<times> CostTotal) list" where
  "accumulateCost e =
     mapUpsert (costKindText (c_Kind e) @ nul # c_Currency e)
       \<lparr>ct_Kind = c_Kind e, ct_Currency = c_Currency e, ct_Nanos = 0, ct_Entries = 0, ct_UnknownEntries = 0, ct_Estimated = False\<rparr>
       (\<lambda>t. let t = t\<lparr>ct_Entries := ct_Entries t + 1\<rparr>;
                t = (if c_Known e then t\<lparr>ct_Nanos := wrap64 (ct_Nanos t + c_Nanos e)\<rparr>
                     else t\<lparr>ct_UnknownEntries := ct_UnknownEntries t + 1\<rparr>)
            in t\<lparr>ct_Estimated := (ct_Estimated t \<or> c_Estimated e)\<rparr>)"

definition sortedCostTotals :: "(string \<times> CostTotal) list \<Rightarrow> CostTotal list" where
  "sortedCostTotals totals = sort_key (\<lambda>t. costKindText (ct_Kind t) @ nul # ct_Currency t) (map snd totals)"

record coverage =
  cv_known :: bool
  cv_unknown :: bool

definition noCoverage :: coverage where
  "noCoverage = \<lparr>cv_known = False, cv_unknown = False\<rparr>"

definition addDirectCost ::
  "StatisticsFilter \<Rightarrow> (int \<Rightarrow> string option) \<Rightarrow> costRow \<Rightarrow>
   (string \<times> statisticsAccumulator) list \<times> (int \<times> coverage) list \<Rightarrow>
   (string \<times> statisticsAccumulator) list \<times> (int \<times> coverage) list" where
  "addDirectCost filt groupOf row = (\<lambda>(groups, cov).
     let e = cr_entry row in
     if c_JobID e = 0 \<or> c_Kind e \<noteq> CostDirectCompute then (groups, cov)
     else case clipCostRow row filt of
       None \<Rightarrow> (groups, cov)
     | Some clipped \<Rightarrow>
         (case groupOf (c_JobID e) of
            None \<Rightarrow> (groups, cov)
          | Some k \<Rightarrow>
              (map (\<lambda>(k', a). (k', if k' = k then a\<lparr>sa_directCosts := accumulateCost (cr_entry clipped) (sa_directCosts a)\<rparr> else a)) groups,
               mapUpsert (c_JobID e) noCoverage
                 (\<lambda>c. if c_Known e then c\<lparr>cv_known := True\<rparr> else c\<lparr>cv_unknown := True\<rparr>) cov)))"

definition coverageOf :: "(int \<times> coverage) list \<Rightarrow> int \<Rightarrow> coverage" where
  "coverageOf cov i = (case map_of cov i of None \<Rightarrow> noCoverage | Some c \<Rightarrow> c)"

definition priced :: "(int \<times> coverage) list \<Rightarrow> int \<Rightarrow> bool" where
  "priced cov i \<longleftrightarrow> cv_known (coverageOf cov i) \<and> \<not> cv_unknown (coverageOf cov i)"

definition finishGroup :: "(int \<times> coverage) list \<Rightarrow> statisticsAccumulator \<Rightarrow> StatisticsGroup" where
  "finishGroup cov a =
     (let g = fold (\<lambda>i g. if priced cov i then g\<lparr>sg_PricedJobs := sg_PricedJobs g + 1\<rparr>
                          else g\<lparr>sg_UnpricedJobs := sg_UnpricedJobs g + 1\<rparr>) (sa_jobIDs a) (sa_group a)
      in g\<lparr>sg_QueueDuration := summarizeDurations (sa_queue a), sg_DispatchDuration := summarizeDurations (sa_dispatch a),
           sg_RunDuration := summarizeDurations (sa_run a), sg_DirectCosts := sortedCostTotals (sa_directCosts a)\<rparr>)"

definition statisticsGroups :: "StatisticsFilter \<Rightarrow> Job list \<Rightarrow> costRow list \<Rightarrow> StatisticsGroup list" where
  "statisticsGroups filt jobs historicalCosts =
     (let (groups, cov) = fold (addDirectCost filt (jobGroup filt jobs)) historicalCosts (groupJobs filt jobs, [])
      in sort_key (\<lambda>g. encodeStatisticsKey (sg_Key g)) (map (\<lambda>(k, a). finishGroup cov a) groups))"

subsection \<open>Fleet totals\<close>

definition fleetKey :: "costRow \<Rightarrow> string" where
  "fleetKey row = joinWith nul [cr_tier row, cr_provider row, formatDay (c_StartedAt (cr_entry row)),
     costKindText (c_Kind (cr_entry row)), c_Currency (cr_entry row)]"

definition newFleetTotal :: "costRow \<Rightarrow> FleetCostTotal" where
  "newFleetTotal row = \<lparr>fc_Tier = cr_tier row, fc_Provider = cr_provider row, fc_Day = formatDay (c_StartedAt (cr_entry row)),
     fc_Kind = c_Kind (cr_entry row), fc_Currency = c_Currency (cr_entry row), fc_Nanos = 0, fc_Entries = 0,
     fc_UnknownEntries = 0, fc_Estimated = False\<rparr>"

definition addFleetCost :: "costRow \<Rightarrow> FleetCostTotal \<Rightarrow> FleetCostTotal" where
  "addFleetCost row t =
     (let e = cr_entry row;
          t = t\<lparr>fc_Entries := fc_Entries t + 1\<rparr>;
          t = (if c_Known e then t\<lparr>fc_Nanos := wrap64 (fc_Nanos t + c_Nanos e)\<rparr>
               else t\<lparr>fc_UnknownEntries := fc_UnknownEntries t + 1\<rparr>)
      in t\<lparr>fc_Estimated := (fc_Estimated t \<or> c_Estimated e)\<rparr>)"

definition fleetCosts :: "costRow list \<Rightarrow> FleetCostTotal list" where
  "fleetCosts rows =
     sort_key (\<lambda>t. joinWith nul [fc_Day t, fc_Provider t, fc_Tier t, costKindText (fc_Kind t), fc_Currency t])
       (map snd (groupRows fleetKey newFleetTotal addFleetCost rows))"

text \<open>The parts of a fleet timing are read back from its key; a text that is no phase becomes \<open>PhaseUnset\<close>.\<close>

definition phaseKindOf :: "string \<Rightarrow> PhaseKind" where
  "phaseKindOf text =
     (case find (\<lambda>k. phaseKindText k = text)
        [PhaseProvisioning, PhaseReadyIdle, PhaseJob, PhaseReset, PhaseRemoving, PhaseImageBuild] of
        None \<Rightarrow> PhaseUnset | Some k \<Rightarrow> k)"

definition timingKey :: "phaseRow \<Rightarrow> string" where
  "timingKey p = joinWith nul [pr_tier p, pr_provider p, formatDay (pr_startedAt p), phaseKindText (pr_kind p)]"

definition fleetTimings :: "phaseRow list \<Rightarrow> FleetTimingTotal list" where
  "fleetTimings phases =
     sort_key (\<lambda>t. joinWith nul [ft_Day t, ft_Provider t, ft_Tier t, phaseKindText (ft_Kind t)])
       (map (\<lambda>(encoded, values).
          let parts = splitOn nul encoded
          in \<lparr>ft_Tier = parts ! 0, ft_Provider = parts ! 1, ft_Day = parts ! 2, ft_Kind = phaseKindOf (parts ! 3),
              ft_Duration = summarizeDurations values\<rparr>)
         (groupRows timingKey (\<lambda>_. []) (\<lambda>p. addDuration (interval (pr_startedAt p) (pr_endedAt p))) phases))"

subsection \<open>The report\<close>

definition supportedGrouping :: "StatisticsFilter \<Rightarrow> StatisticsFilter result" where
  "supportedGrouping filt =
     (let filt = (if st_GroupBy filt = GroupUnset then filt\<lparr>st_GroupBy := GroupNone\<rparr> else filt)
      in case st_GroupBy filt of
           GroupOther g \<Rightarrow> Inl (ErrMsg (''unsupported statistics grouping '' @ goQuote g))
         | _ \<Rightarrow> Inr filt)"

definition routingFilter :: "StatisticsFilter \<Rightarrow> RoutingEffectivenessFilter" where
  "routingFilter filt = \<lparr>ef_From = st_From filt, ef_To = st_To filt, ef_Route = st_Route filt, ef_Tier = st_Tier filt,
     ef_Provider = st_Provider filt, ef_Repository = st_Repository filt, ef_Workflow = st_Workflow filt\<rparr>"

definition SQLiteStatistics :: "instant \<Rightarrow> StatisticsFilter \<Rightarrow> SQLite \<Rightarrow> StatisticsReport result \<times> SQLite" where
  "SQLiteStatistics now filt =
     (case supportedGrouping filt of
        Inl e \<Rightarrow> failR e
      | Inr filt \<Rightarrow>
          bindR (statisticsJobs filt) (\<lambda>jobs.
          bindR (statisticsCosts filt) (\<lambda>historicalCosts.
          bindR (activeResourceCosts filt now) (\<lambda>resourceCosts.
          bindR (activeSnapshotCosts filt now) (\<lambda>snapshotCosts.
          bindR (statisticsPhases filt now) (\<lambda>phases.
          bindR (SQLiteRoutingEffectiveness (routingFilter filt)) (\<lambda>routing.
          returnR
            \<lparr>sr_Groups = statisticsGroups filt jobs historicalCosts,
             sr_FleetCosts = fleetCosts (splitCostRowsByUTCDay (historicalCosts @ resourceCosts @ snapshotCosts) filt),
             sr_FleetTimings = fleetTimings phases,
             sr_Routing = routing\<rparr>)))))))"

subsection \<open>What a report reads\<close>

definition reportCosts :: "StatisticsFilter \<Rightarrow> instant \<Rightarrow> Tables \<Rightarrow> costRow list" where
  "reportCosts filt now d =
     historicalRows filt d @ (if jobScoped filt then [] else resourceRows filt now d @ snapshotRows filt now d)"

definition reportJobs :: "StatisticsFilter \<Rightarrow> Tables \<Rightarrow> Job list" where
  "reportJobs filt d = sort_key j_ID (filter (\<lambda>j.
     jobWhere (st_From filt) (st_To filt) (st_Tier filt) (st_Provider filt) (st_Repository filt) (st_Workflow filt) JobUnset j \<and>
     (j_Status j \<noteq> JobObserved \<or> \<not> is_zero (j_DispatchedAt j) \<or> \<not> is_zero (j_RunnerStartedAt j) \<or> \<not> is_zero (j_CompletedAt j)) \<and>
     (st_Route filt = '''' \<or> routedThrough (st_Route filt) (j_ID j) d)) (t_jobs d))"

lemma SQLiteStatistics_Inr:
  assumes "SQLiteStatistics now filt s = (Inr rep, s')"
  obtains g filt' where "supportedGrouping filt = Inr filt'" "filt' = filt\<lparr>st_GroupBy := g\<rparr>" "tables s' = tables s"
    "sr_Groups rep = statisticsGroups filt' (reportJobs filt' (tables s)) (historicalRows filt' (tables s))"
    "sr_FleetCosts rep = fleetCosts (splitCostRowsByUTCDay (reportCosts filt' now (tables s)) filt')"
proof -
  obtain filt' where f: "supportedGrouping filt = Inr filt'"
    using assms by (cases "supportedGrouping filt") (auto simp: SQLiteStatistics_def failR_def)
  obtain jobs s1 hist s2 res s3 snap s4 ph s5 routing s6 where
    r: "statisticsJobs filt' s = (Inr jobs, s1)" "statisticsCosts filt' s1 = (Inr hist, s2)"
    "activeResourceCosts filt' now s2 = (Inr res, s3)" "activeSnapshotCosts filt' now s3 = (Inr snap, s4)"
    "statisticsPhases filt' now s4 = (Inr ph, s5)" "SQLiteRoutingEffectiveness (routingFilter filt') s5 = (Inr routing, s6)"
    and rep: "s' = s6" "sr_Groups rep = statisticsGroups filt' jobs hist"
    "sr_FleetCosts rep = fleetCosts (splitCostRowsByUTCDay (hist @ res @ snap) filt')"
    using assms f by (auto simp: SQLiteStatistics_def bindR_Inr returnR_def)
  have j: "jobs = reportJobs filt' (tables s)" "tables s1 = tables s"
    using query_Inr [OF r(1) [unfolded statisticsJobs_def]] by (simp_all add: reportJobs_def)
  have h: "hist = historicalRows filt' (tables s)" "tables s2 = tables s"
    using query_Inr [OF r(2) [unfolded statisticsCosts_def]] j(2) by simp_all
  have a: "res = (if jobScoped filt' then [] else resourceRows filt' now (tables s))" "tables s3 = tables s"
    using r(3) h(2) by (auto simp: activeResourceCosts_def split: if_splits dest!: query_Inr)
  have b: "snap = (if jobScoped filt' then [] else snapshotRows filt' now (tables s))" "tables s4 = tables s"
    using r(4) a(2) by (auto simp: activeSnapshotCosts_def split: if_splits dest!: query_Inr)
  have t: "tables s' = tables s"
    using b(2) query_Inr [OF r(5) [unfolded statisticsPhases_def]]
      query_Inr [OF r(6) [unfolded SQLiteRoutingEffectiveness_def]] rep(1) by simp
  have g: "filt' = filt\<lparr>st_GroupBy := st_GroupBy filt'\<rparr>"
    using f by (auto simp: supportedGrouping_def Let_def split: if_splits StatisticsGroupBy.splits)
  show thesis
  proof (rule that [OF f g t])
    show "sr_Groups rep = statisticsGroups filt' (reportJobs filt' (tables s)) (historicalRows filt' (tables s))"
      using rep(2) j(1) h(1) by simp
    show "sr_FleetCosts rep = fleetCosts (splitCostRowsByUTCDay (reportCosts filt' now (tables s)) filt')"
      using rep(3) h(1) a(1) b(1) by (simp add: reportCosts_def)
  qed
qed

text \<open>The rows of a report do not depend on its grouping.\<close>

lemma grouping_irrelevant [simp]:
  "reportCosts (filt\<lparr>st_GroupBy := g\<rparr>) now d = reportCosts filt now d"
  "reportJobs (filt\<lparr>st_GroupBy := g\<rparr>) d = reportJobs filt d"
  "clippedNanos (filt\<lparr>st_GroupBy := g\<rparr>) row = clippedNanos filt row"
proof -
  have clip: "clipReportInterval s e (filt\<lparr>st_GroupBy := g\<rparr>) = clipReportInterval s e filt" for s e
    by (simp add: clipReportInterval_def Let_def)
  have c: "costWhere (filt\<lparr>st_GroupBy := g\<rparr>) d = costWhere filt d" for d
    by (simp add: fun_eq_iff costWhere_def jobFilters_def cong: option.case_cong)
  have r: "projectResource (filt\<lparr>st_GroupBy := g\<rparr>) now d = projectResource filt now d"
    "activeResource (filt\<lparr>st_GroupBy := g\<rparr>) d = activeResource filt d"
    "projectSnapshot (filt\<lparr>st_GroupBy := g\<rparr>) now d = projectSnapshot filt now d"
    by (simp_all add: fun_eq_iff projectResource_def activeResource_def projectSnapshot_def reportEnd_def)
  show "reportCosts (filt\<lparr>st_GroupBy := g\<rparr>) now d = reportCosts filt now d"
    by (simp add: reportCosts_def historicalRows_def resourceRows_def snapshotRows_def jobScoped_def c r)
  show "reportJobs (filt\<lparr>st_GroupBy := g\<rparr>) d = reportJobs filt d" by (simp add: reportJobs_def)
  show "clippedNanos (filt\<lparr>st_GroupBy := g\<rparr>) row = clippedNanos filt row"
    unfolding clippedNanos_def clipCostRow_def clip ..
qed

subsection \<open>The fleet's costs\<close>

interpretation fleet: accumulator fleetKey newFleetTotal addFleetCost .

definition knownNanos :: "costRow \<Rightarrow> int" where
  "knownNanos row = (if c_Known (cr_entry row) then c_Nanos (cr_entry row) else 0)"

definition costs_of :: "CostKind \<Rightarrow> string \<Rightarrow> costRow \<Rightarrow> bool" where
  "costs_of k cur row \<longleftrightarrow> c_Kind (cr_entry row) = k \<and> c_Currency (cr_entry row) = cur"

lemma costKindText_nul: "nul \<notin> set (costKindText k)"
  by (cases k) (simp_all add: nul_def)

lemma costKindText_inj: "costKindText k = costKindText k' \<Longrightarrow> k = k'"
  by (cases k; cases k') simp_all

lemma fleetKey_kind:
  assumes "fleetKey x = fleetKey y" "nul \<notin> set (c_Currency (cr_entry x))" "nul \<notin> set (c_Currency (cr_entry y))"
  shows "c_Kind (cr_entry x) = c_Kind (cr_entry y)" "c_Currency (cr_entry x) = c_Currency (cr_entry y)"
proof -
  define hd3 where "hd3 row = cr_tier row @ nul # cr_provider row @ nul # formatDay (c_StartedAt (cr_entry row))" for row :: costRow
  have k: "fleetKey row = (hd3 row @ nul # costKindText (c_Kind (cr_entry row))) @ nul # c_Currency (cr_entry row)" for row
    by (simp add: fleetKey_def hd3_def)
  have "cutLast nul (fleetKey row) = Some (hd3 row @ nul # costKindText (c_Kind (cr_entry row)), c_Currency (cr_entry row))"
    if "nul \<notin> set (c_Currency (cr_entry row))" for row
    unfolding k using that by (rule cutLast_append(1))
  then have e: "hd3 x @ nul # costKindText (c_Kind (cr_entry x)) = hd3 y @ nul # costKindText (c_Kind (cr_entry y))"
    "c_Currency (cr_entry x) = c_Currency (cr_entry y)"
    using assms by (metis option.inject prod.inject)+
  have "cutLast nul (hd3 row @ nul # costKindText (c_Kind (cr_entry row))) = Some (hd3 row, costKindText (c_Kind (cr_entry row)))" for row
    by (rule cutLast_append(1) [OF costKindText_nul])
  then show "c_Kind (cr_entry x) = c_Kind (cr_entry y)" using e(1) by (metis costKindText_inj option.inject prod.inject)
  show "c_Currency (cr_entry x) = c_Currency (cr_entry y)" by (rule e(2))
qed

lemma addFleetCost_sel [simp]:
  "fc_Kind (addFleetCost row t) = fc_Kind t" "fc_Currency (addFleetCost row t) = fc_Currency t"
  by (simp_all add: addFleetCost_def Let_def)

lemma fold_addFleetCost_sel [simp]:
  "fc_Kind (fold addFleetCost rows t) = fc_Kind t" "fc_Currency (fold addFleetCost rows t) = fc_Currency t"
  by (induction rows arbitrary: t) simp_all

lemma fold_addFleetCost_nanos:
  assumes "\<forall>row \<in> set rows. 0 \<le> knownNanos row" "0 \<le> fc_Nanos t" "fc_Nanos t + (\<Sum>row\<leftarrow>rows. knownNanos row) \<le> max_int64"
  shows "fc_Nanos (fold addFleetCost rows t) = fc_Nanos t + (\<Sum>row\<leftarrow>rows. knownNanos row)"
  using assms
proof (induction rows arbitrary: t)
  case (Cons row rows)
  have nn: "0 \<le> (\<Sum>row\<leftarrow>rows. knownNanos row)" using Cons.prems(1) by (intro sum_list_nonneg) auto
  have "fc_Nanos (addFleetCost row t) = fc_Nanos t + knownNanos row"
    using Cons.prems nn by (auto simp: addFleetCost_def Let_def knownNanos_def intro!: wrap64_id simp: in_int64_nonneg)
  then show ?case using Cons by simp
qed simp

lemma sum_list_filter_le:
  fixes w :: "'a \<Rightarrow> int"
  assumes "\<forall>x \<in> set xs. 0 \<le> w x"
  shows "(\<Sum>x\<leftarrow>filter P xs. w x) \<le> (\<Sum>x\<leftarrow>xs. w x)"
  using assms by (induction xs) auto

lemma sum_list_filter_if:
  fixes h :: "'a \<Rightarrow> int"
  shows "(\<Sum>x\<leftarrow>filter P xs. h x) = (\<Sum>x\<leftarrow>xs. if P x then h x else 0)"
  by (induction xs) auto

lemma sum_list_if_const:
  fixes h :: "'a \<Rightarrow> int"
  shows "\<forall>x \<in> set xs. P x = c \<Longrightarrow> (\<Sum>x\<leftarrow>xs. if P x then h x else 0) = (if c then \<Sum>x\<leftarrow>xs. h x else 0)"
  by (induction xs) auto

lemma filter_sort_sum:
  fixes h :: "'a \<Rightarrow> int"
  shows "(\<Sum>x\<leftarrow>filter P (sort_key f xs). h x) = (\<Sum>x\<leftarrow>filter P xs. h x)"
  unfolding sum_list_filter_if by simp

lemma fleetCosts_conserve:
  assumes "\<forall>row \<in> set rows. 0 \<le> knownNanos row \<and> nul \<notin> set (c_Currency (cr_entry row))"
    and "(\<Sum>row\<leftarrow>rows. knownNanos row) \<le> max_int64"
  shows "(\<Sum>t\<leftarrow>filter (\<lambda>t. fc_Kind t = k \<and> fc_Currency t = cur) (fleetCosts rows). fc_Nanos t) =
         (\<Sum>row\<leftarrow>filter (costs_of k cur) rows. knownNanos row)"
proof -
  have "(\<Sum>t\<leftarrow>map snd (groupRows fleetKey newFleetTotal addFleetCost rows).
           if fc_Kind t = k \<and> fc_Currency t = cur then fc_Nanos t else 0) =
        (\<Sum>row\<leftarrow>rows. if costs_of k cur row then knownNanos row else 0)"
  proof (rule fleet.total_by_group)
    fix key x xs assume xs: "filter (\<lambda>x. fleetKey x = key) rows = x # xs"
    have mem: "y \<in> set rows \<and> fleetKey y = fleetKey x" if "y \<in> set (x # xs)" for y
    proof -
      have "y \<in> set (filter (\<lambda>x. fleetKey x = key) rows)" "x \<in> set (filter (\<lambda>x. fleetKey x = key) rows)"
        using that unfolding xs by simp_all
      then show ?thesis by simp
    qed
    have same: "costs_of k cur y = costs_of k cur x" if "y \<in> set (x # xs)" for y
    proof -
      have "fleetKey y = fleetKey x" "nul \<notin> set (c_Currency (cr_entry y))" "nul \<notin> set (c_Currency (cr_entry x))"
        using mem [OF that] mem [of x] assms(1) by simp_all
      from fleetKey_kind [OF this] show ?thesis by (simp add: costs_of_def)
    qed
    have nn: "\<forall>y \<in> set (x # xs). 0 \<le> knownNanos y" using mem assms(1) by blast
    have le: "(\<Sum>y\<leftarrow>x # xs. knownNanos y) \<le> max_int64"
      using sum_list_filter_le [of rows knownNanos "\<lambda>x. fleetKey x = key"] assms unfolding xs by auto
    have z: "fc_Nanos (newFleetTotal x) = 0" by (simp add: newFleetTotal_def)
    have "fc_Nanos (fold addFleetCost (x # xs) (newFleetTotal x)) = (\<Sum>y\<leftarrow>x # xs. knownNanos y)"
      using fold_addFleetCost_nanos [OF nn, of "newFleetTotal x"] le z by simp
    moreover have "(\<Sum>y\<leftarrow>x # xs. if costs_of k cur y then knownNanos y else 0) =
        (if costs_of k cur x then \<Sum>y\<leftarrow>x # xs. knownNanos y else 0)"
      using same by (intro sum_list_if_const) blast
    moreover have "fc_Kind (newFleetTotal x) = k \<and> fc_Currency (newFleetTotal x) = cur \<longleftrightarrow> costs_of k cur x"
      by (simp add: newFleetTotal_def costs_of_def)
    ultimately show "(if fc_Kind (fold addFleetCost (x # xs) (newFleetTotal x)) = k \<and>
           fc_Currency (fold addFleetCost (x # xs) (newFleetTotal x)) = cur
        then fc_Nanos (fold addFleetCost (x # xs) (newFleetTotal x)) else 0) =
       (\<Sum>y\<leftarrow>x # xs. if costs_of k cur y then knownNanos y else 0)"
      by (simp only: fold_addFleetCost_sel)
  qed
  then show ?thesis unfolding fleetCosts_def filter_sort_sum sum_list_filter_if by simp
qed

lemma splitCostRow_known:
  assumes "cost_row_ok row"
  shows "(\<Sum>p\<leftarrow>splitCostRow filt row. knownNanos p) = (if c_Known (cr_entry row) then clippedNanos filt row else 0)"
proof -
  have "(\<Sum>p\<leftarrow>splitCostRow filt row. knownNanos p) =
        (\<Sum>p\<leftarrow>splitCostRow filt row. if c_Known (cr_entry p) then c_Nanos (cr_entry p) else 0)"
    by (simp add: knownNanos_def)
  also have "\<dots> = (if c_Known (cr_entry row) then \<Sum>p\<leftarrow>splitCostRow filt row. c_Nanos (cr_entry p) else 0)"
    using splitCostRow_keeps(1) by (intro sum_list_if_const) blast
  finally show ?thesis using splitCostRow_sum [OF assms, of filt] by simp
qed

lemma splitCostRow_of:
  assumes "cost_row_ok row"
  shows "(\<Sum>p\<leftarrow>splitCostRow filt row. if costs_of k cur p then knownNanos p else 0) =
         (if costs_of k cur row \<and> c_Known (cr_entry row) then clippedNanos filt row else 0)"
proof -
  have "\<forall>p \<in> set (splitCostRow filt row). costs_of k cur p = costs_of k cur row"
    using splitCostRow_keeps by (simp add: costs_of_def)
  from sum_list_if_const [OF this, of knownNanos] show ?thesis by (simp add: splitCostRow_known [OF assms])
qed

lemma sum_list_concat_map:
  fixes h :: "'b \<Rightarrow> int"
  shows "(\<Sum>y\<leftarrow>concat (map f xs). h y) = (\<Sum>x\<leftarrow>xs. \<Sum>y\<leftarrow>f x. h y)"
  by (induction xs) simp_all

lemma split_pieces_ok:
  assumes "\<forall>row \<in> set rows. cost_row_ok row \<and> nul \<notin> set (c_Currency (cr_entry row))"
  shows "\<forall>p \<in> set (splitCostRowsByUTCDay rows filt). 0 \<le> knownNanos p \<and> nul \<notin> set (c_Currency (cr_entry p))"
proof
  fix p assume "p \<in> set (splitCostRowsByUTCDay rows filt)"
  then obtain row where row: "row \<in> set rows" "p \<in> set (splitCostRow filt row)"
    by (auto simp: splitCostRowsByUTCDay_def)
  have "0 \<le> knownNanos p" using row assms splitCostRow_nonneg [OF _ row(2)] by (simp add: knownNanos_def)
  then show "0 \<le> knownNanos p \<and> nul \<notin> set (c_Currency (cr_entry p))"
    using row assms splitCostRow_keeps(3) [OF row(2)] by simp
qed

lemma split_total_le:
  assumes "\<forall>row \<in> set rows. cost_row_ok row"
  shows "(\<Sum>p\<leftarrow>splitCostRowsByUTCDay rows filt. knownNanos p) \<le> (\<Sum>row\<leftarrow>rows. knownNanos row)"
proof -
  have "(\<Sum>p\<leftarrow>splitCostRow filt row. knownNanos p) \<le> knownNanos row" if "row \<in> set rows" for row
    using that assms clippedNanos_bounds(2) [of row filt] splitCostRow_known [of row filt]
    by (cases "c_Known (cr_entry row)") (simp_all add: knownNanos_def [of row])
  then show ?thesis unfolding splitCostRowsByUTCDay_def sum_list_concat_map by (rule sum_list_mono)
qed

text \<open>
  C11. The fleet costs of a report conserve money: for every cost kind and currency, the totals of all tiers,
  providers and days add up exactly to the amounts of the known ledger entries and projections the report
  selects, each clipped to the report's window. Nothing is lost by cutting at midnight, counted twice between
  history and projection, or mixed across currencies; the only conditions are that currencies have no NUL
  character and that the amounts together fit 64 bits.
\<close>

theorem fleet_report_conserves:
  assumes "SQLiteStatistics now filt s = (Inr rep, s')"
    and "\<forall>row \<in> set (reportCosts filt now (tables s)). cost_row_ok row \<and> nul \<notin> set (c_Currency (cr_entry row))"
    and "(\<Sum>row\<leftarrow>reportCosts filt now (tables s). knownNanos row) \<le> max_int64"
  shows "(\<Sum>t\<leftarrow>filter (\<lambda>t. fc_Kind t = k \<and> fc_Currency t = cur) (sr_FleetCosts rep). fc_Nanos t) =
         (\<Sum>row\<leftarrow>filter (\<lambda>row. costs_of k cur row \<and> c_Known (cr_entry row)) (reportCosts filt now (tables s)).
            clippedNanos filt row)"
proof -
  let ?rows = "reportCosts filt now (tables s)"
  obtain g filt' where f: "filt' = filt\<lparr>st_GroupBy := g\<rparr>"
    and rep: "sr_FleetCosts rep = fleetCosts (splitCostRowsByUTCDay (reportCosts filt' now (tables s)) filt')"
    by (rule SQLiteStatistics_Inr [OF assms(1)])
  have "(\<Sum>t\<leftarrow>filter (\<lambda>t. fc_Kind t = k \<and> fc_Currency t = cur) (sr_FleetCosts rep). fc_Nanos t) =
        (\<Sum>p\<leftarrow>filter (costs_of k cur) (splitCostRowsByUTCDay ?rows filt'). knownNanos p)"
    unfolding rep using split_pieces_ok [OF assms(2)] split_total_le [of ?rows filt'] assms(2,3)
    by (subst fleetCosts_conserve) (auto simp: f)
  also have "\<dots> = (\<Sum>row\<leftarrow>?rows. if costs_of k cur row \<and> c_Known (cr_entry row) then clippedNanos filt' row else 0)"
    unfolding sum_list_filter_if splitCostRowsByUTCDay_def sum_list_concat_map
    using assms(2) by (intro arg_cong [where f = sum_list] map_cong refl splitCostRow_of) blast
  also have "clippedNanos filt' = clippedNanos filt" by (simp add: f fun_eq_iff)
  finally show ?thesis unfolding sum_list_filter_if .
qed

subsection \<open>Groups of jobs\<close>

interpretation jobs: additive_accumulator "groupKey filt" "\<lambda>j. newAccumulator (statisticsKey j (st_GroupBy filt))" addJob
  "\<lambda>a. sg_Jobs (sa_group a)" "\<lambda>_. 1" for filt
proof
  show "sg_Jobs (sa_group (newAccumulator (statisticsKey x (st_GroupBy filt)))) = 0" for x
    by (simp add: newAccumulator_def newGroup_def)
  show "sg_Jobs (sa_group (addJob x v)) = sg_Jobs (sa_group v) + 1" for x v
    by (cases "j_Status x") (simp_all add: addJob_def accumulateJob_def Let_def)
qed

definition status_counts_ok :: "StatisticsGroup \<Rightarrow> bool" where
  "status_counts_ok g \<longleftrightarrow> sg_Jobs g = sg_Completed g + sg_InProgress g \<and>
     sg_Completed g = sg_Succeeded g + sg_Failed g + sg_Cancelled g + sg_Skipped g + sg_InfraFailed g + sg_Interrupted g"

definition accumulator_ok :: "statisticsAccumulator \<Rightarrow> bool" where
  "accumulator_ok a \<longleftrightarrow> status_counts_ok (sa_group a) \<and> sg_Jobs (sa_group a) = int (length (sa_jobIDs a)) \<and>
     sg_PricedJobs (sa_group a) = 0 \<and> sg_UnpricedJobs (sa_group a) = 0"

lemma addJob_ok:
  assumes "accumulator_ok a" "j_Status j \<noteq> JobUnset"
  shows "accumulator_ok (addJob j a)" "sg_Key (sa_group (addJob j a)) = sg_Key (sa_group a)"
  using assms
  by (cases "j_Status j"; simp add: accumulator_ok_def status_counts_ok_def addJob_def accumulateJob_def Let_def)+

lemma fold_addJob_ok:
  assumes "accumulator_ok a" "\<forall>j \<in> set js. j_Status j \<noteq> JobUnset"
  shows "accumulator_ok (fold addJob js a) \<and> sg_Key (sa_group (fold addJob js a)) = sg_Key (sa_group a)"
  using assms by (induction js arbitrary: a) (simp_all add: addJob_ok)

lemma groupJobs_ok:
  assumes "\<forall>j \<in> set js. j_Status j \<noteq> JobUnset" "(k, a) \<in> set (groupJobs filt js)"
  shows "accumulator_ok a" "encodeStatisticsKey (sg_Key (sa_group a)) = k"
    "sg_Jobs (sa_group a) = int (length (filter (\<lambda>j. groupKey filt j = k) js))"
proof -
  obtain x xs where x: "filter (\<lambda>j. groupKey filt j = k) js = x # xs"
    "a = fold addJob (x # xs) (newAccumulator (statisticsKey x (st_GroupBy filt)))"
    using assms(2) unfolding groupJobs_def by (rule jobs.groups_memE)
  have mem: "x \<in> set (filter (\<lambda>j. groupKey filt j = k) js)" unfolding x(1) by simp
  have "\<forall>j \<in> set (x # xs). j_Status j \<noteq> JobUnset" using assms(1) unfolding x(1) [symmetric] by simp
  then have "accumulator_ok a \<and> sg_Key (sa_group a) = statisticsKey x (st_GroupBy filt)"
    using fold_addJob_ok [of "newAccumulator (statisticsKey x (st_GroupBy filt))" "x # xs"] unfolding x(2)
    by (simp add: accumulator_ok_def status_counts_ok_def newAccumulator_def newGroup_def)
  then show "accumulator_ok a" "encodeStatisticsKey (sg_Key (sa_group a)) = k"
    using mem by (simp_all add: groupKey_def)
  show "sg_Jobs (sa_group a) = int (length (filter (\<lambda>j. groupKey filt j = k) js))"
    using jobs.entry_adds [OF assms(2) [unfolded groupJobs_def]] by (simp add: sum_list_triv)
qed

text \<open>Direct costs change neither the counters nor the jobs of a group.\<close>

definition group_parts :: "(string \<times> statisticsAccumulator) list \<Rightarrow> (string \<times> StatisticsGroup \<times> int list) list" where
  "group_parts groups = map (\<lambda>(k, a). (k, sa_group a, sa_jobIDs a)) groups"

lemma addDirectCost_parts: "group_parts (fst (addDirectCost filt groupOf row gc)) = group_parts (fst gc)"
  by (simp add: addDirectCost_def group_parts_def case_prod_unfold Let_def o_def split: option.split)

lemma fold_addDirectCost_parts:
  "group_parts (fst (fold (addDirectCost filt groupOf) rows gc)) = group_parts (fst gc)"
  by (induction rows arbitrary: gc) (simp_all add: addDirectCost_parts)

definition group_ok :: "StatisticsGroup \<Rightarrow> bool" where
  "group_ok g \<longleftrightarrow> status_counts_ok g \<and> sg_Jobs g = sg_PricedJobs g + sg_UnpricedJobs g"

definition countPriced :: "(int \<times> coverage) list \<Rightarrow> int \<Rightarrow> StatisticsGroup \<Rightarrow> StatisticsGroup" where
  "countPriced cov i g = (if priced cov i then g\<lparr>sg_PricedJobs := sg_PricedJobs g + 1\<rparr>
     else g\<lparr>sg_UnpricedJobs := sg_UnpricedJobs g + 1\<rparr>)"

lemma fold_countPriced:
  "sg_PricedJobs (fold (countPriced cov) is g) + sg_UnpricedJobs (fold (countPriced cov) is g) =
     sg_PricedJobs g + sg_UnpricedJobs g + int (length is) \<and>
   status_counts_ok (fold (countPriced cov) is g) = status_counts_ok g \<and>
   sg_Jobs (fold (countPriced cov) is g) = sg_Jobs g \<and> sg_Key (fold (countPriced cov) is g) = sg_Key g"
proof (induction "is" arbitrary: g)
  case (Cons i "is")
  have "sg_PricedJobs (countPriced cov i g) + sg_UnpricedJobs (countPriced cov i g) = sg_PricedJobs g + sg_UnpricedJobs g + 1"
    "status_counts_ok (countPriced cov i g) = status_counts_ok g" "sg_Jobs (countPriced cov i g) = sg_Jobs g"
    "sg_Key (countPriced cov i g) = sg_Key g"
    by (simp_all add: countPriced_def status_counts_ok_def)
  then show ?case using Cons [of "countPriced cov i g"] by simp
qed simp

lemma finishGroup_ok:
  assumes "accumulator_ok a"
  shows "group_ok (finishGroup cov a)" "sg_Jobs (finishGroup cov a) = sg_Jobs (sa_group a)"
    "sg_Key (finishGroup cov a) = sg_Key (sa_group a)"
proof -
  note F = fold_countPriced [of cov "sa_jobIDs a" "sa_group a"]
  have f: "finishGroup cov a = (fold (countPriced cov) (sa_jobIDs a) (sa_group a))\<lparr>
      sg_QueueDuration := summarizeDurations (sa_queue a), sg_DispatchDuration := summarizeDurations (sa_dispatch a),
      sg_RunDuration := summarizeDurations (sa_run a), sg_DirectCosts := sortedCostTotals (sa_directCosts a)\<rparr>"
    by (simp add: finishGroup_def countPriced_def [abs_def] Let_def)
  show "sg_Jobs (finishGroup cov a) = sg_Jobs (sa_group a)" "sg_Key (finishGroup cov a) = sg_Key (sa_group a)"
    using F by (simp_all add: f)
  show "group_ok (finishGroup cov a)"
    using F assms by (simp add: f group_ok_def accumulator_ok_def status_counts_ok_def)
qed

lemma statisticsGroups_account:
  assumes "\<forall>j \<in> set js. j_Status j \<noteq> JobUnset"
  shows "(\<Sum>g\<leftarrow>statisticsGroups filt js hist. sg_Jobs g) = int (length js)"
    "\<forall>g \<in> set (statisticsGroups filt js hist). group_ok g \<and>
       sg_Jobs g = int (length (filter (\<lambda>j. groupKey filt j = encodeStatisticsKey (sg_Key g)) js))"
proof -
  obtain groups cov where gc: "fold (addDirectCost filt (jobGroup filt js)) hist (groupJobs filt js, []) = (groups, cov)"
    by fastforce
  have parts: "group_parts groups = group_parts (groupJobs filt js)"
    using fold_addDirectCost_parts [of filt "jobGroup filt js" hist "(groupJobs filt js, [])"] by (simp add: gc)
  have groups: "\<exists>a'. (k, a') \<in> set (groupJobs filt js) \<and> sa_group a = sa_group a' \<and> sa_jobIDs a = sa_jobIDs a'"
    if "(k, a) \<in> set groups" for k a
  proof -
    have "(k, sa_group a, sa_jobIDs a) \<in> set (group_parts groups)"
      unfolding group_parts_def using that by (force simp: image_iff)
    then show ?thesis unfolding parts by (auto simp: group_parts_def)
  qed
  have ok: "accumulator_ok a" "encodeStatisticsKey (sg_Key (sa_group a)) = k"
    "sg_Jobs (sa_group a) = int (length (filter (\<lambda>j. groupKey filt j = k) js))" if "(k, a) \<in> set groups" for k a
    using groups [OF that] groupJobs_ok [OF assms] by (auto simp: accumulator_ok_def)
  have sg: "statisticsGroups filt js hist =
      sort_key (\<lambda>g. encodeStatisticsKey (sg_Key g)) (map (\<lambda>(k, a). finishGroup cov a) groups)"
    by (simp add: statisticsGroups_def gc)
  have "(\<Sum>g\<leftarrow>statisticsGroups filt js hist. sg_Jobs g) = (\<Sum>(k, a)\<leftarrow>groups. sg_Jobs (finishGroup cov a))"
    by (simp add: sg o_def case_prod_unfold)
  also have "\<dots> = (\<Sum>(k, a)\<leftarrow>groups. sg_Jobs (sa_group a))"
    using finishGroup_ok(2) ok(1) by (intro arg_cong [where f = sum_list] map_cong) auto
  also have "\<dots> = (\<Sum>(k, g, is)\<leftarrow>group_parts groups. sg_Jobs g)"
    by (simp add: group_parts_def o_def case_prod_unfold)
  also have "\<dots> = (\<Sum>a\<leftarrow>map snd (groupJobs filt js). sg_Jobs (sa_group a))"
    unfolding parts by (simp add: group_parts_def o_def case_prod_unfold)
  also have "\<dots> = int (length js)" unfolding groupJobs_def jobs.total_adds by (simp add: sum_list_triv)
  finally show "(\<Sum>g\<leftarrow>statisticsGroups filt js hist. sg_Jobs g) = int (length js)" .
  show "\<forall>g \<in> set (statisticsGroups filt js hist). group_ok g \<and>
       sg_Jobs g = int (length (filter (\<lambda>j. groupKey filt j = encodeStatisticsKey (sg_Key g)) js))"
  proof
    fix g assume "g \<in> set (statisticsGroups filt js hist)"
    then obtain k a where a: "(k, a) \<in> set groups" "g = finishGroup cov a" by (auto simp: sg)
    show "group_ok g \<and> sg_Jobs g = int (length (filter (\<lambda>j. groupKey filt j = encodeStatisticsKey (sg_Key g)) js))"
      using ok [OF a(1)] finishGroup_ok [of a cov] by (simp add: a(2))
  qed
qed

lemma groupKey_grouping:
  assumes "supportedGrouping filt = Inr filt'"
  shows "groupKey filt' = groupKey filt"
  using assms
  by (auto simp: fun_eq_iff groupKey_def supportedGrouping_def statisticsKey_def Let_def
      split: if_splits StatisticsGroupBy.splits)

text \<open>
  C13. The groups of a report account for its jobs: every job the filter selects is counted in exactly the group
  of its key, so the groups' job counts add up to the number of selected jobs; in every group the jobs are
  the completed and the unfinished ones, the completed ones are the six outcomes, and every job is counted
  either as priced or as unpriced.
\<close>

theorem groups_report_accounts:
  assumes "SQLiteStatistics now filt s = (Inr rep, s')" "\<forall>j \<in> set (t_jobs (tables s)). j_Status j \<noteq> JobUnset"
  shows "(\<Sum>g\<leftarrow>sr_Groups rep. sg_Jobs g) = int (length (reportJobs filt (tables s))) \<and>
    (\<forall>g \<in> set (sr_Groups rep). group_ok g \<and>
       sg_Jobs g = int (length (filter (\<lambda>j. groupKey filt j = encodeStatisticsKey (sg_Key g)) (reportJobs filt (tables s)))))"
proof -
  obtain g filt' where f: "supportedGrouping filt = Inr filt'" "filt' = filt\<lparr>st_GroupBy := g\<rparr>"
    and rep: "sr_Groups rep = statisticsGroups filt' (reportJobs filt' (tables s)) (historicalRows filt' (tables s))"
    by (rule SQLiteStatistics_Inr [OF assms(1)])
  have js: "reportJobs filt' (tables s) = reportJobs filt (tables s)" by (simp add: f(2))
  have "\<forall>j \<in> set (reportJobs filt (tables s)). j_Status j \<noteq> JobUnset"
    using assms(2) by (simp add: reportJobs_def)
  from statisticsGroups_account [OF this, of filt'] show ?thesis
    unfolding rep js groupKey_grouping [OF f(1)] by blast
qed

subsection \<open>A report\<close>

definition report_tables :: Tables where
  "report_tables = sample_tables\<lparr>t_quotes := [sample_quote],
     t_resources := map (\<lambda>r. r\<lparr>r_State := ResourceActive, r_PriceQuoteID := 1, r_ProviderCreatedAt := 20 * hour\<rparr>) (t_resources sample_tables),
     t_jobs := [sample_job\<lparr>j_ID := 1\<rparr>],
     t_costs := [sample_entry\<lparr>c_JobID := 1, c_Kind := CostDirectCompute\<rparr>]\<rparr>"

definition report_store :: SQLite where
  "report_store = sample_store\<lparr>tables := report_tables\<rparr>"

lemma query_io: "io s = [] \<Longrightarrow> query f s = (f (tables s), s)"
  by (simp add: query_def draw_def)

text \<open>Without failures of the database a report is computed from the tables as they are.\<close>

lemma SQLiteStatistics_io:
  assumes "io s = []" "supportedGrouping filt = Inr filt" "effectRows (routingFilter filt) (tables s) = Inr rows"
  shows "SQLiteStatistics now filt s =
    (Inr \<lparr>sr_Groups = statisticsGroups filt (reportJobs filt (tables s)) (historicalRows filt (tables s)),
          sr_FleetCosts = fleetCosts (splitCostRowsByUTCDay (reportCosts filt now (tables s)) filt),
          sr_FleetTimings = fleetTimings (splitPhaseRowsByUTCDay
            (concat (map (reportPhase filt now (tables s)) (sort_key p_ID (t_phases (tables s))))) filt),
          sr_Routing = effectResult rows\<rparr>, s)"
proof (cases "jobScoped filt")
  case True
  then show ?thesis using assms
    by (simp add: SQLiteStatistics_def bindR_def returnR_def query_io statisticsJobs_def statisticsCosts_def
        activeResourceCosts_def activeSnapshotCosts_def statisticsPhases_def SQLiteRoutingEffectiveness_def
        reportJobs_def reportCosts_def bindE_def)
next
  case False
  then show ?thesis using assms
    by (simp add: SQLiteStatistics_def bindR_def returnR_def query_io statisticsJobs_def statisticsCosts_def
        activeResourceCosts_def activeSnapshotCosts_def statisticsPhases_def SQLiteRoutingEffectiveness_def
        reportJobs_def reportCosts_def bindE_def)
qed

abbreviation whole_report :: StatisticsFilter where
  "whole_report \<equiv> report_window zero_time zero_time"

lemma report_store_report:
  obtains rep where "SQLiteStatistics (44 * hour) whole_report report_store = (Inr rep, report_store)"
    "sr_Groups rep = statisticsGroups whole_report (reportJobs whole_report report_tables) (historicalRows whole_report report_tables)"
    "sr_FleetCosts rep = fleetCosts (splitCostRowsByUTCDay (reportCosts whole_report (44 * hour) report_tables) whole_report)"
proof -
  have "supportedGrouping whole_report = Inr whole_report" by (simp add: supportedGrouping_def report_window_def)
  moreover have "effectRows (routingFilter whole_report) (tables report_store) = Inr []"
    by (simp add: report_store_def report_tables_def sample_tables_def effectRows_def effectJoin_def)
  moreover have "io report_store = []" "tables report_store = report_tables" by (simp_all add: report_store_def sample_store_def)
  ultimately show thesis using that SQLiteStatistics_io [of report_store whole_report "[]" "44 * hour"] by simp
qed

text \<open>The running resource costs 24 hours, cut into one day of 4 and one of 20.\<close>

theorem fleet_report_conserves_witness:
  "\<exists>rep s'. SQLiteStatistics (44 * hour) whole_report report_store = (Inr rep, s') \<and>
     (\<Sum>t\<leftarrow>filter (\<lambda>t. fc_Kind t = CostBilledCompute \<and> fc_Currency t = ''USD'') (sr_FleetCosts rep). fc_Nanos t) =
     (\<Sum>row\<leftarrow>filter (\<lambda>row. costs_of CostBilledCompute ''USD'' row \<and> c_Known (cr_entry row))
       (reportCosts whole_report (44 * hour) (tables report_store)). clippedNanos whole_report row) \<and>
     map (\<lambda>t. (fc_Day t, fc_Nanos t)) (filter (\<lambda>t. fc_Kind t = CostBilledCompute) (sr_FleetCosts rep)) =
       [(''1970-01-01'', 4 * 36000000), (''1970-01-02'', 20 * 36000000)]"
proof -
  obtain rep where r: "SQLiteStatistics (44 * hour) whole_report report_store = (Inr rep, report_store)"
    and fleet: "sr_FleetCosts rep = fleetCosts (splitCostRowsByUTCDay (reportCosts whole_report (44 * hour) report_tables) whole_report)"
    by (rule report_store_report)
  have "\<forall>row \<in> set (reportCosts whole_report (44 * hour) (tables report_store)).
      cost_row_ok row \<and> nul \<notin> set (c_Currency (cr_entry row))"
    "(\<Sum>row\<leftarrow>reportCosts whole_report (44 * hour) (tables report_store). knownNanos row) \<le> max_int64"
    by code_simp+
  note F = fleet_report_conserves [OF r this, of CostBilledCompute "''USD''"]
  have "map (\<lambda>t. (fc_Day t, fc_Nanos t)) (filter (\<lambda>t. fc_Kind t = CostBilledCompute)
      (fleetCosts (splitCostRowsByUTCDay (reportCosts whole_report (44 * hour) report_tables) whole_report))) =
      [(''1970-01-01'', 4 * 36000000), (''1970-01-02'', 20 * 36000000)]" by code_simp
  then show ?thesis using r F fleet by auto
qed

theorem groups_report_accounts_witness:
  "\<exists>rep s'. SQLiteStatistics (44 * hour) whole_report report_store = (Inr rep, s') \<and>
     (\<Sum>g\<leftarrow>sr_Groups rep. sg_Jobs g) = int (length (reportJobs whole_report (tables report_store))) \<and>
     map (\<lambda>g. (sg_Jobs g, sg_Succeeded g, sg_PricedJobs g)) (sr_Groups rep) = [(1, 1, 1)]"
proof -
  obtain rep where r: "SQLiteStatistics (44 * hour) whole_report report_store = (Inr rep, report_store)"
    and groups: "sr_Groups rep = statisticsGroups whole_report (reportJobs whole_report report_tables) (historicalRows whole_report report_tables)"
    by (rule report_store_report)
  have "\<forall>j \<in> set (t_jobs (tables report_store)). j_Status j \<noteq> JobUnset" by code_simp
  note G = groups_report_accounts [OF r this]
  have "map (\<lambda>g. (sg_Jobs g, sg_Succeeded g, sg_PricedJobs g))
      (statisticsGroups whole_report (reportJobs whole_report report_tables) (historicalRows whole_report report_tables)) = [(1, 1, 1)]"
    by code_simp
  then show ?thesis using r G groups by auto
qed

subsection \<open>Summaries of durations\<close>

lemma nearestRank_index:
  assumes "xs \<noteq> []" "0 < p" "p \<le> 100"
  shows "max ((p * length xs + 99) div 100) 1 - 1 < length xs"
proof -
  have "p * length xs \<le> 100 * length xs" using assms(3) by (rule mult_le_mono1)
  then have "(p * length xs + 99) div 100 \<le> length xs" by linarith
  then show ?thesis using assms(1) by (cases xs) auto
qed

text \<open>
  A duration summary describes its values: the count is their number, minimum and maximum are the
  least and the greatest value, the median and the 95th percentile are values in between in this order, and
  a share of at least that percentage of the values is no greater than the percentile.
\<close>

theorem summarizeDurations_order:
  assumes "xs \<noteq> []"
  defines "d \<equiv> summarizeDurations xs"
  shows "ds_Count d = int (length xs) \<and> ds_Min d \<le> ds_P50 d \<and> ds_P50 d \<le> ds_P95 d \<and> ds_P95 d \<le> ds_Max d \<and>
    (\<forall>v \<in> set xs. ds_Min d \<le> v \<and> v \<le> ds_Max d) \<and> {ds_Min d, ds_P50 d, ds_P95 d, ds_Max d} \<subseteq> set xs \<and>
    50 * length xs \<le> 100 * length (filter (\<lambda>v. v \<le> ds_P50 d) xs) \<and>
    95 * length xs \<le> 100 * length (filter (\<lambda>v. v \<le> ds_P95 d) xs)"
proof -
  let ?vs = "sort xs" and ?n = "length xs"
  define i where "i p = max ((p * ?n + 99) div 100) 1 - 1" for p
  have n: "?n - 1 < ?n" using assms(1) by simp
  have idx: "i 50 < ?n" "i 95 < ?n"
    using nearestRank_index [OF assms(1), of 50] nearestRank_index [OF assms(1), of 95] unfolding i_def by simp_all
  have le: "i 50 \<le> i 95" "i 95 \<le> ?n - 1"
    using idx(2) unfolding i_def by (intro diff_le_mono max.mono div_le_mono) simp_all
  have sel: "ds_Min d = ?vs ! 0" "ds_P50 d = ?vs ! i 50" "ds_P95 d = ?vs ! i 95" "ds_Max d = ?vs ! (?n - 1)" "ds_Count d = int ?n"
    using assms(1) by (simp_all add: d_def summarizeDurations_def nearestRank_report_def Let_def i_def)
  have mono: "?vs ! a \<le> ?vs ! b" if "a \<le> b" "b < ?n" for a b
    using that sorted_nth_mono [OF sorted_sort, of a b xs] by simp
  have mem: "?vs ! a \<in> set xs" if "a < ?n" for a
    using that nth_mem [of a ?vs] by simp
  have ends: "?vs ! 0 \<le> v \<and> v \<le> ?vs ! (?n - 1)" if "v \<in> set xs" for v
  proof -
    obtain a where "a < ?n" "v = ?vs ! a" using \<open>v \<in> set xs\<close> by (metis in_set_conv_nth length_sort set_sort)
    then show ?thesis using mono [of 0 a] mono [of a "?n - 1"] by simp
  qed
  have share: "p * ?n \<le> 100 * length (filter (\<lambda>v. v \<le> ?vs ! i p) xs)" if "i p < ?n" for p
  proof -
    have "i p + 1 \<le> length (filter (\<lambda>v. v \<le> ?vs ! i p) xs)"
      using sorted_count_le [of ?vs "i p"] that by (simp add: count_sort)
    moreover have "p * ?n \<le> 100 * (i p + 1)"
    proof -
      have "p * ?n \<le> 100 * ((p * ?n + 99) div 100)" by linarith
      also have "\<dots> \<le> 100 * (i p + 1)" unfolding i_def by (intro mult_le_mono2) simp
      finally show ?thesis .
    qed
    ultimately show ?thesis by (meson le_trans mult_le_mono2)
  qed
  have "?vs ! 0 \<le> ?vs ! i 50" "?vs ! i 50 \<le> ?vs ! i 95" "?vs ! i 95 \<le> ?vs ! (?n - 1)"
    using mono [OF le0 idx(1)] mono [OF le(1) idx(2)] mono [OF le(2) n] by simp_all
  moreover have "?vs ! 0 \<in> set xs" "?vs ! i 50 \<in> set xs" "?vs ! i 95 \<in> set xs" "?vs ! (?n - 1) \<in> set xs"
    using mem idx n le_less_trans [OF le0 n] by blast+
  ultimately show ?thesis unfolding sel using ends share [OF idx(1)] share [OF idx(2)] by blast
qed

theorem summarizeDurations_order_witness:
  "ds_Min (summarizeDurations [3, 1, 2]) \<le> ds_P50 (summarizeDurations [3, 1, 2]) \<and>
   ds_P50 (summarizeDurations [3, 1, 2]) = 2 \<and> ds_P95 (summarizeDurations [3, 1, 2]) = 3"
  using summarizeDurations_order [of "[3, 1, 2]"] by (intro conjI) (simp, code_simp+)

text \<open>
  The parts of one report select a workflow differently: a job with a workflow file is found under the name of its
  workflow by the job query, but not by the routing report.
\<close>

lemma workflow_filters_disagree:
  "\<exists>j. jobWhere zero_time zero_time '''' '''' '''' ''ci'' JobUnset j \<and> workflowText j \<noteq> ''ci''"
  by (rule exI [of _ "sample_job\<lparr>j_Workflow := ''ci'', j_WorkflowFile := ''.forgejo/workflows/ci.yml''\<rparr>"])
    (simp add: jobWhere_def is_zero_def workflowText_def)

end
