(* ===== verification/Base64.thy ===== *)
theory Base64
  imports Go_Strings
begin

text \<open>
  Go's \<open>encoding/base64\<close> as the sources use it: \<open>RawURLEncoding\<close> for history cursors and labels,
  \<open>StdEncoding\<close> for keys in scripts. A byte string is a \<^typ>\<open>string\<close>. The decoder reads one character at
  a time as \<open>decodeQuantum\<close> does: line breaks are skipped, the bits left over at the end are not looked
  at, and the position of the first bad character is in the error.
\<close>

subsection \<open>Encoding\<close>

definition stdAlphabet :: string where
  "stdAlphabet = ''ABCDEFGHIJKLMNOPQRSTUVWXYZabcdefghijklmnopqrstuvwxyz0123456789+/''"

definition urlAlphabet :: string where
  "urlAlphabet = ''ABCDEFGHIJKLMNOPQRSTUVWXYZabcdefghijklmnopqrstuvwxyz0123456789-_''"

definition triple :: "char \<Rightarrow> char \<Rightarrow> char \<Rightarrow> nat" where
  "triple a b c = of_char a * 65536 + of_char b * 256 + of_char c"

definition sextets :: "nat \<Rightarrow> nat list" where
  "sextets v = [v div 262144, v div 4096 mod 64, v div 64 mod 64, v mod 64]"

text \<open>A \<open>pad\<close> of \<open>None\<close> is \<open>NoPadding\<close>.\<close>

fun encodeWith :: "string \<Rightarrow> char option \<Rightarrow> string \<Rightarrow> string" where
  "encodeWith alpha pad (a # b # c # bs) = map ((!) alpha) (sextets (triple a b c)) @ encodeWith alpha pad bs"
| "encodeWith alpha pad [a, b] =
     map ((!) alpha) (take 3 (sextets (triple a b (CHR 0x00)))) @ (case pad of None \<Rightarrow> [] | Some p \<Rightarrow> [p])"
| "encodeWith alpha pad [a] =
     map ((!) alpha) (take 2 (sextets (triple a (CHR 0x00) (CHR 0x00)))) @ (case pad of None \<Rightarrow> [] | Some p \<Rightarrow> [p, p])"
| "encodeWith alpha pad [] = []"

definition rawURLEncode :: "string \<Rightarrow> string" where
  "rawURLEncode = encodeWith urlAlphabet None"

definition stdEncode :: "string \<Rightarrow> string" where
  "stdEncode = encodeWith stdAlphabet (Some (CHR ''=''))"

subsection \<open>Decoding\<close>

definition decodeMap :: "string \<Rightarrow> char \<Rightarrow> nat option" where
  "decodeMap alpha c = find (\<lambda>v. alpha ! v = c) [0..<length alpha]"

definition quantum :: "nat \<Rightarrow> nat \<Rightarrow> nat \<Rightarrow> nat \<Rightarrow> string" where
  "quantum d0 d1 d2 d3 =
     (let v = ((d0 * 64 + d1) * 64 + d2) * 64 + d3
      in [char_of (v div 65536), char_of (v div 256), char_of v])"

definition corruptInput :: "nat \<Rightarrow> 'a result" where
  "corruptInput n = failE (''illegal base64 data at input byte '' @ formatNat n)"

text \<open>\<open>n\<close> characters have been read, and \<open>buf\<close> holds the values read of the current quantum.\<close>

fun decodeRaw :: "string \<Rightarrow> nat \<Rightarrow> nat list \<Rightarrow> string \<Rightarrow> string result" where
  "decodeRaw alpha n buf [] =
     (case buf of
        [] \<Rightarrow> Inr []
      | [_] \<Rightarrow> corruptInput (n - 1)
      | [d0, d1] \<Rightarrow> Inr (take 1 (quantum d0 d1 0 0))
      | d0 # d1 # d2 # _ \<Rightarrow> Inr (take 2 (quantum d0 d1 d2 0)))"
| "decodeRaw alpha n buf (c # cs) =
     (case decodeMap alpha c of
        None \<Rightarrow> if c = CHR 0x0A \<or> c = CHR 0x0D then decodeRaw alpha (n + 1) buf cs else corruptInput n
      | Some d3 \<Rightarrow>
          (case buf of
             [d0, d1, d2] \<Rightarrow> bindE (decodeRaw alpha (n + 1) [] cs) (\<lambda>rest. Inr (quantum d0 d1 d2 d3 @ rest))
           | _ \<Rightarrow> decodeRaw alpha (n + 1) (buf @ [d3]) cs))"

definition rawURLDecode :: "string \<Rightarrow> string result" where
  "rawURLDecode = decodeRaw urlAlphabet 0 []"

subsection \<open>Round trip\<close>

lemma sextets_value:
  "((v div 262144 * 64 + v div 4096 mod 64) * 64 + v div 64 mod 64) * 64 + v mod 64 = (v :: nat)"
proof -
  have "v div 262144 = v div 4096 div 64" "v div 4096 = v div 64 div 64" by (simp_all add: div_mult2_eq [symmetric])
  then show ?thesis by (simp add: mult.commute [of _ 64] algebra_simps)
qed

lemma bytes_of_triple:
  fixes a b c :: nat
  assumes "a < 256" "b < 256" "c < 256" "v = a * 65536 + b * 256 + c"
  shows "v < 16777216" "v div 65536 = a" "v div 256 = a * 256 + b"
  using assms by (simp, (intro div_nat_eqI; simp), (intro div_nat_eqI; simp))

lemma char_of_mod_add: "(char_of (n * 256 + of_char c) :: char) = c" for n :: nat
proof -
  have "(n * 256 + of_char c) mod 256 = (of_char c :: nat)" by simp
  then show ?thesis by (metis char_of_mod_256 char_of_char)
qed

lemma triple_bytes:
  "triple a b c < 16777216" "triple a b c div 65536 = of_char a" "triple a b c div 256 = of_char a * 256 + of_char b"
  "triple a b c = (of_char a * 256 + of_char b) * 256 + of_char c"
  using bytes_of_triple [OF nat_of_char_less_256 [of a] nat_of_char_less_256 [of b] nat_of_char_less_256 [of c] refl]
  by (simp_all add: triple_def)

lemma quantum_triple:
  assumes "v = triple a b c"
  shows "quantum (v div 262144) (v div 4096 mod 64) (v div 64 mod 64) (v mod 64) = [a, b, c]"
proof -
  have "char_of (triple a b c) = c" unfolding triple_bytes(4) by (rule char_of_mod_add)
  then show ?thesis
    unfolding quantum_def sextets_value Let_def assms triple_bytes(2,3) by (simp add: char_of_mod_add)
qed

lemma low_sextets: "triple a b (CHR 0x00) mod 64 = 0" "triple a (CHR 0x00) (CHR 0x00) div 64 mod 64 = 0" "triple a (CHR 0x00) (CHR 0x00) mod 64 = 0"
proof -
  have "triple a b (CHR 0x00) = 64 * (of_char a * 1024 + of_char b * 4)" by (simp add: triple_def)
  then show "triple a b (CHR 0x00) mod 64 = 0" by simp
  have "triple a (CHR 0x00) (CHR 0x00) = 64 * (64 * (of_char a * 16))" by (simp add: triple_def)
  then show "triple a (CHR 0x00) (CHR 0x00) div 64 mod 64 = 0" "triple a (CHR 0x00) (CHR 0x00) mod 64 = 0" by simp_all
qed

lemma sextets_less: "v < 16777216 \<Longrightarrow> d \<in> set (sextets v) \<Longrightarrow> d < 64"
  by (auto simp: sextets_def less_mult_imp_div_less)

lemma alphabets:
  "length urlAlphabet = 64" "distinct urlAlphabet" "length stdAlphabet = 64" "distinct stdAlphabet"
  by (simp_all add: urlAlphabet_def stdAlphabet_def)

lemma decodeMap_nth:
  assumes "distinct alpha" "v < length alpha"
  shows "decodeMap alpha (alpha ! v) = Some v"
  unfolding decodeMap_def find_Some_iff using assms by (intro exI [of _ v]) (auto simp: nth_eq_iff_index_eq)

lemma decodeMap_sextet:
  assumes "length alpha = 64" "distinct alpha" "d \<in> set (sextets (triple a b c))"
  shows "decodeMap alpha (alpha ! d) = Some d"
  using sextets_less [OF triple_bytes(1) assms(3)] assms(1,2) by (simp add: decodeMap_nth)

lemma decodeRaw_encode:
  "length alpha = 64 \<Longrightarrow> distinct alpha \<Longrightarrow> pad = None \<Longrightarrow> decodeRaw alpha n [] (encodeWith alpha pad bs) = Inr bs"
proof (induction alpha pad bs arbitrary: n rule: encodeWith.induct)
  case (1 alpha pad a b c bs)
  note D = decodeMap_sextet [OF 1(2,3), of _ a b c, unfolded sextets_def, simplified]
  show ?case using 1 quantum_triple [OF refl, of a b c] D by (simp add: sextets_def bindE_def)
next
  case (2 alpha pad a b)
  note D = decodeMap_sextet [OF 2(1,2), of _ a b "CHR 0x00", unfolded sextets_def, simplified]
  show ?case using 2 quantum_triple [OF refl, of a b "CHR 0x00"] D by (simp add: sextets_def low_sextets)
next
  case (3 alpha pad a)
  note D = decodeMap_sextet [OF 3(1,2), of _ a "CHR 0x00" "CHR 0x00", unfolded sextets_def, simplified]
  show ?case using 3 quantum_triple [OF refl, of a "CHR 0x00" "CHR 0x00"] D by (simp add: sextets_def low_sextets)
qed simp

lemma rawURL_roundtrip: "rawURLDecode (rawURLEncode bs) = Inr bs"
  by (simp add: rawURLDecode_def rawURLEncode_def decodeRaw_encode alphabets)

lemma rawURLEncode_inj: "rawURLEncode a = rawURLEncode b \<longleftrightarrow> a = b"
  by (metis rawURL_roundtrip sum.inject(2))

lemma length_encodeRaw: "length (encodeWith alpha None bs) = (4 * length bs + 2) div 3"
  by (induction alpha "None :: char option" bs rule: encodeWith.induct) (simp_all add: sextets_def)

lemma rawURLEncode_empty [simp]: "rawURLEncode bs = [] \<longleftrightarrow> bs = []"
  using rawURLEncode_inj [of bs "[]"] by (simp add: rawURLEncode_def)

lemma sextets_alphabet: "length alpha = 64 \<Longrightarrow> (!) alpha ` set (sextets (triple a b c)) \<subseteq> set alpha"
  using sextets_less [OF triple_bytes(1)] by (auto intro!: nth_mem)

lemma encodeRaw_chars: "length alpha = 64 \<Longrightarrow> pad = None \<Longrightarrow> set (encodeWith alpha pad bs) \<subseteq> set alpha"
proof (induction alpha pad bs rule: encodeWith.induct)
  case (2 alpha pad a b)
  then show ?case using sextets_alphabet [of alpha a b "CHR 0x00"] set_take_subset by fastforce
next
  case (3 alpha pad a)
  then show ?case using sextets_alphabet [of alpha a "CHR 0x00" "CHR 0x00"] set_take_subset by fastforce
qed (simp_all add: sextets_alphabet)

end
