(* ===== verification/Job_History.thy ===== *)
theory Job_History
  imports Ledger_Accounting Base64
begin

text \<open>
  The pages of the job history, \<open>JobHistory\<close> of src/internal/storage/jobs.go with its textual cursors.
  A request for a page is checked before the database is asked. The main property follows the cursors of
  consecutive pages to the end.
\<close>

subsection \<open>Cursors\<close>

definition encodeHistoryCursor :: "instant \<Rightarrow> int \<Rightarrow> string" where
  "encodeHistoryCursor at i = rawURLEncode (formatInt (wrap64 at) @ '':'' @ formatInt i)"

definition decodeHistoryCursor :: "string \<Rightarrow> (instant \<times> int) result" where
  "decodeHistoryCursor cursor =
     bindE (wrapE ''storage: invalid history cursor'' (rawURLDecode cursor)) (\<lambda>raw.
       case splitOn (CHR '':'') raw of
         [a, b] \<Rightarrow>
           (case Atoi a of
              None \<Rightarrow> Inl (ErrMsg ''invalid history cursor'')
            | Some nanos \<Rightarrow>
                (case Atoi b of
                   None \<Rightarrow> Inl (ErrMsg ''invalid history cursor'')
                 | Some i \<Rightarrow> if i \<le> 0 then Inl (ErrMsg ''invalid history cursor'') else Inr (nanos, i)))
       | _ \<Rightarrow> Inl (ErrMsg ''invalid history cursor''))"

subsection \<open>Pages\<close>

record HistoryFilter =
  hf_From :: instant
  hf_To :: instant
  hf_Tier :: string
  hf_Provider :: string
  hf_Repository :: string
  hf_Workflow :: string
  hf_Status :: JobStatus
  hf_Cursor :: string
  hf_Limit :: int

record JobPage =
  jp_Jobs :: "Job list"
  jp_NextCursor :: string

definition historyLimit :: "int \<Rightarrow> nat" where
  "historyLimit l = nat (let l = (if l \<le> 0 then 100 else l) in if l > 1000 then 1000 else l)"

definition before_cursor :: "(instant \<times> int) option \<Rightarrow> Job \<Rightarrow> bool" where
  "before_cursor c j = (case c of None \<Rightarrow> True
     | Some (t, i) \<Rightarrow> j_FirstSeenAt j < t \<or> (j_FirstSeenAt j = t \<and> j_ID j < i))"

text \<open>The newest first: \<open>ORDER BY first_seen_at_ns DESC, id DESC\<close>.\<close>

definition historyOrder :: "Job list \<Rightarrow> Job list" where
  "historyOrder js = rev (sort_key (\<lambda>j. (j_FirstSeenAt j, j_ID j)) js)"

definition historyWhere :: "HistoryFilter \<Rightarrow> (instant \<times> int) option \<Rightarrow> Job \<Rightarrow> bool" where
  "historyWhere filt k j \<longleftrightarrow>
     jobWhere (hf_From filt) (hf_To filt) (hf_Tier filt) (hf_Provider filt) (hf_Repository filt)
       (hf_Workflow filt) (hf_Status filt) j \<and> before_cursor k j"

definition historyPage :: "HistoryFilter \<Rightarrow> (instant \<times> int) option \<Rightarrow> Tables \<Rightarrow> JobPage" where
  "historyPage filt k d =
     (let limit = historyLimit (hf_Limit filt);
          rows = take (limit + 1) (historyOrder (filter (historyWhere filt k) (t_jobs d)))
      in if length rows > limit
         then let jobs = take limit rows; lst = last jobs
              in \<lparr>jp_Jobs = jobs, jp_NextCursor = encodeHistoryCursor (j_FirstSeenAt lst) (j_ID lst)\<rparr>
         else \<lparr>jp_Jobs = rows, jp_NextCursor = ''''\<rparr>)"

definition JobHistory :: "HistoryFilter \<Rightarrow> SQLite \<Rightarrow> JobPage result \<times> SQLite" where
  "JobHistory filt s =
     (case (if hf_Cursor filt = '''' then Inr None else bindE (decodeHistoryCursor (hf_Cursor filt)) (\<lambda>k. Inr (Some k))) of
        Inl e \<Rightarrow> (Inl e, s)
      | Inr k \<Rightarrow> query (\<lambda>d. Inr (historyPage filt k d)) s)"

subsection \<open>Paging through the history\<close>

lemma formatNat_no_colon: "CHR '':'' \<notin> set (formatNat n)"
  using formatNat_digits [of n] by (auto simp: list_all_iff isDigit_def)

lemma formatInt_no_colon: "CHR '':'' \<notin> set (formatInt i)"
  by (auto simp: formatInt_def formatNat_no_colon)

lemma decodeHistoryCursor_encode:
  assumes "in_int64 at" "in_int64 i" "0 < i"
  shows "decodeHistoryCursor (encodeHistoryCursor at i) = Inr (at, i)"
  using assms
  by (simp add: decodeHistoryCursor_def encodeHistoryCursor_def rawURL_roundtrip wrapE_def bindE_def splitOn_prefix
      splitOn_word formatInt_no_colon Atoi_formatInt go_arith)

lemma encodeHistoryCursor_nonempty: "encodeHistoryCursor at i \<noteq> ''''"
  by (simp add: encodeHistoryCursor_def)

definition historyKey :: "Job \<Rightarrow> instant \<times> int" where
  "historyKey j = (j_FirstSeenAt j, j_ID j)"

text \<open>What the columns of a job hold: instants and positive identifiers of 64 bits.\<close>

definition stamped :: "Tables \<Rightarrow> bool" where
  "stamped d \<longleftrightarrow> (\<forall>j \<in> set (t_jobs d). in_int64 (j_FirstSeenAt j) \<and> in_int64 (j_ID j) \<and> 0 < j_ID j)"

definition matching :: "HistoryFilter \<Rightarrow> (instant \<times> int) option \<Rightarrow> Tables \<Rightarrow> Job list" where
  "matching filt k d = historyOrder (filter (historyWhere filt k) (t_jobs d))"

text \<open>A client that asks for the next page with the cursor of the last one until there is none.\<close>

fun historyWalk :: "nat \<Rightarrow> HistoryFilter \<Rightarrow> SQLite \<Rightarrow> Job list result \<times> SQLite" where
  "historyWalk 0 filt s = (Inl (ErrOther ''more pages''), s)"
| "historyWalk (Suc n) filt s =
     (case JobHistory filt s of
        (Inl e, s) \<Rightarrow> (Inl e, s)
      | (Inr page, s) \<Rightarrow>
          if jp_NextCursor page = '''' then (Inr (jp_Jobs page), s)
          else (case historyWalk n (filt\<lparr>hf_Cursor := jp_NextCursor page\<rparr>) s of
                  (Inl e, s) \<Rightarrow> (Inl e, s)
                | (Inr jobs, s) \<Rightarrow> (Inr (jp_Jobs page @ jobs), s)))"

lemma before_cursor_key: "before_cursor c j \<longleftrightarrow> (case c of None \<Rightarrow> True | Some k \<Rightarrow> historyKey j < k)"
  by (auto simp: before_cursor_def historyKey_def less_prod_def split: option.split)

lemma historyOrder_strict:
  assumes "distinct (map j_ID js)"
  shows "sorted_wrt (\<lambda>a b. historyKey b < historyKey a) (historyOrder js)"
proof -
  have d: "distinct (map historyKey (sort_key historyKey js))"
    using assms by (auto simp: distinct_map inj_on_def historyKey_def)
  have "sorted (map historyKey (sort_key historyKey js))" by simp
  then have "sorted_wrt (<) (map historyKey (sort_key historyKey js))"
    using d by (simp add: strict_sorted_iff)
  then show ?thesis
    by (simp add: historyOrder_def historyKey_def [abs_def] sorted_wrt_map sorted_wrt_rev)
qed

lemma historyOrder_filter: "historyOrder (filter P js) = filter P (historyOrder js)"
  by (simp add: historyOrder_def filter_sort flip: rev_filter)

lemma filter_after_take:
  assumes "sorted_wrt (\<lambda>a b. (f b :: 'k :: linorder) < f a) xs" "0 < n" "n < length xs"
  shows "filter (\<lambda>x. f x < f (last (take n xs))) xs = drop n xs"
proof -
  let ?l = "last (take n xs)"
  have l: "?l = xs ! (n - 1)" using assms(2,3) by (subst last_conv_nth) auto
  have "filter (\<lambda>x. f x < f ?l) (take n xs) = []"
    unfolding filter_empty_conv
  proof
    fix x assume "x \<in> set (take n xs)"
    then obtain i where i: "i < n" "x = xs ! i" using assms(3) by (auto simp: in_set_conv_nth)
    have "f (xs ! (n - 1)) \<le> f (xs ! i)"
    proof (cases "i = n - 1")
      case False
      then have "i < n - 1" "n - 1 < length xs" using i assms(3) by auto
      then show ?thesis using sorted_wrt_nth_less [OF assms(1)] by (simp add: less_imp_le)
    qed simp
    then show "\<not> f x < f ?l" using i l by simp
  qed
  moreover have "filter (\<lambda>x. f x < f ?l) (drop n xs) = drop n xs"
    unfolding filter_id_conv
  proof
    fix x assume "x \<in> set (drop n xs)"
    then obtain i where "n + i < length xs" "x = xs ! (n + i)"
      using assms(3) by (metis add.commute in_set_conv_nth length_drop less_diff_conv less_imp_le nth_drop)
    then show "f x < f ?l" using l assms(2) sorted_wrt_nth_less [OF assms(1), of "n - 1" "n + i"] by simp
  qed
  ultimately show ?thesis
    by (metis append_Nil append_take_drop_id filter_append)
qed

lemma historyLimit_pos: "0 < historyLimit l"
  by (simp add: historyLimit_def Let_def)

lemma matching_next:
  assumes "distinct (map j_ID (t_jobs d))" "n < length (matching filt c d)" "0 < n"
  defines "k \<equiv> historyKey (last (take n (matching filt c d)))"
  shows "matching filt (Some k) d = drop n (matching filt c d)"
proof -
  have last: "last (take n (matching filt c d)) \<in> set (matching filt c d)"
    using assms(2,3) by (metis in_set_takeD last_in_set length_0_conv length_take less_nat_zero_code min.absorb2
        nat_neq_iff order_less_imp_le take_eq_Nil)
  then have "before_cursor c (last (take n (matching filt c d)))"
    by (auto simp: matching_def historyOrder_def historyWhere_def)
  then have "before_cursor c j" if "historyKey j < k" for j
    using that by (auto simp: before_cursor_key k_def split: option.splits)
  then have "matching filt (Some k) d = historyOrder (filter (\<lambda>j. historyKey j < k) (filter (historyWhere filt c) (t_jobs d)))"
    by (auto simp: matching_def before_cursor_key historyWhere_def conj_commute intro!: arg_cong [where f = historyOrder] filter_cong)
  also have "\<dots> = filter (\<lambda>j. historyKey j < k) (matching filt c d)"
    unfolding matching_def by (rule historyOrder_filter)
  also have "\<dots> = drop n (matching filt c d)"
    unfolding k_def matching_def using assms(1-3)
    by (intro filter_after_take historyOrder_strict) (simp_all add: matching_def distinct_map_filter)
  finally show ?thesis .
qed

lemma matching_cursor: "matching (filt\<lparr>hf_Cursor := c\<rparr>) k d = matching filt k d"
  by (simp add: matching_def historyWhere_def [abs_def])

lemma historyPage_eq:
  "historyPage filt k d =
     (let n = historyLimit (hf_Limit filt); m = matching filt k d in
      if n < length m
      then \<lparr>jp_Jobs = take n m, jp_NextCursor = case_prod encodeHistoryCursor (historyKey (last (take n m)))\<rparr>
      else \<lparr>jp_Jobs = m, jp_NextCursor = ''''\<rparr>)"
  by (auto simp: historyPage_def matching_def historyKey_def Let_def min_def)

text \<open>The cursor of a page decodes to the key of its last job.\<close>

lemma next_cursor:
  assumes "stamped d" "n < length (matching filt c d)" "0 < n"
  shows "decodeHistoryCursor (case_prod encodeHistoryCursor (historyKey (last (take n (matching filt c d))))) =
           Inr (historyKey (last (take n (matching filt c d))))"
proof -
  have "last (take n (matching filt c d)) \<in> set (matching filt c d)"
    using assms(2,3) by (metis in_set_takeD last_in_set length_0_conv length_take less_nat_zero_code min.absorb2
        nat_neq_iff order_less_imp_le take_eq_Nil)
  then have "last (take n (matching filt c d)) \<in> set (t_jobs d)" by (auto simp: matching_def historyOrder_def)
  then show ?thesis using assms(1) by (auto simp: stamped_def historyKey_def intro!: decodeHistoryCursor_encode)
qed

lemma historyWalk_from:
  assumes "tables_ok (tables s)" "stamped (tables s)" "io s = []"
    and "(hf_Cursor filt = '''' \<and> k = None) \<or> (hf_Cursor filt \<noteq> '''' \<and> (\<exists>a. decodeHistoryCursor (hf_Cursor filt) = Inr a \<and> k = Some a))"
    and "length (matching filt k (tables s)) < fuel"
  shows "historyWalk fuel filt s = (Inr (matching filt k (tables s)), s)"
  using assms(4,5)
proof (induction fuel arbitrary: filt k)
  case (Suc fuel)
  let ?d = "tables s" and ?n = "historyLimit (hf_Limit filt)"
  let ?m = "matching filt k ?d"
  let ?c = "case_prod encodeHistoryCursor (historyKey (last (take ?n ?m)))"
  have page: "JobHistory filt s = (Inr (historyPage filt k ?d), s)"
    using Suc.prems(1) assms(3) by (auto simp: JobHistory_def query_def draw_def bindE_def)
  show ?case
  proof (cases "?n < length ?m")
    case False
    then show ?thesis by (simp add: page historyPage_eq Let_def)
  next
    case True
    have ids: "distinct (map j_ID (t_jobs ?d))" using assms(1) by (simp add: tables_ok_def jobs_ok_def)
    note nxt = next_cursor [OF assms(2) True historyLimit_pos] and rest = matching_next [OF ids True historyLimit_pos]
    have "historyWalk fuel (filt\<lparr>hf_Cursor := ?c\<rparr>) s = (Inr (drop ?n ?m), s)"
      using Suc.IH [of "filt\<lparr>hf_Cursor := ?c\<rparr>" "Some (historyKey (last (take ?n ?m)))"] nxt Suc.prems(2) True historyLimit_pos [of "hf_Limit filt"]
      by (simp add: matching_cursor rest encodeHistoryCursor_nonempty split_beta)
    then show ?thesis using True by (simp add: page historyPage_eq encodeHistoryCursor_nonempty split_beta Let_def)
  qed
qed simp

text \<open>
  C10. Paging is complete and repeats nothing: a client that follows the cursors from the first page gets, in at
  most one request more than there are jobs, the list of all jobs that match the filter, each once and the
  newest first, whatever the page size.
\<close>

theorem JobHistory_pages:
  assumes "tables_ok (tables s)" "stamped (tables s)" "io s = []" "hf_Cursor filt = ''''" "length (t_jobs (tables s)) < fuel"
  shows "historyWalk fuel filt s =
           (Inr (rev (sort_key (\<lambda>j. (j_FirstSeenAt j, j_ID j)) (filter (historyWhere filt None) (t_jobs (tables s))))), s)"
proof -
  have "length (matching filt None (tables s)) < fuel"
    using assms(5) by (simp add: matching_def historyOrder_def le_less_trans [OF length_filter_le])
  then show ?thesis
    using historyWalk_from [OF assms(1-3), of filt None fuel] assms(4) by (simp add: matching_def historyOrder_def)
qed

definition first_page :: HistoryFilter where
  "first_page = \<lparr>hf_From = zero_time, hf_To = zero_time, hf_Tier = '''', hf_Provider = '''', hf_Repository = '''',
     hf_Workflow = '''', hf_Status = JobUnset, hf_Cursor = '''', hf_Limit = 1\<rparr>"

definition two_jobs :: SQLite where
  "two_jobs = snd (UpsertJob 17 (sample_job\<lparr>j_Handle := ''h2'', j_FirstSeenAt := 16\<rparr>) job_store)"

theorem JobHistory_pages_witness:
  "historyWalk 3 first_page two_jobs =
     (Inr (rev (sort_key (\<lambda>j. (j_FirstSeenAt j, j_ID j)) (filter (historyWhere first_page None) (t_jobs (tables two_jobs))))), two_jobs) \<and>
   length (filter (historyWhere first_page None) (t_jobs (tables two_jobs))) = 2"
proof
  show "historyWalk 3 first_page two_jobs =
     (Inr (rev (sort_key (\<lambda>j. (j_FirstSeenAt j, j_ID j)) (filter (historyWhere first_page None) (t_jobs (tables two_jobs))))), two_jobs)"
  proof (rule JobHistory_pages)
    show "tables_ok (tables two_jobs)" by code_simp
    show "stamped (tables two_jobs)" by code_simp
    show "io two_jobs = []" by code_simp
    show "hf_Cursor first_page = ''''" by (simp add: first_page_def)
    show "length (t_jobs (tables two_jobs)) < 3" by code_simp
  qed
  show "length (filter (historyWhere first_page None) (t_jobs (tables two_jobs))) = 2" by code_simp
qed

end
