(* ===== verification/Hetzner_Labels.thy ===== *)
theory Hetzner_Labels
  imports Base64
begin

text \<open>
  Ownership of Hetzner machines and snapshots, src/internal/provider/hetzner/labels.go: the deployment tag is
  stored in labels, hashed for the server-side selector and in full, base64-encoded in chunks, for the
  check on this side. SHA-256 is the argument \<open>sha\<close>. Labels are association lists.
\<close>

type_synonym labels = "(string \<times> string) list"

definition labelManaged :: string where "labelManaged = ''fjb-managed''"
definition labelRole :: string where "labelRole = ''fjb-role''"
definition labelTagHash :: string where "labelTagHash = ''fjb-tag-hash''"
definition labelTagParts :: string where "labelTagParts = ''fjb-tag-parts''"
definition labelTagPrefix :: string where "labelTagPrefix = ''fjb-tag-''"
definition labelFingerprintParts :: string where "labelFingerprintParts = ''fjb-fingerprint-parts''"
definition labelFingerprintPrefix :: string where "labelFingerprintPrefix = ''fjb-fingerprint-''"
definition labelManagedValue :: string where "labelManagedValue = ''true''"
definition roleWorker :: string where "roleWorker = ''worker''"
definition roleBuilder :: string where "roleBuilder = ''builder''"
definition roleImage :: string where "roleImage = ''image''"
definition labelChunkChars :: nat where "labelChunkChars = 60"
definition maxLabelParts :: nat where "maxLabelParts = 16"

lemmas label_names = labelManaged_def labelRole_def labelTagHash_def labelTagParts_def labelTagPrefix_def
  labelFingerprintParts_def labelFingerprintPrefix_def labelManagedValue_def roleWorker_def roleBuilder_def roleImage_def

text \<open>Reading a key that is absent gives the empty string.\<close>

definition labelGet :: "labels \<Rightarrow> string \<Rightarrow> string" where
  "labelGet labels k = (case map_of labels k of None \<Rightarrow> '''' | Some v \<Rightarrow> v)"

subsection \<open>The hash of a tag\<close>

text \<open>\<open>base32.StdEncoding\<close> without padding: the bits of the bytes in groups of five, the last one filled with zeros.\<close>

definition byteBits :: "char \<Rightarrow> bool list" where
  "byteBits c = map (\<lambda>i. odd ((of_char c :: nat) div 2 ^ i)) [7, 6, 5, 4, 3, 2, 1, 0]"

definition quintet :: "bool list \<Rightarrow> nat" where
  "quintet bs = foldl (\<lambda>n b. 2 * n + of_bool b) 0 (take 5 (bs @ replicate 5 False))"

definition base32Alphabet :: string where
  "base32Alphabet = ''ABCDEFGHIJKLMNOPQRSTUVWXYZ234567''"

function base32Bits :: "bool list \<Rightarrow> string" where
  "base32Bits bs = (if bs = [] then [] else base32Alphabet ! quintet bs # base32Bits (drop 5 bs))"
  by pat_completeness auto
termination by (relation "measure length") auto

declare base32Bits.simps [simp del]

definition rawBase32 :: "string \<Rightarrow> string" where
  "rawBase32 s = base32Bits (concat (map byteBits s))"

definition tagHash :: "(string \<Rightarrow> string) \<Rightarrow> string \<Rightarrow> string" where
  "tagHash sha tag = toLower (rawBase32 (sha tag))"

definition ownershipSelector :: "(string \<Rightarrow> string) \<Rightarrow> string \<Rightarrow> string \<Rightarrow> string" where
  "ownershipSelector sha tag role =
     labelManaged @ ''=true,'' @ labelRole @ ''='' @ role @ '','' @ labelTagHash @ ''='' @ tagHash sha tag"

subsection \<open>Values in chunks\<close>

definition chunk :: "string \<Rightarrow> nat \<Rightarrow> string" where
  "chunk encoded i = take labelChunkChars (drop (i * labelChunkChars) encoded)"

definition labelParts :: "string \<Rightarrow> nat" where
  "labelParts encoded =
     (let parts = (length encoded + labelChunkChars - 1) div labelChunkChars in if parts = 0 then 1 else parts)"

definition encodeLabelChunks :: "labels \<Rightarrow> string \<Rightarrow> string \<Rightarrow> string \<Rightarrow> labels result" where
  "encodeLabelChunks labels countKey pre value =
     (let encoded = rawURLEncode value;
          parts = labelParts encoded
      in if parts > maxLabelParts
         then failE (''value requires '' @ formatNat parts @ '' label parts; maximum is '' @ formatNat maxLabelParts)
         else Inr (fold (\<lambda>i l. AList.update (pre @ formatNat i) (chunk encoded i) l) [0..<parts]
                    (AList.update countKey (formatNat parts) labels)))"

definition decodeLabelChunks :: "labels \<Rightarrow> string \<Rightarrow> string \<Rightarrow> string result" where
  "decodeLabelChunks labels countKey pre =
     (case Atoi (labelGet labels countKey) of
        None \<Rightarrow> failE (''invalid '' @ countKey @ '' label '' @ goQuote (labelGet labels countKey))
      | Some parts \<Rightarrow>
          if parts \<le> 0 \<or> parts > int maxLabelParts
          then failE (''invalid '' @ countKey @ '' label '' @ goQuote (labelGet labels countKey))
          else bindE (mapE (\<lambda>i. case map_of labels (pre @ formatNat i) of
                              None \<Rightarrow> failE (''missing '' @ pre @ formatNat i @ '' label'')
                            | Some part \<Rightarrow> Inr part) [0..<nat parts]) (\<lambda>encoded.
               wrapE (''decode '' @ pre @ '' labels'') (rawURLDecode (concat encoded))))"

subsection \<open>Ownership\<close>

definition ownershipLabels :: "(string \<Rightarrow> string) \<Rightarrow> string \<Rightarrow> string \<Rightarrow> labels result" where
  "ownershipLabels sha tag role =
     (if trimSpace tag = '''' then failE ''ownership tag must not be empty''
      else wrapE ''encode ownership tag''
        (encodeLabelChunks [(labelManaged, labelManagedValue), (labelRole, role), (labelTagHash, tagHash sha tag)]
          labelTagParts labelTagPrefix tag))"

definition snapshotLabels :: "(string \<Rightarrow> string) \<Rightarrow> string \<Rightarrow> string \<Rightarrow> labels result" where
  "snapshotLabels sha tag fingerprint =
     bindE (ownershipLabels sha tag roleImage) (\<lambda>labels.
       if trimSpace fingerprint = '''' then failE ''fingerprint must not be empty''
       else wrapE ''encode fingerprint'' (encodeLabelChunks labels labelFingerprintParts labelFingerprintPrefix fingerprint))"

definition hasOwnership :: "(string \<Rightarrow> string) \<Rightarrow> labels \<Rightarrow> string \<Rightarrow> string \<Rightarrow> bool" where
  "hasOwnership sha labels tag role \<longleftrightarrow>
     labelGet labels labelManaged = labelManagedValue \<and> labelGet labels labelRole = role \<and>
     labelGet labels labelTagHash = tagHash sha tag \<and>
     decodeLabelChunks labels labelTagParts labelTagPrefix = Inr tag"

definition sameOwnership :: "labels \<Rightarrow> labels \<Rightarrow> bool" where
  "sameOwnership a b \<longleftrightarrow>
     labelGet a labelManaged = labelManagedValue \<and> labelGet b labelManaged = labelManagedValue \<and>
     labelGet a labelTagHash \<noteq> '''' \<and> labelGet a labelTagHash = labelGet b labelTagHash"

subsection \<open>Chunks round trip\<close>

lemma chunkKey_neq:
  assumes "\<not> isDigit (hd (drop (length pre) k))"
  shows "k \<noteq> pre @ formatNat i"
  using assms formatNat_hd [of i] by auto

lemma formatNat_eq: "formatNat a = formatNat b \<longleftrightarrow> a = b"
  using formatNat_inj by blast

lemma map_of_chunks:
  "i < n \<Longrightarrow> map_of (fold (\<lambda>i. AList.update (pre @ formatNat i) (f i)) [0..<n] l) (pre @ formatNat i) = Some (f i)"
  by (induction n) (auto simp: update_conv formatNat_eq less_Suc_eq)

lemma map_of_chunks_other:
  "(\<And>i. k \<noteq> pre @ formatNat i) \<Longrightarrow> map_of (fold (\<lambda>i. AList.update (pre @ formatNat i) (f i)) [0..<n] l) k = map_of l k"
  by (induction n) (auto simp: update_conv)

lemma concat_chunks: "concat (map (chunk e) [0..<n]) = take (n * labelChunkChars) e"
proof (induction n)
  case (Suc n)
  have "take (Suc n * labelChunkChars) e = take (n * labelChunkChars + labelChunkChars) e" by (simp add: add.commute)
  then show ?case using Suc by (simp only: take_add) (simp add: chunk_def)
qed simp

lemma mapE_Some: "(\<And>x. x \<in> set xs \<Longrightarrow> f x = Inr (g x)) \<Longrightarrow> mapE f xs = Inr (map g xs)"
  by (induction xs) (simp_all add: bindE_def)

lemma labelParts_cover: "0 < labelParts e" "length e \<le> labelParts e * labelChunkChars" "e \<noteq> [] \<Longrightarrow> (labelParts e - 1) * labelChunkChars < length e"
proof -
  let ?p = "(length e + 59) div 60"
  have p: "labelParts e = (if ?p = 0 then 1 else ?p)" by (simp add: labelParts_def labelChunkChars_def Let_def add.commute)
  have "length e + 59 = 60 * ?p + (length e + 59) mod 60" by simp
  moreover have "(length e + 59) mod 60 < 60" by simp
  ultimately have b: "length e + 59 < 60 * ?p + 60" "60 * ?p \<le> length e + 59" by linarith+
  show "0 < labelParts e" by (simp add: p)
  show "length e \<le> labelParts e * labelChunkChars" using b unfolding p by (auto simp: labelChunkChars_def)
  show "(labelParts e - 1) * labelChunkChars < length e" if "e \<noteq> []"
    using b that unfolding p by (auto simp: labelChunkChars_def diff_mult_distrib)
qed

lemma encodeLabelChunks_Inr:
  assumes "encodeLabelChunks labels countKey pre value = Inr labels'"
  shows "labelParts (rawURLEncode value) \<le> maxLabelParts"
    and "labels' = fold (\<lambda>i. AList.update (pre @ formatNat i) (chunk (rawURLEncode value) i)) [0..<labelParts (rawURLEncode value)]
           (AList.update countKey (formatNat (labelParts (rawURLEncode value))) labels)"
  using assms by (auto simp: encodeLabelChunks_def Let_def failE_def split: if_splits)

lemma encodeLabelChunks_other:
  assumes "encodeLabelChunks labels countKey pre value = Inr labels'" "k \<noteq> countKey" "\<And>i. k \<noteq> pre @ formatNat i"
  shows "map_of labels' k = map_of labels k"
  unfolding encodeLabelChunks_Inr(2) [OF assms(1)] using assms(2,3) by (simp add: map_of_chunks_other update_conv)

lemma decode_encode_chunks:
  assumes "encodeLabelChunks labels countKey pre value = Inr labels'" "\<not> isDigit (hd (drop (length pre) countKey))"
  shows "decodeLabelChunks labels' countKey pre = Inr value"
proof -
  let ?e = "rawURLEncode value"
  let ?n = "labelParts ?e"
  note n = encodeLabelChunks_Inr(1) [OF assms(1)] and l = encodeLabelChunks_Inr(2) [OF assms(1)]
  have "map_of labels' countKey = Some (formatNat ?n)"
    unfolding l by (subst map_of_chunks_other [OF chunkKey_neq [OF assms(2)]]) (simp add: update_conv)
  then have "Atoi (labelGet labels' countKey) = Some (int ?n)"
    using Atoi_formatInt [of "int ?n"] n
    by (simp add: labelGet_def formatInt_def in_int64_def min_int64_def max_int64_def maxLabelParts_def)
  moreover have "mapE (\<lambda>i. case map_of labels' (pre @ formatNat i) of None \<Rightarrow> failE (''missing '' @ pre @ formatNat i @ '' label'')
                  | Some part \<Rightarrow> Inr part) [0..<?n] = Inr (map (chunk ?e) [0..<?n])"
    unfolding l by (rule mapE_Some) (simp add: map_of_chunks)
  ultimately show ?thesis
    using n labelParts_cover [of ?e] by (simp add: decodeLabelChunks_def bindE_def concat_chunks rawURL_roundtrip wrapE_def)
qed

subsection \<open>Ownership is exact\<close>

lemma tag_keys:
  "labelManaged \<noteq> labelTagPrefix @ formatNat i" "labelRole \<noteq> labelTagPrefix @ formatNat i" "labelTagHash \<noteq> labelTagPrefix @ formatNat i"
  by (simp add: label_names, simp add: label_names, rule chunkKey_neq, simp add: label_names isDigit_def)

lemma fingerprint_keys:
  "labelManaged \<noteq> labelFingerprintPrefix @ formatNat i" "labelRole \<noteq> labelFingerprintPrefix @ formatNat i"
  "labelTagHash \<noteq> labelFingerprintPrefix @ formatNat i" "labelTagParts \<noteq> labelFingerprintPrefix @ formatNat i"
  "labelTagPrefix @ formatNat j \<noteq> labelFingerprintPrefix @ formatNat i" "labelTagPrefix @ formatNat j \<noteq> labelFingerprintParts"
  by (auto simp: label_names)

lemma counts_not_chunks:
  "\<not> isDigit (hd (drop (length labelTagPrefix) labelTagParts))"
  "\<not> isDigit (hd (drop (length labelFingerprintPrefix) labelFingerprintParts))"
  by (simp_all add: label_names isDigit_def)

lemma ownershipLabels_Inr:
  assumes "ownershipLabels sha tag role = Inr l"
  shows "decodeLabelChunks l labelTagParts labelTagPrefix = Inr tag" "labelGet l labelManaged = labelManagedValue"
    "labelGet l labelRole = role" "labelGet l labelTagHash = tagHash sha tag"
proof -
  have e: "encodeLabelChunks [(labelManaged, labelManagedValue), (labelRole, role), (labelTagHash, tagHash sha tag)] labelTagParts labelTagPrefix tag = Inr l"
    using assms by (auto simp: ownershipLabels_def failE_def split: if_splits)
  show "decodeLabelChunks l labelTagParts labelTagPrefix = Inr tag"
    by (rule decode_encode_chunks [OF e counts_not_chunks(1)])
  show "labelGet l labelManaged = labelManagedValue" "labelGet l labelRole = role" "labelGet l labelTagHash = tagHash sha tag"
    using encodeLabelChunks_other [OF e _ tag_keys(1)] encodeLabelChunks_other [OF e _ tag_keys(2)] encodeLabelChunks_other [OF e _ tag_keys(3)]
    by (simp_all add: labelGet_def) (simp_all add: label_names)
qed

text \<open>
  A tag and a role are recognised in the labels written for them and in no others, even for tags whose
  hashes collide.
\<close>

lemma ownership_exact:
  assumes "ownershipLabels sha tag role = Inr l"
  shows "hasOwnership sha l tag' role' \<longleftrightarrow> tag' = tag \<and> role' = role"
  using ownershipLabels_Inr [OF assms] by (auto simp: hasOwnership_def)

lemma decodeLabelChunks_cong:
  assumes "map_of l countKey = map_of l' countKey" "\<And>i. map_of l (pre @ formatNat i) = map_of l' (pre @ formatNat i)"
  shows "decodeLabelChunks l countKey pre = decodeLabelChunks l' countKey pre"
proof -
  have get: "labelGet l countKey = labelGet l' countKey" using assms(1) by (simp add: labelGet_def)
  show ?thesis unfolding decodeLabelChunks_def assms(2) get ..
qed

lemma snapshotLabels_Inr:
  assumes "snapshotLabels sha tag fingerprint = Inr l"
  shows "hasOwnership sha l tag' role' \<longleftrightarrow> tag' = tag \<and> role' = roleImage"
    and "decodeLabelChunks l labelFingerprintParts labelFingerprintPrefix = Inr fingerprint"
proof -
  obtain l0 where l0: "ownershipLabels sha tag roleImage = Inr l0"
    "encodeLabelChunks l0 labelFingerprintParts labelFingerprintPrefix fingerprint = Inr l"
    using assms by (auto simp: snapshotLabels_def bindE_def failE_def split: sum.splits if_splits)
  note other = encodeLabelChunks_other [OF l0(2)]
  have k: "labelManaged \<noteq> labelFingerprintParts" "labelRole \<noteq> labelFingerprintParts" "labelTagHash \<noteq> labelFingerprintParts"
    "labelTagParts \<noteq> labelFingerprintParts" by (simp_all add: label_names)
  have "decodeLabelChunks l labelTagParts labelTagPrefix = decodeLabelChunks l0 labelTagParts labelTagPrefix"
    by (intro decodeLabelChunks_cong other k fingerprint_keys)
  then show "hasOwnership sha l tag' role' \<longleftrightarrow> tag' = tag \<and> role' = roleImage"
    using ownership_exact [OF l0(1), of tag' role'] other [OF k(1) fingerprint_keys(1)] other [OF k(2) fingerprint_keys(2)]
      other [OF k(3) fingerprint_keys(3)] by (simp add: hasOwnership_def labelGet_def)
  show "decodeLabelChunks l labelFingerprintParts labelFingerprintPrefix = Inr fingerprint"
    by (rule decode_encode_chunks [OF l0(2) counts_not_chunks(2)])
qed

text \<open>What fits: a value of up to 720 bytes, which makes 960 characters.\<close>

lemma encodeLabelChunks_fits: "is_err (encodeLabelChunks labels countKey pre value) \<longleftrightarrow> 720 < length value"
proof -
  let ?e = "rawURLEncode value"
  have len: "length ?e = (4 * length value + 2) div 3" by (simp add: rawURLEncode_def length_encodeRaw)
  have "labelParts ?e > 16 \<longleftrightarrow> length ?e > 960"
    using labelParts_cover [of ?e] by (cases "?e = []") (auto simp: labelChunkChars_def labelParts_def simp del: rawURLEncode_empty)
  moreover have "(4 * n + 2) div 3 > 960 \<longleftrightarrow> 720 < n" for n :: nat by presburger
  ultimately show ?thesis using len by (auto simp: encodeLabelChunks_def Let_def maxLabelParts_def failE_def)
qed

text \<open>The values written are at most 60 characters of the base64 alphabet, the counts are short numbers.\<close>

lemma chunk_bound: "length (chunk e i) \<le> 60"
  by (simp add: chunk_def labelChunkChars_def)

lemma ownershipLabels_fits: "is_err (ownershipLabels sha tag role) \<longleftrightarrow> trimSpace tag = '''' \<or> 720 < length tag"
  using encodeLabelChunks_fits [of "[(labelManaged, labelManagedValue), (labelRole, role), (labelTagHash, tagHash sha tag)]" labelTagParts labelTagPrefix tag]
  by (auto simp: ownershipLabels_def failE_def wrapE_def split: sum.splits)

lemma snapshotLabels_fits:
  "is_err (snapshotLabels sha tag fingerprint) \<longleftrightarrow>
     trimSpace tag = '''' \<or> 720 < length tag \<or> trimSpace fingerprint = '''' \<or> 720 < length fingerprint"
proof (cases "ownershipLabels sha tag roleImage")
  case (Inl e)
  then show ?thesis using ownershipLabels_fits [of sha tag roleImage] by (auto simp: snapshotLabels_def bindE_def)
next
  case (Inr l)
  then show ?thesis
    using ownershipLabels_fits [of sha tag roleImage] encodeLabelChunks_fits [of l labelFingerprintParts labelFingerprintPrefix fingerprint]
    by (auto simp: snapshotLabels_def bindE_def failE_def wrapE_def split: sum.splits)
qed

text \<open>
  C38. Labels identify their owner: the labels of a machine are recognised for the tag and role they were written
  for and for no other pair, though the server-side selector sees only a hash; the labels of a snapshot likewise, and its fingerprint is read
  back from them.
\<close>

theorem labels_identify_owner:
  assumes "ownershipLabels sha tag role = Inr l" "snapshotLabels sha tag fingerprint = Inr s"
  shows "(hasOwnership sha l tag' role' \<longleftrightarrow> tag' = tag \<and> role' = role) \<and>
         (hasOwnership sha s tag' role' \<longleftrightarrow> tag' = tag \<and> role' = roleImage) \<and>
         decodeLabelChunks s labelFingerprintParts labelFingerprintPrefix = Inr fingerprint"
  using ownership_exact [OF assms(1)] snapshotLabels_Inr [OF assms(2)] by simp

theorem labels_identify_owner_witness:
  "\<exists>l s. ownershipLabels id ''deployment'' roleWorker = Inr l \<and> snapshotLabels id ''deployment'' ''abc'' = Inr s \<and>
         hasOwnership id l ''deployment'' roleWorker \<and> \<not> hasOwnership id l ''deployment2'' roleWorker \<and>
         decodeLabelChunks s labelFingerprintParts labelFingerprintPrefix = Inr ''abc''"
proof -
  have t: "trimSpace ''deployment'' \<noteq> ''''" "trimSpace ''abc'' \<noteq> ''''" by code_simp+
  then have "\<not> is_err (ownershipLabels id ''deployment'' roleWorker)" "\<not> is_err (snapshotLabels id ''deployment'' ''abc'')"
    by (simp_all add: ownershipLabels_fits snapshotLabels_fits)
  then obtain l s where l: "ownershipLabels id ''deployment'' roleWorker = Inr l" and s: "snapshotLabels id ''deployment'' ''abc'' = Inr s"
    by (cases "ownershipLabels id ''deployment'' roleWorker"; cases "snapshotLabels id ''deployment'' ''abc''") auto
  show ?thesis
    using labels_identify_owner [OF l s, of "''deployment''" roleWorker] labels_identify_owner [OF l s, of "''deployment2''" roleWorker] l s
    by auto
qed

end
