(* ===== verification/Hetzner_Client.thy ===== *)
theory Hetzner_Client
  imports Complex_Main Hetzner_Labels External_Types
begin

text \<open>
  The client of the Hetzner Cloud API, src/internal/provider/hetzner/client.go and hcloud_client.go. The official
  library \<open>hcloud-go\<close> is the record \<open>HCloud\<close> over a world \<open>'w\<close>; what \<open>hcloudClient\<close> makes of
  it is written out. An address that is nil or unspecified is \<open>None\<close>. Sizes of images are rational
  numbers: a finite \<open>float32\<close> times \<open>10^9\<close> is exact in \<open>float64\<close>; the message for a bad size does not print it.
\<close>

subsection \<open>Data\<close>

record CreateServerRequest =
  cq_Name :: string
  cq_InstanceType :: string
  cq_Image :: string
  cq_Location :: string
  cq_UserData :: string
  cq_Labels :: labels
  cq_NetworkID :: int
  cq_FirewallIDs :: "int list"

record CreateSnapshotRequest =
  cn_SourceServerID :: int
  cn_Name :: string
  cn_Labels :: labels

record Server =
  sv_ID :: int
  sv_Name :: string
  sv_PublicIPv4 :: string
  sv_PrivateIPv4 :: string
  sv_CreatedAt :: instant
  sv_Labels :: labels

record Image =
  im_ID :: int
  im_Name :: string
  im_CreatedAt :: instant
  im_SizeBytes :: int
  im_Labels :: labels

record ServerTypePrice =
  tp_InstanceType :: string
  tp_Location :: string
  tp_PerHour :: string
  tp_PerMonth :: string

record Catalog =
  ca_Currency :: string
  ca_SnapshotGBMonth :: string
  ca_ServerTypes :: "ServerTypePrice list"

text \<open>
  An error of the client: its text, the codes \<open>errors.As\<close> finds in it (an API error, an action error), and whether
  \<open>errors.Is\<close> finds \<open>ErrLocationUnavailable\<close>.
\<close>

record ClientError =
  ce_text :: string
  ce_code :: "string option"
  ce_action :: "string option"
  ce_unavailable :: bool

type_synonym ('w, 'a) call = "'w \<Rightarrow> (ClientError + 'a) \<times> 'w"

definition newError :: "string \<Rightarrow> ClientError" where
  "newError t = \<lparr>ce_text = t, ce_code = None, ce_action = None, ce_unavailable = False\<rparr>"

definition ErrLocationUnavailable :: ClientError where
  "ErrLocationUnavailable = (newError ''hetzner location unavailable'')\<lparr>ce_unavailable := True\<rparr>"

definition wrapC :: "string \<Rightarrow> ClientError \<Rightarrow> ClientError" where
  "wrapC what e = e\<lparr>ce_text := what @ '': '' @ ce_text e\<rparr>"

definition orElse :: "'a option \<Rightarrow> 'a option \<Rightarrow> 'a option" where
  "orElse a b = (case a of None \<Rightarrow> b | Some _ \<Rightarrow> a)"

text \<open>\<open>errors.Join\<close> of two errors.\<close>

definition joinC :: "ClientError \<Rightarrow> ClientError \<Rightarrow> ClientError" where
  "joinC a b = \<lparr>ce_text = ce_text a @ [CHR 0x0A] @ ce_text b, ce_code = orElse (ce_code a) (ce_code b),
     ce_action = orElse (ce_action a) (ce_action b), ce_unavailable = (ce_unavailable a \<or> ce_unavailable b)\<rparr>"

definition okC :: "'a \<Rightarrow> ('w, 'a) call" where
  "okC a w = (Inr a, w)"

definition failC :: "ClientError \<Rightarrow> ('w, 'a) call" where
  "failC e w = (Inl e, w)"

text \<open>A call whose result, error or value, decides what follows; an error usually ends the function.\<close>

definition onC :: "('w, 'a) call \<Rightarrow> (ClientError \<Rightarrow> ('w, 'b) call) \<Rightarrow> ('a \<Rightarrow> ('w, 'b) call) \<Rightarrow> ('w, 'b) call" where
  "onC m handle f w = (case m w of (Inl e, w') \<Rightarrow> handle e w' | (Inr a, w') \<Rightarrow> f a w')"

definition bindC :: "('w, 'a) call \<Rightarrow> ('a \<Rightarrow> ('w, 'b) call) \<Rightarrow> ('w, 'b) call" where
  "bindC m f = onC m failC f"

subsection \<open>The library\<close>

record HServer =
  h_ID :: int
  h_Name :: string
  h_Status :: string
  h_PublicIPv4 :: "string option"
  h_PrivateIPs :: "string option list"
  h_Created :: instant
  h_Labels :: labels

record HImage =
  hm_ID :: int
  hm_Name :: string
  hm_Description :: string
  hm_Created :: instant
  hm_ImageSize :: rat
  hm_Labels :: labels

datatype ImageRef = ImageByID int | ImageByName string

record ServerCreateOpts =
  so_Name :: string
  so_ServerType :: string
  so_Image :: ImageRef
  so_Location :: string
  so_UserData :: string
  so_StartAfterCreate :: bool
  so_Labels :: labels
  so_EnableIPv4 :: bool
  so_EnableIPv6 :: bool
  so_Networks :: "int list"
  so_Firewalls :: "int list"

record ServerCreateResult =
  cr_Server :: "HServer option"
  cr_Action :: "int option"
  cr_NextActions :: "int option list"

record HServerPricing =
  hp_ServerType :: "string option"
  hp_Pricings :: "(string option \<times> string \<times> string) list"

record HPricing =
  hp_Currency :: string
  hp_ImagePerGBMonth :: string
  hp_ServerTypes :: "HServerPricing list"

text \<open>
  Pointers that may be nil are options. \<open>hs_polls\<close> is the number of poll intervals until the context of the call is
  done, and \<open>hs_ctxErr\<close> its error then.
\<close>

record 'w HCloud =
  hs_Create :: "ServerCreateOpts \<Rightarrow> ('w, ServerCreateResult) call"
  hs_GetByID :: "int \<Rightarrow> ('w, HServer option) call"
  hs_Update :: "HServer \<Rightarrow> labels \<Rightarrow> ('w, HServer option) call"
  hs_DeleteWithResult :: "HServer \<Rightarrow> ('w, int option option) call"
  hs_AllWithOpts :: "string \<Rightarrow> ('w, HServer list) call"
  hs_Shutdown :: "HServer \<Rightarrow> ('w, int option) call"
  hs_Poweroff :: "HServer \<Rightarrow> ('w, int option) call"
  hs_RebuildWithResult :: "HServer \<Rightarrow> int \<Rightarrow> string \<Rightarrow> ('w, int option) call"
  hs_CreateImage :: "HServer \<Rightarrow> string \<Rightarrow> labels \<Rightarrow> ('w, HImage option \<times> int option) call"
  hi_GetByID :: "int \<Rightarrow> ('w, HImage option) call"
  hi_Delete :: "HImage \<Rightarrow> ('w, unit) call"
  hi_AllWithOpts :: "string \<Rightarrow> ('w, HImage list) call"
  hp_Get :: "('w, HPricing) call"
  ha_WaitFor :: "int list \<Rightarrow> ('w, unit) call"
  hs_polls :: "'w \<Rightarrow> nat"
  hs_ctxErr :: "'w \<Rightarrow> ClientError option"

subsection \<open>Conversions\<close>

definition serverFromHCloud :: "HServer \<Rightarrow> Server" where
  "serverFromHCloud s =
     \<lparr>sv_ID = h_ID s, sv_Name = h_Name s,
      sv_PublicIPv4 = (case h_PublicIPv4 s of None \<Rightarrow> '''' | Some ip \<Rightarrow> ip),
      sv_PrivateIPv4 = (case find (\<lambda>ip. ip \<noteq> None) (h_PrivateIPs s) of Some (Some ip) \<Rightarrow> ip | _ \<Rightarrow> ''''),
      sv_CreatedAt = h_Created s, sv_Labels = h_Labels s\<rparr>"

definition bytesPerCloudGB :: rat where
  "bytesPerCloudGB = 1000000000"

definition imageFromHCloud :: "HImage \<Rightarrow> ClientError + Image" where
  "imageFromHCloud i =
     (if hm_ImageSize i < 0 \<or> hm_ImageSize i > 9223372036854775808 / bytesPerCloudGB
      then Inl (newError (''Hetzner image '' @ formatInt (hm_ID i) @ '' has invalid size''))
      else Inr \<lparr>im_ID = hm_ID i, im_Name = (if hm_Description i = '''' then hm_Name i else hm_Description i),
                im_CreatedAt = hm_Created i, im_SizeBytes = \<lfloor>hm_ImageSize i * bytesPerCloudGB + 1 / 2\<rfloor>, im_Labels = hm_Labels i\<rparr>)"

definition hcloudImageRef :: "string \<Rightarrow> ClientError + ImageRef" where
  "hcloudImageRef ref =
     (if ref = '''' then Inl (newError ''Hetzner image reference is empty'')
      else case Atoi ref of
        Some i \<Rightarrow> if i \<le> 0 then Inl (newError (''Hetzner image ID must be positive, got '' @ goQuote ref)) else Inr (ImageByID i)
      | None \<Rightarrow> Inr (ImageByName ref))"

definition liftC :: "ClientError + 'a \<Rightarrow> ('w, 'a) call" where
  "liftC r w = (r, w)"

subsection \<open>The adapter\<close>

definition waitActions :: "'w HCloud \<Rightarrow> int option list \<Rightarrow> ('w, unit) call" where
  "waitActions c actions =
     (let as = concat (map (\<lambda>a. case a of None \<Rightarrow> [] | Some i \<Rightarrow> [i]) actions)
      in if as = [] then failC (newError ''Hetzner API returned no action'') else ha_WaitFor c as)"

definition isLocationUnavailable :: "ClientError \<Rightarrow> bool" where
  "isLocationUnavailable e =
     (let codes = [''resource_unavailable'', ''placement_error'', ''maintenance'', ''no_subnet_available'', ''ip_not_available'']
      in (case ce_code e of Some code \<Rightarrow> code \<in> set codes | None \<Rightarrow> False) \<or>
         (case ce_action e of Some code \<Rightarrow> code \<in> set codes | None \<Rightarrow> False))"

definition classifyCreateError :: "ClientError \<Rightarrow> ClientError" where
  "classifyCreateError e = (if isLocationUnavailable e then joinC ErrLocationUnavailable e else e)"

definition hcDeleteServer :: "'w HCloud \<Rightarrow> int \<Rightarrow> ('w, unit) call" where
  "hcDeleteServer c i =
     bindC (hs_GetByID c i) (\<lambda>s.
       case s of
         None \<Rightarrow> okC ()
       | Some server \<Rightarrow>
           bindC (hs_DeleteWithResult c server) (\<lambda>r.
             case r of
               None \<Rightarrow> failC (newError ''Hetzner API returned an empty delete action'')
             | Some action \<Rightarrow> waitActions c [action]))"

definition cleanupCreateFailure :: "'w HCloud \<Rightarrow> int \<Rightarrow> ClientError \<Rightarrow> ('w, 'a) call" where
  "cleanupCreateFailure c i cause =
     onC (hcDeleteServer c i)
       (\<lambda>e. failC (joinC cause (wrapC (''clean up server '' @ formatInt i) e)))
       (\<lambda>_. failC (classifyCreateError cause))"

definition hcCreateServer :: "'w HCloud \<Rightarrow> CreateServerRequest \<Rightarrow> ('w, Server) call" where
  "hcCreateServer c req =
     bindC (liftC (hcloudImageRef (cq_Image req))) (\<lambda>img.
       let opts = \<lparr>so_Name = cq_Name req, so_ServerType = cq_InstanceType req, so_Image = img, so_Location = cq_Location req,
             so_UserData = cq_UserData req, so_StartAfterCreate = True, so_Labels = cq_Labels req, so_EnableIPv4 = True,
             so_EnableIPv6 = False, so_Networks = (if cq_NetworkID req \<noteq> 0 then [cq_NetworkID req] else []),
             so_Firewalls = cq_FirewallIDs req\<rparr>
       in onC (hs_Create c opts) (\<lambda>e. failC (classifyCreateError e)) (\<lambda>result.
         case cr_Server result of
           None \<Rightarrow> failC (newError ''Hetzner API returned an empty server'')
         | Some created \<Rightarrow>
             onC (waitActions c (cr_Action result # cr_NextActions result))
               (\<lambda>e. cleanupCreateFailure c (h_ID created) (wrapC ''wait for server create'' e))
               (\<lambda>_. onC (hs_GetByID c (h_ID created))
                  (\<lambda>e. cleanupCreateFailure c (h_ID created) (wrapC ''refresh created server'' e))
                  (\<lambda>s. case s of
                         None \<Rightarrow> cleanupCreateFailure c (h_ID created) (newError ''created server disappeared'')
                       | Some server \<Rightarrow> okC (serverFromHCloud server)))))"

definition serverNotFound :: "int \<Rightarrow> ClientError" where
  "serverNotFound i = newError (''server '' @ formatInt i @ '' not found'')"

definition hcGetServer :: "'w HCloud \<Rightarrow> int \<Rightarrow> ('w, Server) call" where
  "hcGetServer c i =
     bindC (hs_GetByID c i) (\<lambda>s. case s of None \<Rightarrow> failC (serverNotFound i) | Some server \<Rightarrow> okC (serverFromHCloud server))"

definition hcUpdateServerLabels :: "'w HCloud \<Rightarrow> int \<Rightarrow> labels \<Rightarrow> ('w, Server) call" where
  "hcUpdateServerLabels c i labels =
     bindC (hs_GetByID c i) (\<lambda>s.
       case s of
         None \<Rightarrow> failC (serverNotFound i)
       | Some server \<Rightarrow>
           bindC (hs_Update c server labels) (\<lambda>u.
             case u of
               None \<Rightarrow> failC (newError ''Hetzner API returned an empty updated server'')
             | Some updated \<Rightarrow> okC (serverFromHCloud updated)))"

definition hcListServers :: "'w HCloud \<Rightarrow> string \<Rightarrow> ('w, Server list) call" where
  "hcListServers c selector = bindC (hs_AllWithOpts c selector) (\<lambda>servers. okC (map serverFromHCloud servers))"

text \<open>The loop asks until the server is off or the context is done.\<close>

fun powerOffLoop :: "'w HCloud \<Rightarrow> int \<Rightarrow> nat \<Rightarrow> ('w, unit) call" where
  "powerOffLoop c i polls =
     bindC (hs_GetByID c i) (\<lambda>s.
       case s of
         None \<Rightarrow> failC (newError (''server '' @ formatInt i @ '' disappeared while powering off''))
       | Some current \<Rightarrow>
           if h_Status current = ''off'' then okC ()
           else case polls of
             0 \<Rightarrow> (\<lambda>w. (Inl (case hs_ctxErr c w of Some e \<Rightarrow> e | None \<Rightarrow> newError ''context deadline exceeded''), w))
           | Suc n \<Rightarrow> powerOffLoop c i n)"

definition hcPowerOffServer :: "'w HCloud \<Rightarrow> int \<Rightarrow> ('w, unit) call" where
  "hcPowerOffServer c i =
     bindC (hs_GetByID c i) (\<lambda>s.
       case s of
         None \<Rightarrow> failC (serverNotFound i)
       | Some server \<Rightarrow>
           if h_Status server = ''off'' then okC ()
           else onC (bindC (hs_Shutdown c server) (\<lambda>action. waitActions c [action]))
             (\<lambda>shutdownErr w.
                case hs_ctxErr c w of
                  Some e \<Rightarrow> (Inl (joinC shutdownErr e), w)
                | None \<Rightarrow>
                    onC (hs_Poweroff c server)
                      (\<lambda>e. failC (joinC shutdownErr (wrapC ''hard poweroff fallback'' e)))
                      (\<lambda>action. onC (waitActions c [action])
                         (\<lambda>e. failC (joinC shutdownErr (wrapC ''wait for hard poweroff fallback'' e)))
                         (\<lambda>_ w. powerOffLoop c i (hs_polls c w) w)) w)
             (\<lambda>_ w. powerOffLoop c i (hs_polls c w) w))"

definition hcRebuildServer :: "'w HCloud \<Rightarrow> int \<Rightarrow> int \<Rightarrow> string \<Rightarrow> ('w, Server) call" where
  "hcRebuildServer c i imageID userData =
     bindC (hs_GetByID c i) (\<lambda>s.
       case s of
         None \<Rightarrow> failC (serverNotFound i)
       | Some server \<Rightarrow>
           bindC (hs_RebuildWithResult c server imageID userData) (\<lambda>action.
           bindC (waitActions c [action]) (\<lambda>_.
           bindC (hs_GetByID c i) (\<lambda>s.
             case s of
               None \<Rightarrow> failC (newError (''server '' @ formatInt i @ '' disappeared after rebuild''))
             | Some server \<Rightarrow> okC (serverFromHCloud server)))))"

definition hcCreateSnapshot :: "'w HCloud \<Rightarrow> CreateSnapshotRequest \<Rightarrow> ('w, Image) call" where
  "hcCreateSnapshot c req =
     bindC (hs_GetByID c (cn_SourceServerID req)) (\<lambda>s.
       case s of
         None \<Rightarrow> failC (serverNotFound (cn_SourceServerID req))
       | Some server \<Rightarrow>
           bindC (hs_CreateImage c server (cn_Name req) (cn_Labels req)) (\<lambda>(img, action).
             case img of
               None \<Rightarrow> failC (newError ''Hetzner API returned an empty snapshot'')
             | Some created \<Rightarrow>
                 onC (waitActions c [action])
                   (\<lambda>e. onC (hi_Delete c created)
                      (\<lambda>d. failC (joinC e (wrapC (''clean up failed snapshot '' @ formatInt (hm_ID created)) d)))
                      (\<lambda>_. failC e))
                   (\<lambda>_. bindC (hi_GetByID c (hm_ID created)) (\<lambda>i.
                      case i of
                        None \<Rightarrow> failC (newError (''snapshot '' @ formatInt (hm_ID created) @ '' disappeared after creation''))
                      | Some img \<Rightarrow> liftC (imageFromHCloud img)))))"

definition hcGetImage :: "'w HCloud \<Rightarrow> int \<Rightarrow> ('w, Image) call" where
  "hcGetImage c i =
     bindC (hi_GetByID c i) (\<lambda>m.
       case m of
         None \<Rightarrow> failC (newError (''image '' @ formatInt i @ '' not found''))
       | Some img \<Rightarrow> liftC (imageFromHCloud img))"

definition hcDeleteImage :: "'w HCloud \<Rightarrow> int \<Rightarrow> ('w, unit) call" where
  "hcDeleteImage c i =
     bindC (hi_GetByID c i) (\<lambda>m. case m of None \<Rightarrow> okC () | Some img \<Rightarrow> hi_Delete c img)"

fun convertImages :: "HImage list \<Rightarrow> ClientError + Image list" where
  "convertImages [] = Inr []"
| "convertImages (i # is) =
     (case imageFromHCloud i of
        Inl e \<Rightarrow> Inl e
      | Inr img \<Rightarrow> (case convertImages is of Inl e \<Rightarrow> Inl e | Inr images \<Rightarrow> Inr (img # images)))"

definition hcListImages :: "'w HCloud \<Rightarrow> string \<Rightarrow> ('w, Image list) call" where
  "hcListImages c selector = bindC (hi_AllWithOpts c selector) (\<lambda>images. liftC (convertImages images))"

definition catalogPrices :: "HServerPricing \<Rightarrow> ServerTypePrice list" where
  "catalogPrices t =
     (case hp_ServerType t of
        None \<Rightarrow> []
      | Some name \<Rightarrow>
          concat (map (\<lambda>(location, hourly, monthly).
            case location of
              None \<Rightarrow> []
            | Some l \<Rightarrow> [\<lparr>tp_InstanceType = name, tp_Location = l, tp_PerHour = hourly, tp_PerMonth = monthly\<rparr>]) (hp_Pricings t)))"

definition hcGetPricing :: "'w HCloud \<Rightarrow> ('w, Catalog) call" where
  "hcGetPricing c =
     bindC (hp_Get c) (\<lambda>p. okC \<lparr>ca_Currency = hp_Currency p, ca_SnapshotGBMonth = hp_ImagePerGBMonth p,
                                ca_ServerTypes = concat (map catalogPrices (hp_ServerTypes p))\<rparr>)"

subsection \<open>What a failed creation leaves behind\<close>

text \<open>
  What the client relies on, with \<open>held w\<close> the labels of the servers that exist: a creation that is answered with a
  server has made exactly that one, with the requested labels; one that fails, or whose answer has no server, has made no server or one with the
  requested labels, since the request may have been carried out and its answer lost; reading and waiting change nothing; an accepted
  deletion removes the server, a refused one may have; and the library does not know the sentinel of this package.
\<close>

definition maybeCreated :: "('w \<Rightarrow> int \<Rightarrow> labels option) \<Rightarrow> labels \<Rightarrow> 'w \<Rightarrow> 'w \<Rightarrow> bool" where
  "maybeCreated held l w w' \<longleftrightarrow> held w' = held w \<or> (\<exists>i > 0. held w i = None \<and> held w' = (held w)(i \<mapsto> l))"

definition library_ok :: "'w HCloud \<Rightarrow> ('w \<Rightarrow> int \<Rightarrow> labels option) \<Rightarrow> bool" where
  "library_ok c held \<longleftrightarrow>
     (\<forall>opts w r w'. hs_Create c opts w = (r, w') \<longrightarrow>
        (case r of Inl e \<Rightarrow> \<not> ce_unavailable e \<and> maybeCreated held (so_Labels opts) w w'
         | Inr res \<Rightarrow> (case cr_Server res of
               None \<Rightarrow> maybeCreated held (so_Labels opts) w w'
             | Some s \<Rightarrow> 0 < h_ID s \<and> held w (h_ID s) = None \<and> held w' = (held w)(h_ID s \<mapsto> so_Labels opts)))) \<and>
     (\<forall>i w r w'. hs_GetByID c i w = (r, w') \<longrightarrow> held w' = held w \<and>
        (case r of Inl e \<Rightarrow> \<not> ce_unavailable e | Inr None \<Rightarrow> held w i = None | Inr (Some s) \<Rightarrow> h_ID s = i \<and> held w i = Some (h_Labels s))) \<and>
     (\<forall>s w r w'. hs_DeleteWithResult c s w = (r, w') \<longrightarrow>
        (case r of Inl e \<Rightarrow> \<not> ce_unavailable e \<and> (held w' = held w \<or> held w' = (held w)(h_ID s := None))
         | Inr _ \<Rightarrow> held w' = (held w)(h_ID s := None))) \<and>
     (\<forall>as w r w'. ha_WaitFor c as w = (r, w') \<longrightarrow> held w' = held w \<and> (case r of Inl e \<Rightarrow> \<not> ce_unavailable e | Inr _ \<Rightarrow> True)) \<and>
     (\<forall>i w. held (snd (hi_GetByID c i w)) = held w)"

text \<open>
  The errors after which another location is tried are refusals: no server has been made. Only the claim that at most one
  machine is left needs this.
\<close>

definition refusals_ok :: "'w HCloud \<Rightarrow> ('w \<Rightarrow> int \<Rightarrow> labels option) \<Rightarrow> bool" where
  "refusals_ok c held \<longleftrightarrow>
     (\<forall>opts w e w'. hs_Create c opts w = (Inl e, w') \<and> isLocationUnavailable e \<longrightarrow> held w' = held w)"

lemma library_create:
  assumes "library_ok c held" "hs_Create c opts w = (r, w')"
  shows "case r of Inl e \<Rightarrow> \<not> ce_unavailable e \<and> maybeCreated held (so_Labels opts) w w'
    | Inr res \<Rightarrow> (case cr_Server res of
          None \<Rightarrow> maybeCreated held (so_Labels opts) w w'
        | Some s \<Rightarrow> 0 < h_ID s \<and> held w (h_ID s) = None \<and> held w' = (held w)(h_ID s \<mapsto> so_Labels opts))"
  using assms unfolding library_ok_def by blast

lemma library_get:
  assumes "library_ok c held" "hs_GetByID c i w = (r, w')"
  shows "held w' = held w"
    "case r of Inl e \<Rightarrow> \<not> ce_unavailable e | Inr None \<Rightarrow> held w i = None | Inr (Some s) \<Rightarrow> h_ID s = i \<and> held w i = Some (h_Labels s)"
  using assms unfolding library_ok_def by blast+

lemma library_delete:
  assumes "library_ok c held" "hs_DeleteWithResult c s w = (r, w')"
  shows "case r of Inl e \<Rightarrow> \<not> ce_unavailable e \<and> (held w' = held w \<or> held w' = (held w)(h_ID s := None))
    | Inr _ \<Rightarrow> held w' = (held w)(h_ID s := None)"
  using assms unfolding library_ok_def by blast

lemma library_wait:
  assumes "library_ok c held" "waitActions c as w = (r, w')"
  shows "held w' = held w" "r = Inl e \<Longrightarrow> \<not> ce_unavailable e"
proof -
  have W: "ha_WaitFor c bs w = (r, w') \<Longrightarrow> held w' = held w \<and> (case r of Inl e \<Rightarrow> \<not> ce_unavailable e | Inr _ \<Rightarrow> True)" for bs
    using assms(1) unfolding library_ok_def by blast
  show "held w' = held w" "r = Inl e \<Longrightarrow> \<not> ce_unavailable e"
    using assms(2) W by (auto simp: waitActions_def failC_def newError_def Let_def split: if_splits)
qed

lemma fun_upd_None: "m i = None \<Longrightarrow> m(i := None) = m"
  by (rule fun_upd_idem)

lemma hcDeleteServer_effect:
  assumes "library_ok c held" "hcDeleteServer c i w = (r, w')"
  shows "held w' = held w \<or> held w' = (held w)(i := None)" "r = Inr u \<Longrightarrow> held w' = (held w)(i := None)" "r = Inl e \<Longrightarrow> \<not> ce_unavailable e"
proof -
  obtain r1 w1 where g: "hs_GetByID c i w = (r1, w1)" by fastforce
  note G = library_get [OF assms(1) g]
  have "(held w' = held w \<or> held w' = (held w)(i := None)) \<and> (\<forall>u. r = Inr u \<longrightarrow> held w' = (held w)(i := None)) \<and> (\<forall>e. r = Inl e \<longrightarrow> \<not> ce_unavailable e)"
  proof (cases r1)
    case (Inl e)
    then show ?thesis using assms(2) g G by (simp add: hcDeleteServer_def bindC_def onC_def failC_def) auto
  next
    case (Inr s)
    show ?thesis
    proof (cases s)
      case None
      then show ?thesis using assms(2) g G Inr by (auto simp: hcDeleteServer_def bindC_def onC_def okC_def fun_upd_None)
    next
      case (Some server)
      then have id: "h_ID server = i" using G(2) Inr by simp
      obtain r2 w2 where d: "hs_DeleteWithResult c server w1 = (r2, w2)" by fastforce
      note D = library_delete [OF assms(1) d]
      show ?thesis
      proof (cases r2)
        case (Inl e)
        then show ?thesis using assms(2) g G(1) D d id Inr Some by (auto simp: hcDeleteServer_def bindC_def onC_def failC_def)
      next
        case (Inr a)
        then have gone: "held w2 = (held w)(i := None)" using D G(1) id by simp
        show ?thesis
        proof (cases a)
          case None
          then show ?thesis using assms(2) g d gone \<open>r1 = Inr s\<close> Some Inr
            by (auto simp: hcDeleteServer_def bindC_def onC_def failC_def newError_def)
        next
          case (Some action)
          have "waitActions c [action] w2 = (r, w')"
            using assms(2) g d \<open>r1 = Inr s\<close> \<open>s = Some server\<close> Inr Some
            by (auto simp: hcDeleteServer_def bindC_def onC_def)
          then show ?thesis using library_wait [OF assms(1)] gone by metis
        qed
      qed
    qed
  qed
  then show "held w' = held w \<or> held w' = (held w)(i := None)" "r = Inr u \<Longrightarrow> held w' = (held w)(i := None)" "r = Inl e \<Longrightarrow> \<not> ce_unavailable e"
    by auto
qed

text \<open>
  The clean-up after a failure: either the new server is gone, or the error does not allow another attempt.
\<close>

lemma cleanup_effect:
  assumes "library_ok c held" "cleanupCreateFailure c i cause w = (r, w')" "\<not> ce_unavailable cause"
    and "old i = None" "held w = old(i \<mapsto> l)"
  shows "\<exists>e. r = Inl e \<and> (held w' = old \<or> (\<not> ce_unavailable e \<and> held w' = old(i \<mapsto> l)))"
proof -
  obtain r1 w1 where d: "hcDeleteServer c i w = (r1, w1)" by fastforce
  note D = hcDeleteServer_effect [OF assms(1) d]
  have del: "(held w)(i := None) = old" using assms(4,5) by auto
  show ?thesis
  proof (cases r1)
    case (Inl e)
    then show ?thesis using assms(2,3,5) d D del
      by (auto simp: cleanupCreateFailure_def onC_def failC_def joinC_def wrapC_def)
  next
    case (Inr u)
    then show ?thesis using assms(2) d D(2) del by (auto simp: cleanupCreateFailure_def onC_def failC_def)
  qed
qed

text \<open>With \<open>clean\<close>, an error that allows another attempt leaves nothing behind.\<close>

definition creation_ok :: "bool \<Rightarrow> ('w \<Rightarrow> int \<Rightarrow> labels option) \<Rightarrow> labels \<Rightarrow> 'w \<Rightarrow> (ClientError + Server) \<times> 'w \<Rightarrow> bool" where
  "creation_ok clean held l w out \<longleftrightarrow>
     (case out of
        (Inr s, w') \<Rightarrow> 0 < sv_ID s \<and> held w (sv_ID s) = None \<and> held w' = (held w)(sv_ID s \<mapsto> l) \<and> sv_Labels s = l
      | (Inl e, w') \<Rightarrow> maybeCreated held l w w' \<and> (clean \<and> ce_unavailable e \<longrightarrow> held w' = held w))"

lemma cleanup_creation_ok:
  assumes "library_ok c held" "\<not> ce_unavailable cause" "0 < i" "held w0 i = None" "held w = (held w0)(i \<mapsto> l)"
  shows "creation_ok clean held l w0 (cleanupCreateFailure c i cause w)"
proof -
  obtain r :: "ClientError + Server" and w' where r: "cleanupCreateFailure c i cause w = (r, w')" by fastforce
  then show ?thesis
    using cleanup_effect [OF assms(1) r assms(2) assms(4,5)] assms(3,4) by (auto simp: creation_ok_def maybeCreated_def)
qed

lemma refresh_creation_ok:
  assumes L: "library_ok c held" "0 < i" "held w0 i = None" "held w = (held w0)(i \<mapsto> l)"
  shows "creation_ok clean held l w0
           (onC (hs_GetByID c i) (\<lambda>e. cleanupCreateFailure c i (wrapC ''refresh created server'' e))
             (\<lambda>s. case s of None \<Rightarrow> cleanupCreateFailure c i (newError ''created server disappeared'')
                           | Some server \<Rightarrow> okC (serverFromHCloud server)) w)"
proof -
  obtain r1 w1 where g: "hs_GetByID c i w = (r1, w1)" by fastforce
  note G = library_get [OF L(1) g]
  have w1: "held w1 = (held w0)(i \<mapsto> l)" using G(1) L(4) by simp
  show ?thesis
  proof (cases r1)
    case (Inl e)
    then have "\<not> ce_unavailable (wrapC ''refresh created server'' e)" using G(2) by (simp add: wrapC_def)
    from cleanup_creation_ok [OF L(1) this L(2,3) w1] show ?thesis using g Inl by (simp add: onC_def)
  next
    case (Inr s)
    show ?thesis
    proof (cases s)
      case None
      have "\<not> ce_unavailable (newError ''created server disappeared'')" by (simp add: newError_def)
      from cleanup_creation_ok [OF L(1) this L(2,3) w1] show ?thesis using g Inr None by (simp add: onC_def)
    next
      case (Some server)
      then have "h_ID server = i" "h_Labels server = l" using G(2) Inr L(4) by simp_all
      then show ?thesis using g Inr Some w1 L(2,3) by (simp add: onC_def okC_def creation_ok_def serverFromHCloud_def)
    qed
  qed
qed

lemma CreateServer_answered:
  assumes "library_ok c held" "hcloudImageRef (cq_Image req) = Inr img" "hs_Create c opts w = (Inr res, w1)" "cr_Server res = Some s"
    and opts: "opts = \<lparr>so_Name = cq_Name req, so_ServerType = cq_InstanceType req, so_Image = img, so_Location = cq_Location req,
             so_UserData = cq_UserData req, so_StartAfterCreate = True, so_Labels = cq_Labels req, so_EnableIPv4 = True,
             so_EnableIPv6 = False, so_Networks = (if cq_NetworkID req \<noteq> 0 then [cq_NetworkID req] else []),
             so_Firewalls = cq_FirewallIDs req\<rparr>"
    and new: "0 < h_ID s" "held w (h_ID s) = None" "held w1 = (held w)(h_ID s \<mapsto> cq_Labels req)"
  shows "creation_ok clean held (cq_Labels req) w (hcCreateServer c req w)"
proof -
  obtain r2 w2 where wt: "waitActions c (cr_Action res # cr_NextActions res) w1 = (r2, w2)" by fastforce
  have w2: "held w2 = (held w)(h_ID s \<mapsto> cq_Labels req)" using library_wait(1) [OF assms(1) wt] new(3) by simp
  show ?thesis
  proof (cases r2)
    case (Inl e)
    then have "\<not> ce_unavailable (wrapC ''wait for server create'' e)" using library_wait(2) [OF assms(1) wt] by (simp add: wrapC_def)
    from cleanup_creation_ok [OF assms(1) this new(1,2) w2] show ?thesis
      using assms(2-4) wt Inl by (simp add: hcCreateServer_def bindC_def onC_def liftC_def flip: opts)
  next
    case ok: (Inr u)
    have "hcCreateServer c req w =
      onC (hs_GetByID c (h_ID s)) (\<lambda>e. cleanupCreateFailure c (h_ID s) (wrapC ''refresh created server'' e))
           (\<lambda>s'. case s' of None \<Rightarrow> cleanupCreateFailure c (h_ID s) (newError ''created server disappeared'')
                         | Some server \<Rightarrow> okC (serverFromHCloud server)) w2"
      using assms(2-4) wt ok by (simp add: hcCreateServer_def bindC_def onC_def [of "hs_Create c opts"] onC_def [of "waitActions c _"] onC_def [of "liftC _"] liftC_def flip: opts)
    then show ?thesis using refresh_creation_ok [OF assms(1) new(1,2) w2] by simp
  qed
qed

text \<open>
  The contract of \<open>ErrLocationUnavailable\<close>: when \<open>CreateServer\<close> succeeds exactly one new server with the requested
  labels exists; after an error at most one server is left, with the requested labels; and when the error is
  that the location is unavailable, so that the caller may try another one, none is left, provided the library's own errors
  of this kind are refusals.
\<close>

theorem CreateServer_contract:
  assumes "library_ok c held"
  shows "creation_ok (refusals_ok c held) held (cq_Labels req) w (hcCreateServer c req w)"
proof (cases "hcloudImageRef (cq_Image req)")
  case (Inl e)
  then show ?thesis by (simp add: hcCreateServer_def bindC_def onC_def liftC_def failC_def creation_ok_def maybeCreated_def)
next
  case (Inr img)
  define opts where "opts = \<lparr>so_Name = cq_Name req, so_ServerType = cq_InstanceType req, so_Image = img, so_Location = cq_Location req,
             so_UserData = cq_UserData req, so_StartAfterCreate = True, so_Labels = cq_Labels req, so_EnableIPv4 = True,
             so_EnableIPv6 = False, so_Networks = (if cq_NetworkID req \<noteq> 0 then [cq_NetworkID req] else []),
             so_Firewalls = cq_FirewallIDs req\<rparr>"
  obtain r1 w1 where cr: "hs_Create c opts w = (r1, w1)" by fastforce
  note C = library_create [OF assms cr]
  show ?thesis
  proof (cases r1)
    case (Inl e)
    then have left: "maybeCreated held (cq_Labels req) w w1" "\<not> ce_unavailable e" using C by (simp_all add: opts_def)
    have "held w1 = held w" if "refusals_ok c held" "ce_unavailable (classifyCreateError e)"
      using that cr Inl left(2) unfolding refusals_ok_def classifyCreateError_def by (metis (full_types))
    then show ?thesis using left cr Inl Inr
      by (simp add: hcCreateServer_def bindC_def onC_def liftC_def failC_def creation_ok_def flip: opts_def)
  next
    case made: (Inr res)
    show ?thesis
    proof (cases "cr_Server res")
      case None
      then have "maybeCreated held (cq_Labels req) w w1" using C made by (simp add: opts_def)
      then show ?thesis using cr made Inr None
        by (simp add: hcCreateServer_def bindC_def onC_def liftC_def failC_def creation_ok_def newError_def flip: opts_def)
    next
      case (Some s)
      from CreateServer_answered [OF assms Inr cr [unfolded made] this opts_def] C show ?thesis using made Some by (simp add: opts_def)
    qed
  qed
qed

end
