(* ===== verification/Decimals.thy ===== *)
theory Decimals
  imports Go_Strings
begin

text \<open>
  Prices as decimal text: \<open>parseDecimalNanos\<close>, \<open>validCurrency\<close> and \<open>allDigits\<close> of
  src/internal/provider/hetzner/pricing.go and src/internal/provider/digitalocean/pricing.go, which convert a
  price to billionths of a currency unit without floating point. The two parsers differ: Hetzner's
  rounds what is beyond the ninth digit, DigitalOcean's refuses it and checks the sum for overflow.
\<close>

definition nanosPerUnit :: int where
  "nanosPerUnit = 1000000000"

definition allDigits :: "string \<Rightarrow> bool" where
  "allDigits value \<longleftrightarrow> list_all isDigit value"

definition validCurrency :: "string \<Rightarrow> bool" where
  "validCurrency currency \<longleftrightarrow> length currency = 3 \<and> list_all (\<lambda>c. (of_char c :: nat) \<in> {65..90}) currency"

text \<open>\<open>strings.Cut(raw, ".")\<close> with the third result as an option.\<close>

definition cutDecimal :: "string \<Rightarrow> string \<times> string option" where
  "cutDecimal raw = (case cut (CHR ''.'') raw of None \<Rightarrow> (raw, None) | Some (w, f) \<Rightarrow> (w, Some f))"

definition malformedDecimal :: "string \<Rightarrow> string \<Rightarrow> string option \<Rightarrow> bool" where
  "malformedDecimal raw whole fraction \<longleftrightarrow>
     raw = '''' \<or> whole = '''' \<or> (case fraction of None \<Rightarrow> False | Some f \<Rightarrow> CHR ''.'' \<in> set f) \<or>
     \<not> allDigits whole \<or> (case fraction of None \<Rightarrow> False | Some f \<Rightarrow> f = '''' \<or> \<not> allDigits f)"

definition fractionText :: "string option \<Rightarrow> string" where
  "fractionText fraction = (case fraction of None \<Rightarrow> '''' | Some f \<Rightarrow> f)"

text \<open>The first nine digits of the fraction, filled up with zeros.\<close>

definition keptDigits :: "string \<Rightarrow> string" where
  "keptDigits fraction = take 9 fraction @ replicate (9 - length (take 9 fraction)) (CHR ''0'')"

definition parseDecimalNanos :: "string \<Rightarrow> int result" where
  "parseDecimalNanos raw0 =
     (let raw = trimSpace raw0; (whole, fraction) = cutDecimal raw; f = fractionText fraction in
      if malformedDecimal raw whole fraction
      then failE (''must be a non-negative decimal string, got '' @ goQuote raw)
      else case Atoi whole of
        None \<Rightarrow> failE (''decimal value is too large: '' @ goQuote raw)
      | Some wholeValue \<Rightarrow>
          if wholeValue > max_int64 sdiv nanosPerUnit then failE (''decimal value is too large: '' @ goQuote raw)
          else case Atoi (keptDigits f) of
            None \<Rightarrow> failE (''invalid decimal value '' @ goQuote raw)
          | Some fractionalValue \<Rightarrow>
              let value = wrap64 (wholeValue * nanosPerUnit + fractionalValue) in
              if length f > 9 \<and> (of_char (f ! 9) :: nat) \<ge> of_char (CHR ''5'')
              then if value = max_int64 then failE (''decimal value is too large: '' @ goQuote raw) else Inr (wrap64 (value + 1))
              else Inr value)"

text \<open>The parser of the DigitalOcean package.\<close>

definition parseDecimalNanos_do :: "string \<Rightarrow> int result" where
  "parseDecimalNanos_do raw0 =
     (let raw = trimSpace raw0; (whole, fraction) = cutDecimal raw; f = fractionText fraction in
      if malformedDecimal raw whole fraction
      then failE (''must be a non-negative decimal string, got '' @ goQuote raw)
      else if length f > 9 then failE (''has more than 9 fractional digits: '' @ goQuote raw)
      else case Atoi whole of
        None \<Rightarrow> failE (''decimal value is too large: '' @ goQuote raw)
      | Some wholeValue \<Rightarrow>
          if wholeValue > max_int64 sdiv nanosPerUnit then failE (''decimal value is too large: '' @ goQuote raw)
          else case Atoi (f @ replicate (9 - length f) (CHR ''0'')) of
            None \<Rightarrow> failE (''invalid decimal value '' @ goQuote raw)
          | Some fractionValue \<Rightarrow>
              let value = wrap64 (wholeValue * nanosPerUnit + fractionValue) in
              if value < 0 then failE (''decimal value is too large: '' @ goQuote raw) else Inr value)"

subsection \<open>What the text denotes\<close>

text \<open>
  A text of digits \<open>whole.fraction\<close> denotes \<open>numeral (whole @ fraction) / 10 ^ length fraction\<close>.
\<close>

definition digitValue :: "char \<Rightarrow> int" where
  "digitValue c = of_char c - 48"

definition numeralOf :: "string \<Rightarrow> int" where
  "numeralOf ds = foldl (\<lambda>acc c. 10 * acc + digitValue c) 0 ds"

text \<open>Billionths, the half rounded up.\<close>

definition roundedNanos :: "string \<Rightarrow> string \<Rightarrow> int" where
  "roundedNanos whole fraction =
     (2 * numeralOf (whole @ fraction) * nanosPerUnit + 10 ^ length fraction) div (2 * 10 ^ length fraction)"

lemma foldl_numeral: "foldl (\<lambda>acc c. 10 * acc + digitValue c) a ds = a * 10 ^ length ds + numeralOf ds"
proof (induction ds arbitrary: a)
  case (Cons d ds)
  show ?case using Cons [of "10 * a + digitValue d"] Cons [of "digitValue d"] by (simp add: numeralOf_def algebra_simps)
qed (simp add: numeralOf_def)

lemma numeralOf_append: "numeralOf (xs @ ys) = numeralOf xs * 10 ^ length ys + numeralOf ys"
proof -
  have "numeralOf (xs @ ys) = foldl (\<lambda>acc c. 10 * acc + digitValue c) (numeralOf xs) ys" by (simp add: numeralOf_def)
  then show ?thesis by (simp only: foldl_numeral)
qed

lemma digitValue_range: "isDigit c \<Longrightarrow> 0 \<le> digitValue c \<and> digitValue c \<le> 9"
proof -
  assume "isDigit c"
  moreover have "(of_char c :: int) = int (of_char c)" by (simp only: of_nat_of_char)
  ultimately show ?thesis by (simp add: isDigit_def digitValue_def)
qed

lemma numeralOf_range: "allDigits ds \<Longrightarrow> 0 \<le> numeralOf ds \<and> numeralOf ds < 10 ^ length ds"
proof (induction ds rule: rev_induct)
  case (snoc d ds)
  then show ?case using digitValue_range [of d] by (auto simp: numeralOf_append allDigits_def) (simp add: numeralOf_def)+
qed (simp add: numeralOf_def)

lemma numeralOf_zeros: "numeralOf (replicate n (CHR ''0'')) = 0"
  by (induction n) (simp_all add: numeralOf_def digitValue_def)

lemma digitsValue_numeral: "allDigits ds \<Longrightarrow> digitsValue ds a = Some (a * 10 ^ length ds + numeralOf ds)"
proof (induction ds arbitrary: a)
  case (Cons d ds)
  have "numeralOf (d # ds) = digitValue d * 10 ^ length ds + numeralOf ds"
    using numeralOf_append [of "[d]" ds] by (simp add: numeralOf_def)
  then show ?case using Cons by (simp add: allDigits_def digitValue_def algebra_simps)
qed (simp add: numeralOf_def)

lemma Atoi_digits:
  assumes "allDigits ds" "ds \<noteq> []"
  shows "Atoi ds = (if numeralOf ds \<le> max_int64 then Some (numeralOf ds) else None)"
proof -
  obtain c cs where ds: "ds = c # cs" using assms(2) by (cases ds) auto
  then have "c \<noteq> CHR ''-'' \<and> c \<noteq> CHR ''+''" using assms(1) digit_not_sign by (simp add: allDigits_def)
  then show ?thesis
    using digitsValue_numeral [OF assms(1), of 0] numeralOf_range [OF assms(1)] ds
    by (auto simp: Atoi_def in_int64_def min_int64_def)
qed

lemma rounded_short:
  assumes "length f \<le> 9"
  shows "roundedNanos whole f = numeralOf whole * nanosPerUnit + numeralOf (f @ replicate (9 - length f) (CHR ''0''))"
proof -
  let ?p = "10 ^ length f :: int" and ?q = "10 ^ (9 - length f) :: int"
  have pq: "nanosPerUnit = ?p * ?q" using assms by (simp add: nanosPerUnit_def flip: power_add)
  have "2 * numeralOf (whole @ f) * nanosPerUnit + ?p = ?p + (numeralOf (whole @ f) * ?q) * (2 * ?p)" unfolding pq by (simp add: algebra_simps)
  then have "roundedNanos whole f = (?p + (numeralOf (whole @ f) * ?q) * (2 * ?p)) div (2 * ?p)" by (simp only: roundedNanos_def)
  also have "\<dots> = numeralOf (whole @ f) * ?q" by simp
  also have "\<dots> = numeralOf whole * nanosPerUnit + numeralOf (f @ replicate (9 - length f) (CHR ''0''))"
    unfolding pq by (simp add: numeralOf_append numeralOf_zeros algebra_simps)
  finally show ?thesis .
qed

lemma round_quotient:
  fixes A S t :: int
  assumes "0 \<le> S" "S < 10 * t"
  shows "(2 * (A * 10 * t + S) * 1000000000 + 10000000000 * t) div (2 * (10000000000 * t)) = A + (if 5 * t \<le> S then 1 else 0)"
proof -
  have t: "0 < t" using assms by linarith
  have "(2 * (A * 10 * t + S) * 1000000000 + 10000000000 * t) div (2 * (10000000000 * t))
      = (1000000000 * (2 * S + 10 * t + A * (20 * t))) div (1000000000 * (20 * t))" by (simp add: algebra_simps)
  also have "\<dots> = (2 * S + 10 * t + A * (20 * t)) div (20 * t)" by (rule div_mult_mult1) simp
  also have "\<dots> = A + (2 * S + 10 * t) div (20 * t)" using t by (subst div_mult_self1) simp_all
  also have "(2 * S + 10 * t) div (20 * t) = (if 5 * t \<le> S then 1 else 0)"
    using assms t by (auto intro!: int_div_pos_eq [where r = "2 * S - 10 * t"] div_pos_pos_trivial)
  finally show ?thesis .
qed

lemma rounded_long:
  assumes "9 < length f" "allDigits f"
  shows "roundedNanos whole f = numeralOf whole * nanosPerUnit + numeralOf (take 9 f) + (if 5 \<le> digitValue (f ! 9) then 1 else 0)"
proof -
  let ?t = "10 ^ (length f - 10) :: int" and ?R = "numeralOf (drop 10 f)" and ?D = "digitValue (f ! 9)"
  let ?A = "numeralOf whole * nanosPerUnit + numeralOf (take 9 f)"
  have f: "f = take 9 f @ [f ! 9] @ drop 10 f" using assms(1) id_take_nth_drop [of 9 f] by simp
  have digits: "allDigits (drop 10 f)" "isDigit (f ! 9)"
    using assms by (auto simp: allDigits_def list_all_length)
  have D: "0 \<le> ?D" "?D \<le> 9" and R: "0 \<le> ?R" "?R < ?t"
    using digitValue_range [OF digits(2)] numeralOf_range [OF digits(1)] by auto
  have len: "length f = 10 + (length f - 10)" using assms(1) by simp
  then have pow: "(10 :: int) ^ length f = 10000000000 * ?t" by (subst len, subst power_add) simp
  have "numeralOf f = (numeralOf (take 9 f) * 10 + ?D) * ?t + ?R"
    by (subst f, simp only: numeralOf_append) (use assms(1) in \<open>simp add: numeralOf_def algebra_simps\<close>)
  then have "numeralOf (whole @ f) = ?A * 10 * ?t + (?D * ?t + ?R)"
    by (simp add: numeralOf_append pow nanosPerUnit_def algebra_simps)
  moreover have "0 \<le> ?D * ?t" "?D * ?t \<le> 9 * ?t" using D by (simp_all only: mult_nonneg_nonneg mult_right_mono zero_le_power zero_le_numeral)
  then have S: "0 \<le> ?D * ?t + ?R" "?D * ?t + ?R < 10 * ?t" using R by linarith+
  ultimately have "roundedNanos whole f = ?A + (if 5 * ?t \<le> ?D * ?t + ?R then 1 else 0)"
    unfolding roundedNanos_def pow using round_quotient [OF S, of ?A] by (simp add: nanosPerUnit_def)
  moreover have "5 * ?t \<le> ?D * ?t + ?R \<longleftrightarrow> 5 \<le> ?D"
  proof
    assume "5 \<le> ?D"
    then have "5 * ?t \<le> ?D * ?t" by (simp only: mult_right_mono zero_le_power zero_le_numeral)
    then show "5 * ?t \<le> ?D * ?t + ?R" using R by linarith
  next
    assume "5 * ?t \<le> ?D * ?t + ?R"
    moreover have "?D \<le> 4 \<Longrightarrow> ?D * ?t \<le> 4 * ?t" by (simp only: mult_right_mono zero_le_power zero_le_numeral)
    ultimately show "5 \<le> ?D" using R by linarith
  qed
  ultimately show ?thesis by simp
qed

lemma keptDigits_value:
  assumes "allDigits f"
  shows "Atoi (keptDigits f) = Some (numeralOf (keptDigits f))" "0 \<le> numeralOf (keptDigits f)" "numeralOf (keptDigits f) < nanosPerUnit"
proof -
  have ok: "allDigits (keptDigits f)" "length (keptDigits f) = 9" "keptDigits f \<noteq> []"
    using assms by (auto simp: keptDigits_def allDigits_def list_all_iff isDigit_def dest: in_set_takeD)
  then have "0 \<le> numeralOf (keptDigits f) \<and> numeralOf (keptDigits f) < 1000000000" using numeralOf_range [OF ok(1)] by simp
  then show "Atoi (keptDigits f) = Some (numeralOf (keptDigits f))" "0 \<le> numeralOf (keptDigits f)" "numeralOf (keptDigits f) < nanosPerUnit"
    using Atoi_digits [OF ok(1,3)] by (simp_all add: nanosPerUnit_def max_int64_def)
qed

lemma keptDigits_short: "length f \<le> 9 \<Longrightarrow> keptDigits f = f @ replicate (9 - length f) (CHR ''0'')"
  by (simp add: keptDigits_def)

lemma keptDigits_long: "9 < length f \<Longrightarrow> keptDigits f = take 9 f"
  by (simp add: keptDigits_def)

lemma malformed_facts:
  assumes "\<not> malformedDecimal raw whole fraction"
  shows "allDigits whole" "whole \<noteq> []" "allDigits (fractionText fraction)"
  using assms by (auto simp: malformedDecimal_def fractionText_def allDigits_def split: option.splits)

lemma wrap64_carry:
  assumes "0 \<le> w" "w \<le> 9223372036" "0 \<le> f" "f < nanosPerUnit" "v = w * nanosPerUnit + f"
  shows "wrap64 v = (if v \<le> max_int64 then v else v - 18446744073709551616)" "wrap64 v < 0 \<longleftrightarrow> max_int64 < v"
proof -
  have b: "0 \<le> v" "v \<le> 9223372036999999999" using assms by (auto simp: nanosPerUnit_def)
  have "max_int64 < v \<Longrightarrow> (v + 9223372036854775808) mod 18446744073709551616 = v + 9223372036854775808 - 18446744073709551616"
    using b int_mod_pos_eq [of "v + 9223372036854775808" 18446744073709551616 1 "v + 9223372036854775808 - 18446744073709551616"]
    by (simp add: max_int64_def)
  then show "wrap64 v = (if v \<le> max_int64 then v else v - 18446744073709551616)"
    using b by (cases "v \<le> max_int64") (simp_all add: wrap64_id in_int64_def min_int64_def, simp add: wrap64_def)
  then show "wrap64 v < 0 \<longleftrightarrow> max_int64 < v" using b by (simp add: max_int64_def)
qed

text \<open>The whole part of a text that is accepted, its fraction, and what it is read as before rounding.\<close>

lemma parseDecimalNanos_Inr:
  assumes "parseDecimalNanos raw = Inr v"
  obtains whole fraction exact where
    "cutDecimal (trimSpace raw) = (whole, fraction)" "\<not> malformedDecimal (trimSpace raw) whole fraction"
    "0 \<le> numeralOf whole" "numeralOf whole \<le> 9223372036"
    "exact = numeralOf whole * nanosPerUnit + numeralOf (keptDigits (fractionText fraction))"
    "v = (if 9 < length (fractionText fraction) \<and> 5 \<le> digitValue (fractionText fraction ! 9) then wrap64 (wrap64 exact + 1) else wrap64 exact)"
    "9 < length (fractionText fraction) \<and> 5 \<le> digitValue (fractionText fraction ! 9) \<longrightarrow> wrap64 exact \<noteq> max_int64"
proof -
  obtain whole fraction where c: "cutDecimal (trimSpace raw) = (whole, fraction)" by fastforce
  have m: "\<not> malformedDecimal (trimSpace raw) whole fraction"
    using assms c by (auto simp: parseDecimalNanos_def Let_def)
  note F = malformed_facts [OF m]
  have five: "(of_char (d :: char) :: nat) \<ge> of_char (CHR ''5'') \<longleftrightarrow> 5 \<le> digitValue d" for d
  proof -
    have "(of_char d :: int) = int (of_char d)" by (simp only: of_nat_of_char)
    then show ?thesis by (simp add: digitValue_def)
  qed
  show thesis
  proof (rule that [OF c m])
    show "0 \<le> numeralOf whole" using numeralOf_range [OF F(1)] by simp
    show "numeralOf whole \<le> 9223372036"
      using assms c m Atoi_digits [OF F(1,2)]
      by (auto simp: parseDecimalNanos_def Let_def max_int64_def nanosPerUnit_def split: if_splits)
  qed (use assms c m Atoi_digits [OF F(1,2)] keptDigits_value(1) [OF F(3)] five in
       \<open>auto simp: parseDecimalNanos_def Let_def split: if_splits\<close>)
qed

lemma kept_rounded:
  assumes "allDigits f"
  shows "roundedNanos whole f = numeralOf whole * nanosPerUnit + numeralOf (keptDigits f) + (if 9 < length f \<and> 5 \<le> digitValue (f ! 9) then 1 else 0)"
proof (cases "9 < length f")
  case True
  then show ?thesis using rounded_long [OF True assms, of whole] by (simp add: keptDigits_long)
next
  case False
  then show ?thesis using rounded_short [of f whole] by (simp add: keptDigits_short)
qed

theorem parseDecimalNanos_exact:
  assumes "parseDecimalNanos raw = Inr v" "0 \<le> v"
  shows "\<exists>whole fraction. cutDecimal (trimSpace raw) = (whole, fraction) \<and> \<not> malformedDecimal (trimSpace raw) whole fraction \<and>
           v = roundedNanos whole (fractionText fraction)"
proof -
  obtain whole fraction exact where P: "cutDecimal (trimSpace raw) = (whole, fraction)" "\<not> malformedDecimal (trimSpace raw) whole fraction"
    "0 \<le> numeralOf whole" "numeralOf whole \<le> 9223372036"
    "exact = numeralOf whole * nanosPerUnit + numeralOf (keptDigits (fractionText fraction))"
    "v = (if 9 < length (fractionText fraction) \<and> 5 \<le> digitValue (fractionText fraction ! 9) then wrap64 (wrap64 exact + 1) else wrap64 exact)"
    "9 < length (fractionText fraction) \<and> 5 \<le> digitValue (fractionText fraction ! 9) \<longrightarrow> wrap64 exact \<noteq> max_int64"
    using parseDecimalNanos_Inr [OF assms(1)] by metis
  have F: "allDigits (fractionText fraction)" using malformed_facts [OF P(2)] by simp
  note K = keptDigits_value [OF F]
  note W = wrap64_carry [OF P(3,4) K(2,3) P(5)]
  have up: "wrap64 (wrap64 exact + 1) = wrap64 exact + 1" if "wrap64 exact \<noteq> max_int64"
    using that wrap64_in_int64 [of exact] by (intro wrap64_id) (auto simp: in_int64_def)
  have b: "0 \<le> exact" "exact \<le> 9223372036999999999" using P(3-5) K by (auto simp: nanosPerUnit_def)
  have "exact \<le> max_int64"
  proof (rule ccontr)
    assume "\<not> exact \<le> max_int64"
    then have "wrap64 exact = exact - 18446744073709551616" using W(1) by simp
    then show False using P(6,7) up assms(2) b by (auto split: if_splits)
  qed
  then have "v = roundedNanos whole (fractionText fraction)" using W(1) P(5-7) up kept_rounded [OF F, of whole] by auto
  then show ?thesis using P(1,2) by blast
qed

lemma parseDecimalNanos_do_Inr:
  assumes "parseDecimalNanos_do raw = Inr v"
  obtains whole fraction where
    "cutDecimal (trimSpace raw) = (whole, fraction)" "\<not> malformedDecimal (trimSpace raw) whole fraction"
    "length (fractionText fraction) \<le> 9" "0 \<le> numeralOf whole" "numeralOf whole \<le> 9223372036" "0 \<le> v"
    "v = wrap64 (numeralOf whole * nanosPerUnit + numeralOf (keptDigits (fractionText fraction)))"
proof -
  obtain whole fraction where c: "cutDecimal (trimSpace raw) = (whole, fraction)" by fastforce
  have m: "\<not> malformedDecimal (trimSpace raw) whole fraction" and l: "length (fractionText fraction) \<le> 9"
    using assms c by (auto simp: parseDecimalNanos_do_def Let_def split: if_splits)
  note F = malformed_facts [OF m]
  note K = keptDigits_value(1) [OF F(3)]
  have "numeralOf whole \<le> 9223372036"
    using assms c m l Atoi_digits [OF F(1,2)]
    by (auto simp: parseDecimalNanos_do_def Let_def max_int64_def nanosPerUnit_def split: if_splits)
  moreover have "0 \<le> v" "v = wrap64 (numeralOf whole * nanosPerUnit + numeralOf (keptDigits (fractionText fraction)))"
    using assms c m l Atoi_digits [OF F(1,2)] K
    by (auto simp: parseDecimalNanos_do_def Let_def keptDigits_short split: if_splits)
  ultimately show thesis using that [OF c m l] numeralOf_range [OF F(1)] by simp
qed

theorem parseDecimalNanos_do_exact:
  assumes "parseDecimalNanos_do raw = Inr v"
  shows "\<exists>whole fraction. cutDecimal (trimSpace raw) = (whole, fraction) \<and> \<not> malformedDecimal (trimSpace raw) whole fraction \<and>
           length (fractionText fraction) \<le> 9 \<and> 0 \<le> v \<and> v = roundedNanos whole (fractionText fraction)"
proof (rule parseDecimalNanos_do_Inr [OF assms])
  fix whole fraction
  assume c: "cutDecimal (trimSpace raw) = (whole, fraction)" and m: "\<not> malformedDecimal (trimSpace raw) whole fraction"
    and l: "length (fractionText fraction) \<le> 9" and w: "0 \<le> numeralOf whole" "numeralOf whole \<le> 9223372036" and "0 \<le> v"
    and v: "v = wrap64 (numeralOf whole * nanosPerUnit + numeralOf (keptDigits (fractionText fraction)))"
  have F: "allDigits (fractionText fraction)" using malformed_facts [OF m] by simp
  have "v = numeralOf whole * nanosPerUnit + numeralOf (keptDigits (fractionText fraction))"
    using wrap64_carry [OF w keptDigits_value(2,3) [OF F] refl] v \<open>0 \<le> v\<close> by (auto split: if_splits)
  then show ?thesis using c m l \<open>0 \<le> v\<close> kept_rounded [OF F, of whole] by auto
qed

text \<open>
  Hetzner's parser does not check the sum: a price just under 9.3 billion becomes a negative one, where DigitalOcean's
  parser reports an error.
\<close>

theorem large_price_becomes_negative:
  "parseDecimalNanos ''9223372036.9'' = Inr (- 9223372036809551616) \<and> is_err (parseDecimalNanos_do ''9223372036.9'')"
  by code_simp

end
