(* ===== verification/Hetzner.thy ===== *)
theory Hetzner
  imports Hetzner_Client Decimals Teardown
begin

text \<open>
  The Hetzner provider, src/internal/provider/hetzner/hetzner.go, pricing.go and userdata.go, over the client
  interface of client.go, the record \<open>Client\<close>; \<open>hcloudClient\<close> is the production client of Hetzner_Client.
  SHA-256 is the argument \<open>sha\<close>, the decoded configuration an argument of \<open>Configure\<close>. Maps of a configuration
  are association lists in the order in which they are visited. The fields of a price override that are set by
  validation are options.
\<close>

subsection \<open>Configuration\<close>

record priceRateOverride =
  po_PerHour :: string
  po_PerMonth :: string
  po_perHourNanos :: "int option"
  po_perMonthNanos :: "int option"

record pricingOverride =
  pv_Currency :: string
  pv_Instances :: "(string \<times> priceRateOverride) list"
  pv_SnapshotGBMonth :: string
  pv_snapshotGBMonthNanos :: "int option"

record config =
  cf_Token :: string
  cf_Location :: string
  cf_Locations :: "string list"
  cf_Image :: string
  cf_NetworkID :: int
  cf_FirewallIDs :: "int list"
  cf_PricingOverride :: "pricingOverride option"

definition optionalNanos :: "string \<Rightarrow> string \<Rightarrow> int option result" where
  "optionalNanos what raw = (if raw = '''' then Inr None else bindE (wrapE what (parseDecimalNanos raw)) (\<lambda>v. Inr (Some v)))"

definition normalizeRate :: "string \<Rightarrow> priceRateOverride \<Rightarrow> priceRateOverride result" where
  "normalizeRate slug rate =
     (let rate = rate\<lparr>po_PerHour := trimSpace (po_PerHour rate), po_PerMonth := trimSpace (po_PerMonth rate)\<rparr> in
      if po_PerHour rate = '''' \<and> po_PerMonth rate = '''' then failE (''instances.'' @ slug @ '' must set per_hour or per_month'')
      else bindE (optionalNanos (''instances.'' @ slug @ ''.per_hour'') (po_PerHour rate)) (\<lambda>h.
           bindE (optionalNanos (''instances.'' @ slug @ ''.per_month'') (po_PerMonth rate)) (\<lambda>m.
             Inr (rate\<lparr>po_perHourNanos := h, po_perMonthNanos := m\<rparr>))))"

fun normalizeInstances :: "(string \<times> priceRateOverride) list \<Rightarrow> (string \<times> priceRateOverride) list \<Rightarrow> (string \<times> priceRateOverride) list result" where
  "normalizeInstances [] normalized = Inr normalized"
| "normalizeInstances ((slug0, rate) # rest) normalized =
     (let slug = trimSpace slug0 in
      if slug = '''' then failE ''instances contains an empty server type''
      else if map_of normalized slug \<noteq> None then failE (''instances contains duplicate normalized server type '' @ goQuote slug)
      else bindE (normalizeRate slug rate) (\<lambda>rate. normalizeInstances rest (normalized @ [(slug, rate)])))"

definition defaultCurrency :: string where "defaultCurrency = ''EUR''"
definition catalogSource :: string where "catalogSource = ''hetzner:pricing''"
definition overrideSource :: string where "overrideSource = ''config:pricing_override''"

definition normalizePricing :: "pricingOverride \<Rightarrow> pricingOverride result" where
  "normalizePricing p =
     (let currency = toUpper (trimSpace (pv_Currency p));
          currency = (if currency = '''' then defaultCurrency else currency)
      in if \<not> validCurrency currency then failE (''currency must be a three-letter ISO code, got '' @ goQuote currency)
         else bindE (normalizeInstances (pv_Instances p) []) (\<lambda>normalized.
              let snapshot = trimSpace (pv_SnapshotGBMonth p) in
              bindE (optionalNanos ''snapshot_gb_month'' snapshot) (\<lambda>rate.
                if normalized = [] \<and> rate = None then failE ''must set instances or snapshot_gb_month''
                else Inr \<lparr>pv_Currency = currency, pv_Instances = normalized, pv_SnapshotGBMonth = snapshot,
                          pv_snapshotGBMonthNanos = rate\<rparr>)))"

fun checkLocations :: "string list \<Rightarrow> string set \<Rightarrow> unit result" where
  "checkLocations [] seen = Inr ()"
| "checkLocations (l # ls) seen =
     (if l = '''' then failE ''hetzner: provider config: locations must contain non-empty names''
      else if l \<in> seen then failE (''hetzner: provider config: duplicate locations entry '' @ goQuote l)
      else checkLocations ls (insert l seen))"

fun checkFirewalls :: "int list \<Rightarrow> int set \<Rightarrow> unit result" where
  "checkFirewalls [] seen = Inr ()"
| "checkFirewalls (i # is) seen =
     (if i \<le> 0 then failE (''hetzner: provider config: firewall_ids must contain positive IDs, got '' @ formatInt i)
      else if i \<in> seen then failE (''hetzner: provider config: duplicate firewall_ids entry '' @ formatInt i)
      else checkFirewalls is (insert i seen))"

text \<open>\<open>strings.Join\<close> with \<open>", "\<close>.\<close>

fun joinComma :: "string list \<Rightarrow> string" where
  "joinComma [] = ''''"
| "joinComma [w] = w"
| "joinComma (w # v # ws) = w @ '', '' @ joinComma (v # ws)"

definition missingFields :: "(bool \<times> string) list \<Rightarrow> string list" where
  "missingFields fs = map snd (filter fst fs)"

definition normalizeLocations :: "config \<Rightarrow> config result" where
  "normalizeLocations c =
     (if cf_Location c \<noteq> '''' \<and> cf_Locations c \<noteq> []
      then failE ''hetzner: provider config: location and locations are mutually exclusive''
      else if cf_Location c \<noteq> '''' then Inr (c\<lparr>cf_Locations := [cf_Location c]\<rparr>)
      else if cf_Locations c \<noteq> []
      then bindE (checkLocations (cf_Locations c) {}) (\<lambda>_. Inr (c\<lparr>cf_Location := hd (cf_Locations c)\<rparr>))
      else Inr c)"

definition normalizeAndValidate :: "config \<Rightarrow> config result" where
  "normalizeAndValidate c0 =
     (let c = c0\<lparr>cf_Token := trimSpace (cf_Token c0), cf_Location := trimSpace (cf_Location c0),
                cf_Locations := map trimSpace (cf_Locations c0), cf_Image := trimSpace (cf_Image c0)\<rparr> in
      bindE (normalizeLocations c) (\<lambda>c.
      let missing = missingFields [(cf_Token c = '''', ''token''), (cf_Locations c = [], ''location or locations''), (cf_Image c = '''', ''image'')] in
      if missing \<noteq> [] then failE (''hetzner: provider config missing: '' @ joinComma missing)
      else if cf_NetworkID c < 0 then failE (''hetzner: provider config: network_id must be positive, got '' @ formatInt (cf_NetworkID c))
      else bindE (checkFirewalls (cf_FirewallIDs c) {}) (\<lambda>_.
           case cf_PricingOverride c of
             None \<Rightarrow> Inr c
           | Some p \<Rightarrow> bindE (wrapE ''hetzner: provider config: pricing_override'' (normalizePricing p)) (\<lambda>p. Inr (c\<lparr>cf_PricingOverride := Some p\<rparr>)))))"

subsection \<open>User data\<close>

definition crlf :: string where "crlf = [CHR 0x0D, CHR 0x0A]"
definition nl :: string where "nl = [CHR 0x0A]"
definition dq :: string where "dq = [CHR 0x22]"
definition sq :: string where "sq = [CHR 0x27]"

text \<open>\<open>multipart.Writer\<close> with parts of one header each: \<open>CreatePart\<close>, \<open>Write\<close> and \<open>Close\<close>.\<close>

fun mimeParts :: "string \<Rightarrow> bool \<Rightarrow> (string \<times> string) list \<Rightarrow> string" where
  "mimeParts boundary first [] = crlf @ ''--'' @ boundary @ ''--'' @ crlf"
| "mimeParts boundary first ((contentType, body) # parts) =
     (if first then ''--'' else crlf @ ''--'') @ boundary @ crlf @ ''Content-Type: '' @ contentType @ crlf @ crlf @ body @
     mimeParts boundary False parts"

definition mimeMessage :: "string \<Rightarrow> (string \<times> string) list \<Rightarrow> string" where
  "mimeMessage boundary parts =
     ''MIME-Version: 1.0'' @ crlf @ ''Content-Type: multipart/mixed; boundary='' @ dq @ boundary @ dq @ crlf @ crlf @
     mimeParts boundary True parts"

definition installKeyScript :: "string \<Rightarrow> string" where
  "installKeyScript encodedKey =
     ''#!/bin/sh'' @ nl @ ''set -eu'' @ nl @ ''install -d -m 0700 /root/.ssh'' @ nl @
     ''key='' @ dq @ ''$(printf '' @ sq @ ''%s'' @ sq @ '' '' @ sq @ encodedKey @ sq @ '' | base64 -d)'' @ dq @ nl @
     ''touch /root/.ssh/authorized_keys'' @ nl @ ''chmod 0600 /root/.ssh/authorized_keys'' @ nl @
     ''grep -Fqx -- '' @ dq @ ''$key'' @ dq @ '' /root/.ssh/authorized_keys || printf '' @ sq @ ''%s'' @ [CHR 0x5C] @ ''n'' @ sq @
     '' '' @ dq @ ''$key'' @ dq @ '' >> /root/.ssh/authorized_keys'' @ nl"

definition cloudConfigType :: string where "cloudConfigType = ''text/cloud-config; charset='' @ dq @ ''us-ascii'' @ dq"
definition shellScriptType :: string where "shellScriptType = ''text/x-shellscript; charset='' @ dq @ ''us-ascii'' @ dq"

definition withAuthorizedKey :: "(string \<Rightarrow> string) \<Rightarrow> string \<Rightarrow> string \<Rightarrow> string" where
  "withAuthorizedKey sha userData key0 =
     (let key = trimSpace key0 in
      if key = '''' then userData
      else mimeMessage (''fjb-'' @ hexEncode (take 16 (sha (userData @ [CHR 0x00] @ key))))
             [(cloudConfigType, userData), (shellScriptType, installKeyScript (stdEncode key))])"

definition maxUserDataBytes :: nat where "maxUserDataBytes = 32 * 1024"

definition renderUserData :: "(string \<Rightarrow> string) \<Rightarrow> string \<Rightarrow> string \<Rightarrow> string result" where
  "renderUserData sha userData key =
     (let rendered = withAuthorizedKey sha userData key in
      if length rendered > maxUserDataBytes
      then failE (''hetzner: user-data is '' @ formatNat (length rendered) @ '' bytes; maximum is '' @ formatNat maxUserDataBytes)
      else Inr rendered)"

subsection \<open>The provider\<close>

record 'w Client =
  cl_CreateServer :: "CreateServerRequest \<Rightarrow> ('w, Server) call"
  cl_GetServer :: "int \<Rightarrow> ('w, Server) call"
  cl_UpdateServerLabels :: "int \<Rightarrow> labels \<Rightarrow> ('w, Server) call"
  cl_DeleteServer :: "int \<Rightarrow> ('w, unit) call"
  cl_ListServers :: "string \<Rightarrow> ('w, Server list) call"
  cl_PowerOffServer :: "int \<Rightarrow> ('w, unit) call"
  cl_RebuildServer :: "int \<Rightarrow> int \<Rightarrow> string \<Rightarrow> ('w, Server) call"
  cl_CreateSnapshot :: "CreateSnapshotRequest \<Rightarrow> ('w, Image) call"
  cl_GetImage :: "int \<Rightarrow> ('w, Image) call"
  cl_DeleteImage :: "int \<Rightarrow> ('w, unit) call"
  cl_ListImages :: "string \<Rightarrow> ('w, Image list) call"
  cl_GetPricing :: "('w, Catalog) call"
  cl_ctxDone :: "'w \<Rightarrow> bool"

definition hcloudClient :: "'w HCloud \<Rightarrow> 'w Client" where
  "hcloudClient c =
     \<lparr>cl_CreateServer = hcCreateServer c, cl_GetServer = hcGetServer c, cl_UpdateServerLabels = hcUpdateServerLabels c,
      cl_DeleteServer = hcDeleteServer c, cl_ListServers = hcListServers c, cl_PowerOffServer = hcPowerOffServer c,
      cl_RebuildServer = hcRebuildServer c, cl_CreateSnapshot = hcCreateSnapshot c, cl_GetImage = hcGetImage c,
      cl_DeleteImage = hcDeleteImage c, cl_ListImages = hcListImages c, cl_GetPricing = hcGetPricing c,
      cl_ctxDone = (\<lambda>w. hs_ctxErr c w \<noteq> None)\<rparr>"

record 'w Hetzner =
  hz_cfg :: config
  hz_client :: "'w Client option"
  hz_tag :: string

text \<open>\<open>fmt.Errorf("what: %w", err)\<close> around a call of the client, and a result that needs no call.\<close>

definition viaClient :: "string \<Rightarrow> ('w, 'a) call \<Rightarrow> ('w, 'a) action" where
  "viaClient what m w = (case m w of (Inl e, w') \<Rightarrow> (Inl (ErrOther (what @ '': '' @ ce_text e)), w') | (Inr a, w') \<Rightarrow> (Inr a, w'))"

definition pureR :: "'a result \<Rightarrow> ('w, 'a) action" where
  "pureR r w = (r, w)"

definition configured :: "'w Hetzner \<Rightarrow> ('w Client \<Rightarrow> ('w, 'a) action) \<Rightarrow> ('w, 'a) action" where
  "configured h f = (case hz_client h of None \<Rightarrow> failR (ErrOther ''hetzner: provider is not configured'') | Some c \<Rightarrow> f c)"

definition Configure :: "(string \<Rightarrow> string) \<Rightarrow> (config \<Rightarrow> 'w Client) \<Rightarrow> 'w Hetzner \<Rightarrow> string \<Rightarrow> config result \<Rightarrow> 'w Hetzner result" where
  "Configure sha newClient h tag decoded =
     bindE (wrapE ''hetzner: decode provider config'' decoded) (\<lambda>cfg.
     bindE (normalizeAndValidate cfg) (\<lambda>cfg.
     if trimSpace tag = '''' then failE ''hetzner: deployment tag must not be empty''
     else bindE (wrapE ''hetzner: deployment tag'' (ownershipLabels sha tag roleWorker)) (\<lambda>_.
       Inr (h\<lparr>hz_cfg := cfg, hz_tag := tag,
              hz_client := Some (case hz_client h of None \<Rightarrow> newClient cfg | Some c \<Rightarrow> c)\<rparr>))))"

definition parseIntError :: "string \<Rightarrow> string" where
  "parseIntError s =
     (let ds = (case s of [] \<Rightarrow> [] | c # cs \<Rightarrow> if c = CHR ''-'' \<or> c = CHR ''+'' then cs else s)
      in ''strconv.ParseInt: parsing '' @ goQuote s @ (if ds \<noteq> [] \<and> allDigits ds then '': value out of range'' else '': invalid syntax''))"

definition positiveID :: "string \<Rightarrow> string \<Rightarrow> int result" where
  "positiveID raw kind =
     (case Atoi (trimSpace raw) of
        None \<Rightarrow> failE (''hetzner: bad '' @ kind @ '' ID '' @ goQuote raw @ '': '' @ parseIntError (trimSpace raw))
      | Some n \<Rightarrow> if n \<le> 0 then failE (''hetzner: bad '' @ kind @ '' ID '' @ goQuote raw @ '': ID must be positive'') else Inr n)"

definition toInstance :: "Server \<Rightarrow> string \<Rightarrow> bool \<Rightarrow> Instance result" where
  "toInstance server tag includePrivateIP =
     (if sv_ID server \<le> 0 then failE ''hetzner: server response has no ID''
      else if is_zero (sv_CreatedAt server) then failE (''hetzner: server '' @ formatInt (sv_ID server) @ '' has no created timestamp'')
      else Inr \<lparr>in_ID = formatInt (sv_ID server), in_Name = sv_Name server, in_IPv4 = sv_PublicIPv4 server,
                in_VPCIPv4 = (if includePrivateIP then sv_PrivateIPv4 server else ''''), in_CreatedAt = sv_CreatedAt server, in_Tag = tag\<rparr>)"

definition toManagedImage :: "Image \<Rightarrow> ManagedImage result" where
  "toManagedImage img =
     (if im_ID img \<le> 0 then failE ''hetzner: image response has no ID''
      else bindE (wrapE (''hetzner: image '' @ formatInt (im_ID img) @ '' fingerprint labels'')
                   (decodeLabelChunks (im_Labels img) labelFingerprintParts labelFingerprintPrefix)) (\<lambda>fingerprint.
           Inr \<lparr>mi_ID = formatInt (im_ID img), mi_Name = im_Name img, mi_Fingerprint = fingerprint,
                mi_CreatedAt = im_CreatedAt img, mi_SizeBytes = im_SizeBytes img\<rparr>))"

definition ownedImage :: "'w Client \<Rightarrow> string \<Rightarrow> ('w, Image) action" where
  "ownedImage c i = bindR (pureR (positiveID i ''image'')) (\<lambda>n. viaClient (''hetzner: get image '' @ formatInt n) (cl_GetImage c n))"

text \<open>The texts of a list of errors, as \<open>errors.Join\<close> prints them.\<close>

definition joinTexts :: "string list \<Rightarrow> string" where
  "joinTexts es = (if es = [] then ''%!w(<nil>)'' else joinWith (CHR 0x0A) es)"

fun createLoop :: "'w Client \<Rightarrow> CreateServerRequest \<Rightarrow> string list \<Rightarrow> string list \<Rightarrow> ('w, Server) action" where
  "createLoop c req [] errs w = (Inl (ErrOther (''all configured locations unavailable: '' @ joinTexts errs)), w)"
| "createLoop c req (location # locations) errs w =
     (case cl_CreateServer c (req\<lparr>cq_Location := location\<rparr>) w of
        (Inr server, w') \<Rightarrow> (Inr server, w')
      | (Inl e, w') \<Rightarrow>
          let errs = errs @ [''location '' @ location @ '': '' @ ce_text e] in
          if cl_ctxDone c w' \<or> \<not> ce_unavailable e then (Inl (ErrOther (joinTexts errs)), w')
          else createLoop c req locations errs w')"

definition createServer :: "'w Hetzner \<Rightarrow> 'w Client \<Rightarrow> CreateServerRequest \<Rightarrow> ('w, Server) action" where
  "createServer h c req = createLoop c req (cf_Locations (hz_cfg h)) []"

definition validateProvisionSpec :: "Spec \<Rightarrow> string result" where
  "validateProvisionSpec spec =
     (let missing = missingFields [(trimSpace (sp_Tag spec) = '''', ''tag''), (trimSpace (sp_Name spec) = '''', ''name''),
                                   (trimSpace (sp_InstanceType spec) = '''', ''instance_type'')];
          role = trimSpace (sp_Role spec);
          role = (if role = '''' then roleWorker else role)
      in if missing \<noteq> [] then failE (''hetzner: provision spec missing: '' @ joinComma missing)
         else if role \<noteq> roleWorker \<and> role \<noteq> roleBuilder then failE (''hetzner: unsupported provision role '' @ goQuote (sp_Role spec))
         else Inr role)"

definition cleanupFailedProvision :: "'w Client \<Rightarrow> int \<Rightarrow> go_error \<Rightarrow> ('w, 'a) action" where
  "cleanupFailedProvision c i cause w =
     (if i \<le> 0 then (Inl cause, w)
      else case cl_DeleteServer c i w of
        (Inl e, w') \<Rightarrow> (Inl (ErrOther (errorText cause @ nl @ ''hetzner: clean up server '' @ formatInt i @ '' after failed provision: '' @ ce_text e)), w')
      | (Inr _, w') \<Rightarrow> (Inl cause, w'))"

definition provisionImage :: "(string \<Rightarrow> string) \<Rightarrow> 'w Hetzner \<Rightarrow> 'w Client \<Rightarrow> Spec \<Rightarrow> ('w, string) action" where
  "provisionImage sha h c spec =
     (if trimSpace (sp_ImageID spec) \<noteq> ''''
      then bindR (ownedImage c (sp_ImageID spec)) (\<lambda>img.
             if \<not> hasOwnership sha (im_Labels img) (sp_Tag spec) roleImage
             then failR (ErrOther (''hetzner: image '' @ sp_ImageID spec @ '' is not a managed snapshot for tag '' @ goQuote (sp_Tag spec)))
             else returnR (formatInt (im_ID img)))
      else returnR (cf_Image (hz_cfg h)))"

definition finishProvision :: "'w Hetzner \<Rightarrow> 'w Client \<Rightarrow> Spec \<Rightarrow> Server \<Rightarrow> ('w, Instance) action" where
  "finishProvision h c spec server =
     (case toInstance server (sp_Tag spec) (cf_NetworkID (hz_cfg h) \<noteq> 0) of
        Inl e \<Rightarrow> cleanupFailedProvision c (sv_ID server) e
      | Inr inst \<Rightarrow>
          if in_IPv4 inst = ''''
          then cleanupFailedProvision c (sv_ID server) (ErrOther (''hetzner: created server '' @ formatInt (sv_ID server) @ '' has no public IPv4''))
          else returnR inst)"

definition Provision :: "(string \<Rightarrow> string) \<Rightarrow> 'w Hetzner \<Rightarrow> Spec \<Rightarrow> ('w, Instance) action" where
  "Provision sha h spec = configured h (\<lambda>c.
     bindR (pureR (validateProvisionSpec spec)) (\<lambda>role.
     bindR (pureR (wrapE ''hetzner: provision labels'' (ownershipLabels sha (sp_Tag spec) role))) (\<lambda>labels.
     bindR (provisionImage sha h c spec) (\<lambda>imageRef.
     bindR (pureR (renderUserData sha (sp_UserData spec) (sp_AuthorizedKey spec))) (\<lambda>userData.
     bindR (wrapErr ''hetzner: create server'' (createServer h c
              \<lparr>cq_Name = sp_Name spec, cq_InstanceType = sp_InstanceType spec, cq_Image = imageRef, cq_Location = '''',
               cq_UserData = userData, cq_Labels = labels, cq_NetworkID = cf_NetworkID (hz_cfg h),
               cq_FirewallIDs = cf_FirewallIDs (hz_cfg h)\<rparr>))
       (finishProvision h c spec))))))"

definition Destroy :: "'w Hetzner \<Rightarrow> string \<Rightarrow> ('w, unit) action" where
  "Destroy h i = configured h (\<lambda>c.
     bindR (pureR (positiveID i ''server'')) (\<lambda>n. viaClient (''hetzner: delete server '' @ formatInt n) (cl_DeleteServer c n)))"

definition listServersByRole :: "(string \<Rightarrow> string) \<Rightarrow> 'w Hetzner \<Rightarrow> string \<Rightarrow> string \<Rightarrow> ('w, Instance list) action" where
  "listServersByRole sha h tag0 role = configured h (\<lambda>c.
     let tag = trimSpace tag0 in
     if tag = '''' then failR (ErrOther ''hetzner: list tag must not be empty'')
     else bindR (viaClient ''hetzner: list servers'' (cl_ListServers c (ownershipSelector sha tag role))) (\<lambda>servers.
       pureR (mapE (\<lambda>s. toInstance s tag (cf_NetworkID (hz_cfg h) \<noteq> 0)) (filter (\<lambda>s. hasOwnership sha (sv_Labels s) tag role) servers))))"

definition List_workers :: "(string \<Rightarrow> string) \<Rightarrow> 'w Hetzner \<Rightarrow> string \<Rightarrow> ('w, Instance list) action" where
  "List_workers sha h tag = listServersByRole sha h tag roleWorker"

definition ListBuilders :: "(string \<Rightarrow> string) \<Rightarrow> 'w Hetzner \<Rightarrow> string \<Rightarrow> ('w, Instance list) action" where
  "ListBuilders sha h tag = listServersByRole sha h tag roleBuilder"

text \<open>\<open>maps.Equal\<close>\<close>

definition mapsEqual :: "labels \<Rightarrow> labels \<Rightarrow> bool" where
  "mapsEqual a b \<longleftrightarrow> list_all (\<lambda>k. map_of a k = map_of b k) (map fst a @ map fst b)"

definition PromoteBuilder :: "(string \<Rightarrow> string) \<Rightarrow> 'w Hetzner \<Rightarrow> string \<Rightarrow> string \<Rightarrow> ('w, unit) action" where
  "PromoteBuilder sha h i tag0 = configured h (\<lambda>c.
     let tag = trimSpace tag0 in
     if tag = '''' then failR (ErrOther ''hetzner: builder promotion tag must not be empty'')
     else bindR (pureR (positiveID i ''server'')) (\<lambda>serverID.
          bindR (viaClient (''hetzner: get server '' @ formatInt serverID @ '' before builder promotion'') (cl_GetServer c serverID)) (\<lambda>server.
          if \<not> hasOwnership sha (sv_Labels server) tag roleBuilder
          then failR (ErrOther (''hetzner: server '' @ formatInt serverID @ '' is not an owned builder for tag '' @ goQuote tag))
          else let promoted = AList.update labelRole roleWorker (sv_Labels server) in
            bindR (viaClient (''hetzner: promote builder '' @ formatInt serverID @ '' labels'') (cl_UpdateServerLabels c serverID promoted)) (\<lambda>after.
            if sv_ID after \<noteq> sv_ID server \<or> \<not> mapsEqual (sv_Labels after) promoted
            then failR (ErrOther (''hetzner: promote builder '' @ formatInt serverID @ '' returned mismatched server labels''))
            else returnR ()))))"

definition Reset :: "(string \<Rightarrow> string) \<Rightarrow> 'w Hetzner \<Rightarrow> string \<Rightarrow> ResetSpec \<Rightarrow> ('w, Instance) action" where
  "Reset sha h i spec = configured h (\<lambda>c.
     bindR (pureR (positiveID i ''server'')) (\<lambda>serverID.
     if trimSpace (rs_ImageID spec) = '''' then failR (ErrOther ''hetzner: reset image_id must not be empty'')
     else bindR (viaClient (''hetzner: get server '' @ formatInt serverID @ '' before rebuild'') (cl_GetServer c serverID)) (\<lambda>server.
       case decodeLabelChunks (sv_Labels server) labelTagParts labelTagPrefix of
         Inl _ \<Rightarrow> failR (ErrOther (''hetzner: server '' @ formatInt serverID @ '' is not an owned worker''))
       | Inr tag \<Rightarrow>
           if \<not> hasOwnership sha (sv_Labels server) tag roleWorker
           then failR (ErrOther (''hetzner: server '' @ formatInt serverID @ '' is not an owned worker''))
           else bindR (ownedImage c (rs_ImageID spec)) (\<lambda>img.
             if labelGet (im_Labels img) labelRole \<noteq> roleImage \<or> \<not> sameOwnership (sv_Labels server) (im_Labels img)
             then failR (ErrOther (''hetzner: image '' @ rs_ImageID spec @ '' is not a managed snapshot for server '' @ formatInt serverID))
             else bindR (pureR (renderUserData sha (rs_UserData spec) (rs_AuthorizedKey spec))) (\<lambda>userData.
               bindR (viaClient (''hetzner: rebuild server '' @ formatInt serverID) (cl_RebuildServer c serverID (im_ID img) userData)) (\<lambda>after.
                 pureR (toInstance (after\<lparr>sv_CreatedAt := sv_CreatedAt server\<rparr>) tag (cf_NetworkID (hz_cfg h) \<noteq> 0))))))))"

definition CreateImage :: "(string \<Rightarrow> string) \<Rightarrow> 'w Hetzner \<Rightarrow> ImageSpec \<Rightarrow> ('w, ManagedImage) action" where
  "CreateImage sha h spec = configured h (\<lambda>c.
     if trimSpace (is_Tag spec) = '''' \<or> trimSpace (is_Name spec) = '''' \<or>
        trimSpace (is_SourceInstanceID spec) = '''' \<or> trimSpace (is_Fingerprint spec) = ''''
     then failR (ErrOther ''hetzner: image spec requires tag, name, source_instance_id, and fingerprint'')
     else bindR (pureR (positiveID (is_SourceInstanceID spec) ''server'')) (\<lambda>sourceID.
       bindR (viaClient (''hetzner: get snapshot builder '' @ formatInt sourceID) (cl_GetServer c sourceID)) (\<lambda>src.
       if \<not> hasOwnership sha (sv_Labels src) (is_Tag spec) roleBuilder
       then failR (ErrOther (''hetzner: server '' @ formatInt sourceID @ '' is not an owned builder for tag '' @ goQuote (is_Tag spec)))
       else bindR (pureR (wrapE ''hetzner: snapshot labels'' (snapshotLabels sha (is_Tag spec) (is_Fingerprint spec)))) (\<lambda>labels.
         bindR (viaClient (''hetzner: power off prepared snapshot builder '' @ formatInt sourceID) (cl_PowerOffServer c sourceID)) (\<lambda>_.
         bindR (viaClient (''hetzner: create snapshot from server '' @ formatInt sourceID)
                  (cl_CreateSnapshot c \<lparr>cn_SourceServerID = sourceID, cn_Name = is_Name spec, cn_Labels = labels\<rparr>)) (\<lambda>img.
           pureR (toManagedImage img)))))))"

definition DeleteImage :: "'w Hetzner \<Rightarrow> string \<Rightarrow> ('w, unit) action" where
  "DeleteImage h i = configured h (\<lambda>c.
     bindR (pureR (positiveID i ''image'')) (\<lambda>n. viaClient (''hetzner: delete image '' @ formatInt n) (cl_DeleteImage c n)))"

definition managedOrStale :: "Image \<Rightarrow> ManagedImage" where
  "managedOrStale img =
     (case toManagedImage img of
        Inr m \<Rightarrow> m
      | Inl _ \<Rightarrow> \<lparr>mi_ID = formatInt (im_ID img), mi_Name = im_Name img, mi_Fingerprint = '''', mi_CreatedAt = im_CreatedAt img,
                  mi_SizeBytes = im_SizeBytes img\<rparr>)"

definition ListImages :: "(string \<Rightarrow> string) \<Rightarrow> 'w Hetzner \<Rightarrow> string \<Rightarrow> ('w, ManagedImage list) action" where
  "ListImages sha h tag0 = configured h (\<lambda>c.
     let tag = trimSpace tag0 in
     if tag = '''' then failR (ErrOther ''hetzner: list image tag must not be empty'')
     else bindR (viaClient ''hetzner: list snapshots'' (cl_ListImages c (ownershipSelector sha tag roleImage))) (\<lambda>images.
       returnR (map managedOrStale (filter (\<lambda>img. hasOwnership sha (im_Labels img) tag roleImage) images))))"

definition hetznerBillingModel :: BillingModel where
  "hetznerBillingModel = BillingHourlyRoundUp"

definition hetznerInfo :: "'w Hetzner \<Rightarrow> (string \<times> string) list" where
  "hetznerInfo h =
     [(''location'', cf_Location (hz_cfg h)), (''locations'', joinWith (CHR '','') (cf_Locations (hz_cfg h))),
      (''image'', cf_Image (hz_cfg h)), (''network_id'', formatInt (cf_NetworkID (hz_cfg h))),
      (''firewall_ids'', joinWith (CHR '','') (map formatInt (cf_FirewallIDs (hz_cfg h)))), (''tag'', hz_tag h)]"

subsection \<open>Prices\<close>

text \<open>The table by location keeps the last price listed for the server type there.\<close>

definition catalogPrice :: "Catalog \<Rightarrow> string \<Rightarrow> string \<Rightarrow> ServerTypePrice option" where
  "catalogPrice catalog instanceType location =
     find (\<lambda>p. tp_InstanceType p = instanceType \<and> tp_Location p = location) (rev (ca_ServerTypes catalog))"

fun ratesLoop :: "Catalog \<Rightarrow> string \<Rightarrow> string list \<Rightarrow> int \<Rightarrow> int \<Rightarrow> (int \<times> int) result" where
  "ratesLoop catalog instanceType [] maxHour maxMonth = Inr (maxHour, maxMonth)"
| "ratesLoop catalog instanceType (location # locations) maxHour maxMonth =
     (case catalogPrice catalog instanceType location of
        None \<Rightarrow> failE (''hetzner: server type '' @ goQuote instanceType @ '' has no catalog price in location '' @ goQuote location)
      | Some price \<Rightarrow>
          bindE (wrapE (''hetzner: catalog '' @ instanceType @ ''/'' @ location @ '' hourly price'') (parseDecimalNanos (tp_PerHour price))) (\<lambda>perHour.
          bindE (wrapE (''hetzner: catalog '' @ instanceType @ ''/'' @ location @ '' monthly price'') (parseDecimalNanos (tp_PerMonth price))) (\<lambda>perMonth.
            ratesLoop catalog instanceType locations (max maxHour perHour) (max maxMonth perMonth))))"

definition catalogRates :: "Catalog \<Rightarrow> string \<Rightarrow> string list \<Rightarrow> (int \<times> int) result" where
  "catalogRates catalog instanceType locations = ratesLoop catalog instanceType locations 0 0"

text \<open>The rates and the currency of the catalog, checked against the override it is merged with.\<close>

definition catalogQuote :: "'w Hetzner \<Rightarrow> 'w Client \<Rightarrow> string \<Rightarrow> string \<Rightarrow> bool \<Rightarrow> ('w, string \<times> int \<times> int \<times> int) action" where
  "catalogQuote h c instanceType overrideCurrency overridden =
     bindR (viaClient ''hetzner: get pricing catalog'' (cl_GetPricing c)) (\<lambda>catalog.
       let currency = toUpper (trimSpace (ca_Currency catalog)) in
       if \<not> validCurrency currency then failR (ErrOther (''hetzner: pricing catalog returned invalid currency '' @ goQuote (ca_Currency catalog)))
       else if overrideCurrency \<noteq> '''' \<and> overrideCurrency \<noteq> currency \<and> overridden
       then failR (ErrOther (''hetzner: cannot merge '' @ overrideCurrency @ '' pricing override with '' @ currency @ '' catalog''))
       else pureR (bindE (catalogRates catalog instanceType (cf_Locations (hz_cfg h))) (\<lambda>(perHour, perMonth).
              bindE (wrapE ''hetzner: catalog snapshot price'' (parseDecimalNanos (ca_SnapshotGBMonth catalog))) (\<lambda>snapshot.
                Inr (currency, perHour, perMonth, snapshot)))))"

definition orDefault :: "'a option \<Rightarrow> 'a \<Rightarrow> 'a" where
  "orDefault a d = (case a of None \<Rightarrow> d | Some v \<Rightarrow> v)"

definition Quote :: "('w \<Rightarrow> instant \<times> 'w) \<Rightarrow> 'w Hetzner \<Rightarrow> string \<Rightarrow> ('w, ProviderQuote) action" where
  "Quote now h instanceType0 = configured h (\<lambda>c.
     let instanceType = trimSpace instanceType0 in
     if instanceType = '''' then failR (ErrOther ''hetzner: quote instance type must not be empty'')
     else let
       pricing = cf_PricingOverride (hz_cfg h);
       overrideCurrency = (case pricing of None \<Rightarrow> '''' | Some p \<Rightarrow> pv_Currency p);
       override = (case pricing of None \<Rightarrow> None | Some p \<Rightarrow> map_of (pv_Instances p) instanceType);
       hour_o = Option.bind override po_perHourNanos;
       month_o = Option.bind override po_perMonthNanos;
       snapshot_o = Option.bind pricing pv_snapshotGBMonthNanos;
       needsCatalog = (hour_o = None \<or> month_o = None \<or> snapshot_o = None);
       overridden = (override \<noteq> None \<or> snapshot_o \<noteq> None)
     in bindR (if needsCatalog then catalogQuote h c instanceType overrideCurrency overridden
               else returnR (overrideCurrency, 0, 0, 0)) (\<lambda>(currency, perHour, perMonth, snapshot) w.
        case now w of (observed, w) \<Rightarrow>
          (Inr \<lparr>pq_InstanceType = instanceType, pq_Currency = currency, pq_PerHourNanos = orDefault hour_o perHour,
                pq_PerMonthNanos = orDefault month_o perMonth, pq_BillingQuantum = hour, pq_MinimumDuration = hour,
                pq_MinimumChargeNanos = 0, pq_SnapshotGBMonthNanos = orDefault snapshot_o snapshot,
                pq_Source = (if overridden then (if needsCatalog then catalogSource @ ''+'' @ overrideSource else overrideSource) else catalogSource),
                pq_ObservedAt = observed\<rparr>, w)))"

end
