(* ===== verification/Hetzner_Safety.thy ===== *)
theory Hetzner_Safety
  imports Hetzner
begin

text \<open>
  What becomes of the machines the Hetzner provider creates. The hypotheses on the library are those of \<open>library_ok\<close>
  in Hetzner_Client and of \<open>listing_ok\<close> below. The main properties: a failed provision leaves at most one
  machine (if the errors that send it to another location are refusals), and all it leaves carries the labels of its tier; every machine a provision made is listed for its tier and role and
  for no other; a quote covers the dearest configured location.
\<close>

subsection \<open>Creation over several locations\<close>

text \<open>
  Only machines with the requested labels are new, and on success the one that was asked for; if \<open>clean\<close>, there is at
  most one.
\<close>

definition only_new :: "('w \<Rightarrow> int \<Rightarrow> labels option) \<Rightarrow> labels \<Rightarrow> 'w \<Rightarrow> 'w \<Rightarrow> bool" where
  "only_new held l w w' \<longleftrightarrow> (\<forall>i. held w' i = held w i \<or> held w i = None \<and> held w' i = Some l)"

definition one_more :: "bool \<Rightarrow> ('w \<Rightarrow> int \<Rightarrow> labels option) \<Rightarrow> labels \<Rightarrow> 'w \<Rightarrow> 'w \<Rightarrow> bool" where
  "one_more clean held l w w' \<longleftrightarrow> only_new held l w w' \<and> (clean \<longrightarrow> maybeCreated held l w w')"

definition made :: "bool \<Rightarrow> ('w \<Rightarrow> int \<Rightarrow> labels option) \<Rightarrow> labels \<Rightarrow> 'w \<Rightarrow> 'w \<Rightarrow> int \<Rightarrow> bool" where
  "made clean held l w w' i \<longleftrightarrow> only_new held l w w' \<and> 0 < i \<and> held w i = None \<and> held w' i = Some l \<and> (clean \<longrightarrow> held w' = (held w)(i \<mapsto> l))"

interpretation grown: step_relation "only_new held l" for held l
proof
  show "only_new held l s s" for s by (simp add: only_new_def)
  show "only_new held l s u" if "only_new held l s t" "only_new held l t u" for s t u
    using that unfolding only_new_def by metis
qed

lemma maybeCreated_new: "maybeCreated held l w w' \<Longrightarrow> only_new held l w w'"
  by (auto simp: maybeCreated_def only_new_def split: if_splits)

lemma only_new_before: "only_new held l w w' \<Longrightarrow> held w' i = None \<Longrightarrow> held w i = None"
  unfolding only_new_def by metis

text \<open>A further attempt, after one that left what it may.\<close>

lemma retry_effect:
  assumes "maybeCreated held l w w1" "clean \<longrightarrow> held w1 = held w"
  shows "one_more clean held l w1 w' \<Longrightarrow> one_more clean held l w w'" "made clean held l w1 w' i \<Longrightarrow> made clean held l w w' i"
  using assms grown.trans [OF maybeCreated_new [OF assms(1)], of w'] only_new_before [OF maybeCreated_new [OF assms(1)], of i]
  by (auto simp: one_more_def made_def maybeCreated_def)

lemma createLoop_effect:
  assumes "library_ok c held"
  shows "createLoop (hcloudClient c) req locations errs w = (r, w') \<Longrightarrow>
           (case r of Inr s \<Rightarrow> made (refusals_ok c held) held (cq_Labels req) w w' (sv_ID s)
            | Inl e \<Rightarrow> one_more (refusals_ok c held) held (cq_Labels req) w w')"
proof (induction locations arbitrary: errs w)
  case Nil
  then show ?case by (auto simp: one_more_def only_new_def maybeCreated_def)
next
  case (Cons location locations)
  let ?req = "req\<lparr>cq_Location := location\<rparr>"
  obtain r1 w1 where cr: "hcCreateServer c ?req w = (r1, w1)" by fastforce
  have C: "creation_ok (refusals_ok c held) held (cq_Labels req) w (r1, w1)" using CreateServer_contract [OF assms, of ?req w] cr by simp
  show ?case
  proof (cases r1)
    case (Inr s)
    then show ?thesis using Cons.prems cr C by (auto simp: hcloudClient_def creation_ok_def made_def only_new_def)
  next
    case (Inl e)
    then have left: "maybeCreated held (cq_Labels req) w w1" "refusals_ok c held \<Longrightarrow> ce_unavailable e \<Longrightarrow> held w1 = held w"
      using C by (simp_all add: creation_ok_def)
    show ?thesis
    proof (cases "hs_ctxErr c w1 = None \<and> ce_unavailable e")
      case True
      have "createLoop (hcloudClient c) req locations (errs @ [''location '' @ location @ '': '' @ ce_text e]) w1 = (r, w')"
        using Cons.prems cr Inl True by (simp add: hcloudClient_def Let_def)
      from Cons.IH [OF this] show ?thesis using retry_effect [OF left(1)] left(2) True by (cases r) auto
    next
      case False
      then have "r = Inl (ErrOther (joinTexts (errs @ [''location '' @ location @ '': '' @ ce_text e])))" "w' = w1"
        using Cons.prems cr Inl by (auto simp: hcloudClient_def Let_def split: if_splits)
      then show ?thesis using left(1) maybeCreated_new [OF left(1)] by (simp add: one_more_def)
    qed
  qed
qed

lemma cleanupFailedProvision_effect:
  assumes "library_ok c held" "cleanupFailedProvision (hcloudClient c) i cause w1 = (r, w')" "made clean held l w w1 i"
  shows "\<exists>e. r = Inl e" "one_more clean held l w w'"
proof -
  obtain r1 w2 where d: "hcDeleteServer c i w1 = (r1, w2)" by fastforce
  have i: "0 < i" "held w i = None" "only_new held l w w1" "clean \<Longrightarrow> held w1 = (held w)(i \<mapsto> l)" using assms(3) by (simp_all add: made_def)
  have D: "held w2 = held w1 \<or> held w2 = (held w1)(i := None)" using hcDeleteServer_effect(1) [OF assms(1) d] .
  have "only_new held l w w2" using D i(2,3) unfolding only_new_def by (metis fun_upd_apply)
  moreover have "maybeCreated held l w w2" if clean
    using D i(1,2) i(4) [OF that] by (auto simp: maybeCreated_def)
  moreover have "w' = w2" "\<exists>e. r = Inl e" using assms(2) d i(1) by (auto simp: cleanupFailedProvision_def hcloudClient_def split: sum.splits)
  ultimately show "\<exists>e. r = Inl e" "one_more clean held l w w'" by (auto simp: one_more_def)
qed

lemma finishProvision_effect:
  assumes "library_ok c held" "finishProvision h (hcloudClient c) spec s w1 = (r, w')" "made clean held l w w1 (sv_ID s)"
  shows "case r of Inr inst \<Rightarrow> made clean held l w w' (sv_ID s) \<and> in_ID inst = formatInt (sv_ID s) | Inl e \<Rightarrow> one_more clean held l w w'"
proof (cases "toInstance s (sp_Tag spec) (cf_NetworkID (hz_cfg h) \<noteq> 0)")
  case (Inl e)
  then have "cleanupFailedProvision (hcloudClient c) (sv_ID s) e w1 = (r, w')" using assms(2) by (simp add: finishProvision_def)
  from cleanupFailedProvision_effect [OF assms(1) this assms(3)] show ?thesis by auto
next
  case (Inr inst)
  show ?thesis
  proof (cases "in_IPv4 inst = ''''")
    case True
    then have "cleanupFailedProvision (hcloudClient c) (sv_ID s)
        (ErrOther (''hetzner: created server '' @ formatInt (sv_ID s) @ '' has no public IPv4'')) w1 = (r, w')"
      using assms(2) Inr by (simp add: finishProvision_def)
    from cleanupFailedProvision_effect [OF assms(1) this assms(3)] show ?thesis by auto
  next
    case False
    then show ?thesis using assms(2,3) Inr by (auto simp: finishProvision_def returnR_def toInstance_def failE_def split: if_splits)
  qed
qed

lemma held_before_create:
  assumes "library_ok c held"
  shows "held (snd (provisionImage sha h (hcloudClient c) spec w)) = held w"
proof -
  have "held (snd (hi_GetByID c i w)) = held w" for i using assms by (simp add: library_ok_def)
  then show ?thesis
    by (auto simp: provisionImage_def ownedImage_def bindR_def pureR_def viaClient_def hcloudClient_def hcGetImage_def bindC_def onC_def
        failC_def liftC_def failR_def returnR_def split: sum.splits prod.splits option.splits) (metis snd_conv)+
qed

lemma formatInt_eq: "formatInt a = formatInt b \<longleftrightarrow> a = b"
proof
  assume eq: "formatInt a = formatInt b"
  have minus: "formatNat n \<noteq> CHR ''-'' # ds" for n ds using formatNat_hd [of n] by (auto simp: isDigit_def)
  consider "a < 0" "b < 0" | "a < 0" "\<not> b < 0" | "\<not> a < 0" "b < 0" | "\<not> a < 0" "\<not> b < 0" by blast
  then show "a = b"
  proof cases
    case 1
    then have "nat (- a) = nat (- b)" using eq by (intro formatNat_inj) (simp add: formatInt_def)
    then show ?thesis using 1 by simp
  next
    case 2
    then show ?thesis using eq minus [of "nat b", symmetric] by (simp add: formatInt_def)
  next
    case 3
    then show ?thesis using eq minus [of "nat a"] by (simp add: formatInt_def)
  next
    case 4
    then have "nat a = nat b" using eq by (intro formatNat_inj) (simp add: formatInt_def)
    then show ?thesis using 4 by simp
  qed
qed simp

text \<open>A provision goes as far as it can without a machine, or makes one for the role it validated.\<close>

lemma Provision_effect:
  assumes "library_ok c held" "hz_client h = Some (hcloudClient c)" "Provision sha h spec w = (r, w')"
  shows "(held w' = held w \<and> is_err r) \<or>
         (\<exists>role l. validateProvisionSpec spec = Inr role \<and> ownershipLabels sha (sp_Tag spec) role = Inr l \<and>
            (case r of Inr inst \<Rightarrow> (\<exists>i. made (refusals_ok c held) held l w w' i \<and> in_ID inst = formatInt i) | Inl e \<Rightarrow> one_more (refusals_ok c held) held l w w'))"
proof (cases "is_err (validateProvisionSpec spec) \<or> is_err (ownershipLabels sha (sp_Tag spec) (projr (validateProvisionSpec spec)))")
  case True
  then show ?thesis using assms(2,3) by (auto simp: Provision_def configured_def bindR_def pureR_def wrapE_def is_err_iff split: sum.splits)
next
  case False
  then obtain role l where rl: "validateProvisionSpec spec = Inr role" "ownershipLabels sha (sp_Tag spec) role = Inr l"
    by (cases "validateProvisionSpec spec"; cases "ownershipLabels sha (sp_Tag spec) (projr (validateProvisionSpec spec))") auto
  obtain r1 w1 where im: "provisionImage sha h (hcloudClient c) spec w = (r1, w1)" by fastforce
  have w1: "held w1 = held w" using held_before_create [OF assms(1), of sha h spec w] im by simp
  show ?thesis
  proof (cases "is_err r1 \<or> is_err (renderUserData sha (sp_UserData spec) (sp_AuthorizedKey spec))")
    case True
    then show ?thesis using assms(2,3) rl im w1
      by (auto simp: Provision_def configured_def bindR_def pureR_def wrapE_def is_err_iff split: sum.splits)
  next
    case False
    then obtain imageRef userData where iu: "r1 = Inr imageRef" "renderUserData sha (sp_UserData spec) (sp_AuthorizedKey spec) = Inr userData"
      by (cases r1; cases "renderUserData sha (sp_UserData spec) (sp_AuthorizedKey spec)") auto
    define req where "req = \<lparr>cq_Name = sp_Name spec, cq_InstanceType = sp_InstanceType spec, cq_Image = imageRef, cq_Location = '''',
               cq_UserData = userData, cq_Labels = l, cq_NetworkID = cf_NetworkID (hz_cfg h), cq_FirewallIDs = cf_FirewallIDs (hz_cfg h)\<rparr>"
    obtain r2 w2 where cr: "createLoop (hcloudClient c) req (cf_Locations (hz_cfg h)) [] w1 = (r2, w2)" by fastforce
    have P: "(case (r2, w2) of (Inl e, w) \<Rightarrow> r = Inl (ErrOther (''hetzner: create server: '' @ errorText e)) \<and> w' = w
              | (Inr s, w) \<Rightarrow> finishProvision h (hcloudClient c) spec s w = (r, w'))"
      using assms(2,3) rl im iu cr
      by (auto simp: Provision_def configured_def bindR_def pureR_def wrapE_def wrapErr_def createServer_def req_def split: sum.splits)
    have l: "cq_Labels req = l" by (simp add: req_def)
    have C: "case r2 of Inr s \<Rightarrow> made (refusals_ok c held) held l w1 w2 (sv_ID s) | Inl e \<Rightarrow> one_more (refusals_ok c held) held l w1 w2"
      using createLoop_effect [OF assms(1) cr] unfolding l .
    have "case r of Inr inst \<Rightarrow> (\<exists>i. made (refusals_ok c held) held l w w' i \<and> in_ID inst = formatInt i) | Inl e \<Rightarrow> one_more (refusals_ok c held) held l w w'"
    proof (cases r2)
      case (Inl e)
      then show ?thesis using P C w1 by (auto simp: one_more_def only_new_def maybeCreated_def)
    next
      case (Inr s)
      then have "finishProvision h (hcloudClient c) spec s w2 = (r, w')" "made (refusals_ok c held) held l w w2 (sv_ID s)"
        using P C w1 by (simp_all add: made_def only_new_def)
      from finishProvision_effect [OF assms(1) this] show ?thesis by (cases r) auto
    qed
    then show ?thesis using rl by blast
  qed
qed

text \<open>
  What the listing relies on: the servers returned exist with the labels returned, and every server whose three
  selected labels match is among them.
\<close>

definition listing_ok :: "(string \<Rightarrow> string) \<Rightarrow> 'w HCloud \<Rightarrow> ('w \<Rightarrow> int \<Rightarrow> labels option) \<Rightarrow> bool" where
  "listing_ok sha c held \<longleftrightarrow>
     (\<forall>tag role w servers w'. hs_AllWithOpts c (ownershipSelector sha tag role) w = (Inr servers, w') \<longrightarrow>
        (\<forall>s \<in> set servers. held w (h_ID s) = Some (h_Labels s)) \<and>
        (\<forall>i l. held w i = Some l \<and> labelGet l labelManaged = labelManagedValue \<and> labelGet l labelRole = role \<and>
               labelGet l labelTagHash = tagHash sha tag \<longrightarrow> i \<in> h_ID ` set servers))"

lemma serverFromHCloud_sel [simp]: "sv_ID (serverFromHCloud s) = h_ID s" "sv_Labels (serverFromHCloud s) = h_Labels s"
  by (simp_all add: serverFromHCloud_def)

lemma listServersByRole_exact:
  assumes "listing_ok sha c held" "hz_client h = Some (hcloudClient c)" "trimSpace tag = tag"
    and "listServersByRole sha h tag role w = (Inr insts, w')"
  shows "in_ID ` set insts = formatInt ` {i. \<exists>l. held w i = Some l \<and> hasOwnership sha l tag role}"
proof -
  obtain servers w1 where s: "hs_AllWithOpts c (ownershipSelector sha tag role) w = (Inr servers, w1)"
    and m: "mapE (\<lambda>s. toInstance s tag (cf_NetworkID (hz_cfg h) \<noteq> 0)) (filter (\<lambda>s. hasOwnership sha (sv_Labels s) tag role) (map serverFromHCloud servers)) = Inr insts"
    using assms(2,3,4)
    by (auto simp: listServersByRole_def configured_def bindR_def viaClient_def hcloudClient_def hcListServers_def bindC_def onC_def okC_def
        failC_def pureR_def failR_def Let_def split: sum.splits prod.splits if_splits)
  have L: "\<forall>s \<in> set servers. held w (h_ID s) = Some (h_Labels s)"
    "\<And>i l. held w i = Some l \<Longrightarrow> hasOwnership sha l tag role \<Longrightarrow> i \<in> h_ID ` set servers"
    using assms(1) s unfolding listing_ok_def hasOwnership_def by metis+
  have "list_all2 (\<lambda>s inst. in_ID inst = formatInt (sv_ID s)) (filter (\<lambda>s. hasOwnership sha (sv_Labels s) tag role) (map serverFromHCloud servers)) insts"
    using m unfolding mapE_Inr by (rule list_all2_mono) (auto simp: toInstance_def failE_def split: if_splits)
  then have "map in_ID insts = map (\<lambda>s. formatInt (sv_ID s)) (filter (\<lambda>s. hasOwnership sha (sv_Labels s) tag role) (map serverFromHCloud servers))"
    by (simp add: list_all2_conv_all_nth list_eq_iff_nth_eq)
  then have "in_ID ` set insts = (\<lambda>s. formatInt (sv_ID s)) ` set (filter (\<lambda>s. hasOwnership sha (sv_Labels s) tag role) (map serverFromHCloud servers))"
    by (metis list.set_map)
  also have "\<dots> = formatInt ` {i. \<exists>l. held w i = Some l \<and> hasOwnership sha l tag role}"
  proof (intro equalityI subsetI)
    fix x assume "x \<in> formatInt ` {i. \<exists>l. held w i = Some l \<and> hasOwnership sha l tag role}"
    then obtain i l where i: "x = formatInt i" "held w i = Some l" "hasOwnership sha l tag role" by auto
    then obtain s where "s \<in> set servers" "h_ID s = i" using L(2) by auto
    moreover from this have "h_Labels s = l" using L(1) i(2) by auto
    ultimately show "x \<in> (\<lambda>s. formatInt (sv_ID s)) ` set (filter (\<lambda>s. hasOwnership sha (sv_Labels s) tag role) (map serverFromHCloud servers))"
      using i by (intro image_eqI [of _ _ "serverFromHCloud s"]) simp_all
  qed (use L(1) in auto)
  finally show ?thesis .
qed

text \<open>
  C37. No machine is lost: whatever a provision returns, also when a creation was carried out and its answer lost, a
  machine that exists afterwards and did not before is listed under the tier's tag for the role the machine was asked for, and not for the
  other role or for another tag; older machines are as they were; and when the provision succeeds the machine it
  returns is a new one. If the library's errors that send the provider to another location are refusals, there is at most one new machine.
\<close>

theorem provisioned_machine_is_listed:
  assumes "library_ok c held" "listing_ok sha c held" "hz_client h = Some (hcloudClient c)"
    and "Provision sha h spec w = (r, w1)" "trimSpace tag = tag" "listServersByRole sha h tag role w1 = (Inr insts, w2)"
  shows "(\<forall>i. held w1 i \<noteq> None \<and> held w i = None \<longrightarrow>
            (formatInt i \<in> in_ID ` set insts \<longleftrightarrow> tag = sp_Tag spec \<and> validateProvisionSpec spec = Inr role)) \<and>
         (\<forall>i. held w i \<noteq> None \<longrightarrow> held w1 i = held w i) \<and>
         (\<forall>inst. r = Inr inst \<longrightarrow> (\<exists>i. in_ID inst = formatInt i \<and> held w1 i \<noteq> None \<and> held w i = None)) \<and>
         (refusals_ok c held \<longrightarrow> (\<forall>i j. held w1 i \<noteq> None \<and> held w i = None \<and> held w1 j \<noteq> None \<and> held w j = None \<longrightarrow> i = j))"
proof (cases "held w1 = held w \<and> is_err r")
  case True
  then show ?thesis by (auto simp: is_err_iff)
next
  case False
  let ?clean = "refusals_ok c held"
  obtain role0 l where R: "validateProvisionSpec spec = Inr role0" "ownershipLabels sha (sp_Tag spec) role0 = Inr l"
    "case r of Inr inst \<Rightarrow> (\<exists>i. made ?clean held l w w1 i \<and> in_ID inst = formatInt i) | Inl e \<Rightarrow> one_more ?clean held l w w1"
    using Provision_effect [OF assms(1,3,4)] False by blast
  have more: "one_more ?clean held l w w1"
    using R(3) by (cases r) (auto simp: one_more_def made_def maybeCreated_def)
  then have new: "held w1 i = held w i \<or> held w i = None \<and> held w1 i = Some l" for i by (simp add: one_more_def only_new_def)
  have "formatInt i \<in> in_ID ` set insts \<longleftrightarrow> tag = sp_Tag spec \<and> role = role0" if "held w1 i \<noteq> None" "held w i = None" for i
    using listServersByRole_exact [OF assms(2,3,5,6)] ownership_exact [OF R(2), of tag role] new [of i] that by (auto simp: formatInt_eq)
  moreover have "\<exists>i. in_ID inst = formatInt i \<and> held w1 i \<noteq> None \<and> held w i = None" if "r = Inr inst" for inst
    using R(3) that by (auto simp: made_def)
  moreover have "i = j" if "?clean" "held w1 i \<noteq> None" "held w i = None" "held w1 j \<noteq> None" "held w j = None" for i j
    using more that by (auto simp: one_more_def maybeCreated_def split: if_splits)
  moreover have "held w1 i = held w i" if "held w i \<noteq> None" for i using new [of i] that by simp
  ultimately show ?thesis using R(1) by auto
qed

subsection \<open>Prices\<close>

definition hourlyRate :: "Catalog \<Rightarrow> string \<Rightarrow> string \<Rightarrow> int result" where
  "hourlyRate catalog instanceType location =
     (case catalogPrice catalog instanceType location of None \<Rightarrow> failE ''no price'' | Some p \<Rightarrow> parseDecimalNanos (tp_PerHour p))"

definition monthlyRate :: "Catalog \<Rightarrow> string \<Rightarrow> string \<Rightarrow> int result" where
  "monthlyRate catalog instanceType location =
     (case catalogPrice catalog instanceType location of None \<Rightarrow> failE ''no price'' | Some p \<Rightarrow> parseDecimalNanos (tp_PerMonth p))"

lemma ratesLoop_Inr:
  "ratesLoop catalog ty locations h0 m0 = Inr (h, m) \<Longrightarrow>
     (\<forall>l \<in> set locations. \<exists>a b. hourlyRate catalog ty l = Inr a \<and> monthlyRate catalog ty l = Inr b \<and> a \<le> h \<and> b \<le> m) \<and> h0 \<le> h \<and> m0 \<le> m \<and>
     (h = h0 \<or> (\<exists>l \<in> set locations. hourlyRate catalog ty l = Inr h)) \<and> (m = m0 \<or> (\<exists>l \<in> set locations. monthlyRate catalog ty l = Inr m))"
proof (induction locations arbitrary: h0 m0)
  case (Cons l ls)
  obtain p a b where p: "catalogPrice catalog ty l = Some p" "parseDecimalNanos (tp_PerHour p) = Inr a" "parseDecimalNanos (tp_PerMonth p) = Inr b"
    "ratesLoop catalog ty ls (max h0 a) (max m0 b) = Inr (h, m)"
    using Cons.prems by (auto simp: bindE_def failE_def split: option.splits sum.splits)
  from Cons.IH [OF p(4)] show ?case using p(1-3) by (auto simp: hourlyRate_def monthlyRate_def max_def split: if_splits)
qed simp

text \<open>
  A quote without overrides covers every configured location: each of them has an hourly and a monthly price in the catalog, the quoted
  rates are at least these, and each quoted rate that is not zero is the price of one of the locations.
\<close>

theorem quote_covers_locations:
  assumes "hz_client h = Some c" "cf_PricingOverride (hz_cfg h) = None" "cl_GetPricing c w = (Inr catalog, w1)"
    and "Quote now h ty w = (Inr q, w')"
  shows "(\<forall>l \<in> set (cf_Locations (hz_cfg h)). \<exists>a b. hourlyRate catalog (trimSpace ty) l = Inr a \<and> monthlyRate catalog (trimSpace ty) l = Inr b \<and>
            a \<le> pq_PerHourNanos q \<and> b \<le> pq_PerMonthNanos q) \<and>
         (pq_PerHourNanos q = 0 \<or> (\<exists>l \<in> set (cf_Locations (hz_cfg h)). hourlyRate catalog (trimSpace ty) l = Inr (pq_PerHourNanos q))) \<and>
         (pq_PerMonthNanos q = 0 \<or> (\<exists>l \<in> set (cf_Locations (hz_cfg h)). monthlyRate catalog (trimSpace ty) l = Inr (pq_PerMonthNanos q))) \<and>
         0 \<le> pq_PerHourNanos q \<and> 0 \<le> pq_PerMonthNanos q"
proof -
  have "catalogRates catalog (trimSpace ty) (cf_Locations (hz_cfg h)) = Inr (pq_PerHourNanos q, pq_PerMonthNanos q)"
    using assms
    by (auto simp: Quote_def configured_def Let_def bindR_def catalogQuote_def viaClient_def pureR_def failR_def bindE_def orDefault_def
        split: if_splits sum.splits prod.splits)
  from ratesLoop_Inr [OF this [unfolded catalogRates_def]] show ?thesis by auto
qed

subsection \<open>Promotion of a builder\<close>

definition update_ok :: "'w HCloud \<Rightarrow> ('w \<Rightarrow> int \<Rightarrow> labels option) \<Rightarrow> bool" where
  "update_ok c held \<longleftrightarrow> (\<forall>s l w a w'. hs_Update c s l w = (Inr a, w') \<longrightarrow> held w' = (held w)(h_ID s \<mapsto> l))"

lemma role_key_not_tag: "labelRole \<noteq> labelTagPrefix @ formatNat i" "labelRole \<noteq> labelTagParts"
  using tag_keys(2) by (simp_all add: label_names)

lemma promoted_ownership:
  assumes "hasOwnership sha l tag roleBuilder"
  shows "hasOwnership sha (AList.update labelRole roleWorker l) tag' role \<longleftrightarrow> tag' = tag \<and> role = roleWorker"
proof -
  let ?l = "AList.update labelRole roleWorker l"
  have same: "labelRole \<noteq> k \<Longrightarrow> map_of ?l k = map_of l k" for k by (simp add: update_conv)
  have "decodeLabelChunks ?l labelTagParts labelTagPrefix = decodeLabelChunks l labelTagParts labelTagPrefix"
    by (intro decodeLabelChunks_cong same role_key_not_tag)
  moreover have "labelGet ?l labelRole = roleWorker" by (simp add: labelGet_def update_conv)
  moreover have "labelGet ?l labelManaged = labelGet l labelManaged" "labelGet ?l labelTagHash = labelGet l labelTagHash"
    by (simp_all add: labelGet_def update_conv) (simp_all add: label_names)
  ultimately show ?thesis using assms by (auto simp: hasOwnership_def)
qed

lemma hcGetServer_Inr:
  assumes "library_ok c held" "hcGetServer c i w = (Inr s, w')"
  shows "held w' = held w" "sv_ID s = i" "held w i = Some (sv_Labels s)"
proof -
  obtain r w1 where g: "hs_GetByID c i w = (r, w1)" by fastforce
  then have "w1 = w'" and "\<exists>hs. r = Inr (Some hs) \<and> s = serverFromHCloud hs"
    using assms(2) by (auto simp: hcGetServer_def bindC_def onC_def okC_def failC_def split: sum.splits option.splits)
  then show "held w' = held w" "sv_ID s = i" "held w i = Some (sv_Labels s)" using library_get [OF assms(1) g] by auto
qed

text \<open>
  A promotion turns a builder of the tag into a worker of the same tag: only its role label changes, and no other
  machine is touched.
\<close>

theorem promoted_builder_is_worker:
  assumes "library_ok c held" "update_ok c held" "hz_client h = Some (hcloudClient c)" "PromoteBuilder sha h i tag w = (Inr (), w')"
  shows "\<exists>n l. positiveID i ''server'' = Inr n \<and> held w n = Some l \<and> hasOwnership sha l (trimSpace tag) roleBuilder \<and>
           held w' = (held w)(n \<mapsto> AList.update labelRole roleWorker l) \<and>
           (\<forall>tag' role. hasOwnership sha (AList.update labelRole roleWorker l) tag' role \<longleftrightarrow> tag' = trimSpace tag \<and> role = roleWorker)"
proof -
  obtain n s w1 s2 where n: "positiveID i ''server'' = Inr n" "hcGetServer c n w = (Inr s, w1)"
    "hasOwnership sha (sv_Labels s) (trimSpace tag) roleBuilder"
    "hcUpdateServerLabels c n (AList.update labelRole roleWorker (sv_Labels s)) w1 = (Inr s2, w')"
    using assms(3,4)
    by (auto simp: PromoteBuilder_def configured_def Let_def bindR_def pureR_def viaClient_def hcloudClient_def failR_def returnR_def
        split: if_splits sum.splits prod.splits)
  obtain hs hs2 w2 where u: "hs_GetByID c n w1 = (Inr (Some hs), w2)" "hs_Update c hs (AList.update labelRole roleWorker (sv_Labels s)) w2 = (Inr (Some hs2), w')"
    using n(4) by (auto simp: hcUpdateServerLabels_def bindC_def onC_def okC_def failC_def split: sum.splits prod.splits option.splits)
  have "h_ID hs = n" "held w2 = held w1" using library_get [OF assms(1) u(1)] by auto
  moreover have "held w' = (held w2)(h_ID hs \<mapsto> AList.update labelRole roleWorker (sv_Labels s))" using assms(2) u(2) by (auto simp: update_ok_def)
  ultimately have "held w' = (held w)(n \<mapsto> AList.update labelRole roleWorker (sv_Labels s))" using hcGetServer_Inr [OF assms(1) n(2)] by simp
  then show ?thesis using n hcGetServer_Inr [OF assms(1) n(2)] promoted_ownership [OF n(3)] by blast
qed

subsection \<open>A cloud for examples\<close>

text \<open>Servers with their labels. One location has no capacity; another makes the server and loses the answer.\<close>

type_synonym sample_world = "(int \<times> labels) list"

definition sampleServer :: "int \<Rightarrow> labels \<Rightarrow> HServer" where
  "sampleServer i l = \<lparr>h_ID = i, h_Name = ''w'', h_Status = ''running'', h_PublicIPv4 = Some ''192.0.2.1'', h_PrivateIPs = [],
     h_Created = 5, h_Labels = l\<rparr>"

definition freshID :: "sample_world \<Rightarrow> int" where
  "freshID w = 1 + fold max (map fst w) 0"

definition sampleCloud :: "sample_world HCloud" where
  "sampleCloud =
     \<lparr>hs_Create = (\<lambda>opts w. if so_Location opts = ''fsn1''
         then (Inl ((newError ''no capacity'')\<lparr>ce_code := Some ''resource_unavailable''\<rparr>), w)
         else if so_Location opts = ''hel1'' then (Inl (newError ''timeout''), (freshID w, so_Labels opts) # w)
         else (Inr \<lparr>cr_Server = Some (sampleServer (freshID w) (so_Labels opts)), cr_Action = Some 1, cr_NextActions = []\<rparr>,
               (freshID w, so_Labels opts) # w)),
      hs_GetByID = (\<lambda>i w. (Inr (map_option (sampleServer i) (map_of w i)), w)),
      hs_Update = (\<lambda>s l w. (Inr (Some (sampleServer (h_ID s) l)), (h_ID s, l) # w)),
      hs_DeleteWithResult = (\<lambda>s w. (Inr (Some (Some 1)), filter (\<lambda>p. fst p \<noteq> h_ID s) w)),
      hs_AllWithOpts = (\<lambda>sel w. (Inr (map (\<lambda>p. sampleServer (fst p) (the (map_of w (fst p)))) w), w)),
      hs_Shutdown = (\<lambda>s w. (Inr (Some 1), w)), hs_Poweroff = (\<lambda>s w. (Inr (Some 1), w)),
      hs_RebuildWithResult = (\<lambda>s i u w. (Inr (Some 1), w)),
      hs_CreateImage = (\<lambda>s n l w. (Inl (newError ''no images''), w)),
      hi_GetByID = (\<lambda>i w. (Inr None, w)), hi_Delete = (\<lambda>i w. (Inr (), w)), hi_AllWithOpts = (\<lambda>sel w. (Inr [], w)),
      hp_Get = (\<lambda>w. (Inr \<lparr>hp_Currency = ''EUR'', hp_ImagePerGBMonth = ''0.011'', hp_ServerTypes =
         [\<lparr>hp_ServerType = Some ''cx22'', hp_Pricings = [(Some ''fsn1'', ''0.006'', ''3.79''), (Some ''nbg1'', ''0.0061'', ''3.80'')]\<rparr>]\<rparr>, w)),
      ha_WaitFor = (\<lambda>as w. (Inr (), w)), hs_polls = (\<lambda>w. 0), hs_ctxErr = (\<lambda>w. None)\<rparr>"

lemma sample_max_ge: "(k :: int) \<le> fold max xs k" "x \<in> set xs \<Longrightarrow> x \<le> fold max xs k"
proof (induction xs arbitrary: k)
  case (Cons y ys)
  { case 1 show ?case using Cons.IH(1) [of "max y k"] by simp }
  { case 2 then show ?case using Cons.IH [of "max y k"] by auto }
qed simp_all

lemma freshID_new: "0 < freshID w" "map_of w (freshID w) = None"
proof -
  show "0 < freshID w" using sample_max_ge(1) [of 0 "map fst w"] by (simp add: freshID_def)
  have "x \<in> fst ` set w \<Longrightarrow> x < freshID w" for x using sample_max_ge(2) [of x "map fst w" 0] by (simp add: freshID_def)
  then show "map_of w (freshID w) = None" by (auto simp: map_of_eq_None_iff)
qed

lemma map_of_without: "map_of (filter (\<lambda>p. fst p \<noteq> k) w) = (map_of w)(k := None)"
  by (induction w) auto

lemma sampleCloud_ok: "library_ok sampleCloud map_of" "listing_ok sha sampleCloud map_of" "refusals_ok sampleCloud map_of"
proof -
  have created: "maybeCreated map_of l w ((freshID w, l) # w)" "maybeCreated map_of l w w" for l w
    using freshID_new [of w] by (auto simp: maybeCreated_def)
  show "library_ok sampleCloud map_of"
    unfolding library_ok_def
    by (auto simp: sampleCloud_def sampleServer_def newError_def freshID_new map_of_without created split: option.splits if_splits)
  show "refusals_ok sampleCloud map_of"
    by (auto simp: refusals_ok_def sampleCloud_def newError_def isLocationUnavailable_def split: if_splits)
  show "listing_ok sha sampleCloud map_of"
    unfolding listing_ok_def
  proof (intro allI impI conjI ballI)
    fix tag role w servers w' s
    assume "hs_AllWithOpts sampleCloud (ownershipSelector sha tag role) w = (Inr servers, w')" "s \<in> set servers"
    then obtain p where "p \<in> set w" "s = sampleServer (fst p) (the (map_of w (fst p)))" by (auto simp: sampleCloud_def)
    then show "map_of w (h_ID s) = Some (h_Labels s)" using weak_map_of_SomeI [of "fst p" "snd p" w] by (auto simp: sampleServer_def)
  next
    fix tag role w servers w' i l
    assume "hs_AllWithOpts sampleCloud (ownershipSelector sha tag role) w = (Inr servers, w')"
      "map_of w i = Some l \<and> labelGet l labelManaged = labelManagedValue \<and> labelGet l labelRole = role \<and> labelGet l labelTagHash = tagHash sha tag"
    then show "i \<in> h_ID ` set servers"
      using map_of_SomeD [of w i l] by (force simp: sampleCloud_def sampleServer_def image_iff)
  qed
qed

definition sampleHetzner :: "sample_world Hetzner" where
  "sampleHetzner = \<lparr>hz_cfg = \<lparr>cf_Token = ''t'', cf_Location = ''fsn1'', cf_Locations = [''fsn1'', ''nbg1''], cf_Image = ''debian-12'',
     cf_NetworkID = 0, cf_FirewallIDs = [], cf_PricingOverride = None\<rparr>, hz_client = Some (hcloudClient sampleCloud), hz_tag = ''d''\<rparr>"

definition sampleSpec :: Spec where
  "sampleSpec = \<lparr>sp_Tag = ''fjb-t-1'', sp_Name = ''w'', sp_Role = '''', sp_InstanceType = ''cx22'', sp_ImageID = '''', sp_UserData = '''',
     sp_AuthorizedKey = '''', sp_Labels = []\<rparr>"

definition lossyHetzner :: "sample_world Hetzner" where
  "lossyHetzner = sampleHetzner\<lparr>hz_cfg := (hz_cfg sampleHetzner)\<lparr>cf_Locations := [''fsn1'', ''hel1'', ''nbg1'']\<rparr>\<rparr>"

lemma sample_provision:
  obtains l inst e where "hasOwnership id l ''fjb-t-1'' roleWorker"
    and "Provision id sampleHetzner sampleSpec [] = (Inr inst, [(1, l)])"
    and "Provision id lossyHetzner sampleSpec [] = (Inl e, [(1, l)])"
proof -
  have spec: "validateProvisionSpec sampleSpec = Inr roleWorker" "trimSpace ''fjb-t-1'' = ''fjb-t-1''" by code_simp+
  have "\<not> is_err (ownershipLabels id ''fjb-t-1'' roleWorker)" by (simp add: ownershipLabels_fits spec(2))
  then obtain l where l: "ownershipLabels id ''fjb-t-1'' roleWorker = Inr l" by (cases "ownershipLabels id ''fjb-t-1'' roleWorker") auto
  have img: "hcloudImageRef ''debian-12'' = Inr (ImageByName ''debian-12'')" by code_simp
  have user: "renderUserData id '''' '''' = Inr ''''" by (simp add: renderUserData_def withAuthorizedKey_def trimSpace_def)
  note eval = Provision_def configured_def sampleHetzner_def bindR_def pureR_def sampleSpec_def wrapE_def provisionImage_def
    trimSpace_def returnR_def wrapErr_def createServer_def hcloudClient_def hcCreateServer_def bindC_def onC_def liftC_def failC_def okC_def
    sampleCloud_def sampleServer_def freshID_def newError_def classifyCreateError_def isLocationUnavailable_def joinC_def orElse_def
    ErrLocationUnavailable_def waitActions_def Let_def finishProvision_def toInstance_def serverFromHCloud_def is_zero_def zero_time_def
  have "\<exists>inst. Provision id sampleHetzner sampleSpec [] = (Inr inst, [(1, l)])" using spec l img user by (simp add: eval)
  moreover have "\<exists>e. Provision id lossyHetzner sampleSpec [] = (Inl e, [(1, l)])" using spec l img user by (simp add: lossyHetzner_def eval)
  moreover have "hasOwnership id l ''fjb-t-1'' roleWorker" using ownership_exact [OF l] by simp
  ultimately show thesis using that by blast
qed

text \<open>One provision succeeds in its second location; in the other the answer of the creation is lost, and the machine is listed all the same.\<close>

theorem provisioned_machine_is_listed_witness:
  "(\<exists>inst insts w2. fst (Provision id sampleHetzner sampleSpec []) = Inr inst \<and>
      listServersByRole id sampleHetzner ''fjb-t-1'' roleWorker (snd (Provision id sampleHetzner sampleSpec [])) = (Inr insts, w2) \<and>
      formatInt 1 \<in> in_ID ` set insts) \<and>
   (\<exists>e insts w2. fst (Provision id lossyHetzner sampleSpec []) = Inl e \<and>
      listServersByRole id lossyHetzner ''fjb-t-1'' roleWorker (snd (Provision id lossyHetzner sampleSpec [])) = (Inr insts, w2) \<and>
      formatInt 1 \<in> in_ID ` set insts)"
proof -
  obtain l inst e where p: "hasOwnership id l ''fjb-t-1'' roleWorker" "Provision id sampleHetzner sampleSpec [] = (Inr inst, [(1, l)])"
    "Provision id lossyHetzner sampleSpec [] = (Inl e, [(1, l)])" by (rule sample_provision)
  have spec: "validateProvisionSpec sampleSpec = Inr roleWorker" "trimSpace ''fjb-t-1'' = ''fjb-t-1''" "sp_Tag sampleSpec = ''fjb-t-1''" by code_simp+
  have listed: "\<exists>insts w2. listServersByRole id h ''fjb-t-1'' roleWorker [(1, l)] = (Inr insts, w2) \<and> formatInt 1 \<in> in_ID ` set insts"
    if "h = sampleHetzner \<or> h = lossyHetzner" "Provision id h sampleSpec [] = (r, [(1, l)])" for h r
  proof -
    have h: "hz_client h = Some (hcloudClient sampleCloud)" using that(1) by (auto simp: lossyHetzner_def sampleHetzner_def)
    obtain insts w2 where li: "listServersByRole id h ''fjb-t-1'' roleWorker [(1, l)] = (Inr insts, w2)"
      using h p(1) spec(2) that(1)
      by (auto simp: listServersByRole_def configured_def lossyHetzner_def sampleHetzner_def Let_def bindR_def viaClient_def hcloudClient_def hcListServers_def
          bindC_def onC_def okC_def sampleCloud_def sampleServer_def serverFromHCloud_def pureR_def bindE_def toInstance_def is_zero_def zero_time_def)
    from provisioned_machine_is_listed [OF sampleCloud_ok(1,2) h that(2) spec(2) li] show ?thesis using spec li by simp
  qed
  show ?thesis using p(2,3) listed [OF _ p(2)] listed [OF _ p(3)] by simp
qed

theorem quote_covers_locations_witness:
  "\<exists>q w'. Quote (\<lambda>w. (7, w)) sampleHetzner ''cx22'' [] = (Inr q, w') \<and> 6100000 \<le> pq_PerHourNanos q"
proof -
  obtain r w' where q: "Quote (\<lambda>w. (7, w)) sampleHetzner ''cx22'' [] = (r, w')" by fastforce
  have "\<not> is_err (fst (Quote (\<lambda>w. (7, w)) sampleHetzner ''cx22'' []))" by code_simp
  then obtain a where a: "r = Inr a" using q by (cases r) simp_all
  obtain catalog w1 where g: "hcGetPricing sampleCloud [] = (Inr catalog, w1)"
    by (simp add: hcGetPricing_def bindC_def onC_def okC_def sampleCloud_def)
  have "cl_GetPricing (hcloudClient sampleCloud) [] = (Inr catalog, w1)" using g by (simp add: hcloudClient_def)
  moreover have "hz_client sampleHetzner = Some (hcloudClient sampleCloud)" "cf_PricingOverride (hz_cfg sampleHetzner) = None"
    "''nbg1'' \<in> set (cf_Locations (hz_cfg sampleHetzner))" by (simp_all add: sampleHetzner_def)
  ultimately obtain v where v: "hourlyRate catalog (trimSpace ''cx22'') ''nbg1'' = Inr v" "v \<le> pq_PerHourNanos a"
    using quote_covers_locations [of sampleHetzner "hcloudClient sampleCloud" "[]" catalog w1 "\<lambda>w. (7, w)" "''cx22''" a w'] q a by blast
  have "hourlyRate (projr (fst (hcGetPricing sampleCloud []))) (trimSpace ''cx22'') ''nbg1'' = Inr 6100000" by code_simp
  then show ?thesis using g q a v by simp
qed

end
