(* ===== verification/DigitalOcean.thy ===== *)
theory DigitalOcean
  imports Hetzner
begin

text \<open>
  The DigitalOcean provider, src/internal/provider/digitalocean/digitalocean.go, client.go, pricing.go and userdata.go.
  The library \<open>godo\<close> is the record \<open>DOClient\<close> over a world \<open>'w\<close> for the calls of a single request, and the argument of
  the two page loops for the listings. \<open>time.Parse\<close> is the argument \<open>parseTime\<close>. A finite \<open>float64\<close> is a rational
  number, and its product is rounded to 53 bits. Data types and texts that the package shares with the
  Hetzner package word for word are those of Hetzner.
\<close>

subsection \<open>Configuration\<close>

record pricingOverride_do =
  pd_Currency :: string
  pd_Instances :: "(string \<times> priceRateOverride) list"
  pd_MinimumCharge :: string
  pd_SnapshotGBMonth :: string
  pd_minimumChargeNanos :: int
  pd_snapshotGBMonthNanos :: "int option"

record config_do =
  cd_Token :: string
  cd_Region :: string
  cd_Image :: string
  cd_VPCUUID :: string
  cd_SSHKeyIDs :: "int list"
  cd_FirewallID :: string
  cd_PricingOverride :: "pricingOverride_do option"

definition defaultCurrency_do :: string where "defaultCurrency_do = ''USD''"
definition catalogSource_do :: string where "catalogSource_do = ''digitalocean:sizes''"
definition minimumChargeNanos :: int where "minimumChargeNanos = 10000000"

definition normalizeCurrencyAndMinimum :: "pricingOverride_do \<Rightarrow> pricingOverride_do result" where
  "normalizeCurrencyAndMinimum p =
     (let currency = toUpper (trimSpace (pd_Currency p));
          currency = (if currency = '''' then defaultCurrency_do else currency);
          p = p\<lparr>pd_Currency := currency\<rparr>
      in if \<not> validCurrency currency then failE (''currency must be a three-letter ISO code, got '' @ goQuote currency)
         else let p = p\<lparr>pd_MinimumCharge := trimSpace (pd_MinimumCharge p)\<rparr> in
           if pd_MinimumCharge p = ''''
           then if currency \<noteq> defaultCurrency_do then failE ''minimum_charge is required when currency is not USD''
                else Inr (p\<lparr>pd_minimumChargeNanos := minimumChargeNanos\<rparr>)
           else bindE (wrapE ''minimum_charge'' (parseDecimalNanos_do (pd_MinimumCharge p))) (\<lambda>v. Inr (p\<lparr>pd_minimumChargeNanos := v\<rparr>)))"

definition optionalNanos_do :: "string \<Rightarrow> string \<Rightarrow> int option result" where
  "optionalNanos_do what raw = (if raw = '''' then Inr None else bindE (wrapE what (parseDecimalNanos_do raw)) (\<lambda>v. Inr (Some v)))"

definition normalizeInstanceRate :: "string \<Rightarrow> priceRateOverride \<Rightarrow> priceRateOverride result" where
  "normalizeInstanceRate slug rate =
     (let rate = rate\<lparr>po_PerHour := trimSpace (po_PerHour rate), po_PerMonth := trimSpace (po_PerMonth rate)\<rparr> in
      if po_PerHour rate = '''' \<and> po_PerMonth rate = '''' then failE (''instances.'' @ slug @ '' must set per_hour or per_month'')
      else bindE (optionalNanos_do (''instances.'' @ slug @ ''.per_hour'') (po_PerHour rate)) (\<lambda>h.
           bindE (optionalNanos_do (''instances.'' @ slug @ ''.per_month'') (po_PerMonth rate)) (\<lambda>m.
             Inr (rate\<lparr>po_perHourNanos := h, po_perMonthNanos := m\<rparr>))))"

fun normalizeInstanceRates :: "(string \<times> priceRateOverride) list \<Rightarrow> (string \<times> priceRateOverride) list \<Rightarrow> (string \<times> priceRateOverride) list result" where
  "normalizeInstanceRates [] normalized = Inr normalized"
| "normalizeInstanceRates ((slug0, rate) # rest) normalized =
     (let slug = trimSpace slug0 in
      if slug = '''' then failE ''instances contains an empty size slug''
      else if map_of normalized slug \<noteq> None then failE (''instances contains duplicate normalized size slug '' @ goQuote slug)
      else bindE (normalizeInstanceRate slug rate) (\<lambda>rate. normalizeInstanceRates rest (normalized @ [(slug, rate)])))"

definition normalizeSnapshotRate :: "pricingOverride_do \<Rightarrow> pricingOverride_do result" where
  "normalizeSnapshotRate p =
     (let p = p\<lparr>pd_SnapshotGBMonth := trimSpace (pd_SnapshotGBMonth p)\<rparr> in
      bindE (optionalNanos_do ''snapshot_gb_month'' (pd_SnapshotGBMonth p)) (\<lambda>rate.
        Inr (case rate of None \<Rightarrow> p | Some v \<Rightarrow> p\<lparr>pd_snapshotGBMonthNanos := Some v\<rparr>)))"

definition normalizePricing_do :: "pricingOverride_do \<Rightarrow> pricingOverride_do result" where
  "normalizePricing_do p =
     bindE (normalizeCurrencyAndMinimum p) (\<lambda>p.
     bindE (normalizeInstanceRates (pd_Instances p) []) (\<lambda>normalized.
     bindE (normalizeSnapshotRate (p\<lparr>pd_Instances := normalized\<rparr>)) (\<lambda>p.
       if pd_Instances p = [] \<and> pd_snapshotGBMonthNanos p = None then failE ''must set instances or snapshot_gb_month'' else Inr p)))"

fun checkKeys :: "int list \<Rightarrow> int set \<Rightarrow> unit result" where
  "checkKeys [] seen = Inr ()"
| "checkKeys (i # is) seen =
     (if i \<le> 0 then failE (''digitalocean: provider config: ssh_key_ids must contain positive IDs, got '' @ formatInt i)
      else if i \<in> seen then failE (''digitalocean: provider config: duplicate ssh_key_ids entry '' @ formatInt i)
      else checkKeys is (insert i seen))"

definition normalizeAndValidate_do :: "config_do \<Rightarrow> config_do result" where
  "normalizeAndValidate_do c0 =
     (let c = c0\<lparr>cd_Token := trimSpace (cd_Token c0), cd_Region := trimSpace (cd_Region c0), cd_Image := trimSpace (cd_Image c0),
                cd_VPCUUID := trimSpace (cd_VPCUUID c0), cd_FirewallID := trimSpace (cd_FirewallID c0)\<rparr>;
          missing = missingFields [(cd_Token c = '''', ''token''), (cd_Region c = '''', ''region''), (cd_Image c = '''', ''image'')]
      in if missing \<noteq> [] then failE (''digitalocean: provider config missing: '' @ joinComma missing)
         else bindE (checkKeys (cd_SSHKeyIDs c) {}) (\<lambda>_.
           case cd_PricingOverride c of
             None \<Rightarrow> Inr c
           | Some p \<Rightarrow> bindE (wrapE ''digitalocean: provider config: pricing_override'' (normalizePricing_do p)) (\<lambda>p. Inr (c\<lparr>cd_PricingOverride := Some p\<rparr>))))"

subsection \<open>User data\<close>

definition maxUserDataBytes_do :: nat where "maxUserDataBytes_do = 64 * 1024"

definition validateUserDataSize :: "string \<Rightarrow> string result" where
  "validateUserDataSize value =
     (if length value > maxUserDataBytes_do
      then failE (''user-data is '' @ formatNat (length value) @ '' bytes; maximum is '' @ formatNat maxUserDataBytes_do) else Inr value)"

definition renderUserData_do :: "(string \<Rightarrow> string) \<Rightarrow> string \<Rightarrow> string \<Rightarrow> string result" where
  "renderUserData_do sha cloudConfig key0 =
     (let key = trimSpace key0 in
      if key = '''' then validateUserDataSize cloudConfig
      else if list_ex (\<lambda>c. c = CHR 0x0D \<or> c = CHR 0x0A) key then failE ''authorized key must be a single line''
      else validateUserDataSize (mimeMessage (''fjb-do-'' @ hexEncode (take 16 (sha (cloudConfig @ [CHR 0x00] @ key))))
             [(cloudConfigType, cloudConfig), (shellScriptType, installKeyScript (stdEncode key))]))"

subsection \<open>The provider\<close>

record Droplet =
  dr_ID :: int
  dr_Name :: string
  dr_Status :: string
  dr_Created :: string
  dr_Networks :: "(string \<times> string) list option"
  dr_Tags :: "string list"

datatype DropletCreateImage = DropletImageID int | DropletImageSlug string

record DropletCreateRequest =
  dq_Name :: string
  dq_Region :: string
  dq_Size :: string
  dq_Image :: DropletCreateImage
  dq_SSHKeys :: "int list"
  dq_UserData :: string
  dq_Tags :: "string list"
  dq_VPCUUID :: string
  dq_PublicNetworking :: bool

datatype float64 = NaN | PosInf | NegInf | Fin rat

record Size =
  sz_Slug :: string
  sz_PriceHourly :: float64
  sz_PriceMonthly :: float64

text \<open>
  \<open>do_polls\<close> is the number of poll intervals until the context of the wait is done, and \<open>do_waitErr\<close> its error at a given moment.
\<close>

record 'w DOClient =
  do_CreateDroplet :: "DropletCreateRequest \<Rightarrow> ('w, Droplet) call"
  do_GetDroplet :: "int \<Rightarrow> ('w, Droplet) call"
  do_DeleteDroplet :: "int \<Rightarrow> ('w, unit) call"
  do_ListDropletsByTag :: "string \<Rightarrow> ('w, Droplet list) call"
  do_AddDropletToFirewall :: "string \<Rightarrow> int \<Rightarrow> ('w, unit) call"
  do_FindSize :: "string \<Rightarrow> ('w, Size) call"
  do_polls :: "'w \<Rightarrow> nat"
  do_waitErr :: "'w \<Rightarrow> string option"

record 'w DigitalOcean =
  dg_cfg :: config_do
  dg_client :: "'w DOClient option"
  dg_tag :: string

definition configured_do :: "'w DigitalOcean \<Rightarrow> ('w DOClient \<Rightarrow> ('w, 'a) action) \<Rightarrow> ('w, 'a) action" where
  "configured_do d f = (case dg_client d of None \<Rightarrow> failR (ErrOther ''digitalocean: provider is not configured'') | Some c \<Rightarrow> f c)"

definition Configure_do :: "(config_do \<Rightarrow> 'w DOClient) \<Rightarrow> 'w DigitalOcean \<Rightarrow> string \<Rightarrow> config_do result \<Rightarrow> 'w DigitalOcean result" where
  "Configure_do newClient d tag decoded =
     bindE (wrapE ''digitalocean: decode provider config'' decoded) (\<lambda>cfg.
     bindE (normalizeAndValidate_do cfg) (\<lambda>cfg.
       Inr (d\<lparr>dg_cfg := cfg, dg_tag := tag, dg_client := Some (case dg_client d of None \<Rightarrow> newClient cfg | Some c \<Rightarrow> c)\<rparr>)))"

definition publicDropletIPv4 :: "Droplet \<Rightarrow> string" where
  "publicDropletIPv4 droplet =
     (case dr_Networks droplet of
        None \<Rightarrow> ''''
      | Some v4 \<Rightarrow> (case find (\<lambda>(t, ip). t = ''public'' \<and> ip \<noteq> '''') v4 of None \<Rightarrow> '''' | Some (_, ip) \<Rightarrow> ip))"

definition privateDropletIPv4 :: "bool \<Rightarrow> Droplet \<Rightarrow> string" where
  "privateDropletIPv4 includePrivateIP droplet =
     (case dr_Networks droplet of
        None \<Rightarrow> ''''
      | Some v4 \<Rightarrow> foldl (\<lambda>privateIP (t, ip). if t = ''private'' \<and> includePrivateIP \<and> privateIP = '''' then ip else privateIP) '''' v4)"

definition toInstance_do :: "(string \<Rightarrow> instant result) \<Rightarrow> Droplet \<Rightarrow> string \<Rightarrow> bool \<Rightarrow> Instance result" where
  "toInstance_do parseTime droplet ownershipTag includePrivateIP =
     bindE (wrapE (''digitalocean: droplet '' @ formatInt (dr_ID droplet) @ '' has invalid created_at '' @ goQuote (dr_Created droplet))
             (parseTime (dr_Created droplet))) (\<lambda>created.
       let publicIP = publicDropletIPv4 droplet in
       if publicIP = '''' then failE (''digitalocean: droplet '' @ formatInt (dr_ID droplet) @ '' has no public IPv4'')
       else Inr \<lparr>in_ID = formatInt (dr_ID droplet), in_Name = dr_Name droplet, in_IPv4 = publicIP,
                 in_VPCIPv4 = privateDropletIPv4 includePrivateIP droplet, in_CreatedAt = created, in_Tag = ownershipTag\<rparr>)"

definition validateSpec :: "Spec \<Rightarrow> unit result" where
  "validateSpec spec =
     (let missing = missingFields [(trimSpace (sp_Tag spec) = '''', ''tag''), (trimSpace (sp_Name spec) = '''', ''name''),
                                   (trimSpace (sp_InstanceType spec) = '''', ''instance_type'')]
      in if missing \<noteq> [] then failE (''digitalocean: provision spec missing: '' @ joinComma missing)
         else if length (sp_UserData spec) > maxUserDataBytes_do
         then failE (''digitalocean: user-data is '' @ formatNat (length (sp_UserData spec)) @ '' bytes; maximum is '' @ formatNat maxUserDataBytes_do)
         else Inr ())"

definition createImage :: "string \<Rightarrow> DropletCreateImage result" where
  "createImage ref0 =
     (let ref = trimSpace ref0 in
      if ref = '''' then failE ''digitalocean: image reference is empty''
      else case Atoi ref of
        Some i \<Rightarrow> if i \<le> 0 then failE (''digitalocean: image ID must be positive, got '' @ goQuote ref) else Inr (DropletImageID i)
      | None \<Rightarrow> Inr (DropletImageSlug ref))"

definition dropletReady :: "Droplet \<Rightarrow> bool" where
  "dropletReady droplet \<longleftrightarrow> dr_Status droplet = ''active'' \<and> publicDropletIPv4 droplet \<noteq> ''''"

definition waitText :: "int \<Rightarrow> string" where
  "waitText i = ''digitalocean: wait for droplet '' @ formatInt i @ '' to become active with public IPv4: ''"

text \<open>The loop from its second check on: the droplet is returned with the error, if there is one.\<close>

fun waitLoop :: "'w DOClient \<Rightarrow> int \<Rightarrow> nat \<Rightarrow> Droplet \<Rightarrow> 'w \<Rightarrow> (Droplet \<times> go_error option) \<times> 'w" where
  "waitLoop c i polls droplet w =
     (if dropletReady droplet then ((droplet, None), w)
      else case do_GetDroplet c i w of
        (Inl e, w') \<Rightarrow>
          ((droplet, Some (ErrOther (case do_waitErr c w' of
                      Some t \<Rightarrow> waitText i @ t
                    | None \<Rightarrow> ''digitalocean: get droplet '' @ formatInt i @ '' while waiting for readiness: '' @ ce_text e))), w')
      | (Inr refreshed, w') \<Rightarrow>
          if dr_ID refreshed \<noteq> i
          then ((droplet, Some (ErrOther (''digitalocean: get droplet '' @ formatInt i @ '' returned unexpected droplet ID '' @ formatInt (dr_ID refreshed)))), w')
          else if dropletReady refreshed then ((refreshed, None), w')
          else case polls of
            0 \<Rightarrow> ((refreshed, Some (ErrOther (waitText i @ (case do_waitErr c w' of Some t \<Rightarrow> t | None \<Rightarrow> ''context deadline exceeded'')))), w')
          | Suc n \<Rightarrow> waitLoop c i n refreshed w')"

definition waitForReadyDroplet :: "'w DOClient \<Rightarrow> Droplet \<Rightarrow> 'w \<Rightarrow> (Droplet \<times> go_error option) \<times> 'w" where
  "waitForReadyDroplet c droplet w = waitLoop c (dr_ID droplet) (do_polls c w) droplet w"

definition cleanupFailedProvision_do :: "'w DOClient \<Rightarrow> int \<Rightarrow> go_error \<Rightarrow> ('w, 'a) action" where
  "cleanupFailedProvision_do c i cause w =
     (case do_DeleteDroplet c i w of
        (Inl e, w') \<Rightarrow> (Inl (ErrOther (errorText cause @ nl @ ''digitalocean: clean up droplet '' @ formatInt i @ '' after failed provision: '' @ ce_text e)), w')
      | (Inr _, w') \<Rightarrow> (Inl cause, w'))"

definition attachFirewall :: "'w DigitalOcean \<Rightarrow> 'w DOClient \<Rightarrow> int \<Rightarrow> ('w, unit) action" where
  "attachFirewall d c i =
     (if cd_FirewallID (dg_cfg d) \<noteq> ''''
      then viaClient (''digitalocean: attach droplet '' @ formatInt i @ '' to firewall '' @ goQuote (cd_FirewallID (dg_cfg d)))
             (do_AddDropletToFirewall c (cd_FirewallID (dg_cfg d)) i)
      else returnR ())"

definition finishProvision_do :: "(string \<Rightarrow> instant result) \<Rightarrow> 'w DigitalOcean \<Rightarrow> 'w DOClient \<Rightarrow> Spec \<Rightarrow> Droplet \<Rightarrow> ('w, Instance) action" where
  "finishProvision_do parseTime d c spec droplet w =
     (case attachFirewall d c (dr_ID droplet) w of
        (Inl e, w) \<Rightarrow> cleanupFailedProvision_do c (dr_ID droplet) e w
      | (Inr _, w) \<Rightarrow>
          (case waitForReadyDroplet c droplet w of
             ((droplet, Some e), w) \<Rightarrow> cleanupFailedProvision_do c (dr_ID droplet) e w
           | ((droplet, None), w) \<Rightarrow>
               (case toInstance_do parseTime droplet (sp_Tag spec) (cd_VPCUUID (dg_cfg d) \<noteq> '''') of
                  Inl e \<Rightarrow> cleanupFailedProvision_do c (dr_ID droplet) e w
                | Inr inst \<Rightarrow> (Inr inst, w))))"

definition Provision_do :: "(string \<Rightarrow> string) \<Rightarrow> (string \<Rightarrow> instant result) \<Rightarrow> 'w DigitalOcean \<Rightarrow> Spec \<Rightarrow> ('w, Instance) action" where
  "Provision_do sha parseTime d spec = configured_do d (\<lambda>c.
     bindR (pureR (validateSpec spec)) (\<lambda>_.
     bindR (pureR (createImage (if trimSpace (sp_ImageID spec) \<noteq> '''' then sp_ImageID spec else cd_Image (dg_cfg d)))) (\<lambda>img.
     bindR (pureR (wrapE ''digitalocean: render user-data'' (renderUserData_do sha (sp_UserData spec) (sp_AuthorizedKey spec)))) (\<lambda>userData.
     bindR (viaClient ''digitalocean: create droplet'' (do_CreateDroplet c
              \<lparr>dq_Name = sp_Name spec, dq_Region = cd_Region (dg_cfg d), dq_Size = sp_InstanceType spec, dq_Image = img,
               dq_SSHKeys = cd_SSHKeyIDs (dg_cfg d), dq_UserData = userData, dq_Tags = [sp_Tag spec],
               dq_VPCUUID = cd_VPCUUID (dg_cfg d), dq_PublicNetworking = True\<rparr>))
       (finishProvision_do parseTime d c spec)))))"

definition parseAtoiError :: "string \<Rightarrow> string" where
  "parseAtoiError s =
     (let ds = (case s of [] \<Rightarrow> [] | c # cs \<Rightarrow> if c = CHR ''-'' \<or> c = CHR ''+'' then cs else s)
      in ''strconv.Atoi: parsing '' @ goQuote s @ (if ds \<noteq> [] \<and> allDigits ds then '': value out of range'' else '': invalid syntax''))"

definition Destroy_do :: "'w DigitalOcean \<Rightarrow> string \<Rightarrow> ('w, unit) action" where
  "Destroy_do d i = configured_do d (\<lambda>c.
     case Atoi i of
       None \<Rightarrow> failR (ErrOther (''digitalocean: bad droplet ID '' @ goQuote i @ '': '' @ parseAtoiError i))
     | Some n \<Rightarrow> if n \<le> 0 then failR (ErrOther (''digitalocean: bad droplet ID '' @ goQuote i @ '': ID must be positive''))
                else viaClient (''digitalocean: delete droplet '' @ formatInt n) (do_DeleteDroplet c n))"

definition List_do :: "(string \<Rightarrow> instant result) \<Rightarrow> 'w DigitalOcean \<Rightarrow> string \<Rightarrow> ('w, Instance list) action" where
  "List_do parseTime d tag0 = configured_do d (\<lambda>c.
     let tag = trimSpace tag0 in
     if tag = '''' then failR (ErrOther ''digitalocean: list tag must not be empty'')
     else bindR (viaClient (''digitalocean: list droplets by tag '' @ goQuote tag) (do_ListDropletsByTag c tag)) (\<lambda>droplets.
       pureR (mapE (\<lambda>droplet. toInstance_do parseTime droplet tag (cd_VPCUUID (dg_cfg d) \<noteq> '''')) droplets)))"

definition digitalOceanBillingModel :: BillingModel where
  "digitalOceanBillingModel = BillingPerSecond"

definition digitalOceanInfo :: "'w DigitalOcean \<Rightarrow> (string \<times> string) list" where
  "digitalOceanInfo d =
     [(''region'', cd_Region (dg_cfg d)), (''image'', cd_Image (dg_cfg d)), (''vpc_uuid'', cd_VPCUUID (dg_cfg d)),
      (''firewall_id'', cd_FirewallID (dg_cfg d)), (''ssh_key_count'', formatNat (length (cd_SSHKeyIDs (dg_cfg d)))), (''tag'', dg_tag d)]"

subsection \<open>Prices\<close>

text \<open>
  The product of two finite \<open>float64\<close> values that are not negative: the exact product, rounded to the nearest number with 53
  significant bits, ties to even. The unit in the last place is found by halving and doubling; 1100 steps cover the range of exponents.
\<close>

fun ulpExp :: "nat \<Rightarrow> rat \<Rightarrow> int" where
  "ulpExp 0 x = 0"
| "ulpExp (Suc n) x = (if x \<ge> 2 ^ 53 then ulpExp n (x / 2) + 1 else if x < 2 ^ 52 then ulpExp n (x * 2) - 1 else 0)"

definition pow2 :: "int \<Rightarrow> rat" where
  "pow2 e = 2 powi e"

definition roundEven :: "rat \<Rightarrow> int" where
  "roundEven x = (let f = \<lfloor>x\<rfloor>; r = x - of_int f in if r < 1 / 2 then f else if r > 1 / 2 then f + 1 else if even f then f else f + 1)"

definition roundF64 :: "rat \<Rightarrow> rat" where
  "roundF64 x = (if x = 0 then 0 else let e = ulpExp 1100 x in of_int (roundEven (x / pow2 e)) * pow2 e)"

text \<open>\<open>math.Round\<close> of a number that is not negative.\<close>

definition mathRound :: "rat \<Rightarrow> int" where
  "mathRound x = \<lfloor>x + 1 / 2\<rfloor>"

text \<open>The largest price, \<open>float64(math.MaxInt64)/float64(nanosPerUnit)\<close>; the messages do not print the price.\<close>

definition maxFloatPrice :: rat where
  "maxFloatPrice = roundF64 (9223372036854775808 / 1000000000)"

fun floatPriceToNanos :: "float64 \<Rightarrow> int result" where
  "floatPriceToNanos (Fin price) =
     (if price < 0 then failE ''invalid non-negative price''
      else if price > maxFloatPrice then failE ''price is too large''
      else Inr (wrap64 (mathRound (roundF64 (price * 1000000000)))))"
| "floatPriceToNanos _ = failE ''invalid non-negative price''"

record quoteOverride =
  qo_currency :: string
  qo_rate :: "priceRateOverride option"
  qo_minimumChargeNanos :: int
  qo_snapshotRate :: "int option"

definition resolveQuoteOverride :: "'w DigitalOcean \<Rightarrow> string \<Rightarrow> quoteOverride" where
  "resolveQuoteOverride d instanceType =
     (case cd_PricingOverride (dg_cfg d) of
        None \<Rightarrow> \<lparr>qo_currency = defaultCurrency_do, qo_rate = None, qo_minimumChargeNanos = minimumChargeNanos, qo_snapshotRate = None\<rparr>
      | Some p \<Rightarrow> \<lparr>qo_currency = pd_Currency p, qo_rate = map_of (pd_Instances p) instanceType,
                   qo_minimumChargeNanos = pd_minimumChargeNanos p, qo_snapshotRate = pd_snapshotGBMonthNanos p\<rparr>)"

definition needsCatalog :: "quoteOverride \<Rightarrow> bool" where
  "needsCatalog q \<longleftrightarrow> (case qo_rate q of None \<Rightarrow> True | Some r \<Rightarrow> po_perHourNanos r = None \<or> po_perMonthNanos r = None)"

definition applyRates :: "quoteOverride \<Rightarrow> int \<Rightarrow> int \<Rightarrow> int \<times> int" where
  "applyRates q perHour perMonth =
     (case qo_rate q of None \<Rightarrow> (perHour, perMonth) | Some r \<Rightarrow> (orDefault (po_perHourNanos r) perHour, orDefault (po_perMonthNanos r) perMonth))"

definition quoteSource :: "quoteOverride \<Rightarrow> bool \<Rightarrow> string" where
  "quoteSource q needs =
     (if qo_rate q \<noteq> None \<and> \<not> needs then overrideSource
      else if qo_rate q \<noteq> None \<or> qo_snapshotRate q \<noteq> None then catalogSource_do @ ''+'' @ overrideSource
      else catalogSource_do)"

definition catalogRates_do :: "'w DOClient \<Rightarrow> string \<Rightarrow> ('w, int \<times> int) action" where
  "catalogRates_do c instanceType =
     bindR (viaClient (''digitalocean: quote size '' @ goQuote instanceType) (do_FindSize c instanceType)) (\<lambda>found.
     bindR (pureR (wrapE (''digitalocean: size '' @ goQuote instanceType @ '' hourly price'') (floatPriceToNanos (sz_PriceHourly found)))) (\<lambda>perHour.
     bindR (pureR (wrapE (''digitalocean: size '' @ goQuote instanceType @ '' monthly price'') (floatPriceToNanos (sz_PriceMonthly found)))) (\<lambda>perMonth.
       returnR (perHour, perMonth))))"

definition Quote_do :: "('w \<Rightarrow> instant \<times> 'w) \<Rightarrow> 'w DigitalOcean \<Rightarrow> string \<Rightarrow> ('w, ProviderQuote) action" where
  "Quote_do now d instanceType0 = configured_do d (\<lambda>c.
     let instanceType = trimSpace instanceType0 in
     if instanceType = '''' then failR (ErrOther ''digitalocean: quote instance type must not be empty'')
     else let q = resolveQuoteOverride d instanceType; needs = needsCatalog q in
       if needs \<and> qo_currency q \<noteq> defaultCurrency_do
       then failR (ErrOther (''digitalocean: quote size '' @ goQuote instanceType @ '': non-USD pricing overrides must provide both per_hour and per_month''))
       else bindR (if needs then catalogRates_do c instanceType else returnR (0, 0)) (\<lambda>(perHour, perMonth) w.
         case applyRates q perHour perMonth of (perHour, perMonth) \<Rightarrow>
         case now w of (observed, w) \<Rightarrow>
           (Inr \<lparr>pq_InstanceType = instanceType, pq_Currency = qo_currency q, pq_PerHourNanos = perHour, pq_PerMonthNanos = perMonth,
                 pq_BillingQuantum = second, pq_MinimumDuration = minute, pq_MinimumChargeNanos = qo_minimumChargeNanos q,
                 pq_SnapshotGBMonthNanos = orDefault (qo_snapshotRate q) 0, pq_Source = quoteSource q needs, pq_ObservedAt = observed\<rparr>, w)))"

subsection \<open>Pages\<close>

text \<open>
  The listings of client.go read page after page. A response has no links, says that it is the last page, or gives the number of its page,
  which the client parses from a URL and may fail to. The fuel bounds the number of requests; \<open>None\<close> is a loop that has not ended.
\<close>

datatype Links = NoLinks | LastPage | PageLink "ClientError + int"

fun ListDropletsByTag :: "(string \<Rightarrow> int \<Rightarrow> ('w, Droplet list \<times> Links) call) \<Rightarrow> string \<Rightarrow> nat \<Rightarrow> int \<Rightarrow> Droplet list \<Rightarrow> 'w \<Rightarrow> ((ClientError + Droplet list) \<times> 'w) option" where
  "ListDropletsByTag api tag 0 page out w = None"
| "ListDropletsByTag api tag (Suc n) page out w =
     (case api tag page w of
        (Inl e, w') \<Rightarrow> Some (Inl e, w')
      | (Inr (droplets, links), w') \<Rightarrow>
          (case links of
             PageLink (Inl e) \<Rightarrow> Some (Inl (wrapC ''read DigitalOcean droplet pagination'' e), w')
           | PageLink (Inr current) \<Rightarrow> ListDropletsByTag api tag n (wrap64 (current + 1)) (out @ droplets) w'
           | _ \<Rightarrow> Some (Inr (out @ droplets), w')))"

fun FindSize :: "(int \<Rightarrow> ('w, Size list \<times> Links) call) \<Rightarrow> string \<Rightarrow> nat \<Rightarrow> int \<Rightarrow> 'w \<Rightarrow> ((ClientError + Size) \<times> 'w) option" where
  "FindSize api slug 0 page w = None"
| "FindSize api slug (Suc n) page w =
     (case api page w of
        (Inl e, w') \<Rightarrow> Some (Inl e, w')
      | (Inr (sizes, links), w') \<Rightarrow>
          (case find (\<lambda>s. sz_Slug s = slug) sizes of
             Some found \<Rightarrow> Some (Inr found, w')
           | None \<Rightarrow>
               (case links of
                  PageLink (Inl e) \<Rightarrow> Some (Inl (wrapC ''read DigitalOcean size pagination'' e), w')
                | PageLink (Inr current) \<Rightarrow> FindSize api slug n (wrap64 (current + 1)) w'
                | _ \<Rightarrow> Some (Inl (newError (''DigitalOcean size '' @ goQuote slug @ '' not found'')), w'))))"

subsection \<open>Prices are converted exactly\<close>

lemma pow2_step: "pow2 (e + 1) = 2 * pow2 e" "pow2 (e - 1) = pow2 e / 2" "0 < pow2 e" "pow2 0 = 1"
  by (simp_all add: pow2_def power_int_add_1 power_int_diff)

lemma ulpExp_spec:
  assumes "2 ^ 52 / 2 ^ k \<le> x" "x < 2 ^ 53 * 2 ^ k" "k < n"
  shows "2 ^ 52 \<le> x / pow2 (ulpExp n x) \<and> x / pow2 (ulpExp n x) < 2 ^ 53"
  using assms
proof (induction n arbitrary: k x)
  case (Suc n)
  consider "2 ^ 53 \<le> x" | "x < 2 ^ 52" | "2 ^ 52 \<le> x" "x < 2 ^ 53" by linarith
  then show ?case
  proof cases
    case 1
    then obtain j where k: "k = Suc j" using Suc.prems(2) by (cases k) auto
    have "(2 :: rat) ^ 52 / 2 ^ j \<le> 2 ^ 52" by (simp add: divide_le_eq)
    also have "\<dots> \<le> x / 2" using 1 by simp
    finally have "2 ^ 52 \<le> (x / 2) / pow2 (ulpExp n (x / 2)) \<and> (x / 2) / pow2 (ulpExp n (x / 2)) < 2 ^ 53"
      using Suc.prems(2,3) k by (intro Suc.IH [of j]) auto
    then show ?thesis using 1 by (simp add: pow2_step)
  next
    case 2
    then obtain j where k: "k = Suc j" using Suc.prems(1) by (cases k) auto
    have "x * 2 < 2 ^ 53" using 2 by simp
    also have "\<dots> \<le> (2 :: rat) ^ 53 * 2 ^ j" by simp
    finally have "2 ^ 52 \<le> (x * 2) / pow2 (ulpExp n (x * 2)) \<and> (x * 2) / pow2 (ulpExp n (x * 2)) < 2 ^ 53"
      using Suc.prems(1,3) k by (intro Suc.IH [of j]) auto
    then show ?thesis using 2 by (simp add: pow2_step)
  next
    case 3
    then show ?thesis by (simp add: pow2_step)
  qed
qed simp

lemma roundEven_error: "\<bar>of_int (roundEven x) - x\<bar> \<le> 1 / 2"
proof -
  define f where "f = \<lfloor>x\<rfloor>"
  have "of_int f \<le> x" "x < of_int f + 1" unfolding f_def by linarith+
  then show ?thesis by (auto simp: roundEven_def Let_def abs_le_iff simp flip: f_def)
qed

lemma roundF64_error:
  assumes "2 ^ 52 / 2 ^ 1000 \<le> x" "x < 2 ^ 53 * 2 ^ 1000"
  shows "\<bar>roundF64 x - x\<bar> \<le> x / 2 ^ 53"
proof -
  let ?p = "pow2 (ulpExp 1100 x)"
  have S: "2 ^ 52 \<le> x / ?p" using ulpExp_spec [OF assms, of 1100] by simp
  have p: "0 < ?p" by (rule pow2_step)
  have "0 < x" using assms(1) by (rule less_le_trans [rotated]) simp
  then have "roundF64 x - x = (of_int (roundEven (x / ?p)) - x / ?p) * ?p" using p by (simp add: roundF64_def Let_def left_diff_distrib)
  then have "\<bar>roundF64 x - x\<bar> = \<bar>of_int (roundEven (x / ?p)) - x / ?p\<bar> * ?p" using p by (simp add: abs_mult)
  also have "\<dots> \<le> 1 / 2 * ?p" using roundEven_error p by (intro mult_right_mono) auto
  also have "\<dots> \<le> x / 2 ^ 53" using S p by (simp add: field_simps)
  finally show ?thesis .
qed

lemma f64_range:
  fixes x :: rat
  assumes "1 / 2 ^ 100 \<le> x" "x \<le> 2 ^ 100"
  shows "2 ^ 52 / 2 ^ 1000 \<le> x" "x < 2 ^ 53 * 2 ^ 1000"
proof -
  have "(2 :: rat) ^ 52 / 2 ^ 1000 \<le> 1 / 2 ^ 100" by (simp add: field_simps flip: power_add)
  then show "2 ^ 52 / 2 ^ 1000 \<le> x" using assms(1) by linarith
  have "(2 :: rat) ^ 100 < 2 ^ 53 * 2 ^ 1000" by (simp flip: power_add)
  then show "x < 2 ^ 53 * 2 ^ 1000" using assms(2) by linarith
qed

lemma maxFloatPrice_large: "1000000000 \<le> maxFloatPrice"
proof -
  define q :: rat where "q = 9223372036854775808 / 1000000000"
  have "\<bar>maxFloatPrice - q\<bar> \<le> q / 2 ^ 53"
    unfolding maxFloatPrice_def q_def by (intro roundF64_error f64_range) simp_all
  then have "q - q / 2 ^ 53 \<le> maxFloatPrice" unfolding abs_le_iff by linarith
  then show ?thesis by (simp add: q_def)
qed

text \<open>
  List prices survive the way through floating point: a price of \<open>n\<close> billionths, below a million units, given as the nearest \<open>float64\<close>
  is converted back to exactly \<open>n\<close>.
\<close>

theorem floatPriceToNanos_exact:
  assumes "0 \<le> n" "n < 2 ^ 50"
  shows "floatPriceToNanos (Fin (roundF64 (of_int n / 1000000000))) = Inr n"
proof (cases "n = 0")
  case True
  then show ?thesis using maxFloatPrice_large by (simp add: roundF64_def mathRound_def wrap64_def floor_eq_iff)
next
  case False
  define x :: rat where "x = of_int n / 1000000000"
  define p where "p = roundF64 x"
  define y where "y = p * 1000000000"
  define z where "z = roundF64 y"
  have n: "1 \<le> n" using assms(1) False by simp
  have "(of_int 1 :: rat) \<le> of_int n" "(of_int n :: rat) < of_int (2 ^ 50)" using n assms(2) by (simp_all only: of_int_le_iff of_int_less_iff)
  then have n': "(1 :: rat) \<le> of_int n" "(of_int n :: rat) < 2 ^ 50" by simp_all
  have xn: "of_int n = x * 1000000000" by (simp add: x_def)
  have "\<bar>p - x\<bar> \<le> x / 2 ^ 53" unfolding p_def using n' xn by (intro roundF64_error f64_range) simp_all
  then have p: "p \<le> x + x / 2 ^ 53" "x - x / 2 ^ 53 \<le> p" unfolding abs_le_iff by linarith+
  then have y: "y \<le> of_int n + of_int n / 2 ^ 53" "of_int n - of_int n / 2 ^ 53 \<le> y" unfolding y_def xn by simp_all
  have "1 / 2 ^ 100 \<le> y" "y \<le> 2 ^ 100" using y n' by simp_all
  then have "\<bar>z - y\<bar> \<le> y / 2 ^ 53" unfolding z_def by (intro roundF64_error f64_range)
  then have z: "z \<le> y + y / 2 ^ 53" "y - y / 2 ^ 53 \<le> z" unfolding abs_le_iff by linarith+
  have "z < of_int n + 1 / 2" "of_int n - 1 / 2 < z" using z y n' by (simp_all add: field_simps)
  then have "mathRound z = n" unfolding mathRound_def by (intro floor_unique) linarith+
  moreover have "0 \<le> p" using p n' xn by simp
  moreover have "p \<le> maxFloatPrice" using p n' xn maxFloatPrice_large by simp
  moreover have "wrap64 n = n" using assms by (intro wrap64_id) (simp add: in_int64_def min_int64_def max_int64_def)
  ultimately show ?thesis by (simp add: z_def y_def p_def x_def)
qed

theorem floatPriceToNanos_exact_witness:
  "floatPriceToNanos (Fin (roundF64 (7440000 / 1000000000))) = Inr 7440000"
  using floatPriceToNanos_exact [of 7440000] by simp

subsection \<open>A failed provision\<close>

text \<open>
  What the provider relies on, with \<open>held w\<close> the tags of the droplets that exist: creating, reading, attaching to a firewall and deleting
  behave as their names say; a refused deletion may have happened.
\<close>

definition droplets_ok :: "'w DOClient \<Rightarrow> ('w \<Rightarrow> int \<Rightarrow> string list option) \<Rightarrow> bool" where
  "droplets_ok c held \<longleftrightarrow>
     (\<forall>req w r w'. do_CreateDroplet c req w = (r, w') \<longrightarrow>
        (case r of Inl e \<Rightarrow> held w' = held w | Inr d \<Rightarrow> held w (dr_ID d) = None \<and> held w' = (held w)(dr_ID d \<mapsto> dq_Tags req))) \<and>
     (\<forall>i w. held (snd (do_GetDroplet c i w)) = held w) \<and>
     (\<forall>f i w. held (snd (do_AddDropletToFirewall c f i w)) = held w) \<and>
     (\<forall>i w r w'. do_DeleteDroplet c i w = (r, w') \<longrightarrow>
        (held w' = held w \<or> held w' = (held w)(i := None)) \<and> (\<forall>u. r = Inr u \<longrightarrow> held w' = (held w)(i := None)))"

definition orphan_free :: "('w \<Rightarrow> int \<Rightarrow> string list option) \<Rightarrow> string \<Rightarrow> 'w \<Rightarrow> Instance result \<times> 'w \<Rightarrow> bool" where
  "orphan_free held tag w out \<longleftrightarrow>
     (case out of
        (Inr inst, w') \<Rightarrow> \<exists>i. in_ID inst = formatInt i \<and> held w i = None \<and> held w' = (held w)(i \<mapsto> [tag])
      | (Inl e, w') \<Rightarrow> held w' = held w \<or> (\<exists>i. held w i = None \<and> held w' = (held w)(i \<mapsto> [tag])))"

lemma cleanup_do:
  assumes "droplets_ok c held" "held w i = None" "held w1 = (held w)(i \<mapsto> [tag])"
  shows "orphan_free held tag w (cleanupFailedProvision_do c i cause w1)"
proof -
  obtain r w2 where d: "do_DeleteDroplet c i w1 = (r, w2)" by fastforce
  then have "held w2 = held w1 \<or> held w2 = (held w1)(i := None)" using assms(1) by (auto simp: droplets_ok_def)
  moreover have "(held w1)(i := None) = held w" using assms(2,3) by auto
  ultimately show ?thesis
    using d assms(2,3) by (auto simp: cleanupFailedProvision_do_def orphan_free_def split: sum.splits)
qed

lemma waitLoop_keeps:
  assumes "droplets_ok c held"
  shows "waitLoop c i polls droplet w = ((d, e), w') \<Longrightarrow> dr_ID droplet = i \<Longrightarrow> dr_ID d = i \<and> held w' = held w"
proof (induction polls arbitrary: droplet w)
  case 0
  have "held (snd (do_GetDroplet c i w)) = held w" using assms by (simp add: droplets_ok_def)
  then show ?case using 0 by (auto simp: waitLoop.simps [of c i 0] split: if_splits sum.splits prod.splits)
next
  case (Suc n)
  have G: "held (snd (do_GetDroplet c i w)) = held w" using assms by (simp add: droplets_ok_def)
  obtain r w1 where g: "do_GetDroplet c i w = (r, w1)" by fastforce
  show ?case
  proof (cases "\<exists>x. r = Inr x \<and> dr_ID x = i \<and> \<not> dropletReady x \<and> \<not> dropletReady droplet")
    case True
    then obtain x where x: "r = Inr x" "dr_ID x = i" "\<not> dropletReady x" "\<not> dropletReady droplet" by blast
    then have "waitLoop c i n x w1 = ((d, e), w')" using Suc.prems(1) g by (simp add: waitLoop.simps [of c i "Suc n"])
    from Suc.IH [OF this x(2)] show ?thesis using G g by simp
  next
    case False
    then show ?thesis using Suc.prems G g by (auto simp: waitLoop.simps [of c i "Suc n"] split: if_splits sum.splits prod.splits)
  qed
qed

lemma finishProvision_do_ok:
  assumes "droplets_ok c held" "held w (dr_ID d) = None" "held w1 = (held w)(dr_ID d \<mapsto> [sp_Tag spec])"
  shows "orphan_free held (sp_Tag spec) w (finishProvision_do parseTime p c spec d w1)"
proof -
  obtain ra wa where a: "attachFirewall p c (dr_ID d) w1 = (ra, wa)" by fastforce
  have "held (snd (do_AddDropletToFirewall c f i w)) = held w" for f i w using assms(1) by (simp add: droplets_ok_def)
  then have wa: "held wa = (held w)(dr_ID d \<mapsto> [sp_Tag spec])"
    using a assms(3) by (auto simp: attachFirewall_def viaClient_def returnR_def split: if_splits sum.splits prod.splits) (metis snd_conv)+
  obtain d2 e wb where b: "waitForReadyDroplet c d wa = ((d2, e), wb)" by (metis prod.collapse)
  have d2: "dr_ID d2 = dr_ID d" and wb: "held wb = (held w)(dr_ID d \<mapsto> [sp_Tag spec])"
    using waitLoop_keeps [OF assms(1) b [unfolded waitForReadyDroplet_def]] wa by simp_all
  note clean = cleanup_do [OF assms(1) assms(2)]
  show ?thesis
  proof (cases ra)
    case (Inl e)
    then show ?thesis using clean [OF wa] a by (simp add: finishProvision_do_def)
  next
    case ok: (Inr u)
    show ?thesis
    proof (cases e)
      case (Some err)
      then show ?thesis using clean [OF wb] a b ok d2 by (simp add: finishProvision_do_def)
    next
      case None
      show ?thesis
      proof (cases "toInstance_do parseTime d2 (sp_Tag spec) (cd_VPCUUID (dg_cfg p) \<noteq> '''')")
        case (Inl err)
        then show ?thesis using clean [OF wb] a b ok d2 None by (simp add: finishProvision_do_def)
      next
        case (Inr inst)
        then have "in_ID inst = formatInt (dr_ID d)"
          using d2 by (auto simp: toInstance_do_def bindE_def Let_def failE_def split: sum.splits if_splits)
        then show ?thesis using Inr a b ok None wb assms(2) by (auto simp: finishProvision_do_def orphan_free_def)
      qed
    qed
  qed
qed

text \<open>
  A failed provision leaves no droplet, or one that is tagged with the tag of its tier and so found by the next listing; a successful one
  leaves exactly the droplet it returns, tagged.
\<close>

theorem Provision_do_orphan_free:
  assumes "droplets_ok c held" "dg_client d = Some c"
  shows "orphan_free held (sp_Tag spec) w (Provision_do sha parseTime d spec w)"
proof -
  let ?img = "createImage (if trimSpace (sp_ImageID spec) \<noteq> '''' then sp_ImageID spec else cd_Image (dg_cfg d))"
  let ?data = "renderUserData_do sha (sp_UserData spec) (sp_AuthorizedKey spec)"
  show ?thesis
  proof (cases "is_err (validateSpec spec) \<or> is_err ?img \<or> is_err ?data")
    case True
    then show ?thesis using assms(2)
      by (auto simp: Provision_do_def configured_do_def bindR_def pureR_def wrapE_def is_err_iff orphan_free_def split: sum.splits)
  next
    case False
    then obtain u img userData where ok: "validateSpec spec = Inr u" "?img = Inr img" "?data = Inr userData"
      by (cases "validateSpec spec"; cases ?img; cases ?data) auto
    define req where "req = \<lparr>dq_Name = sp_Name spec, dq_Region = cd_Region (dg_cfg d), dq_Size = sp_InstanceType spec, dq_Image = img,
               dq_SSHKeys = cd_SSHKeyIDs (dg_cfg d), dq_UserData = userData, dq_Tags = [sp_Tag spec],
               dq_VPCUUID = cd_VPCUUID (dg_cfg d), dq_PublicNetworking = True\<rparr>"
    obtain r w1 where cr: "do_CreateDroplet c req w = (r, w1)" by fastforce
    have P: "Provision_do sha parseTime d spec w = bindR (viaClient ''digitalocean: create droplet'' (do_CreateDroplet c req)) (finishProvision_do parseTime d c spec) w"
      using assms(2) ok by (simp add: Provision_do_def configured_do_def bindR_def [of "pureR _"] pureR_def wrapE_def req_def)
    have C: "case r of Inl e \<Rightarrow> held w1 = held w | Inr x \<Rightarrow> held w (dr_ID x) = None \<and> held w1 = (held w)(dr_ID x \<mapsto> [sp_Tag spec])"
    proof -
      have tags: "dq_Tags req = [sp_Tag spec]" by (simp add: req_def)
      have "case r of Inl e \<Rightarrow> held w1 = held w | Inr x \<Rightarrow> held w (dr_ID x) = None \<and> held w1 = (held w)(dr_ID x \<mapsto> dq_Tags req)"
        using assms(1) cr unfolding droplets_ok_def by blast
      then show ?thesis unfolding tags .
    qed
    show ?thesis
    proof (cases r)
      case (Inl e)
      then show ?thesis using P cr C by (simp add: bindR_def viaClient_def orphan_free_def)
    next
      case (Inr x)
      then show ?thesis using P cr C finishProvision_do_ok [OF assms(1), of w x w1 spec parseTime d] by (simp add: bindR_def viaClient_def)
    qed
  qed
qed

subsection \<open>All pages are read\<close>

definition serves :: "(string \<Rightarrow> int \<Rightarrow> ('w, Droplet list \<times> Links) call) \<Rightarrow> string \<Rightarrow> Droplet list list \<Rightarrow> 'w \<Rightarrow> bool" where
  "serves api tag ps w \<longleftrightarrow>
     (\<forall>k < length ps. api tag (int k + 1) w = (Inr (ps ! k, if Suc k = length ps then LastPage else PageLink (Inr (int k + 1))), w))"

lemma pages_from:
  assumes "serves api tag ps w" "int (length ps) < max_int64"
  shows "k < length ps \<Longrightarrow> length ps - k \<le> n \<Longrightarrow>
    ListDropletsByTag api tag n (int k + 1) (concat (take k ps)) w = Some (Inr (concat ps), w)"
proof (induction n arbitrary: k)
  case (Suc n)
  have step: "concat (take k ps) @ ps ! k = concat (take (Suc k) ps)" using Suc.prems(1) by (simp add: take_Suc_conv_app_nth)
  have api: "api tag (int k + 1) w = (Inr (ps ! k, if Suc k = length ps then LastPage else PageLink (Inr (int k + 1))), w)"
    using assms(1) Suc.prems(1) by (simp add: serves_def)
  show ?case
  proof (cases "Suc k = length ps")
    case True
    then show ?thesis using api step by simp
  next
    case False
    have "wrap64 (int k + 1 + 1) = int (Suc k) + 1"
      using Suc.prems(1) assms(2) by (subst wrap64_id) (simp_all add: in_int64_def min_int64_def max_int64_def)
    moreover have "ListDropletsByTag api tag n (int (Suc k) + 1) (concat (take (Suc k) ps)) w = Some (Inr (concat ps), w)"
      using False Suc.prems by (intro Suc.IH) auto
    ultimately show ?thesis using api step False by simp
  qed
qed simp

text \<open>
  A listing reads every page: as many requests as there are pages give all droplets, in the order of the pages.
\<close>

theorem ListDropletsByTag_complete:
  assumes "serves api tag ps w" "int (length ps) < max_int64" "ps \<noteq> []" "length ps \<le> n"
  shows "ListDropletsByTag api tag n 1 [] w = Some (Inr (concat ps), w)"
  using pages_from [OF assms(1,2), of 0 n] assms(3,4) by simp

end
