(* ===== verification/Spec2Isabelle.thy ===== *)
theory Spec2Isabelle
  imports Teardown Retention Router_Pass Orch_Safety Orch_Operator Event_Bus Log_Bus Routed_Source Fleet Dispatch Acl Config_Load Linode_Firewall Job_Statistics Job_History Hetzner_Safety DigitalOcean
begin

text \<open>
  A verification development for fj-bellows, a daemon that runs Forgejo Actions jobs on machines it
  rents and destroys by itself.

  \<^bold>\<open>The program.\<close> A configuration (src/internal/config) names tiers, pools of one machine class each,
  and routes, labels whose jobs a router may place on several tiers. Per tier one orchestrator
  (src/internal/orchestrator) polls the tier's job queue, adopts and provisions machines, delivers
  jobs over SSH, resets or destroys machines by the billing model of the provider, and keeps golden
  images. The router (src/internal/router) prices every candidate tier for a waiting job and writes
  a durable decision; each orchestrator reads the decisions for its tier through the routed source.
  All of this is recorded in a SQLite ledger (src/internal/storage), from which a restart recovers.
  The control plane (src/internal/control) shows state, events and logs and passes operator actions
  to the fleet of orchestrators. Workers behind a gateway reach the operator's network through a
  tunnel whose proxy admits what an access-control list names (src/internal/transport).

  \<^bold>\<open>How code is modelled.\<close> A struct is a record, an enumeration a datatype, an error result a sum with
  the error on the left. \<open>int64\<close>, \<open>time.Duration\<close> and \<open>time.Time\<close> are integers; where arithmetic can
  overflow it is written with \<open>wrap64\<close> or \<open>sat64\<close> (theory FJB_Prelude). Functions of the ledger and
  the router pass their state explicitly (Effects). The orchestrator's methods are programs over a
  shared state, trees of atomic steps in which every critical section is one step and \<open>go\<close> is a
  \<open>Spawn\<close>; their interleavings are the step relation of Goroutines. Channels of the two buses live in
  a heap of buffers (Channels). Addresses of the access-control list are 32-bit and 128-bit words.

  \<^bold>\<open>Theories and sources.\<close>
  \<^item> Calendar, Billing: the UTC month and the two billing computations, persistence.go and score.go.
    They agree, they are the capped sum over the months touched, and they grow with time.
  \<^item> Pool, Teardown: state.go and teardown.go. The decision to destroy an idle machine, exactly in the
    last margin of a paid cycle, and its report agree.
  \<^item> Ledger_Types, Ledger_Store, Ledger_Accounting, Routing_Store, Retention: storage.go, schema.go,
    sqlite.go, jobs.go, accounting.go, routing.go, retention.go. Every statement has to keep the
    constraints of the schema, every transaction may fail at every statement. Activation is all or nothing,
    a completed job is final, costs are recorded once, one golden image is active, an assignment is frozen,
    pages of the history partition it, retention spares what recovery needs.
  \<^item> Accumulators, Cost_Reports, Routing_Effect, Job_Statistics: statistics.go, routing_statistics.go and
    dashboard.go. Reports group rows by a key (locales \<open>accumulator\<close> and \<open>additive_accumulator\<close>) and cut
    intervals at the report window and at midnights (locale \<open>interval_cuts\<close>, an instance of the
    \<open>segmentation\<close> of Billing). The totals of a report are exactly the selected ledger entries and projections, a
    projection is the amount the ledger seals later, every job is in one group with one outcome, and
    the queue shown agrees with what the tiers are handed.
  \<^item> Base64, Job_History: the textual cursor of the job history (jobs.go), decoded exactly as it was encoded,
    and the walk that follows the cursors to the end and sees every job of the filter once.
  \<^item> Labels, Router_Score, Router_Schedule, Router_Pass, Routed_Source: labels.go, score.go, schedule.go,
    router.go, source.go. A candidate is the cheapest allocation of its tier and fits, selection is
    optimal, promised workers and free slots are spent once over a whole pass, and a tier's queue shows
    an automatic job exactly when the ledger assigned it there.
  \<^item> External_Types, Orch_State, Orch_Ledger, Orch_Workers, Orch_Images, Orch_Reconcile, Orch_Control:
    types.go, provider.go, events.go, persistence.go, orchestrator.go, images.go, health.go, reload.go.
    Orch_Frame states what every operation leaves alone, as locales interpreted per operation;
    Orch_Counters, Orch_Safety and Orch_Operator build on it: counters return to zero and handles are
    served once in every interleaving, and single operations (teardown, pool
    synchronisation, reaping of runners, reload) do what they should when they run alone. Orch_Example
    is the concrete world the witnesses and the defective runs take place in.
  \<^item> Fleet: fleet.go on top of the orchestrators, each tier running on its own component of the state.
  \<^item> Dispatch: dispatch.go, dispatch_cachegw.go, exec.go. Commands reach the worker's shell as the
    intended words, a machine that presents another key than the pinned one is sent nothing, waiting for readiness ends.
  \<^item> Channels, Event_Bus, Log_Bus: events/bus.go, logbus/bus.go and handler.go. The locale \<open>fan_out\<close> is
    the contract of a bus and is interpreted for both; a subscriber that reads misses nothing.
  \<^item> Go_Strings, Acl: the packages strings and strconv as used, and transport/wg/acl. The parser's results are
    well formed and printed back, and what is routed into the tunnel is what the proxy may admit.
  \<^item> Config_Load: config.go, transport.go, redact.go. What loads is sound for the rest of the program,
    the plain label of a route is served by its candidates only, and redaction hides secrets.
  \<^item> Linode_Firewall: provider/linode/firewall.go and external_ip.go. The rendered rules accept the allowed
    networks within the caps of the API, and a refresh sets no other rules than such, on no other firewall.
  \<^item> Decimals: price texts. The parsers of pricing.go (Hetzner and DigitalOcean) give the exact amount, and where
    the first one overflows.
  \<^item> Hetzner_Labels, Hetzner_Client, Hetzner, Hetzner_Safety: provider/hetzner (labels.go, client.go,
    hcloud_client.go, hetzner.go, pricing.go, userdata.go). Labels identify the owner of a machine, a failed provision
    is retried or cleaned up, quotes cover the configured locations, an image build promotes a snapshot or
    leaves nothing behind.
  \<^item> DigitalOcean: provider/digitalocean (client.go, digitalocean.go, pricing.go, userdata.go). A failed provision
    leaves no orphan, listings read every page, quoted prices are exact.

  \<^bold>\<open>Parameters.\<close> Cloud providers, the Forgejo client, SSH, clocks, random names, the bootstrap template,
  SHA-256, YAML, JSON, URLs and the textual forms of addresses are arguments: the record \<open>Env\<close> of
  Orch_State, \<open>SSH\<close> of Dispatch, \<open>NetIP\<close> of Acl, \<open>ConfigEnv\<close> of Config_Load,
  \<open>FirewallAPI\<close> of Linode_Firewall, \<open>HCloud\<close> of Hetzner_Client, \<open>DOClient\<close> of DigitalOcean. Where a property needs
  something of them it is a hypothesis, with a witness at concrete functions.

  \<^bold>\<open>Bounds and fuel.\<close> The month loops of the billing code run on fuel that the length of the interval
  always provides. The readiness loop of the dispatcher runs on fuel; \<open>WaitReady_returns\<close> shows that the number
  of polls until the deadline is enough when the clock advances. The loops of the providers that wait for a machine run
  for the number of polls until their context is done, which is then their error result; loops over pages run
  on fuel, and \<open>ListDropletsByTag_complete\<close> gives the amount that reads all of them. The event loop of a tier runs forever and is
  the step relation; a wait for a machine, a job run or a deletion is a single step of a goroutine there, and nothing is
  claimed of how long it takes.

  \<^bold>\<open>Not modelled.\<close> Docker and, apart from its firewall, Linode, the packet-level transport (proxy, UDP and ICMP bridges, DNS
  responder, tunnel) and its boot sequence, the RPC handlers, dashboard and metrics, opening and migrating the database file, the worker agent, the bootstrap template, the
  command-line programs and generated code: input and output, text templates or conversions around
  the modelled operations. Contexts are not modelled: a call that is cut off is a call that returns an error.
\<close>

end
